(* ===== verification/Prelude.thy ===== *)
theory Prelude
  imports Main "HOL-Library.Word"
begin

text \<open>
  Prelude of the development: the Go vocabulary that every component uses.
  It holds the wrap-around of Go's 64-bit integers, the instants and durations of package
  \<open>time\<close>, the functions of package \<open>strings\<close> that the payment code calls, and the
  table operations (\<open>Get\<close>, conditional \<open>Update\<close>, \<open>Count\<close>) of the relational store.
  The lemmas on them are collected in \<open>go_simps\<close> (rewriting) and \<open>table_simps\<close>.
\<close>

named_theorems go_simps \<open>rewrite rules for the Go vocabulary\<close>
named_theorems table_simps \<open>rewrite rules for table operations\<close>

section \<open>Integers\<close>

text \<open>Go's \<open>int\<close> and \<open>int64\<close> are 64 bits wide and wrap: the two's complement reading of
  the low 64 bits.\<close>

definition wrap64 :: "int \<Rightarrow> int" where
  "wrap64 x = (x + 2 ^ 63) mod 2 ^ 64 - 2 ^ 63"

lemma wrap64_id [go_simps]: "- (2 ^ 63) \<le> x \<Longrightarrow> x < 2 ^ 63 \<Longrightarrow> wrap64 x = x"
  by (simp add: wrap64_def)

lemma wrap64_range: "- (2 ^ 63) \<le> wrap64 x \<and> wrap64 x < 2 ^ 63"
  using pos_mod_bound [of "2 ^ 64" "x + 2 ^ 63"] pos_mod_sign [of "2 ^ 64" "x + 2 ^ 63"]
  by (simp add: wrap64_def)

section \<open>Time\<close>

text \<open>An instant (\<open>time.Time\<close>) is the number of nanoseconds since the Unix epoch, a
  \<open>time.Duration\<close> a number of nanoseconds.\<close>

type_synonym instant = int
type_synonym duration = int

definition nsSecond :: duration where "nsSecond = 1000000000"
definition nsMinute :: duration where "nsMinute = 60000000000"
definition nsHour :: duration where "nsHour = 3600000000000"
definition nsDay :: duration where "nsDay = 86400000000000"

lemmas ns_defs = nsSecond_def nsMinute_def nsHour_def nsDay_def

text \<open>The zero value of \<open>time.Time\<close>, 0001-01-01 00:00:00 UTC.\<close>

definition zeroTime :: instant where
  "zeroTime = - 62135596800 * nsSecond"

text \<open>Calendar arithmetic in a location with a fixed offset \<open>z\<close> from UTC (in nanoseconds):
  \<open>t.AddDate(0, 0, n)\<close> moves the civil date by \<open>n\<close> days, \<open>startOfDay\<close> is the civil
  midnight before \<open>t\<close>, and \<open>t.Truncate(d)\<close> rounds down to a multiple of \<open>d\<close>.\<close>

definition addDays :: "instant \<Rightarrow> int \<Rightarrow> instant" where
  "addDays t n = t + n * nsDay"

definition dayStart :: "int \<Rightarrow> instant \<Rightarrow> instant" where
  "dayStart z t = (t + z) div nsDay * nsDay - z"

definition truncTo :: "duration \<Rightarrow> instant \<Rightarrow> instant" where
  "truncTo d t = t - t mod d"

lemma dayStart_le: "dayStart z t \<le> t"
proof -
  have "(t + z) div nsDay * nsDay \<le> t + z"
    using pos_mod_sign [of nsDay "t + z"] by (simp add: minus_mod_eq_div_mult [symmetric] nsDay_def)
  then show ?thesis by (simp add: dayStart_def)
qed

lemma dayStart_gt: "t - nsDay < dayStart z t"
proof -
  have "(t + z) - (t + z) div nsDay * nsDay < nsDay"
    using pos_mod_bound [of nsDay "t + z"] by (simp add: minus_div_mult_eq_mod nsDay_def)
  then show ?thesis by (simp add: dayStart_def)
qed

lemma addDays_mono: "m \<le> n \<Longrightarrow> addDays t m \<le> addDays t n"
  by (simp add: addDays_def nsDay_def)

lemma addDays_less: "0 < n \<Longrightarrow> t < addDays t n"
  by (simp add: addDays_def nsDay_def)

section \<open>Strings\<close>

text \<open>A Go string is a sequence of bytes, as is Isabelle's \<open>string\<close>. \<open>strings.TrimSpace\<close>
  is modelled on the ASCII white space it removes.\<close>

definition isSpace :: "char \<Rightarrow> bool" where
  "isSpace c \<longleftrightarrow> c \<in> {CHR '' '', CHR 0x09, CHR 0x0A, CHR 0x0B, CHR 0x0C, CHR 0x0D}"

definition trimSpace :: "string \<Rightarrow> string" where
  "trimSpace s = rev (dropWhile isSpace (rev (dropWhile isSpace s)))"

fun splitOn :: "char \<Rightarrow> string \<Rightarrow> string list" where
  "splitOn c [] = [[]]"
| "splitOn c (x # xs) =
     (if x = c then [] # splitOn c xs
      else (case splitOn c xs of [] \<Rightarrow> [[x]] | y # ys \<Rightarrow> (x # y) # ys))"

definition hasPrefix :: "string \<Rightarrow> string \<Rightarrow> bool" where
  "hasPrefix s p \<longleftrightarrow> take (length p) s = p"

definition trimPrefix :: "string \<Rightarrow> string \<Rightarrow> string" where
  "trimPrefix s p = (if hasPrefix s p then drop (length p) s else s)"

text \<open>\<open>strings.ToLower\<close> and \<open>strings.ToUpper\<close> on ASCII letters.\<close>

definition lowerChar :: "char \<Rightarrow> char" where
  "lowerChar c = (let n = of_char c :: nat in if 65 \<le> n \<and> n \<le> 90 then char_of (n + 32) else c)"

definition upperChar :: "char \<Rightarrow> char" where
  "upperChar c = (let n = of_char c :: nat in if 97 \<le> n \<and> n \<le> 122 then char_of (n - 32) else c)"

definition toLower :: "string \<Rightarrow> string" where
  "toLower s = map lowerChar s"

definition toUpper :: "string \<Rightarrow> string" where
  "toUpper s = map upperChar s"

definition hasSuffix :: "string \<Rightarrow> string \<Rightarrow> bool" where
  "hasSuffix s p \<longleftrightarrow> hasPrefix (rev s) (rev p)"

definition trimSuffix :: "string \<Rightarrow> string \<Rightarrow> string" where
  "trimSuffix s p = (if hasSuffix s p then take (length s - length p) s else s)"

text \<open>\<open>strings.Contains\<close>.\<close>

fun strContains :: "string \<Rightarrow> string \<Rightarrow> bool" where
  "strContains [] p \<longleftrightarrow> p = []"
| "strContains (c # s) p \<longleftrightarrow> hasPrefix (c # s) p \<or> strContains s p"

lemma dropWhile_idem: "dropWhile P (dropWhile P xs) = dropWhile P xs"
  by (induction xs) auto

lemma dropWhile_rev_dropWhile:
  "dropWhile P xs = xs \<Longrightarrow> dropWhile P (rev (dropWhile P (rev xs))) = rev (dropWhile P (rev xs))"
proof (cases "rev (dropWhile P (rev xs))")
  case Nil
  then show ?thesis by (simp only: dropWhile.simps)
next
  case (Cons y ys)
  assume eq: "dropWhile P xs = xs"
  obtain zs where zs: "xs = (y # ys) @ zs"
    using Cons by (metis takeWhile_dropWhile_id rev_append rev_rev_ident)
  with eq have "\<not> P y" using dropWhile_eq_self_iff [of P xs] by auto
  with Cons show ?thesis by simp
qed

lemma trimSpace_idem [go_simps]: "trimSpace (trimSpace s) = trimSpace s"
  by (simp add: trimSpace_def dropWhile_idem dropWhile_rev_dropWhile)

lemma splitOn_nonempty [simp]: "splitOn c s \<noteq> []"
  by (induction s) (auto split: list.splits)

lemma hasPrefix_append [go_simps]: "hasPrefix (p @ s) p"
  by (simp add: hasPrefix_def)

lemma trimPrefix_append [go_simps]: "trimPrefix (p @ s) p = s"
  by (simp add: trimPrefix_def go_simps)

text \<open>\<open>strconv.FormatInt(n, 10)\<close> and \<open>strconv.ParseInt(s, 10, 64)\<close>. The parser takes an
  optional sign and decimal digits and reports a range error outside 64 bits; \<open>None\<close> stands
  for its error result.\<close>

definition digitChar :: "nat \<Rightarrow> char" where
  "digitChar d = char_of (48 + d)"

fun natDigits :: "nat \<Rightarrow> string" where
  "natDigits n = (if n < 10 then [digitChar n] else natDigits (n div 10) @ [digitChar (n mod 10)])"

declare natDigits.simps [simp del]

definition formatInt :: "int \<Rightarrow> string" where
  "formatInt n = (if n < 0 then CHR ''-'' # natDigits (nat (- n)) else natDigits (nat n))"

definition digitVal :: "char \<Rightarrow> nat option" where
  "digitVal c = (let n = of_char c :: nat in if 48 \<le> n \<and> n \<le> 57 then Some (n - 48) else None)"

fun parseDigits :: "nat \<Rightarrow> string \<Rightarrow> nat option" where
  "parseDigits acc [] = Some acc"
| "parseDigits acc (c # cs) =
     (case digitVal c of None \<Rightarrow> None | Some d \<Rightarrow> parseDigits (10 * acc + d) cs)"

definition parseMagnitude :: "string \<Rightarrow> nat option" where
  "parseMagnitude s = (if s = [] then None else parseDigits 0 s)"

definition parseInt64 :: "string \<Rightarrow> int option" where
  "parseInt64 s =
     (let neg = (s \<noteq> [] \<and> hd s = CHR ''-'');
          body = (if s \<noteq> [] \<and> (hd s = CHR ''-'' \<or> hd s = CHR ''+'') then tl s else s)
      in case parseMagnitude body of
           None \<Rightarrow> None
         | Some m \<Rightarrow>
             (let v = (if neg then - int m else int m)
              in if - (2 ^ 63) \<le> v \<and> v < 2 ^ 63 then Some v else None))"

lemma digitVal_digitChar [simp]: "d < 10 \<Longrightarrow> digitVal (digitChar d) = Some d"
  by (simp add: digitVal_def digitChar_def Let_def)

lemma parseDigits_append:
  "parseDigits acc (xs @ ys) = (case parseDigits acc xs of None \<Rightarrow> None | Some a \<Rightarrow> parseDigits a ys)"
  by (induction acc xs rule: parseDigits.induct) (auto split: option.splits)

lemma parseDigits_natDigits: "parseDigits 0 (natDigits n) = Some n"
proof (induction n rule: natDigits.induct)
  case (1 n)
  show ?case
  proof (cases "n < 10")
    case True
    then show ?thesis by (subst natDigits.simps) simp
  next
    case False
    with "1.IH" have "parseDigits 0 (natDigits (n div 10)) = Some (n div 10)" by simp
    with False show ?thesis by (subst natDigits.simps) (simp add: parseDigits_append)
  qed
qed

lemma natDigits_nonempty [simp]: "natDigits n \<noteq> []"
  by (subst natDigits.simps) simp

lemma digitChar_not_sign: "d < 10 \<Longrightarrow> digitChar d \<noteq> CHR ''-'' \<and> digitChar d \<noteq> CHR ''+''"
proof
  assume "d < 10"
  then have v: "digitVal (digitChar d) = Some d" by simp
  then show "digitChar d \<noteq> CHR ''-''" by (auto simp: digitVal_def)
  from v show "digitChar d \<noteq> CHR ''+''" by (auto simp: digitVal_def)
qed

lemma hd_natDigits: "\<exists>d < 10. hd (natDigits n) = digitChar d"
proof (induction n rule: natDigits.induct)
  case (1 n)
  then show ?case
    by (cases "n < 10") (auto simp: natDigits.simps [of n])
qed

lemma parseInt64_formatInt [go_simps]:
  assumes "- (2 ^ 63) \<le> n" and "n < 2 ^ 63"
  shows "parseInt64 (formatInt n) = Some n"
proof (cases "n < 0")
  case True
  with assms show ?thesis
    by (simp add: parseInt64_def formatInt_def parseMagnitude_def parseDigits_natDigits)
next
  case False
  obtain d where "d < 10" "hd (natDigits (nat n)) = digitChar d" using hd_natDigits by blast
  with False assms show ?thesis
    by (simp add: parseInt64_def formatInt_def parseMagnitude_def parseDigits_natDigits
        digitChar_not_sign)
qed

lemma formatInt_inj: "formatInt m = formatInt n \<Longrightarrow> - (2 ^ 63) \<le> m \<Longrightarrow> m < 2 ^ 63 \<Longrightarrow>
    - (2 ^ 63) \<le> n \<Longrightarrow> n < 2 ^ 63 \<Longrightarrow> m = n"
  by (metis parseInt64_formatInt option.inject)

definition hexDigit :: "bool \<Rightarrow> nat \<Rightarrow> char" where
  "hexDigit up n = (if n < 10 then char_of (48 + n) else char_of ((if up then 55 else 87) + n))"

text \<open>\<open>hex.EncodeToString\<close>, in lower case or upper case.\<close>

definition hexEncode :: "bool \<Rightarrow> 8 word list \<Rightarrow> string" where
  "hexEncode up bs = concat (map (\<lambda>b. [hexDigit up (unat b div 16), hexDigit up (unat b mod 16)]) bs)"

lemma length_hexEncode: "length (hexEncode up bs) = 2 * length bs"
  by (induction bs) (simp_all add: hexEncode_def)

section \<open>Loops\<close>

text \<open>A loop that returns the first result there is.\<close>

fun firstSome :: "('a \<Rightarrow> 'b option) \<Rightarrow> 'a list \<Rightarrow> 'b option" where
  "firstSome f [] = None"
| "firstSome f (x # xs) = (case f x of Some y \<Rightarrow> Some y | None \<Rightarrow> firstSome f xs)"

section \<open>Tables\<close>

text \<open>A table is the list of its rows. \<open>tget\<close> is a query that expects at most one row
  (\<open>Only\<close>, \<open>Get\<close>), \<open>tupd p f\<close> the conditional update
  \<open>Update().Where(p).Set...(f)\<close>, and \<open>tcount p\<close> the number of rows it affects.\<close>

definition tget :: "('r \<Rightarrow> bool) \<Rightarrow> 'r list \<Rightarrow> 'r option" where
  "tget p rs = List.find p rs"

definition tupd :: "('r \<Rightarrow> bool) \<Rightarrow> ('r \<Rightarrow> 'r) \<Rightarrow> 'r list \<Rightarrow> 'r list" where
  "tupd p f rs = map (\<lambda>r. if p r then f r else r) rs"

definition tcount :: "('r \<Rightarrow> bool) \<Rightarrow> 'r list \<Rightarrow> nat" where
  "tcount p rs = length (filter p rs)"

lemma tget_Some: "tget p rs = Some r \<Longrightarrow> p r \<and> r \<in> set rs"
  by (auto simp: tget_def find_Some_iff)

lemma tget_None: "tget p rs = None \<longleftrightarrow> (\<forall>r \<in> set rs. \<not> p r)"
  by (auto simp: tget_def find_None_iff)

lemma tupd_Nil [table_simps]: "tupd p f [] = []"
  by (simp add: tupd_def)

lemma tupd_Cons [table_simps]: "tupd p f (r # rs) = (if p r then f r else r) # tupd p f rs"
  by (simp add: tupd_def)

lemma tcount_Nil [table_simps]: "tcount p [] = 0"
  by (simp add: tcount_def)

lemma tcount_Cons [table_simps]: "tcount p (r # rs) = (if p r then Suc (tcount p rs) else tcount p rs)"
  by (simp add: tcount_def)

lemma tget_Nil [table_simps]: "tget p [] = None"
  by (simp add: tget_def)

lemma tget_Cons [table_simps]: "tget p (r # rs) = (if p r then Some r else tget p rs)"
  by (simp add: tget_def)

lemma set_tupd: "set (tupd p f rs) = (\<lambda>r. if p r then f r else r) ` set rs"
  by (simp add: tupd_def)

lemma tcount_0: "tcount p rs = 0 \<longleftrightarrow> (\<forall>r \<in> set rs. \<not> p r)"
  by (simp add: tcount_def filter_empty_conv)

lemma tupd_none: "tcount p rs = 0 \<Longrightarrow> tupd p f rs = rs"
  by (induction rs) (auto simp: table_simps split: if_splits)

text \<open>An update that keeps the key column commutes with a lookup by key.\<close>

lemma tget_tupd_key:
  assumes "\<And>r. key (f r) = key r"
  shows "tget (\<lambda>r. key r = k) (tupd p f rs) =
    map_option (\<lambda>r. if p r then f r else r) (tget (\<lambda>r. key r = k) rs)"
  by (induction rs) (auto simp: table_simps assms)

lemma map_key_tupd:
  assumes "\<And>r. key (f r) = key r"
  shows "map key (tupd p f rs) = map key rs"
  by (induction rs) (auto simp: table_simps assms)

lemma tget_key_unique:
  assumes "distinct (map key rs)" and "r \<in> set rs"
  shows "tget (\<lambda>x. key x = key r) rs = Some r"
  using assms by (induction rs) (auto simp: table_simps)

lemma filter_key_none: "k \<notin> key ` set rs \<Longrightarrow> filter (\<lambda>x. key x = k) rs = []"
  by (induction rs) auto

lemma filter_key_unique:
  assumes "distinct (map key rs)" and "r \<in> set rs"
  shows "filter (\<lambda>x. key x = key r) rs = [r]"
  using assms by (induction rs) (auto simp: filter_key_none rev_image_eqI)

lemma tupd_cong_on: "(\<And>s. s \<in> set ss \<Longrightarrow> p s \<Longrightarrow> f s = g s) \<Longrightarrow> tupd p f ss = tupd p g ss"
  by (auto simp: tupd_def)

lemma tupd_key_cong:
  assumes "distinct (map key rs)" and "r \<in> set rs" and "f r = g r"
  shows "tupd (\<lambda>x. key x = key r) f rs = tupd (\<lambda>x. key x = key r) g rs"
proof (rule tupd_cong_on)
  fix s assume "s \<in> set rs" "key s = key r"
  then have "s = r" using inj_onD [of key "set rs" s r] assms(1,2) by (simp add: distinct_map)
  then show "f s = g s" using assms(3) by simp
qed

lemma tcount_key_tupd: "(\<And>s. key (f s) = key s) \<Longrightarrow> tcount (\<lambda>s. key s = i) (tupd (\<lambda>s. key s = i) f ss) = tcount (\<lambda>s. key s = i) ss"
  by (induction ss) (auto simp: table_simps)

lemma tupd_key_tupd: "(\<And>s. key (f s) = key s) \<Longrightarrow>
    tupd (\<lambda>s. key s = i) g (tupd (\<lambda>s. key s = i) f ss) = tupd (\<lambda>s. key s = i) (\<lambda>s. g (f s)) ss"
  by (induction ss) (auto simp: table_simps)

lemma tcount_key_pos: "r \<in> set rs \<Longrightarrow> 0 < tcount (\<lambda>x. key x = key r) rs"
  by (auto simp: tcount_0 zero_less_iff_neq_zero)

text \<open>A conditional update of the one row with a key.\<close>

lemma row_update:
  assumes d: "distinct (map key rs)" and r: "r \<in> set rs" "P r" and k: "\<And>s. key (f s) = key s"
  shows "distinct (map key (tupd (\<lambda>s. key s = key r \<and> P s) f rs))" "f r \<in> set (tupd (\<lambda>s. key s = key r \<and> P s) f rs)"
    "tget (\<lambda>s. key s = key r) (tupd (\<lambda>s. key s = key r \<and> P s) f rs) = Some (f r)" "tcount (\<lambda>s. key s = key r \<and> P s) rs \<noteq> 0"
proof -
  show "distinct (map key (tupd (\<lambda>s. key s = key r \<and> P s) f rs))" using d k by (simp add: map_key_tupd)
  show "f r \<in> set (tupd (\<lambda>s. key s = key r \<and> P s) f rs)" using r by (auto simp: set_tupd)
  show "tget (\<lambda>s. key s = key r) (tupd (\<lambda>s. key s = key r \<and> P s) f rs) = Some (f r)"
    using tget_key_unique [OF d r(1)] r(2) by (simp add: tget_tupd_key [where key = key and f = f] k)
  show "tcount (\<lambda>s. key s = key r \<and> P s) rs \<noteq> 0" using r by (auto simp: tcount_0)
qed

lemma natDigits_length: "n < 10 ^ k \<Longrightarrow> 0 < k \<Longrightarrow> length (natDigits n) \<le> k"
proof (induction n arbitrary: k rule: natDigits.induct)
  case (1 n)
  show ?case
  proof (cases "n < 10")
    case True
    then show ?thesis using "1.prems" by (subst natDigits.simps) simp
  next
    case False
    then have "k \<noteq> 1" using "1.prems" by auto
    then obtain j where j: "k = Suc j" "0 < j" using "1.prems" by (cases k) auto
    then have "n div 10 < 10 ^ j" using "1.prems" by (simp add: less_mult_imp_div_less mult.commute)
    with "1.IH" [OF False, of j] j have "length (natDigits (n div 10)) \<le> j" by simp
    with False j show ?thesis by (subst natDigits.simps) simp
  qed
qed

lemma natDigits_digits: "c \<in> set (natDigits n) \<Longrightarrow> \<exists>d < 10. c = digitChar d"
proof (induction n rule: natDigits.induct)
  case (1 n)
  show ?case
  proof (cases "n < 10")
    case True
    then have "c = digitChar n" using "1.prems" by (subst (asm) natDigits.simps) simp
    with True show ?thesis by blast
  next
    case False
    then have "c \<in> set (natDigits (n div 10)) \<or> c = digitChar (n mod 10)"
      using "1.prems" by (subst (asm) natDigits.simps) auto
    moreover have "n mod 10 < 10" by simp
    ultimately show ?thesis using "1.IH" [OF False] by blast
  qed
qed

lemma natDigits_inj: "natDigits m = natDigits n \<Longrightarrow> m = n"
  by (metis option.inject parseDigits_natDigits)

lemma digit_no_dash: "CHR ''-'' \<notin> set (natDigits n)"
  using natDigits_digits digitChar_not_sign by metis

lemma digitChar_not_space: "d < 10 \<Longrightarrow> \<not> isSpace (digitChar d)"
  using digitVal_digitChar [of d] by (auto simp: isSpace_def digitVal_def)

lemma trimSpace_ends: "s \<noteq> [] \<Longrightarrow> \<not> isSpace (hd s) \<Longrightarrow> \<not> isSpace (last s) \<Longrightarrow> trimSpace s = s"
proof -
  assume s: "s \<noteq> []" "\<not> isSpace (hd s)" "\<not> isSpace (last s)"
  have keep: "dropWhile isSpace t = t" if "t \<noteq> []" "\<not> isSpace (hd t)" for t using that by (cases t) auto
  have "dropWhile isSpace s = s" using s by (intro keep)
  moreover have "dropWhile isSpace (rev s) = rev s" using s by (intro keep) (simp_all add: hd_rev)
  ultimately show ?thesis by (simp add: trimSpace_def)
qed

end
