(* ===== verification/Errors.thy ===== *)
theory Errors
  imports Prelude
begin

text \<open>
  Errors as values: package \<open>internal/pkg/errors\<close> (the \<open>ApplicationError\<close> with its HTTP
  code, reason, message, metadata and cause), the wrapping of \<open>fmt.Errorf("...: %w", err)\<close> (\<open>ErrorfBefore\<close> if the
  text follows the error), the failures of the database driver, and run-time panics. \<open>errIs\<close> is \<open>errors.Is\<close> on the sentinel errors of the
  services, \<open>fromError\<close>, \<open>errCode\<close> and \<open>errReason\<close> the accessors the handlers use.
\<close>

datatype go_err =
    AppErr int string string "(string \<times> string) list" "go_err option"
  | Errorf string go_err
  | ErrorfBefore go_err string
  | ErrorNew string
  | ConnErr
  | GoPanic string

section \<open>Constructors\<close>

definition errNew :: "int \<Rightarrow> string \<Rightarrow> string \<Rightarrow> go_err" where
  "errNew c r m = AppErr c r m [] None"

definition BadRequest :: "string \<Rightarrow> string \<Rightarrow> go_err" where
  "BadRequest r m = errNew 400 r m"

definition Forbidden :: "string \<Rightarrow> string \<Rightarrow> go_err" where
  "Forbidden r m = errNew 403 r m"

definition NotFound :: "string \<Rightarrow> string \<Rightarrow> go_err" where
  "NotFound r m = errNew 404 r m"

definition Conflict :: "string \<Rightarrow> string \<Rightarrow> go_err" where
  "Conflict r m = errNew 409 r m"

definition TooManyRequests :: "string \<Rightarrow> string \<Rightarrow> go_err" where
  "TooManyRequests r m = errNew 429 r m"

definition InternalServer :: "string \<Rightarrow> string \<Rightarrow> go_err" where
  "InternalServer r m = errNew 500 r m"

definition ServiceUnavailable :: "string \<Rightarrow> string \<Rightarrow> go_err" where
  "ServiceUnavailable r m = errNew 503 r m"

lemmas err_defs = errNew_def BadRequest_def Forbidden_def NotFound_def Conflict_def
  TooManyRequests_def InternalServer_def ServiceUnavailable_def

fun withCause :: "go_err \<Rightarrow> go_err \<Rightarrow> go_err" where
  "withCause (AppErr c r m md cs) e = AppErr c r m md (Some e)"
| "withCause x e = x"

fun withMetadata :: "go_err \<Rightarrow> (string \<times> string) list \<Rightarrow> go_err" where
  "withMetadata (AppErr c r m md cs) md' = AppErr c r m md' cs"
| "withMetadata x md' = x"

section \<open>Text\<close>

text \<open>\<open>%q\<close> of a text without control characters.\<close>

fun escapeQuotes :: "string \<Rightarrow> string" where
  "escapeQuotes [] = []"
| "escapeQuotes (c # cs) = (if c = CHR 0x22 \<or> c = CHR 0x5C then [CHR 0x5C, c] else [c]) @ escapeQuotes cs"

definition goQuote :: "string \<Rightarrow> string" where
  "goQuote s = CHR 0x22 # escapeQuotes s @ [CHR 0x22]"

fun joinWith :: "string \<Rightarrow> string list \<Rightarrow> string" where
  "joinWith sep [] = []"
| "joinWith sep [s] = s"
| "joinWith sep (s # ss) = s @ sep @ joinWith sep ss"

text \<open>\<open>fmt\<close> lists a map in the order of its keys.\<close>

fun strLess :: "string \<Rightarrow> string \<Rightarrow> bool" where
  "strLess s [] = False"
| "strLess [] (b # t) = True"
| "strLess (a # s) (b # t) =
     (if a = b then strLess s t else (of_char a :: nat) < of_char b)"

fun insertEntry :: "string \<times> string \<Rightarrow> (string \<times> string) list \<Rightarrow> (string \<times> string) list" where
  "insertEntry e [] = [e]"
| "insertEntry e (f # fs) = (if strLess (fst f) (fst e) then f # insertEntry e fs else e # f # fs)"

definition sortEntries :: "(string \<times> string) list \<Rightarrow> (string \<times> string) list" where
  "sortEntries md = foldr insertEntry md []"

text \<open>\<open>err.Error()\<close>.\<close>

fun errText :: "go_err \<Rightarrow> string" where
  "errText (AppErr c r m md cs) =
     ''error: code='' @ formatInt c @ '' reason='' @ goQuote r @ '' message='' @ goQuote m @
     '' metadata=map['' @ joinWith '' '' (map (\<lambda>(k, v). k @ '':'' @ v) (sortEntries md)) @ '']'' @
     (case cs of None \<Rightarrow> [] | Some e \<Rightarrow> '' cause='' @ errText e)"
| "errText (Errorf s e) = s @ '': '' @ errText e"
| "errText (ErrorfBefore e s) = errText e @ s"
| "errText (ErrorNew s) = s"
| "errText ConnErr = ''driver: bad connection''"
| "errText (GoPanic s) = s"

section \<open>Inspection\<close>

fun errIs :: "go_err \<Rightarrow> go_err \<Rightarrow> bool" where
  "errIs (AppErr c r m md cs) t =
     ((case t of AppErr c' r' _ _ _ \<Rightarrow> c' = c \<and> r' = r | _ \<Rightarrow> False) \<or>
      (case cs of None \<Rightarrow> False | Some e \<Rightarrow> errIs e t))"
| "errIs (Errorf s e) t = errIs e t"
| "errIs (ErrorfBefore e s) t = errIs e t"
| "errIs (ErrorNew s) t = False"
| "errIs ConnErr t = False"
| "errIs (GoPanic s) t = False"

text \<open>\<open>errors.As\<close> to an application error: the first one of the chain.\<close>

fun asApp :: "go_err \<Rightarrow> go_err option" where
  "asApp (AppErr c r m md cs) = Some (AppErr c r m md cs)"
| "asApp (Errorf s e) = asApp e"
| "asApp (ErrorfBefore e s) = asApp e"
| "asApp (ErrorNew s) = None"
| "asApp ConnErr = None"
| "asApp (GoPanic s) = None"

definition fromError :: "go_err \<Rightarrow> go_err" where
  "fromError e = (case asApp e of Some a \<Rightarrow> a
     | None \<Rightarrow> withCause (errNew 500 '''' ''internal error'') e)"

definition errCode :: "go_err option \<Rightarrow> int" where
  "errCode eo = (case eo of None \<Rightarrow> 200
     | Some e \<Rightarrow> (case fromError e of AppErr c _ _ _ _ \<Rightarrow> c | _ \<Rightarrow> 500))"

definition errReason :: "go_err option \<Rightarrow> string" where
  "errReason eo = (case eo of None \<Rightarrow> ''''
     | Some e \<Rightarrow> (case fromError e of AppErr _ r _ _ _ \<Rightarrow> r | _ \<Rightarrow> ''''))"

fun errMetadata :: "go_err \<Rightarrow> (string \<times> string) list" where
  "errMetadata (AppErr c r m md cs) = md"
| "errMetadata e = []"

section \<open>Lemmas\<close>

lemma errIs_self: "errIs (errNew c r m) (errNew c r m)"
  by (simp add: errNew_def)

lemma errIs_withCause: "errIs (withCause (errNew c r m) e) (errNew c r m)"
  by (simp add: errNew_def)

lemma errIs_withMetadata: "errIs (withMetadata (errNew c r m) md) (errNew c r m)"
  by (simp add: errNew_def)

lemma errIs_errNew: "errIs (errNew c r m) (errNew c' r' m') \<longleftrightarrow> c' = c \<and> r' = r"
  by (auto simp: errNew_def)

lemma fromError_AppErr: "\<exists>c r m md cs. fromError e = AppErr c r m md cs"
proof (cases "asApp e")
  case None
  then show ?thesis by (simp add: fromError_def errNew_def)
next
  case (Some a)
  then have "\<exists>c r m md cs. a = AppErr c r m md cs"
    by (induction e rule: asApp.induct) auto
  with Some show ?thesis by (simp add: fromError_def)
qed

text \<open>Wrapping with \<open>%w\<close> keeps the HTTP code and the reason a handler reports.\<close>

lemma errCode_Errorf [simp]: "errCode (Some (Errorf s e)) = (if asApp e = None then 500 else errCode (Some e))"
  by (auto simp: errCode_def fromError_def errNew_def split: option.splits)

end
