(* ===== verification/World.thy ===== *)
theory World
  imports Errors "HOL-Library.State_Monad"
begin

text \<open>
  The world a service runs in. Go code that talks to PostgreSQL or Redis is a state-monad
  program over a \<open>world\<close>: the shared store, the clock, and a \<open>script\<close> that says, for every
  statement the program sends, what other processes do to the store just before it
  (\<open>interfere\<close>) and how the statement ends (\<open>outcome\<close>): acknowledged, lost before it took
  effect, or applied although the driver reports an error. An empty script is a run with no
  interference and no failure.

  The second half of the theory is a small rely-guarantee logic. \<open>rg R P m Q\<close> says that, if all
  interference satisfies the relation \<open>R\<close>, then program \<open>m\<close> started in a store with \<open>P\<close>
  changes the store only along \<open>R\<close> and ends with \<open>Q\<close> of its result and store, whatever
  fails on the way. Its rules are proved once, in the locale \<open>rely_guarantee\<close>, and reach every reflexive and
  transitive \<open>R\<close> through its sublocale \<open>protocol\<close>.
\<close>

text \<open>\<open>Lost k\<close>: the \<open>k\<close>-th round trip failed before it took effect. A single statement has
  one round trip; a transaction has one for \<open>BEGIN\<close>, one per statement and one for \<open>COMMIT\<close>, and
  is rolled back. \<open>Unack\<close>: everything was applied, but the last answer never arrived.\<close>

datatype outcome = Done | Lost nat | Unack

datatype 'd turn = Turn (interfere: "'d \<Rightarrow> 'd") (outcome: outcome)

record 'd world =
  db :: 'd
  clock :: instant
  ticks :: "nat list"
  script :: "'d turn list"

type_synonym ('d, 'a) prog = "('d world, 'a) state"
type_synonym ('d, 'a) eprog = "('d world, go_err + 'a) state"

abbreviation ret :: "'a \<Rightarrow> ('d, 'a) prog" where
  "ret \<equiv> State_Monad.return"

section \<open>Primitives\<close>

text \<open>\<open>time.Now()\<close>: the clock never goes back, and may advance between two readings.\<close>

definition timeNow :: "('d, instant) prog" where
  "timeNow = State (\<lambda>w. case ticks w of
       [] \<Rightarrow> (clock w, w)
     | k # ks \<Rightarrow> (clock w + int k, w\<lparr>clock := clock w + int k, ticks := ks\<rparr>))"

text \<open>One statement sent to the store: its result, and the store it leaves.\<close>

definition exec :: "('d \<Rightarrow> (go_err + 'a) \<times> 'd) \<Rightarrow> ('d, 'a) eprog" where
  "exec f = State (\<lambda>w. case script w of
       [] \<Rightarrow> (let (r, d) = f (db w) in (r, w\<lparr>db := d\<rparr>))
     | t # ts \<Rightarrow>
         (let d0 = interfere t (db w); w0 = w\<lparr>script := ts\<rparr>
          in case outcome t of
               Done \<Rightarrow> (let (r, d) = f d0 in (r, w0\<lparr>db := d\<rparr>))
             | Lost k \<Rightarrow> (Inl ConnErr, w0\<lparr>db := d0\<rparr>)
             | Unack \<Rightarrow> (Inl ConnErr, w0\<lparr>db := snd (f d0)\<rparr>)))"

definition query :: "('d \<Rightarrow> 'a) \<Rightarrow> ('d, 'a) eprog" where
  "query f = exec (\<lambda>d. (Inr (f d), d))"

text \<open>A database transaction: the statements in order, each with the wrapping the code gives its
  error. The transaction is atomic for other processes. \<open>runSteps\<close> stops at the first statement
  that fails, by itself or because its round trip is the lost one.\<close>

type_synonym 'd step = "(go_err \<Rightarrow> go_err) \<times> ('d \<Rightarrow> (go_err + unit) \<times> 'd)"

fun runSteps :: "nat option \<Rightarrow> 'd step list \<Rightarrow> 'd \<Rightarrow> go_err + 'd" where
  "runSteps k [] d = Inr d"
| "runSteps k ((h, f) # ss) d =
     (if k = Some 0 then Inl (h ConnErr)
      else case f d of
             (Inl e, _) \<Rightarrow> Inl (h e)
           | (Inr u, d') \<Rightarrow> runSteps (map_option (\<lambda>n. n - 1) k) ss d')"

definition transact :: "(go_err \<Rightarrow> go_err) \<Rightarrow> (go_err \<Rightarrow> go_err) \<Rightarrow> 'd step list \<Rightarrow> ('d, unit) eprog" where
  "transact hbegin hcommit ss = State (\<lambda>w. case script w of
       [] \<Rightarrow> (case runSteps None ss (db w) of Inl e \<Rightarrow> (Inl e, w) | Inr d \<Rightarrow> (Inr (), w\<lparr>db := d\<rparr>))
     | t # ts \<Rightarrow>
         (let d0 = interfere t (db w); w0 = w\<lparr>script := ts, db := d0\<rparr>
          in case outcome t of
               Done \<Rightarrow> (case runSteps None ss d0 of Inl e \<Rightarrow> (Inl e, w0) | Inr d \<Rightarrow> (Inr (), w0\<lparr>db := d\<rparr>))
             | Lost 0 \<Rightarrow> (Inl (hbegin ConnErr), w0)
             | Lost (Suc k) \<Rightarrow> (case runSteps (Some k) ss d0 of
                   Inl e \<Rightarrow> (Inl e, w0) | Inr d \<Rightarrow> (Inl (hcommit ConnErr), w0))
             | Unack \<Rightarrow> (case runSteps None ss d0 of
                   Inl e \<Rightarrow> (Inl e, w0) | Inr d \<Rightarrow> (Inl (hcommit ConnErr), w0\<lparr>db := d\<rparr>))))"

text \<open>Statements sent in a transaction that stays open while the program goes on: their errors are seen,
  their effects only when a later \<open>transact\<close> commits them.\<close>

definition inTx :: "(go_err \<Rightarrow> go_err) \<Rightarrow> 'd step list \<Rightarrow> ('d, unit) eprog" where
  "inTx hbegin ss = State (\<lambda>w.
     let send = (\<lambda>k d. map_sum id (\<lambda>_. ()) (runSteps k ss d))
     in case script w of
          [] \<Rightarrow> (send None (db w), w)
        | t # ts \<Rightarrow>
            (let d0 = interfere t (db w)
             in (case outcome t of
                   Done \<Rightarrow> send None d0
                 | Lost 0 \<Rightarrow> Inl (hbegin ConnErr)
                 | Lost (Suc k) \<Rightarrow> send (Some k) d0
                 | Unack \<Rightarrow> send (Some (length ss - 1)) d0,
                 w\<lparr>script := ts, db := d0\<rparr>)))"

text \<open>State that lives in the process or is changed without a statement that can fail.\<close>

definition peek :: "('d \<Rightarrow> 'a) \<Rightarrow> ('d, 'a) prog" where
  "peek f = State (\<lambda>w. (f (db w), w))"

definition modify :: "('d \<Rightarrow> 'd) \<Rightarrow> ('d, unit) prog" where
  "modify f = State (\<lambda>w. ((), w\<lparr>db := f (db w)\<rparr>))"

text \<open>\<open>x, err := m; if err != nil { return h(err) }\<close>\<close>

definition bindE :: "('d, 'a) eprog \<Rightarrow> (go_err \<Rightarrow> go_err) \<Rightarrow> ('a \<Rightarrow> ('d, 'b) eprog) \<Rightarrow> ('d, 'b) eprog" where
  "bindE m h k = do { r \<leftarrow> m; case r of Inl e \<Rightarrow> ret (Inl (h e)) | Inr a \<Rightarrow> k a }"

section \<open>Running\<close>

definition quiet :: "'d world \<Rightarrow> bool" where
  "quiet w \<longleftrightarrow> script w = []"

lemma run_exec_quiet:
  "script w = [] \<Longrightarrow> run_state (exec f) w = (fst (f (db w)), w\<lparr>db := snd (f (db w))\<rparr>)"
  by (simp add: exec_def split_def Let_def)

lemma run_query_quiet:
  "script w = [] \<Longrightarrow> run_state (query f) w = (Inr (f (db w)), w)"
  by (simp add: query_def run_exec_quiet)

lemma run_transact_quiet:
  "script w = [] \<Longrightarrow> run_state (transact hb hc ss) w =
     (case runSteps None ss (db w) of Inl e \<Rightarrow> (Inl e, w) | Inr d \<Rightarrow> (Inr (), w\<lparr>db := d\<rparr>))"
  by (simp add: transact_def split: sum.splits)

lemma run_inTx_quiet:
  "script w = [] \<Longrightarrow> run_state (inTx hb ss) w = (map_sum id (\<lambda>_. ()) (runSteps None ss (db w)), w)"
  by (simp add: inTx_def)

lemma run_peek [simp]: "run_state (peek f) w = (f (db w), w)"
  by (simp add: peek_def)

lemma run_modify [simp]: "run_state (modify f) w = ((), w\<lparr>db := f (db w)\<rparr>)"
  by (simp add: modify_def)

lemma run_bindE:
  "run_state (bindE m h k) w =
     (case run_state m w of (Inl e, w') \<Rightarrow> (Inl (h e), w') | (Inr a, w') \<Rightarrow> run_state (k a) w')"
  by (simp add: bindE_def split: prod.splits sum.splits)

lemma run_timeNow_still: "ticks w = [] \<Longrightarrow> run_state timeNow w = (clock w, w)"
  by (simp add: timeNow_def)

text \<open>The equations that run a program in a quiet world whose clock stands still.\<close>

lemmas run_simps = run_exec_quiet run_transact_quiet run_inTx_quiet run_query_quiet run_bindE run_timeNow_still

section \<open>Rely and guarantee\<close>

definition relies :: "('d \<Rightarrow> 'd \<Rightarrow> bool) \<Rightarrow> 'd world \<Rightarrow> bool" where
  "relies R w \<longleftrightarrow> (\<forall>t \<in> set (script w). \<forall>d. R d (interfere t d))"

text \<open>\<open>rgx R G P m Q\<close> keeps apart what others do (\<open>R\<close>, the rely) and what happens in all (\<open>G\<close>); a process that
  holds a lock relies on more than it guarantees. Mostly the two are one protocol.\<close>

definition rgx :: "('d \<Rightarrow> 'd \<Rightarrow> bool) \<Rightarrow> ('d \<Rightarrow> 'd \<Rightarrow> bool) \<Rightarrow> ('d \<Rightarrow> bool) \<Rightarrow> ('d, 'a) prog \<Rightarrow> ('a \<Rightarrow> 'd \<Rightarrow> bool) \<Rightarrow> bool" where
  "rgx R G P m Q \<longleftrightarrow> (\<forall>w a w'. relies R w \<longrightarrow> P (db w) \<longrightarrow> run_state m w = (a, w') \<longrightarrow>
     G (db w) (db w') \<and> Q a (db w') \<and> relies R w')"

abbreviation rg :: "('d \<Rightarrow> 'd \<Rightarrow> bool) \<Rightarrow> ('d \<Rightarrow> bool) \<Rightarrow> ('d, 'a) prog \<Rightarrow> ('a \<Rightarrow> 'd \<Rightarrow> bool) \<Rightarrow> bool" where
  "rg R \<equiv> rgx R R"

abbreviation guar :: "('d \<Rightarrow> 'd \<Rightarrow> bool) \<Rightarrow> ('d, 'a) prog \<Rightarrow> bool" where
  "guar R m \<equiv> rg R (\<lambda>_. True) m (\<lambda>_ _. True)"

definition stable :: "('d \<Rightarrow> 'd \<Rightarrow> bool) \<Rightarrow> ('d \<Rightarrow> bool) \<Rightarrow> bool" where
  "stable R P \<longleftrightarrow> (\<forall>d d'. P d \<longrightarrow> R d d' \<longrightarrow> P d')"

lemma stable_True [simp]: "stable R (\<lambda>_. True)"
  by (simp add: stable_def)

lemma rgD: "rgx R G P m Q \<Longrightarrow> relies R w \<Longrightarrow> P (db w) \<Longrightarrow> run_state m w = (a, w') \<Longrightarrow>
    G (db w) (db w') \<and> Q a (db w')"
  by (auto simp: rgx_def)

lemma rg_weaken: "rgx R G P' m Q' \<Longrightarrow> (\<And>d. P d \<Longrightarrow> P' d) \<Longrightarrow> (\<And>a d. Q' a d \<Longrightarrow> Q a d) \<Longrightarrow> rgx R G P m Q"
  unfolding rgx_def by blast

text \<open>Two protocols at once.\<close>

lemma relies_conj: "relies (\<lambda>d d'. R d d' \<and> S d d') w \<longleftrightarrow> relies R w \<and> relies S w"
  by (auto simp: relies_def)

lemma rg_conj:
  assumes "rg R P m Q" and "rg S P' m Q'"
  shows "rg (\<lambda>d d'. R d d' \<and> S d d') (\<lambda>d. P d \<and> P' d) m (\<lambda>a d. Q a d \<and> Q' a d)"
  using assms unfolding rgx_def relies_conj by blast

lemma rg_bind:
  assumes tr: "\<And>a b c. G a b \<Longrightarrow> G b c \<Longrightarrow> G a c"
    and m: "rgx R G P m Q" and f: "\<And>a. rgx R G (Q a) (f a) S"
  shows "rgx R G P (State_Monad.bind m f) S"
proof (unfold rgx_def, intro allI impI)
  fix w a w'
  assume w: "relies R w" "P (db w)" and r: "run_state (State_Monad.bind m f) w = (a, w')"
  obtain b w1 where b: "run_state m w = (b, w1)" by fastforce
  then have 1: "G (db w) (db w1)" "Q b (db w1)" "relies R w1" using m w by (auto simp: rgx_def)
  from r b have "run_state (f b) w1 = (a, w')" by simp
  then have 2: "G (db w1) (db w')" "S a (db w')" "relies R w'" using f [of b] 1 by (auto simp: rgx_def)
  from 2 tr [OF 1(1) 2(1)] show "G (db w) (db w') \<and> S a (db w') \<and> relies R w'" by simp
qed

locale rely_guarantee =
  fixes R G :: "'d \<Rightarrow> 'd \<Rightarrow> bool"
  assumes G_refl: "G d d"
    and G_trans: "G a b \<Longrightarrow> G b c \<Longrightarrow> G a c"
    and R_le_G: "R a b \<Longrightarrow> G a b"
begin

lemma rg_ret: "(\<And>d. P d \<Longrightarrow> Q a d) \<Longrightarrow> rgx R G P (ret a) Q"
  by (auto simp: rgx_def G_refl)

lemma rg_seq: "rgx R G P m Q \<Longrightarrow> (\<And>a. rgx R G (Q a) (f a) S) \<Longrightarrow> rgx R G P (State_Monad.bind m f) S"
  by (rule rg_bind) (auto intro: G_trans)

lemma rg_timeNow: "rgx R G P timeNow (\<lambda>_. P)"
  by (auto simp: rgx_def timeNow_def G_refl relies_def split: list.splits)

lemma rg_peek: "(\<And>d. P d \<Longrightarrow> Q (f d) d) \<Longrightarrow> rgx R G P (peek f) Q"
  by (auto simp: rgx_def G_refl)

lemma rg_modify: "(\<And>d. P d \<Longrightarrow> G d (f d) \<and> Q () (f d)) \<Longrightarrow> rgx R G P (modify f) Q"
  by (auto simp: rgx_def relies_def)

text \<open>A statement: the precondition must survive interference, and the statement itself must
  follow the protocol and establish the postcondition, also where the driver reports an error.\<close>

lemma rg_exec:
  assumes st: "stable R P"
    and ok: "\<And>d. P d \<Longrightarrow> G d (snd (f d)) \<and> Q (fst (f d)) (snd (f d)) \<and> Q (Inl ConnErr) (snd (f d))"
    and lost: "\<And>d. P d \<Longrightarrow> Q (Inl ConnErr) d"
  shows "rgx R G P (exec f) Q"
proof (unfold rgx_def, intro allI impI)
  fix w a w'
  assume w: "relies R w" "P (db w)" and r: "run_state (exec f) w = (a, w')"
  show "G (db w) (db w') \<and> Q a (db w') \<and> relies R w'"
  proof (cases "script w")
    case Nil
    with r w ok show ?thesis by (auto simp: exec_def Let_def split_def relies_def)
  next
    case (Cons t ts)
    let ?d = "interfere t (db w)"
    have R0: "R (db w) ?d" using w Cons by (auto simp: relies_def)
    then have P: "P ?d" using st w by (auto simp: stable_def)
    have R: "G (db w) ?d" using R0 by (rule R_le_G)
    have w': "relies R w'" using w(1) r Cons
      by (auto simp: exec_def Let_def split_def relies_def split: outcome.splits)
    show ?thesis
    proof (cases "outcome t")
      case Done
      then have "w' = w\<lparr>script := ts, db := snd (f ?d)\<rparr>" "a = fst (f ?d)"
        using r Cons by (auto simp: exec_def Let_def split_def)
      then show ?thesis using ok [OF P] w' G_trans [OF R] by simp
    next
      case (Lost k)
      then have "w' = w\<lparr>script := ts, db := ?d\<rparr>" "a = Inl ConnErr"
        using r Cons by (auto simp: exec_def Let_def)
      then show ?thesis using lost [OF P] w' R by simp
    next
      case Unack
      then have "w' = w\<lparr>script := ts, db := snd (f ?d)\<rparr>" "a = Inl ConnErr"
        using r Cons by (auto simp: exec_def Let_def)
      then show ?thesis using ok [OF P] w' G_trans [OF R] by simp
    qed
  qed
qed

lemma rg_query:
  assumes "stable R P" and "\<And>d. P d \<Longrightarrow> Q (Inr (f d)) d \<and> Q (Inl ConnErr) d"
  shows "rgx R G P (query f) Q"
  unfolding query_def using assms by (intro rg_exec) (auto simp: G_refl)

lemma relies_Cons: "relies R w \<Longrightarrow> script w = t # ts \<Longrightarrow> relies R (w\<lparr>script := ts, db := d\<rparr>)"
  by (simp add: relies_def)

text \<open>A transaction commits one step of the protocol or leaves no trace.\<close>

lemma rg_transact:
  assumes st: "stable R P"
    and ok: "\<And>d d'. P d \<Longrightarrow> runSteps None ss d = Inr d' \<Longrightarrow> G d d' \<and> Q (Inr ()) d' \<and> (\<forall>e. Q (Inl e) d')"
    and fail: "\<And>d e. P d \<Longrightarrow> Q (Inl e) d"
  shows "rgx R G P (transact hb hc ss) Q"
proof (unfold rgx_def, intro allI impI)
  fix w a w'
  assume w: "relies R w" "P (db w)" and r: "run_state (transact hb hc ss) w = (a, w')"
  show "G (db w) (db w') \<and> Q a (db w') \<and> relies R w'"
  proof (cases "script w")
    case Nil
    with r w ok fail G_refl show ?thesis
      by (auto simp: transact_def relies_def split: sum.splits)
  next
    case (Cons t ts)
    let ?d = "interfere t (db w)" and ?w = "w\<lparr>script := ts, db := interfere t (db w)\<rparr>"
    have R0: "R (db w) ?d" using w Cons by (auto simp: relies_def)
    then have P: "P ?d" using st w by (auto simp: stable_def)
    have R: "G (db w) ?d" using R0 by (rule R_le_G)
    have "(\<exists>e. a = Inl e \<and> w' = ?w) \<or>
        (\<exists>d. runSteps None ss ?d = Inr d \<and> w' = ?w\<lparr>db := d\<rparr> \<and> (a = Inr () \<or> (\<exists>e. a = Inl e)))"
      using r Cons by (auto simp: transact_def Let_def split: sum.splits outcome.splits nat.splits)
    then show ?thesis
    proof (elim disjE exE conjE)
      fix e assume "a = Inl e" "w' = ?w"
      then show ?thesis using fail [OF P] R relies_Cons [OF w(1) Cons] by simp
    next
      fix d assume d: "runSteps None ss ?d = Inr d" "w' = ?w\<lparr>db := d\<rparr>" "a = Inr ()"
      then show ?thesis using ok [OF P d(1)] G_trans [OF R] relies_Cons [OF w(1) Cons] by simp
    next
      fix d e assume d: "runSteps None ss ?d = Inr d" "w' = ?w\<lparr>db := d\<rparr>" "a = Inl e"
      then show ?thesis using ok [OF P d(1)] G_trans [OF R] relies_Cons [OF w(1) Cons] by simp
    qed
  qed
qed

lemma rg_inTx:
  assumes st: "stable R P" and Q: "\<And>d r. P d \<Longrightarrow> Q r d"
  shows "rgx R G P (inTx hb ss) Q"
proof (unfold rgx_def, intro allI impI)
  fix w a w'
  assume w: "relies R w" "P (db w)" and r: "run_state (inTx hb ss) w = (a, w')"
  show "G (db w) (db w') \<and> Q a (db w') \<and> relies R w'"
  proof (cases "script w")
    case Nil
    with r w Q G_refl show ?thesis by (auto simp: inTx_def)
  next
    case (Cons t ts)
    then have "w' = w\<lparr>script := ts, db := interfere t (db w)\<rparr>" using r by (auto simp: inTx_def Let_def)
    then show ?thesis using w Cons Q st R_le_G by (auto simp: relies_def stable_def)
  qed
qed

lemma rg_bindE:
  assumes "rgx R G P m Q" and "\<And>a. rgx R G (Q (Inr a)) (k a) S"
    and "\<And>e d. Q (Inl e) d \<Longrightarrow> S (Inl (h e)) d"
  shows "rgx R G P (bindE m h k) S"
  unfolding bindE_def
proof (rule rg_seq [OF assms(1)])
  fix r show "rgx R G (Q r) (case r of Inl e \<Rightarrow> ret (Inl (h e)) | Inr a \<Rightarrow> k a) S"
    by (cases r) (auto intro: assms rg_ret)
qed

end

locale protocol =
  fixes R :: "'d \<Rightarrow> 'd \<Rightarrow> bool"
  assumes R_refl: "R d d"
    and R_trans: "R a b \<Longrightarrow> R b c \<Longrightarrow> R a c"

sublocale protocol \<subseteq> rely_guarantee R R
  by unfold_locales (auto intro: R_refl R_trans)

lemma protocol_rg: "protocol R \<Longrightarrow> rely_guarantee R R"
  by (simp add: protocol_def rely_guarantee_def)

context protocol
begin

text \<open>The pure guarantee: every statement of the program follows the protocol.\<close>

lemma guar_ret: "guar R (ret a)"
  by (rule rg_ret) simp

lemma guar_bind: "guar R m \<Longrightarrow> (\<And>a. guar R (f a)) \<Longrightarrow> guar R (State_Monad.bind m f)"
  by (rule rg_seq)

lemma guar_timeNow: "guar R timeNow"
  by (rule rg_timeNow)

lemma guar_peek: "guar R (peek f)"
  by (rule rg_peek) simp

lemma guar_modify: "(\<And>d. R d (f d)) \<Longrightarrow> guar R (modify f)"
  by (rule rg_modify) simp

lemma guar_exec: "(\<And>d. R d (snd (f d))) \<Longrightarrow> guar R (exec f)"
  by (rule rg_exec) auto

lemma guar_query: "guar R (query f)"
  by (rule rg_query) auto

lemma guar_transact: "(\<And>d d'. runSteps None ss d = Inr d' \<Longrightarrow> R d d') \<Longrightarrow> guar R (transact hb hc ss)"
  by (rule rg_transact) auto

lemma guar_inTx: "guar R (inTx hb ss)"
  by (rule rg_inTx) auto

lemma guar_bindE: "guar R m \<Longrightarrow> (\<And>a. guar R (k a)) \<Longrightarrow> guar R (bindE m h k)"
  by (rule rg_bindE) auto

lemma guar_if: "(b \<Longrightarrow> guar R m) \<Longrightarrow> (\<not> b \<Longrightarrow> guar R n) \<Longrightarrow> guar R (if b then m else n)"
  by simp

lemma guar_case_sum: "(\<And>e. r = Inl e \<Longrightarrow> guar R (f e)) \<Longrightarrow> (\<And>a. r = Inr a \<Longrightarrow> guar R (g a)) \<Longrightarrow>
    guar R (case r of Inl e \<Rightarrow> f e | Inr a \<Rightarrow> g a)"
  by (cases r) auto

lemma guar_case_option: "(r = None \<Longrightarrow> guar R m) \<Longrightarrow> (\<And>a. r = Some a \<Longrightarrow> guar R (g a)) \<Longrightarrow>
    guar R (case r of None \<Rightarrow> m | Some a \<Rightarrow> g a)"
  by (cases r) auto

lemma guar_case_prod: "(\<And>a b. guar R (f a b)) \<Longrightarrow> guar R (case p of (a, b) \<Rightarrow> f a b)"
  by (cases p) auto

lemma guar_let: "(\<And>x. x = e \<Longrightarrow> guar R (f x)) \<Longrightarrow> guar R (let x = e in f x)"
  by simp

text \<open>A transaction whose statements each follow the protocol follows it.\<close>

lemma steps_R:
  "(\<And>st d. st \<in> set ss \<Longrightarrow> R d (snd (snd st d))) \<Longrightarrow> runSteps k ss d = Inr d' \<Longrightarrow> R d d'"
proof (induction k ss d rule: runSteps.induct)
  case (2 k h f ss d)
  then obtain u d1 where f: "f d = (Inr u, d1)" and r: "runSteps (map_option (\<lambda>n. n - 1) k) ss d1 = Inr d'"
    and k: "k \<noteq> Some 0"
    by (auto split: if_splits prod.splits sum.splits)
  have "R d d1" using 2(2) [of "(h, f)" d] f by simp
  moreover have "R d1 d'" using "2.IH" [OF k f [symmetric] refl] "2.prems"(1) f r by auto
  ultimately show ?case by (rule R_trans)
qed (simp add: R_refl)

text \<open>Programs that keep an invariant from one end to the other.\<close>

lemma inv_ret: "rg R I (ret a) (\<lambda>_. I)"
  by (rule rg_ret)

lemma inv_bind: "rg R I m (\<lambda>_. I) \<Longrightarrow> (\<And>a. rg R I (f a) (\<lambda>_. I)) \<Longrightarrow> rg R I (State_Monad.bind m f) (\<lambda>_. I)"
  by (rule rg_seq)

lemma inv_bindE: "rg R I m (\<lambda>_. I) \<Longrightarrow> (\<And>a. rg R I (k a) (\<lambda>_. I)) \<Longrightarrow> rg R I (bindE m h k) (\<lambda>_. I)"
  by (rule rg_bindE)

lemma inv_if: "(b \<Longrightarrow> rg R I m (\<lambda>_. I)) \<Longrightarrow> (\<not> b \<Longrightarrow> rg R I n (\<lambda>_. I)) \<Longrightarrow> rg R I (if b then m else n) (\<lambda>_. I)"
  by simp

lemma inv_case_sum: "(\<And>e. r = Inl e \<Longrightarrow> rg R I (f e) (\<lambda>_. I)) \<Longrightarrow> (\<And>a. r = Inr a \<Longrightarrow> rg R I (g a) (\<lambda>_. I)) \<Longrightarrow>
    rg R I (case r of Inl e \<Rightarrow> f e | Inr a \<Rightarrow> g a) (\<lambda>_. I)"
  by (cases r) auto

lemma inv_case_option: "(r = None \<Longrightarrow> rg R I m (\<lambda>_. I)) \<Longrightarrow> (\<And>a. r = Some a \<Longrightarrow> rg R I (g a) (\<lambda>_. I)) \<Longrightarrow>
    rg R I (case r of None \<Rightarrow> m | Some a \<Rightarrow> g a) (\<lambda>_. I)"
  by (cases r) auto

lemma inv_case_prod: "(\<And>a b. rg R I (f a b) (\<lambda>_. I)) \<Longrightarrow> rg R I (case p of (a, b) \<Rightarrow> f a b) (\<lambda>_. I)"
  by (cases p) auto

lemmas inv_rules = inv_ret inv_bind inv_bindE inv_if inv_case_sum inv_case_option inv_case_prod rg_timeNow

lemma guar_inv: "guar R m \<Longrightarrow> stable R I \<Longrightarrow> rg R I m (\<lambda>_. I)"
  unfolding rgx_def stable_def by blast

lemmas guar_rules = guar_ret guar_bind guar_timeNow guar_peek guar_query guar_inTx guar_bindE
  guar_if guar_case_sum guar_case_option guar_case_prod guar_let

end

section \<open>Footprints\<close>

text \<open>\<open>own T m\<close>: every change \<open>m\<close> itself makes to the store is a \<open>T\<close>-step, so \<open>m\<close> follows each
  protocol that contains \<open>T\<close>. A component states the footprint of its operations once; its clients derive from it
  whatever their own protocols need.\<close>

definition own :: "('d \<Rightarrow> 'd \<Rightarrow> bool) \<Rightarrow> ('d, 'a) prog \<Rightarrow> bool" where
  "own T m \<longleftrightarrow> (\<forall>R. protocol R \<longrightarrow> (\<forall>d d'. T d d' \<longrightarrow> R d d') \<longrightarrow> guar R m)"

lemma own_guar: "own T m \<Longrightarrow> protocol R \<Longrightarrow> (\<And>d d'. T d d' \<Longrightarrow> R d d') \<Longrightarrow> guar R m"
  by (auto simp: own_def)

lemma own_mono: "own T m \<Longrightarrow> (\<And>d d'. T d d' \<Longrightarrow> T' d d') \<Longrightarrow> own T' m"
  unfolding own_def by blast

lemma own_ret: "own T (ret a)"
  by (auto simp: own_def intro: protocol.guar_ret)

lemma own_timeNow: "own T timeNow"
  by (auto simp: own_def intro: protocol.guar_timeNow)

lemma own_peek: "own T (peek f)"
  by (auto simp: own_def intro: protocol.guar_peek)

lemma own_query: "own T (query f)"
  by (auto simp: own_def intro: protocol.guar_query)

lemma own_inTx: "own T (inTx hb ss)"
  by (auto simp: own_def intro: protocol.guar_inTx)

lemma own_bind: "own T m \<Longrightarrow> (\<And>a. own T (f a)) \<Longrightarrow> own T (State_Monad.bind m f)"
  by (auto simp: own_def intro: protocol.guar_bind)

lemma own_bindE: "own T m \<Longrightarrow> (\<And>a. own T (k a)) \<Longrightarrow> own T (bindE m h k)"
  by (auto simp: own_def intro: protocol.guar_bindE)

lemma own_exec: "(\<And>d. T d (snd (f d))) \<Longrightarrow> own T (exec f)"
  by (auto simp: own_def intro: protocol.guar_exec)

text \<open>A statement that only reads.\<close>

lemma own_read: "(\<And>d. snd (f d) = d) \<Longrightarrow> own T (exec f)"
  unfolding own_def by (intro allI impI, rule protocol.guar_exec) (auto intro: protocol.R_refl)

lemma own_modify: "(\<And>d. T d (f d)) \<Longrightarrow> own T (modify f)"
  by (auto simp: own_def intro: protocol.guar_modify)

lemma own_transact: "(\<And>d d'. runSteps None ss d = Inr d' \<Longrightarrow> T d d') \<Longrightarrow> own T (transact hb hc ss)"
  by (auto simp: own_def intro: protocol.guar_transact)

lemma own_steps:
  assumes "\<And>st d. st \<in> set ss \<Longrightarrow> T d (snd (snd st d))"
  shows "own T (transact hb hc ss)"
  unfolding own_def
proof (intro allI impI)
  fix R :: "'a \<Rightarrow> 'a \<Rightarrow> bool"
  assume R: "protocol R" and T: "\<forall>d d'. T d d' \<longrightarrow> R d d'"
  show "guar R (transact hb hc ss)"
    using protocol.steps_R [OF R] assms T by (intro protocol.guar_transact [OF R]) blast
qed

lemma own_if: "(b \<Longrightarrow> own T m) \<Longrightarrow> (\<not> b \<Longrightarrow> own T n) \<Longrightarrow> own T (if b then m else n)"
  by simp

lemma own_case_sum: "(\<And>e. r = Inl e \<Longrightarrow> own T (f e)) \<Longrightarrow> (\<And>a. r = Inr a \<Longrightarrow> own T (g a)) \<Longrightarrow>
    own T (case r of Inl e \<Rightarrow> f e | Inr a \<Rightarrow> g a)"
  by (cases r) auto

lemma own_case_option: "(r = None \<Longrightarrow> own T m) \<Longrightarrow> (\<And>a. r = Some a \<Longrightarrow> own T (g a)) \<Longrightarrow>
    own T (case r of None \<Rightarrow> m | Some a \<Rightarrow> g a)"
  by (cases r) auto

lemma own_case_prod: "(\<And>a b. own T (f a b)) \<Longrightarrow> own T (case p of (a, b) \<Rightarrow> f a b)"
  by (cases p) auto

lemma own_case_list: "(r = [] \<Longrightarrow> own T m) \<Longrightarrow> (\<And>a as. r = a # as \<Longrightarrow> own T (g a as)) \<Longrightarrow>
    own T (case r of [] \<Rightarrow> m | a # as \<Rightarrow> g a as)"
  by (cases r) auto

lemma own_let: "(\<And>x. x = e \<Longrightarrow> own T (f x)) \<Longrightarrow> own T (let x = e in f x)"
  by simp

lemmas own_rules = own_ret own_bind own_timeNow own_peek own_query own_inTx own_bindE
  own_if own_case_sum own_case_option own_case_prod own_case_list own_let

text \<open>What a program returns, whatever the world does.\<close>

definition yields :: "('d, 'a) prog \<Rightarrow> ('a \<Rightarrow> bool) \<Rightarrow> bool" where
  "yields m A \<longleftrightarrow> (\<forall>w. A (fst (run_state m w)))"

lemma yields_ret: "A a \<Longrightarrow> yields (ret a) A"
  by (simp add: yields_def)

lemma yields_bind: "(\<And>a. yields (f a) A) \<Longrightarrow> yields (State_Monad.bind m f) A"
  by (simp add: yields_def split_def)

lemma yields_bindE: "(\<And>a. yields (k a) A) \<Longrightarrow> (\<And>e. A (Inl (h e))) \<Longrightarrow> yields (bindE m h k) A"
  by (simp add: yields_def run_bindE split: prod.splits sum.splits)

lemma yields_if: "(b \<Longrightarrow> yields m A) \<Longrightarrow> (\<not> b \<Longrightarrow> yields n A) \<Longrightarrow> yields (if b then m else n) A"
  by simp

lemma yields_case_sum: "(\<And>e. r = Inl e \<Longrightarrow> yields (f e) A) \<Longrightarrow> (\<And>a. r = Inr a \<Longrightarrow> yields (g a) A) \<Longrightarrow>
    yields (case r of Inl e \<Rightarrow> f e | Inr a \<Rightarrow> g a) A"
  by (cases r) auto

text \<open>The same with what is known of the first result.\<close>

lemma yields_bind_cond:
  assumes "yields m A" and "\<And>a. A a \<Longrightarrow> yields (f a) B"
  shows "yields (State_Monad.bind m f) B"
  using assms by (simp add: yields_def split_def)

lemma yields_bindE_cond:
  assumes m: "yields m A" and k: "\<And>a. A (Inr a) \<Longrightarrow> yields (k a) B" and h: "\<And>e. A (Inl e) \<Longrightarrow> B (Inl (h e))"
  shows "yields (bindE m h k) B"
  unfolding bindE_def
proof (rule yields_bind_cond [OF m])
  fix r assume "A r"
  then show "yields (case r of Inl e \<Rightarrow> ret (Inl (h e)) | Inr a \<Rightarrow> k a) B"
    using k h by (cases r) (auto intro: yields_ret)
qed

lemma yields_bindE_ret:
  assumes "yields m A" and "\<And>e. A (Inl (h e))"
  shows "yields (bindE m h (\<lambda>a. ret (Inr a))) A"
  unfolding yields_def
proof
  fix w
  obtain r w' where r: "run_state m w = (r, w')" by fastforce
  then have "A r" using assms(1) by (metis fst_conv yields_def)
  then show "A (fst (run_state (bindE m h (\<lambda>a. ret (Inr a))) w))"
    using r assms(2) by (cases r) (simp_all add: run_bindE)
qed

lemmas yields_rules = yields_ret yields_bind yields_bindE yields_if yields_case_sum

lemma rg_yields: "rgx R G P m Q \<Longrightarrow> yields m A \<Longrightarrow> rgx R G P m (\<lambda>a d. Q a d \<and> A a)"
  unfolding rgx_def yields_def by (metis fst_conv)

lemma own_bindE_yields:
  assumes "own T m" and "yields m A" and k: "\<And>a. A (Inr a) \<Longrightarrow> own T (k a)"
  shows "own T (bindE m h k)"
  unfolding own_def
proof (intro allI impI)
  fix R :: "'a \<Rightarrow> 'a \<Rightarrow> bool"
  assume R: "protocol R" and T: "\<forall>d d'. T d d' \<longrightarrow> R d d'"
  have "rg R (\<lambda>_. True) m (\<lambda>r d. True \<and> A r)"
    using assms(1,2) R T by (intro rg_yields) (auto simp: own_def)
  moreover have "rg R (\<lambda>d. True \<and> A (Inr a)) (k a) (\<lambda>_ _. True)" for a
    using k [of a] R T by (cases "A (Inr a)") (auto simp: own_def rgx_def)
  ultimately show "guar R (bindE m h k)"
    by (rule rely_guarantee.rg_bindE [OF protocol_rg [OF R]]) simp
qed

text \<open>Keeping an invariant of the store is a protocol.\<close>

interpretation keep: protocol "\<lambda>d d'. I d \<longrightarrow> I d'" for I :: "'d \<Rightarrow> bool"
  by unfold_locales auto

lemma own_invariant:
  assumes "own T m" and "\<And>d d'. T d d' \<Longrightarrow> I d \<Longrightarrow> I d'"
    and "relies (\<lambda>d d'. I d \<longrightarrow> I d') w" and "I (db w)"
  shows "I (db (snd (run_state m w)))"
proof -
  have "guar (\<lambda>d d'. I d \<longrightarrow> I d') m"
    by (rule own_guar [OF assms(1) keep.protocol_axioms]) (use assms(2) in blast)
  from rgD [OF this assms(3)] assms(4) show ?thesis by (metis prod.collapse)
qed

lemma run_exec_done:
  "script w = Turn (\<lambda>d. d) Done # ts \<Longrightarrow> run_state (exec f) w = (fst (f (db w)), w\<lparr>script := ts, db := snd (f (db w))\<rparr>)"
  "script w = Turn (\<lambda>d. d) (Lost k) # ts \<Longrightarrow> run_state (exec f) w = (Inl ConnErr, w\<lparr>script := ts, db := db w\<rparr>)"
  by (simp_all add: exec_def Let_def split_def)

lemma run_query_done:
  "script w = Turn (\<lambda>d. d) Done # ts \<Longrightarrow> run_state (query f) w = (Inr (f (db w)), w\<lparr>script := ts, db := db w\<rparr>)"
  by (simp add: query_def run_exec_done)

lemmas run_turns = run_exec_done run_query_done

lemma yields_case_option:
  "(r = None \<Longrightarrow> yields f A) \<Longrightarrow> (\<And>a. r = Some a \<Longrightarrow> yields (g a) A) \<Longrightarrow> yields (case r of None \<Rightarrow> f | Some a \<Rightarrow> g a) A"
  by (cases r) auto

section \<open>Statements that are acknowledged\<close>

text \<open>\<open>acked m\<close>: while the clock stands still, acknowledging as many statements as \<open>m\<close> sends is the same as a quiet run. A run with
  one failure is a quiet run up to the statement that fails.\<close>

definition acked :: "('d, 'a) prog \<Rightarrow> bool" where
  "acked m \<longleftrightarrow> (\<forall>w. script w = [] \<longrightarrow> ticks w = [] \<longrightarrow> (\<exists>a d n. run_state m w = (a, w\<lparr>db := d\<rparr>) \<and>
     (\<forall>ts. run_state m (w\<lparr>script := replicate n (Turn (\<lambda>d. d) Done) @ ts\<rparr>) = (a, w\<lparr>script := ts, db := d\<rparr>))))"

lemma ackedI:
  assumes "\<And>w. script w = [] \<Longrightarrow> ticks w = [] \<Longrightarrow> run_state m w = (a w, w\<lparr>db := d w\<rparr>)"
    and "\<And>w ts. script w = [] \<Longrightarrow> ticks w = [] \<Longrightarrow>
      run_state m (w\<lparr>script := replicate n (Turn (\<lambda>d. d) Done) @ ts\<rparr>) = (a w, w\<lparr>script := ts, db := d w\<rparr>)"
  shows "acked m"
  using assms unfolding acked_def by blast

lemma acked_ret: "acked (ret a)"
  by (rule ackedI [where a = "\<lambda>_. a" and d = db and n = 0]) simp_all

lemma acked_timeNow: "acked timeNow"
  by (rule ackedI [where a = clock and d = db and n = 0]) (simp_all add: run_timeNow_still)

lemma acked_modify: "acked (modify f)"
  by (rule ackedI [where a = "\<lambda>_. ()" and d = "\<lambda>w. f (db w)" and n = 0]) simp_all

lemma acked_exec: "acked (exec f)"
  by (rule ackedI [where a = "\<lambda>w. fst (f (db w))" and d = "\<lambda>w. snd (f (db w))" and n = 1])
    (simp_all add: exec_def split_def Let_def)

lemma acked_query: "acked (query f)"
  by (simp add: query_def acked_exec)

lemma acked_transact: "acked (transact h k ss)"
  by (rule ackedI [where a = "\<lambda>w. map_sum id (\<lambda>_. ()) (runSteps None ss (db w))"
        and d = "\<lambda>w. case runSteps None ss (db w) of Inl _ \<Rightarrow> db w | Inr d \<Rightarrow> d" and n = 1])
    (simp_all add: transact_def split: sum.splits)

lemma acked_bind:
  fixes m :: "('d, 'a) prog"
  assumes m: "acked m" and f: "\<And>a. acked (f a)"
  shows "acked (State_Monad.bind m f)"
  unfolding acked_def
proof (intro allI impI)
  fix w :: "'d world"
  assume w: "script w = []" "ticks w = []"
  obtain a d n where 1: "run_state m w = (a, w\<lparr>db := d\<rparr>)"
    "\<And>ts. run_state m (w\<lparr>script := replicate n (Turn (\<lambda>d. d) Done) @ ts\<rparr>) = (a, w\<lparr>script := ts, db := d\<rparr>)"
    using m w unfolding acked_def by blast
  have w1: "script (w\<lparr>db := d\<rparr>) = []" "ticks (w\<lparr>db := d\<rparr>) = []" using w by simp_all
  obtain b d' k where 2: "run_state (f a) (w\<lparr>db := d\<rparr>) = (b, w\<lparr>db := d, db := d'\<rparr>)"
    "\<And>ts. run_state (f a) (w\<lparr>db := d, script := replicate k (Turn (\<lambda>d. d) Done) @ ts\<rparr>) = (b, w\<lparr>db := d, script := ts, db := d'\<rparr>)"
    using f [of a] w1 unfolding acked_def by blast
  have c: "w\<lparr>db := d, script := ts\<rparr> = w\<lparr>script := ts, db := d\<rparr>" for d ts by simp
  show "\<exists>a d n. run_state (m \<bind> f) w = (a, w\<lparr>db := d\<rparr>) \<and>
     (\<forall>ts. run_state (m \<bind> f) (w\<lparr>script := replicate n (Turn (\<lambda>d. d) Done) @ ts\<rparr>) = (a, w\<lparr>script := ts, db := d\<rparr>))"
    using 1 2 [unfolded c] by (intro exI [of _ b] exI [of _ d'] exI [of _ "n + k"]) (simp add: replicate_add)
qed

lemma acked_case_sum: "(\<And>e. acked (f e)) \<Longrightarrow> (\<And>a. acked (g a)) \<Longrightarrow> acked (case r of Inl e \<Rightarrow> f e | Inr a \<Rightarrow> g a)"
  by (cases r) auto

lemma acked_if: "acked m \<Longrightarrow> acked n \<Longrightarrow> acked (if b then m else n)"
  by simp

lemma acked_bindE: "acked m \<Longrightarrow> (\<And>a. acked (k a)) \<Longrightarrow> acked (bindE m h k)"
  unfolding bindE_def by (intro acked_bind acked_case_sum acked_ret)

lemmas acked_rules = acked_ret acked_timeNow acked_modify acked_exec acked_query acked_transact acked_bind acked_case_sum acked_if acked_bindE

lemma ackedD:
  assumes m: "acked m" and w: "script w = []" "ticks w = []" and r: "run_state m w = (a, w')"
  shows "w' = w\<lparr>db := db w'\<rparr>"
    "\<exists>n. \<forall>ts. run_state m (w\<lparr>script := replicate n (Turn (\<lambda>d. d) Done) @ ts\<rparr>) = (a, w\<lparr>script := ts, db := db w'\<rparr>)"
proof -
  obtain b d n where d: "run_state m w = (b, w\<lparr>db := d\<rparr>)"
    "\<forall>ts. run_state m (w\<lparr>script := replicate n (Turn (\<lambda>d. d) Done) @ ts\<rparr>) = (b, w\<lparr>script := ts, db := d\<rparr>)"
    using m w unfolding acked_def by blast
  then have b: "w' = w\<lparr>db := d\<rparr>" "b = a" using r by simp_all
  then show "w' = w\<lparr>db := db w'\<rparr>" by simp
  show "\<exists>n. \<forall>ts. run_state m (w\<lparr>script := replicate n (Turn (\<lambda>d. d) Done) @ ts\<rparr>) = (a, w\<lparr>script := ts, db := db w'\<rparr>)"
    by (rule exI [of _ n]) (simp add: d(2) b)
qed

end
