(* ===== verification/Float64.thy ===== *)
theory Float64
  imports Prelude "HOL-Library.Log_Nat"
begin

text \<open>
  Go's \<open>float64\<close>: IEEE 754 binary64 with round-to-nearest-even. A finite value is the
  rational number it denotes; the two zeros are one value, since no modelled operation can tell
  them apart. Every arithmetic operation is the exact rational operation followed by \<open>rnd\<close>,
  and the comparisons are false on NaN.
\<close>

datatype f64 = F64 rat | PosInf | NegInf | NaN

section \<open>Rounding\<close>

definition pow2 :: "int \<Rightarrow> rat" where
  "pow2 e = (if 0 \<le> e then 2 ^ nat e else 1 / 2 ^ nat (- e))"

text \<open>The exponent of the binade of a positive rational.\<close>

definition ilog2 :: "rat \<Rightarrow> int" where
  "ilog2 q = (let (n, d) = quotient_of q; e = bitlen n - bitlen d
              in if pow2 e \<le> q then e else e - 1)"

text \<open>Round to the nearest integer, ties to even.\<close>

definition rne :: "rat \<Rightarrow> int" where
  "rne x = (let f = \<lfloor>x\<rfloor>; r = x - of_int f
            in if r < 1 / 2 then f
               else if 1 / 2 < r then f + 1
               else if even f then f else f + 1)"

text \<open>The spacing of the doubles around a positive rational: 53 significant bits, and
  \<open>2 ^ -1074\<close> in the subnormal range.\<close>

definition ulp :: "rat \<Rightarrow> rat" where
  "ulp q = pow2 (max (ilog2 q - 52) (- 1074))"

definition rnd :: "rat \<Rightarrow> f64" where
  "rnd q = (if q = 0 then F64 0
            else let u = ulp \<bar>q\<bar>; r = of_int (rne (\<bar>q\<bar> / u)) * u
                 in if 2 ^ 1024 \<le> r then (if q < 0 then NegInf else PosInf)
                    else F64 (if q < 0 then - r else r))"

section \<open>Operations\<close>

fun fadd :: "f64 \<Rightarrow> f64 \<Rightarrow> f64" where
  "fadd (F64 a) (F64 b) = rnd (a + b)"
| "fadd NaN y = NaN"
| "fadd x NaN = NaN"
| "fadd PosInf NegInf = NaN"
| "fadd NegInf PosInf = NaN"
| "fadd PosInf y = PosInf"
| "fadd NegInf y = NegInf"
| "fadd x PosInf = PosInf"
| "fadd x NegInf = NegInf"

fun fneg :: "f64 \<Rightarrow> f64" where
  "fneg (F64 a) = F64 (- a)"
| "fneg PosInf = NegInf"
| "fneg NegInf = PosInf"
| "fneg NaN = NaN"

definition fsub :: "f64 \<Rightarrow> f64 \<Rightarrow> f64" where
  "fsub x y = fadd x (fneg y)"

definition fsgn :: "f64 \<Rightarrow> int" where
  "fsgn x = (case x of F64 a \<Rightarrow> (if a < 0 then -1 else if a = 0 then 0 else 1)
             | PosInf \<Rightarrow> 1 | NegInf \<Rightarrow> -1 | NaN \<Rightarrow> 0)"

definition fisNaN :: "f64 \<Rightarrow> bool" where
  "fisNaN x \<longleftrightarrow> x = NaN"

definition fisInf :: "f64 \<Rightarrow> bool" where
  "fisInf x \<longleftrightarrow> x = PosInf \<or> x = NegInf"

definition fmul :: "f64 \<Rightarrow> f64 \<Rightarrow> f64" where
  "fmul x y = (case (x, y) of
       (F64 a, F64 b) \<Rightarrow> rnd (a * b)
     | _ \<Rightarrow> if fisNaN x \<or> fisNaN y \<or> fsgn x * fsgn y = 0 then NaN
           else if 0 < fsgn x * fsgn y then PosInf else NegInf)"

definition fdiv :: "f64 \<Rightarrow> f64 \<Rightarrow> f64" where
  "fdiv x y = (case (x, y) of
       (F64 a, F64 b) \<Rightarrow> (if b \<noteq> 0 then rnd (a / b)
                         else if a = 0 then NaN else if 0 < a then PosInf else NegInf)
     | (F64 a, _) \<Rightarrow> (if fisNaN y then NaN else F64 0)
     | (_, F64 b) \<Rightarrow> (if fisNaN x then NaN else if 0 \<le> b then x else fneg x)
     | _ \<Rightarrow> NaN)"

fun flt :: "f64 \<Rightarrow> f64 \<Rightarrow> bool" where
  "flt (F64 a) (F64 b) \<longleftrightarrow> a < b"
| "flt NaN y \<longleftrightarrow> False"
| "flt x NaN \<longleftrightarrow> False"
| "flt NegInf y \<longleftrightarrow> y \<noteq> NegInf"
| "flt x PosInf \<longleftrightarrow> x \<noteq> PosInf"
| "flt PosInf y \<longleftrightarrow> False"
| "flt x NegInf \<longleftrightarrow> False"

definition feq :: "f64 \<Rightarrow> f64 \<Rightarrow> bool" where
  "feq x y \<longleftrightarrow> x = y \<and> x \<noteq> NaN"

definition fle :: "f64 \<Rightarrow> f64 \<Rightarrow> bool" where
  "fle x y \<longleftrightarrow> flt x y \<or> feq x y"

definition fabs :: "f64 \<Rightarrow> f64" where
  "fabs x = (case x of F64 a \<Rightarrow> F64 \<bar>a\<bar> | NaN \<Rightarrow> NaN | _ \<Rightarrow> PosInf)"

text \<open>\<open>math.Max\<close> and \<open>math.Min\<close>: an infinity of the right sign wins even over NaN.\<close>

definition fmax :: "f64 \<Rightarrow> f64 \<Rightarrow> f64" where
  "fmax x y = (if x = PosInf \<or> y = PosInf then PosInf
               else if x = NaN \<or> y = NaN then NaN
               else if flt x y then y else x)"

definition fmin :: "f64 \<Rightarrow> f64 \<Rightarrow> f64" where
  "fmin x y = (if x = NegInf \<or> y = NegInf then NegInf
               else if x = NaN \<or> y = NaN then NaN
               else if flt y x then y else x)"

definition fofint :: "int \<Rightarrow> f64" where
  "fofint n = rnd (of_int n)"

text \<open>Conversion \<open>int(x)\<close> truncates towards zero; the result of converting a value
  outside the range of \<open>int64\<close> is the one of the amd64 instruction, the least integer.\<close>

definition ftrunc :: "f64 \<Rightarrow> int" where
  "ftrunc x = (case x of
       F64 a \<Rightarrow> (let t = (if 0 \<le> a then \<lfloor>a\<rfloor> else \<lceil>a\<rceil>)
                in if - (2 ^ 63) \<le> t \<and> t < 2 ^ 63 then t else - (2 ^ 63))
     | _ \<Rightarrow> - (2 ^ 63))"

text \<open>\<open>math.Round\<close>: half away from zero.\<close>

definition fround :: "f64 \<Rightarrow> f64" where
  "fround x = (case x of
       F64 a \<Rightarrow> rnd (of_int (if 0 \<le> a then \<lfloor>a + 1 / 2\<rfloor> else - \<lfloor>1 / 2 - a\<rfloor>))
     | _ \<Rightarrow> x)"

text \<open>The float of an untyped constant or of the text of a decimal column is the nearest
  double.\<close>

abbreviation fzero :: f64 where "fzero \<equiv> F64 0"

section \<open>Lemmas\<close>

named_theorems f64_simps \<open>evaluation of float operations\<close>

lemma rnd_0 [simp]: "rnd 0 = F64 0"
  by (simp add: rnd_def)

lemma pow2_pos [simp]: "0 < pow2 e"
  by (simp add: pow2_def)

lemma ulp_pos [simp]: "0 < ulp q"
  by (simp add: ulp_def)

lemma rne_nonneg: "0 \<le> x \<Longrightarrow> 0 \<le> rne x"
  by (auto simp: rne_def Let_def)

lemma rnd_not_NaN [simp]: "rnd q \<noteq> NaN"
  by (simp add: rnd_def Let_def)

lemma rnd_nonneg:
  assumes "0 \<le> q"
  shows "rnd q = PosInf \<or> (\<exists>r \<ge> 0. rnd q = F64 r)"
proof (cases "q = 0")
  case False
  have "0 \<le> rne (\<bar>q\<bar> / ulp \<bar>q\<bar>)"
    by (rule rne_nonneg) (simp add: less_imp_le)
  then have "0 \<le> of_int (rne (\<bar>q\<bar> / ulp \<bar>q\<bar>)) * ulp \<bar>q\<bar>"
    by (simp add: less_imp_le)
  with False assms show ?thesis by (auto simp: rnd_def Let_def)
qed simp

lemma rnd_neg: "rnd (- q) = fneg (rnd q)"
  by (auto simp: rnd_def Let_def)

text \<open>Integers of up to 53 bits are represented exactly.\<close>

lemma rne_int [simp]: "rne (of_int n) = n"
  by (simp add: rne_def)

lemma ilog2_int:
  assumes "0 < n"
  shows "ilog2 (of_int n) = bitlen n - 1"
proof -
  have b: "2 ^ nat (bitlen n - 1) \<le> n" using bitlen_bounds [OF assms] by simp
  have "0 < bitlen n" using assms bitlen_nonneg [of n] bitlen_eq_zero_iff [of n] by linarith
  moreover have "(2::rat) ^ nat (bitlen n - 1) \<le> of_int n"
    using b by (metis of_int_le_iff of_int_numeral of_int_power)
  moreover have "bitlen 1 = 1" by (simp add: bitlen_alt_def)
  ultimately show ?thesis by (simp add: ilog2_def pow2_def)
qed

lemma rnd_pos_int:
  assumes "0 < n" and "n < 2 ^ 53"
  shows "rnd (of_int n) = F64 (of_int n)"
proof -
  have "bitlen n \<le> 53" using bitlen_le_iff_power [of n 53] assms by simp
  moreover have "0 < bitlen n"
    using assms bitlen_nonneg [of n] bitlen_eq_zero_iff [of n] by linarith
  ultimately have k: "ulp (of_int n) = 1 / 2 ^ nat (53 - bitlen n)"
    by (simp add: ulp_def ilog2_int [OF assms(1)] pow2_def max_def)
  then have "of_int n / ulp (of_int n) = (of_int (n * 2 ^ nat (53 - bitlen n)) :: rat)" by simp
  then have "rne (of_int n / ulp (of_int n)) = n * 2 ^ nat (53 - bitlen n)" by (simp only: rne_int)
  then have r: "of_int (rne (of_int n / ulp (of_int n))) * ulp (of_int n) = (of_int n :: rat)"
    by (simp add: k)
  have "(of_int n :: rat) < 2 ^ 53"
    using assms(2) by (metis of_int_less_iff of_int_numeral of_int_power)
  also have "(2::rat) ^ 53 \<le> 2 ^ 1024" by (rule power_increasing) auto
  finally show ?thesis using assms(1) r by (simp add: rnd_def)
qed

lemma rnd_int:
  assumes "\<bar>n\<bar> < 2 ^ 53"
  shows "rnd (of_int n) = F64 (of_int n)"
proof (cases "0 < n")
  case True
  then show ?thesis using assms by (intro rnd_pos_int) auto
next
  case False
  then consider "n = 0" | "0 < - n" by linarith
  then show ?thesis
  proof cases
    case 2
    then have "rnd (of_int (- n)) = F64 (of_int (- n))"
      using assms by (intro rnd_pos_int) auto
    then show ?thesis using rnd_neg [of "of_int (- n)"] by simp
  qed simp
qed

lemma rnd_numeral [simp]: "(numeral k :: int) < 2 ^ 53 \<Longrightarrow> rnd (numeral k) = F64 (numeral k)"
  using rnd_int [of "numeral k"] by simp

lemma rnd_neg_numeral [simp]:
  "(numeral k :: int) < 2 ^ 53 \<Longrightarrow> rnd (- numeral k) = F64 (- numeral k)"
  using rnd_int [of "- numeral k"] by simp

lemma rnd_1 [simp]: "rnd 1 = F64 1"
  using rnd_int [of 1] by simp

lemma rnd_neg_1 [simp]: "rnd (- 1) = F64 (- 1)"
  using rnd_int [of "- 1"] by simp

lemma flt_irrefl [simp]: "\<not> flt x x"
  by (cases x) auto

lemma flt_trans: "flt x y \<Longrightarrow> flt y z \<Longrightarrow> flt x z"
  by (cases x; cases y; cases z) auto

lemma flt_asym: "flt x y \<Longrightarrow> \<not> flt y x"
  using flt_trans flt_irrefl by blast

lemma fle_refl: "x \<noteq> NaN \<Longrightarrow> fle x x"
  by (simp add: fle_def feq_def)

lemma fle_trans: "fle x y \<Longrightarrow> fle y z \<Longrightarrow> fle x z"
  by (auto simp: fle_def feq_def intro: flt_trans)

lemma not_flt: "x \<noteq> NaN \<Longrightarrow> y \<noteq> NaN \<Longrightarrow> \<not> flt x y \<longleftrightarrow> fle y x"
  by (cases x; cases y) (auto simp: fle_def feq_def)

lemma fle_F64 [simp]: "fle (F64 a) (F64 b) \<longleftrightarrow> a \<le> b"
  by (auto simp: fle_def feq_def)

lemma feq_F64 [simp]: "feq (F64 a) (F64 b) \<longleftrightarrow> a = b"
  by (simp add: feq_def)

lemma flt_fle_trans: "flt x y \<Longrightarrow> fle y z \<Longrightarrow> flt x z"
  by (auto simp: fle_def feq_def intro: flt_trans)

lemma fle_flt_trans: "fle x y \<Longrightarrow> flt y z \<Longrightarrow> flt x z"
  by (auto simp: fle_def feq_def intro: flt_trans)

lemma flt_not_NaN: "flt x y \<Longrightarrow> x \<noteq> NaN \<and> y \<noteq> NaN"
  by (cases x; cases y) auto

lemma fle_not_NaN: "fle x y \<Longrightarrow> x \<noteq> NaN \<and> y \<noteq> NaN"
  by (auto simp: fle_def feq_def dest: flt_not_NaN)

lemma fsub_self: "fsub (F64 a) (F64 a) = F64 0"
  by (simp add: fsub_def)

lemma fadd_comm: "fadd x y = fadd y x"
  by (cases x; cases y) (auto simp: add.commute)

lemma fmin_le1: "x \<noteq> NaN \<Longrightarrow> y \<noteq> NaN \<Longrightarrow> fle (fmin x y) x"
  by (cases x; cases y) (auto simp: fmin_def fle_def feq_def)

lemma fmin_le2: "x \<noteq> NaN \<Longrightarrow> y \<noteq> NaN \<Longrightarrow> fle (fmin x y) y"
  by (cases x; cases y) (auto simp: fmin_def fle_def feq_def)

lemma fmax_ge1: "x \<noteq> NaN \<Longrightarrow> y \<noteq> NaN \<Longrightarrow> fle x (fmax x y)"
  by (cases x; cases y) (auto simp: fmax_def fle_def feq_def)

lemma fmax_ge2: "x \<noteq> NaN \<Longrightarrow> y \<noteq> NaN \<Longrightarrow> fle y (fmax x y)"
  by (cases x; cases y) (auto simp: fmax_def fle_def feq_def)

lemma rne_minus: "rne (- q) = - rne q"
proof (cases "q \<in> \<int>")
  case True
  then obtain k where "q = of_int k" by (auto elim: Ints_cases)
  then show ?thesis using rne_int [of "- k"] by simp
next
  case False
  then have "of_int \<lfloor>q\<rfloor> < q" using of_int_floor_le [of q] by (metis Ints_of_int less_le)
  then have "\<lfloor>- q\<rfloor> = - \<lfloor>q\<rfloor> - 1" by linarith
  then show ?thesis by (simp add: rne_def Let_def)
qed

lemma rne_mono:
  assumes "p \<le> q"
  shows "rne p \<le> rne q"
proof (cases "\<lfloor>p\<rfloor> = \<lfloor>q\<rfloor>")
  case True
  then show ?thesis using assms by (auto simp: rne_def Let_def)
next
  case False
  then have "\<lfloor>p\<rfloor> + 1 \<le> \<lfloor>q\<rfloor>" using floor_mono [OF assms] by linarith
  moreover have "rne p \<le> \<lfloor>p\<rfloor> + 1" "\<lfloor>q\<rfloor> \<le> rne q" by (auto simp: rne_def Let_def)
  ultimately show ?thesis by linarith
qed

section \<open>Durations\<close>

text \<open>\<open>t.Sub(u)\<close> saturates; \<open>Seconds\<close> and \<open>Hours\<close> add the float of the whole units and the float
  of the rest divided by the unit. Go's integer division truncates towards zero.\<close>

definition quo :: "int \<Rightarrow> int \<Rightarrow> int" where
  "quo a b = sgn a * sgn b * (\<bar>a\<bar> div \<bar>b\<bar>)"

definition timeSub :: "instant \<Rightarrow> instant \<Rightarrow> duration" where
  "timeSub t u = max (- (2 ^ 63)) (min (2 ^ 63 - 1) (t - u))"

definition durUnits :: "duration \<Rightarrow> duration \<Rightarrow> f64" where
  "durUnits unit d = fadd (fofint (quo d unit)) (fdiv (fofint (d - quo d unit * unit)) (fofint unit))"

definition durSeconds :: "duration \<Rightarrow> f64" where
  "durSeconds d = durUnits nsSecond d"

definition durHours :: "duration \<Rightarrow> f64" where
  "durHours d = durUnits nsHour d"

section \<open>Text\<close>

text \<open>\<open>strconv.FormatFloat(v, 'f', 2, 64)\<close>: the exact value rounded to two decimals, ties to even.\<close>

definition twoDigits :: "nat \<Rightarrow> string" where
  "twoDigits n = [digitChar (n div 10 mod 10), digitChar (n mod 10)]"

definition formatFloat2 :: "f64 \<Rightarrow> string" where
  "formatFloat2 v = (case v of
       F64 q \<Rightarrow> (let n = nat (rne (\<bar>q\<bar> * 100))
                 in (if q < 0 then ''-'' else '''') @ natDigits (n div 100) @ ''.'' @ twoDigits n)
     | PosInf \<Rightarrow> ''+Inf'' | NegInf \<Rightarrow> ''-Inf'' | NaN \<Rightarrow> ''NaN'')"

section \<open>Signs of sums\<close>

text \<open>Every double is a multiple of the least subnormal one, so a sum of two doubles does not round to zero unless it is zero.\<close>

lemma pow2_shift: "- 1074 \<le> e \<Longrightarrow> pow2 e = of_int (2 ^ nat (e + 1074)) * pow2 (- 1074)"
proof (cases "0 \<le> e")
  case True
  then have "nat (e + 1074) = nat e + 1074" by linarith
  then show ?thesis using True by (simp add: pow2_def power_add)
next
  case False
  assume "- 1074 \<le> e"
  then have "1074 = nat (e + 1074) + nat (- e)" using False by linarith
  then have "(2 :: rat) ^ 1074 = 2 ^ nat (e + 1074) * 2 ^ nat (- e)" by (metis power_add)
  then show ?thesis using False by (simp add: pow2_def field_simps)
qed

lemma rnd_grid:
  assumes "rnd q = F64 r"
  shows "\<exists>k. r = of_int k * pow2 (- 1074)"
proof -
  obtain n where n: "ulp \<bar>q\<bar> = of_int n * pow2 (- 1074)" using pow2_shift by (metis ulp_def max.cobounded2)
  have "r = 0 \<or> r = of_int (rne (\<bar>q\<bar> / ulp \<bar>q\<bar>)) * ulp \<bar>q\<bar> \<or> r = - (of_int (rne (\<bar>q\<bar> / ulp \<bar>q\<bar>)) * ulp \<bar>q\<bar>)"
    using assms by (auto simp: rnd_def Let_def split: if_splits)
  then show ?thesis
  proof (elim disjE)
    assume "r = of_int (rne (\<bar>q\<bar> / ulp \<bar>q\<bar>)) * ulp \<bar>q\<bar>"
    then show ?thesis unfolding n by (intro exI [of _ "rne (\<bar>q\<bar> / (of_int n * pow2 (- 1074))) * n"]) simp
  next
    assume "r = - (of_int (rne (\<bar>q\<bar> / ulp \<bar>q\<bar>)) * ulp \<bar>q\<bar>)"
    then show ?thesis unfolding n by (intro exI [of _ "- (rne (\<bar>q\<bar> / (of_int n * pow2 (- 1074))) * n)"]) simp
  qed (auto intro: exI [of _ 0])
qed

lemma pow2_add1: "pow2 (e + 1) = 2 * pow2 e"
proof -
  consider "0 \<le> e" | "e = - 1" | "e < - 1" by linarith
  then show ?thesis
  proof cases
    case 1
    then have "nat (e + 1) = Suc (nat e)" by linarith
    then show ?thesis using 1 by (simp add: pow2_def)
  next
    case 3
    then have "nat (- e) = Suc (nat (- (e + 1)))" by linarith
    then show ?thesis using 3 by (simp add: pow2_def)
  qed (simp add: pow2_def)
qed

lemma pow2_mono: "a \<le> b \<Longrightarrow> pow2 a \<le> pow2 b"
proof (induction "nat (b - a)" arbitrary: b)
  case (Suc n)
  then have "pow2 a \<le> pow2 (b - 1)" by simp
  also have "pow2 (b - 1) \<le> pow2 b" using pow2_add1 [of "b - 1"] pow2_pos [of "b - 1"] by simp
  finally show ?case .
qed simp

lemma pow2_diff: "pow2 (int i - int j) = 2 ^ i / 2 ^ j"
proof (cases "j \<le> i")
  case True
  then have "nat (int i - int j) = i - j" by linarith
  then show ?thesis using True by (simp add: pow2_def power_diff)
next
  case False
  then have "nat (int j - int i) = j - i" by linarith
  then show ?thesis using False by (simp add: pow2_def power_diff)
qed

lemma pow2_ilog2:
  assumes "0 < q"
  shows "pow2 (ilog2 q) \<le> q"
proof -
  obtain n d where nd: "quotient_of q = (n, d)" by fastforce
  have d: "0 < d" and q: "q = of_int n / of_int d" using quotient_of_denom_pos [OF nd] quotient_of_div [OF nd] by simp_all
  then have n: "0 < n" using assms by (simp add: zero_less_divide_iff)
  have "2 ^ nat (bitlen n - 1) \<le> n" "d < 2 ^ nat (bitlen d)" using bitlen_bounds [OF n] bitlen_bounds [OF d] by simp_all
  then have b: "(2 :: rat) ^ nat (bitlen n - 1) \<le> of_int n" "of_int d \<le> (2 :: rat) ^ nat (bitlen d)"
    by (metis of_int_le_iff of_int_numeral of_int_power less_imp_le)+
  have "0 < bitlen n" "0 \<le> bitlen d" using n bitlen_nonneg [of n] bitlen_eq_zero_iff [of n] bitlen_nonneg [of d] by linarith+
  then have "pow2 (bitlen n - bitlen d - 1) = 2 ^ nat (bitlen n - 1) / 2 ^ nat (bitlen d)"
    using pow2_diff [of "nat (bitlen n - 1)" "nat (bitlen d)"] by (simp add: algebra_simps)
  also have "\<dots> \<le> of_int n / of_int d" using b d n by (intro frac_le) auto
  finally have "pow2 (bitlen n - bitlen d - 1) \<le> q" by (simp only: q)
  then show ?thesis by (simp add: ilog2_def nd Let_def)
qed

lemma rnd_zero:
  assumes "rnd q = F64 0" and "q = of_int k * pow2 (- 1074)"
  shows "q = 0"
proof (rule ccontr)
  assume "q \<noteq> 0"
  then have p: "0 < \<bar>q\<bar>" by simp
  have "ulp \<bar>q\<bar> \<noteq> 0" using ulp_pos [of "\<bar>q\<bar>"] by (metis less_irrefl)
  then have z: "rne (\<bar>q\<bar> / ulp \<bar>q\<bar>) = 0" using assms(1) \<open>q \<noteq> 0\<close> by (auto simp: rnd_def Let_def split: if_splits)
  show False
  proof (cases "ilog2 \<bar>q\<bar> - 52 \<le> - 1074")
    case True
    then have "ulp \<bar>q\<bar> = pow2 (- 1074)" by (simp add: ulp_def max_def)
    moreover have "pow2 (- 1074) \<noteq> 0" "\<bar>pow2 (- 1074)\<bar> = pow2 (- 1074)"
      using pow2_pos [of "- 1074"] by (metis less_irrefl) (metis abs_of_pos pow2_pos)
    ultimately have "\<bar>q\<bar> / ulp \<bar>q\<bar> = of_int \<bar>k\<bar>" using assms(2) by (simp add: abs_mult)
    then have "rne (of_int \<bar>k\<bar>) = 0" using z by simp
    then show False using \<open>q \<noteq> 0\<close> assms(2) unfolding rne_int by simp
  next
    case False
    then have "ulp \<bar>q\<bar> \<le> \<bar>q\<bar>" using pow2_mono [of "ilog2 \<bar>q\<bar> - 52" "ilog2 \<bar>q\<bar>"] pow2_ilog2 [OF p] by (simp add: ulp_def max_def)
    then have "1 \<le> \<lfloor>\<bar>q\<bar> / ulp \<bar>q\<bar>\<rfloor>" by (simp add: le_divide_eq)
    moreover have "\<lfloor>\<bar>q\<bar> / ulp \<bar>q\<bar>\<rfloor> \<le> rne (\<bar>q\<bar> / ulp \<bar>q\<bar>)" by (simp add: rne_def Let_def)
    ultimately show False using z by linarith
  qed
qed

lemma fadd_negative:
  assumes "rnd p = F64 a" and "rnd q = F64 b"
  shows "flt (fadd (F64 a) (F64 b)) fzero \<longleftrightarrow> a + b < 0"
proof -
  obtain i j where "a = of_int i * pow2 (- 1074)" "b = of_int j * pow2 (- 1074)" using rnd_grid assms by blast
  then have k: "a + b = of_int (i + j) * pow2 (- 1074)" by (simp add: distrib_right)
  define s where "s = a + b"
  note k = k [folded s_def]
  have "flt (rnd s) fzero \<longleftrightarrow> s < 0"
  proof (cases "s < 0")
    case True
    have "rnd s \<noteq> F64 0" using rnd_zero [OF _ k] True by auto
    moreover have "rnd s = NegInf \<or> (\<exists>r \<ge> 0. rnd s = F64 (- r))" using rnd_nonneg [of "- s"] rnd_neg [of "- s"] True by auto
    ultimately show ?thesis using True by auto
  next
    case False
    then show ?thesis using rnd_nonneg [of s] by auto
  qed
  then show ?thesis by (simp add: s_def)
qed

end
