(* ===== verification/Payment_Types.thy ===== *)
theory Payment_Types
  imports World Float64
begin

text \<open>
  Package \<open>internal/payment\<close>, file \<open>types.go\<close>: the payment types, the order status values, the
  requests and responses exchanged with a payment provider, and the provider interface. The status
  strings are a datatype; \<open>statusText\<close> gives the text the code writes. Payment types, order types
  and roles stay strings, because requests can carry any text there.
\<close>

section \<open>Constants\<close>

definition TypeAlipay :: string where "TypeAlipay = ''alipay''"
definition TypeWxpay :: string where "TypeWxpay = ''wxpay''"
definition TypeStripe :: string where "TypeStripe = ''stripe''"
definition TypeCard :: string where "TypeCard = ''card''"
definition TypeLink :: string where "TypeLink = ''link''"
definition TypeEasyPay :: string where "TypeEasyPay = ''easypay''"

lemmas payment_type_defs = TypeAlipay_def TypeWxpay_def TypeStripe_def TypeCard_def TypeLink_def
  TypeEasyPay_def

datatype order_status =
    Pending | Paid | Recharging | Completed | Expired | Cancelled | Failed
  | RefundRequested | Refunding | PartiallyRefunded | Refunded | RefundFailed

fun statusText :: "order_status \<Rightarrow> string" where
  "statusText Pending = ''PENDING''"
| "statusText Paid = ''PAID''"
| "statusText Recharging = ''RECHARGING''"
| "statusText Completed = ''COMPLETED''"
| "statusText Expired = ''EXPIRED''"
| "statusText Cancelled = ''CANCELLED''"
| "statusText Failed = ''FAILED''"
| "statusText RefundRequested = ''REFUND_REQUESTED''"
| "statusText Refunding = ''REFUNDING''"
| "statusText PartiallyRefunded = ''PARTIALLY_REFUNDED''"
| "statusText Refunded = ''REFUNDED''"
| "statusText RefundFailed = ''REFUND_FAILED''"

definition OrderTypeBalance :: string where "OrderTypeBalance = ''balance''"
definition OrderTypeSubscription :: string where "OrderTypeSubscription = ''subscription''"
definition EntityStatusActive :: string where "EntityStatusActive = ''active''"

datatype deduction = DeductBalance | DeductSubscription | DeductNone

definition NotificationStatusSuccess :: string where "NotificationStatusSuccess = ''success''"
definition ProviderStatusPaid :: string where "ProviderStatusPaid = ''paid''"
definition ProviderStatusSuccess :: string where "ProviderStatusSuccess = ''success''"

lemmas payment_const_defs = OrderTypeBalance_def OrderTypeSubscription_def EntityStatusActive_def
  NotificationStatusSuccess_def ProviderStatusPaid_def ProviderStatusSuccess_def

definition GetBasePaymentType :: "string \<Rightarrow> string" where
  "GetBasePaymentType t =
     (if t = TypeEasyPay then TypeEasyPay
      else if t = TypeStripe \<or> t = TypeCard \<or> t = TypeLink then TypeStripe
      else if length TypeAlipay \<le> length t \<and> take (length TypeAlipay) t = TypeAlipay then TypeAlipay
      else if length TypeWxpay \<le> length t \<and> take (length TypeWxpay) t = TypeWxpay then TypeWxpay
      else t)"

section \<open>Messages\<close>

record create_payment_request =
  cp_OrderID :: string
  cp_Amount :: string
  cp_PaymentType :: string
  cp_Subject :: string
  cp_ClientIP :: string
  cp_IsMobile :: bool
  cp_InstanceSubMethods :: string

record create_payment_response =
  cr_TradeNo :: string
  cr_PayURL :: string
  cr_QRCode :: string
  cr_ClientSecret :: string

record query_order_response =
  qo_TradeNo :: string
  qo_Status :: string
  qo_Amount :: f64
  qo_PaidAt :: string

record payment_notification =
  pn_TradeNo :: string
  pn_OrderID :: string
  pn_Amount :: f64
  pn_Status :: string
  pn_RawData :: string

record refund_request =
  rq_TradeNo :: string
  rq_OrderID :: string
  rq_Amount :: string
  rq_Reason :: string

record refund_response =
  rs_RefundID :: string
  rs_Status :: string

type_synonym config = "(string \<times> string) list"

record instance_selection =
  sel_InstanceID :: string
  sel_ProviderKey :: string
  sel_Config :: config
  sel_SupportedTypes :: string
  sel_PaymentMode :: string

text \<open>The provider interface: what the upstream platform answers to each call. A provider that
  also implements \<open>CancelableProvider\<close> has \<open>pv_Cancelable\<close> set.\<close>

record provider =
  pv_ProviderKey :: string
  pv_SupportedTypes :: "string list"
  pv_CreatePayment :: "create_payment_request \<Rightarrow> go_err + create_payment_response"
  pv_QueryOrder :: "string \<Rightarrow> go_err + query_order_response"
  pv_Refund :: "refund_request \<Rightarrow> go_err + refund_response"
  pv_Cancelable :: bool

text \<open>The calls a service makes to the platform behind a provider, in order.\<close>

datatype gw_call =
    CallCreate string create_payment_request
  | CallQuery string string
  | CallCancel string string
  | CallRefund string refund_request

section \<open>Properties\<close>

lemma GetBasePaymentType_idem: "GetBasePaymentType (GetBasePaymentType t) = GetBasePaymentType t"
  by (auto simp: GetBasePaymentType_def payment_type_defs)

lemma statusText_inj: "statusText a = statusText b \<Longrightarrow> a = b"
  by (cases a; cases b) auto

end
