(* ===== verification/Store.thy ===== *)
theory Store
  imports Payment_Types
begin

text \<open>
  The shared state of the services: the PostgreSQL tables of the payment system as lists of rows
  (the ent schemas under \<open>backend/ent/schema\<close> and the service structs they are read into), the
  Redis keys of the redeem service, the in-process provider registry and load-balancer counter,
  and the calls made to the payment platforms. \<open>ext\<close> collects what the code takes from third
  parties: the decimal library, the numeric columns of PostgreSQL, decryption, JSON decoding and
  the provider SDKs.
\<close>

section \<open>Rows\<close>

record payment_order =
  o_ID :: int
  o_UserID :: int
  o_UserEmail :: string
  o_UserName :: string
  o_UserNotes :: "string option"
  o_Amount :: f64
  o_PayAmount :: f64
  o_FeeRate :: f64
  o_RechargeCode :: string
  o_OutTradeNo :: string
  o_PaymentType :: string
  o_PaymentTradeNo :: string
  o_PayURL :: "string option"
  o_QrCode :: "string option"
  o_OrderType :: string
  o_PlanID :: "int option"
  o_SubscriptionGroupID :: "int option"
  o_SubscriptionDays :: "int option"
  o_ProviderInstanceID :: "string option"
  o_Status :: order_status
  o_RefundAmount :: f64
  o_RefundReason :: "string option"
  o_RefundAt :: "instant option"
  o_ForceRefund :: bool
  o_RefundRequestedAt :: "instant option"
  o_RefundRequestReason :: "string option"
  o_RefundRequestedBy :: "string option"
  o_ExpiresAt :: instant
  o_PaidAt :: "instant option"
  o_CompletedAt :: "instant option"
  o_FailedAt :: "instant option"
  o_FailedReason :: "string option"
  o_ClientIP :: string
  o_SrcHost :: string
  o_SrcURL :: "string option"
  o_CreatedAt :: instant
  o_UpdatedAt :: instant

record audit_log =
  a_OrderID :: string
  a_Action :: string
  a_Operator :: string
  a_CreatedAt :: instant

text \<open>Balances are numeric columns, so the stored value is a rational; a service reads it as the
  nearest \<open>float64\<close>.\<close>

record user =
  u_ID :: int
  u_Email :: string
  u_Username :: string
  u_Notes :: string
  u_Role :: string
  u_Balance :: rat
  u_TotalRecharged :: rat
  u_Concurrency :: int
  u_Status :: string
  u_InviterID :: "int option"
  u_CommissionRate :: f64
  u_ChannelPartnerID :: "int option"
  u_AgentOwnerID :: "int option"
  u_DistributorOwnerID :: "int option"

record group =
  g_ID :: int
  g_Name :: string
  g_Status :: string
  g_SubscriptionType :: string
  g_DailyLimitUSD :: "f64 option"
  g_WeeklyLimitUSD :: "f64 option"
  g_MonthlyLimitUSD :: "f64 option"

datatype code_status = Unused | Used

record redeem_code =
  rc_ID :: int
  rc_Code :: string
  rc_Type :: string
  rc_Value :: f64
  rc_Status :: code_status
  rc_UsedBy :: "int option"
  rc_UsedAt :: "instant option"
  rc_Notes :: string
  rc_CreatedAt :: instant
  rc_GroupID :: "int option"
  rc_ValidityDays :: int

datatype sub_status = SubActive | SubExpired | SubSuspended

record user_subscription =
  us_ID :: int
  us_UserID :: int
  us_GroupID :: int
  us_StartsAt :: instant
  us_ExpiresAt :: instant
  us_Status :: sub_status
  us_DailyWindowStart :: "instant option"
  us_WeeklyWindowStart :: "instant option"
  us_MonthlyWindowStart :: "instant option"
  us_DailyUsageUSD :: f64
  us_WeeklyUsageUSD :: f64
  us_MonthlyUsageUSD :: f64
  us_AssignedBy :: "int option"
  us_AssignedAt :: instant
  us_Notes :: string

record provider_instance =
  pi_ID :: int
  pi_ProviderKey :: string
  pi_Config :: string
  pi_SupportedTypes :: string
  pi_Enabled :: bool
  pi_PaymentMode :: string
  pi_SortOrder :: int
  pi_Limits :: string
  pi_RefundEnabled :: bool
  pi_AllowUserRefund :: bool

record subscription_plan =
  pl_ID :: int
  pl_GroupID :: int
  pl_Name :: string
  pl_Price :: f64
  pl_ValidityDays :: int
  pl_ValidityUnit :: string
  pl_ProductName :: string
  pl_ForSale :: bool

record commission_log =
  cl_UserID :: int
  cl_InviteeID :: "int option"
  cl_OrderID :: "int option"
  cl_Amount :: f64
  cl_Status :: string

record promotion_relation =
  pr_UserID :: int
  pr_ChannelPartnerUserID :: "int option"
  pr_AgentUserID :: "int option"
  pr_DistributorUserID :: "int option"
  pr_DirectParentUserID :: "int option"
  pr_DirectParentRole :: string
  pr_BindingSource :: string
  pr_IsLocked :: bool

record commission_rule =
  cu_ID :: int
  cu_Name :: string
  cu_Status :: string
  cu_CalcMode :: string
  cu_ChannelPartnerTargetRate :: f64
  cu_AgentTargetRate :: f64
  cu_DistributorTargetRate :: f64
  cu_FreezeHours :: int
  cu_SettlementMode :: string
  cu_ScopeType :: string
  cu_Priority :: int
  cu_EffectiveAt :: "instant option"
  cu_ExpiredAt :: "instant option"
  cu_CreatedAt :: instant

record split_log =
  sl_OrderID :: int
  sl_ConsumerUserID :: int
  sl_BeneficiaryUserID :: int
  sl_BeneficiaryRole :: string
  sl_ChannelPartnerUserID :: "int option"
  sl_AgentUserID :: "int option"
  sl_DistributorUserID :: "int option"
  sl_Level :: int
  sl_CalcMode :: string
  sl_BaseAmount :: f64
  sl_TargetRate :: f64
  sl_ParentRate :: f64
  sl_CommissionAmount :: f64
  sl_Status :: string
  sl_RuleID :: int

section \<open>The store\<close>

record store =
  orders :: "payment_order list"
  nextOrder :: int
  audits :: "audit_log list"
  users :: "user list"
  groups :: "group list"
  codes :: "redeem_code list"
  nextCode :: int
  subs :: "user_subscription list"
  nextSub :: int
  insts :: "provider_instance list"
  plans :: "subscription_plan list"
  clogs :: "commission_log list"
  relations :: "promotion_relation list"
  rules :: "commission_rule list"
  nextRule :: int
  splits :: "split_log list"
  redeemAttempts :: "int \<Rightarrow> int"
  redeemLocks :: "string set"
  subCache :: "((int \<times> int) \<times> user_subscription) list"
  registry :: "(string \<times> provider) list"
  providersLoaded :: bool
  lbCounter :: "64 word"
  gwCalls :: "gw_call list"

type_synonym 'a sp = "(store, 'a) prog"
type_synonym 'a se = "(store, 'a) eprog"

section \<open>Third-party code\<close>

record channel_limits =
  lim_DailyLimit :: f64
  lim_SingleMin :: f64
  lim_SingleMax :: f64

record ext =
  x_sqlAdd :: "rat \<Rightarrow> f64 \<Rightarrow> rat"
  x_sqlSum :: "f64 list \<Rightarrow> f64"
  x_col2 :: "f64 \<Rightarrow> f64"
  x_col8 :: "f64 \<Rightarrow> f64"
  x_decFloat :: "f64 \<Rightarrow> rat"
  x_decDiv :: "rat \<Rightarrow> rat \<Rightarrow> rat"
  x_decRound :: "rat \<Rightarrow> rat"
  x_decRoundUp :: "rat \<Rightarrow> rat"
  x_decFixed :: "rat \<Rightarrow> string"
  x_decToFloat :: "rat \<Rightarrow> f64"
  x_decrypt :: "string \<Rightarrow> go_err + config"
  x_limits :: "string \<Rightarrow> (string \<times> channel_limits) list option"
  x_createProvider :: "string \<Rightarrow> string \<Rightarrow> config \<Rightarrow> go_err + provider"
  x_redis :: bool
  x_subCache :: bool
  x_zone :: int

section \<open>Statements on the tables\<close>

text \<open>An ent query for one row fails with ent's \<open>NotFoundError\<close>; repositories translate it.\<close>

definition entNotFound :: go_err where
  "entNotFound = ErrorNew ''ent: not found''"

definition orderGet :: "int \<Rightarrow> payment_order se" where
  "orderGet i = exec (\<lambda>d. (case tget (\<lambda>po. o_ID po = i) (orders d) of
       None \<Rightarrow> Inl entNotFound | Some po \<Rightarrow> Inr po, d))"

text \<open>\<open>Query().Where(OutTradeNo(n)).Only(ctx)\<close>: exactly one row, otherwise an error.\<close>

definition orderByOutTradeNo :: "string \<Rightarrow> payment_order se" where
  "orderByOutTradeNo n = exec (\<lambda>d. (case filter (\<lambda>po. o_OutTradeNo po = n) (orders d) of
       [po] \<Rightarrow> Inr po | _ \<Rightarrow> Inl entNotFound, d))"

text \<open>\<open>PaymentOrder.Update().Where(p).Set...\<close>: the number of rows changed. ent stamps
  \<open>updated_at\<close> with the current time.\<close>

definition orderUpdate :: "(payment_order \<Rightarrow> bool) \<Rightarrow> (payment_order \<Rightarrow> payment_order) \<Rightarrow> nat se" where
  "orderUpdate p f = do {
     t \<leftarrow> timeNow;
     exec (\<lambda>d. (Inr (tcount p (orders d)),
       d\<lparr>orders := tupd p (\<lambda>po. (f po)\<lparr>o_UpdatedAt := t\<rparr>) (orders d)\<rparr>))
   }"

text \<open>\<open>PaymentOrder.UpdateOneID(id)\<close>: fails when there is no such row.\<close>

definition orderUpdateOne :: "int \<Rightarrow> (payment_order \<Rightarrow> payment_order) \<Rightarrow> payment_order se" where
  "orderUpdateOne i f = do {
     t \<leftarrow> timeNow;
     exec (\<lambda>d. (let os = tupd (\<lambda>po. o_ID po = i) (\<lambda>po. (f po)\<lparr>o_UpdatedAt := t\<rparr>) (orders d)
                in (case tget (\<lambda>po. o_ID po = i) os of None \<Rightarrow> Inl entNotFound | Some po \<Rightarrow> Inr po,
                    d\<lparr>orders := os\<rparr>)))
   }"

definition writeAuditLog :: "int \<Rightarrow> string \<Rightarrow> string \<Rightarrow> unit sp" where
  "writeAuditLog oid action op = do {
     t \<leftarrow> timeNow;
     r \<leftarrow> exec (\<lambda>d. (Inr (), d\<lparr>audits := audits d @
       [\<lparr>a_OrderID = formatInt oid, a_Action = action, a_Operator = op, a_CreatedAt = t\<rparr>]\<rparr>));
     ret ()
   }"

definition hasAuditLog :: "int \<Rightarrow> string \<Rightarrow> bool sp" where
  "hasAuditLog oid action = do {
     r \<leftarrow> query (\<lambda>d. tcount (\<lambda>a. a_OrderID a = formatInt oid \<and> a_Action a = action) (audits d));
     ret (case r of Inl e \<Rightarrow> False | Inr c \<Rightarrow> 0 < c)
   }"

section \<open>User repository\<close>

definition ErrUserNotFound :: go_err where
  "ErrUserNotFound = NotFound ''USER_NOT_FOUND'' ''user not found''"

definition userGetByID :: "int \<Rightarrow> user se" where
  "userGetByID i = exec (\<lambda>d. (case tget (\<lambda>u. u_ID u = i) (users d) of
       None \<Rightarrow> Inl (withCause ErrUserNotFound entNotFound) | Some u \<Rightarrow> Inr u, d))"

text \<open>The balance a service sees.\<close>

definition readBalance :: "user \<Rightarrow> f64" where
  "readBalance u = rnd (u_Balance u)"

definition addBalance :: "ext \<Rightarrow> f64 \<Rightarrow> user \<Rightarrow> user" where
  "addBalance x amount u =
     (let u' = u\<lparr>u_Balance := x_sqlAdd x (u_Balance u) amount\<rparr>
      in if flt fzero amount then u'\<lparr>u_TotalRecharged := x_sqlAdd x (u_TotalRecharged u) amount\<rparr> else u')"

text \<open>The effect of \<open>UpdateBalance\<close> on the table, and the statement itself.\<close>

definition balanceStmt :: "ext \<Rightarrow> int \<Rightarrow> f64 \<Rightarrow> store \<Rightarrow> (go_err + unit) \<times> store" where
  "balanceStmt x i amount d =
     (if tcount (\<lambda>u. u_ID u = i) (users d) = 0 then (Inl ErrUserNotFound, d)
      else (Inr (), d\<lparr>users := tupd (\<lambda>u. u_ID u = i) (addBalance x amount) (users d)\<rparr>))"

definition UpdateBalance :: "ext \<Rightarrow> int \<Rightarrow> f64 \<Rightarrow> unit se" where
  "UpdateBalance x i amount = exec (balanceStmt x i amount)"

definition DeductBalanceRepo :: "ext \<Rightarrow> int \<Rightarrow> f64 \<Rightarrow> unit se" where
  "DeductBalanceRepo x i amount = exec (\<lambda>d.
     if tcount (\<lambda>u. u_ID u = i) (users d) = 0 then (Inl ErrUserNotFound, d)
     else (Inr (), d\<lparr>users := tupd (\<lambda>u. u_ID u = i)
             (\<lambda>u. u\<lparr>u_Balance := x_sqlAdd x (u_Balance u) (fneg amount)\<rparr>) (users d)\<rparr>))"

definition concurrencyStmt :: "int \<Rightarrow> int \<Rightarrow> store \<Rightarrow> (go_err + unit) \<times> store" where
  "concurrencyStmt i delta d =
     (if tcount (\<lambda>u. u_ID u = i) (users d) = 0 then (Inl ErrUserNotFound, d)
      else (Inr (), d\<lparr>users := tupd (\<lambda>u. u_ID u = i)
              (\<lambda>u. u\<lparr>u_Concurrency := u_Concurrency u + delta\<rparr>) (users d)\<rparr>))"

definition groupGetByID :: "int \<Rightarrow> group se" where
  "groupGetByID i = exec (\<lambda>d. (case tget (\<lambda>g. g_ID g = i) (groups d) of
       None \<Rightarrow> Inl (withCause (NotFound ''GROUP_NOT_FOUND'' ''group not found'') entNotFound) | Some g \<Rightarrow> Inr g, d))"

text \<open>A call to a payment platform, recorded.\<close>

definition gwCall :: "gw_call \<Rightarrow> unit sp" where
  "gwCall c = modify (\<lambda>d. d\<lparr>gwCalls := gwCalls d @ [c]\<rparr>)"

end
