(* ===== verification/Samples.thy ===== *)
theory Samples
  imports Store
begin

text \<open>
  Concrete inputs for the witnesses of the properties: one user, one subscription group, one provider
  instance, one order, a payment platform that answers as it is told, and numeric columns that round to their
  scale.
\<close>

definition toScale :: "nat \<Rightarrow> f64 \<Rightarrow> rat" where
  "toScale n v = (case v of F64 q \<Rightarrow> of_int (rne (q * 10 ^ n)) / 10 ^ n | _ \<Rightarrow> 0)"

definition sampleProvider :: "string \<Rightarrow> string \<Rightarrow> bool \<Rightarrow> provider" where
  "sampleProvider key status refunds =
     \<lparr>pv_ProviderKey = key, pv_SupportedTypes = [''alipay''],
      pv_CreatePayment = (\<lambda>r. Inr \<lparr>cr_TradeNo = '''', cr_PayURL = ''u'', cr_QRCode = '''', cr_ClientSecret = ''''\<rparr>),
      pv_QueryOrder = (\<lambda>n. Inr \<lparr>qo_TradeNo = ''T9'', qo_Status = status, qo_Amount = F64 5, qo_PaidAt = ''''\<rparr>),
      pv_Refund = (\<lambda>r. if refunds then Inr \<lparr>rs_RefundID = ''R1'', rs_Status = ''success''\<rparr> else Inl (ErrorNew ''declined'')),
      pv_Cancelable = False\<rparr>"

definition sampleExt :: "string \<Rightarrow> bool \<Rightarrow> ext" where
  "sampleExt status refunds =
     \<lparr>x_sqlAdd = (\<lambda>b v. b + toScale 8 v), x_sqlSum = foldl fadd fzero, x_col2 = (\<lambda>v. v), x_col8 = (\<lambda>v. v),
      x_decFloat = toScale 8, x_decDiv = (\<lambda>a b. a / b), x_decRound = (\<lambda>q. toScale 2 (F64 q)),
      x_decRoundUp = (\<lambda>q. of_int \<lceil>q * 100\<rceil> / 100), x_decFixed = (\<lambda>q. formatInt \<lfloor>q\<rfloor>), x_decToFloat = rnd,
      x_decrypt = (\<lambda>s. Inr []), x_limits = (\<lambda>s. None),
      x_createProvider = (\<lambda>k i c. Inr (sampleProvider k status refunds)),
      x_redis = True, x_subCache = True, x_zone = 0\<rparr>"

definition sampleUser :: user where
  "sampleUser = \<lparr>u_ID = 1, u_Email = ''a@b.c'', u_Username = ''a'', u_Notes = '''', u_Role = ''user'', u_Balance = 10,
     u_TotalRecharged = 10, u_Concurrency = 5, u_Status = ''active'', u_InviterID = None, u_CommissionRate = fzero,
     u_ChannelPartnerID = None, u_AgentOwnerID = None, u_DistributorOwnerID = None\<rparr>"

definition sampleGroup :: group where
  "sampleGroup = \<lparr>g_ID = 2, g_Name = ''pro'', g_Status = ''active'', g_SubscriptionType = ''subscription'',
     g_DailyLimitUSD = Some (F64 10), g_WeeklyLimitUSD = None, g_MonthlyLimitUSD = None\<rparr>"

definition sampleInstance :: provider_instance where
  "sampleInstance = \<lparr>pi_ID = 3, pi_ProviderKey = ''alipay'', pi_Config = ''c'', pi_SupportedTypes = ''alipay'',
     pi_Enabled = True, pi_PaymentMode = '''', pi_SortOrder = 0, pi_Limits = '''', pi_RefundEnabled = True,
     pi_AllowUserRefund = True\<rparr>"

definition sampleOrder :: "order_status \<Rightarrow> payment_order" where
  "sampleOrder st = \<lparr>o_ID = 7, o_UserID = 1, o_UserEmail = ''a@b.c'', o_UserName = ''a'', o_UserNotes = None, o_Amount = F64 5,
     o_PayAmount = F64 5, o_FeeRate = fzero, o_RechargeCode = ''PAY-7-1'', o_OutTradeNo = ''sub2_x'',
     o_PaymentType = ''alipay'', o_PaymentTradeNo = '''', o_PayURL = None, o_QrCode = None, o_OrderType = ''balance'',
     o_PlanID = None, o_SubscriptionGroupID = None, o_SubscriptionDays = None, o_ProviderInstanceID = Some ''3'',
     o_Status = st, o_RefundAmount = fzero, o_RefundReason = None, o_RefundAt = None, o_ForceRefund = False,
     o_RefundRequestedAt = None, o_RefundRequestReason = None, o_RefundRequestedBy = None, o_ExpiresAt = 1800 * nsSecond,
     o_PaidAt = None, o_CompletedAt = None, o_FailedAt = None, o_FailedReason = None, o_ClientIP = '''', o_SrcHost = '''',
     o_SrcURL = None, o_CreatedAt = 0, o_UpdatedAt = 0\<rparr>"

definition sampleSubOrder :: "order_status \<Rightarrow> payment_order" where
  "sampleSubOrder st = (sampleOrder st)\<lparr>o_OrderType := ''subscription'', o_SubscriptionGroupID := Some 2,
     o_SubscriptionDays := Some 30, o_PaidAt := Some 0\<rparr>"

definition sampleStore :: store where
  "sampleStore = \<lparr>orders = [sampleOrder Pending], nextOrder = 8, audits = [], users = [sampleUser], groups = [sampleGroup],
     codes = [], nextCode = 1, subs = [], nextSub = 1, insts = [sampleInstance], plans = [], clogs = [], relations = [],
     rules = [], nextRule = 1, splits = [], redeemAttempts = (\<lambda>_. 0), redeemLocks = {}, subCache = [], registry = [],
     providersLoaded = False, lbCounter = 0, gwCalls = []\<rparr>"

definition sampleWorld :: "store \<Rightarrow> store turn list \<Rightarrow> store world" where
  "sampleWorld d ts = \<lparr>db = d, clock = 600 * nsSecond, ticks = [], script = ts\<rparr>"

lemma rne_numeral [simp]: "rne (numeral k) = numeral k"
  using rne_int [of "numeral k"] by simp

lemma rne_0 [simp]: "rne 0 = 0"
  using rne_int [of 0] by simp

lemma toScale_numeral [simp]: "toScale 8 (F64 (numeral k)) = numeral k"
  using rne_int [of "numeral k * 10 ^ 8"] by (simp add: toScale_def)

lemma sampleWorld_sel [simp]:
  "db (sampleWorld d ts) = d" "clock (sampleWorld d ts) = 600 * nsSecond" "ticks (sampleWorld d ts) = []"
  "script (sampleWorld d ts) = ts"
  by (simp_all add: sampleWorld_def)

lemma relies_sample:
  "(\<And>t d. t \<in> set ts \<Longrightarrow> R d (interfere t d)) \<Longrightarrow> relies R (sampleWorld d ts)"
  by (simp add: relies_def)

text \<open>A script of failures without interference is allowed by every protocol.\<close>

definition faults :: "outcome list \<Rightarrow> store turn list" where
  "faults os = map (Turn (\<lambda>d. d)) os"

lemma relies_faults: "(\<And>d. R d d) \<Longrightarrow> relies R (sampleWorld d (faults os))"
  by (rule relies_sample) (auto simp: faults_def)

lemma sampleStore_sel:
  "audits sampleStore = []" "users sampleStore = [sampleUser]" "groups sampleStore = [sampleGroup]" "codes sampleStore = []"
  "subs sampleStore = []" "nextSub sampleStore = 1" "relations sampleStore = []" "orders sampleStore = [sampleOrder Pending]"
  by (simp_all add: sampleStore_def)

lemma sampleGroup_sel: "g_ID sampleGroup = 2" "g_Status sampleGroup = ''active''" "g_SubscriptionType sampleGroup = ''subscription''"
  by (simp_all add: sampleGroup_def)

lemma sampleSubOrder_sel:
  "o_ID (sampleSubOrder st) = 7" "o_UserID (sampleSubOrder st) = 1" "o_Status (sampleSubOrder st) = st" "o_OrderType (sampleSubOrder st) = ''subscription''"
  "o_SubscriptionGroupID (sampleSubOrder st) = Some 2" "o_SubscriptionDays (sampleSubOrder st) = Some 30" "o_PaidAt (sampleSubOrder st) = Some 0"
  by (simp_all add: sampleSubOrder_def sampleOrder_def)

lemma sampleExt_cache: "x_subCache (sampleExt s b)" "x_redis (sampleExt s b)"
  by (simp_all add: sampleExt_def)

lemmas sample_sel = sampleStore_sel sampleGroup_sel sampleSubOrder_sel

lemma toScale_mono: "p \<le> q \<Longrightarrow> toScale n (F64 p) \<le> toScale n (F64 q)"
  by (simp add: toScale_def divide_right_mono rne_mono)

end
