(* ===== verification/Registry.thy ===== *)
theory Registry
  imports Samples
begin

text \<open>
  \<open>internal/payment/registry.go\<close>: the map from payment types to providers. The association list
  stands for the Go map; its order is the order of an iteration over the map, which Go leaves open.
  The locale \<open>provider_registry\<close> is what the payment service relies on: the result of a lookup
  after a registration. Its lemmas say which provider answers for a type once a whole list of
  providers has been registered, and the registry of the model interprets it.
\<close>

section \<open>The interface\<close>

locale provider_registry =
  fixes register :: "provider \<Rightarrow> 'r \<Rightarrow> 'r"
    and lookup :: "'r \<Rightarrow> string \<Rightarrow> provider option"
    and empty :: 'r
  assumes lookup_empty: "lookup empty t = None"
    and lookup_register:
      "lookup (register p r) t = (if t \<in> set (pv_SupportedTypes p) then Some p else lookup r t)"
begin

lemma lookup_fold_other:
  "(\<forall>p \<in> set ps. t \<notin> set (pv_SupportedTypes p)) \<Longrightarrow> lookup (fold register ps r) t = lookup r t"
  by (induction ps arbitrary: r) (auto simp: lookup_register)

text \<open>The last provider of the list that supports a type answers for it.\<close>

lemma lookup_fold_last:
  assumes "t \<in> set (pv_SupportedTypes p)" and "\<forall>q \<in> set qs. t \<notin> set (pv_SupportedTypes q)"
  shows "lookup (fold register (ps @ p # qs) r) t = Some p"
  using assms by (simp add: lookup_fold_other lookup_register)

lemma lookup_fold_sound:
  "lookup (fold register ps empty) t = Some p \<Longrightarrow> p \<in> set ps \<and> t \<in> set (pv_SupportedTypes p)"
proof (induction ps rule: rev_induct)
  case Nil
  then show ?case by (simp add: lookup_empty)
next
  case (snoc q ps)
  then show ?case by (auto simp: lookup_register split: if_splits)
qed

lemma lookup_fold_complete:
  assumes "p \<in> set ps" and "t \<in> set (pv_SupportedTypes p)"
  shows "\<exists>q \<in> set ps. t \<in> set (pv_SupportedTypes q) \<and> lookup (fold register ps r) t = Some q"
  using assms
proof (induction ps arbitrary: r rule: rev_induct)
  case (snoc q ps)
  then show ?case by (cases "t \<in> set (pv_SupportedTypes q)") (auto simp: lookup_register)
qed simp

end

section \<open>The implementation\<close>

type_synonym registry_map = "(string \<times> provider) list"

fun regPut :: "string \<Rightarrow> provider \<Rightarrow> registry_map \<Rightarrow> registry_map" where
  "regPut t p [] = [(t, p)]"
| "regPut t p ((t', p') # r) = (if t' = t then (t, p) # r else (t', p') # regPut t p r)"

definition NewRegistry :: registry_map where
  "NewRegistry = []"

definition Register :: "provider \<Rightarrow> registry_map \<Rightarrow> registry_map" where
  "Register p r = fold (\<lambda>t. regPut t p) (pv_SupportedTypes p) r"

definition ErrProviderNotFound :: go_err where
  "ErrProviderNotFound = NotFound ''PROVIDER_NOT_FOUND'' ''payment provider not registered''"

definition GetProvider :: "registry_map \<Rightarrow> string \<Rightarrow> go_err + provider" where
  "GetProvider r t = (case map_of r t of None \<Rightarrow> Inl ErrProviderNotFound | Some p \<Rightarrow> Inr p)"

definition GetProviderByKey :: "registry_map \<Rightarrow> string \<Rightarrow> go_err + provider" where
  "GetProviderByKey r key =
     (case List.find (\<lambda>(t, p). pv_ProviderKey p = key) r of
        None \<Rightarrow> Inl ErrProviderNotFound | Some (t, p) \<Rightarrow> Inr p)"

definition GetProviderKey :: "registry_map \<Rightarrow> string \<Rightarrow> string" where
  "GetProviderKey r t = (case map_of r t of None \<Rightarrow> [] | Some p \<Rightarrow> pv_ProviderKey p)"

definition SupportedTypes :: "registry_map \<Rightarrow> string list" where
  "SupportedTypes r = map fst r"

definition Clear :: "registry_map \<Rightarrow> registry_map" where
  "Clear r = []"

lemma map_of_regPut: "map_of (regPut t p r) t' = (if t' = t then Some p else map_of r t')"
  by (induction t p r rule: regPut.induct) auto

lemma map_of_fold_regPut:
  "map_of (fold (\<lambda>t. regPut t p) ts r) t' = (if t' \<in> set ts then Some p else map_of r t')"
  by (induction ts arbitrary: r) (auto simp: map_of_regPut)

interpretation reg: provider_registry Register map_of NewRegistry
  by unfold_locales (auto simp: NewRegistry_def Register_def map_of_fold_regPut)

lemma distinct_regPut: "distinct (map fst r) \<Longrightarrow> distinct (map fst (regPut t p r))"
proof (induction t p r rule: regPut.induct)
  case (2 t p t' p' r)
  then show ?case using map_of_regPut [of t p r t'] by (auto simp: map_of_eq_None_iff [symmetric])
qed simp

text \<open>The registry stays a map: no payment type is listed twice.\<close>

lemma distinct_Register: "distinct (map fst r) \<Longrightarrow> distinct (map fst (Register p r))"
proof -
  have "distinct (map fst (fold (\<lambda>t. regPut t p) ts r))" if "distinct (map fst r)" for ts r
    using that by (induction ts arbitrary: r) (auto intro: distinct_regPut)
  then show "distinct (map fst r) \<Longrightarrow> distinct (map fst (Register p r))"
    by (simp add: Register_def)
qed

text \<open>\<open>GetProviderByKey\<close> succeeds exactly when a registered provider has the key, for any
  order of the iteration over the map.\<close>

lemma GetProviderByKey_iff:
  "(\<exists>p. GetProviderByKey r key = Inr p) \<longleftrightarrow> (\<exists>t p. (t, p) \<in> set r \<and> pv_ProviderKey p = key)"
proof (cases "List.find (\<lambda>(t, p). pv_ProviderKey p = key) r")
  case None
  then have "GetProviderByKey r key = Inl ErrProviderNotFound" by (simp add: GetProviderByKey_def)
  moreover from None have "\<forall>t p. (t, p) \<in> set r \<longrightarrow> pv_ProviderKey p \<noteq> key"
    by (auto simp: find_None_iff)
  ultimately show ?thesis by auto
next
  case (Some tp)
  then have "tp \<in> set r" and "pv_ProviderKey (snd tp) = key"
    by (auto simp: find_Some_iff split_def)
  with Some show ?thesis by (cases tp) (auto simp: GetProviderByKey_def)
qed

lemma GetProviderByKey_Inr:
  assumes "GetProviderByKey r key = Inr p"
  shows "pv_ProviderKey p = key \<and> p \<in> snd ` set r"
proof -
  obtain t where "List.find (\<lambda>(t, p). pv_ProviderKey p = key) r = Some (t, p)"
    using assms by (auto simp: GetProviderByKey_def split: option.splits)
  then have "(t, p) \<in> set r" and "pv_ProviderKey p = key"
    by (auto simp: find_Some_iff intro: nth_mem) (metis nth_mem)
  then show ?thesis by force
qed

section \<open>Properties\<close>

text \<open>After the providers of all instances have been registered in order, a payment type is answered by the
  last of them that supports it; a type is answered exactly when one of them supports it, and then by a provider of the
  list that does.\<close>

theorem GetProvider_loaded:
  "GetProvider (fold Register ps NewRegistry) t =
     (case filter (\<lambda>p. t \<in> set (pv_SupportedTypes p)) ps of [] \<Rightarrow> Inl ErrProviderNotFound | qs \<Rightarrow> Inr (last qs))"
proof (cases "\<exists>p \<in> set ps. t \<in> set (pv_SupportedTypes p)")
  case True
  then obtain ps1 p ps2 where ps: "ps = ps1 @ p # ps2" "t \<in> set (pv_SupportedTypes p)"
    "\<forall>q \<in> set ps2. t \<notin> set (pv_SupportedTypes q)"
    using split_list_last_prop [of ps "\<lambda>p. t \<in> set (pv_SupportedTypes p)"] by blast
  have "map_of (fold Register ps NewRegistry) t = Some p" unfolding ps(1) by (rule reg.lookup_fold_last [OF ps(2,3)])
  moreover have "filter (\<lambda>p. t \<in> set (pv_SupportedTypes p)) ps = filter (\<lambda>p. t \<in> set (pv_SupportedTypes p)) ps1 @ [p]"
    using ps by (simp add: filter_empty_conv)
  ultimately show ?thesis by (cases "filter (\<lambda>p. t \<in> set (pv_SupportedTypes p)) ps1") (simp_all add: GetProvider_def)
next
  case False
  then have "map_of (fold Register ps NewRegistry) t = None"
    using reg.lookup_fold_other [of ps t] reg.lookup_empty [of t] by auto
  moreover have "filter (\<lambda>p. t \<in> set (pv_SupportedTypes p)) ps = []" using False by (auto simp: filter_empty_conv)
  ultimately show ?thesis by (simp add: GetProvider_def)
qed

end
