(* ===== verification/Load_Balancer.thy ===== *)
theory Load_Balancer
  imports Registry "HOL-Library.Multiset"
begin

text \<open>
  \<open>internal/payment/load_balancer.go\<close>: choosing the provider instance for an order. The steps are
  those of the code: query the enabled instances that support the payment type, attach today's
  usage, drop the instances whose limits the order breaks (falling back to all of them), pick by
  strategy, decrypt the configuration.
\<close>

section \<open>Data\<close>

datatype strategy = RoundRobin | LeastAmount | OtherStrategy string

definition strategyOf :: "string \<Rightarrow> strategy" where
  "strategyOf s = (if s = ''round-robin'' then RoundRobin
                   else if s = ''least-amount'' then LeastAmount else OtherStrategy s)"

record instance_candidate =
  ic_inst :: provider_instance
  ic_dailyUsed :: f64

definition noLimits :: channel_limits where
  "noLimits = \<lparr>lim_DailyLimit = fzero, lim_SingleMin = fzero, lim_SingleMax = fzero\<rparr>"

section \<open>Selection\<close>

definition InstanceSupportsType :: "string \<Rightarrow> string \<Rightarrow> bool" where
  "InstanceSupportsType supportedTypes target =
     (supportedTypes = [] \<or>
      list_ex (\<lambda>t. trimSpace t = target) (splitOn (CHR '','') supportedTypes))"

definition instanceMatches :: "string \<Rightarrow> provider_instance \<Rightarrow> bool" where
  "instanceMatches paymentType inst =
     (if paymentType = TypeStripe then pi_ProviderKey inst = TypeStripe
      else InstanceSupportsType (pi_SupportedTypes inst) paymentType)"

definition queryEnabledInstances :: "string \<Rightarrow> string \<Rightarrow> provider_instance list se" where
  "queryEnabledInstances providerKey paymentType =
     bindE
       (query (\<lambda>d. sort_key pi_SortOrder
          (filter (\<lambda>i. pi_Enabled i \<and> (providerKey = [] \<or> pi_ProviderKey i = providerKey)) (insts d))))
       (Errorf ''query provider instances'')
       (\<lambda>instances.
          let matched = filter (instanceMatches paymentType) instances
          in if matched = [] then ret (Inl (ErrorNew (''no enabled instance for payment type '' @ paymentType)))
             else ret (Inr matched))"

definition countsAsUsage :: "order_status \<Rightarrow> bool" where
  "countsAsUsage s \<longleftrightarrow> s \<in> {Pending, Paid, Completed, Recharging}"

definition attachDailyUsage :: "ext \<Rightarrow> provider_instance list \<Rightarrow> instance_candidate list sp" where
  "attachDailyUsage x instances = do {
     now \<leftarrow> timeNow;
     let todayStart = dayStart (x_zone x) now;
     let ids = map (\<lambda>i. formatInt (pi_ID i)) instances;
     r \<leftarrow> query (\<lambda>d. filter (\<lambda>po. (\<exists>i \<in> set ids. o_ProviderInstanceID po = Some i) \<and>
            countsAsUsage (o_Status po) \<and> todayStart \<le> o_CreatedAt po) (orders d));
     let rows = (case r of Inl e \<Rightarrow> [] | Inr os \<Rightarrow> os);
     let used = (\<lambda>i. let mine = filter (\<lambda>po. o_ProviderInstanceID po = Some (formatInt (pi_ID i))) rows
                     in if mine = [] then fzero else x_sqlSum x (map o_PayAmount mine));
     ret (map (\<lambda>i. \<lparr>ic_inst = i, ic_dailyUsed = used i\<rparr>) instances)
   }"

definition getInstanceChannelLimits :: "ext \<Rightarrow> provider_instance \<Rightarrow> string \<Rightarrow> channel_limits" where
  "getInstanceChannelLimits x inst paymentType =
     (if pi_Limits inst = [] then noLimits
      else case x_limits x (pi_Limits inst) of
             None \<Rightarrow> noLimits
           | Some limits \<Rightarrow>
               (let lookupKey = (if pi_ProviderKey inst = TypeStripe then TypeStripe else paymentType)
                in case map_of limits lookupKey of None \<Rightarrow> noLimits | Some cl \<Rightarrow> cl))"

definition withinSingle :: "channel_limits \<Rightarrow> f64 \<Rightarrow> bool" where
  "withinSingle cl amount \<longleftrightarrow>
     \<not> (flt fzero (lim_SingleMin cl) \<and> flt amount (lim_SingleMin cl)) \<and>
     \<not> (flt fzero (lim_SingleMax cl) \<and> flt (lim_SingleMax cl) amount)"

definition accommodates :: "ext \<Rightarrow> string \<Rightarrow> f64 \<Rightarrow> instance_candidate \<Rightarrow> bool" where
  "accommodates x paymentType orderAmount c =
     (let cl = getInstanceChannelLimits x (ic_inst c) paymentType
      in withinSingle cl orderAmount \<and>
         \<not> (flt fzero (lim_DailyLimit cl) \<and>
            flt (lim_DailyLimit cl) (fadd (ic_dailyUsed c) orderAmount)))"

definition filterByLimits :: "ext \<Rightarrow> instance_candidate list \<Rightarrow> string \<Rightarrow> f64 \<Rightarrow> instance_candidate list" where
  "filterByLimits x candidates paymentType orderAmount =
     filter (accommodates x paymentType orderAmount) candidates"

fun pickLeastFrom :: "instance_candidate \<Rightarrow> instance_candidate list \<Rightarrow> instance_candidate" where
  "pickLeastFrom best [] = best"
| "pickLeastFrom best (c # cs) =
     pickLeastFrom (if flt (ic_dailyUsed c) (ic_dailyUsed best) then c else best) cs"

definition pickLeastAmount :: "instance_candidate list \<Rightarrow> go_err + instance_candidate" where
  "pickLeastAmount candidates = (case candidates of
       [] \<Rightarrow> Inl (GoPanic ''index out of range'') | c # cs \<Rightarrow> Inr (pickLeastFrom c cs))"

text \<open>The index the round-robin strategy takes at a counter value: \<open>counter.Add(1) % len\<close>.\<close>

definition roundRobinIndex :: "64 word \<Rightarrow> nat \<Rightarrow> nat" where
  "roundRobinIndex counter n = unat (counter + 1) mod n"

definition pickByStrategy :: "instance_candidate list \<Rightarrow> strategy \<Rightarrow> instance_candidate se" where
  "pickByStrategy candidates st =
     (if st = LeastAmount \<and> 1 < length candidates then ret (pickLeastAmount candidates)
      else do {
        c \<leftarrow> peek lbCounter;
        _ \<leftarrow> modify (\<lambda>d. d\<lparr>lbCounter := c + 1\<rparr>);
        ret (if candidates = [] then Inl (GoPanic ''integer divide by zero'')
             else Inr (candidates ! roundRobinIndex c (length candidates)))
      })"

fun cfgSet :: "string \<Rightarrow> string \<Rightarrow> config \<Rightarrow> config" where
  "cfgSet k v [] = [(k, v)]"
| "cfgSet k v ((k', v') # c) = (if k' = k then (k, v) # c else (k', v') # cfgSet k v c)"

definition buildSelection :: "ext \<Rightarrow> provider_instance \<Rightarrow> go_err + instance_selection" where
  "buildSelection x selected =
     (case x_decrypt x (pi_Config selected) of
        Inl e \<Rightarrow> Inl (Errorf (''decrypt instance '' @ formatInt (pi_ID selected) @ '' config'') e)
      | Inr config \<Rightarrow>
          Inr \<lparr>sel_InstanceID = formatInt (pi_ID selected),
               sel_ProviderKey = pi_ProviderKey selected,
               sel_Config = (if pi_PaymentMode selected \<noteq> []
                             then cfgSet ''paymentMode'' (pi_PaymentMode selected) config else config),
               sel_SupportedTypes = pi_SupportedTypes selected,
               sel_PaymentMode = pi_PaymentMode selected\<rparr>)"

definition availableCandidates :: "ext \<Rightarrow> instance_candidate list \<Rightarrow> string \<Rightarrow> f64 \<Rightarrow> instance_candidate list" where
  "availableCandidates x candidates paymentType orderAmount =
     (let available = filterByLimits x candidates paymentType orderAmount
      in if available = [] then candidates else available)"

definition SelectInstance :: "ext \<Rightarrow> string \<Rightarrow> string \<Rightarrow> strategy \<Rightarrow> f64 \<Rightarrow> instance_selection se" where
  "SelectInstance x providerKey paymentType st orderAmount =
     bindE (queryEnabledInstances providerKey paymentType) id (\<lambda>instances. do {
       candidates \<leftarrow> attachDailyUsage x instances;
       bindE (pickByStrategy (availableCandidates x candidates paymentType orderAmount) st) id
         (\<lambda>selected. ret (buildSelection x (ic_inst selected)))
     })"

definition GetInstanceConfig :: "ext \<Rightarrow> int \<Rightarrow> config se" where
  "GetInstanceConfig x instanceID =
     bindE
       (exec (\<lambda>d. (case tget (\<lambda>i. pi_ID i = instanceID) (insts d) of
          None \<Rightarrow> Inl entNotFound | Some i \<Rightarrow> Inr i, d)))
       (Errorf (''get instance '' @ formatInt instanceID))
       (\<lambda>inst. ret (x_decrypt x (pi_Config inst)))"

section \<open>Lemmas\<close>

lemma InstanceSupportsType_empty: "InstanceSupportsType [] t"
  by (simp add: InstanceSupportsType_def)

lemma pickLeastFrom_mem: "pickLeastFrom b cs \<in> set (b # cs)"
  by (induction b cs rule: pickLeastFrom.induct) (auto split: if_splits)

lemma pickLeastFrom_cases:
  "ic_dailyUsed (pickLeastFrom b cs) = ic_dailyUsed b \<or>
   flt (ic_dailyUsed (pickLeastFrom b cs)) (ic_dailyUsed b)"
proof (induction b cs rule: pickLeastFrom.induct)
  case (2 b c cs)
  then show ?case by (cases "flt (ic_dailyUsed c) (ic_dailyUsed b)") (auto dest: flt_trans)
qed simp

lemma pickLeastFrom_min:
  "c \<in> set (b # cs) \<Longrightarrow> \<not> flt (ic_dailyUsed c) (ic_dailyUsed (pickLeastFrom b cs))"
proof (induction b cs rule: pickLeastFrom.induct)
  case (2 b x xs)
  let ?b = "if flt (ic_dailyUsed x) (ic_dailyUsed b) then x else b"
  note le = pickLeastFrom_cases [of ?b xs]
  consider "c \<in> set xs" | "c = ?b" | "c \<noteq> ?b" "c = b \<or> c = x" using 2 by fastforce
  then show ?case
  proof cases
    case 1
    then have "c \<in> set (?b # xs)" by simp
    from "2.IH" [OF this] show ?thesis by simp
  next
    case 2
    with le show ?thesis by (auto dest: flt_asym)
  next
    case 3
    then have "\<not> flt (ic_dailyUsed c) (ic_dailyUsed ?b)"
      by (auto split: if_splits dest: flt_asym)
    with le show ?thesis by (auto dest: flt_trans)
  qed
qed auto

lemma availableCandidates_subset: "set (availableCandidates x cs pt a) \<subseteq> set cs"
  by (auto simp: availableCandidates_def filterByLimits_def Let_def)

lemma availableCandidates_nonempty: "cs \<noteq> [] \<Longrightarrow> availableCandidates x cs pt a \<noteq> []"
  by (simp add: availableCandidates_def Let_def)

lemma availableCandidates_limits:
  "c \<in> set cs \<Longrightarrow> accommodates x pt a c \<Longrightarrow> c' \<in> set (availableCandidates x cs pt a) \<Longrightarrow>
   accommodates x pt a c'"
  by (auto simp: availableCandidates_def filterByLimits_def Let_def filter_empty_conv split: if_splits)

lemma map_of_cfgSet: "map_of (cfgSet k v c) k' = (if k' = k then Some v else map_of c k')"
  by (induction k v c rule: cfgSet.induct) auto

section \<open>Properties\<close>

lemma yields_queryEnabled:
  "yields (queryEnabledInstances key pt) (\<lambda>r. (\<forall>m. r \<noteq> Inl (GoPanic m)) \<and> r \<noteq> Inr [])"
  unfolding queryEnabledInstances_def Let_def by (intro yields_bindE yields_if yields_ret) auto

lemma yields_attach: "is \<noteq> [] \<Longrightarrow> yields (attachDailyUsage x is) (\<lambda>cs. cs \<noteq> [])"
  unfolding attachDailyUsage_def Let_def by (intro yields_bind yields_ret) simp

lemma yields_pick:
  "cs \<noteq> [] \<Longrightarrow> yields (pickByStrategy cs st) (\<lambda>r. \<exists>c \<in> set cs. r = Inr c)"
proof -
  assume ne: "cs \<noteq> []"
  then obtain b bs where cs: "cs = b # bs" by (cases cs) auto
  have "\<exists>c \<in> set cs. pickLeastAmount cs = Inr c"
    using pickLeastFrom_mem [of b bs] by (simp only: cs pickLeastAmount_def list.case) blast
  with ne show ?thesis
    unfolding pickByStrategy_def
    by (intro yields_if yields_bind yields_ret) (simp_all add: roundRobinIndex_def)
qed

text \<open>Selecting an instance never panics, whatever the instances, the strategy, the counter and the failures of
  the database: neither the division by the number of candidates nor the indexing can go wrong.\<close>

theorem SelectInstance_no_panic:
  "yields (SelectInstance x providerKey paymentType st amount) (\<lambda>r. \<forall>m. r \<noteq> Inl (GoPanic m))"
proof -
  have b: "\<forall>m. buildSelection x i \<noteq> Inl (GoPanic m)" for i
    by (simp add: buildSelection_def split: sum.splits)
  have p: "yields (bindE (pickByStrategy (availableCandidates x cs paymentType amount) st) id
      (\<lambda>c. ret (buildSelection x (ic_inst c)))) (\<lambda>r. \<forall>m. r \<noteq> Inl (GoPanic m))" if "cs \<noteq> []" for cs
    by (rule yields_bindE_cond [OF yields_pick [OF availableCandidates_nonempty [OF that]]])
       (auto simp: b intro!: yields_ret)
  show ?thesis
    unfolding SelectInstance_def
    by (rule yields_bindE_cond [OF yields_queryEnabled yields_bind_cond [OF yields_attach p]]) auto
qed

text \<open>The candidates of a selection in a world without faults.\<close>

definition candidatesIn :: "ext \<Rightarrow> store world \<Rightarrow> string \<Rightarrow> string \<Rightarrow> instance_candidate list" where
  "candidatesIn x w providerKey paymentType =
     fst (run_state (attachDailyUsage x (filter (instanceMatches paymentType) (sort_key pi_SortOrder
       (filter (\<lambda>i. pi_Enabled i \<and> (providerKey = [] \<or> pi_ProviderKey i = providerKey)) (insts (db w)))))) w)"


lemma attach_inst: "c \<in> set (fst (run_state (attachDailyUsage x is) w)) \<Longrightarrow> ic_inst c \<in> set is"
  by (auto simp: attachDailyUsage_def Let_def split: prod.splits sum.splits)

text \<open>The instance that is selected is enabled, belongs to the requested provider and supports the payment
  type; and when some candidate can take the order within its single and daily limits, the selected one can.\<close>

theorem SelectInstance_sound:
  assumes "quiet w" and "fst (run_state (SelectInstance x providerKey paymentType st amount) w) = Inr sel"
  shows "\<exists>c \<in> set (candidatesIn x w providerKey paymentType).
     sel_InstanceID sel = formatInt (pi_ID (ic_inst c)) \<and> sel_ProviderKey sel = pi_ProviderKey (ic_inst c) \<and>
     pi_Enabled (ic_inst c) \<and> (providerKey = [] \<or> pi_ProviderKey (ic_inst c) = providerKey) \<and>
     instanceMatches paymentType (ic_inst c) \<and> ic_inst c \<in> set (insts (db w)) \<and>
     ((\<exists>c' \<in> set (candidatesIn x w providerKey paymentType). accommodates x paymentType amount c') \<longrightarrow>
      accommodates x paymentType amount c)"
proof -
  let ?all = "sort_key pi_SortOrder (filter (\<lambda>i. pi_Enabled i \<and> (providerKey = [] \<or> pi_ProviderKey i = providerKey)) (insts (db w)))"
  let ?is = "filter (instanceMatches paymentType) ?all"
  obtain cs w1 where a: "run_state (attachDailyUsage x ?is) w = (cs, w1)" by fastforce
  then have cs: "cs = candidatesIn x w providerKey paymentType" by (simp add: candidatesIn_def)
  have q: "run_state (queryEnabledInstances providerKey paymentType) w =
      (if ?is = [] then Inl (ErrorNew (''no enabled instance for payment type '' @ paymentType)) else Inr ?is, w)"
    using assms(1) by (simp add: queryEnabledInstances_def quiet_def run_simps Let_def)
  then have ne: "?is \<noteq> []" using assms(2) by (auto simp: SelectInstance_def run_bindE)
  have "cs \<noteq> []" using yields_attach [OF ne, of x] a by (simp add: yields_def) (metis fst_conv)
  then have av: "availableCandidates x cs paymentType amount \<noteq> []" by (rule availableCandidates_nonempty)
  obtain r w2 where r: "run_state (pickByStrategy (availableCandidates x cs paymentType amount) st) w1 = (r, w2)" by fastforce
  then obtain c where c: "r = Inr c" "c \<in> set (availableCandidates x cs paymentType amount)"
    using yields_pick [OF av, of st] by (simp add: yields_def) (metis fst_conv)
  have "buildSelection x (ic_inst c) = Inr sel"
    using assms(2) q ne a r c(1) by (simp add: SelectInstance_def run_bindE)
  then have s: "sel_InstanceID sel = formatInt (pi_ID (ic_inst c))" "sel_ProviderKey sel = pi_ProviderKey (ic_inst c)"
    by (auto simp: buildSelection_def split: sum.splits)
  have c': "c \<in> set cs" using c(2) availableCandidates_subset by blast
  then have "ic_inst c \<in> set ?is" using attach_inst [of c x ?is w] a by simp
  moreover have "\<forall>c' \<in> set cs. accommodates x paymentType amount c' \<longrightarrow> accommodates x paymentType amount c"
    using c(2) availableCandidates_limits by blast
  ultimately show ?thesis using s c' cs by auto
qed

text \<open>A selection on the sample data.\<close>

theorem SelectInstance_sound_witness:
  "\<exists>c \<in> set (candidatesIn (sampleExt ''paid'' True) (sampleWorld sampleStore []) '''' ''alipay'').
     ''3'' = formatInt (pi_ID (ic_inst c)) \<and> pi_Enabled (ic_inst c)"
proof -
  let ?w = "sampleWorld sampleStore []" and ?x = "sampleExt ''paid'' True"
  have q: "quiet ?w" by (simp add: quiet_def)
  have "fst (run_state (SelectInstance ?x '''' ''alipay'' RoundRobin (F64 5)) ?w) =
      Inr \<lparr>sel_InstanceID = ''3'', sel_ProviderKey = ''alipay'', sel_Config = [], sel_SupportedTypes = ''alipay'', sel_PaymentMode = ''''\<rparr>"
    by code_simp
  from SelectInstance_sound [OF q this] show ?thesis by auto
qed

text \<open>The least-amount strategy picks a candidate, and no candidate has used less today.\<close>

theorem pickLeastAmount_least:
  assumes "cs \<noteq> []"
  shows "\<exists>c \<in> set cs. pickLeastAmount cs = Inr c \<and> (\<forall>c' \<in> set cs. \<not> flt (ic_dailyUsed c') (ic_dailyUsed c))"
proof -
  obtain b bs where cs: "cs = b # bs" using assms by (cases cs) auto
  have "pickLeastFrom b bs \<in> set cs" using pickLeastFrom_mem [of b bs] cs by simp
  moreover have "\<forall>c' \<in> set cs. \<not> flt (ic_dailyUsed c') (ic_dailyUsed (pickLeastFrom b bs))"
    using pickLeastFrom_min [of _ b bs] cs by blast
  ultimately show ?thesis by (simp add: cs pickLeastAmount_def)
qed

definition sampleCandidate :: "int \<Rightarrow> f64 \<Rightarrow> instance_candidate" where
  "sampleCandidate i v = \<lparr>ic_inst = sampleInstance\<lparr>pi_ID := i\<rparr>, ic_dailyUsed = v\<rparr>"

theorem pickLeastAmount_least_witness:
  "\<exists>c \<in> set [sampleCandidate 1 (F64 5), sampleCandidate 2 (F64 3)].
     pickLeastAmount [sampleCandidate 1 (F64 5), sampleCandidate 2 (F64 3)] = Inr c \<and> ic_dailyUsed c = F64 3"
  using pickLeastAmount_least [of "[sampleCandidate 1 (F64 5), sampleCandidate 2 (F64 3)]"]
  by (simp add: sampleCandidate_def)

text \<open>Round robin.\<close>

fun pickMany :: "nat \<Rightarrow> instance_candidate list \<Rightarrow> strategy \<Rightarrow> instance_candidate list se" where
  "pickMany 0 cs st = ret (Inr [])"
| "pickMany (Suc n) cs st = bindE (pickByStrategy cs st) id (\<lambda>c. bindE (pickMany n cs st) id (\<lambda>ps. ret (Inr (c # ps))))"

lemma run_pickMany:
  "cs \<noteq> [] \<Longrightarrow> fst (run_state (pickMany n cs RoundRobin) w) =
     Inr (map (\<lambda>k. cs ! roundRobinIndex (lbCounter (db w) + of_nat k) (length cs)) [0..<n])"
proof (induction n arbitrary: w)
  case (Suc n)
  let ?w = "w\<lparr>db := (db w)\<lparr>lbCounter := lbCounter (db w) + 1\<rparr>\<rparr>"
  have "run_state (pickByStrategy cs RoundRobin) w = (Inr (cs ! roundRobinIndex (lbCounter (db w)) (length cs)), ?w)"
    using Suc.prems by (simp add: pickByStrategy_def)
  moreover obtain w' where "run_state (pickMany n cs RoundRobin) ?w =
      (Inr (map (\<lambda>k. cs ! roundRobinIndex (lbCounter (db w) + 1 + of_nat k) (length cs)) [0..<n]), w')"
    using Suc.IH [OF Suc.prems, of ?w] by (cases "run_state (pickMany n cs RoundRobin) ?w") simp
  moreover have "[0..<Suc n] = 0 # map Suc [0..<n]" by (simp add: upt_conv_Cons map_Suc_upt del: upt_Suc)
  ultimately show ?case by (simp add: run_bindE comp_def add_ac del: upt_Suc)
qed simp

lemma round_mod:
  fixes n c :: nat
  assumes "0 < n"
  shows "mset (map (\<lambda>k. (c + k) mod n) [0..<n]) = mset [0..<n]"
proof -
  have le: "i \<le> j" if "i < n" "(c + i) mod n = (c + j) mod n" for i j
  proof (rule ccontr)
    assume "\<not> i \<le> j"
    then have "n dvd i - j" using that mod_eq_dvd_iff_nat [of "c + j" "c + i" n] by simp
    with that(1) \<open>\<not> i \<le> j\<close> show False by (auto dest: dvd_imp_le)
  qed
  have inj: "inj_on (\<lambda>k. (c + k) mod n) {0..<n}"
    by (rule inj_onI) (metis atLeastLessThan_iff le le_antisym)
  then have "(\<lambda>k. (c + k) mod n) ` {0..<n} = {0..<n}"
    using assms by (intro endo_inj_surj) auto
  with inj have "image_mset (\<lambda>k. (c + k) mod n) (mset_set {0..<n}) = mset_set {0..<n}"
    by (simp add: image_mset_mset_set)
  then show ?thesis by simp
qed

text \<open>Round robin is fair: as many consecutive picks as there are candidates choose every candidate exactly
  once, as long as the 64-bit counter does not wrap around in between.\<close>

theorem roundRobin_fair:
  assumes "cs \<noteq> []" and "unat (lbCounter (db w)) + length cs < 2 ^ 64"
  shows "\<exists>ps. fst (run_state (pickMany (length cs) cs RoundRobin) w) = Inr ps \<and> mset ps = mset cs"
proof -
  let ?n = "length cs" and ?c = "lbCounter (db w)"
  have idx: "roundRobinIndex (?c + of_nat k) ?n = (unat ?c + 1 + k) mod ?n" if "k < ?n" for k
  proof -
    have "?c + of_nat k + 1 = of_nat (unat ?c + 1 + k)" by simp
    then show ?thesis using that assms(2) unfolding roundRobinIndex_def
      by (simp only: unat_of_nat) (simp add: take_bit_nat_eq_self)
  qed
  let ?ps = "map (\<lambda>k. cs ! roundRobinIndex (?c + of_nat k) ?n) [0..<?n]"
  have "?ps = map ((!) cs) (map (\<lambda>k. (unat ?c + 1 + k) mod ?n) [0..<?n])" using idx by simp
  then have "mset ?ps = image_mset ((!) cs) (mset (map (\<lambda>k. (unat ?c + 1 + k) mod ?n) [0..<?n]))"
    by (simp only: mset_map)
  also have "\<dots> = image_mset ((!) cs) (mset [0..<?n])" using assms(1) by (subst round_mod) simp_all
  also have "\<dots> = mset (map ((!) cs) [0..<?n])" by simp
  also have "\<dots> = mset cs" by (simp add: map_nth)
  finally show ?thesis using run_pickMany [OF assms(1)] by blast
qed

theorem roundRobin_fair_witness:
  "\<exists>ps. fst (run_state (pickMany (length [sampleCandidate 1 fzero, sampleCandidate 2 fzero])
       [sampleCandidate 1 fzero, sampleCandidate 2 fzero] RoundRobin) (sampleWorld sampleStore [])) = Inr ps \<and>
     mset ps = mset [sampleCandidate 1 fzero, sampleCandidate 2 fzero]"
  by (rule roundRobin_fair) (simp_all add: sampleStore_def)

end
