(* ===== verification/Payment_Limits.thy ===== *)
theory Payment_Limits
  imports Load_Balancer
begin

text \<open>
  \<open>internal/service/payment_config_limits.go\<close>: the limits shown to users, the union over the
  provider instances of a payment type, computed by \<open>unionFloat\<close>. The main lemma is that the
  shown range is never narrower than what an instance accepts, so no order an instance would take
  is hidden from the user.
\<close>

section \<open>Definitions\<close>

record method_limits =
  ml_PaymentType :: string
  ml_DailyLimit :: f64
  ml_SingleMin :: f64
  ml_SingleMax :: f64

record method_limits_response =
  mr_Methods :: "(string \<times> method_limits) list"
  mr_GlobalMin :: f64
  mr_GlobalMax :: f64

definition splitTypes :: "string \<Rightarrow> string list" where
  "splitTypes s = (if s = [] then [] else filter (\<lambda>p. p \<noteq> []) (map trimSpace (splitOn (CHR '','') s)))"

text \<open>The local function \<open>add\<close> of \<open>pcGroupByPaymentType\<close>: the \<open>seen\<close> set of a key holds the
  identifiers of the instances already in its group.\<close>

fun addToGroup :: "string \<Rightarrow> provider_instance \<Rightarrow> (string \<times> provider_instance list) list \<Rightarrow>
    (string \<times> provider_instance list) list" where
  "addToGroup key inst [] = [(key, [inst])]"
| "addToGroup key inst ((k, is) # m) =
     (if k = key then (if pi_ID inst \<in> pi_ID ` set is then (k, is) # m else (k, is @ [inst]) # m)
      else (k, is) # addToGroup key inst m)"

definition instanceKeys :: "provider_instance \<Rightarrow> string list" where
  "instanceKeys inst = (if pi_ProviderKey inst = TypeStripe then [TypeStripe]
                        else splitTypes (pi_SupportedTypes inst))"

definition pcGroupByPaymentType :: "provider_instance list \<Rightarrow> (string \<times> provider_instance list) list" where
  "pcGroupByPaymentType instances =
     fold (\<lambda>inst m. fold (\<lambda>t m. addToGroup t inst m) (instanceKeys inst) m) instances []"

definition pcInstanceTypeLimits :: "ext \<Rightarrow> provider_instance \<Rightarrow> string \<Rightarrow> channel_limits option" where
  "pcInstanceTypeLimits x inst pt =
     (if pi_Limits inst = [] then None
      else case x_limits x (pi_Limits inst) of None \<Rightarrow> None | Some limits \<Rightarrow> map_of limits pt)"

definition unionFloat :: "f64 \<Rightarrow> bool \<Rightarrow> f64 \<Rightarrow> bool \<Rightarrow> f64 \<times> bool" where
  "unionFloat agg limited val wantMin =
     (if feq val fzero then (agg, False)
      else if \<not> limited then (agg, False)
      else if feq agg fzero then (val, True)
      else if wantMin \<and> flt val agg then (val, True)
      else if \<not> wantMin \<and> flt agg val then (val, True)
      else (agg, True))"

record agg_state =
  ag_min :: "f64 \<times> bool"
  ag_max :: "f64 \<times> bool"
  ag_daily :: "f64 \<times> bool"

definition aggInit :: agg_state where
  "aggInit = \<lparr>ag_min = (fzero, True), ag_max = (fzero, True), ag_daily = (fzero, True)\<rparr>"

text \<open>The loop of \<open>pcAggregateMethodLimits\<close>; \<open>None\<close> is its early return of the all-zero
  limits at the first instance without limits.\<close>

fun aggLoop :: "ext \<Rightarrow> string \<Rightarrow> provider_instance list \<Rightarrow> agg_state \<Rightarrow> agg_state option" where
  "aggLoop x pt [] s = Some s"
| "aggLoop x pt (inst # is) s =
     (case pcInstanceTypeLimits x inst pt of
        None \<Rightarrow> None
      | Some cl \<Rightarrow>
          aggLoop x pt is
            \<lparr>ag_min = unionFloat (fst (ag_min s)) (snd (ag_min s)) (lim_SingleMin cl) True,
             ag_max = unionFloat (fst (ag_max s)) (snd (ag_max s)) (lim_SingleMax cl) False,
             ag_daily = unionFloat (fst (ag_daily s)) (snd (ag_daily s)) (lim_DailyLimit cl) False\<rparr>)"

definition orZero :: "f64 \<times> bool \<Rightarrow> f64" where
  "orZero r = (if snd r then fst r else fzero)"

definition pcAggregateMethodLimits :: "ext \<Rightarrow> string \<Rightarrow> provider_instance list \<Rightarrow> method_limits" where
  "pcAggregateMethodLimits x pt instances =
     (case aggLoop x pt instances aggInit of
        None \<Rightarrow> \<lparr>ml_PaymentType = pt, ml_DailyLimit = fzero, ml_SingleMin = fzero, ml_SingleMax = fzero\<rparr>
      | Some s \<Rightarrow> \<lparr>ml_PaymentType = pt, ml_DailyLimit = orZero (ag_daily s),
                   ml_SingleMin = orZero (ag_min s), ml_SingleMax = orZero (ag_max s)\<rparr>)"

definition unionAll :: "bool \<Rightarrow> f64 list \<Rightarrow> f64 \<times> bool" where
  "unionAll wantMin vs = foldl (\<lambda>r v. unionFloat (fst r) (snd r) v wantMin) (fzero, True) vs"

definition pcComputeGlobalRange :: "method_limits list \<Rightarrow> f64 \<times> f64" where
  "pcComputeGlobalRange methods =
     (orZero (unionAll True (map ml_SingleMin methods)),
      orZero (unionAll False (map ml_SingleMax methods)))"

definition GetAvailableMethodLimits :: "ext \<Rightarrow> method_limits_response se" where
  "GetAvailableMethodLimits x =
     bindE (query (\<lambda>d. filter pi_Enabled (insts d))) (Errorf ''query provider instances'')
       (\<lambda>instances.
          let methods = map (\<lambda>(pt, is). (pt, pcAggregateMethodLimits x pt is)) (pcGroupByPaymentType instances);
              rng = pcComputeGlobalRange (map snd methods)
          in ret (Inr \<lparr>mr_Methods = methods, mr_GlobalMin = fst rng, mr_GlobalMax = snd rng\<rparr>))"

definition GetMethodLimits :: "ext \<Rightarrow> string list \<Rightarrow> method_limits list se" where
  "GetMethodLimits x types =
     bindE (query (\<lambda>d. filter pi_Enabled (insts d))) (Errorf ''query provider instances'')
       (\<lambda>instances. ret (Inr (map (\<lambda>pt. pcAggregateMethodLimits x pt
          (filter (\<lambda>inst. InstanceSupportsType (pi_SupportedTypes inst) pt) instances)) types)))"

section \<open>The union of limits\<close>

text \<open>A value is a limit (zero means unlimited) that configuration files can hold.\<close>

definition isLimit :: "f64 \<Rightarrow> bool" where
  "isLimit v \<longleftrightarrow> fle fzero v"

lemma isLimit_cases: "isLimit v \<Longrightarrow> v = fzero \<or> flt fzero v"
  by (auto simp: isLimit_def fle_def feq_def)

text \<open>The aggregate of a list of limits is zero when one of them is zero, and otherwise the least
  (greatest) of them.\<close>

definition least_of :: "bool \<Rightarrow> f64 \<Rightarrow> f64 \<Rightarrow> bool" where
  "least_of wantMin a v \<longleftrightarrow> (if wantMin then fle a v else fle v a)"

lemma unionFloat_limited:
  assumes "unionFloat agg ltd v w = (a, True)" and "isLimit v" and "isLimit agg"
  shows "ltd \<and> flt fzero v \<and> flt fzero a \<and> least_of w a v \<and> (feq agg fzero \<or> least_of w a agg) \<and> isLimit a"
proof -
  have v: "\<not> feq v fzero" and l: ltd
    using assms(1) by (auto simp: unionFloat_def split: if_splits)
  from v assms(2) have pos: "flt fzero v" using isLimit_cases [of v] by (auto simp: feq_def)
  have nn: "v \<noteq> NaN" "agg \<noteq> NaN"
    using assms(2,3) by (auto simp: isLimit_def dest: fle_not_NaN)
  show ?thesis
  proof (cases "feq agg fzero")
    case True
    with assms(1) v l have "a = v" by (auto simp: unionFloat_def)
    with pos True l nn assms(2) show ?thesis by (auto simp: least_of_def intro: fle_refl)
  next
    case False
    then have apos: "flt fzero agg" using isLimit_cases [OF assms(3)] by (auto simp: feq_def)
    have "a = (if (w \<and> flt v agg) \<or> (\<not> w \<and> flt agg v) then v else agg)"
      using assms(1) v l False by (auto simp: unionFloat_def split: if_splits)
    with pos apos l nn assms(2,3) show ?thesis
      by (auto simp: least_of_def not_flt [symmetric] dest: flt_asym)
  qed
qed

lemma unionFloat_zero: "unionFloat agg ltd fzero w = (agg, False)"
  by (simp add: unionFloat_def feq_def)

lemma unionFloat_isLimit: "isLimit agg \<Longrightarrow> isLimit v \<Longrightarrow> isLimit (fst (unionFloat agg ltd v w))"
  by (simp add: unionFloat_def)

lemma unionFloat_unlimited: "\<not> snd (unionFloat agg False v w)"
  by (simp add: unionFloat_def)

text \<open>A running aggregate \<open>r\<close> covers a limit \<open>v\<close> it has absorbed.\<close>

definition absorbed :: "bool \<Rightarrow> f64 \<times> bool \<Rightarrow> f64 \<Rightarrow> bool" where
  "absorbed w r v \<longleftrightarrow> isLimit (fst r) \<and> (snd r \<longrightarrow> flt fzero v \<and> flt fzero (fst r) \<and> least_of w (fst r) v)"

lemma absorbed_new:
  "isLimit (fst r) \<Longrightarrow> isLimit v \<Longrightarrow> absorbed w (unionFloat (fst r) (snd r) v w) v"
  using unionFloat_limited [of "fst r" "snd r" v w "fst (unionFloat (fst r) (snd r) v w)"]
    unionFloat_isLimit [of "fst r" v "snd r" w]
  by (cases "unionFloat (fst r) (snd r) v w") (auto simp: absorbed_def)

lemma absorbed_keep:
  assumes "absorbed w r u" and "isLimit v"
  shows "absorbed w (unionFloat (fst r) (snd r) v w) u"
proof -
  obtain a b where ab: "unionFloat (fst r) (snd r) v w = (a, b)" by fastforce
  have i: "isLimit (fst r)" using assms(1) by (simp add: absorbed_def)
  have a: "isLimit a" using unionFloat_isLimit [OF i assms(2), of "snd r" w] ab by simp
  show ?thesis
  proof (cases b)
    case True
    with ab have "unionFloat (fst r) (snd r) v w = (a, True)" by simp
    from unionFloat_limited [OF this assms(2) i]
    have "snd r" "flt fzero a" "feq (fst r) fzero \<or> least_of w a (fst r)" by auto
    with assms(1) ab a True show ?thesis
      by (auto simp: absorbed_def least_of_def feq_def intro: fle_trans split: if_splits)
  next
    case False
    with ab a show ?thesis by (simp add: absorbed_def)
  qed
qed

text \<open>What an aggregate that has absorbed a minimum (maximum) lets through.\<close>

lemma absorbed_min: "absorbed True r v \<Longrightarrow> \<not> (flt fzero v \<and> flt amount v) \<Longrightarrow>
    \<not> (flt fzero (orZero r) \<and> flt amount (orZero r))"
  by (auto simp: absorbed_def least_of_def orZero_def split: if_splits dest: flt_fle_trans)

lemma absorbed_max: "absorbed False r v \<Longrightarrow> \<not> (flt fzero v \<and> flt v amount) \<Longrightarrow>
    \<not> (flt fzero (orZero r) \<and> flt (orZero r) amount)"
  by (auto simp: absorbed_def least_of_def orZero_def split: if_splits dest: fle_flt_trans)

definition limitsOk :: "channel_limits \<Rightarrow> bool" where
  "limitsOk cl \<longleftrightarrow> isLimit (lim_SingleMin cl) \<and> isLimit (lim_SingleMax cl) \<and> isLimit (lim_DailyLimit cl)"

definition configOk :: "ext \<Rightarrow> bool" where
  "configOk x \<longleftrightarrow> (\<forall>s ls. x_limits x s = Some ls \<longrightarrow> (\<forall>p \<in> set ls. limitsOk (snd p)))"

lemma pcInstanceTypeLimits_ok: "configOk x \<Longrightarrow> pcInstanceTypeLimits x inst pt = Some cl \<Longrightarrow> limitsOk cl"
  by (force simp: pcInstanceTypeLimits_def configOk_def split: if_splits option.splits dest: map_of_SomeD)

lemma aggLoop_keeps:
  assumes "configOk x" and "aggLoop x pt is s = Some s'"
    and "absorbed True (ag_min s) mn" and "absorbed False (ag_max s) mx"
  shows "absorbed True (ag_min s') mn \<and> absorbed False (ag_max s') mx"
  using assms
proof (induction x pt "is" s rule: aggLoop.induct)
  case (2 x pt inst "is" s)
  then obtain cl where cl: "pcInstanceTypeLimits x inst pt = Some cl" by (auto split: option.splits)
  with 2 have "limitsOk cl" using pcInstanceTypeLimits_ok by blast
  then have "absorbed True (unionFloat (fst (ag_min s)) (snd (ag_min s)) (lim_SingleMin cl) True) mn"
    and "absorbed False (unionFloat (fst (ag_max s)) (snd (ag_max s)) (lim_SingleMax cl) False) mx"
    using 2 by (auto intro: absorbed_keep simp: limitsOk_def)
  with 2 cl show ?case by simp
qed simp

definition aggOk :: "agg_state \<Rightarrow> bool" where
  "aggOk s \<longleftrightarrow> isLimit (fst (ag_min s)) \<and> isLimit (fst (ag_max s))"

lemma aggLoop_absorbs:
  assumes "configOk x" and "aggLoop x pt is s = Some s'" and "aggOk s"
    and "inst \<in> set is" and "pcInstanceTypeLimits x inst pt = Some cl"
  shows "absorbed True (ag_min s') (lim_SingleMin cl) \<and> absorbed False (ag_max s') (lim_SingleMax cl)"
  using assms
proof (induction x pt "is" s rule: aggLoop.induct)
  case (2 x pt i "is" s)
  then obtain ci where ci: "pcInstanceTypeLimits x i pt = Some ci" by (auto split: option.splits)
  let ?s = "\<lparr>ag_min = unionFloat (fst (ag_min s)) (snd (ag_min s)) (lim_SingleMin ci) True,
             ag_max = unionFloat (fst (ag_max s)) (snd (ag_max s)) (lim_SingleMax ci) False,
             ag_daily = unionFloat (fst (ag_daily s)) (snd (ag_daily s)) (lim_DailyLimit ci) False\<rparr>"
  have ok: "limitsOk ci" using ci 2 pcInstanceTypeLimits_ok by blast
  have run: "aggLoop x pt is ?s = Some s'" using 2 ci by simp
  show ?case
  proof (cases "inst = i")
    case True
    then have "cl = ci" using 2 ci by simp
    moreover have "absorbed True (ag_min ?s) (lim_SingleMin ci)"
      and "absorbed False (ag_max ?s) (lim_SingleMax ci)"
      using ok "2.prems"(3) by (auto intro: absorbed_new simp: limitsOk_def aggOk_def)
    ultimately show ?thesis using aggLoop_keeps [OF "2.prems"(1) run] by simp
  next
    case False
    have "aggOk ?s" using ok "2.prems"(3) by (simp add: aggOk_def limitsOk_def unionFloat_isLimit)
    with False 2 ci run show ?thesis by auto
  qed
qed simp

section \<open>Grouping\<close>

lemma map_of_addToGroup:
  "map_of (addToGroup key inst m) k =
     (if k = key
      then Some (case map_of m key of None \<Rightarrow> [inst]
                 | Some is \<Rightarrow> if pi_ID inst \<in> pi_ID ` set is then is else is @ [inst])
      else map_of m k)"
  by (induction key inst m rule: addToGroup.induct) auto

definition groupsDistinct :: "(string \<times> provider_instance list) list \<Rightarrow> bool" where
  "groupsDistinct m \<longleftrightarrow> (\<forall>k is. map_of m k = Some is \<longrightarrow> distinct (map pi_ID is))"

lemma groupsDistinct_add: "groupsDistinct m \<Longrightarrow> groupsDistinct (addToGroup k i m)"
  by (auto simp: groupsDistinct_def map_of_addToGroup split: option.splits if_splits)

lemma groupsDistinct_fold:
  "groupsDistinct m \<Longrightarrow> groupsDistinct (fold (\<lambda>t m. addToGroup t i m) ks m)"
  by (induction ks arbitrary: m) (auto intro: groupsDistinct_add)

lemma groupsDistinct_group: "groupsDistinct (pcGroupByPaymentType is)"
proof -
  have "groupsDistinct (fold (\<lambda>inst m. fold (\<lambda>t m. addToGroup t inst m) (instanceKeys inst) m) is m)"
    if "groupsDistinct m" for m
    using that by (induction "is" arbitrary: m) (auto intro: groupsDistinct_fold)
  from this [of "[]"] show ?thesis by (simp add: pcGroupByPaymentType_def) (simp add: groupsDistinct_def)
qed

text \<open>Membership of an instance in a group, by identifier.\<close>

definition inGroup :: "(string \<times> provider_instance list) list \<Rightarrow> string \<Rightarrow> int \<Rightarrow> bool" where
  "inGroup m k i \<longleftrightarrow> (\<exists>is. map_of m k = Some is \<and> i \<in> pi_ID ` set is)"

lemma inGroup_add: "inGroup (addToGroup key inst m) k i \<longleftrightarrow> inGroup m k i \<or> (k = key \<and> i = pi_ID inst)"
  by (auto simp: inGroup_def map_of_addToGroup split: option.splits if_splits)

lemma inGroup_fold:
  "inGroup (fold (\<lambda>t m. addToGroup t inst m) ks m) k i \<longleftrightarrow> inGroup m k i \<or> (k \<in> set ks \<and> i = pi_ID inst)"
  by (induction ks arbitrary: m) (auto simp: inGroup_add)

lemma inGroup_group:
  "inGroup (pcGroupByPaymentType is) k i \<longleftrightarrow> (\<exists>inst \<in> set is. k \<in> set (instanceKeys inst) \<and> i = pi_ID inst)"
proof -
  have "inGroup (fold (\<lambda>inst m. fold (\<lambda>t m. addToGroup t inst m) (instanceKeys inst) m) is m) k i \<longleftrightarrow>
      inGroup m k i \<or> (\<exists>inst \<in> set is. k \<in> set (instanceKeys inst) \<and> i = pi_ID inst)" for m
    by (induction "is" arbitrary: m) (auto simp: inGroup_fold)
  then show ?thesis by (simp add: pcGroupByPaymentType_def inGroup_def)
qed

section \<open>Properties\<close>

definition ownLimits :: "ext \<Rightarrow> provider_instance \<Rightarrow> string \<Rightarrow> channel_limits" where
  "ownLimits x inst pt = (case pcInstanceTypeLimits x inst pt of None \<Rightarrow> noLimits | Some cl \<Rightarrow> cl)"

definition shownLimits :: "method_limits \<Rightarrow> channel_limits" where
  "shownLimits m = \<lparr>lim_DailyLimit = ml_DailyLimit m, lim_SingleMin = ml_SingleMin m, lim_SingleMax = ml_SingleMax m\<rparr>"

lemma withinSingle_noLimits: "withinSingle noLimits a"
  by (simp add: withinSingle_def noLimits_def)

text \<open>The limits shown for a payment method are never narrower than what an instance of the method accepts:
  an amount within the single-payment limits of some instance is within the shown limits.\<close>

theorem shown_limits_cover:
  assumes "configOk x" and "inst \<in> set instances" and "withinSingle (ownLimits x inst pt) amount"
  shows "withinSingle (shownLimits (pcAggregateMethodLimits x pt instances)) amount"
proof (cases "aggLoop x pt instances aggInit")
  case None
  then show ?thesis by (simp add: pcAggregateMethodLimits_def shownLimits_def withinSingle_def)
next
  case (Some s)
  have "aggLoop x pt is s0 = None" if "inst \<in> set is" "pcInstanceTypeLimits x inst pt = None" for "is" s0
    using that by (induction x pt "is" s0 rule: aggLoop.induct) (auto split: option.splits)
  with Some assms(2) obtain cl where cl: "pcInstanceTypeLimits x inst pt = Some cl" by fastforce
  have "aggOk aggInit" by (simp add: aggOk_def aggInit_def isLimit_def)
  from aggLoop_absorbs [OF assms(1) Some this assms(2) cl] assms(3) cl Some show ?thesis
    by (auto simp: pcAggregateMethodLimits_def shownLimits_def withinSingle_def ownLimits_def
        dest!: absorbed_min absorbed_max)
qed

theorem shown_limits_cover_witness:
  "withinSingle (shownLimits (pcAggregateMethodLimits (sampleExt ''paid'' True) ''alipay'' [sampleInstance])) (F64 5)"
  by (rule shown_limits_cover [of _ sampleInstance])
     (simp_all add: configOk_def sampleExt_def ownLimits_def pcInstanceTypeLimits_def sampleInstance_def withinSingle_noLimits)

text \<open>Grouping the enabled instances by payment type lists, for every type, exactly the instances that
  serve it (Stripe instances under the one key), each of them once.\<close>

theorem group_by_payment_type:
  "(\<exists>is. map_of (pcGroupByPaymentType instances) pt = Some is \<and> i \<in> pi_ID ` set is) =
     (\<exists>inst \<in> set instances. pt \<in> set (instanceKeys inst) \<and> i = pi_ID inst) \<and>
   (case map_of (pcGroupByPaymentType instances) pt of None \<Rightarrow> True | Some is \<Rightarrow> distinct (map pi_ID is))"
  using inGroup_group [of instances pt i] groupsDistinct_group [of instances]
  by (auto simp: inGroup_def groupsDistinct_def split: option.split)

end
