(* ===== verification/Subscription.thy ===== *)
theory Subscription
  imports Samples
begin

text \<open>
  \<open>internal/service/subscription_service.go\<close>, \<open>user_subscription.go\<close>, the predicates of
  \<open>group.go\<close> and the statements of \<open>repository/user_subscription_repo.go\<close>: assigning, extending,
  shortening and revoking subscriptions, the usage windows and the limit checks of the request
  path. Rows with a \<open>deleted_at\<close> stamp are not in the table. The asynchronous invalidation of the
  billing cache changes nothing that is modelled here and is left out; the L1 cache is the
  association list \<open>subCache\<close>, from which other processes' interference may evict entries.
\<close>

section \<open>Groups\<close>

definition IsSubscriptionType :: "group \<Rightarrow> bool" where
  "IsSubscriptionType g \<longleftrightarrow> g_SubscriptionType g = ''subscription''"

definition hasLimit :: "f64 option \<Rightarrow> bool" where
  "hasLimit l = (case l of None \<Rightarrow> False | Some v \<Rightarrow> flt fzero v)"

definition HasDailyLimit :: "group \<Rightarrow> bool" where
  "HasDailyLimit g = hasLimit (g_DailyLimitUSD g)"

definition HasWeeklyLimit :: "group \<Rightarrow> bool" where
  "HasWeeklyLimit g = hasLimit (g_WeeklyLimitUSD g)"

definition HasMonthlyLimit :: "group \<Rightarrow> bool" where
  "HasMonthlyLimit g = hasLimit (g_MonthlyLimitUSD g)"

section \<open>A subscription row\<close>

definition IsExpired :: "instant \<Rightarrow> user_subscription \<Rightarrow> bool" where
  "IsExpired now s \<longleftrightarrow> us_ExpiresAt s < now"

definition IsActiveSub :: "instant \<Rightarrow> user_subscription \<Rightarrow> bool" where
  "IsActiveSub now s \<longleftrightarrow> us_Status s = SubActive \<and> now < us_ExpiresAt s"

definition DaysRemaining :: "instant \<Rightarrow> instant \<Rightarrow> user_subscription \<Rightarrow> int" where
  "DaysRemaining now now' s =
     (if IsExpired now s then 0 else ftrunc (fdiv (durHours (timeSub (us_ExpiresAt s) now')) (fofint 24)))"

definition IsWindowActivated :: "user_subscription \<Rightarrow> bool" where
  "IsWindowActivated s \<longleftrightarrow>
     us_DailyWindowStart s \<noteq> None \<or> us_WeeklyWindowStart s \<noteq> None \<or> us_MonthlyWindowStart s \<noteq> None"

definition windowDue :: "instant \<Rightarrow> duration \<Rightarrow> instant option \<Rightarrow> bool" where
  "windowDue now len start = (case start of None \<Rightarrow> False | Some t \<Rightarrow> len \<le> timeSub now t)"

definition NeedsDailyReset :: "instant \<Rightarrow> user_subscription \<Rightarrow> bool" where
  "NeedsDailyReset now s = windowDue now (24 * nsHour) (us_DailyWindowStart s)"

definition NeedsWeeklyReset :: "instant \<Rightarrow> user_subscription \<Rightarrow> bool" where
  "NeedsWeeklyReset now s = windowDue now (7 * 24 * nsHour) (us_WeeklyWindowStart s)"

definition NeedsMonthlyReset :: "instant \<Rightarrow> user_subscription \<Rightarrow> bool" where
  "NeedsMonthlyReset now s = windowDue now (30 * 24 * nsHour) (us_MonthlyWindowStart s)"

definition withinLimit :: "f64 option \<Rightarrow> f64 \<Rightarrow> f64 \<Rightarrow> bool" where
  "withinLimit l usage additional =
     (case l of None \<Rightarrow> True | Some v \<Rightarrow> flt fzero v \<longrightarrow> fle (fadd usage additional) v)"

definition CheckDailyLimit :: "user_subscription \<Rightarrow> group \<Rightarrow> f64 \<Rightarrow> bool" where
  "CheckDailyLimit s g c = withinLimit (g_DailyLimitUSD g) (us_DailyUsageUSD s) c"

definition CheckWeeklyLimit :: "user_subscription \<Rightarrow> group \<Rightarrow> f64 \<Rightarrow> bool" where
  "CheckWeeklyLimit s g c = withinLimit (g_WeeklyLimitUSD g) (us_WeeklyUsageUSD s) c"

definition CheckMonthlyLimit :: "user_subscription \<Rightarrow> group \<Rightarrow> f64 \<Rightarrow> bool" where
  "CheckMonthlyLimit s g c = withinLimit (g_MonthlyLimitUSD g) (us_MonthlyUsageUSD s) c"

definition CheckAllLimits :: "user_subscription \<Rightarrow> group \<Rightarrow> f64 \<Rightarrow> bool \<times> bool \<times> bool" where
  "CheckAllLimits s g c = (CheckDailyLimit s g c, CheckWeeklyLimit s g c, CheckMonthlyLimit s g c)"

section \<open>Errors and constants\<close>

text \<open>2099-12-31 23:59:59 UTC.\<close>

definition MaxExpiresAt :: instant where
  "MaxExpiresAt = 4102444799 * nsSecond"

definition MaxValidityDays :: int where
  "MaxValidityDays = 36500"

definition ErrSubscriptionNotFound :: go_err where
  "ErrSubscriptionNotFound = NotFound ''SUBSCRIPTION_NOT_FOUND'' ''subscription not found''"
definition ErrSubscriptionExpired :: go_err where
  "ErrSubscriptionExpired = Forbidden ''SUBSCRIPTION_EXPIRED'' ''subscription has expired''"
definition ErrSubscriptionSuspended :: go_err where
  "ErrSubscriptionSuspended = Forbidden ''SUBSCRIPTION_SUSPENDED'' ''subscription is suspended''"
definition ErrSubscriptionAlreadyExists :: go_err where
  "ErrSubscriptionAlreadyExists = Conflict ''SUBSCRIPTION_ALREADY_EXISTS'' ''subscription already exists for this user and group''"
definition ErrSubscriptionAssignConflict :: go_err where
  "ErrSubscriptionAssignConflict = Conflict ''SUBSCRIPTION_ASSIGN_CONFLICT'' ''subscription exists but request conflicts with existing assignment semantics''"
definition ErrGroupNotSubscriptionType :: go_err where
  "ErrGroupNotSubscriptionType = BadRequest ''GROUP_NOT_SUBSCRIPTION_TYPE'' ''group is not a subscription type''"
definition ErrDailyLimitExceeded :: go_err where
  "ErrDailyLimitExceeded = TooManyRequests ''DAILY_LIMIT_EXCEEDED'' ''daily usage limit exceeded''"
definition ErrWeeklyLimitExceeded :: go_err where
  "ErrWeeklyLimitExceeded = TooManyRequests ''WEEKLY_LIMIT_EXCEEDED'' ''weekly usage limit exceeded''"
definition ErrMonthlyLimitExceeded :: go_err where
  "ErrMonthlyLimitExceeded = TooManyRequests ''MONTHLY_LIMIT_EXCEEDED'' ''monthly usage limit exceeded''"
definition ErrAdjustWouldExpire :: go_err where
  "ErrAdjustWouldExpire = BadRequest ''ADJUST_WOULD_EXPIRE'' ''adjustment would result in expired subscription (remaining days must be > 0)''"

lemmas sub_err_defs = ErrSubscriptionNotFound_def ErrSubscriptionExpired_def
  ErrSubscriptionSuspended_def ErrSubscriptionAlreadyExists_def ErrSubscriptionAssignConflict_def
  ErrGroupNotSubscriptionType_def ErrDailyLimitExceeded_def ErrWeeklyLimitExceeded_def
  ErrMonthlyLimitExceeded_def ErrAdjustWouldExpire_def

section \<open>Statements of the repository\<close>

definition subUpdateStmt :: "int \<Rightarrow> (user_subscription \<Rightarrow> user_subscription) \<Rightarrow> store \<Rightarrow> (go_err + unit) \<times> store" where
  "subUpdateStmt i f d =
     (if tcount (\<lambda>s. us_ID s = i) (subs d) = 0
      then (Inl (withCause ErrSubscriptionNotFound entNotFound), d)
      else (Inr (), d\<lparr>subs := tupd (\<lambda>s. us_ID s = i) f (subs d)\<rparr>))"

definition ExtendExpiryStmt :: "int \<Rightarrow> instant \<Rightarrow> store \<Rightarrow> (go_err + unit) \<times> store" where
  "ExtendExpiryStmt i t = subUpdateStmt i (\<lambda>s. s\<lparr>us_ExpiresAt := t\<rparr>)"

definition UpdateStatusStmt :: "int \<Rightarrow> sub_status \<Rightarrow> store \<Rightarrow> (go_err + unit) \<times> store" where
  "UpdateStatusStmt i st = subUpdateStmt i (\<lambda>s. s\<lparr>us_Status := st\<rparr>)"

definition UpdateNotesStmt :: "int \<Rightarrow> string \<Rightarrow> store \<Rightarrow> (go_err + unit) \<times> store" where
  "UpdateNotesStmt i n = subUpdateStmt i (\<lambda>s. s\<lparr>us_Notes := n\<rparr>)"

definition ResetDailyUsage :: "int \<Rightarrow> instant \<Rightarrow> unit se" where
  "ResetDailyUsage i t = exec (subUpdateStmt i (\<lambda>s. s\<lparr>us_DailyUsageUSD := fzero, us_DailyWindowStart := Some t\<rparr>))"

definition ResetWeeklyUsage :: "int \<Rightarrow> instant \<Rightarrow> unit se" where
  "ResetWeeklyUsage i t = exec (subUpdateStmt i (\<lambda>s. s\<lparr>us_WeeklyUsageUSD := fzero, us_WeeklyWindowStart := Some t\<rparr>))"

definition ResetMonthlyUsage :: "int \<Rightarrow> instant \<Rightarrow> unit se" where
  "ResetMonthlyUsage i t = exec (subUpdateStmt i (\<lambda>s. s\<lparr>us_MonthlyUsageUSD := fzero, us_MonthlyWindowStart := Some t\<rparr>))"

definition ActivateWindows :: "int \<Rightarrow> instant \<Rightarrow> unit se" where
  "ActivateWindows i t = exec (subUpdateStmt i (\<lambda>s. s\<lparr>us_DailyWindowStart := Some t,
     us_WeeklyWindowStart := Some t, us_MonthlyWindowStart := Some t\<rparr>))"

definition subOf :: "int \<Rightarrow> int \<Rightarrow> user_subscription \<Rightarrow> bool" where
  "subOf uid gid s \<longleftrightarrow> us_UserID s = uid \<and> us_GroupID s = gid"

definition subGetByID :: "int \<Rightarrow> user_subscription se" where
  "subGetByID i = exec (\<lambda>d. (case tget (\<lambda>s. us_ID s = i) (subs d) of
     None \<Rightarrow> Inl (withCause ErrSubscriptionNotFound entNotFound) | Some s \<Rightarrow> Inr s, d))"

definition GetByUserIDAndGroupID :: "int \<Rightarrow> int \<Rightarrow> user_subscription se" where
  "GetByUserIDAndGroupID uid gid = exec (\<lambda>d. (case filter (subOf uid gid) (subs d) of
     [s] \<Rightarrow> Inr s | _ \<Rightarrow> Inl (withCause ErrSubscriptionNotFound entNotFound), d))"

definition GetActiveByUserIDAndGroupID :: "int \<Rightarrow> int \<Rightarrow> user_subscription se" where
  "GetActiveByUserIDAndGroupID uid gid = do {
     now \<leftarrow> timeNow;
     exec (\<lambda>d. (case filter (\<lambda>s. subOf uid gid s \<and> us_Status s = SubActive \<and> now < us_ExpiresAt s) (subs d) of
       [s] \<Rightarrow> Inr s | _ \<Rightarrow> Inl (withCause ErrSubscriptionNotFound entNotFound), d))
   }"

text \<open>\<open>Create\<close>: the unique index on user and group rejects a second row.\<close>

definition subCreateStmt :: "user_subscription \<Rightarrow> store \<Rightarrow> (go_err + int) \<times> store" where
  "subCreateStmt s d =
     (if 0 < tcount (subOf (us_UserID s) (us_GroupID s)) (subs d)
      then (Inl (withCause ErrSubscriptionAlreadyExists (ErrorNew ''duplicate key'')), d)
      else (Inr (nextSub d),
            d\<lparr>subs := subs d @ [s\<lparr>us_ID := nextSub d\<rparr>], nextSub := nextSub d + 1\<rparr>))"

section \<open>The service\<close>

record assign_input =
  ai_UserID :: int
  ai_GroupID :: int
  ai_ValidityDays :: int
  ai_AssignedBy :: int
  ai_Notes :: string

definition InvalidateSubCache :: "ext \<Rightarrow> int \<Rightarrow> int \<Rightarrow> unit sp" where
  "InvalidateSubCache x uid gid =
     (if x_subCache x then modify (\<lambda>d. d\<lparr>subCache := filter (\<lambda>e. fst e \<noteq> (uid, gid)) (subCache d)\<rparr>)
      else ret ())"

definition normalizeAssignValidityDays :: "int \<Rightarrow> int" where
  "normalizeAssignValidityDays days =
     (let d = (if days \<le> 0 then 30 else days) in if MaxValidityDays < d then MaxValidityDays else d)"

definition capExpiry :: "instant \<Rightarrow> instant" where
  "capExpiry t = (if MaxExpiresAt < t then MaxExpiresAt else t)"

definition extendedExpiry :: "instant \<Rightarrow> instant \<Rightarrow> int \<Rightarrow> instant" where
  "extendedExpiry now expires days =
     capExpiry (if now < expires then addDays expires days else addDays now days)"

definition appendNotes :: "string \<Rightarrow> string \<Rightarrow> string" where
  "appendNotes old new = (if old \<noteq> [] then old @ [CHR 0x0A] else old) @ new"

text \<open>The transaction of the extension: new expiry, back to active, note.\<close>

definition extendSteps :: "user_subscription \<Rightarrow> instant \<Rightarrow> string \<Rightarrow> store step list" where
  "extendSteps existing newExpiresAt notes =
     [(Errorf ''extend subscription'', ExtendExpiryStmt (us_ID existing) newExpiresAt)] @
     (if us_Status existing \<noteq> SubActive
      then [(Errorf ''update subscription status'', UpdateStatusStmt (us_ID existing) SubActive)] else []) @
     (if notes \<noteq> []
      then [(Errorf ''update subscription notes'', UpdateNotesStmt (us_ID existing) (appendNotes (us_Notes existing) notes))]
      else [])"

definition extendExisting :: "ext \<Rightarrow> user_subscription \<Rightarrow> assign_input \<Rightarrow> (user_subscription \<times> bool) se" where
  "extendExisting x existing input = do {
     now \<leftarrow> timeNow;
     let newExpiresAt = extendedExpiry now (us_ExpiresAt existing) (normalizeAssignValidityDays (ai_ValidityDays input));
     bindE (transact (Errorf ''begin transaction'') (Errorf ''commit transaction'')
              (extendSteps existing newExpiresAt (ai_Notes input))) id
       (\<lambda>_. do {
          _ \<leftarrow> InvalidateSubCache x (ai_UserID input) (ai_GroupID input);
          bindE (subGetByID (us_ID existing)) id (\<lambda>s. ret (Inr (s, True)))
        })
   }"

definition newSubscription :: "instant \<Rightarrow> assign_input \<Rightarrow> user_subscription" where
  "newSubscription now input =
     \<lparr>us_ID = 0, us_UserID = ai_UserID input, us_GroupID = ai_GroupID input, us_StartsAt = now,
      us_ExpiresAt = capExpiry (addDays now (normalizeAssignValidityDays (ai_ValidityDays input))),
      us_Status = SubActive, us_DailyWindowStart = None, us_WeeklyWindowStart = None,
      us_MonthlyWindowStart = None, us_DailyUsageUSD = fzero, us_WeeklyUsageUSD = fzero,
      us_MonthlyUsageUSD = fzero,
      us_AssignedBy = (if 0 < ai_AssignedBy input then Some (ai_AssignedBy input) else None),
      us_AssignedAt = now, us_Notes = ai_Notes input\<rparr>"

definition createSubscription :: "assign_input \<Rightarrow> user_subscription se" where
  "createSubscription input = do {
     now \<leftarrow> timeNow;
     bindE (exec (subCreateStmt (newSubscription now input))) id subGetByID
   }"

definition checkSubscriptionGroup :: "int \<Rightarrow> unit se" where
  "checkSubscriptionGroup gid =
     bindE (groupGetByID gid) (Errorf ''group not found'')
       (\<lambda>g. if \<not> IsSubscriptionType g then ret (Inl ErrGroupNotSubscriptionType) else ret (Inr ()))"

definition AssignOrExtendSubscription :: "ext \<Rightarrow> assign_input \<Rightarrow> (user_subscription \<times> bool) se" where
  "AssignOrExtendSubscription x input =
     bindE (checkSubscriptionGroup (ai_GroupID input)) id (\<lambda>_. do {
       r \<leftarrow> GetByUserIDAndGroupID (ai_UserID input) (ai_GroupID input);
       case r of
         Inr existing \<Rightarrow> extendExisting x existing input
       | Inl _ \<Rightarrow>
           bindE (createSubscription input) id (\<lambda>s. do {
             _ \<leftarrow> InvalidateSubCache x (ai_UserID input) (ai_GroupID input);
             ret (Inr (s, False))
           })
     })"

definition detectAssignSemanticConflict :: "user_subscription \<Rightarrow> assign_input \<Rightarrow> string option" where
  "detectAssignSemanticConflict existing input =
     (let expected = capExpiry (addDays (us_StartsAt existing) (normalizeAssignValidityDays (ai_ValidityDays input)))
      in if us_StartsAt existing \<noteq> zeroTime \<and> us_ExpiresAt existing \<noteq> expected then Some ''validity_days_mismatch''
         else if trimSpace (us_Notes existing) \<noteq> trimSpace (ai_Notes input) then Some ''notes_mismatch''
         else None)"

definition assignSubscriptionWithReuse :: "ext \<Rightarrow> assign_input \<Rightarrow> (user_subscription \<times> bool) se" where
  "assignSubscriptionWithReuse x input =
     bindE (checkSubscriptionGroup (ai_GroupID input)) id (\<lambda>_.
     bindE (query (\<lambda>d. 0 < tcount (subOf (ai_UserID input) (ai_GroupID input)) (subs d))) id (\<lambda>exists.
       if exists then
         bindE (GetByUserIDAndGroupID (ai_UserID input) (ai_GroupID input)) id (\<lambda>s.
           case detectAssignSemanticConflict s input of
             Some reason \<Rightarrow> ret (Inl (withMetadata ErrSubscriptionAssignConflict [(''conflict_reason'', reason)]))
           | None \<Rightarrow> ret (Inr (s, True)))
       else
         bindE (createSubscription input) id (\<lambda>s. do {
           _ \<leftarrow> InvalidateSubCache x (ai_UserID input) (ai_GroupID input);
           ret (Inr (s, False))
         })))"

definition AssignSubscription :: "ext \<Rightarrow> assign_input \<Rightarrow> user_subscription se" where
  "AssignSubscription x input = bindE (assignSubscriptionWithReuse x input) id (\<lambda>(s, reused). ret (Inr s))"

definition RevokeSubscription :: "ext \<Rightarrow> int \<Rightarrow> unit se" where
  "RevokeSubscription x i =
     bindE (subGetByID i) id (\<lambda>s.
     bindE (exec (\<lambda>d. (Inr (), d\<lparr>subs := filter (\<lambda>s. us_ID s \<noteq> i) (subs d)\<rparr>))) id (\<lambda>_. do {
       _ \<leftarrow> InvalidateSubCache x (us_UserID s) (us_GroupID s);
       ret (Inr ())
     }))"

definition clampDays :: "int \<Rightarrow> int" where
  "clampDays days = max (- MaxValidityDays) (min MaxValidityDays days)"

definition ExtendSubscription :: "ext \<Rightarrow> int \<Rightarrow> int \<Rightarrow> user_subscription se" where
  "ExtendSubscription x i days0 =
     bindE (subGetByID i) (\<lambda>_. ErrSubscriptionNotFound) (\<lambda>s. do {
       let days = clampDays days0;
       now \<leftarrow> timeNow;
       let isExpired = (us_ExpiresAt s \<le> now);
       if isExpired \<and> days < 0
       then ret (Inl (BadRequest ''CANNOT_SHORTEN_EXPIRED'' ''cannot shorten an expired subscription''))
       else
         (let newExpiresAt = capExpiry (if isExpired then addDays now days else addDays (us_ExpiresAt s) days)
          in if newExpiresAt \<le> now then ret (Inl ErrAdjustWouldExpire)
             else bindE (exec (ExtendExpiryStmt i newExpiresAt)) id (\<lambda>_.
                  bindE (if us_Status s = SubExpired then exec (UpdateStatusStmt i SubActive) else ret (Inr ())) id (\<lambda>_. do {
                    _ \<leftarrow> InvalidateSubCache x (us_UserID s) (us_GroupID s);
                    subGetByID i
                  })))
     })"

text \<open>A cache hit is returned as it is; a miss goes to the database and fills the cache.\<close>

definition GetActiveSubscription :: "ext \<Rightarrow> int \<Rightarrow> int \<Rightarrow> user_subscription se" where
  "GetActiveSubscription x uid gid = do {
     hit \<leftarrow> peek (\<lambda>d. if x_subCache x then map_of (subCache d) (uid, gid) else None);
     case hit of
       Some s \<Rightarrow> ret (Inr s)
     | None \<Rightarrow> bindE (GetActiveByUserIDAndGroupID uid gid) id (\<lambda>s. do {
         _ \<leftarrow> (if x_subCache x then modify (\<lambda>d. d\<lparr>subCache := ((uid, gid), s) # subCache d\<rparr>) else ret ());
         ret (Inr s)
       })
   }"

section \<open>Usage windows and limits\<close>

definition CheckAndActivateWindow :: "ext \<Rightarrow> user_subscription \<Rightarrow> unit se" where
  "CheckAndActivateWindow x s =
     (if IsWindowActivated s then ret (Inr ())
      else do { now \<leftarrow> timeNow; ActivateWindows (us_ID s) (dayStart (x_zone x) now) })"

definition CheckAndResetWindows :: "ext \<Rightarrow> user_subscription \<Rightarrow> user_subscription se" where
  "CheckAndResetWindows x s0 = do {
     now0 \<leftarrow> timeNow;
     let windowStart = dayStart (x_zone x) now0;
     n1 \<leftarrow> timeNow;
     let d1 = NeedsDailyReset n1 s0;
     bindE (if d1 then ResetDailyUsage (us_ID s0) windowStart else ret (Inr ())) id (\<lambda>_. do {
       let s1 = (if d1 then s0\<lparr>us_DailyWindowStart := Some windowStart, us_DailyUsageUSD := fzero\<rparr> else s0);
       n2 \<leftarrow> timeNow;
       let d2 = NeedsWeeklyReset n2 s1;
       bindE (if d2 then ResetWeeklyUsage (us_ID s1) windowStart else ret (Inr ())) id (\<lambda>_. do {
         let s2 = (if d2 then s1\<lparr>us_WeeklyWindowStart := Some windowStart, us_WeeklyUsageUSD := fzero\<rparr> else s1);
         n3 \<leftarrow> timeNow;
         let d3 = NeedsMonthlyReset n3 s2;
         bindE (if d3 then ResetMonthlyUsage (us_ID s2) windowStart else ret (Inr ())) id (\<lambda>_. do {
           let s3 = (if d3 then s2\<lparr>us_MonthlyWindowStart := Some windowStart, us_MonthlyUsageUSD := fzero\<rparr> else s2);
           _ \<leftarrow> (if d1 \<or> d2 \<or> d3 then InvalidateSubCache x (us_UserID s3) (us_GroupID s3) else ret ());
           ret (Inr s3)
         })
       })
     })
   }"

definition CheckUsageLimits :: "user_subscription \<Rightarrow> group \<Rightarrow> f64 \<Rightarrow> go_err option" where
  "CheckUsageLimits s g c =
     (if \<not> CheckDailyLimit s g c then Some ErrDailyLimitExceeded
      else if \<not> CheckWeeklyLimit s g c then Some ErrWeeklyLimitExceeded
      else if \<not> CheckMonthlyLimit s g c then Some ErrMonthlyLimitExceeded
      else None)"

text \<open>The hot-path check: it returns the subscription it corrected in memory, whether window
  maintenance is due, and the verdict.\<close>

definition ValidateAndCheckLimits :: "user_subscription \<Rightarrow> group \<Rightarrow> (user_subscription \<times> bool \<times> go_err option) sp" where
  "ValidateAndCheckLimits s g =
     (if us_Status s = SubExpired then ret (s, False, Some ErrSubscriptionExpired)
      else if us_Status s = SubSuspended then ret (s, False, Some ErrSubscriptionSuspended)
      else do {
        n0 \<leftarrow> timeNow;
        if IsExpired n0 s then ret (s, False, Some ErrSubscriptionExpired)
        else do {
          n1 \<leftarrow> timeNow;
          let s1 = (if NeedsDailyReset n1 s then s\<lparr>us_DailyUsageUSD := fzero\<rparr> else s);
          n2 \<leftarrow> timeNow;
          let s2 = (if NeedsWeeklyReset n2 s1 then s1\<lparr>us_WeeklyUsageUSD := fzero\<rparr> else s1);
          n3 \<leftarrow> timeNow;
          let s3 = (if NeedsMonthlyReset n3 s2 then s2\<lparr>us_MonthlyUsageUSD := fzero\<rparr> else s2);
          let maint = (NeedsDailyReset n1 s \<or> NeedsWeeklyReset n2 s1 \<or> NeedsMonthlyReset n3 s2 \<or> \<not> IsWindowActivated s3);
          ret (s3, maint, CheckUsageLimits s3 g fzero)
        }
      })"

definition doWindowMaintenance :: "ext \<Rightarrow> user_subscription \<Rightarrow> unit sp" where
  "doWindowMaintenance x s = do {
     _ \<leftarrow> (if \<not> IsWindowActivated s then CheckAndActivateWindow x s else ret (Inr ()));
     r \<leftarrow> CheckAndResetWindows x s;
     InvalidateSubCache x (us_UserID s) (us_GroupID s)
   }"

fun normalizeExpiredWindows :: "user_subscription list \<Rightarrow> user_subscription list sp" where
  "normalizeExpiredWindows [] = ret []"
| "normalizeExpiredWindows (s # ss) = do {
     n1 \<leftarrow> timeNow;
     let s1 = (if NeedsDailyReset n1 s then s\<lparr>us_DailyWindowStart := None, us_DailyUsageUSD := fzero\<rparr> else s);
     n2 \<leftarrow> timeNow;
     let s2 = (if NeedsWeeklyReset n2 s1 then s1\<lparr>us_WeeklyWindowStart := None, us_WeeklyUsageUSD := fzero\<rparr> else s1);
     n3 \<leftarrow> timeNow;
     let s3 = (if NeedsMonthlyReset n3 s2 then s2\<lparr>us_MonthlyWindowStart := None, us_MonthlyUsageUSD := fzero\<rparr> else s2);
     rest \<leftarrow> normalizeExpiredWindows ss;
     ret (s3 # rest)
   }"

definition normalizeSubscriptionStatus :: "instant \<Rightarrow> user_subscription list \<Rightarrow> user_subscription list" where
  "normalizeSubscriptionStatus now ss = map (\<lambda>s.
     if us_Status s = SubActive \<and> us_ExpiresAt s \<le> now then s\<lparr>us_Status := SubExpired\<rparr> else s) ss"

definition ValidateSubscription :: "user_subscription \<Rightarrow> (go_err option) sp" where
  "ValidateSubscription s =
     (if us_Status s = SubExpired then ret (Some ErrSubscriptionExpired)
      else if us_Status s = SubSuspended then ret (Some ErrSubscriptionSuspended)
      else do {
        now \<leftarrow> timeNow;
        if IsExpired now s then do {
          r \<leftarrow> exec (UpdateStatusStmt (us_ID s) SubExpired);
          ret (Some ErrSubscriptionExpired)
        } else ret None
      })"

section \<open>Administration\<close>

record bulk_input =
  bi_UserIDs :: "int list"
  bi_GroupID :: int
  bi_ValidityDays :: int
  bi_AssignedBy :: int
  bi_Notes :: string

record bulk_result =
  br_SuccessCount :: int
  br_CreatedCount :: int
  br_ReusedCount :: int
  br_FailedCount :: int
  br_Subscriptions :: "user_subscription list"
  br_Errors :: "string list"
  br_Statuses :: "int \<rightharpoonup> string"

definition noResult :: bulk_result where
  "noResult = \<lparr>br_SuccessCount = 0, br_CreatedCount = 0, br_ReusedCount = 0, br_FailedCount = 0,
     br_Subscriptions = [], br_Errors = [], br_Statuses = Map.empty\<rparr>"

definition bulkInput :: "bulk_input \<Rightarrow> int \<Rightarrow> assign_input" where
  "bulkInput input uid = \<lparr>ai_UserID = uid, ai_GroupID = bi_GroupID input, ai_ValidityDays = bi_ValidityDays input,
     ai_AssignedBy = bi_AssignedBy input, ai_Notes = bi_Notes input\<rparr>"

definition countAssigned :: "int \<Rightarrow> go_err + user_subscription \<times> bool \<Rightarrow> bulk_result \<Rightarrow> bulk_result" where
  "countAssigned uid r b = (case r of
       Inl e \<Rightarrow> b\<lparr>br_FailedCount := br_FailedCount b + 1,
         br_Errors := br_Errors b @ [''user '' @ formatInt uid @ '': '' @ errText e],
         br_Statuses := (br_Statuses b)(uid \<mapsto> ''failed'')\<rparr>
     | Inr (s, reused) \<Rightarrow>
         (let b' = b\<lparr>br_SuccessCount := br_SuccessCount b + 1, br_Subscriptions := br_Subscriptions b @ [s]\<rparr>
          in if reused
             then b'\<lparr>br_ReusedCount := br_ReusedCount b + 1, br_Statuses := (br_Statuses b)(uid \<mapsto> ''reused'')\<rparr>
             else b'\<lparr>br_CreatedCount := br_CreatedCount b + 1, br_Statuses := (br_Statuses b)(uid \<mapsto> ''created'')\<rparr>))"

primrec bulkLoop :: "ext \<Rightarrow> bulk_input \<Rightarrow> int list \<Rightarrow> bulk_result \<Rightarrow> bulk_result sp" where
  "bulkLoop x input [] b = ret b"
| "bulkLoop x input (uid # uids) b = do {
     r \<leftarrow> assignSubscriptionWithReuse x (bulkInput input uid);
     bulkLoop x input uids (countAssigned uid r b)
   }"

definition BulkAssignSubscription :: "ext \<Rightarrow> bulk_input \<Rightarrow> bulk_result sp" where
  "BulkAssignSubscription x input = bulkLoop x input (bi_UserIDs input) noResult"

definition ErrInvalidInput :: go_err where
  "ErrInvalidInput = BadRequest ''INVALID_INPUT'' ''at least one of resetDaily, resetWeekly, or resetMonthly must be true''"

definition AdminResetQuota :: "ext \<Rightarrow> int \<Rightarrow> bool \<Rightarrow> bool \<Rightarrow> bool \<Rightarrow> user_subscription se" where
  "AdminResetQuota x i daily weekly monthly =
     (if \<not> daily \<and> \<not> weekly \<and> \<not> monthly then ret (Inl ErrInvalidInput)
      else bindE (subGetByID i) id (\<lambda>s. do {
        now \<leftarrow> timeNow;
        let windowStart = dayStart (x_zone x) now;
        bindE (if daily then ResetDailyUsage (us_ID s) windowStart else ret (Inr ())) id (\<lambda>_.
        bindE (if weekly then ResetWeeklyUsage (us_ID s) windowStart else ret (Inr ())) id (\<lambda>_.
        bindE (if monthly then ResetMonthlyUsage (us_ID s) windowStart else ret (Inr ())) id (\<lambda>_. do {
          _ \<leftarrow> InvalidateSubCache x (us_UserID s) (us_GroupID s);
          subGetByID i
        })))
      }))"

section \<open>Progress\<close>

record window_progress =
  wp_LimitUSD :: f64
  wp_UsedUSD :: f64
  wp_RemainingUSD :: f64
  wp_Percentage :: f64
  wp_WindowStart :: instant
  wp_ResetsAt :: instant
  wp_ResetsInSeconds :: int

record sub_progress =
  sg_ID :: int
  sg_GroupName :: string
  sg_ExpiresAt :: instant
  sg_ExpiresInDays :: int
  sg_Daily :: "window_progress option"
  sg_Weekly :: "window_progress option"
  sg_Monthly :: "window_progress option"

text \<open>One window of \<open>calculateProgress\<close>, which repeats the same computation for the day, the week and the month.\<close>

definition windowProgress :: "f64 option \<Rightarrow> instant option \<Rightarrow> f64 \<Rightarrow> duration \<Rightarrow> (window_progress option) sp" where
  "windowProgress limit start used len =
     (case (limit, start) of
        (Some l, Some t) \<Rightarrow>
          if hasLimit limit then do {
            now \<leftarrow> timeNow;
            let resetsAt = t + len;
            let remaining = fsub l used;
            let percentage = fmul (fdiv used l) (fofint 100);
            let seconds = ftrunc (durSeconds (timeSub resetsAt now));
            ret (Some \<lparr>wp_LimitUSD = l, wp_UsedUSD = used,
              wp_RemainingUSD = (if flt remaining fzero then fzero else remaining),
              wp_Percentage = (if flt (fofint 100) percentage then fofint 100 else percentage),
              wp_WindowStart = t, wp_ResetsAt = resetsAt, wp_ResetsInSeconds = (if seconds < 0 then 0 else seconds)\<rparr>)
          }
          else ret None
      | _ \<Rightarrow> ret None)"

definition calculateProgress :: "user_subscription \<Rightarrow> group \<Rightarrow> sub_progress sp" where
  "calculateProgress s g = do {
     now \<leftarrow> timeNow;
     now' \<leftarrow> (if IsExpired now s then ret now else timeNow);
     daily \<leftarrow> windowProgress (g_DailyLimitUSD g) (us_DailyWindowStart s) (us_DailyUsageUSD s) (24 * nsHour);
     weekly \<leftarrow> windowProgress (g_WeeklyLimitUSD g) (us_WeeklyWindowStart s) (us_WeeklyUsageUSD s) (7 * 24 * nsHour);
     monthly \<leftarrow> windowProgress (g_MonthlyLimitUSD g) (us_MonthlyWindowStart s) (us_MonthlyUsageUSD s) (30 * 24 * nsHour);
     ret \<lparr>sg_ID = us_ID s, sg_GroupName = g_Name g, sg_ExpiresAt = us_ExpiresAt s,
       sg_ExpiresInDays = DaysRemaining now now' s, sg_Daily = daily, sg_Weekly = weekly, sg_Monthly = monthly\<rparr>
   }"

section \<open>Lemmas\<close>

lemma normalizeAssignValidityDays_range:
  "1 \<le> normalizeAssignValidityDays d \<and> normalizeAssignValidityDays d \<le> MaxValidityDays"
  by (auto simp: normalizeAssignValidityDays_def MaxValidityDays_def Let_def)

lemma capExpiry_le: "capExpiry t \<le> MaxExpiresAt"
  by (simp add: capExpiry_def)

lemma capExpiry_gt: "now < MaxExpiresAt \<Longrightarrow> now < t \<Longrightarrow> now < capExpiry t"
  by (simp add: capExpiry_def)

lemma extendedExpiry_le: "extendedExpiry now t n \<le> MaxExpiresAt"
  by (simp add: extendedExpiry_def capExpiry_le)

text \<open>Extending never shortens a subscription that respects the cap.\<close>

lemma extendedExpiry_ge:
  assumes "0 < n" and "t \<le> MaxExpiresAt" and "now < MaxExpiresAt"
  shows "t \<le> extendedExpiry now t n \<and> now < extendedExpiry now t n"
  using assms addDays_less [OF assms(1), of t] addDays_less [OF assms(1), of now]
  by (auto simp: extendedExpiry_def capExpiry_def)

section \<open>The invariant of the subscription table\<close>

text \<open>Identifiers are unique and below the sequence, no user has two subscriptions of one group,
  and no subscription outlives the cap.\<close>

definition subsOk :: "store \<Rightarrow> bool" where
  "subsOk d \<longleftrightarrow>
     distinct (map us_ID (subs d)) \<and> (\<forall>s \<in> set (subs d). us_ID s < nextSub d) \<and>
     distinct (map (\<lambda>s. (us_UserID s, us_GroupID s)) (subs d)) \<and>
     (\<forall>s \<in> set (subs d). us_ExpiresAt s \<le> MaxExpiresAt)"

definition keepsRow :: "(user_subscription \<Rightarrow> user_subscription) \<Rightarrow> bool" where
  "keepsRow f \<longleftrightarrow> (\<forall>s. us_ID (f s) = us_ID s \<and> us_UserID (f s) = us_UserID s \<and> us_GroupID (f s) = us_GroupID s \<and>
     (us_ExpiresAt s \<le> MaxExpiresAt \<longrightarrow> us_ExpiresAt (f s) \<le> MaxExpiresAt))"

lemma subsOk_update:
  assumes "subsOk d" and "keepsRow f"
  shows "subsOk (snd (subUpdateStmt i f d))"
proof -
  let ?ss = "tupd (\<lambda>s. us_ID s = i) f (subs d)"
  have "map us_ID ?ss = map us_ID (subs d)"
    using assms(2) by (intro map_key_tupd) (simp add: keepsRow_def)
  moreover have "map (\<lambda>s. (us_UserID s, us_GroupID s)) ?ss = map (\<lambda>s. (us_UserID s, us_GroupID s)) (subs d)"
    using assms(2) by (intro map_key_tupd) (simp add: keepsRow_def)
  moreover have "\<forall>s \<in> set ?ss. us_ID s < nextSub d \<and> us_ExpiresAt s \<le> MaxExpiresAt"
    using assms by (auto simp: set_tupd keepsRow_def subsOk_def)
  ultimately show ?thesis using assms(1) by (auto simp: subUpdateStmt_def subsOk_def)
qed

lemma subsOk_create:
  assumes "subsOk d" and "us_ExpiresAt s \<le> MaxExpiresAt"
  shows "subsOk (snd (subCreateStmt s d))"
  using assms by (auto simp: subCreateStmt_def subsOk_def tcount_0 subOf_def image_iff)

text \<open>The footprint of the subscription service: it changes the subscription table and its cache, and keeps the
  table's invariant.\<close>

definition subStep :: "store \<Rightarrow> store \<Rightarrow> bool" where
  "subStep d d' \<longleftrightarrow> d' = d\<lparr>subs := subs d', nextSub := nextSub d', subCache := subCache d'\<rparr> \<and>
     (subsOk d \<longrightarrow> subsOk d')"

lemma subStepD: "subStep d d' \<Longrightarrow> subsOk d \<longrightarrow> subsOk d'"
  by (simp add: subStep_def)

text \<open>What such a step leaves alone.\<close>

lemma subStep_frame:
  assumes "subStep d d'"
  shows "orders d' = orders d" "nextOrder d' = nextOrder d" "audits d' = audits d" "users d' = users d"
    "codes d' = codes d" "nextCode d' = nextCode d" "gwCalls d' = gwCalls d" "splits d' = splits d"
    "clogs d' = clogs d"
proof -
  from assms have d': "d' = d\<lparr>subs := subs d', nextSub := nextSub d', subCache := subCache d'\<rparr>"
    by (simp add: subStep_def)
  show "orders d' = orders d" by (subst d') simp
  show "nextOrder d' = nextOrder d" by (subst d') simp
  show "audits d' = audits d" by (subst d') simp
  show "users d' = users d" by (subst d') simp
  show "codes d' = codes d" by (subst d') simp
  show "nextCode d' = nextCode d" by (subst d') simp
  show "gwCalls d' = gwCalls d" by (subst d') simp
  show "splits d' = splits d" by (subst d') simp
  show "clogs d' = clogs d" by (subst d') simp
qed

lemma keepsRow_status: "keepsRow (\<lambda>s. s\<lparr>us_Status := v\<rparr>)"
  and keepsRow_notes: "keepsRow (\<lambda>s. s\<lparr>us_Notes := n\<rparr>)"
  and keepsRow_expiry: "t \<le> MaxExpiresAt \<Longrightarrow> keepsRow (\<lambda>s. s\<lparr>us_ExpiresAt := t\<rparr>)"
  and keepsRow_daily: "keepsRow (\<lambda>s. s\<lparr>us_DailyUsageUSD := v1, us_DailyWindowStart := w1\<rparr>)"
  and keepsRow_weekly: "keepsRow (\<lambda>s. s\<lparr>us_WeeklyUsageUSD := v1, us_WeeklyWindowStart := w1\<rparr>)"
  and keepsRow_monthly: "keepsRow (\<lambda>s. s\<lparr>us_MonthlyUsageUSD := v1, us_MonthlyWindowStart := w1\<rparr>)"
  and keepsRow_windows: "keepsRow (\<lambda>s. s\<lparr>us_DailyWindowStart := w1, us_WeeklyWindowStart := w2, us_MonthlyWindowStart := w3\<rparr>)"
  by (simp_all add: keepsRow_def)

lemmas keepsRow_simps = keepsRow_status keepsRow_notes keepsRow_expiry keepsRow_daily keepsRow_weekly
  keepsRow_monthly keepsRow_windows

lemma subStep_update: "keepsRow f \<Longrightarrow> subStep d (snd (subUpdateStmt i f d))"
  using subsOk_update [of d f i] by (auto simp: subStep_def subUpdateStmt_def)

lemma subStep_filter: "subStep d (d\<lparr>subs := filter p (subs d)\<rparr>)"
  by (auto simp: subStep_def subsOk_def distinct_map_filter)

lemma subStep_create:
  "us_ExpiresAt s \<le> MaxExpiresAt \<Longrightarrow> subStep d (snd (subCreateStmt s d))"
  using subsOk_create [of d s] by (auto simp: subStep_def subCreateStmt_def)

lemma extendSteps_keep:
  "t \<le> MaxExpiresAt \<Longrightarrow> st \<in> set (extendSteps s t n) \<Longrightarrow> subStep d (snd (snd st d))"
  by (auto simp: extendSteps_def ExtendExpiryStmt_def UpdateStatusStmt_def UpdateNotesStmt_def
        split: if_splits intro!: subStep_update) (simp_all add: keepsRow_def)

lemma own_update: "keepsRow f \<Longrightarrow> own subStep (exec (subUpdateStmt i f))"
  by (rule own_exec) (rule subStep_update)

lemma own_invalidate: "own subStep (InvalidateSubCache x u g)"
  unfolding InvalidateSubCache_def
  by (intro own_rules own_modify) (simp add: subStep_def subsOk_def)

lemma own_subReads:
  "own T (subGetByID i)" "own T (GetByUserIDAndGroupID u g)" "own T (groupGetByID j)"
  unfolding subGetByID_def GetByUserIDAndGroupID_def groupGetByID_def
  by (intro own_read; simp)+

lemma own_group: "own T (checkSubscriptionGroup g)"
  unfolding checkSubscriptionGroup_def by (intro own_rules own_subReads)

lemma own_createSub: "own subStep (createSubscription input)"
  unfolding createSubscription_def
  by (intro own_rules own_exec own_subReads subStep_create)
     (simp add: newSubscription_def capExpiry_le)

lemma own_extendExisting: "own subStep (extendExisting x s input)"
  unfolding extendExisting_def Let_def
  by (intro own_rules own_steps own_subReads own_invalidate extendSteps_keep [OF extendedExpiry_le])

lemma own_AssignOrExtend: "own subStep (AssignOrExtendSubscription x input)"
  unfolding AssignOrExtendSubscription_def
  by (intro own_rules own_subReads own_group own_extendExisting own_createSub own_invalidate)

lemma own_assignReuse: "own subStep (assignSubscriptionWithReuse x input)"
  unfolding assignSubscriptionWithReuse_def
  by (intro own_rules own_subReads own_group own_createSub own_invalidate)

lemma own_ExtendSub: "own subStep (ExtendSubscription x i n)"
  unfolding ExtendSubscription_def ExtendExpiryStmt_def UpdateStatusStmt_def Let_def
  by (intro own_rules own_subReads own_update own_invalidate keepsRow_simps capExpiry_le)

lemma own_RevokeSub: "own subStep (RevokeSubscription x i)"
  unfolding RevokeSubscription_def
  by (intro own_rules own_exec own_subReads own_invalidate) (simp add: subStep_filter)

lemma own_windows: "own subStep (doWindowMaintenance x s)"
  unfolding doWindowMaintenance_def CheckAndActivateWindow_def CheckAndResetWindows_def Let_def
    ActivateWindows_def ResetDailyUsage_def ResetWeeklyUsage_def ResetMonthlyUsage_def
  by (intro own_rules own_update own_invalidate keepsRow_simps)

section \<open>Properties\<close>

text \<open>The operations of the service, as one type of commands.\<close>

datatype sub_command =
    CmdAssignOrExtend assign_input
  | CmdAssign assign_input
  | CmdExtend int int
  | CmdRevoke int
  | CmdMaintain user_subscription
  | CmdValidate user_subscription
  | CmdBulkAssign bulk_input
  | CmdResetQuota int bool bool bool

primrec runSub :: "ext \<Rightarrow> sub_command \<Rightarrow> unit sp" where
  "runSub x (CmdAssignOrExtend i) = do { _ \<leftarrow> AssignOrExtendSubscription x i; ret () }"
| "runSub x (CmdAssign i) = do { _ \<leftarrow> AssignSubscription x i; ret () }"
| "runSub x (CmdExtend i n) = do { _ \<leftarrow> ExtendSubscription x i n; ret () }"
| "runSub x (CmdRevoke i) = do { _ \<leftarrow> RevokeSubscription x i; ret () }"
| "runSub x (CmdMaintain s) = doWindowMaintenance x s"
| "runSub x (CmdValidate s) = do { _ \<leftarrow> ValidateSubscription s; ret () }"
| "runSub x (CmdBulkAssign b) = do { _ \<leftarrow> BulkAssignSubscription x b; ret () }"
| "runSub x (CmdResetQuota i d w m) = do { _ \<leftarrow> AdminResetQuota x i d w m; ret () }"

lemma own_bulkLoop: "own subStep (bulkLoop x input uids b)"
  by (induction uids arbitrary: b) (simp_all add: own_rules own_assignReuse)

lemma own_resetQuota: "own subStep (AdminResetQuota x i d w m)"
  unfolding AdminResetQuota_def Let_def ResetDailyUsage_def ResetWeeklyUsage_def ResetMonthlyUsage_def
  by (intro own_rules own_subReads own_update own_invalidate keepsRow_simps)

lemma own_runSub: "own subStep (runSub x c)"
proof (cases c)
  case (CmdValidate s)
  have "own subStep (ValidateSubscription s)"
    unfolding ValidateSubscription_def UpdateStatusStmt_def by (intro own_rules own_update keepsRow_simps)
  then show ?thesis unfolding CmdValidate by (simp, intro own_rules)
qed (simp_all add: AssignSubscription_def BulkAssignSubscription_def own_rules own_AssignOrExtend own_assignReuse own_ExtendSub
       own_RevokeSub own_windows own_bulkLoop own_resetQuota)

text \<open>C22. Whatever statements fail, lose their acknowledgement or are interleaved with other processes that keep the
  invariant, every operation of the subscription service keeps the subscription table in order: identifiers
  are unique and below the sequence, a user has at most one subscription of a group, and none outlives the year 2099.\<close>

theorem subscriptions_in_order:
  assumes "relies (\<lambda>d d'. subsOk d \<longrightarrow> subsOk d') w" and "subsOk (db w)"
  shows "subsOk (db (snd (run_state (runSub x c) w)))"
  by (rule own_invariant [OF own_runSub _ assms]) (simp add: subStep_def)

definition sampleInput :: assign_input where
  "sampleInput = \<lparr>ai_UserID = 1, ai_GroupID = 2, ai_ValidityDays = 30, ai_AssignedBy = 0, ai_Notes = ''n''\<rparr>"

theorem subscriptions_in_order_witness:
  "subsOk (db (snd (run_state (runSub (sampleExt ''paid'' True) (CmdAssignOrExtend sampleInput))
     (sampleWorld sampleStore (faults [Done, Done, Unack])))))"
  by (rule subscriptions_in_order) (auto intro: relies_faults simp: subsOk_def sampleStore_def)

section \<open>Assigning and extending\<close>

lemma filter_subOf:
  assumes "subsOk d" and "s \<in> set (subs d)" and "subOf u g s"
  shows "filter (subOf u g) (subs d) = [s]"
proof -
  have "subOf u g = (\<lambda>r. (us_UserID r, us_GroupID r) = (us_UserID s, us_GroupID s))"
    using assms(3) by (simp add: subOf_def fun_eq_iff)
  moreover have "distinct (map (\<lambda>s. (us_UserID s, us_GroupID s)) (subs d))" using assms(1) by (simp add: subsOk_def)
  ultimately show ?thesis using filter_key_unique [OF _ assms(2), of "\<lambda>s. (us_UserID s, us_GroupID s)"] by (simp only:)
qed

lemma tget_sub: "subsOk d \<Longrightarrow> s \<in> set (subs d) \<Longrightarrow> tget (\<lambda>r. us_ID r = us_ID s) (subs d) = Some s"
  by (rule tget_key_unique [of us_ID]) (simp_all add: subsOk_def)

text \<open>The row after an extension.\<close>

definition extendedRow :: "instant \<Rightarrow> assign_input \<Rightarrow> user_subscription \<Rightarrow> user_subscription" where
  "extendedRow now input s = s\<lparr>us_ExpiresAt := extendedExpiry now (us_ExpiresAt s) (normalizeAssignValidityDays (ai_ValidityDays input)),
     us_Status := SubActive, us_Notes := (if ai_Notes input = [] then us_Notes s else appendNotes (us_Notes s) (ai_Notes input))\<rparr>"

lemma subUpdate_tupd:
  "0 < tcount (\<lambda>s. us_ID s = i) (subs d) \<Longrightarrow>
   subUpdateStmt i f d = (Inr (), d\<lparr>subs := tupd (\<lambda>s. us_ID s = i) f (subs d)\<rparr>)"
  by (simp add: subUpdateStmt_def)

lemma run_extendSteps:
  assumes "subsOk d" and "s \<in> set (subs d)"
  shows "runSteps None (extendSteps s (extendedExpiry now (us_ExpiresAt s) (normalizeAssignValidityDays (ai_ValidityDays input))) (ai_Notes input)) d =
    Inr (d\<lparr>subs := tupd (\<lambda>r. us_ID r = us_ID s) (extendedRow now input) (subs d)\<rparr>)"
proof -
  have n: "0 < tcount (\<lambda>r. us_ID r = us_ID s) (subs d)" using assms(2) by (rule tcount_key_pos)
  have dist: "distinct (map us_ID (subs d))" using assms(1) by (simp add: subsOk_def)
  let ?p = "\<lambda>r. us_ID r = us_ID s"
  have u: "tupd ?p f (subs d) = tupd ?p (extendedRow now input) (subs d)" if "f s = extendedRow now input s" for f
    using dist assms(2) that by (rule tupd_key_cong)
  show ?thesis
    using n
    by (cases "ai_Notes input = []"; cases "us_Status s = SubActive")
      (simp_all add: extendSteps_def ExtendExpiryStmt_def UpdateStatusStmt_def UpdateNotesStmt_def subUpdate_tupd
        tcount_key_tupd [where key = us_ID] tupd_key_tupd [where key = us_ID],
       (rule arg_cong [where f = "\<lambda>t. d\<lparr>subs := t\<rparr>"], rule u, simp add: extendedRow_def)+)
qed

lemma groupCheck_quiet:
  assumes "script w = []" and "tget (\<lambda>g. g_ID g = gid) (groups (db w)) = Some g" and "IsSubscriptionType g"
  shows "run_state (checkSubscriptionGroup gid) w = (Inr (), w)"
  using assms by (simp add: checkSubscriptionGroup_def groupGetByID_def run_simps)

text \<open>Assigning a subscription to a user who has one of that group extends it: the new expiry counts from the
  old one while that lies in the future and from now otherwise, is at most the year 2099, is not before the old expiry and lies in
  the future; the row is active again, carries the note, and no other row changes.\<close>

theorem AssignOrExtend_extends:
  assumes w: "quiet w" "ticks w = []" and ok: "subsOk (db w)" "clock w < MaxExpiresAt"
    and g: "tget (\<lambda>g. g_ID g = ai_GroupID input) (groups (db w)) = Some g" "IsSubscriptionType g"
    and s: "s \<in> set (subs (db w))" "subOf (ai_UserID input) (ai_GroupID input) s"
  shows "\<exists>w'. run_state (AssignOrExtendSubscription x input) w = (Inr (extendedRow (clock w) input s, True), w') \<and>
     subs (db w') = tupd (\<lambda>r. us_ID r = us_ID s) (extendedRow (clock w) input) (subs (db w)) \<and>
     us_ExpiresAt s \<le> us_ExpiresAt (extendedRow (clock w) input s) \<and>
     clock w < us_ExpiresAt (extendedRow (clock w) input s) \<and>
     us_ExpiresAt (extendedRow (clock w) input s) \<le> MaxExpiresAt"
proof -
  let ?now = "clock w"
  let ?d = "(db w)\<lparr>subs := tupd (\<lambda>r. us_ID r = us_ID s) (extendedRow ?now input) (subs (db w))\<rparr>"
  let ?w = "w\<lparr>db := ?d\<rparr>"
  have q: "script w = []" using w by (simp add: quiet_def)
  have id: "us_ID (extendedRow ?now input r) = us_ID r" for r by (simp add: extendedRow_def)
  obtain w' where w': "run_state (InvalidateSubCache x (ai_UserID input) (ai_GroupID input)) ?w = ((), w')"
    "script w' = []" "subs (db w') = subs ?d"
    using q by (cases "x_subCache x") (auto simp: InvalidateSubCache_def run_simps)
  have "tget (\<lambda>r. us_ID r = us_ID s) (subs ?d) = Some (extendedRow ?now input s)"
    using tget_sub [OF ok(1) s(1)] tget_tupd_key [where key = us_ID, OF id, of "us_ID s"] by simp
  then have get: "run_state (subGetByID (us_ID s)) w' = (Inr (extendedRow ?now input s), w')"
    using w' by (simp add: subGetByID_def run_simps)
  have "run_state (extendExisting x s input) w = (Inr (extendedRow ?now input s, True), w')"
    using q w(2) w' get
    by (simp add: extendExisting_def run_simps run_extendSteps [OF ok(1) s(1)])
  moreover have "run_state (GetByUserIDAndGroupID (ai_UserID input) (ai_GroupID input)) w = (Inr s, w)"
    using q filter_subOf [OF ok(1) s] by (simp add: GetByUserIDAndGroupID_def run_simps)
  ultimately have "run_state (AssignOrExtendSubscription x input) w = (Inr (extendedRow ?now input s, True), w')"
    by (simp add: AssignOrExtendSubscription_def run_bindE groupCheck_quiet [OF q g])
  moreover have "us_ExpiresAt s \<le> MaxExpiresAt" using ok(1) s(1) by (simp add: subsOk_def)
  then have "us_ExpiresAt s \<le> us_ExpiresAt (extendedRow ?now input s) \<and> ?now < us_ExpiresAt (extendedRow ?now input s)"
    using extendedExpiry_ge [of "normalizeAssignValidityDays (ai_ValidityDays input)" "us_ExpiresAt s" ?now] ok(2)
      normalizeAssignValidityDays_range [of "ai_ValidityDays input"] by (simp add: extendedRow_def)
  moreover have "us_ExpiresAt (extendedRow ?now input s) \<le> MaxExpiresAt" by (simp add: extendedRow_def extendedExpiry_le)
  ultimately show ?thesis using w' by auto
qed

definition sampleSub :: user_subscription where
  "sampleSub = (newSubscription 0 sampleInput)\<lparr>us_ID := 1\<rparr>"

definition subscribedStore :: store where
  "subscribedStore = sampleStore\<lparr>subs := [sampleSub], nextSub := 2\<rparr>"

theorem AssignOrExtend_extends_witness:
  "\<exists>w'. run_state (AssignOrExtendSubscription (sampleExt ''paid'' True) sampleInput) (sampleWorld subscribedStore []) =
     (Inr (extendedRow (600 * nsSecond) sampleInput sampleSub, True), w')"
proof -
  have "subsOk subscribedStore"
    by (simp add: subsOk_def subscribedStore_def sampleSub_def newSubscription_def capExpiry_le)
  then show ?thesis
    using AssignOrExtend_extends [of "sampleWorld subscribedStore []" sampleInput sampleGroup sampleSub "sampleExt ''paid'' True"]
    by (fastforce simp: quiet_def subscribedStore_def sampleStore_def table_simps sampleGroup_def sampleInput_def
        IsSubscriptionType_def sampleSub_def newSubscription_def subOf_def MaxExpiresAt_def nsSecond_def)
qed

section \<open>Assigning prolongs access\<close>

lemma acked_Assign: "acked (AssignOrExtendSubscription x input)"
  unfolding AssignOrExtendSubscription_def checkSubscriptionGroup_def groupGetByID_def GetByUserIDAndGroupID_def extendExisting_def
    createSubscription_def subGetByID_def InvalidateSubCache_def Let_def
  by (intro acked_rules)

text \<open>How long the user has access to the group, at least until now.\<close>

definition paidUntil :: "instant \<Rightarrow> int \<Rightarrow> int \<Rightarrow> store \<Rightarrow> instant" where
  "paidUntil now uid gid d = (case tget (subOf uid gid) (subs d) of None \<Rightarrow> now | Some s \<Rightarrow> max now (us_ExpiresAt s))"

lemma subOf_key: "subOf u g = (\<lambda>s. (us_UserID s, us_GroupID s) = (u, g))"
  by (auto simp: subOf_def fun_eq_iff)

text \<open>What assigning leaves alone.\<close>

definition subsOnly :: "store \<Rightarrow> store \<Rightarrow> bool" where
  "subsOnly d d' \<longleftrightarrow> orders d' = orders d \<and> audits d' = audits d \<and> groups d' = groups d \<and> (subsOk d \<longrightarrow> subsOk d')"

lemma subsOnly_sub:
  assumes "subStep d d'"
  shows "subsOnly d d'"
proof -
  have d': "d' = d\<lparr>subs := subs d', nextSub := nextSub d', subCache := subCache d'\<rparr>" using assms by (simp add: subStep_def)
  have "groups d' = groups d" by (subst d') simp
  then show ?thesis using assms by (simp add: subsOnly_def subStep_frame subStepD)
qed

interpretation subsOnly: protocol subsOnly
  by unfold_locales (auto simp: subsOnly_def)

lemma tget_append_new: "\<forall>r \<in> set rs. \<not> q r \<Longrightarrow> q s \<Longrightarrow> tget q (rs @ [s]) = Some s"
  by (induction rs) (auto simp: table_simps)

text \<open>Assigning prolongs the access by the days, whether the user has a subscription already or not.\<close>

lemma run_Assign:
  assumes w: "script w = []" "ticks w = []" and ok: "subsOk (db w)" "clock w < MaxExpiresAt"
    and g: "tget (\<lambda>g. g_ID g = ai_GroupID input) (groups (db w)) = Some g" "IsSubscriptionType g"
  shows "\<exists>r d. run_state (AssignOrExtendSubscription x input) w = (Inr r, w\<lparr>db := d\<rparr>) \<and> subsOnly (db w) d \<and>
    paidUntil (clock w) (ai_UserID input) (ai_GroupID input) d =
      capExpiry (addDays (paidUntil (clock w) (ai_UserID input) (ai_GroupID input) (db w)) (normalizeAssignValidityDays (ai_ValidityDays input)))"
proof -
  let ?p = "subOf (ai_UserID input) (ai_GroupID input)" and ?n = "normalizeAssignValidityDays (ai_ValidityDays input)"
  obtain a w' where r: "run_state (AssignOrExtendSubscription x input) w = (a, w')" by fastforce
  have g0: "guar subsOnly (AssignOrExtendSubscription x input)"
    by (rule own_guar [OF own_AssignOrExtend subsOnly.protocol_axioms]) (rule subsOnly_sub)
  have so: "subsOnly (db w) (db w')" using rgD [OF g0 _ _ r] w by (simp add: relies_def)
  have w': "w' = w\<lparr>db := db w'\<rparr>" by (rule ackedD [OF acked_Assign w r])
  have n: "0 < ?n" using normalizeAssignValidityDays_range [of "ai_ValidityDays input"] by linarith
  have "(\<exists>s. a = Inr s) \<and> paidUntil (clock w) (ai_UserID input) (ai_GroupID input) (db w') =
      capExpiry (addDays (paidUntil (clock w) (ai_UserID input) (ai_GroupID input) (db w)) ?n)"
  proof (cases "tget ?p (subs (db w))")
    case None
    let ?s = "(newSubscription (clock w) input)\<lparr>us_ID := nextSub (db w)\<rparr>"
    have f: "filter ?p (subs (db w)) = []" "tcount ?p (subs (db w)) = 0" using None by (auto simp: tget_None tcount_0 filter_empty_conv)
    have new: "us_UserID ?s = ai_UserID input" "us_GroupID ?s = ai_GroupID input" by (simp_all add: newSubscription_def)
    have t: "tget q (subs (db w) @ [?s]) = Some ?s" if "\<forall>r \<in> set (subs (db w)). \<not> q r" "q ?s" for q
      using that by (simp add: tget_append_new)
    have fresh: "\<forall>r \<in> set (subs (db w)). us_ID r \<noteq> nextSub (db w)" using ok(1) by (auto simp: subsOk_def)
    obtain d1 where d1: "run_state (InvalidateSubCache x (ai_UserID input) (ai_GroupID input))
        (w\<lparr>db := (db w)\<lparr>subs := subs (db w) @ [?s], nextSub := nextSub (db w) + 1\<rparr>\<rparr>) = ((), w\<lparr>db := d1\<rparr>)" "subs d1 = subs (db w) @ [?s]"
      by (cases "x_subCache x") (auto simp: InvalidateSubCache_def)
    have "run_state (createSubscription input) w =
        (Inr ?s, w\<lparr>db := (db w)\<lparr>subs := subs (db w) @ [?s], nextSub := nextSub (db w) + 1\<rparr>\<rparr>)"
      using w f(2) t [of "\<lambda>r. us_ID r = nextSub (db w)"] fresh
      by (simp add: createSubscription_def run_simps subCreateStmt_def new subGetByID_def newSubscription_def)
    then have "run_state (AssignOrExtendSubscription x input) w = (Inr (?s, False), w\<lparr>db := d1\<rparr>)"
      using w f(1) d1(1)
      by (simp add: AssignOrExtendSubscription_def run_bindE groupCheck_quiet [OF w(1) g] GetByUserIDAndGroupID_def run_exec_quiet)
    moreover have "tget ?p (subs d1) = Some ?s" using t [of ?p] None new by (simp add: d1(2) tget_None subOf_def)
    moreover have "clock w < us_ExpiresAt ?s"
      using capExpiry_gt [OF ok(2) addDays_less [OF n]] by (simp add: newSubscription_def)
    ultimately show ?thesis using r None by (auto simp: paidUntil_def newSubscription_def max_def)
  next
    case (Some s)
    then have s: "s \<in> set (subs (db w))" "?p s" by (auto dest: tget_Some)
    obtain w2 where e: "run_state (AssignOrExtendSubscription x input) w = (Inr (extendedRow (clock w) input s, True), w2)"
      "subs (db w2) = tupd (\<lambda>r. us_ID r = us_ID s) (extendedRow (clock w) input) (subs (db w))"
      using AssignOrExtend_extends [of w input g s x] w ok g s by (auto simp: quiet_def)
    have "tget ?p (subs (db w2)) = Some (extendedRow (clock w) input s)"
      unfolding e(2) subOf_key using Some [unfolded subOf_key]
      by (subst tget_tupd_key [where key = "\<lambda>s. (us_UserID s, us_GroupID s)"]) (auto simp: extendedRow_def)
    moreover have "clock w < us_ExpiresAt (extendedRow (clock w) input s)"
      using extendedExpiry_ge [OF n _ ok(2), of "us_ExpiresAt s"] ok(1) s(1) by (auto simp: extendedRow_def subsOk_def)
    ultimately show ?thesis using r e(1) Some by (auto simp: paidUntil_def extendedRow_def extendedExpiry_def max_def)
  qed
  then show ?thesis using r w' so by auto
qed

section \<open>Assignment is idempotent\<close>

lemma run_invalidate:
  "\<exists>c. run_state (InvalidateSubCache x u g) w = ((), w\<lparr>db := (db w)\<lparr>subCache := c\<rparr>\<rparr>)"
proof (cases "x_subCache x")
  case False
  then have "run_state (InvalidateSubCache x u g) w = ((), w\<lparr>db := (db w)\<lparr>subCache := subCache (db w)\<rparr>\<rparr>)"
    by (simp add: InvalidateSubCache_def)
  then show ?thesis by blast
qed (auto simp: InvalidateSubCache_def)

lemma run_groupCheck:
  "script w = [] \<Longrightarrow> \<exists>r. run_state (checkSubscriptionGroup gid) w = (r, w) \<and>
     (\<forall>w'. script w' = [] \<longrightarrow> groups (db w') = groups (db w) \<longrightarrow> run_state (checkSubscriptionGroup gid) w' = (r, w'))"
  by (cases "tget (\<lambda>g. g_ID g = gid) (groups (db w))")
    (auto simp: checkSubscriptionGroup_def groupGetByID_def run_simps)

lemma created_no_conflict:
  "detectAssignSemanticConflict ((newSubscription now input)\<lparr>us_ID := i\<rparr>) input = None"
  by (simp add: detectAssignSemanticConflict_def newSubscription_def)

text \<open>Reading back the only subscription of a user in a group.\<close>

lemma assign_existing:
  assumes "script w = []" and "run_state (checkSubscriptionGroup (ai_GroupID input)) w = (Inr (), w)"
    and "filter (subOf (ai_UserID input) (ai_GroupID input)) (subs (db w)) = [s]"
    and "detectAssignSemanticConflict s input = None"
  shows "run_state (AssignSubscription x input) w = (Inr s, w)"
  using assms
  by (simp add: AssignSubscription_def assignSubscriptionWithReuse_def GetByUserIDAndGroupID_def run_simps tcount_def)

text \<open>Assigning a subscription is idempotent: when an assignment succeeded, the same request answers with the same
  subscription and changes nothing.\<close>

theorem AssignSubscription_idempotent:
  assumes w: "quiet w" "ticks w = []" and ok: "subsOk (db w)"
    and first: "run_state (AssignSubscription x input) w = (Inr s, w')"
  shows "run_state (AssignSubscription x input) w' = (Inr s, w')"
proof -
  let ?of = "subOf (ai_UserID input) (ai_GroupID input)"
  have q: "script w = []" using w by (simp add: quiet_def)
  obtain r where r: "run_state (checkSubscriptionGroup (ai_GroupID input)) w = (r, w)"
    and again: "\<And>v. script v = [] \<Longrightarrow> groups (db v) = groups (db w) \<Longrightarrow> run_state (checkSubscriptionGroup (ai_GroupID input)) v = (r, v)"
    using run_groupCheck [OF q] by blast
  have ru: "r = Inr ()" using first r by (cases r) (auto simp: AssignSubscription_def assignSubscriptionWithReuse_def run_bindE)
  show ?thesis
  proof (cases "tcount ?of (subs (db w)) = 0")
    case False
    then obtain t where t: "t \<in> set (subs (db w))" "?of t" by (auto simp: tcount_0)
    have "filter ?of (subs (db w)) = [t]" by (rule filter_subOf [OF ok t])
    with first q r ru False have "detectAssignSemanticConflict t input = None \<and> s = t \<and> w' = w"
      by (auto simp: AssignSubscription_def assignSubscriptionWithReuse_def GetByUserIDAndGroupID_def run_simps tcount_def
          split: option.splits)
    with first show ?thesis by simp
  next
    case True
    let ?s = "(newSubscription (clock w) input)\<lparr>us_ID := nextSub (db w)\<rparr>"
    let ?d = "(db w)\<lparr>subs := subs (db w) @ [?s], nextSub := nextSub (db w) + 1\<rparr>"
    obtain c where c: "run_state (InvalidateSubCache x (ai_UserID input) (ai_GroupID input)) (w\<lparr>db := ?d\<rparr>) =
        ((), w\<lparr>db := ?d\<lparr>subCache := c\<rparr>\<rparr>)"
      using run_invalidate [of x _ _ "w\<lparr>db := ?d\<rparr>"] by auto
    have key: "tcount (subOf (us_UserID (newSubscription (clock w) input)) (us_GroupID (newSubscription (clock w) input))) (subs (db w)) = 0"
      using True by (simp add: newSubscription_def)
    have "\<forall>t \<in> set (subs (db w)). us_ID t \<noteq> nextSub (db w)" using ok by (fastforce simp: subsOk_def)
    then have get: "tget (\<lambda>t. us_ID t = nextSub (db w)) (subs (db w) @ [?s]) = Some ?s"
      by (simp add: tget_append_new)
    have "s = ?s \<and> w' = w\<lparr>db := ?d\<lparr>subCache := c\<rparr>\<rparr>"
      using first q w(2) r ru True c key get
      by (auto simp add: AssignSubscription_def assignSubscriptionWithReuse_def createSubscription_def run_simps subCreateStmt_def subGetByID_def)
    moreover have "filter ?of (subs (db w) @ [?s]) = [?s]"
      using True by (simp add: tcount_def subOf_def newSubscription_def)
    ultimately show ?thesis
      using assign_existing [of w' input ?s] again [of w'] q ru created_no_conflict by simp
  qed
qed

theorem AssignSubscription_idempotent_witness:
  "\<exists>s w'. run_state (AssignSubscription (sampleExt ''paid'' True) sampleInput) (sampleWorld sampleStore []) = (Inr s, w') \<and>
     run_state (AssignSubscription (sampleExt ''paid'' True) sampleInput) w' = (Inr s, w')"
proof -
  let ?w = "sampleWorld sampleStore []" and ?x = "sampleExt ''paid'' True"
  have "run_state (checkSubscriptionGroup 2) ?w = (Inr (), ?w)"
    by (rule groupCheck_quiet [of _ _ sampleGroup]) (simp_all add: sampleStore_def sampleGroup_def table_simps IsSubscriptionType_def)
  moreover have "ai_UserID sampleInput = 1" "ai_GroupID sampleInput = 2" by (simp_all add: sampleInput_def)
  moreover have "subs sampleStore = []" "nextSub sampleStore = 1" by (simp_all add: sampleStore_def)
  ultimately obtain s w' where first: "run_state (AssignSubscription ?x sampleInput) ?w = (Inr s, w')"
    by (auto simp: AssignSubscription_def assignSubscriptionWithReuse_def createSubscription_def run_simps subCreateStmt_def
        subGetByID_def table_simps split_def)
  moreover have "run_state (AssignSubscription ?x sampleInput) w' = (Inr s, w')"
    by (rule AssignSubscription_idempotent [OF _ _ _ first]) (simp_all add: quiet_def subsOk_def sampleStore_def)
  ultimately show ?thesis by blast
qed

section \<open>Windows and limits\<close>

text \<open>A window that starts at the last midnight is not due, whatever its length of a day or more.\<close>

lemma dayStart_not_due: "nsDay \<le> len \<Longrightarrow> \<not> windowDue now len (Some (dayStart z now))"
  using dayStart_gt [of now z] by (simp add: windowDue_def timeSub_def ns_defs)

text \<open>A row with the windows that are due at \<open>now\<close> restarted at \<open>t\<close>.\<close>

definition resetRow :: "instant \<Rightarrow> instant \<Rightarrow> user_subscription \<Rightarrow> user_subscription" where
  "resetRow now t s = s\<lparr>
     us_DailyWindowStart := (if NeedsDailyReset now s then Some t else us_DailyWindowStart s),
     us_WeeklyWindowStart := (if NeedsWeeklyReset now s then Some t else us_WeeklyWindowStart s),
     us_MonthlyWindowStart := (if NeedsMonthlyReset now s then Some t else us_MonthlyWindowStart s),
     us_DailyUsageUSD := (if NeedsDailyReset now s then fzero else us_DailyUsageUSD s),
     us_WeeklyUsageUSD := (if NeedsWeeklyReset now s then fzero else us_WeeklyUsageUSD s),
     us_MonthlyUsageUSD := (if NeedsMonthlyReset now s then fzero else us_MonthlyUsageUSD s)\<rparr>"

lemmas needs_defs = NeedsDailyReset_def NeedsWeeklyReset_def NeedsMonthlyReset_def

lemma resetRow_not_due:
  "\<not> NeedsDailyReset now (resetRow now (dayStart z now) s)"
  "\<not> NeedsWeeklyReset now (resetRow now (dayStart z now) s)"
  "\<not> NeedsMonthlyReset now (resetRow now (dayStart z now) s)"
  by (simp_all add: needs_defs resetRow_def dayStart_not_due ns_defs)

lemma resetRow_needs [simp]:
  "NeedsDailyReset now (s\<lparr>us_DailyUsageUSD := v\<rparr>) = NeedsDailyReset now s"
  "NeedsDailyReset now (s\<lparr>us_WeeklyUsageUSD := v\<rparr>) = NeedsDailyReset now s"
  "NeedsDailyReset now (s\<lparr>us_WeeklyWindowStart := t\<rparr>) = NeedsDailyReset now s"
  "NeedsDailyReset now (s\<lparr>us_MonthlyUsageUSD := v\<rparr>) = NeedsDailyReset now s"
  "NeedsDailyReset now (s\<lparr>us_MonthlyWindowStart := t\<rparr>) = NeedsDailyReset now s"
  "NeedsWeeklyReset now (s\<lparr>us_DailyUsageUSD := v\<rparr>) = NeedsWeeklyReset now s"
  "NeedsWeeklyReset now (s\<lparr>us_DailyWindowStart := t\<rparr>) = NeedsWeeklyReset now s"
  "NeedsWeeklyReset now (s\<lparr>us_WeeklyUsageUSD := v\<rparr>) = NeedsWeeklyReset now s"
  "NeedsWeeklyReset now (s\<lparr>us_MonthlyUsageUSD := v\<rparr>) = NeedsWeeklyReset now s"
  "NeedsWeeklyReset now (s\<lparr>us_MonthlyWindowStart := t\<rparr>) = NeedsWeeklyReset now s"
  "NeedsMonthlyReset now (s\<lparr>us_DailyUsageUSD := v\<rparr>) = NeedsMonthlyReset now s"
  "NeedsMonthlyReset now (s\<lparr>us_DailyWindowStart := t\<rparr>) = NeedsMonthlyReset now s"
  "NeedsMonthlyReset now (s\<lparr>us_WeeklyUsageUSD := v\<rparr>) = NeedsMonthlyReset now s"
  "NeedsMonthlyReset now (s\<lparr>us_WeeklyWindowStart := t\<rparr>) = NeedsMonthlyReset now s"
  "NeedsMonthlyReset now (s\<lparr>us_MonthlyUsageUSD := v\<rparr>) = NeedsMonthlyReset now s"
  by (simp_all add: needs_defs)

text \<open>The check of the request path accepts a subscription exactly when it is neither expired nor suspended, has not passed its
  expiry, and the usage of every window that is still running lies within the limit of the group; usage of a window that has run
  out does not count.\<close>

theorem ValidateAndCheckLimits_accepts:
  assumes "ticks w = []"
  shows "snd (snd (fst (run_state (ValidateAndCheckLimits s g) w))) = None \<longleftrightarrow>
     us_Status s \<noteq> SubExpired \<and> us_Status s \<noteq> SubSuspended \<and> clock w \<le> us_ExpiresAt s \<and>
     withinLimit (g_DailyLimitUSD g) (if NeedsDailyReset (clock w) s then fzero else us_DailyUsageUSD s) fzero \<and>
     withinLimit (g_WeeklyLimitUSD g) (if NeedsWeeklyReset (clock w) s then fzero else us_WeeklyUsageUSD s) fzero \<and>
     withinLimit (g_MonthlyLimitUSD g) (if NeedsMonthlyReset (clock w) s then fzero else us_MonthlyUsageUSD s) fzero"
proof -
  let ?now = "clock w"
  let ?t = "s\<lparr>us_DailyUsageUSD := (if NeedsDailyReset ?now s then fzero else us_DailyUsageUSD s),
      us_WeeklyUsageUSD := (if NeedsWeeklyReset ?now s then fzero else us_WeeklyUsageUSD s),
      us_MonthlyUsageUSD := (if NeedsMonthlyReset ?now s then fzero else us_MonthlyUsageUSD s)\<rparr>"
  have "snd (snd (fst (run_state (ValidateAndCheckLimits s g) w))) = CheckUsageLimits ?t g fzero"
    if "us_Status s \<noteq> SubExpired" "us_Status s \<noteq> SubSuspended" "clock w \<le> us_ExpiresAt s"
    using assms that by (simp add: ValidateAndCheckLimits_def run_timeNow_still IsExpired_def Let_def)
  moreover have "CheckUsageLimits ?t g fzero = None \<longleftrightarrow> CheckDailyLimit ?t g fzero \<and> CheckWeeklyLimit ?t g fzero \<and> CheckMonthlyLimit ?t g fzero"
    by (simp add: CheckUsageLimits_def)
  moreover have "snd (snd (fst (run_state (ValidateAndCheckLimits s g) w))) \<noteq> None"
    if "us_Status s = SubExpired \<or> us_Status s = SubSuspended \<or> us_ExpiresAt s < clock w"
    using assms that by (auto simp: ValidateAndCheckLimits_def run_timeNow_still IsExpired_def)
  ultimately show ?thesis
    by (cases "us_Status s = SubExpired \<or> us_Status s = SubSuspended \<or> us_ExpiresAt s < clock w")
      (auto simp: CheckDailyLimit_def CheckWeeklyLimit_def CheckMonthlyLimit_def)
qed

theorem ValidateAndCheckLimits_accepts_witness:
  "snd (snd (fst (run_state (ValidateAndCheckLimits sampleSub sampleGroup) (sampleWorld sampleStore [])))) = None"
  using ValidateAndCheckLimits_accepts [of "sampleWorld sampleStore []" sampleSub sampleGroup]
  by (simp add: sampleSub_def newSubscription_def sampleGroup_def withinLimit_def capExpiry_def MaxExpiresAt_def
      addDays_def ns_defs normalizeAssignValidityDays_def sampleInput_def MaxValidityDays_def fle_def f64_simps)

lemma tupd_same: "tupd p (\<lambda>r. r) rs = rs"
  by (simp add: tupd_def)

lemma run_invalidate_if:
  "\<exists>c. run_state (if b then InvalidateSubCache x u g else ret ()) w = ((), w\<lparr>db := (db w)\<lparr>subCache := c\<rparr>\<rparr>)"
proof (cases b)
  case False
  then have "run_state (if b then InvalidateSubCache x u g else ret ()) w = ((), w\<lparr>db := (db w)\<lparr>subCache := subCache (db w)\<rparr>\<rparr>)"
    by simp
  then show ?thesis by blast
qed (simp add: run_invalidate)

text \<open>Window maintenance restarts, in the row of the subscription and in no other, exactly the windows that are due; it answers
  with that row, and at that instant none of its windows is due any more.\<close>

theorem CheckAndResetWindows_restarts:
  assumes w: "quiet w" "ticks w = []" and ok: "subsOk (db w)" and s: "s \<in> set (subs (db w))"
  shows "\<exists>w'. run_state (CheckAndResetWindows x s) w = (Inr (resetRow (clock w) (dayStart (x_zone x) (clock w)) s), w') \<and>
     subs (db w') = tupd (\<lambda>r. us_ID r = us_ID s) (resetRow (clock w) (dayStart (x_zone x) (clock w))) (subs (db w)) \<and>
     \<not> NeedsDailyReset (clock w) (resetRow (clock w) (dayStart (x_zone x) (clock w)) s) \<and>
     \<not> NeedsWeeklyReset (clock w) (resetRow (clock w) (dayStart (x_zone x) (clock w)) s) \<and>
     \<not> NeedsMonthlyReset (clock w) (resetRow (clock w) (dayStart (x_zone x) (clock w)) s)"
proof -
  let ?now = "clock w" and ?t = "dayStart (x_zone x) (clock w)" and ?p = "\<lambda>r. us_ID r = us_ID s"
  let ?r = "resetRow ?now ?t s"
  let ?f1 = "\<lambda>r. if NeedsDailyReset ?now s then r\<lparr>us_DailyUsageUSD := fzero, us_DailyWindowStart := Some ?t\<rparr> else r"
  let ?f2 = "\<lambda>r. if NeedsWeeklyReset ?now s then r\<lparr>us_WeeklyUsageUSD := fzero, us_WeeklyWindowStart := Some ?t\<rparr> else r"
  let ?f3 = "\<lambda>r. if NeedsMonthlyReset ?now s then r\<lparr>us_MonthlyUsageUSD := fzero, us_MonthlyWindowStart := Some ?t\<rparr> else r"
  have q: "script w = []" using w by (simp add: quiet_def)
  define T where "T = tupd ?p ?f3 (tupd ?p ?f2 (tupd ?p ?f1 (subs (db w))))"
  have dist: "distinct (map us_ID (subs (db w)))" using ok by (simp add: subsOk_def)
  have T: "T = tupd ?p (resetRow ?now ?t) (subs (db w))"
    unfolding T_def
    by (simp add: tupd_key_tupd [where key = us_ID], rule tupd_key_cong [OF dist s]) (simp add: resetRow_def)
  have n: "0 < tcount ?p (subs (db w))" using s by (rule tcount_key_pos)
  obtain w' where w': "run_state (if NeedsDailyReset ?now s \<or> NeedsWeeklyReset ?now s \<or> NeedsMonthlyReset ?now s
        then InvalidateSubCache x (us_UserID s) (us_GroupID s) else ret ()) (w\<lparr>db := (db w)\<lparr>subs := T\<rparr>\<rparr>) = ((), w')"
      "subs (db w') = T"
    using run_invalidate_if [of _ x "us_UserID s" "us_GroupID s" "w\<lparr>db := (db w)\<lparr>subs := T\<rparr>\<rparr>"] by fastforce
  have "run_state (CheckAndResetWindows x s) w = (Inr ?r, w')"
    using q w(2) n w'(1) T_def
    by (cases "NeedsDailyReset ?now s"; cases "NeedsWeeklyReset ?now s"; cases "NeedsMonthlyReset ?now s")
      (simp_all add: CheckAndResetWindows_def run_simps ResetDailyUsage_def ResetWeeklyUsage_def ResetMonthlyUsage_def
        subUpdateStmt_def tcount_key_tupd [where key = us_ID] Let_def resetRow_def tupd_same)
  then show ?thesis using w'(2) T resetRow_not_due by blast
qed

theorem CheckAndResetWindows_restarts_witness:
  "\<exists>w'. run_state (CheckAndResetWindows (sampleExt ''paid'' True) sampleSub) (sampleWorld subscribedStore []) =
     (Inr (resetRow (600 * nsSecond) (dayStart 0 (600 * nsSecond)) sampleSub), w')"
proof -
  have "subsOk subscribedStore"
    by (simp add: subsOk_def subscribedStore_def sampleSub_def newSubscription_def capExpiry_le)
  then show ?thesis
    using CheckAndResetWindows_restarts [of "sampleWorld subscribedStore []" sampleSub "sampleExt ''paid'' True"]
    by (fastforce simp: quiet_def subscribedStore_def sampleExt_def)
qed

text \<open>The row after an administrator moved the expiry by a number of days.\<close>

definition movedRow :: "instant \<Rightarrow> int \<Rightarrow> user_subscription \<Rightarrow> user_subscription" where
  "movedRow now days s = s\<lparr>us_ExpiresAt := capExpiry (addDays (if us_ExpiresAt s \<le> now then now else us_ExpiresAt s) (clampDays days)),
     us_Status := (if us_Status s = SubExpired then SubActive else us_Status s)\<rparr>"

text \<open>Moving the expiry of a subscription by a number of days either fails and leaves every row alone, which happens exactly when
  the new expiry would not lie in the future, or stores and answers with a row that expires between now and the year 2099 and
  is no longer marked expired.\<close>

theorem ExtendSubscription_outcome:
  assumes w: "quiet w" "ticks w = []" and ok: "subsOk (db w)" and s: "s \<in> set (subs (db w))"
  shows "if us_ExpiresAt (movedRow (clock w) days s) \<le> clock w
     then \<exists>e. run_state (ExtendSubscription x (us_ID s) days) w = (Inl e, w)
     else \<exists>w'. run_state (ExtendSubscription x (us_ID s) days) w = (Inr (movedRow (clock w) days s), w') \<and>
       subs (db w') = tupd (\<lambda>r. us_ID r = us_ID s) (movedRow (clock w) days) (subs (db w)) \<and>
       us_ExpiresAt (movedRow (clock w) days s) \<le> MaxExpiresAt \<and> us_Status (movedRow (clock w) days s) \<noteq> SubExpired"
proof -
  let ?now = "clock w" and ?p = "\<lambda>r. us_ID r = us_ID s" and ?r = "movedRow (clock w) days s"
  have q: "script w = []" using w by (simp add: quiet_def)
  have get: "run_state (subGetByID (us_ID s)) w = (Inr s, w)"
    using q tget_sub [OF ok s] by (simp add: subGetByID_def run_simps)
  have new: "us_ExpiresAt ?r = capExpiry (if us_ExpiresAt s \<le> ?now then addDays ?now (clampDays days) else addDays (us_ExpiresAt s) (clampDays days))"
    by (simp add: movedRow_def)
  have past: "us_ExpiresAt ?r \<le> ?now" if "us_ExpiresAt s \<le> ?now" "clampDays days < 0"
    using that addDays_mono [of "clampDays days" 0 ?now] by (auto simp: new capExpiry_def addDays_def)
  show ?thesis
  proof (cases "us_ExpiresAt ?r \<le> ?now")
    case True
    then show ?thesis using get w(2) by (auto simp: ExtendSubscription_def run_simps Let_def new)
  next
    case False
    let ?f = "\<lambda>r. (r\<lparr>us_ExpiresAt := us_ExpiresAt ?r\<rparr>) :: user_subscription"
    let ?g = "\<lambda>r. if us_Status s = SubExpired then r\<lparr>us_Status := SubActive\<rparr> else (r :: user_subscription)"
    define T where "T = tupd ?p ?g (tupd ?p ?f (subs (db w)))"
    have dist: "distinct (map us_ID (subs (db w)))" using ok by (simp add: subsOk_def)
    have T: "T = tupd ?p (movedRow ?now days) (subs (db w))"
      unfolding T_def
      by (simp add: tupd_key_tupd [where key = us_ID], rule tupd_key_cong [OF dist s]) (simp add: movedRow_def)
    have n: "0 < tcount ?p (subs (db w))" using s by (rule tcount_key_pos)
    obtain c where c: "run_state (InvalidateSubCache x (us_UserID s) (us_GroupID s)) (w\<lparr>db := (db w)\<lparr>subs := T\<rparr>\<rparr>) =
        ((), w\<lparr>db := (db w)\<lparr>subs := T, subCache := c\<rparr>\<rparr>)"
      using run_invalidate [of x "us_UserID s" "us_GroupID s" "w\<lparr>db := (db w)\<lparr>subs := T\<rparr>\<rparr>"] by auto
    have "tget ?p T = Some ?r"
      unfolding T using tget_sub [OF ok s] tget_tupd_key [where key = us_ID and f = "movedRow ?now days" and k = "us_ID s"]
      by (simp add: movedRow_def)
    then have "run_state (ExtendSubscription x (us_ID s) days) w = (Inr ?r, w\<lparr>db := (db w)\<lparr>subs := T, subCache := c\<rparr>\<rparr>)"
      using get w(2) q n c False past T_def
      by (auto simp: ExtendSubscription_def run_simps Let_def new [symmetric] ExtendExpiryStmt_def UpdateStatusStmt_def
          tupd_same tcount_key_tupd [where key = us_ID] subGetByID_def subUpdateStmt_def)
    then show ?thesis using False T by (auto simp: new capExpiry_le) (simp add: movedRow_def split: if_splits)
  qed
qed

theorem ExtendSubscription_outcome_witness:
  "\<exists>w'. run_state (ExtendSubscription (sampleExt ''paid'' True) 1 5) (sampleWorld subscribedStore []) =
     (Inr (movedRow (600 * nsSecond) 5 sampleSub), w')"
proof -
  have "subsOk subscribedStore"
    by (simp add: subsOk_def subscribedStore_def sampleSub_def newSubscription_def capExpiry_le)
  moreover have "us_ID sampleSub = 1" by (simp add: sampleSub_def)
  moreover have "\<not> us_ExpiresAt (movedRow (600 * nsSecond) 5 sampleSub) \<le> 600 * nsSecond"
    by (simp add: movedRow_def sampleSub_def newSubscription_def capExpiry_def MaxExpiresAt_def addDays_def ns_defs
        normalizeAssignValidityDays_def sampleInput_def MaxValidityDays_def clampDays_def)
  ultimately show ?thesis
    using ExtendSubscription_outcome [of "sampleWorld subscribedStore []" sampleSub 5 "sampleExt ''paid'' True"]
    by (fastforce simp: quiet_def subscribedStore_def)
qed

end
