(* ===== verification/Redeem.thy ===== *)
theory Redeem
  imports Subscription
begin

text \<open>
  \<open>internal/service/redeem_service.go\<close>, \<open>redeem_code.go\<close>, the statements of
  \<open>repository/redeem_code_repo.go\<close> and the Redis operations of \<open>repository/redeem_cache.go\<close>:
  creating redeem codes and exchanging them for balance, concurrency or subscription days. The random
  bytes of \<open>crypto/rand\<close> are an argument. Expiry of Redis keys is interference.
\<close>

section \<open>Errors and constants\<close>

definition RedeemTypeBalance :: string where "RedeemTypeBalance = ''balance''"
definition RedeemTypeConcurrency :: string where "RedeemTypeConcurrency = ''concurrency''"
definition RedeemTypeSubscription :: string where "RedeemTypeSubscription = ''subscription''"
definition RedeemTypeInvitation :: string where "RedeemTypeInvitation = ''invitation''"

lemmas redeem_types = RedeemTypeBalance_def RedeemTypeConcurrency_def RedeemTypeSubscription_def
  RedeemTypeInvitation_def

definition ErrRedeemCodeNotFound :: go_err where
  "ErrRedeemCodeNotFound = NotFound ''REDEEM_CODE_NOT_FOUND'' ''redeem code not found''"
definition ErrRedeemCodeUsed :: go_err where
  "ErrRedeemCodeUsed = Conflict ''REDEEM_CODE_USED'' ''redeem code already used''"
definition ErrInsufficientBalance :: go_err where
  "ErrInsufficientBalance = BadRequest ''INSUFFICIENT_BALANCE'' ''insufficient balance''"
definition ErrRedeemRateLimited :: go_err where
  "ErrRedeemRateLimited = TooManyRequests ''REDEEM_RATE_LIMITED'' ''too many failed attempts, please try again later''"
definition ErrRedeemCodeLocked :: go_err where
  "ErrRedeemCodeLocked = Conflict ''REDEEM_CODE_LOCKED'' ''redeem code is being processed, please try again''"

lemmas redeem_err_defs = ErrRedeemCodeNotFound_def ErrRedeemCodeUsed_def ErrInsufficientBalance_def
  ErrRedeemRateLimited_def ErrRedeemCodeLocked_def

definition redeemMaxErrorsPerHour :: int where
  "redeemMaxErrorsPerHour = 20"

section \<open>A code\<close>

definition IsUsed :: "redeem_code \<Rightarrow> bool" where
  "IsUsed c \<longleftrightarrow> rc_Status c = Used"

definition CanUse :: "redeem_code \<Rightarrow> bool" where
  "CanUse c \<longleftrightarrow> rc_Status c = Unused"

definition GenerateRedeemCode :: "8 word list \<Rightarrow> string" where
  "GenerateRedeemCode bytes = hexEncode False (take 16 bytes)"

definition GenerateRandomCode :: "8 word list \<Rightarrow> string" where
  "GenerateRandomCode bytes =
     (let code = hexEncode True (take 16 bytes)
      in take 8 code @ ''-'' @ take 8 (drop 8 code) @ ''-'' @ take 8 (drop 16 code) @ ''-'' @ take 8 (drop 24 code))"

section \<open>Statements of the repository\<close>

text \<open>The validators of the schema: a code has 1 to 32 bytes, a type at most 20.\<close>

definition codeValid :: "redeem_code \<Rightarrow> bool" where
  "codeValid c \<longleftrightarrow> rc_Code c \<noteq> [] \<and> length (rc_Code c) \<le> 32 \<and> length (rc_Type c) \<le> 20"

definition codeRow :: "ext \<Rightarrow> instant \<Rightarrow> int \<Rightarrow> redeem_code \<Rightarrow> redeem_code" where
  "codeRow x now i c = c\<lparr>rc_ID := i, rc_Value := x_col8 x (rc_Value c), rc_CreatedAt := now\<rparr>"

definition codeTaken :: "store \<Rightarrow> string \<Rightarrow> bool" where
  "codeTaken d n \<longleftrightarrow> n \<in> rc_Code ` set (codes d)"

definition codeCreateStmt :: "ext \<Rightarrow> instant \<Rightarrow> redeem_code \<Rightarrow> store \<Rightarrow> (go_err + unit) \<times> store" where
  "codeCreateStmt x now c d =
     (if \<not> codeValid c then (Inl (ErrorNew ''ent: validator failed''), d)
      else if codeTaken d (rc_Code c) then (Inl (ErrorNew ''duplicate key''), d)
      else (Inr (), d\<lparr>codes := codes d @ [codeRow x now (nextCode d) c], nextCode := nextCode d + 1\<rparr>))"

definition codeCreateBatchStmt :: "ext \<Rightarrow> instant \<Rightarrow> redeem_code list \<Rightarrow> store \<Rightarrow> (go_err + unit) \<times> store" where
  "codeCreateBatchStmt x now cs d =
     (if cs = [] then (Inr (), d)
      else if \<not> list_all codeValid cs then (Inl (ErrorNew ''ent: validator failed''), d)
      else if \<not> distinct (map rc_Code cs) \<or> list_ex (\<lambda>c. codeTaken d (rc_Code c)) cs
      then (Inl (ErrorNew ''duplicate key''), d)
      else (Inr (), d\<lparr>codes := codes d @ map (\<lambda>(k, c). codeRow x now (nextCode d + int k) c) (enumerate 0 cs),
                     nextCode := nextCode d + int (length cs)\<rparr>))"

definition codeGetByID :: "int \<Rightarrow> redeem_code se" where
  "codeGetByID i = exec (\<lambda>d. (case tget (\<lambda>c. rc_ID c = i) (codes d) of
     None \<Rightarrow> Inl ErrRedeemCodeNotFound | Some c \<Rightarrow> Inr c, d))"

definition codeGetByCode :: "string \<Rightarrow> redeem_code se" where
  "codeGetByCode n = exec (\<lambda>d. (case tget (\<lambda>c. rc_Code c = n) (codes d) of
     None \<Rightarrow> Inl ErrRedeemCodeNotFound | Some c \<Rightarrow> Inr c, d))"

definition codeDeleteStmt :: "int \<Rightarrow> store \<Rightarrow> (go_err + unit) \<times> store" where
  "codeDeleteStmt i d = (Inr (), d\<lparr>codes := filter (\<lambda>c. rc_ID c \<noteq> i) (codes d)\<rparr>)"

definition redeemable :: "int \<Rightarrow> redeem_code \<Rightarrow> bool" where
  "redeemable i c \<longleftrightarrow> rc_ID c = i \<and> rc_Status c = Unused"

definition markUsed :: "int \<Rightarrow> instant \<Rightarrow> redeem_code \<Rightarrow> redeem_code" where
  "markUsed uid now c = c\<lparr>rc_Status := Used, rc_UsedBy := Some uid, rc_UsedAt := Some now\<rparr>"

text \<open>\<open>Use\<close>: the conditional update that makes a code single-use.\<close>

definition codeUseStmt :: "int \<Rightarrow> int \<Rightarrow> instant \<Rightarrow> store \<Rightarrow> (go_err + unit) \<times> store" where
  "codeUseStmt i uid now d =
     (if tcount (redeemable i) (codes d) = 0 then (Inl ErrRedeemCodeUsed, d)
      else (Inr (), d\<lparr>codes := tupd (redeemable i) (markUsed uid now) (codes d)\<rparr>))"

section \<open>Creating codes\<close>

record generate_request =
  gr_Count :: int
  gr_Value :: f64
  gr_Type :: string

definition blankCode :: redeem_code where
  "blankCode = \<lparr>rc_ID = 0, rc_Code = '''', rc_Type = '''', rc_Value = fzero, rc_Status = Unused,
     rc_UsedBy = None, rc_UsedAt = None, rc_Notes = '''', rc_CreatedAt = zeroTime, rc_GroupID = None,
     rc_ValidityDays = 0\<rparr>"

text \<open>\<open>entropy k\<close> is what the \<open>k\<close>-th call of \<open>rand.Read\<close> yields; \<open>None\<close> is its error.\<close>

fun generateCodeList :: "(nat \<Rightarrow> 8 word list option) \<Rightarrow> nat \<Rightarrow> nat \<Rightarrow> redeem_code \<Rightarrow> go_err + redeem_code list" where
  "generateCodeList entropy k 0 c = Inr []"
| "generateCodeList entropy k (Suc n) c =
     (case entropy k of
        None \<Rightarrow> Inl (Errorf ''generate code'' (Errorf ''generate random bytes'' (ErrorNew ''rand'')))
      | Some bytes \<Rightarrow> (case generateCodeList entropy (Suc k) n c of
            Inl e \<Rightarrow> Inl e
          | Inr cs \<Rightarrow> Inr (c\<lparr>rc_Code := GenerateRandomCode bytes\<rparr> # cs)))"

definition GenerateCodes :: "ext \<Rightarrow> (nat \<Rightarrow> 8 word list option) \<Rightarrow> generate_request \<Rightarrow> redeem_code list se" where
  "GenerateCodes x entropy req =
     (if gr_Count req \<le> 0 then ret (Inl (ErrorNew ''count must be greater than 0''))
      else if gr_Type req \<noteq> RedeemTypeInvitation \<and> feq (gr_Value req) fzero
      then ret (Inl (ErrorNew ''value must not be zero''))
      else if 1000 < gr_Count req then ret (Inl (ErrorNew ''cannot generate more than 1000 codes at once''))
      else
        (let codeType = (if gr_Type req = [] then RedeemTypeBalance else gr_Type req);
             value = (if codeType = RedeemTypeInvitation then fzero else gr_Value req)
         in case generateCodeList entropy 0 (nat (gr_Count req)) (blankCode\<lparr>rc_Type := codeType, rc_Value := value\<rparr>) of
              Inl e \<Rightarrow> ret (Inl e)
            | Inr cs \<Rightarrow> do {
                now \<leftarrow> timeNow;
                bindE (exec (codeCreateBatchStmt x now cs)) (Errorf ''create batch codes'') (\<lambda>_. ret (Inr cs))
              }))"

definition CreateCode :: "ext \<Rightarrow> redeem_code option \<Rightarrow> unit se" where
  "CreateCode x code =
     (case code of
        None \<Rightarrow> ret (Inl (ErrorNew ''redeem code is required''))
      | Some c0 \<Rightarrow>
          (let c1 = c0\<lparr>rc_Code := trimSpace (rc_Code c0)\<rparr>
           in if rc_Code c1 = [] then ret (Inl (ErrorNew ''code is required''))
              else let c2 = (if rc_Type c1 = [] then c1\<lparr>rc_Type := RedeemTypeBalance\<rparr> else c1)
                   in if rc_Type c2 \<noteq> RedeemTypeInvitation \<and> feq (rc_Value c2) fzero
                      then ret (Inl (ErrorNew ''value must not be zero''))
                      else do {
                        now \<leftarrow> timeNow;
                        bindE (exec (codeCreateStmt x now c2)) (Errorf ''create redeem code'') (\<lambda>_. ret (Inr ()))
                      }))"

section \<open>Rate limit and lock\<close>

definition checkRedeemRateLimit :: "ext \<Rightarrow> int \<Rightarrow> unit se" where
  "checkRedeemRateLimit x uid =
     (if \<not> x_redis x then ret (Inr ())
      else do {
        r \<leftarrow> query (\<lambda>d. redeemAttempts d uid);
        case r of
          Inl _ \<Rightarrow> ret (Inr ())
        | Inr count \<Rightarrow> if redeemMaxErrorsPerHour \<le> count then ret (Inl ErrRedeemRateLimited) else ret (Inr ())
      })"

definition incrementRedeemErrorCount :: "ext \<Rightarrow> int \<Rightarrow> unit sp" where
  "incrementRedeemErrorCount x uid =
     (if \<not> x_redis x then ret ()
      else do {
        _ \<leftarrow> exec (\<lambda>d. (Inr (), d\<lparr>redeemAttempts := (redeemAttempts d)(uid := redeemAttempts d uid + 1)\<rparr>));
        ret ()
      })"

text \<open>\<open>SETNX\<close>: taken only when the key is absent.\<close>

definition acquireRedeemLock :: "ext \<Rightarrow> string \<Rightarrow> bool sp" where
  "acquireRedeemLock x code =
     (if \<not> x_redis x then ret True
      else do {
        r \<leftarrow> exec (\<lambda>d. (Inr (code \<notin> redeemLocks d), d\<lparr>redeemLocks := insert code (redeemLocks d)\<rparr>));
        ret (case r of Inl _ \<Rightarrow> True | Inr ok \<Rightarrow> ok)
      })"

definition releaseRedeemLock :: "ext \<Rightarrow> string \<Rightarrow> unit sp" where
  "releaseRedeemLock x code =
     (if \<not> x_redis x then ret ()
      else do {
        _ \<leftarrow> exec (\<lambda>d. (Inr (), d\<lparr>redeemLocks := redeemLocks d - {code}\<rparr>));
        ret ()
      })"

section \<open>Redeeming\<close>

text \<open>The notes are UTF-8 text.\<close>

definition utf8 :: "nat list \<Rightarrow> string" where
  "utf8 ns = map char_of ns"

definition redeemNotes :: "string \<Rightarrow> string" where
  "redeemNotes code =
     utf8 [0xE9,0x80,0x9A,0xE8,0xBF,0x87,0xE5,0x85,0x91,0xE6,0x8D,0xA2,0xE7,0xA0,0x81,0x20] @ code @
     utf8 [0x20,0xE5,0x85,0x91,0xE6,0x8D,0xA2]"

definition reduceNotes :: "string \<Rightarrow> int \<Rightarrow> string" where
  "reduceNotes code days =
     utf8 [0xE9,0x80,0x9A,0xE8,0xBF,0x87,0xE5,0x85,0x91,0xE6,0x8D,0xA2,0xE7,0xA0,0x81,0x20] @ code @
     utf8 [0x20,0xE9,0x80,0x80,0xE6,0xAC,0xBE,0xE6,0x89,0xA3,0xE5,0x87,0x8F,0x20] @ formatInt days @
     utf8 [0x20,0xE5,0xA4,0xA9]"

definition useErr :: "go_err \<Rightarrow> go_err" where
  "useErr e = (if errIs e ErrRedeemCodeNotFound \<or> errIs e ErrRedeemCodeUsed then ErrRedeemCodeUsed
               else Errorf ''mark code as used'' e)"

definition beginErr :: "go_err \<Rightarrow> go_err" where
  "beginErr = Errorf ''begin transaction''"

definition commitErr :: "go_err \<Rightarrow> go_err" where
  "commitErr = Errorf ''commit transaction''"

definition redeemAmount :: "f64 \<Rightarrow> f64 \<Rightarrow> f64" where
  "redeemAmount value balance =
     (if flt value fzero \<and> flt (fadd balance value) fzero then fneg balance else value)"

definition redeemDelta :: "f64 \<Rightarrow> int \<Rightarrow> int" where
  "redeemDelta value concurrency =
     (let delta = ftrunc value
      in if delta < 0 \<and> wrap64 (concurrency + delta) < 0 then wrap64 (- concurrency) else delta)"

text \<open>The days left, as \<open>int(sub.ExpiresAt.Sub(now).Hours() / 24)\<close> cut at 0, and the statements
  \<open>reduceOrCancelSubscription\<close> then sends inside the transaction.\<close>

definition remainingDays :: "instant \<Rightarrow> user_subscription \<Rightarrow> int" where
  "remainingDays now s =
     (let r = ftrunc (fdiv (durHours (timeSub (us_ExpiresAt s) now)) (fofint 24)) in if r < 0 then 0 else r)"

definition reduceSteps :: "instant \<Rightarrow> user_subscription \<Rightarrow> int \<Rightarrow> string \<Rightarrow> store step list" where
  "reduceSteps now s reduceDays code =
     (let h = Errorf ''reduce or cancel subscription''
      in (if remainingDays now s \<le> reduceDays
          then [(\<lambda>e. h (Errorf ''cancel subscription'' e), UpdateStatusStmt (us_ID s) SubExpired),
                (\<lambda>e. h (Errorf ''set subscription expiry'' e), ExtendExpiryStmt (us_ID s) now)]
          else [(\<lambda>e. h (Errorf ''reduce subscription'' e), ExtendExpiryStmt (us_ID s) (addDays (us_ExpiresAt s) (- reduceDays)))]) @
         [(\<lambda>e. h (Errorf ''update subscription notes'' e),
           UpdateNotesStmt (us_ID s) (appendNotes (us_Notes s) (reduceNotes code reduceDays)))])"

definition useStep :: "redeem_code \<Rightarrow> int \<Rightarrow> instant \<Rightarrow> store step" where
  "useStep c uid now = (useErr, codeUseStmt (rc_ID c) uid now)"

text \<open>
  A subscription code: the transaction of \<open>Redeem\<close> is open while the subscription service works. The row lock
  that \<open>Use\<close> takes keeps the code from changing until the commit, where \<open>Use\<close> and the other statements of the
  outer transaction become visible together.

  \<open>AssignOrExtendSubscription\<close> is called with the transaction's context. A subscription that exists is
  extended in a transaction of its own (\<open>s.entClient.Tx\<close>), which commits before the outer one; a
  new one is created inside the outer transaction. A read that fails there leaves the transaction aborted, so
  the creation that the code tries next fails too.
\<close>

definition createStep :: "user_subscription \<Rightarrow> store step" where
  "createStep s = (id,
     \<lambda>d. let (r, d') = subCreateStmt s d in (map_sum id (\<lambda>_. ()) r, d'))"

definition assignInTx :: "ext \<Rightarrow> store step \<Rightarrow> assign_input \<Rightarrow> (store step list) se" where
  "assignInTx x use input =
     bindE (checkSubscriptionGroup (ai_GroupID input)) id (\<lambda>_. do {
       r \<leftarrow> GetByUserIDAndGroupID (ai_UserID input) (ai_GroupID input);
       case r of
         Inr existing \<Rightarrow> bindE (extendExisting x existing input) id (\<lambda>_. ret (Inr [use]))
       | Inl e \<Rightarrow>
           if \<not> errIs e ErrSubscriptionNotFound then ret (Inl e)
           else do {
             now \<leftarrow> timeNow;
             let steps = [use, createStep (newSubscription now input)];
             bindE (inTx id steps) id (\<lambda>_. do {
               _ \<leftarrow> InvalidateSubCache x (ai_UserID input) (ai_GroupID input);
               ret (Inr steps)
             })
           }
     })"

definition reduceInTx :: "ext \<Rightarrow> store step \<Rightarrow> int \<Rightarrow> int \<Rightarrow> int \<Rightarrow> string \<Rightarrow> (store step list) se" where
  "reduceInTx x use uid gid reduceDays code =
     bindE (GetByUserIDAndGroupID uid gid)
       (\<lambda>_. Errorf ''reduce or cancel subscription'' ErrSubscriptionNotFound) (\<lambda>s. do {
         now \<leftarrow> timeNow;
         let steps = use # reduceSteps now s reduceDays code;
         bindE (inTx id steps) id (\<lambda>_. do {
           _ \<leftarrow> InvalidateSubCache x uid gid;
           ret (Inr steps)
         })
       })"

definition redeemSubscription :: "ext \<Rightarrow> int \<Rightarrow> redeem_code \<Rightarrow> int \<Rightarrow> unit se" where
  "redeemSubscription x uid c gid = do {
     now \<leftarrow> timeNow;
     let use = useStep c uid now;
     let days = rc_ValidityDays c;
     bindE (inTx beginErr [use]) id (\<lambda>_.
     bindE (if days < 0 then reduceInTx x use uid gid (- days) (rc_Code c)
            else bindE (assignInTx x use \<lparr>ai_UserID = uid, ai_GroupID = gid,
                   ai_ValidityDays = (if days = 0 then 30 else days), ai_AssignedBy = 0,
                   ai_Notes = redeemNotes (rc_Code c)\<rparr>)
                   (Errorf ''assign or extend subscription'') (\<lambda>steps. ret (Inr steps))) id (\<lambda>steps.
       transact id commitErr steps))
   }"

definition redeemEffect :: "ext \<Rightarrow> int \<Rightarrow> redeem_code \<Rightarrow> user \<Rightarrow> unit se" where
  "redeemEffect x uid c u =
     (if rc_Type c = RedeemTypeBalance then do {
        now \<leftarrow> timeNow;
        transact beginErr commitErr
          [useStep c uid now,
           (Errorf ''update user balance'', balanceStmt x uid (redeemAmount (rc_Value c) (readBalance u)))]
      }
      else if rc_Type c = RedeemTypeConcurrency then do {
        now \<leftarrow> timeNow;
        transact beginErr commitErr
          [useStep c uid now,
           (Errorf ''update user concurrency'', concurrencyStmt uid (redeemDelta (rc_Value c) (u_Concurrency u)))]
      }
      else if rc_Type c = RedeemTypeSubscription then
        (case rc_GroupID c of
           None \<Rightarrow> ret (Inl (GoPanic ''nil group id''))
         | Some gid \<Rightarrow> redeemSubscription x uid c gid)
      else do {
        now \<leftarrow> timeNow;
        transact beginErr commitErr
          [useStep c uid now, (id, \<lambda>d. (Inl (ErrorNew (''unsupported redeem type: '' @ rc_Type c)), d))]
      })"

definition redeemLocked :: "ext \<Rightarrow> int \<Rightarrow> string \<Rightarrow> redeem_code se" where
  "redeemLocked x uid code = do {
     r \<leftarrow> codeGetByCode code;
     case r of
       Inl e \<Rightarrow>
         if errIs e ErrRedeemCodeNotFound then do {
           _ \<leftarrow> incrementRedeemErrorCount x uid;
           ret (Inl ErrRedeemCodeNotFound)
         }
         else ret (Inl (Errorf ''get redeem code'' e))
     | Inr c \<Rightarrow>
         if \<not> CanUse c then do {
           _ \<leftarrow> incrementRedeemErrorCount x uid;
           ret (Inl ErrRedeemCodeUsed)
         }
         else if rc_Type c = RedeemTypeSubscription \<and> rc_GroupID c = None
         then ret (Inl (BadRequest ''REDEEM_CODE_INVALID'' ''invalid subscription redeem code: missing group_id''))
         else
           bindE (userGetByID uid) (Errorf ''get user'') (\<lambda>u.
           bindE (redeemEffect x uid c u) id (\<lambda>_.
           bindE (codeGetByID (rc_ID c)) (Errorf ''get updated redeem code'') (\<lambda>c'. ret (Inr c'))))
   }"

definition Redeem_code :: "ext \<Rightarrow> int \<Rightarrow> string \<Rightarrow> redeem_code se" where
  "Redeem_code x uid code =
     bindE (checkRedeemRateLimit x uid) id (\<lambda>_. do {
       ok \<leftarrow> acquireRedeemLock x code;
       if \<not> ok then ret (Inl ErrRedeemCodeLocked)
       else do {
         r \<leftarrow> redeemLocked x uid code;
         _ \<leftarrow> releaseRedeemLock x code;
         ret r
       }
     })"

section \<open>Reading and deleting\<close>

definition GetByID :: "int \<Rightarrow> redeem_code se" where
  "GetByID i = bindE (codeGetByID i) (Errorf ''get redeem code'') (\<lambda>c. ret (Inr c))"

definition GetByCode :: "string \<Rightarrow> redeem_code se" where
  "GetByCode n = bindE (codeGetByCode n) (Errorf ''get redeem code'') (\<lambda>c. ret (Inr c))"

definition DeleteCode :: "int \<Rightarrow> unit se" where
  "DeleteCode i =
     bindE (codeGetByID i) (Errorf ''get redeem code'') (\<lambda>c.
       if IsUsed c then ret (Inl (Conflict ''REDEEM_CODE_DELETE_USED'' ''cannot delete used redeem code''))
       else bindE (exec (codeDeleteStmt i)) (Errorf ''delete redeem code'') (\<lambda>_. ret (Inr ())))"

section \<open>The ledger\<close>

text \<open>Numeric columns have eight decimals. Adding a parameter to one adds the parameter's decimal value, rounded to
  eight decimals: a balance that is on the grid stays there, and the amount added does not depend on it.\<close>

definition onGrid :: "rat \<Rightarrow> bool" where
  "onGrid q \<longleftrightarrow> q * 10 ^ 8 \<in> \<int>"

definition sumsExact :: "ext \<Rightarrow> bool" where
  "sumsExact x \<longleftrightarrow> (\<forall>b q. onGrid b \<longrightarrow>
     onGrid (x_sqlAdd x b (F64 q)) \<and> x_sqlAdd x b (F64 q) = b + x_sqlAdd x 0 (F64 q))"

definition balanceOf :: "store \<Rightarrow> int \<Rightarrow> rat" where
  "balanceOf d uid = (case tget (\<lambda>u. u_ID u = uid) (users d) of None \<Rightarrow> 0 | Some u \<Rightarrow> u_Balance u)"

definition creditOf :: "ext \<Rightarrow> int \<Rightarrow> redeem_code \<Rightarrow> rat" where
  "creditOf x uid c =
     (if rc_Type c = RedeemTypeBalance \<and> rc_Status c = Used \<and> rc_UsedBy c = Some uid
      then x_sqlAdd x 0 (rc_Value c) else 0)"

definition credited :: "ext \<Rightarrow> store \<Rightarrow> int \<Rightarrow> rat" where
  "credited x d uid = sum_list (map (creditOf x uid) (codes d))"

text \<open>The tables of a store in order: codes have unique identifiers below the sequence and unique texts, a balance
  code carries a finite amount that is not negative, and balances are on the grid.\<close>

definition codeOk :: "redeem_code \<Rightarrow> bool" where
  "codeOk c \<longleftrightarrow> (rc_Type c = RedeemTypeBalance \<longrightarrow> (\<exists>q. rc_Value c = F64 q \<and> 0 \<le> q))"

definition codesOk :: "store \<Rightarrow> bool" where
  "codesOk d \<longleftrightarrow>
     distinct (map rc_ID (codes d)) \<and> (\<forall>c \<in> set (codes d). rc_ID c < nextCode d) \<and>
     distinct (map rc_Code (codes d)) \<and> (\<forall>c \<in> set (codes d). codeOk c) \<and>
     (\<forall>u \<in> set (users d). onGrid (u_Balance u))"

definition codeSucc :: "redeem_code \<Rightarrow> redeem_code \<Rightarrow> bool" where
  "codeSucc c c' \<longleftrightarrow> rc_ID c' = rc_ID c \<and> rc_Code c' = rc_Code c \<and> rc_Type c' = rc_Type c \<and>
     rc_Value c' = rc_Value c \<and> (rc_Status c = Used \<longrightarrow> c' = c)"

text \<open>One step of the protocol of codes and balances: a code keeps its text, type and value, a used code stays as it
  is, identifiers are not given out twice, and a balance moves by exactly the codes its user redeems.\<close>

definition creditOnce :: "ext \<Rightarrow> store \<Rightarrow> store \<Rightarrow> bool" where
  "creditOnce x d d' \<longleftrightarrow> (codesOk d \<longrightarrow>
     codesOk d' \<and> nextCode d \<le> nextCode d' \<and>
     (\<forall>c' \<in> set (codes d'). rc_ID c' < nextCode d \<longrightarrow> (\<exists>c \<in> set (codes d). codeSucc c c')) \<and>
     (\<forall>c \<in> set (codes d). rc_Status c = Used \<longrightarrow> c \<in> set (codes d')) \<and>
     (\<forall>uid. balanceOf d' uid - credited x d' uid = balanceOf d uid - credited x d uid))"

lemma codeSucc_refl: "codeSucc c c"
  by (simp add: codeSucc_def)

lemma codeSucc_trans: "codeSucc a b \<Longrightarrow> codeSucc b c \<Longrightarrow> codeSucc a c"
  by (auto simp: codeSucc_def)

interpretation credit: protocol "creditOnce x" for x
proof
  fix d show "creditOnce x d d" by (auto simp: creditOnce_def intro: codeSucc_refl)
next
  fix a b c assume ab: "creditOnce x a b" and bc: "creditOnce x b c"
  show "creditOnce x a c"
    unfolding creditOnce_def
  proof (intro impI conjI)
    assume a: "codesOk a"
    with ab have b: "codesOk b" by (simp add: creditOnce_def)
    from b bc show "codesOk c" by (simp add: creditOnce_def)
    from a b ab bc show "nextCode a \<le> nextCode c" by (auto simp: creditOnce_def)
    from a b ab bc show "\<forall>ca \<in> set (codes a). rc_Status ca = Used \<longrightarrow> ca \<in> set (codes c)"
      by (simp add: creditOnce_def)
    from a b ab bc show "\<forall>uid. balanceOf c uid - credited x c uid = balanceOf a uid - credited x a uid"
      by (simp add: creditOnce_def)
    show "\<forall>c' \<in> set (codes c). rc_ID c' < nextCode a \<longrightarrow> (\<exists>ca \<in> set (codes a). codeSucc ca c')"
    proof (intro ballI impI)
      fix c' assume c': "c' \<in> set (codes c)" "rc_ID c' < nextCode a"
      then obtain cb where cb: "cb \<in> set (codes b)" "codeSucc cb c'"
        using a b ab bc by (auto simp: creditOnce_def)
      then have "rc_ID cb < nextCode a" using c' by (simp add: codeSucc_def)
      then obtain ca where "ca \<in> set (codes a)" "codeSucc ca cb"
        using a ab cb by (auto simp: creditOnce_def)
      then show "\<exists>ca \<in> set (codes a). codeSucc ca c'" using cb codeSucc_trans by blast
    qed
  qed
qed

text \<open>Steps that leave codes and balances alone are steps of the protocol.\<close>

definition balances :: "store \<Rightarrow> (int \<times> rat) list" where
  "balances d = map (\<lambda>u. (u_ID u, u_Balance u)) (users d)"

lemma balanceOf_balances: "balanceOf d uid = (case map_of (balances d) uid of None \<Rightarrow> 0 | Some b \<Rightarrow> b)"
proof -
  have "map_of (map (\<lambda>u. (u_ID u, u_Balance u)) us) uid = map_option u_Balance (tget (\<lambda>u. u_ID u = uid) us)" for us
    by (induction us) (auto simp: table_simps)
  from this [of "users d"] show ?thesis by (auto simp: balanceOf_def balances_def split: option.splits)
qed

lemma onGrid_balances: "(\<forall>u \<in> set (users d). onGrid (u_Balance u)) \<longleftrightarrow> (\<forall>b \<in> set (balances d). onGrid (snd b))"
  by (simp add: balances_def)

definition sameMoney :: "store \<Rightarrow> store \<Rightarrow> bool" where
  "sameMoney d d' \<longleftrightarrow> codes d' = codes d \<and> nextCode d' = nextCode d \<and> balances d' = balances d"

interpretation money: protocol sameMoney
  by unfold_locales (simp_all add: sameMoney_def)

lemma sameMoney_frame: "codes d' = codes d \<Longrightarrow> nextCode d' = nextCode d \<Longrightarrow> users d' = users d \<Longrightarrow> sameMoney d d'"
  by (simp add: sameMoney_def balances_def)

lemma sameMoney_sub: "subStep d d' \<Longrightarrow> sameMoney d d'"
  by (intro sameMoney_frame) (simp_all add: subStep_frame)

lemma creditOnce_money: "sameMoney d d' \<Longrightarrow> creditOnce x d d'"
  by (auto simp: creditOnce_def sameMoney_def codesOk_def onGrid_balances balanceOf_balances credited_def
      intro: codeSucc_refl)

lemma stable_codesOk: "stable (creditOnce x) codesOk"
  by (auto simp: stable_def creditOnce_def)

text \<open>What a process knows of a code it has read.\<close>

definition knows :: "redeem_code \<Rightarrow> store \<Rightarrow> bool" where
  "knows c d \<longleftrightarrow> codesOk d \<and> codeOk c \<and> rc_ID c < nextCode d \<and>
     (\<forall>c' \<in> set (codes d). rc_ID c' = rc_ID c \<longrightarrow> rc_Type c' = rc_Type c \<and> rc_Value c' = rc_Value c)"

lemma stable_knows: "stable (creditOnce x) (knows c)"
  unfolding stable_def
proof (intro allI impI)
  fix d d' assume k: "knows c d" and r: "creditOnce x d d'"
  then have d': "codesOk d'" "nextCode d \<le> nextCode d'"
    and old: "\<And>c'. c' \<in> set (codes d') \<Longrightarrow> rc_ID c' < nextCode d \<Longrightarrow> \<exists>c0 \<in> set (codes d). codeSucc c0 c'"
    by (auto simp: knows_def creditOnce_def)
  have "rc_Type c' = rc_Type c \<and> rc_Value c' = rc_Value c" if "c' \<in> set (codes d')" "rc_ID c' = rc_ID c" for c'
    using old [OF that(1)] k that(2) by (auto simp: knows_def codeSucc_def)
  then show "knows c d'" using k d' by (auto simp: knows_def)
qed

lemma knows_read:
  assumes "codesOk d" and "c \<in> set (codes d)"
  shows "knows c d"
proof -
  have "c' = c" if "c' \<in> set (codes d)" "rc_ID c' = rc_ID c" for c'
    using assms that inj_onD [of rc_ID "set (codes d)" c' c] by (simp add: codesOk_def distinct_map)
  then show ?thesis using assms by (auto simp: knows_def codesOk_def)
qed

lemma sum_list_tupd_one:
  fixes f :: "'r \<Rightarrow> rat"
  shows "distinct rs \<Longrightarrow> r \<in> set rs \<Longrightarrow> (\<forall>s \<in> set rs. p s = (s = r)) \<Longrightarrow>
    sum_list (map f (tupd p g rs)) = sum_list (map f rs) + (f (g r) - f r)"
proof (induction rs)
  case (Cons s rs)
  show ?case
  proof (cases "s = r")
    case True
    then have "tcount p rs = 0" using Cons.prems by (auto simp: tcount_0)
    then show ?thesis using True Cons.prems by (simp add: table_simps tupd_none)
  next
    case False
    then have "r \<in> set rs" "\<not> p s" using Cons.prems by auto
    then show ?thesis using Cons.IH Cons.prems by (simp add: table_simps)
  qed
qed simp

text \<open>The effect of \<open>Use\<close> on the credited sum: nothing for a code of another type, the value of a balance code.\<close>

lemma codeUse_credited:
  assumes ok: "codesOk d" and c: "knows c d" and r: "tcount (redeemable (rc_ID c)) (codes d) \<noteq> 0"
  shows "credited x (d\<lparr>codes := tupd (redeemable (rc_ID c)) (markUsed uid now) (codes d)\<rparr>) v =
    credited x d v + (if rc_Type c = RedeemTypeBalance \<and> v = uid then x_sqlAdd x 0 (rc_Value c) else 0)"
proof -
  from r obtain c0 where c0: "c0 \<in> set (codes d)" "redeemable (rc_ID c) c0" by (auto simp: tcount_0)
  have "\<forall>s \<in> set (codes d). redeemable (rc_ID c) s = (s = c0)"
    using ok c0 by (auto simp: codesOk_def redeemable_def distinct_map inj_on_def)
  moreover have "distinct (codes d)" using ok by (auto simp: codesOk_def distinct_map)
  ultimately have "credited x (d\<lparr>codes := tupd (redeemable (rc_ID c)) (markUsed uid now) (codes d)\<rparr>) v =
      credited x d v + (creditOf x v (markUsed uid now c0) - creditOf x v c0)"
    using sum_list_tupd_one [of "codes d" c0] c0 by (simp add: credited_def)
  moreover have "creditOf x v c0 = 0" using c0 by (simp add: creditOf_def redeemable_def)
  moreover have "rc_Type c0 = rc_Type c" "rc_Value c0 = rc_Value c"
    using c c0 by (auto simp: knows_def redeemable_def)
  ultimately show ?thesis by (auto simp: creditOf_def markUsed_def)
qed

lemma codeUse_codes:
  assumes ok: "codesOk d" and d': "codes d' = tupd (redeemable i) (markUsed uid now) (codes d)"
    "nextCode d' = nextCode d" and u: "\<forall>u \<in> set (users d'). onGrid (u_Balance u)"
  shows "codesOk d'" "\<forall>c' \<in> set (codes d'). rc_ID c' < nextCode d \<longrightarrow> (\<exists>c \<in> set (codes d). codeSucc c c')"
    "\<forall>c \<in> set (codes d). rc_Status c = Used \<longrightarrow> c \<in> set (codes d')"
proof -
  have "map rc_ID (codes d') = map rc_ID (codes d)" "map rc_Code (codes d') = map rc_Code (codes d)"
    unfolding d' by (intro map_key_tupd; simp add: markUsed_def)+
  moreover have "\<forall>c \<in> set (codes d'). rc_ID c < nextCode d \<and> codeOk c"
    using ok by (auto simp: d' set_tupd codesOk_def markUsed_def codeOk_def)
  ultimately show "codesOk d'" using ok u by (simp add: codesOk_def d'(2))
  show "\<forall>c' \<in> set (codes d'). rc_ID c' < nextCode d \<longrightarrow> (\<exists>c \<in> set (codes d). codeSucc c c')"
    by (auto simp: d' set_tupd codeSucc_def markUsed_def redeemable_def)
  show "\<forall>c \<in> set (codes d). rc_Status c = Used \<longrightarrow> c \<in> set (codes d')"
    by (auto simp: d' set_tupd redeemable_def image_iff intro!: bexI)
qed

lemma sameMoney_concurrency: "sameMoney d (snd (concurrencyStmt i n d))"
  by (auto simp: sameMoney_def concurrencyStmt_def balances_def tupd_def)

lemma useStep_run:
  "runSteps None (useStep c uid now # ss) d = Inr d' \<longleftrightarrow>
     tcount (redeemable (rc_ID c)) (codes d) \<noteq> 0 \<and>
     runSteps None ss (d\<lparr>codes := tupd (redeemable (rc_ID c)) (markUsed uid now) (codes d)\<rparr>) = Inr d'"
  by (auto simp: useStep_def codeUseStmt_def)

text \<open>A code of another type is used without moving money.\<close>

lemma use_other:
  assumes c: "knows c d" "rc_Type c \<noteq> RedeemTypeBalance"
    and ss: "\<And>st d. st \<in> set ss \<Longrightarrow> sameMoney d (snd (snd st d))"
    and r: "runSteps None (useStep c uid now # ss) d = Inr d'"
  shows "creditOnce x d d'"
proof -
  let ?d = "d\<lparr>codes := tupd (redeemable (rc_ID c)) (markUsed uid now) (codes d)\<rparr>"
  have ok: "codesOk d" using c by (simp add: knows_def)
  from r have n: "tcount (redeemable (rc_ID c)) (codes d) \<noteq> 0" and r': "runSteps None ss ?d = Inr d'"
    by (simp_all add: useStep_run)
  have "creditOnce x d ?d"
    using codeUse_credited [OF ok c(1) n] codeUse_codes [OF ok, of ?d] c ok
    by (simp add: creditOnce_def balanceOf_def codesOk_def)
  moreover have "creditOnce x ?d d'"
    by (rule creditOnce_money) (rule money.steps_R [OF ss r'])
  ultimately show ?thesis by (rule credit.R_trans)
qed

lemma addBalance_exact:
  assumes "sumsExact x" and "onGrid (u_Balance u)"
  shows "u_ID (addBalance x (F64 q) u) = u_ID u" "u_Balance (addBalance x (F64 q) u) = u_Balance u + x_sqlAdd x 0 (F64 q)"
    "onGrid (u_Balance (addBalance x (F64 q) u))"
proof -
  have "x_sqlAdd x (u_Balance u) (F64 q) = u_Balance u + x_sqlAdd x 0 (F64 q)" "onGrid (x_sqlAdd x (u_Balance u) (F64 q))"
    using assms unfolding sumsExact_def by blast+
  then show "u_ID (addBalance x (F64 q) u) = u_ID u" "u_Balance (addBalance x (F64 q) u) = u_Balance u + x_sqlAdd x 0 (F64 q)"
    "onGrid (u_Balance (addBalance x (F64 q) u))"
    by (auto simp: addBalance_def Let_def)
qed

lemma balanceStmt_exact:
  assumes x: "sumsExact x" and g: "\<forall>u \<in> set (users d). onGrid (u_Balance u)"
    and r: "balanceStmt x uid (F64 q) d = (Inr (), d')"
  shows "codes d' = codes d" "nextCode d' = nextCode d" "\<forall>u \<in> set (users d'). onGrid (u_Balance u)"
    "balanceOf d' v = balanceOf d v + (if v = uid then x_sqlAdd x 0 (F64 q) else 0)"
proof -
  from r have d': "d' = d\<lparr>users := tupd (\<lambda>u. u_ID u = uid) (addBalance x (F64 q)) (users d)\<rparr>"
    and n: "tcount (\<lambda>u. u_ID u = uid) (users d) \<noteq> 0"
    by (auto simp: balanceStmt_def split: if_splits)
  show "codes d' = codes d" "nextCode d' = nextCode d" by (simp_all add: d')
  show "\<forall>u \<in> set (users d'). onGrid (u_Balance u)"
    using g addBalance_exact(3) [OF x] by (auto simp: d' set_tupd)
  have id: "u_ID (addBalance x (F64 q) u) = u_ID u" for u by (simp add: addBalance_def Let_def)
  have "tget (\<lambda>u. u_ID u = uid) (users d) \<noteq> None" using n by (simp add: tcount_0 tget_None)
  then obtain u where u: "tget (\<lambda>u. u_ID u = uid) (users d) = Some u" by blast
  then have b: "u_Balance (addBalance x (F64 q) u) = u_Balance u + x_sqlAdd x 0 (F64 q)"
    using g addBalance_exact(2) [OF x] tget_Some [OF u] by simp
  have t: "tget (\<lambda>u. u_ID u = v) (users d') =
      map_option (\<lambda>r. if u_ID r = uid then addBalance x (F64 q) r else r) (tget (\<lambda>u. u_ID u = v) (users d))"
    by (simp add: d' tget_tupd_key [where key = u_ID, OF id])
  show "balanceOf d' v = balanceOf d v + (if v = uid then x_sqlAdd x 0 (F64 q) else 0)"
  proof (cases "v = uid")
    case True
    with u t b tget_Some [OF u] show ?thesis by (simp add: balanceOf_def)
  next
    case False
    have "u_ID r \<noteq> uid" if "tget (\<lambda>u. u_ID u = v) (users d) = Some r" for r
      using tget_Some [OF that] False by simp
    with False t show ?thesis by (cases "tget (\<lambda>u. u_ID u = v) (users d)") (simp_all add: balanceOf_def)
  qed
qed

lemma redeemAmount_nonneg: "0 \<le> q \<Longrightarrow> redeemAmount (F64 q) b = F64 q"
  by (simp add: redeemAmount_def)




text \<open>A balance code moves the balance by its value, once.\<close>

lemma use_balance:
  assumes x: "sumsExact x" and c: "knows c d" "rc_Type c = RedeemTypeBalance"
    and r: "runSteps None [useStep c uid now, (h, balanceStmt x uid (redeemAmount (rc_Value c) b))] d = Inr d'"
  shows "creditOnce x d d'"
proof -
  let ?d = "d\<lparr>codes := tupd (redeemable (rc_ID c)) (markUsed uid now) (codes d)\<rparr>"
  have ok: "codesOk d" using c by (simp add: knows_def)
  obtain q where q: "rc_Value c = F64 q" "0 \<le> q" using c by (auto simp: knows_def codeOk_def)
  from r have n: "tcount (redeemable (rc_ID c)) (codes d) \<noteq> 0" and b: "balanceStmt x uid (F64 q) ?d = (Inr (), d')"
    by (auto simp: useStep_run q redeemAmount_nonneg split: sum.splits prod.splits)
  have g: "\<forall>u \<in> set (users ?d). onGrid (u_Balance u)" using ok by (simp add: codesOk_def)
  note B = balanceStmt_exact [OF x g b]
  have "credited x d' v = credited x ?d v" "balanceOf ?d v = balanceOf d v" for v
    using B(1) by (simp_all add: credited_def balanceOf_def)
  then have "\<forall>v. balanceOf d' v - credited x d' v = balanceOf d v - credited x d v"
    using B(4) codeUse_credited [OF ok c(1) n] c(2) q(1) by simp
  then show ?thesis
    using codeUse_codes [OF ok _ _ B(3), of "rc_ID c" uid now] B(1,2) by (simp add: creditOnce_def)
qed

section \<open>Redeeming follows the protocol\<close>

lemma transact_knows:
  assumes "\<And>d d'. knows c d \<Longrightarrow> runSteps None ss d = Inr d' \<Longrightarrow> creditOnce x d d'"
  shows "rg (creditOnce x) (knows c) (transact hb hc ss) (\<lambda>_. codesOk)"
proof (rule credit.rg_transact [OF stable_knows])
  fix d d' assume "knows c d" "runSteps None ss d = Inr d'"
  then have "creditOnce x d d'" "codesOk d" by (auto intro: assms simp: knows_def)
  then show "creditOnce x d d' \<and> codesOk d' \<and> (\<forall>e. codesOk d')" by (simp add: creditOnce_def)
qed (simp add: knows_def)

lemma own_knows:
  "own T m \<Longrightarrow> (\<And>d d'. T d d' \<Longrightarrow> creditOnce x d d') \<Longrightarrow> rg (creditOnce x) (knows c) m (\<lambda>_. knows c)"
  by (rule credit.guar_inv [OF own_guar [OF _ credit.protocol_axioms] stable_knows])

lemma own_ok:
  "own T m \<Longrightarrow> (\<And>d d'. T d d' \<Longrightarrow> creditOnce x d d') \<Longrightarrow> rg (creditOnce x) codesOk m (\<lambda>_. codesOk)"
  by (rule credit.guar_inv [OF own_guar [OF _ credit.protocol_axioms] stable_codesOk])

lemma own_assignInTx: "own subStep (assignInTx x use input)"
  unfolding assignInTx_def Let_def
  by (intro own_rules own_group own_subReads own_extendExisting own_invalidate)

lemma own_reduceInTx: "own subStep (reduceInTx x use uid gid n code)"
  unfolding reduceInTx_def Let_def by (intro own_rules own_subReads own_invalidate)

definition moneyless :: "store step \<Rightarrow> go_err + store step list \<Rightarrow> bool" where
  "moneyless use r \<longleftrightarrow> (\<forall>steps. r = Inr steps \<longrightarrow>
     (\<exists>ss. steps = use # ss \<and> (\<forall>st \<in> set ss. \<forall>d. sameMoney d (snd (snd st d)))))"

lemma sameMoney_subUpdate: "sameMoney d (snd (subUpdateStmt i f d))"
  by (simp add: subUpdateStmt_def sameMoney_def balances_def)

lemma sameMoney_createStep: "sameMoney d (snd (snd (createStep s) d))"
  by (simp add: createStep_def subCreateStmt_def sameMoney_def balances_def Let_def)

lemma yields_assignInTx: "yields (assignInTx x use input) (moneyless use)"
  unfolding assignInTx_def Let_def
  by (intro yields_rules) (auto simp: moneyless_def sameMoney_createStep)

lemma yields_reduceInTx: "yields (reduceInTx x use uid gid n code) (moneyless use)"
  unfolding reduceInTx_def Let_def
  by (intro yields_rules)
     (auto simp: moneyless_def reduceSteps_def Let_def UpdateStatusStmt_def ExtendExpiryStmt_def
       UpdateNotesStmt_def sameMoney_subUpdate)

lemma commit_moneyless:
  assumes "rc_Type c \<noteq> RedeemTypeBalance"
  shows "rg (creditOnce x) (\<lambda>d. knows c d \<and> moneyless (useStep c uid now) (Inr steps))
    (transact hb hc steps) (\<lambda>_. codesOk)"
proof (cases "moneyless (useStep c uid now) (Inr steps)")
  case True
  then obtain ss where s: "steps = useStep c uid now # ss" "\<And>st d. st \<in> set ss \<Longrightarrow> sameMoney d (snd (snd st d))"
    by (auto simp: moneyless_def)
  have "rg (creditOnce x) (knows c) (transact hb hc steps) (\<lambda>_. codesOk)"
    by (rule transact_knows, unfold s(1)) (rule use_other [OF _ assms s(2)])
  then show ?thesis by (rule rg_weaken) auto
qed (simp add: rgx_def)

lemma redeemSubscription_credit:
  assumes ty: "rc_Type c \<noteq> RedeemTypeBalance"
  shows "rg (creditOnce x) (knows c) (redeemSubscription x uid c gid) (\<lambda>_. codesOk)"
proof -
  let ?Q = "\<lambda>now (r :: go_err + store step list) d. knows c d \<and> moneyless (useStep c uid now) r"
  have sub: "creditOnce x d d'" if "subStep d d'" for d d' using creditOnce_money sameMoney_sub that by blast
  have ass: "rg (creditOnce x) (knows c) (assignInTx x (useStep c uid now) input) (?Q now)" for now input
    by (rule rg_yields [OF own_knows [OF own_assignInTx sub] yields_assignInTx])
  have ass': "rg (creditOnce x) (knows c)
      (bindE (assignInTx x (useStep c uid now) input) h (\<lambda>steps. ret (Inr steps))) (?Q now)" for now input h
    by (rule credit.rg_bindE [OF ass credit.rg_ret]) (auto simp: moneyless_def)
  have red: "rg (creditOnce x) (knows c) (reduceInTx x (useStep c uid now) uid gid n code) (?Q now)" for now n code
    by (rule rg_yields [OF own_knows [OF own_reduceInTx sub] yields_reduceInTx])
  have br: "rg (creditOnce x) (knows c)
      (if b then reduceInTx x (useStep c uid now) uid gid n code
       else bindE (assignInTx x (useStep c uid now) input) h (\<lambda>steps. ret (Inr steps))) (?Q now)"
    for b now n code input h
    using red ass' by simp
  show ?thesis
    unfolding redeemSubscription_def Let_def
    by (rule credit.rg_seq [OF credit.rg_timeNow], rule credit.rg_bindE [OF credit.rg_inTx [OF stable_knows]], assumption)
       (rule credit.rg_bindE [OF br commit_moneyless [OF ty]], auto simp: knows_def)
qed

lemma redeemEffect_credit:
  assumes x: "sumsExact x"
  shows "rg (creditOnce x) (knows c) (redeemEffect x uid c u) (\<lambda>_. codesOk)"
proof -
  consider (B) "rc_Type c = RedeemTypeBalance" | (S) "rc_Type c = RedeemTypeSubscription"
    | (other) "rc_Type c \<noteq> RedeemTypeBalance" "rc_Type c \<noteq> RedeemTypeSubscription" by blast
  then show ?thesis
  proof cases
    case B
    then show ?thesis unfolding redeemEffect_def
      by (simp, intro credit.rg_seq [OF credit.rg_timeNow] transact_knows use_balance [OF x])
  next
    case S
    then have "rc_Type c \<noteq> RedeemTypeBalance" by (simp add: redeem_types)
    from redeemSubscription_credit [OF this] S show ?thesis unfolding redeemEffect_def
      by (auto simp: redeem_types knows_def intro!: credit.rg_ret split: option.splits)
  next
    case other
    have "creditOnce x d d'" if "knows c d" "runSteps None [useStep c uid now, (h, concurrencyStmt uid n)] d = Inr d'"
      for d d' now n h
      using that(2) by (intro use_other [OF that(1) other(1)]) (auto simp: sameMoney_concurrency)
    then show ?thesis using other unfolding redeemEffect_def
      by (auto intro!: credit.rg_seq [OF credit.rg_timeNow] transact_knows simp: useStep_run)
  qed
qed

text \<open>The whole of \<open>Redeem\<close>.\<close>

lemma own_redeemCache:
  "own sameMoney (checkRedeemRateLimit x uid)" "own sameMoney (incrementRedeemErrorCount x uid)"
  "own sameMoney (acquireRedeemLock x n)" "own sameMoney (releaseRedeemLock x n)"
  unfolding checkRedeemRateLimit_def incrementRedeemErrorCount_def acquireRedeemLock_def releaseRedeemLock_def
  by (intro own_rules own_exec; simp add: sameMoney_def balances_def)+

lemma codeGetByCode_credit:
  "rg (creditOnce x) codesOk (codeGetByCode n) (\<lambda>r d. codesOk d \<and> (\<forall>c. r = Inr c \<longrightarrow> knows c d \<and> rc_Code c = n))"
  unfolding codeGetByCode_def
  by (rule credit.rg_exec [OF stable_codesOk])
     (auto simp: credit.R_refl split: option.splits dest: tget_Some intro: knows_read)

lemma redeemLocked_credit:
  assumes x: "sumsExact x"
  shows "rg (creditOnce x) codesOk (redeemLocked x uid n) (\<lambda>_. codesOk)"
proof -
  have rd: "rg (creditOnce x) codesOk (codeGetByID i) (\<lambda>_. codesOk)" for i
    by (rule own_ok [where T = sameMoney]) (auto simp: codeGetByID_def intro: own_read creditOnce_money)
  have us: "rg (creditOnce x) (knows c) (userGetByID uid) (\<lambda>_. knows c)" for c
    by (rule own_knows [where T = sameMoney]) (auto simp: userGetByID_def intro: own_read creditOnce_money)
  have inc: "rg (creditOnce x) codesOk (incrementRedeemErrorCount x uid) (\<lambda>_. codesOk)"
    by (rule own_ok [OF own_redeemCache(2) creditOnce_money])
  have inc': "rg (creditOnce x) (knows c) (incrementRedeemErrorCount x uid) (\<lambda>_. codesOk)" for c
    by (rule rg_weaken [OF inc]) (auto simp: knows_def)
  have main: "rg (creditOnce x) (knows c) (bindE (userGetByID uid) h1 (\<lambda>u. bindE (redeemEffect x uid c u) id (\<lambda>_.
      bindE (codeGetByID (rc_ID c)) h2 (\<lambda>c'. ret (Inr c'))))) (\<lambda>_. codesOk)" for c h1 h2
    by (rule credit.rg_bindE [OF us credit.rg_bindE [OF redeemEffect_credit [OF x] credit.rg_bindE [OF rd credit.rg_ret]]])
       (auto simp: knows_def)
  have br: "rg (creditOnce x) (\<lambda>d. codesOk d \<and> (\<forall>c. r = Inr c \<longrightarrow> knows c d \<and> rc_Code c = n)) (k r) (\<lambda>_. codesOk)"
    if "\<And>e. r = Inl e \<Longrightarrow> rg (creditOnce x) codesOk (k r) (\<lambda>_. codesOk)"
      "\<And>c. r = Inr c \<Longrightarrow> rg (creditOnce x) (knows c) (k r) (\<lambda>_. codesOk)" for r and k :: "_ \<Rightarrow> redeem_code se"
  proof (cases r)
    case (Inl e)
    then show ?thesis using rg_weaken [OF that(1) [OF Inl]] by simp
  next
    case (Inr c)
    then show ?thesis using rg_weaken [OF that(2) [OF Inr], of "\<lambda>d. codesOk d \<and> knows c d \<and> rc_Code c = n" "\<lambda>_. codesOk"]
      by simp
  qed
  have end1: "rg (creditOnce x) codesOk (State_Monad.bind (incrementRedeemErrorCount x uid) (\<lambda>_. ret (Inl e))) (\<lambda>_. codesOk)"
    "rg (creditOnce x) (knows c) (State_Monad.bind (incrementRedeemErrorCount x uid) (\<lambda>_. ret (Inl e))) (\<lambda>_. codesOk)"
    for e :: go_err and c
    by (rule credit.rg_seq [OF inc credit.rg_ret], simp, rule credit.rg_seq [OF inc' credit.rg_ret], simp)
  show ?thesis
    unfolding redeemLocked_def
    by (rule credit.rg_seq [OF codeGetByCode_credit], rule br)
       (auto intro!: end1 main credit.rg_ret simp: knows_def)
qed

lemma Redeem_code_credit:
  assumes x: "sumsExact x"
  shows "rg (creditOnce x) codesOk (Redeem_code x uid n) (\<lambda>_. codesOk)"
proof -
  note c = own_ok [OF own_redeemCache(1) creditOnce_money] own_ok [OF own_redeemCache(3) creditOnce_money]
    own_ok [OF own_redeemCache(4) creditOnce_money]
  have "rg (creditOnce x) codesOk (State_Monad.bind (redeemLocked x uid n)
      (\<lambda>r. State_Monad.bind (releaseRedeemLock x n) (\<lambda>_. ret r))) (\<lambda>_. codesOk)"
    by (rule credit.rg_seq [OF redeemLocked_credit [OF x] credit.rg_seq [OF c(3) credit.rg_ret]])
  then show ?thesis
    unfolding Redeem_code_def
    by (intro credit.rg_bindE [OF c(1) credit.rg_seq [OF c(2)]]) (auto intro: credit.rg_ret)
qed

text \<open>A new code of the right shape joins the table unused.\<close>

lemma codeCreate_credit:
  assumes "codeOk c" and "rc_Status c = Unused" and f: "\<forall>q \<ge> 0. \<exists>r \<ge> 0. x_col8 x (F64 q) = F64 r"
  shows "creditOnce x d (snd (codeCreateStmt x now c d))"
proof -
  have "codeOk (codeRow x now i c)" for i using assms by (fastforce simp: codeOk_def codeRow_def)
  moreover have "creditOf x v (codeRow x now i c) = 0" for v i
    using assms(2) by (simp add: creditOf_def codeRow_def)
  ultimately show ?thesis
    by (auto simp: codeCreateStmt_def creditOnce_def codesOk_def codeTaken_def balanceOf_def credited_def
        codeRow_def intro: codeSucc_refl)
qed

section \<open>Properties\<close>

text \<open>Redeeming codes of amounts that are not negative keeps the ledger: whatever statements fail or lose their acknowledgement
  and however other redemptions are interleaved, every balance moves by exactly the balance codes that its user has newly redeemed,
  no used code is lost, reopened or changed, and the tables stay in order.\<close>

theorem redeem_credits_once:
  assumes "sumsExact x" and "relies (creditOnce x) w" and "codesOk (db w)"
    and "db (snd (run_state (Redeem_code x uid n) w)) = d'"
  shows "codesOk d' \<and> (\<forall>v. balanceOf d' v - balanceOf (db w) v = credited x d' v - credited x (db w) v) \<and>
    (\<forall>c \<in> set (codes (db w)). rc_Status c = Used \<longrightarrow> c \<in> set (codes d'))"
proof -
  obtain r w' where r: "run_state (Redeem_code x uid n) w = (r, w')" by fastforce
  have "creditOnce x (db w) (db w')"
    using Redeem_code_credit [OF assms(1)] assms(2,3) r unfolding rgx_def by blast
  then show ?thesis using assms(3,4) r by (auto simp: creditOnce_def algebra_simps)
qed

definition sampleCode :: "string \<Rightarrow> code_status \<Rightarrow> redeem_code" where
  "sampleCode ty st = blankCode\<lparr>rc_ID := 4, rc_Code := ''ABC'', rc_Type := ty, rc_Value := F64 5, rc_Status := st,
     rc_GroupID := Some 2, rc_ValidityDays := 30\<rparr>"

definition codeStore :: "string \<Rightarrow> code_status \<Rightarrow> store" where
  "codeStore ty st = subscribedStore\<lparr>codes := [sampleCode ty st], nextCode := 5\<rparr>"

lemma codesOk_sample: "codesOk (codeStore ty st)"
  by (auto simp: codesOk_def codeStore_def subscribedStore_def sampleCode_def codeOk_def sampleStore_def sampleUser_def onGrid_def)

lemma sumsExact_sample: "sumsExact (sampleExt s b)"
proof -
  have "onGrid (toScale 8 (F64 q))" for q by (simp add: onGrid_def toScale_def)
  moreover have "onGrid (a + b)" if "onGrid a" "onGrid b" for a b using that by (simp add: onGrid_def distrib_right)
  ultimately show ?thesis by (simp add: sumsExact_def sampleExt_def)
qed

theorem redeem_credits_once_witness:
  "codesOk (db (snd (run_state (Redeem_code (sampleExt ''paid'' True) 1 ''ABC'')
     (sampleWorld (codeStore RedeemTypeBalance Unused) (faults [Done, Unack, Done, Done, Unack])))))"
  using redeem_credits_once [OF sumsExact_sample relies_faults [OF credit.R_refl] _ refl] codesOk_sample by simp

lemma run_rateLimit:
  "script w = [] \<Longrightarrow> redeemAttempts (db w) uid < redeemMaxErrorsPerHour \<Longrightarrow>
   run_state (checkRedeemRateLimit x uid) w = (Inr (), w)"
  by (simp add: checkRedeemRateLimit_def run_simps)

lemma run_increment:
  "script w = [] \<Longrightarrow> \<exists>f. run_state (incrementRedeemErrorCount x uid) w = ((), w\<lparr>db := (db w)\<lparr>redeemAttempts := f\<rparr>\<rparr>) \<and>
     f = (if x_redis x then (redeemAttempts (db w))(uid := redeemAttempts (db w) uid + 1) else redeemAttempts (db w))"
  by (simp add: incrementRedeemErrorCount_def run_simps)

text \<open>A call that passes the rate limit and takes the lock is the locked part, with the lock released at the end.\<close>

lemma run_Redeem_locked:
  assumes "script w = []" and "redeemAttempts (db w) uid < redeemMaxErrorsPerHour" and "n \<notin> redeemLocks (db w)"
    and "run_state (redeemLocked x uid n) (w\<lparr>db := (db w)\<lparr>redeemLocks := (if x_redis x then {n} else {}) \<union> redeemLocks (db w)\<rparr>\<rparr>) =
      (r, w\<lparr>db := d\<rparr>)"
    and "redeemLocks d = (if x_redis x then {n} else {}) \<union> redeemLocks (db w)"
  shows "run_state (Redeem_code x uid n) w = (r, w\<lparr>db := d\<lparr>redeemLocks := redeemLocks (db w)\<rparr>\<rparr>)"
proof (cases "x_redis x")
  case True
  with assms show ?thesis
    by (simp add: Redeem_code_def run_rateLimit acquireRedeemLock_def releaseRedeemLock_def run_simps)
next
  case False
  with assms show ?thesis
    by (simp add: Redeem_code_def run_rateLimit acquireRedeemLock_def releaseRedeemLock_def run_bindE)
qed

lemma tget_code:
  assumes "distinct (map rc_ID (codes d))" "distinct (map rc_Code (codes d))" and "c \<in> set (codes d)"
  shows "tget (\<lambda>t. rc_Code t = rc_Code c) (codes d) = Some c" "tget (\<lambda>t. rc_ID t = rc_ID c) (codes d) = Some c"
  using assms by (auto intro: tget_key_unique)

lemma codesOk_distinct: "codesOk d \<Longrightarrow> distinct (map rc_ID (codes d))" "codesOk d \<Longrightarrow> distinct (map rc_Code (codes d))"
  by (simp_all add: codesOk_def)

lemma run_Redeem_used:
  assumes w: "quiet w" and k: "distinct (map rc_ID (codes (db w)))" "distinct (map rc_Code (codes (db w)))"
    and c: "c \<in> set (codes (db w))" "rc_Status c = Used"
    and a: "redeemAttempts (db w) uid < redeemMaxErrorsPerHour" "rc_Code c \<notin> redeemLocks (db w)"
  shows "run_state (Redeem_code x uid (rc_Code c)) w =
    (Inl ErrRedeemCodeUsed, w\<lparr>db := (db w)\<lparr>redeemAttempts :=
       (if x_redis x then (redeemAttempts (db w))(uid := redeemAttempts (db w) uid + 1) else redeemAttempts (db w))\<rparr>\<rparr>)"
proof -
  have q: "script w = []" using w by (simp add: quiet_def)
  let ?l = "(if x_redis x then {rc_Code c} else {}) \<union> redeemLocks (db w)"
  let ?f = "if x_redis x then (redeemAttempts (db w))(uid := redeemAttempts (db w) uid + 1) else redeemAttempts (db w)"
  have "run_state (redeemLocked x uid (rc_Code c)) (w\<lparr>db := (db w)\<lparr>redeemLocks := ?l\<rparr>\<rparr>) =
      (Inl ErrRedeemCodeUsed, w\<lparr>db := (db w)\<lparr>redeemLocks := ?l, redeemAttempts := ?f\<rparr>\<rparr>)"
    using q tget_code(1) [OF k c(1)] c(2)
    by (simp add: redeemLocked_def codeGetByCode_def CanUse_def run_simps incrementRedeemErrorCount_def)
  from run_Redeem_locked [OF q a this] show ?thesis by simp
qed

text \<open>A used code is refused with the error that says so: no table changes, and the attempt is counted.\<close>

theorem Redeem_used_code:
  assumes w: "quiet w" "codesOk (db w)" and c: "c \<in> set (codes (db w))" "rc_Status c = Used"
    and a: "redeemAttempts (db w) uid < redeemMaxErrorsPerHour" "rc_Code c \<notin> redeemLocks (db w)"
  shows "run_state (Redeem_code x uid (rc_Code c)) w =
    (Inl ErrRedeemCodeUsed, w\<lparr>db := (db w)\<lparr>redeemAttempts :=
       (if x_redis x then (redeemAttempts (db w))(uid := redeemAttempts (db w) uid + 1) else redeemAttempts (db w))\<rparr>\<rparr>)"
  using run_Redeem_used [OF w(1) codesOk_distinct [OF w(2)] c a] .

theorem Redeem_used_code_witness:
  "fst (run_state (Redeem_code (sampleExt ''paid'' True) 1 ''ABC'') (sampleWorld (codeStore RedeemTypeBalance Used) [])) =
     Inl ErrRedeemCodeUsed"
  using Redeem_used_code [of "sampleWorld (codeStore RedeemTypeBalance Used) []" "sampleCode RedeemTypeBalance Used" 1
      "sampleExt ''paid'' True"] codesOk_sample
  by (simp add: quiet_def codeStore_def sampleCode_def subscribedStore_def sampleStore_def redeemMaxErrorsPerHour_def)

lemma run_Redeem_balance:
  assumes w: "quiet w" "ticks w = []" and k: "distinct (map rc_ID (codes (db w)))" "distinct (map rc_Code (codes (db w)))"
    and c: "c \<in> set (codes (db w))" "rc_Status c = Unused" "rc_Type c = RedeemTypeBalance"
    and u: "tget (\<lambda>u. u_ID u = uid) (users (db w)) = Some u"
    and a: "redeemAttempts (db w) uid < redeemMaxErrorsPerHour" "rc_Code c \<notin> redeemLocks (db w)"
  shows "run_state (Redeem_code x uid (rc_Code c)) w =
    (Inr (markUsed uid (clock w) c),
     w\<lparr>db := (db w)\<lparr>codes := tupd (\<lambda>t. rc_ID t = rc_ID c) (markUsed uid (clock w)) (codes (db w)),
                    users := tupd (\<lambda>u. u_ID u = uid) (addBalance x (redeemAmount (rc_Value c) (readBalance u))) (users (db w))\<rparr>\<rparr>)"
proof -
  have q: "script w = []" using w by (simp add: quiet_def)
  let ?l = "(if x_redis x then {rc_Code c} else {}) \<union> redeemLocks (db w)"
  let ?p = "\<lambda>t. rc_ID t = rc_ID c"
  have "redeemable (rc_ID c) t = ?p t" if "t \<in> set (codes (db w))" for t
    using inj_onD [of rc_ID "set (codes (db w))" t c] k(1) that c(1,2) by (auto simp: distinct_map redeemable_def)
  then have upd: "tupd (redeemable (rc_ID c)) f (codes (db w)) = tupd ?p f (codes (db w))"
    and cnt: "tcount (redeemable (rc_ID c)) (codes (db w)) = tcount ?p (codes (db w))" for f
    by (auto simp: tupd_def tcount_def cong: filter_cong)
  have n: "0 < tcount ?p (codes (db w))" using c(1) by (rule tcount_key_pos)
  have nu: "0 < tcount (\<lambda>u. u_ID u = uid) (users (db w))"
    using tget_Some [OF u] by (auto simp: tcount_0 zero_less_iff_neq_zero)
  have get: "tget ?p (tupd ?p (markUsed uid (clock w)) (codes (db w))) = Some (markUsed uid (clock w) c)"
    using tget_code(2) [OF k c(1)] tget_tupd_key [where key = rc_ID and f = "markUsed uid (clock w)" and k = "rc_ID c"]
    by (simp add: markUsed_def)
  have "run_state (redeemLocked x uid (rc_Code c)) (w\<lparr>db := (db w)\<lparr>redeemLocks := ?l\<rparr>\<rparr>) =
      (Inr (markUsed uid (clock w) c), w\<lparr>db := (db w)\<lparr>codes := tupd ?p (markUsed uid (clock w)) (codes (db w)),
         users := tupd (\<lambda>u. u_ID u = uid) (addBalance x (redeemAmount (rc_Value c) (readBalance u))) (users (db w)), redeemLocks := ?l\<rparr>\<rparr>)"
    using q w(2) tget_code(1) [OF k c(1)] c(2,3) u n nu get
    by (simp add: redeemLocked_def codeGetByCode_def codeGetByID_def userGetByID_def CanUse_def run_simps redeemEffect_def
        redeem_types useStep_def codeUseStmt_def upd cnt balanceStmt_def)
  from run_Redeem_locked [OF q a this] show ?thesis by simp
qed

text \<open>A balance code that is unused is exchanged: the code is marked used by the user at that instant, the balance of the user grows
  by the value of the code as the column adds it, and everything else stays as it was.\<close>

theorem Redeem_balance_succeeds:
  assumes w: "quiet w" "ticks w = []" "codesOk (db w)"
    and c: "c \<in> set (codes (db w))" "rc_Status c = Unused" "rc_Type c = RedeemTypeBalance"
    and u: "tget (\<lambda>u. u_ID u = uid) (users (db w)) = Some u"
    and a: "redeemAttempts (db w) uid < redeemMaxErrorsPerHour" "rc_Code c \<notin> redeemLocks (db w)"
  shows "run_state (Redeem_code x uid (rc_Code c)) w =
    (Inr (markUsed uid (clock w) c),
     w\<lparr>db := (db w)\<lparr>codes := tupd (\<lambda>t. rc_ID t = rc_ID c) (markUsed uid (clock w)) (codes (db w)),
                    users := tupd (\<lambda>u. u_ID u = uid) (addBalance x (rc_Value c)) (users (db w))\<rparr>\<rparr>)"
proof -
  obtain v where "rc_Value c = F64 v" "0 \<le> v" using c w(3) by (auto simp: codesOk_def codeOk_def)
  then show ?thesis
    using run_Redeem_balance [OF w(1,2) codesOk_distinct [OF w(3)] c u a] by (simp add: redeemAmount_nonneg)
qed

theorem Redeem_balance_succeeds_witness:
  "fst (run_state (Redeem_code (sampleExt ''paid'' True) 1 ''ABC'') (sampleWorld (codeStore RedeemTypeBalance Unused) [])) =
     Inr (markUsed 1 (600 * nsSecond) (sampleCode RedeemTypeBalance Unused))"
  using Redeem_balance_succeeds [of "sampleWorld (codeStore RedeemTypeBalance Unused) []" "sampleCode RedeemTypeBalance Unused" 1
      sampleUser "sampleExt ''paid'' True"] codesOk_sample
  by (simp add: quiet_def codeStore_def sampleCode_def subscribedStore_def sampleStore_def redeemMaxErrorsPerHour_def
      table_simps sampleUser_def)







lemma length_GenerateRandomCode: "length bs = 16 \<Longrightarrow> length (GenerateRandomCode bs) = 35"
  by (simp add: GenerateRandomCode_def Let_def length_hexEncode)

lemma generateCodeList_long:
  assumes "\<And>k bs. entropy k = Some bs \<Longrightarrow> length bs = 16"
  shows "generateCodeList entropy k n c = Inr cs \<Longrightarrow> length cs = n \<and> (\<forall>c' \<in> set cs. length (rc_Code c') = 35)"
proof (induction n arbitrary: k cs)
  case (Suc n)
  then show ?case
    using assms length_GenerateRandomCode by (fastforce split: option.splits sum.splits)
qed simp

lemma yields_exec_fails: "(\<And>d. \<exists>e. fst (f d) = Inl e) \<Longrightarrow> yields (exec f) (\<lambda>r. \<exists>e. r = Inl e)"
  unfolding yields_def
proof
  fix w assume f: "\<And>d. \<exists>e. fst (f d) = Inl e"
  show "\<exists>e. fst (run_state (exec f) w) = Inl e"
    using f by (auto simp: exec_def Let_def split_def split: list.splits outcome.splits)
qed

text \<open>GenerateCodes never succeeds: the text it generates has 35 characters, and the schema refuses codes of more than 32.\<close>

theorem GenerateCodes_fails:
  assumes e: "\<And>k bs. entropy k = Some bs \<Longrightarrow> length bs = 16"
  shows "\<exists>err. fst (run_state (GenerateCodes x entropy req) w) = Inl err"
proof -
  have bad: "yields (exec (codeCreateBatchStmt x now cs)) (\<lambda>r. \<exists>e. r = Inl e)"
    if "generateCodeList entropy 0 (nat (gr_Count req)) c = Inr cs" "\<not> gr_Count req \<le> 0" for now c cs
  proof (rule yields_exec_fails)
    fix d
    have len: "length cs = nat (gr_Count req)" "\<forall>c' \<in> set cs. length (rc_Code c') = 35"
      using generateCodeList_long [OF e that(1)] by auto
    then have "cs \<noteq> []" using that(2) by auto
    moreover have "\<not> codeValid (hd cs)" using len \<open>cs \<noteq> []\<close> by (auto simp: codeValid_def)
    ultimately show "\<exists>e. fst (codeCreateBatchStmt x now cs d) = Inl e"
      by (cases cs) (auto simp: codeCreateBatchStmt_def)
  qed
  have batch: "yields (bindE (exec (codeCreateBatchStmt x now cs)) h (\<lambda>_. ret (Inr cs))) (\<lambda>r. \<exists>e. r = Inl e)"
    if "generateCodeList entropy 0 (nat (gr_Count req)) c = Inr cs" "\<not> gr_Count req \<le> 0" for now c cs h
    by (rule yields_bindE_cond [OF bad [OF that]]) auto
  have "yields (GenerateCodes x entropy req) (\<lambda>r. \<exists>e. r = Inl e)"
    unfolding GenerateCodes_def Let_def
    by (intro yields_if yields_case_sum yields_bind) (auto intro: yields_ret batch)
  then show ?thesis by (auto simp: yields_def)
qed

theorem GenerateCodes_fails_witness:
  "\<exists>err. fst (run_state (GenerateCodes (sampleExt ''paid'' True) (\<lambda>k. Some (replicate 16 0)) \<lparr>gr_Count = 1, gr_Value = F64 5, gr_Type = ''''\<rparr>)
     (sampleWorld sampleStore [])) = Inl err"
  by (rule GenerateCodes_fails) simp

text \<open>A subscription code is not redeemed atomically: when the commit of the outer transaction is lost, the request fails and the
  code stays unused, but the subscription has been extended by the transaction that committed inside.\<close>

theorem redeem_subscription_not_atomic:
  "let (r, w') = run_state (Redeem_code (sampleExt ''paid'' True) 1 ''ABC'')
         (sampleWorld (codeStore RedeemTypeSubscription Unused) (faults (replicate 9 Done @ [Lost 2])))
   in isl r \<and> map rc_Status (codes (db w')) = [Unused] \<and>
      map us_ExpiresAt (subs (db w')) = [us_ExpiresAt sampleSub + 30 * nsDay]"
  by code_simp

end
