(* ===== verification/Commission.thy ===== *)
theory Commission
  imports Redeem "HOL-Library.Sublist"
begin

text \<open>
  \<open>internal/service/promotion_split_support.go\<close> and the two commission recorders of
  \<open>payment_fulfillment.go\<close>: who invited whom (the promotion relation of a user, resolved through at
  most five levels of inviters), the global commission rule, the split of an order's amount over
  distributor, agent and channel partner, and the pending commission of the direct inviter. The recursion depth of the
  code counts up to 4; here it is the number of levels left, counting down from 5.
\<close>

section \<open>Roles and statements\<close>

definition RoleChannelPartner :: string where "RoleChannelPartner = ''channel_partner''"
definition RoleAgent :: string where "RoleAgent = ''agent''"
definition RoleDistributor :: string where "RoleDistributor = ''distributor''"

lemmas role_defs = RoleChannelPartner_def RoleAgent_def RoleDistributor_def

definition isNotFound :: "go_err \<Rightarrow> bool" where
  "isNotFound e \<longleftrightarrow> e = entNotFound"

definition userGet :: "int \<Rightarrow> user se" where
  "userGet i = exec (\<lambda>d. (case tget (\<lambda>u. u_ID u = i) (users d) of None \<Rightarrow> Inl entNotFound | Some u \<Rightarrow> Inr u, d))"

definition relationOf :: "int \<Rightarrow> promotion_relation se" where
  "relationOf uid = exec (\<lambda>d. (case tget (\<lambda>r. pr_UserID r = uid) (relations d) of None \<Rightarrow> Inl entNotFound | Some r \<Rightarrow> Inr r, d))"

section \<open>Promotion relations\<close>

type_synonym ancestors = "int option \<times> int option \<times> int option"

record promotion_binding =
  pb_ChannelPartnerUserID :: "int option"
  pb_AgentUserID :: "int option"
  pb_DistributorUserID :: "int option"
  pb_DirectParentUserID :: "int option"
  pb_DirectParentRole :: string
  pb_BindingSource :: string

definition bindingSourceByRole :: "string \<Rightarrow> string" where
  "bindingSourceByRole role =
     (if role = RoleChannelPartner then ''channel_partner_direct''
      else if role = RoleAgent then ''agent_direct''
      else if role = RoleDistributor then ''distributor_direct''
      else ''manual'')"

text \<open>The two helpers take the recursive call as an argument.\<close>

definition resolveAgentAncestors :: "(user \<Rightarrow> ancestors se) \<Rightarrow> user \<Rightarrow> ancestors se" where
  "resolveAgentAncestors up u =
     (if u_ChannelPartnerID u \<noteq> None then ret (Inr (u_ChannelPartnerID u, Some (u_ID u), None))
      else case u_InviterID u of
             None \<Rightarrow> ret (Inr (None, Some (u_ID u), None))
           | Some invID \<Rightarrow>
               if invID \<le> 0 then ret (Inr (None, Some (u_ID u), None))
               else do {
                 r \<leftarrow> userGet invID;
                 case r of
                   Inl e \<Rightarrow> if isNotFound e then ret (Inr (None, Some (u_ID u), None))
                            else ret (Inl (Errorf ''get agent parent'' e))
                 | Inr parent \<Rightarrow> bindE (up parent) id (\<lambda>(cp, _, _). ret (Inr (cp, Some (u_ID u), None)))
               })"

definition resolveDistributorAncestors :: "(user \<Rightarrow> ancestors se) \<Rightarrow> user \<Rightarrow> ancestors se" where
  "resolveDistributorAncestors up u =
     (if u_ChannelPartnerID u \<noteq> None \<or> u_AgentOwnerID u \<noteq> None
      then ret (Inr (u_ChannelPartnerID u, u_AgentOwnerID u, Some (u_ID u)))
      else do {
        q \<leftarrow> relationOf (u_ID u);
        case q of
          Inr rel \<Rightarrow> ret (Inr (pr_ChannelPartnerUserID rel, pr_AgentUserID rel, Some (u_ID u)))
        | Inl e \<Rightarrow>
            if \<not> isNotFound e then ret (Inl (Errorf ''query distributor relation'' e))
            else case u_InviterID u of
                   None \<Rightarrow> ret (Inr (None, None, Some (u_ID u)))
                 | Some invID \<Rightarrow>
                     if invID \<le> 0 then ret (Inr (None, None, Some (u_ID u)))
                     else do {
                       r \<leftarrow> userGet invID;
                       case r of
                         Inl e \<Rightarrow> if isNotFound e then ret (Inr (None, None, Some (u_ID u)))
                                  else ret (Inl (Errorf ''get distributor parent'' e))
                       | Inr parent \<Rightarrow> bindE (up parent) id (\<lambda>(cp, ag, _). ret (Inr (cp, ag, Some (u_ID u))))
                     }
      })"

primrec resolvePromotionAncestors :: "nat \<Rightarrow> user \<Rightarrow> ancestors se" where
  "resolvePromotionAncestors 0 u = ret (Inr (None, None, None))"
| "resolvePromotionAncestors (Suc left) u =
     (if u_Role u = RoleChannelPartner then ret (Inr (Some (u_ID u), None, None))
      else if u_Role u = RoleAgent then resolveAgentAncestors (resolvePromotionAncestors left) u
      else if u_Role u = RoleDistributor then resolveDistributorAncestors (resolvePromotionAncestors left) u
      else do {
        q \<leftarrow> relationOf (u_ID u);
        case q of
          Inr rel \<Rightarrow> ret (Inr (pr_ChannelPartnerUserID rel, pr_AgentUserID rel, pr_DistributorUserID rel))
        | Inl e \<Rightarrow>
            if \<not> isNotFound e then ret (Inl (Errorf ''query user relation'' e))
            else if u_ChannelPartnerID u \<noteq> None \<or> u_AgentOwnerID u \<noteq> None \<or> u_DistributorOwnerID u \<noteq> None
            then ret (Inr (u_ChannelPartnerID u, u_AgentOwnerID u, u_DistributorOwnerID u))
            else case u_InviterID u of
                   None \<Rightarrow> ret (Inr (None, None, None))
                 | Some invID \<Rightarrow> do {
                     r \<leftarrow> userGet invID;
                     case r of
                       Inl e \<Rightarrow> if isNotFound e then ret (Inr (None, None, None))
                                else ret (Inl (Errorf ''get ancestor user'' e))
                     | Inr parent \<Rightarrow> resolvePromotionAncestors left parent
                   }
      })"

definition resolvePromotionBinding :: "int \<Rightarrow> int \<Rightarrow> promotion_binding option se" where
  "resolvePromotionBinding inviterID depth =
     (if inviterID \<le> 0 \<or> 4 < depth then ret (Inr None)
      else do {
        r \<leftarrow> userGet inviterID;
        case r of
          Inl e \<Rightarrow> if isNotFound e then ret (Inr None) else ret (Inl (Errorf ''get inviter'' e))
        | Inr inviter \<Rightarrow>
            bindE (resolvePromotionAncestors (nat (5 - depth)) inviter) id (\<lambda>(cp, ag, ds).
              ret (Inr (Some \<lparr>pb_ChannelPartnerUserID = cp, pb_AgentUserID = ag, pb_DistributorUserID = ds,
                pb_DirectParentUserID = Some (u_ID inviter), pb_DirectParentRole = u_Role inviter,
                pb_BindingSource = bindingSourceByRole (u_Role inviter)\<rparr>)))
      })"

definition orElse :: "'a option \<Rightarrow> 'a option \<Rightarrow> 'a option" where
  "orElse a b = (if a = None then b else a)"

text \<open>\<open>SetNillable...\<close> leaves a column alone when it is given nil.\<close>

definition applyBinding :: "promotion_binding \<Rightarrow> promotion_relation \<Rightarrow> promotion_relation" where
  "applyBinding b r = r\<lparr>pr_ChannelPartnerUserID := orElse (pb_ChannelPartnerUserID b) (pr_ChannelPartnerUserID r),
     pr_AgentUserID := orElse (pb_AgentUserID b) (pr_AgentUserID r),
     pr_DistributorUserID := orElse (pb_DistributorUserID b) (pr_DistributorUserID r),
     pr_DirectParentUserID := orElse (pb_DirectParentUserID b) (pr_DirectParentUserID r),
     pr_DirectParentRole := pb_DirectParentRole b, pr_BindingSource := pb_BindingSource b, pr_IsLocked := True\<rparr>"

definition newRelation :: "int \<Rightarrow> promotion_binding \<Rightarrow> promotion_relation" where
  "newRelation uid b = \<lparr>pr_UserID = uid, pr_ChannelPartnerUserID = pb_ChannelPartnerUserID b,
     pr_AgentUserID = pb_AgentUserID b, pr_DistributorUserID = pb_DistributorUserID b,
     pr_DirectParentUserID = pb_DirectParentUserID b, pr_DirectParentRole = pb_DirectParentRole b,
     pr_BindingSource = pb_BindingSource b, pr_IsLocked = True\<rparr>"

definition relationCreateStmt :: "promotion_relation \<Rightarrow> store \<Rightarrow> (go_err + unit) \<times> store" where
  "relationCreateStmt r d =
     (if 0 < tcount (\<lambda>q. pr_UserID q = pr_UserID r) (relations d) then (Inl (ErrorNew ''duplicate key''), d)
      else (Inr (), d\<lparr>relations := relations d @ [r]\<rparr>))"

definition relationUpdateStmt :: "int \<Rightarrow> promotion_binding \<Rightarrow> store \<Rightarrow> (go_err + unit) \<times> store" where
  "relationUpdateStmt uid b d =
     (if tcount (\<lambda>q. pr_UserID q = uid) (relations d) = 0 then (Inl entNotFound, d)
      else (Inr (), d\<lparr>relations := tupd (\<lambda>q. pr_UserID q = uid) (applyBinding b) (relations d)\<rparr>))"

definition upsertPromotionRelationForInviter :: "int \<Rightarrow> int option \<Rightarrow> unit se" where
  "upsertPromotionRelationForInviter uid inviter =
     (case inviter of
        None \<Rightarrow> ret (Inr ())
      | Some invID \<Rightarrow>
          if uid \<le> 0 \<or> invID \<le> 0 then ret (Inr ())
          else do {
            q \<leftarrow> relationOf uid;
            case q of
              Inl e \<Rightarrow>
                if \<not> isNotFound e then ret (Inl (Errorf ''query promotion relation'' e))
                else bindE (resolvePromotionBinding invID 0) id (\<lambda>b.
                       case b of
                         None \<Rightarrow> ret (Inr ())
                       | Some b \<Rightarrow> bindE (exec (relationCreateStmt (newRelation uid b)))
                           (Errorf ''create promotion relation'') (\<lambda>_. ret (Inr ())))
            | Inr existing \<Rightarrow>
                if pr_IsLocked existing then ret (Inr ())
                else bindE (resolvePromotionBinding invID 0) id (\<lambda>b.
                       case b of
                         None \<Rightarrow> ret (Inr ())
                       | Some b \<Rightarrow> bindE (exec (relationUpdateStmt uid b))
                           (Errorf ''update promotion relation'') (\<lambda>_. ret (Inr ())))
          })"

section \<open>The commission rule\<close>

text \<open>The name of the default rule is UTF-8 text.\<close>

definition defaultGlobalRuleName :: string where
  "defaultGlobalRuleName = utf8 [0xE5,0x85,0xA8,0xE5,0xB1,0x80,0xE8,0xA1,0xA5,0xE5,0xB7,0xAE,
     0xE9,0xBB,0x98,0xE8,0xAE,0xA4,0xE8,0xA7,0x84,0xE5,0x88,0x99]"

definition ruleActive :: "instant \<Rightarrow> commission_rule \<Rightarrow> bool" where
  "ruleActive now r \<longleftrightarrow> cu_Status r = ''active'' \<and> cu_ScopeType r = ''global'' \<and>
     (case cu_EffectiveAt r of None \<Rightarrow> True | Some t \<Rightarrow> t \<le> now) \<and>
     (case cu_ExpiredAt r of None \<Rightarrow> True | Some t \<Rightarrow> now < t)"

text \<open>\<open>ORDER BY priority DESC, created_at DESC LIMIT 1\<close>; the first of equals in table order.\<close>

definition ruleBefore :: "commission_rule \<Rightarrow> commission_rule \<Rightarrow> bool" where
  "ruleBefore a b \<longleftrightarrow> cu_Priority b < cu_Priority a \<or>
     (cu_Priority a = cu_Priority b \<and> cu_CreatedAt b < cu_CreatedAt a)"

fun firstRule :: "commission_rule list \<Rightarrow> commission_rule option" where
  "firstRule [] = None"
| "firstRule (r # rs) = (case firstRule rs of None \<Rightarrow> Some r | Some s \<Rightarrow> if ruleBefore s r then Some s else Some r)"

fun newestRule :: "commission_rule list \<Rightarrow> commission_rule option" where
  "newestRule [] = None"
| "newestRule (r # rs) = (case newestRule rs of None \<Rightarrow> Some r | Some s \<Rightarrow> if cu_CreatedAt r < cu_CreatedAt s then Some s else Some r)"

definition defaultRule :: "instant \<Rightarrow> int \<Rightarrow> commission_rule" where
  "defaultRule now i = \<lparr>cu_ID = i, cu_Name = defaultGlobalRuleName, cu_Status = ''active'', cu_CalcMode = ''diff'',
     cu_ChannelPartnerTargetRate = F64 (1 / 4), cu_AgentTargetRate = rnd (1 / 5),
     cu_DistributorTargetRate = rnd (3 / 20), cu_FreezeHours = 168, cu_SettlementMode = ''manual'',
     cu_ScopeType = ''global'', cu_Priority = 0, cu_EffectiveAt = None, cu_ExpiredAt = None, cu_CreatedAt = now\<rparr>"

definition ensureDefaultGlobalCommissionRule :: "commission_rule se" where
  "ensureDefaultGlobalCommissionRule =
     bindE (query (\<lambda>d. newestRule (filter (\<lambda>r. cu_Name r = defaultGlobalRuleName \<and> cu_ScopeType r = ''global'') (rules d))))
       (Errorf ''query default global commission rule'') (\<lambda>existing.
         case existing of
           Some r \<Rightarrow> ret (Inr r)
         | None \<Rightarrow> do {
             now \<leftarrow> timeNow;
             bindE (exec (\<lambda>d. (Inr (defaultRule now (nextRule d)),
                d\<lparr>rules := rules d @ [defaultRule now (nextRule d)], nextRule := nextRule d + 1\<rparr>)))
               (Errorf ''create default global commission rule'') (\<lambda>r. ret (Inr r))
           })"

definition getActiveGlobalCommissionRule :: "commission_rule se" where
  "getActiveGlobalCommissionRule = do {
     now \<leftarrow> timeNow;
     bindE (query (\<lambda>d. firstRule (filter (ruleActive now) (rules d))))
       (Errorf ''query global commission rule'') (\<lambda>r.
         case r of Some r \<Rightarrow> ret (Inr r) | None \<Rightarrow> ensureDefaultGlobalCommissionRule)
   }"

section \<open>Splitting an order\<close>

record split_plan =
  sp_BeneficiaryUserID :: int
  sp_BeneficiaryRole :: string
  sp_Level :: int
  sp_TargetRate :: f64
  sp_ParentRate :: f64
  sp_CommissionAmount :: f64

record commission_tier =
  ct_UserID :: int
  ct_Role :: string
  ct_TargetRate :: f64
  ct_Level :: int

definition roundCommissionAmount :: "f64 \<Rightarrow> f64" where
  "roundCommissionAmount v = fdiv (fround (fmul v (fofint (10 ^ 8)))) (fofint (10 ^ 8))"

definition addTier :: "int option \<Rightarrow> string \<Rightarrow> f64 \<Rightarrow> commission_tier list \<Rightarrow> commission_tier list" where
  "addTier uid role rate tiers =
     (case uid of
        None \<Rightarrow> tiers
      | Some u \<Rightarrow> if flt fzero rate
                  then tiers @ [\<lparr>ct_UserID = u, ct_Role = role, ct_TargetRate = rate, ct_Level = int (length tiers) + 1\<rparr>]
                  else tiers)"

definition buildTiers :: "promotion_relation \<Rightarrow> commission_rule \<Rightarrow> commission_tier list" where
  "buildTiers rel rule =
     addTier (pr_ChannelPartnerUserID rel) RoleChannelPartner (cu_ChannelPartnerTargetRate rule)
       (addTier (pr_AgentUserID rel) RoleAgent (cu_AgentTargetRate rule)
         (addTier (pr_DistributorUserID rel) RoleDistributor (cu_DistributorTargetRate rule) []))"

fun planTiers :: "bool \<Rightarrow> f64 \<Rightarrow> f64 \<Rightarrow> commission_tier list \<Rightarrow> split_plan list" where
  "planTiers diff base lower [] = []"
| "planTiers diff base lower (t # ts) =
     (let parentRate = (if diff then fmax lower fzero else fzero);
          rate = (if diff then fmax (fsub (ct_TargetRate t) parentRate) fzero else ct_TargetRate t);
          amount = roundCommissionAmount (fmul base rate);
          rest = planTiers diff base (fmax lower (ct_TargetRate t)) ts
      in if fle amount fzero then rest
         else \<lparr>sp_BeneficiaryUserID = ct_UserID t, sp_BeneficiaryRole = ct_Role t, sp_Level = ct_Level t,
               sp_TargetRate = ct_TargetRate t, sp_ParentRate = parentRate, sp_CommissionAmount = amount\<rparr> # rest)"

definition buildCommissionSplitPlans :: "payment_order \<Rightarrow> promotion_relation \<Rightarrow> commission_rule \<Rightarrow> split_plan list" where
  "buildCommissionSplitPlans po rel rule =
     (if fle (o_Amount po) fzero then []
      else let calcMode = trimSpace (cu_CalcMode rule);
               mode = (if calcMode = [] then ''diff'' else calcMode)
           in planTiers (mode = ''diff'') (o_Amount po) fzero (buildTiers rel rule))"

definition splitRow :: "payment_order \<Rightarrow> promotion_relation \<Rightarrow> commission_rule \<Rightarrow> split_plan \<Rightarrow> split_log" where
  "splitRow po rel rule p =
     \<lparr>sl_OrderID = o_ID po, sl_ConsumerUserID = o_UserID po, sl_BeneficiaryUserID = sp_BeneficiaryUserID p,
      sl_BeneficiaryRole = sp_BeneficiaryRole p, sl_ChannelPartnerUserID = pr_ChannelPartnerUserID rel,
      sl_AgentUserID = pr_AgentUserID rel, sl_DistributorUserID = pr_DistributorUserID rel, sl_Level = sp_Level p,
      sl_CalcMode = cu_CalcMode rule, sl_BaseAmount = o_Amount po, sl_TargetRate = sp_TargetRate p,
      sl_ParentRate = sp_ParentRate p, sl_CommissionAmount = sp_CommissionAmount p, sl_Status = ''pending'',
      sl_RuleID = cu_ID rule\<rparr>"

definition splitKey :: "split_log \<Rightarrow> int \<times> int \<times> int" where
  "splitKey s = (sl_OrderID s, sl_BeneficiaryUserID s, sl_Level s)"

text \<open>\<open>INSERT ... ON CONFLICT (order_id, beneficiary_user_id, level) DO UPDATE\<close> with the new values; a nil
  column of the new row is not part of the insert and keeps its old value.\<close>

definition newValues :: "split_log \<Rightarrow> split_log \<Rightarrow> split_log" where
  "newValues row old = row\<lparr>sl_ChannelPartnerUserID := orElse (sl_ChannelPartnerUserID row) (sl_ChannelPartnerUserID old),
     sl_AgentUserID := orElse (sl_AgentUserID row) (sl_AgentUserID old),
     sl_DistributorUserID := orElse (sl_DistributorUserID row) (sl_DistributorUserID old)\<rparr>"

definition upsertSplit :: "split_log \<Rightarrow> split_log list \<Rightarrow> split_log list" where
  "upsertSplit row ss =
     (if splitKey row \<in> splitKey ` set ss
      then tupd (\<lambda>s. splitKey s = splitKey row) (newValues row) ss
      else ss @ [row])"

primrec upsertPlans :: "payment_order \<Rightarrow> promotion_relation \<Rightarrow> commission_rule \<Rightarrow> split_plan list \<Rightarrow> unit se" where
  "upsertPlans po rel rule [] = ret (Inr ())"
| "upsertPlans po rel rule (p # ps) =
     bindE (exec (\<lambda>d. (Inr (), d\<lparr>splits := upsertSplit (splitRow po rel rule p) (splits d)\<rparr>)))
       (Errorf ''upsert commission split log'') (\<lambda>_. upsertPlans po rel rule ps)"

definition upsertCommissionSplitLogsForOrder :: "payment_order \<Rightarrow> promotion_relation \<Rightarrow> commission_rule \<Rightarrow> unit se" where
  "upsertCommissionSplitLogsForOrder po rel rule = upsertPlans po rel rule (buildCommissionSplitPlans po rel rule)"

section \<open>The recorders\<close>

definition commissionable :: "payment_order \<Rightarrow> bool" where
  "commissionable po \<longleftrightarrow> o_OrderType po = OrderTypeBalance \<or> o_OrderType po = OrderTypeSubscription"

definition recordCommissionSplitsIfNeeded :: "payment_order \<Rightarrow> unit se" where
  "recordCommissionSplitsIfNeeded po =
     (if \<not> commissionable po then ret (Inr ())
      else do {
        q \<leftarrow> relationOf (o_UserID po);
        case q of
          Inl e \<Rightarrow> if isNotFound e then ret (Inr ()) else ret (Inl (Errorf ''query promotion relation'' e))
        | Inr rel \<Rightarrow> bindE getActiveGlobalCommissionRule id (\<lambda>rule. upsertCommissionSplitLogsForOrder po rel rule)
      })"

definition recordPendingCommissionIfNeeded :: "ext \<Rightarrow> payment_order \<Rightarrow> unit se" where
  "recordPendingCommissionIfNeeded x po =
     (if \<not> commissionable po then ret (Inr ())
      else do {
        r \<leftarrow> userGetByID (o_UserID po);
        case r of
          Inl _ \<Rightarrow> ret (Inr ())
        | Inr invitee \<Rightarrow>
            (case u_InviterID invitee of
               None \<Rightarrow> ret (Inr ())
             | Some inviterID \<Rightarrow> do {
                 r2 \<leftarrow> userGetByID inviterID;
                 case r2 of
                   Inl _ \<Rightarrow> ret (Inr ())
                 | Inr inviter \<Rightarrow>
                     (let amount = fmul (o_Amount po) (u_CommissionRate inviter)
                      in if fle amount fzero then ret (Inr ())
                         else bindE (query (\<lambda>d. 0 < tcount (\<lambda>c. cl_UserID c = inviterID \<and> cl_OrderID c = Some (o_ID po)) (clogs d)))
                           (Errorf ''check commission log'') (\<lambda>exists.
                             if exists then ret (Inr ())
                             else bindE (exec (\<lambda>d. (Inr (), d\<lparr>clogs := clogs d @
                                  [\<lparr>cl_UserID = inviterID, cl_InviteeID = Some (o_UserID po), cl_OrderID = Some (o_ID po),
                                    cl_Amount = x_col8 x amount, cl_Status = ''pending''\<rparr>]\<rparr>)))
                               (Errorf ''create pending commission'') (\<lambda>_. ret (Inr ()))))
               })
      })"

section \<open>Plans\<close>

abbreviation tierData :: "commission_tier \<Rightarrow> int \<times> string \<times> int \<times> f64" where
  "tierData t \<equiv> (ct_UserID t, ct_Role t, ct_Level t, ct_TargetRate t)"

abbreviation planData :: "split_plan \<Rightarrow> int \<times> string \<times> int \<times> f64" where
  "planData p \<equiv> (sp_BeneficiaryUserID p, sp_BeneficiaryRole p, sp_Level p, sp_TargetRate p)"

text \<open>The plans are those of some of the tiers, in their order.\<close>

lemma planTiers_subseq: "subseq (map planData (planTiers diff base lower ts)) (map tierData ts)"
  by (induction ts arbitrary: lower) (auto simp: Let_def)

lemma planTiers_amount: "p \<in> set (planTiers diff base lower ts) \<Longrightarrow> \<not> fle (sp_CommissionAmount p) fzero"
  by (induction ts arbitrary: lower) (auto simp: Let_def split: if_splits)

lemma buildTiers_levels: "map ct_Level (buildTiers rel rule) = map int [1..<Suc (length (buildTiers rel rule))]"
  by (auto simp: buildTiers_def addTier_def split: option.splits)

lemma buildTiers_length: "length (buildTiers rel rule) \<le> 3"
  by (auto simp: buildTiers_def addTier_def split: option.splits)

lemma plans_levels:
  "distinct (map sp_Level (planTiers diff base lower (buildTiers rel rule)))"
proof -
  have "subseq (map sp_Level (planTiers diff base lower (buildTiers rel rule))) (map ct_Level (buildTiers rel rule))"
    using subseq_map [OF planTiers_subseq, of "\<lambda>(_, _, l, _). l"] by (simp add: comp_def)
  moreover have "distinct (map ct_Level (buildTiers rel rule))"
    unfolding buildTiers_levels by (simp add: distinct_map)
  ultimately show ?thesis by (metis subseq_conv_nths distinct_nthsI)
qed

section \<open>Upserts\<close>

definition upserted :: "split_log \<Rightarrow> split_log list \<Rightarrow> bool" where
  "upserted r ss \<longleftrightarrow> splitKey r \<in> splitKey ` set ss \<and> (\<forall>s \<in> set ss. splitKey s = splitKey r \<longrightarrow> newValues r s = s)"

lemma newValues_idem: "newValues r (newValues r s) = newValues r s"
  by (simp add: newValues_def orElse_def)

lemma splitKey_newValues [simp]: "splitKey (newValues r s) = splitKey r"
  by (simp add: splitKey_def newValues_def)

lemma newValues_self [simp]: "newValues r r = r"
  by (simp add: newValues_def orElse_def)

lemma upsertSplit_upserted: "upserted r ss \<Longrightarrow> upsertSplit r ss = ss"
  by (auto simp: upserted_def upsertSplit_def tupd_def intro!: map_idI)

lemma upserted_upsertSplit: "upserted r (upsertSplit r ss)"
proof (cases "splitKey r \<in> splitKey ` set ss")
  case True
  then obtain s where "s \<in> set ss" "splitKey s = splitKey r" by auto
  then have "newValues r s \<in> set (upsertSplit r ss)" using True by (auto simp: upsertSplit_def set_tupd)
  then have "splitKey r \<in> splitKey ` set (upsertSplit r ss)" by (metis imageI splitKey_newValues)
  then show ?thesis using True by (auto simp: upserted_def upsertSplit_def set_tupd newValues_idem)
qed (auto simp: upserted_def upsertSplit_def image_iff)

lemma upserted_upsertSplit_other:
  "upserted r ss \<Longrightarrow> splitKey q \<noteq> splitKey r \<Longrightarrow> upserted r (upsertSplit q ss)"
  by (auto simp: upserted_def upsertSplit_def set_tupd image_iff)

lemma fold_upsert_upserted:
  "(\<forall>r \<in> set rs. upserted r ss) \<Longrightarrow> fold upsertSplit rs ss = ss"
  by (induction rs) (auto simp: upsertSplit_upserted)

lemma upserted_fold:
  "upserted r ss \<Longrightarrow> splitKey r \<notin> splitKey ` set rs \<Longrightarrow> upserted r (fold upsertSplit rs ss)"
  by (induction rs arbitrary: ss) (auto simp: upserted_upsertSplit_other)

lemma fold_upserts:
  "distinct (map splitKey rs) \<Longrightarrow> r \<in> set rs \<Longrightarrow> upserted r (fold upsertSplit rs ss)"
  by (induction rs arbitrary: ss) (auto intro: upserted_fold upserted_upsertSplit)

lemma fold_upsert_idem:
  "distinct (map splitKey rs) \<Longrightarrow> fold upsertSplit rs (fold upsertSplit rs ss) = fold upsertSplit rs ss"
  by (rule fold_upsert_upserted) (simp add: fold_upserts)

lemma distinct_upsertSplit: "distinct (map splitKey ss) \<Longrightarrow> distinct (map splitKey (upsertSplit r ss))"
proof -
  assume d: "distinct (map splitKey ss)"
  have "map splitKey (tupd (\<lambda>s. splitKey s = splitKey r) (newValues r) ss) = map splitKey ss"
    by (simp add: tupd_def)
  then show ?thesis using d by (auto simp: upsertSplit_def)
qed

lemma run_upsertPlans:
  "quiet w \<Longrightarrow> run_state (upsertPlans po rel rule ps) w =
     (Inr (), w\<lparr>db := (db w)\<lparr>splits := fold upsertSplit (map (splitRow po rel rule) ps) (splits (db w))\<rparr>\<rparr>)"
  by (induction ps arbitrary: w) (simp_all add: quiet_def run_simps)

section \<open>Footprint\<close>

text \<open>Recording commissions changes the commission tables only, and keeps at most one split row per order,
  beneficiary and level.\<close>

definition splitsOk :: "store \<Rightarrow> bool" where
  "splitsOk d \<longleftrightarrow> distinct (map splitKey (splits d))"

definition commStep :: "store \<Rightarrow> store \<Rightarrow> bool" where
  "commStep d d' \<longleftrightarrow> d' = d\<lparr>splits := splits d', rules := rules d', nextRule := nextRule d', clogs := clogs d'\<rparr> \<and>
     (splitsOk d \<longrightarrow> splitsOk d')"

lemma commStep_frame:
  assumes "commStep d d'"
  shows "orders d' = orders d" "nextOrder d' = nextOrder d" "audits d' = audits d" "users d' = users d"
    "codes d' = codes d" "nextCode d' = nextCode d" "gwCalls d' = gwCalls d" "subs d' = subs d" "nextSub d' = nextSub d"
proof -
  from assms have d': "d' = d\<lparr>splits := splits d', rules := rules d', nextRule := nextRule d', clogs := clogs d'\<rparr>"
    by (simp add: commStep_def)
  show "orders d' = orders d" by (subst d') simp
  show "nextOrder d' = nextOrder d" by (subst d') simp
  show "audits d' = audits d" by (subst d') simp
  show "users d' = users d" by (subst d') simp
  show "codes d' = codes d" by (subst d') simp
  show "nextCode d' = nextCode d" by (subst d') simp
  show "gwCalls d' = gwCalls d" by (subst d') simp
  show "subs d' = subs d" by (subst d') simp
  show "nextSub d' = nextSub d" by (subst d') simp
qed

lemma own_commReads: "own T (userGet i)" "own T (relationOf i)" "own T (userGetByID i)"
  unfolding userGet_def relationOf_def userGetByID_def by (intro own_read; simp)+

lemma own_upsertPlans: "own commStep (upsertPlans po rel rule ps)"
  by (induction ps) (auto intro!: own_rules own_exec simp: commStep_def splitsOk_def distinct_upsertSplit)

lemma own_rule: "own commStep getActiveGlobalCommissionRule"
  unfolding getActiveGlobalCommissionRule_def ensureDefaultGlobalCommissionRule_def
  by (intro own_rules own_exec) (simp add: commStep_def splitsOk_def)

lemma own_recordSplits: "own commStep (recordCommissionSplitsIfNeeded po)"
  unfolding recordCommissionSplitsIfNeeded_def upsertCommissionSplitLogsForOrder_def
  by (intro own_rules own_commReads own_rule own_upsertPlans)

lemma own_recordPending: "own commStep (recordPendingCommissionIfNeeded x po)"
  unfolding recordPendingCommissionIfNeeded_def
  by (intro own_rules own_commReads own_exec) (simp add: commStep_def splitsOk_def)

lemma sameMoney_comm: "commStep d d' \<Longrightarrow> sameMoney d d'"
  by (intro sameMoney_frame) (simp_all add: commStep_frame)

section \<open>Properties\<close>

definition entitled :: "promotion_relation \<Rightarrow> commission_rule \<Rightarrow> int \<Rightarrow> string \<Rightarrow> f64 \<Rightarrow> bool" where
  "entitled rel rule uid role rate \<longleftrightarrow>
     (role = RoleDistributor \<and> pr_DistributorUserID rel = Some uid \<and> rate = cu_DistributorTargetRate rule) \<or>
     (role = RoleAgent \<and> pr_AgentUserID rel = Some uid \<and> rate = cu_AgentTargetRate rule) \<or>
     (role = RoleChannelPartner \<and> pr_ChannelPartnerUserID rel = Some uid \<and> rate = cu_ChannelPartnerTargetRate rule)"

lemma buildTiers_entitled:
  "t \<in> set (buildTiers rel rule) \<Longrightarrow> entitled rel rule (ct_UserID t) (ct_Role t) (ct_TargetRate t)"
  by (auto simp: buildTiers_def addTier_def entitled_def split: option.splits if_splits)

lemma planTiers_entitled:
  assumes "p \<in> set (planTiers diff base lower (buildTiers rel rule))"
  shows "entitled rel rule (sp_BeneficiaryUserID p) (sp_BeneficiaryRole p) (sp_TargetRate p)"
proof -
  have "planData p \<in> set (map planData (planTiers diff base lower (buildTiers rel rule)))" using assms by simp
  then obtain t where "t \<in> set (buildTiers rel rule)" "planData p = tierData t"
    by (rule list_emb_set [OF planTiers_subseq]) auto
  then show ?thesis using buildTiers_entitled [of t rel rule] by simp
qed

text \<open>The split of an order has at most three plans, one per level, each with an amount above zero and each for a channel partner,
  an agent or a distributor that the promotion relation of the buyer names, at the rate the rule gives that role.\<close>

theorem split_plans_entitled:
  "length (buildCommissionSplitPlans po rel rule) \<le> 3 \<and>
   distinct (map sp_Level (buildCommissionSplitPlans po rel rule)) \<and>
   list_all (\<lambda>p. \<not> fle (sp_CommissionAmount p) fzero \<and>
      entitled rel rule (sp_BeneficiaryUserID p) (sp_BeneficiaryRole p) (sp_TargetRate p))
     (buildCommissionSplitPlans po rel rule)"
proof (cases "fle (o_Amount po) fzero")
  case False
  then obtain diff where plans: "buildCommissionSplitPlans po rel rule = planTiers diff (o_Amount po) fzero (buildTiers rel rule)"
    by (auto simp: buildCommissionSplitPlans_def Let_def)
  have "length (planTiers diff (o_Amount po) fzero (buildTiers rel rule)) \<le> 3"
    using list_emb_length [OF planTiers_subseq [of diff "o_Amount po" fzero "buildTiers rel rule"]] buildTiers_length [of rel rule] by simp
  then show ?thesis unfolding plans list_all_iff using plans_levels planTiers_amount planTiers_entitled by blast
qed (simp add: buildCommissionSplitPlans_def)

definition sampleRelation :: promotion_relation where
  "sampleRelation = \<lparr>pr_UserID = 1, pr_ChannelPartnerUserID = Some 5, pr_AgentUserID = None, pr_DistributorUserID = Some 6,
     pr_DirectParentUserID = Some 6, pr_DirectParentRole = RoleDistributor, pr_BindingSource = ''distributor_direct'', pr_IsLocked = True\<rparr>"

theorem split_plans_entitled_witness:
  "list_all (\<lambda>p. \<not> fle (sp_CommissionAmount p) fzero \<and>
      entitled sampleRelation (defaultRule 0 1) (sp_BeneficiaryUserID p) (sp_BeneficiaryRole p) (sp_TargetRate p))
     (buildCommissionSplitPlans (sampleOrder Completed) sampleRelation (defaultRule 0 1))"
  using split_plans_entitled by blast

lemma splitRow_keys:
  "distinct (map sp_Level ps) \<Longrightarrow> distinct (map splitKey (map (splitRow po rel rule) ps))"
  by (induction ps) (auto simp: splitKey_def splitRow_def)

text \<open>Recording the split of an order again, as a retried fulfilment does, leaves the rows of the first recording as they are.\<close>

theorem split_logs_idempotent:
  assumes "quiet w" and "run_state (upsertCommissionSplitLogsForOrder po rel rule) w = (r, w')"
  shows "r = Inr () \<and> run_state (upsertCommissionSplitLogsForOrder po rel rule) w' = (Inr (), w')"
proof -
  have d: "distinct (map splitKey (map (splitRow po rel rule) (buildCommissionSplitPlans po rel rule)))"
    by (rule splitRow_keys) (simp add: buildCommissionSplitPlans_def Let_def plans_levels)
  have w': "r = Inr ()" "w' = w\<lparr>db := (db w)\<lparr>splits := fold upsertSplit (map (splitRow po rel rule) (buildCommissionSplitPlans po rel rule)) (splits (db w))\<rparr>\<rparr>"
    using assms by (simp_all add: upsertCommissionSplitLogsForOrder_def run_upsertPlans)
  then have "quiet w'" using assms(1) by (simp add: quiet_def)
  then show ?thesis
    using fold_upsert_idem [OF d] by (simp add: upsertCommissionSplitLogsForOrder_def run_upsertPlans w')
qed

theorem split_logs_idempotent_witness:
  "\<exists>w'. run_state (upsertCommissionSplitLogsForOrder (sampleOrder Completed) sampleRelation (defaultRule 0 1)) w' = (Inr (), w')"
  using split_logs_idempotent [of "sampleWorld sampleStore []"] by (metis surj_pair quiet_def sampleWorld_sel(4))

text \<open>Whatever fails and whoever interferes, recording commissions keeps at most one split row per order, beneficiary and level.\<close>

theorem split_rows_unique:
  assumes "relies (\<lambda>d d'. splitsOk d \<longrightarrow> splitsOk d') w" and "splitsOk (db w)"
  shows "splitsOk (db (snd (run_state (recordCommissionSplitsIfNeeded po) w)))"
  by (rule own_invariant [OF own_recordSplits _ assms]) (simp add: commStep_def)

theorem split_rows_unique_witness:
  "splitsOk (db (snd (run_state (recordCommissionSplitsIfNeeded (sampleOrder Completed))
     (sampleWorld (sampleStore\<lparr>relations := [sampleRelation]\<rparr>) (faults [Done, Done, Unack])))))"
  by (rule split_rows_unique) (auto intro: relies_faults simp: splitsOk_def sampleStore_def)

text \<open>Resolving a promotion binding only reads.\<close>

lemma run_relationOf: "script w = [] \<Longrightarrow> run_state (relationOf i) w =
    (case tget (\<lambda>r. pr_UserID r = i) (relations (db w)) of None \<Rightarrow> Inl entNotFound | Some r \<Rightarrow> Inr r, w)"
  by (simp add: relationOf_def run_simps)

lemma run_userGet: "script w = [] \<Longrightarrow> run_state (userGet i) w =
    (case tget (\<lambda>u. u_ID u = i) (users (db w)) of None \<Rightarrow> Inl entNotFound | Some u \<Rightarrow> Inr u, w)"
  by (simp add: userGet_def run_simps)

lemma ancestors_quiet: "script w = [] \<Longrightarrow> \<exists>a. run_state (resolvePromotionAncestors k u) w = (Inr a, w)"
proof (induction k arbitrary: u)
  case (Suc k)
  note rd = run_relationOf [OF Suc.prems] run_userGet [OF Suc.prems]
  have ag: "\<exists>a. run_state (resolveAgentAncestors (resolvePromotionAncestors k) u) w = (Inr a, w)" for u
  proof -
    have "\<exists>a. run_state (bindE (resolvePromotionAncestors k p) id (\<lambda>(cp, _, _). ret (Inr (cp, Some (u_ID u), None)))) w = (Inr a, w)" for p
      using Suc.IH [OF Suc.prems, of p] by (auto simp: run_bindE)
    then show ?thesis
      by (auto simp: resolveAgentAncestors_def rd isNotFound_def split: option.splits)
  qed
  have ds: "\<exists>a. run_state (resolveDistributorAncestors (resolvePromotionAncestors k) u) w = (Inr a, w)" for u
  proof -
    have "\<exists>a. run_state (bindE (resolvePromotionAncestors k p) id (\<lambda>(cp, ag, _). ret (Inr (cp, ag, Some (u_ID u))))) w = (Inr a, w)" for p
      using Suc.IH [OF Suc.prems, of p] by (auto simp: run_bindE)
    then show ?thesis
      by (auto simp: resolveDistributorAncestors_def rd isNotFound_def split: option.splits)
  qed
  show ?case using ag ds Suc.IH [OF Suc.prems] by (auto simp: rd isNotFound_def split: option.splits)
qed simp

lemma binding_quiet:
  assumes "script w = []" and "0 < i" and "tget (\<lambda>u. u_ID u = i) (users (db w)) = Some u"
  shows "\<exists>b. run_state (resolvePromotionBinding i 0) w = (Inr (Some b), w)"
  using assms(2,3) ancestors_quiet [OF assms(1), of 5 u]
  by (auto simp: resolvePromotionBinding_def run_userGet [OF assms(1)] run_bindE)

text \<open>The first inviter wins: once a user has been bound to an existing inviter, the promotion relation is there and locked, and binding
  the user to any inviter later answers without an error and changes nothing.\<close>

theorem promotion_binding_permanent:
  assumes w: "quiet w" and uid: "0 < uid" and i: "0 < i" "tget (\<lambda>u. u_ID u = i) (users (db w)) = Some u"
    and first: "run_state (upsertPromotionRelationForInviter uid (Some i)) w = (r, w')"
  shows "r = Inr () \<and> (\<exists>rel. tget (\<lambda>q. pr_UserID q = uid) (relations (db w')) = Some rel \<and> pr_IsLocked rel) \<and>
    run_state (upsertPromotionRelationForInviter uid j) w' = (Inr (), w')"
proof -
  let ?p = "\<lambda>q. pr_UserID q = uid"
  have q: "script w = []" using w by (simp add: quiet_def)
  obtain b where b: "run_state (resolvePromotionBinding i 0) w = (Inr (Some b), w)" using binding_quiet [OF q i] by blast
  have res: "r = Inr () \<and> script w' = [] \<and> (\<exists>rel. tget ?p (relations (db w')) = Some rel \<and> pr_IsLocked rel)"
  proof (cases "tget ?p (relations (db w))")
    case None
    then have "tcount ?p (relations (db w)) = 0" "\<forall>q \<in> set (relations (db w)). \<not> ?p q" by (auto simp: tget_None tcount_0)
    with None show ?thesis
      using first uid i b q
      by (auto simp: upsertPromotionRelationForInviter_def run_relationOf isNotFound_def run_simps relationCreateStmt_def
          newRelation_def tget_append_new)
  next
    case (Some rel)
    then have n: "0 < tcount ?p (relations (db w))"
      using tget_Some [OF Some] by (auto simp: tcount_0 zero_less_iff_neq_zero)
    have "tget ?p (tupd ?p (applyBinding b) (relations (db w))) = Some (applyBinding b rel)"
      using Some tget_Some [OF Some] tget_tupd_key [where key = pr_UserID and f = "applyBinding b" and k = uid]
      by (simp add: applyBinding_def)
    with Some show ?thesis
      using first uid i b q n
      by (auto simp: upsertPromotionRelationForInviter_def run_relationOf run_simps relationUpdateStmt_def applyBinding_def
          split: if_splits)
  qed
  then have "run_state (upsertPromotionRelationForInviter uid j) w' = (Inr (), w')"
    by (auto simp: upsertPromotionRelationForInviter_def run_relationOf split: option.splits)
  with res show ?thesis by blast
qed

theorem promotion_binding_permanent_witness:
  "\<exists>w'. run_state (upsertPromotionRelationForInviter 8 (Some 1)) (sampleWorld sampleStore []) = (Inr (), w') \<and>
     run_state (upsertPromotionRelationForInviter 8 (Some 9)) w' = (Inr (), w')"
proof -
  obtain r w' where "run_state (upsertPromotionRelationForInviter 8 (Some 1)) (sampleWorld sampleStore []) = (r, w')"
    by fastforce
  with promotion_binding_permanent [OF _ _ _ _ this, of sampleUser "Some 9"] show ?thesis
    by (simp add: quiet_def sampleStore_def sampleUser_def table_simps)
qed

end
