(* ===== verification/Fulfillment.thy ===== *)
theory Fulfillment
  imports Commission Load_Balancer Registry
begin

text \<open>
  \<open>internal/service/payment_fulfillment.go\<close> and the helpers and the provider registry of
  \<open>payment_service.go\<close>: a payment notification moves an order to PAID, fulfilment locks it in RECHARGING,
  credits the balance through the order's redeem code or assigns the subscription, records commissions, and
  completes the order or marks it FAILED.
\<close>

section \<open>Helpers\<close>

definition paymentGraceMinutes :: int where "paymentGraceMinutes = 5"
definition defaultPageSize :: int where "defaultPageSize = 20"
definition maxPageSize :: int where "maxPageSize = 100"
definition amountToleranceCNY :: f64 where "amountToleranceCNY = rnd (1 / 100)"
definition orderIDPrefix :: string where "orderIDPrefix = ''sub2_''"

definition psIsRefundStatus :: "order_status \<Rightarrow> bool" where
  "psIsRefundStatus s \<longleftrightarrow> s \<in> {RefundRequested, Refunding, PartiallyRefunded, Refunded, RefundFailed}"

definition psNilIfEmpty :: "string \<Rightarrow> string option" where
  "psNilIfEmpty s = (if s = [] then None else Some s)"

definition psSliceContains :: "'a list \<Rightarrow> 'a \<Rightarrow> bool" where
  "psSliceContains sl s = list_ex (\<lambda>v. v = s) sl"

definition psComputeValidityDays :: "int \<Rightarrow> string \<Rightarrow> int" where
  "psComputeValidityDays days unit =
     (if unit = ''week'' then wrap64 (days * 7) else if unit = ''month'' then wrap64 (days * 30) else days)"

definition psStartOfDayUTC :: "instant \<Rightarrow> instant" where
  "psStartOfDayUTC t = dayStart 0 t"

definition applyPagination :: "int \<Rightarrow> int \<Rightarrow> int \<times> int" where
  "applyPagination pageSize page =
     (let size = (if pageSize \<le> 0 then defaultPageSize else pageSize)
      in (if maxPageSize < size then maxPageSize else size, if page < 1 then 1 else page))"

section \<open>Commissions and completion\<close>

definition isStatus :: "int \<Rightarrow> order_status set \<Rightarrow> payment_order \<Rightarrow> bool" where
  "isStatus oid ss po \<longleftrightarrow> o_ID po = oid \<and> o_Status po \<in> ss"

definition markCompleted :: "ext \<Rightarrow> payment_order \<Rightarrow> string \<Rightarrow> unit se" where
  "markCompleted x po auditAction =
     bindE (recordCommissionSplitsIfNeeded po) id (\<lambda>_.
     bindE (recordPendingCommissionIfNeeded x po) id (\<lambda>_. do {
       now \<leftarrow> timeNow;
       bindE (orderUpdate (isStatus (o_ID po) {Recharging}) (\<lambda>r. r\<lparr>o_Status := Completed, o_CompletedAt := Some now\<rparr>))
         (Errorf ''mark completed'') (\<lambda>_. do {
           _ \<leftarrow> writeAuditLog (o_ID po) auditAction ''system'';
           ret (Inr ())
         })
     }))"

definition markFailed :: "int \<Rightarrow> go_err \<Rightarrow> unit sp" where
  "markFailed oid cause = do {
     now \<leftarrow> timeNow;
     r \<leftarrow> orderUpdate (isStatus oid {Recharging})
            (\<lambda>r. r\<lparr>o_Status := Failed, o_FailedAt := Some now, o_FailedReason := Some (errText cause)\<rparr>);
     case r of
       Inl _ \<Rightarrow> ret ()
     | Inr c \<Rightarrow> if 0 < c then writeAuditLog oid ''FULFILLMENT_FAILED'' ''system'' else ret ()
   }"

section \<open>Balance orders\<close>

datatype redeem_action = redeemActionCreate | redeemActionRedeem | redeemActionSkipCompleted

definition resolveRedeemAction :: "go_err + redeem_code \<Rightarrow> redeem_action" where
  "resolveRedeemAction r = (case r of
       Inl _ \<Rightarrow> redeemActionCreate
     | Inr existing \<Rightarrow> if IsUsed existing then redeemActionSkipCompleted else redeemActionRedeem)"

definition orderCode :: "payment_order \<Rightarrow> redeem_code" where
  "orderCode po = blankCode\<lparr>rc_Code := o_RechargeCode po, rc_Type := RedeemTypeBalance, rc_Value := o_Amount po\<rparr>"

definition doBalance :: "ext \<Rightarrow> payment_order \<Rightarrow> unit se" where
  "doBalance x po = do {
     r \<leftarrow> GetByCode (o_RechargeCode po);
     let action = resolveRedeemAction r;
     if action = redeemActionSkipCompleted then markCompleted x po ''RECHARGE_SUCCESS''
     else
       bindE (if action = redeemActionCreate then CreateCode x (Some (orderCode po)) else ret (Inr ()))
         (Errorf ''create redeem code'') (\<lambda>_.
       bindE (Redeem_code x (o_UserID po) (o_RechargeCode po)) (Errorf ''redeem balance'') (\<lambda>_.
         markCompleted x po ''RECHARGE_SUCCESS''))
   }"

definition notFoundErr :: "go_err \<Rightarrow> go_err" where
  "notFoundErr e = NotFound ''NOT_FOUND'' ''order not found''"

definition lockForRecharge :: "int \<Rightarrow> nat se" where
  "lockForRecharge oid = orderUpdate (isStatus oid {Paid, Failed}) (\<lambda>r. r\<lparr>o_Status := Recharging\<rparr>)"

definition ExecuteBalanceFulfillment :: "ext \<Rightarrow> int \<Rightarrow> unit se" where
  "ExecuteBalanceFulfillment x oid =
     bindE (orderGet oid) notFoundErr (\<lambda>po.
       if o_Status po = Completed then ret (Inr ())
       else if psIsRefundStatus (o_Status po)
       then ret (Inl (BadRequest ''INVALID_STATUS'' ''refund-related order cannot fulfill''))
       else if o_Status po \<noteq> Paid \<and> o_Status po \<noteq> Failed
       then ret (Inl (BadRequest ''INVALID_STATUS'' (''order cannot fulfill in status '' @ statusText (o_Status po))))
       else
         bindE (lockForRecharge oid) (Errorf ''lock'') (\<lambda>c.
           if c = 0 then ret (Inr ())
           else do {
             r \<leftarrow> doBalance x po;
             case r of
               Inl e \<Rightarrow> do { _ \<leftarrow> markFailed oid e; ret (Inl e) }
             | Inr _ \<Rightarrow> ret (Inr ())
           }))"

section \<open>Subscription orders\<close>

definition doSub :: "ext \<Rightarrow> payment_order \<Rightarrow> int \<Rightarrow> int \<Rightarrow> unit se" where
  "doSub x po gid days = do {
     r \<leftarrow> groupGetByID gid;
     case r of
       Inl _ \<Rightarrow> ret (Inl (ErrorNew (''group '' @ formatInt gid @ '' no longer exists or inactive'')))
     | Inr g \<Rightarrow>
         if g_Status g \<noteq> EntityStatusActive
         then ret (Inl (ErrorNew (''group '' @ formatInt gid @ '' no longer exists or inactive'')))
         else do {
           already \<leftarrow> hasAuditLog (o_ID po) ''SUBSCRIPTION_SUCCESS'';
           if already then markCompleted x po ''SUBSCRIPTION_SUCCESS''
           else
             bindE (AssignOrExtendSubscription x \<lparr>ai_UserID = o_UserID po, ai_GroupID = gid, ai_ValidityDays = days,
                      ai_AssignedBy = 0, ai_Notes = ''payment order '' @ formatInt (o_ID po)\<rparr>)
               (Errorf ''assign subscription'') (\<lambda>_. markCompleted x po ''SUBSCRIPTION_SUCCESS'')
         }
   }"

definition ExecuteSubscriptionFulfillment :: "ext \<Rightarrow> int \<Rightarrow> unit se" where
  "ExecuteSubscriptionFulfillment x oid =
     bindE (orderGet oid) notFoundErr (\<lambda>po.
       if o_Status po = Completed then ret (Inr ())
       else if psIsRefundStatus (o_Status po)
       then ret (Inl (BadRequest ''INVALID_STATUS'' ''refund-related order cannot fulfill''))
       else if o_Status po \<noteq> Paid \<and> o_Status po \<noteq> Failed
       then ret (Inl (BadRequest ''INVALID_STATUS'' (''order cannot fulfill in status '' @ statusText (o_Status po))))
       else
         (case (o_SubscriptionGroupID po, o_SubscriptionDays po) of
            (Some gid, Some days) \<Rightarrow>
              bindE (lockForRecharge oid) (Errorf ''lock'') (\<lambda>c.
                if c = 0 then ret (Inr ())
                else do {
                  r \<leftarrow> doSub x po gid days;
                  case r of
                    Inl e \<Rightarrow> do { _ \<leftarrow> markFailed oid e; ret (Inl e) }
                  | Inr _ \<Rightarrow> ret (Inr ())
                })
          | _ \<Rightarrow> ret (Inl (BadRequest ''INVALID_STATUS'' ''missing subscription info''))))"

section \<open>From notification to fulfilment\<close>

definition executeFulfillment :: "ext \<Rightarrow> int \<Rightarrow> unit se" where
  "executeFulfillment x oid =
     bindE (orderGet oid) (Errorf ''get order'') (\<lambda>po.
       if o_OrderType po = OrderTypeSubscription then ExecuteSubscriptionFulfillment x oid
       else ExecuteBalanceFulfillment x oid)"

definition alreadyProcessed :: "ext \<Rightarrow> payment_order \<Rightarrow> unit se" where
  "alreadyProcessed x po = do {
     r \<leftarrow> orderGet (o_ID po);
     case r of
       Inl _ \<Rightarrow> ret (Inr ())
     | Inr cur \<Rightarrow>
         if o_Status cur \<in> {Completed, Refunded} then ret (Inr ())
         else if o_Status cur = Failed then executeFulfillment x (o_ID po)
         else if o_Status cur \<in> {Paid, Recharging}
         then ret (Inl (ErrorNew (''order '' @ formatInt (o_ID po) @ '' is being processed'')))
         else if o_Status cur = Expired then do {
           _ \<leftarrow> writeAuditLog (o_ID po) ''PAYMENT_AFTER_EXPIRY'' ''system'';
           ret (Inr ())
         }
         else ret (Inr ())
   }"

text \<open>The orders a payment may still claim: pending, cancelled, or expired within the grace period.\<close>

definition claimable :: "instant \<Rightarrow> payment_order \<Rightarrow> bool" where
  "claimable grace po \<longleftrightarrow> o_Status po = Pending \<or> o_Status po = Cancelled \<or>
     (o_Status po = Expired \<and> grace \<le> o_UpdatedAt po)"

definition paidRow :: "ext \<Rightarrow> string \<Rightarrow> f64 \<Rightarrow> instant \<Rightarrow> payment_order \<Rightarrow> payment_order" where
  "paidRow x tradeNo paid now po = po\<lparr>o_Status := Paid, o_PayAmount := x_col2 x paid, o_PaymentTradeNo := tradeNo,
     o_PaidAt := Some now, o_FailedAt := None, o_FailedReason := None\<rparr>"

definition toPaid :: "ext \<Rightarrow> payment_order \<Rightarrow> string \<Rightarrow> f64 \<Rightarrow> string \<Rightarrow> unit se" where
  "toPaid x po tradeNo paid pk = do {
     now \<leftarrow> timeNow;
     let grace = now - paymentGraceMinutes * nsMinute;
     bindE (orderUpdate (\<lambda>r. o_ID r = o_ID po \<and> claimable grace r) (paidRow x tradeNo paid now))
       (Errorf ''update to PAID'') (\<lambda>c.
         if c = 0 then alreadyProcessed x po
         else do {
           _ \<leftarrow> (if o_Status po = Cancelled \<or> o_Status po = Expired
                 then writeAuditLog (o_ID po) ''ORDER_RECOVERED'' pk else ret ());
           _ \<leftarrow> writeAuditLog (o_ID po) ''ORDER_PAID'' pk;
           executeFulfillment x (o_ID po)
         })
   }"

definition confirmPayment :: "ext \<Rightarrow> int \<Rightarrow> string \<Rightarrow> f64 \<Rightarrow> string \<Rightarrow> unit se" where
  "confirmPayment x oid tradeNo paid pk = do {
     r \<leftarrow> orderGet oid;
     case r of
       Inl _ \<Rightarrow> ret (Inr ())
     | Inr po \<Rightarrow>
         if flt fzero paid \<and> \<not> fisNaN paid \<and> \<not> fisInf paid \<and>
            flt amountToleranceCNY (fabs (fsub paid (o_PayAmount po)))
         then do {
           _ \<leftarrow> writeAuditLog (o_ID po) ''PAYMENT_AMOUNT_MISMATCH'' pk;
           ret (Inl (ErrorNew (''amount mismatch: expected '' @ formatFloat2 (o_PayAmount po) @ '', got '' @ formatFloat2 paid)))
         }
         else toPaid x po tradeNo
                (if fle paid fzero \<or> fisNaN paid \<or> fisInf paid then o_PayAmount po else paid) pk
   }"

definition HandlePaymentNotification :: "ext \<Rightarrow> payment_notification \<Rightarrow> string \<Rightarrow> unit se" where
  "HandlePaymentNotification x n pk =
     (if pn_Status n \<noteq> NotificationStatusSuccess then ret (Inr ())
      else do {
        r \<leftarrow> orderByOutTradeNo (pn_OrderID n);
        case r of
          Inr po \<Rightarrow> confirmPayment x (o_ID po) (pn_TradeNo n) (pn_Amount n) pk
        | Inl _ \<Rightarrow>
            (case parseInt64 (trimPrefix (pn_OrderID n) orderIDPrefix) of
               Some oid \<Rightarrow> confirmPayment x oid (pn_TradeNo n) (pn_Amount n) pk
             | None \<Rightarrow> ret (Inl (ErrorNew (''order not found for out_trade_no: '' @ pn_OrderID n))))
      })"

definition RetryFulfillment :: "ext \<Rightarrow> int \<Rightarrow> unit se" where
  "RetryFulfillment x oid =
     bindE (orderGet oid) notFoundErr (\<lambda>po.
       if o_PaidAt po = None then ret (Inl (BadRequest ''INVALID_STATUS'' ''order is not paid''))
       else if psIsRefundStatus (o_Status po)
       then ret (Inl (BadRequest ''INVALID_STATUS'' ''refund-related order cannot retry''))
       else if o_Status po = Recharging then ret (Inl (Conflict ''CONFLICT'' ''order is being processed''))
       else if o_Status po = Completed then ret (Inl (BadRequest ''INVALID_STATUS'' ''order already completed''))
       else if o_Status po \<noteq> Failed \<and> o_Status po \<noteq> Paid
       then ret (Inl (BadRequest ''INVALID_STATUS'' ''only paid and failed orders can retry''))
       else
         bindE (orderUpdate (isStatus oid {Failed, Paid}) (\<lambda>r. r\<lparr>o_Status := Paid, o_FailedAt := None, o_FailedReason := None\<rparr>))
           (Errorf ''reset for retry'') (\<lambda>_. do {
             _ \<leftarrow> writeAuditLog oid ''RECHARGE_RETRY'' ''admin'';
             executeFulfillment x oid
           }))"

section \<open>The provider registry of the service\<close>

primrec registerInstances :: "ext \<Rightarrow> provider_instance list \<Rightarrow> unit sp" where
  "registerInstances x [] = ret ()"
| "registerInstances x (inst # is) = do {
     r \<leftarrow> GetInstanceConfig x (pi_ID inst);
     _ \<leftarrow> (case r of
            Inl _ \<Rightarrow> ret ()
          | Inr cfg \<Rightarrow>
              (case x_createProvider x (pi_ProviderKey inst) (formatInt (pi_ID inst))
                      (if pi_PaymentMode inst \<noteq> [] then cfgSet ''paymentMode'' (pi_PaymentMode inst) cfg else cfg) of
                 Inl _ \<Rightarrow> ret ()
               | Inr p \<Rightarrow> modify (\<lambda>d. d\<lparr>registry := Register p (registry d)\<rparr>)));
     registerInstances x is
   }"

definition loadProviders :: "ext \<Rightarrow> unit sp" where
  "loadProviders x = do {
     r \<leftarrow> query (\<lambda>d. filter pi_Enabled (insts d));
     case r of Inl _ \<Rightarrow> ret () | Inr is \<Rightarrow> registerInstances x is
   }"

definition EnsureProviders :: "ext \<Rightarrow> unit sp" where
  "EnsureProviders x = do {
     loaded \<leftarrow> peek providersLoaded;
     if \<not> loaded then do {
       _ \<leftarrow> loadProviders x;
       modify (\<lambda>d. d\<lparr>providersLoaded := True\<rparr>)
     } else ret ()
   }"

definition RefreshProviders :: "ext \<Rightarrow> unit sp" where
  "RefreshProviders x = do {
     _ \<leftarrow> modify (\<lambda>d. d\<lparr>registry := Clear (registry d)\<rparr>);
     _ \<leftarrow> loadProviders x;
     modify (\<lambda>d. d\<lparr>providersLoaded := True\<rparr>)
   }"

text \<open>The provider with the credentials of the instance that created the order, or the registered one.\<close>

definition registeredProvider :: "ext \<Rightarrow> payment_order \<Rightarrow> provider se" where
  "registeredProvider x po = do {
     _ \<leftarrow> EnsureProviders x;
     reg \<leftarrow> peek registry;
     ret (GetProvider reg (o_PaymentType po))
   }"

definition getOrderProvider :: "ext \<Rightarrow> payment_order \<Rightarrow> provider se" where
  "getOrderProvider x po =
     (case o_ProviderInstanceID po of
        None \<Rightarrow> registeredProvider x po
      | Some s \<Rightarrow>
          if s = [] then registeredProvider x po
          else (case parseInt64 s of
                  None \<Rightarrow> registeredProvider x po
                | Some instID \<Rightarrow> do {
                    r \<leftarrow> GetInstanceConfig x instID;
                    case r of
                      Inl _ \<Rightarrow> registeredProvider x po
                    | Inr cfg \<Rightarrow> do {
                        reg \<leftarrow> peek registry;
                        let key = GetProviderKey reg (o_PaymentType po);
                        case x_createProvider x (if key = [] then o_PaymentType po else key) s cfg of
                          Inl _ \<Rightarrow> registeredProvider x po
                        | Inr p \<Rightarrow> ret (Inr p)
                      }
                  }))"

definition GetWebhookProvider :: "ext \<Rightarrow> string \<Rightarrow> string \<Rightarrow> provider se" where
  "GetWebhookProvider x providerKey outTradeNo = do {
     let fallback = do { _ \<leftarrow> EnsureProviders x; reg \<leftarrow> peek registry; ret (GetProviderByKey reg providerKey) };
     if outTradeNo = [] then fallback
     else do {
       r \<leftarrow> orderByOutTradeNo outTradeNo;
       case r of
         Inl _ \<Rightarrow> fallback
       | Inr po \<Rightarrow> do {
           p \<leftarrow> getOrderProvider x po;
           case p of Inl _ \<Rightarrow> fallback | Inr prov \<Rightarrow> ret (Inr prov)
         }
     }
   }"

end
