(* ===== verification/Order_Lifecycle.thy ===== *)
theory Order_Lifecycle
  imports Fulfillment
begin

text \<open>
  \<open>internal/service/payment_order_lifecycle.go\<close>: cancelling and expiring orders, asking the
  payment platform whether an order was paid, and the rate limit on cancellations. The configuration that
  \<open>payment_config_service.go\<close> reads from the settings is an argument.
\<close>

section \<open>Configuration\<close>

record payment_config =
  pc_Enabled :: bool
  pc_MinAmount :: f64
  pc_MaxAmount :: f64
  pc_DailyLimit :: f64
  pc_OrderTimeoutMin :: int
  pc_MaxPendingOrders :: int
  pc_BalanceDisabled :: bool
  pc_BalanceRechargeMultiplier :: f64
  pc_RechargeFeeRate :: f64
  pc_LoadBalanceStrategy :: string
  pc_ProductNamePrefix :: string
  pc_ProductNameSuffix :: string
  pc_CancelRateLimitEnabled :: bool
  pc_CancelRateLimitMax :: int
  pc_CancelRateLimitWindow :: int
  pc_CancelRateLimitUnit :: string
  pc_CancelRateLimitMode :: string

section \<open>The rate limit on cancellations\<close>

definition userOperator :: "int \<Rightarrow> string" where
  "userOperator uid = ''user:'' @ formatInt uid"

definition cancelRateLimitWindowStart :: "ext \<Rightarrow> payment_config \<Rightarrow> instant \<Rightarrow> instant" where
  "cancelRateLimitWindowStart x cfg now =
     (let w = (if pc_CancelRateLimitWindow cfg \<le> 0 then 1 else pc_CancelRateLimitWindow cfg);
          unit = (if pc_CancelRateLimitUnit cfg = [] then ''day'' else pc_CancelRateLimitUnit cfg)
      in if pc_CancelRateLimitMode cfg = ''fixed'' then
           (if unit = ''minute'' then truncTo nsMinute now + wrap64 (- (w - 1) * nsMinute)
            else if unit = ''day'' then addDays (dayStart (x_zone x) now) (- (w - 1))
            else truncTo nsHour now + wrap64 (- (w - 1) * nsHour))
         else
           (if unit = ''minute'' then now + wrap64 (- w * nsMinute)
            else if unit = ''day'' then addDays now (- w)
            else now + wrap64 (- w * nsHour)))"

definition checkCancelRateLimit :: "ext \<Rightarrow> int \<Rightarrow> payment_config \<Rightarrow> unit se" where
  "checkCancelRateLimit x uid cfg =
     (if \<not> pc_CancelRateLimitEnabled cfg \<or> pc_CancelRateLimitMax cfg \<le> 0 then ret (Inr ())
      else do {
        now \<leftarrow> timeNow;
        let windowStart = cancelRateLimitWindowStart x cfg now;
        r \<leftarrow> query (\<lambda>d. tcount (\<lambda>a. a_Action a = ''ORDER_CANCELLED'' \<and> a_Operator a = userOperator uid \<and>
               windowStart \<le> a_CreatedAt a) (audits d));
        case r of
          Inl _ \<Rightarrow> ret (Inr ())
        | Inr n \<Rightarrow>
            if pc_CancelRateLimitMax cfg \<le> int n
            then ret (Inl (withMetadata (TooManyRequests ''CANCEL_RATE_LIMITED'' ''cancel rate limited'')
                   [(''max'', formatInt (pc_CancelRateLimitMax cfg)),
                    (''window'', formatInt (pc_CancelRateLimitWindow cfg)),
                    (''unit'', pc_CancelRateLimitUnit cfg)]))
            else ret (Inr ())
      })"

section \<open>Asking the platform\<close>

datatype check_result = CheckNone | AlreadyPaid

definition queryTradeNo :: "payment_order \<Rightarrow> string" where
  "queryTradeNo po = (if o_PaymentTradeNo po = [] then o_OutTradeNo po else o_PaymentTradeNo po)"

definition checkPaid :: "ext \<Rightarrow> payment_order \<Rightarrow> check_result sp" where
  "checkPaid x po = do {
     p \<leftarrow> getOrderProvider x po;
     case p of
       Inl _ \<Rightarrow> ret CheckNone
     | Inr prov \<Rightarrow> do {
         _ \<leftarrow> gwCall (CallQuery (pv_ProviderKey prov) (queryTradeNo po));
         case pv_QueryOrder prov (queryTradeNo po) of
           Inl _ \<Rightarrow> ret CheckNone
         | Inr resp \<Rightarrow>
             if qo_Status resp = ProviderStatusPaid then do {
               _ \<leftarrow> HandlePaymentNotification x
                     \<lparr>pn_TradeNo = o_PaymentTradeNo po, pn_OrderID = o_OutTradeNo po, pn_Amount = qo_Amount resp,
                      pn_Status = ProviderStatusSuccess, pn_RawData = ''''\<rparr> (pv_ProviderKey prov);
               ret AlreadyPaid
             }
             else do {
               _ \<leftarrow> (if pv_Cancelable prov then gwCall (CallCancel (pv_ProviderKey prov) (queryTradeNo po)) else ret ());
               ret CheckNone
             }
       }
   }"

section \<open>Cancelling and expiring\<close>

datatype cancel_result = CancelAlreadyPaid | CancelDone

definition cancelCore :: "ext \<Rightarrow> payment_order \<Rightarrow> order_status \<Rightarrow> string \<Rightarrow> cancel_result se" where
  "cancelCore x po fs op = do {
     paid \<leftarrow> (if o_PaymentTradeNo po \<noteq> [] \<or> o_PaymentType po \<noteq> [] then checkPaid x po else ret CheckNone);
     if paid = AlreadyPaid then ret (Inr CancelAlreadyPaid)
     else
       bindE (orderUpdate (isStatus (o_ID po) {Pending}) (\<lambda>r. r\<lparr>o_Status := fs\<rparr>))
         (Errorf ''update order status'') (\<lambda>c. do {
           _ \<leftarrow> (if 0 < c then writeAuditLog (o_ID po) (if fs = Expired then ''ORDER_EXPIRED'' else ''ORDER_CANCELLED'') op
                 else ret ());
           ret (Inr CancelDone)
         })
   }"

definition CancelOrder :: "ext \<Rightarrow> int \<Rightarrow> int \<Rightarrow> cancel_result se" where
  "CancelOrder x oid uid =
     bindE (orderGet oid) notFoundErr (\<lambda>po.
       if o_UserID po \<noteq> uid then ret (Inl (Forbidden ''FORBIDDEN'' ''no permission for this order''))
       else if o_Status po \<noteq> Pending
       then ret (Inl (BadRequest ''INVALID_STATUS'' ''order cannot be cancelled in current status''))
       else cancelCore x po Cancelled (userOperator uid))"

definition AdminCancelOrder :: "ext \<Rightarrow> int \<Rightarrow> cancel_result se" where
  "AdminCancelOrder x oid =
     bindE (orderGet oid) notFoundErr (\<lambda>po.
       if o_Status po \<noteq> Pending
       then ret (Inl (BadRequest ''INVALID_STATUS'' ''order cannot be cancelled in current status''))
       else cancelCore x po Cancelled ''admin'')"

definition verifyOrder :: "ext \<Rightarrow> payment_order \<Rightarrow> payment_order se" where
  "verifyOrder x po =
     (if o_Status po = Pending \<or> o_Status po = Expired then do {
        r \<leftarrow> checkPaid x po;
        if r = AlreadyPaid then bindE (orderGet (o_ID po)) (Errorf ''reload order'') (\<lambda>po'. ret (Inr po'))
        else ret (Inr po)
      } else ret (Inr po))"

definition VerifyOrderByOutTradeNo :: "ext \<Rightarrow> string \<Rightarrow> int \<Rightarrow> payment_order se" where
  "VerifyOrderByOutTradeNo x outTradeNo uid =
     bindE (orderByOutTradeNo outTradeNo) notFoundErr (\<lambda>po.
       if o_UserID po \<noteq> uid then ret (Inl (Forbidden ''FORBIDDEN'' ''no permission for this order''))
       else verifyOrder x po)"

definition VerifyOrderPublic :: "ext \<Rightarrow> string \<Rightarrow> payment_order se" where
  "VerifyOrderPublic x outTradeNo = bindE (orderByOutTradeNo outTradeNo) notFoundErr (verifyOrder x)"

primrec expireAll :: "ext \<Rightarrow> payment_order list \<Rightarrow> int sp" where
  "expireAll x [] = ret 0"
| "expireAll x (po # pos) = do {
     r \<leftarrow> cancelCore x po Expired ''system'';
     n \<leftarrow> expireAll x pos;
     ret (case r of Inr CancelDone \<Rightarrow> n + 1 | _ \<Rightarrow> n)
   }"

definition ExpireTimedOutOrders :: "ext \<Rightarrow> int se" where
  "ExpireTimedOutOrders x = do {
     now \<leftarrow> timeNow;
     bindE (query (\<lambda>d. filter (\<lambda>po. o_Status po = Pending \<and> o_ExpiresAt po \<le> now) (orders d)))
       (Errorf ''query expired'') (\<lambda>pos. do { n \<leftarrow> expireAll x pos; ret (Inr n) })
   }"

end
