(* ===== verification/Refund.thy ===== *)
theory Refund
  imports Order_Lifecycle
begin

text \<open>
  \<open>internal/service/payment_refund.go\<close> and \<open>calculateGatewayRefundAmount\<close> of \<open>payment_amounts.go\<close>: the
  user's refund request, the administrator's refund plan, and its execution: lock the order, take back
  balance or subscription days, refund through the gateway, roll back when the gateway fails.
\<close>

section \<open>Amounts\<close>

definition calculateGatewayRefundAmount :: "ext \<Rightarrow> f64 \<Rightarrow> f64 \<Rightarrow> f64 \<Rightarrow> f64" where
  "calculateGatewayRefundAmount x orderAmount payAmount refundAmount =
     (if fle orderAmount fzero \<or> fle payAmount fzero \<or> fle refundAmount fzero then fzero
      else if fle (fabs (fsub refundAmount orderAmount)) amountToleranceCNY
      then x_decToFloat x (x_decRound x (x_decFloat x payAmount))
      else x_decToFloat x (x_decRound x (x_decDiv x (x_decFloat x payAmount * x_decFloat x refundAmount)
                                                     (x_decFloat x orderAmount))))"

section \<open>Requests\<close>

text \<open>\<open>Inr None\<close>: an order of before provider instances were recorded.\<close>

definition getOrderProviderInstance :: "payment_order \<Rightarrow> provider_instance option se" where
  "getOrderProviderInstance po =
     (case o_ProviderInstanceID po of
        None \<Rightarrow> ret (Inr None)
      | Some s \<Rightarrow>
          if s = [] then ret (Inr None)
          else (case parseInt64 s of
                  None \<Rightarrow> ret (Inr None)
                | Some i \<Rightarrow> exec (\<lambda>d. (case tget (\<lambda>r. pi_ID r = i) (insts d) of
                    None \<Rightarrow> Inl entNotFound | Some r \<Rightarrow> Inr (Some r), d))))"

definition validateRefundRequest :: "int \<Rightarrow> int \<Rightarrow> payment_order se" where
  "validateRefundRequest oid uid =
     bindE (orderGet oid) notFoundErr (\<lambda>po.
       if o_UserID po \<noteq> uid then ret (Inl (Forbidden ''FORBIDDEN'' ''no permission''))
       else if o_OrderType po \<noteq> OrderTypeBalance
       then ret (Inl (BadRequest ''INVALID_ORDER_TYPE'' ''only balance orders can request refund''))
       else if o_Status po \<noteq> Completed
       then ret (Inl (BadRequest ''INVALID_STATUS'' ''only completed orders can request refund''))
       else
         bindE (getOrderProviderInstance po)
           (\<lambda>_. Forbidden ''USER_REFUND_DISABLED'' ''refund is not available for this order'') (\<lambda>inst.
             case inst of
               None \<Rightarrow> ret (Inl (Forbidden ''USER_REFUND_DISABLED'' ''refund is not available for this order''))
             | Some i \<Rightarrow>
                 if \<not> pi_AllowUserRefund i
                 then ret (Inl (Forbidden ''USER_REFUND_DISABLED'' ''user refund is not enabled for this provider''))
                 else ret (Inr po)))"

definition RequestRefund :: "ext \<Rightarrow> int \<Rightarrow> int \<Rightarrow> string \<Rightarrow> unit se" where
  "RequestRefund x oid uid reason =
     bindE (validateRefundRequest oid uid) id (\<lambda>po.
     bindE (userGetByID (o_UserID po)) (Errorf ''get user'') (\<lambda>u.
       if flt (readBalance u) (o_Amount po)
       then ret (Inl (BadRequest ''BALANCE_NOT_ENOUGH'' ''refund amount exceeds balance''))
       else do {
         now \<leftarrow> timeNow;
         bindE (orderUpdate (\<lambda>r. o_ID r = oid \<and> o_UserID r = uid \<and> o_Status r = Completed \<and> o_OrderType r = OrderTypeBalance)
                  (\<lambda>r. r\<lparr>o_Status := RefundRequested, o_RefundRequestedAt := Some now,
                         o_RefundRequestReason := Some (trimSpace reason), o_RefundRequestedBy := Some (formatInt uid),
                         o_RefundAmount := x_col2 x (o_Amount po)\<rparr>)) (Errorf ''update'') (\<lambda>c.
           if c = 0 then ret (Inl (Conflict ''CONFLICT'' ''order status changed''))
           else do {
             _ \<leftarrow> writeAuditLog oid ''REFUND_REQUESTED'' (userOperator uid);
             ret (Inr ())
           })
       }))"

section \<open>Planning\<close>

record refund_plan =
  rp_OrderID :: int
  rp_Order :: payment_order
  rp_RefundAmount :: f64
  rp_GatewayAmount :: f64
  rp_Reason :: string
  rp_Force :: bool
  rp_DeductBalance :: bool
  rp_DeductionType :: deduction
  rp_BalanceToDeduct :: f64
  rp_SubDaysToDeduct :: int
  rp_SubscriptionID :: int

record refund_result =
  rr_Success :: bool
  rr_Warning :: string
  rr_RequireForce :: bool
  rr_BalanceDeducted :: f64
  rr_SubDaysDeducted :: int

definition refundWarning :: "string \<Rightarrow> bool \<Rightarrow> refund_result" where
  "refundWarning msg force = \<lparr>rr_Success = False, rr_Warning = msg, rr_RequireForce = force, rr_BalanceDeducted = fzero,
     rr_SubDaysDeducted = 0\<rparr>"

definition prepDeduct :: "ext \<Rightarrow> refund_plan \<Rightarrow> (refund_result + refund_plan) sp" where
  "prepDeduct x p =
     (let po = rp_Order p
      in if o_OrderType po = OrderTypeSubscription then
           (let p1 = p\<lparr>rp_DeductionType := DeductSubscription\<rparr>
            in case (o_SubscriptionGroupID po, o_SubscriptionDays po) of
                 (Some gid, Some days) \<Rightarrow> do {
                   r \<leftarrow> GetActiveSubscription x (o_UserID po) gid;
                   case r of
                     Inr s \<Rightarrow> ret (Inr (p1\<lparr>rp_SubDaysToDeduct := days, rp_SubscriptionID := us_ID s\<rparr>))
                   | Inl _ \<Rightarrow>
                       if \<not> rp_Force p
                       then ret (Inl (refundWarning ''cannot find active subscription for deduction, use force'' True))
                       else ret (Inr (p1\<lparr>rp_SubDaysToDeduct := days\<rparr>))
                 }
               | _ \<Rightarrow> ret (Inr p1))
         else do {
           r \<leftarrow> userGetByID (o_UserID po);
           case r of
             Inl _ \<Rightarrow> if \<not> rp_Force p then ret (Inl (refundWarning ''cannot fetch user balance, use force'' True)) else ret (Inr p)
           | Inr u \<Rightarrow> ret (Inr (p\<lparr>rp_DeductionType := DeductBalance,
                                 rp_BalanceToDeduct := fmin (rp_RefundAmount p) (readBalance u)\<rparr>))
         })"

definition refundReason :: "string \<Rightarrow> payment_order \<Rightarrow> string" where
  "refundReason reason po =
     (let r1 = trimSpace reason;
          r2 = (if r1 = [] then (case o_RefundRequestReason po of None \<Rightarrow> r1 | Some s \<Rightarrow> s) else r1)
      in if r2 = [] then ''refund order:'' @ formatInt (o_ID po) else r2)"

definition PrepareRefund :: "ext \<Rightarrow> int \<Rightarrow> f64 \<Rightarrow> string \<Rightarrow> bool \<Rightarrow> bool \<Rightarrow> (refund_result + refund_plan) se" where
  "PrepareRefund x oid amt0 reason force deduct =
     bindE (orderGet oid) notFoundErr (\<lambda>po.
       if \<not> psSliceContains [Completed, RefundRequested, RefundFailed] (o_Status po)
       then ret (Inl (BadRequest ''INVALID_STATUS'' ''order status does not allow refund''))
       else
         bindE (getOrderProviderInstance po)
           (\<lambda>_. InternalServer ''PROVIDER_LOOKUP_FAILED'' ''failed to look up payment provider for this order'') (\<lambda>inst.
           case inst of
             None \<Rightarrow> ret (Inl (Forbidden ''REFUND_DISABLED'' ''refund is not available for this order''))
           | Some i \<Rightarrow>
               if \<not> pi_RefundEnabled i
               then ret (Inl (Forbidden ''REFUND_DISABLED'' ''refund is not enabled for this provider''))
               else if fisNaN amt0 \<or> fisInf amt0
               then ret (Inl (BadRequest ''INVALID_AMOUNT'' ''invalid refund amount''))
               else
                 (let amt = (if fle amt0 fzero then o_Amount po else amt0)
                  in if flt amountToleranceCNY (fsub amt (o_Amount po))
                     then ret (Inl (BadRequest ''REFUND_AMOUNT_EXCEEDED'' ''refund amount exceeds recharge''))
                     else
                       (let p = \<lparr>rp_OrderID = oid, rp_Order = po, rp_RefundAmount = amt,
                                 rp_GatewayAmount = calculateGatewayRefundAmount x (o_Amount po) (o_PayAmount po) amt,
                                 rp_Reason = refundReason reason po, rp_Force = force, rp_DeductBalance = deduct,
                                 rp_DeductionType = DeductNone, rp_BalanceToDeduct = fzero, rp_SubDaysToDeduct = 0,
                                 rp_SubscriptionID = 0\<rparr>
                        in if deduct then do { r \<leftarrow> prepDeduct x p; ret (Inr r) } else ret (Inr (Inr p))))))"

section \<open>Execution\<close>

definition restoreStatus :: "refund_plan \<Rightarrow> unit sp" where
  "restoreStatus p = do {
     _ \<leftarrow> orderUpdateOne (rp_OrderID p)
           (\<lambda>r. r\<lparr>o_Status := (if o_Status (rp_Order p) = RefundRequested then RefundRequested else Completed)\<rparr>);
     ret ()
   }"

definition RollbackRefund :: "ext \<Rightarrow> refund_plan \<Rightarrow> bool sp" where
  "RollbackRefund x p = do {
     b \<leftarrow> (if rp_DeductionType p = DeductBalance \<and> flt fzero (rp_BalanceToDeduct p)
           then UpdateBalance x (o_UserID (rp_Order p)) (rp_BalanceToDeduct p) else ret (Inr ()));
     case b of
       Inl _ \<Rightarrow> do { _ \<leftarrow> writeAuditLog (rp_OrderID p) ''REFUND_ROLLBACK_FAILED'' ''admin''; ret False }
     | Inr _ \<Rightarrow> do {
         s \<leftarrow> (if rp_DeductionType p = DeductSubscription \<and> 0 < rp_SubDaysToDeduct p \<and> 0 < rp_SubscriptionID p
               then bindE (ExtendSubscription x (rp_SubscriptionID p) (rp_SubDaysToDeduct p)) id (\<lambda>_. ret (Inr ()))
               else ret (Inr ()));
         case s of
           Inl _ \<Rightarrow> do { _ \<leftarrow> writeAuditLog (rp_OrderID p) ''REFUND_ROLLBACK_FAILED'' ''admin''; ret False }
         | Inr _ \<Rightarrow> ret True
       }
   }"

definition gwRefund :: "ext \<Rightarrow> refund_plan \<Rightarrow> unit se" where
  "gwRefund x p =
     (if o_PaymentTradeNo (rp_Order p) = [] then do {
        _ \<leftarrow> writeAuditLog (o_ID (rp_Order p)) ''REFUND_NO_TRADE_NO'' ''admin'';
        ret (Inr ())
      }
      else
        bindE (getOrderProvider x (rp_Order p)) (Errorf ''get refund provider'') (\<lambda>prov. do {
          let req = \<lparr>rq_TradeNo = o_PaymentTradeNo (rp_Order p), rq_OrderID = o_OutTradeNo (rp_Order p),
                     rq_Amount = formatFloat2 (rp_GatewayAmount p), rq_Reason = rp_Reason p\<rparr>;
          _ \<leftarrow> gwCall (CallRefund (pv_ProviderKey prov) req);
          ret (case pv_Refund prov req of Inl e \<Rightarrow> Inl e | Inr _ \<Rightarrow> Inr ())
        }))"

definition handleGwFail :: "ext \<Rightarrow> refund_plan \<Rightarrow> go_err \<Rightarrow> refund_result se" where
  "handleGwFail x p gErr = do {
     rolled \<leftarrow> RollbackRefund x p;
     if rolled then do {
       _ \<leftarrow> restoreStatus p;
       _ \<leftarrow> writeAuditLog (rp_OrderID p) ''REFUND_GATEWAY_FAILED'' ''admin'';
       ret (Inr (refundWarning (''gateway failed: '' @ errText gErr @ '', rolled back'') False))
     }
     else do {
       now \<leftarrow> timeNow;
       _ \<leftarrow> orderUpdateOne (rp_OrderID p)
             (\<lambda>r. r\<lparr>o_Status := RefundFailed, o_FailedAt := Some now, o_FailedReason := Some (errText gErr)\<rparr>);
       _ \<leftarrow> writeAuditLog (rp_OrderID p) ''REFUND_FAILED'' ''admin'';
       ret (Inl (InternalServer ''REFUND_FAILED'' (errText gErr)))
     }
   }"

definition refundStatus :: "refund_plan \<Rightarrow> order_status" where
  "refundStatus p = (if flt (rp_RefundAmount p) (o_Amount (rp_Order p)) then PartiallyRefunded else Refunded)"

definition markRefundOk :: "ext \<Rightarrow> refund_plan \<Rightarrow> refund_result se" where
  "markRefundOk x p = do {
     now \<leftarrow> timeNow;
     bindE (orderUpdateOne (rp_OrderID p) (\<lambda>r. r\<lparr>o_Status := refundStatus p, o_RefundAmount := x_col2 x (rp_RefundAmount p),
              o_RefundReason := Some (rp_Reason p), o_RefundAt := Some now, o_ForceRefund := rp_Force p\<rparr>))
       (Errorf ''mark refund'') (\<lambda>_. do {
         _ \<leftarrow> writeAuditLog (rp_OrderID p) ''REFUND_SUCCESS'' ''admin'';
         ret (Inr \<lparr>rr_Success = True, rr_Warning = '''', rr_RequireForce = False,
                   rr_BalanceDeducted = rp_BalanceToDeduct p, rr_SubDaysDeducted = rp_SubDaysToDeduct p\<rparr>)
       })
   }"

text \<open>The two deductions. They return the plan, in which a deduction that was made by an earlier attempt is set to 0.\<close>

definition deductBalanceStep :: "ext \<Rightarrow> refund_plan \<Rightarrow> refund_plan se" where
  "deductBalanceStep x p =
     (if rp_DeductionType p = DeductBalance \<and> flt fzero (rp_BalanceToDeduct p) then do {
        already \<leftarrow> hasAuditLog (rp_OrderID p) ''REFUND_ROLLBACK_FAILED'';
        if already then ret (Inr (p\<lparr>rp_BalanceToDeduct := fzero\<rparr>))
        else do {
          r \<leftarrow> DeductBalanceRepo x (o_UserID (rp_Order p)) (rp_BalanceToDeduct p);
          case r of
            Inl e \<Rightarrow> do { _ \<leftarrow> restoreStatus p; ret (Inl (Errorf ''deduction'' e)) }
          | Inr _ \<Rightarrow> ret (Inr p)
        }
      } else ret (Inr p))"

definition deductSubStep :: "ext \<Rightarrow> refund_plan \<Rightarrow> refund_plan se" where
  "deductSubStep x p =
     (if rp_DeductionType p = DeductSubscription \<and> 0 < rp_SubDaysToDeduct p \<and> 0 < rp_SubscriptionID p then do {
        already \<leftarrow> hasAuditLog (rp_OrderID p) ''REFUND_ROLLBACK_FAILED'';
        if already then ret (Inr (p\<lparr>rp_SubDaysToDeduct := 0\<rparr>))
        else do {
          r \<leftarrow> ExtendSubscription x (rp_SubscriptionID p) (- rp_SubDaysToDeduct p);
          case r of
            Inr _ \<Rightarrow> ret (Inr p)
          | Inl e \<Rightarrow>
              if errIs e ErrAdjustWouldExpire then do {
                v \<leftarrow> RevokeSubscription x (rp_SubscriptionID p);
                case v of
                  Inl e' \<Rightarrow> do { _ \<leftarrow> restoreStatus p; ret (Inl (Errorf ''revoke subscription'' e')) }
                | Inr _ \<Rightarrow> ret (Inr p)
              }
              else do { _ \<leftarrow> restoreStatus p; ret (Inl (Errorf ''deduct subscription days'' e)) }
        }
      } else ret (Inr p))"

definition ExecuteRefund :: "ext \<Rightarrow> refund_plan \<Rightarrow> refund_result se" where
  "ExecuteRefund x p =
     bindE (orderUpdate (isStatus (rp_OrderID p) {Completed, RefundRequested, RefundFailed}) (\<lambda>r. r\<lparr>o_Status := Refunding\<rparr>))
       (Errorf ''lock'') (\<lambda>c.
         if c = 0 then ret (Inl (Conflict ''CONFLICT'' ''order status changed''))
         else
           bindE (deductBalanceStep x p) id (\<lambda>p1.
           bindE (deductSubStep x p1) id (\<lambda>p2. do {
             r \<leftarrow> gwRefund x p2;
             case r of
               Inl e \<Rightarrow> handleGwFail x p2 e
             | Inr _ \<Rightarrow> markRefundOk x p2
           })))"

end
