(* ===== verification/Order_Creation.thy ===== *)
theory Order_Creation
  imports Refund
begin

text \<open>
  \<open>internal/service/payment_order.go\<close>, the amounts of \<open>payment_amounts.go\<close> and \<open>internal/payment/fee.go\<close>, and
  the identifiers of \<open>payment_service.go\<close>: validating a request, the limits on pending and daily orders, creating
  the order in a transaction, and asking a provider for the payment. The random characters of the
  external order number and the decoded configuration are arguments.
\<close>

section \<open>Amounts\<close>

definition normalizeBalanceRechargeMultiplier :: "f64 \<Rightarrow> f64" where
  "normalizeBalanceRechargeMultiplier m = (if fisNaN m \<or> fisInf m \<or> fle m fzero then F64 1 else m)"

definition calculateCreditedBalance :: "ext \<Rightarrow> f64 \<Rightarrow> f64 \<Rightarrow> f64" where
  "calculateCreditedBalance x paymentAmount multiplier =
     x_decToFloat x (x_decRound x (x_decFloat x paymentAmount * x_decFloat x (normalizeBalanceRechargeMultiplier multiplier)))"

text \<open>\<open>CalculatePayAmount\<close> as a decimal, before \<open>StringFixed(2)\<close> writes it.\<close>

definition payTotal :: "ext \<Rightarrow> f64 \<Rightarrow> f64 \<Rightarrow> rat" where
  "payTotal x amount feeRate =
     (if fle feeRate fzero then x_decFloat x amount
      else x_decFloat x amount + x_decRoundUp x (x_decDiv x (x_decFloat x amount * x_decFloat x feeRate) 100))"

definition CalculatePayAmount :: "ext \<Rightarrow> f64 \<Rightarrow> f64 \<Rightarrow> string" where
  "CalculatePayAmount x amount feeRate = x_decFixed x (payTotal x amount feeRate)"

text \<open>\<open>strconv.ParseFloat\<close> of that text: the float nearest to the total rounded to two decimals.\<close>

definition parsePayAmount :: "ext \<Rightarrow> f64 \<Rightarrow> f64 \<Rightarrow> f64" where
  "parsePayAmount x amount feeRate = rnd (x_decRound x (payTotal x amount feeRate))"

section \<open>Identifiers\<close>

definition charset :: string where
  "charset = ''abcdefghijklmnopqrstuvwxyzABCDEFGHIJKLMNOPQRSTUVWXYZ0123456789''"

definition generateRandomString :: "nat list \<Rightarrow> string" where
  "generateRandomString rs = map (\<lambda>r. charset ! (r mod length charset)) rs"

definition generateOutTradeNo :: "string \<Rightarrow> nat list \<Rightarrow> string" where
  "generateOutTradeNo date rs = orderIDPrefix @ date @ generateRandomString (take 8 rs)"

definition rechargeCodeFor :: "int \<Rightarrow> instant \<Rightarrow> string" where
  "rechargeCodeFor oid now = ''PAY-'' @ formatInt oid @ ''-'' @ formatInt (sgn now * (\<bar>now\<bar> mod 100000))"

section \<open>Validation\<close>

record create_order_request =
  rq_UserID :: int
  rq_ReqAmount :: f64
  rq_PaymentType :: string
  rq_ClientIP :: string
  rq_IsMobile :: bool
  rq_SrcHost :: string
  rq_SrcURL :: string
  rq_OrderType :: string
  rq_PlanID :: int

definition GetPlan :: "int \<Rightarrow> subscription_plan se" where
  "GetPlan i = exec (\<lambda>d. (case tget (\<lambda>p. pl_ID p = i) (plans d) of
     None \<Rightarrow> Inl (NotFound ''PLAN_NOT_FOUND'' ''subscription plan not found'') | Some p \<Rightarrow> Inr p, d))"

definition validateSubOrder :: "create_order_request \<Rightarrow> subscription_plan se" where
  "validateSubOrder req =
     (if rq_PlanID req = 0 then ret (Inl (BadRequest ''INVALID_INPUT'' ''subscription order requires a plan''))
      else
        bindE (GetPlan (rq_PlanID req)) (\<lambda>_. NotFound ''PLAN_NOT_AVAILABLE'' ''plan not found or not for sale'') (\<lambda>plan.
          if \<not> pl_ForSale plan then ret (Inl (NotFound ''PLAN_NOT_AVAILABLE'' ''plan not found or not for sale''))
          else
            bindE (groupGetByID (pl_GroupID plan))
              (\<lambda>_. NotFound ''GROUP_NOT_FOUND'' ''subscription group is no longer available'') (\<lambda>g.
                if g_Status g \<noteq> EntityStatusActive
                then ret (Inl (NotFound ''GROUP_NOT_FOUND'' ''subscription group is no longer available''))
                else if \<not> IsSubscriptionType g
                then ret (Inl (BadRequest ''GROUP_TYPE_MISMATCH'' ''group is not a subscription type''))
                else ret (Inr plan))))"

definition amountOutOfRange :: "payment_config \<Rightarrow> f64 \<Rightarrow> bool" where
  "amountOutOfRange cfg a \<longleftrightarrow>
     (flt fzero (pc_MinAmount cfg) \<and> flt a (pc_MinAmount cfg)) \<or> (flt fzero (pc_MaxAmount cfg) \<and> flt (pc_MaxAmount cfg) a)"

definition validateOrderInput :: "create_order_request \<Rightarrow> payment_config \<Rightarrow> subscription_plan option se" where
  "validateOrderInput req cfg =
     (if rq_OrderType req = OrderTypeBalance \<and> pc_BalanceDisabled cfg
      then ret (Inl (Forbidden ''BALANCE_PAYMENT_DISABLED'' ''balance recharge has been disabled''))
      else if rq_OrderType req = OrderTypeSubscription
      then bindE (validateSubOrder req) id (\<lambda>p. ret (Inr (Some p)))
      else if fisNaN (rq_ReqAmount req) \<or> fisInf (rq_ReqAmount req) \<or> fle (rq_ReqAmount req) fzero
      then ret (Inl (BadRequest ''INVALID_AMOUNT'' ''amount must be a positive number''))
      else if amountOutOfRange cfg (rq_ReqAmount req)
      then ret (Inl (withMetadata (BadRequest ''INVALID_AMOUNT'' ''amount out of range'')
             [(''min'', formatFloat2 (pc_MinAmount cfg)), (''max'', formatFloat2 (pc_MaxAmount cfg))]))
      else ret (Inr None))"

section \<open>Creating the order\<close>

definition pendingLimit :: "int \<Rightarrow> int" where
  "pendingLimit m = (if m \<le> 0 then 3 else m)"

definition tooManyPending :: "int \<Rightarrow> go_err" where
  "tooManyPending m = withMetadata (TooManyRequests ''TOO_MANY_PENDING''
     (''too many pending orders (max '' @ formatInt m @ '')'')) [(''max'', formatInt m)]"

text \<open>The checks read inside the transaction; under read-committed isolation other transactions may commit between
  them and the insertion.\<close>

definition checkPendingLimit :: "int \<Rightarrow> int \<Rightarrow> store step" where
  "checkPendingLimit uid m =
     (\<lambda>e. if e = ConnErr then Errorf ''count pending orders'' e else e,
      \<lambda>d. (if pendingLimit m \<le> int (tcount (\<lambda>po. o_UserID po = uid \<and> o_Status po = Pending) (orders d))
           then Inl (tooManyPending (pendingLimit m)) else Inr (), d))"

definition dailyUsed :: "payment_order list \<Rightarrow> f64" where
  "dailyUsed pos = foldl (\<lambda>used po. fadd used (if o_OrderType po = OrderTypeBalance then o_PayAmount po else o_Amount po)) fzero pos"

definition paidToday :: "int \<Rightarrow> instant \<Rightarrow> payment_order \<Rightarrow> bool" where
  "paidToday uid ts po \<longleftrightarrow> o_UserID po = uid \<and> o_Status po \<in> {Paid, Recharging, Completed} \<and>
     (case o_PaidAt po of None \<Rightarrow> False | Some t \<Rightarrow> ts \<le> t)"

definition checkDailyLimit :: "int \<Rightarrow> instant \<Rightarrow> f64 \<Rightarrow> f64 \<Rightarrow> store step" where
  "checkDailyLimit uid now amount limit =
     (\<lambda>e. if e = ConnErr then Errorf ''query daily usage'' e else e,
      \<lambda>d. (if fle limit fzero then Inr ()
           else let used = dailyUsed (filter (paidToday uid (psStartOfDayUTC now)) (orders d))
                in if flt limit (fadd used amount)
                   then Inl (TooManyRequests ''DAILY_LIMIT_EXCEEDED''
                          (''daily recharge limit reached, remaining: '' @ formatFloat2 (fmax fzero (fsub limit used))))
                   else Inr (), d))"

definition newOrder :: "ext \<Rightarrow> create_order_request \<Rightarrow> user \<Rightarrow> subscription_plan option \<Rightarrow> string \<Rightarrow> f64 \<Rightarrow> f64 \<Rightarrow> f64 \<Rightarrow>
    instant \<Rightarrow> instant \<Rightarrow> payment_order" where
  "newOrder x req u plan outTradeNo orderAmount feeRate payAmount now expiresAt =
     \<lparr>o_ID = 0, o_UserID = rq_UserID req, o_UserEmail = u_Email u, o_UserName = u_Username u,
      o_UserNotes = psNilIfEmpty (u_Notes u), o_Amount = x_col2 x orderAmount, o_PayAmount = x_col2 x payAmount,
      o_FeeRate = feeRate, o_RechargeCode = '''', o_OutTradeNo = outTradeNo, o_PaymentType = rq_PaymentType req,
      o_PaymentTradeNo = '''', o_PayURL = None, o_QrCode = None, o_OrderType = rq_OrderType req,
      o_PlanID = map_option pl_ID plan, o_SubscriptionGroupID = map_option pl_GroupID plan,
      o_SubscriptionDays = map_option (\<lambda>p. psComputeValidityDays (pl_ValidityDays p) (pl_ValidityUnit p)) plan,
      o_ProviderInstanceID = None, o_Status = Pending, o_RefundAmount = fzero, o_RefundReason = None, o_RefundAt = None,
      o_ForceRefund = False, o_RefundRequestedAt = None, o_RefundRequestReason = None, o_RefundRequestedBy = None,
      o_ExpiresAt = expiresAt, o_PaidAt = None, o_CompletedAt = None, o_FailedAt = None, o_FailedReason = None,
      o_ClientIP = rq_ClientIP req, o_SrcHost = rq_SrcHost req, o_SrcURL = psNilIfEmpty (rq_SrcURL req),
      o_CreatedAt = now, o_UpdatedAt = now\<rparr>"

definition insertOrder :: "payment_order \<Rightarrow> store step" where
  "insertOrder po = (Errorf ''create order'',
     \<lambda>d. (Inr (), d\<lparr>orders := orders d @ [po\<lparr>o_ID := nextOrder d\<rparr>], nextOrder := nextOrder d + 1\<rparr>))"

text \<open>The second statement of the transaction: the recharge code needs the identifier the first one was given.\<close>

definition setRechargeCode :: "instant \<Rightarrow> instant \<Rightarrow> store step" where
  "setRechargeCode now upd = (Errorf ''set recharge code'',
     \<lambda>d. (Inr (), d\<lparr>orders := tupd (\<lambda>po. o_ID po = nextOrder d - 1)
            (\<lambda>po. po\<lparr>o_RechargeCode := rechargeCodeFor (o_ID po) now, o_UpdatedAt := upd\<rparr>) (orders d)\<rparr>))"

definition createOrderInTx :: "ext \<Rightarrow> create_order_request \<Rightarrow> user \<Rightarrow> subscription_plan option \<Rightarrow> payment_config \<Rightarrow> string \<Rightarrow>
    f64 \<Rightarrow> f64 \<Rightarrow> f64 \<Rightarrow> f64 \<Rightarrow> payment_order se" where
  "createOrderInTx x req u plan cfg outTradeNo orderAmount limitAmount feeRate payAmount =
     bindE (inTx (Errorf ''begin transaction'') [checkPendingLimit (rq_UserID req) (pc_MaxPendingOrders cfg)]) id (\<lambda>_. do {
       t0 \<leftarrow> timeNow;
       bindE (inTx id [checkDailyLimit (rq_UserID req) t0 limitAmount (pc_DailyLimit cfg)]) id (\<lambda>_. do {
         let tm = (if pc_OrderTimeoutMin cfg \<le> 0 then 30 else pc_OrderTimeoutMin cfg);
         t1 \<leftarrow> timeNow;
         t2 \<leftarrow> timeNow;
         t3 \<leftarrow> timeNow;
         t4 \<leftarrow> timeNow;
         bindE (transact id (Errorf ''commit order transaction'')
                  [insertOrder (newOrder x req u plan outTradeNo orderAmount feeRate payAmount t2 (t1 + wrap64 (tm * nsMinute))),
                   setRechargeCode t3 t4]) id
           (\<lambda>_. do { po \<leftarrow> peek (\<lambda>d. last (orders d)); ret (Inr po) })
       })
     })"

section \<open>Asking a provider\<close>

record create_order_response =
  co_OrderID :: int
  co_Amount :: f64
  co_PayAmount :: f64
  co_FeeRate :: f64
  co_Status :: order_status
  co_PaymentType :: string
  co_PayURL :: string
  co_QRCode :: string
  co_ClientSecret :: string
  co_ExpiresAt :: instant
  co_PaymentMode :: string

definition buildPaymentSubject :: "subscription_plan option \<Rightarrow> f64 \<Rightarrow> payment_config \<Rightarrow> string" where
  "buildPaymentSubject plan limitAmount cfg =
     (case plan of
        Some p \<Rightarrow> if pl_ProductName p \<noteq> [] then pl_ProductName p else ''SubioHub Subscription '' @ pl_Name p
      | None \<Rightarrow>
          (let amountStr = formatFloat2 limitAmount;
               pf = trimSpace (pc_ProductNamePrefix cfg);
               sf = trimSpace (pc_ProductNameSuffix cfg)
           in if pf \<noteq> [] \<or> sf \<noteq> [] then trimSpace (pf @ '' '' @ amountStr @ '' '' @ sf)
              else ''SubioHub '' @ amountStr @ '' CNY''))"

definition orKeep :: "string \<Rightarrow> string option \<Rightarrow> string option" where
  "orKeep new old = (if new = [] then old else Some new)"

definition invokeProvider :: "ext \<Rightarrow> payment_order \<Rightarrow> create_order_request \<Rightarrow> payment_config \<Rightarrow> f64 \<Rightarrow> string \<Rightarrow> f64 \<Rightarrow>
    subscription_plan option \<Rightarrow> create_order_response se" where
  "invokeProvider x po req cfg limitAmount payAmountStr payAmount plan =
     bindE (SelectInstance x '''' (rq_PaymentType req) (strategyOf (pc_LoadBalanceStrategy cfg)) payAmount)
       (\<lambda>_. ServiceUnavailable ''PAYMENT_GATEWAY_ERROR'' (''payment method ('' @ rq_PaymentType req @ '') is not configured''))
       (\<lambda>sel.
         case x_createProvider x (sel_ProviderKey sel) (sel_InstanceID sel) (sel_Config sel) of
           Inl _ \<Rightarrow> ret (Inl (ServiceUnavailable ''PAYMENT_GATEWAY_ERROR'' ''payment method is temporarily unavailable''))
         | Inr prov \<Rightarrow> do {
             let r = \<lparr>cp_OrderID = o_OutTradeNo po, cp_Amount = payAmountStr, cp_PaymentType = rq_PaymentType req,
                      cp_Subject = buildPaymentSubject plan limitAmount cfg, cp_ClientIP = rq_ClientIP req,
                      cp_IsMobile = rq_IsMobile req, cp_InstanceSubMethods = sel_SupportedTypes sel\<rparr>;
             _ \<leftarrow> gwCall (CallCreate (sel_ProviderKey sel) r);
             case pv_CreatePayment prov r of
               Inl e \<Rightarrow> ret (Inl (ServiceUnavailable ''PAYMENT_GATEWAY_ERROR'' (''payment gateway error: '' @ errText e)))
             | Inr pr \<Rightarrow>
                 bindE (orderUpdateOne (o_ID po) (\<lambda>q. q\<lparr>o_PaymentTradeNo := (if cr_TradeNo pr = [] then o_PaymentTradeNo q else cr_TradeNo pr),
                          o_PayURL := orKeep (cr_PayURL pr) (o_PayURL q), o_QrCode := orKeep (cr_QRCode pr) (o_QrCode q),
                          o_ProviderInstanceID := orKeep (sel_InstanceID sel) (o_ProviderInstanceID q)\<rparr>))
                   (Errorf ''update order with payment details'') (\<lambda>_. do {
                     _ \<leftarrow> writeAuditLog (o_ID po) ''ORDER_CREATED'' (userOperator (rq_UserID req));
                     ret (Inr \<lparr>co_OrderID = o_ID po, co_Amount = o_Amount po, co_PayAmount = payAmount, co_FeeRate = o_FeeRate po,
                       co_Status = Pending, co_PaymentType = rq_PaymentType req, co_PayURL = cr_PayURL pr,
                       co_QRCode = cr_QRCode pr, co_ClientSecret = cr_ClientSecret pr, co_ExpiresAt = o_ExpiresAt po,
                       co_PaymentMode = sel_PaymentMode sel\<rparr>)
                   })
           })"

definition CreateOrder :: "ext \<Rightarrow> go_err + payment_config \<Rightarrow> string \<Rightarrow> create_order_request \<Rightarrow> create_order_response se" where
  "CreateOrder x config outTradeNo req0 =
     (let req = (if rq_OrderType req0 = [] then req0\<lparr>rq_OrderType := OrderTypeBalance\<rparr> else req0)
      in case config of
           Inl e \<Rightarrow> ret (Inl (Errorf ''get payment config'' e))
         | Inr cfg \<Rightarrow>
             if \<not> pc_Enabled cfg then ret (Inl (Forbidden ''PAYMENT_DISABLED'' ''payment system is disabled''))
             else
               bindE (validateOrderInput req cfg) id (\<lambda>plan.
               bindE (checkCancelRateLimit x (rq_UserID req) cfg) id (\<lambda>_.
               bindE (userGetByID (rq_UserID req)) (Errorf ''get user'') (\<lambda>u.
                 if u_Status u \<noteq> EntityStatusActive
                 then ret (Inl (Forbidden ''USER_INACTIVE'' ''user account is disabled''))
                 else
                   (let limitAmount = (case plan of Some p \<Rightarrow> pl_Price p | None \<Rightarrow> rq_ReqAmount req);
                        orderAmount = (case plan of
                            Some p \<Rightarrow> pl_Price p
                          | None \<Rightarrow> if rq_OrderType req = OrderTypeBalance
                                    then calculateCreditedBalance x (rq_ReqAmount req) (pc_BalanceRechargeMultiplier cfg)
                                    else rq_ReqAmount req);
                        feeRate = pc_RechargeFeeRate cfg;
                        payAmountStr = CalculatePayAmount x limitAmount feeRate;
                        payAmount = parsePayAmount x limitAmount feeRate
                    in bindE (createOrderInTx x req u plan cfg outTradeNo orderAmount limitAmount feeRate payAmount) id (\<lambda>po. do {
                         r \<leftarrow> invokeProvider x po req cfg limitAmount payAmountStr payAmount plan;
                         case r of
                           Inl e \<Rightarrow> do {
                             _ \<leftarrow> orderUpdateOne (o_ID po) (\<lambda>q. q\<lparr>o_Status := Failed\<rparr>);
                             ret (Inl e)
                           }
                         | Inr resp \<Rightarrow> ret (Inr resp)
                       }))))))"

section \<open>Reading orders\<close>

definition GetOrder :: "int \<Rightarrow> int \<Rightarrow> payment_order se" where
  "GetOrder oid uid =
     bindE (orderGet oid) notFoundErr (\<lambda>po.
       if o_UserID po \<noteq> uid then ret (Inl (Forbidden ''FORBIDDEN'' ''no permission for this order'')) else ret (Inr po))"

definition GetOrderByID :: "int \<Rightarrow> payment_order se" where
  "GetOrderByID oid = bindE (orderGet oid) notFoundErr (\<lambda>po. ret (Inr po))"

record order_list_params =
  lp_Page :: int
  lp_PageSize :: int
  lp_Status :: "order_status option"
  lp_OrderType :: string
  lp_PaymentType :: string
  lp_Keyword :: string

definition listMatches :: "order_list_params \<Rightarrow> payment_order \<Rightarrow> bool" where
  "listMatches p po \<longleftrightarrow> (case lp_Status p of None \<Rightarrow> True | Some s \<Rightarrow> o_Status po = s) \<and>
     (lp_OrderType p \<noteq> [] \<longrightarrow> o_OrderType po = lp_OrderType p) \<and>
     (lp_PaymentType p \<noteq> [] \<longrightarrow> o_PaymentType po = lp_PaymentType p)"

definition pageOf :: "order_list_params \<Rightarrow> payment_order list \<Rightarrow> payment_order list" where
  "pageOf p pos = (let (ps, pg) = applyPagination (lp_PageSize p) (lp_Page p)
                   in take (nat ps) (drop (nat ((pg - 1) * ps)) (sort_key (\<lambda>po. - o_CreatedAt po) pos)))"

definition GetUserOrders :: "int \<Rightarrow> order_list_params \<Rightarrow> (payment_order list \<times> int) se" where
  "GetUserOrders uid p =
     (let sel = (\<lambda>po. o_UserID po = uid \<and> listMatches p po)
      in bindE (query (\<lambda>d. int (tcount sel (orders d)))) (Errorf ''count user orders'') (\<lambda>total.
         bindE (query (\<lambda>d. pageOf p (filter sel (orders d)))) (Errorf ''query user orders'') (\<lambda>pos.
           ret (Inr (pos, total)))))"

end
