(* ===== verification/Order_Protocol.thy ===== *)
theory Order_Protocol
  imports Order_Creation
begin

text \<open>
  The state machine of a payment order, over all the services that write to it. \<open>edge\<close> and \<open>unlock\<close> list the
  transitions; \<open>orderStep\<close> says that orders are never lost, keep what was bought, and move along edges only. Every operation is shown to follow it under
  arbitrary faults and interference.
\<close>

section \<open>Edges\<close>

text \<open>The conditional updates of the services, the failed creation of an order, and the ways out of the refund lock.\<close>

definition edge :: "order_status \<Rightarrow> order_status \<Rightarrow> bool" where
  "edge s t \<longleftrightarrow> (s, t) \<in> {(Pending, Failed), (Pending, Paid), (Cancelled, Paid), (Expired, Paid), (Paid, Recharging), (Failed, Recharging),
     (Failed, Paid), (Recharging, Completed), (Recharging, Failed), (Pending, Cancelled), (Pending, Expired),
     (Completed, RefundRequested), (Completed, Refunding), (RefundRequested, Refunding), (RefundFailed, Refunding)}"

definition unlock :: "order_status \<Rightarrow> order_status \<Rightarrow> bool" where
  "unlock s t \<longleftrightarrow> s = Refunding \<and> t \<in> {Refunded, PartiallyRefunded, RefundFailed, Completed, RefundRequested}"

type_synonym edges = "int \<Rightarrow> order_status \<Rightarrow> order_status \<Rightarrow> bool"

text \<open>The edges open to a process that holds no refund lock, to everybody, and to the others while somebody holds
  the lock of one order.\<close>

definition freeEdges :: edges where
  "freeEdges i s t \<longleftrightarrow> edge s t"

definition allEdges :: edges where
  "allEdges i s t \<longleftrightarrow> edge s t \<or> unlock s t"

definition othersEdges :: "int \<Rightarrow> edges" where
  "othersEdges oid i s t \<longleftrightarrow> edge s t \<or> (i \<noteq> oid \<and> unlock s t)"

text \<open>Before payment, between payment and delivery, delivered, refunded.\<close>

fun phase :: "order_status \<Rightarrow> nat" where
  "phase Pending = 0"
| "phase Cancelled = 0"
| "phase Expired = 0"
| "phase Paid = 1"
| "phase Recharging = 1"
| "phase Failed = 1"
| "phase Completed = 2"
| "phase RefundRequested = 2"
| "phase Refunding = 2"
| "phase RefundFailed = 2"
| "phase Refunded = 3"
| "phase PartiallyRefunded = 3"

lemma allEdges_phase: "allEdges i s t \<Longrightarrow> phase s \<le> phase t"
  by (auto simp: allEdges_def edge_def unlock_def)

lemma reaches_phase: "(allEdges i)\<^sup>*\<^sup>* s t \<Longrightarrow> phase s \<le> phase t"
  by (induction rule: rtranclp_induct) (auto dest: allEdges_phase)

lemma reaches_refunded: "(allEdges i)\<^sup>*\<^sup>* s t \<Longrightarrow> phase s = 3 \<Longrightarrow> t = s"
  by (induction rule: rtranclp_induct) (auto simp: allEdges_def edge_def unlock_def)

lemma reaches_locked: "(othersEdges oid oid)\<^sup>*\<^sup>* s t \<Longrightarrow> s = Refunding \<Longrightarrow> t = Refunding"
  by (induction rule: rtranclp_induct) (auto simp: othersEdges_def edge_def)

section \<open>Steps\<close>

text \<open>What of an order never changes.\<close>

definition bought :: "payment_order \<Rightarrow> int \<times> int \<times> f64 \<times> string \<times> string \<times> string \<times> int option \<times> int option" where
  "bought po = (o_ID po, o_UserID po, o_Amount po, o_RechargeCode po, o_OutTradeNo po, o_OrderType po,
     o_SubscriptionGroupID po, o_SubscriptionDays po)"

definition orderSucc :: "edges \<Rightarrow> payment_order \<Rightarrow> payment_order \<Rightarrow> bool" where
  "orderSucc E po po' \<longleftrightarrow> bought po' = bought po \<and> (E (o_ID po))\<^sup>*\<^sup>* (o_Status po) (o_Status po')"

definition orderIDs :: "store \<Rightarrow> int list" where
  "orderIDs d = map o_ID (orders d)"

definition orderStep :: "edges \<Rightarrow> store \<Rightarrow> store \<Rightarrow> bool" where
  "orderStep E d d' \<longleftrightarrow> length (orders d) \<le> length (orders d') \<and>
     list_all2 (orderSucc E) (orders d) (take (length (orders d)) (orders d')) \<and>
     set (drop (length (orders d)) (orderIDs d')) \<inter> set (orderIDs d) = {} \<and>
     (distinct (orderIDs d) \<longrightarrow> distinct (orderIDs d'))"

lemma orderSucc_refl: "orderSucc E po po"
  by (simp add: orderSucc_def)

lemma orderSucc_trans: "orderSucc E a b \<Longrightarrow> orderSucc E b c \<Longrightarrow> orderSucc E a c"
  by (auto simp: orderSucc_def bought_def)

lemma list_all2_orderSucc_refl: "list_all2 (orderSucc E) xs xs"
  by (simp add: list_all2_refl orderSucc_refl)

lemma orderStep_ids:
  assumes "orderStep E d d'"
  shows "take (length (orders d)) (orderIDs d') = orderIDs d"
proof -
  have "map o_ID xs = map o_ID ys" if "list_all2 (orderSucc E) xs ys" for xs ys
    using that by (induction rule: list_all2_induct) (auto simp: orderSucc_def bought_def)
  from this [of "orders d" "take (length (orders d)) (orders d')"] assms
  show ?thesis by (simp add: orderStep_def orderIDs_def take_map)
qed

lemma orderStep_trans:
  assumes ab: "orderStep E a b" and bc: "orderStep E b c"
  shows "orderStep E a c"
proof -
  let ?n = "length (orders a)" and ?m = "length (orders b)"
  have n: "?n \<le> ?m" and m: "?m \<le> length (orders c)" using ab bc by (simp_all add: orderStep_def)
  have "list_all2 (orderSucc E) (take ?n (orders b)) (take ?n (take ?m (orders c)))"
    using bc by (intro list_all2_takeI) (simp add: orderStep_def)
  moreover have "take ?n (take ?m (orders c)) = take ?n (orders c)" using n by (simp add: min_def)
  moreover have "list_all2 (orderSucc E) (orders a) (take ?n (orders b))" using ab by (simp add: orderStep_def)
  ultimately have all: "list_all2 (orderSucc E) (orders a) (take ?n (orders c))"
    using list_all2_trans [of "orderSucc E" "orderSucc E" "orderSucc E", OF orderSucc_trans] by simp
  have c: "orderIDs c = orderIDs b @ drop ?m (orderIDs c)" and b: "orderIDs b = orderIDs a @ drop ?n (orderIDs b)"
    using orderStep_ids [OF bc] orderStep_ids [OF ab] by (metis append_take_drop_id)+
  have "?n = length (orderIDs a)" by (simp add: orderIDs_def)
  then have "drop ?n (orderIDs c) = drop ?n (orderIDs b) @ drop ?m (orderIDs c)" using c b by (metis append.assoc append_eq_conv_conj)
  moreover have "set (orderIDs a) \<subseteq> set (orderIDs b)" by (subst b) simp
  ultimately have "set (drop ?n (orderIDs c)) \<inter> set (orderIDs a) = {}"
    using ab bc by (auto simp: orderStep_def)
  with all n m ab bc show ?thesis by (simp add: orderStep_def)
qed

interpretation ord: protocol "orderStep E" for E
  by unfold_locales
     (auto simp: orderStep_def [of E d d for d] orderIDs_def list_all2_orderSucc_refl intro: orderStep_trans)

lemma orderStep_mono:
  assumes "orderStep E d d'" and "\<And>i s t. E i s t \<Longrightarrow> E' i s t"
  shows "orderStep E' d d'"
proof -
  have "orderSucc E' po po'" if "orderSucc E po po'" for po po'
    using that rtranclp_mono [of "E (o_ID po)" "E' (o_ID po)"] assms(2) by (auto simp: orderSucc_def le_fun_def)
  with assms(1) show ?thesis by (auto simp: orderStep_def elim: list_all2_mono)
qed

lemma orderStep_frame: "orders d' = orders d \<Longrightarrow> orderStep E d d'"
  by (simp add: orderStep_def list_all2_orderSucc_refl orderIDs_def)

lemma orderStep_upd:
  assumes "\<And>po. po \<in> set (orders d) \<Longrightarrow> p po \<Longrightarrow> orderSucc E po (f po)"
  shows "orderStep E d (d\<lparr>orders := tupd p f (orders d)\<rparr>)"
proof -
  have "list_all2 (orderSucc E) (orders d) (tupd p f (orders d))"
    using assms by (auto simp: tupd_def list_all2_map2 intro!: list.rel_refl_strong orderSucc_refl)
  moreover have "map o_ID (tupd p f (orders d)) = map o_ID (orders d)"
    using assms by (auto simp: tupd_def orderSucc_def bought_def)
  moreover have "length (tupd p f (orders d)) = length (orders d)" by (simp add: tupd_def)
  ultimately show ?thesis by (simp add: orderStep_def orderIDs_def)
qed

lemma own_orderUpdate:
  "(\<And>po t. p po \<Longrightarrow> orderSucc E po ((f po)\<lparr>o_UpdatedAt := t\<rparr>)) \<Longrightarrow> own (orderStep E) (orderUpdate p f)"
  unfolding orderUpdate_def by (intro own_rules own_exec) (simp add: orderStep_upd)

section \<open>Operations that do not write orders\<close>

definition sameOrders :: "store \<Rightarrow> store \<Rightarrow> bool" where
  "sameOrders d d' \<longleftrightarrow> orders d' = orders d"

lemma sameOrders_step: "sameOrders d d' \<Longrightarrow> orderStep E d d'"
  by (simp add: sameOrders_def orderStep_frame)

lemma sameOrders_sub: "subStep d d' \<Longrightarrow> sameOrders d d'"
  by (simp add: sameOrders_def subStep_frame)

lemma sameOrders_comm: "commStep d d' \<Longrightarrow> sameOrders d d'"
  by (simp add: sameOrders_def commStep_frame)

lemma own_audit: "own sameOrders (writeAuditLog oid a op)" "own T (hasAuditLog oid a)"
  unfolding writeAuditLog_def hasAuditLog_def
  by (intro own_rules own_exec; simp add: sameOrders_def)+

lemma own_gwCall: "own sameOrders (gwCall c)"
  unfolding gwCall_def by (intro own_modify) (simp add: sameOrders_def)

lemma own_orderReads: "own T (orderGet i)" "own T (orderByOutTradeNo n)"
  unfolding orderGet_def orderByOutTradeNo_def by (intro own_read; simp)+

lemma own_codeReads: "own T (codeGetByID i)" "own T (codeGetByCode n)" "own T (GetByCode n)"
  unfolding GetByCode_def codeGetByID_def codeGetByCode_def by (intro own_rules own_read; simp)+

lemma own_CreateCode: "own sameOrders (CreateCode x c)"
  unfolding CreateCode_def Let_def
  by (intro own_rules own_exec) (simp add: codeCreateStmt_def sameOrders_def)

lemma own_redeemCache': "own sameOrders (checkRedeemRateLimit x uid)" "own sameOrders (incrementRedeemErrorCount x uid)"
  "own sameOrders (acquireRedeemLock x n)" "own sameOrders (releaseRedeemLock x n)"
  unfolding checkRedeemRateLimit_def incrementRedeemErrorCount_def acquireRedeemLock_def releaseRedeemLock_def
  by (intro own_rules own_exec; simp add: sameOrders_def)+

definition orderless :: "go_err + store step list \<Rightarrow> bool" where
  "orderless r \<longleftrightarrow> (\<forall>steps. r = Inr steps \<longrightarrow> (\<forall>st \<in> set steps. \<forall>d. orders (snd (snd st d)) = orders d))"

lemma orders_stmts [simp]:
  "orders (snd (snd (useStep c uid now) d)) = orders d"
  "orders (snd (snd (createStep s) d)) = orders d"
  "orders (snd (subUpdateStmt i f d)) = orders d"
  "orders (snd (balanceStmt x uid a d)) = orders d"
  "orders (snd (concurrencyStmt uid n d)) = orders d"
  by (simp_all add: useStep_def codeUseStmt_def createStep_def subCreateStmt_def subUpdateStmt_def balanceStmt_def
      concurrencyStmt_def Let_def)

lemma yields_orderless:
  "yields (assignInTx x (useStep c uid now) input) orderless"
  "yields (reduceInTx x (useStep c uid now) uid' gid n code) orderless"
  unfolding assignInTx_def reduceInTx_def Let_def
  by (intro yields_rules; auto simp: orderless_def reduceSteps_def Let_def UpdateStatusStmt_def ExtendExpiryStmt_def
      UpdateNotesStmt_def)+

lemma own_orderless: "orderless (Inr steps) \<Longrightarrow> own sameOrders (transact hb hc steps)"
  by (rule own_steps) (auto simp: orderless_def sameOrders_def)

lemma own_redeemSubscription: "own sameOrders (redeemSubscription x uid c gid)"
proof -
  let ?m = "\<lambda>now. if rc_ValidityDays c < 0 then reduceInTx x (useStep c uid now) uid gid (- rc_ValidityDays c) (rc_Code c)
    else bindE (assignInTx x (useStep c uid now) \<lparr>ai_UserID = uid, ai_GroupID = gid,
      ai_ValidityDays = (if rc_ValidityDays c = 0 then 30 else rc_ValidityDays c), ai_AssignedBy = 0,
      ai_Notes = redeemNotes (rc_Code c)\<rparr>) (Errorf ''assign or extend subscription'') (\<lambda>steps. ret (Inr steps))"
  have r: "own sameOrders (reduceInTx x use uid gid n code)" for use n code
    by (rule own_mono [OF own_reduceInTx]) (rule sameOrders_sub)
  have a: "own sameOrders (assignInTx x use input)" for use input
    by (rule own_mono [OF own_assignInTx]) (rule sameOrders_sub)
  have o: "own sameOrders (?m now)" for now
    by (intro own_if r own_bindE a own_ret)
  have y: "yields (bindE (assignInTx x (useStep c uid now) input) h (\<lambda>steps. ret (Inr steps))) orderless" for now input h
    by (rule yields_bindE_ret [OF yields_orderless(1)]) (simp add: orderless_def)
  have "own sameOrders (bindE (?m now) id (\<lambda>steps. transact id commitErr steps))" for now
    by (rule own_bindE_yields [where A = orderless, OF o _ own_orderless]) (intro yields_if yields_orderless y)
  then show ?thesis
    unfolding redeemSubscription_def Let_def by (rule own_bind [OF own_timeNow own_bindE [OF own_inTx]])
qed

lemma own_Redeem: "own sameOrders (Redeem_code x uid n)"
proof -
  have e: "own sameOrders (redeemEffect x uid c u)" for c u
    unfolding redeemEffect_def
    by (intro own_rules own_redeemSubscription own_steps) (auto simp: sameOrders_def)
  show ?thesis
    unfolding Redeem_code_def redeemLocked_def
    by (intro own_rules own_redeemCache' own_codeReads own_commReads e)
qed

lemma own_recordCommissions:
  "own sameOrders (recordCommissionSplitsIfNeeded po)" "own sameOrders (recordPendingCommissionIfNeeded x po)"
proof -
  show "own sameOrders (recordCommissionSplitsIfNeeded po)"
    by (rule own_mono [OF own_recordSplits]) (rule sameOrders_comm)
  show "own sameOrders (recordPendingCommissionIfNeeded x po)"
    by (rule own_mono [OF own_recordPending]) (rule sameOrders_comm)
qed

lemma own_registerInstances: "own sameOrders (registerInstances x is)"
  unfolding GetInstanceConfig_def
  by (induction "is") (auto intro!: own_rules own_read own_modify simp: sameOrders_def GetInstanceConfig_def split: option.splits)

lemma own_providers:
  "own sameOrders (EnsureProviders x)" "own sameOrders (registeredProvider x po)" "own sameOrders (getOrderProvider x po)"
proof -
  show e: "own sameOrders (EnsureProviders x)"
    unfolding EnsureProviders_def loadProviders_def
    by (intro own_rules own_registerInstances own_modify) (simp add: sameOrders_def)
  show r: "own sameOrders (registeredProvider x po)"
    unfolding registeredProvider_def by (intro own_rules e)
  show "own sameOrders (getOrderProvider x po)"
    unfolding getOrderProvider_def GetInstanceConfig_def Let_def
    by (intro own_rules r own_read) simp
qed

section \<open>Operations that write orders\<close>

lemmas orderless_ops = own_audit own_gwCall own_orderReads own_codeReads own_CreateCode own_Redeem
  own_recordCommissions own_providers own_subReads own_commReads

lemma own_orderStep: "own sameOrders m \<Longrightarrow> own (orderStep E) m"
  by (erule own_mono) (rule sameOrders_step)

lemmas writes_no_order = orderless_ops [THEN own_orderStep]

lemma orderSucc_set:
  "edge (o_Status po) s \<or> o_Status po = s \<Longrightarrow> bought po' = bought po \<Longrightarrow> o_Status po' = s \<Longrightarrow> orderSucc freeEdges po po'"
  by (auto simp: orderSucc_def freeEdges_def)

lemma own_markCompleted: "own (orderStep freeEdges) (markCompleted x po a)"
  unfolding markCompleted_def
  by (intro own_rules writes_no_order own_orderUpdate orderSucc_set) (auto simp: isStatus_def edge_def bought_def)

lemma own_markFailed: "own (orderStep freeEdges) (markFailed oid e)"
  unfolding markFailed_def
  by (intro own_rules writes_no_order own_orderUpdate orderSucc_set) (auto simp: isStatus_def edge_def bought_def)

lemma own_lock: "own (orderStep freeEdges) (lockForRecharge oid)"
  unfolding lockForRecharge_def
  by (intro own_orderUpdate orderSucc_set) (auto simp: isStatus_def edge_def bought_def)

lemma own_doBalance: "own (orderStep freeEdges) (doBalance x po)"
  unfolding doBalance_def Let_def by (intro own_rules writes_no_order own_markCompleted)

lemma own_doSub: "own (orderStep freeEdges) (doSub x po gid days)"
  unfolding doSub_def
  by (intro own_rules writes_no_order own_markCompleted own_mono [OF own_AssignOrExtend])
     (auto intro: sameOrders_step sameOrders_sub)

lemma own_fulfil:
  "own (orderStep freeEdges) (ExecuteBalanceFulfillment x oid)" "own (orderStep freeEdges) (ExecuteSubscriptionFulfillment x oid)"
  "own (orderStep freeEdges) (executeFulfillment x oid)"
proof -
  show b: "own (orderStep freeEdges) (ExecuteBalanceFulfillment x oid)"
    unfolding ExecuteBalanceFulfillment_def by (intro own_rules writes_no_order own_lock own_doBalance own_markFailed)
  show s: "own (orderStep freeEdges) (ExecuteSubscriptionFulfillment x oid)"
    unfolding ExecuteSubscriptionFulfillment_def
    by (intro own_rules writes_no_order own_lock own_doSub own_markFailed)
  show "own (orderStep freeEdges) (executeFulfillment x oid)"
    unfolding executeFulfillment_def by (intro own_rules writes_no_order b s)
qed

lemma own_alreadyProcessed: "own (orderStep freeEdges) (alreadyProcessed x po)"
  unfolding alreadyProcessed_def by (intro own_rules writes_no_order own_fulfil)

lemma own_toPaid: "own (orderStep freeEdges) (toPaid x po n a pk)"
  unfolding toPaid_def Let_def
  by (intro own_rules writes_no_order own_fulfil own_alreadyProcessed own_orderUpdate orderSucc_set)
     (auto simp: claimable_def edge_def bought_def paidRow_def)

lemma own_confirm: "own (orderStep freeEdges) (confirmPayment x oid n a pk)"
  unfolding confirmPayment_def by (intro own_rules writes_no_order own_toPaid)

lemma own_notify: "own (orderStep freeEdges) (HandlePaymentNotification x n pk)"
  unfolding HandlePaymentNotification_def by (intro own_rules writes_no_order own_confirm)

lemma own_retry: "own (orderStep freeEdges) (RetryFulfillment x oid)"
  unfolding RetryFulfillment_def
  by (intro own_rules writes_no_order own_fulfil own_orderUpdate orderSucc_set)
     (auto simp: isStatus_def edge_def bought_def)

lemma own_checkPaid: "own (orderStep freeEdges) (checkPaid x po)"
  unfolding checkPaid_def by (intro own_rules writes_no_order own_notify)

lemma own_cancelCore: "fs = Cancelled \<or> fs = Expired \<Longrightarrow> own (orderStep freeEdges) (cancelCore x po fs op)"
  unfolding cancelCore_def
  by (intro own_rules writes_no_order own_checkPaid own_orderUpdate orderSucc_set)
     (auto simp: isStatus_def edge_def bought_def)

lemma own_expireAll: "own (orderStep freeEdges) (expireAll x pos)"
  by (induction pos) (auto intro!: own_rules own_cancelCore)

lemma own_lifecycle:
  "own (orderStep freeEdges) (CancelOrder x oid uid)" "own (orderStep freeEdges) (AdminCancelOrder x oid)"
  "own (orderStep freeEdges) (VerifyOrderByOutTradeNo x n uid)" "own (orderStep freeEdges) (VerifyOrderPublic x n)"
  "own (orderStep freeEdges) (ExpireTimedOutOrders x)"
  unfolding CancelOrder_def AdminCancelOrder_def VerifyOrderByOutTradeNo_def VerifyOrderPublic_def verifyOrder_def
    ExpireTimedOutOrders_def
  by (intro own_rules writes_no_order own_cancelCore own_checkPaid own_expireAll; simp)+

section \<open>Refunds\<close>

lemma own_requestRefund: "own (orderStep freeEdges) (RequestRefund x oid uid reason)"
  unfolding RequestRefund_def validateRefundRequest_def getOrderProviderInstance_def
  by (intro own_rules writes_no_order own_orderUpdate orderSucc_set own_read) (auto simp: edge_def bought_def)

text \<open>The process that moved an order to REFUNDING owns it: nobody else has an edge out of that status.\<close>

definition refundLocked :: "int \<Rightarrow> store \<Rightarrow> bool" where
  "refundLocked oid d \<longleftrightarrow> oid \<in> set (orderIDs d) \<and> (\<forall>po \<in> set (orders d). o_ID po = oid \<longrightarrow> o_Status po = Refunding)"

lemma stable_refundLocked: "stable (orderStep (othersEdges oid)) (refundLocked oid)"
  unfolding stable_def
proof (intro allI impI)
  fix d d' assume l: "refundLocked oid d" and s: "orderStep (othersEdges oid) d d'"
  let ?n = "length (orders d)"
  have ids: "orderIDs d' = orderIDs d @ drop ?n (orderIDs d')" using orderStep_ids [OF s] by (metis append_take_drop_id)
  have "o_Status po = Refunding" if po: "po \<in> set (orders d')" "o_ID po = oid" for po
  proof -
    have "set (drop ?n (orderIDs d')) \<inter> set (orderIDs d) = {}" using s by (simp add: orderStep_def)
    moreover have "oid \<in> set (orderIDs d)" using l by (simp add: refundLocked_def)
    ultimately have "oid \<notin> o_ID ` set (drop ?n (orders d'))" by (auto simp: orderIDs_def drop_map)
    then have "po \<notin> set (drop ?n (orders d'))" using po(2) by blast
    moreover have "po \<in> set (take ?n (orders d')) \<union> set (drop ?n (orders d'))"
      using po(1) by (metis append_take_drop_id set_append)
    ultimately have "po \<in> set (take ?n (orders d'))" by blast
    then obtain i where i: "i < length (take ?n (orders d'))" "take ?n (orders d') ! i = po" by (auto simp: in_set_conv_nth)
    moreover have "list_all2 (orderSucc (othersEdges oid)) (orders d) (take ?n (orders d'))" using s by (simp add: orderStep_def)
    ultimately have su: "orderSucc (othersEdges oid) (orders d ! i) po"
      using list_all2_nthD2 [of _ "orders d" "take ?n (orders d')" i] by simp
    have "i < ?n" using i(1) by simp
    from su have "o_ID (orders d ! i) = oid" "(othersEdges oid oid)\<^sup>*\<^sup>* (o_Status (orders d ! i)) (o_Status po)"
      using po(2) by (auto simp: orderSucc_def bought_def)
    moreover have "o_Status (orders d ! i) = Refunding"
      using l \<open>i < ?n\<close> calculation(1) by (simp add: refundLocked_def)
    ultimately show ?thesis by (simp add: reaches_locked)
  qed
  moreover have "oid \<in> set (orderIDs d')" using l by (subst ids) (simp add: refundLocked_def)
  ultimately show "refundLocked oid d'" by (simp add: refundLocked_def)
qed

interpretation lock: rely_guarantee "orderStep (othersEdges oid)" "orderStep allEdges" for oid
proof
  fix a b assume "orderStep (othersEdges oid) a b"
  then show "orderStep allEdges a b" by (rule orderStep_mono) (auto simp: othersEdges_def allEdges_def)
qed (auto intro: ord.R_refl ord.R_trans)

lemma locked_own:
  assumes "own sameOrders m"
  shows "rgx (orderStep (othersEdges oid)) (orderStep allEdges) (refundLocked oid) m (\<lambda>_. refundLocked oid)"
proof -
  have "guar (orderStep (othersEdges oid)) m"
    by (rule own_guar [OF own_orderStep [OF assms] ord.protocol_axioms])
  then have "rg (orderStep (othersEdges oid)) (refundLocked oid) m (\<lambda>_. refundLocked oid)"
    by (rule ord.guar_inv [OF _ stable_refundLocked])
  then show ?thesis unfolding rgx_def using lock.R_le_G by blast
qed

lemma locked_done:
  assumes "own sameOrders m"
  shows "rgx (orderStep (othersEdges oid)) (orderStep allEdges) (\<lambda>_. True) m (\<lambda>_ _. True)"
  using own_guar [OF own_orderStep [OF assms] ord.protocol_axioms, of "othersEdges oid"] lock.R_le_G
  unfolding rgx_def by blast

lemma locked_updateOne:
  assumes "\<And>po t. unlock Refunding (o_Status (f po)) \<and> bought ((f po)\<lparr>o_UpdatedAt := t\<rparr>) = bought po"
  shows "rgx (orderStep (othersEdges oid)) (orderStep allEdges) (refundLocked oid) (orderUpdateOne oid f) (\<lambda>_ _. True)"
proof -
  have "orderStep allEdges d (d\<lparr>orders := tupd (\<lambda>po. o_ID po = oid) (\<lambda>po. (f po)\<lparr>o_UpdatedAt := t\<rparr>) (orders d)\<rparr>)"
    if l: "refundLocked oid d" for d t
    using l assms
    by (intro orderStep_upd) (auto simp: orderSucc_def refundLocked_def allEdges_def intro!: r_into_rtranclp)
  then show ?thesis
    unfolding orderUpdateOne_def
    by (intro lock.rg_seq [OF lock.rg_timeNow] lock.rg_exec [OF stable_refundLocked]) (simp_all add: Let_def)
qed

lemma locked_restore:
  assumes "rp_OrderID p = oid"
  shows "rgx (orderStep (othersEdges oid)) (orderStep allEdges) (refundLocked oid) (restoreStatus p) (\<lambda>_ _. True)"
  unfolding restoreStatus_def assms
  by (rule lock.rg_seq [OF locked_updateOne lock.rg_ret]) (auto simp: unlock_def bought_def)

text \<open>A deduction step ends with the lock held, or gives it back and fails.\<close>

abbreviation keepsLock :: "int \<Rightarrow> refund_plan se \<Rightarrow> bool" where
  "keepsLock oid m \<equiv> rgx (orderStep (othersEdges oid)) (orderStep allEdges) (refundLocked oid) m
     (\<lambda>r d. \<forall>p. r = Inr p \<longrightarrow> refundLocked oid d \<and> rp_OrderID p = oid)"

lemma keepsLock_ret: "rp_OrderID p = oid \<Longrightarrow> keepsLock oid (ret (Inr p))"
  by (rule lock.rg_ret) simp

lemma keepsLock_abort: "rp_OrderID p = oid \<Longrightarrow> keepsLock oid (State_Monad.bind (restoreStatus p) (\<lambda>_. ret (Inl e)))"
  by (rule lock.rg_seq [OF locked_restore lock.rg_ret]) auto

lemma keepsLock_bind:
  "own sameOrders m \<Longrightarrow> (\<And>a. keepsLock oid (k a)) \<Longrightarrow> keepsLock oid (State_Monad.bind m k)"
  by (rule lock.rg_seq [OF locked_own])

lemma keepsLock_if: "(b \<Longrightarrow> keepsLock oid m) \<Longrightarrow> (\<not> b \<Longrightarrow> keepsLock oid n) \<Longrightarrow> keepsLock oid (if b then m else n)"
  by simp

lemma keepsLock_case: "(\<And>e. keepsLock oid (f e)) \<Longrightarrow> (\<And>a. keepsLock oid (g a)) \<Longrightarrow>
    keepsLock oid (case r of Inl e \<Rightarrow> f e | Inr a \<Rightarrow> g a)"
  by (cases r) auto

lemma own_refundWrites:
  "own sameOrders (DeductBalanceRepo x uid a)" "own sameOrders (UpdateBalance x uid a)"
  "own sameOrders (ExtendSubscription x i n)" "own sameOrders (RevokeSubscription x i)"
proof -
  show "own sameOrders (DeductBalanceRepo x uid a)"
    unfolding DeductBalanceRepo_def by (rule own_exec) (simp add: sameOrders_def)
  show "own sameOrders (UpdateBalance x uid a)"
    unfolding UpdateBalance_def by (rule own_exec) (simp add: sameOrders_def)
  show "own sameOrders (ExtendSubscription x i n)" by (rule own_mono [OF own_ExtendSub]) (rule sameOrders_sub)
  show "own sameOrders (RevokeSubscription x i)" by (rule own_mono [OF own_RevokeSub]) (rule sameOrders_sub)
qed

lemma keepsLock_deduct:
  assumes "rp_OrderID p = oid"
  shows "keepsLock oid (deductBalanceStep x p)" "keepsLock oid (deductSubStep x p)"
  unfolding deductBalanceStep_def deductSubStep_def using assms
  by (intro keepsLock_if keepsLock_bind keepsLock_case keepsLock_abort keepsLock_ret own_audit own_refundWrites; simp)+

lemma own_gwRefund: "own sameOrders (gwRefund x p)"
  unfolding gwRefund_def Let_def by (intro own_rules own_audit own_providers own_gwCall)

lemma own_rollback: "own sameOrders (RollbackRefund x p)"
  unfolding RollbackRefund_def by (intro own_rules own_audit own_refundWrites)

lemma locked_fail:
  assumes "rp_OrderID p = oid"
  shows "rgx (orderStep (othersEdges oid)) (orderStep allEdges) (refundLocked oid) (handleGwFail x p e) (\<lambda>_ _. True)"
proof -
  note d = locked_done [of _ oid]
  have a: "rgx (orderStep (othersEdges oid)) (orderStep allEdges) (refundLocked oid)
      (State_Monad.bind (restoreStatus p) (\<lambda>_. State_Monad.bind (writeAuditLog i act op) (\<lambda>_. ret r))) (\<lambda>_ _. True)"
    for i act op and r :: "go_err + refund_result"
    by (rule lock.rg_seq [OF locked_restore [OF assms]]) (intro d own_rules own_audit)
  have b: "rgx (orderStep (othersEdges oid)) (orderStep allEdges) (refundLocked oid)
      (State_Monad.bind (orderUpdateOne oid (\<lambda>r. r\<lparr>o_Status := RefundFailed, o_FailedAt := t, o_FailedReason := g\<rparr>))
        (\<lambda>_. State_Monad.bind (writeAuditLog i act op) (\<lambda>_. ret r))) (\<lambda>_ _. True)"
    for t g i act op and r :: "go_err + refund_result"
    by (rule lock.rg_seq [OF locked_updateOne]) (auto simp: unlock_def bought_def intro!: d own_rules own_audit)
  show ?thesis
    unfolding handleGwFail_def assms
    by (rule lock.rg_seq [OF locked_own [OF own_rollback]]) (auto intro!: a lock.rg_seq [OF lock.rg_timeNow] b)
qed

lemma locked_ok:
  assumes "rp_OrderID p = oid"
  shows "rgx (orderStep (othersEdges oid)) (orderStep allEdges) (refundLocked oid) (markRefundOk x p) (\<lambda>_ _. True)"
  unfolding markRefundOk_def assms
  by (intro lock.rg_seq [OF lock.rg_timeNow] lock.rg_bindE [OF locked_updateOne])
     (auto simp: unlock_def bought_def refundStatus_def intro!: locked_done own_rules own_audit)

lemma lock_update:
  "rgx (orderStep (othersEdges oid)) (orderStep allEdges) (\<lambda>d. distinct (orderIDs d))
     (orderUpdate (isStatus oid {Completed, RefundRequested, RefundFailed}) (\<lambda>r. r\<lparr>o_Status := Refunding\<rparr>))
     (\<lambda>r d. \<forall>c. r = Inr c \<longrightarrow> c \<noteq> 0 \<longrightarrow> refundLocked oid d)"
proof -
  let ?p = "isStatus oid {Completed, RefundRequested, RefundFailed}"
  have st: "stable (orderStep (othersEdges oid)) (\<lambda>d. distinct (orderIDs d))"
    by (auto simp: stable_def orderStep_def)
  have step: "orderStep allEdges d (d\<lparr>orders := tupd ?p (\<lambda>r. r\<lparr>o_Status := Refunding, o_UpdatedAt := t\<rparr>) (orders d)\<rparr>)" for d t
    by (rule orderStep_upd) (auto simp: orderSucc_def bought_def isStatus_def allEdges_def edge_def intro!: r_into_rtranclp)
  have lk: "refundLocked oid (d\<lparr>orders := tupd ?p (\<lambda>r. r\<lparr>o_Status := Refunding, o_UpdatedAt := t\<rparr>) (orders d)\<rparr>)"
    if d: "distinct (orderIDs d)" and c: "tcount ?p (orders d) \<noteq> 0" for d t
  proof -
    obtain po where po: "po \<in> set (orders d)" "?p po" using c by (auto simp: tcount_0)
    have "r = po" if "r \<in> set (orders d)" "o_ID r = oid" for r
      using d po that inj_onD [of o_ID "set (orders d)" r po] by (simp add: orderIDs_def distinct_map isStatus_def)
    moreover have "map o_ID (tupd ?p (\<lambda>r. r\<lparr>o_Status := Refunding, o_UpdatedAt := t\<rparr>) (orders d)) = orderIDs d"
      by (simp add: orderIDs_def map_key_tupd)
    moreover have "oid \<in> set (orderIDs d)" using po by (auto simp: orderIDs_def isStatus_def)
    ultimately show ?thesis using po by (auto simp: refundLocked_def orderIDs_def set_tupd isStatus_def)
  qed
  show ?thesis
    unfolding orderUpdate_def
    by (intro lock.rg_seq [OF lock.rg_timeNow] lock.rg_exec [OF st]) (auto simp: step lk)
qed

lemma ExecuteRefund_edges:
  assumes "rp_OrderID p = oid"
  shows "rgx (orderStep (othersEdges oid)) (orderStep allEdges) (\<lambda>d. distinct (orderIDs d)) (ExecuteRefund x p) (\<lambda>_ _. True)"
proof -
  have g: "rgx (orderStep (othersEdges oid)) (orderStep allEdges) (\<lambda>d. refundLocked oid d \<and> rp_OrderID q = oid)
      (State_Monad.bind (gwRefund x q) (\<lambda>r. case r of Inl e \<Rightarrow> handleGwFail x q e | Inr _ \<Rightarrow> markRefundOk x q)) (\<lambda>_ _. True)" for q
  proof (cases "rp_OrderID q = oid")
    case True
    have "rgx (orderStep (othersEdges oid)) (orderStep allEdges) (refundLocked oid)
      (State_Monad.bind (gwRefund x q) (\<lambda>r. case r of Inl e \<Rightarrow> handleGwFail x q e | Inr _ \<Rightarrow> markRefundOk x q)) (\<lambda>_ _. True)"
      by (rule lock.rg_seq [OF locked_own [OF own_gwRefund]])
         (auto intro: locked_fail [OF True] locked_ok [OF True] split: sum.split)
    then show ?thesis by (rule rg_weaken) auto
  qed (simp add: rgx_def)
  have s: "rgx (orderStep (othersEdges oid)) (orderStep allEdges) (\<lambda>d. refundLocked oid d \<and> rp_OrderID q = oid)
      (bindE (deductSubStep x q) id (\<lambda>p2. State_Monad.bind (gwRefund x p2)
        (\<lambda>r. case r of Inl e \<Rightarrow> handleGwFail x p2 e | Inr _ \<Rightarrow> markRefundOk x p2))) (\<lambda>_ _. True)" for q
  proof (cases "rp_OrderID q = oid")
    case True
    have "rgx (orderStep (othersEdges oid)) (orderStep allEdges) (refundLocked oid)
      (bindE (deductSubStep x q) id (\<lambda>p2. State_Monad.bind (gwRefund x p2)
        (\<lambda>r. case r of Inl e \<Rightarrow> handleGwFail x p2 e | Inr _ \<Rightarrow> markRefundOk x p2))) (\<lambda>_ _. True)"
      by (rule lock.rg_bindE [OF keepsLock_deduct(2) [OF True]]) (auto intro: rg_weaken [OF g])
    then show ?thesis by (rule rg_weaken) auto
  qed (simp add: rgx_def)
  show ?thesis
    unfolding ExecuteRefund_def assms
    by (rule lock.rg_bindE [OF lock_update])
       (auto intro!: lock.rg_ret lock.rg_bindE [OF keepsLock_deduct(1) [OF assms]] intro: rg_weaken [OF s])
qed

end
