(* ===== verification/Ledger.thy ===== *)
theory Ledger
  imports Order_Protocol
begin

text \<open>
  Payments and money together: whatever fails, is retried or runs at the same time, the balance of a user moves by
  exactly the value of the redeem codes that user has used, and the code of an order is used at most once.
\<close>

section \<open>The protocol of payments\<close>

definition amountOk :: "payment_order \<Rightarrow> bool" where
  "amountOk po \<longleftrightarrow> (\<exists>q \<ge> 0. o_Amount po = F64 q)"

definition amountsOk :: "store \<Rightarrow> bool" where
  "amountsOk d \<longleftrightarrow> (\<forall>po \<in> set (orders d). amountOk po)"

abbreviation payStep :: "ext \<Rightarrow> store \<Rightarrow> store \<Rightarrow> bool" where
  "payStep x d d' \<equiv> creditOnce x d d' \<and> (amountsOk d \<longrightarrow> amountsOk d')"

abbreviation payOk :: "store \<Rightarrow> bool" where
  "payOk d \<equiv> codesOk d \<and> amountsOk d"

interpretation pay: protocol "payStep x" for x
proof
  fix a b c assume "payStep x a b" "payStep x b c"
  then show "payStep x a c" using credit.R_trans by blast
qed (simp add: credit.R_refl)

lemma stable_payOk: "stable (payStep x) payOk"
  by (auto simp: stable_def creditOnce_def)

text \<open>The numeric columns keep finite amounts that are not negative.\<close>

definition columnsOk :: "ext \<Rightarrow> bool" where
  "columnsOk x \<longleftrightarrow> sumsExact x \<and> (\<forall>q \<ge> 0. \<exists>r \<ge> 0. x_col8 x (F64 q) = F64 r)"

section \<open>Steps that move no money\<close>

definition moneyFree :: "store \<Rightarrow> store \<Rightarrow> bool" where
  "moneyFree d d' \<longleftrightarrow> sameMoney d d' \<and> map o_Amount (orders d') = map o_Amount (orders d)"

lemma moneyFree_pay: "moneyFree d d' \<Longrightarrow> payStep x d d'"
proof -
  assume m: "moneyFree d d'"
  have a: "amountsOk d \<longleftrightarrow> (\<forall>v \<in> set (map o_Amount (orders d)). \<exists>q \<ge> 0. v = F64 q)" for d
    by (auto simp: amountsOk_def amountOk_def)
  show ?thesis using m creditOnce_money a [of d] a [of d'] by (simp add: moneyFree_def)
qed

lemma moneyFree_sub: "subStep d d' \<Longrightarrow> moneyFree d d'"
  by (simp add: moneyFree_def sameMoney_sub subStep_frame)

lemma moneyFree_comm: "commStep d d' \<Longrightarrow> moneyFree d d'"
  by (simp add: moneyFree_def sameMoney_comm commStep_frame)

lemma pay_own: "own moneyFree m \<Longrightarrow> rg (payStep x) payOk m (\<lambda>_. payOk)"
  by (rule pay.guar_inv [OF own_guar [OF own_mono pay.protocol_axioms] stable_payOk]) (assumption, erule moneyFree_pay)

lemma free_audit: "own moneyFree (writeAuditLog oid a op)"
  unfolding writeAuditLog_def
  by (intro own_rules own_exec) (simp add: moneyFree_def sameMoney_def balances_def)

lemma free_gwCall: "own moneyFree (gwCall c)"
  unfolding gwCall_def by (intro own_modify) (simp add: moneyFree_def sameMoney_def balances_def)

lemma free_orderUpdate:
  "(\<And>po. o_Amount (f po) = o_Amount po) \<Longrightarrow> own moneyFree (orderUpdate p f)"
  unfolding orderUpdate_def
  by (intro own_rules own_exec) (simp add: moneyFree_def sameMoney_def balances_def map_key_tupd)

lemma free_commissions:
  "own moneyFree (recordCommissionSplitsIfNeeded po)" "own moneyFree (recordPendingCommissionIfNeeded x po)"
proof -
  show "own moneyFree (recordCommissionSplitsIfNeeded po)" by (rule own_mono [OF own_recordSplits]) (rule moneyFree_comm)
  show "own moneyFree (recordPendingCommissionIfNeeded x po)" by (rule own_mono [OF own_recordPending]) (rule moneyFree_comm)
qed

lemma free_registerInstances: "own moneyFree (registerInstances x is)"
  by (induction "is")
     (auto intro!: own_rules own_read own_modify simp: moneyFree_def sameMoney_def balances_def GetInstanceConfig_def
        split: option.splits)

lemma free_providers: "own moneyFree (registeredProvider x po)" "own moneyFree (getOrderProvider x po)"
proof -
  show r: "own moneyFree (registeredProvider x po)"
    unfolding registeredProvider_def EnsureProviders_def loadProviders_def
    by (intro own_rules free_registerInstances own_modify) (simp add: moneyFree_def sameMoney_def balances_def)
  show "own moneyFree (getOrderProvider x po)"
    unfolding getOrderProvider_def GetInstanceConfig_def Let_def by (intro own_rules r own_read) simp
qed

lemma free_markCompleted: "own moneyFree (markCompleted x po a)"
  unfolding markCompleted_def by (intro own_rules free_audit free_commissions free_orderUpdate) simp

lemma free_markFailed: "own moneyFree (markFailed oid e)"
  unfolding markFailed_def by (intro own_rules free_audit free_orderUpdate) simp

lemma free_lock: "own moneyFree (lockForRecharge oid)"
  unfolding lockForRecharge_def by (intro free_orderUpdate) simp

lemma free_doSub: "own moneyFree (doSub x po gid days)"
  unfolding doSub_def
  by (intro own_rules own_subReads own_audit(2) free_markCompleted own_mono [OF own_AssignOrExtend]) (rule moneyFree_sub)

lemma free_subFulfil: "own moneyFree (ExecuteSubscriptionFulfillment x oid)"
  unfolding ExecuteSubscriptionFulfillment_def
  by (intro own_rules own_orderReads free_lock free_doSub free_markFailed)

section \<open>Payments follow the protocol\<close>

text \<open>An order that was read has an amount in order.\<close>

lemma pay_orderGet:
  assumes "\<And>po. amountOk po \<Longrightarrow> rg (payStep x) payOk (k po) (\<lambda>_. payOk)"
  shows "rg (payStep x) payOk (bindE (orderGet oid) h k) (\<lambda>_. payOk)"
proof -
  let ?Q = "\<lambda>(r :: go_err + payment_order) d. payOk d \<and> (\<forall>po. r = Inr po \<longrightarrow> amountOk po)"
  have q: "rg (payStep x) payOk (orderGet oid) ?Q"
    unfolding orderGet_def
    by (rule pay.rg_exec [OF stable_payOk])
       (auto simp: credit.R_refl amountsOk_def split: option.splits dest: tget_Some)
  have k: "rg (payStep x) (?Q (Inr po)) (k po) (\<lambda>_. payOk)" for po
  proof (cases "amountOk po")
    case True
    from assms [OF True] show ?thesis by (rule rg_weaken) simp_all
  qed (simp add: rgx_def)
  show ?thesis by (rule pay.rg_bindE [OF q k]) simp
qed

lemma pay_redeem:
  assumes "columnsOk x"
  shows "rg (payStep x) payOk (Redeem_code x uid n) (\<lambda>_. payOk)"
proof -
  have "rg (creditOnce x) codesOk (Redeem_code x uid n) (\<lambda>_. codesOk)"
    using assms by (intro Redeem_code_credit) (simp add: columnsOk_def)
  moreover have "rg (\<lambda>d d'. amountsOk d \<longrightarrow> amountsOk d') amountsOk (Redeem_code x uid n) (\<lambda>_. amountsOk)"
    by (rule keep.guar_inv [OF own_guar [OF own_Redeem keep.protocol_axioms]])
       (auto simp: sameOrders_def amountsOk_def stable_def)
  ultimately show ?thesis by (rule rg_conj)
qed

lemma pay_create:
  assumes x: "columnsOk x" and po: "amountOk po"
  shows "rg (payStep x) payOk (CreateCode x (Some (orderCode po))) (\<lambda>_. payOk)"
proof -
  let ?c = "(orderCode po)\<lparr>rc_Code := trimSpace (o_RechargeCode po)\<rparr>"
  have ok: "codeOk ?c" "rc_Status ?c = Unused"
    using po by (auto simp: codeOk_def orderCode_def blankCode_def amountOk_def)
  have ins: "rg (payStep x) payOk (exec (codeCreateStmt x now ?c)) (\<lambda>_. payOk)" for now
  proof -
    have "payStep x d (snd (codeCreateStmt x now ?c d))" for d
      using codeCreate_credit [OF ok, of x d now] x by (simp add: columnsOk_def codeCreateStmt_def amountsOk_def)
    then show ?thesis
      by (intro pay.rg_exec [OF stable_payOk]) (use stable_payOk [of x] in \<open>auto simp: stable_def\<close>)
  qed
  have ty: "rc_Type ?c = RedeemTypeBalance" "RedeemTypeBalance \<noteq> []" by (simp_all add: orderCode_def redeem_types)
  show ?thesis
    using ty ins unfolding CreateCode_def
    by (auto simp: Let_def orderCode_def intro!: pay.inv_rules)
qed

lemma pay_doBalance:
  assumes "columnsOk x" and "amountOk po"
  shows "rg (payStep x) payOk (doBalance x po) (\<lambda>_. payOk)"
  unfolding doBalance_def Let_def
  by (intro pay.inv_rules pay_own [OF free_markCompleted] pay_own [OF own_codeReads(3)] pay_redeem pay_create assms)

lemma pay_fulfil:
  assumes "columnsOk x"
  shows "rg (payStep x) payOk (ExecuteBalanceFulfillment x oid) (\<lambda>_. payOk)"
    "rg (payStep x) payOk (executeFulfillment x oid) (\<lambda>_. payOk)"
proof -
  show b: "rg (payStep x) payOk (ExecuteBalanceFulfillment x oid) (\<lambda>_. payOk)"
    unfolding ExecuteBalanceFulfillment_def
    by (intro pay_orderGet pay.inv_rules pay_own [OF free_lock] pay_own [OF free_markFailed] pay_doBalance assms)
  show "rg (payStep x) payOk (executeFulfillment x oid) (\<lambda>_. payOk)"
    unfolding executeFulfillment_def
    by (intro pay.inv_rules b pay_own [OF own_orderReads(1)] pay_own [OF free_subFulfil])
qed

lemma pay_toPaid:
  assumes "columnsOk x"
  shows "rg (payStep x) payOk (toPaid x po n a pk) (\<lambda>_. payOk)"
proof -
  have p: "rg (payStep x) payOk (alreadyProcessed x po) (\<lambda>_. payOk)"
    unfolding alreadyProcessed_def
    by (intro pay.inv_rules pay_fulfil(2) assms pay_own [OF own_orderReads(1)] pay_own [OF free_audit])
  have u: "own moneyFree (orderUpdate q (paidRow x n a now))" for q now
    by (rule free_orderUpdate) (simp add: paidRow_def)
  show ?thesis
    unfolding toPaid_def Let_def
    by (intro pay.inv_rules p pay_own [OF u] pay_fulfil(2) assms pay_own [OF free_audit])
qed

lemma pay_confirm:
  assumes "columnsOk x"
  shows "rg (payStep x) payOk (confirmPayment x oid n a pk) (\<lambda>_. payOk)"
  unfolding confirmPayment_def
  by (intro pay.inv_rules pay_toPaid assms pay_own [OF own_orderReads(1)] pay_own [OF free_audit])

lemma pay_notify:
  assumes "columnsOk x"
  shows "rg (payStep x) payOk (HandlePaymentNotification x n pk) (\<lambda>_. payOk)"
  unfolding HandlePaymentNotification_def
  by (intro pay.inv_rules pay_confirm assms pay_own [OF own_orderReads(2)])

lemma pay_retry:
  assumes "columnsOk x"
  shows "rg (payStep x) payOk (RetryFulfillment x oid) (\<lambda>_. payOk)"
proof -
  have u: "own moneyFree (orderUpdate q (\<lambda>r. r\<lparr>o_Status := Paid, o_FailedAt := None, o_FailedReason := None\<rparr>))" for q
    by (rule free_orderUpdate) simp
  show ?thesis
    unfolding RetryFulfillment_def
    by (intro pay.inv_rules pay_own [OF u] pay_fulfil(2) assms pay_own [OF own_orderReads(1)] pay_own [OF free_audit])
qed

lemma pay_checkPaid:
  assumes "columnsOk x"
  shows "rg (payStep x) payOk (checkPaid x po) (\<lambda>_. payOk)"
  unfolding checkPaid_def
  by (intro pay.inv_rules pay_notify assms pay_own [OF free_providers(2)] pay_own [OF free_gwCall])

lemma pay_cancelCore:
  assumes "columnsOk x"
  shows "rg (payStep x) payOk (cancelCore x po fs op) (\<lambda>_. payOk)"
proof -
  have u: "own moneyFree (orderUpdate q (\<lambda>r. r\<lparr>o_Status := fs\<rparr>))" for q
    by (rule free_orderUpdate) simp
  show ?thesis
    unfolding cancelCore_def
    by (intro pay.inv_rules pay_own [OF u] pay_checkPaid assms pay_own [OF free_audit])
qed

lemma pay_expireAll:
  assumes "columnsOk x"
  shows "rg (payStep x) payOk (expireAll x pos) (\<lambda>_. payOk)"
  by (induction pos) (auto intro!: pay.inv_rules pay_cancelCore assms)

end
