(* ===== verification/Payments.thy ===== *)
theory Payments
  imports Ledger
begin

text \<open>
  The operations on payments as one type of commands, and what every sequence of them keeps: the protocol of codes and balances, and the state
  machine of orders. The concrete inputs at the end serve the witnesses of the properties.
\<close>

section \<open>Payment commands\<close>

text \<open>The operations on payments that users, administrators, payment platforms and the expiry timer start.\<close>

datatype payment_command =
    CmdNotify payment_notification string
  | CmdRetry int
  | CmdCancel int int
  | CmdAdminCancel int
  | CmdVerify string int
  | CmdVerifyPublic string
  | CmdExpire
  | CmdRequestRefund int int string
  | CmdRedeem int string

primrec runPayment :: "ext \<Rightarrow> payment_command \<Rightarrow> unit sp" where
  "runPayment x (CmdNotify n pk) = do { _ \<leftarrow> HandlePaymentNotification x n pk; ret () }"
| "runPayment x (CmdRetry oid) = do { _ \<leftarrow> RetryFulfillment x oid; ret () }"
| "runPayment x (CmdCancel oid uid) = do { _ \<leftarrow> CancelOrder x oid uid; ret () }"
| "runPayment x (CmdAdminCancel oid) = do { _ \<leftarrow> AdminCancelOrder x oid; ret () }"
| "runPayment x (CmdVerify n uid) = do { _ \<leftarrow> VerifyOrderByOutTradeNo x n uid; ret () }"
| "runPayment x (CmdVerifyPublic n) = do { _ \<leftarrow> VerifyOrderPublic x n; ret () }"
| "runPayment x CmdExpire = do { _ \<leftarrow> ExpireTimedOutOrders x; ret () }"
| "runPayment x (CmdRequestRefund oid uid reason) = do { _ \<leftarrow> RequestRefund x oid uid reason; ret () }"
| "runPayment x (CmdRedeem uid code) = do { _ \<leftarrow> Redeem_code x uid code; ret () }"

primrec runPayments :: "ext \<Rightarrow> payment_command list \<Rightarrow> unit sp" where
  "runPayments x [] = ret ()"
| "runPayments x (c # cs) = do { _ \<leftarrow> runPayment x c; runPayments x cs }"

lemma pay_lifecycle:
  assumes "columnsOk x"
  shows "rg (payStep x) payOk (CancelOrder x oid uid) (\<lambda>_. payOk)" "rg (payStep x) payOk (AdminCancelOrder x oid) (\<lambda>_. payOk)"
    "rg (payStep x) payOk (VerifyOrderByOutTradeNo x n uid) (\<lambda>_. payOk)" "rg (payStep x) payOk (VerifyOrderPublic x n) (\<lambda>_. payOk)"
    "rg (payStep x) payOk (ExpireTimedOutOrders x) (\<lambda>_. payOk)"
  unfolding CancelOrder_def AdminCancelOrder_def VerifyOrderByOutTradeNo_def VerifyOrderPublic_def verifyOrder_def
    ExpireTimedOutOrders_def
  by (intro pay.inv_rules pay_cancelCore pay_checkPaid pay_expireAll assms pay_own [OF own_orderReads(1)] pay_own [OF own_orderReads(2)] pay_own [OF own_query])+

lemma free_requestRefund: "own moneyFree (RequestRefund x oid uid reason)"
  unfolding RequestRefund_def validateRefundRequest_def getOrderProviderInstance_def
  by (intro own_rules own_orderReads own_commReads free_audit free_orderUpdate own_read) simp_all

lemma pay_runPayment:
  assumes "columnsOk x"
  shows "rg (payStep x) payOk (runPayment x c) (\<lambda>_. payOk)"
  by (cases c) (simp; intro pay.inv_rules pay_notify pay_retry pay_lifecycle pay_redeem pay_own [OF free_requestRefund] assms)+

lemma pay_runPayments:
  assumes "columnsOk x"
  shows "rg (payStep x) payOk (runPayments x cs) (\<lambda>_. payOk)"
  by (induction cs) (auto intro!: pay.inv_rules pay_runPayment assms)

lemma own_runPayment: "own (orderStep freeEdges) (runPayment x c)"
  by (cases c) (simp; intro own_rules own_notify own_retry own_lifecycle own_requestRefund own_orderStep [OF own_Redeem])+

lemma own_runPayments: "own (orderStep freeEdges) (runPayments x cs)"
  by (induction cs) (auto intro!: own_rules own_runPayment)

section \<open>Samples and orders over steps\<close>

definition sampleNotification :: payment_notification where
  "sampleNotification = \<lparr>pn_TradeNo = ''T9'', pn_OrderID = ''sub2_x'', pn_Amount = F64 5, pn_Status = ''success'', pn_RawData = ''''\<rparr>"

lemma columnsOk_sample: "columnsOk (sampleExt s b)"
  by (simp add: columnsOk_def sumsExact_sample) (auto simp: sampleExt_def)

lemma payOk_sample: "payOk sampleStore"
  by (simp add: codesOk_def amountsOk_def amountOk_def sampleStore_def sampleUser_def sampleOrder_def onGrid_def)

lemma orderStep_find:
  assumes "orderStep E d d'" and "po \<in> set (orders d)"
  shows "\<exists>po' \<in> set (orders d'). orderSucc E po po'"
proof -
  obtain i where i: "i < length (orders d)" "orders d ! i = po" using assms(2) by (auto simp: in_set_conv_nth)
  have "list_all2 (orderSucc E) (orders d) (take (length (orders d)) (orders d'))" "length (orders d) \<le> length (orders d')"
    using assms(1) by (simp_all add: orderStep_def)
  then have "orderSucc E po (orders d' ! i)" "orders d' ! i \<in> set (orders d')"
    using i list_all2_nthD [of "orderSucc E" "orders d" "take (length (orders d)) (orders d')" i] by auto
  then show ?thesis by blast
qed

lemma orderStep_moves:
  assumes "orderStep allEdges d d'" and "po \<in> set (orders d)"
  shows "\<exists>po' \<in> set (orders d'). bought po' = bought po \<and> (allEdges (o_ID po))\<^sup>*\<^sup>* (o_Status po) (o_Status po') \<and>
     phase (o_Status po) \<le> phase (o_Status po') \<and> (phase (o_Status po) = 3 \<longrightarrow> o_Status po' = o_Status po)"
  using orderStep_find [OF assms] reaches_phase reaches_refunded unfolding orderSucc_def by meson

definition samplePlan :: "order_status \<Rightarrow> refund_plan" where
  "samplePlan st = \<lparr>rp_OrderID = 7, rp_Order = (sampleOrder st)\<lparr>o_PaymentTradeNo := ''T9''\<rparr>, rp_RefundAmount = F64 5, rp_GatewayAmount = F64 5,
     rp_Reason = ''r'', rp_Force = False, rp_DeductBalance = True, rp_DeductionType = DeductBalance, rp_BalanceToDeduct = F64 5,
     rp_SubDaysToDeduct = 0, rp_SubscriptionID = 0\<rparr>"

end
