(* ===== verification/Delivery.thy ===== *)
theory Delivery
  imports Payments
begin

text \<open>
  What a payment notification does when nothing fails: the whole path from the notification over the redeem code to the completed order, duplicates and
  wrong amounts, and two runs with a failure or a poll that show where delivery is not exactly once.
\<close>

section \<open>Quiet runs\<close>

lemma run_orderUpdate:
  "script w = [] \<Longrightarrow> ticks w = [] \<Longrightarrow> run_state (orderUpdate p f) w =
     (Inr (tcount p (orders (db w))), w\<lparr>db := (db w)\<lparr>orders := tupd p (\<lambda>po. (f po)\<lparr>o_UpdatedAt := clock w\<rparr>) (orders (db w))\<rparr>\<rparr>)"
  by (simp add: orderUpdate_def run_simps)

lemma run_orderGet:
  "script w = [] \<Longrightarrow> run_state (orderGet i) w =
     (case tget (\<lambda>po. o_ID po = i) (orders (db w)) of None \<Rightarrow> Inl entNotFound | Some po \<Rightarrow> Inr po, w)"
  by (simp add: orderGet_def run_simps)

definition auditRow :: "instant \<Rightarrow> int \<Rightarrow> string \<Rightarrow> string \<Rightarrow> audit_log" where
  "auditRow t oid action op = \<lparr>a_OrderID = formatInt oid, a_Action = action, a_Operator = op, a_CreatedAt = t\<rparr>"

lemma run_audit:
  "script w = [] \<Longrightarrow> ticks w = [] \<Longrightarrow> run_state (writeAuditLog oid a op) w =
     ((), w\<lparr>db := (db w)\<lparr>audits := audits (db w) @ [auditRow (clock w) oid a op]\<rparr>\<rparr>)"
  by (simp add: writeAuditLog_def run_simps auditRow_def)

lemmas run_orders = run_orderUpdate run_orderGet run_audit

text \<open>Recording commissions succeeds when nothing fails, and changes the commission tables only.\<close>

abbreviation commFrame :: "store \<Rightarrow> store \<Rightarrow> bool" where
  "commFrame d d' \<equiv> d' = d\<lparr>splits := splits d', rules := rules d', nextRule := nextRule d', clogs := clogs d'\<rparr>"

lemma run_rule:
  assumes "script w = []" and "ticks w = []"
  shows "\<exists>r d'. run_state getActiveGlobalCommissionRule w = (Inr r, w\<lparr>db := d'\<rparr>) \<and> commFrame (db w) d'"
proof -
  have w: "w = w\<lparr>db := db w\<rparr>" by simp
  show ?thesis
    using assms
    by (cases "firstRule (filter (ruleActive (clock w)) (rules (db w)))";
        cases "newestRule (filter (\<lambda>r. cu_Name r = defaultGlobalRuleName \<and> cu_ScopeType r = ''global'') (rules (db w)))")
      (auto simp: getActiveGlobalCommissionRule_def ensureDefaultGlobalCommissionRule_def run_simps intro: exI [of _ "db w"])
qed

lemma run_recordSplits:
  assumes "script w = []" and "ticks w = []"
  shows "\<exists>d'. run_state (recordCommissionSplitsIfNeeded po) w = (Inr (), w\<lparr>db := d'\<rparr>) \<and> commFrame (db w) d'"
proof -
  obtain r d1 where r: "run_state getActiveGlobalCommissionRule w = (Inr r, w\<lparr>db := d1\<rparr>)" "commFrame (db w) d1"
    using run_rule [OF assms] by blast
  have q: "quiet (w\<lparr>db := d1\<rparr>)" using assms by (simp add: quiet_def)
  show ?thesis
  proof (cases "commissionable po")
    case True
    show ?thesis
    proof (cases "tget (\<lambda>r. pr_UserID r = o_UserID po) (relations (db w))")
      case None
      then show ?thesis using assms True
        by (auto simp: recordCommissionSplitsIfNeeded_def run_relationOf isNotFound_def intro: exI [of _ "db w"])
    next
      case (Some rel)
      let ?s = "fold upsertSplit (map (splitRow po rel r) (buildCommissionSplitPlans po rel r)) (splits d1)"
      have "run_state (recordCommissionSplitsIfNeeded po) w = (Inr (), w\<lparr>db := d1\<lparr>splits := ?s\<rparr>\<rparr>)"
        using assms True Some r(1) q
        by (simp add: recordCommissionSplitsIfNeeded_def run_relationOf run_bindE upsertCommissionSplitLogsForOrder_def run_upsertPlans)
      moreover have "commFrame (db w) (d1\<lparr>splits := ?s\<rparr>)" by (subst r(2)) simp
      ultimately show ?thesis by blast
    qed
  qed (auto simp: recordCommissionSplitsIfNeeded_def intro: exI [of _ "db w"])
qed

lemma run_userGetByID:
  "script w = [] \<Longrightarrow> run_state (userGetByID i) w =
     (case tget (\<lambda>u. u_ID u = i) (users (db w)) of None \<Rightarrow> Inl (withCause ErrUserNotFound entNotFound) | Some u \<Rightarrow> Inr u, w)"
  by (simp add: userGetByID_def run_simps)

lemma run_recordPending:
  assumes "script w = []"
  shows "\<exists>d'. run_state (recordPendingCommissionIfNeeded x po) w = (Inr (), w\<lparr>db := d'\<rparr>) \<and> commFrame (db w) d'"
proof -
  have same: "\<exists>d'. w = w\<lparr>db := d'\<rparr> \<and> commFrame (db w) d'" by (rule exI [of _ "db w"]) simp
  show ?thesis
    using same assms
    by (auto simp: recordPendingCommissionIfNeeded_def run_userGetByID run_simps Let_def split: option.splits)
qed

lemma run_markCompleted:
  assumes "script w = []" and "ticks w = []"
  shows "\<exists>d'. run_state (markCompleted x po a) w = (Inr (), w\<lparr>db := d'\<rparr>) \<and>
    orders d' = tupd (isStatus (o_ID po) {Recharging}) (\<lambda>r. r\<lparr>o_Status := Completed, o_CompletedAt := Some (clock w), o_UpdatedAt := clock w\<rparr>) (orders (db w)) \<and>
    users d' = users (db w) \<and> codes d' = codes (db w) \<and> subs d' = subs (db w) \<and>
    audits d' = audits (db w) @ [auditRow (clock w) (o_ID po) a ''system'']"
proof -
  obtain d1 where 1: "run_state (recordCommissionSplitsIfNeeded po) w = (Inr (), w\<lparr>db := d1\<rparr>)" "commFrame (db w) d1"
    using run_recordSplits [OF assms] by blast
  obtain d2 where 2: "run_state (recordPendingCommissionIfNeeded x po) (w\<lparr>db := d1\<rparr>) = (Inr (), w\<lparr>db := d2\<rparr>)" "commFrame d1 d2"
    using run_recordPending [of "w\<lparr>db := d1\<rparr>" x po] assms by auto
  have "orders d2 = orders (db w)" "users d2 = users (db w)" "codes d2 = codes (db w)" "subs d2 = subs (db w)" "audits d2 = audits (db w)"
    by (subst 2(2), subst 1(2), simp)+
  then show ?thesis
    using 1(1) 2(1) assms by (auto simp: markCompleted_def run_bindE run_orders run_timeNow_still)
qed

lemma run_CreateCode_order:
  assumes q: "script w = []" "ticks w = []" and a: "o_Amount po = F64 a" "0 < a"
    and code: "trimSpace (o_RechargeCode po) = o_RechargeCode po" "o_RechargeCode po \<noteq> []" "length (o_RechargeCode po) \<le> 32"
      "\<not> codeTaken (db w) (o_RechargeCode po)"
  shows "run_state (CreateCode x (Some (orderCode po))) w =
    (Inr (), w\<lparr>db := (db w)\<lparr>codes := codes (db w) @ [codeRow x (clock w) (nextCode (db w)) (orderCode po)], nextCode := nextCode (db w) + 1\<rparr>\<rparr>)"
proof -
  have c: "rc_Code (orderCode po) = o_RechargeCode po" "rc_Type (orderCode po) = RedeemTypeBalance" "rc_Value (orderCode po) = F64 a"
    "(orderCode po)\<lparr>rc_Code := o_RechargeCode po\<rparr> = orderCode po"
    using a by (simp_all add: orderCode_def)
  have "\<not> feq (F64 a) fzero" using a(2) by simp
  moreover have "codeValid (orderCode po)" using code c by (simp add: codeValid_def redeem_types)
  moreover have "RedeemTypeBalance \<noteq> []" by (simp add: redeem_types)
  ultimately show ?thesis
    using q code c(1-3) by (simp add: CreateCode_def codeCreateStmt_def run_simps Let_def c(4))
qed

lemma run_doBalance_new:
  assumes q: "script w = []" "ticks w = []" and x: "columnsOk x" and ok: "codesOk (db w)"
    and a: "o_Amount po = F64 a" "0 < a"
    and code: "trimSpace (o_RechargeCode po) = o_RechargeCode po" "o_RechargeCode po \<noteq> []" "length (o_RechargeCode po) \<le> 32"
      "\<not> codeTaken (db w) (o_RechargeCode po)"
    and u: "tget (\<lambda>u. u_ID u = o_UserID po) (users (db w)) = Some u"
    and l: "redeemAttempts (db w) (o_UserID po) < redeemMaxErrorsPerHour" "o_RechargeCode po \<notin> redeemLocks (db w)"
  shows "\<exists>d'. run_state (doBalance x po) w = (Inr (), w\<lparr>db := d'\<rparr>) \<and>
    orders d' = tupd (isStatus (o_ID po) {Recharging}) (\<lambda>r. r\<lparr>o_Status := Completed, o_CompletedAt := Some (clock w), o_UpdatedAt := clock w\<rparr>) (orders (db w)) \<and>
    users d' = tupd (\<lambda>u. u_ID u = o_UserID po) (addBalance x (x_col8 x (o_Amount po))) (users (db w)) \<and>
    (\<exists>c \<in> set (codes d'). rc_Code c = o_RechargeCode po \<and> rc_Status c = Used \<and> rc_UsedBy c = Some (o_UserID po))"
proof -
  let ?c = "codeRow x (clock w) (nextCode (db w)) (orderCode po)"
  let ?d1 = "(db w)\<lparr>codes := codes (db w) @ [?c], nextCode := nextCode (db w) + 1\<rparr>"
  let ?w1 = "w\<lparr>db := ?d1\<rparr>"
  have cr: "run_state (CreateCode x (Some (orderCode po))) w = (Inr (), ?w1)"
    using q a code by (rule run_CreateCode_order)
  have get: "run_state (GetByCode (o_RechargeCode po)) w = (Inl (Errorf ''get redeem code'' ErrRedeemCodeNotFound), w)"
  proof -
    have "tget (\<lambda>c. rc_Code c = o_RechargeCode po) (codes (db w)) = None"
      using code(4) by (auto simp: tget_None codeTaken_def image_iff)
    then show ?thesis using q by (simp add: GetByCode_def codeGetByCode_def run_simps)
  qed
  have "creditOnce x (db w) (snd (codeCreateStmt x (clock w) (orderCode po) (db w)))"
    by (rule codeCreate_credit) (use x a in \<open>auto simp: codeOk_def orderCode_def blankCode_def columnsOk_def\<close>)
  moreover have "snd (codeCreateStmt x (clock w) (orderCode po) (db w)) = ?d1"
    using code by (simp add: codeCreateStmt_def orderCode_def codeValid_def redeem_types)
  ultimately have ok1: "codesOk ?d1" using ok by (simp add: creditOnce_def)
  have c: "rc_Code ?c = o_RechargeCode po" "rc_Type ?c = RedeemTypeBalance" "rc_Status ?c = Unused" "rc_Value ?c = x_col8 x (o_Amount po)"
    by (simp_all add: codeRow_def orderCode_def blankCode_def)
  let ?d2 = "?d1\<lparr>codes := tupd (\<lambda>t. rc_ID t = rc_ID ?c) (markUsed (o_UserID po) (clock w)) (codes ?d1),
     users := tupd (\<lambda>u. u_ID u = o_UserID po) (addBalance x (x_col8 x (o_Amount po))) (users (db w))\<rparr>"
  have re: "run_state (Redeem_code x (o_UserID po) (o_RechargeCode po)) ?w1 = (Inr (markUsed (o_UserID po) (clock w) ?c), w\<lparr>db := ?d2\<rparr>)"
    using Redeem_balance_succeeds [of ?w1 ?c "o_UserID po" u x] q ok1 c u l by (simp add: quiet_def)
  obtain d' where d': "run_state (markCompleted x po ''RECHARGE_SUCCESS'') (w\<lparr>db := ?d2\<rparr>) = (Inr (), w\<lparr>db := d'\<rparr>)"
    "orders d' = tupd (isStatus (o_ID po) {Recharging}) (\<lambda>r. r\<lparr>o_Status := Completed, o_CompletedAt := Some (clock w), o_UpdatedAt := clock w\<rparr>) (orders (db w))"
    "users d' = users ?d2" "codes d' = codes ?d2"
    using run_markCompleted [of "w\<lparr>db := ?d2\<rparr>" x po "''RECHARGE_SUCCESS''"] q by auto
  have "run_state (doBalance x po) w = (Inr (), w\<lparr>db := d'\<rparr>)"
    using get cr re d'(1) by (simp add: doBalance_def resolveRedeemAction_def run_bindE Let_def)
  moreover have "markUsed (o_UserID po) (clock w) ?c \<in> set (codes d')" by (simp add: d'(4) set_tupd)
  moreover have "rc_Code (markUsed (o_UserID po) (clock w) ?c) = o_RechargeCode po" using c(1) by (simp add: markUsed_def)
  moreover have "rc_Status (markUsed (o_UserID po) (clock w) ?c) = Used" "rc_UsedBy (markUsed (o_UserID po) (clock w) ?c) = Some (o_UserID po)"
    by (simp_all add: markUsed_def)
  moreover have "users d' = tupd (\<lambda>u. u_ID u = o_UserID po) (addBalance x (x_col8 x (o_Amount po))) (users (db w))" by (simp add: d'(3))
  ultimately show ?thesis using d'(2) by blast
qed

lemma isStatus_eq: "isStatus i ss = (\<lambda>po. o_ID po = i \<and> o_Status po \<in> ss)"
  by (simp add: isStatus_def fun_eq_iff)

text \<open>The conditions under which the recharge code of an order is still to be created and can be redeemed.\<close>

definition creditable :: "payment_order \<Rightarrow> store \<Rightarrow> bool" where
  "creditable po d \<longleftrightarrow> codesOk d \<and> (\<exists>a > 0. o_Amount po = F64 a) \<and>
     trimSpace (o_RechargeCode po) = o_RechargeCode po \<and> o_RechargeCode po \<noteq> [] \<and> length (o_RechargeCode po) \<le> 32 \<and>
     \<not> codeTaken d (o_RechargeCode po) \<and> (\<exists>u. tget (\<lambda>u. u_ID u = o_UserID po) (users d) = Some u) \<and>
     redeemAttempts d (o_UserID po) < redeemMaxErrorsPerHour \<and> o_RechargeCode po \<notin> redeemLocks d"

definition creditedBy :: "ext \<Rightarrow> payment_order \<Rightarrow> store \<Rightarrow> store \<Rightarrow> bool" where
  "creditedBy x po d d' \<longleftrightarrow>
     users d' = tupd (\<lambda>u. u_ID u = o_UserID po) (addBalance x (x_col8 x (o_Amount po))) (users d) \<and>
     (\<exists>c \<in> set (codes d'). rc_Code c = o_RechargeCode po \<and> rc_Status c = Used \<and> rc_UsedBy c = Some (o_UserID po))"

lemma run_balanceFulfil:
  assumes q: "script w = []" "ticks w = []" and x: "columnsOk x" and d: "distinct (orderIDs (db w))"
    and po: "po \<in> set (orders (db w))" "o_Status po = Paid \<or> o_Status po = Failed" and c: "creditable po (db w)"
  shows "\<exists>d'. run_state (ExecuteBalanceFulfillment x (o_ID po)) w = (Inr (), w\<lparr>db := d'\<rparr>) \<and>
    tget (\<lambda>r. o_ID r = o_ID po) (orders d') = Some (po\<lparr>o_Status := Completed, o_CompletedAt := Some (clock w), o_UpdatedAt := clock w\<rparr>) \<and>
    creditedBy x po (db w) d'"
proof -
  let ?lock = "\<lambda>r. r\<lparr>o_Status := Recharging, o_UpdatedAt := clock w\<rparr>"
  let ?done = "\<lambda>r. r\<lparr>o_Status := Completed, o_CompletedAt := Some (clock w), o_UpdatedAt := clock w\<rparr>"
  let ?d1 = "(db w)\<lparr>orders := tupd (isStatus (o_ID po) {Paid, Failed}) ?lock (orders (db w))\<rparr>"
  have dist: "distinct (map o_ID (orders (db w)))" using d by (simp add: orderIDs_def)
  note L = row_update [where key = o_ID and P = "\<lambda>s. o_Status s \<in> {Paid, Failed}" and f = ?lock, OF dist po(1)]
  have L1: "distinct (map o_ID (orders ?d1))" "?lock po \<in> set (orders ?d1)" "tcount (isStatus (o_ID po) {Paid, Failed}) (orders (db w)) \<noteq> 0"
    using L po(2) by (auto simp: isStatus_eq)
  have get: "tget (\<lambda>r. o_ID r = o_ID po) (orders (db w)) = Some po" by (rule tget_key_unique [OF dist po(1)])
  obtain a u where c': "codesOk (db w)" "o_Amount po = F64 a" "0 < a" "trimSpace (o_RechargeCode po) = o_RechargeCode po"
    "o_RechargeCode po \<noteq> []" "length (o_RechargeCode po) \<le> 32" "\<not> codeTaken (db w) (o_RechargeCode po)"
    "tget (\<lambda>u. u_ID u = o_UserID po) (users (db w)) = Some u" "redeemAttempts (db w) (o_UserID po) < redeemMaxErrorsPerHour"
    "o_RechargeCode po \<notin> redeemLocks (db w)"
    using c by (auto simp: creditable_def)
  obtain d' where d': "run_state (doBalance x po) (w\<lparr>db := ?d1\<rparr>) = (Inr (), w\<lparr>db := d'\<rparr>)"
    "orders d' = tupd (isStatus (o_ID po) {Recharging}) ?done (orders ?d1)"
    "users d' = tupd (\<lambda>u. u_ID u = o_UserID po) (addBalance x (x_col8 x (o_Amount po))) (users (db w))"
    "\<exists>c \<in> set (codes d'). rc_Code c = o_RechargeCode po \<and> rc_Status c = Used \<and> rc_UsedBy c = Some (o_UserID po)"
    using run_doBalance_new [of "w\<lparr>db := ?d1\<rparr>" x po a u] q x c' by (auto simp: codesOk_def codeTaken_def)
  have "tget (\<lambda>r. o_ID r = o_ID po) (orders d') = Some (?done (?lock po))"
    using row_update(3) [where key = o_ID and P = "\<lambda>s. o_Status s \<in> {Recharging}" and f = ?done, OF L1(1,2)]
    by (simp add: d'(2) isStatus_eq)
  moreover have "run_state (ExecuteBalanceFulfillment x (o_ID po)) w = (Inr (), w\<lparr>db := d'\<rparr>)"
    using q get L1(3) d'(1) po(2)
    by (auto simp: ExecuteBalanceFulfillment_def run_bindE run_orders lockForRecharge_def psIsRefundStatus_def)
  ultimately show ?thesis using d'(3,4) by (intro exI [of _ d']) (simp add: creditedBy_def)
qed

text \<open>The amount of a notification agrees with the order.\<close>

definition amountAgrees :: "payment_notification \<Rightarrow> payment_order \<Rightarrow> bool" where
  "amountAgrees n po \<longleftrightarrow> flt fzero (pn_Amount n) \<and> \<not> fisNaN (pn_Amount n) \<and> \<not> fisInf (pn_Amount n) \<and>
     \<not> flt amountToleranceCNY (fabs (fsub (pn_Amount n) (o_PayAmount po)))"

lemma flt_not_fle: "flt fzero a \<Longrightarrow> \<not> fisInf a \<Longrightarrow> \<not> fle a fzero"
  by (cases a) (auto simp: fle_def fisInf_def)

lemma run_confirm_agrees:
  assumes "script w = []" and "distinct (orderIDs (db w))" and "po \<in> set (orders (db w))"
    and "filter (\<lambda>r. o_OutTradeNo r = pn_OrderID n) (orders (db w)) = [po]" and "pn_Status n = NotificationStatusSuccess"
    and "amountAgrees n po"
  shows "run_state (HandlePaymentNotification x n pk) w = run_state (toPaid x po (pn_TradeNo n) (pn_Amount n) pk) w"
proof -
  have "tget (\<lambda>r. o_ID r = o_ID po) (orders (db w)) = Some po"
    using assms(2,3) by (intro tget_key_unique) (simp_all add: orderIDs_def)
  with assms show ?thesis
    by (simp add: HandlePaymentNotification_def orderByOutTradeNo_def confirmPayment_def run_simps run_orderGet amountAgrees_def flt_not_fle)
qed

lemma run_notification:
  assumes q: "quiet w" "ticks w = []" and x: "columnsOk x" and d: "distinct (orderIDs (db w))"
    and n: "pn_Status n = NotificationStatusSuccess" "filter (\<lambda>r. o_OutTradeNo r = pn_OrderID n) (orders (db w)) = [po]" "amountAgrees n po"
    and po: "o_Status po = Pending" "o_OrderType po = OrderTypeBalance" "creditable po (db w)"
  shows "\<exists>d' po'. run_state (HandlePaymentNotification x n pk) w = (Inr (), w\<lparr>db := d'\<rparr>) \<and>
    tget (\<lambda>r. o_ID r = o_ID po) (orders d') = Some po' \<and> o_Status po' = Completed \<and>
    o_PaymentTradeNo po' = pn_TradeNo n \<and> o_PaidAt po' = Some (clock w) \<and> creditedBy x po (db w) d'"
proof -
  have sc: "script w = []" using q by (simp add: quiet_def)
  have "po \<in> set (filter (\<lambda>r. o_OutTradeNo r = pn_OrderID n) (orders (db w)))" by (simp add: n(2))
  then have mem: "po \<in> set (orders (db w))" by simp
  have dist: "distinct (map o_ID (orders (db w)))" using d by (simp add: orderIDs_def)
  let ?g = "clock w - paymentGraceMinutes * nsMinute"
  let ?f = "\<lambda>r. (paidRow x (pn_TradeNo n) (pn_Amount n) (clock w) r)\<lparr>o_UpdatedAt := clock w\<rparr>"
  let ?p = "\<lambda>r. o_ID r = o_ID po \<and> claimable ?g r"
  let ?d = "(db w)\<lparr>orders := tupd ?p ?f (orders (db w)), audits := audits (db w) @ [auditRow (clock w) (o_ID po) ''ORDER_PAID'' pk]\<rparr>"
  note R = row_update [where key = o_ID and P = "claimable ?g" and f = ?f, OF dist mem]
  have R1: "distinct (orderIDs ?d)" "?f po \<in> set (orders ?d)" "tget (\<lambda>r. o_ID r = o_ID po) (orders ?d) = Some (?f po)"
    "tcount ?p (orders (db w)) \<noteq> 0"
    using R po(1) by (simp_all add: claimable_def paidRow_def orderIDs_def)
  have cr: "creditable (?f po) ?d" using po(3) by (simp add: creditable_def paidRow_def codesOk_def codeTaken_def)
  have st: "o_Status (?f po) = Paid \<or> o_Status (?f po) = Failed" by (simp add: paidRow_def)
  obtain d' where d': "run_state (ExecuteBalanceFulfillment x (o_ID po)) (w\<lparr>db := ?d\<rparr>) = (Inr (), w\<lparr>db := d'\<rparr>)"
    "tget (\<lambda>r. o_ID r = o_ID po) (orders d') = Some ((?f po)\<lparr>o_Status := Completed, o_CompletedAt := Some (clock w), o_UpdatedAt := clock w\<rparr>)"
    "creditedBy x (?f po) ?d d'"
    using run_balanceFulfil [of "w\<lparr>db := ?d\<rparr>" x "?f po"] sc q(2) x R1(1,2) st cr by (auto simp: paidRow_def)
  have "run_state (executeFulfillment x (o_ID po)) (w\<lparr>db := ?d\<rparr>) = (Inr (), w\<lparr>db := d'\<rparr>)"
    using d'(1) R1(3) sc po(2) by (simp add: executeFulfillment_def run_bindE run_orderGet paidRow_def OrderTypeBalance_def OrderTypeSubscription_def)
  then have "run_state (toPaid x po (pn_TradeNo n) (pn_Amount n) pk) w = (Inr (), w\<lparr>db := d'\<rparr>)"
    using sc q(2) R1(4) po(1) by (simp add: toPaid_def run_bindE run_timeNow_still run_orders Let_def)
  then have "run_state (HandlePaymentNotification x n pk) w = (Inr (), w\<lparr>db := d'\<rparr>)"
    using run_confirm_agrees [OF sc d mem n(2,1,3)] by simp
  then show ?thesis using d'(2,3) by (intro exI [of _ d']) (simp add: paidRow_def creditedBy_def)
qed

text \<open>C5. A payment arrives: when the platform reports the payment of a pending balance order with the right amount, the notification is
  answered without an error, the order is completed and carries the trade number and the time, its recharge code is used by the
  buyer, and the balance of the buyer, and of nobody else, grows by the amount of the order.\<close>

theorem notification_completes_balance:
  assumes q: "quiet w" "ticks w = []" and x: "columnsOk x" and d: "distinct (orderIDs (db w))"
    and n: "pn_Status n = NotificationStatusSuccess" "filter (\<lambda>r. o_OutTradeNo r = pn_OrderID n) (orders (db w)) = [po]" "amountAgrees n po"
    and po: "o_Status po = Pending" "o_OrderType po = OrderTypeBalance" "creditable po (db w)"
  shows "\<exists>w' po'. run_state (HandlePaymentNotification x n pk) w = (Inr (), w') \<and>
    tget (\<lambda>r. o_ID r = o_ID po) (orders (db w')) = Some po' \<and> o_Status po' = Completed \<and>
    o_PaymentTradeNo po' = pn_TradeNo n \<and> o_PaidAt po' = Some (clock w) \<and> creditedBy x po (db w) (db w')"
  using run_notification [OF assms, of pk] by fastforce

lemma amountTolerance_value: "amountToleranceCNY = F64 (5764607523034235 / 2 ^ 59)"
proof -
  have "bitlen 100 = 7" "bitlen 1 = 1" by code_simp+
  moreover have "quotient_of (1 / 100) = (1, 100)" by code_simp
  ultimately have "ilog2 (1 / 100) = - 7" by (simp add: ilog2_def pow2_def)
  then have u: "ulp (1 / 100) = 1 / 2 ^ 59" by (simp add: ulp_def pow2_def)
  have "\<lfloor>2 ^ 59 / 100 :: rat\<rfloor> = 5764607523034234" by (rule floor_unique) simp_all
  then have "rne (2 ^ 59 / 100) = 5764607523034235" by (simp add: rne_def)
  then show ?thesis by (simp add: amountToleranceCNY_def rnd_def u)
qed

definition sampleNotice :: "rat \<Rightarrow> payment_notification" where
  "sampleNotice a = \<lparr>pn_TradeNo = ''T9'', pn_OrderID = ''sub2_x'', pn_Amount = F64 a, pn_Status = ''success'', pn_RawData = ''''\<rparr>"

lemma sampleNotice_agrees: "amountAgrees (sampleNotice 5) (sampleOrder st)"
  by (simp add: amountAgrees_def sampleNotice_def sampleOrder_def fisNaN_def fisInf_def fsub_def fabs_def amountTolerance_value)

lemma sample_creditable: "creditable (sampleOrder Pending) sampleStore"
  using payOk_sample by (simp add: creditable_def sampleOrder_def) (simp add: sampleStore_def sampleUser_def codeTaken_def
        table_simps redeemMaxErrorsPerHour_def trimSpace_def isSpace_def)

theorem notification_completes_balance_witness:
  "\<exists>w' po'. run_state (HandlePaymentNotification (sampleExt ''paid'' True) (sampleNotice 5) ''alipay'') (sampleWorld sampleStore []) = (Inr (), w') \<and>
     tget (\<lambda>r. o_ID r = 7) (orders (db w')) = Some po' \<and> o_Status po' = Completed"
proof -
  let ?w = "sampleWorld sampleStore []" and ?po = "sampleOrder Pending"
  have 1: "creditable ?po (db ?w)" using sample_creditable by simp
  have 2: "distinct (orderIDs (db ?w))" "filter (\<lambda>r. o_OutTradeNo r = pn_OrderID (sampleNotice 5)) (orders (db ?w)) = [?po]"
    "pn_Status (sampleNotice 5) = NotificationStatusSuccess" "quiet ?w" "ticks ?w = []" "o_Status ?po = Pending" "o_OrderType ?po = OrderTypeBalance"
    by (simp_all add: sampleStore_def orderIDs_def sampleOrder_def sampleNotice_def NotificationStatusSuccess_def quiet_def OrderTypeBalance_def)
  have "o_ID ?po = 7" by (simp add: sampleOrder_def)
  with notification_completes_balance [OF 2(4,5) columnsOk_sample 2(1,3,2) sampleNotice_agrees 2(6,7) 1] show ?thesis by fastforce
qed

text \<open>C28. A notification that is delivered again after the order was delivered or refunded is answered without an error and changes nothing.\<close>

theorem duplicate_notification_ignored:
  assumes q: "quiet w" "ticks w = []" and d: "distinct (orderIDs (db w))"
    and n: "pn_Status n = NotificationStatusSuccess" "filter (\<lambda>r. o_OutTradeNo r = pn_OrderID n) (orders (db w)) = [po]" "amountAgrees n po"
    and st: "2 \<le> phase (o_Status po)"
  shows "run_state (HandlePaymentNotification x n pk) w = (Inr (), w)"
proof -
  have sc: "script w = []" using q by (simp add: quiet_def)
  have "po \<in> set (filter (\<lambda>r. o_OutTradeNo r = pn_OrderID n) (orders (db w)))" by (simp add: n(2))
  then have mem: "po \<in> set (orders (db w))" by simp
  have dist: "distinct (map o_ID (orders (db w)))" using d by (simp add: orderIDs_def)
  have get: "tget (\<lambda>r. o_ID r = o_ID po) (orders (db w)) = Some po" by (rule tget_key_unique [OF dist mem])
  have st': "o_Status po \<notin> {Pending, Cancelled, Expired, Paid, Recharging, Failed}" using st by auto
  have "\<not> (o_ID r = o_ID po \<and> claimable g r)" if "r \<in> set (orders (db w))" for r g
    using inj_onD [of o_ID "set (orders (db w))" r po] dist mem that st' by (auto simp: distinct_map claimable_def)
  then have "tcount (\<lambda>r. o_ID r = o_ID po \<and> claimable g r) (orders (db w)) = 0" for g by (auto simp: tcount_0)
  then have "run_state (toPaid x po (pn_TradeNo n) (pn_Amount n) pk) w = (Inr (), w)"
    using sc q(2) get st' by (simp add: toPaid_def run_bindE run_timeNow_still run_orders tupd_none alreadyProcessed_def Let_def)
  then show ?thesis using run_confirm_agrees [OF sc d mem n(2,1,3)] by simp
qed

theorem duplicate_notification_ignored_witness:
  "run_state (HandlePaymentNotification (sampleExt ''paid'' True) (sampleNotice 5) ''alipay'')
     (sampleWorld (sampleStore\<lparr>orders := [sampleOrder Completed]\<rparr>) []) =
   (Inr (), sampleWorld (sampleStore\<lparr>orders := [sampleOrder Completed]\<rparr>) [])"
  by (rule duplicate_notification_ignored [where po = "sampleOrder Completed", OF _ _ _ _ _ sampleNotice_agrees])
    (simp_all add: quiet_def orderIDs_def sampleNotice_def sampleOrder_def NotificationStatusSuccess_def)

text \<open>C29. A notification whose amount differs from the order by more than the tolerance is refused: the mismatch is written to the
  audit log, and no order, code, balance or subscription changes.\<close>

theorem amount_mismatch_refused:
  assumes q: "quiet w" "ticks w = []" and d: "distinct (orderIDs (db w))"
    and n: "pn_Status n = NotificationStatusSuccess" "filter (\<lambda>r. o_OutTradeNo r = pn_OrderID n) (orders (db w)) = [po]"
    and a: "flt fzero (pn_Amount n)" "\<not> fisNaN (pn_Amount n)" "\<not> fisInf (pn_Amount n)"
      "flt amountToleranceCNY (fabs (fsub (pn_Amount n) (o_PayAmount po)))"
  shows "run_state (HandlePaymentNotification x n pk) w =
    (Inl (ErrorNew (''amount mismatch: expected '' @ formatFloat2 (o_PayAmount po) @ '', got '' @ formatFloat2 (pn_Amount n))),
     w\<lparr>db := (db w)\<lparr>audits := audits (db w) @ [auditRow (clock w) (o_ID po) ''PAYMENT_AMOUNT_MISMATCH'' pk]\<rparr>\<rparr>)"
proof -
  have sc: "script w = []" using q by (simp add: quiet_def)
  have "po \<in> set (filter (\<lambda>r. o_OutTradeNo r = pn_OrderID n) (orders (db w)))" by (simp add: n(2))
  then have "tget (\<lambda>r. o_ID r = o_ID po) (orders (db w)) = Some po"
    using d by (intro tget_key_unique) (simp_all add: orderIDs_def)
  then show ?thesis
    using sc q(2) n a
    by (simp add: HandlePaymentNotification_def orderByOutTradeNo_def confirmPayment_def run_simps run_orders)
qed

lemma sampleNotice_differs: "flt amountToleranceCNY (fabs (fsub (F64 1) (F64 5)))"
  by (simp add: fsub_def fabs_def amountTolerance_value)

lemma sampleNotice_text: "formatFloat2 (F64 5) = ''5.00''" "formatFloat2 (F64 1) = ''1.00''"
  by code_simp+

theorem amount_mismatch_refused_witness:
  "fst (run_state (HandlePaymentNotification (sampleExt ''paid'' True) (sampleNotice 1) ''alipay'') (sampleWorld sampleStore [])) =
     Inl (ErrorNew ''amount mismatch: expected 5.00, got 1.00'')"
proof -
  have "filter (\<lambda>r. o_OutTradeNo r = pn_OrderID (sampleNotice 1)) (orders sampleStore) = [sampleOrder Pending]"
    by (simp add: sampleStore_def sampleNotice_def sampleOrder_def)
  moreover have "pn_Amount (sampleNotice 1) = F64 1" "o_PayAmount (sampleOrder Pending) = F64 5" "pn_Status (sampleNotice 1) = NotificationStatusSuccess"
    by (simp_all add: sampleNotice_def sampleOrder_def NotificationStatusSuccess_def)
  ultimately show ?thesis
    using amount_mismatch_refused [of "sampleWorld sampleStore []" "sampleNotice 1" "sampleOrder Pending" "sampleExt ''paid'' True" "''alipay''"]
      sampleNotice_differs
    by (simp add: quiet_def sampleStore_def orderIDs_def fisNaN_def fisInf_def sampleNotice_text)
qed

section \<open>Delivery of subscription orders\<close>

text \<open>Whether the audit log has an entry of the order.\<close>

definition audited :: "int \<Rightarrow> string \<Rightarrow> store \<Rightarrow> bool" where
  "audited oid action d \<longleftrightarrow> (\<exists>l \<in> set (audits d). a_OrderID l = formatInt oid \<and> a_Action l = action)"

lemma run_hasAuditLog: "script w = [] \<Longrightarrow> run_state (hasAuditLog oid action) w = (audited oid action (db w), w)"
  by (auto simp: hasAuditLog_def run_simps audited_def tcount_0 zero_less_iff_neq_zero)

text \<open>A paid order for \<open>days\<close> days of a group that is on sale.\<close>

definition subOrder :: "payment_order \<Rightarrow> int \<Rightarrow> int \<Rightarrow> bool" where
  "subOrder po gid days \<longleftrightarrow> o_OrderType po = OrderTypeSubscription \<and> o_SubscriptionGroupID po = Some gid \<and>
     o_SubscriptionDays po = Some days \<and> o_PaidAt po \<noteq> None"

definition groupOpen :: "int \<Rightarrow> store \<Rightarrow> bool" where
  "groupOpen gid d \<longleftrightarrow> (\<exists>g. tget (\<lambda>g. g_ID g = gid) (groups d) = Some g \<and> IsSubscriptionType g \<and> g_Status g = EntityStatusActive)"

lemma tget_orders: "(\<And>r. o_ID (f r) = o_ID r) \<Longrightarrow>
    tget (\<lambda>r. o_ID r = i) (tupd p f os) = map_option (\<lambda>r. if p r then f r else r) (tget (\<lambda>r. o_ID r = i) os)"
  by (rule tget_tupd_key)

lemma tcount_status: "tget (\<lambda>r. o_ID r = i) os = Some po \<Longrightarrow> o_Status po \<in> ss \<Longrightarrow> tcount (isStatus i ss) os \<noteq> 0"
  by (auto simp: tcount_0 isStatus_def dest: tget_Some)

text \<open>Delivery of a subscription when nothing fails.\<close>

lemma run_subFulfil:
  assumes w: "script w = []" "ticks w = []" and ok: "subsOk (db w)" "clock w < MaxExpiresAt"
    and po: "tget (\<lambda>r. o_ID r = oid) (orders (db w)) = Some po" "o_Status po = Paid \<or> o_Status po = Failed" "subOrder po gid days"
    and g: "groupOpen gid (db w)" and a: "\<not> audited oid ''SUBSCRIPTION_SUCCESS'' (db w)"
  shows "\<exists>d po'. run_state (ExecuteSubscriptionFulfillment x oid) w = (Inr (), w\<lparr>db := d\<rparr>) \<and>
    tget (\<lambda>r. o_ID r = oid) (orders d) = Some po' \<and> o_Status po' = Completed \<and>
    paidUntil (clock w) (o_UserID po) gid d = capExpiry (addDays (paidUntil (clock w) (o_UserID po) gid (db w)) (normalizeAssignValidityDays days))"
proof -
  let ?lock = "\<lambda>r. r\<lparr>o_Status := Recharging, o_UpdatedAt := clock w\<rparr>"
  let ?d = "(db w)\<lparr>orders := tupd (isStatus oid {Paid, Failed}) ?lock (orders (db w))\<rparr>"
  let ?in = "\<lparr>ai_UserID = o_UserID po, ai_GroupID = gid, ai_ValidityDays = days, ai_AssignedBy = 0, ai_Notes = ''payment order '' @ formatInt oid\<rparr>"
  have id: "o_ID po = oid" using tget_Some [OF po(1)] by simp
  have n: "tcount (isStatus oid {Paid, Failed}) (orders (db w)) \<noteq> 0" using tcount_status [OF po(1)] po(2) by auto
  have L: "tget (\<lambda>r. o_ID r = oid) (orders ?d) = Some (?lock po)" using po(1,2) by (auto simp: tget_orders isStatus_def id)
  obtain g' where g': "tget (\<lambda>g. g_ID g = gid) (groups (db w)) = Some g'" "IsSubscriptionType g'" "g_Status g' = EntityStatusActive"
    using g by (auto simp: groupOpen_def)
  obtain r d1 where A: "run_state (AssignOrExtendSubscription x ?in) (w\<lparr>db := ?d\<rparr>) = (Inr r, w\<lparr>db := d1\<rparr>)" "subsOnly ?d d1"
    "paidUntil (clock w) (o_UserID po) gid d1 = capExpiry (addDays (paidUntil (clock w) (o_UserID po) gid (db w)) (normalizeAssignValidityDays days))"
    using run_Assign [of "w\<lparr>db := ?d\<rparr>" ?in g' x] w ok g' by (auto simp: subsOk_def paidUntil_def)
  obtain d2 where M: "run_state (markCompleted x po ''SUBSCRIPTION_SUCCESS'') (w\<lparr>db := d1\<rparr>) = (Inr (), w\<lparr>db := d2\<rparr>)"
    "orders d2 = tupd (isStatus oid {Recharging}) (\<lambda>r. r\<lparr>o_Status := Completed, o_CompletedAt := Some (clock w), o_UpdatedAt := clock w\<rparr>) (orders d1)"
    "subs d2 = subs d1"
    using run_markCompleted [of "w\<lparr>db := d1\<rparr>" x po "''SUBSCRIPTION_SUCCESS''"] w by (auto simp: id)
  have a': "\<not> audited oid ''SUBSCRIPTION_SUCCESS'' ?d" using a by (simp add: audited_def)
  have "run_state (doSub x po gid days) (w\<lparr>db := ?d\<rparr>) = (Inr (), w\<lparr>db := d2\<rparr>)"
    using w g' A(1) M(1) a' by (simp add: doSub_def groupGetByID_def run_exec_quiet run_hasAuditLog run_bindE id)
  then have "run_state (ExecuteSubscriptionFulfillment x oid) w = (Inr (), w\<lparr>db := d2\<rparr>)"
    using w po n by (auto simp: ExecuteSubscriptionFulfillment_def run_bindE run_orders lockForRecharge_def psIsRefundStatus_def subOrder_def)
  moreover have "orders d1 = orders ?d" using A(2) by (simp only: subsOnly_def)
  then have "tget (\<lambda>r. o_ID r = oid) (orders d1) = Some (?lock po)" using L by (simp only:)
  then have "\<exists>po'. tget (\<lambda>r. o_ID r = oid) (orders d2) = Some po' \<and> o_Status po' = Completed"
    by (simp add: M(2) tget_orders isStatus_def id)
  ultimately show ?thesis using A(3) M(3) by (auto simp: paidUntil_def)
qed

text \<open>Delivery when every statement is acknowledged up to the first one of the commission recorders, which fails.\<close>

lemma run_markFailed:
  assumes "script w = []" and "ticks w = []"
  shows "\<exists>d. run_state (markFailed oid e) w = ((), w\<lparr>db := d\<rparr>) \<and>
    orders d = tupd (isStatus oid {Recharging}) (\<lambda>r. r\<lparr>o_Status := Failed, o_FailedAt := Some (clock w), o_FailedReason := Some (errText e), o_UpdatedAt := clock w\<rparr>) (orders (db w)) \<and>
    subs d = subs (db w) \<and> nextSub d = nextSub (db w) \<and> groups d = groups (db w) \<and>
    (\<forall>i. audited i ''SUBSCRIPTION_SUCCESS'' d \<longleftrightarrow> audited i ''SUBSCRIPTION_SUCCESS'' (db w))"
proof -
  let ?os = "tupd (isStatus oid {Recharging}) (\<lambda>r. r\<lparr>o_Status := Failed, o_FailedAt := Some (clock w), o_FailedReason := Some (errText e), o_UpdatedAt := clock w\<rparr>) (orders (db w))"
  let ?as = "if tcount (isStatus oid {Recharging}) (orders (db w)) = 0 then [] else [auditRow (clock w) oid ''FULFILLMENT_FAILED'' ''system'']"
  have "run_state (markFailed oid e) w = ((), w\<lparr>db := (db w)\<lparr>orders := ?os, audits := audits (db w) @ ?as\<rparr>\<rparr>)"
    using assms by (simp add: markFailed_def run_bindE run_timeNow_still run_orders)
  then show ?thesis by (intro exI [of _ "(db w)\<lparr>orders := ?os, audits := audits (db w) @ ?as\<rparr>"]) (auto simp: audited_def auditRow_def)
qed

lemma run_relation_fails:
  assumes "script w = [Turn (\<lambda>d. d) f]" and "f \<noteq> Done" and "o_OrderType po = OrderTypeSubscription"
  shows "run_state (markCompleted x po a) w = (Inl (Errorf ''query promotion relation'' ConnErr), w\<lparr>script := []\<rparr>)"
  using assms by (cases f) (auto simp: markCompleted_def recordCommissionSplitsIfNeeded_def commissionable_def relationOf_def exec_def run_bindE Let_def isNotFound_def entNotFound_def)

lemma run_subFulfil_fails:
  assumes w: "script w = []" "ticks w = []" and ok: "subsOk (db w)" "clock w < MaxExpiresAt"
    and po: "tget (\<lambda>r. o_ID r = oid) (orders (db w)) = Some po" "o_Status po = Paid \<or> o_Status po = Failed" "subOrder po gid days"
    and g: "groupOpen gid (db w)" and a: "\<not> audited oid ''SUBSCRIPTION_SUCCESS'' (db w)" and f: "f \<noteq> Done"
  shows "\<exists>n e d po'. run_state (ExecuteSubscriptionFulfillment x oid) (w\<lparr>script := faults (replicate n Done @ [f])\<rparr>) = (Inl e, w\<lparr>db := d\<rparr>) \<and>
    tget (\<lambda>r. o_ID r = oid) (orders d) = Some po' \<and> o_Status po' = Failed \<and> subOrder po' gid days \<and> o_UserID po' = o_UserID po \<and>
    subsOk d \<and> groups d = groups (db w) \<and> \<not> audited oid ''SUBSCRIPTION_SUCCESS'' d \<and>
    paidUntil (clock w) (o_UserID po) gid d = capExpiry (addDays (paidUntil (clock w) (o_UserID po) gid (db w)) (normalizeAssignValidityDays days))"
proof -
  let ?lock = "\<lambda>r. r\<lparr>o_Status := Recharging, o_UpdatedAt := clock w\<rparr>" and ?T = "Turn (\<lambda>d :: store. d) Done"
  let ?d = "(db w)\<lparr>orders := tupd (isStatus oid {Paid, Failed}) ?lock (orders (db w))\<rparr>"
  let ?in = "\<lparr>ai_UserID = o_UserID po, ai_GroupID = gid, ai_ValidityDays = days, ai_AssignedBy = 0, ai_Notes = ''payment order '' @ formatInt oid\<rparr>"
  have id: "o_ID po = oid" using tget_Some [OF po(1)] by simp
  have n: "tcount (isStatus oid {Paid, Failed}) (orders (db w)) \<noteq> 0" using tcount_status [OF po(1)] po(2) by auto
  have L: "tget (\<lambda>r. o_ID r = oid) (orders ?d) = Some (?lock po)" using po(1,2) by (auto simp: tget_orders isStatus_def id)
  obtain g' where g': "tget (\<lambda>g. g_ID g = gid) (groups (db w)) = Some g'" "IsSubscriptionType g'" "g_Status g' = EntityStatusActive"
    using g by (auto simp: groupOpen_def)
  obtain r d1 where A: "run_state (AssignOrExtendSubscription x ?in) (w\<lparr>db := ?d\<rparr>) = (Inr r, w\<lparr>db := d1\<rparr>)" "subsOnly ?d d1"
    "paidUntil (clock w) (o_UserID po) gid d1 = capExpiry (addDays (paidUntil (clock w) (o_UserID po) gid (db w)) (normalizeAssignValidityDays days))"
    using run_Assign [of "w\<lparr>db := ?d\<rparr>" ?in g' x] w ok g' by (auto simp: subsOk_def paidUntil_def)
  obtain k where k: "\<And>ts. run_state (AssignOrExtendSubscription x ?in) (w\<lparr>script := replicate k ?T @ ts, db := ?d\<rparr>) = (Inr r, w\<lparr>script := ts, db := d1\<rparr>)"
  proof -
    have c: "w\<lparr>db := ?d, script := ts\<rparr> = w\<lparr>script := ts, db := ?d\<rparr>" for ts by simp
    show ?thesis using that ackedD(2) [OF acked_Assign _ _ A(1)] w unfolding c by auto
  qed
  let ?e = "Errorf ''query promotion relation'' ConnErr"
  obtain d2 where F: "run_state (markFailed oid ?e) (w\<lparr>db := d1\<rparr>) = ((), w\<lparr>db := d2\<rparr>)"
    "orders d2 = tupd (isStatus oid {Recharging}) (\<lambda>r. r\<lparr>o_Status := Failed, o_FailedAt := Some (clock w), o_FailedReason := Some (errText ?e), o_UpdatedAt := clock w\<rparr>) (orders d1)"
    "subs d2 = subs d1" "nextSub d2 = nextSub d1" "groups d2 = groups d1"
    "audited oid ''SUBSCRIPTION_SUCCESS'' d2 \<longleftrightarrow> audited oid ''SUBSCRIPTION_SUCCESS'' d1"
    using run_markFailed [of "w\<lparr>db := d1\<rparr>" oid ?e] w by auto
  have a': "tcount (\<lambda>l. a_OrderID l = formatInt oid \<and> a_Action l = ''SUBSCRIPTION_SUCCESS'') (audits (db w)) = 0"
    using a by (auto simp: audited_def tcount_0)
  have m: "run_state (markCompleted x po ''SUBSCRIPTION_SUCCESS'') (w\<lparr>script := [Turn (\<lambda>d. d) f], db := d1\<rparr>) = (Inl ?e, w\<lparr>db := d1\<rparr>)"
    using run_relation_fails [of "w\<lparr>script := [Turn (\<lambda>d. d) f], db := d1\<rparr>" f po x] f po(3) w(1) by (simp add: subOrder_def)
  have "run_state (doSub x po gid days) (w\<lparr>script := ?T # ?T # replicate k ?T @ [Turn (\<lambda>d. d) f], db := ?d\<rparr>) = (Inl ?e, w\<lparr>db := d1\<rparr>)"
    using g' a' k m by (simp add: doSub_def groupGetByID_def hasAuditLog_def run_turns run_bindE id)
  then have "run_state (ExecuteSubscriptionFulfillment x oid) (w\<lparr>script := ?T # ?T # ?T # ?T # replicate k ?T @ [Turn (\<lambda>d. d) f]\<rparr>) =
      (Inl ?e, w\<lparr>db := d2\<rparr>)"
    using w po n F(1)
    by (auto simp: ExecuteSubscriptionFulfillment_def run_bindE orderGet_def run_turns run_timeNow_still lockForRecharge_def orderUpdate_def
        psIsRefundStatus_def subOrder_def)
  moreover have "?T # ?T # ?T # ?T # replicate k ?T @ [Turn (\<lambda>d. d) f] = faults (replicate (4 + k) Done @ [f])"
    by (simp add: faults_def numeral_eq_Suc)
  ultimately have run: "run_state (ExecuteSubscriptionFulfillment x oid) (w\<lparr>script := faults (replicate (4 + k) Done @ [f])\<rparr>) = (Inl ?e, w\<lparr>db := d2\<rparr>)"
    by (simp only:)
  have od: "orders d1 = orders ?d" "audits d1 = audits ?d" "groups d1 = groups ?d" "subsOk d1"
    using A(2) ok(1) by (simp_all add: subsOnly_def) (simp add: subsOk_def)
  have "tget (\<lambda>r. o_ID r = oid) (orders d1) = Some (?lock po)" using L od(1) by (simp only:)
  then have "\<exists>po'. tget (\<lambda>r. o_ID r = oid) (orders d2) = Some po' \<and> o_Status po' = Failed \<and> subOrder po' gid days \<and> o_UserID po' = o_UserID po"
    using po(3) by (simp add: F(2) tget_orders isStatus_def id subOrder_def)
  moreover have "subsOk d2" using od(4) F(3,4) by (simp add: subsOk_def)
  moreover have "\<not> audited oid ''SUBSCRIPTION_SUCCESS'' d2" using a od(2) F(6) by (simp add: audited_def)
  moreover have "groups d2 = groups (db w)" using od(3) F(5) by simp
  moreover have "paidUntil (clock w) (o_UserID po) gid d2 = paidUntil (clock w) (o_UserID po) gid d1" by (simp add: paidUntil_def F(3))
  ultimately show ?thesis using run A(3) by (auto intro!: exI [of _ "4 + k"] exI [of _ d2])
qed

text \<open>The retry.\<close>

lemma run_subRetry:
  assumes w: "script w = []" "ticks w = []" and ok: "subsOk (db w)" "clock w < MaxExpiresAt"
    and po: "tget (\<lambda>r. o_ID r = oid) (orders (db w)) = Some po" "o_Status po = Failed" "subOrder po gid days"
    and g: "groupOpen gid (db w)" and a: "\<not> audited oid ''SUBSCRIPTION_SUCCESS'' (db w)"
  shows "\<exists>d po'. run_state (RetryFulfillment x oid) w = (Inr (), w\<lparr>db := d\<rparr>) \<and>
    tget (\<lambda>r. o_ID r = oid) (orders d) = Some po' \<and> o_Status po' = Completed \<and>
    paidUntil (clock w) (o_UserID po) gid d = capExpiry (addDays (paidUntil (clock w) (o_UserID po) gid (db w)) (normalizeAssignValidityDays days))"
proof -
  let ?f = "\<lambda>r. r\<lparr>o_Status := Paid, o_FailedAt := None, o_FailedReason := None, o_UpdatedAt := clock w\<rparr>"
  let ?d = "(db w)\<lparr>orders := tupd (isStatus oid {Failed, Paid}) ?f (orders (db w)), audits := audits (db w) @ [auditRow (clock w) oid ''RECHARGE_RETRY'' ''admin'']\<rparr>"
  have id: "o_ID po = oid" using tget_Some [OF po(1)] by simp
  have L: "tget (\<lambda>r. o_ID r = oid) (orders ?d) = Some (?f po)" using po(1,2) by (simp add: tget_orders isStatus_def id)
  have "\<not> audited oid ''SUBSCRIPTION_SUCCESS'' ?d" using a by (auto simp: audited_def auditRow_def)
  then obtain d po' where S: "run_state (ExecuteSubscriptionFulfillment x oid) (w\<lparr>db := ?d\<rparr>) = (Inr (), w\<lparr>db := d\<rparr>)"
    "tget (\<lambda>r. o_ID r = oid) (orders d) = Some po'" "o_Status po' = Completed"
    "paidUntil (clock w) (o_UserID po) gid d = capExpiry (addDays (paidUntil (clock w) (o_UserID po) gid (db w)) (normalizeAssignValidityDays days))"
    using run_subFulfil [of "w\<lparr>db := ?d\<rparr>" oid "?f po" gid days x] w ok L po(3) g
    by (auto simp: subsOk_def subOrder_def groupOpen_def paidUntil_def)
  have "run_state (RetryFulfillment x oid) w = (Inr (), w\<lparr>db := d\<rparr>)"
    using S(1) w po L
    by (auto simp: RetryFulfillment_def executeFulfillment_def run_bindE run_orders psIsRefundStatus_def subOrder_def)
  then show ?thesis using S by blast
qed

text \<open>C40. A subscription order is not delivered exactly once. Take any paid order for a number of days of a group that is on sale, of a
  buyer with or without a subscription to it, in any store whose subscriptions are in order: there is a statement of the first
  delivery (the first one of the commission recorders) such that, if it fails in whatever way after the statements before it were
  acknowledged, the delivery ends with an error, the retry then completes the order, and the buyer's access has grown by twice the
  days of the order. (Days are within the limits of a subscription, so that no cap hides the second extension.)\<close>

theorem subscription_extended_twice:
  assumes w: "quiet w" "ticks w = []" "subsOk (db w)"
    and po: "tget (\<lambda>r. o_ID r = oid) (orders (db w)) = Some po" "o_Status po \<in> {Paid, Failed}" "subOrder po gid days"
    and g: "groupOpen gid (db w)" and a: "\<not> audited oid ''SUBSCRIPTION_SUCCESS'' (db w)"
    and n: "0 < days" "days \<le> MaxValidityDays" "paidUntil (clock w) (o_UserID po) gid (db w) + 2 * days * nsDay \<le> MaxExpiresAt"
    and f: "f \<noteq> Done"
  shows "\<exists>k e w' po'. run_state (do { r \<leftarrow> ExecuteSubscriptionFulfillment x oid; s \<leftarrow> RetryFulfillment x oid; ret (r, s) })
       (w\<lparr>script := faults (replicate k Done @ [f])\<rparr>) = ((Inl e, Inr ()), w') \<and>
     tget (\<lambda>r. o_ID r = oid) (orders (db w')) = Some po' \<and> o_Status po' = Completed \<and>
     paidUntil (clock w) (o_UserID po) gid (db w') = paidUntil (clock w) (o_UserID po) gid (db w) + 2 * days * nsDay"
proof -
  let ?t = "paidUntil (clock w) (o_UserID po) gid (db w)"
  have nd: "normalizeAssignValidityDays days = days" using n by (simp add: normalizeAssignValidityDays_def)
  have pos: "0 < days * nsDay" using n(1) by (simp add: ns_defs)
  have "clock w \<le> ?t" by (simp add: paidUntil_def split: option.splits)
  then have lt: "clock w < MaxExpiresAt" using n(3) pos by linarith
  have c1: "capExpiry (addDays ?t days) = ?t + days * nsDay" using n(3) pos by (simp add: capExpiry_def addDays_def)
  have c2: "capExpiry (addDays (?t + days * nsDay) days) = ?t + 2 * days * nsDay" using n(3) by (simp add: capExpiry_def addDays_def algebra_simps)
  have s: "script w = []" using w(1) by (simp add: quiet_def)
  obtain k e d p where 1: "run_state (ExecuteSubscriptionFulfillment x oid) (w\<lparr>script := faults (replicate k Done @ [f])\<rparr>) = (Inl e, w\<lparr>db := d\<rparr>)"
    "tget (\<lambda>r. o_ID r = oid) (orders d) = Some p" "o_Status p = Failed" "subOrder p gid days" "o_UserID p = o_UserID po"
    "subsOk d" "groups d = groups (db w)" "\<not> audited oid ''SUBSCRIPTION_SUCCESS'' d" "paidUntil (clock w) (o_UserID po) gid d = ?t + days * nsDay"
    using run_subFulfil_fails [OF s w(2,3) lt po(1) _ po(3) g a f] po(2) unfolding nd c1 by blast
  obtain d' p' where 2: "run_state (RetryFulfillment x oid) (w\<lparr>db := d\<rparr>) = (Inr (), w\<lparr>db := d'\<rparr>)"
    "tget (\<lambda>r. o_ID r = oid) (orders d') = Some p'" "o_Status p' = Completed" "paidUntil (clock w) (o_UserID po) gid d' = ?t + 2 * days * nsDay"
    using run_subRetry [of "w\<lparr>db := d\<rparr>" oid p gid days x] s w(2) lt 1 g nd c2 by (auto simp: groupOpen_def)
  show ?thesis using 1(1) 2 by (intro exI [of _ k] exI [of _ e] exI [of _ "w\<lparr>db := d'\<rparr>"] exI [of _ p']) simp
qed

definition paidSubStore :: store where
  "paidSubStore = sampleStore\<lparr>orders := [sampleSubOrder Paid]\<rparr>"

theorem subscription_extended_twice_witness:
  "\<exists>k e w'. run_state (do { r \<leftarrow> ExecuteSubscriptionFulfillment (sampleExt ''paid'' True) 7; s \<leftarrow> RetryFulfillment (sampleExt ''paid'' True) 7; ret (r, s) })
       (sampleWorld paidSubStore (faults (replicate k Done @ [Lost 0]))) = ((Inl e, Inr ()), w') \<and>
     paidUntil (600 * nsSecond) 1 2 (db w') = 600 * nsSecond + 60 * nsDay"
proof -
  have "subsOk paidSubStore" "groupOpen 2 paidSubStore" "subOrder (sampleSubOrder Paid) 2 30" "\<not> audited 7 ''SUBSCRIPTION_SUCCESS'' paidSubStore"
    "paidUntil (600 * nsSecond) 1 2 paidSubStore = 600 * nsSecond"
    "tget (\<lambda>r. o_ID r = 7) (orders paidSubStore) = Some (sampleSubOrder Paid)"
    by (simp_all add: paidSubStore_def subsOk_def groupOpen_def table_simps sample_sel IsSubscriptionType_def EntityStatusActive_def subOrder_def
        OrderTypeSubscription_def audited_def paidUntil_def)
  then show ?thesis
    using subscription_extended_twice [of "sampleWorld paidSubStore []" 7 "sampleSubOrder Paid" 2 30 "Lost 0" "sampleExt ''paid'' True"]
    by (fastforce simp: quiet_def sample_sel MaxValidityDays_def MaxExpiresAt_def ns_defs sampleWorld_def)
qed

section \<open>Orders found by polling\<close>

text \<open>An order whose payment is found by asking the platform loses the trade number: the order is completed without one, whatever number the
  platform reported, and a refund of it counts as done at the gateway although the platform is never asked to refund.\<close>

theorem polled_order_skips_gateway:
  assumes q: "quiet w" "ticks w = []" and x: "columnsOk x" and d: "distinct (orderIDs (db w))"
    and po: "filter (\<lambda>r. o_OutTradeNo r = o_OutTradeNo po) (orders (db w)) = [po]" "o_PaymentTradeNo po = []"
      "o_Status po = Pending" "o_OrderType po = OrderTypeBalance" "creditable po (db w)"
    and pr: "run_state (getOrderProvider x po) w = (Inr prov, w)" "pv_QueryOrder prov (o_OutTradeNo po) = Inr resp"
      "qo_Status resp = ProviderStatusPaid"
    and a: "flt fzero (qo_Amount resp)" "\<not> fisNaN (qo_Amount resp)" "\<not> fisInf (qo_Amount resp)"
      "\<not> flt amountToleranceCNY (fabs (fsub (qo_Amount resp) (o_PayAmount po)))"
  shows "\<exists>w' po'. run_state (checkPaid x po) w = (AlreadyPaid, w') \<and> tget (\<lambda>r. o_ID r = o_ID po) (orders (db w')) = Some po' \<and>
    o_Status po' = Completed \<and> o_PaymentTradeNo po' = [] \<and>
    (\<forall>p. rp_Order p = po' \<longrightarrow> (\<exists>w''. run_state (gwRefund x p) w' = (Inr (), w'') \<and> gwCalls (db w'') = gwCalls (db w')))"
proof -
  let ?n = "\<lparr>pn_TradeNo = o_PaymentTradeNo po, pn_OrderID = o_OutTradeNo po, pn_Amount = qo_Amount resp,
      pn_Status = ProviderStatusSuccess, pn_RawData = ''''\<rparr>"
  let ?w = "w\<lparr>db := (db w)\<lparr>gwCalls := gwCalls (db w) @ [CallQuery (pv_ProviderKey prov) (o_OutTradeNo po)]\<rparr>\<rparr>"
  have agr: "amountAgrees ?n po" using a by (simp add: amountAgrees_def)
  have st: "pn_Status ?n = NotificationStatusSuccess" by (simp add: ProviderStatusSuccess_def NotificationStatusSuccess_def)
  have cr: "creditable po (db ?w)" using po(5) by (simp add: creditable_def codesOk_def codeTaken_def)
  have w: "quiet ?w" "ticks ?w = []" "distinct (orderIDs (db ?w))"
    "filter (\<lambda>r. o_OutTradeNo r = pn_OrderID ?n) (orders (db ?w)) = [po]"
    using q d po(1) by (simp_all add: quiet_def orderIDs_def)
  obtain d' po' where r: "run_state (HandlePaymentNotification x ?n (pv_ProviderKey prov)) ?w = (Inr (), ?w\<lparr>db := d'\<rparr>)"
    "tget (\<lambda>r. o_ID r = o_ID po) (orders d') = Some po'" "o_Status po' = Completed" "o_PaymentTradeNo po' = pn_TradeNo ?n"
    using run_notification [OF w(1,2) x w(3) st w(4) agr po(3,4) cr] by blast
  have "run_state (checkPaid x po) w = (AlreadyPaid, w\<lparr>db := d'\<rparr>)"
    using pr r(1) po(2) by (simp add: checkPaid_def gwCall_def queryTradeNo_def)
  moreover have "run_state (gwRefund x p) (w\<lparr>db := d'\<rparr>) =
      (Inr (), w\<lparr>db := d'\<lparr>audits := audits d' @ [auditRow (clock w) (o_ID po') ''REFUND_NO_TRADE_NO'' ''admin'']\<rparr>\<rparr>)"
    if "rp_Order p = po'" for p
    using that r(4) po(2) q by (simp add: gwRefund_def run_audit quiet_def)
  ultimately show ?thesis using r po(2) by fastforce
qed

lemma sample_provider:
  "run_state (getOrderProvider (sampleExt ''paid'' True) (sampleOrder Pending)) (sampleWorld sampleStore []) =
    (Inr (sampleProvider ''alipay'' ''paid'' True), sampleWorld sampleStore [])"
proof -
  have "parseInt64 ''3'' = Some 3" by code_simp
  moreover have "o_ProviderInstanceID (sampleOrder Pending) = Some ''3''" "o_PaymentType (sampleOrder Pending) = ''alipay''"
    by (simp_all add: sampleOrder_def)
  moreover have "registry sampleStore = []" "insts sampleStore = [sampleInstance]" "pi_ID sampleInstance = 3" by (simp_all add: sampleStore_def sampleInstance_def)
  ultimately show ?thesis
    by (simp add: getOrderProvider_def GetInstanceConfig_def run_simps table_simps sampleExt_def GetProviderKey_def Let_def)
qed

theorem polled_order_skips_gateway_witness:
  "\<exists>w' po'. run_state (checkPaid (sampleExt ''paid'' True) (sampleOrder Pending)) (sampleWorld sampleStore []) = (AlreadyPaid, w') \<and>
     tget (\<lambda>r. o_ID r = 7) (orders (db w')) = Some po' \<and> o_PaymentTradeNo po' = []"
proof -
  let ?w = "sampleWorld sampleStore []" and ?po = "sampleOrder Pending"
  have w: "quiet ?w" "ticks ?w = []" "distinct (orderIDs (db ?w))" "filter (\<lambda>r. o_OutTradeNo r = o_OutTradeNo ?po) (orders (db ?w)) = [?po]"
    "creditable ?po (db ?w)"
    using sample_creditable by (simp_all add: quiet_def sampleStore_def orderIDs_def)
  have po: "o_PaymentTradeNo ?po = []" "o_Status ?po = Pending" "o_OrderType ?po = OrderTypeBalance" "o_ID ?po = 7"
    by (simp_all add: sampleOrder_def OrderTypeBalance_def)
  define resp where "resp = \<lparr>qo_TradeNo = ''T9'', qo_Status = ''paid'', qo_Amount = F64 5, qo_PaidAt = ''''\<rparr>"
  have pr: "pv_QueryOrder (sampleProvider ''alipay'' ''paid'' True) (o_OutTradeNo ?po) = Inr resp" "qo_Status resp = ProviderStatusPaid"
    by (simp_all add: sampleProvider_def resp_def ProviderStatusPaid_def)
  have a: "flt fzero (qo_Amount resp)" "\<not> fisNaN (qo_Amount resp)" "\<not> fisInf (qo_Amount resp)"
      "\<not> flt amountToleranceCNY (fabs (fsub (qo_Amount resp) (o_PayAmount ?po)))"
    using sampleNotice_agrees [of Pending] by (simp_all add: amountAgrees_def sampleNotice_def resp_def)
  from polled_order_skips_gateway [OF w(1,2) columnsOk_sample w(3,4) po(1-3) w(5) sample_provider pr a] po(4)
  show ?thesis by auto
qed

end
