(* ===== verification/Refund_Effects.thy ===== *)
theory Refund_Effects
  imports Delivery
begin

text \<open>
  What a refund does to balances and orders: the effect of a refund that the platform declines, and the bounds of refund plans and of the amount the
  platform is asked to return.
\<close>

section \<open>A refund that the platform declines\<close>









definition paidOrder :: "order_status \<Rightarrow> payment_order" where
  "paidOrder st = (sampleOrder st)\<lparr>o_PaymentTradeNo := ''T9''\<rparr>"

lemma paidOrder_sel: "o_ID (paidOrder st) = 7" "o_UserID (paidOrder st) = 1" "o_Status (paidOrder st) = st"
  "o_ProviderInstanceID (paidOrder st) = Some ''3''" "o_PaymentType (paidOrder st) = ''alipay''" "o_PaymentTradeNo (paidOrder st) = ''T9''"
  by (simp_all add: paidOrder_def sampleOrder_def)




section \<open>Refund plans\<close>

text \<open>The instance of the payment platform that an order was paid through, as far as it is still known.\<close>

definition refundInstance :: "store \<Rightarrow> payment_order \<Rightarrow> provider_instance option" where
  "refundInstance d po = (case o_ProviderInstanceID po of
       None \<Rightarrow> None
     | Some s \<Rightarrow> if s = [] then None
                 else (case parseInt64 s of None \<Rightarrow> None | Some i \<Rightarrow> tget (\<lambda>r. pi_ID r = i) (insts d)))"

definition refundableOrder :: "store \<Rightarrow> payment_order \<Rightarrow> bool" where
  "refundableOrder d po \<longleftrightarrow> o_Status po \<in> {Completed, RefundRequested, RefundFailed} \<and>
     (case refundInstance d po of None \<Rightarrow> False | Some i \<Rightarrow> pi_RefundEnabled i)"

text \<open>No amount, or one that is not positive, asks for the whole order. An amount may exceed the order by the tolerance.\<close>

definition refundAsked :: "f64 \<Rightarrow> payment_order \<Rightarrow> f64" where
  "refundAsked amt po = (if fle amt fzero then o_Amount po else amt)"

definition refundWithin :: "f64 \<Rightarrow> payment_order \<Rightarrow> bool" where
  "refundWithin amt po \<longleftrightarrow> \<not> fisNaN amt \<and> \<not> fisInf amt \<and> \<not> flt amountToleranceCNY (fsub (refundAsked amt po) (o_Amount po))"

lemma run_orderInstance:
  assumes "script w = []"
  shows "\<exists>r. run_state (getOrderProviderInstance po) w = (r, w) \<and> (\<forall>i. r = Inr (Some i) \<longleftrightarrow> refundInstance (db w) po = Some i)"
  using assms by (auto simp: getOrderProviderInstance_def refundInstance_def run_simps split: option.splits)

text \<open>What the deduction adds to a plan.\<close>

definition deductsFrom :: "store \<Rightarrow> refund_plan \<Rightarrow> refund_plan \<Rightarrow> bool" where
  "deductsFrom d p q \<longleftrightarrow> (\<exists>ty b n i. q = p\<lparr>rp_DeductionType := ty, rp_BalanceToDeduct := b, rp_SubDaysToDeduct := n, rp_SubscriptionID := i\<rparr> \<and>
     (if ty = DeductBalance
      then o_OrderType (rp_Order p) \<noteq> OrderTypeSubscription \<and>
        (\<exists>u. tget (\<lambda>u. u_ID u = o_UserID (rp_Order p)) (users d) = Some u \<and> b = fmin (rp_RefundAmount p) (readBalance u))
      else b = rp_BalanceToDeduct p))"

lemma deductsFrom_sel:
  assumes "deductsFrom d p q"
  shows "rp_Order q = rp_Order p \<and> rp_OrderID q = rp_OrderID p \<and> rp_RefundAmount q = rp_RefundAmount p \<and> rp_GatewayAmount q = rp_GatewayAmount p \<and>
     (if rp_DeductionType q = DeductBalance
      then o_OrderType (rp_Order p) \<noteq> OrderTypeSubscription \<and> (\<exists>u. tget (\<lambda>u. u_ID u = o_UserID (rp_Order p)) (users d) = Some u \<and>
        rp_BalanceToDeduct q = fmin (rp_RefundAmount p) (readBalance u))
      else rp_BalanceToDeduct q = rp_BalanceToDeduct p)"
  using assms by (auto simp: deductsFrom_def)

lemma if_run: "run_state (if b then m else m') w = (if b then run_state m w else run_state m' w)"
  by simp

lemma run_prepDeduct:
  assumes "script w = []" and "rp_DeductionType p = DeductNone" and "run_state (prepDeduct x p) w = (r, w')"
  shows "(\<forall>q. r = Inr q \<longrightarrow> deductsFrom (db w) p q) \<and> (rp_Force p \<longrightarrow> (\<exists>q. r = Inr q))"
proof (cases "o_OrderType (rp_Order p) = OrderTypeSubscription")
  case True
  have "deductsFrom d p (p\<lparr>rp_DeductionType := DeductSubscription\<rparr>)" "deductsFrom d p (p\<lparr>rp_DeductionType := DeductSubscription, rp_SubDaysToDeduct := n\<rparr>)"
    "deductsFrom d p (p\<lparr>rp_DeductionType := DeductSubscription, rp_SubDaysToDeduct := n, rp_SubscriptionID := i\<rparr>)" for d n i
    unfolding deductsFrom_def
    by (rule exI [of _ DeductSubscription], rule exI [of _ "rp_BalanceToDeduct p"], (cases p; auto))+
  then show ?thesis using True assms(3)
    by (auto simp: prepDeduct_def Let_def split_def split: option.splits sum.splits if_splits)
next
  case False
  have none: "deductsFrom d p p" for d
    unfolding deductsFrom_def
    by (rule exI [of _ DeductNone], rule exI [of _ "rp_BalanceToDeduct p"]) (use assms(2) in \<open>cases p; auto\<close>)
  have bal: "deductsFrom (db w) p (p\<lparr>rp_DeductionType := DeductBalance, rp_BalanceToDeduct := fmin (rp_RefundAmount p) (readBalance u)\<rparr>)"
    if "tget (\<lambda>u. u_ID u = o_UserID (rp_Order p)) (users (db w)) = Some u" for u
    unfolding deductsFrom_def
    by (rule exI [of _ DeductBalance], rule exI [of _ "fmin (rp_RefundAmount p) (readBalance u)"]) (use False that in \<open>cases p; auto\<close>)
  show ?thesis using False assms none bal
    by (auto simp: prepDeduct_def userGetByID_def run_simps split: option.splits if_splits)
qed

text \<open>A plan of the refund of order \<open>oid\<close> as it follows from the store.\<close>

definition plannedFor :: "ext \<Rightarrow> store \<Rightarrow> int \<Rightarrow> f64 \<Rightarrow> bool \<Rightarrow> refund_plan \<Rightarrow> bool" where
  "plannedFor x d oid amt deduct p \<longleftrightarrow>
     tget (\<lambda>po. o_ID po = oid) (orders d) = Some (rp_Order p) \<and> refundableOrder d (rp_Order p) \<and> refundWithin amt (rp_Order p) \<and>
     rp_OrderID p = oid \<and> rp_RefundAmount p = refundAsked amt (rp_Order p) \<and>
     rp_GatewayAmount p = calculateGatewayRefundAmount x (o_Amount (rp_Order p)) (o_PayAmount (rp_Order p)) (rp_RefundAmount p) \<and>
     (if rp_DeductionType p = DeductBalance
      then deduct \<and> o_OrderType (rp_Order p) \<noteq> OrderTypeSubscription \<and>
        (\<exists>u. tget (\<lambda>u. u_ID u = o_UserID (rp_Order p)) (users d) = Some u \<and> rp_BalanceToDeduct p = fmin (rp_RefundAmount p) (readBalance u))
      else rp_BalanceToDeduct p = fzero)"

definition barePlan :: "ext \<Rightarrow> int \<Rightarrow> f64 \<Rightarrow> string \<Rightarrow> bool \<Rightarrow> bool \<Rightarrow> payment_order \<Rightarrow> refund_plan" where
  "barePlan x oid amt reason force deduct po = \<lparr>rp_OrderID = oid, rp_Order = po, rp_RefundAmount = refundAsked amt po,
      rp_GatewayAmount = calculateGatewayRefundAmount x (o_Amount po) (o_PayAmount po) (refundAsked amt po), rp_Reason = refundReason reason po,
      rp_Force = force, rp_DeductBalance = deduct, rp_DeductionType = DeductNone, rp_BalanceToDeduct = fzero, rp_SubDaysToDeduct = 0,
      rp_SubscriptionID = 0\<rparr>"

lemma run_PrepareRefund:
  assumes q: "script w = []" and po: "tget (\<lambda>po. o_ID po = oid) (orders (db w)) = Some po"
    and r: "fst (run_state (PrepareRefund x oid amt reason force deduct) w) = r"
  shows "if refundableOrder (db w) po \<and> refundWithin amt po
    then r = Inr (if deduct then fst (run_state (prepDeduct x (barePlan x oid amt reason force deduct po)) w) else Inr (barePlan x oid amt reason force deduct po))
    else isl r"
proof -
  obtain ri where ri: "run_state (getOrderProviderInstance po) w = (ri, w)" "\<And>i. ri = Inr (Some i) \<longleftrightarrow> refundInstance (db w) po = Some i"
    using run_orderInstance [OF q] by blast
  show ?thesis
  proof (cases "refundInstance (db w) po")
    case None
    then have "ri \<noteq> Inr (Some i)" for i using ri(2) by simp
    then have "(\<exists>e. ri = Inl e) \<or> ri = Inr None" by (metis not_None_eq sum.exhaust)
    then have "isl r" using r q po ri(1) by (elim disjE exE) (auto simp: PrepareRefund_def run_orderGet run_bindE)
    then show ?thesis using None by (simp add: refundableOrder_def)
  next
    case (Some i)
    then have ri': "run_state (getOrderProviderInstance po) w = (Inr (Some i), w)" using ri by simp
    show ?thesis using Some r q po
      by (auto simp: PrepareRefund_def run_orderGet run_bindE ri' Let_def if_run split_def refundAsked_def [symmetric] barePlan_def [symmetric]
          refundableOrder_def refundWithin_def psSliceContains_def)
  qed
qed

text \<open>C30. In a run in which nothing fails a refund is planned only for an order that exists, is completed or has asked for a refund or had one
  fail, and was paid through an instance that is still known and allows refunds. The amount is the one asked for, or the whole order, and
  exceeds the order by no more than the tolerance of a cent; the platform is asked for the share of what was paid; and what is taken from the
  balance is the lesser of the amount and the balance. If nothing is to be deducted, or the refund is forced, a
  plan is made for every such order and amount.\<close>

theorem PrepareRefund_plans:
  assumes "quiet w" and "fst (run_state (PrepareRefund x oid amt reason force deduct) w) = r"
  shows "(\<forall>p. r = Inr (Inr p) \<longrightarrow> plannedFor x (db w) oid amt deduct p) \<and>
     ((deduct \<longrightarrow> force) \<longrightarrow> ((\<exists>p. r = Inr (Inr p)) \<longleftrightarrow>
       (\<exists>po. tget (\<lambda>po. o_ID po = oid) (orders (db w)) = Some po \<and> refundableOrder (db w) po \<and> refundWithin amt po)))"
proof (cases "tget (\<lambda>po. o_ID po = oid) (orders (db w))")
  case None
  then show ?thesis using assms by (auto simp: quiet_def PrepareRefund_def run_orderGet run_bindE)
next
  case (Some po)
  let ?p = "barePlan x oid amt reason force deduct po"
  have q: "script w = []" using assms by (simp add: quiet_def)
  note r = run_PrepareRefund [OF q Some assms(2)]
  show ?thesis
  proof (cases "refundableOrder (db w) po \<and> refundWithin amt po")
    case False
    then show ?thesis using r Some by auto
  next
    case True
    obtain rd wd where rd: "run_state (prepDeduct x ?p) w = (rd, wd)" by fastforce
    then have eq: "r = Inr (if deduct then rd else Inr ?p)" using r True by (cases deduct) simp_all
    have d: "(\<forall>q. rd = Inr q \<longrightarrow> deductsFrom (db w) ?p q) \<and> (force \<longrightarrow> (\<exists>q. rd = Inr q))"
      using run_prepDeduct [OF q _ rd] by (simp add: barePlan_def)
    have "plannedFor x (db w) oid amt deduct p" if "r = Inr (Inr p)" for p
    proof (cases deduct)
      case True
      then have "deductsFrom (db w) ?p p" using that eq d by simp
      from deductsFrom_sel [OF this] True \<open>refundableOrder (db w) po \<and> refundWithin amt po\<close> Some show ?thesis
        by (auto simp: plannedFor_def barePlan_def split: if_splits)
    next
      case False
      then have "p = ?p" using that eq by simp
      then show ?thesis using True Some by (simp add: plannedFor_def barePlan_def)
    qed
    moreover have "\<exists>p. r = Inr (Inr p)" if "deduct \<longrightarrow> force" using that eq d by (cases deduct) auto
    ultimately show ?thesis using True Some by blast
  qed
qed

theorem PrepareRefund_plans_witness:
  "(\<exists>p. fst (run_state (PrepareRefund (sampleExt ''paid'' True) 7 fzero '''' False False)
      (sampleWorld (sampleStore\<lparr>orders := [paidOrder Completed]\<rparr>) [])) = Inr (Inr p)) \<and>
   \<not> (\<exists>p. fst (run_state (PrepareRefund (sampleExt ''paid'' True) 7 fzero '''' False False)
      (sampleWorld (sampleStore\<lparr>orders := [paidOrder Completed], insts := [sampleInstance\<lparr>pi_RefundEnabled := False\<rparr>]\<rparr>) [])) = Inr (Inr p))"
proof -
  have "parseInt64 ''3'' = Some 3" by code_simp
  moreover have "insts sampleStore = [sampleInstance]" "pi_ID sampleInstance = 3" "pi_RefundEnabled sampleInstance" "o_Amount (paidOrder Completed) = F64 5"
      "o_ProviderInstanceID (paidOrder Completed) = Some ''3''"
    by (simp_all add: sampleStore_def sampleInstance_def paidOrder_def sampleOrder_def)
  ultimately have "refundableOrder (sampleStore\<lparr>orders := os\<rparr>) (paidOrder Completed)" "refundWithin fzero (paidOrder Completed)"
    "\<not> refundableOrder (sampleStore\<lparr>orders := os, insts := [sampleInstance\<lparr>pi_RefundEnabled := False\<rparr>]\<rparr>) (paidOrder Completed)" for os
    by (simp_all add: refundableOrder_def refundInstance_def table_simps paidOrder_sel refundWithin_def refundAsked_def fisNaN_def fisInf_def
        fsub_def amountTolerance_value)
  then show ?thesis
    using PrepareRefund_plans [of "sampleWorld (sampleStore\<lparr>orders := [paidOrder Completed]\<rparr>) []", OF _ refl, of "sampleExt ''paid'' True" 7 fzero "''''" False False]
      PrepareRefund_plans [of "sampleWorld (sampleStore\<lparr>orders := [paidOrder Completed], insts := [sampleInstance\<lparr>pi_RefundEnabled := False\<rparr>]\<rparr>) []",
        OF _ refl, of "sampleExt ''paid'' True" 7 fzero "''''" False False]
    by (simp add: quiet_def table_simps paidOrder_sel)
qed

text \<open>What the decimal package promises of the operations that compute the refund: conversions and rounding keep the order of amounts, and a quotient
  is not rounded above a decimal bound.\<close>

definition decimalsOk :: "ext \<Rightarrow> bool" where
  "decimalsOk x \<longleftrightarrow>
     (\<forall>p q. p \<le> q \<longrightarrow> x_decFloat x (F64 p) \<le> x_decFloat x (F64 q)) \<and> (\<forall>p \<ge> 0. 0 \<le> x_decFloat x (F64 p)) \<and>
     (\<forall>a b p. 0 < b \<longrightarrow> a \<le> x_decFloat x (F64 p) * b \<longrightarrow> x_decDiv x a b \<le> x_decFloat x (F64 p)) \<and>
     (\<forall>p q. p \<le> q \<longrightarrow> x_decRound x p \<le> x_decRound x q) \<and>
     (\<forall>p q. p \<le> q \<longrightarrow> fle (x_decToFloat x p) (x_decToFloat x q))"

text \<open>The platform is never asked to return more than was paid: for an order with positive amounts, the refund computed for any part of the order is at most
  the paid amount, to the cent.\<close>

theorem gateway_refund_bounded:
  assumes x: "decimalsOk x" and pos: "0 < po" "0 < pp" "0 < x_decFloat x (F64 po)" and r: "0 < r" "r \<le> po"
  shows "fle (calculateGatewayRefundAmount x (F64 po) (F64 pp) (F64 r)) (x_decToFloat x (x_decRound x (x_decFloat x (F64 pp))))"
proof -
  let ?D = "\<lambda>q. x_decFloat x (F64 q)"
  have "?D r \<le> ?D po" using x r by (simp add: decimalsOk_def)
  moreover have "0 \<le> ?D pp" using x pos by (simp add: decimalsOk_def)
  ultimately have "?D pp * ?D r \<le> ?D pp * ?D po" by (rule mult_left_mono)
  then have "x_decDiv x (?D pp * ?D r) (?D po) \<le> ?D pp" using x pos(3) by (simp add: decimalsOk_def)
  then have "fle (x_decToFloat x (x_decRound x (x_decDiv x (?D pp * ?D r) (?D po)))) (x_decToFloat x (x_decRound x (?D pp)))"
    using x by (simp add: decimalsOk_def)
  moreover have "fle (x_decToFloat x (x_decRound x (?D pp))) (x_decToFloat x (x_decRound x (?D pp)))" using x by (simp add: decimalsOk_def)
  ultimately show ?thesis using pos r by (simp add: calculateGatewayRefundAmount_def)
qed

definition exactExt :: ext where
  "exactExt = (sampleExt ''paid'' True)\<lparr>x_decToFloat := F64\<rparr>"

lemma decimalsOk_exact: "decimalsOk exactExt"
proof -
  have "0 \<le> toScale 8 (F64 p)" if "0 \<le> p" for p using toScale_mono [OF that, of 8] by (simp add: toScale_def)
  then show ?thesis
    by (auto simp: decimalsOk_def exactExt_def sampleExt_def toScale_mono divide_le_eq)
qed

theorem gateway_refund_bounded_witness:
  "fle (calculateGatewayRefundAmount exactExt (F64 5) (F64 6) (F64 2)) (F64 6)"
proof -
  have "x_decFloat exactExt (F64 5) = 5" "x_decToFloat exactExt (x_decRound exactExt (x_decFloat exactExt (F64 6))) = F64 6"
    using rne_int [of 600] by (simp_all add: exactExt_def sampleExt_def) (simp add: toScale_def)
  then show ?thesis using gateway_refund_bounded [OF decimalsOk_exact, of 5 6 2] by simp
qed

end
