(* ===== verification/Order_Admission.thy ===== *)
theory Order_Admission
  imports Delivery
begin

text \<open>
  What creating an order guarantees: recharge codes that fit and differ, the limits on pending and daily orders, and the row that is stored.
\<close>

section \<open>Recharge codes\<close>

lemma rechargeCode_digits:
  assumes "0 \<le> i" and "0 \<le> now"
  shows "rechargeCodeFor i now = ''PAY-'' @ natDigits (nat i) @ ''-'' @ natDigits (nat (now mod 100000))"
  using assms by (auto simp: rechargeCodeFor_def formatInt_def sgn_if)

text \<open>The recharge codes of orders are usable as redeem codes: they fit the column, strings.TrimSpace leaves them alone, and two orders never
  get the same code, whenever they are created.\<close>

theorem recharge_code_unique:
  assumes "0 < i" and "i < 2 ^ 63" and "0 \<le> now"
  shows "length (rechargeCodeFor i now) \<le> 32 \<and> trimSpace (rechargeCodeFor i now) = rechargeCodeFor i now \<and>
    (\<forall>j t. 0 < j \<longrightarrow> 0 \<le> t \<longrightarrow> rechargeCodeFor j t = rechargeCodeFor i now \<longrightarrow> j = i)"
proof (intro conjI allI impI)
  have c: "rechargeCodeFor i now = ''PAY-'' @ natDigits (nat i) @ ''-'' @ natDigits (nat (now mod 100000))"
    using assms by (intro rechargeCode_digits) simp_all
  have "nat i < 10 ^ 19" using assms by simp
  then have "length (natDigits (nat i)) \<le> 19" by (rule natDigits_length) simp
  moreover have "nat (now mod 100000) < 10 ^ 5" using pos_mod_bound [of 100000 now] by simp
  then have "length (natDigits (nat (now mod 100000))) \<le> 5" by (rule natDigits_length) simp
  ultimately show "length (rechargeCodeFor i now) \<le> 32" by (simp add: c)
  have "last (natDigits (nat (now mod 100000))) \<in> set (natDigits (nat (now mod 100000)))" by simp
  then have "\<not> isSpace (last (natDigits (nat (now mod 100000))))" using natDigits_digits digitChar_not_space by metis
  then show "trimSpace (rechargeCodeFor i now) = rechargeCodeFor i now"
    by (intro trimSpace_ends) (simp_all add: c isSpace_def)
  fix j t :: int assume j: "0 < j" "0 \<le> t" "rechargeCodeFor j t = rechargeCodeFor i now"
  have split: "takeWhile (\<lambda>c. c \<noteq> CHR ''-'') (natDigits n @ CHR ''-'' # r) = natDigits n" for n r
    using digit_no_dash [of n] by (simp add: takeWhile_append)
  have "natDigits (nat j) @ CHR ''-'' # natDigits (nat (t mod 100000)) = natDigits (nat i) @ CHR ''-'' # natDigits (nat (now mod 100000))"
    using j(3) by (simp add: c rechargeCode_digits [OF less_imp_le [OF j(1)] j(2)])
  then have "natDigits (nat j) = natDigits (nat i)" by (metis split)
  then show "j = i" using natDigits_inj j(1) assms(1) by fastforce
qed

theorem recharge_code_unique_witness:
  "length (rechargeCodeFor 7 1700000000000000000) \<le> 32 \<and> rechargeCodeFor 8 5 \<noteq> rechargeCodeFor 7 1700000000000000000"
proof -
  have "(0 :: int) < 7" "(7 :: int) < 2 ^ 63" "(0 :: int) \<le> 1700000000000000000" "(0 :: int) < 8" "(0 :: int) \<le> 5" "(8 :: int) \<noteq> 7" by simp_all
  then show ?thesis using recharge_code_unique by blast
qed

section \<open>Creating an order\<close>

abbreviation pendingOf :: "int \<Rightarrow> payment_order list \<Rightarrow> nat" where
  "pendingOf uid pos \<equiv> tcount (\<lambda>po. o_UserID po = uid \<and> o_Status po = Pending) pos"

lemma run_reads_creation:
  assumes "script w = []" and "ticks w = []"
  shows "\<exists>r. run_state (validateOrderInput req cfg) w = (r, w)" "\<exists>r. run_state (checkCancelRateLimit x uid cfg) w = (r, w)"
    "\<exists>r. run_state (userGetByID uid) w = (r, w)"
proof -
  show "\<exists>r. run_state (userGetByID uid) w = (r, w)" using assms by (simp add: run_userGetByID)
  show "\<exists>r. run_state (checkCancelRateLimit x uid cfg) w = (r, w)"
    using assms by (auto simp: checkCancelRateLimit_def run_simps Let_def)
  have "\<exists>r. run_state (validateSubOrder req) w = (r, w)"
    using assms by (cases "tget (\<lambda>p. pl_ID p = rq_PlanID req) (plans (db w))";
        auto simp: validateSubOrder_def GetPlan_def groupGetByID_def run_simps split: option.splits)
  then show "\<exists>r. run_state (validateOrderInput req cfg) w = (r, w)"
    by (auto simp: validateOrderInput_def run_bindE split: sum.splits)
qed

lemma run_tx_checks:
  assumes "script w = []"
  shows "run_state (inTx h [checkPendingLimit uid m]) w =
      (if pendingLimit m \<le> int (pendingOf uid (orders (db w))) then Inl (fst (checkPendingLimit uid m) (tooManyPending (pendingLimit m))) else Inr (), w)"
  using assms by (simp add: run_inTx_quiet checkPendingLimit_def)

text \<open>A user with as many pending orders as the configuration allows cannot create another: the request fails, nothing is stored and no payment
  platform is called.\<close>

theorem pending_limit_enforced:
  assumes w: "quiet w" "ticks w = []"
    and full: "pendingLimit (pc_MaxPendingOrders cfg) \<le> int (pendingOf (rq_UserID req) (orders (db w)))"
  shows "\<exists>e. run_state (CreateOrder x (Inr cfg) outTradeNo req) w = (Inl e, w)"
proof -
  let ?req = "if rq_OrderType req = [] then req\<lparr>rq_OrderType := OrderTypeBalance\<rparr> else req"
  have q: "script w = []" using w by (simp add: quiet_def)
  obtain r1 where r1: "run_state (validateOrderInput ?req cfg) w = (r1, w)" using run_reads_creation(1) [OF q w(2)] by blast
  obtain r2 where r2: "run_state (checkCancelRateLimit x (rq_UserID ?req) cfg) w = (r2, w)" using run_reads_creation(2) [OF q w(2)] by blast
  obtain r3 where r3: "run_state (userGetByID (rq_UserID ?req)) w = (r3, w)" using run_reads_creation(3) [OF q w(2)] by blast
  have uid: "rq_UserID ?req = rq_UserID req" by simp
  have tx: "\<exists>e. run_state (createOrderInTx x ?req u plan cfg n oa la fr pa) w = (Inl e, w)" for u plan n oa la fr pa
    using full by (simp add: createOrderInTx_def run_bindE run_tx_checks [OF q] uid)
  have end_: "\<exists>e. run_state (bindE (createOrderInTx x ?req u plan cfg n oa la fr pa) id k) w = (Inl e, w)" for u plan n oa la fr pa
    and k :: "payment_order \<Rightarrow> create_order_response se"
    using tx [of u plan n oa la fr pa] by (auto simp: run_bindE)
  show ?thesis
    unfolding CreateOrder_def Let_def
    using r1 r2 r3 end_ by (cases r1; cases r2; cases r3) (auto simp: run_bindE)
qed

text \<open>Inside its transaction an order is created only within the limits: fewer pending orders than allowed, and today's payments together with the new amount at most the
  daily limit when there is one. What is stored is one new pending order with a fresh identifier and the recharge code of that
  identifier, at the end of the table, and nothing else.\<close>

theorem created_order_stored:
  assumes w: "quiet w" "ticks w = []" and fresh: "\<forall>po \<in> set (orders (db w)). o_ID po < nextOrder (db w)"
    and r: "run_state (createOrderInTx x req u plan cfg n orderAmount limitAmount feeRate payAmount) w = (Inr po, w')"
  shows "w' = w\<lparr>db := (db w)\<lparr>orders := orders (db w) @ [po], nextOrder := nextOrder (db w) + 1\<rparr>\<rparr> \<and>
    o_ID po = nextOrder (db w) \<and> o_Status po = Pending \<and> o_UserID po = rq_UserID req \<and> o_Amount po = x_col2 x orderAmount \<and>
    o_RechargeCode po = rechargeCodeFor (nextOrder (db w)) (clock w) \<and>
    int (pendingOf (rq_UserID req) (orders (db w))) < pendingLimit (pc_MaxPendingOrders cfg) \<and>
    (fle (pc_DailyLimit cfg) fzero \<or> \<not> flt (pc_DailyLimit cfg)
       (fadd (dailyUsed (filter (paidToday (rq_UserID req) (psStartOfDayUTC (clock w))) (orders (db w)))) limitAmount))"
proof -
  have q: "script w = []" using w by (simp add: quiet_def)
  let ?lim = "\<not> pendingLimit (pc_MaxPendingOrders cfg) \<le> int (pendingOf (rq_UserID req) (orders (db w)))"
  let ?day = "fle (pc_DailyLimit cfg) fzero \<or> \<not> flt (pc_DailyLimit cfg)
       (fadd (dailyUsed (filter (paidToday (rq_UserID req) (psStartOfDayUTC (clock w))) (orders (db w)))) limitAmount)"
  have lim: ?lim using r by (auto simp: createOrderInTx_def run_bindE run_tx_checks [OF q] split: if_splits)
  have day: ?day using r q w(2) lim
    by (auto simp: createOrderInTx_def run_bindE run_tx_checks [OF q] run_timeNow_still run_inTx_quiet checkDailyLimit_def Let_def split: if_splits)
  let ?tm = "if pc_OrderTimeoutMin cfg \<le> 0 then 30 else pc_OrderTimeoutMin cfg"
  let ?new = "(newOrder x req u plan n orderAmount feeRate payAmount (clock w) (clock w + wrap64 (?tm * nsMinute)))\<lparr>o_ID := nextOrder (db w)\<rparr>"
  let ?po = "?new\<lparr>o_RechargeCode := rechargeCodeFor (nextOrder (db w)) (clock w), o_UpdatedAt := clock w\<rparr>"
  have old: "tupd (\<lambda>po. o_ID po = nextOrder (db w)) f (orders (db w) @ [?new]) = orders (db w) @ [f ?new]" for f
  proof -
    have "tupd (\<lambda>po. o_ID po = nextOrder (db w)) f (orders (db w)) = orders (db w)"
      using fresh by (intro tupd_none) (auto simp: tcount_0)
    then show ?thesis by (simp add: tupd_def)
  qed
  have "po = ?po \<and> w' = w\<lparr>db := (db w)\<lparr>orders := orders (db w) @ [?po], nextOrder := nextOrder (db w) + 1\<rparr>\<rparr>"
    using r q w(2) lim day
    by (auto simp: createOrderInTx_def run_bindE run_tx_checks [OF q] run_timeNow_still run_inTx_quiet run_transact_quiet checkDailyLimit_def
        insertOrder_def setRechargeCode_def old Let_def split: if_splits)
  then show ?thesis using lim day by (simp add: newOrder_def)
qed

definition sampleConfig :: "int \<Rightarrow> payment_config" where
  "sampleConfig m = \<lparr>pc_Enabled = True, pc_MinAmount = F64 1, pc_MaxAmount = F64 100, pc_DailyLimit = fzero, pc_OrderTimeoutMin = 30,
     pc_MaxPendingOrders = m, pc_BalanceDisabled = False, pc_BalanceRechargeMultiplier = F64 1, pc_RechargeFeeRate = fzero,
     pc_LoadBalanceStrategy = ''round-robin'', pc_ProductNamePrefix = '''', pc_ProductNameSuffix = '''', pc_CancelRateLimitEnabled = False,
     pc_CancelRateLimitMax = 0, pc_CancelRateLimitWindow = 0, pc_CancelRateLimitUnit = '''', pc_CancelRateLimitMode = ''''\<rparr>"

definition sampleRequest :: create_order_request where
  "sampleRequest = \<lparr>rq_UserID = 1, rq_ReqAmount = F64 5, rq_PaymentType = ''alipay'', rq_ClientIP = '''', rq_IsMobile = False, rq_SrcHost = '''',
     rq_SrcURL = '''', rq_OrderType = ''balance'', rq_PlanID = 0\<rparr>"

lemma sample_pending: "pendingOf 1 (orders sampleStore) = 1"
  by (simp add: sampleStore_def sampleOrder_def table_simps)

theorem pending_limit_enforced_witness:
  "\<exists>e. run_state (CreateOrder (sampleExt ''paid'' True) (Inr (sampleConfig 1)) ''sub2_y'' sampleRequest) (sampleWorld sampleStore []) =
     (Inl e, sampleWorld sampleStore [])"
  by (rule pending_limit_enforced)
    (use sample_pending in \<open>simp_all add: quiet_def sampleConfig_def sampleRequest_def pendingLimit_def\<close>)

theorem created_order_stored_witness:
  "\<exists>po w'. run_state (createOrderInTx (sampleExt ''paid'' True) sampleRequest sampleUser None (sampleConfig 3) ''sub2_y'' (F64 5) (F64 5) fzero (F64 5))
      (sampleWorld sampleStore []) = (Inr po, w') \<and> orders (db w') = [sampleOrder Pending, po] \<and> o_ID po = 8"
proof -
  let ?w = "sampleWorld sampleStore []"
  have st: "orders sampleStore = [sampleOrder Pending]" "nextOrder sampleStore = 8" "o_ID (sampleOrder Pending) = 7"
    by (simp_all add: sampleStore_def sampleOrder_def)
  have "\<exists>po w'. run_state (createOrderInTx (sampleExt ''paid'' True) sampleRequest sampleUser None (sampleConfig 3) ''sub2_y'' (F64 5) (F64 5) fzero (F64 5))
      ?w = (Inr po, w')"
    using sample_pending
    by (simp add: createOrderInTx_def run_simps checkPendingLimit_def checkDailyLimit_def insertOrder_def setRechargeCode_def sampleConfig_def
        sampleRequest_def pendingLimit_def Let_def)
  then obtain po w' where r: "run_state (createOrderInTx (sampleExt ''paid'' True) sampleRequest sampleUser None (sampleConfig 3) ''sub2_y'' (F64 5) (F64 5) fzero (F64 5))
      ?w = (Inr po, w')" by blast
  have "quiet ?w" "ticks ?w = []" "\<forall>po \<in> set (orders (db ?w)). o_ID po < nextOrder (db ?w)" using st by (simp_all add: quiet_def)
  from created_order_stored [OF this r] r show ?thesis using st by auto
qed

end
