(* ===== verification/Sha256.thy ===== *)
theory Sha256
  imports Prelude
begin

unbundle bit_operations_syntax

text \<open>
  SHA-256 (FIPS 180-4), as package \<open>crypto/sha256\<close> computes it: the digest of a sequence of bytes, as
  bytes and in the hexadecimal form in which the idempotency records keep it.
\<close>

section \<open>Constants\<close>

text \<open>The constants of the standard are computed from what it defines them to be: the first 32 bits of the fractional parts of
  the cube roots (round constants) and of the square roots (initial state) of the first primes.\<close>

definition primes64 :: "int list" where
  "primes64 = [
     2, 3, 5, 7, 11, 13, 17, 19, 23, 29, 31, 37, 41, 43, 47, 53,
     59, 61, 67, 71, 73, 79, 83, 89, 97, 101, 103, 107, 109, 113, 127, 131,
     137, 139, 149, 151, 157, 163, 167, 173, 179, 181, 191, 193, 197, 199, 211, 223,
     227, 229, 233, 239, 241, 251, 257, 263, 269, 271, 277, 281, 283, 293, 307, 311]"

text \<open>The integer part of the \<open>k\<close>-th root of \<open>n\<close>, found one binary digit at a time.\<close>

primrec rootDigits :: "nat \<Rightarrow> int \<Rightarrow> nat \<Rightarrow> int \<Rightarrow> int" where
  "rootDigits k n 0 r = r"
| "rootDigits k n (Suc b) r = rootDigits k n b (if (r + 2 ^ b) ^ k \<le> n then r + 2 ^ b else r)"

definition rootFraction :: "nat \<Rightarrow> int \<Rightarrow> 32 word" where
  "rootFraction k p = word_of_int (rootDigits k (p * 2 ^ (32 * k)) 36 0)"

definition shaK :: "32 word list" where
  "shaK = map (rootFraction 3) primes64"

definition shaInit :: "32 word list" where
  "shaInit = map (rootFraction 2) (take 8 primes64)"

section \<open>The compression function\<close>

definition bigSigma0 :: "32 word \<Rightarrow> 32 word" where
  "bigSigma0 x = word_rotr 2 x XOR word_rotr 13 x XOR word_rotr 22 x"

definition bigSigma1 :: "32 word \<Rightarrow> 32 word" where
  "bigSigma1 x = word_rotr 6 x XOR word_rotr 11 x XOR word_rotr 25 x"

definition smallSigma0 :: "32 word \<Rightarrow> 32 word" where
  "smallSigma0 x = word_rotr 7 x XOR word_rotr 18 x XOR drop_bit 3 x"

definition smallSigma1 :: "32 word \<Rightarrow> 32 word" where
  "smallSigma1 x = word_rotr 17 x XOR word_rotr 19 x XOR drop_bit 10 x"

text \<open>The message schedule, kept with the newest word first.\<close>

primrec schedule :: "nat \<Rightarrow> 32 word list \<Rightarrow> 32 word list" where
  "schedule 0 ws = rev ws"
| "schedule (Suc n) ws =
     schedule n ((smallSigma1 (ws ! 1) + ws ! 6 + smallSigma0 (ws ! 14) + ws ! 15) # ws)"

fun shaRound :: "32 word \<times> 32 word \<Rightarrow> 32 word list \<Rightarrow> 32 word list" where
  "shaRound (k, w) [a, b, c, d, e, f, g, h] =
     (let t1 = h + bigSigma1 e + ((e AND f) XOR (NOT e AND g)) + k + w;
          t2 = bigSigma0 a + ((a AND b) XOR (a AND c) XOR (b AND c))
      in [t1 + t2, a, b, c, d + t1, e, f, g])"
| "shaRound kw hs = hs"

definition beWord :: "8 word list \<Rightarrow> 32 word" where
  "beWord bs = foldl (\<lambda>w b. push_bit 8 w OR ucast b) 0 bs"

fun chunks :: "nat \<Rightarrow> nat \<Rightarrow> 'a list \<Rightarrow> 'a list list" where
  "chunks 0 n xs = []"
| "chunks (Suc k) n xs = (if xs = [] then [] else take n xs # chunks k n (drop n xs))"

definition shaBlock :: "32 word list \<Rightarrow> 8 word list \<Rightarrow> 32 word list" where
  "shaBlock hs block =
     (let ws = schedule 48 (rev (map beWord (chunks 16 4 block)))
      in map2 (+) hs (fold shaRound (zip shaK ws) hs))"

section \<open>Padding and digest\<close>

definition beBytes :: "nat \<Rightarrow> 'a::len word \<Rightarrow> 8 word list" where
  "beBytes n w = map (\<lambda>i. ucast (drop_bit (8 * i) w)) (rev [0..<n])"

definition shaPad :: "8 word list \<Rightarrow> 8 word list" where
  "shaPad bs = bs @ [0x80] @ replicate ((119 - length bs mod 64) mod 64) 0 @ beBytes 8 (of_nat (8 * length bs) :: 64 word)"

definition sha256 :: "8 word list \<Rightarrow> 8 word list" where
  "sha256 bs =
     (let padded = shaPad bs
      in concat (map (beBytes 4) (foldl shaBlock shaInit (chunks (length padded div 64) 64 padded))))"

definition bytesOf :: "string \<Rightarrow> 8 word list" where
  "bytesOf s = map (\<lambda>c. of_nat (of_char c)) s"

text \<open>\<open>hex.EncodeToString\<close> of the digest.\<close>

definition sha256Hex :: "string \<Rightarrow> string" where
  "sha256Hex s = hexEncode False (sha256 (bytesOf s))"

section \<open>Lemmas\<close>

text \<open>The digits found are those of the root: no larger number of that many digits has a power below \<open>n\<close>.\<close>

lemma rootDigits_bounds:
  assumes "r ^ k \<le> n" "n < (r + 2 ^ b) ^ k"
  shows "rootDigits k n b r ^ k \<le> n \<and> n < (rootDigits k n b r + 1) ^ k"
  using assms
proof (induction b arbitrary: r)
  case (Suc b)
  have "r + 2 ^ b + 2 ^ b = r + 2 ^ Suc b" by simp
  then show ?case using Suc.IH [of r] Suc.IH [of "r + 2 ^ b"] Suc.prems by (auto simp: not_le add_ac)
qed simp

lemma shaInit_first: "hd shaInit = 0x6a09e667"
  by code_simp

lemma shaK_first: "hd shaK = 0x428a2f98"
  by code_simp

lemma length_shaInit: "length shaInit = 8"
  by (simp add: shaInit_def primes64_def)

lemma length_shaRound: "length (shaRound kw hs) = length hs"
  by (induction kw hs rule: shaRound.induct) (simp_all add: Let_def)

lemma length_fold_shaRound: "length (fold shaRound kws hs) = length hs"
  by (induction kws arbitrary: hs) (simp_all add: length_shaRound)

lemma length_shaBlocks: "length (foldl shaBlock hs blocks) = length hs"
  by (induction blocks arbitrary: hs) (simp_all add: shaBlock_def Let_def length_fold_shaRound)

lemma length_concat_bytes: "length (concat (map (beBytes 4) ws)) = 4 * length ws"
  by (induction ws) (simp_all add: beBytes_def)

text \<open>A digest has 64 hexadecimal digits, the width of the columns that hold it.\<close>

lemma length_sha256Hex: "length (sha256Hex s) = 64"
  by (simp add: sha256Hex_def length_hexEncode sha256_def Let_def length_concat_bytes length_shaBlocks length_shaInit)

text \<open>Padding fills whole blocks.\<close>

lemma shaPad_blocks: "length (shaPad bs) mod 64 = 0"
proof -
  have "(r + 1 + (119 - r) mod 64 + 8) mod 64 = 0" if "r < 64" for r :: nat
  proof (cases "r \<le> 55")
    case True
    then have "(119 - r) mod 64 = 55 - r" using that mod_add_self2 [of "55 - r" 64] by simp
    with True show ?thesis by simp
  qed (use that in simp)
  from this [of "length bs mod 64"]
  have "(length bs mod 64 + (9 + (119 - length bs mod 64) mod 64)) mod 64 = 0" by (simp add: add_ac)
  then have "(length bs + (9 + (119 - length bs mod 64) mod 64)) mod 64 = 0" by (simp only: mod_add_left_eq)
  then show ?thesis by (simp add: shaPad_def beBytes_def add_ac)
qed

end
