(* ===== verification/Redaction.thy ===== *)
theory Redaction
  imports Errors Float64
begin

text \<open>
  Package \<open>internal/util/logredact\<close>: masking of secrets in JSON values and in text. A JSON value is what
  \<open>json.Unmarshal\<close> stores in an \<open>any\<close>. The codec of package \<open>encoding/json\<close> and the replacement
  of package \<open>regexp\<close> are the fields of \<open>json_lib\<close>; the patterns and the order of the replacements are
  those of the code.
\<close>

datatype json =
    JNull
  | JBool bool
  | JNum f64
  | JStr string
  | JArr "json list"
  | JObj "(string \<times> json) list"

record json_lib =
  jl_valid :: "string \<Rightarrow> bool"
  jl_decode :: "string \<Rightarrow> go_err + json"
  jl_encode :: "json \<Rightarrow> go_err + string"
  jl_replace :: "string \<Rightarrow> string \<Rightarrow> string \<Rightarrow> string"

section \<open>Keys\<close>

definition normalizeKey :: "string \<Rightarrow> string" where
  "normalizeKey key = toLower (trimSpace key)"

definition defaultSensitiveKeys :: "string list" where
  "defaultSensitiveKeys = [''authorization_code'', ''code'', ''code_verifier'', ''access_token'', ''refresh_token'',
     ''id_token'', ''client_secret'', ''password'']"

definition isSensitiveKey :: "string \<Rightarrow> string list \<Rightarrow> bool" where
  "isSensitiveKey key keys \<longleftrightarrow> normalizeKey key \<in> set keys"

definition buildKeySet :: "string list \<Rightarrow> string list" where
  "buildKeySet extraKeys = defaultSensitiveKeys @ filter (\<lambda>k. k \<noteq> []) (map normalizeKey extraKeys)"

section \<open>JSON\<close>

definition maxRedactDepth :: nat where
  "maxRedactDepth = 32"

fun redactValueWithDepth :: "string list \<Rightarrow> nat \<Rightarrow> json \<Rightarrow> json" where
  "redactValueWithDepth keys depth (JObj kvs) =
     (if maxRedactDepth < depth then JStr ''<depth limit exceeded>''
      else JObj (map (\<lambda>(k, v). (k, if isSensitiveKey k keys then JStr ''***''
                                   else redactValueWithDepth keys (Suc depth) v)) kvs))"
| "redactValueWithDepth keys depth (JArr vs) =
     (if maxRedactDepth < depth then JStr ''<depth limit exceeded>''
      else JArr (map (redactValueWithDepth keys (Suc depth)) vs))"
| "redactValueWithDepth keys depth v =
     (if maxRedactDepth < depth then JStr ''<depth limit exceeded>'' else v)"

definition RedactMap :: "(string \<times> json) list option \<Rightarrow> string list \<Rightarrow> json" where
  "RedactMap input extraKeys =
     (case input of None \<Rightarrow> JObj [] | Some kvs \<Rightarrow> redactValueWithDepth (buildKeySet extraKeys) 0 (JObj kvs))"

definition RedactJSON :: "json_lib \<Rightarrow> string \<Rightarrow> string list \<Rightarrow> string" where
  "RedactJSON L raw extraKeys =
     (if raw = [] then []
      else case jl_decode L raw of
             Inl _ \<Rightarrow> ''<non-json payload redacted>''
           | Inr v \<Rightarrow> (case jl_encode L (redactValueWithDepth (buildKeySet extraKeys) 0 v) of
                         Inl _ \<Rightarrow> ''<redacted>'' | Inr s \<Rightarrow> s))"

section \<open>Text\<close>

text \<open>\<open>regexp.QuoteMeta\<close>.\<close>

definition quoteMeta :: "string \<Rightarrow> string" where
  "quoteMeta s = concat (map (\<lambda>c. if c \<in> set (CHR 0x5C # ''.+*?()|[]{}^$'') then [CHR 0x5C, c] else [c]) s)"

fun addExtraKeys :: "string list \<Rightarrow> string list \<Rightarrow> string list" where
  "addExtraKeys seen [] = []"
| "addExtraKeys seen (k # ks) =
     (let n = normalizeKey k
      in if n = [] \<or> n \<in> set seen then addExtraKeys seen ks else n # addExtraKeys (n # seen) ks)"

fun insertKey :: "string \<Rightarrow> string list \<Rightarrow> string list" where
  "insertKey k [] = [k]"
| "insertKey k (l # ls) = (if strLess l k then l # insertKey k ls else k # l # ls)"

definition normalizeAndSortExtraKeys :: "string list \<Rightarrow> string list" where
  "normalizeAndSortExtraKeys extraKeys = foldr insertKey (addExtraKeys [] extraKeys) []"

definition buildKeyAlternation :: "string list \<Rightarrow> string" where
  "buildKeyAlternation extraKeys =
     joinWith ''|'' (map quoteMeta (defaultSensitiveKeys @ addExtraKeys defaultSensitiveKeys extraKeys))"

text \<open>A quotation mark of a pattern, and its escapes.\<close>

abbreviation quotMark :: string where "quotMark \<equiv> [CHR 0x22]"
abbreviation backslash :: string where "backslash \<equiv> [CHR 0x5C]"

definition reJSONLike :: "string \<Rightarrow> string" where
  "reJSONLike keyAlt = ''(?i)('' @ quotMark @ ''(?:'' @ keyAlt @ '')'' @ quotMark @ backslash @ ''s*:'' @ backslash @ ''s*'' @ quotMark @
     '')([^'' @ quotMark @ '']*)('' @ quotMark @ '')''"

definition reQueryLike :: "string \<Rightarrow> string" where
  "reQueryLike keyAlt = ''(?i)'' @ backslash @ ''b((?:'' @ keyAlt @ ''))=([^&'' @ backslash @ ''s]+)''"

definition rePlain :: "string \<Rightarrow> string" where
  "rePlain keyAlt = ''(?i)'' @ backslash @ ''b((?:'' @ keyAlt @ ''))'' @ backslash @ ''b('' @ backslash @ ''s*[:=]'' @ backslash @ ''s*)([^,'' @
     backslash @ ''s]+)''"

definition reGOCSPX :: string where "reGOCSPX = ''GOCSPX-[0-9A-Za-z_-]{24,}''"
definition reAIza :: string where "reAIza = ''AIza[0-9A-Za-z_-]{35}''"

definition RedactText :: "json_lib \<Rightarrow> string \<Rightarrow> string list \<Rightarrow> string" where
  "RedactText L input0 extraKeys =
     (let input = trimSpace input0
      in if input = [] then []
         else if jl_valid L input then RedactJSON L input extraKeys
         else let keyAlt = buildKeyAlternation (normalizeAndSortExtraKeys extraKeys);
                  out1 = jl_replace L reGOCSPX ''GOCSPX-***'' input;
                  out2 = jl_replace L reAIza ''AIza***'' out1;
                  out3 = jl_replace L (reJSONLike keyAlt) ''$1***$3'' out2;
                  out4 = jl_replace L (reQueryLike keyAlt) ''$1=***'' out3
              in jl_replace L (rePlain keyAlt) ''$1$2***'' out4)"

section \<open>Lemmas\<close>

text \<open>No sensitive member survives: its value is masked wherever it stands.\<close>

fun masked :: "string list \<Rightarrow> json \<Rightarrow> bool" where
  "masked keys (JObj kvs) =
     (\<forall>(k, v) \<in> set kvs. if isSensitiveKey k keys then v = JStr ''***'' else masked keys v)"
| "masked keys (JArr vs) = (\<forall>v \<in> set vs. masked keys v)"
| "masked keys v = True"

lemma redact_masked: "masked keys (redactValueWithDepth keys depth v)"
  by (induction keys depth v rule: redactValueWithDepth.induct) auto

text \<open>Redacting again changes nothing.\<close>

lemma redact_idem:
  "redactValueWithDepth keys depth (redactValueWithDepth keys depth v) = redactValueWithDepth keys depth v"
  by (induction keys depth v rule: redactValueWithDepth.induct) auto

end
