(* ===== verification/Idempotency.thy ===== *)
theory Idempotency
  imports World Sha256 Redaction
begin

text \<open>
  The idempotency coordinator: \<open>service/idempotency.go\<close> and \<open>repository/idempotency_repo.go\<close>. A request that carries an
  \<open>Idempotency-Key\<close> claims a record of the table \<open>idempotency_records\<close> before it runs; a repetition with the same key
  and payload is answered from the record, or refused while the first run is under way.

  The operation that is protected is an arbitrary program over the same store (\<open>is_app\<close> is what it works on), so it may
  fail, and may itself change the records. Metrics and audit lines are left out. \<open>json.Marshal\<close> of the payload and the
  response, which are arbitrary Go values \<open>'v\<close>, is the parameter \<open>marshal\<close>.
\<close>

section \<open>Data\<close>

record idem_record =
  ir_ID :: int
  ir_Scope :: string
  ir_IdempotencyKeyHash :: string
  ir_RequestFingerprint :: string
  ir_Status :: string
  ir_ResponseStatus :: "int option"
  ir_ResponseBody :: "string option"
  ir_ErrorReason :: "string option"
  ir_LockedUntil :: "instant option"
  ir_ExpiresAt :: instant
  ir_CreatedAt :: instant
  ir_UpdatedAt :: instant

record 'e idem_store =
  idem_records :: "idem_record list"
  nextIdem :: int
  is_app :: 'e

definition IdempotencyStatusProcessing :: string where "IdempotencyStatusProcessing = ''processing''"
definition IdempotencyStatusSucceeded :: string where "IdempotencyStatusSucceeded = ''succeeded''"
definition IdempotencyStatusFailedRetryable :: string where "IdempotencyStatusFailedRetryable = ''failed_retryable''"

lemmas idem_status_defs = IdempotencyStatusProcessing_def IdempotencyStatusSucceeded_def IdempotencyStatusFailedRetryable_def

definition ErrIdempotencyKeyRequired :: go_err where
  "ErrIdempotencyKeyRequired = BadRequest ''IDEMPOTENCY_KEY_REQUIRED'' ''idempotency key is required''"
definition ErrIdempotencyKeyInvalid :: go_err where
  "ErrIdempotencyKeyInvalid = BadRequest ''IDEMPOTENCY_KEY_INVALID'' ''idempotency key is invalid''"
definition ErrIdempotencyKeyConflict :: go_err where
  "ErrIdempotencyKeyConflict = Conflict ''IDEMPOTENCY_KEY_CONFLICT'' ''idempotency key reused with different payload''"
definition ErrIdempotencyInProgress :: go_err where
  "ErrIdempotencyInProgress = Conflict ''IDEMPOTENCY_IN_PROGRESS'' ''idempotent request is still processing''"
definition ErrIdempotencyRetryBackoff :: go_err where
  "ErrIdempotencyRetryBackoff = Conflict ''IDEMPOTENCY_RETRY_BACKOFF'' ''idempotent request is in retry backoff window''"
definition ErrIdempotencyStoreUnavail :: go_err where
  "ErrIdempotencyStoreUnavail = ServiceUnavailable ''IDEMPOTENCY_STORE_UNAVAILABLE'' ''idempotency store unavailable''"
definition ErrIdempotencyInvalidPayload :: go_err where
  "ErrIdempotencyInvalidPayload = BadRequest ''IDEMPOTENCY_PAYLOAD_INVALID'' ''failed to normalize request payload''"

record idem_config =
  ic_DefaultTTL :: duration
  ic_SystemOperationTTL :: duration
  ic_ProcessingTimeout :: duration
  ic_FailedRetryBackoff :: duration
  ic_MaxStoredResponseLen :: int
  ic_ObserveOnly :: bool

definition DefaultIdempotencyConfig :: idem_config where
  "DefaultIdempotencyConfig = \<lparr>ic_DefaultTTL = 24 * nsHour, ic_SystemOperationTTL = nsHour,
     ic_ProcessingTimeout = 30 * nsSecond, ic_FailedRetryBackoff = 5 * nsSecond,
     ic_MaxStoredResponseLen = 64 * 1024, ic_ObserveOnly = True\<rparr>"

text \<open>\<open>co_HasRepo\<close> says whether the coordinator was given a repository.\<close>

record coordinator =
  co_HasRepo :: bool
  co_Config :: idem_config

definition DefaultWriteIdempotencyTTL :: "coordinator option \<Rightarrow> duration" where
  "DefaultWriteIdempotencyTTL co = (case co of
       Some c \<Rightarrow> if 0 < ic_DefaultTTL (co_Config c) then ic_DefaultTTL (co_Config c)
                 else ic_DefaultTTL DefaultIdempotencyConfig
     | None \<Rightarrow> ic_DefaultTTL DefaultIdempotencyConfig)"

definition DefaultSystemOperationIdempotencyTTL :: "coordinator option \<Rightarrow> duration" where
  "DefaultSystemOperationIdempotencyTTL co = (case co of
       Some c \<Rightarrow> if 0 < ic_SystemOperationTTL (co_Config c) then ic_SystemOperationTTL (co_Config c)
                 else ic_SystemOperationTTL DefaultIdempotencyConfig
     | None \<Rightarrow> ic_SystemOperationTTL DefaultIdempotencyConfig)"

record 'v execute_options =
  eo_Scope :: string
  eo_ActorScope :: string
  eo_Method :: string
  eo_Route :: string
  eo_IdempotencyKey :: string
  eo_Payload :: 'v
  eo_TTL :: duration
  eo_RequireKey :: bool

text \<open>The data of a result: what the operation returned now, or the decoded response of an earlier run.\<close>

datatype 'v idem_data = Fresh 'v | Stored json

record 'v execute_result =
  er_Data :: "'v idem_data"
  er_Replayed :: bool

section \<open>Keys and fingerprints\<close>

definition NormalizeIdempotencyKey :: "string \<Rightarrow> go_err + string" where
  "NormalizeIdempotencyKey raw =
     (let key = trimSpace raw
      in if key = [] then Inr []
         else if 128 < length key then Inl ErrIdempotencyKeyInvalid
         else if list_ex (\<lambda>c. (of_char c :: nat) < 33 \<or> 126 < (of_char c :: nat)) key then Inl ErrIdempotencyKeyInvalid
         else Inr key)"

definition HashIdempotencyKey :: "string \<Rightarrow> string" where
  "HashIdempotencyKey key = sha256Hex key"

definition BuildIdempotencyFingerprint :: "('v \<Rightarrow> go_err + string) \<Rightarrow> string \<Rightarrow> string \<Rightarrow> string \<Rightarrow> 'v \<Rightarrow> go_err + string" where
  "BuildIdempotencyFingerprint marshal method route actorScope payload =
     (let m = (if method = [] then ''POST'' else method);
          r = (if route = [] then ''/'' else route);
          a = (if actorScope = [] then ''anonymous'' else actorScope)
      in case marshal payload of
           Inl e \<Rightarrow> Inl (withCause ErrIdempotencyInvalidPayload e)
         | Inr raw \<Rightarrow> Inr (sha256Hex (toUpper m @ [CHR 0x0A] @ r @ [CHR 0x0A] @ a @ [CHR 0x0A] @ raw)))"

definition RetryAfterSecondsFromError :: "go_err \<Rightarrow> int" where
  "RetryAfterSecondsFromError err =
     (case asApp err of
        None \<Rightarrow> 0
      | Some a \<Rightarrow> (case map_of (errMetadata a) ''retry_after'' of
            None \<Rightarrow> 0
          | Some v \<Rightarrow> (case parseInt64 (trimSpace v) of
                None \<Rightarrow> 0
              | Some seconds \<Rightarrow> if seconds \<le> 0 then 0 else seconds)))"

section \<open>Statements of the repository\<close>

definition keyed :: "string \<Rightarrow> string \<Rightarrow> idem_record \<Rightarrow> bool" where
  "keyed scope keyHash r \<longleftrightarrow> ir_Scope r = scope \<and> ir_IdempotencyKeyHash r = keyHash"

text \<open>\<open>INSERT ... ON CONFLICT DO NOTHING RETURNING id\<close>: \<open>None\<close> when the key is taken.\<close>

definition CreateProcessing :: "idem_record \<Rightarrow> ('e idem_store, int option) eprog" where
  "CreateProcessing r = do {
     t \<leftarrow> timeNow;
     exec (\<lambda>d. if 0 < tcount (keyed (ir_Scope r) (ir_IdempotencyKeyHash r)) (idem_records d) then (Inr None, d)
               else (Inr (Some (nextIdem d)),
                     d\<lparr>idem_records := idem_records d @ [r\<lparr>ir_ID := nextIdem d, ir_CreatedAt := t, ir_UpdatedAt := t\<rparr>],
                       nextIdem := nextIdem d + 1\<rparr>))
   }"

definition GetByScopeAndKeyHash :: "string \<Rightarrow> string \<Rightarrow> ('e idem_store, idem_record option) eprog" where
  "GetByScopeAndKeyHash scope keyHash = query (\<lambda>d. tget (keyed scope keyHash) (idem_records d))"

definition idemUpdate :: "(idem_record \<Rightarrow> bool) \<Rightarrow> (idem_record \<Rightarrow> idem_record) \<Rightarrow> ('e idem_store, nat) eprog" where
  "idemUpdate p f = do {
     t \<leftarrow> timeNow;
     exec (\<lambda>d. (Inr (tcount p (idem_records d)),
       d\<lparr>idem_records := tupd p (\<lambda>r. (f r)\<lparr>ir_UpdatedAt := t\<rparr>) (idem_records d)\<rparr>))
   }"

definition reclaimable :: "int \<Rightarrow> string \<Rightarrow> instant \<Rightarrow> idem_record \<Rightarrow> bool" where
  "reclaimable i fromStatus now r \<longleftrightarrow> ir_ID r = i \<and> ir_Status r = fromStatus \<and>
     (case ir_LockedUntil r of None \<Rightarrow> True | Some t \<Rightarrow> t \<le> now)"

definition TryReclaim :: "int \<Rightarrow> string \<Rightarrow> instant \<Rightarrow> instant \<Rightarrow> instant \<Rightarrow> ('e idem_store, bool) eprog" where
  "TryReclaim i fromStatus now newLockedUntil newExpiresAt =
     bindE (idemUpdate (reclaimable i fromStatus now)
              (\<lambda>r. r\<lparr>ir_Status := IdempotencyStatusProcessing, ir_LockedUntil := Some newLockedUntil,
                     ir_ErrorReason := None, ir_ExpiresAt := newExpiresAt\<rparr>)) id (\<lambda>n. ret (Inr (0 < n)))"

definition ExtendProcessingLock :: "int \<Rightarrow> string \<Rightarrow> instant \<Rightarrow> instant \<Rightarrow> ('e idem_store, bool) eprog" where
  "ExtendProcessingLock i fingerprint newLockedUntil newExpiresAt =
     bindE (idemUpdate (\<lambda>r. ir_ID r = i \<and> ir_Status r = IdempotencyStatusProcessing \<and> ir_RequestFingerprint r = fingerprint)
              (\<lambda>r. r\<lparr>ir_LockedUntil := Some newLockedUntil, ir_ExpiresAt := newExpiresAt\<rparr>)) id (\<lambda>n. ret (Inr (0 < n)))"

definition MarkSucceeded :: "int \<Rightarrow> int \<Rightarrow> string \<Rightarrow> instant \<Rightarrow> ('e idem_store, unit) eprog" where
  "MarkSucceeded i responseStatus responseBody expiresAt =
     bindE (idemUpdate (\<lambda>r. ir_ID r = i)
              (\<lambda>r. r\<lparr>ir_Status := IdempotencyStatusSucceeded, ir_ResponseStatus := Some responseStatus,
                     ir_ResponseBody := Some responseBody, ir_ErrorReason := None, ir_LockedUntil := None,
                     ir_ExpiresAt := expiresAt\<rparr>)) id (\<lambda>_. ret (Inr ()))"

definition MarkFailedRetryable :: "int \<Rightarrow> string \<Rightarrow> instant \<Rightarrow> instant \<Rightarrow> ('e idem_store, unit) eprog" where
  "MarkFailedRetryable i errorReason lockedUntil expiresAt =
     bindE (idemUpdate (\<lambda>r. ir_ID r = i)
              (\<lambda>r. r\<lparr>ir_Status := IdempotencyStatusFailedRetryable, ir_ErrorReason := Some errorReason,
                     ir_LockedUntil := Some lockedUntil, ir_ExpiresAt := expiresAt\<rparr>)) id (\<lambda>_. ret (Inr ()))"

text \<open>The oldest \<open>limit\<close> expired records go.\<close>

definition victims :: "instant \<Rightarrow> int \<Rightarrow> idem_record list \<Rightarrow> idem_record list" where
  "victims now limit rs = take (nat limit) (sort_key ir_ExpiresAt (filter (\<lambda>r. ir_ExpiresAt r \<le> now) rs))"

definition DeleteExpired :: "instant \<Rightarrow> int \<Rightarrow> ('e idem_store, nat) eprog" where
  "DeleteExpired now limit0 =
     (let limit = (if limit0 \<le> 0 then 500 else limit0)
      in exec (\<lambda>d. let gone = ir_ID ` set (victims now limit (idem_records d))
                   in (Inr (tcount (\<lambda>r. ir_ID r \<in> gone) (idem_records d)),
                       d\<lparr>idem_records := filter (\<lambda>r. ir_ID r \<notin> gone) (idem_records d)\<rparr>)))"

definition cleanupOnce :: "int \<Rightarrow> ('e idem_store, unit) prog" where
  "cleanupOnce batch = do { now \<leftarrow> timeNow; _ \<leftarrow> DeleteExpired now batch; ret () }"

section \<open>The coordinator\<close>

definition conflictWithRetryAfter :: "go_err \<Rightarrow> instant option \<Rightarrow> instant \<Rightarrow> go_err" where
  "conflictWithRetryAfter base lockedUntil now = (case lockedUntil of
       None \<Rightarrow> base
     | Some t \<Rightarrow> (let sec = ftrunc (durSeconds (timeSub t now))
                  in withMetadata base [(''retry_after'', formatInt (if sec \<le> 0 then 1 else sec))]))"

definition truncationMark :: string where
  "truncationMark = ''...(truncated)''"

definition marshalStoredResponse :: "('v \<Rightarrow> go_err + string) \<Rightarrow> json_lib \<Rightarrow> idem_config \<Rightarrow> 'v \<Rightarrow> go_err + string" where
  "marshalStoredResponse marshal L cfg data =
     (case marshal data of
        Inl e \<Rightarrow> Inl e
      | Inr raw \<Rightarrow>
          (let redacted = RedactText L raw []
           in if 0 < ic_MaxStoredResponseLen cfg \<and> ic_MaxStoredResponseLen cfg < int (length redacted)
              then Inr (take (nat (ic_MaxStoredResponseLen cfg)) redacted @ truncationMark)
              else Inr redacted))"

definition decodeStoredResponse :: "json_lib \<Rightarrow> string option \<Rightarrow> go_err + json" where
  "decodeStoredResponse L stored = (case stored of
       None \<Rightarrow> Inr (JObj [])
     | Some s \<Rightarrow> if trimSpace s = [] then Inr (JObj [])
                 else (case jl_decode L s of Inl e \<Rightarrow> Inl (Errorf ''decode stored response'' e) | Inr v \<Rightarrow> Inr v))"

text \<open>How a request with a key may go on: it holds the claim on a record, or it is answered from one.\<close>

datatype claim = Claimed int | Replay json

text \<open>The read of the record that stands in the way, and its checks; the code does this twice.\<close>

definition existingRecord :: "string \<Rightarrow> string \<Rightarrow> string \<Rightarrow> ('e idem_store, idem_record) eprog" where
  "existingRecord scope keyHash fingerprint =
     bindE (GetByScopeAndKeyHash scope keyHash) (withCause ErrIdempotencyStoreUnavail) (\<lambda>r.
       case r of
         None \<Rightarrow> ret (Inl ErrIdempotencyStoreUnavail)
       | Some e \<Rightarrow> if ir_RequestFingerprint e \<noteq> fingerprint then ret (Inl ErrIdempotencyKeyConflict)
                   else ret (Inr e))"

definition resolveByStatus :: "json_lib \<Rightarrow> instant \<Rightarrow> instant \<Rightarrow> instant \<Rightarrow> idem_record \<Rightarrow> ('e idem_store, claim) eprog" where
  "resolveByStatus L now lockedUntil expiresAt e =
     (if ir_Status e = IdempotencyStatusSucceeded then
        (case decodeStoredResponse L (ir_ResponseBody e) of
           Inl err \<Rightarrow> ret (Inl (withCause ErrIdempotencyStoreUnavail err))
         | Inr v \<Rightarrow> ret (Inr (Replay v)))
      else if ir_Status e = IdempotencyStatusProcessing
      then ret (Inl (conflictWithRetryAfter ErrIdempotencyInProgress (ir_LockedUntil e) now))
      else if ir_Status e = IdempotencyStatusFailedRetryable then
        (if (case ir_LockedUntil e of None \<Rightarrow> False | Some t \<Rightarrow> now < t)
         then ret (Inl (conflictWithRetryAfter ErrIdempotencyRetryBackoff (ir_LockedUntil e) now))
         else bindE (TryReclaim (ir_ID e) IdempotencyStatusFailedRetryable now lockedUntil expiresAt)
                (withCause ErrIdempotencyStoreUnavail) (\<lambda>taken.
                  if taken then ret (Inr (Claimed (ir_ID e)))
                  else ret (Inl (conflictWithRetryAfter ErrIdempotencyInProgress (ir_LockedUntil e) now))))
      else ret (Inl ErrIdempotencyKeyConflict))"

definition newRecord :: "string \<Rightarrow> string \<Rightarrow> string \<Rightarrow> instant \<Rightarrow> instant \<Rightarrow> idem_record" where
  "newRecord scope keyHash fingerprint lockedUntil expiresAt =
     \<lparr>ir_ID = 0, ir_Scope = scope, ir_IdempotencyKeyHash = keyHash, ir_RequestFingerprint = fingerprint,
      ir_Status = IdempotencyStatusProcessing, ir_ResponseStatus = None, ir_ResponseBody = None, ir_ErrorReason = None,
      ir_LockedUntil = Some lockedUntil, ir_ExpiresAt = expiresAt, ir_CreatedAt = 0, ir_UpdatedAt = 0\<rparr>"

definition claimRecord :: "json_lib \<Rightarrow> string \<Rightarrow> string \<Rightarrow> string \<Rightarrow> instant \<Rightarrow> instant \<Rightarrow> instant \<Rightarrow> ('e idem_store, claim) eprog" where
  "claimRecord L scope keyHash fingerprint now lockedUntil expiresAt =
     bindE (CreateProcessing (newRecord scope keyHash fingerprint lockedUntil expiresAt))
       (withCause ErrIdempotencyStoreUnavail) (\<lambda>owner.
       case owner of
         Some i \<Rightarrow> ret (Inr (Claimed i))
       | None \<Rightarrow>
           bindE (existingRecord scope keyHash fingerprint) id (\<lambda>e.
             if ir_ExpiresAt e \<le> now then
               bindE (TryReclaim (ir_ID e) (ir_Status e) now lockedUntil expiresAt)
                 (withCause ErrIdempotencyStoreUnavail) (\<lambda>taken.
                   if taken then ret (Inr (Claimed (ir_ID e)))
                   else bindE (existingRecord scope keyHash fingerprint) id (resolveByStatus L now lockedUntil expiresAt))
             else resolveByStatus L now lockedUntil expiresAt e))"

text \<open>Running the operation under a claim, and recording how it ended.\<close>

definition runClaimed :: "('v \<Rightarrow> go_err + string) \<Rightarrow> json_lib \<Rightarrow> idem_config \<Rightarrow> int \<Rightarrow> instant \<Rightarrow>
    ('e idem_store, 'v) eprog \<Rightarrow> ('e idem_store, 'v execute_result) eprog" where
  "runClaimed marshal L cfg i expiresAt execute = do {
     r \<leftarrow> execute;
     case r of
       Inl execErr \<Rightarrow> do {
         t \<leftarrow> timeNow;
         let reason = (if errReason (Some execErr) = [] then ''EXECUTION_FAILED'' else errReason (Some execErr));
         _ \<leftarrow> MarkFailedRetryable i reason (t + ic_FailedRetryBackoff cfg) expiresAt;
         ret (Inl execErr)
       }
     | Inr data \<Rightarrow>
         (case marshalStoredResponse marshal L cfg data of
            Inl e \<Rightarrow> ret (Inl (withCause ErrIdempotencyStoreUnavail e))
          | Inr body \<Rightarrow>
              bindE (MarkSucceeded i 200 body expiresAt) (withCause ErrIdempotencyStoreUnavail) (\<lambda>_.
                ret (Inr \<lparr>er_Data = Fresh data, er_Replayed = False\<rparr>)))
   }"

definition ttlOf :: "coordinator \<Rightarrow> 'v execute_options \<Rightarrow> duration" where
  "ttlOf co opts = (if eo_TTL opts \<le> 0 then ic_DefaultTTL (co_Config co) else eo_TTL opts)"

definition Execute :: "('v \<Rightarrow> go_err + string) \<Rightarrow> json_lib \<Rightarrow> coordinator \<Rightarrow> 'v execute_options \<Rightarrow>
    ('e idem_store, 'v) eprog option \<Rightarrow> ('e idem_store, 'v execute_result) eprog" where
  "Execute marshal L co opts executor =
     (case executor of
        None \<Rightarrow> ret (Inl (InternalServer ''IDEMPOTENCY_EXECUTOR_NIL'' ''idempotency executor is nil''))
      | Some execute \<Rightarrow>
        (case NormalizeIdempotencyKey (eo_IdempotencyKey opts) of
           Inl e \<Rightarrow> ret (Inl e)
         | Inr key \<Rightarrow>
             if key = [] then
               (if eo_RequireKey opts \<and> \<not> ic_ObserveOnly (co_Config co) then ret (Inl ErrIdempotencyKeyRequired)
                else bindE execute id (\<lambda>data. ret (Inr \<lparr>er_Data = Fresh data, er_Replayed = False\<rparr>)))
             else if \<not> co_HasRepo co then ret (Inl ErrIdempotencyStoreUnavail)
             else if eo_Scope opts = []
             then ret (Inl (BadRequest ''IDEMPOTENCY_SCOPE_REQUIRED'' ''idempotency scope is required''))
             else
               (case BuildIdempotencyFingerprint marshal (eo_Method opts) (eo_Route opts) (eo_ActorScope opts) (eo_Payload opts) of
                  Inl e \<Rightarrow> ret (Inl e)
                | Inr fingerprint \<Rightarrow> do {
                    now \<leftarrow> timeNow;
                    let expiresAt = now + ttlOf co opts;
                    bindE (claimRecord L (eo_Scope opts) (HashIdempotencyKey key) fingerprint now
                             (now + ic_ProcessingTimeout (co_Config co)) expiresAt) id (\<lambda>c.
                      case c of
                        Replay v \<Rightarrow> ret (Inr \<lparr>er_Data = Stored v, er_Replayed = True\<rparr>)
                      | Claimed i \<Rightarrow>
                          if i = 0 then ret (Inl ErrIdempotencyStoreUnavail)
                          else runClaimed marshal L (co_Config co) i expiresAt execute)
                  })))"

section \<open>Runs\<close>

text \<open>The request that \<open>opts\<close> describes is well formed: it has a valid key, a scope, and a payload that can be written as JSON.\<close>

definition request :: "('v \<Rightarrow> go_err + string) \<Rightarrow> coordinator \<Rightarrow> 'v execute_options \<Rightarrow> string \<Rightarrow> string \<Rightarrow> bool" where
  "request marshal co opts keyHash fingerprint \<longleftrightarrow> co_HasRepo co \<and> eo_Scope opts \<noteq> [] \<and>
     (\<exists>key. key \<noteq> [] \<and> NormalizeIdempotencyKey (eo_IdempotencyKey opts) = Inr key \<and> keyHash = HashIdempotencyKey key) \<and>
     BuildIdempotencyFingerprint marshal (eo_Method opts) (eo_Route opts) (eo_ActorScope opts) (eo_Payload opts) = Inr fingerprint"

lemma run_Execute:
  assumes "request marshal co opts h fp" and "ticks w = []"
  shows "run_state (Execute marshal L co opts (Some ex)) w =
    run_state (bindE (claimRecord L (eo_Scope opts) h fp (clock w) (clock w + ic_ProcessingTimeout (co_Config co))
        (clock w + ttlOf co opts)) id (\<lambda>c. case c of
          Replay v \<Rightarrow> ret (Inr \<lparr>er_Data = Stored v, er_Replayed = True\<rparr>)
        | Claimed i \<Rightarrow> if i = 0 then ret (Inl ErrIdempotencyStoreUnavail)
            else runClaimed marshal L (co_Config co) i (clock w + ttlOf co opts) ex)) w"
  using assms by (auto simp: request_def Execute_def run_timeNow_still Let_def)

text \<open>A record stands in the way.\<close>

lemma run_claim_existing:
  assumes "script w = []" "ticks w = []" "tget (keyed scope h) (idem_records (db w)) = Some e" "now < ir_ExpiresAt e"
  shows "run_state (claimRecord L scope h fp now lu ea) w =
    (if ir_RequestFingerprint e \<noteq> fp then (Inl ErrIdempotencyKeyConflict, w)
     else run_state (resolveByStatus L now lu ea e) w)"
proof -
  have "0 < tcount (keyed scope h) (idem_records (db w))"
    using tget_Some [OF assms(3)] by (auto simp: tcount_def filter_empty_conv)
  then show ?thesis using assms
    by (simp add: claimRecord_def CreateProcessing_def newRecord_def existingRecord_def GetByScopeAndKeyHash_def run_simps)
qed

text \<open>The world in which a request that claims a fresh record runs its operation.\<close>

definition claimedRow :: "coordinator \<Rightarrow> 'v execute_options \<Rightarrow> string \<Rightarrow> string \<Rightarrow> 'e idem_store world \<Rightarrow> idem_record" where
  "claimedRow co opts h fp w =
     (newRecord (eo_Scope opts) h fp (clock w + ic_ProcessingTimeout (co_Config co)) (clock w + ttlOf co opts))
       \<lparr>ir_ID := nextIdem (db w), ir_CreatedAt := clock w, ir_UpdatedAt := clock w\<rparr>"

definition claimedWorld :: "coordinator \<Rightarrow> 'v execute_options \<Rightarrow> string \<Rightarrow> string \<Rightarrow> 'e idem_store world \<Rightarrow> 'e idem_store world" where
  "claimedWorld co opts h fp w =
     w\<lparr>db := (db w)\<lparr>idem_records := idem_records (db w) @ [claimedRow co opts h fp w], nextIdem := nextIdem (db w) + 1\<rparr>\<rparr>"

definition recordsOk :: "'e idem_store \<Rightarrow> bool" where
  "recordsOk d \<longleftrightarrow> 0 < nextIdem d \<and> (\<forall>r \<in> set (idem_records d). ir_ID r < nextIdem d)"

definition freshKey :: "'v execute_options \<Rightarrow> string \<Rightarrow> 'e idem_store \<Rightarrow> bool" where
  "freshKey opts h d \<longleftrightarrow> (\<forall>r \<in> set (idem_records d). \<not> keyed (eo_Scope opts) h r)"

text \<open>The operation succeeds in that world and leaves the records alone.\<close>

definition succeedsWith :: "('e idem_store, 'v) eprog \<Rightarrow> 'e idem_store world \<Rightarrow> 'v \<Rightarrow> 'e idem_store world \<Rightarrow> bool" where
  "succeedsWith ex w v w' \<longleftrightarrow> run_state ex w = (Inr v, w') \<and> script w' = [] \<and> ticks w' = [] \<and>
     idem_records (db w') = idem_records (db w)"

definition answeredRow :: "string \<Rightarrow> instant \<Rightarrow> idem_record \<Rightarrow> idem_record" where
  "answeredRow body t r = r\<lparr>ir_Status := IdempotencyStatusSucceeded, ir_ResponseStatus := Some 200, ir_ResponseBody := Some body,
     ir_ErrorReason := None, ir_LockedUntil := None, ir_UpdatedAt := t\<rparr>"

definition answeredWorld :: "string \<Rightarrow> idem_record list \<Rightarrow> idem_record \<Rightarrow> 'e idem_store world \<Rightarrow> 'e idem_store world" where
  "answeredWorld body rs r w = w\<lparr>db := (db w)\<lparr>idem_records := rs @ [answeredRow body (clock w) r]\<rparr>\<rparr>"

lemma tupd_last: "(\<forall>r \<in> set rs. \<not> p r) \<Longrightarrow> p e \<Longrightarrow> tupd p f (rs @ [e]) = rs @ [f e]"
  by (auto simp: tupd_def intro: map_idI)

lemma tget_last: "(\<forall>r \<in> set rs. \<not> p r) \<Longrightarrow> p e \<Longrightarrow> tget p (rs @ [e]) = Some e"
  by (induction rs) (simp_all add: tget_def)

lemma run_Execute_first:
  assumes req: "request marshal co opts h fp" and w: "script w = []" "ticks w = []"
    and ok: "recordsOk (db w)" and fresh: "freshKey opts h (db w)"
    and ex: "succeedsWith ex (claimedWorld co opts h fp w) v w'"
    and body: "marshalStoredResponse marshal L (co_Config co) v = Inr body"
  shows "run_state (Execute marshal L co opts (Some ex)) w =
    (Inr \<lparr>er_Data = Fresh v, er_Replayed = False\<rparr>, answeredWorld body (idem_records (db w)) (claimedRow co opts h fp w) w')"
proof -
  have none: "tcount (keyed (eo_Scope opts) h) (idem_records (db w)) = 0"
    using fresh by (simp add: freshKey_def tcount_def filter_empty_conv)
  have claim: "run_state (claimRecord L (eo_Scope opts) h fp (clock w) (clock w + ic_ProcessingTimeout (co_Config co))
      (clock w + ttlOf co opts)) w = (Inr (Claimed (nextIdem (db w))), claimedWorld co opts h fp w)"
    using w none by (simp add: claimRecord_def CreateProcessing_def newRecord_def run_simps claimedWorld_def claimedRow_def)
  have recs: "idem_records (db w') = idem_records (db w) @ [claimedRow co opts h fp w]"
    using ex by (simp add: succeedsWith_def claimedWorld_def)
  have quiet: "script w' = []" "ticks w' = []" using ex by (simp_all add: succeedsWith_def)
  have ids: "\<forall>r \<in> set (idem_records (db w)). ir_ID r \<noteq> nextIdem (db w)" "nextIdem (db w) \<noteq> 0"
    using ok by (auto simp: recordsOk_def)
  have "run_state (MarkSucceeded (nextIdem (db w)) 200 body (clock w + ttlOf co opts)) w' =
      (Inr (), answeredWorld body (idem_records (db w)) (claimedRow co opts h fp w) w')"
    using quiet tupd_last [OF ids(1), of "claimedRow co opts h fp w"]
    by (simp add: MarkSucceeded_def idemUpdate_def run_simps recs answeredWorld_def answeredRow_def claimedRow_def newRecord_def)
  then show ?thesis
    using ex body ids(2) unfolding run_Execute [OF req w(2)] run_bindE claim
    by (simp add: runClaimed_def succeedsWith_def run_bindE)
qed

lemma run_Execute_again:
  assumes req: "request marshal co opts h fp" and w': "script w' = []" "ticks w' = []"
    and fresh: "freshKey opts h (db w)" and t: "clock w'' = t" "t < clock w + ttlOf co opts"
    and w'': "w'' = (answeredWorld body (idem_records (db w)) (claimedRow co opts h fp w) w')\<lparr>clock := t\<rparr>"
  shows "run_state (Execute marshal L co opts (Some ex)) w'' =
    (case decodeStoredResponse L (Some body) of
       Inl e \<Rightarrow> (Inl (withCause ErrIdempotencyStoreUnavail e), w'')
     | Inr j \<Rightarrow> (Inr \<lparr>er_Data = Stored j, er_Replayed = True\<rparr>, w''))"
proof -
  let ?e = "answeredRow body (clock w') (claimedRow co opts h fp w)"
  have s: "script w'' = []" "ticks w'' = []" and recs: "idem_records (db w'') = idem_records (db w) @ [?e]"
    using w' by (simp_all add: w'' answeredWorld_def)
  have e: "tget (keyed (eo_Scope opts) h) (idem_records (db w'')) = Some ?e"
    unfolding recs by (rule tget_last)
      (use fresh in \<open>simp_all add: freshKey_def keyed_def answeredRow_def claimedRow_def newRecord_def\<close>)
  have x: "clock w'' < ir_ExpiresAt ?e" "ir_RequestFingerprint ?e = fp" "ir_Status ?e = IdempotencyStatusSucceeded"
    "ir_ResponseBody ?e = Some body"
    using t by (simp_all add: answeredRow_def claimedRow_def newRecord_def)
  show ?thesis
    unfolding run_Execute [OF req s(2)] run_bindE run_claim_existing [OF s e x(1)]
    by (simp add: x resolveByStatus_def split: sum.splits)
qed

section \<open>Properties\<close>

text \<open>What the codec does with a response: its text is JSON and denotes \<open>v\<close>, and a value that is written is read back.\<close>

definition jsonText :: "json_lib \<Rightarrow> string \<Rightarrow> json \<Rightarrow> bool" where
  "jsonText L raw v \<longleftrightarrow> trimSpace raw \<noteq> [] \<and> jl_valid L (trimSpace raw) \<and> jl_decode L (trimSpace raw) = Inr v"

definition writtenAs :: "json_lib \<Rightarrow> json \<Rightarrow> string \<Rightarrow> bool" where
  "writtenAs L v s \<longleftrightarrow> jl_encode L v = Inr s \<and> trimSpace s \<noteq> [] \<and> jl_decode L s = Inr v"

definition redacted :: "json \<Rightarrow> json" where
  "redacted v = redactValueWithDepth defaultSensitiveKeys 0 v"

definition fitsLimit :: "idem_config \<Rightarrow> string \<Rightarrow> bool" where
  "fitsLimit cfg s \<longleftrightarrow> ic_MaxStoredResponseLen cfg \<le> 0 \<or> int (length s) \<le> ic_MaxStoredResponseLen cfg"

lemma marshalStoredResponse_redacts:
  assumes "marshal v = Inr raw" "jsonText L raw j" "writtenAs L (redacted j) s"
  shows "marshalStoredResponse marshal L cfg v =
    Inr (if fitsLimit cfg s then s else take (nat (ic_MaxStoredResponseLen cfg)) s @ truncationMark)"
  using assms by (auto simp: marshalStoredResponse_def RedactText_def RedactJSON_def jsonText_def writtenAs_def redacted_def
      buildKeySet_def fitsLimit_def Let_def)

text \<open>C12. A request with a fresh key runs its operation once. Repeated with the same key and payload before the record expires, whatever
  operation is passed, it is answered from the record: the operation does not run, nothing changes, and the answer is the first
  response with every sensitive member masked.\<close>

theorem Execute_replays:
  assumes req: "request marshal co opts h fp" and w: "quiet w" "ticks w = []" "recordsOk (db w)" "freshKey opts h (db w)"
    and ex: "succeedsWith ex (claimedWorld co opts h fp w) v w'"
    and codec: "marshal v = Inr raw" "jsonText L raw j" "writtenAs L (redacted j) s" "fitsLimit (co_Config co) s"
    and t: "t < clock w + ttlOf co opts"
  shows "\<exists>w1. run_state (Execute marshal L co opts (Some ex)) w = (Inr \<lparr>er_Data = Fresh v, er_Replayed = False\<rparr>, w1) \<and>
    run_state (Execute marshal L co opts (Some ex')) (w1\<lparr>clock := t\<rparr>) =
      (Inr \<lparr>er_Data = Stored (redacted j), er_Replayed = True\<rparr>, w1\<lparr>clock := t\<rparr>) \<and>
    masked defaultSensitiveKeys (redacted j)"
proof -
  let ?w1 = "answeredWorld s (idem_records (db w)) (claimedRow co opts h fp w) w'"
  have body: "marshalStoredResponse marshal L (co_Config co) v = Inr s"
    using marshalStoredResponse_redacts [of marshal v, OF codec(1-3)] codec(4) by simp
  have "decodeStoredResponse L (Some s) = Inr (redacted j)" using codec(3) by (simp add: writtenAs_def decodeStoredResponse_def)
  then have "run_state (Execute marshal L co opts (Some ex')) (?w1\<lparr>clock := t\<rparr>) =
      (Inr \<lparr>er_Data = Stored (redacted j), er_Replayed = True\<rparr>, ?w1\<lparr>clock := t\<rparr>)"
    using run_Execute_again [OF req _ _ w(4) _ t refl, of w' s] ex by (simp add: succeedsWith_def)
  moreover have "run_state (Execute marshal L co opts (Some ex)) w = (Inr \<lparr>er_Data = Fresh v, er_Replayed = False\<rparr>, ?w1)"
    using w by (intro run_Execute_first [OF req _ _ _ _ ex body]) (simp_all add: quiet_def)
  ultimately show ?thesis by (auto simp: redacted_def redact_masked)
qed

text \<open>A response longer than the limit is stored cut off, and a JSON decoder refuses what is stored: the first request succeeds, but every
  repetition before the record expires fails with the error of an unavailable store.\<close>

theorem truncated_response_lost:
  assumes req: "request marshal co opts h fp" and w: "quiet w" "ticks w = []" "recordsOk (db w)" "freshKey opts h (db w)"
    and ex: "succeedsWith ex (claimedWorld co opts h fp w) v w'"
    and codec: "marshal v = Inr raw" "jsonText L raw j" "writtenAs L (redacted j) s" "\<not> fitsLimit (co_Config co) s"
    and refuses: "\<forall>s. \<exists>e. jl_decode L (s @ truncationMark) = Inl e"
    and t: "t < clock w + ttlOf co opts"
  shows "\<exists>w1. run_state (Execute marshal L co opts (Some ex)) w = (Inr \<lparr>er_Data = Fresh v, er_Replayed = False\<rparr>, w1) \<and>
    (\<exists>e. run_state (Execute marshal L co opts (Some ex')) (w1\<lparr>clock := t\<rparr>) =
      (Inl (withCause ErrIdempotencyStoreUnavail e), w1\<lparr>clock := t\<rparr>))"
proof -
  let ?b = "take (nat (ic_MaxStoredResponseLen (co_Config co))) s @ truncationMark"
  let ?w1 = "answeredWorld ?b (idem_records (db w)) (claimedRow co opts h fp w) w'"
  have body: "marshalStoredResponse marshal L (co_Config co) v = Inr ?b"
    using marshalStoredResponse_redacts [of marshal v, OF codec(1-3)] codec(4) by simp
  have "trimSpace (xs @ truncationMark) \<noteq> []" for xs
    by (simp add: trimSpace_def truncationMark_def isSpace_def dropWhile_append dropWhile_eq_Nil_conv)
  moreover obtain e where "jl_decode L ?b = Inl e" using refuses by blast
  ultimately have "decodeStoredResponse L (Some ?b) = Inl (Errorf ''decode stored response'' e)"
    by (simp add: decodeStoredResponse_def)
  then have "run_state (Execute marshal L co opts (Some ex')) (?w1\<lparr>clock := t\<rparr>) =
      (Inl (withCause ErrIdempotencyStoreUnavail (Errorf ''decode stored response'' e)), ?w1\<lparr>clock := t\<rparr>)"
    using run_Execute_again [OF req _ _ w(4) _ t refl, of w' ?b] ex by (simp add: succeedsWith_def)
  moreover have "run_state (Execute marshal L co opts (Some ex)) w = (Inr \<lparr>er_Data = Fresh v, er_Replayed = False\<rparr>, ?w1)"
    using w by (intro run_Execute_first [OF req _ _ _ _ ex body]) (simp_all add: quiet_def)
  ultimately show ?thesis by blast
qed

text \<open>While a record is live, a request with its key is refused with a conflict, its operation does not run and nothing changes, if
  the payload differs, if the first run is still under way, or if the back-off after a failed run has not passed.\<close>

theorem Execute_excluded:
  assumes req: "request marshal co opts h fp" and w: "quiet w" "ticks w = []"
    and e: "tget (keyed (eo_Scope opts) h) (idem_records (db w)) = Some e" "clock w < ir_ExpiresAt e"
    and busy: "ir_RequestFingerprint e \<noteq> fp \<or> ir_Status e = IdempotencyStatusProcessing \<or>
      ir_Status e = IdempotencyStatusFailedRetryable \<and> (\<exists>t. ir_LockedUntil e = Some t \<and> clock w < t)"
  shows "\<exists>err. run_state (Execute marshal L co opts (Some ex)) w = (Inl err, w) \<and> errCode (Some err) = 409"
proof -
  have code: "errCode (Some (conflictWithRetryAfter (Conflict r m) l t)) = 409" "errCode (Some (Conflict r m)) = 409" for r m l t
    by (auto simp: conflictWithRetryAfter_def Conflict_def errNew_def errCode_def fromError_def Let_def split: option.splits)
  have s: "script w = []" using w(1) by (simp add: quiet_def)
  show ?thesis
    using busy unfolding run_Execute [OF req w(2)] run_bindE run_claim_existing [OF s w(2) e]
    by (auto simp: resolveByStatus_def idem_status_defs ErrIdempotencyKeyConflict_def ErrIdempotencyInProgress_def
        ErrIdempotencyRetryBackoff_def code)
qed

section \<open>A sample\<close>

text \<open>A response that holds a redeem code, and a codec that knows its two texts.\<close>

definition codeJSON :: "string \<Rightarrow> string" where
  "codeJSON c = ''{'' @ quotMark @ ''code'' @ quotMark @ '':'' @ quotMark @ c @ quotMark @ ''}''"

definition codeValue :: "string \<Rightarrow> json" where
  "codeValue c = JObj [(''code'', JStr c)]"

definition sampleLib :: json_lib where
  "sampleLib = \<lparr>jl_valid = (\<lambda>s. s \<in> codeJSON ` {''a'', ''***''}),
     jl_decode = (\<lambda>s. if s = codeJSON ''a'' then Inr (codeValue ''a'')
                      else if s = codeJSON ''***'' then Inr (codeValue ''***'') else Inl (ErrorNew ''invalid character'')),
     jl_encode = (\<lambda>v. if v = codeValue ''***'' then Inr (codeJSON ''***'') else Inl (ErrorNew ''unsupported value'')),
     jl_replace = (\<lambda>p r s. s)\<rparr>"

definition sampleCoordinator :: "int \<Rightarrow> coordinator" where
  "sampleCoordinator limit = \<lparr>co_HasRepo = True, co_Config = DefaultIdempotencyConfig\<lparr>ic_MaxStoredResponseLen := limit\<rparr>\<rparr>"

definition sampleOptions :: "string execute_options" where
  "sampleOptions = \<lparr>eo_Scope = ''admin.redeem_codes.generate'', eo_ActorScope = ''admin:1'', eo_Method = ''POST'', eo_Route = ''/codes'',
     eo_IdempotencyKey = ''k1'', eo_Payload = ''{}'', eo_TTL = 0, eo_RequireKey = True\<rparr>"

definition sampleFingerprint :: string where
  "sampleFingerprint = sha256Hex (toUpper ''POST'' @ [CHR 0x0A] @ ''/codes'' @ [CHR 0x0A] @ ''admin:1'' @ [CHR 0x0A] @ ''{}'')"

definition idemWorld :: "idem_record list \<Rightarrow> nat idem_store world" where
  "idemWorld rs = \<lparr>db = \<lparr>idem_records = rs, nextIdem = 1, is_app = 0\<rparr>, clock = 0, ticks = [], script = []\<rparr>"

definition sampleOperation :: "(nat idem_store, string) eprog" where
  "sampleOperation = do { _ \<leftarrow> modify (\<lambda>d. d\<lparr>is_app := is_app d + 1\<rparr>); ret (Inr (codeJSON ''a'')) }"

lemma sample_request: "request Inr (sampleCoordinator n) sampleOptions (HashIdempotencyKey ''k1'') sampleFingerprint"
proof -
  have "NormalizeIdempotencyKey ''k1'' = Inr ''k1''" by (simp add: NormalizeIdempotencyKey_def trimSpace_def isSpace_def)
  then show ?thesis
    by (simp add: request_def sampleCoordinator_def sampleOptions_def BuildIdempotencyFingerprint_def sampleFingerprint_def Let_def)
qed

lemma sample_codec:
  "jsonText sampleLib (codeJSON ''a'') (codeValue ''a'')"
  "writtenAs sampleLib (redacted (codeValue ''a'')) (codeJSON ''***'')"
  by (simp_all add: jsonText_def writtenAs_def redacted_def sampleLib_def codeJSON_def codeValue_def trimSpace_def isSpace_def
      isSensitiveKey_def normalizeKey_def toLower_def lowerChar_def defaultSensitiveKeys_def maxRedactDepth_def)

definition ranWorld :: "int \<Rightarrow> nat idem_store world" where
  "ranWorld n = (let w = claimedWorld (sampleCoordinator n) sampleOptions (HashIdempotencyKey ''k1'') sampleFingerprint (idemWorld [])
                 in w\<lparr>db := (db w)\<lparr>is_app := 1\<rparr>\<rparr>)"

lemma sample_first:
  "quiet (idemWorld [])" "ticks (idemWorld []) = []" "recordsOk (db (idemWorld []))" "freshKey sampleOptions h (db (idemWorld []))"
  "succeedsWith sampleOperation
     (claimedWorld (sampleCoordinator n) sampleOptions (HashIdempotencyKey ''k1'') sampleFingerprint (idemWorld []))
     (codeJSON ''a'') (ranWorld n)"
  by (simp_all add: quiet_def idemWorld_def recordsOk_def freshKey_def succeedsWith_def sampleOperation_def ranWorld_def claimedWorld_def Let_def)

lemma sample_limit: "fitsLimit (co_Config (sampleCoordinator 100)) (codeJSON ''***'')"
    "\<not> fitsLimit (co_Config (sampleCoordinator 5)) (codeJSON ''***'')"
  by (simp_all add: fitsLimit_def sampleCoordinator_def DefaultIdempotencyConfig_def codeJSON_def)

lemma sample_time: "1 < clock (idemWorld []) + ttlOf (sampleCoordinator n) sampleOptions"
  by (simp add: idemWorld_def ttlOf_def sampleOptions_def sampleCoordinator_def DefaultIdempotencyConfig_def ns_defs)

lemma sample_refuses: "\<forall>s. \<exists>e. jl_decode sampleLib (s @ truncationMark) = Inl e"
proof
  fix s
  have "s @ truncationMark \<noteq> codeJSON c" for c
  proof
    assume "s @ truncationMark = codeJSON c"
    then have "last (s @ truncationMark) = last (codeJSON c)" by simp
    then show False by (simp add: truncationMark_def codeJSON_def)
  qed
  then show "\<exists>e. jl_decode sampleLib (s @ truncationMark) = Inl e" by (simp add: sampleLib_def)
qed

theorem Execute_replays_witness:
  "\<exists>w1. run_state (Execute Inr sampleLib (sampleCoordinator 100) sampleOptions (Some sampleOperation)) (idemWorld []) =
      (Inr \<lparr>er_Data = Fresh (codeJSON ''a''), er_Replayed = False\<rparr>, w1) \<and>
    run_state (Execute Inr sampleLib (sampleCoordinator 100) sampleOptions (Some sampleOperation)) (w1\<lparr>clock := 1\<rparr>) =
      (Inr \<lparr>er_Data = Stored (codeValue ''***''), er_Replayed = True\<rparr>, w1\<lparr>clock := 1\<rparr>)"
proof -
  have "redacted (codeValue ''a'') = codeValue ''***''"
    by (simp add: redacted_def codeValue_def isSensitiveKey_def normalizeKey_def toLower_def lowerChar_def defaultSensitiveKeys_def
        maxRedactDepth_def trimSpace_def isSpace_def)
  then show ?thesis
    using Execute_replays [OF sample_request sample_first refl sample_codec sample_limit(1) sample_time, of sampleOperation] by auto
qed

theorem truncated_response_lost_witness:
  "\<exists>w1. run_state (Execute Inr sampleLib (sampleCoordinator 5) sampleOptions (Some sampleOperation)) (idemWorld []) =
      (Inr \<lparr>er_Data = Fresh (codeJSON ''a''), er_Replayed = False\<rparr>, w1) \<and>
    (\<exists>e. run_state (Execute Inr sampleLib (sampleCoordinator 5) sampleOptions (Some sampleOperation)) (w1\<lparr>clock := 1\<rparr>) =
      (Inl (withCause ErrIdempotencyStoreUnavail e), w1\<lparr>clock := 1\<rparr>))"
  by (rule truncated_response_lost [OF sample_request sample_first refl sample_codec sample_limit(2) sample_refuses sample_time])

theorem Execute_excluded_witness:
  "\<exists>err. run_state (Execute Inr sampleLib (sampleCoordinator 100) sampleOptions (Some sampleOperation))
      (idemWorld [newRecord ''admin.redeem_codes.generate'' (HashIdempotencyKey ''k1'') sampleFingerprint 5 10]) =
    (Inl err, idemWorld [newRecord ''admin.redeem_codes.generate'' (HashIdempotencyKey ''k1'') sampleFingerprint 5 10]) \<and>
    errCode (Some err) = 409"
  by (rule Execute_excluded [OF sample_request, where e = "newRecord ''admin.redeem_codes.generate'' (HashIdempotencyKey ''k1'') sampleFingerprint 5 10"])
     (simp_all add: quiet_def idemWorld_def tget_def keyed_def newRecord_def sampleOptions_def)

end
