(* ===== verification/Account_Quota.thy ===== *)
theory Account_Quota
  imports Errors Float64
begin

text \<open>
  Quotas of upstream accounts (\<open>service/account.go\<close>, \<open>repository/account_repo.go\<close>): the limits and the usage in total, per day and
  per week, which live in the JSON column \<open>extra\<close> of an account. A period is either rolling, or it ends at a fixed hour of a
  day or week in a time zone. The services decide from the start of the period whether it is over, the database from the stored
  end of it; section ``Two views of a period'' shows when the two agree.

  \<open>quota_extra\<close> is the part of the column that belongs to quotas, with values of the types the code writes. A time zone is an
  offset from UTC in nanoseconds, which \<open>tzdb\<close> (the time zone database of Go and of PostgreSQL) knows by name; a zone that changes
  its offset is not covered. \<open>num\<close> is the numeric value PostgreSQL reads from a \<open>float64\<close> parameter.
\<close>

section \<open>Data\<close>

record quota_extra =
  qx_Limit :: "rat option"
  qx_Used :: "rat option"
  qx_DailyLimit :: "rat option"
  qx_DailyUsed :: "rat option"
  qx_WeeklyLimit :: "rat option"
  qx_WeeklyUsed :: "rat option"
  qx_DailyStart :: "instant option"
  qx_WeeklyStart :: "instant option"
  qx_DailyResetAt :: "instant option"
  qx_WeeklyResetAt :: "instant option"
  qx_DailyResetMode :: "string option"
  qx_WeeklyResetMode :: "string option"
  qx_DailyResetHour :: "int option"
  qx_WeeklyResetDay :: "int option"
  qx_WeeklyResetHour :: "int option"
  qx_ResetTimezone :: "string option"

type_synonym tzdb = "string \<Rightarrow> int option"

section \<open>Readings\<close>

text \<open>A number of the column, as the services read it: the nearest \<open>float64\<close>, zero if it is absent.\<close>

definition getExtraFloat64 :: "rat option \<Rightarrow> f64" where
  "getExtraFloat64 v = (case v of None \<Rightarrow> fzero | Some r \<Rightarrow> rnd r)"

definition getExtraString :: "string option \<Rightarrow> string" where
  "getExtraString v = (case v of None \<Rightarrow> [] | Some s \<Rightarrow> s)"

definition getExtraInt :: "int option \<Rightarrow> int" where
  "getExtraInt v = (case v of None \<Rightarrow> 0 | Some n \<Rightarrow> n)"

definition GetQuotaLimit :: "quota_extra \<Rightarrow> f64" where "GetQuotaLimit e = getExtraFloat64 (qx_Limit e)"
definition GetQuotaUsed :: "quota_extra \<Rightarrow> f64" where "GetQuotaUsed e = getExtraFloat64 (qx_Used e)"
definition GetQuotaDailyLimit :: "quota_extra \<Rightarrow> f64" where "GetQuotaDailyLimit e = getExtraFloat64 (qx_DailyLimit e)"
definition GetQuotaDailyUsed :: "quota_extra \<Rightarrow> f64" where "GetQuotaDailyUsed e = getExtraFloat64 (qx_DailyUsed e)"
definition GetQuotaWeeklyLimit :: "quota_extra \<Rightarrow> f64" where "GetQuotaWeeklyLimit e = getExtraFloat64 (qx_WeeklyLimit e)"
definition GetQuotaWeeklyUsed :: "quota_extra \<Rightarrow> f64" where "GetQuotaWeeklyUsed e = getExtraFloat64 (qx_WeeklyUsed e)"

definition GetQuotaDailyResetMode :: "quota_extra \<Rightarrow> string" where
  "GetQuotaDailyResetMode e = (if getExtraString (qx_DailyResetMode e) = ''fixed'' then ''fixed'' else ''rolling'')"

definition GetQuotaDailyResetHour :: "quota_extra \<Rightarrow> int" where
  "GetQuotaDailyResetHour e = getExtraInt (qx_DailyResetHour e)"

definition GetQuotaWeeklyResetMode :: "quota_extra \<Rightarrow> string" where
  "GetQuotaWeeklyResetMode e = (if getExtraString (qx_WeeklyResetMode e) = ''fixed'' then ''fixed'' else ''rolling'')"

definition GetQuotaWeeklyResetDay :: "quota_extra \<Rightarrow> int" where
  "GetQuotaWeeklyResetDay e = (case qx_WeeklyResetDay e of None \<Rightarrow> 1 | Some d \<Rightarrow> d)"

definition GetQuotaWeeklyResetHour :: "quota_extra \<Rightarrow> int" where
  "GetQuotaWeeklyResetHour e = getExtraInt (qx_WeeklyResetHour e)"

definition GetQuotaResetTimezone :: "quota_extra \<Rightarrow> string" where
  "GetQuotaResetTimezone e = (if getExtraString (qx_ResetTimezone e) \<noteq> [] then getExtraString (qx_ResetTimezone e) else ''UTC'')"

definition HasAnyQuotaLimit :: "quota_extra \<Rightarrow> bool" where
  "HasAnyQuotaLimit e \<longleftrightarrow> flt fzero (GetQuotaLimit e) \<or> flt fzero (GetQuotaDailyLimit e) \<or> flt fzero (GetQuotaWeeklyLimit e)"

text \<open>\<open>time.LoadLocation\<close>, with UTC for an unknown name.\<close>

definition locationOf :: "tzdb \<Rightarrow> string \<Rightarrow> int" where
  "locationOf tz name = (case tz name of None \<Rightarrow> 0 | Some z \<Rightarrow> z)"

section \<open>Fixed points of time\<close>

text \<open>\<open>time.Date(t.Year(), t.Month(), t.Day(), hour, 0, 0, 0, tz)\<close>.\<close>

definition todayAt :: "int \<Rightarrow> int \<Rightarrow> instant \<Rightarrow> instant" where
  "todayAt hour z t = dayStart z t + hour * nsHour"

text \<open>\<open>t.Weekday()\<close>: the first of January 1970 was a Thursday.\<close>

definition weekday :: "int \<Rightarrow> instant \<Rightarrow> int" where
  "weekday z t = ((t + z) div nsDay + 4) mod 7"

definition nextFixedDailyReset :: "int \<Rightarrow> int \<Rightarrow> instant \<Rightarrow> instant" where
  "nextFixedDailyReset hour z after =
     (let today = todayAt hour z after in if \<not> after < today then addDays today 1 else today)"

definition lastFixedDailyReset :: "int \<Rightarrow> int \<Rightarrow> instant \<Rightarrow> instant" where
  "lastFixedDailyReset hour z now =
     (let today = todayAt hour z now in if now < today then addDays today (- 1) else today)"

text \<open>Go's \<open>%\<close> has the sign of the dividend.\<close>

definition goMod :: "int \<Rightarrow> int \<Rightarrow> int" where
  "goMod a b = (if a < 0 then - ((- a) mod b) else a mod b)"

definition nextFixedWeeklyReset :: "int \<Rightarrow> int \<Rightarrow> int \<Rightarrow> instant \<Rightarrow> instant" where
  "nextFixedWeeklyReset day hour z after =
     (let today = todayAt hour z after;
          forward = goMod (day - weekday z today + 7) 7
      in addDays today (if forward = 0 \<and> \<not> after < today then 7 else forward))"

definition lastFixedWeeklyReset :: "int \<Rightarrow> int \<Rightarrow> int \<Rightarrow> instant \<Rightarrow> instant" where
  "lastFixedWeeklyReset day hour z now =
     (let today = todayAt hour z now;
          back = goMod (weekday z today - day + 7) 7
      in addDays today (- (if back = 0 \<and> now < today then 7 else back)))"

section \<open>Periods, as the services see them\<close>

text \<open>\<open>now\<close> is the reading of the clock.\<close>

definition isFixedDailyPeriodExpired :: "tzdb \<Rightarrow> quota_extra \<Rightarrow> instant \<Rightarrow> instant option \<Rightarrow> bool" where
  "isFixedDailyPeriodExpired tz e now start =
     (case start of None \<Rightarrow> True
      | Some s \<Rightarrow> s < lastFixedDailyReset (GetQuotaDailyResetHour e) (locationOf tz (GetQuotaResetTimezone e)) now)"

definition isFixedWeeklyPeriodExpired :: "tzdb \<Rightarrow> quota_extra \<Rightarrow> instant \<Rightarrow> instant option \<Rightarrow> bool" where
  "isFixedWeeklyPeriodExpired tz e now start =
     (case start of None \<Rightarrow> True
      | Some s \<Rightarrow> s < lastFixedWeeklyReset (GetQuotaWeeklyResetDay e) (GetQuotaWeeklyResetHour e)
                        (locationOf tz (GetQuotaResetTimezone e)) now)"

definition isPeriodExpired :: "instant \<Rightarrow> instant option \<Rightarrow> duration \<Rightarrow> bool" where
  "isPeriodExpired now start dur = (case start of None \<Rightarrow> True | Some s \<Rightarrow> dur \<le> now - s)"

definition IsDailyQuotaPeriodExpired :: "tzdb \<Rightarrow> quota_extra \<Rightarrow> instant \<Rightarrow> bool" where
  "IsDailyQuotaPeriodExpired tz e now =
     (if GetQuotaDailyResetMode e = ''fixed'' then isFixedDailyPeriodExpired tz e now (qx_DailyStart e)
      else isPeriodExpired now (qx_DailyStart e) (24 * nsHour))"

definition IsWeeklyQuotaPeriodExpired :: "tzdb \<Rightarrow> quota_extra \<Rightarrow> instant \<Rightarrow> bool" where
  "IsWeeklyQuotaPeriodExpired tz e now =
     (if GetQuotaWeeklyResetMode e = ''fixed'' then isFixedWeeklyPeriodExpired tz e now (qx_WeeklyStart e)
      else isPeriodExpired now (qx_WeeklyStart e) (7 * 24 * nsHour))"

text \<open>The clock is read once for the day and once for the week.\<close>

definition IsQuotaExceeded :: "tzdb \<Rightarrow> quota_extra \<Rightarrow> instant \<Rightarrow> instant \<Rightarrow> bool" where
  "IsQuotaExceeded tz e now1 now2 =
     (if flt fzero (GetQuotaLimit e) \<and> fle (GetQuotaLimit e) (GetQuotaUsed e) then True
      else if flt fzero (GetQuotaDailyLimit e) \<and> \<not> IsDailyQuotaPeriodExpired tz e now1 \<and> fle (GetQuotaDailyLimit e) (GetQuotaDailyUsed e)
      then True
      else flt fzero (GetQuotaWeeklyLimit e) \<and> \<not> IsWeeklyQuotaPeriodExpired tz e now2 \<and> fle (GetQuotaWeeklyLimit e) (GetQuotaWeeklyUsed e))"

section \<open>Configuration\<close>

definition inRange :: "int \<Rightarrow> int \<Rightarrow> int \<Rightarrow> int \<Rightarrow> int" where
  "inRange lo hi d n = (if n < lo \<or> hi < n then d else n)"

definition ComputeQuotaResetAt :: "tzdb \<Rightarrow> instant \<Rightarrow> quota_extra \<Rightarrow> quota_extra" where
  "ComputeQuotaResetAt tz now e =
     (let z = locationOf tz (GetQuotaResetTimezone e);
          e1 = e\<lparr>qx_DailyResetAt := (if getExtraString (qx_DailyResetMode e) = ''fixed''
                   then Some (nextFixedDailyReset (inRange 0 23 0 (getExtraInt (qx_DailyResetHour e))) z now) else None)\<rparr>
      in e1\<lparr>qx_WeeklyResetAt := (if getExtraString (qx_WeeklyResetMode e) = ''fixed''
              then Some (nextFixedWeeklyReset (inRange 0 6 1 (GetQuotaWeeklyResetDay e)) (inRange 0 23 0 (getExtraInt (qx_WeeklyResetHour e))) z now)
              else None)\<rparr>)"

definition ValidateQuotaResetConfig :: "tzdb \<Rightarrow> quota_extra option \<Rightarrow> go_err option" where
  "ValidateQuotaResetConfig tz eo =
     (case eo of None \<Rightarrow> None
      | Some e \<Rightarrow>
          (let outside = (\<lambda>v hi. case v of None \<Rightarrow> False | Some n \<Rightarrow> n < (0 :: int) \<or> hi < n);
               badMode = (\<lambda>v. case v of None \<Rightarrow> False | Some m \<Rightarrow> m \<noteq> ''rolling'' \<and> m \<noteq> ''fixed'')
           in if getExtraString (qx_ResetTimezone e) \<noteq> [] \<and> tz (getExtraString (qx_ResetTimezone e)) = None
              then Some (ErrorNew ''invalid quota_reset_timezone: must be a valid IANA timezone name'')
              else if badMode (qx_DailyResetMode e) then Some (ErrorNew (''quota_daily_reset_mode must be 'rolling' or 'fixed'' @ [CHR 0x27]))
              else if outside (qx_DailyResetHour e) 23 then Some (ErrorNew ''quota_daily_reset_hour must be between 0 and 23'')
              else if badMode (qx_WeeklyResetMode e) then Some (ErrorNew (''quota_weekly_reset_mode must be 'rolling' or 'fixed'' @ [CHR 0x27]))
              else if outside (qx_WeeklyResetDay e) 6
              then Some (ErrorNew ''quota_weekly_reset_day must be between 0 (Sunday) and 6 (Saturday)'')
              else if outside (qx_WeeklyResetHour e) 23 then Some (ErrorNew ''quota_weekly_reset_hour must be between 0 and 23'')
              else None))"

text \<open>Saving an account with a new column: the usage is taken over from the old one (\<open>admin_service.go\<close>, \<open>UpdateAccount\<close>).\<close>

definition keepUsage :: "quota_extra \<Rightarrow> quota_extra \<Rightarrow> quota_extra" where
  "keepUsage old new =
     (let keep = (\<lambda>u n. case u of None \<Rightarrow> n | Some v \<Rightarrow> Some v);
          keepT = (\<lambda>u n. case u of None \<Rightarrow> n | Some v \<Rightarrow> Some v)
      in new\<lparr>qx_Used := keep (qx_Used old) (qx_Used new), qx_DailyUsed := keep (qx_DailyUsed old) (qx_DailyUsed new),
          qx_DailyStart := keepT (qx_DailyStart old) (qx_DailyStart new), qx_WeeklyUsed := keep (qx_WeeklyUsed old) (qx_WeeklyUsed new),
          qx_WeeklyStart := keepT (qx_WeeklyStart old) (qx_WeeklyStart new)\<rparr>)"

definition saveExtra :: "tzdb \<Rightarrow> instant \<Rightarrow> quota_extra \<Rightarrow> quota_extra \<Rightarrow> go_err + quota_extra" where
  "saveExtra tz now old new =
     (case ValidateQuotaResetConfig tz (Some (keepUsage old new)) of
        Some err \<Rightarrow> Inl err | None \<Rightarrow> Inr (ComputeQuotaResetAt tz now (keepUsage old new)))"

section \<open>Periods, as the database sees them\<close>

definition coalesce :: "'a option \<Rightarrow> 'a \<Rightarrow> 'a" where
  "coalesce v d = (case v of None \<Rightarrow> d | Some a \<Rightarrow> a)"

definition dailyExpiredExpr :: "instant \<Rightarrow> quota_extra \<Rightarrow> bool" where
  "dailyExpiredExpr now e =
     (if coalesce (qx_DailyResetMode e) ''rolling'' = ''fixed'' then coalesce (qx_DailyResetAt e) 0 \<le> now
      else coalesce (qx_DailyStart e) 0 + 24 * nsHour \<le> now)"

definition weeklyExpiredExpr :: "instant \<Rightarrow> quota_extra \<Rightarrow> bool" where
  "weeklyExpiredExpr now e =
     (if coalesce (qx_WeeklyResetMode e) ''rolling'' = ''fixed'' then coalesce (qx_WeeklyResetAt e) 0 \<le> now
      else coalesce (qx_WeeklyStart e) 0 + 168 * nsHour \<le> now)"

text \<open>\<open>AT TIME ZONE\<close> fails for a name that is not in the database.\<close>

definition sqlZone :: "tzdb \<Rightarrow> quota_extra \<Rightarrow> go_err + int" where
  "sqlZone tz e = (case tz (coalesce (qx_ResetTimezone e) ''UTC'') of None \<Rightarrow> Inl (ErrorNew ''time zone not recognized'') | Some z \<Rightarrow> Inr z)"

definition nextDailyResetAtExpr :: "tzdb \<Rightarrow> instant \<Rightarrow> quota_extra \<Rightarrow> go_err + instant option" where
  "nextDailyResetAtExpr tz now e =
     (if coalesce (qx_DailyResetMode e) ''rolling'' = ''fixed'' then
        map_sum id (\<lambda>z. let today = dayStart z now + coalesce (qx_DailyResetHour e) 0 * nsHour
                        in Some (if today \<le> now then today + nsDay else today)) (sqlZone tz e)
      else Inr None)"

definition nextWeeklyResetAtExpr :: "tzdb \<Rightarrow> instant \<Rightarrow> quota_extra \<Rightarrow> go_err + instant option" where
  "nextWeeklyResetAtExpr tz now e =
     (if coalesce (qx_WeeklyResetMode e) ''rolling'' = ''fixed'' then
        map_sum id (\<lambda>z. let today = dayStart z now + coalesce (qx_WeeklyResetHour e) 0 * nsHour;
                            forward = goMod (coalesce (qx_WeeklyResetDay e) 1 - weekday z now + 7) 7
                        in Some (if forward = 0 \<and> today \<le> now then today + 7 * nsDay else today + forward * nsDay)) (sqlZone tz e)
      else Inr None)"

definition incrementDaily :: "tzdb \<Rightarrow> instant \<Rightarrow> rat \<Rightarrow> quota_extra \<Rightarrow> go_err + quota_extra" where
  "incrementDaily tz now amount e =
     (if coalesce (qx_DailyLimit e) 0 \<le> 0 then Inr e
      else if dailyExpiredExpr now e then
        map_sum id (\<lambda>n. e\<lparr>qx_DailyUsed := Some amount, qx_DailyStart := Some now,
             qx_DailyResetAt := (case n of None \<Rightarrow> qx_DailyResetAt e | Some t \<Rightarrow> Some t)\<rparr>) (nextDailyResetAtExpr tz now e)
      else Inr (e\<lparr>qx_DailyUsed := Some (coalesce (qx_DailyUsed e) 0 + amount), qx_DailyStart := Some (coalesce (qx_DailyStart e) now)\<rparr>))"

definition incrementWeekly :: "tzdb \<Rightarrow> instant \<Rightarrow> rat \<Rightarrow> quota_extra \<Rightarrow> go_err + quota_extra" where
  "incrementWeekly tz now amount e =
     (if coalesce (qx_WeeklyLimit e) 0 \<le> 0 then Inr e
      else if weeklyExpiredExpr now e then
        map_sum id (\<lambda>n. e\<lparr>qx_WeeklyUsed := Some amount, qx_WeeklyStart := Some now,
             qx_WeeklyResetAt := (case n of None \<Rightarrow> qx_WeeklyResetAt e | Some t \<Rightarrow> Some t)\<rparr>) (nextWeeklyResetAtExpr tz now e)
      else Inr (e\<lparr>qx_WeeklyUsed := Some (coalesce (qx_WeeklyUsed e) 0 + amount), qx_WeeklyStart := Some (coalesce (qx_WeeklyStart e) now)\<rparr>))"

text \<open>The \<open>UPDATE\<close> of \<open>IncrementQuotaUsed\<close> and of \<open>incrementUsageBillingAccountQuota\<close> on the column. The expressions of the day
  and of the week read different keys, so they may be applied one after the other.\<close>

definition incrementExtra :: "tzdb \<Rightarrow> (f64 \<Rightarrow> rat) \<Rightarrow> instant \<Rightarrow> f64 \<Rightarrow> quota_extra \<Rightarrow> go_err + quota_extra" where
  "incrementExtra tz num now amount e =
     (case incrementDaily tz now (num amount) (e\<lparr>qx_Used := Some (coalesce (qx_Used e) 0 + num amount)\<rparr>) of
        Inl err \<Rightarrow> Inl err | Inr e1 \<Rightarrow> incrementWeekly tz now (num amount) e1)"

text \<open>The \<open>UPDATE\<close> of \<open>ResetQuotaUsed\<close>.\<close>

definition resetExtra :: "quota_extra \<Rightarrow> quota_extra" where
  "resetExtra e = e\<lparr>qx_Used := Some 0, qx_DailyUsed := Some 0, qx_WeeklyUsed := Some 0, qx_DailyStart := None, qx_WeeklyStart := None,
     qx_DailyResetAt := None, qx_WeeklyResetAt := None\<rparr>"

text \<open>The total has just reached its limit: the scheduler is told.\<close>

definition justExceeded :: "quota_extra \<Rightarrow> f64 \<Rightarrow> bool" where
  "justExceeded e amount \<longleftrightarrow> flt fzero (GetQuotaLimit e) \<and> fle (GetQuotaLimit e) (GetQuotaUsed e) \<and>
     flt (fsub (GetQuotaUsed e) amount) (GetQuotaLimit e)"

section \<open>Reset points\<close>

text \<open>The points \<open>c + k * p\<close>: the last one up to \<open>t\<close>, and the next one after it.\<close>

definition lastPoint :: "int \<Rightarrow> int \<Rightarrow> int \<Rightarrow> int" where
  "lastPoint p c t = c + p * ((t - c) div p)"

lemma le_div_iff:
  fixes p :: int
  assumes "0 < p"
  shows "k \<le> a div p \<longleftrightarrow> k * p \<le> a"
proof
  assume "k \<le> a div p"
  then have "k * p \<le> a div p * p" using assms by simp
  also have "\<dots> \<le> a" using assms by (simp add: minus_mod_eq_div_mult [symmetric])
  finally show "k * p \<le> a" .
next
  assume "k * p \<le> a"
  from zdiv_mono1 [OF this assms] show "k \<le> a div p" using assms by simp
qed

lemma next_last:
  assumes "0 < p"
  shows "lastPoint p c s + p \<le> now \<longleftrightarrow> s < lastPoint p c now"
proof -
  have "lastPoint p c s + p \<le> now \<longleftrightarrow> (s - c) div p + 1 \<le> (now - c) div p"
    using assms by (simp add: lastPoint_def le_div_iff algebra_simps)
  also have "\<dots> \<longleftrightarrow> \<not> (now - c) div p \<le> (s - c) div p" by auto
  also have "\<dots> \<longleftrightarrow> s < lastPoint p c now"
    using assms by (simp add: lastPoint_def le_div_iff algebra_simps not_le)
  finally show ?thesis .
qed

lemma lastPoint_eqI:
  assumes "0 < p" "x = c + p * k" "x \<le> t" "t < x + p"
  shows "lastPoint p c t = x"
proof -
  have "k \<le> (t - c) div p" "\<not> k + 1 \<le> (t - c) div p"
    using assms by (simp_all add: le_div_iff algebra_simps)
  then show ?thesis using assms(2) by (simp add: lastPoint_def)
qed

lemma dayStart_form: "dayStart z t = nsDay * ((t + z) div nsDay) - z"
  by (simp add: dayStart_def)

text \<open>The hour of the day, and the hour of the weekday, as points.\<close>

definition dailyPhase :: "int \<Rightarrow> int \<Rightarrow> int" where
  "dailyPhase hour z = hour * nsHour - z"

definition weeklyPhase :: "int \<Rightarrow> int \<Rightarrow> int \<Rightarrow> int" where
  "weeklyPhase day hour z = (day - 4) * nsDay + hour * nsHour - z"

lemma today_bounds:
  assumes "0 \<le> hour" "hour \<le> 23"
  shows "todayAt hour z t \<le> t + 23 * nsHour" "t < todayAt hour z t + nsDay"
  using assms dayStart_le [of z t] dayStart_gt [of t z] by (auto simp: todayAt_def nsHour_def)

lemma lastDaily:
  assumes "0 \<le> hour" "hour \<le> 23"
  shows "lastFixedDailyReset hour z t = lastPoint nsDay (dailyPhase hour z) t"
proof (rule lastPoint_eqI [symmetric])
  show "lastFixedDailyReset hour z t =
      dailyPhase hour z + nsDay * ((t + z) div nsDay - (if t < todayAt hour z t then 1 else 0))"
    by (auto simp: lastFixedDailyReset_def todayAt_def dayStart_form dailyPhase_def addDays_def Let_def algebra_simps)
  show "lastFixedDailyReset hour z t \<le> t" "t < lastFixedDailyReset hour z t + nsDay"
    using today_bounds(1) [OF assms, of z t] today_bounds(2) [OF assms, of t z] by (auto simp: lastFixedDailyReset_def addDays_def Let_def nsHour_def nsDay_def)
qed (simp add: nsDay_def)

lemma nextDaily:
  assumes "0 \<le> hour" "hour \<le> 23"
  shows "nextFixedDailyReset hour z t = lastPoint nsDay (dailyPhase hour z) t + nsDay"
  unfolding lastDaily [OF assms, symmetric]
  by (auto simp: nextFixedDailyReset_def lastFixedDailyReset_def addDays_def Let_def)

text \<open>The weekday of the reset time is that of the day.\<close>

lemma weekday_today:
  assumes "0 \<le> hour" "hour \<le> 23"
  shows "weekday z (todayAt hour z t) = weekday z t"
proof -
  have "(hour * nsHour) div nsDay = 0" using assms by (intro div_pos_pos_trivial) (auto simp: nsHour_def nsDay_def)
  then have "(nsDay * ((t + z) div nsDay) + hour * nsHour) div nsDay = (t + z) div nsDay"
    by (subst div_add1_eq) (simp add: nsDay_def)
  then show ?thesis by (simp add: weekday_def todayAt_def dayStart_form algebra_simps)
qed

lemma goMod_7: "0 \<le> a \<Longrightarrow> goMod a 7 = a mod 7"
  by (simp add: goMod_def)

lemma weekday_range: "0 \<le> weekday z t" "weekday z t < 7"
  by (simp_all add: weekday_def)

lemma lastWeekly:
  assumes h: "0 \<le> hour" "hour \<le> 23" and d: "0 \<le> day" "day \<le> 6"
  shows "lastFixedWeeklyReset day hour z t = lastPoint (7 * nsDay) (weeklyPhase day hour z) t"
proof -
  let ?today = "todayAt hour z t" and ?w = "weekday z t" and ?q = "(t + z) div nsDay"
  define r where "r = (?w - day + 7) mod 7"
  define bk where "bk = (if r = 0 \<and> t < ?today then 7 else r)"
  have "goMod (?w - day + 7) 7 = r" using d weekday_range [where z = z and t = t] by (simp add: goMod_7 r_def)
  then have x: "lastFixedWeeklyReset day hour z t = ?today - bk * nsDay"
    by (simp add: lastFixedWeeklyReset_def Let_def weekday_today [OF h] addDays_def bk_def)
  have r: "0 \<le> r" "r < 7" by (simp_all add: r_def)
  have "?q + 4 = 7 * ((?q + 4) div 7) + ?w" by (simp add: weekday_def)
  moreover have "?w - day + 7 = 7 * ((?w - day + 7) div 7) + r" by (simp add: r_def)
  ultimately have "?q + 4 - day - bk =
      7 * ((?q + 4) div 7 + (?w - day + 7) div 7 - 1 - (if r = 0 \<and> t < ?today then 1 else 0))"
    unfolding bk_def by (simp split: if_split)
  then obtain k where "?q + 4 - day - bk = 7 * k" by blast
  then have k: "?q - bk = day - 4 + 7 * k" by simp
  have form: "?today - bk * nsDay = (?q - bk) * nsDay + hour * nsHour - z"
    by (simp add: todayAt_def dayStart_form algebra_simps)
  show ?thesis unfolding x
  proof (rule lastPoint_eqI [symmetric])
    show "?today - bk * nsDay = weeklyPhase day hour z + 7 * nsDay * k"
      unfolding form k by (simp add: weeklyPhase_def algebra_simps)
    show "?today - bk * nsDay \<le> t" "t < ?today - bk * nsDay + 7 * nsDay"
      using today_bounds(1) [OF h, of z t] today_bounds(2) [OF h, of t z] r by (auto simp: bk_def nsHour_def nsDay_def)
  qed (simp add: nsDay_def)
qed

lemma mod7: "0 \<le> x \<Longrightarrow> x < 7 \<Longrightarrow> (x + 7) mod 7 = x" for x :: int
  by simp

lemma forward_back:
  fixes w day :: int
  assumes "0 \<le> w" "w < 7" "0 \<le> day" "day \<le> 6"
  shows "(day - w + 7) mod 7 = (if (w - day + 7) mod 7 = 0 then 0 else 7 - (w - day + 7) mod 7)"
proof (cases w day rule: linorder_cases)
  case less
  then have "(day - w + 7) mod 7 = day - w" "(w - day + 7) mod 7 = w - day + 7"
    using assms mod_pos_pos_trivial [of "w - day + 7" 7] by (simp_all only: mod7)
  then show ?thesis using less assms by simp
next
  case greater
  then have "(w - day + 7) mod 7 = w - day" "(day - w + 7) mod 7 = day - w + 7"
    using assms mod_pos_pos_trivial [of "day - w + 7" 7] by (simp_all only: mod7)
  then show ?thesis using greater assms by simp
qed simp

lemma nextWeekly:
  assumes h: "0 \<le> hour" "hour \<le> 23" and d: "0 \<le> day" "day \<le> 6"
  shows "nextFixedWeeklyReset day hour z t = lastPoint (7 * nsDay) (weeklyPhase day hour z) t + 7 * nsDay"
proof -
  let ?w = "weekday z t"
  define r where "r = (?w - day + 7) mod 7"
  have w: "0 \<le> ?w" "?w < 7" by (rule weekday_range)+
  have f: "goMod (day - ?w + 7) 7 = (if r = 0 then 0 else 7 - r)" and g: "goMod (?w - day + 7) 7 = r"
    using w d by (simp_all only: r_def goMod_7 [of "day - ?w + 7"] goMod_7 [of "?w - day + 7"] forward_back [OF w d])
  have "r < 7" by (simp add: r_def)
  then show ?thesis
    unfolding lastWeekly [OF assms, symmetric] nextFixedWeeklyReset_def lastFixedWeeklyReset_def Let_def weekday_today [OF h] f g
    by (auto simp: addDays_def algebra_simps)
qed

section \<open>Two views of a period\<close>

text \<open>The stored end of a fixed period belongs to its start. Without a start nothing has been used, and an end that lies ahead is the
  next point of time.\<close>

definition periodInv :: "int \<Rightarrow> int \<Rightarrow> instant \<Rightarrow> rat option \<Rightarrow> instant option \<Rightarrow> instant option \<Rightarrow> bool" where
  "periodInv p c now used start reset =
     (case start of
        None \<Rightarrow> coalesce used 0 = 0 \<and> (case reset of None \<Rightarrow> True | Some r \<Rightarrow> now < r \<longrightarrow> r = lastPoint p c now + p)
      | Some s \<Rightarrow> reset = Some (lastPoint p c s + p))"

abbreviation quotaZone :: "tzdb \<Rightarrow> quota_extra \<Rightarrow> int" where
  "quotaZone tz e \<equiv> locationOf tz (GetQuotaResetTimezone e)"

abbreviation dailyFixed :: "quota_extra \<Rightarrow> bool" where
  "dailyFixed e \<equiv> qx_DailyResetMode e = Some ''fixed''"

abbreviation weeklyFixed :: "quota_extra \<Rightarrow> bool" where
  "weeklyFixed e \<equiv> qx_WeeklyResetMode e = Some ''fixed''"

definition dailyInv :: "tzdb \<Rightarrow> instant \<Rightarrow> quota_extra \<Rightarrow> bool" where
  "dailyInv tz now e \<longleftrightarrow> (dailyFixed e \<longrightarrow>
     periodInv nsDay (dailyPhase (GetQuotaDailyResetHour e) (quotaZone tz e)) now (qx_DailyUsed e) (qx_DailyStart e) (qx_DailyResetAt e))"

definition weeklyInv :: "tzdb \<Rightarrow> instant \<Rightarrow> quota_extra \<Rightarrow> bool" where
  "weeklyInv tz now e \<longleftrightarrow> (weeklyFixed e \<longrightarrow>
     periodInv (7 * nsDay) (weeklyPhase (GetQuotaWeeklyResetDay e) (GetQuotaWeeklyResetHour e) (quotaZone tz e)) now
       (qx_WeeklyUsed e) (qx_WeeklyStart e) (qx_WeeklyResetAt e))"

text \<open>A configuration that passed validation, with a zone that is named or left out.\<close>

definition quotaConfigOk :: "tzdb \<Rightarrow> quota_extra \<Rightarrow> bool" where
  "quotaConfigOk tz e \<longleftrightarrow> ValidateQuotaResetConfig tz (Some e) = None \<and> qx_ResetTimezone e \<noteq> Some [] \<and> tz ''UTC'' = Some 0"

lemma config_ranges:
  assumes "quotaConfigOk tz e"
  shows "0 \<le> GetQuotaDailyResetHour e" "GetQuotaDailyResetHour e \<le> 23" "0 \<le> GetQuotaWeeklyResetHour e" "GetQuotaWeeklyResetHour e \<le> 23"
    "0 \<le> GetQuotaWeeklyResetDay e" "GetQuotaWeeklyResetDay e \<le> 6"
  using assms
  by (auto simp: quotaConfigOk_def ValidateQuotaResetConfig_def GetQuotaDailyResetHour_def GetQuotaWeeklyResetHour_def
      GetQuotaWeeklyResetDay_def getExtraInt_def Let_def split: if_splits option.splits)

lemma config_zone:
  assumes "quotaConfigOk tz e"
  shows "sqlZone tz e = Inr (quotaZone tz e)"
  using assms
  by (auto simp: quotaConfigOk_def ValidateQuotaResetConfig_def sqlZone_def locationOf_def GetQuotaResetTimezone_def getExtraString_def
      coalesce_def Let_def split: if_splits option.splits)

lemma mode_fixed:
  "GetQuotaDailyResetMode e = ''fixed'' \<longleftrightarrow> dailyFixed e" "coalesce (qx_DailyResetMode e) ''rolling'' = ''fixed'' \<longleftrightarrow> dailyFixed e"
  "GetQuotaWeeklyResetMode e = ''fixed'' \<longleftrightarrow> weeklyFixed e" "coalesce (qx_WeeklyResetMode e) ''rolling'' = ''fixed'' \<longleftrightarrow> weeklyFixed e"
  by (auto simp: GetQuotaDailyResetMode_def GetQuotaWeeklyResetMode_def getExtraString_def coalesce_def split: option.split)

text \<open>The database's next points are those of the services.\<close>

lemma nextDaily_sql:
  assumes "quotaConfigOk tz e"
  shows "nextDailyResetAtExpr tz now e = Inr (if dailyFixed e
     then Some (nextFixedDailyReset (GetQuotaDailyResetHour e) (quotaZone tz e) now) else None)"
  by (auto simp: nextDailyResetAtExpr_def mode_fixed config_zone [OF assms] nextFixedDailyReset_def todayAt_def addDays_def Let_def
      GetQuotaDailyResetHour_def getExtraInt_def coalesce_def split: option.split)

lemma nextWeekly_sql:
  assumes "quotaConfigOk tz e"
  shows "nextWeeklyResetAtExpr tz now e = Inr (if weeklyFixed e
     then Some (nextFixedWeeklyReset (GetQuotaWeeklyResetDay e) (GetQuotaWeeklyResetHour e) (quotaZone tz e) now) else None)"
proof -
  have "coalesce (qx_WeeklyResetHour e) 0 = GetQuotaWeeklyResetHour e" "coalesce (qx_WeeklyResetDay e) 1 = GetQuotaWeeklyResetDay e"
    by (simp_all add: GetQuotaWeeklyResetHour_def GetQuotaWeeklyResetDay_def getExtraInt_def coalesce_def)
  then show ?thesis
    by (auto simp: nextWeeklyResetAtExpr_def mode_fixed config_zone [OF assms] nextFixedWeeklyReset_def addDays_def Let_def
        weekday_today [OF config_ranges(3,4) [OF assms]] todayAt_def [symmetric] not_less)
qed

lemma period_effective:
  assumes "0 < p" "periodInv p c now used start reset" "0 \<le> now"
  shows "(if coalesce reset 0 \<le> now then 0 else coalesce used 0) =
         (if (case start of None \<Rightarrow> True | Some s \<Rightarrow> s < lastPoint p c now) then 0 else coalesce used 0)"
  using assms next_last [OF assms(1)] by (auto simp: periodInv_def coalesce_def split: option.splits)

lemma period_increment:
  assumes "periodInv p c now used start reset" "\<not> coalesce reset 0 \<le> now" "0 \<le> now"
  shows "periodInv p c now used' (Some (coalesce start now)) reset"
  using assms by (auto simp: periodInv_def coalesce_def split: option.splits)

lemma period_reset: "periodInv p c now used' (Some now) (Some (lastPoint p c now + p))"
  by (simp add: periodInv_def)

text \<open>Time passes.\<close>

lemma period_later:
  assumes "0 < p" "periodInv p c now used start reset" "now \<le> now'"
  shows "periodInv p c now' used start reset"
proof -
  have "lastPoint p c now + p = lastPoint p c now' + p" if "now' < lastPoint p c now + p"
  proof -
    have "lastPoint p c now \<le> now" using assms(1) by (simp add: lastPoint_def minus_mod_eq_mult_div [symmetric])
    then have "lastPoint p c now' = lastPoint p c now"
      using that assms by (intro lastPoint_eqI [where k = "(now - c) div p"]) (auto simp: lastPoint_def)
    then show ?thesis by simp
  qed
  then show ?thesis using assms(2,3) by (auto simp: periodInv_def split: option.splits)
qed

text \<open>What the services count as used in the current day and week.\<close>

definition effectiveDaily :: "tzdb \<Rightarrow> quota_extra \<Rightarrow> instant \<Rightarrow> rat" where
  "effectiveDaily tz e now = (if IsDailyQuotaPeriodExpired tz e now then 0 else coalesce (qx_DailyUsed e) 0)"

definition effectiveWeekly :: "tzdb \<Rightarrow> quota_extra \<Rightarrow> instant \<Rightarrow> rat" where
  "effectiveWeekly tz e now = (if IsWeeklyQuotaPeriodExpired tz e now then 0 else coalesce (qx_WeeklyUsed e) 0)"

lemma daily_effective:
  assumes "quotaConfigOk tz e" "dailyInv tz now e" "nsDay \<le> now"
  shows "(if dailyExpiredExpr now e then 0 else coalesce (qx_DailyUsed e) 0) = effectiveDaily tz e now"
proof (cases "dailyFixed e")
  case True
  let ?c = "dailyPhase (GetQuotaDailyResetHour e) (quotaZone tz e)"
  have inv: "periodInv nsDay ?c now (qx_DailyUsed e) (qx_DailyStart e) (qx_DailyResetAt e)" using True assms(2) by (simp add: dailyInv_def)
  from period_effective [OF _ inv] True assms(3) show ?thesis
    unfolding dailyExpiredExpr_def effectiveDaily_def IsDailyQuotaPeriodExpired_def mode_fixed isFixedDailyPeriodExpired_def
      lastDaily [OF config_ranges(1,2) [OF assms(1)]]
    by (simp add: nsDay_def)
next
  case False
  then show ?thesis using assms(3)
    by (auto simp: dailyExpiredExpr_def effectiveDaily_def IsDailyQuotaPeriodExpired_def mode_fixed isPeriodExpired_def coalesce_def
        nsDay_def nsHour_def split: option.splits)
qed

lemma weekly_effective:
  assumes "quotaConfigOk tz e" "weeklyInv tz now e" "7 * nsDay \<le> now"
  shows "(if weeklyExpiredExpr now e then 0 else coalesce (qx_WeeklyUsed e) 0) = effectiveWeekly tz e now"
proof (cases "weeklyFixed e")
  case True
  let ?c = "weeklyPhase (GetQuotaWeeklyResetDay e) (GetQuotaWeeklyResetHour e) (quotaZone tz e)"
  have inv: "periodInv (7 * nsDay) ?c now (qx_WeeklyUsed e) (qx_WeeklyStart e) (qx_WeeklyResetAt e)"
    using True assms(2) by (simp add: weeklyInv_def)
  from period_effective [OF _ inv] True assms(3) show ?thesis
    unfolding weeklyExpiredExpr_def effectiveWeekly_def IsWeeklyQuotaPeriodExpired_def mode_fixed isFixedWeeklyPeriodExpired_def
      lastWeekly [OF config_ranges(3-6) [OF assms(1)]]
    by (simp add: nsDay_def)
next
  case False
  then show ?thesis using assms(3)
    by (auto simp: weeklyExpiredExpr_def effectiveWeekly_def IsWeeklyQuotaPeriodExpired_def mode_fixed isPeriodExpired_def coalesce_def
        nsDay_def nsHour_def split: option.splits)
qed

text \<open>The period an increment leaves.\<close>

definition nextDailyStart :: "instant \<Rightarrow> quota_extra \<Rightarrow> instant" where
  "nextDailyStart now e = (if dailyExpiredExpr now e then now else coalesce (qx_DailyStart e) now)"

definition nextDailyResetAt :: "tzdb \<Rightarrow> instant \<Rightarrow> quota_extra \<Rightarrow> instant option" where
  "nextDailyResetAt tz now e = (if dailyExpiredExpr now e \<and> dailyFixed e then Some (nextFixedDailyReset (GetQuotaDailyResetHour e) (quotaZone tz e) now) else qx_DailyResetAt e)"

lemma incrementDaily_eq:
  assumes ok: "quotaConfigOk tz e" and inv: "dailyInv tz now e" and now: "nsDay \<le> now" and lim: "0 < coalesce (qx_DailyLimit e) 0"
  shows "incrementDaily tz now a e = Inr (e\<lparr>qx_DailyUsed := Some (effectiveDaily tz e now + a), qx_DailyStart := Some (nextDailyStart now e),
    qx_DailyResetAt := nextDailyResetAt tz now e\<rparr>)"
proof -
  have "effectiveDaily tz e now = (if dailyExpiredExpr now e then 0 else coalesce (qx_DailyUsed e) 0)"
    using daily_effective [OF ok inv now] by simp
  moreover have "e\<lparr>qx_DailyUsed := u, qx_DailyStart := s, qx_DailyResetAt := qx_DailyResetAt e\<rparr> = e\<lparr>qx_DailyUsed := u, qx_DailyStart := s\<rparr>" for u s
    by (cases e) simp
  ultimately show ?thesis using lim
    by (simp add: incrementDaily_def nextDaily_sql [OF ok] nextDailyStart_def nextDailyResetAt_def)
qed

lemma incrementDaily_inv:
  assumes ok: "quotaConfigOk tz e" and inv: "dailyInv tz now e" and now: "nsDay \<le> now" and fixed: "dailyFixed e"
  shows "periodInv nsDay (dailyPhase (GetQuotaDailyResetHour e) (quotaZone tz e)) now u (Some (nextDailyStart now e)) (nextDailyResetAt tz now e)"
proof (cases "dailyExpiredExpr now e")
  case True
  then show ?thesis using fixed by (simp add: nextDailyStart_def nextDailyResetAt_def nextDaily [OF config_ranges(1,2) [OF ok]] period_reset)
next
  case False
  then have "\<not> coalesce (qx_DailyResetAt e) 0 \<le> now" using fixed unfolding dailyExpiredExpr_def mode_fixed by simp
  then show ?thesis using False inv now fixed
    by (simp add: nextDailyStart_def nextDailyResetAt_def dailyInv_def nsDay_def period_increment)
qed

definition nextWeeklyStart :: "instant \<Rightarrow> quota_extra \<Rightarrow> instant" where
  "nextWeeklyStart now e = (if weeklyExpiredExpr now e then now else coalesce (qx_WeeklyStart e) now)"

definition nextWeeklyResetAt :: "tzdb \<Rightarrow> instant \<Rightarrow> quota_extra \<Rightarrow> instant option" where
  "nextWeeklyResetAt tz now e = (if weeklyExpiredExpr now e \<and> weeklyFixed e then Some (nextFixedWeeklyReset (GetQuotaWeeklyResetDay e) (GetQuotaWeeklyResetHour e) (quotaZone tz e) now) else qx_WeeklyResetAt e)"

lemma incrementWeekly_eq:
  assumes ok: "quotaConfigOk tz e" and inv: "weeklyInv tz now e" and now: "7 * nsDay \<le> now" and lim: "0 < coalesce (qx_WeeklyLimit e) 0"
  shows "incrementWeekly tz now a e = Inr (e\<lparr>qx_WeeklyUsed := Some (effectiveWeekly tz e now + a), qx_WeeklyStart := Some (nextWeeklyStart now e),
    qx_WeeklyResetAt := nextWeeklyResetAt tz now e\<rparr>)"
proof -
  have "effectiveWeekly tz e now = (if weeklyExpiredExpr now e then 0 else coalesce (qx_WeeklyUsed e) 0)"
    using weekly_effective [OF ok inv now] by simp
  moreover have "e\<lparr>qx_WeeklyUsed := u, qx_WeeklyStart := s, qx_WeeklyResetAt := qx_WeeklyResetAt e\<rparr> = e\<lparr>qx_WeeklyUsed := u, qx_WeeklyStart := s\<rparr>" for u s
    by (cases e) simp
  ultimately show ?thesis using lim
    by (simp add: incrementWeekly_def nextWeekly_sql [OF ok] nextWeeklyStart_def nextWeeklyResetAt_def)
qed

lemma incrementWeekly_inv:
  assumes ok: "quotaConfigOk tz e" and inv: "weeklyInv tz now e" and now: "7 * nsDay \<le> now" and fixed: "weeklyFixed e"
  shows "periodInv (7 * nsDay) (weeklyPhase (GetQuotaWeeklyResetDay e) (GetQuotaWeeklyResetHour e) (quotaZone tz e)) now u (Some (nextWeeklyStart now e)) (nextWeeklyResetAt tz now e)"
proof (cases "weeklyExpiredExpr now e")
  case True
  then show ?thesis using fixed by (simp add: nextWeeklyStart_def nextWeeklyResetAt_def nextWeekly [OF config_ranges(3-6) [OF ok]] period_reset)
next
  case False
  then have "\<not> coalesce (qx_WeeklyResetAt e) 0 \<le> now" using fixed unfolding weeklyExpiredExpr_def mode_fixed by simp
  then show ?thesis using False inv now fixed
    by (simp add: nextWeeklyStart_def nextWeeklyResetAt_def weeklyInv_def nsDay_def period_increment)
qed

section \<open>Increments\<close>

text \<open>What depends on which key.\<close>

lemma period_ahead: "0 < p \<Longrightarrow> now < lastPoint p c now + p"
  using next_last [of p c now now] by (simp add: lastPoint_def minus_mod_eq_mult_div [symmetric] not_less [symmetric])

lemma config_frame [simp]:
  "quotaConfigOk tz (e\<lparr>qx_Used := v\<rparr>) = quotaConfigOk tz e"
  "quotaConfigOk tz (e\<lparr>qx_DailyUsed := v\<rparr>) = quotaConfigOk tz e"
  "quotaConfigOk tz (e\<lparr>qx_DailyStart := t\<rparr>) = quotaConfigOk tz e"
  "quotaConfigOk tz (e\<lparr>qx_DailyResetAt := t\<rparr>) = quotaConfigOk tz e"
  "quotaConfigOk tz (e\<lparr>qx_WeeklyUsed := v\<rparr>) = quotaConfigOk tz e"
  "quotaConfigOk tz (e\<lparr>qx_WeeklyStart := t\<rparr>) = quotaConfigOk tz e"
  "quotaConfigOk tz (e\<lparr>qx_WeeklyResetAt := t\<rparr>) = quotaConfigOk tz e"
  unfolding quotaConfigOk_def ValidateQuotaResetConfig_def Let_def by simp_all

lemma daily_frame [simp]:
  "dailyInv tz now (e\<lparr>qx_Used := v\<rparr>) = dailyInv tz now e" "effectiveDaily tz (e\<lparr>qx_Used := v\<rparr>) now = effectiveDaily tz e now"
  "dailyInv tz now (e\<lparr>qx_WeeklyUsed := v\<rparr>) = dailyInv tz now e" "effectiveDaily tz (e\<lparr>qx_WeeklyUsed := v\<rparr>) now = effectiveDaily tz e now"
  "dailyInv tz now (e\<lparr>qx_WeeklyStart := t\<rparr>) = dailyInv tz now e" "effectiveDaily tz (e\<lparr>qx_WeeklyStart := t\<rparr>) now = effectiveDaily tz e now"
  "dailyInv tz now (e\<lparr>qx_WeeklyResetAt := t\<rparr>) = dailyInv tz now e" "effectiveDaily tz (e\<lparr>qx_WeeklyResetAt := t\<rparr>) now = effectiveDaily tz e now"
  unfolding dailyInv_def effectiveDaily_def IsDailyQuotaPeriodExpired_def isFixedDailyPeriodExpired_def GetQuotaDailyResetMode_def
    GetQuotaResetTimezone_def GetQuotaDailyResetHour_def by (simp_all cong: option.case_cong)

lemma incrementDaily_ok:
  fixes a :: rat
  assumes ok: "quotaConfigOk tz e" and inv: "dailyInv tz now e" and now: "nsDay \<le> now" and lim: "0 < coalesce (qx_DailyLimit e) 0"
  defines "e' \<equiv> e\<lparr>qx_DailyUsed := Some (effectiveDaily tz e now + a), qx_DailyStart := Some (nextDailyStart now e), qx_DailyResetAt := nextDailyResetAt tz now e\<rparr>"
  shows "incrementDaily tz now a e = Inr e'" "dailyInv tz now e'" "effectiveDaily tz e' now = effectiveDaily tz e now + a"
proof -
  show "incrementDaily tz now a e = Inr e'" unfolding e'_def by (rule incrementDaily_eq [OF ok inv now lim])
  have ok': "quotaConfigOk tz e'" using ok by (simp add: e'_def)
  show inv': "dailyInv tz now e'"
    using incrementDaily_inv [OF ok inv now, where u = "Some (effectiveDaily tz e now + a)"]
    unfolding e'_def dailyInv_def GetQuotaResetTimezone_def GetQuotaDailyResetHour_def by auto
  have "\<not> dailyExpiredExpr now e'"
    using now period_ahead [of nsDay now "dailyPhase (GetQuotaDailyResetHour e) (quotaZone tz e)"]
    by (auto simp: e'_def dailyExpiredExpr_def nextDailyStart_def nextDailyResetAt_def mode_fixed nextDaily [OF config_ranges(1,2) [OF ok]] nsDay_def nsHour_def
        coalesce_def split: option.splits if_splits)
  then show "effectiveDaily tz e' now = effectiveDaily tz e now + a"
    using daily_effective [OF ok' inv' now] by (simp add: e'_def coalesce_def)
qed

lemma weekly_frame [simp]:
  "weeklyInv tz now (e\<lparr>qx_Used := v\<rparr>) = weeklyInv tz now e" "effectiveWeekly tz (e\<lparr>qx_Used := v\<rparr>) now = effectiveWeekly tz e now"
  "weeklyInv tz now (e\<lparr>qx_DailyUsed := v\<rparr>) = weeklyInv tz now e" "effectiveWeekly tz (e\<lparr>qx_DailyUsed := v\<rparr>) now = effectiveWeekly tz e now"
  "weeklyInv tz now (e\<lparr>qx_DailyStart := t\<rparr>) = weeklyInv tz now e" "effectiveWeekly tz (e\<lparr>qx_DailyStart := t\<rparr>) now = effectiveWeekly tz e now"
  "weeklyInv tz now (e\<lparr>qx_DailyResetAt := t\<rparr>) = weeklyInv tz now e" "effectiveWeekly tz (e\<lparr>qx_DailyResetAt := t\<rparr>) now = effectiveWeekly tz e now"
  unfolding weeklyInv_def effectiveWeekly_def IsWeeklyQuotaPeriodExpired_def isFixedWeeklyPeriodExpired_def GetQuotaWeeklyResetMode_def
    GetQuotaResetTimezone_def GetQuotaWeeklyResetDay_def GetQuotaWeeklyResetHour_def by (simp_all cong: option.case_cong)

lemma incrementWeekly_ok:
  fixes a :: rat
  assumes ok: "quotaConfigOk tz e" and inv: "weeklyInv tz now e" and now: "7 * nsDay \<le> now" and lim: "0 < coalesce (qx_WeeklyLimit e) 0"
  defines "e' \<equiv> e\<lparr>qx_WeeklyUsed := Some (effectiveWeekly tz e now + a), qx_WeeklyStart := Some (nextWeeklyStart now e), qx_WeeklyResetAt := nextWeeklyResetAt tz now e\<rparr>"
  shows "incrementWeekly tz now a e = Inr e'" "weeklyInv tz now e'" "effectiveWeekly tz e' now = effectiveWeekly tz e now + a"
proof -
  show "incrementWeekly tz now a e = Inr e'" unfolding e'_def by (rule incrementWeekly_eq [OF ok inv now lim])
  have ok': "quotaConfigOk tz e'" using ok by (simp add: e'_def)
  show inv': "weeklyInv tz now e'"
    using incrementWeekly_inv [OF ok inv now, where u = "Some (effectiveWeekly tz e now + a)"]
    unfolding e'_def weeklyInv_def GetQuotaResetTimezone_def GetQuotaWeeklyResetDay_def GetQuotaWeeklyResetHour_def by auto
  have "\<not> weeklyExpiredExpr now e'"
    using now period_ahead [of "7 * nsDay" now "weeklyPhase (GetQuotaWeeklyResetDay e) (GetQuotaWeeklyResetHour e) (quotaZone tz e)"]
    by (auto simp: e'_def weeklyExpiredExpr_def nextWeeklyStart_def nextWeeklyResetAt_def mode_fixed nextWeekly [OF config_ranges(3-6) [OF ok]] nsDay_def nsHour_def
        coalesce_def split: option.splits if_splits)
  then show "effectiveWeekly tz e' now = effectiveWeekly tz e now + a"
    using weekly_effective [OF ok' inv' now] by (simp add: e'_def coalesce_def)
qed

definition quotaInv :: "tzdb \<Rightarrow> instant \<Rightarrow> quota_extra \<Rightarrow> bool" where
  "quotaInv tz now e \<longleftrightarrow> quotaConfigOk tz e \<and> dailyInv tz now e \<and> weeklyInv tz now e"

lemma effective_used:
  "coalesce (qx_DailyLimit e) 0 \<le> 0 \<Longrightarrow> incrementDaily tz now a e = Inr e"
  "coalesce (qx_WeeklyLimit e) 0 \<le> 0 \<Longrightarrow> incrementWeekly tz now a e = Inr e"
  by (simp_all add: incrementDaily_def incrementWeekly_def)

text \<open>C27. An increment adds its amount to what the services count as used. From a configuration that passed validation it never fails,
  it adds to the total and, where a limit is set, to the usage of the current day and week as the services see it, so that a
  period which they take for expired starts again from zero; and it keeps the stored ends of the periods in step with their
  starts, so that the database and the services go on agreeing.\<close>

theorem increment_adds_to_effective_usage:
  assumes inv: "quotaInv tz now e" and now: "7 * nsDay \<le> now"
  shows "\<exists>e'. incrementExtra tz num now amount e = Inr e' \<and> quotaInv tz now e' \<and>
     coalesce (qx_Used e') 0 = coalesce (qx_Used e) 0 + num amount \<and>
     (0 < coalesce (qx_DailyLimit e) 0 \<longrightarrow> effectiveDaily tz e' now = effectiveDaily tz e now + num amount) \<and>
     (0 < coalesce (qx_WeeklyLimit e) 0 \<longrightarrow> effectiveWeekly tz e' now = effectiveWeekly tz e now + num amount)"
proof -
  let ?a = "num amount"
  define e1 where "e1 = e\<lparr>qx_Used := Some (coalesce (qx_Used e) 0 + ?a)\<rparr>"
  have 1: "quotaConfigOk tz e1" "dailyInv tz now e1" "weeklyInv tz now e1" using inv by (simp_all add: e1_def quotaInv_def)
  have now1: "nsDay \<le> now" using now by (simp add: nsDay_def)
  obtain e2 where e2: "incrementDaily tz now ?a e1 = Inr e2" "quotaConfigOk tz e2" "dailyInv tz now e2" "weeklyInv tz now e2"
    "qx_Used e2 = qx_Used e1" "qx_WeeklyLimit e2 = qx_WeeklyLimit e" "effectiveWeekly tz e2 now = effectiveWeekly tz e now"
    "0 < coalesce (qx_DailyLimit e) 0 \<longrightarrow> effectiveDaily tz e2 now = effectiveDaily tz e now + ?a"
  proof (cases "0 < coalesce (qx_DailyLimit e1) 0")
    case True
    show thesis by (rule that, rule incrementDaily_ok(1) [OF 1(1,2) now1 True], insert 1 incrementDaily_ok(2,3) [OF 1(1,2) now1 True, of ?a])
      (simp_all add: e1_def)
  next
    case False
    with 1 show thesis by (intro that [of e1]) (simp_all add: effective_used e1_def)
  qed
  show ?thesis
  proof (cases "0 < coalesce (qx_WeeklyLimit e2) 0")
    case True
    note w = incrementWeekly_ok [OF e2(2,4) now True, of ?a]
    have "incrementExtra tz num now amount e = Inr (e2\<lparr>qx_WeeklyUsed := Some (effectiveWeekly tz e2 now + ?a),
        qx_WeeklyStart := Some (nextWeeklyStart now e2), qx_WeeklyResetAt := nextWeeklyResetAt tz now e2\<rparr>)"
      using e2(1) w(1) by (simp add: incrementExtra_def e1_def)
    then show ?thesis using w(2,3) e2 True by (auto simp: quotaInv_def e1_def coalesce_def)
  next
    case False
    then have "incrementExtra tz num now amount e = Inr e2" using e2(1) by (simp add: incrementExtra_def e1_def effective_used)
    then show ?thesis using e2 False by (auto simp: quotaInv_def e1_def coalesce_def)
  qed
qed

definition sampleQuota :: quota_extra where
  "sampleQuota = \<lparr>qx_Limit = Some 100, qx_Used = Some 7, qx_DailyLimit = Some 5, qx_DailyUsed = Some 4, qx_WeeklyLimit = None,
     qx_WeeklyUsed = None, qx_DailyStart = Some (20 * nsDay + 8 * nsHour), qx_WeeklyStart = None, qx_DailyResetAt = Some (21 * nsDay),
     qx_WeeklyResetAt = None, qx_DailyResetMode = Some ''fixed'', qx_WeeklyResetMode = None, qx_DailyResetHour = None,
     qx_WeeklyResetDay = None, qx_WeeklyResetHour = None, qx_ResetTimezone = None\<rparr>"

definition sampleZones :: tzdb where
  "sampleZones name = (if name = ''UTC'' then Some 0 else None)"

lemma sampleQuota_ok: "quotaConfigOk sampleZones sampleQuota"
  by code_simp

lemma sampleQuota_inv: "quotaInv sampleZones (21 * nsDay + nsHour) sampleQuota"
  unfolding quotaInv_def using sampleQuota_ok
  by (simp add: dailyInv_def weeklyInv_def periodInv_def sampleQuota_def dailyPhase_def GetQuotaDailyResetHour_def getExtraInt_def
      GetQuotaResetTimezone_def getExtraString_def locationOf_def sampleZones_def lastPoint_def ns_defs)

theorem increment_adds_to_effective_usage_witness:
  "\<exists>e'. incrementExtra sampleZones (\<lambda>_. 3) (21 * nsDay + nsHour) (F64 3) sampleQuota = Inr e' \<and>
     quotaInv sampleZones (21 * nsDay + nsHour) e' \<and> effectiveDaily sampleZones e' (21 * nsDay + nsHour) = 3"
proof -
  let ?now = "21 * nsDay + nsHour"
  have "effectiveDaily sampleZones sampleQuota ?now = 0" by code_simp
  moreover have "7 * nsDay \<le> ?now" "0 < coalesce (qx_DailyLimit sampleQuota) 0"
    by (simp_all add: ns_defs sampleQuota_def coalesce_def)
  ultimately show ?thesis
    using increment_adds_to_effective_usage [OF sampleQuota_inv, of "\<lambda>_. 3" "F64 3"] by auto
qed

text \<open>The usage recorded over time: increments at given instants.\<close>

fun incrementAll :: "tzdb \<Rightarrow> (f64 \<Rightarrow> rat) \<Rightarrow> (instant \<times> f64) list \<Rightarrow> quota_extra \<Rightarrow> go_err + quota_extra" where
  "incrementAll tz num [] e = Inr e"
| "incrementAll tz num ((now, amount) # us) e =
     (case incrementExtra tz num now amount e of Inl err \<Rightarrow> Inl err | Inr e' \<Rightarrow> incrementAll tz num us e')"

text \<open>The daily part of an increment before the stored end of the period.\<close>

lemma incrementWeekly_daily:
  assumes "incrementWeekly tz now a e = Inr e'"
  shows "qx_DailyResetMode e' = qx_DailyResetMode e" "qx_DailyStart e' = qx_DailyStart e" "qx_DailyResetAt e' = qx_DailyResetAt e"
    "qx_DailyLimit e' = qx_DailyLimit e" "qx_DailyResetHour e' = qx_DailyResetHour e" "qx_ResetTimezone e' = qx_ResetTimezone e"
    "qx_DailyUsed e' = qx_DailyUsed e"
  using assms by (cases "nextWeeklyResetAtExpr tz now e"; auto simp: incrementWeekly_def split: if_splits)+

lemma increment_before_end:
  assumes "incrementExtra tz num now amount e = Inr e'" "dailyFixed e" "qx_DailyStart e = Some s" "qx_DailyResetAt e = Some r" "now < r"
  shows "dailyFixed e' \<and> qx_DailyStart e' = Some s \<and> qx_DailyResetAt e' = Some r \<and> qx_DailyLimit e' = qx_DailyLimit e \<and>
     qx_DailyResetHour e' = qx_DailyResetHour e \<and> qx_ResetTimezone e' = qx_ResetTimezone e \<and>
     coalesce (qx_DailyUsed e') 0 = coalesce (qx_DailyUsed e) 0 + (if 0 < coalesce (qx_DailyLimit e) 0 then num amount else 0)"
proof -
  obtain e1 where e1: "incrementDaily tz now (num amount) (e\<lparr>qx_Used := Some (coalesce (qx_Used e) 0 + num amount)\<rparr>) = Inr e1"
      "incrementWeekly tz now (num amount) e1 = Inr e'"
    using assms(1) by (auto simp: incrementExtra_def split: sum.splits)
  show ?thesis using e1(1) assms
    by (auto simp: incrementWeekly_daily [OF e1(2)] incrementDaily_def dailyExpiredExpr_def coalesce_def split: if_splits option.splits)
qed

lemma incrementAll_before_end:
  assumes "incrementAll tz num us e = Inr e'" "dailyFixed e" "qx_DailyStart e = Some s" "qx_DailyResetAt e = Some r"
    "list_all (\<lambda>(now, amount). now < r) us"
  shows "dailyFixed e' \<and> qx_DailyStart e' = Some s \<and> qx_DailyResetHour e' = qx_DailyResetHour e \<and> qx_ResetTimezone e' = qx_ResetTimezone e \<and>
     coalesce (qx_DailyUsed e') 0 = coalesce (qx_DailyUsed e) 0 + (if 0 < coalesce (qx_DailyLimit e) 0 then sum_list (map (num \<circ> snd) us) else 0)"
  using assms
proof (induction us arbitrary: e)
  case (Cons u us)
  obtain now amount where u: "u = (now, amount)" by (cases u)
  then obtain e1 where e1: "incrementExtra tz num now amount e = Inr e1" "incrementAll tz num us e1 = Inr e'"
    using Cons.prems(1) by (auto split: sum.splits)
  note step = increment_before_end [OF e1(1) Cons.prems(2-4)]
  show ?case using Cons.IH [OF e1(2)] step Cons.prems(5) u by auto
qed simp

lemma validated_hour:
  assumes "ValidateQuotaResetConfig tz (Some e) = None"
  shows "0 \<le> GetQuotaDailyResetHour e" "GetQuotaDailyResetHour e \<le> 23"
  using assms
  by (auto simp: ValidateQuotaResetConfig_def GetQuotaDailyResetHour_def getExtraInt_def Let_def split: if_splits option.splits)

text \<open>C39. Saving an account after its daily reset suspends the daily limit. If the period of the last usage is over when the account is
  saved, and no request has come since, then up to the next reset the services count nothing as used, however much is used: the
  database goes on adding to the usage of the old period, which the services take for expired.\<close>

theorem save_suspends_daily_limit:
  assumes save: "saveExtra tz t old new = Inr e" and fixed: "dailyFixed e" and start: "qx_DailyStart old = Some s"
    and over: "s < lastFixedDailyReset (GetQuotaDailyResetHour e) (quotaZone tz e) t"
    and uses: "incrementAll tz num us e = Inr e'" "list_all (\<lambda>(now, amount). now < nextFixedDailyReset (GetQuotaDailyResetHour e) (quotaZone tz e) t) us"
    and now: "t \<le> now"
  shows "effectiveDaily tz e' now = 0 \<and> (0 < coalesce (qx_DailyLimit e) 0 \<longrightarrow>
     coalesce (qx_DailyUsed e') 0 = coalesce (qx_DailyUsed e) 0 + sum_list (map (num \<circ> snd) us))"
proof -
  let ?h = "GetQuotaDailyResetHour e" and ?z = "quotaZone tz e"
  let ?k = "keepUsage old new"
  have valid: "ValidateQuotaResetConfig tz (Some ?k) = None" "e = ComputeQuotaResetAt tz t ?k"
    using save by (auto simp: saveExtra_def split: option.splits)
  have "?h = GetQuotaDailyResetHour ?k" by (simp add: valid(2) ComputeQuotaResetAt_def GetQuotaDailyResetHour_def Let_def)
  then have h: "0 \<le> ?h" "?h \<le> 23" using validated_hour [OF valid(1)] by simp_all
  have s: "qx_DailyStart e = Some s" "qx_DailyResetAt e = Some (nextFixedDailyReset ?h ?z t)"
    using start fixed h unfolding valid(2) ComputeQuotaResetAt_def keepUsage_def Let_def GetQuotaDailyResetHour_def GetQuotaResetTimezone_def
    by (simp_all add: inRange_def getExtraString_def)
  note e' = incrementAll_before_end [OF uses(1) fixed s uses(2)]
  have "GetQuotaDailyResetHour e' = ?h" "quotaZone tz e' = ?z" using e' by (simp_all add: GetQuotaDailyResetHour_def GetQuotaResetTimezone_def)
  moreover have "lastFixedDailyReset ?h ?z t \<le> lastFixedDailyReset ?h ?z now"
    using now by (simp add: lastDaily [OF h] lastPoint_def nsDay_def zdiv_mono1)
  ultimately have "IsDailyQuotaPeriodExpired tz e' now"
    using e' over by (simp add: IsDailyQuotaPeriodExpired_def mode_fixed isFixedDailyPeriodExpired_def)
  then show ?thesis using e' by (simp add: effectiveDaily_def)
qed

theorem save_suspends_daily_limit_witness:
  "\<exists>e e'. saveExtra sampleZones (21 * nsDay + nsHour) sampleQuota sampleQuota = Inr e \<and>
     incrementAll sampleZones (\<lambda>_. 3) [(21 * nsDay + 2 * nsHour, F64 3)] e = Inr e' \<and>
     effectiveDaily sampleZones e' (21 * nsDay + 3 * nsHour) = 0 \<and> coalesce (qx_DailyUsed e') 0 = 7"
proof -
  let ?t = "21 * nsDay + nsHour" and ?us = "[(21 * nsDay + 2 * nsHour, F64 3)]"
  let ?e = "sampleQuota\<lparr>qx_DailyResetAt := Some (22 * nsDay)\<rparr>" and ?e' = "sampleQuota\<lparr>qx_Used := Some 10, qx_DailyUsed := Some 7, qx_DailyResetAt := Some (22 * nsDay)\<rparr>"
  have 1: "saveExtra sampleZones ?t sampleQuota sampleQuota = Inr ?e" by code_simp
  have 2: "incrementAll sampleZones (\<lambda>_. 3) ?us ?e = Inr ?e'" by code_simp
  have 3: "dailyFixed ?e" "qx_DailyStart sampleQuota = Some (20 * nsDay + 8 * nsHour)" "?t \<le> 21 * nsDay + 3 * nsHour"
    by (simp_all add: sampleQuota_def nsHour_def)
  have 4: "20 * nsDay + 8 * nsHour < lastFixedDailyReset (GetQuotaDailyResetHour ?e) (quotaZone sampleZones ?e) ?t" by code_simp
  have 5: "list_all (\<lambda>(now, amount :: f64). now < nextFixedDailyReset (GetQuotaDailyResetHour ?e) (quotaZone sampleZones ?e) ?t) ?us" by code_simp
  show ?thesis
    using save_suspends_daily_limit [OF 1 3(1,2) 4 2 5 3(3)] 1 2 by (intro exI [of _ ?e] exI [of _ ?e']) (simp add: coalesce_def)
qed

end
