(* ===== verification/Api_Key.thy ===== *)
theory Api_Key
  imports Store
begin

text \<open>
  API keys (\<open>service/api_key.go\<close>, and the counters of \<open>repository/api_key_repo.go\<close>): the quota of a key and its
  spending limits per five hours, per day and per week. The amounts are numeric columns, so a row holds rationals and a service
  reads the nearest \<open>float64\<close>. \<open>sql_num\<close> is what PostgreSQL does with amounts: the value of a \<open>float64\<close> parameter, the rounding of
  a \<open>decimal(20,8)\<close> column, the sum of a \<open>decimal(20,10)\<close> column that services read as \<open>float64\<close>, and the zone of the session.
\<close>

record sql_num =
  sn_num :: "f64 \<Rightarrow> rat"
  sn_col8 :: "rat \<Rightarrow> rat"
  sn_usageAdd :: "f64 \<Rightarrow> f64 \<Rightarrow> f64"
  sn_zone :: int

definition StatusAPIKeyActive :: string where "StatusAPIKeyActive = ''active''"
definition StatusAPIKeyDisabled :: string where "StatusAPIKeyDisabled = ''disabled''"
definition StatusAPIKeyQuotaExhausted :: string where "StatusAPIKeyQuotaExhausted = ''quota_exhausted''"
definition StatusAPIKeyExpired :: string where "StatusAPIKeyExpired = ''expired''"

definition RateLimitWindow5h :: duration where "RateLimitWindow5h = 5 * nsHour"
definition RateLimitWindow1d :: duration where "RateLimitWindow1d = 24 * nsHour"
definition RateLimitWindow7d :: duration where "RateLimitWindow7d = 7 * 24 * nsHour"

definition ErrAPIKeyNotFound :: go_err where
  "ErrAPIKeyNotFound = NotFound ''API_KEY_NOT_FOUND'' ''api key not found''"

record api_key =
  k_ID :: int
  k_UserID :: int
  k_Key :: string
  k_Name :: string
  k_GroupID :: "int option"
  k_Status :: string
  k_LastUsedAt :: "instant option"
  k_UpdatedAt :: instant
  k_Quota :: rat
  k_QuotaUsed :: rat
  k_ExpiresAt :: "instant option"
  k_RateLimit5h :: rat
  k_RateLimit1d :: rat
  k_RateLimit7d :: rat
  k_Usage5h :: rat
  k_Usage1d :: rat
  k_Usage7d :: rat
  k_Window5hStart :: "instant option"
  k_Window1dStart :: "instant option"
  k_Window7dStart :: "instant option"

section \<open>Readings\<close>

definition IsWindowExpired :: "instant \<Rightarrow> instant option \<Rightarrow> duration \<Rightarrow> bool" where
  "IsWindowExpired now start dur = (case start of None \<Rightarrow> True | Some s \<Rightarrow> dur \<le> now - s)"

definition keyIsActive :: "api_key \<Rightarrow> bool" where
  "keyIsActive k \<longleftrightarrow> k_Status k = ''active''"

definition HasRateLimits :: "api_key \<Rightarrow> bool" where
  "HasRateLimits k \<longleftrightarrow> flt fzero (rnd (k_RateLimit5h k)) \<or> flt fzero (rnd (k_RateLimit1d k)) \<or> flt fzero (rnd (k_RateLimit7d k))"

definition keyIsExpired :: "instant \<Rightarrow> api_key \<Rightarrow> bool" where
  "keyIsExpired now k = (case k_ExpiresAt k of None \<Rightarrow> False | Some t \<Rightarrow> t < now)"

definition IsQuotaExhausted :: "api_key \<Rightarrow> bool" where
  "IsQuotaExhausted k = (if fle (rnd (k_Quota k)) fzero then False else fle (rnd (k_Quota k)) (rnd (k_QuotaUsed k)))"

definition GetQuotaRemaining :: "api_key \<Rightarrow> f64" where
  "GetQuotaRemaining k =
     (if fle (rnd (k_Quota k)) fzero then F64 (- 1)
      else let remaining = fsub (rnd (k_Quota k)) (rnd (k_QuotaUsed k))
           in if flt remaining fzero then fzero else remaining)"

text \<open>\<open>d.Hours()\<close> of a duration that is not negative.\<close>

definition durHours :: "duration \<Rightarrow> f64" where
  "durHours d = fadd (fofint (d div nsHour)) (fdiv (fofint (d mod nsHour)) (fofint nsHour))"

definition GetDaysUntilExpiry :: "instant \<Rightarrow> api_key \<Rightarrow> int" where
  "GetDaysUntilExpiry now k =
     (case k_ExpiresAt k of None \<Rightarrow> - 1
      | Some t \<Rightarrow> if t - now < 0 then 0 else ftrunc (fdiv (durHours (t - now)) (F64 24)))"

definition EffectiveUsage5h :: "instant \<Rightarrow> api_key \<Rightarrow> f64" where
  "EffectiveUsage5h now k = (if IsWindowExpired now (k_Window5hStart k) RateLimitWindow5h then fzero else rnd (k_Usage5h k))"

definition EffectiveUsage1d :: "instant \<Rightarrow> api_key \<Rightarrow> f64" where
  "EffectiveUsage1d now k = (if IsWindowExpired now (k_Window1dStart k) RateLimitWindow1d then fzero else rnd (k_Usage1d k))"

definition EffectiveUsage7d :: "instant \<Rightarrow> api_key \<Rightarrow> f64" where
  "EffectiveUsage7d now k = (if IsWindowExpired now (k_Window7dStart k) RateLimitWindow7d then fzero else rnd (k_Usage7d k))"

section \<open>Counters\<close>

text \<open>One window of \<open>IncrementRateLimitUsage\<close>: its usage and its start, with \<open>fresh\<close> the start of a new window.\<close>

definition addToWindow :: "sql_num \<Rightarrow> instant \<Rightarrow> duration \<Rightarrow> instant \<Rightarrow> rat \<Rightarrow> rat \<times> instant option \<Rightarrow> rat \<times> instant option" where
  "addToWindow sn now dur fresh cost w =
     (case w of (usage, start) \<Rightarrow>
        (sn_col8 sn (case start of Some s \<Rightarrow> if s + dur \<le> now then cost else usage + cost | None \<Rightarrow> usage + cost),
         case start of None \<Rightarrow> Some fresh | Some s \<Rightarrow> if s + dur \<le> now then Some fresh else Some s))"

definition addRateLimitUsage :: "sql_num \<Rightarrow> instant \<Rightarrow> f64 \<Rightarrow> api_key \<Rightarrow> api_key" where
  "addRateLimitUsage sn now cost k =
     (let c = sn_num sn cost; day = dayStart (sn_zone sn) now;
          (u5, w5) = addToWindow sn now (5 * nsHour) now c (k_Usage5h k, k_Window5hStart k);
          (u1, w1) = addToWindow sn now (24 * nsHour) day c (k_Usage1d k, k_Window1dStart k);
          (u7, w7) = addToWindow sn now (7 * nsDay) day c (k_Usage7d k, k_Window7dStart k)
      in k\<lparr>k_Usage5h := u5, k_Usage1d := u1, k_Usage7d := u7, k_Window5hStart := w5, k_Window1dStart := w1, k_Window7dStart := w7,
           k_UpdatedAt := now\<rparr>)"

text \<open>One window of \<open>ResetRateLimitWindows\<close>.\<close>

definition resetWindow :: "instant \<Rightarrow> duration \<Rightarrow> instant \<Rightarrow> rat \<times> instant option \<Rightarrow> rat \<times> instant option" where
  "resetWindow now dur fresh w =
     (case w of (usage, Some s) \<Rightarrow> if s + dur \<le> now then (0, Some fresh) else (usage, Some s) | (usage, None) \<Rightarrow> (usage, None))"

definition resetRateLimitWindows :: "sql_num \<Rightarrow> instant \<Rightarrow> api_key \<Rightarrow> api_key" where
  "resetRateLimitWindows sn now k =
     (let day = dayStart (sn_zone sn) now;
          (u5, w5) = resetWindow now (5 * nsHour) now (k_Usage5h k, k_Window5hStart k);
          (u1, w1) = resetWindow now (24 * nsHour) day (k_Usage1d k, k_Window1dStart k);
          (u7, w7) = resetWindow now (7 * nsDay) day (k_Usage7d k, k_Window7dStart k)
      in k\<lparr>k_Usage5h := u5, k_Usage1d := u1, k_Usage7d := u7, k_Window5hStart := w5, k_Window1dStart := w1, k_Window7dStart := w7,
           k_UpdatedAt := now\<rparr>)"

text \<open>The \<open>UPDATE\<close> of \<open>IncrementQuotaUsedAndGetState\<close>, and that of \<open>incrementUsageBillingAPIKeyQuota\<close>, which only marks an
  active key, and only when its usage crosses the quota.\<close>

definition addQuotaUsed :: "sql_num \<Rightarrow> instant \<Rightarrow> f64 \<Rightarrow> api_key \<Rightarrow> api_key" where
  "addQuotaUsed sn now amount k =
     k\<lparr>k_QuotaUsed := sn_col8 sn (k_QuotaUsed k + sn_num sn amount),
       k_Status := (if 0 < k_Quota k \<and> k_Quota k \<le> k_QuotaUsed k + sn_num sn amount then StatusAPIKeyQuotaExhausted else k_Status k),
       k_UpdatedAt := now\<rparr>"

definition billQuotaUsed :: "sql_num \<Rightarrow> instant \<Rightarrow> f64 \<Rightarrow> api_key \<Rightarrow> api_key" where
  "billQuotaUsed sn now amount k =
     k\<lparr>k_QuotaUsed := sn_col8 sn (k_QuotaUsed k + sn_num sn amount),
       k_Status := (if 0 < k_Quota k \<and> k_Status k = StatusAPIKeyActive \<and> k_QuotaUsed k < k_Quota k \<and>
                       k_Quota k \<le> k_QuotaUsed k + sn_num sn amount
                    then StatusAPIKeyQuotaExhausted else k_Status k),
       k_UpdatedAt := now\<rparr>"

text \<open>The \<open>RETURNING\<close> of that statement, on the new row.\<close>

definition quotaCrossed :: "sql_num \<Rightarrow> f64 \<Rightarrow> api_key \<Rightarrow> bool" where
  "quotaCrossed sn amount k \<longleftrightarrow> 0 < k_Quota k \<and> k_Quota k \<le> k_QuotaUsed k \<and> k_QuotaUsed k - sn_num sn amount < k_Quota k"

section \<open>Windows\<close>

text \<open>A window that never started has no usage; what is used in the window as it is at \<open>now\<close>.\<close>

definition windowInv :: "rat \<times> instant option \<Rightarrow> bool" where
  "windowInv w \<longleftrightarrow> snd w = None \<longrightarrow> fst w = 0"

definition effectiveWindow :: "instant \<Rightarrow> duration \<Rightarrow> rat \<times> instant option \<Rightarrow> rat" where
  "effectiveWindow now dur w = (if IsWindowExpired now (snd w) dur then 0 else fst w)"

lemma addToWindow_effective:
  assumes "windowInv w" "fresh \<le> now" "now < fresh + dur"
  shows "effectiveWindow now dur (addToWindow sn now dur fresh c w) = sn_col8 sn (effectiveWindow now dur w + c)"
    "windowInv (addToWindow sn now dur fresh c w)"
  using assms
  by (auto simp: effectiveWindow_def addToWindow_def IsWindowExpired_def windowInv_def split: option.splits prod.splits)

lemma resetWindow_effective:
  assumes "fresh \<le> now" "now < fresh + dur"
  shows "effectiveWindow now dur (resetWindow now dur fresh w) = effectiveWindow now dur w"
    "windowInv w \<Longrightarrow> windowInv (resetWindow now dur fresh w)"
  using assms
  by (auto simp: effectiveWindow_def resetWindow_def IsWindowExpired_def windowInv_def split: option.splits prod.splits if_splits)

definition keyWindows :: "api_key \<Rightarrow> (duration \<times> rat \<times> instant option) list" where
  "keyWindows k = [(RateLimitWindow5h, k_Usage5h k, k_Window5hStart k), (RateLimitWindow1d, k_Usage1d k, k_Window1dStart k),
     (RateLimitWindow7d, k_Usage7d k, k_Window7dStart k)]"

definition keyUsages :: "instant \<Rightarrow> api_key \<Rightarrow> rat list" where
  "keyUsages now k = map (\<lambda>(dur, w). effectiveWindow now dur w) (keyWindows k)"

text \<open>A request counts once in each of the three windows: if a window without a start has no usage, then after an increment the
  usage of each window, as the limits are checked against it, is what it was before plus the cost, where a window that has run
  out counts from zero; and the windows keep that form.\<close>

theorem rate_limit_usage_adds_up:
  assumes "list_all (windowInv \<circ> snd) (keyWindows k)"
  shows "keyUsages now (addRateLimitUsage sn now cost k) = map (\<lambda>u. sn_col8 sn (u + sn_num sn cost)) (keyUsages now k) \<and>
    list_all (windowInv \<circ> snd) (keyWindows (addRateLimitUsage sn now cost k))"
proof -
  have day: "dayStart (sn_zone sn) now \<le> now" "now < dayStart (sn_zone sn) now + 24 * nsHour" "now < dayStart (sn_zone sn) now + 7 * 24 * nsHour"
    using dayStart_le [of "sn_zone sn" now] dayStart_gt [of now "sn_zone sn"] by (simp_all add: ns_defs)
  note add = addToWindow_effective [where sn = sn and c = "sn_num sn cost" and now = now]
  have 5: "now \<le> now" "now < now + 5 * nsHour" by (simp_all add: nsHour_def)
  show ?thesis using assms add [OF _ 5] add [OF _ day(1,2)] add [OF _ day(1,3)]
    by (simp add: keyUsages_def keyWindows_def addRateLimitUsage_def Let_def split_def RateLimitWindow5h_def RateLimitWindow1d_def
        RateLimitWindow7d_def nsDay_def nsHour_def)
qed

definition sampleKey :: api_key where
  "sampleKey = \<lparr>k_ID = 4, k_UserID = 1, k_Key = ''sk-1'', k_Name = ''k'', k_GroupID = None, k_Status = ''active'', k_LastUsedAt = None,
     k_UpdatedAt = 0, k_Quota = 10, k_QuotaUsed = 9, k_ExpiresAt = None, k_RateLimit5h = 5, k_RateLimit1d = 0, k_RateLimit7d = 0,
     k_Usage5h = 4, k_Usage1d = 6, k_Usage7d = 0, k_Window5hStart = Some (20 * nsDay), k_Window1dStart = Some (20 * nsDay),
     k_Window7dStart = None\<rparr>"

definition sampleSqlNum :: sql_num where
  "sampleSqlNum = \<lparr>sn_num = (\<lambda>x. case x of F64 q \<Rightarrow> q | _ \<Rightarrow> 0), sn_col8 = (\<lambda>q. q), sn_usageAdd = fadd, sn_zone = 0\<rparr>"

theorem rate_limit_usage_adds_up_witness:
  "keyUsages (20 * nsDay + 6 * nsHour) (addRateLimitUsage sampleSqlNum (20 * nsDay + 6 * nsHour) (F64 2) sampleKey) = [2, 8, 2]"
proof -
  have "list_all (windowInv \<circ> snd) (keyWindows sampleKey)" by (simp add: windowInv_def keyWindows_def sampleKey_def)
  from rate_limit_usage_adds_up [OF this, of "20 * nsDay + 6 * nsHour" sampleSqlNum "F64 2"] show ?thesis
    by (simp add: sampleSqlNum_def keyUsages_def keyWindows_def sampleKey_def effectiveWindow_def IsWindowExpired_def RateLimitWindow5h_def
        RateLimitWindow1d_def RateLimitWindow7d_def ns_defs)
qed

end
