(* ===== verification/Transaction.thy ===== *)
theory Transaction
  imports World
begin

text \<open>
  Transactions whose statements return values and which the code may give up: \<open>tx, err := db.BeginTx(ctx, nil)\<close>, statements on
  \<open>tx\<close>, then \<open>tx.Commit()\<close> or the deferred \<open>tx.Rollback()\<close>. A body is a program over the tables and the number of
  round trips left before the connection breaks (none: it does not break). It ends with an error, with a result and the
  wish to commit, or with a result and a rollback. The transaction is atomic for other processes.
\<close>

type_synonym ('d, 'a) tx = "('d \<times> nat option, go_err + 'a) state"

definition stmt :: "('d \<Rightarrow> (go_err + 'a) \<times> 'd) \<Rightarrow> ('d, 'a) tx" where
  "stmt f = State (\<lambda>(d, k). if k = Some 0 then (Inl ConnErr, (d, k))
     else (fst (f d), (snd (f d), map_option (\<lambda>n. n - 1) k)))"

abbreviation txret :: "'a \<Rightarrow> ('d, 'a) tx" where
  "txret a \<equiv> State_Monad.return (Inr a)"

definition txthen :: "('d, 'a) tx \<Rightarrow> ('a \<Rightarrow> ('d, 'b) tx) \<Rightarrow> ('d, 'b) tx" where
  "txthen m f = do { r \<leftarrow> m; case r of Inl e \<Rightarrow> State_Monad.return (Inl e) | Inr a \<Rightarrow> f a }"

text \<open>The result of a body, and whether it asks to commit.\<close>

definition runTx :: "('d, 'a \<times> bool) tx \<Rightarrow> nat option \<Rightarrow> 'd \<Rightarrow> (go_err + 'a \<times> bool) \<times> 'd" where
  "runTx m k d = (case run_state m (d, k) of (r, (d', _)) \<Rightarrow> (r, d'))"

definition inTransaction :: "('d, 'a \<times> bool) tx \<Rightarrow> ('d, 'a) eprog" where
  "inTransaction m = State (\<lambda>w.
     let end = (\<lambda>ack keep w0 k. case runTx m k (db w0) of
            (Inl e, _) \<Rightarrow> (Inl e, w0)
          | (Inr (a, False), _) \<Rightarrow> (Inr a, w0)
          | (Inr (a, True), d) \<Rightarrow> (if ack then Inr a else Inl ConnErr, if keep then w0\<lparr>db := d\<rparr> else w0))
     in case script w of
          [] \<Rightarrow> end True True w None
        | t # ts \<Rightarrow>
            (let w0 = w\<lparr>script := ts, db := interfere t (db w)\<rparr>
             in case outcome t of
                  Done \<Rightarrow> end True True w0 None
                | Lost 0 \<Rightarrow> (Inl ConnErr, w0)
                | Lost (Suc k) \<Rightarrow> end False False w0 (Some k)
                | Unack \<Rightarrow> end False True w0 None))"

section \<open>Running a body\<close>

lemma run_txthen: "run_state (txthen m f) s = (case run_state m s of (Inl e, s') \<Rightarrow> (Inl e, s') | (Inr a, s') \<Rightarrow> run_state (f a) s')"
  by (simp add: txthen_def split: prod.splits sum.splits)

lemma run_stmt_None [simp]: "run_state (stmt f) (d, None) = (fst (f d), (snd (f d), None))"
  by (simp add: stmt_def)

text \<open>What a body does when nothing is lost.\<close>

definition txRun :: "('d, 'a) tx \<Rightarrow> 'd \<Rightarrow> (go_err + 'a) \<times> 'd" where
  "txRun m d = (case run_state m (d, None) of (r, (d', _)) \<Rightarrow> (r, d'))"

text \<open>A connection that breaks too late to matter does not matter.\<close>

definition lossless :: "('d, 'a) tx \<Rightarrow> bool" where
  "lossless m \<longleftrightarrow> (\<forall>d k. (\<exists>e d' k'. run_state m (d, k) = (Inl e, (d', k'))) \<or>
     (\<exists>a d' k'. run_state m (d, k) = (Inr a, (d', k')) \<and> run_state m (d, None) = (Inr a, (d', None)))) \<and>
     (\<forall>d. snd (snd (run_state m (d, None))) = None)"

lemma lossless_ret: "lossless (State_Monad.return r)"
  by (cases r) (auto simp: lossless_def)

lemma lossless_stmt: "lossless (stmt f)"
  unfolding lossless_def
proof (intro conjI allI)
  fix d :: 'a and k
  show "(\<exists>e d' k'. run_state (stmt f) (d, k) = (Inl e, (d', k'))) \<or>
     (\<exists>a d' k'. run_state (stmt f) (d, k) = (Inr a, (d', k')) \<and> run_state (stmt f) (d, None) = (Inr a, (d', None)))"
    by (cases "fst (f d)") (auto simp: stmt_def)
qed simp

lemma lossless_then:
  assumes "lossless m" "\<And>a. lossless (f a)"
  shows "lossless (txthen m f)"
  unfolding lossless_def
proof (intro conjI allI)
  fix d k
  show "(\<exists>e d' k'. run_state (txthen m f) (d, k) = (Inl e, (d', k'))) \<or>
     (\<exists>a d' k'. run_state (txthen m f) (d, k) = (Inr a, (d', k')) \<and> run_state (txthen m f) (d, None) = (Inr a, (d', None)))"
  proof (cases "\<exists>e d' k'. run_state m (d, k) = (Inl e, (d', k'))")
    case True
    then show ?thesis by (auto simp: run_txthen)
  next
    case False
    then obtain a d1 k1 where "run_state m (d, k) = (Inr a, (d1, k1))" "run_state m (d, None) = (Inr a, (d1, None))"
      using assms(1) unfolding lossless_def by blast
    then show ?thesis using assms(2) [of a] unfolding lossless_def by (simp add: run_txthen)
  qed
next
  fix d
  obtain r d1 k1 where m: "run_state m (d, None) = (r, (d1, k1))" by (metis prod.exhaust_sel)
  then have "k1 = None" using assms(1) unfolding lossless_def by (metis snd_conv)
  then show "snd (snd (run_state (txthen m f) (d, None))) = None"
    using m assms(2) by (cases r) (simp_all add: run_txthen lossless_def)
qed

lemma lossless_if: "(b \<Longrightarrow> lossless m) \<Longrightarrow> (\<not> b \<Longrightarrow> lossless n) \<Longrightarrow> lossless (if b then m else n)"
  by simp

lemma lossless_option: "(r = None \<Longrightarrow> lossless m) \<Longrightarrow> (\<And>a. r = Some a \<Longrightarrow> lossless (g a)) \<Longrightarrow> lossless (case r of None \<Rightarrow> m | Some a \<Rightarrow> g a)"
  by (cases r) auto

lemmas lossless_rules = lossless_ret lossless_stmt lossless_then lossless_if lossless_option

section \<open>Transactions and protocols\<close>

text \<open>How a transaction can end: it commits its effect, acknowledged or not, or it leaves no trace.\<close>

lemma transaction_cases:
  assumes "run_state (inTransaction m) w = (r, w')" "lossless m"
  obtains d0 where "d0 = (case script w of [] \<Rightarrow> db w | t # ts \<Rightarrow> interfere t (db w))" and
    "(\<exists>e. r = Inl e \<and> db w' = d0) \<or>
     (\<exists>a d. txRun m d0 = (Inr (a, False), d) \<and> r = Inr a \<and> db w' = d0) \<or>
     (\<exists>a d. txRun m d0 = (Inr (a, True), d) \<and> r \<in> {Inr a, Inl ConnErr} \<and> db w' = d)"
proof -
  let ?d0 = "case script w of [] \<Rightarrow> db w | t # ts \<Rightarrow> interfere t (db w)"
  have loss: "txRun m d = (Inr a, d')" if run: "runTx m k d = (Inr a, d')" for k d a d'
  proof -
    obtain k' where "run_state m (d, k) = (Inr a, (d', k'))"
      using run by (cases "run_state m (d, k)") (auto simp: runTx_def)
    then have "run_state m (d, None) = (Inr a, (d', None))" using assms(2) unfolding lossless_def by (metis Pair_inject sum.distinct(1) sum.inject(2))
    then show ?thesis by (simp add: txRun_def)
  qed
  have none: "txRun m d = runTx m None d" for d by (simp add: txRun_def runTx_def)
  have "(\<exists>e. r = Inl e \<and> db w' = ?d0) \<or>
     (\<exists>a d. txRun m ?d0 = (Inr (a, False), d) \<and> r = Inr a \<and> db w' = ?d0) \<or>
     (\<exists>a d. txRun m ?d0 = (Inr (a, True), d) \<and> r \<in> {Inr a, Inl ConnErr} \<and> db w' = d)"
    using assms(1)
    by (auto simp: inTransaction_def Let_def none split: list.splits outcome.splits nat.splits prod.splits sum.splits bool.splits dest!: loss)
  then show thesis using that by blast
qed

context rely_guarantee
begin

lemma rg_inTransaction:
  assumes st: "stable R P" and m: "lossless m"
    and commit: "\<And>d a d'. P d \<Longrightarrow> txRun m d = (Inr (a, True), d') \<Longrightarrow> G d d' \<and> Q (Inr a) d' \<and> Q (Inl ConnErr) d'"
    and rollback: "\<And>d a d'. P d \<Longrightarrow> txRun m d = (Inr (a, False), d') \<Longrightarrow> Q (Inr a) d"
    and fail: "\<And>d e. P d \<Longrightarrow> Q (Inl e) d"
  shows "rgx R G P (inTransaction m) Q"
proof (unfold rgx_def, intro allI impI)
  fix w r w'
  assume w: "relies R w" "P (db w)" and run: "run_state (inTransaction m) w = (r, w')"
  define d0 where "d0 = (case script w of [] \<Rightarrow> db w | t # ts \<Rightarrow> interfere t (db w))"
  have d0: "P d0" "G (db w) d0"
    using w st R_le_G G_refl unfolding d0_def by (auto simp: relies_def stable_def split: list.split)
  have rel: "relies R w'" using w(1) run
    by (auto simp: inTransaction_def Let_def relies_def split: list.splits outcome.splits nat.splits prod.splits sum.splits bool.splits if_splits)
  show "G (db w) (db w') \<and> Q r (db w') \<and> relies R w'"
  proof (rule transaction_cases [OF run m])
    fix d1 assume "d1 = (case script w of [] \<Rightarrow> db w | t # ts \<Rightarrow> interfere t (db w))"
      and c: "(\<exists>e. r = Inl e \<and> db w' = d1) \<or> (\<exists>a d. txRun m d1 = (Inr (a, False), d) \<and> r = Inr a \<and> db w' = d1) \<or>
        (\<exists>a d. txRun m d1 = (Inr (a, True), d) \<and> r \<in> {Inr a, Inl ConnErr} \<and> db w' = d)"
    then have "d1 = d0" by (simp add: d0_def)
    with c d0 rel show ?thesis using commit [of d0] rollback [of d0] fail [of d0] G_trans [OF d0(2)] by auto
  qed
qed

end

lemma own_inTransaction:
  assumes "lossless m" "\<And>d a d'. txRun m d = (Inr (a, True), d') \<Longrightarrow> T d d'"
  shows "own T (inTransaction m)"
  unfolding own_def
proof (intro allI impI)
  fix R :: "'a \<Rightarrow> 'a \<Rightarrow> bool"
  assume R: "protocol R" "\<forall>d d'. T d d' \<longrightarrow> R d d'"
  show "guar R (inTransaction m)"
    using assms(2) R(2) by (intro rely_guarantee.rg_inTransaction [OF protocol_rg [OF R(1)]] assms(1)) auto
qed

end
