(* ===== verification/Model_Pricing.thy ===== *)
theory Model_Pricing
  imports Errors Float64 "HOL-Library.Multiset"
begin

text \<open>
  Prices of models (\<open>service/pricing_service.go\<close>, and the model names of \<open>service/openai_codex_transform.go\<close>): the
  price list loaded from LiteLLM's data, and the search for the entry of a model, from an exact name over names without
  dates to families of models.

  The search ranges over Go maps, in an order that is unspecified and may differ from loop to loop. \<open>range_order\<close> gives the
  orders of one call: \<open>ro_families\<close> of the table of families, and \<open>ro_data k\<close> of the price list in the \<open>k\<close>-th loop over it.
\<close>

section \<open>Text\<close>

text \<open>\<open>strings.ReplaceAll\<close> for a text \<open>old\<close> that is not empty, and the text after the last occurrence of \<open>sep\<close>.\<close>

function replaceAll :: "string \<Rightarrow> string \<Rightarrow> string \<Rightarrow> string" where
  "replaceAll s old new =
     (if s = [] \<or> old = [] then s
      else if hasPrefix s old then new @ replaceAll (drop (length old) s) old new
      else hd s # replaceAll (tl s) old new)"
  by pat_completeness auto
termination by (relation "measure (\<lambda>(s, _, _). length s)") auto

declare replaceAll.simps [simp del]

definition afterLast :: "string \<Rightarrow> string \<Rightarrow> string option" where
  "afterLast s sep = map_option (\<lambda>i. drop (i + length sep) s) (List.find (\<lambda>i. hasPrefix (drop i s) sep) (rev [0..<Suc (length s)]))"

section \<open>Codex model names\<close>

definition codexModelMap :: "(string \<times> string) list" where
  "codexModelMap = [
     (''gpt-5.4'', ''gpt-5.4''), (''gpt-5.4-mini'', ''gpt-5.4-mini''), (''gpt-5.4-nano'', ''gpt-5.4-nano''),
     (''gpt-5.4-none'', ''gpt-5.4''), (''gpt-5.4-low'', ''gpt-5.4''), (''gpt-5.4-medium'', ''gpt-5.4''), (''gpt-5.4-high'', ''gpt-5.4''),
     (''gpt-5.4-xhigh'', ''gpt-5.4''), (''gpt-5.4-chat-latest'', ''gpt-5.4''),
     (''gpt-5.3'', ''gpt-5.3-codex''), (''gpt-5.3-none'', ''gpt-5.3-codex''), (''gpt-5.3-low'', ''gpt-5.3-codex''),
     (''gpt-5.3-medium'', ''gpt-5.3-codex''), (''gpt-5.3-high'', ''gpt-5.3-codex''), (''gpt-5.3-xhigh'', ''gpt-5.3-codex''),
     (''gpt-5.3-codex'', ''gpt-5.3-codex''), (''gpt-5.3-codex-spark'', ''gpt-5.3-codex''), (''gpt-5.3-codex-spark-low'', ''gpt-5.3-codex''),
     (''gpt-5.3-codex-spark-medium'', ''gpt-5.3-codex''), (''gpt-5.3-codex-spark-high'', ''gpt-5.3-codex''),
     (''gpt-5.3-codex-spark-xhigh'', ''gpt-5.3-codex''), (''gpt-5.3-codex-low'', ''gpt-5.3-codex''),
     (''gpt-5.3-codex-medium'', ''gpt-5.3-codex''), (''gpt-5.3-codex-high'', ''gpt-5.3-codex''), (''gpt-5.3-codex-xhigh'', ''gpt-5.3-codex''),
     (''gpt-5.1-codex'', ''gpt-5.1-codex''), (''gpt-5.1-codex-low'', ''gpt-5.1-codex''), (''gpt-5.1-codex-medium'', ''gpt-5.1-codex''),
     (''gpt-5.1-codex-high'', ''gpt-5.1-codex''), (''gpt-5.1-codex-max'', ''gpt-5.1-codex-max''), (''gpt-5.1-codex-max-low'', ''gpt-5.1-codex-max''),
     (''gpt-5.1-codex-max-medium'', ''gpt-5.1-codex-max''), (''gpt-5.1-codex-max-high'', ''gpt-5.1-codex-max''),
     (''gpt-5.1-codex-max-xhigh'', ''gpt-5.1-codex-max''),
     (''gpt-5.2'', ''gpt-5.2''), (''gpt-5.2-none'', ''gpt-5.2''), (''gpt-5.2-low'', ''gpt-5.2''), (''gpt-5.2-medium'', ''gpt-5.2''),
     (''gpt-5.2-high'', ''gpt-5.2''), (''gpt-5.2-xhigh'', ''gpt-5.2''), (''gpt-5.2-codex'', ''gpt-5.2-codex''),
     (''gpt-5.2-codex-low'', ''gpt-5.2-codex''), (''gpt-5.2-codex-medium'', ''gpt-5.2-codex''), (''gpt-5.2-codex-high'', ''gpt-5.2-codex''),
     (''gpt-5.2-codex-xhigh'', ''gpt-5.2-codex''), (''gpt-5.1-codex-mini'', ''gpt-5.1-codex-mini''),
     (''gpt-5.1-codex-mini-medium'', ''gpt-5.1-codex-mini''), (''gpt-5.1-codex-mini-high'', ''gpt-5.1-codex-mini''),
     (''gpt-5.1'', ''gpt-5.1''), (''gpt-5.1-none'', ''gpt-5.1''), (''gpt-5.1-low'', ''gpt-5.1''), (''gpt-5.1-medium'', ''gpt-5.1''),
     (''gpt-5.1-high'', ''gpt-5.1''), (''gpt-5.1-chat-latest'', ''gpt-5.1''), (''gpt-5-codex'', ''gpt-5.1-codex''),
     (''codex-mini-latest'', ''gpt-5.1-codex-mini''), (''gpt-5-codex-mini'', ''gpt-5.1-codex-mini''),
     (''gpt-5-codex-mini-medium'', ''gpt-5.1-codex-mini''), (''gpt-5-codex-mini-high'', ''gpt-5.1-codex-mini''),
     (''gpt-5'', ''gpt-5.1''), (''gpt-5-mini'', ''gpt-5.1''), (''gpt-5-nano'', ''gpt-5.1'')]"

text \<open>The loop that compares without case meets at most one entry, since the names of the table are in lower case and distinct.\<close>

definition getNormalizedCodexModel :: "string \<Rightarrow> string" where
  "getNormalizedCodexModel modelID =
     (if modelID = [] then []
      else case map_of codexModelMap modelID of
             Some v \<Rightarrow> v
           | None \<Rightarrow> (case List.find (\<lambda>e. toLower (fst e) = toLower modelID) codexModelMap of Some e \<Rightarrow> snd e | None \<Rightarrow> []))"

text \<open>The tests of \<open>normalizeCodexModel\<close> in their order: the texts that are looked for, and the answer.\<close>

definition codexTests :: "(string list \<times> string) list" where
  "codexTests = [
     ([''gpt-5.4-mini'', ''gpt 5.4 mini''], ''gpt-5.4-mini''), ([''gpt-5.4-nano'', ''gpt 5.4 nano''], ''gpt-5.4-nano''),
     ([''gpt-5.4'', ''gpt 5.4''], ''gpt-5.4''), ([''gpt-5.2-codex'', ''gpt 5.2 codex''], ''gpt-5.2-codex''),
     ([''gpt-5.2'', ''gpt 5.2''], ''gpt-5.2''), ([''gpt-5.3-codex'', ''gpt 5.3 codex''], ''gpt-5.3-codex''),
     ([''gpt-5.3'', ''gpt 5.3''], ''gpt-5.3-codex''), ([''gpt-5.1-codex-max'', ''gpt 5.1 codex max''], ''gpt-5.1-codex-max''),
     ([''gpt-5.1-codex-mini'', ''gpt 5.1 codex mini''], ''gpt-5.1-codex-mini''),
     ([''codex-mini-latest'', ''gpt-5-codex-mini'', ''gpt 5 codex mini''], ''codex-mini-latest''),
     ([''gpt-5.1-codex'', ''gpt 5.1 codex''], ''gpt-5.1-codex''), ([''gpt-5.1'', ''gpt 5.1''], ''gpt-5.1''),
     ([''codex''], ''gpt-5.1-codex''), ([''gpt-5'', ''gpt 5''], ''gpt-5.1'')]"

definition normalizeCodexModel :: "string \<Rightarrow> string" where
  "normalizeCodexModel model =
     (if model = [] then ''gpt-5.1''
      else let modelID = last (splitOn CHR ''/'' model); mapped = getNormalizedCodexModel modelID; normalized = toLower modelID
           in if mapped \<noteq> [] then mapped
              else case List.find (\<lambda>t. list_ex (strContains normalized) (fst t)) codexTests of
                     Some t \<Rightarrow> snd t | None \<Rightarrow> ''gpt-5.1'')"

section \<open>The price list\<close>

record litellm_pricing =
  ll_InputCostPerToken :: f64
  ll_InputCostPerTokenPriority :: f64
  ll_OutputCostPerToken :: f64
  ll_OutputCostPerTokenPriority :: f64
  ll_CacheCreationInputTokenCost :: f64
  ll_CacheCreationInputTokenCostAbove1hr :: f64
  ll_CacheReadInputTokenCost :: f64
  ll_CacheReadInputTokenCostPriority :: f64
  ll_LongContextInputTokenThreshold :: int
  ll_LongContextInputCostMultiplier :: f64
  ll_LongContextOutputCostMultiplier :: f64
  ll_SupportsServiceTier :: bool
  ll_LiteLLMProvider :: string
  ll_Mode :: string
  ll_SupportsPromptCaching :: bool
  ll_OutputCostPerImage :: f64
  ll_OutputCostPerImageToken :: f64

record litellm_raw_entry =
  lr_InputCostPerToken :: "f64 option"
  lr_InputCostPerTokenPriority :: "f64 option"
  lr_OutputCostPerToken :: "f64 option"
  lr_OutputCostPerTokenPriority :: "f64 option"
  lr_CacheCreationInputTokenCost :: "f64 option"
  lr_CacheCreationInputTokenCostAbove1hr :: "f64 option"
  lr_CacheReadInputTokenCost :: "f64 option"
  lr_CacheReadInputTokenCostPriority :: "f64 option"
  lr_SupportsServiceTier :: bool
  lr_LiteLLMProvider :: string
  lr_Mode :: string
  lr_SupportsPromptCaching :: bool
  lr_OutputCostPerImage :: "f64 option"
  lr_OutputCostPerImageToken :: "f64 option"

definition priceOrZero :: "f64 option \<Rightarrow> f64" where
  "priceOrZero v = (case v of None \<Rightarrow> fzero | Some x \<Rightarrow> x)"

definition pricingOfRaw :: "litellm_raw_entry \<Rightarrow> litellm_pricing" where
  "pricingOfRaw e = \<lparr>
     ll_InputCostPerToken = priceOrZero (lr_InputCostPerToken e), ll_InputCostPerTokenPriority = priceOrZero (lr_InputCostPerTokenPriority e),
     ll_OutputCostPerToken = priceOrZero (lr_OutputCostPerToken e), ll_OutputCostPerTokenPriority = priceOrZero (lr_OutputCostPerTokenPriority e),
     ll_CacheCreationInputTokenCost = priceOrZero (lr_CacheCreationInputTokenCost e),
     ll_CacheCreationInputTokenCostAbove1hr = priceOrZero (lr_CacheCreationInputTokenCostAbove1hr e),
     ll_CacheReadInputTokenCost = priceOrZero (lr_CacheReadInputTokenCost e),
     ll_CacheReadInputTokenCostPriority = priceOrZero (lr_CacheReadInputTokenCostPriority e),
     ll_LongContextInputTokenThreshold = 0, ll_LongContextInputCostMultiplier = fzero, ll_LongContextOutputCostMultiplier = fzero,
     ll_SupportsServiceTier = lr_SupportsServiceTier e, ll_LiteLLMProvider = lr_LiteLLMProvider e, ll_Mode = lr_Mode e,
     ll_SupportsPromptCaching = lr_SupportsPromptCaching e,
     ll_OutputCostPerImage = priceOrZero (lr_OutputCostPerImage e), ll_OutputCostPerImageToken = priceOrZero (lr_OutputCostPerImageToken e)\<rparr>"

text \<open>The decoded file: an entry that cannot be decoded is \<open>None\<close>.\<close>

definition parsePricingData :: "go_err + (string \<times> litellm_raw_entry option) list \<Rightarrow> go_err + (string \<times> litellm_pricing) list" where
  "parsePricingData raw =
     (case raw of
        Inl e \<Rightarrow> Inl (Errorf ''parse raw JSON'' e)
      | Inr entries \<Rightarrow>
          (let keep = List.map_filter (\<lambda>(name, e). case e of
                 None \<Rightarrow> None
               | Some r \<Rightarrow> if name = ''sample_spec'' \<or> lr_InputCostPerToken r = None \<and> lr_OutputCostPerToken r = None then None
                           else Some (name, pricingOfRaw r)) entries
           in if keep = [] then Inl (ErrorNew ''no valid pricing entries found'') else Inr keep))"

text \<open>Prices in the code are decimal constants, written here in dollars per million tokens.\<close>

definition perMTok :: "rat \<Rightarrow> f64" where
  "perMTok q = rnd (q / 1000000)"

definition staticPricing :: "rat \<Rightarrow> rat \<Rightarrow> rat \<Rightarrow> int \<Rightarrow> f64 \<Rightarrow> f64 \<Rightarrow> litellm_pricing" where
  "staticPricing inp out cacheRead threshold mi mo = \<lparr>
     ll_InputCostPerToken = perMTok inp, ll_InputCostPerTokenPriority = fzero, ll_OutputCostPerToken = perMTok out,
     ll_OutputCostPerTokenPriority = fzero, ll_CacheCreationInputTokenCost = fzero, ll_CacheCreationInputTokenCostAbove1hr = fzero,
     ll_CacheReadInputTokenCost = perMTok cacheRead, ll_CacheReadInputTokenCostPriority = fzero,
     ll_LongContextInputTokenThreshold = threshold, ll_LongContextInputCostMultiplier = mi, ll_LongContextOutputCostMultiplier = mo,
     ll_SupportsServiceTier = False, ll_LiteLLMProvider = ''openai'', ll_Mode = ''chat'', ll_SupportsPromptCaching = True,
     ll_OutputCostPerImage = fzero, ll_OutputCostPerImageToken = fzero\<rparr>"

definition openAIGPT54FallbackPricing :: litellm_pricing where
  "openAIGPT54FallbackPricing = staticPricing (5 / 2) 15 (1 / 4) 272000 (F64 2) (F64 (3 / 2))"

definition openAIGPT54MiniFallbackPricing :: litellm_pricing where
  "openAIGPT54MiniFallbackPricing = staticPricing (3 / 4) (9 / 2) (3 / 40) 0 fzero fzero"

definition openAIGPT54NanoFallbackPricing :: litellm_pricing where
  "openAIGPT54NanoFallbackPricing = staticPricing (1 / 5) (5 / 4) (1 / 50) 0 fzero fzero"

section \<open>The search\<close>

record range_order =
  ro_families :: "(string \<times> string list) list"
  ro_data :: "nat \<Rightarrow> (string \<times> litellm_pricing) list"

definition familyPatterns :: "(string \<times> string list) list" where
  "familyPatterns = [
     (''opus-4.6'', [''claude-opus-4.6'', ''claude-opus-4-6'']), (''opus-4.5'', [''claude-opus-4.5'', ''claude-opus-4-5'']),
     (''opus-4'', [''claude-opus-4'', ''claude-3-opus'']), (''sonnet-4.5'', [''claude-sonnet-4.5'', ''claude-sonnet-4-5'']),
     (''sonnet-4'', [''claude-sonnet-4'', ''claude-3-5-sonnet'']), (''sonnet-3.5'', [''claude-3-5-sonnet'', ''claude-3.5-sonnet'']),
     (''sonnet-3'', [''claude-3-sonnet'']), (''haiku-3.5'', [''claude-3-5-haiku'', ''claude-3.5-haiku'']), (''haiku-3'', [''claude-3-haiku''])]"

text \<open>Orders in which Go may range over the table of families and the price list \<open>data\<close>.\<close>

definition validOrder :: "(string \<times> litellm_pricing) list \<Rightarrow> range_order \<Rightarrow> bool" where
  "validOrder data ro \<longleftrightarrow> mset (ro_families ro) = mset familyPatterns \<and> (\<forall>k. mset (ro_data ro k) = mset data)"

definition lastSegment :: "string \<Rightarrow> string" where
  "lastSegment model = (case afterLast model ''/'' of None \<Rightarrow> model | Some s \<Rightarrow> s)"

definition trimSlashes :: "string \<Rightarrow> string" where
  "trimSlashes s = dropWhile (\<lambda>c. c = CHR ''/'') s"

definition normalizeModelNameForPricing :: "string \<Rightarrow> string" where
  "normalizeModelNameForPricing model =
     (let m = trimPrefix (trimPrefix (trimSlashes (trimSpace model)) ''models/'') ''publishers/google/models/'';
          m1 = (case afterLast m ''/publishers/google/models/'' of None \<Rightarrow> m | Some s \<Rightarrow> s);
          m2 = (case afterLast m1 ''/models/'' of None \<Rightarrow> m1 | Some s \<Rightarrow> s)
      in trimSlashes m2)"

text \<open>The first occurrence of each element, in order.\<close>

fun distinctFirst :: "'a list \<Rightarrow> 'a list" where
  "distinctFirst [] = []"
| "distinctFirst (x # xs) = x # filter (\<lambda>y. y \<noteq> x) (distinctFirst xs)"

definition buildModelLookupCandidates :: "string \<Rightarrow> string list" where
  "buildModelLookupCandidates modelLower =
     (let bare = trimPrefix modelLower ''models/'';
          out = distinctFirst (filter (\<lambda>c. c \<noteq> []) (map trimSpace
                  [normalizeModelNameForPricing modelLower, modelLower, bare, lastSegment modelLower, lastSegment bare]))
      in if out = [] then [modelLower] else out)"

definition isNumeric :: "string \<Rightarrow> bool" where
  "isNumeric s \<longleftrightarrow> list_all (\<lambda>c. digitVal c \<noteq> None) s"

definition extractBaseName :: "string \<Rightarrow> string" where
  "extractBaseName model =
     joinWith ''-'' (filter (\<lambda>part. \<not> (length part = 8 \<and> isNumeric part) \<and> \<not> strContains part '':'') (splitOn CHR ''-'' model))"

definition matchFamilyName :: "(string \<times> string list) list \<Rightarrow> string \<Rightarrow> string" where
  "matchFamilyName families model =
     (case List.find (\<lambda>f. list_ex (\<lambda>p. strContains model p \<or> strContains model (replaceAll p ''-'' '''')) (snd f)) families of
        Some f \<Rightarrow> fst f
      | None \<Rightarrow>
          if strContains model ''opus'' then
            (if strContains model ''4.5'' \<or> strContains model ''4-5'' then ''opus-4.5'' else ''opus-4'')
          else if strContains model ''sonnet'' then
            (if strContains model ''4.5'' \<or> strContains model ''4-5'' then ''sonnet-4.5''
             else if strContains model ''3-5'' \<or> strContains model ''3.5'' then ''sonnet-3.5'' else ''sonnet-4'')
          else if strContains model ''haiku'' then
            (if strContains model ''3-5'' \<or> strContains model ''3.5'' then ''haiku-3.5'' else ''haiku-3'')
          else [])"

definition matchByModelFamily :: "range_order \<Rightarrow> string \<Rightarrow> litellm_pricing option" where
  "matchByModelFamily ro model =
     (let family = matchFamilyName (ro_families ro) model
      in if family = [] then None
         else firstSome (\<lambda>(k, pattern). map_option snd (List.find (\<lambda>e. strContains (toLower (fst e)) pattern) (ro_data ro (Suc k))))
                (enumerate 0 (case map_of familyPatterns family of None \<Rightarrow> [] | Some ps \<Rightarrow> ps)))"

text \<open>The regular expressions: a hyphen and eight digits at the end; and \<open>gpt-\<close> with a number, perhaps with a fraction,
  that ends the name or is followed by a hyphen.\<close>

definition withoutDate :: "string \<Rightarrow> string" where
  "withoutDate model =
     (let n = length model - 9
      in if 9 \<le> length model \<and> model ! n = CHR ''-'' \<and> isNumeric (drop (Suc n) model) then take n model else model)"

definition isDigit :: "char \<Rightarrow> bool" where
  "isDigit c \<longleftrightarrow> digitVal c \<noteq> None"

definition openAIBase :: "string \<Rightarrow> string option" where
  "openAIBase model =
     (if \<not> hasPrefix model ''gpt-'' then None
      else let rest = drop 4 model; major = takeWhile isDigit rest; r = dropWhile isDigit rest;
               minor = (if hasPrefix r ''.'' then takeWhile isDigit (tl r) else []);
               frac = (if minor = [] then [] else CHR ''.'' # minor);
               tail = drop (length frac) r
           in if major \<noteq> [] \<and> (tail = [] \<or> hd tail = CHR ''-'') then Some (''gpt-'' @ major @ frac) else None)"

definition generateOpenAIModelVariants :: "string \<Rightarrow> string list" where
  "generateOpenAIModelVariants model =
     (let wd = withoutDate model
      in distinctFirst (filter (\<lambda>v. v \<noteq> model)
           ((if wd \<noteq> model then [wd] else []) @ (case openAIBase model of Some b \<Rightarrow> [b] | None \<Rightarrow> []) @
            (if wd \<noteq> model then (case openAIBase wd of Some b \<Rightarrow> [b] | None \<Rightarrow> []) else []))))"

definition matchOpenAIModel :: "range_order \<Rightarrow> string \<Rightarrow> litellm_pricing option" where
  "matchOpenAIModel ro model =
     (let data = map_of (ro_data ro 0)
      in if hasPrefix model ''gpt-5.3-codex-spark'' \<and> data ''gpt-5.1-codex'' \<noteq> None then data ''gpt-5.1-codex''
         else case firstSome data (generateOpenAIModelVariants model) of
                Some p \<Rightarrow> Some p
              | None \<Rightarrow>
                  if hasPrefix model ''gpt-5.3-codex'' \<and> data ''gpt-5.2-codex'' \<noteq> None then data ''gpt-5.2-codex''
                  else if hasPrefix model ''gpt-5.4-mini'' then Some openAIGPT54MiniFallbackPricing
                  else if hasPrefix model ''gpt-5.4-nano'' then Some openAIGPT54NanoFallbackPricing
                  else if hasPrefix model ''gpt-5.4'' then Some openAIGPT54FallbackPricing
                  else data (toLower ''gpt-5.1-codex''))"

definition GetLiteLLMPricing :: "range_order \<Rightarrow> string \<Rightarrow> litellm_pricing option" where
  "GetLiteLLMPricing ro modelName =
     (if modelName = [] then None
      else let candidates = buildModelLookupCandidates (toLower (trimSpace modelName)); data = map_of (ro_data ro 0); c0 = hd candidates
           in case firstSome (\<lambda>c. if c = [] then None else data c) candidates of
                Some p \<Rightarrow> Some p
              | None \<Rightarrow>
           case firstSome (\<lambda>c. data (replaceAll c ''-4-5-'' ''-4.5-'')) candidates of
                Some p \<Rightarrow> Some p
              | None \<Rightarrow>
           case List.find (\<lambda>e. extractBaseName (toLower (fst e)) = extractBaseName c0) (ro_data ro 0) of
                Some e \<Rightarrow> Some (snd e)
              | None \<Rightarrow>
           case matchByModelFamily ro c0 of
                Some p \<Rightarrow> Some p
              | None \<Rightarrow> if hasPrefix c0 ''gpt-'' then matchOpenAIModel ro c0 else None)"

section \<open>Properties\<close>

lemma map_of_order: "distinct (map fst xs) \<Longrightarrow> mset xs = mset ys \<Longrightarrow> map_of xs = map_of ys"
proof -
  assume d: "distinct (map fst xs)" and m: "mset xs = mset ys"
  from m have "mset (map fst xs) = mset (map fst ys)" by simp
  then have "distinct (map fst ys)" using d mset_eq_imp_distinct_iff by blast
  then show ?thesis using map_of_inject_set [OF d] mset_eq_setD [OF m] by blast
qed

lemma candidates_first:
  assumes "name \<noteq> []" "trimSpace name = name" "normalizeModelNameForPricing name = name"
  shows "\<exists>cs. buildModelLookupCandidates name = name # cs"
proof -
  define rest where "rest = [trimSpace (trimPrefix name ''models/''), trimSpace (lastSegment name), trimSpace (lastSegment (trimPrefix name ''models/''))]"
  have "buildModelLookupCandidates name = distinctFirst (name # name # filter (\<lambda>c. c \<noteq> []) rest)"
    using assms by (simp only: buildModelLookupCandidates_def Let_def rest_def list.map filter.simps distinctFirst.simps) simp
  then show ?thesis by simp
qed

text \<open>A model that the price list names is priced by its own entry, in whatever order the maps are ranged over.\<close>

theorem listed_model_price:
  assumes "distinct (map fst data)" "validOrder data ro" "map_of data name = Some p"
    and "name \<noteq> []" "trimSpace name = name" "toLower name = name" "normalizeModelNameForPricing name = name"
  shows "GetLiteLLMPricing ro name = Some p"
proof -
  have "mset data = mset (ro_data ro 0)" using assms(2) by (simp add: validOrder_def)
  from map_of_order [OF assms(1) this] have data: "map_of (ro_data ro 0) name = Some p" using assms(3) by metis
  obtain cs where "buildModelLookupCandidates name = name # cs"
    using candidates_first [OF assms(4,5,7)] by blast
  then have "firstSome (\<lambda>c. if c = [] then None else map_of (ro_data ro 0) c) (buildModelLookupCandidates (toLower (trimSpace name))) = Some p"
    using data assms(4-6) by simp
  then show ?thesis unfolding GetLiteLLMPricing_def Let_def using assms(4) by (simp only: if_False option.case)
qed

abbreviation samplePrice :: "rat \<Rightarrow> litellm_pricing" where
  "samplePrice q \<equiv> staticPricing q q q 0 fzero fzero"

definition sampleData :: "(string \<times> litellm_pricing) list" where
  "sampleData = [(''claude-opus-4-5-20251101'', samplePrice 5), (''claude-opus-4-20250514'', samplePrice 15)]"

theorem listed_model_price_witness:
  "GetLiteLLMPricing \<lparr>ro_families = familyPatterns, ro_data = \<lambda>_. rev sampleData\<rparr> ''claude-opus-4-20250514'' = Some (samplePrice 15)"
proof (rule listed_model_price)
  show "distinct (map fst sampleData)" "map_of sampleData ''claude-opus-4-20250514'' = Some (samplePrice 15)"
    by (simp_all add: sampleData_def)
  show "validOrder sampleData \<lparr>ro_families = familyPatterns, ro_data = \<lambda>_. rev sampleData\<rparr>"
    by (simp add: validOrder_def)
  show "trimSpace ''claude-opus-4-20250514'' = ''claude-opus-4-20250514''" "toLower ''claude-opus-4-20250514'' = ''claude-opus-4-20250514''"
    "normalizeModelNameForPricing ''claude-opus-4-20250514'' = ''claude-opus-4-20250514''" by code_simp+
qed simp

lemma sample_unlisted:
  "buildModelLookupCandidates (toLower (trimSpace ''claude-opus-4-5-thinking'')) = [''claude-opus-4-5-thinking'']"
  "replaceAll ''claude-opus-4-5-thinking'' ''-4-5-'' ''-4.5-'' = ''claude-opus-4.5-thinking''"
  "extractBaseName ''claude-opus-4-5-thinking'' = ''claude-opus-4-5-thinking''"
  "extractBaseName (toLower ''claude-opus-4-5-20251101'') = ''claude-opus-4-5''"
  "extractBaseName (toLower ''claude-opus-4-20250514'') = ''claude-opus-4''"
  by code_simp+

lemma sample_family:
  assumes "ro_data ro 0 = sampleData \<or> ro_data ro 0 = rev sampleData" "matchByModelFamily ro ''claude-opus-4-5-thinking'' = Some p"
  shows "GetLiteLLMPricing ro ''claude-opus-4-5-thinking'' = Some p"
  unfolding GetLiteLLMPricing_def Let_def sample_unlisted
  using assms by (auto simp: sample_unlisted sampleData_def)

lemma sample_patterns:
  "matchFamilyName familyPatterns ''claude-opus-4-5-thinking'' = ''opus-4.5''"
  "matchFamilyName (rev familyPatterns) ''claude-opus-4-5-thinking'' = ''opus-4''"
  "map_of familyPatterns ''opus-4.5'' = Some [''claude-opus-4.5'', ''claude-opus-4-5'']"
  "map_of familyPatterns ''opus-4'' = Some [''claude-opus-4'', ''claude-3-opus'']"
  "strContains (toLower ''claude-opus-4-5-20251101'') ''claude-opus-4.5'' = False"
  "strContains (toLower ''claude-opus-4-20250514'') ''claude-opus-4.5'' = False"
  "strContains (toLower ''claude-opus-4-5-20251101'') ''claude-opus-4-5''"
  "strContains (toLower ''claude-opus-4-20250514'') ''claude-opus-4''"
  by code_simp+

text \<open>The price of a Claude model that the list does not name depends on the order in which Go ranges over the table of
  families: the name of an Opus 4.5 model contains the pattern of the family Opus 4 as well, and whichever family is met first
  decides. With the same price list, the same request is charged at one price or at three times that price.\<close>

theorem family_price_depends_on_order:
  "\<exists>ro1 ro2. validOrder sampleData ro1 \<and> validOrder sampleData ro2 \<and>
     GetLiteLLMPricing ro1 ''claude-opus-4-5-thinking'' = Some (samplePrice 5) \<and>
     GetLiteLLMPricing ro2 ''claude-opus-4-5-thinking'' = Some (samplePrice 15)"
proof (intro exI conjI)
  let ?ro1 = "\<lparr>ro_families = familyPatterns, ro_data = \<lambda>_. sampleData\<rparr>"
  let ?ro2 = "\<lparr>ro_families = rev familyPatterns, ro_data = \<lambda>_. rev sampleData\<rparr>"
  show "validOrder sampleData ?ro1" "validOrder sampleData ?ro2" by (simp_all add: validOrder_def)
  show "GetLiteLLMPricing ?ro1 ''claude-opus-4-5-thinking'' = Some (samplePrice 5)"
    by (rule sample_family) (simp_all add: matchByModelFamily_def sample_patterns sampleData_def del: strContains.simps)
  show "GetLiteLLMPricing ?ro2 ''claude-opus-4-5-thinking'' = Some (samplePrice 15)"
    by (rule sample_family) (simp_all add: matchByModelFamily_def sample_patterns sampleData_def del: strContains.simps)
qed

end
