(* ===== verification/Channel.thy ===== *)
theory Channel
  imports Redaction World "HOL-Library.Multiset"
begin

text \<open>
  Channels (\<open>service/channel.go\<close>, \<open>service/channel_service.go\<close>): the prices and model mappings an operator gives to
  groups, their validation, the snapshot that answers look-ups on the request path, and the loading of that snapshot from
  the database with its expiry and its short-lived substitute after an error.

  A Go map is the association list of its entries in the order in which one \<open>range\<close> over it meets them; that order is
  unspecified, so the theorems hold for every order. \<open>Clone\<close> is the identity on values.
\<close>

section \<open>Data\<close>

definition BillingModeToken :: string where "BillingModeToken = ''token''"
definition BillingModePerRequest :: string where "BillingModePerRequest = ''per_request''"
definition BillingModeImage :: string where "BillingModeImage = ''image''"

definition billingModeIsValid :: "string \<Rightarrow> bool" where
  "billingModeIsValid m \<longleftrightarrow> m \<in> {BillingModeToken, BillingModePerRequest, BillingModeImage, ''''}"

definition BillingModelSourceRequested :: string where "BillingModelSourceRequested = ''requested''"
definition BillingModelSourceUpstream :: string where "BillingModelSourceUpstream = ''upstream''"
definition BillingModelSourceChannelMapped :: string where "BillingModelSourceChannelMapped = ''channel_mapped''"

record pricing_interval =
  iv_ID :: int
  iv_PricingID :: int
  iv_MinTokens :: int
  iv_MaxTokens :: "int option"
  iv_TierLabel :: string
  iv_InputPrice :: "f64 option"
  iv_OutputPrice :: "f64 option"
  iv_CacheWritePrice :: "f64 option"
  iv_CacheReadPrice :: "f64 option"
  iv_PerRequestPrice :: "f64 option"
  iv_SortOrder :: int

record channel_model_pricing =
  cp_ID :: int
  cp_ChannelID :: int
  cp_Platform :: string
  cp_Models :: "string list"
  cp_BillingMode :: string
  cp_InputPrice :: "f64 option"
  cp_OutputPrice :: "f64 option"
  cp_CacheWritePrice :: "f64 option"
  cp_CacheReadPrice :: "f64 option"
  cp_ImageOutputPrice :: "f64 option"
  cp_PerRequestPrice :: "f64 option"
  cp_Intervals :: "pricing_interval list"

record account_stats_rule =
  ar_ID :: int
  ar_ChannelID :: int
  ar_Name :: string
  ar_GroupIDs :: "int list"
  ar_AccountIDs :: "int list"
  ar_SortOrder :: int
  ar_Pricing :: "channel_model_pricing list"

record channel =
  ch_ID :: int
  ch_Name :: string
  ch_Description :: string
  ch_Status :: string
  ch_BillingModelSource :: string
  ch_RestrictModels :: bool
  ch_ProviderType :: string
  ch_ProviderConfig :: "(string \<times> json) list option"
  ch_Features :: string
  ch_FeaturesConfig :: "(string \<times> json) list option"
  ch_GroupIDs :: "int list"
  ch_ModelPricing :: "channel_model_pricing list"
  ch_ModelMapping :: "(string \<times> (string \<times> string) list) list"
  ch_ApplyPricingToAccountStats :: bool
  ch_AccountStatsPricingRules :: "account_stats_rule list"

definition chanIsActive :: "channel \<Rightarrow> bool" where
  "chanIsActive c \<longleftrightarrow> ch_Status c = ''active''"

text \<open>The price entry of a model in one channel, by exact name.\<close>

definition chanGetModelPricing :: "channel \<Rightarrow> string \<Rightarrow> channel_model_pricing option" where
  "chanGetModelPricing c model =
     List.find (\<lambda>p. list_ex (\<lambda>m. toLower m = toLower model) (cp_Models p)) (ch_ModelPricing c)"

definition intervalMatches :: "int \<Rightarrow> pricing_interval \<Rightarrow> bool" where
  "intervalMatches n iv \<longleftrightarrow> iv_MinTokens iv < n \<and> (case iv_MaxTokens iv of None \<Rightarrow> True | Some m \<Rightarrow> n \<le> m)"

definition FindMatchingInterval :: "pricing_interval list \<Rightarrow> int \<Rightarrow> pricing_interval option" where
  "FindMatchingInterval ivs n = List.find (intervalMatches n) ivs"

definition GetTierByLabel :: "channel_model_pricing \<Rightarrow> string \<Rightarrow> pricing_interval option" where
  "GetTierByLabel p label = List.find (\<lambda>iv. toLower (iv_TierLabel iv) = toLower label) (cp_Intervals p)"

definition featureKeyWebSearchEmulation :: string where
  "featureKeyWebSearchEmulation = ''web_search_emulation''"

definition IsWebSearchEmulationEnabled :: "channel option \<Rightarrow> string \<Rightarrow> bool" where
  "IsWebSearchEmulationEnabled c platform =
     (case c of None \<Rightarrow> False
      | Some ch \<Rightarrow> (case ch_FeaturesConfig ch of None \<Rightarrow> False
        | Some fc \<Rightarrow> (case map_of fc featureKeyWebSearchEmulation of
              Some (JObj wse) \<Rightarrow> (case map_of wse platform of Some (JBool b) \<Rightarrow> b | _ \<Rightarrow> False)
            | _ \<Rightarrow> False)))"

section \<open>Validation of intervals\<close>

text \<open>A loop that returns the first error.\<close>

fun firstErr :: "('a \<Rightarrow> go_err option) \<Rightarrow> 'a list \<Rightarrow> go_err option" where
  "firstErr f [] = None"
| "firstErr f (x # xs) = (case f x of Some e \<Rightarrow> Some e | None \<Rightarrow> firstErr f xs)"

definition thenErr :: "go_err option \<Rightarrow> go_err option \<Rightarrow> go_err option" where
  "thenErr a b = (case a of Some e \<Rightarrow> Some e | None \<Rightarrow> b)"

definition negativePrice :: "f64 option \<Rightarrow> bool" where
  "negativePrice p = (case p of None \<Rightarrow> False | Some v \<Rightarrow> flt v fzero)"

definition validateIntervalPrices :: "pricing_interval \<Rightarrow> nat \<Rightarrow> go_err option" where
  "validateIntervalPrices iv idx =
     firstErr (\<lambda>(name, v). if negativePrice v
         then Some (ErrorNew (''interval #'' @ formatInt (int idx + 1) @ '': '' @ name @ '' must be >= 0'')) else None)
       [(''input_price'', iv_InputPrice iv), (''output_price'', iv_OutputPrice iv), (''cache_write_price'', iv_CacheWritePrice iv),
        (''cache_read_price'', iv_CacheReadPrice iv), (''per_request_price'', iv_PerRequestPrice iv)]"

definition validateSingleInterval :: "pricing_interval \<Rightarrow> nat \<Rightarrow> go_err option" where
  "validateSingleInterval iv idx =
     (let pre = ''interval #'' @ formatInt (int idx + 1)
      in if iv_MinTokens iv < 0
         then Some (ErrorNew (pre @ '': min_tokens ('' @ formatInt (iv_MinTokens iv) @ '') must be >= 0''))
         else case iv_MaxTokens iv of
                None \<Rightarrow> validateIntervalPrices iv idx
              | Some m \<Rightarrow>
                  if m \<le> 0 then Some (ErrorNew (pre @ '': max_tokens ('' @ formatInt m @ '') must be > 0''))
                  else if m \<le> iv_MinTokens iv
                  then Some (ErrorNew (pre @ '': max_tokens ('' @ formatInt m @ '') must be > min_tokens ('' @ formatInt (iv_MinTokens iv) @ '')''))
                  else validateIntervalPrices iv idx)"

text \<open>The label of an upper bound; no bound prints as the infinity sign, in UTF-8.\<close>

definition formatMaxTokensLabel :: "int option \<Rightarrow> string" where
  "formatMaxTokensLabel m = (case m of None \<Rightarrow> [CHR 0xE2, CHR 0x88, CHR 0x9E] | Some n \<Rightarrow> formatInt n)"

text \<open>The loop over the sorted intervals: \<open>i\<close> is the index, \<open>prev\<close> the interval before.\<close>

fun validateIntervalOverlap :: "nat \<Rightarrow> pricing_interval option \<Rightarrow> pricing_interval list \<Rightarrow> go_err option" where
  "validateIntervalOverlap i prev [] = None"
| "validateIntervalOverlap i prev (iv # rest) =
     (if iv_MaxTokens iv = None \<and> rest \<noteq> []
      then Some (ErrorNew (''interval #'' @ formatInt (int i + 1) @ '': unbounded interval (max_tokens=null) must be the last one''))
      else case prev of
             None \<Rightarrow> validateIntervalOverlap (Suc i) (Some iv) rest
           | Some p \<Rightarrow>
               if (case iv_MaxTokens p of None \<Rightarrow> True | Some m \<Rightarrow> iv_MinTokens iv < m)
               then Some (ErrorNew (''interval #'' @ formatInt (int i) @ '' and #'' @ formatInt (int i + 1) @ '' overlap: prev max='' @
                      formatMaxTokensLabel (iv_MaxTokens p) @ '' > cur min='' @ formatInt (iv_MinTokens iv)))
               else validateIntervalOverlap (Suc i) (Some iv) rest)"

definition ValidateIntervals :: "pricing_interval list \<Rightarrow> go_err option" where
  "ValidateIntervals ivs =
     (if ivs = [] then None
      else let sorted = sort_key iv_MinTokens ivs
           in thenErr (firstErr (\<lambda>(i, iv). validateSingleInterval iv i) (enumerate 0 sorted))
                      (validateIntervalOverlap 0 None sorted))"

section \<open>Validation of channels\<close>

record model_entry =
  me_pattern :: string
  me_prefix :: string
  me_wildcard :: bool

definition toModelEntry :: "string \<Rightarrow> model_entry" where
  "toModelEntry pattern =
     (let lower = toLower pattern; isWild = hasSuffix lower ''*''
      in \<lparr>me_pattern = pattern, me_prefix = (if isWild then trimSuffix lower ''*'' else lower), me_wildcard = isWild\<rparr>)"

definition conflictsBetween :: "model_entry \<Rightarrow> model_entry \<Rightarrow> bool" where
  "conflictsBetween a b \<longleftrightarrow>
     (if \<not> me_wildcard a \<and> \<not> me_wildcard b then me_prefix a = me_prefix b
      else if me_wildcard a \<and> \<not> me_wildcard b then hasPrefix (me_prefix b) (me_prefix a)
      else if \<not> me_wildcard a \<and> me_wildcard b then hasPrefix (me_prefix a) (me_prefix b)
      else hasPrefix (me_prefix a) (me_prefix b) \<or> hasPrefix (me_prefix b) (me_prefix a))"

fun detectConflicts :: "model_entry list \<Rightarrow> string \<Rightarrow> string \<Rightarrow> string \<Rightarrow> go_err option" where
  "detectConflicts [] platform ec label = None"
| "detectConflicts (a # entries) platform ec label =
     (case List.find (conflictsBetween a) entries of
        Some b \<Rightarrow> Some (BadRequest ec (label @ '' '' @ [CHR 0x27] @ me_pattern a @ [CHR 0x27] @ '' and '' @ [CHR 0x27] @ me_pattern b @
                    [CHR 0x27] @ '' conflict in platform '' @ [CHR 0x27] @ platform @ [CHR 0x27] @ '': overlapping match range''))
      | None \<Rightarrow> detectConflicts entries platform ec label)"

definition platformEntries :: "channel_model_pricing list \<Rightarrow> string \<Rightarrow> model_entry list" where
  "platformEntries prs platform =
     concat (map (\<lambda>p. map toModelEntry (cp_Models p)) (filter (\<lambda>p. cp_Platform p = platform) prs))"

text \<open>The platforms are taken in the order in which they first occur; the code ranges over a map, so which of several
  conflicts it reports is unspecified.\<close>

definition validateNoConflictingModels :: "channel_model_pricing list \<Rightarrow> go_err option" where
  "validateNoConflictingModels prs =
     firstErr (\<lambda>platform. detectConflicts (platformEntries prs platform) platform ''MODEL_PATTERN_CONFLICT'' ''model patterns'')
       (remdups (map cp_Platform prs))"

definition validateNoConflictingMappings :: "(string \<times> (string \<times> string) list) list \<Rightarrow> go_err option" where
  "validateNoConflictingMappings mapping =
     firstErr (\<lambda>(platform, pm). detectConflicts (map (toModelEntry \<circ> fst) pm) platform ''MAPPING_PATTERN_CONFLICT'' ''mapping source patterns'')
       mapping"

definition showModels :: "string list \<Rightarrow> string" where
  "showModels ms = ''['' @ joinWith '' '' ms @ '']''"

definition validatePricingIntervals :: "channel_model_pricing list \<Rightarrow> go_err option" where
  "validatePricingIntervals prs =
     firstErr (\<lambda>p. case ValidateIntervals (cp_Intervals p) of
         None \<Rightarrow> None
       | Some e \<Rightarrow> Some (BadRequest ''INVALID_PRICING_INTERVALS''
           (''invalid pricing intervals for platform '' @ [CHR 0x27] @ cp_Platform p @ [CHR 0x27] @ '' models '' @ showModels (cp_Models p) @
            '': '' @ errText e))) prs"

definition checkBillingModeRequirements :: "channel_model_pricing \<Rightarrow> go_err option" where
  "checkBillingModeRequirements p =
     (if (cp_BillingMode p = BillingModePerRequest \<or> cp_BillingMode p = BillingModeImage) \<and> cp_PerRequestPrice p = None \<and> cp_Intervals p = []
      then Some (BadRequest ''BILLING_MODE_MISSING_PRICE'' ''per-request price or intervals required for per_request/image billing mode'')
      else None)"

definition checkPricesNotNegative :: "channel_model_pricing \<Rightarrow> go_err option" where
  "checkPricesNotNegative p =
     firstErr (\<lambda>(field, v). if negativePrice v then Some (BadRequest ''NEGATIVE_PRICE'' (field @ '' must be >= 0'')) else None)
       [(''input_price'', cp_InputPrice p), (''output_price'', cp_OutputPrice p), (''cache_write_price'', cp_CacheWritePrice p),
        (''cache_read_price'', cp_CacheReadPrice p), (''image_output_price'', cp_ImageOutputPrice p), (''per_request_price'', cp_PerRequestPrice p)]"

definition intervalHasPrice :: "pricing_interval \<Rightarrow> bool" where
  "intervalHasPrice iv \<longleftrightarrow> iv_InputPrice iv \<noteq> None \<or> iv_OutputPrice iv \<noteq> None \<or> iv_CacheWritePrice iv \<noteq> None \<or>
     iv_CacheReadPrice iv \<noteq> None \<or> iv_PerRequestPrice iv \<noteq> None"

definition checkIntervalsHavePrices :: "channel_model_pricing \<Rightarrow> go_err option" where
  "checkIntervalsHavePrices p =
     firstErr (\<lambda>iv. if intervalHasPrice iv then None
         else Some (BadRequest ''INTERVAL_MISSING_PRICE'' (''interval ['' @ formatInt (iv_MinTokens iv) @ '', '' @
                formatMaxTokensLabel (iv_MaxTokens iv) @ ''] has no price fields set for model '' @ showModels (cp_Models p))))
       (cp_Intervals p)"

definition validatePricingBillingMode :: "channel_model_pricing list \<Rightarrow> go_err option" where
  "validatePricingBillingMode prs =
     firstErr (\<lambda>p. thenErr (checkBillingModeRequirements p) (thenErr (checkPricesNotNegative p) (checkIntervalsHavePrices p))) prs"

definition validatePricingEntries :: "channel_model_pricing list \<Rightarrow> go_err option" where
  "validatePricingEntries prs =
     thenErr (validateNoConflictingModels prs) (thenErr (validatePricingIntervals prs) (validatePricingBillingMode prs))"

definition validateChannelConfig :: "channel_model_pricing list \<Rightarrow> (string \<times> (string \<times> string) list) list \<Rightarrow> go_err option" where
  "validateChannelConfig prs mapping = thenErr (validatePricingEntries prs) (validateNoConflictingMappings mapping)"

section \<open>The snapshot\<close>

record wildcard_pricing_entry =
  wp_prefix :: string
  wp_pricing :: channel_model_pricing

record wildcard_mapping_entry =
  wm_prefix :: string
  wm_target :: string

record channel_cache =
  cc_pricingByGroupModel :: "int \<times> string \<times> string \<Rightarrow> channel_model_pricing option"
  cc_wildcardByGroupPlatform :: "int \<times> string \<Rightarrow> wildcard_pricing_entry list"
  cc_mappingByGroupModel :: "int \<times> string \<times> string \<Rightarrow> string option"
  cc_wildcardMappingByGP :: "int \<times> string \<Rightarrow> wildcard_mapping_entry list"
  cc_channelByGroupID :: "int \<Rightarrow> channel option"
  cc_groupPlatform :: "int \<Rightarrow> string option"
  cc_byID :: "int \<Rightarrow> channel option"
  cc_loadedAt :: instant

definition newEmptyChannelCache :: channel_cache where
  "newEmptyChannelCache = \<lparr>cc_pricingByGroupModel = (\<lambda>_. None), cc_wildcardByGroupPlatform = (\<lambda>_. []),
     cc_mappingByGroupModel = (\<lambda>_. None), cc_wildcardMappingByGP = (\<lambda>_. []), cc_channelByGroupID = (\<lambda>_. None),
     cc_groupPlatform = (\<lambda>_. None), cc_byID = (\<lambda>_. None), cc_loadedAt = 0\<rparr>"

definition isPlatformPricingMatch :: "string \<Rightarrow> string \<Rightarrow> bool" where
  "isPlatformPricingMatch groupPlatform pricingPlatform \<longleftrightarrow> groupPlatform = pricingPlatform"

definition matchingPlatforms :: "string \<Rightarrow> string list" where
  "matchingPlatforms groupPlatform = [groupPlatform]"

text \<open>One model of one price entry, and one entry of a mapping.\<close>

definition expandModel :: "int \<Rightarrow> channel_model_pricing \<Rightarrow> string \<Rightarrow> channel_cache \<Rightarrow> channel_cache" where
  "expandModel gid p model cc =
     (let gp = (gid, cp_Platform p)
      in if hasSuffix model ''*''
         then cc\<lparr>cc_wildcardByGroupPlatform := (cc_wildcardByGroupPlatform cc)(gp := cc_wildcardByGroupPlatform cc gp @
                [\<lparr>wp_prefix = toLower (trimSuffix model ''*''), wp_pricing = p\<rparr>])\<rparr>
         else cc\<lparr>cc_pricingByGroupModel := (cc_pricingByGroupModel cc)((gid, cp_Platform p, toLower model) \<mapsto> p)\<rparr>)"

definition expandPricingToCache :: "channel \<Rightarrow> int \<Rightarrow> string \<Rightarrow> channel_cache \<Rightarrow> channel_cache" where
  "expandPricingToCache c gid platform cc =
     fold (\<lambda>p. if isPlatformPricingMatch platform (cp_Platform p) then fold (expandModel gid p) (cp_Models p) else id)
       (ch_ModelPricing c) cc"

definition expandMapping :: "int \<Rightarrow> string \<Rightarrow> string \<times> string \<Rightarrow> channel_cache \<Rightarrow> channel_cache" where
  "expandMapping gid platform e cc =
     (let gp = (gid, platform)
      in if hasSuffix (fst e) ''*''
         then cc\<lparr>cc_wildcardMappingByGP := (cc_wildcardMappingByGP cc)(gp := cc_wildcardMappingByGP cc gp @
                [\<lparr>wm_prefix = toLower (trimSuffix (fst e) ''*''), wm_target = snd e\<rparr>])\<rparr>
         else cc\<lparr>cc_mappingByGroupModel := (cc_mappingByGroupModel cc)((gid, platform, toLower (fst e)) \<mapsto> snd e)\<rparr>)"

definition expandMappingToCache :: "channel \<Rightarrow> int \<Rightarrow> string \<Rightarrow> channel_cache \<Rightarrow> channel_cache" where
  "expandMappingToCache c gid platform cc =
     fold (\<lambda>mp. case map_of (ch_ModelMapping c) mp of None \<Rightarrow> id | Some pm \<Rightarrow> fold (expandMapping gid mp) pm)
       (matchingPlatforms platform) cc"

text \<open>A map read without the \<open>ok\<close> flag gives the empty text for a missing key.\<close>

definition platformOf :: "(int \<Rightarrow> string option) \<Rightarrow> int \<Rightarrow> string" where
  "platformOf gps gid = (case gps gid of None \<Rightarrow> [] | Some p \<Rightarrow> p)"

definition expandGroup :: "(int \<Rightarrow> string option) \<Rightarrow> channel \<Rightarrow> int \<Rightarrow> channel_cache \<Rightarrow> channel_cache" where
  "expandGroup gps c gid cc =
     (let platform = platformOf gps gid
      in expandMappingToCache c gid platform (expandPricingToCache c gid platform
           (cc\<lparr>cc_channelByGroupID := (cc_channelByGroupID cc)(gid \<mapsto> c)\<rparr>)))"

definition expandChannel :: "(int \<Rightarrow> string option) \<Rightarrow> channel \<Rightarrow> channel_cache \<Rightarrow> channel_cache" where
  "expandChannel gps c cc = fold (expandGroup gps c) (ch_GroupIDs c) (cc\<lparr>cc_byID := (cc_byID cc)(ch_ID c \<mapsto> c)\<rparr>)"

definition populateChannelCache :: "instant \<Rightarrow> channel list \<Rightarrow> (int \<Rightarrow> string option) \<Rightarrow> channel_cache" where
  "populateChannelCache now channels gps =
     fold (expandChannel gps) channels (newEmptyChannelCache\<lparr>cc_groupPlatform := gps, cc_loadedAt := now\<rparr>)"

section \<open>Look-ups\<close>

definition matchWildcard :: "channel_cache \<Rightarrow> int \<Rightarrow> string \<Rightarrow> string \<Rightarrow> channel_model_pricing option" where
  "matchWildcard cc gid platform modelLower =
     map_option wp_pricing (List.find (\<lambda>wc. hasPrefix modelLower (wp_prefix wc)) (cc_wildcardByGroupPlatform cc (gid, platform)))"

definition matchWildcardMapping :: "channel_cache \<Rightarrow> int \<Rightarrow> string \<Rightarrow> string \<Rightarrow> string" where
  "matchWildcardMapping cc gid platform modelLower =
     (case List.find (\<lambda>wc. hasPrefix modelLower (wm_prefix wc)) (cc_wildcardMappingByGP cc (gid, platform)) of
        None \<Rightarrow> [] | Some wc \<Rightarrow> wm_target wc)"

definition lookupPricingAcrossPlatforms :: "channel_cache \<Rightarrow> int \<Rightarrow> string \<Rightarrow> string \<Rightarrow> channel_model_pricing option" where
  "lookupPricingAcrossPlatforms cc gid platform modelLower =
     (case firstSome (\<lambda>p. cc_pricingByGroupModel cc (gid, p, modelLower)) (matchingPlatforms platform) of
        Some pr \<Rightarrow> Some pr
      | None \<Rightarrow> firstSome (\<lambda>p. matchWildcard cc gid p modelLower) (matchingPlatforms platform))"

definition lookupMappingAcrossPlatforms :: "channel_cache \<Rightarrow> int \<Rightarrow> string \<Rightarrow> string \<Rightarrow> string" where
  "lookupMappingAcrossPlatforms cc gid platform modelLower =
     (case firstSome (\<lambda>p. cc_mappingByGroupModel cc (gid, p, modelLower)) (matchingPlatforms platform) of
        Some target \<Rightarrow> target
      | None \<Rightarrow> (case firstSome (\<lambda>p. let t = matchWildcardMapping cc gid p modelLower in if t = [] then None else Some t)
                          (matchingPlatforms platform) of
                   Some target \<Rightarrow> target | None \<Rightarrow> []))"

record channel_mapping_result =
  mr_MappedModel :: string
  mr_ChannelID :: int
  mr_Mapped :: bool
  mr_BillingModelSource :: string

definition unmapped :: "string \<Rightarrow> channel_mapping_result" where
  "unmapped model = \<lparr>mr_MappedModel = model, mr_ChannelID = 0, mr_Mapped = False, mr_BillingModelSource = []\<rparr>"

text \<open>The arrow of a mapping chain, in UTF-8.\<close>

definition chainArrow :: string where
  "chainArrow = [CHR 0xE2, CHR 0x86, CHR 0x92]"

definition BuildModelMappingChain :: "channel_mapping_result \<Rightarrow> string \<Rightarrow> string \<Rightarrow> string" where
  "BuildModelMappingChain r reqModel upstreamModel =
     (if \<not> mr_Mapped r then
        (if upstreamModel \<noteq> [] \<and> upstreamModel \<noteq> reqModel then reqModel @ chainArrow @ upstreamModel else [])
      else if upstreamModel \<noteq> [] \<and> upstreamModel \<noteq> mr_MappedModel r
      then reqModel @ chainArrow @ mr_MappedModel r @ chainArrow @ upstreamModel
      else reqModel @ chainArrow @ mr_MappedModel r)"

record channel_usage_fields =
  cf_ChannelID :: int
  cf_OriginalModel :: string
  cf_ChannelMappedModel :: string
  cf_BillingModelSource :: string
  cf_ModelMappingChain :: string

definition ToUsageFields :: "channel_mapping_result \<Rightarrow> string \<Rightarrow> string \<Rightarrow> channel_usage_fields" where
  "ToUsageFields r reqModel upstreamModel =
     \<lparr>cf_ChannelID = mr_ChannelID r, cf_OriginalModel = reqModel,
      cf_ChannelMappedModel = (if mr_Mapped r then mr_MappedModel r else reqModel),
      cf_BillingModelSource = mr_BillingModelSource r,
      cf_ModelMappingChain = BuildModelMappingChain r reqModel upstreamModel\<rparr>"

record channel_lookup =
  lk_cache :: channel_cache
  lk_channel :: channel
  lk_platform :: string

definition resolveMapping :: "channel_lookup \<Rightarrow> int \<Rightarrow> string \<Rightarrow> channel_mapping_result" where
  "resolveMapping lk gid model =
     (let src = ch_BillingModelSource (lk_channel lk);
          mapped = lookupMappingAcrossPlatforms (lk_cache lk) gid (lk_platform lk) (toLower model)
      in \<lparr>mr_MappedModel = (if mapped \<noteq> [] then mapped else model), mr_ChannelID = ch_ID (lk_channel lk),
          mr_Mapped = (mapped \<noteq> []), mr_BillingModelSource = (if src = [] then BillingModelSourceChannelMapped else src)\<rparr>)"

definition checkRestricted :: "channel_lookup \<Rightarrow> int \<Rightarrow> string \<Rightarrow> bool" where
  "checkRestricted lk gid model \<longleftrightarrow>
     ch_RestrictModels (lk_channel lk) \<and>
     lookupPricingAcrossPlatforms (lk_cache lk) gid (lk_platform lk) (toLower model) = None"

section \<open>Loading\<close>

text \<open>The tables the channel repository reads, the platforms of the groups, and the snapshot the process holds.\<close>

record channel_svc =
  cs_channels :: "channel list"
  cs_groups :: "(int \<times> int) list"
  cs_pricing :: "channel_model_pricing list"
  cs_intervals :: "pricing_interval list"
  cs_rules :: "account_stats_rule list"
  cs_rulePricing :: "(int \<times> channel_model_pricing) list"
  cs_ruleIntervals :: "pricing_interval list"
  cs_platforms :: "int \<Rightarrow> string option"
  cs_cache :: "channel_cache option"

definition channelCacheTTL :: duration where "channelCacheTTL = 10 * nsMinute"
definition channelErrorTTL :: duration where "channelErrorTTL = 5 * nsSecond"

definition batchLoadGroupIDs :: "int list \<Rightarrow> (channel_svc, int \<Rightarrow> int list) eprog" where
  "batchLoadGroupIDs ids = bindE
     (query (\<lambda>d i. if i \<in> set ids then sort (map snd (filter (\<lambda>r. fst r = i) (cs_groups d))) else []))
     (Errorf ''batch load group ids'') (\<lambda>m. ret (Inr m))"

text \<open>\<open>ORDER BY pricing_id, sort_order, id\<close>.\<close>

definition intervalsOf :: "pricing_interval list \<Rightarrow> int \<Rightarrow> pricing_interval list" where
  "intervalsOf ivs i = sort_key iv_SortOrder (sort_key iv_ID (filter (\<lambda>iv. iv_PricingID iv = i) ivs))"

definition batchLoadModelPricing :: "int list \<Rightarrow> (channel_svc, int \<Rightarrow> channel_model_pricing list) eprog" where
  "batchLoadModelPricing ids = bindE
     (query (\<lambda>d. sort_key cp_ID (filter (\<lambda>p. cp_ChannelID p \<in> set ids) (cs_pricing d)))) (Errorf ''batch load model pricing'') (\<lambda>all.
     if all = [] then ret (Inr (\<lambda>_. []))
     else bindE (query (\<lambda>d. intervalsOf (cs_intervals d))) (Errorf ''batch load intervals'') (\<lambda>ivs.
       ret (Inr (\<lambda>i. map (\<lambda>p. p\<lparr>cp_Intervals := ivs (cp_ID p)\<rparr>) (filter (\<lambda>p. cp_ChannelID p = i) all)))))"

definition batchLoadAccountStatsModelPricing :: "int list \<Rightarrow> (channel_svc, int \<Rightarrow> channel_model_pricing list) eprog" where
  "batchLoadAccountStatsModelPricing ruleIDs =
     (if ruleIDs = [] then ret (Inr (\<lambda>_. []))
      else bindE (query (\<lambda>d. sort_key (\<lambda>r. cp_ID (snd r)) (filter (\<lambda>r. fst r \<in> set ruleIDs) (cs_rulePricing d))))
             (Errorf ''batch load account stats model pricing'') (\<lambda>all.
        if all = [] then ret (Inr (\<lambda>_. []))
        else bindE (query (\<lambda>d. intervalsOf (cs_ruleIntervals d))) (Errorf ''batch load account stats pricing intervals'') (\<lambda>ivs.
          ret (Inr (\<lambda>i. map (\<lambda>r. (snd r)\<lparr>cp_Intervals := ivs (cp_ID (snd r))\<rparr>) (filter (\<lambda>r. fst r = i) all))))))"

definition batchLoadAccountStatsPricingRules :: "int list \<Rightarrow> (channel_svc, int \<Rightarrow> account_stats_rule list) eprog" where
  "batchLoadAccountStatsPricingRules ids = bindE
     (query (\<lambda>d. sort_key ar_SortOrder (sort_key ar_ID (filter (\<lambda>r. ar_ChannelID r \<in> set ids) (cs_rules d)))))
     (Errorf ''batch load account stats pricing rules'') (\<lambda>all.
     bindE (batchLoadAccountStatsModelPricing (map ar_ID all)) id (\<lambda>pricing.
       ret (Inr (\<lambda>i. map (\<lambda>r. r\<lparr>ar_Pricing := pricing (ar_ID r)\<rparr>) (filter (\<lambda>r. ar_ChannelID r = i) all)))))"

definition ListAll :: "(channel_svc, channel list) eprog" where
  "ListAll = bindE (query (\<lambda>d. sort_key ch_ID (cs_channels d))) (Errorf ''query all channels'') (\<lambda>channels.
     let ids = map ch_ID channels
     in if ids = [] then ret (Inr channels)
        else bindE (batchLoadGroupIDs ids) id (\<lambda>groupMap.
             bindE (batchLoadModelPricing ids) id (\<lambda>pricingMap.
             bindE (batchLoadAccountStatsPricingRules ids) id (\<lambda>rulesMap.
             ret (Inr (map (\<lambda>c. c\<lparr>ch_GroupIDs := groupMap (ch_ID c), ch_ModelPricing := pricingMap (ch_ID c),
                                 ch_AccountStatsPricingRules := rulesMap (ch_ID c)\<rparr>) channels))))))"

definition GetGroupPlatforms :: "int list \<Rightarrow> (channel_svc, int \<Rightarrow> string option) eprog" where
  "GetGroupPlatforms gids =
     (if gids = [] then ret (Inr (\<lambda>_. None))
      else bindE (query (\<lambda>d i. if i \<in> set gids then cs_platforms d i else None)) (Errorf ''get group platforms'') (\<lambda>m. ret (Inr m)))"

definition storeErrorCache :: "(channel_svc, unit) prog" where
  "storeErrorCache = do {
     t \<leftarrow> timeNow;
     modify (\<lambda>d. d\<lparr>cs_cache := Some (newEmptyChannelCache\<lparr>cc_loadedAt := t - (channelCacheTTL - channelErrorTTL)\<rparr>)\<rparr>)
   }"

definition fetchChannelData :: "(channel_svc, channel list \<times> (int \<Rightarrow> string option)) eprog" where
  "fetchChannelData = do {
     r \<leftarrow> ListAll;
     case r of
       Inl e \<Rightarrow> do { _ \<leftarrow> storeErrorCache; ret (Inl (Errorf ''list all channels'' e)) }
     | Inr channels \<Rightarrow>
         (let gids = concat (map ch_GroupIDs channels)
          in if gids = [] then ret (Inr (channels, \<lambda>_. None))
             else do {
               g \<leftarrow> GetGroupPlatforms gids;
               case g of
                 Inl e \<Rightarrow> do { _ \<leftarrow> storeErrorCache; ret (Inl (Errorf ''get group platforms'' e)) }
               | Inr gps \<Rightarrow> ret (Inr (channels, gps))
             })
   }"

definition buildCache :: "(channel_svc, channel_cache) eprog" where
  "buildCache = bindE fetchChannelData id (\<lambda>(channels, gps). do {
     t \<leftarrow> timeNow;
     _ \<leftarrow> modify (\<lambda>d. d\<lparr>cs_cache := Some (populateChannelCache t channels gps)\<rparr>);
     ret (Inr (populateChannelCache t channels gps))
   })"

text \<open>The snapshot the process holds, if it is recent.\<close>

definition freshCache :: "(channel_svc, channel_cache option) prog" where
  "freshCache = do {
     c \<leftarrow> peek cs_cache;
     case c of
       None \<Rightarrow> ret None
     | Some cached \<Rightarrow> do { t \<leftarrow> timeNow; ret (if timeSub t (cc_loadedAt cached) < channelCacheTTL then Some cached else None) }
   }"

definition loadCache :: "(channel_svc, channel_cache) eprog" where
  "loadCache = do {
     a \<leftarrow> freshCache;
     case a of
       Some cached \<Rightarrow> ret (Inr cached)
     | None \<Rightarrow> do {
         b \<leftarrow> freshCache;
         case b of Some cached \<Rightarrow> ret (Inr cached) | None \<Rightarrow> buildCache
       }
   }"

definition invalidateCache :: "(channel_svc, unit) prog" where
  "invalidateCache = do {
     _ \<leftarrow> modify (\<lambda>d. d\<lparr>cs_cache := None\<rparr>);
     r \<leftarrow> buildCache;
     ret ()
   }"

definition lookupGroupChannel :: "int \<Rightarrow> (channel_svc, channel_lookup option) eprog" where
  "lookupGroupChannel gid = bindE loadCache id (\<lambda>cc. ret (Inr
     (case cc_channelByGroupID cc gid of
        None \<Rightarrow> None
      | Some c \<Rightarrow> if chanIsActive c then Some \<lparr>lk_cache = cc, lk_channel = c, lk_platform = platformOf (cc_groupPlatform cc) gid\<rparr> else None)))"

definition GetChannelForGroup :: "int \<Rightarrow> (channel_svc, channel option) eprog" where
  "GetChannelForGroup gid = bindE loadCache id (\<lambda>cc. ret (Inr
     (case cc_channelByGroupID cc gid of None \<Rightarrow> None | Some c \<Rightarrow> if chanIsActive c then Some c else None)))"

definition GetGroupPlatform :: "int \<Rightarrow> (channel_svc, string) prog" where
  "GetGroupPlatform gid = do {
     r \<leftarrow> loadCache;
     ret (case r of Inl _ \<Rightarrow> [] | Inr cc \<Rightarrow> platformOf (cc_groupPlatform cc) gid)
   }"

definition GetChannelModelPricing :: "int \<Rightarrow> string \<Rightarrow> (channel_svc, channel_model_pricing option) prog" where
  "GetChannelModelPricing gid model = do {
     r \<leftarrow> lookupGroupChannel gid;
     ret (case r of
            Inr (Some lk) \<Rightarrow> lookupPricingAcrossPlatforms (lk_cache lk) gid (lk_platform lk) (toLower model)
          | _ \<Rightarrow> None)
   }"

definition ResolveChannelMapping :: "int \<Rightarrow> string \<Rightarrow> (channel_svc, channel_mapping_result) prog" where
  "ResolveChannelMapping gid model = do {
     r \<leftarrow> lookupGroupChannel gid;
     ret (case r of Inr (Some lk) \<Rightarrow> resolveMapping lk gid model | _ \<Rightarrow> unmapped model)
   }"

definition IsModelRestricted :: "int \<Rightarrow> string \<Rightarrow> (channel_svc, bool) prog" where
  "IsModelRestricted gid model = do {
     r \<leftarrow> lookupGroupChannel gid;
     ret (case r of Inr (Some lk) \<Rightarrow> checkRestricted lk gid model | _ \<Rightarrow> False)
   }"

definition ResolveChannelMappingAndRestrict :: "int option \<Rightarrow> string \<Rightarrow> (channel_svc, channel_mapping_result \<times> bool) prog" where
  "ResolveChannelMappingAndRestrict gid model =
     (case gid of
        None \<Rightarrow> ret (unmapped model, False)
      | Some g \<Rightarrow> do {
          r \<leftarrow> lookupGroupChannel g;
          ret (case r of Inr (Some lk) \<Rightarrow> resolveMapping lk g model | _ \<Rightarrow> unmapped model, False)
        })"

end
