(* ===== verification/Channel_Lookup.thy ===== *)
theory Channel_Lookup
  imports Channel "HOL-Library.Sublist"
begin

text \<open>
  What validation gives to the look-ups of \<open>Channel\<close>. A configuration that passes validation has at most one interval
  for a number of tokens and at most one pattern for a model, so that the answers do not depend on the order of the
  entries, and the snapshot answers as the search through the configuration that the statistics of accounts use
  (\<open>findPricingForModel\<close> of \<open>service/account_stats_pricing.go\<close>).
\<close>

section \<open>The search of the account statistics\<close>

definition isPlatformMatch :: "string \<Rightarrow> string \<Rightarrow> bool" where
  "isPlatformMatch queryPlatform pricingPlatform \<longleftrightarrow>
     queryPlatform = [] \<or> pricingPlatform = [] \<or> queryPlatform = pricingPlatform"

definition findPricingForModel :: "channel_model_pricing list \<Rightarrow> string \<Rightarrow> string \<Rightarrow> channel_model_pricing option" where
  "findPricingForModel prs platform modelLower =
     (case List.find (\<lambda>p. isPlatformMatch platform (cp_Platform p) \<and> list_ex (\<lambda>m. toLower m = modelLower) (cp_Models p)) prs of
        Some p \<Rightarrow> Some p
      | None \<Rightarrow> List.find (\<lambda>p. isPlatformMatch platform (cp_Platform p) \<and>
            list_ex (\<lambda>m. let ml = toLower m in hasSuffix ml ''*'' \<and> hasPrefix modelLower (trimSuffix ml ''*'')) (cp_Models p)) prs)"

section \<open>Lists with at most one match\<close>

lemma filter_at_most_one:
  assumes "sorted_wrt R xs" and "\<And>a b. R a b \<Longrightarrow> \<not> (P a \<and> P b)"
  shows "length (filter P xs) \<le> 1"
  using assms(1)
proof (induction xs)
  case (Cons a xs)
  show ?case
  proof (cases "P a")
    case True
    then have "filter P xs = []" using Cons.prems assms(2) by (auto simp: filter_empty_conv)
    then show ?thesis by simp
  qed (use Cons in simp)
qed simp

lemma find_filter: "List.find P xs = (case filter P xs of [] \<Rightarrow> None | x # _ \<Rightarrow> Some x)"
  by (induction xs) auto

lemma filter_single:
  assumes "length (filter P xs) \<le> 1" "x \<in> set xs" "P x"
  shows "filter P xs = [x]"
proof -
  have "x \<in> set (filter P xs)" using assms by simp
  then show ?thesis using assms(1) by (cases "filter P xs") auto
qed

lemma find_single: "length (filter P xs) \<le> 1 \<Longrightarrow> x \<in> set xs \<Longrightarrow> P x \<Longrightarrow> List.find P xs = Some x"
  by (simp add: find_filter filter_single)

lemma find_order:
  assumes "length (filter P xs) \<le> 1" "mset xs = mset ys"
  shows "List.find P xs = List.find P ys"
proof (cases "List.find P xs")
  case None
  then have "\<not> (\<exists>x. x \<in> set ys \<and> P x)" using mset_eq_setD [OF assms(2)] by (simp add: find_None_iff)
  then show ?thesis using None by (simp add: find_None_iff [THEN iffD2])
next
  case (Some x)
  then have x: "x \<in> set xs" "P x" by (auto simp: find_Some_iff)
  moreover have "length (filter P ys) \<le> 1" using assms by (metis mset_filter size_mset)
  ultimately show ?thesis using assms find_single mset_eq_setD by metis
qed

section \<open>Intervals\<close>

lemma firstErr_None: "firstErr f xs = None \<longleftrightarrow> (\<forall>x \<in> set xs. f x = None)"
  by (induction xs) (auto split: option.splits)

lemma thenErr_None [simp]: "thenErr a b = None \<longleftrightarrow> a = None \<and> b = None"
  by (simp add: thenErr_def split: option.splits)

lemma overlap_None:
  assumes "validateIntervalOverlap i prev ivs = None" "sorted (map iv_MinTokens ivs)"
  shows "sorted_wrt (\<lambda>a b. \<exists>m. iv_MaxTokens a = Some m \<and> m \<le> iv_MinTokens b) ivs \<and>
    (\<forall>p iv. prev = Some p \<longrightarrow> iv \<in> set ivs \<longrightarrow> (\<exists>m. iv_MaxTokens p = Some m \<and> m \<le> iv_MinTokens iv))"
  using assms
proof (induction i prev ivs rule: validateIntervalOverlap.induct)
  case (2 i prev iv rest)
  have step: "validateIntervalOverlap (Suc i) (Some iv) rest = None"
    and p: "\<And>p. prev = Some p \<Longrightarrow> \<exists>m. iv_MaxTokens p = Some m \<and> m \<le> iv_MinTokens iv"
    using "2.prems"(1) by (auto split: if_splits option.splits)
  have "sorted_wrt (\<lambda>a b. \<exists>m. iv_MaxTokens a = Some m \<and> m \<le> iv_MinTokens b) rest \<and>
      (\<forall>b \<in> set rest. \<exists>m. iv_MaxTokens iv = Some m \<and> m \<le> iv_MinTokens b)"
    using "2.IH" "2.prems" step by (cases prev) (auto split: if_splits)
  moreover have "iv_MinTokens iv \<le> iv_MinTokens b" if "b \<in> set rest" for b using "2.prems"(2) that by simp
  ultimately show ?case using p by (fastforce intro: order_trans)
qed simp

lemma validated_intervals:
  assumes "ValidateIntervals ivs = None"
  shows "length (filter (intervalMatches n) ivs) \<le> 1"
proof (cases "ivs = []")
  case False
  let ?s = "sort_key iv_MinTokens ivs"
  have "sorted_wrt (\<lambda>a b. \<exists>m. iv_MaxTokens a = Some m \<and> m \<le> iv_MinTokens b) ?s"
    using overlap_None [of 0 None ?s] assms False by (auto simp: ValidateIntervals_def Let_def)
  then have "length (filter (intervalMatches n) ?s) \<le> 1"
    by (rule filter_at_most_one) (auto simp: intervalMatches_def)
  then show ?thesis by (metis mset_filter mset_sort size_mset)
qed simp

lemma validated_interval_fields:
  assumes "ValidateIntervals ivs = None" "iv \<in> set ivs"
  shows "0 \<le> iv_MinTokens iv" "iv_MaxTokens iv = Some m \<Longrightarrow> iv_MinTokens iv < m"
    "\<not> negativePrice (iv_InputPrice iv)" "\<not> negativePrice (iv_OutputPrice iv)" "\<not> negativePrice (iv_CacheWritePrice iv)"
    "\<not> negativePrice (iv_CacheReadPrice iv)" "\<not> negativePrice (iv_PerRequestPrice iv)"
proof -
  obtain i where "(i, iv) \<in> set (enumerate 0 (sort_key iv_MinTokens ivs))"
    using assms(2) by (metis in_set_impl_in_set_zip2 enumerate_eq_zip length_upt set_sort diff_add_inverse)
  then have "validateSingleInterval iv i = None"
    using assms by (auto simp: ValidateIntervals_def Let_def firstErr_None split: if_splits)
  then show "0 \<le> iv_MinTokens iv" "iv_MaxTokens iv = Some m \<Longrightarrow> iv_MinTokens iv < m"
    "\<not> negativePrice (iv_InputPrice iv)" "\<not> negativePrice (iv_OutputPrice iv)" "\<not> negativePrice (iv_CacheWritePrice iv)"
    "\<not> negativePrice (iv_CacheReadPrice iv)" "\<not> negativePrice (iv_PerRequestPrice iv)"
    by (auto simp: validateSingleInterval_def validateIntervalPrices_def firstErr_None Let_def split: if_splits option.splits)
qed

section \<open>Patterns\<close>

lemma hasPrefix_prefix: "hasPrefix s p \<longleftrightarrow> prefix p s"
  by (auto simp: hasPrefix_def prefix_def) (metis append_take_drop_id)

definition entryMatches :: "string \<Rightarrow> model_entry \<Rightarrow> bool" where
  "entryMatches m e \<longleftrightarrow> (if me_wildcard e then hasPrefix m (me_prefix e) else me_prefix e = m)"

text \<open>The check on pairs of patterns is complete: patterns that do not conflict match no model in common.\<close>

lemma no_conflict_disjoint: "\<not> conflictsBetween a b \<Longrightarrow> \<not> (entryMatches m a \<and> entryMatches m b)"
  by (auto simp: conflictsBetween_def entryMatches_def hasPrefix_prefix split: if_splits dest: prefix_same_cases)

lemma detectConflicts_None:
  "detectConflicts es platform ec label = None \<Longrightarrow> sorted_wrt (\<lambda>a b. \<not> conflictsBetween a b) es"
  by (induction es) (auto simp: find_None_iff split: option.splits)

abbreviation patMatches :: "string \<Rightarrow> string \<Rightarrow> bool" where
  "patMatches m pat \<equiv> entryMatches m (toModelEntry pat)"

lemma lowerChar_star [simp]: "lowerChar c = CHR ''*'' \<longleftrightarrow> c = CHR ''*''"
proof (cases "65 \<le> (of_char c :: nat) \<and> of_char c \<le> (90 :: nat)")
  case True
  then have low: "of_char (lowerChar c) = (of_char c :: nat) + 32" by (simp add: lowerChar_def Let_def)
  have star: "of_char (CHR ''*'') = (42 :: nat)" by simp
  have "lowerChar c \<noteq> CHR ''*''"
  proof
    assume "lowerChar c = CHR ''*''"
    then have "(of_char c :: nat) + 32 = 42" using low star by metis
    with True show False by linarith
  qed
  moreover have "c \<noteq> CHR ''*''" using True star by auto
  ultimately show ?thesis by blast
next
  case False
  then have "lowerChar c = c" by (auto simp: lowerChar_def Let_def)
  then show ?thesis by simp
qed

lemma hasSuffix_star: "hasSuffix s ''*'' \<longleftrightarrow> s \<noteq> [] \<and> last s = CHR ''*''"
  by (cases s rule: rev_cases) (auto simp: hasSuffix_def hasPrefix_def)

lemma hasSuffix_toLower [simp]: "hasSuffix (toLower s) ''*'' \<longleftrightarrow> hasSuffix s ''*''"
  by (auto simp: hasSuffix_star toLower_def last_map)

lemma toLower_trimSuffix: "toLower (trimSuffix s ''*'') = trimSuffix (toLower s) ''*''"
  by (simp add: trimSuffix_def) (simp add: toLower_def take_map)

lemma patMatches_exact: "toLower pat = m \<Longrightarrow> patMatches m pat"
  by (auto simp: entryMatches_def toModelEntry_def Let_def trimSuffix_def hasPrefix_prefix take_is_prefix)

lemma patMatches_wild:
  "hasSuffix pat ''*'' \<Longrightarrow> patMatches m pat \<longleftrightarrow> hasPrefix m (trimSuffix (toLower pat) ''*'')"
  by (simp add: entryMatches_def toModelEntry_def Let_def)

lemma patMatches_cases:
  "patMatches m pat \<longleftrightarrow> \<not> hasSuffix pat ''*'' \<and> toLower pat = m \<or>
     hasSuffix pat ''*'' \<and> hasPrefix m (trimSuffix (toLower pat) ''*'')"
  by (auto simp: entryMatches_def toModelEntry_def Let_def)

text \<open>What \<open>expandModel\<close> and \<open>expandMapping\<close> do with a list of patterns: names go to a map, later ones over earlier ones,
  and wildcards to a list. For a list in which a model has at most one pattern, the map and then the list give the value of
  that pattern.\<close>

definition exactLookup :: "(string \<times> 'v) list \<Rightarrow> string \<Rightarrow> 'v option" where
  "exactLookup xs m = map_option snd (List.find (\<lambda>e. \<not> hasSuffix (fst e) ''*'' \<and> toLower (fst e) = m) (rev xs))"

definition wildLookup :: "(string \<times> 'v) list \<Rightarrow> string \<Rightarrow> 'v option" where
  "wildLookup xs m = map_option snd (List.find (\<lambda>e. hasSuffix (fst e) ''*'' \<and> hasPrefix m (trimSuffix (toLower (fst e)) ''*'')) xs)"

definition patternLookup :: "(string \<times> 'v) list \<Rightarrow> string \<Rightarrow> 'v option" where
  "patternLookup xs m = map_option snd (List.find (\<lambda>e. patMatches m (fst e)) xs)"

lemma unique_pattern:
  assumes "sorted_wrt (\<lambda>a b. \<not> conflictsBetween a b) (map (toModelEntry \<circ> fst) xs)"
  shows "length (filter (\<lambda>e. patMatches m (fst e)) xs) \<le> 1"
  using assms by (intro filter_at_most_one [where R = "\<lambda>a b. \<not> conflictsBetween (toModelEntry (fst a)) (toModelEntry (fst b))"])
    (auto simp: sorted_wrt_map dest: no_conflict_disjoint)

text \<open>A search that finds only matching entries, and one if there is any, finds the value of the one pattern.\<close>

lemma patternLookup_eqI:
  assumes "length (filter (\<lambda>e. patMatches m (fst e)) xs) \<le> 1"
    and "\<And>v. r = Some v \<Longrightarrow> \<exists>pat. (pat, v) \<in> set xs \<and> patMatches m pat"
    and "r = None \<Longrightarrow> \<forall>(pat, v) \<in> set xs. \<not> patMatches m pat"
  shows "r = patternLookup xs m"
proof (cases r)
  case None
  then show ?thesis using assms(3) by (auto simp: patternLookup_def find_None_iff split: option.splits)
next
  case (Some v)
  then obtain pat where "(pat, v) \<in> set xs" "patMatches m pat" using assms(2) by blast
  then show ?thesis using find_single [OF assms(1)] Some by (fastforce simp: patternLookup_def)
qed

lemma find_SomeD: "List.find P xs = Some x \<Longrightarrow> x \<in> set xs \<and> P x"
  by (auto simp: find_Some_iff)

lemma exactLookup_Some: "exactLookup xs m = Some v \<Longrightarrow> \<exists>pat. (pat, v) \<in> set xs \<and> patMatches m pat"
  by (auto simp: exactLookup_def patMatches_cases dest!: find_SomeD)

lemma wildLookup_Some: "wildLookup xs m = Some v \<Longrightarrow> \<exists>pat. (pat, v) \<in> set xs \<and> patMatches m pat"
  by (auto simp: wildLookup_def patMatches_cases dest!: find_SomeD)

lemma exact_then_wild:
  assumes "length (filter (\<lambda>e. patMatches m (fst e)) xs) \<le> 1"
  shows "(case exactLookup xs m of Some v \<Rightarrow> Some v | None \<Rightarrow> wildLookup xs m) = patternLookup xs m"
proof (rule patternLookup_eqI [OF assms])
  fix v assume "(case exactLookup xs m of Some v \<Rightarrow> Some v | None \<Rightarrow> wildLookup xs m) = Some v"
  then show "\<exists>pat. (pat, v) \<in> set xs \<and> patMatches m pat"
    by (auto dest: exactLookup_Some wildLookup_Some split: option.splits)
next
  assume "(case exactLookup xs m of Some v \<Rightarrow> Some v | None \<Rightarrow> wildLookup xs m) = None"
  then show "\<forall>(pat, v) \<in> set xs. \<not> patMatches m pat"
    by (auto simp: exactLookup_def wildLookup_def patMatches_cases find_None_iff split: option.splits)
qed

section \<open>The snapshot of one group\<close>

text \<open>The patterns of a platform with their price entries, in the order of the configuration.\<close>

definition pricingPatterns :: "channel_model_pricing list \<Rightarrow> string \<Rightarrow> (string \<times> channel_model_pricing) list" where
  "pricingPatterns prs platform =
     concat (map (\<lambda>p. map (\<lambda>m. (m, p)) (cp_Models p)) (filter (\<lambda>p. cp_Platform p = platform) prs))"

lemma expandPricing_patterns:
  "expandPricingToCache c gid platform cc =
     fold (\<lambda>(m, p). expandModel gid p m) (pricingPatterns (ch_ModelPricing c) platform) cc"
proof -
  have "fold (\<lambda>p. if isPlatformPricingMatch platform (cp_Platform p) then fold (expandModel gid p) (cp_Models p) else id) prs cc =
      fold (\<lambda>(m, p). expandModel gid p m) (pricingPatterns prs platform) cc" for prs
    by (induction prs arbitrary: cc) (auto simp: pricingPatterns_def isPlatformPricingMatch_def fold_map comp_def)
  then show ?thesis by (simp add: expandPricingToCache_def)
qed

lemma pricingPatterns_platform: "(m, p) \<in> set (pricingPatterns prs platform) \<Longrightarrow> cp_Platform p = platform"
  by (auto simp: pricingPatterns_def)

text \<open>The part of a snapshot that belongs to one group.\<close>

definition groupSlice :: "int \<Rightarrow> channel_cache \<Rightarrow> (string \<times> string \<Rightarrow> channel_model_pricing option) \<times> (string \<Rightarrow> wildcard_pricing_entry list) \<times>
    (string \<times> string \<Rightarrow> string option) \<times> (string \<Rightarrow> wildcard_mapping_entry list) \<times> channel option" where
  "groupSlice gid cc = (\<lambda>k. cc_pricingByGroupModel cc (gid, k), \<lambda>pl. cc_wildcardByGroupPlatform cc (gid, pl),
     \<lambda>k. cc_mappingByGroupModel cc (gid, k), \<lambda>pl. cc_wildcardMappingByGP cc (gid, pl), cc_channelByGroupID cc gid)"

lemma slice_expandModel: "g \<noteq> gid \<Longrightarrow> groupSlice gid (expandModel g p m cc) = groupSlice gid cc"
  by (simp add: groupSlice_def expandModel_def Let_def)

lemma slice_expandMapping: "g \<noteq> gid \<Longrightarrow> groupSlice gid (expandMapping g platform e cc) = groupSlice gid cc"
  by (simp add: groupSlice_def expandMapping_def Let_def)

lemma fold_invariant_eq: "(\<And>x cc. x \<in> set xs \<Longrightarrow> h (f x cc) = h cc) \<Longrightarrow> h (fold f xs cc) = h cc"
  by (induction xs arbitrary: cc) auto

lemma slice_expandMappingToCache: "g \<noteq> gid \<Longrightarrow> groupSlice gid (expandMappingToCache c g platform cc) = groupSlice gid cc"
  by (auto simp: expandMappingToCache_def matchingPlatforms_def slice_expandMapping split: option.splits intro!: fold_invariant_eq)

lemma slice_expandGroup: "g \<noteq> gid \<Longrightarrow> groupSlice gid (expandGroup gps c g cc) = groupSlice gid cc"
proof -
  assume g: "g \<noteq> gid"
  have "groupSlice gid (fold (\<lambda>(m, p). expandModel g p m) xs cc') = groupSlice gid cc'" for xs cc'
    by (rule fold_invariant_eq) (auto simp: slice_expandModel [OF g])
  then show ?thesis using g
    by (simp add: expandGroup_def Let_def slice_expandMappingToCache expandPricing_patterns) (simp add: groupSlice_def)
qed

lemma slice_expandChannel: "gid \<notin> set (ch_GroupIDs c) \<Longrightarrow> groupSlice gid (expandChannel gps c cc) = groupSlice gid cc"
proof -
  assume "gid \<notin> set (ch_GroupIDs c)"
  then have "groupSlice gid (expandChannel gps c cc) = groupSlice gid (cc\<lparr>cc_byID := (cc_byID cc)(ch_ID c \<mapsto> c)\<rparr>)"
    unfolding expandChannel_def by (intro fold_invariant_eq slice_expandGroup) auto
  then show ?thesis by (simp add: groupSlice_def)
qed

text \<open>Each group belongs to one channel at most, so its part of the snapshot is what its channel put there.\<close>

lemma populate_slice:
  assumes d: "distinct (concat (map ch_GroupIDs channels))" and c: "c \<in> set channels" and g: "gid \<in> set (ch_GroupIDs c)"
  shows "\<exists>cc. groupSlice gid cc = groupSlice gid newEmptyChannelCache \<and>
    groupSlice gid (populateChannelCache now channels gps) = groupSlice gid (expandGroup gps c gid cc)"
proof -
  obtain as bs where ch: "channels = as @ c # bs" using c by (auto simp: in_set_conv_decomp)
  obtain xs ys where gs: "ch_GroupIDs c = xs @ gid # ys" using g by (auto simp: in_set_conv_decomp)
  let ?e = "newEmptyChannelCache\<lparr>cc_groupPlatform := gps, cc_loadedAt := now\<rparr>"
  let ?a = "fold (expandChannel gps) as ?e"
  let ?x = "fold (expandGroup gps c) xs (?a\<lparr>cc_byID := (cc_byID ?a)(ch_ID c \<mapsto> c)\<rparr>)"
  have "groupSlice gid ?a = groupSlice gid ?e" using d ch gs by (intro fold_invariant_eq slice_expandChannel) auto
  moreover have "groupSlice gid ?x = groupSlice gid (?a\<lparr>cc_byID := (cc_byID ?a)(ch_ID c \<mapsto> c)\<rparr>)"
    using d ch gs by (intro fold_invariant_eq slice_expandGroup) auto
  ultimately have x: "groupSlice gid ?x = groupSlice gid newEmptyChannelCache" by (simp add: groupSlice_def)
  have "groupSlice gid (fold (expandChannel gps) bs (fold (expandGroup gps c) ys (expandGroup gps c gid ?x))) =
      groupSlice gid (fold (expandGroup gps c) ys (expandGroup gps c gid ?x))"
    using d ch gs by (intro fold_invariant_eq slice_expandChannel) auto
  also have "\<dots> = groupSlice gid (expandGroup gps c gid ?x)"
    using d ch gs by (intro fold_invariant_eq slice_expandGroup) auto
  finally show ?thesis using x by (auto simp: populateChannelCache_def ch gs expandChannel_def)
qed

lemma expandModels_exact:
  assumes "\<forall>(m, p) \<in> set xs. cp_Platform p = pl"
  shows "cc_pricingByGroupModel (fold (\<lambda>(m, p). expandModel gid p m) xs cc) (gid, pl, ml) =
    (case exactLookup xs ml of Some p \<Rightarrow> Some p | None \<Rightarrow> cc_pricingByGroupModel cc (gid, pl, ml))"
  using assms by (induction xs rule: rev_induct) (auto simp: exactLookup_def expandModel_def Let_def split: prod.splits)

lemma expandModels_wild:
  assumes "\<forall>(m, p) \<in> set xs. cp_Platform p = pl"
  shows "cc_wildcardByGroupPlatform (fold (\<lambda>(m, p). expandModel gid p m) xs cc) (gid, pl) =
    cc_wildcardByGroupPlatform cc (gid, pl) @
      map (\<lambda>(m, p). \<lparr>wp_prefix = toLower (trimSuffix m ''*''), wp_pricing = p\<rparr>) (filter (\<lambda>e. hasSuffix (fst e) ''*'') xs)"
  using assms by (induction xs rule: rev_induct) (auto simp: expandModel_def Let_def split: prod.splits)

lemma find_wild:
  "map_option wp_pricing (List.find (\<lambda>wc. hasPrefix ml (wp_prefix wc))
     (map (\<lambda>(m, p). \<lparr>wp_prefix = toLower (trimSuffix m ''*''), wp_pricing = p\<rparr>) (filter (\<lambda>e. hasSuffix (fst e) ''*'') xs))) =
   wildLookup xs ml"
  by (induction xs) (auto simp: wildLookup_def toLower_trimSuffix)

lemma expandMappings_exact:
  "cc_mappingByGroupModel (fold (expandMapping gid pl) xs cc) (gid, pl, ml) =
    (case exactLookup xs ml of Some t \<Rightarrow> Some t | None \<Rightarrow> cc_mappingByGroupModel cc (gid, pl, ml))"
  by (induction xs rule: rev_induct) (auto simp: exactLookup_def expandMapping_def Let_def split: prod.splits)

lemma expandMappings_wild:
  "cc_wildcardMappingByGP (fold (expandMapping gid pl) xs cc) (gid, pl) =
    cc_wildcardMappingByGP cc (gid, pl) @
      map (\<lambda>e. \<lparr>wm_prefix = toLower (trimSuffix (fst e) ''*''), wm_target = snd e\<rparr>) (filter (\<lambda>e. hasSuffix (fst e) ''*'') xs)"
  by (induction xs rule: rev_induct) (auto simp: expandMapping_def Let_def)

lemma find_wild_mapping:
  "map_option wm_target (List.find (\<lambda>wc. hasPrefix ml (wm_prefix wc))
     (map (\<lambda>e. \<lparr>wm_prefix = toLower (trimSuffix (fst e) ''*''), wm_target = snd e\<rparr>) (filter (\<lambda>e. hasSuffix (fst e) ''*'') xs))) =
   wildLookup xs ml"
  by (induction xs) (auto simp: wildLookup_def toLower_trimSuffix)

lemma expandMapping_pricing [simp]:
  "cc_pricingByGroupModel (fold (expandMapping gid pl) xs cc) = cc_pricingByGroupModel cc"
  "cc_wildcardByGroupPlatform (fold (expandMapping gid pl) xs cc) = cc_wildcardByGroupPlatform cc"
  by (induction xs arbitrary: cc) (auto simp: expandMapping_def Let_def)

lemma expandModel_mapping [simp]:
  "cc_mappingByGroupModel (fold (\<lambda>(m, p). expandModel gid p m) xs cc) = cc_mappingByGroupModel cc"
  "cc_wildcardMappingByGP (fold (\<lambda>(m, p). expandModel gid p m) xs cc) = cc_wildcardMappingByGP cc"
  by (induction xs arbitrary: cc) (auto simp: expandModel_def Let_def)

section \<open>Look-ups in a validated configuration\<close>

lemma groupSlice_eqD:
  assumes "groupSlice gid a = groupSlice gid b"
  shows "cc_pricingByGroupModel a (gid, k) = cc_pricingByGroupModel b (gid, k)"
    "cc_wildcardByGroupPlatform a (gid, pl) = cc_wildcardByGroupPlatform b (gid, pl)"
    "cc_mappingByGroupModel a (gid, k) = cc_mappingByGroupModel b (gid, k)"
    "cc_wildcardMappingByGP a (gid, pl) = cc_wildcardMappingByGP b (gid, pl)"
  using assms unfolding groupSlice_def prod.inject by (auto dest: fun_cong)

lemma empty_slice:
  assumes "groupSlice gid cc = groupSlice gid newEmptyChannelCache"
  shows "cc_pricingByGroupModel cc (gid, k) = None" "cc_wildcardByGroupPlatform cc (gid, pl) = []"
    "cc_mappingByGroupModel cc (gid, k) = None" "cc_wildcardMappingByGP cc (gid, pl) = []"
  using groupSlice_eqD [OF assms] by (simp_all add: newEmptyChannelCache_def)

lemma lookupPricing_slice:
  assumes "groupSlice gid a = groupSlice gid b"
  shows "lookupPricingAcrossPlatforms a gid pl m = lookupPricingAcrossPlatforms b gid pl m"
    "lookupMappingAcrossPlatforms a gid pl m = lookupMappingAcrossPlatforms b gid pl m"
  unfolding lookupPricingAcrossPlatforms_def lookupMappingAcrossPlatforms_def matchWildcard_def
    matchWildcardMapping_def matchingPlatforms_def firstSome.simps groupSlice_eqD [OF assms] by (rule refl)+

lemma validated_patterns:
  assumes "validateNoConflictingModels prs = None"
  shows "length (filter (\<lambda>e. patMatches m (fst e)) (pricingPatterns prs pl)) \<le> 1"
proof (cases "pl \<in> set (map cp_Platform prs)")
  case True
  have "platformEntries prs pl = map (toModelEntry \<circ> fst) (pricingPatterns prs pl)"
    by (simp add: platformEntries_def pricingPatterns_def map_concat comp_def)
  then show ?thesis using assms True
    by (intro unique_pattern) (auto simp: validateNoConflictingModels_def firstErr_None dest!: bspec intro: detectConflicts_None)
next
  case False
  then have "pricingPatterns prs pl = []" by (auto simp: pricingPatterns_def filter_empty_conv)
  then show ?thesis by simp
qed

lemma snapshot_pricing:
  assumes "distinct (concat (map ch_GroupIDs channels))" "c \<in> set channels" "gid \<in> set (ch_GroupIDs c)"
    and "validateNoConflictingModels (ch_ModelPricing c) = None"
  shows "lookupPricingAcrossPlatforms (populateChannelCache now channels gps) gid (platformOf gps gid) m =
    patternLookup (pricingPatterns (ch_ModelPricing c) (platformOf gps gid)) m"
proof -
  let ?pl = "platformOf gps gid" and ?xs = "pricingPatterns (ch_ModelPricing c) (platformOf gps gid)"
  obtain cc where cc: "groupSlice gid cc = groupSlice gid newEmptyChannelCache"
    "groupSlice gid (populateChannelCache now channels gps) = groupSlice gid (expandGroup gps c gid cc)"
    using populate_slice [OF assms(1-3)] by blast
  have pl: "\<forall>(m, p) \<in> set ?xs. cp_Platform p = ?pl" by (auto dest: pricingPatterns_platform)
  have "lookupPricingAcrossPlatforms (expandGroup gps c gid cc) gid ?pl m =
      (case exactLookup ?xs m of Some v \<Rightarrow> Some v | None \<Rightarrow> wildLookup ?xs m)"
    by (cases "map_of (ch_ModelMapping c) ?pl"; cases "exactLookup ?xs m"; cases "wildLookup ?xs m")
      (simp_all add: lookupPricingAcrossPlatforms_def matchingPlatforms_def matchWildcard_def expandGroup_def Let_def
        expandMappingToCache_def expandPricing_patterns expandModels_exact [OF pl] expandModels_wild [OF pl] empty_slice [OF cc(1)] find_wild)
  then show ?thesis using lookupPricing_slice(1) [OF cc(2)] exact_then_wild [OF validated_patterns [OF assms(4)]] by metis
qed

lemma search_pricing:
  assumes v: "validateNoConflictingModels prs = None" and pl: "pl \<noteq> []" "\<forall>p \<in> set prs. cp_Platform p \<noteq> []"
  shows "findPricingForModel prs pl m = patternLookup (pricingPatterns prs pl) m"
proof (rule patternLookup_eqI [OF validated_patterns [OF v]])
  have mem: "(pat, p) \<in> set (pricingPatterns prs pl) \<longleftrightarrow> p \<in> set prs \<and> isPlatformMatch pl (cp_Platform p) \<and> pat \<in> set (cp_Models p)" for pat p
    using pl by (auto simp: pricingPatterns_def isPlatformMatch_def)
  show "\<exists>pat. (pat, p) \<in> set (pricingPatterns prs pl) \<and> patMatches m pat" if "findPricingForModel prs pl m = Some p" for p
    using that unfolding findPricingForModel_def mem
    by (auto simp: list_ex_iff Let_def patMatches_wild patMatches_exact dest!: find_SomeD split: option.splits)
  show "\<forall>(pat, v) \<in> set (pricingPatterns prs pl). \<not> patMatches m pat" if "findPricingForModel prs pl m = None"
    using that mem by (auto simp: findPricingForModel_def find_None_iff list_ex_iff Let_def patMatches_cases split: option.splits)
qed

text \<open>C19. The snapshot answers exactly as the search through the price entries of the channel: for every group of a channel whose
  prices passed validation, the look-up by hash and wildcard list gives the entry that a linear search finds.\<close>

theorem snapshot_answers_search:
  assumes "distinct (concat (map ch_GroupIDs channels))" "c \<in> set channels" "gid \<in> set (ch_GroupIDs c)"
    and "validateNoConflictingModels (ch_ModelPricing c) = None"
    and "platformOf gps gid \<noteq> []" "\<forall>p \<in> set (ch_ModelPricing c). cp_Platform p \<noteq> []"
  shows "lookupPricingAcrossPlatforms (populateChannelCache now channels gps) gid (platformOf gps gid) m =
    findPricingForModel (ch_ModelPricing c) (platformOf gps gid) m"
  using snapshot_pricing [OF assms(1-4)] search_pricing [OF assms(4-6)] by simp

lemma snapshot_mapping:
  assumes "distinct (concat (map ch_GroupIDs channels))" "c \<in> set channels" "gid \<in> set (ch_GroupIDs c)"
    and v: "validateNoConflictingMappings (ch_ModelMapping c) = None"
    and pm: "map_of (ch_ModelMapping c) (platformOf gps gid) = Some pm"
  shows "lookupMappingAcrossPlatforms (populateChannelCache now channels gps) gid (platformOf gps gid) m =
    (case patternLookup pm m of None \<Rightarrow> [] | Some t \<Rightarrow> t)"
proof -
  let ?pl = "platformOf gps gid"
  obtain cc where cc: "groupSlice gid cc = groupSlice gid newEmptyChannelCache"
    "groupSlice gid (populateChannelCache now channels gps) = groupSlice gid (expandGroup gps c gid cc)"
    using populate_slice [OF assms(1-3)] by blast
  have u: "length (filter (\<lambda>e. patMatches m (fst e)) pm) \<le> 1"
    using v map_of_SomeD [OF pm]
    by (intro unique_pattern) (auto simp: validateNoConflictingMappings_def firstErr_None dest!: bspec intro: detectConflicts_None)
  have "lookupMappingAcrossPlatforms (expandGroup gps c gid cc) gid ?pl m =
      (case (case exactLookup pm m of Some v \<Rightarrow> Some v | None \<Rightarrow> wildLookup pm m) of None \<Rightarrow> [] | Some t \<Rightarrow> t)"
    using find_wild_mapping [of m pm]
    by (cases "exactLookup pm m"; cases "wildLookup pm m")
      (auto simp: lookupMappingAcrossPlatforms_def matchingPlatforms_def matchWildcardMapping_def expandGroup_def Let_def
        expandMappingToCache_def expandPricing_patterns pm expandMappings_exact expandMappings_wild empty_slice [OF cc(1)] split: option.splits)
  then show ?thesis using lookupPricing_slice(2) [OF cc(2)] exact_then_wild [OF u] by metis
qed

text \<open>A model mapping that passed validation sends a model to the target of the one source pattern that matches it, and to
  nothing if none does, in whatever order the entries of the Go map were met when the snapshot was built.\<close>

theorem mapping_order_irrelevant:
  assumes "distinct (concat (map ch_GroupIDs channels))" "c \<in> set channels" "gid \<in> set (ch_GroupIDs c)"
    and "validateNoConflictingMappings (ch_ModelMapping c) = None"
    and "map_of (ch_ModelMapping c) (platformOf gps gid) = Some pm"
  shows "(\<forall>(src, dst) \<in> set pm. entryMatches m (toModelEntry src) \<longrightarrow>
      lookupMappingAcrossPlatforms (populateChannelCache now channels gps) gid (platformOf gps gid) m = dst) \<and>
    (list_all (\<lambda>(src, dst). \<not> entryMatches m (toModelEntry src)) pm \<longrightarrow>
      lookupMappingAcrossPlatforms (populateChannelCache now channels gps) gid (platformOf gps gid) m = [])"
proof -
  have u: "length (filter (\<lambda>e. patMatches m (fst e)) pm) \<le> 1"
    using assms(4) map_of_SomeD [OF assms(5)]
    by (intro unique_pattern) (auto simp: validateNoConflictingMappings_def firstErr_None dest!: bspec intro: detectConflicts_None)
  have "patternLookup pm m = Some dst" if "(src, dst) \<in> set pm" "patMatches m src" for src dst
    using find_single [OF u that(1)] that(2) by (simp add: patternLookup_def)
  moreover have "patternLookup pm m = None" if "list_all (\<lambda>(src, dst). \<not> patMatches m src) pm"
    using that by (auto simp: patternLookup_def find_None_iff list_all_iff)
  ultimately show ?thesis using snapshot_mapping [OF assms] by auto
qed

text \<open>Intervals that passed validation do not overlap: an interval is found for a number of tokens exactly if the number lies
  above its lower bound and not above its upper one, in whatever order the intervals are listed.\<close>

theorem interval_found_iff:
  assumes "ValidateIntervals ivs = None" "mset ivs' = mset ivs"
  shows "FindMatchingInterval ivs' n = Some iv \<longleftrightarrow>
    iv \<in> set ivs \<and> iv_MinTokens iv < n \<and> (case iv_MaxTokens iv of None \<Rightarrow> True | Some m \<Rightarrow> n \<le> m)"
proof -
  have "FindMatchingInterval ivs' n = List.find (intervalMatches n) ivs"
    unfolding FindMatchingInterval_def by (rule find_order [symmetric, OF validated_intervals [OF assms(1)] assms(2) [symmetric]])
  then show ?thesis
    using find_single [OF validated_intervals [OF assms(1)], of iv n] by (auto simp: intervalMatches_def dest: find_SomeD)
qed

section \<open>Samples\<close>

definition sampleInterval :: "int \<Rightarrow> int option \<Rightarrow> pricing_interval" where
  "sampleInterval a b = \<lparr>iv_ID = a, iv_PricingID = 1, iv_MinTokens = a, iv_MaxTokens = b, iv_TierLabel = [], iv_InputPrice = Some (F64 1),
     iv_OutputPrice = None, iv_CacheWritePrice = None, iv_CacheReadPrice = None, iv_PerRequestPrice = None, iv_SortOrder = 0\<rparr>"

definition samplePricing :: "string list \<Rightarrow> channel_model_pricing" where
  "samplePricing ms = \<lparr>cp_ID = 1, cp_ChannelID = 3, cp_Platform = ''anthropic'', cp_Models = ms, cp_BillingMode = [],
     cp_InputPrice = Some (F64 1), cp_OutputPrice = Some (F64 2), cp_CacheWritePrice = None, cp_CacheReadPrice = None,
     cp_ImageOutputPrice = None, cp_PerRequestPrice = None, cp_Intervals = []\<rparr>"

definition sampleChannel :: channel where
  "sampleChannel = \<lparr>ch_ID = 3, ch_Name = ''c'', ch_Description = [], ch_Status = ''active'', ch_BillingModelSource = [],
     ch_RestrictModels = True, ch_ProviderType = ''standard'', ch_ProviderConfig = None, ch_Features = [], ch_FeaturesConfig = None,
     ch_GroupIDs = [7], ch_ModelPricing = [samplePricing [''claude-opus'', ''Claude-sonnet-*'']],
     ch_ModelMapping = [(''anthropic'', [(''fast-*'', ''claude-sonnet-4''), (''best'', ''claude-opus'')])],
     ch_ApplyPricingToAccountStats = False, ch_AccountStatsPricingRules = []\<rparr>"

abbreviation samplePlatforms :: "int \<Rightarrow> string option" where
  "samplePlatforms \<equiv> (\<lambda>_. None)(7 := Some ''anthropic'')"

lemma samplePlatform [simp]: "platformOf samplePlatforms 7 = ''anthropic''"
  by (simp add: platformOf_def)

lemma sampleChannel_fields [simp]:
  "ch_GroupIDs sampleChannel = [7]" "ch_ModelPricing sampleChannel = [samplePricing [''claude-opus'', ''Claude-sonnet-*'']]"
  "ch_ModelMapping sampleChannel = [(''anthropic'', [(''fast-*'', ''claude-sonnet-4''), (''best'', ''claude-opus'')])]"
  by (simp_all add: sampleChannel_def)

theorem snapshot_answers_search_witness:
  "lookupPricingAcrossPlatforms (populateChannelCache 0 [sampleChannel] samplePlatforms) 7 ''anthropic'' ''claude-sonnet-4'' =
     Some (samplePricing [''claude-opus'', ''Claude-sonnet-*''])"
proof -
  have "validateNoConflictingModels [samplePricing [''claude-opus'', ''Claude-sonnet-*'']] = None" by code_simp
  moreover have "findPricingForModel [samplePricing [''claude-opus'', ''Claude-sonnet-*'']] ''anthropic'' ''claude-sonnet-4'' =
      Some (samplePricing [''claude-opus'', ''Claude-sonnet-*''])" by code_simp
  ultimately show ?thesis
    using snapshot_answers_search [of "[sampleChannel]" sampleChannel 7 samplePlatforms 0 "''claude-sonnet-4''"]
    by (simp add: samplePricing_def)
qed

theorem mapping_order_irrelevant_witness:
  "lookupMappingAcrossPlatforms (populateChannelCache 0 [sampleChannel] samplePlatforms) 7 ''anthropic'' ''fast-1'' = ''claude-sonnet-4''"
proof -
  have "validateNoConflictingMappings (ch_ModelMapping sampleChannel) = None" "entryMatches ''fast-1'' (toModelEntry ''fast-*'')"
    by code_simp+
  then show ?thesis
    using mapping_order_irrelevant [of "[sampleChannel]" sampleChannel 7 samplePlatforms _ "''fast-1''" 0] by simp
qed

theorem interval_found_iff_witness:
  "FindMatchingInterval [sampleInterval 100 None, sampleInterval 0 (Some 100)] 100 = Some (sampleInterval 0 (Some 100)) \<and>
   FindMatchingInterval [sampleInterval 100 None, sampleInterval 0 (Some 100)] 0 \<noteq> Some (sampleInterval 0 (Some 100))"
proof -
  have "ValidateIntervals [sampleInterval 0 (Some 100), sampleInterval 100 None] = None" by code_simp
  moreover have "mset [sampleInterval 100 None, sampleInterval 0 (Some 100)] = mset [sampleInterval 0 (Some 100), sampleInterval 100 None]"
    by (simp add: add_mset_commute)
  ultimately show ?thesis
    using interval_found_iff [where ivs = "[sampleInterval 0 (Some 100), sampleInterval 100 None]"
        and ivs' = "[sampleInterval 100 None, sampleInterval 0 (Some 100)]" and iv = "sampleInterval 0 (Some 100)"]
    by (simp add: sampleInterval_def)
qed

section \<open>After a failed load\<close>

text \<open>The substitute for the snapshot: no channel, and five seconds to live.\<close>

lemma run_failed_load:
  assumes "cs_cache (db w) = None" "ticks w = []" "script w = Turn (\<lambda>d. d) (Lost k) # ts"
  shows "\<exists>e. run_state loadCache w = (Inl e, w\<lparr>script := ts, db := (db w)\<lparr>cs_cache :=
      Some (newEmptyChannelCache\<lparr>cc_loadedAt := clock w - (channelCacheTTL - channelErrorTTL)\<rparr>)\<rparr>\<rparr>)"
  using assms
  by (simp add: loadCache_def freshCache_def buildCache_def fetchChannelData_def ListAll_def storeErrorCache_def query_def exec_def
      run_bindE run_timeNow_still)

lemma run_cached:
  assumes "cs_cache (db w) = Some cc" "ticks w = []" "timeSub (clock w) (cc_loadedAt cc) < channelCacheTTL"
  shows "run_state loadCache w = (Inr cc, w)"
  using assms by (simp add: loadCache_def freshCache_def run_timeNow_still)

text \<open>When the channels cannot be loaded, look-ups answer for five seconds as if no group had a channel, without asking the
  database again: no channel price applies, no model is mapped, and no model is restricted, also for groups whose channel
  restricts its models.\<close>

theorem failed_load_lifts_restrictions:
  assumes "cs_cache (db w) = None" "ticks w = []" "script w = Turn (\<lambda>d. d) (Lost k) # ts"
    and "run_state (IsModelRestricted gid m) w = (r, w1)" and "0 \<le> dt" "dt < channelErrorTTL"
  shows "\<not> r \<and> run_state (IsModelRestricted g' m') (w1\<lparr>clock := clock w1 + dt\<rparr>) = (False, w1\<lparr>clock := clock w1 + dt\<rparr>) \<and>
    run_state (GetChannelModelPricing g' m') (w1\<lparr>clock := clock w1 + dt\<rparr>) = (None, w1\<lparr>clock := clock w1 + dt\<rparr>) \<and>
    run_state (ResolveChannelMapping g' m') (w1\<lparr>clock := clock w1 + dt\<rparr>) = (unmapped m', w1\<lparr>clock := clock w1 + dt\<rparr>)"
proof -
  let ?cc = "newEmptyChannelCache\<lparr>cc_loadedAt := clock w - (channelCacheTTL - channelErrorTTL)\<rparr>"
  have w1: "\<not> r" "w1 = w\<lparr>script := ts, db := (db w)\<lparr>cs_cache := Some ?cc\<rparr>\<rparr>"
    using run_failed_load [OF assms(1-3)] assms(4) by (auto simp: IsModelRestricted_def lookupGroupChannel_def run_bindE)
  let ?w = "w1\<lparr>clock := clock w1 + dt\<rparr>"
  have "run_state loadCache ?w = (Inr ?cc, ?w)"
    using assms(2,5,6) by (intro run_cached) (auto simp: w1(2) timeSub_def channelCacheTTL_def channelErrorTTL_def ns_defs)
  then show ?thesis using w1(1)
    by (simp add: IsModelRestricted_def GetChannelModelPricing_def ResolveChannelMapping_def lookupGroupChannel_def run_bindE
        newEmptyChannelCache_def)
qed

definition sampleSvc :: channel_svc where
  "sampleSvc = \<lparr>cs_channels = [sampleChannel\<lparr>ch_GroupIDs := [], ch_ModelPricing := []\<rparr>], cs_groups = [(3, 7)],
     cs_pricing = [samplePricing [''claude-opus'']], cs_intervals = [], cs_rules = [], cs_rulePricing = [], cs_ruleIntervals = [],
     cs_platforms = samplePlatforms, cs_cache = None\<rparr>"

text \<open>With the database at hand, the same model is refused.\<close>

lemma sample_restricted:
  "fst (run_state (IsModelRestricted 7 ''gpt-5'') \<lparr>db = sampleSvc, clock = 0, ticks = [], script = []\<rparr>) = True"
  by code_simp

theorem failed_load_lifts_restrictions_witness:
  "fst (run_state (IsModelRestricted 7 ''gpt-5'') \<lparr>db = sampleSvc, clock = 0, ticks = [], script = [Turn (\<lambda>d. d) (Lost 0)]\<rparr>) = False"
proof -
  let ?w = "\<lparr>db = sampleSvc, clock = 0, ticks = [], script = [Turn (\<lambda>d. d) (Lost 0)]\<rparr>"
  have "cs_cache sampleSvc = None" by (simp add: sampleSvc_def)
  then show ?thesis
    using failed_load_lifts_restrictions [of ?w 0 "[]" 7 "''gpt-5''" "fst (run_state (IsModelRestricted 7 ''gpt-5'') ?w)"
        "snd (run_state (IsModelRestricted 7 ''gpt-5'') ?w)" 0]
    by (simp add: channelErrorTTL_def nsSecond_def)
qed

end
