(* ===== verification/Billing.thy ===== *)
theory Billing
  imports Model_Pricing Channel_Lookup "HOL-Library.State_Monad"
begin

text \<open>
  The cost of a request (\<open>service/billing_service.go\<close>, \<open>service/model_pricing_resolver.go\<close>): the built-in prices, the price of
  a model, the override by a channel, and the break-down of the cost by kinds of tokens, by requests, and by images.

  Prices are passed around as pointers, and a price found in the table of built-in prices is changed through its pointer. So the
  prices live in a heap: \<open>bs_heap\<close> holds the cells and an address is a position in it, \<open>bs_fallback\<close> is the table of the built-in
  prices. The price list of \<open>Model_Pricing\<close> enters as the answers it gives (\<open>ps\<close>, none if there is no price list), the channels as the
  answers of their snapshot (\<open>chp\<close>).
\<close>

section \<open>Data\<close>

record model_pricing =
  mp_InputPricePerToken :: f64
  mp_InputPricePerTokenPriority :: f64
  mp_OutputPricePerToken :: f64
  mp_OutputPricePerTokenPriority :: f64
  mp_CacheCreationPricePerToken :: f64
  mp_CacheReadPricePerToken :: f64
  mp_CacheReadPricePerTokenPriority :: f64
  mp_CacheCreation5mPrice :: f64
  mp_CacheCreation1hPrice :: f64
  mp_SupportsCacheBreakdown :: bool
  mp_LongContextInputThreshold :: int
  mp_LongContextInputMultiplier :: f64
  mp_LongContextOutputMultiplier :: f64
  mp_ImageOutputPricePerToken :: f64

record usage_tokens =
  ut_InputTokens :: int
  ut_OutputTokens :: int
  ut_CacheCreationTokens :: int
  ut_CacheReadTokens :: int
  ut_CacheCreation5mTokens :: int
  ut_CacheCreation1hTokens :: int
  ut_ImageOutputTokens :: int

record cost_breakdown =
  cb_InputCost :: f64
  cb_OutputCost :: f64
  cb_ImageOutputCost :: f64
  cb_CacheCreationCost :: f64
  cb_CacheReadCost :: f64
  cb_TotalCost :: f64
  cb_ActualCost :: f64
  cb_BillingMode :: string

definition zeroPricing :: model_pricing where
  "zeroPricing = \<lparr>mp_InputPricePerToken = fzero, mp_InputPricePerTokenPriority = fzero, mp_OutputPricePerToken = fzero,
     mp_OutputPricePerTokenPriority = fzero, mp_CacheCreationPricePerToken = fzero, mp_CacheReadPricePerToken = fzero,
     mp_CacheReadPricePerTokenPriority = fzero, mp_CacheCreation5mPrice = fzero, mp_CacheCreation1hPrice = fzero,
     mp_SupportsCacheBreakdown = False, mp_LongContextInputThreshold = 0, mp_LongContextInputMultiplier = fzero,
     mp_LongContextOutputMultiplier = fzero, mp_ImageOutputPricePerToken = fzero\<rparr>"

definition zeroTokens :: usage_tokens where
  "zeroTokens = \<lparr>ut_InputTokens = 0, ut_OutputTokens = 0, ut_CacheCreationTokens = 0, ut_CacheReadTokens = 0,
     ut_CacheCreation5mTokens = 0, ut_CacheCreation1hTokens = 0, ut_ImageOutputTokens = 0\<rparr>"

definition zeroCost :: cost_breakdown where
  "zeroCost = \<lparr>cb_InputCost = fzero, cb_OutputCost = fzero, cb_ImageOutputCost = fzero, cb_CacheCreationCost = fzero,
     cb_CacheReadCost = fzero, cb_TotalCost = fzero, cb_ActualCost = fzero, cb_BillingMode = []\<rparr>"

definition openAIGPT54LongContextInputThreshold :: int where "openAIGPT54LongContextInputThreshold = 272000"
definition openAIGPT54LongContextInputMultiplier :: f64 where "openAIGPT54LongContextInputMultiplier = F64 2"
definition openAIGPT54LongContextOutputMultiplier :: f64 where "openAIGPT54LongContextOutputMultiplier = F64 (3 / 2)"

section \<open>The heap of prices\<close>

type_synonym addr = nat

record billing_state =
  bs_heap :: "model_pricing list"
  bs_fallback :: "(string \<times> addr) list"

type_synonym 'a bp = "(billing_state, 'a) state"

abbreviation bret :: "'a \<Rightarrow> 'a bp" where
  "bret \<equiv> State_Monad.return"

definition deref :: "addr \<Rightarrow> model_pricing bp" where
  "deref a = State (\<lambda>s. (bs_heap s ! a, s))"

definition newCell :: "model_pricing \<Rightarrow> addr bp" where
  "newCell p = State (\<lambda>s. (length (bs_heap s), s\<lparr>bs_heap := bs_heap s @ [p]\<rparr>))"

definition setCell :: "addr \<Rightarrow> (model_pricing \<Rightarrow> model_pricing) \<Rightarrow> unit bp" where
  "setCell a f = State (\<lambda>s. ((), s\<lparr>bs_heap := (bs_heap s)[a := f (bs_heap s ! a)]\<rparr>))"

section \<open>Built-in prices\<close>

definition claudePricing :: "rat \<Rightarrow> rat \<Rightarrow> rat \<Rightarrow> rat \<Rightarrow> model_pricing" where
  "claudePricing inp out cc cr = zeroPricing\<lparr>mp_InputPricePerToken := perMTok inp, mp_OutputPricePerToken := perMTok out,
     mp_CacheCreationPricePerToken := perMTok cc, mp_CacheReadPricePerToken := perMTok cr\<rparr>"

definition gptPricing :: "rat \<Rightarrow> rat \<Rightarrow> rat \<Rightarrow> model_pricing" where
  "gptPricing inp out cr = (claudePricing inp out inp cr)\<lparr>mp_InputPricePerTokenPriority := perMTok (2 * inp),
     mp_OutputPricePerTokenPriority := perMTok (2 * out), mp_CacheReadPricePerTokenPriority := perMTok (2 * cr)\<rparr>"

definition fallbackCells :: "(string \<times> model_pricing) list" where
  "fallbackCells = [
     (''claude-opus-4.5'', claudePricing 5 25 (25 / 4) (1 / 2)),
     (''claude-sonnet-4'', claudePricing 3 15 (15 / 4) (3 / 10)),
     (''claude-3-5-sonnet'', claudePricing 3 15 (15 / 4) (3 / 10)),
     (''claude-3-5-haiku'', claudePricing 1 5 (5 / 4) (1 / 10)),
     (''claude-3-opus'', claudePricing 15 75 (75 / 4) (3 / 2)),
     (''claude-3-haiku'', claudePricing (1 / 4) (5 / 4) (3 / 10) (3 / 100)),
     (''gemini-3.1-pro'', claudePricing 2 12 2 (1 / 5)),
     (''gpt-5.1'', gptPricing (5 / 4) 10 (1 / 8)),
     (''gpt-5.4'', (gptPricing (5 / 2) 15 (1 / 4))\<lparr>mp_LongContextInputThreshold := openAIGPT54LongContextInputThreshold,
        mp_LongContextInputMultiplier := openAIGPT54LongContextInputMultiplier,
        mp_LongContextOutputMultiplier := openAIGPT54LongContextOutputMultiplier\<rparr>),
     (''gpt-5.4-mini'', claudePricing (3 / 4) (9 / 2) 0 (3 / 40)),
     (''gpt-5.4-nano'', claudePricing (1 / 5) (5 / 4) 0 (1 / 50)),
     (''gpt-5.2'', gptPricing (7 / 4) 14 (7 / 40)),
     (''gpt-5.1-codex'', gptPricing (3 / 2) 12 (3 / 20)),
     (''gpt-5.2-codex'', gptPricing (7 / 4) 14 (7 / 40))]"

text \<open>Two names share the cell of another.\<close>

definition fallbackAliases :: "(string \<times> string) list" where
  "fallbackAliases = [(''claude-opus-4.6'', ''claude-opus-4.5''), (''gpt-5.3-codex'', ''gpt-5.1-codex'')]"

definition initFallbackPricing :: billing_state where
  "initFallbackPricing =
     (let names = zip (map fst fallbackCells) [0..<length fallbackCells]
      in \<lparr>bs_heap = map snd fallbackCells,
          bs_fallback = names @ List.map_filter (\<lambda>(n, m). map_option (Pair n) (map_of names m)) fallbackAliases\<rparr>)"

definition fallbackName :: "string \<Rightarrow> string" where
  "fallbackName model =
     (let m = toLower model
      in if strContains m ''opus'' then
           (if strContains m ''4.6'' \<or> strContains m ''4-6'' then ''claude-opus-4.6''
            else if strContains m ''4.5'' \<or> strContains m ''4-5'' then ''claude-opus-4.5'' else ''claude-3-opus'')
         else if strContains m ''sonnet'' then
           (if strContains m ''4'' \<and> \<not> strContains m ''3'' then ''claude-sonnet-4'' else ''claude-3-5-sonnet'')
         else if strContains m ''haiku'' then
           (if strContains m ''3-5'' \<or> strContains m ''3.5'' then ''claude-3-5-haiku'' else ''claude-3-haiku'')
         else if strContains m ''claude'' then ''claude-sonnet-4''
         else if strContains m ''gemini-3.1-pro'' \<or> strContains m ''gemini-3-1-pro'' then ''gemini-3.1-pro''
         else if strContains m ''gpt-5'' \<or> strContains m ''codex'' then
           (let n = normalizeCodexModel m
            in if n \<in> {''gpt-5.4-mini'', ''gpt-5.4-nano'', ''gpt-5.4'', ''gpt-5.2'', ''gpt-5.2-codex'', ''gpt-5.3-codex'', ''gpt-5.1''} then n
               else if n \<in> {''gpt-5.1-codex'', ''gpt-5.1-codex-max'', ''gpt-5.1-codex-mini'', ''codex-mini-latest''} then ''gpt-5.1-codex''
               else [])
         else [])"

definition getFallbackPricing :: "string \<Rightarrow> addr option bp" where
  "getFallbackPricing model = State (\<lambda>s.
     (if fallbackName model = [] then None else map_of (bs_fallback s) (fallbackName model), s))"

definition isOpenAIGPT54Model :: "string \<Rightarrow> bool" where
  "isOpenAIGPT54Model model \<longleftrightarrow> normalizeCodexModel (trimSpace (toLower model)) = ''gpt-5.4''"

definition applyModelSpecificPricingPolicy :: "string \<Rightarrow> addr \<Rightarrow> addr bp" where
  "applyModelSpecificPricingPolicy model a =
     (if \<not> isOpenAIGPT54Model model then bret a
      else do {
        p \<leftarrow> deref a;
        if 0 < mp_LongContextInputThreshold p \<and> flt fzero (mp_LongContextInputMultiplier p) \<and> flt fzero (mp_LongContextOutputMultiplier p)
        then bret a
        else newCell (p\<lparr>
          mp_LongContextInputThreshold := (if mp_LongContextInputThreshold p \<le> 0 then openAIGPT54LongContextInputThreshold
                                           else mp_LongContextInputThreshold p),
          mp_LongContextInputMultiplier := (if fle (mp_LongContextInputMultiplier p) fzero then openAIGPT54LongContextInputMultiplier
                                            else mp_LongContextInputMultiplier p),
          mp_LongContextOutputMultiplier := (if fle (mp_LongContextOutputMultiplier p) fzero then openAIGPT54LongContextOutputMultiplier
                                             else mp_LongContextOutputMultiplier p)\<rparr>)
      })"

section \<open>The price of a model\<close>

type_synonym price_list = "(string \<Rightarrow> litellm_pricing option) option"

definition pricingOfLiteLLM :: "litellm_pricing \<Rightarrow> model_pricing" where
  "pricingOfLiteLLM l =
     (let price5m = ll_CacheCreationInputTokenCost l; price1h = ll_CacheCreationInputTokenCostAbove1hr l
      in \<lparr>mp_InputPricePerToken = ll_InputCostPerToken l, mp_InputPricePerTokenPriority = ll_InputCostPerTokenPriority l,
          mp_OutputPricePerToken = ll_OutputCostPerToken l, mp_OutputPricePerTokenPriority = ll_OutputCostPerTokenPriority l,
          mp_CacheCreationPricePerToken = price5m, mp_CacheReadPricePerToken = ll_CacheReadInputTokenCost l,
          mp_CacheReadPricePerTokenPriority = ll_CacheReadInputTokenCostPriority l,
          mp_CacheCreation5mPrice = price5m, mp_CacheCreation1hPrice = price1h,
          mp_SupportsCacheBreakdown = (flt fzero price1h \<and> flt price5m price1h),
          mp_LongContextInputThreshold = ll_LongContextInputTokenThreshold l,
          mp_LongContextInputMultiplier = ll_LongContextInputCostMultiplier l,
          mp_LongContextOutputMultiplier = ll_LongContextOutputCostMultiplier l,
          mp_ImageOutputPricePerToken = ll_OutputCostPerImageToken l\<rparr>)"

definition GetModelPricing :: "price_list \<Rightarrow> string \<Rightarrow> (go_err + addr) bp" where
  "GetModelPricing ps model0 =
     (let model = toLower model0
      in case (case ps of None \<Rightarrow> None | Some f \<Rightarrow> f model) of
           Some l \<Rightarrow> do { a \<leftarrow> newCell (pricingOfLiteLLM l); b \<leftarrow> applyModelSpecificPricingPolicy model a; bret (Inr b) }
         | None \<Rightarrow> do {
             fb \<leftarrow> getFallbackPricing model;
             case fb of
               Some a \<Rightarrow> do { b \<leftarrow> applyModelSpecificPricingPolicy model a; bret (Inr b) }
             | None \<Rightarrow> bret (Inl (ErrorNew (''pricing not found for model: '' @ model)))
           })"

text \<open>The flat prices of a channel entry, written over a price.\<close>

definition overridePrices :: "channel_model_pricing \<Rightarrow> model_pricing \<Rightarrow> model_pricing" where
  "overridePrices cp p =
     (let p1 = (case cp_InputPrice cp of None \<Rightarrow> p | Some v \<Rightarrow> p\<lparr>mp_InputPricePerToken := v, mp_InputPricePerTokenPriority := v\<rparr>);
          p2 = (case cp_OutputPrice cp of None \<Rightarrow> p1 | Some v \<Rightarrow> p1\<lparr>mp_OutputPricePerToken := v, mp_OutputPricePerTokenPriority := v\<rparr>);
          p3 = (case cp_CacheWritePrice cp of None \<Rightarrow> p2
                | Some v \<Rightarrow> p2\<lparr>mp_CacheCreationPricePerToken := v, mp_CacheCreation5mPrice := v, mp_CacheCreation1hPrice := v\<rparr>);
          p4 = (case cp_CacheReadPrice cp of None \<Rightarrow> p3 | Some v \<Rightarrow> p3\<lparr>mp_CacheReadPricePerToken := v, mp_CacheReadPricePerTokenPriority := v\<rparr>)
      in case cp_ImageOutputPrice cp of None \<Rightarrow> p4 | Some v \<Rightarrow> p4\<lparr>mp_ImageOutputPricePerToken := v\<rparr>)"

definition GetModelPricingWithChannel :: "price_list \<Rightarrow> string \<Rightarrow> channel_model_pricing option \<Rightarrow> (go_err + addr) bp" where
  "GetModelPricingWithChannel ps model cp = do {
     r \<leftarrow> GetModelPricing ps model;
     case (r, cp) of
       (Inr a, Some c) \<Rightarrow> do { _ \<leftarrow> setCell a (overridePrices c); bret (Inr a) }
     | _ \<Rightarrow> bret r
   }"

section \<open>Resolution\<close>

definition PricingSourceChannel :: string where "PricingSourceChannel = ''channel''"
definition PricingSourceLiteLLM :: string where "PricingSourceLiteLLM = ''litellm''"
definition PricingSourceFallback :: string where "PricingSourceFallback = ''fallback''"

record resolved_pricing =
  rv_Mode :: string
  rv_BasePricing :: "addr option"
  rv_Intervals :: "pricing_interval list"
  rv_RequestTiers :: "pricing_interval list"
  rv_DefaultPerRequestPrice :: f64
  rv_Source :: string
  rv_SupportsCacheBreakdown :: bool

type_synonym channel_prices = "int \<Rightarrow> string \<Rightarrow> channel_model_pricing option"

definition resolveBasePricing :: "price_list \<Rightarrow> string \<Rightarrow> (addr option \<times> string) bp" where
  "resolveBasePricing ps model = do {
     r \<leftarrow> GetModelPricing ps model;
     bret (case r of Inl _ \<Rightarrow> (None, PricingSourceFallback) | Inr a \<Rightarrow> (Some a, PricingSourceLiteLLM))
   }"

definition filterValidIntervals :: "pricing_interval list \<Rightarrow> pricing_interval list" where
  "filterValidIntervals ivs = filter intervalHasPrice ivs"

definition applyTokenOverrides :: "channel_model_pricing \<Rightarrow> resolved_pricing \<Rightarrow> resolved_pricing bp" where
  "applyTokenOverrides cp rv =
     (let valid = filterValidIntervals (cp_Intervals cp)
      in if valid \<noteq> [] then bret (rv\<lparr>rv_Intervals := valid\<rparr>)
         else do {
           a \<leftarrow> (case rv_BasePricing rv of None \<Rightarrow> newCell zeroPricing | Some a \<Rightarrow> bret a);
           _ \<leftarrow> setCell a (overridePrices cp);
           bret (rv\<lparr>rv_BasePricing := Some a\<rparr>)
         })"

definition applyRequestTierOverrides :: "channel_model_pricing \<Rightarrow> resolved_pricing \<Rightarrow> resolved_pricing" where
  "applyRequestTierOverrides cp rv =
     (let rv1 = rv\<lparr>rv_RequestTiers := filterValidIntervals (cp_Intervals cp)\<rparr>
      in case cp_PerRequestPrice cp of None \<Rightarrow> rv1 | Some v \<Rightarrow> rv1\<lparr>rv_DefaultPerRequestPrice := v\<rparr>)"

definition applyChannelOverrides :: "channel_prices \<Rightarrow> int \<Rightarrow> string \<Rightarrow> resolved_pricing \<Rightarrow> resolved_pricing bp" where
  "applyChannelOverrides chp gid model rv =
     (case chp gid model of
        None \<Rightarrow> bret rv
      | Some cp \<Rightarrow>
          (let mode = (if cp_BillingMode cp = [] then BillingModeToken else cp_BillingMode cp);
               rv1 = rv\<lparr>rv_Source := PricingSourceChannel, rv_Mode := mode\<rparr>
           in if mode = BillingModeToken then applyTokenOverrides cp rv1
              else if mode = BillingModePerRequest \<or> mode = BillingModeImage then bret (applyRequestTierOverrides cp rv1)
              else bret rv1))"

definition Resolve :: "price_list \<Rightarrow> channel_prices \<Rightarrow> string \<Rightarrow> int option \<Rightarrow> resolved_pricing bp" where
  "Resolve ps chp model gid = do {
     (base, source) \<leftarrow> resolveBasePricing ps model;
     breakdown \<leftarrow> (case base of None \<Rightarrow> bret False | Some a \<Rightarrow> do { p \<leftarrow> deref a; bret (mp_SupportsCacheBreakdown p) });
     let rv = \<lparr>rv_Mode = BillingModeToken, rv_BasePricing = base, rv_Intervals = [], rv_RequestTiers = [],
                rv_DefaultPerRequestPrice = fzero, rv_Source = source, rv_SupportsCacheBreakdown = breakdown\<rparr>;
     case gid of None \<Rightarrow> bret rv | Some g \<Rightarrow> applyChannelOverrides chp g model rv
   }"

definition intervalToModelPricing :: "pricing_interval \<Rightarrow> bool \<Rightarrow> model_pricing" where
  "intervalToModelPricing iv supports =
     (let p = zeroPricing\<lparr>mp_SupportsCacheBreakdown := supports\<rparr>;
          p1 = (case iv_InputPrice iv of None \<Rightarrow> p | Some v \<Rightarrow> p\<lparr>mp_InputPricePerToken := v, mp_InputPricePerTokenPriority := v\<rparr>);
          p2 = (case iv_OutputPrice iv of None \<Rightarrow> p1 | Some v \<Rightarrow> p1\<lparr>mp_OutputPricePerToken := v, mp_OutputPricePerTokenPriority := v\<rparr>);
          p3 = (case iv_CacheWritePrice iv of None \<Rightarrow> p2
                | Some v \<Rightarrow> p2\<lparr>mp_CacheCreationPricePerToken := v, mp_CacheCreation5mPrice := v, mp_CacheCreation1hPrice := v\<rparr>)
      in case iv_CacheReadPrice iv of None \<Rightarrow> p3 | Some v \<Rightarrow> p3\<lparr>mp_CacheReadPricePerToken := v, mp_CacheReadPricePerTokenPriority := v\<rparr>)"

definition GetIntervalPricing :: "resolved_pricing \<Rightarrow> int \<Rightarrow> addr option bp" where
  "GetIntervalPricing rv n =
     (case (if rv_Intervals rv = [] then None else FindMatchingInterval (rv_Intervals rv) n) of
        None \<Rightarrow> bret (rv_BasePricing rv)
      | Some iv \<Rightarrow> do { a \<leftarrow> newCell (intervalToModelPricing iv (rv_SupportsCacheBreakdown rv)); bret (Some a) })"

definition GetRequestTierPrice :: "resolved_pricing \<Rightarrow> string \<Rightarrow> f64" where
  "GetRequestTierPrice rv label =
     (case List.find (\<lambda>t. iv_TierLabel t = label \<and> iv_PerRequestPrice t \<noteq> None) (rv_RequestTiers rv) of
        None \<Rightarrow> fzero | Some t \<Rightarrow> priceOrZero (iv_PerRequestPrice t))"

definition GetRequestTierPriceByContext :: "resolved_pricing \<Rightarrow> int \<Rightarrow> f64" where
  "GetRequestTierPriceByContext rv n =
     (case FindMatchingInterval (rv_RequestTiers rv) n of None \<Rightarrow> fzero | Some iv \<Rightarrow> priceOrZero (iv_PerRequestPrice iv))"

section \<open>Costs\<close>

definition normalizeBillingServiceTier :: "string \<Rightarrow> string" where
  "normalizeBillingServiceTier tier = toLower (trimSpace tier)"

definition usePriorityServiceTierPricing :: "string \<Rightarrow> model_pricing \<Rightarrow> bool" where
  "usePriorityServiceTierPricing tier p \<longleftrightarrow> normalizeBillingServiceTier tier = ''priority'' \<and>
     (flt fzero (mp_InputPricePerTokenPriority p) \<or> flt fzero (mp_OutputPricePerTokenPriority p) \<or>
      flt fzero (mp_CacheReadPricePerTokenPriority p))"

definition serviceTierCostMultiplier :: "string \<Rightarrow> f64" where
  "serviceTierCostMultiplier tier =
     (let t = normalizeBillingServiceTier tier
      in if t = ''priority'' then F64 2 else if t = ''flex'' then F64 (1 / 2) else F64 1)"

definition shouldApplySessionLongContextPricing :: "usage_tokens \<Rightarrow> model_pricing \<Rightarrow> bool" where
  "shouldApplySessionLongContextPricing t p \<longleftrightarrow>
     0 < mp_LongContextInputThreshold p \<and>
     \<not> (fle (mp_LongContextInputMultiplier p) (F64 1) \<and> fle (mp_LongContextOutputMultiplier p) (F64 1)) \<and>
     mp_LongContextInputThreshold p < wrap64 (ut_InputTokens t + ut_CacheReadTokens t)"

definition computeCacheCreationCost :: "model_pricing \<Rightarrow> usage_tokens \<Rightarrow> f64" where
  "computeCacheCreationCost p t =
     (if mp_SupportsCacheBreakdown p \<and> (flt fzero (mp_CacheCreation5mPrice p) \<or> flt fzero (mp_CacheCreation1hPrice p)) then
        (if ut_CacheCreation5mTokens t = 0 \<and> ut_CacheCreation1hTokens t = 0 \<and> 0 < ut_CacheCreationTokens t
         then fmul (fofint (ut_CacheCreationTokens t)) (mp_CacheCreation5mPrice p)
         else fadd (fmul (fofint (ut_CacheCreation5mTokens t)) (mp_CacheCreation5mPrice p))
                   (fmul (fofint (ut_CacheCreation1hTokens t)) (mp_CacheCreation1hPrice p)))
      else fmul (fofint (ut_CacheCreationTokens t)) (mp_CacheCreationPricePerToken p))"

text \<open>A price for the priority tier, if one is set.\<close>

definition orPriority :: "f64 \<Rightarrow> f64 \<Rightarrow> f64" where
  "orPriority normal priority = (if flt fzero priority then priority else normal)"

text \<open>A multiplier that is not positive counts as one.\<close>

definition positiveRate :: "f64 \<Rightarrow> f64" where
  "positiveRate r = (if fle r fzero then F64 1 else r)"

definition computeTokenBreakdown :: "model_pricing \<Rightarrow> usage_tokens \<Rightarrow> f64 \<Rightarrow> string \<Rightarrow> bool \<Rightarrow> cost_breakdown" where
  "computeTokenBreakdown p t rate0 tier applyLongCtx =
     (let rate = positiveRate rate0;
          prio = usePriorityServiceTierPricing tier p;
          inp0 = (if prio then orPriority (mp_InputPricePerToken p) (mp_InputPricePerTokenPriority p) else mp_InputPricePerToken p);
          out0 = (if prio then orPriority (mp_OutputPricePerToken p) (mp_OutputPricePerTokenPriority p) else mp_OutputPricePerToken p);
          cr = (if prio then orPriority (mp_CacheReadPricePerToken p) (mp_CacheReadPricePerTokenPriority p) else mp_CacheReadPricePerToken p);
          mult = (if prio then F64 1 else serviceTierCostMultiplier tier);
          long = (applyLongCtx \<and> shouldApplySessionLongContextPricing t p);
          inp = (if long then fmul inp0 (mp_LongContextInputMultiplier p) else inp0);
          out = (if long then fmul out0 (mp_LongContextOutputMultiplier p) else out0);
          text = max 0 (wrap64 (ut_OutputTokens t - ut_ImageOutputTokens t));
          img = (if feq (mp_ImageOutputPricePerToken p) fzero then out else mp_ImageOutputPricePerToken p);
          scale = (\<lambda>c. if feq mult (F64 1) then c else fmul c mult);
          ic = scale (fmul (fofint (ut_InputTokens t)) inp);
          oc = scale (fmul (fofint text) out);
          gc = scale (if 0 < ut_ImageOutputTokens t then fmul (fofint (ut_ImageOutputTokens t)) img else fzero);
          cc = scale (computeCacheCreationCost p t);
          rc = scale (fmul (fofint (ut_CacheReadTokens t)) cr);
          total = fadd (fadd (fadd (fadd ic oc) gc) cc) rc
      in \<lparr>cb_InputCost = ic, cb_OutputCost = oc, cb_ImageOutputCost = gc, cb_CacheCreationCost = cc, cb_CacheReadCost = rc,
          cb_TotalCost = total, cb_ActualCost = fmul total rate, cb_BillingMode = []\<rparr>)"

definition calculateCostInternal ::
  "price_list \<Rightarrow> string \<Rightarrow> usage_tokens \<Rightarrow> f64 \<Rightarrow> string \<Rightarrow> channel_model_pricing option \<Rightarrow> (go_err + cost_breakdown) bp" where
  "calculateCostInternal ps model t rate tier cp = do {
     r \<leftarrow> (case cp of None \<Rightarrow> GetModelPricing ps model | Some _ \<Rightarrow> GetModelPricingWithChannel ps model cp);
     case r of
       Inl e \<Rightarrow> bret (Inl e)
     | Inr a \<Rightarrow> do { p \<leftarrow> deref a; bret (Inr (computeTokenBreakdown p t rate tier True)) }
   }"

definition CalculateCost :: "price_list \<Rightarrow> string \<Rightarrow> usage_tokens \<Rightarrow> f64 \<Rightarrow> (go_err + cost_breakdown) bp" where
  "CalculateCost ps model t rate = calculateCostInternal ps model t rate [] None"

definition CalculateCostWithServiceTier :: "price_list \<Rightarrow> string \<Rightarrow> usage_tokens \<Rightarrow> f64 \<Rightarrow> string \<Rightarrow> (go_err + cost_breakdown) bp" where
  "CalculateCostWithServiceTier ps model t rate tier = calculateCostInternal ps model t rate tier None"

record cost_input =
  ci_Model :: string
  ci_GroupID :: "int option"
  ci_Tokens :: usage_tokens
  ci_RequestCount :: int
  ci_SizeTier :: string
  ci_RateMultiplier :: f64
  ci_ServiceTier :: string
  ci_Resolver :: "channel_prices option"
  ci_Resolved :: "resolved_pricing option"

definition contextTokens :: "usage_tokens \<Rightarrow> int" where
  "contextTokens t = wrap64 (ut_InputTokens t + ut_CacheReadTokens t)"

definition calculateTokenCost :: "resolved_pricing \<Rightarrow> cost_input \<Rightarrow> (go_err + cost_breakdown) bp" where
  "calculateTokenCost rv i = do {
     pa \<leftarrow> GetIntervalPricing rv (contextTokens (ci_Tokens i));
     case pa of
       None \<Rightarrow> bret (Inl (ErrorNew (''no pricing available for model: '' @ ci_Model i)))
     | Some a \<Rightarrow> do {
         b \<leftarrow> applyModelSpecificPricingPolicy (ci_Model i) a;
         p \<leftarrow> deref b;
         bret (Inr (computeTokenBreakdown p (ci_Tokens i) (ci_RateMultiplier i) (ci_ServiceTier i) (rv_Intervals rv = [])))
       }
   }"

definition perRequestUnitPrice :: "resolved_pricing \<Rightarrow> cost_input \<Rightarrow> f64" where
  "perRequestUnitPrice rv i =
     (let u1 = (if ci_SizeTier i \<noteq> [] then GetRequestTierPrice rv (ci_SizeTier i) else fzero);
          u2 = (if feq u1 fzero then GetRequestTierPriceByContext rv (contextTokens (ci_Tokens i)) else u1)
      in if feq u2 fzero then rv_DefaultPerRequestPrice rv else u2)"

definition calculatePerRequestCost :: "resolved_pricing \<Rightarrow> cost_input \<Rightarrow> cost_breakdown" where
  "calculatePerRequestCost rv i =
     (let count = (if ci_RequestCount i \<le> 0 then 1 else ci_RequestCount i);
          total = fmul (perRequestUnitPrice rv i) (fofint count)
      in zeroCost\<lparr>cb_TotalCost := total, cb_ActualCost := fmul total (ci_RateMultiplier i)\<rparr>)"

definition CalculateCostUnified :: "price_list \<Rightarrow> cost_input \<Rightarrow> (go_err + cost_breakdown) bp" where
  "CalculateCostUnified ps i0 =
     (case ci_Resolver i0 of
        None \<Rightarrow> calculateCostInternal ps (ci_Model i0) (ci_Tokens i0) (ci_RateMultiplier i0) (ci_ServiceTier i0) None
      | Some chp \<Rightarrow> do {
          rv \<leftarrow> (case ci_Resolved i0 of Some rv \<Rightarrow> bret rv | None \<Rightarrow> Resolve ps chp (ci_Model i0) (ci_GroupID i0));
          let i = i0\<lparr>ci_RateMultiplier := positiveRate (ci_RateMultiplier i0)\<rparr>;
          r \<leftarrow> (if rv_Mode rv = BillingModePerRequest \<or> rv_Mode rv = BillingModeImage then bret (Inr (calculatePerRequestCost rv i))
               else calculateTokenCost rv i);
          bret (map_sum id (\<lambda>b. b\<lparr>cb_BillingMode := (if rv_Mode rv = [] then BillingModeToken else rv_Mode rv)\<rparr>) r)
        })"

text \<open>The tokens of a request, split at the threshold: first what is read from the cache counts towards it, then the input.\<close>

definition splitAtThreshold :: "usage_tokens \<Rightarrow> int \<Rightarrow> usage_tokens \<times> usage_tokens" where
  "splitAtThreshold t threshold =
     (let (inCache, inInput, outCache, outInput) =
            (if threshold \<le> ut_CacheReadTokens t
             then (threshold, 0, wrap64 (ut_CacheReadTokens t - threshold), ut_InputTokens t)
             else (ut_CacheReadTokens t, wrap64 (threshold - ut_CacheReadTokens t), 0,
                   wrap64 (ut_InputTokens t - wrap64 (threshold - ut_CacheReadTokens t))))
      in (t\<lparr>ut_InputTokens := inInput, ut_CacheReadTokens := inCache\<rparr>,
          zeroTokens\<lparr>ut_InputTokens := outInput, ut_CacheReadTokens := outCache\<rparr>))"

definition mergeCosts :: "cost_breakdown \<Rightarrow> cost_breakdown \<Rightarrow> cost_breakdown" where
  "mergeCosts a b = zeroCost\<lparr>cb_InputCost := fadd (cb_InputCost a) (cb_InputCost b), cb_OutputCost := cb_OutputCost a,
     cb_ImageOutputCost := cb_ImageOutputCost a, cb_CacheCreationCost := cb_CacheCreationCost a,
     cb_CacheReadCost := fadd (cb_CacheReadCost a) (cb_CacheReadCost b), cb_TotalCost := fadd (cb_TotalCost a) (cb_TotalCost b),
     cb_ActualCost := fadd (cb_ActualCost a) (cb_ActualCost b)\<rparr>"

definition CalculateCostWithLongContext ::
  "price_list \<Rightarrow> string \<Rightarrow> usage_tokens \<Rightarrow> f64 \<Rightarrow> int \<Rightarrow> f64 \<Rightarrow> (go_err + cost_breakdown) bp" where
  "CalculateCostWithLongContext ps model t rate threshold extra =
     (if threshold \<le> 0 \<or> fle extra (F64 1) then CalculateCost ps model t rate
      else if wrap64 (ut_CacheReadTokens t + ut_InputTokens t) \<le> threshold then CalculateCost ps model t rate
      else do {
        a \<leftarrow> CalculateCost ps model (fst (splitAtThreshold t threshold)) rate;
        case a of
          Inl e \<Rightarrow> bret (Inl e)
        | Inr inRange \<Rightarrow> do {
            b \<leftarrow> CalculateCost ps model (snd (splitAtThreshold t threshold)) (fmul rate extra);
            bret (case b of Inl e \<Rightarrow> Inl (Errorf ''out-range cost'' e) | Inr outRange \<Rightarrow> Inr (mergeCosts inRange outRange))
          }
      })"

definition CalculateCostWithConfig :: "price_list \<Rightarrow> f64 \<Rightarrow> string \<Rightarrow> usage_tokens \<Rightarrow> (go_err + cost_breakdown) bp" where
  "CalculateCostWithConfig ps configRate model t = CalculateCost ps model t (positiveRate configRate)"

definition GetEstimatedCost :: "price_list \<Rightarrow> f64 \<Rightarrow> string \<Rightarrow> int \<Rightarrow> int \<Rightarrow> (go_err + f64) bp" where
  "GetEstimatedCost ps configRate model inp out = do {
     r \<leftarrow> CalculateCostWithConfig ps configRate model (zeroTokens\<lparr>ut_InputTokens := inp, ut_OutputTokens := out\<rparr>);
     bret (map_sum id cb_ActualCost r)
   }"

section \<open>Images\<close>

record image_price_config =
  ip_Price1K :: "f64 option"
  ip_Price2K :: "f64 option"
  ip_Price4K :: "f64 option"

definition getDefaultImagePrice :: "price_list \<Rightarrow> string \<Rightarrow> string \<Rightarrow> f64" where
  "getDefaultImagePrice ps model imgSize =
     (let base = (case (case ps of None \<Rightarrow> None | Some f \<Rightarrow> f model) of
             Some l \<Rightarrow> if flt fzero (ll_OutputCostPerImage l) then ll_OutputCostPerImage l else rnd (134 / 1000)
           | None \<Rightarrow> rnd (134 / 1000))
      in if imgSize = ''2K'' then fmul base (F64 (3 / 2)) else if imgSize = ''4K'' then fmul base (F64 2) else base)"

definition getImageUnitPrice :: "price_list \<Rightarrow> string \<Rightarrow> string \<Rightarrow> image_price_config option \<Rightarrow> f64" where
  "getImageUnitPrice ps model imgSize cfg =
     (let set = (case cfg of None \<Rightarrow> None
                 | Some c \<Rightarrow> if imgSize = ''1K'' then ip_Price1K c else if imgSize = ''2K'' then ip_Price2K c
                             else if imgSize = ''4K'' then ip_Price4K c else None)
      in case set of Some v \<Rightarrow> v | None \<Rightarrow> getDefaultImagePrice ps model imgSize)"

definition CalculateImageCost :: "price_list \<Rightarrow> string \<Rightarrow> string \<Rightarrow> int \<Rightarrow> image_price_config option \<Rightarrow> f64 \<Rightarrow> cost_breakdown" where
  "CalculateImageCost ps model imgSize cnt cfg rate =
     (if cnt \<le> 0 then zeroCost
      else let total = fmul (getImageUnitPrice ps model imgSize cfg) (fofint cnt)
           in zeroCost\<lparr>cb_TotalCost := total, cb_ActualCost := fmul total (positiveRate rate), cb_BillingMode := BillingModeImage\<rparr>)"

section \<open>Costs of accounts\<close>

definition matchAccountStatsRule :: "account_stats_rule \<Rightarrow> int \<Rightarrow> int \<Rightarrow> bool" where
  "matchAccountStatsRule r accountID groupID \<longleftrightarrow>
     \<not> (ar_AccountIDs r = [] \<and> ar_GroupIDs r = []) \<and> (accountID \<in> set (ar_AccountIDs r) \<or> groupID \<in> set (ar_GroupIDs r))"

definition calculatePerRequestStatsCost :: "channel_model_pricing \<Rightarrow> int \<Rightarrow> f64 option" where
  "calculatePerRequestStatsCost p cnt =
     (case cp_PerRequestPrice p of None \<Rightarrow> None
      | Some v \<Rightarrow> if fle v fzero then None else Some (fmul v (fofint cnt)))"

definition positiveCost :: "f64 \<Rightarrow> f64 option" where
  "positiveCost c = (if fle c fzero then None else Some c)"

definition calculateTokenStatsCost :: "channel_model_pricing \<Rightarrow> usage_tokens \<Rightarrow> f64 option" where
  "calculateTokenStatsCost p t =
     (let total = wrap64 (ut_InputTokens t + ut_OutputTokens t + ut_CacheCreationTokens t + ut_CacheReadTokens t);
          (inp, out, cw, cr, img) =
            (case (if cp_Intervals p = [] then None else FindMatchingInterval (cp_Intervals p) total) of
               Some iv \<Rightarrow> (iv_InputPrice iv, iv_OutputPrice iv, iv_CacheWritePrice iv, iv_CacheReadPrice iv, None)
             | None \<Rightarrow> (cp_InputPrice p, cp_OutputPrice p, cp_CacheWritePrice p, cp_CacheReadPrice p, cp_ImageOutputPrice p))
      in positiveCost (fadd (fadd (fadd (fadd
           (fmul (fofint (ut_InputTokens t)) (priceOrZero inp)) (fmul (fofint (ut_OutputTokens t)) (priceOrZero out)))
           (fmul (fofint (ut_CacheCreationTokens t)) (priceOrZero cw))) (fmul (fofint (ut_CacheReadTokens t)) (priceOrZero cr)))
           (fmul (fofint (ut_ImageOutputTokens t)) (priceOrZero img))))"

definition calculateStatsCost :: "channel_model_pricing \<Rightarrow> usage_tokens \<Rightarrow> int \<Rightarrow> f64 option" where
  "calculateStatsCost p t cnt =
     (if cp_BillingMode p = BillingModePerRequest \<or> cp_BillingMode p = BillingModeImage then calculatePerRequestStatsCost p cnt
      else calculateTokenStatsCost p t)"

text \<open>The first rule that matches and has a price for the model decides, also when its cost is none.\<close>

definition tryCustomRules :: "channel \<Rightarrow> int \<Rightarrow> int \<Rightarrow> string \<Rightarrow> string \<Rightarrow> usage_tokens \<Rightarrow> int \<Rightarrow> f64 option" where
  "tryCustomRules c accountID groupID platform model t cnt =
     (case firstSome (\<lambda>r. if matchAccountStatsRule r accountID groupID then findPricingForModel (ar_Pricing r) platform (toLower model) else None)
             (ch_AccountStatsPricingRules c) of
        None \<Rightarrow> None | Some p \<Rightarrow> calculateStatsCost p t cnt)"

definition tryModelFilePricing :: "price_list \<Rightarrow> string \<Rightarrow> usage_tokens \<Rightarrow> f64 option bp" where
  "tryModelFilePricing ps model t = do {
     r \<leftarrow> GetModelPricing ps model;
     case r of
       Inl _ \<Rightarrow> bret None
     | Inr a \<Rightarrow> do {
         p \<leftarrow> deref a;
         bret (positiveCost (fadd (fadd (fadd (fadd
           (fmul (fofint (ut_InputTokens t)) (mp_InputPricePerToken p)) (fmul (fofint (ut_OutputTokens t)) (mp_OutputPricePerToken p)))
           (fmul (fofint (ut_CacheCreationTokens t)) (mp_CacheCreationPricePerToken p)))
           (fmul (fofint (ut_CacheReadTokens t)) (mp_CacheReadPricePerToken p)))
           (fmul (fofint (ut_ImageOutputTokens t)) (mp_ImageOutputPricePerToken p))))
       }
   }"

text \<open>\<open>channel\<close> and \<open>platform\<close> are the answers of the channel service for the group.\<close>

definition resolveAccountStatsCost ::
  "price_list \<Rightarrow> channel option \<Rightarrow> string \<Rightarrow> int \<Rightarrow> int \<Rightarrow> string \<Rightarrow> usage_tokens \<Rightarrow> int \<Rightarrow> f64 \<Rightarrow> f64 option bp" where
  "resolveAccountStatsCost ps channel platform accountID groupID model t cnt totalCost =
     (if model = [] then bret None
      else case channel of
             None \<Rightarrow> bret None
           | Some c \<Rightarrow>
               (case tryCustomRules c accountID groupID platform model t cnt of
                  Some cost \<Rightarrow> bret (Some cost)
                | None \<Rightarrow> if ch_ApplyPricingToAccountStats c then bret (positiveCost totalCost)
                          else tryModelFilePricing ps model t))"

end
