(* ===== verification/Usage_Billing.thy ===== *)
theory Usage_Billing
  imports Account_Quota Api_Key Transaction Subscription Sha256 Billing
begin

text \<open>
  Charging a request (\<open>service/usage_billing.go\<close>, \<open>repository/usage_billing_repo.go\<close>): one transaction claims the key of the
  request in the table \<open>usage_billing_dedup\<close> and charges the subscription or the balance, the quota and the spending windows of the
  API key, and the quota of the upstream account. Old rows of the table are moved to an archive
  (\<open>dashboard_aggregation_repo.go\<close>), which the claim reads as well.

  \<open>billing_db\<close> holds the tables: the store of the payment system (users, groups, subscriptions), the API keys, the accounts, the two
  tables of claims, the events for the scheduler and the usage log; and, of the process, the prices in memory and the calls
  made to other services (caches, notifications), in order. Rows that are marked as deleted are not in the lists.
\<close>

section \<open>Commands\<close>

record usage_billing_command =
  uc_RequestID :: string
  uc_APIKeyID :: int
  uc_RequestFingerprint :: string
  uc_RequestPayloadHash :: string
  uc_UserID :: int
  uc_AccountID :: int
  uc_SubscriptionID :: "int option"
  uc_AccountType :: string
  uc_Model :: string
  uc_ServiceTier :: string
  uc_ReasoningEffort :: string
  uc_BillingType :: int
  uc_InputTokens :: int
  uc_OutputTokens :: int
  uc_CacheCreationTokens :: int
  uc_CacheReadTokens :: int
  uc_ImageCount :: int
  uc_MediaType :: string
  uc_BalanceCost :: f64
  uc_SubscriptionCost :: f64
  uc_APIKeyQuotaCost :: f64
  uc_APIKeyRateLimitCost :: f64
  uc_AccountQuotaCost :: f64

definition ErrUsageBillingRequestIDRequired :: go_err where
  "ErrUsageBillingRequestIDRequired = ErrorNew ''usage billing request_id is required''"

definition ErrUsageBillingRequestConflict :: go_err where
  "ErrUsageBillingRequestConflict = ErrorNew ''usage billing request fingerprint conflict''"

text \<open>\<open>%0.10f\<close>.\<close>

definition padZeros :: "nat \<Rightarrow> string \<Rightarrow> string" where
  "padZeros n s = replicate (n - length s) (CHR ''0'') @ s"

definition fixed10 :: "f64 \<Rightarrow> string" where
  "fixed10 x =
     (case x of
        F64 q \<Rightarrow> (let n = nat (rne (\<bar>q\<bar> * 10 ^ 10))
                  in (if q < 0 then ''-'' else []) @ natDigits (n div 10 ^ 10) @ ''.'' @ padZeros 10 (natDigits (n mod 10 ^ 10)))
      | PosInf \<Rightarrow> ''+Inf'' | NegInf \<Rightarrow> ''-Inf'' | NaN \<Rightarrow> ''NaN'')"

definition valueOrZero :: "int option \<Rightarrow> int" where
  "valueOrZero v = (case v of None \<Rightarrow> 0 | Some n \<Rightarrow> n)"

definition fingerprintText :: "usage_billing_command \<Rightarrow> string" where
  "fingerprintText c =
     joinWith ''|'' ([formatInt (uc_UserID c), formatInt (uc_AccountID c), formatInt (uc_APIKeyID c), trimSpace (uc_AccountType c),
        trimSpace (uc_Model c), trimSpace (uc_ServiceTier c), trimSpace (uc_ReasoningEffort c), formatInt (uc_BillingType c),
        formatInt (uc_InputTokens c), formatInt (uc_OutputTokens c), formatInt (uc_CacheCreationTokens c), formatInt (uc_CacheReadTokens c),
        formatInt (uc_ImageCount c), trimSpace (uc_MediaType c), formatInt (valueOrZero (uc_SubscriptionID c)), fixed10 (uc_BalanceCost c),
        fixed10 (uc_SubscriptionCost c), fixed10 (uc_APIKeyQuotaCost c), fixed10 (uc_APIKeyRateLimitCost c), fixed10 (uc_AccountQuotaCost c)] @
        (if trimSpace (uc_RequestPayloadHash c) \<noteq> [] then [trimSpace (uc_RequestPayloadHash c)] else []))"

definition buildUsageBillingFingerprint :: "usage_billing_command \<Rightarrow> string" where
  "buildUsageBillingFingerprint c = sha256Hex (fingerprintText c)"

definition HashUsageRequestPayload :: "string \<Rightarrow> string" where
  "HashUsageRequestPayload payload = (if payload = [] then [] else sha256Hex payload)"

definition Normalize :: "usage_billing_command \<Rightarrow> usage_billing_command" where
  "Normalize c =
     (let c1 = c\<lparr>uc_RequestID := trimSpace (uc_RequestID c)\<rparr>
      in if trimSpace (uc_RequestFingerprint c) = [] then c1\<lparr>uc_RequestFingerprint := buildUsageBillingFingerprint c1\<rparr> else c1)"

section \<open>Tables\<close>

record dedup_row =
  dr_RequestID :: string
  dr_APIKeyID :: int
  dr_Fingerprint :: string
  dr_CreatedAt :: instant

definition AccountTypeAPIKey :: string where "AccountTypeAPIKey = ''apikey''"
definition AccountTypeBedrock :: string where "AccountTypeBedrock = ''bedrock''"

record account_row =
  ac_ID :: int
  ac_Type :: string
  ac_Extra :: quota_extra
  ac_UpdatedAt :: instant

record usage_log =
  ul_UserID :: int
  ul_APIKeyID :: int
  ul_AccountID :: int
  ul_RequestID :: string
  ul_Model :: string
  ul_RequestedModel :: string
  ul_UpstreamModel :: "string option"
  ul_ChannelID :: "int option"
  ul_ModelMappingChain :: "string option"
  ul_BillingMode :: "string option"
  ul_ServiceTier :: "string option"
  ul_ReasoningEffort :: "string option"
  ul_InboundEndpoint :: "string option"
  ul_UpstreamEndpoint :: "string option"
  ul_GroupID :: "int option"
  ul_SubscriptionID :: "int option"
  ul_Tokens :: usage_tokens
  ul_Cost :: cost_breakdown
  ul_RateMultiplier :: f64
  ul_AccountRateMultiplier :: "f64 option"
  ul_AccountStatsCost :: "f64 option"
  ul_BillingType :: int
  ul_Stream :: bool
  ul_DurationMs :: "int option"
  ul_FirstTokenMs :: "int option"
  ul_UserAgent :: "string option"
  ul_IPAddress :: "string option"
  ul_CacheTTLOverridden :: bool
  ul_ImageCount :: int
  ul_ImageSize :: "string option"
  ul_CreatedAt :: instant

record account_quota_state =
  qs_TotalUsed :: f64
  qs_TotalLimit :: f64
  qs_DailyUsed :: f64
  qs_DailyLimit :: f64
  qs_WeeklyUsed :: f64
  qs_WeeklyLimit :: f64

datatype service_call =
    QueueDeductBalance int f64
  | QueueUpdateSubscriptionUsage int int f64
  | QueueUpdateAPIKeyRateLimitUsage int f64
  | ScheduleLastUsedUpdate int
  | InvalidateAuthCacheByKey string
  | CheckBalanceAfterDeduction int f64 f64
  | CheckAccountQuotaAfterIncrement int f64 "account_quota_state option"

record billing_db =
  bd_store :: store
  bd_keys :: "api_key list"
  bd_accounts :: "account_row list"
  bd_dedup :: "dedup_row list"
  bd_archive :: "dedup_row list"
  bd_outbox :: "(int \<times> instant) list"
  bd_logs :: "usage_log list"
  bd_prices :: billing_state
  bd_calls :: "service_call list"

type_synonym 'a btx = "(billing_db, 'a) tx"

text \<open>What the transaction takes from outside: the numbers of PostgreSQL, the payment system's parameters and the time zones.\<close>

record billing_ext =
  bx_ext :: ext
  bx_num :: sql_num
  bx_tz :: tzdb

record usage_billing_result =
  ua_Applied :: bool
  ua_APIKeyQuotaExhausted :: bool
  ua_NewBalance :: "f64 option"
  ua_QuotaState :: "account_quota_state option"

definition noUsageResult :: usage_billing_result where
  "noUsageResult = \<lparr>ua_Applied = False, ua_APIKeyQuotaExhausted = False, ua_NewBalance = None, ua_QuotaState = None\<rparr>"

definition ErrAccountNotFound :: go_err where
  "ErrAccountNotFound = NotFound ''ACCOUNT_NOT_FOUND'' ''account not found''"

section \<open>The claim\<close>

definition dedupRow :: "string \<Rightarrow> int \<Rightarrow> dedup_row list \<Rightarrow> dedup_row option" where
  "dedupRow rid kid rows = List.find (\<lambda>r. dr_RequestID r = rid \<and> dr_APIKeyID r = kid) rows"

text \<open>\<open>INSERT ... ON CONFLICT (request_id, api_key_id) DO NOTHING RETURNING id\<close>: whether a row was inserted. The columns are
  \<open>VARCHAR(255)\<close> and \<open>VARCHAR(64)\<close>, which count characters: the bytes of UTF-8 text that do not continue one.\<close>

definition charCount :: "string \<Rightarrow> nat" where
  "charCount s = length (filter (\<lambda>c. of_char c div 64 \<noteq> (2 :: nat)) s)"

lemma charCount_simps [simp]:
  "charCount [] = 0" "charCount (c # s) = (if of_char c div 64 = (2 :: nat) then charCount s else Suc (charCount s))"
  by (simp_all add: charCount_def)

definition insertDedup :: "instant \<Rightarrow> usage_billing_command \<Rightarrow> billing_db \<Rightarrow> (go_err + bool) \<times> billing_db" where
  "insertDedup now c d =
     (if 255 < charCount (uc_RequestID c) \<or> 64 < charCount (uc_RequestFingerprint c) then (Inl (ErrorNew ''value too long for type character varying''), d)
      else if dedupRow (uc_RequestID c) (uc_APIKeyID c) (bd_dedup d) \<noteq> None then (Inr False, d)
      else (Inr True, d\<lparr>bd_dedup := bd_dedup d @ [\<lparr>dr_RequestID = uc_RequestID c, dr_APIKeyID = uc_APIKeyID c,
              dr_Fingerprint = uc_RequestFingerprint c, dr_CreatedAt = now\<rparr>]\<rparr>))"

definition readFingerprint :: "(billing_db \<Rightarrow> dedup_row list) \<Rightarrow> usage_billing_command \<Rightarrow> billing_db \<Rightarrow> (go_err + string option) \<times> billing_db" where
  "readFingerprint table c d = (Inr (map_option dr_Fingerprint (dedupRow (uc_RequestID c) (uc_APIKeyID c) (table d))), d)"

definition claimUsageBillingKey :: "instant \<Rightarrow> usage_billing_command \<Rightarrow> bool btx" where
  "claimUsageBillingKey now c =
     (let known = (\<lambda>fp. if trimSpace fp \<noteq> trimSpace (uc_RequestFingerprint c) then State_Monad.return (Inl ErrUsageBillingRequestConflict) else txret False)
      in txthen (stmt (insertDedup now c)) (\<lambda>inserted.
           if \<not> inserted then
             txthen (stmt (readFingerprint bd_dedup c)) (\<lambda>fp.
               case fp of None \<Rightarrow> State_Monad.return (Inl (ErrorNew ''sql: no rows in result set'')) | Some f \<Rightarrow> known f)
           else
             txthen (stmt (readFingerprint bd_archive c)) (\<lambda>fp.
               case fp of None \<Rightarrow> txret True | Some f \<Rightarrow> known f)))"

section \<open>The charges\<close>

definition addSubUsage :: "sql_num \<Rightarrow> f64 \<Rightarrow> user_subscription \<Rightarrow> user_subscription" where
  "addSubUsage sn cost s = s\<lparr>us_DailyUsageUSD := sn_usageAdd sn (us_DailyUsageUSD s) cost,
     us_WeeklyUsageUSD := sn_usageAdd sn (us_WeeklyUsageUSD s) cost, us_MonthlyUsageUSD := sn_usageAdd sn (us_MonthlyUsageUSD s) cost\<rparr>"

definition incrementUsageBillingSubscription :: "billing_ext \<Rightarrow> int \<Rightarrow> f64 \<Rightarrow> store \<Rightarrow> (go_err + unit) \<times> store" where
  "incrementUsageBillingSubscription bx i cost d =
     (let hit = (\<lambda>s. us_ID s = i \<and> tget (\<lambda>g. g_ID g = us_GroupID s) (groups d) \<noteq> None)
      in if tcount hit (subs d) = 0 then (Inl ErrSubscriptionNotFound, d)
         else (Inr (), d\<lparr>subs := tupd hit (addSubUsage (bx_num bx) cost) (subs d)\<rparr>))"

definition deductUsageBillingBalance :: "billing_ext \<Rightarrow> int \<Rightarrow> f64 \<Rightarrow> store \<Rightarrow> (go_err + f64) \<times> store" where
  "deductUsageBillingBalance bx i amount d =
     (let us = tupd (\<lambda>u. u_ID u = i) (\<lambda>u. u\<lparr>u_Balance := x_sqlAdd (bx_ext bx) (u_Balance u) (fneg amount)\<rparr>) (users d)
      in case tget (\<lambda>u. u_ID u = i) us of None \<Rightarrow> (Inl ErrUserNotFound, d) | Some u \<Rightarrow> (Inr (readBalance u), d\<lparr>users := us\<rparr>))"

definition incrementUsageBillingAPIKeyQuota :: "billing_ext \<Rightarrow> instant \<Rightarrow> int \<Rightarrow> f64 \<Rightarrow> billing_db \<Rightarrow> (go_err + bool) \<times> billing_db" where
  "incrementUsageBillingAPIKeyQuota bx now i amount d =
     (let ks = tupd (\<lambda>k. k_ID k = i) (billQuotaUsed (bx_num bx) now amount) (bd_keys d)
      in case tget (\<lambda>k. k_ID k = i) ks of None \<Rightarrow> (Inl ErrAPIKeyNotFound, d)
         | Some k \<Rightarrow> (Inr (quotaCrossed (bx_num bx) amount k), d\<lparr>bd_keys := ks\<rparr>))"

definition incrementUsageBillingAPIKeyRateLimit :: "billing_ext \<Rightarrow> instant \<Rightarrow> int \<Rightarrow> f64 \<Rightarrow> billing_db \<Rightarrow> (go_err + unit) \<times> billing_db" where
  "incrementUsageBillingAPIKeyRateLimit bx now i cost d =
     (if tcount (\<lambda>k. k_ID k = i) (bd_keys d) = 0 then (Inl ErrAPIKeyNotFound, d)
      else (Inr (), d\<lparr>bd_keys := tupd (\<lambda>k. k_ID k = i) (addRateLimitUsage (bx_num bx) now cost) (bd_keys d)\<rparr>))"

definition quotaStateOf :: "quota_extra \<Rightarrow> account_quota_state" where
  "quotaStateOf e = \<lparr>qs_TotalUsed = GetQuotaUsed e, qs_TotalLimit = GetQuotaLimit e, qs_DailyUsed = GetQuotaDailyUsed e,
     qs_DailyLimit = GetQuotaDailyLimit e, qs_WeeklyUsed = GetQuotaWeeklyUsed e, qs_WeeklyLimit = GetQuotaWeeklyLimit e\<rparr>"

text \<open>The \<open>UPDATE ... RETURNING\<close> on the account.\<close>

definition updateAccountQuota :: "billing_ext \<Rightarrow> instant \<Rightarrow> int \<Rightarrow> f64 \<Rightarrow> billing_db \<Rightarrow> (go_err + quota_extra option) \<times> billing_db" where
  "updateAccountQuota bx now i amount d =
     (case tget (\<lambda>a. ac_ID a = i) (bd_accounts d) of
        None \<Rightarrow> (Inr None, d)
      | Some a \<Rightarrow>
          (case incrementExtra (bx_tz bx) (sn_num (bx_num bx)) now amount (ac_Extra a) of
             Inl e \<Rightarrow> (Inl e, d)
           | Inr e \<Rightarrow> (Inr (Some e), d\<lparr>bd_accounts := tupd (\<lambda>a. ac_ID a = i) (\<lambda>a. a\<lparr>ac_Extra := e, ac_UpdatedAt := now\<rparr>) (bd_accounts d)\<rparr>)))"

text \<open>An event for the scheduler, unless the same one was written a moment ago.\<close>

definition schedulerOutboxDedupWindow :: duration where
  "schedulerOutboxDedupWindow = nsSecond"

definition enqueueSchedulerOutbox :: "instant \<Rightarrow> int \<Rightarrow> billing_db \<Rightarrow> (go_err + unit) \<times> billing_db" where
  "enqueueSchedulerOutbox now i d =
     (Inr (), if list_ex (\<lambda>(j, t). j = i \<and> now - schedulerOutboxDedupWindow \<le> t) (bd_outbox d) then d
              else d\<lparr>bd_outbox := bd_outbox d @ [(i, now)]\<rparr>)"

definition incrementUsageBillingAccountQuota :: "billing_ext \<Rightarrow> instant \<Rightarrow> int \<Rightarrow> f64 \<Rightarrow> account_quota_state btx" where
  "incrementUsageBillingAccountQuota bx now i amount =
     txthen (stmt (updateAccountQuota bx now i amount)) (\<lambda>r.
       case r of
         None \<Rightarrow> State_Monad.return (Inl ErrAccountNotFound)
       | Some e \<Rightarrow>
           if justExceeded e amount then txthen (stmt (enqueueSchedulerOutbox now i)) (\<lambda>_. txret (quotaStateOf e))
           else txret (quotaStateOf e))"

text \<open>A statement on the tables of the payment system.\<close>

definition onStore :: "(store \<Rightarrow> (go_err + 'a) \<times> store) \<Rightarrow> billing_db \<Rightarrow> (go_err + 'a) \<times> billing_db" where
  "onStore f d = (case f (bd_store d) of (r, s) \<Rightarrow> (r, d\<lparr>bd_store := s\<rparr>))"

definition quotaAccount :: "usage_billing_command \<Rightarrow> bool" where
  "quotaAccount c \<longleftrightarrow> toLower (uc_AccountType c) = AccountTypeAPIKey \<or> toLower (uc_AccountType c) = AccountTypeBedrock"

text \<open>The parts of \<open>applyUsageBillingEffects\<close>, in its order.\<close>

definition billSubscription :: "billing_ext \<Rightarrow> usage_billing_command \<Rightarrow> unit btx" where
  "billSubscription bx c =
     (case uc_SubscriptionID c of
        Some i \<Rightarrow> if flt fzero (uc_SubscriptionCost c) then stmt (onStore (incrementUsageBillingSubscription bx i (uc_SubscriptionCost c))) else txret ()
      | None \<Rightarrow> txret ())"

definition billBalance :: "billing_ext \<Rightarrow> usage_billing_command \<Rightarrow> usage_billing_result \<Rightarrow> usage_billing_result btx" where
  "billBalance bx c r =
     (if flt fzero (uc_BalanceCost c)
      then txthen (stmt (onStore (deductUsageBillingBalance bx (uc_UserID c) (uc_BalanceCost c)))) (\<lambda>b. txret (r\<lparr>ua_NewBalance := Some b\<rparr>))
      else txret r)"

definition billKeyQuota :: "billing_ext \<Rightarrow> instant \<Rightarrow> usage_billing_command \<Rightarrow> usage_billing_result \<Rightarrow> usage_billing_result btx" where
  "billKeyQuota bx now c r =
     (if flt fzero (uc_APIKeyQuotaCost c)
      then txthen (stmt (incrementUsageBillingAPIKeyQuota bx now (uc_APIKeyID c) (uc_APIKeyQuotaCost c))) (\<lambda>x. txret (r\<lparr>ua_APIKeyQuotaExhausted := x\<rparr>))
      else txret r)"

definition billKeyWindows :: "billing_ext \<Rightarrow> instant \<Rightarrow> usage_billing_command \<Rightarrow> unit btx" where
  "billKeyWindows bx now c =
     (if flt fzero (uc_APIKeyRateLimitCost c)
      then stmt (incrementUsageBillingAPIKeyRateLimit bx now (uc_APIKeyID c) (uc_APIKeyRateLimitCost c)) else txret ())"

definition billAccount :: "billing_ext \<Rightarrow> instant \<Rightarrow> usage_billing_command \<Rightarrow> usage_billing_result \<Rightarrow> usage_billing_result btx" where
  "billAccount bx now c r =
     (if flt fzero (uc_AccountQuotaCost c) \<and> quotaAccount c
      then txthen (incrementUsageBillingAccountQuota bx now (uc_AccountID c) (uc_AccountQuotaCost c)) (\<lambda>q. txret (r\<lparr>ua_QuotaState := Some q\<rparr>))
      else txret r)"

definition applyUsageBillingEffects :: "billing_ext \<Rightarrow> instant \<Rightarrow> usage_billing_command \<Rightarrow> usage_billing_result \<Rightarrow> usage_billing_result btx" where
  "applyUsageBillingEffects bx now c r0 =
     txthen (billSubscription bx c) (\<lambda>_. txthen (billBalance bx c r0) (\<lambda>r1. txthen (billKeyQuota bx now c r1) (\<lambda>r2.
       txthen (billKeyWindows bx now c) (\<lambda>_. billAccount bx now c r2))))"

section \<open>The transaction\<close>

definition applyBody :: "billing_ext \<Rightarrow> instant \<Rightarrow> usage_billing_command \<Rightarrow> (usage_billing_result \<times> bool) btx" where
  "applyBody bx now c =
     txthen (claimUsageBillingKey now c) (\<lambda>applied.
       if \<not> applied then txret (noUsageResult, False)
       else txthen (applyUsageBillingEffects bx now c (noUsageResult\<lparr>ua_Applied := True\<rparr>)) (\<lambda>r. txret (r, True)))"

definition Apply :: "billing_ext \<Rightarrow> usage_billing_command option \<Rightarrow> (billing_db, usage_billing_result) eprog" where
  "Apply bx co =
     (case co of
        None \<Rightarrow> ret (Inr noUsageResult)
      | Some c0 \<Rightarrow>
          (let c = Normalize c0
           in if uc_RequestID c = [] then ret (Inl ErrUsageBillingRequestIDRequired)
              else do { now \<leftarrow> timeNow; inTransaction (applyBody bx now c) }))"

section \<open>The archive\<close>

text \<open>One round of \<open>CleanupUsageBillingDedup\<close>: at most \<open>n\<close> rows older than \<open>cutoff\<close> move to the archive, and how many. The query
  has no order; here the rows come in the order of the table.\<close>

definition archiveRow :: "dedup_row \<Rightarrow> dedup_row list \<Rightarrow> dedup_row list" where
  "archiveRow r rows = (if dedupRow (dr_RequestID r) (dr_APIKeyID r) rows \<noteq> None then rows else rows @ [r])"

definition archiveRows :: "dedup_row list \<Rightarrow> billing_db \<Rightarrow> billing_db" where
  "archiveRows victims d = d\<lparr>bd_archive := fold archiveRow victims (bd_archive d), bd_dedup := filter (\<lambda>r. r \<notin> set victims) (bd_dedup d)\<rparr>"

definition cleanupRound :: "instant \<Rightarrow> nat \<Rightarrow> billing_db \<Rightarrow> (go_err + nat) \<times> billing_db" where
  "cleanupRound cutoff n d =
     (let victims = take n (filter (\<lambda>r. dr_CreatedAt r < cutoff) (bd_dedup d)) in (Inr (length victims), archiveRows victims d))"

definition usageBillingDedupCleanupBatchSize :: nat where
  "usageBillingDedupCleanupBatchSize = 10000"

text \<open>Rounds until one moves less than a batch.\<close>

lemma cleanup_shrinks:
  assumes "run_state (exec (cleanupRound cutoff n)) w = (Inr k, w')" "0 < k"
  shows "(w', w) \<in> measures [\<lambda>w. length (script w), \<lambda>w. length (bd_dedup (db w))]"
proof (cases "script w")
  case Nil
  let ?v = "take n (filter (\<lambda>r. dr_CreatedAt r < cutoff) (bd_dedup (db w)))"
  have k: "k = length ?v" and w': "w' = w\<lparr>db := archiveRows ?v (db w)\<rparr>"
    using assms(1) Nil by (auto simp: exec_def cleanupRound_def Let_def)
  have "hd ?v \<in> set ?v" using k assms(2) by (metis hd_in_set length_greater_0_conv)
  moreover have "set ?v \<subseteq> set (bd_dedup (db w))" by (meson filter_is_subset order_trans set_take_subset)
  ultimately have "length (filter (\<lambda>r. r \<notin> set ?v) (bd_dedup (db w))) < length (bd_dedup (db w))"
    by (intro length_filter_less) auto
  then show ?thesis using w' Nil by (simp add: archiveRows_def)
next
  case (Cons t ts)
  then show ?thesis using assms(1) by (auto simp: exec_def Let_def split: outcome.splits prod.splits)
qed

function CleanupUsageBillingDedup :: "instant \<Rightarrow> billing_db world \<Rightarrow> go_err option \<times> billing_db world" where
  "CleanupUsageBillingDedup cutoff w =
     (case run_state (exec (cleanupRound cutoff usageBillingDedupCleanupBatchSize)) w of
        (Inl e, w') \<Rightarrow> (Some e, w')
      | (Inr n, w') \<Rightarrow> if n < usageBillingDedupCleanupBatchSize then (None, w') else CleanupUsageBillingDedup cutoff w')"
  by pat_completeness auto
termination
  by (relation "inv_image (measures [\<lambda>w. length (script w), \<lambda>w. length (bd_dedup (db w))]) snd")
    (auto simp: usageBillingDedupCleanupBatchSize_def simp del: in_measures dest!: sym [of _ "run_state _ _"] dest: cleanup_shrinks)

declare CleanupUsageBillingDedup.simps [simp del]

end
