(* ===== verification/Usage_Record.thy ===== *)
theory Usage_Record
  imports Usage_Billing
begin

text \<open>
  From the answer of an upstream account to the charge (\<open>service/gateway_service.go\<close>, \<open>recordUsageCore\<close> and what it calls): the model
  that is billed, the rate, the cost, the row of the usage log, the command for \<open>Usage_Billing\<close>, and the calls to caches and
  notifications after the charge. The services see an API key with its group, and an account with its settings; the answers of
  the rate resolver (\<open>userRate\<close>), of the channels and of the price list are arguments.
\<close>

section \<open>Data\<close>

record rate_group =
  rg_ID :: int
  rg_RateMultiplier :: f64
  rg_SubscriptionType :: string
  rg_ImagePrices :: image_price_config

record gateway_key =
  gk_Key :: api_key
  gk_Group :: "rate_group option"

record gateway_account =
  ga_ID :: int
  ga_Platform :: string
  ga_Type :: string
  ga_RateMultiplier :: "f64 option"
  ga_Quota :: quota_extra
  ga_CacheTTLOverrideEnabled :: "bool option"
  ga_CacheTTLOverrideTarget :: "string option"

record forward_result =
  fr_RequestID :: string
  fr_Usage :: usage_tokens
  fr_Model :: string
  fr_UpstreamModel :: string
  fr_Stream :: bool
  fr_Duration :: duration
  fr_FirstTokenMs :: "int option"
  fr_ReasoningEffort :: "string option"
  fr_ImageCount :: int
  fr_ImageSize :: string

record record_usage_input =
  ru_Result :: forward_result
  ru_APIKey :: gateway_key
  ru_User :: user
  ru_Account :: gateway_account
  ru_Subscription :: "user_subscription option"
  ru_InboundEndpoint :: string
  ru_UpstreamEndpoint :: string
  ru_UserAgent :: string
  ru_IPAddress :: string
  ru_RequestPayloadHash :: string
  ru_ForceCacheBilling :: bool
  ru_APIKeyService :: bool
  ru_Channel :: channel_usage_fields

text \<open>The request ids of the context, and the next generated one.\<close>

record request_context =
  rx_ClientRequestID :: string
  rx_RequestID :: string
  rx_Generated :: string

record usage_services =
  sv_RateMultiplier :: "f64 option"
  sv_SimpleMode :: bool
  sv_userRate :: "int \<Rightarrow> int \<Rightarrow> f64 option"
  sv_prices :: price_list
  sv_channelPrices :: "channel_prices option"
  sv_groupChannel :: "int \<Rightarrow> channel option"
  sv_groupPlatform :: "int \<Rightarrow> string"
  sv_billingRepo :: bool
  sv_notify :: bool
  sv_logQueueFull :: bool

definition BillingTypeBalance :: int where "BillingTypeBalance = 0"
definition BillingTypeSubscription :: int where "BillingTypeSubscription = 1"

section \<open>Tokens, rates and models\<close>

definition BillingRateMultiplier :: "gateway_account \<Rightarrow> f64" where
  "BillingRateMultiplier a = (case ga_RateMultiplier a of None \<Rightarrow> F64 1 | Some r \<Rightarrow> if flt r fzero then F64 1 else r)"

definition IsAPIKeyOrBedrock :: "gateway_account \<Rightarrow> bool" where
  "IsAPIKeyOrBedrock a \<longleftrightarrow> ga_Type a = AccountTypeAPIKey \<or> ga_Type a = AccountTypeBedrock"

definition IsAnthropicOAuthOrSetupToken :: "gateway_account \<Rightarrow> bool" where
  "IsAnthropicOAuthOrSetupToken a \<longleftrightarrow> ga_Platform a = ''anthropic'' \<and> (ga_Type a = ''oauth'' \<or> ga_Type a = ''setup-token'')"

definition IsCacheTTLOverrideEnabled :: "gateway_account \<Rightarrow> bool" where
  "IsCacheTTLOverrideEnabled a \<longleftrightarrow> IsAnthropicOAuthOrSetupToken a \<and> ga_CacheTTLOverrideEnabled a = Some True"

definition GetCacheTTLOverrideTarget :: "gateway_account \<Rightarrow> string" where
  "GetCacheTTLOverrideTarget a =
     (case ga_CacheTTLOverrideTarget a of None \<Rightarrow> ''5m'' | Some t \<Rightarrow> if t = ''5m'' \<or> t = ''1h'' then t else ''5m'')"

definition applyCacheTTLOverride :: "string \<Rightarrow> usage_tokens \<Rightarrow> usage_tokens" where
  "applyCacheTTLOverride target u0 =
     (let u = (if ut_CacheCreation5mTokens u0 = 0 \<and> ut_CacheCreation1hTokens u0 = 0 \<and> 0 < ut_CacheCreationTokens u0
               then u0\<lparr>ut_CacheCreation5mTokens := ut_CacheCreationTokens u0\<rparr> else u0);
          total = wrap64 (ut_CacheCreation5mTokens u + ut_CacheCreation1hTokens u)
      in if total = 0 then u
         else if target = ''1h'' then
           (if ut_CacheCreation1hTokens u = total then u else u\<lparr>ut_CacheCreation1hTokens := total, ut_CacheCreation5mTokens := 0\<rparr>)
         else (if ut_CacheCreation5mTokens u = total then u else u\<lparr>ut_CacheCreation5mTokens := total, ut_CacheCreation1hTokens := 0\<rparr>))"

definition forceCacheTokens :: "bool \<Rightarrow> usage_tokens \<Rightarrow> usage_tokens" where
  "forceCacheTokens force u =
     (if force \<and> 0 < ut_InputTokens u
      then u\<lparr>ut_CacheReadTokens := wrap64 (ut_CacheReadTokens u + ut_InputTokens u), ut_InputTokens := 0\<rparr> else u)"

text \<open>The tokens that are billed, and whether the override of the account applied to them.\<close>

definition billedTokens :: "record_usage_input \<Rightarrow> usage_tokens \<times> bool" where
  "billedTokens i =
     (let u = forceCacheTokens (ru_ForceCacheBilling i) (fr_Usage (ru_Result i))
      in if IsCacheTTLOverrideEnabled (ru_Account i) then
           (let v = applyCacheTTLOverride (GetCacheTTLOverrideTarget (ru_Account i)) u
            in (v, 0 < wrap64 (ut_CacheCreation5mTokens v + ut_CacheCreation1hTokens v)))
         else (u, False))"

definition resolveUserRate :: "usage_services \<Rightarrow> int \<Rightarrow> int \<Rightarrow> f64 \<Rightarrow> f64" where
  "resolveUserRate sv userID groupID groupDefault =
     (if userID \<le> 0 \<or> groupID \<le> 0 then groupDefault
      else case sv_userRate sv userID groupID of None \<Rightarrow> groupDefault | Some r \<Rightarrow> r)"

definition usageMultiplier :: "usage_services \<Rightarrow> record_usage_input \<Rightarrow> f64" where
  "usageMultiplier sv i =
     (let base = (case sv_RateMultiplier sv of None \<Rightarrow> F64 1 | Some r \<Rightarrow> r); k = ru_APIKey i
      in case (k_GroupID (gk_Key k), gk_Group k) of
           (Some gid, Some g) \<Rightarrow> resolveUserRate sv (u_ID (ru_User i)) gid (rg_RateMultiplier g)
         | _ \<Rightarrow> base)"

definition forwardResultBillingModel :: "string \<Rightarrow> string \<Rightarrow> string" where
  "forwardResultBillingModel requested upstream = (if trimSpace requested \<noteq> [] then trimSpace requested else trimSpace upstream)"

definition usageBillingModel :: "record_usage_input \<Rightarrow> string" where
  "usageBillingModel i =
     (let c = ru_Channel i;
          m0 = forwardResultBillingModel (fr_Model (ru_Result i)) (fr_UpstreamModel (ru_Result i));
          m1 = (if cf_BillingModelSource c = BillingModelSourceChannelMapped \<and> cf_ChannelMappedModel c \<noteq> [] then cf_ChannelMappedModel c else m0)
      in if cf_BillingModelSource c = BillingModelSourceRequested \<and> cf_OriginalModel c \<noteq> [] then cf_OriginalModel c else m1)"

section \<open>Cost\<close>

text \<open>A price that comes from a channel.\<close>

definition resolveChannelPricing :: "usage_services \<Rightarrow> string \<Rightarrow> gateway_key \<Rightarrow> resolved_pricing option bp" where
  "resolveChannelPricing sv model k =
     (case (sv_channelPrices sv, gk_Group k) of
        (Some chp, Some g) \<Rightarrow> do {
          rv \<leftarrow> Resolve (sv_prices sv) chp model (Some (rg_ID g));
          bret (if rv_Source rv = PricingSourceChannel then Some rv else None)
        }
      | _ \<Rightarrow> bret None)"

definition channelCostInput :: "usage_services \<Rightarrow> string \<Rightarrow> gateway_key \<Rightarrow> usage_tokens \<Rightarrow> f64 \<Rightarrow> resolved_pricing \<Rightarrow> cost_input" where
  "channelCostInput sv model k t rate rv = \<lparr>ci_Model = model, ci_GroupID = map_option rg_ID (gk_Group k), ci_Tokens = t, ci_RequestCount = 1,
     ci_SizeTier = [], ci_RateMultiplier = rate, ci_ServiceTier = [], ci_Resolver = sv_channelPrices sv, ci_Resolved = Some rv\<rparr>"

definition orZeroCost :: "go_err + cost_breakdown \<Rightarrow> cost_breakdown" where
  "orZeroCost r = (case r of Inl _ \<Rightarrow> zeroCost | Inr c \<Rightarrow> c)"

definition calculateImageCost :: "usage_services \<Rightarrow> forward_result \<Rightarrow> gateway_key \<Rightarrow> string \<Rightarrow> f64 \<Rightarrow> cost_breakdown bp" where
  "calculateImageCost sv r k model rate = do {
     rv \<leftarrow> resolveChannelPricing sv model k;
     case rv of
       Some p \<Rightarrow>
         (let u = fr_Usage r;
              t = zeroTokens\<lparr>ut_InputTokens := ut_InputTokens u, ut_OutputTokens := ut_OutputTokens u, ut_ImageOutputTokens := ut_ImageOutputTokens u\<rparr>
          in do { c \<leftarrow> CalculateCostUnified (sv_prices sv) (channelCostInput sv model k t rate p); bret (orZeroCost c) })
     | None \<Rightarrow> bret (CalculateImageCost (sv_prices sv) model (fr_ImageSize r) (fr_ImageCount r) (map_option rg_ImagePrices (gk_Group k)) rate)
   }"

text \<open>\<open>calculateTokenCost\<close> of the gateway; \<open>threshold\<close> and \<open>extra\<close> are the long-context options.\<close>

definition gatewayTokenCost :: "usage_services \<Rightarrow> forward_result \<Rightarrow> gateway_key \<Rightarrow> string \<Rightarrow> f64 \<Rightarrow> int \<Rightarrow> f64 \<Rightarrow> cost_breakdown bp" where
  "gatewayTokenCost sv r k model rate threshold extra = do {
     rv \<leftarrow> resolveChannelPricing sv model k;
     c \<leftarrow> (case rv of
            Some p \<Rightarrow> CalculateCostUnified (sv_prices sv) (channelCostInput sv model k (fr_Usage r) rate p)
          | None \<Rightarrow> if 0 < threshold then CalculateCostWithLongContext (sv_prices sv) model (fr_Usage r) rate threshold extra
                    else CalculateCost (sv_prices sv) model (fr_Usage r) rate);
     bret (orZeroCost c)
   }"

definition calculateRecordUsageCost :: "usage_services \<Rightarrow> forward_result \<Rightarrow> gateway_key \<Rightarrow> string \<Rightarrow> f64 \<Rightarrow> int \<Rightarrow> f64 \<Rightarrow> cost_breakdown bp" where
  "calculateRecordUsageCost sv r k model rate threshold extra =
     (if 0 < fr_ImageCount r then calculateImageCost sv r k model rate else gatewayTokenCost sv r k model rate threshold extra)"

section \<open>The charge\<close>

record post_usage_billing_params =
  pp_Cost :: cost_breakdown
  pp_User :: user
  pp_APIKey :: gateway_key
  pp_Account :: gateway_account
  pp_Subscription :: "user_subscription option"
  pp_RequestPayloadHash :: string
  pp_IsSubscriptionBill :: bool
  pp_AccountRateMultiplier :: f64
  pp_APIKeyService :: bool

definition shouldDeductAPIKeyQuota :: "post_usage_billing_params \<Rightarrow> bool" where
  "shouldDeductAPIKeyQuota p \<longleftrightarrow> flt fzero (cb_ActualCost (pp_Cost p)) \<and> flt fzero (rnd (k_Quota (gk_Key (pp_APIKey p)))) \<and> pp_APIKeyService p"

definition shouldUpdateRateLimits :: "post_usage_billing_params \<Rightarrow> bool" where
  "shouldUpdateRateLimits p \<longleftrightarrow> flt fzero (cb_ActualCost (pp_Cost p)) \<and> HasRateLimits (gk_Key (pp_APIKey p)) \<and> pp_APIKeyService p"

definition shouldUpdateAccountQuota :: "post_usage_billing_params \<Rightarrow> bool" where
  "shouldUpdateAccountQuota p \<longleftrightarrow> flt fzero (cb_TotalCost (pp_Cost p)) \<and> IsAPIKeyOrBedrock (pp_Account p) \<and> HasAnyQuotaLimit (ga_Quota (pp_Account p))"

definition resolveUsageBillingRequestID :: "request_context option \<Rightarrow> string \<Rightarrow> string \<Rightarrow> string" where
  "resolveUsageBillingRequestID ctx upstream generated =
     (let fromCtx = (case ctx of None \<Rightarrow> None
             | Some x \<Rightarrow> if trimSpace (rx_ClientRequestID x) \<noteq> [] then Some (''client:'' @ trimSpace (rx_ClientRequestID x))
                         else if trimSpace (rx_RequestID x) \<noteq> [] then Some (''local:'' @ trimSpace (rx_RequestID x)) else None)
      in case fromCtx of Some s \<Rightarrow> s
         | None \<Rightarrow> if trimSpace upstream \<noteq> [] then trimSpace upstream else ''generated:'' @ generated)"

definition resolveUsageBillingPayloadFingerprint :: "request_context option \<Rightarrow> string \<Rightarrow> string" where
  "resolveUsageBillingPayloadFingerprint ctx hash =
     (if trimSpace hash \<noteq> [] then trimSpace hash
      else case ctx of None \<Rightarrow> []
           | Some x \<Rightarrow> if trimSpace (rx_ClientRequestID x) \<noteq> [] then ''client:'' @ trimSpace (rx_ClientRequestID x)
                       else if trimSpace (rx_RequestID x) \<noteq> [] then ''local:'' @ trimSpace (rx_RequestID x) else [])"

definition optText :: "string option \<Rightarrow> string" where
  "optText v = (case v of None \<Rightarrow> [] | Some s \<Rightarrow> s)"

definition buildUsageBillingCommand :: "string \<Rightarrow> usage_log \<Rightarrow> post_usage_billing_params \<Rightarrow> usage_billing_command" where
  "buildUsageBillingCommand requestID l p =
     (let c = pp_Cost p; t = ul_Tokens l;
          bySub = (pp_IsSubscriptionBill p \<and> pp_Subscription p \<noteq> None \<and> flt fzero (cb_TotalCost c))
      in Normalize \<lparr>uc_RequestID = requestID, uc_APIKeyID = k_ID (gk_Key (pp_APIKey p)), uc_RequestFingerprint = [],
           uc_RequestPayloadHash = trimSpace (pp_RequestPayloadHash p), uc_UserID = u_ID (pp_User p), uc_AccountID = ga_ID (pp_Account p),
           uc_SubscriptionID = (if bySub then map_option us_ID (pp_Subscription p) else ul_SubscriptionID l),
           uc_AccountType = ga_Type (pp_Account p), uc_Model = ul_Model l, uc_ServiceTier = optText (ul_ServiceTier l),
           uc_ReasoningEffort = optText (ul_ReasoningEffort l), uc_BillingType = ul_BillingType l, uc_InputTokens = ut_InputTokens t,
           uc_OutputTokens = ut_OutputTokens t, uc_CacheCreationTokens = ut_CacheCreationTokens t, uc_CacheReadTokens = ut_CacheReadTokens t,
           uc_ImageCount = ul_ImageCount l, uc_MediaType = [],
           uc_BalanceCost = (if \<not> bySub \<and> flt fzero (cb_ActualCost c) then cb_ActualCost c else fzero),
           uc_SubscriptionCost = (if bySub then cb_TotalCost c else fzero),
           uc_APIKeyQuotaCost = (if shouldDeductAPIKeyQuota p then cb_ActualCost c else fzero),
           uc_APIKeyRateLimitCost = (if shouldUpdateRateLimits p then cb_ActualCost c else fzero),
           uc_AccountQuotaCost = (if shouldUpdateAccountQuota p then fmul (cb_TotalCost c) (pp_AccountRateMultiplier p) else fzero)\<rparr>)"

section \<open>After the charge\<close>

type_synonym 'a bprog = "(billing_db, 'a) prog"
type_synonym 'a beprog = "(billing_db, 'a) eprog"

definition call :: "service_call \<Rightarrow> unit bprog" where
  "call c = modify (\<lambda>d. d\<lparr>bd_calls := bd_calls d @ [c]\<rparr>)"

definition resolveOldBalance :: "post_usage_billing_params \<Rightarrow> usage_billing_result \<Rightarrow> f64" where
  "resolveOldBalance p r = (case ua_NewBalance r of Some b \<Rightarrow> fadd b (cb_ActualCost (pp_Cost p)) | None \<Rightarrow> readBalance (pp_User p))"

definition notifyBalanceLow :: "usage_services \<Rightarrow> post_usage_billing_params \<Rightarrow> usage_billing_result \<Rightarrow> unit bprog" where
  "notifyBalanceLow sv p r =
     (if pp_IsSubscriptionBill p \<or> fle (cb_ActualCost (pp_Cost p)) fzero \<or> \<not> sv_notify sv then ret ()
      else call (CheckBalanceAfterDeduction (u_ID (pp_User p)) (resolveOldBalance p r) (cb_ActualCost (pp_Cost p))))"

definition notifyAccountQuota :: "usage_services \<Rightarrow> post_usage_billing_params \<Rightarrow> usage_billing_result \<Rightarrow> unit bprog" where
  "notifyAccountQuota sv p r =
     (if fle (cb_TotalCost (pp_Cost p)) fzero \<or> \<not> IsAPIKeyOrBedrock (pp_Account p) \<or> \<not> sv_notify sv then ret ()
      else call (CheckAccountQuotaAfterIncrement (ga_ID (pp_Account p)) (fmul (cb_TotalCost (pp_Cost p)) (pp_AccountRateMultiplier p)) (ua_QuotaState r)))"

definition finalizePostUsageBilling :: "usage_services \<Rightarrow> post_usage_billing_params \<Rightarrow> usage_billing_result \<Rightarrow> unit bprog" where
  "finalizePostUsageBilling sv p r =
     (let c = pp_Cost p; k = gk_Key (pp_APIKey p); uid = u_ID (pp_User p)
      in do {
        _ \<leftarrow> (if pp_IsSubscriptionBill p then
               (case k_GroupID k of
                  Some g \<Rightarrow> if flt fzero (cb_TotalCost c) then call (QueueUpdateSubscriptionUsage uid g (cb_TotalCost c)) else ret ()
                | None \<Rightarrow> ret ())
             else if flt fzero (cb_ActualCost c) then call (QueueDeductBalance uid (cb_ActualCost c)) else ret ());
        _ \<leftarrow> (if flt fzero (cb_ActualCost c) \<and> HasRateLimits k then call (QueueUpdateAPIKeyRateLimitUsage (k_ID k) (cb_ActualCost c)) else ret ());
        _ \<leftarrow> call (ScheduleLastUsedUpdate (ga_ID (pp_Account p)));
        _ \<leftarrow> notifyBalanceLow sv p r;
        notifyAccountQuota sv p r
      })"

section \<open>Charging without the transaction\<close>

text \<open>\<open>APIKeyService.UpdateQuotaUsed\<close> and \<open>UpdateRateLimitUsage\<close>.\<close>

definition IncrementQuotaUsedAndGetState :: "billing_ext \<Rightarrow> instant \<Rightarrow> int \<Rightarrow> f64 \<Rightarrow> billing_db \<Rightarrow> (go_err + api_key) \<times> billing_db" where
  "IncrementQuotaUsedAndGetState bx now i amount d =
     (let ks = tupd (\<lambda>k. k_ID k = i) (addQuotaUsed (bx_num bx) now amount) (bd_keys d)
      in case tget (\<lambda>k. k_ID k = i) ks of None \<Rightarrow> (Inl ErrAPIKeyNotFound, d) | Some k \<Rightarrow> (Inr k, d\<lparr>bd_keys := ks\<rparr>))"

definition UpdateQuotaUsed :: "billing_ext \<Rightarrow> int \<Rightarrow> f64 \<Rightarrow> unit beprog" where
  "UpdateQuotaUsed bx i cost =
     (if fle cost fzero then ret (Inr ())
      else do {
        now \<leftarrow> timeNow;
        r \<leftarrow> exec (IncrementQuotaUsedAndGetState bx now i cost);
        case r of
          Inl e \<Rightarrow> ret (Inl (Errorf ''increment quota used'' e))
        | Inr k \<Rightarrow> do {
            _ \<leftarrow> (if k_Status k = StatusAPIKeyQuotaExhausted \<and> trimSpace (k_Key k) \<noteq> [] then call (InvalidateAuthCacheByKey (k_Key k)) else ret ());
            ret (Inr ())
          }
      })"

definition IncrementRateLimitUsage :: "billing_ext \<Rightarrow> instant \<Rightarrow> int \<Rightarrow> f64 \<Rightarrow> billing_db \<Rightarrow> (go_err + unit) \<times> billing_db" where
  "IncrementRateLimitUsage bx now i cost d =
     (Inr (), d\<lparr>bd_keys := tupd (\<lambda>k. k_ID k = i) (addRateLimitUsage (bx_num bx) now cost) (bd_keys d)\<rparr>)"

definition UpdateRateLimitUsage :: "billing_ext \<Rightarrow> int \<Rightarrow> f64 \<Rightarrow> unit beprog" where
  "UpdateRateLimitUsage bx i cost =
     (if fle cost fzero then ret (Inr ()) else do { now \<leftarrow> timeNow; exec (IncrementRateLimitUsage bx now i cost) })"

text \<open>\<open>accountRepository.IncrementQuotaUsed\<close>: no error for an account that is gone, and a lost event is only logged.\<close>

definition IncrementQuotaUsed :: "billing_ext \<Rightarrow> int \<Rightarrow> f64 \<Rightarrow> unit beprog" where
  "IncrementQuotaUsed bx i amount = do {
     now \<leftarrow> timeNow;
     r \<leftarrow> exec (updateAccountQuota bx now i amount);
     case r of
       Inl e \<Rightarrow> ret (Inl e)
     | Inr None \<Rightarrow> ret (Inr ())
     | Inr (Some e) \<Rightarrow> do {
         _ \<leftarrow> (if justExceeded e amount then exec (enqueueSchedulerOutbox now i) else ret (Inr ()));
         ret (Inr ())
       }
   }"

definition deductBalanceStmt :: "billing_ext \<Rightarrow> int \<Rightarrow> f64 \<Rightarrow> store \<Rightarrow> (go_err + unit) \<times> store" where
  "deductBalanceStmt bx i amount d = (case deductUsageBillingBalance bx i amount d of (r, d') \<Rightarrow> (map_sum id (\<lambda>_. ()) r, d'))"

text \<open>Every step is tried, errors are only logged.\<close>

definition postUsageBilling :: "billing_ext \<Rightarrow> post_usage_billing_params \<Rightarrow> unit bprog" where
  "postUsageBilling bx p =
     (let c = pp_Cost p; k = gk_Key (pp_APIKey p)
      in do {
        _ \<leftarrow> (if pp_IsSubscriptionBill p then
               (case pp_Subscription p of
                  Some s \<Rightarrow> if flt fzero (cb_TotalCost c) then exec (onStore (incrementUsageBillingSubscription bx (us_ID s) (cb_TotalCost c))) else ret (Inr ())
                | None \<Rightarrow> ret (Inr ()))
             else if flt fzero (cb_ActualCost c) then exec (onStore (deductBalanceStmt bx (u_ID (pp_User p)) (cb_ActualCost c))) else ret (Inr ()));
        _ \<leftarrow> (if shouldDeductAPIKeyQuota p then UpdateQuotaUsed bx (k_ID k) (cb_ActualCost c) else ret (Inr ()));
        _ \<leftarrow> (if shouldUpdateRateLimits p then UpdateRateLimitUsage bx (k_ID k) (cb_ActualCost c) else ret (Inr ()));
        _ \<leftarrow> (if shouldUpdateAccountQuota p
             then IncrementQuotaUsed bx (ga_ID (pp_Account p)) (fmul (cb_TotalCost c) (pp_AccountRateMultiplier p)) else ret (Inr ()));
        ret ()
      })"

definition applyUsageBilling :: "usage_services \<Rightarrow> billing_ext \<Rightarrow> string \<Rightarrow> usage_log \<Rightarrow> post_usage_billing_params \<Rightarrow> bool beprog" where
  "applyUsageBilling sv bx requestID l p =
     (let cmd = buildUsageBillingCommand requestID l p; key = k_Key (gk_Key (pp_APIKey p))
      in if uc_RequestID cmd = [] \<or> \<not> sv_billingRepo sv then do { _ \<leftarrow> postUsageBilling bx p; ret (Inr True) }
         else bindE (Apply bx (Some cmd)) (\<lambda>e. e) (\<lambda>r.
           if \<not> ua_Applied r then do { _ \<leftarrow> call (ScheduleLastUsedUpdate (ga_ID (pp_Account p))); ret (Inr False) }
           else do {
             _ \<leftarrow> (if ua_APIKeyQuotaExhausted r \<and> pp_APIKeyService p \<and> key \<noteq> [] then call (InvalidateAuthCacheByKey key) else ret ());
             _ \<leftarrow> finalizePostUsageBilling sv p r;
             ret (Inr True)
           }))"

section \<open>The usage log\<close>

definition optionalTrimmedStringPtr :: "string \<Rightarrow> string option" where
  "optionalTrimmedStringPtr s = (if trimSpace s = [] then None else Some (trimSpace s))"

definition optionalNonEqualStringPtr :: "string \<Rightarrow> string \<Rightarrow> string option" where
  "optionalNonEqualStringPtr value compare = (if value = [] \<or> value = compare then None else Some value)"

definition optionalInt64Ptr :: "int \<Rightarrow> int option" where
  "optionalInt64Ptr v = (if v = 0 then None else Some v)"

definition resolveBillingMode :: "forward_result \<Rightarrow> cost_breakdown \<Rightarrow> string" where
  "resolveBillingMode r c =
     (if cb_BillingMode c \<noteq> [] then cb_BillingMode c else if 0 < fr_ImageCount r then BillingModeImage else BillingModeToken)"

definition buildRecordUsageLog ::
  "record_usage_input \<Rightarrow> forward_result \<Rightarrow> string \<Rightarrow> string \<Rightarrow> f64 \<Rightarrow> f64 \<Rightarrow> int \<Rightarrow> bool \<Rightarrow> cost_breakdown \<Rightarrow> instant \<Rightarrow> usage_log" where
  "buildRecordUsageLog i r requestID requestedModel rate accountRate billingType ttlOverridden c now =
     \<lparr>ul_UserID = u_ID (ru_User i), ul_APIKeyID = k_ID (gk_Key (ru_APIKey i)), ul_AccountID = ga_ID (ru_Account i), ul_RequestID = requestID,
      ul_Model = fr_Model r, ul_RequestedModel = requestedModel, ul_UpstreamModel = optionalNonEqualStringPtr (fr_UpstreamModel r) (fr_Model r),
      ul_ChannelID = optionalInt64Ptr (cf_ChannelID (ru_Channel i)), ul_ModelMappingChain = optionalTrimmedStringPtr (cf_ModelMappingChain (ru_Channel i)),
      ul_BillingMode = Some (resolveBillingMode r c), ul_ServiceTier = None, ul_ReasoningEffort = fr_ReasoningEffort r,
      ul_InboundEndpoint = optionalTrimmedStringPtr (ru_InboundEndpoint i), ul_UpstreamEndpoint = optionalTrimmedStringPtr (ru_UpstreamEndpoint i),
      ul_GroupID = k_GroupID (gk_Key (ru_APIKey i)), ul_SubscriptionID = map_option us_ID (ru_Subscription i), ul_Tokens = fr_Usage r,
      ul_Cost = c\<lparr>cb_BillingMode := []\<rparr>, ul_RateMultiplier = rate, ul_AccountRateMultiplier = Some accountRate, ul_AccountStatsCost = None,
      ul_BillingType = billingType, ul_Stream = fr_Stream r, ul_DurationMs = Some (fr_Duration r div 1000000), ul_FirstTokenMs = fr_FirstTokenMs r,
      ul_UserAgent = optionalTrimmedStringPtr (ru_UserAgent i), ul_IPAddress = optionalTrimmedStringPtr (ru_IPAddress i),
      ul_CacheTTLOverridden = ttlOverridden, ul_ImageCount = fr_ImageCount r, ul_ImageSize = optionalTrimmedStringPtr (fr_ImageSize r),
      ul_CreatedAt = now\<rparr>"

text \<open>\<open>INSERT ... ON CONFLICT (request_id, api_key_id) DO NOTHING\<close>.\<close>

definition insertUsageLog :: "usage_log \<Rightarrow> billing_db \<Rightarrow> (go_err + unit) \<times> billing_db" where
  "insertUsageLog l d =
     (Inr (), if list_ex (\<lambda>x. ul_RequestID x = ul_RequestID l \<and> ul_APIKeyID x = ul_APIKeyID l) (bd_logs d) then d else d\<lparr>bd_logs := bd_logs d @ [l]\<rparr>)"

text \<open>A full queue drops the row; another failure is followed by one more attempt.\<close>

definition writeUsageLogBestEffort :: "usage_services \<Rightarrow> usage_log \<Rightarrow> unit bprog" where
  "writeUsageLogBestEffort sv l =
     (if sv_logQueueFull sv then ret ()
      else do {
        r \<leftarrow> exec (insertUsageLog l);
        case r of Inr _ \<Rightarrow> ret () | Inl _ \<Rightarrow> do { _ \<leftarrow> exec (insertUsageLog l); ret () }
      })"

section \<open>Recording\<close>

text \<open>A computation on the prices in memory.\<close>

definition onPrices :: "'a bp \<Rightarrow> 'a bprog" where
  "onPrices m = State (\<lambda>w. case run_state m (bd_prices (db w)) of (a, s) \<Rightarrow> (a, w\<lparr>db := (db w)\<lparr>bd_prices := s\<rparr>\<rparr>))"

definition accountStatsCost :: "usage_services \<Rightarrow> record_usage_input \<Rightarrow> forward_result \<Rightarrow> cost_breakdown \<Rightarrow> f64 option bp" where
  "accountStatsCost sv i r c =
     (case k_GroupID (gk_Key (ru_APIKey i)) of
        None \<Rightarrow> bret None
      | Some g \<Rightarrow>
          resolveAccountStatsCost (sv_prices sv) (sv_groupChannel sv g) (sv_groupPlatform sv g) (ga_ID (ru_Account i)) g
            (if fr_UpstreamModel r = [] then fr_Model r else fr_UpstreamModel r)
            ((fr_Usage r)\<lparr>ut_CacheCreation5mTokens := 0, ut_CacheCreation1hTokens := 0\<rparr>) 1 (cb_TotalCost c))"

definition isSubscriptionBilling :: "record_usage_input \<Rightarrow> bool" where
  "isSubscriptionBilling i \<longleftrightarrow> ru_Subscription i \<noteq> None \<and>
     (case gk_Group (ru_APIKey i) of None \<Rightarrow> False | Some g \<Rightarrow> rg_SubscriptionType g = ''subscription'')"

definition billingParams :: "request_context option \<Rightarrow> record_usage_input \<Rightarrow> cost_breakdown \<Rightarrow> post_usage_billing_params" where
  "billingParams ctx i c = \<lparr>pp_Cost = c, pp_User = ru_User i, pp_APIKey = ru_APIKey i, pp_Account = ru_Account i, pp_Subscription = ru_Subscription i,
     pp_RequestPayloadHash = resolveUsageBillingPayloadFingerprint ctx (ru_RequestPayloadHash i), pp_IsSubscriptionBill = isSubscriptionBilling i,
     pp_AccountRateMultiplier = BillingRateMultiplier (ru_Account i), pp_APIKeyService = ru_APIKeyService i\<rparr>"

text \<open>\<open>generated\<close> is the id \<open>generateRequestID\<close> would give.\<close>

definition recordUsageCore ::
  "usage_services \<Rightarrow> billing_ext \<Rightarrow> request_context option \<Rightarrow> string \<Rightarrow> record_usage_input \<Rightarrow> int \<Rightarrow> f64 \<Rightarrow> unit beprog" where
  "recordUsageCore sv bx ctx generated i threshold extra =
     (let (tokens, overridden) = billedTokens i;
          r = (ru_Result i)\<lparr>fr_Usage := tokens\<rparr>;
          rate = usageMultiplier sv i;
          requested = (if cf_OriginalModel (ru_Channel i) \<noteq> [] then cf_OriginalModel (ru_Channel i) else fr_Model r);
          requestID = resolveUsageBillingRequestID ctx (fr_RequestID r) generated;
          billingType = (if isSubscriptionBilling i then BillingTypeSubscription else BillingTypeBalance)
      in do {
        c \<leftarrow> onPrices (calculateRecordUsageCost sv r (ru_APIKey i) (usageBillingModel i) rate threshold extra);
        now \<leftarrow> timeNow;
        stats \<leftarrow> onPrices (accountStatsCost sv i r c);
        let l = (buildRecordUsageLog i r requestID requested rate (BillingRateMultiplier (ru_Account i)) billingType overridden c now)
                  \<lparr>ul_AccountStatsCost := stats\<rparr>;
        if sv_SimpleMode sv then do {
          _ \<leftarrow> writeUsageLogBestEffort sv l;
          _ \<leftarrow> call (ScheduleLastUsedUpdate (ga_ID (ru_Account i)));
          ret (Inr ())
        } else do {
          b \<leftarrow> applyUsageBilling sv bx requestID l (billingParams ctx i c);
          case b of
            Inl e \<Rightarrow> ret (Inl e)
          | Inr _ \<Rightarrow> do { _ \<leftarrow> writeUsageLogBestEffort sv l; ret (Inr ()) }
        }
      })"

definition RecordUsage :: "usage_services \<Rightarrow> billing_ext \<Rightarrow> request_context option \<Rightarrow> string \<Rightarrow> record_usage_input \<Rightarrow> unit beprog" where
  "RecordUsage sv bx ctx generated i = recordUsageCore sv bx ctx generated i 0 fzero"

definition RecordUsageWithLongContext ::
  "usage_services \<Rightarrow> billing_ext \<Rightarrow> request_context option \<Rightarrow> string \<Rightarrow> record_usage_input \<Rightarrow> int \<Rightarrow> f64 \<Rightarrow> unit beprog" where
  "RecordUsageWithLongContext sv bx ctx generated i threshold extra = recordUsageCore sv bx ctx generated i threshold extra"

end
