(* ===== verification/Usage_Ledger.thy ===== *)
theory Usage_Ledger
  imports Usage_Billing Samples
begin

text \<open>
  What \<open>Usage_Billing\<close> promises: a ledger that charges every request once. The ledger knows, for each pair of a request id and an API
  key, the fingerprint under which it was charged; the two tables of claims implement it, and moving rows to the archive does
  not show.
\<close>

section \<open>Bodies\<close>

lemma txRun_ret [simp]: "txRun (State_Monad.return r) d = (r, d)"
  by (simp add: txRun_def)

lemma txRun_stmt [simp]: "txRun (stmt f) d = f d"
  by (simp add: txRun_def)

lemma txRun_then:
  assumes "lossless m"
  shows "txRun (txthen m f) d = (case txRun m d of (Inl e, d') \<Rightarrow> (Inl e, d') | (Inr a, d') \<Rightarrow> txRun (f a) d')"
proof -
  obtain r d' k where r: "run_state m (d, None) = (r, (d', k))" by (metis prod.exhaust_sel)
  then have "k = None" using assms unfolding lossless_def by (metis snd_conv)
  then show ?thesis using r by (cases r) (simp_all add: txRun_def run_txthen)
qed

lemmas bill_defs = billSubscription_def billBalance_def billKeyQuota_def billKeyWindows_def billAccount_def

lemma lossless_claim: "lossless (claimUsageBillingKey now c)"
  unfolding claimUsageBillingKey_def Let_def by (intro lossless_rules)

lemma lossless_quota: "lossless (incrementUsageBillingAccountQuota bx now i amount)"
  unfolding incrementUsageBillingAccountQuota_def by (intro lossless_rules)

lemma lossless_effects: "lossless (applyUsageBillingEffects bx now c r)"
  unfolding applyUsageBillingEffects_def bill_defs by (intro lossless_rules lossless_quota)

lemma lossless_apply: "lossless (applyBody bx now c)"
  unfolding applyBody_def by (intro lossless_rules lossless_claim lossless_effects)

text \<open>The charges neither read nor write the claims.\<close>

definition withClaims :: "dedup_row list \<Rightarrow> dedup_row list \<Rightarrow> billing_db \<Rightarrow> billing_db" where
  "withClaims a b d = d\<lparr>bd_dedup := a, bd_archive := b\<rparr>"

definition ignoresClaims :: "'a btx \<Rightarrow> bool" where
  "ignoresClaims m \<longleftrightarrow> lossless m \<and> (\<forall>a b d. txRun m (withClaims a b d) = apsnd (withClaims a b) (txRun m d)) \<and>
     (\<forall>d. bd_dedup (snd (txRun m d)) = bd_dedup d \<and> bd_archive (snd (txRun m d)) = bd_archive d)"

lemma ignores_ret: "ignoresClaims (State_Monad.return r)"
  by (simp add: ignoresClaims_def lossless_ret)

lemma ignores_then:
  assumes m: "ignoresClaims m" and f: "\<And>a. ignoresClaims (f a)"
  shows "ignoresClaims (txthen m f)"
proof -
  have l: "lossless m" using m by (simp add: ignoresClaims_def)
  have "txRun (txthen m f) (withClaims a b d) = apsnd (withClaims a b) (txRun (txthen m f) d)" for a b d
    using m f by (auto simp: txRun_then [OF l] ignoresClaims_def split: prod.split sum.split)
  moreover have "bd_dedup (snd (txRun (txthen m f) d)) = bd_dedup d \<and> bd_archive (snd (txRun (txthen m f) d)) = bd_archive d" for d
  proof -
    obtain r d' where r: "txRun m d = (r, d')" by fastforce
    then have "bd_dedup d' = bd_dedup d" "bd_archive d' = bd_archive d" using m by (auto simp: ignoresClaims_def dest: spec [of _ d])
    then show ?thesis using r f by (cases r) (simp_all add: txRun_then [OF l] ignoresClaims_def)
  qed
  ultimately show ?thesis using m f by (auto simp: ignoresClaims_def intro: lossless_then)
qed

lemma ignores_if: "(b \<Longrightarrow> ignoresClaims m) \<Longrightarrow> (\<not> b \<Longrightarrow> ignoresClaims n) \<Longrightarrow> ignoresClaims (if b then m else n)"
  by simp

lemma ignores_option: "(r = None \<Longrightarrow> ignoresClaims m) \<Longrightarrow> (\<And>a. r = Some a \<Longrightarrow> ignoresClaims (g a)) \<Longrightarrow>
    ignoresClaims (case r of None \<Rightarrow> m | Some a \<Rightarrow> g a)"
  by (cases r) auto

lemma ignores_onStore: "ignoresClaims (stmt (onStore f))"
  by (auto simp: ignoresClaims_def lossless_stmt onStore_def withClaims_def split: prod.split)

lemma ignores_keyQuota: "ignoresClaims (stmt (incrementUsageBillingAPIKeyQuota bx now i a))"
  by (auto simp: ignoresClaims_def lossless_stmt incrementUsageBillingAPIKeyQuota_def withClaims_def Let_def split: option.split)

lemma ignores_keyRate: "ignoresClaims (stmt (incrementUsageBillingAPIKeyRateLimit bx now i a))"
  by (auto simp: ignoresClaims_def lossless_stmt incrementUsageBillingAPIKeyRateLimit_def withClaims_def)

lemma ignores_accountQuota: "ignoresClaims (stmt (updateAccountQuota bx now i a))"
  by (auto simp: ignoresClaims_def lossless_stmt updateAccountQuota_def withClaims_def split: option.split sum.split)

lemma ignores_outbox: "ignoresClaims (stmt (enqueueSchedulerOutbox now i))"
  by (auto simp: ignoresClaims_def lossless_stmt enqueueSchedulerOutbox_def withClaims_def)

lemmas ignores_rules = ignores_ret ignores_then ignores_if ignores_option ignores_onStore ignores_keyQuota ignores_keyRate
  ignores_accountQuota ignores_outbox

lemma ignores_effects: "ignoresClaims (applyUsageBillingEffects bx now c r)"
  unfolding applyUsageBillingEffects_def bill_defs incrementUsageBillingAccountQuota_def by (intro ignores_rules)

section \<open>The ledger\<close>

type_synonym request_key = "string \<times> int"

record ledger =
  lg_billed :: "request_key \<Rightarrow> string option"
  lg_tables :: billing_db

abbreviation requestKey :: "usage_billing_command \<Rightarrow> request_key" where
  "requestKey c \<equiv> (uc_RequestID c, uc_APIKeyID c)"

definition billOnce :: "billing_ext \<Rightarrow> instant \<Rightarrow> usage_billing_command \<Rightarrow> ledger \<Rightarrow> (go_err + usage_billing_result) \<times> ledger" where
  "billOnce bx now c l =
     (case lg_billed l (requestKey c) of
        Some fp \<Rightarrow> (if trimSpace fp = trimSpace (uc_RequestFingerprint c) then Inr noUsageResult else Inl ErrUsageBillingRequestConflict, l)
      | None \<Rightarrow>
          (case txRun (applyUsageBillingEffects bx now c (noUsageResult\<lparr>ua_Applied := True\<rparr>)) (lg_tables l) of
             (Inl e, _) \<Rightarrow> (Inl e, l)
           | (Inr r, d) \<Rightarrow> (Inr r, \<lparr>lg_billed = (lg_billed l)(requestKey c \<mapsto> uc_RequestFingerprint c), lg_tables = d\<rparr>)))"

definition billedUnder :: "billing_db \<Rightarrow> request_key \<Rightarrow> string option" where
  "billedUnder d k = map_option dr_Fingerprint (dedupRow (fst k) (snd k) (bd_dedup d @ bd_archive d))"

definition ledgerOf :: "billing_db \<Rightarrow> ledger" where
  "ledgerOf d = \<lparr>lg_billed = billedUnder d, lg_tables = withClaims [] [] d\<rparr>"

text \<open>A command that fits the columns of the table.\<close>

definition fitsColumns :: "usage_billing_command \<Rightarrow> bool" where
  "fitsColumns c \<longleftrightarrow> charCount (uc_RequestID c) \<le> 255 \<and> charCount (uc_RequestFingerprint c) \<le> 64"

lemma dedupRow_append: "dedupRow i k (xs @ ys) = (case dedupRow i k xs of None \<Rightarrow> dedupRow i k ys | Some r \<Rightarrow> Some r)"
  by (induction xs) (auto simp: dedupRow_def)

lemma dedupRow_None: "dedupRow i k xs = None \<longleftrightarrow> (\<forall>r \<in> set xs. (dr_RequestID r, dr_APIKeyID r) \<noteq> (i, k))"
  by (auto simp: dedupRow_def find_None_iff)

lemma dedupRow_Cons: "dedupRow i k (r # rs) = (if dr_RequestID r = i \<and> dr_APIKeyID r = k then Some r else dedupRow i k rs)"
  by (simp add: dedupRow_def)

text \<open>The claim, seen from the ledger.\<close>

lemma claim_cases:
  assumes "fitsColumns c"
  shows "case billedUnder d (requestKey c) of
      Some fp \<Rightarrow> (\<exists>d'. txRun (claimUsageBillingKey now c) d =
        (if trimSpace fp = trimSpace (uc_RequestFingerprint c) then Inr False else Inl ErrUsageBillingRequestConflict, d'))
    | None \<Rightarrow> txRun (claimUsageBillingKey now c) d = (Inr True, d\<lparr>bd_dedup := bd_dedup d @ [\<lparr>dr_RequestID = uc_RequestID c,
        dr_APIKeyID = uc_APIKeyID c, dr_Fingerprint = uc_RequestFingerprint c, dr_CreatedAt = now\<rparr>]\<rparr>)"
  using assms
  by (auto simp: claimUsageBillingKey_def Let_def txRun_then [OF lossless_stmt] insertDedup_def readFingerprint_def billedUnder_def
      dedupRow_append fitsColumns_def split: option.splits)

text \<open>The body of the transaction implements the ledger.\<close>

lemma body_refines:
  assumes fits: "fitsColumns c"
  shows "case txRun (applyBody bx now c) d of
      (Inl e, _) \<Rightarrow> billOnce bx now c (ledgerOf d) = (Inl e, ledgerOf d)
    | (Inr (r, commit), d') \<Rightarrow> billOnce bx now c (ledgerOf d) = (Inr r, ledgerOf (if commit then d' else d))"
proof (cases "billedUnder d (requestKey c)")
  case (Some fp)
  then show ?thesis using claim_cases [OF fits, where d = d and now = now]
    by (auto simp: applyBody_def txRun_then [OF lossless_claim] billOnce_def ledgerOf_def split: if_splits)
next
  case None
  let ?r0 = "noUsageResult\<lparr>ua_Applied := True\<rparr>"
  let ?row = "\<lparr>dr_RequestID = uc_RequestID c, dr_APIKeyID = uc_APIKeyID c, dr_Fingerprint = uc_RequestFingerprint c, dr_CreatedAt = now\<rparr>"
  let ?d1 = "d\<lparr>bd_dedup := bd_dedup d @ [?row]\<rparr>"
  obtain r d2 where e: "txRun (applyUsageBillingEffects bx now c ?r0) d = (r, d2)" by fastforce
  have ig: "ignoresClaims (applyUsageBillingEffects bx now c ?r0)" by (rule ignores_effects)
  have *: "txRun (applyUsageBillingEffects bx now c ?r0) (withClaims x y d) = (r, withClaims x y d2)" for x y
    using ig e by (simp add: ignoresClaims_def)
  have "?d1 = withClaims (bd_dedup d @ [?row]) (bd_archive d) d" by (simp add: withClaims_def)
  then have e1: "txRun (applyUsageBillingEffects bx now c ?r0) ?d1 = (r, withClaims (bd_dedup d @ [?row]) (bd_archive d) d2)"
    using * by simp
  have claim: "txRun (claimUsageBillingKey now c) d = (Inr True, ?d1)" using claim_cases [OF fits, where d = d and now = now] None by simp
  have "billedUnder (withClaims (bd_dedup d @ [?row]) (bd_archive d) d2) = (billedUnder d)(requestKey c \<mapsto> uc_RequestFingerprint c)"
  proof
    fix k show "billedUnder (withClaims (bd_dedup d @ [?row]) (bd_archive d) d2) k = ((billedUnder d)(requestKey c \<mapsto> uc_RequestFingerprint c)) k"
      using None by (cases k) (auto simp: billedUnder_def withClaims_def dedupRow_append dedupRow_Cons split: option.splits)
  qed
  then show ?thesis using None e1 claim * [of "[]" "[]"]
    by (cases r) (auto simp: applyBody_def txRun_then [OF lossless_claim] txRun_then [OF lossless_effects] billOnce_def ledgerOf_def withClaims_def)
qed

section \<open>Refinement\<close>

text \<open>The tables a transaction sees: those left by what others did just before it.\<close>

definition seenBy :: "'d world \<Rightarrow> 'd" where
  "seenBy w = (case script w of [] \<Rightarrow> db w | t # ts \<Rightarrow> interfere t (db w))"

text \<open>C3. \<open>Apply\<close> implements a ledger that charges each request once. Whatever other processes do and wherever the connection breaks, one
  call of \<open>Apply\<close> behaves like one step of the ledger on the tables it finds: either it answers as the ledger does and leaves
  the ledger's new state, or it reports an error and has made that step or none at all.\<close>

theorem Apply_refines_ledger:
  assumes "uc_RequestID (Normalize c) \<noteq> []" "fitsColumns (Normalize c)"
    and "run_state (Apply bx (Some c)) w = (r, w')"
  shows "\<exists>now. case billOnce bx now (Normalize c) (ledgerOf (seenBy w)) of (r0, l) \<Rightarrow>
      r = r0 \<and> ledgerOf (db w') = l \<or> (\<exists>e. r = Inl e) \<and> ledgerOf (db w') \<in> {ledgerOf (seenBy w), l}"
proof -
  let ?c = "Normalize c"
  obtain now w1 where now: "run_state timeNow w = (now, w1)" by fastforce
  have w1: "script w1 = script w" "db w1 = db w" using now by (auto simp: timeNow_def split: list.splits)
  have run: "run_state (inTransaction (applyBody bx now ?c)) w1 = (r, w')"
    using assms(1,3) now by (simp add: Apply_def Let_def)
  have seen: "(case script w1 of [] \<Rightarrow> db w1 | t # ts \<Rightarrow> interfere t (db w1)) = seenBy w"
    by (simp add: seenBy_def w1 split: list.split)
  have "\<exists>d0. d0 = seenBy w \<and> ((\<exists>e. r = Inl e \<and> db w' = d0) \<or>
     (\<exists>a d. txRun (applyBody bx now ?c) d0 = (Inr (a, False), d) \<and> r = Inr a \<and> db w' = d0) \<or>
     (\<exists>a d. txRun (applyBody bx now ?c) d0 = (Inr (a, True), d) \<and> r \<in> {Inr a, Inl ConnErr} \<and> db w' = d))"
    by (rule transaction_cases [OF run lossless_apply]) (simp add: seen)
  then show ?thesis using body_refines [OF assms(2), where bx = bx and now = now and d = "seenBy w"]
    by (intro exI [of _ now]) (elim exE conjE disjE, auto split: prod.split)
qed

section \<open>Once\<close>

text \<open>No request is in both tables, or twice in the first one (its unique index).\<close>

definition claimsOk :: "billing_db \<Rightarrow> bool" where
  "claimsOk d \<longleftrightarrow> distinct (map (\<lambda>r. (dr_RequestID r, dr_APIKeyID r)) (bd_dedup d)) \<and>
     (\<forall>r \<in> set (bd_dedup d). dedupRow (dr_RequestID r) (dr_APIKeyID r) (bd_archive d) = None)"

lemma fold_archive:
  assumes "distinct (map (\<lambda>r. (dr_RequestID r, dr_APIKeyID r)) vs)" "\<forall>r \<in> set vs. dedupRow (dr_RequestID r) (dr_APIKeyID r) rows = None"
  shows "fold archiveRow vs rows = rows @ vs"
  using assms
proof (induction vs arbitrary: rows)
  case (Cons v vs)
  then have "archiveRow v rows = rows @ [v]" by (simp add: archiveRow_def)
  moreover have "\<forall>r \<in> set vs. dedupRow (dr_RequestID r) (dr_APIKeyID r) (rows @ [v]) = None"
    using Cons.prems by (fastforce simp: dedupRow_None image_iff)
  ultimately show ?case using Cons by simp
qed simp

text \<open>Moving rows to the archive does not show in the ledger.\<close>

lemma archive_hidden:
  assumes ok: "claimsOk d" and vs: "distinct vs" "set vs \<subseteq> set (bd_dedup d)"
  shows "ledgerOf (archiveRows vs d) = ledgerOf d" "claimsOk (archiveRows vs d)"
proof -
  let ?key = "\<lambda>r. (dr_RequestID r, dr_APIKeyID r)"
  let ?rest = "filter (\<lambda>r. r \<notin> set vs) (bd_dedup d)"
  have inj: "inj_on ?key (set (bd_dedup d))" using ok by (simp add: claimsOk_def distinct_map)
  have d: "distinct (map ?key vs)" using vs inj by (auto simp: distinct_map intro: inj_on_subset)
  have arch: "fold archiveRow vs (bd_archive d) = bd_archive d @ vs"
    using ok vs(2) d by (intro fold_archive) (auto simp: claimsOk_def)
  have one: "r = r'" if "r \<in> set (bd_dedup d)" "r' \<in> set (bd_dedup d)" "?key r = ?key r'" for r r'
    using inj that by (auto simp: inj_on_def)
  have row: "dedupRow i k rows = Some r \<longleftrightarrow> r \<in> set rows \<and> ?key r = (i, k)"
    if "\<And>r r'. r \<in> set rows \<Longrightarrow> r' \<in> set rows \<Longrightarrow> ?key r = ?key r' \<Longrightarrow> r = r'" for i k rows r
    using that by (induction rows) (auto simp: dedupRow_def)
  have "dedupRow i k (?rest @ bd_archive d @ vs) = dedupRow i k (bd_dedup d @ bd_archive d)" for i k
  proof (cases "dedupRow i k (bd_dedup d)")
    case None
    then have "dedupRow i k ?rest = None" "dedupRow i k vs = None" using vs(2) by (auto simp: dedupRow_None)
    then show ?thesis using None by (simp add: dedupRow_append split: option.split)
  next
    case (Some r)
    then have r: "r \<in> set (bd_dedup d)" "?key r = (i, k)" using row [of "bd_dedup d"] one by auto
    then have a: "dedupRow i k (bd_archive d) = None" using ok by (auto simp: claimsOk_def)
    have "dedupRow i k ?rest = Some r \<or> dedupRow i k ?rest = None \<and> dedupRow i k vs = Some r"
    proof (cases "r \<in> set vs")
      case True
      then have "dedupRow i k vs = Some r" using row [of vs] one vs(2) r(2) by blast
      moreover have "dedupRow i k ?rest = None" using one r True by (auto simp: dedupRow_None)
      ultimately show ?thesis by simp
    next
      case False
      then have "dedupRow i k ?rest = Some r" using row [of ?rest] one r by auto
      then show ?thesis by simp
    qed
    then show ?thesis using Some a by (auto simp: dedupRow_append)
  qed
  then show "ledgerOf (archiveRows vs d) = ledgerOf d"
    by (auto simp: ledgerOf_def archiveRows_def arch billedUnder_def withClaims_def)
  show "claimsOk (archiveRows vs d)" using ok one vs(2) unfolding claimsOk_def archiveRows_def arch
    by (fastforce simp: distinct_map dedupRow_None inj_on_def)
qed

text \<open>What a charge does to users and subscriptions.\<close>

definition chargeStore :: "billing_ext \<Rightarrow> usage_billing_command \<Rightarrow> store \<Rightarrow> store" where
  "chargeStore bx c s =
     (let s1 = (case uc_SubscriptionID c of
                  Some i \<Rightarrow> if flt fzero (uc_SubscriptionCost c) then snd (incrementUsageBillingSubscription bx i (uc_SubscriptionCost c) s) else s
                | None \<Rightarrow> s)
      in if flt fzero (uc_BalanceCost c) then snd (deductUsageBillingBalance bx (uc_UserID c) (uc_BalanceCost c) s1) else s1)"

lemma onStore_bd_store [simp]: "bd_store (snd (onStore f d)) = snd (f (bd_store d))" "fst (onStore f d) = fst (f (bd_store d))"
  by (simp_all add: onStore_def split: prod.split)

text \<open>A body that leaves users and subscriptions alone.\<close>

definition sparesStore :: "'a btx \<Rightarrow> bool" where
  "sparesStore m \<longleftrightarrow> lossless m \<and> (\<forall>d. bd_store (snd (txRun m d)) = bd_store d)"

lemma spares_then: "sparesStore m \<Longrightarrow> (\<And>a. sparesStore (f a)) \<Longrightarrow> sparesStore (txthen m f)"
  by (auto simp: sparesStore_def txRun_then lossless_then split: prod.splits sum.splits) (metis snd_conv)+

lemma spares_ret: "sparesStore (State_Monad.return r)"
  by (simp add: sparesStore_def lossless_ret)

lemma spares_if: "(b \<Longrightarrow> sparesStore m) \<Longrightarrow> (\<not> b \<Longrightarrow> sparesStore n) \<Longrightarrow> sparesStore (if b then m else n)"
  by simp

lemma spares_option: "(r = None \<Longrightarrow> sparesStore m) \<Longrightarrow> (\<And>a. r = Some a \<Longrightarrow> sparesStore (g a)) \<Longrightarrow> sparesStore (case r of None \<Rightarrow> m | Some a \<Rightarrow> g a)"
  by (cases r) auto

lemma spares_stmts:
  "sparesStore (stmt (incrementUsageBillingAPIKeyQuota bx now i a))" "sparesStore (stmt (incrementUsageBillingAPIKeyRateLimit bx now i a))"
  "sparesStore (stmt (updateAccountQuota bx now i a))" "sparesStore (stmt (enqueueSchedulerOutbox now i))"
  by (auto simp: sparesStore_def lossless_stmt incrementUsageBillingAPIKeyQuota_def incrementUsageBillingAPIKeyRateLimit_def updateAccountQuota_def
      enqueueSchedulerOutbox_def Let_def split: option.split sum.split)

lemmas spares_rules = spares_then spares_ret spares_if spares_option spares_stmts

lemma lossless_parts: "lossless (billSubscription bx c)" "lossless (billBalance bx c r)"
  unfolding bill_defs by (intro lossless_rules)+

lemma billSubscription_store:
  "txRun (billSubscription bx c) d = (Inr u, d') \<Longrightarrow> bd_store d' = (case uc_SubscriptionID c of
      Some i \<Rightarrow> if flt fzero (uc_SubscriptionCost c) then snd (incrementUsageBillingSubscription bx i (uc_SubscriptionCost c) (bd_store d)) else bd_store d
    | None \<Rightarrow> bd_store d)"
  by (auto simp: billSubscription_def onStore_def split: option.splits if_splits prod.splits)

lemma billBalance_store:
  "txRun (billBalance bx c r) d = (Inr r', d') \<Longrightarrow> bd_store d' = (if flt fzero (uc_BalanceCost c)
      then snd (deductUsageBillingBalance bx (uc_UserID c) (uc_BalanceCost c) (bd_store d)) else bd_store d)"
  by (auto simp: billBalance_def txRun_then [OF lossless_stmt] onStore_def split: if_splits prod.splits sum.splits)

lemma spares_rest: "sparesStore (txthen (billKeyQuota bx now c r) (\<lambda>r2. txthen (billKeyWindows bx now c) (\<lambda>_. billAccount bx now c r2)))"
  unfolding bill_defs incrementUsageBillingAccountQuota_def by (intro spares_rules)

lemma txRun_thenD:
  assumes "lossless m" "txRun (txthen m f) d = (Inr b, d')"
  obtains a d1 where "txRun m d = (Inr a, d1)" "txRun (f a) d1 = (Inr b, d')"
  using assms by (auto simp: txRun_then split: prod.splits sum.splits)

lemma effects_store:
  assumes "txRun (applyUsageBillingEffects bx now c r0) d = (Inr r, d')"
  shows "bd_store d' = chargeStore bx c (bd_store d)"
proof -
  obtain u d1 r1 d2 where 1: "txRun (billSubscription bx c) d = (Inr u, d1)" "txRun (billBalance bx c r0) d1 = (Inr r1, d2)"
    and rest: "txRun (txthen (billKeyQuota bx now c r1) (\<lambda>r2. txthen (billKeyWindows bx now c) (\<lambda>_. billAccount bx now c r2))) d2 = (Inr r, d')"
    using assms unfolding applyUsageBillingEffects_def by (elim txRun_thenD [OF lossless_parts(1)] txRun_thenD [OF lossless_parts(2)])
  have "bd_store d' = bd_store d2" using spares_rest rest unfolding sparesStore_def by (metis snd_conv)
  then show ?thesis using billSubscription_store [OF 1(1)] billBalance_store [OF 1(2)] by (simp add: chargeStore_def Let_def)
qed

text \<open>A transaction that commits: it fits the columns, claims a request that was not charged, and charges it.\<close>

lemma commit_charges:
  assumes "txRun (applyBody bx now c) d = (Inr (r, True), d')"
  shows "billedUnder d (requestKey c) = None" "billedUnder d' = (billedUnder d)(requestKey c \<mapsto> uc_RequestFingerprint c)"
    "bd_store d' = chargeStore bx c (bd_store d)" "claimsOk d \<Longrightarrow> claimsOk d'"
proof -
  let ?row = "\<lparr>dr_RequestID = uc_RequestID c, dr_APIKeyID = uc_APIKeyID c, dr_Fingerprint = uc_RequestFingerprint c, dr_CreatedAt = now\<rparr>"
  obtain a d1 where claim: "txRun (claimUsageBillingKey now c) d = (Inr a, d1)"
    and eff: "txRun (if \<not> a then txret (noUsageResult, False)
       else txthen (applyUsageBillingEffects bx now c (noUsageResult\<lparr>ua_Applied := True\<rparr>)) (\<lambda>r. txret (r, True))) d1 = (Inr (r, True), d')"
    using assms unfolding applyBody_def by (elim txRun_thenD [OF lossless_claim])
  have a: "a" using eff by (cases a) auto
  have fits: "fitsColumns c"
    using claim by (auto simp: claimUsageBillingKey_def Let_def txRun_then [OF lossless_stmt] insertDedup_def fitsColumns_def split: if_splits)
  have None: "billedUnder d (requestKey c) = None" "d1 = d\<lparr>bd_dedup := bd_dedup d @ [?row]\<rparr>"
    using claim a claim_cases [OF fits, where d = d and now = now] by (auto split: option.splits if_splits)
  have "txRun (applyUsageBillingEffects bx now c (noUsageResult\<lparr>ua_Applied := True\<rparr>)) d1 = (Inr r, d')"
    using eff a by (auto simp: txRun_then [OF lossless_effects] split: prod.splits sum.splits)
  note eff = this
  have claims: "bd_dedup d' = bd_dedup d @ [?row]" "bd_archive d' = bd_archive d"
    using ignores_effects eff None(2) unfolding ignoresClaims_def by (metis snd_conv billing_db.select_convs(4,5) billing_db.surjective billing_db.update_convs(4))+
  show "billedUnder d (requestKey c) = None" by (rule None)
  show "billedUnder d' = (billedUnder d)(requestKey c \<mapsto> uc_RequestFingerprint c)"
  proof
    fix k show "billedUnder d' k = ((billedUnder d)(requestKey c \<mapsto> uc_RequestFingerprint c)) k"
      using None by (cases k) (auto simp: billedUnder_def claims dedupRow_append dedupRow_Cons split: option.splits)
  qed
  show "bd_store d' = chargeStore bx c (bd_store d)" using effects_store [OF eff] None(2) by simp
  show "claimsOk d'" if "claimsOk d"
    using that None(1) unfolding claimsOk_def claims
    by (auto simp: billedUnder_def dedupRow_append dedupRow_None split: option.splits)
qed

text \<open>What happens to the tables over time: charges, by any process, and rows that move to the archive.\<close>

inductive billing_run :: "billing_ext \<Rightarrow> billing_db \<Rightarrow> usage_billing_command list \<Rightarrow> billing_db \<Rightarrow> bool" for bx d where
  start: "billing_run bx d [] d"
| charge: "billing_run bx d cs d' \<Longrightarrow> txRun (applyBody bx now c) d' = (Inr (r, True), d'') \<Longrightarrow> billing_run bx d (cs @ [c]) d''"
| archive: "billing_run bx d cs d' \<Longrightarrow> distinct vs \<Longrightarrow> set vs \<subseteq> set (bd_dedup d') \<Longrightarrow> billing_run bx d cs (archiveRows vs d')"

lemma billing_run_append:
  assumes "billing_run bx b cs' c" "billing_run bx a cs b"
  shows "billing_run bx a (cs @ cs') c"
  using assms
proof (induction rule: billing_run.induct)
  case (charge cs'' d' now c r d'')
  then show ?case using billing_run.charge [of bx a "cs @ cs''"] by (simp add: append_assoc [symmetric] del: append_assoc)
qed (auto intro: billing_run.intros)

lemma billing_run_once:
  assumes "billing_run bx d cs d'" "claimsOk d"
  shows "claimsOk d' \<and> distinct (map requestKey cs) \<and> bd_store d' = fold (chargeStore bx) cs (bd_store d) \<and>
     (\<forall>k. billedUnder d k \<noteq> None \<longrightarrow> billedUnder d' k \<noteq> None) \<and>
     (\<forall>c \<in> set cs. billedUnder d (requestKey c) = None \<and> billedUnder d' (requestKey c) \<noteq> None)"
  using assms
proof (induction rule: billing_run.induct)
  case (charge cs d' now c r d'')
  note IH = charge.IH [OF charge.prems] and c = commit_charges [OF charge.hyps(2)]
  have new: "requestKey c \<notin> requestKey ` set cs" using IH c(1) by force
  have "billedUnder d (requestKey c) = None" using IH c(1) by blast
  then show ?case using IH c new by auto
next
  case (archive cs d' vs)
  then have IH: "claimsOk d'" by simp
  note hid = archive_hidden [OF IH archive.hyps(2,3)]
  have "billedUnder (archiveRows vs d') = billedUnder d'" "bd_store (archiveRows vs d') = bd_store d'"
    using hid(1) by (simp_all add: ledgerOf_def archiveRows_def)
  then show ?case using archive hid(2) by simp
qed simp

definition billingSteps :: "billing_ext \<Rightarrow> billing_db \<Rightarrow> billing_db \<Rightarrow> bool" where
  "billingSteps bx d d' \<longleftrightarrow> (\<exists>cs. billing_run bx d cs d')"

interpretation billing: protocol "billingSteps bx" for bx
  by unfold_locales (auto simp: billingSteps_def intro: billing_run.start billing_run_append)

lemma Apply_runs:
  "rg (billingSteps bx) (\<lambda>d. \<exists>cs. billing_run bx d0 cs d) (Apply bx co)
     (\<lambda>r d. \<exists>cs. billing_run bx d0 cs d \<and> (\<forall>res. r = Inr res \<longrightarrow> ua_Applied res \<longrightarrow> (\<exists>c. co = Some c \<and> Normalize c \<in> set cs)))"
proof -
  have st: "stable (billingSteps bx) (\<lambda>d. \<exists>cs. billing_run bx d0 cs d)"
    by (auto simp: stable_def billingSteps_def intro: billing_run_append)
  have tx: "rg (billingSteps bx) (\<lambda>d. \<exists>cs. billing_run bx d0 cs d) (inTransaction (applyBody bx now c))
     (\<lambda>r d. \<exists>cs. billing_run bx d0 cs d \<and> (\<forall>res. r = Inr res \<longrightarrow> ua_Applied res \<longrightarrow> c \<in> set cs))" for now c
  proof (rule billing.rg_inTransaction [OF st lossless_apply])
    fix d res d' assume d: "\<exists>cs. billing_run bx d0 cs d" "txRun (applyBody bx now c) d = (Inr (res, True), d')"
    then obtain cs where "billing_run bx d0 (cs @ [c]) d'" by (blast intro: billing_run.charge)
    moreover have "billing_run bx d ([] @ [c]) d'" by (rule billing_run.charge [OF billing_run.start d(2)])
    ultimately show "billingSteps bx d d' \<and> (\<exists>cs. billing_run bx d0 cs d' \<and> (\<forall>res'. Inr res = Inr res' \<longrightarrow> ua_Applied res' \<longrightarrow> c \<in> set cs)) \<and>
        (\<exists>cs. billing_run bx d0 cs d' \<and> (\<forall>res. Inl ConnErr = Inr res \<longrightarrow> ua_Applied res \<longrightarrow> c \<in> set cs))"
      unfolding billingSteps_def by (metis append_Nil in_set_conv_decomp sum.distinct(1))
  next
    fix d res d' assume d: "\<exists>cs. billing_run bx d0 cs d" "txRun (applyBody bx now c) d = (Inr (res, False), d')"
    have "res = noUsageResult" using d(2) unfolding applyBody_def
      by (elim txRun_thenD [OF lossless_claim]) (auto simp: txRun_then [OF lossless_effects] split: if_splits prod.splits sum.splits)
    then show "\<exists>cs. billing_run bx d0 cs d \<and> (\<forall>res'. Inr res = Inr res' \<longrightarrow> ua_Applied res' \<longrightarrow> c \<in> set cs)"
      using d(1) by (auto simp: noUsageResult_def)
  qed auto
  show ?thesis
    unfolding Apply_def Let_def
    by (auto split: option.split intro!: billing.rg_ret billing.rg_seq [OF billing.rg_timeNow] tx simp: noUsageResult_def)
qed

text \<open>C4. Every request is charged at most once, and exactly once if \<open>Apply\<close> says so. While other processes charge requests and archive claims,
  a call of \<open>Apply\<close> changes balances and subscription usage only by charges of different requests that had not been charged
  before; if it reports the charge as applied, the request is among them.\<close>

theorem requests_charged_once:
  assumes "relies (billingSteps bx) w" "claimsOk (db w)" "run_state (Apply bx co) w = (r, w')"
  shows "\<exists>cs. distinct (map requestKey cs) \<and> (\<forall>c \<in> set cs. billedUnder (db w) (requestKey c) = None) \<and>
     bd_store (db w') = fold (chargeStore bx) cs (bd_store (db w)) \<and>
     (\<forall>res. r = Inr res \<longrightarrow> ua_Applied res \<longrightarrow> (\<exists>c. co = Some c \<and> Normalize c \<in> set cs))"
proof -
  obtain cs where "billing_run bx (db w) cs (db w')" "\<forall>res. r = Inr res \<longrightarrow> ua_Applied res \<longrightarrow> (\<exists>c. co = Some c \<and> Normalize c \<in> set cs)"
    using rgD [OF Apply_runs [of bx "db w" co] assms(1) _ assms(3)] billing_run.start [of bx "db w"] by blast
  then show ?thesis using billing_run_once [OF _ assms(2), of bx cs "db w'"] by (intro exI [of _ cs]) auto
qed

section \<open>The archive is complete\<close>

lemma cleanupRound_rest:
  assumes "distinct (bd_dedup d)" "cleanupRound cutoff n d = (Inr k, d')" "k < n"
  shows "list_all (\<lambda>r. cutoff \<le> dr_CreatedAt r) (bd_dedup d')"
  using assms by (auto simp: cleanupRound_def archiveRows_def Let_def list_all_iff not_less split: if_splits)

lemma claims_distinct: "claimsOk d \<Longrightarrow> distinct (bd_dedup d)"
  by (auto simp: claimsOk_def distinct_map)

text \<open>C31. Cleaning up ends: with no failure and no other process, the loop stops after finitely many rounds without an error, no claim older
  than the limit is left in the first table, and the ledger is what it was, so that no request can be charged again.\<close>

theorem cleanup_ends:
  assumes "script w = []" "claimsOk (db w)" "CleanupUsageBillingDedup cutoff w = (r, w')"
  shows "r = None \<and> list_all (\<lambda>c. cutoff \<le> dr_CreatedAt c) (bd_dedup (db w')) \<and> ledgerOf (db w') = ledgerOf (db w) \<and> claimsOk (db w')"
  using assms
proof (induction cutoff w rule: CleanupUsageBillingDedup.induct)
  case (1 cutoff w)
  let ?n = usageBillingDedupCleanupBatchSize
  define v where "v = take ?n (filter (\<lambda>r. dr_CreatedAt r < cutoff) (bd_dedup (db w)))"
  have run: "run_state (exec (cleanupRound cutoff ?n)) w = (Inr (length v), w\<lparr>db := archiveRows v (db w)\<rparr>)"
    using 1(2) by (simp add: run_exec_quiet cleanupRound_def Let_def v_def)
  have "distinct v" using claims_distinct [OF 1(3)] by (simp add: v_def)
  moreover have "set v \<subseteq> set (bd_dedup (db w))" unfolding v_def by (meson filter_is_subset order_trans set_take_subset)
  ultimately have hid: "ledgerOf (archiveRows v (db w)) = ledgerOf (db w)" "claimsOk (archiveRows v (db w))"
    using archive_hidden [OF 1(3)] by blast+
  show ?case
  proof (cases "length v < ?n")
    case True
    then have w': "r = None" "w' = w\<lparr>db := archiveRows v (db w)\<rparr>" using 1(4) run by (simp_all add: CleanupUsageBillingDedup.simps)
    have "list_all (\<lambda>c. cutoff \<le> dr_CreatedAt c) (bd_dedup (archiveRows v (db w)))"
      by (rule cleanupRound_rest [OF claims_distinct [OF 1(3)] _ True]) (simp add: cleanupRound_def Let_def v_def)
    then show ?thesis using w' hid by simp
  next
    case False
    have "CleanupUsageBillingDedup cutoff (w\<lparr>db := archiveRows v (db w)\<rparr>) = (r, w')"
      using 1(4) run False by (simp add: CleanupUsageBillingDedup.simps [of cutoff w])
    from "1.IH" [OF run [symmetric] refl False _ _ this] show ?thesis using 1(2) hid by simp
  qed
qed

section \<open>Examples\<close>

definition sampleBx :: billing_ext where
  "sampleBx = \<lparr>bx_ext = sampleExt [] True, bx_num = sampleSqlNum, bx_tz = (\<lambda>_. Some 0)\<rparr>"

definition sampleCommand :: usage_billing_command where
  "sampleCommand = \<lparr>uc_RequestID = ''req-1'', uc_APIKeyID = 4, uc_RequestFingerprint = ''fp'', uc_RequestPayloadHash = [], uc_UserID = 1,
     uc_AccountID = 5, uc_SubscriptionID = None, uc_AccountType = ''oauth'', uc_Model = ''m'', uc_ServiceTier = [], uc_ReasoningEffort = [],
     uc_BillingType = 0, uc_InputTokens = 3, uc_OutputTokens = 2, uc_CacheCreationTokens = 0, uc_CacheReadTokens = 0, uc_ImageCount = 0,
     uc_MediaType = [], uc_BalanceCost = F64 2, uc_SubscriptionCost = fzero, uc_APIKeyQuotaCost = fzero, uc_APIKeyRateLimitCost = fzero,
     uc_AccountQuotaCost = fzero\<rparr>"

definition sampleClaim :: "string \<Rightarrow> instant \<Rightarrow> dedup_row" where
  "sampleClaim rid t = \<lparr>dr_RequestID = rid, dr_APIKeyID = 4, dr_Fingerprint = ''fp'', dr_CreatedAt = t\<rparr>"

definition sampleBilling :: billing_db where
  "sampleBilling = \<lparr>bd_store = sampleStore, bd_keys = [sampleKey], bd_accounts = [], bd_dedup = [sampleClaim ''req-0'' 5, sampleClaim ''req-9'' 50],
     bd_archive = [], bd_outbox = [], bd_logs = [], bd_prices = initFallbackPricing, bd_calls = []\<rparr>"

definition sampleBillingWorld :: "billing_db turn list \<Rightarrow> billing_db world" where
  "sampleBillingWorld ts = \<lparr>db = sampleBilling, clock = 600 * nsSecond, ticks = [], script = ts\<rparr>"

lemma sampleCommand_normal: "Normalize sampleCommand = sampleCommand"
  by (simp add: Normalize_def sampleCommand_def trimSpace_def isSpace_def Let_def)

lemma sampleCommand_ok: "uc_RequestID (Normalize sampleCommand) \<noteq> []" "fitsColumns (Normalize sampleCommand)"
  by (simp_all add: sampleCommand_normal fitsColumns_def) (simp_all add: sampleCommand_def)

lemma sampleBilling_ok: "claimsOk sampleBilling"
  by (simp add: claimsOk_def sampleBilling_def sampleClaim_def dedupRow_def)

abbreviation sampleApply :: "billing_db turn list \<Rightarrow> (go_err + usage_billing_result) \<times> billing_db world" where
  "sampleApply ts \<equiv> run_state (Apply sampleBx (Some sampleCommand)) (sampleBillingWorld ts)"

theorem Apply_refines_ledger_witness:
  "\<exists>now. case billOnce sampleBx now (Normalize sampleCommand) (ledgerOf sampleBilling) of (r0, l) \<Rightarrow>
      fst (sampleApply [Turn (\<lambda>d. d) Unack]) = r0 \<and> ledgerOf (db (snd (sampleApply [Turn (\<lambda>d. d) Unack]))) = l \<or>
      (\<exists>e. fst (sampleApply [Turn (\<lambda>d. d) Unack]) = Inl e) \<and>
      ledgerOf (db (snd (sampleApply [Turn (\<lambda>d. d) Unack]))) \<in> {ledgerOf sampleBilling, l}"
proof -
  have "seenBy (sampleBillingWorld [Turn (\<lambda>d. d) Unack]) = sampleBilling" by (simp add: seenBy_def sampleBillingWorld_def)
  then show ?thesis
    using Apply_refines_ledger [OF sampleCommand_ok, of sampleBx "sampleBillingWorld [Turn (\<lambda>d. d) Unack]"
        "fst (sampleApply [Turn (\<lambda>d. d) Unack])" "snd (sampleApply [Turn (\<lambda>d. d) Unack])"] by simp
qed

lemma sampleApply_applied: "\<exists>res. fst (sampleApply []) = Inr res \<and> ua_Applied res"
  unfolding Apply_def option.case Let_def sampleCommand_normal
  by (simp add: Let_def sampleBillingWorld_def timeNow_def inTransaction_def runTx_def applyBody_def run_txthen
      claimUsageBillingKey_def insertDedup_def readFingerprint_def sampleBilling_def sampleClaim_def dedupRow_def applyUsageBillingEffects_def
      bill_defs onStore_def deductUsageBillingBalance_def sampleCommand_def sampleStore_def sampleUser_def tget_def tupd_def noUsageResult_def)

theorem requests_charged_once_witness:
  "\<exists>cs. distinct (map requestKey cs) \<and> sampleCommand \<in> set cs \<and>
     bd_store (db (snd (sampleApply []))) = fold (chargeStore sampleBx) cs sampleStore"
proof -
  have w: "relies (billingSteps sampleBx) (sampleBillingWorld [])" "claimsOk (db (sampleBillingWorld []))"
    using sampleBilling_ok by (simp_all add: relies_def sampleBillingWorld_def)
  obtain res where res: "fst (sampleApply []) = Inr res" "ua_Applied res" using sampleApply_applied by blast
  obtain cs where cs: "distinct (map requestKey cs)" "bd_store (db (snd (sampleApply []))) = fold (chargeStore sampleBx) cs (bd_store sampleBilling)"
      "Normalize sampleCommand \<in> set cs"
    using requests_charged_once [OF w, of "Some sampleCommand" "fst (sampleApply [])" "snd (sampleApply [])"] res
    by (auto simp: sampleBillingWorld_def)
  then show ?thesis by (intro exI [of _ cs]) (simp add: sampleCommand_normal sampleBilling_def)
qed

theorem cleanup_ends_witness:
  "fst (CleanupUsageBillingDedup 10 (sampleBillingWorld [])) = None \<and>
   ledgerOf (db (snd (CleanupUsageBillingDedup 10 (sampleBillingWorld [])))) = ledgerOf sampleBilling"
  using cleanup_ends [of "sampleBillingWorld []" 10 "fst (CleanupUsageBillingDedup 10 (sampleBillingWorld []))"
      "snd (CleanupUsageBillingDedup 10 (sampleBillingWorld []))"] sampleBilling_ok
  by (simp add: sampleBillingWorld_def)

end
