(* ===== verification/Billing_Laws.thy ===== *)
theory Billing_Laws
  imports Billing
begin

text \<open>
  Properties of the costs of \<open>Billing\<close>: no cost is negative, also through the heap of prices and the overrides of validated
  channels; the split of a long request loses no token; and what the sharing of price cells does to other requests.
\<close>

section \<open>Costs that are not negative\<close>

text \<open>Not below zero; this includes \<open>NaN\<close>, for which no charge is made.\<close>

definition notNegative :: "f64 \<Rightarrow> bool" where
  "notNegative x \<longleftrightarrow> \<not> flt x fzero"

lemma notNegative_F64 [simp]: "notNegative (F64 a) \<longleftrightarrow> 0 \<le> a"
  by (simp add: notNegative_def not_less)

lemma notNegative_special [simp]: "notNegative PosInf" "notNegative NaN" "\<not> notNegative NegInf"
  by (simp_all add: notNegative_def)

lemma notNegative_rnd: "0 \<le> q \<Longrightarrow> notNegative (rnd q)"
  using rnd_nonneg [of q] by auto

lemma notNegative_fadd: "notNegative x \<Longrightarrow> notNegative y \<Longrightarrow> notNegative (fadd x y)"
  by (cases x; cases y) (auto simp: notNegative_rnd)

lemma notNegative_fmul: "notNegative x \<Longrightarrow> notNegative y \<Longrightarrow> notNegative (fmul x y)"
  by (cases x; cases y) (auto simp: fmul_def fsgn_def fisNaN_def notNegative_rnd)

lemma notNegative_fofint: "0 \<le> n \<Longrightarrow> notNegative (fofint n)"
  by (simp add: fofint_def notNegative_rnd)

lemma notNegative_positiveRate: "notNegative (positiveRate r)"
  by (cases r) (auto simp: positiveRate_def fle_def feq_def)

lemma notNegative_price: "\<not> negativePrice (Some v) \<longleftrightarrow> notNegative v"
  by (simp add: negativePrice_def notNegative_def)

lemmas notNegative_intros = notNegative_fadd notNegative_fmul notNegative_fofint notNegative_positiveRate

definition pricingOk :: "model_pricing \<Rightarrow> bool" where
  "pricingOk p \<longleftrightarrow> list_all notNegative [mp_InputPricePerToken p, mp_InputPricePerTokenPriority p, mp_OutputPricePerToken p,
     mp_OutputPricePerTokenPriority p, mp_CacheCreationPricePerToken p, mp_CacheReadPricePerToken p, mp_CacheReadPricePerTokenPriority p,
     mp_CacheCreation5mPrice p, mp_CacheCreation1hPrice p, mp_LongContextInputMultiplier p, mp_LongContextOutputMultiplier p,
     mp_ImageOutputPricePerToken p]"

definition tokensOk :: "usage_tokens \<Rightarrow> bool" where
  "tokensOk t \<longleftrightarrow> list_all (\<lambda>n. 0 \<le> n) [ut_InputTokens t, ut_OutputTokens t, ut_CacheCreationTokens t, ut_CacheReadTokens t,
     ut_CacheCreation5mTokens t, ut_CacheCreation1hTokens t, ut_ImageOutputTokens t]"

definition costOk :: "cost_breakdown \<Rightarrow> bool" where
  "costOk b \<longleftrightarrow> list_all notNegative [cb_InputCost b, cb_OutputCost b, cb_ImageOutputCost b, cb_CacheCreationCost b, cb_CacheReadCost b,
     cb_TotalCost b, cb_ActualCost b]"

lemma tierMultiplier_ok: "notNegative (serviceTierCostMultiplier tier)"
  by (simp add: serviceTierCostMultiplier_def Let_def)

lemma cacheCreation_ok: "pricingOk p \<Longrightarrow> tokensOk t \<Longrightarrow> notNegative (computeCacheCreationCost p t)"
  by (auto simp: computeCacheCreationCost_def pricingOk_def tokensOk_def intro!: notNegative_intros)

lemma breakdown_ok:
  assumes p: "pricingOk p" and t: "tokensOk t"
  shows "costOk (computeTokenBreakdown p t rate tier long)"
proof -
  have scale: "notNegative c \<Longrightarrow> notNegative (if feq m (F64 1) then c else fmul c m)" if "notNegative m" for c m
    using that by (auto intro: notNegative_fmul)
  have mult: "notNegative (if b then F64 1 else serviceTierCostMultiplier tier)" for b by (simp add: tierMultiplier_ok)
  have prices: "notNegative (mp_InputPricePerToken p)" "notNegative (mp_InputPricePerTokenPriority p)" "notNegative (mp_OutputPricePerToken p)"
    "notNegative (mp_OutputPricePerTokenPriority p)" "notNegative (mp_CacheReadPricePerToken p)" "notNegative (mp_CacheReadPricePerTokenPriority p)"
    "notNegative (mp_LongContextInputMultiplier p)" "notNegative (mp_LongContextOutputMultiplier p)" "notNegative (mp_ImageOutputPricePerToken p)"
    using p by (simp_all add: pricingOk_def)
  have prio: "notNegative (if b then orPriority x y else x)" if "notNegative x" "notNegative y" for b x y
    using that by (simp add: orPriority_def)
  have long: "notNegative (if b then fmul x m else x)" if "notNegative x" "notNegative m" for b x m
    using that by (simp add: notNegative_fmul)
  have toks: "0 \<le> ut_InputTokens t" "0 \<le> ut_CacheReadTokens t" "0 \<le> ut_ImageOutputTokens t" using t by (simp_all add: tokensOk_def)
  show ?thesis
    unfolding computeTokenBreakdown_def Let_def costOk_def
    by (simp add: notNegative_intros scale mult prio long prices toks cacheCreation_ok [OF p t])
qed

section \<open>The heap keeps prices that are not negative\<close>

definition heapOk :: "billing_state \<Rightarrow> bool" where
  "heapOk s \<longleftrightarrow> list_all pricingOk (bs_heap s) \<and> list_all (\<lambda>e. snd e < length (bs_heap s)) (bs_fallback s)"

text \<open>A program that keeps the heap in order, never frees a cell, and whose result satisfies \<open>Q\<close>.\<close>

definition keepsHeap :: "(billing_state \<Rightarrow> bool) \<Rightarrow> 'a bp \<Rightarrow> ('a \<Rightarrow> billing_state \<Rightarrow> bool) \<Rightarrow> bool" where
  "keepsHeap P m Q \<longleftrightarrow> (\<forall>s. heapOk s \<longrightarrow> P s \<longrightarrow>
     (case run_state m s of (a, s') \<Rightarrow> heapOk s' \<and> length (bs_heap s) \<le> length (bs_heap s') \<and> Q a s'))"

lemma keepsHeap_ret: "(\<And>s. heapOk s \<Longrightarrow> P s \<Longrightarrow> Q a s) \<Longrightarrow> keepsHeap P (bret a) Q"
  by (simp add: keepsHeap_def)

lemma keepsHeap_bind:
  assumes "keepsHeap P m Q" and "\<And>a. keepsHeap (Q a) (f a) R"
  shows "keepsHeap P (State_Monad.bind m f) R"
  unfolding keepsHeap_def
proof (intro allI impI)
  fix s assume s: "heapOk s" "P s"
  obtain a s1 where 1: "run_state m s = (a, s1)" by fastforce
  obtain b s2 where 2: "run_state (f a) s1 = (b, s2)" by fastforce
  have "heapOk s1" "length (bs_heap s) \<le> length (bs_heap s1)" "Q a s1" using assms(1) s 1 by (auto simp: keepsHeap_def)
  then show "case run_state (State_Monad.bind m f) s of (a, s') \<Rightarrow> heapOk s' \<and> length (bs_heap s) \<le> length (bs_heap s') \<and> R a s'"
    using assms(2) [of a] 1 2 by (force simp: keepsHeap_def)
qed

lemma keepsHeap_weaken:
  "keepsHeap P' m Q' \<Longrightarrow> (\<And>s. P s \<Longrightarrow> P' s) \<Longrightarrow> (\<And>a s. Q' a s \<Longrightarrow> Q a s) \<Longrightarrow> keepsHeap P m Q"
  unfolding keepsHeap_def by fastforce

abbreviation inHeap :: "addr \<Rightarrow> billing_state \<Rightarrow> bool" where
  "inHeap a s \<equiv> a < length (bs_heap s)"

lemma keepsHeap_deref: "keepsHeap (inHeap a) (deref a) (\<lambda>p s. pricingOk p \<and> inHeap a s)"
  by (auto simp: keepsHeap_def deref_def heapOk_def list_all_length)

lemma keepsHeap_newCell: "pricingOk p \<Longrightarrow> keepsHeap P (newCell p) inHeap"
  by (auto simp: keepsHeap_def newCell_def heapOk_def list_all_iff)

lemma keepsHeap_setCell: "(\<And>p. pricingOk p \<Longrightarrow> pricingOk (f p)) \<Longrightarrow> keepsHeap (inHeap a) (setCell a f) (\<lambda>_. inHeap a)"
  by (auto simp: keepsHeap_def setCell_def heapOk_def list_all_length nth_list_update)

lemma keepsHeap_pure: "(A \<Longrightarrow> keepsHeap P m Q) \<Longrightarrow> keepsHeap (\<lambda>s. A \<and> P s) m Q"
  by (auto simp: keepsHeap_def)

lemma keepsHeap_read: "(\<And>p. pricingOk p \<Longrightarrow> keepsHeap (inHeap a) (f p) Q) \<Longrightarrow> keepsHeap (inHeap a) (State_Monad.bind (deref a) f) Q"
  by (rule keepsHeap_bind [OF keepsHeap_deref]) (rule keepsHeap_pure)

lemma policy_ok: "keepsHeap (inHeap a) (applyModelSpecificPricingPolicy model a) inHeap"
proof -
  have "keepsHeap (inHeap a) (if b then bret a else newCell (p\<lparr>mp_LongContextInputThreshold := i,
      mp_LongContextInputMultiplier := (if b1 then openAIGPT54LongContextInputMultiplier else mp_LongContextInputMultiplier p),
      mp_LongContextOutputMultiplier := (if b2 then openAIGPT54LongContextOutputMultiplier else mp_LongContextOutputMultiplier p)\<rparr>)) inHeap"
    if "pricingOk p" for p b i b1 b2
    using that by (cases b) (auto intro!: keepsHeap_ret keepsHeap_newCell
        simp: pricingOk_def openAIGPT54LongContextInputMultiplier_def openAIGPT54LongContextOutputMultiplier_def)
  then show ?thesis unfolding applyModelSpecificPricingPolicy_def by (simp add: keepsHeap_ret keepsHeap_read)
qed

text \<open>What is asked of the price list and of the channels: prices that are not negative. Validation gives the latter.\<close>

definition listOk :: "price_list \<Rightarrow> bool" where
  "listOk ps \<longleftrightarrow> (\<forall>f m l. ps = Some f \<longrightarrow> f m = Some l \<longrightarrow> pricingOk (pricingOfLiteLLM l))"

definition entryOk :: "channel_model_pricing \<Rightarrow> bool" where
  "entryOk cp \<longleftrightarrow> checkPricesNotNegative cp = None \<and> ValidateIntervals (cp_Intervals cp) = None"

definition answersOk :: "channel_prices \<Rightarrow> bool" where
  "answersOk chp \<longleftrightarrow> (\<forall>g m cp. chp g m = Some cp \<longrightarrow> entryOk cp)"

lemma override_ok: "entryOk cp \<Longrightarrow> pricingOk p \<Longrightarrow> pricingOk (overridePrices cp p)"
  by (auto simp: entryOk_def checkPricesNotNegative_def firstErr_None overridePrices_def Let_def pricingOk_def notNegative_price
      split: option.splits if_splits)

lemma zeroPricing_ok: "pricingOk zeroPricing"
  by (simp add: pricingOk_def zeroPricing_def)

lemma interval_price_ok:
  assumes "ValidateIntervals ivs = None" "iv \<in> set ivs"
  shows "pricingOk (intervalToModelPricing iv b)"
  using validated_interval_fields [OF assms]
  by (auto simp: intervalToModelPricing_def Let_def pricingOk_def zeroPricing_def notNegative_price split: option.splits)

lemma getFallback_ok: "keepsHeap P (getFallbackPricing model) (\<lambda>r s. \<forall>a. r = Some a \<longrightarrow> inHeap a s)"
  by (auto simp: keepsHeap_def getFallbackPricing_def heapOk_def list_all_iff dest!: map_of_SomeD)

lemma GetModelPricing_ok:
  assumes "listOk ps"
  shows "keepsHeap P (GetModelPricing ps model) (\<lambda>r s. \<forall>a. r = Inr a \<longrightarrow> inHeap a s)"
proof -
  have tail: "keepsHeap (inHeap a) (State_Monad.bind (applyModelSpecificPricingPolicy m a) (\<lambda>b. bret (Inr b))) (\<lambda>r s. \<forall>a. r = Inr a \<longrightarrow> inHeap a s)"
    for m a and e :: "go_err + addr"
    by (rule keepsHeap_bind [OF policy_ok]) (auto intro: keepsHeap_ret)
  show ?thesis
  proof (cases "case ps of None \<Rightarrow> None | Some f \<Rightarrow> f (toLower model)")
    case None
    have "keepsHeap P (State_Monad.bind (getFallbackPricing (toLower model)) (\<lambda>fb. case fb of
          None \<Rightarrow> bret (Inl (ErrorNew (''pricing not found for model: '' @ toLower model)))
        | Some a \<Rightarrow> State_Monad.bind (applyModelSpecificPricingPolicy (toLower model) a) (\<lambda>b. bret (Inr b))))
        (\<lambda>r s. \<forall>a. r = Inr a \<longrightarrow> inHeap a s)"
      by (rule keepsHeap_bind [OF getFallback_ok]) (auto intro: keepsHeap_ret tail split: option.splits)
    then show ?thesis by (simp only: GetModelPricing_def Let_def None option.case)
  next
    case (Some l)
    then have "pricingOk (pricingOfLiteLLM l)" using assms by (auto simp: listOk_def split: option.splits)
    then show ?thesis
      by (simp add: GetModelPricing_def Let_def Some) (rule keepsHeap_bind [OF keepsHeap_newCell], auto intro: tail)
  qed
qed

definition resolvedOk :: "resolved_pricing \<Rightarrow> bool" where
  "resolvedOk rv \<longleftrightarrow> (\<forall>iv \<in> set (rv_Intervals rv). \<forall>b. pricingOk (intervalToModelPricing iv b)) \<and>
     (\<forall>iv \<in> set (rv_RequestTiers rv). notNegative (priceOrZero (iv_PerRequestPrice iv))) \<and> notNegative (rv_DefaultPerRequestPrice rv)"

abbreviation baseInHeap :: "resolved_pricing \<Rightarrow> billing_state \<Rightarrow> bool" where
  "baseInHeap rv s \<equiv> \<forall>a. rv_BasePricing rv = Some a \<longrightarrow> inHeap a s"

lemma validIntervals_ok:
  assumes "entryOk cp" "iv \<in> set (filterValidIntervals (cp_Intervals cp))"
  shows "pricingOk (intervalToModelPricing iv b)" "notNegative (priceOrZero (iv_PerRequestPrice iv))"
  using assms interval_price_ok [of "cp_Intervals cp" iv b] validated_interval_fields(7) [of "cp_Intervals cp" iv]
  by (auto simp: entryOk_def filterValidIntervals_def priceOrZero_def notNegative_price split: option.splits)

lemma applyTokenOverrides_ok:
  assumes cp: "entryOk cp" and rv: "resolvedOk rv"
  shows "keepsHeap (baseInHeap rv) (applyTokenOverrides cp rv) (\<lambda>r s. resolvedOk r \<and> baseInHeap r s)"
proof (cases "filterValidIntervals (cp_Intervals cp) = []")
  case False
  then have "applyTokenOverrides cp rv = bret (rv\<lparr>rv_Intervals := filterValidIntervals (cp_Intervals cp)\<rparr>)"
    by (simp add: applyTokenOverrides_def Let_def)
  moreover have "resolvedOk (rv\<lparr>rv_Intervals := filterValidIntervals (cp_Intervals cp)\<rparr>)"
    using rv validIntervals_ok(1) [OF cp] by (simp add: resolvedOk_def)
  ultimately show ?thesis by (auto intro: keepsHeap_ret)
next
  case True
  have base: "keepsHeap (baseInHeap rv) (case rv_BasePricing rv of None \<Rightarrow> newCell zeroPricing | Some a \<Rightarrow> bret a) inHeap"
    by (cases "rv_BasePricing rv") (auto intro: keepsHeap_ret keepsHeap_newCell zeroPricing_ok)
  have "keepsHeap (inHeap a) (State_Monad.bind (setCell a (overridePrices cp)) (\<lambda>_. bret (rv\<lparr>rv_BasePricing := Some a\<rparr>)))
      (\<lambda>r s. resolvedOk r \<and> baseInHeap r s)" for a
    using rv by (intro keepsHeap_bind [OF keepsHeap_setCell] keepsHeap_ret) (auto simp: resolvedOk_def intro: override_ok [OF cp])
  then show ?thesis unfolding applyTokenOverrides_def Let_def using True by (simp add: keepsHeap_bind [OF base])
qed

lemma tierOverrides_ok:
  assumes "entryOk cp" "resolvedOk rv"
  shows "resolvedOk (applyRequestTierOverrides cp rv)" "rv_BasePricing (applyRequestTierOverrides cp rv) = rv_BasePricing rv"
  using assms validIntervals_ok(2) [OF assms(1)]
  by (auto simp: applyRequestTierOverrides_def Let_def resolvedOk_def entryOk_def checkPricesNotNegative_def firstErr_None notNegative_price
      split: option.splits if_splits)

lemma applyChannelOverrides_ok:
  assumes "answersOk chp" "resolvedOk rv"
  shows "keepsHeap (baseInHeap rv) (applyChannelOverrides chp g model rv) (\<lambda>r s. resolvedOk r \<and> baseInHeap r s)"
proof (cases "chp g model")
  case None
  then show ?thesis using assms(2) by (auto simp: applyChannelOverrides_def intro: keepsHeap_ret)
next
  case (Some cp)
  then have cp: "entryOk cp" using assms(1) by (auto simp: answersOk_def)
  define rv1 where "rv1 = rv\<lparr>rv_Source := PricingSourceChannel, rv_Mode := (if cp_BillingMode cp = [] then BillingModeToken else cp_BillingMode cp)\<rparr>"
  have rv1: "resolvedOk rv1" "rv_BasePricing rv1 = rv_BasePricing rv" using assms(2) by (simp_all add: rv1_def resolvedOk_def)
  have eq: "applyChannelOverrides chp g model rv = (if rv_Mode rv1 = BillingModeToken then applyTokenOverrides cp rv1
      else if rv_Mode rv1 = BillingModePerRequest \<or> rv_Mode rv1 = BillingModeImage then bret (applyRequestTierOverrides cp rv1) else bret rv1)"
    using Some by (simp add: applyChannelOverrides_def Let_def rv1_def)
  show ?thesis unfolding eq
    using rv1 applyTokenOverrides_ok [OF cp rv1(1)] tierOverrides_ok [OF cp rv1(1)] by (auto intro: keepsHeap_ret)
qed

lemma Resolve_ok:
  assumes "listOk ps" "answersOk chp"
  shows "keepsHeap P (Resolve ps chp model gid) (\<lambda>r s. resolvedOk r \<and> baseInHeap r s)"
proof -
  let ?rv = "\<lambda>base source b. \<lparr>rv_Mode = BillingModeToken, rv_BasePricing = base, rv_Intervals = [], rv_RequestTiers = [],
                rv_DefaultPerRequestPrice = fzero, rv_Source = source, rv_SupportsCacheBreakdown = b\<rparr>"
  have base: "keepsHeap P (resolveBasePricing ps model) (\<lambda>r s. \<forall>a. fst r = Some a \<longrightarrow> inHeap a s)"
    unfolding resolveBasePricing_def
    by (rule keepsHeap_bind [OF GetModelPricing_ok [OF assms(1)]]) (auto intro: keepsHeap_ret split: sum.splits)
  have flag: "keepsHeap (\<lambda>s. \<forall>a. base = Some a \<longrightarrow> inHeap a s)
      (case base of None \<Rightarrow> bret False | Some a \<Rightarrow> State_Monad.bind (deref a) (\<lambda>p. bret (mp_SupportsCacheBreakdown p)))
      (\<lambda>_ s. \<forall>a. base = Some a \<longrightarrow> inHeap a s)" for base
    by (cases base) (auto intro: keepsHeap_ret keepsHeap_read)
  have over: "keepsHeap (\<lambda>s. \<forall>a. base = Some a \<longrightarrow> inHeap a s)
      (case gid of None \<Rightarrow> bret (?rv base source b) | Some g \<Rightarrow> applyChannelOverrides chp g model (?rv base source b))
      (\<lambda>r s. resolvedOk r \<and> baseInHeap r s)" for base source b
    using applyChannelOverrides_ok [OF assms(2), where rv = "?rv base source b"]
    by (auto simp: resolvedOk_def intro: keepsHeap_ret split: option.splits)
  show ?thesis unfolding Resolve_def Let_def
    by (rule keepsHeap_bind [OF base]) (simp only: split_beta, rule keepsHeap_bind [OF flag over])
qed

lemma GetIntervalPricing_ok:
  assumes "resolvedOk rv"
  shows "keepsHeap (baseInHeap rv) (GetIntervalPricing rv n) (\<lambda>r s. \<forall>a. r = Some a \<longrightarrow> inHeap a s)"
proof (cases "if rv_Intervals rv = [] then None else FindMatchingInterval (rv_Intervals rv) n")
  case None
  then show ?thesis by (auto simp: GetIntervalPricing_def intro: keepsHeap_ret)
next
  case (Some iv)
  then have "pricingOk (intervalToModelPricing iv b)" for b
    using assms by (auto simp: resolvedOk_def FindMatchingInterval_def split: if_splits dest: find_SomeD)
  then show ?thesis unfolding GetIntervalPricing_def Some option.case
    by (intro keepsHeap_bind [OF keepsHeap_newCell] keepsHeap_ret) auto
qed

lemma calculateTokenCost_ok:
  assumes "resolvedOk rv" "tokensOk (ci_Tokens i)"
  shows "keepsHeap (baseInHeap rv) (calculateTokenCost rv i) (\<lambda>r _. \<forall>b. r = Inr b \<longrightarrow> costOk b)"
proof -
  have "keepsHeap (inHeap a) (State_Monad.bind (applyModelSpecificPricingPolicy (ci_Model i) a) (\<lambda>b. State_Monad.bind (deref b) (\<lambda>p.
      bret (Inr (computeTokenBreakdown p (ci_Tokens i) (ci_RateMultiplier i) (ci_ServiceTier i) (rv_Intervals rv = []))))))
      (\<lambda>r _. \<forall>b. r = Inr b \<longrightarrow> costOk b)" for a and e :: "go_err + cost_breakdown"
    by (rule keepsHeap_bind [OF policy_ok]) (auto intro!: keepsHeap_read keepsHeap_ret breakdown_ok assms(2))
  then show ?thesis unfolding calculateTokenCost_def
    by (intro keepsHeap_bind [OF GetIntervalPricing_ok [OF assms(1)]]) (auto intro: keepsHeap_ret split: option.split)
qed

lemma perRequest_ok:
  assumes "resolvedOk rv" "notNegative (ci_RateMultiplier i)"
  shows "costOk (calculatePerRequestCost rv i)"
proof -
  have tier: "notNegative (priceOrZero (iv_PerRequestPrice t))" if "List.find Q (rv_RequestTiers rv) = Some t" for Q t
    using assms(1) find_SomeD [OF that] by (auto simp: resolvedOk_def)
  have "notNegative (perRequestUnitPrice rv i)"
    using assms(1) by (auto simp: perRequestUnitPrice_def Let_def GetRequestTierPrice_def GetRequestTierPriceByContext_def
        FindMatchingInterval_def resolvedOk_def intro: tier split: option.splits)
  then show ?thesis using assms(2) by (simp add: calculatePerRequestCost_def Let_def costOk_def zeroCost_def notNegative_intros)
qed

lemma internal_ok:
  assumes "listOk ps" "tokensOk t"
  shows "keepsHeap P (calculateCostInternal ps model t rate tier None) (\<lambda>r _. \<forall>b. r = Inr b \<longrightarrow> costOk b)"
  unfolding calculateCostInternal_def option.case
  by (rule keepsHeap_bind [OF GetModelPricing_ok [OF assms(1)]])
    (auto intro!: keepsHeap_ret keepsHeap_read breakdown_ok assms(2) split: sum.split)

lemma map_sum_is_Inr: "map_sum f g x = Inr b \<longleftrightarrow> (\<exists>c. x = Inr c \<and> b = g c)"
  by (cases x) auto

lemma unified_ok:
  assumes ps: "listOk ps" and t: "tokensOk (ci_Tokens i)" and rs: "ci_Resolver i = Some chp" "answersOk chp" "ci_Resolved i = None"
  shows "keepsHeap P (CalculateCostUnified ps i) (\<lambda>r _. \<forall>b. r = Inr b \<longrightarrow> costOk b)"
proof -
  let ?i = "i\<lparr>ci_RateMultiplier := positiveRate (ci_RateMultiplier i)\<rparr>"
  have m: "costOk (b\<lparr>cb_BillingMode := x\<rparr>) = costOk b" for b x by (simp add: costOk_def)
  have pr: "costOk (calculatePerRequestCost rv ?i)" if "resolvedOk rv" for rv
    using perRequest_ok [OF that, of ?i] notNegative_positiveRate by simp
  have calc: "keepsHeap (\<lambda>s. resolvedOk rv \<and> baseInHeap rv s)
      (if rv_Mode rv = BillingModePerRequest \<or> rv_Mode rv = BillingModeImage then bret (Inr (calculatePerRequestCost rv ?i)) else calculateTokenCost rv ?i)
      (\<lambda>r _. \<forall>b. r = Inr b \<longrightarrow> costOk b)" for rv
    using t pr by (intro keepsHeap_pure) (auto intro!: keepsHeap_ret intro: calculateTokenCost_ok)
  show ?thesis
    unfolding CalculateCostUnified_def rs option.case Let_def
    by (intro keepsHeap_bind [OF Resolve_ok [OF ps rs(2)]] keepsHeap_bind [OF calc] keepsHeap_ret) (auto simp: m map_sum_is_Inr)
qed

text \<open>C16. No request is charged a negative amount: with a price list whose prices are not negative and channel entries that
  passed validation, every part of the cost of a request is not negative, whatever the service tier and the multiplier, and the
  heap of prices keeps that property for the requests that follow.\<close>

theorem cost_never_negative:
  assumes "heapOk s" "listOk ps" "answersOk chp" "tokensOk (ci_Tokens i)" "ci_Resolver i = Some chp" "ci_Resolved i = None"
    and "run_state (CalculateCostUnified ps i) s = (r, s')"
  shows "heapOk s' \<and> (\<forall>b. r = Inr b \<longrightarrow> costOk b)"
  using unified_ok [OF assms(2,4,5,3,6), of "\<lambda>_. True"] assms(1,7) by (auto simp: keepsHeap_def)

lemma perMTok_ok [simp]: "0 \<le> q \<Longrightarrow> notNegative (perMTok q)"
  by (simp add: perMTok_def notNegative_rnd)

lemma builtin_ok: "heapOk initFallbackPricing"
  by (simp add: heapOk_def initFallbackPricing_def Let_def fallbackCells_def fallbackAliases_def pricingOk_def claudePricing_def gptPricing_def
      zeroPricing_def openAIGPT54LongContextInputMultiplier_def openAIGPT54LongContextOutputMultiplier_def upt_rec List.map_filter_def)

definition sampleTokens :: usage_tokens where
  "sampleTokens = zeroTokens\<lparr>ut_InputTokens := 3, ut_OutputTokens := 2\<rparr>"

definition sampleEntry :: channel_model_pricing where
  "sampleEntry = samplePricing [''claude-opus'']"

definition sampleInput :: cost_input where
  "sampleInput = \<lparr>ci_Model = ''claude-opus'', ci_GroupID = Some 7, ci_Tokens = sampleTokens, ci_RequestCount = 1, ci_SizeTier = [],
     ci_RateMultiplier = F64 (- 1), ci_ServiceTier = [], ci_Resolver = Some (\<lambda>_ _. Some sampleEntry), ci_Resolved = None\<rparr>"

theorem cost_never_negative_witness:
  "heapOk (snd (run_state (CalculateCostUnified None sampleInput) initFallbackPricing)) \<and>
   (case fst (run_state (CalculateCostUnified None sampleInput) initFallbackPricing) of Inl _ \<Rightarrow> True | Inr b \<Rightarrow> notNegative (cb_ActualCost b))"
proof -
  have "entryOk sampleEntry" by code_simp
  then have "answersOk (\<lambda>_ _. Some sampleEntry)" by (simp add: answersOk_def)
  then show ?thesis
    using cost_never_negative [of initFallbackPricing None "\<lambda>_ _. Some sampleEntry" sampleInput
        "fst (run_state (CalculateCostUnified None sampleInput) initFallbackPricing)"
        "snd (run_state (CalculateCostUnified None sampleInput) initFallbackPricing)"]
    by (auto simp: builtin_ok listOk_def sampleInput_def tokensOk_def sampleTokens_def zeroTokens_def costOk_def split: sum.split)
qed

section \<open>Sharing of price cells\<close>

text \<open>What a run does to the cells: it may add some, and its result is an old cell or a new one.\<close>

lemma run_policy:
  obtains b new where "run_state (applyModelSpecificPricingPolicy model a) s = (b, s\<lparr>bs_heap := bs_heap s @ new\<rparr>)"
    "b = a \<or> b = length (bs_heap s)" "isOpenAIGPT54Model model \<or> b = a \<and> new = []"
proof -
  have "\<exists>b new. run_state (applyModelSpecificPricingPolicy model a) s = (b, s\<lparr>bs_heap := bs_heap s @ new\<rparr>) \<and>
      (b = a \<or> b = length (bs_heap s)) \<and> (isOpenAIGPT54Model model \<or> b = a \<and> new = [])"
    by (auto simp: applyModelSpecificPricingPolicy_def deref_def newCell_def Let_def intro: exI [of _ "[]"])
  then show thesis using that by blast
qed

lemma run_listed:
  assumes "ps = Some f" "f (toLower model) = Some l"
  obtains a new where "run_state (GetModelPricing ps model) s = (Inr a, s\<lparr>bs_heap := bs_heap s @ new\<rparr>)" "length (bs_heap s) \<le> a"
proof -
  let ?p = "pricingOfLiteLLM l" and ?n = "length (bs_heap s)"
  obtain b new where "run_state (applyModelSpecificPricingPolicy (toLower model) ?n) (s\<lparr>bs_heap := bs_heap s @ [?p]\<rparr>) =
      (b, s\<lparr>bs_heap := (bs_heap s @ [?p]) @ new\<rparr>)" "b = ?n \<or> b = Suc ?n"
    by (rule run_policy [of "toLower model" ?n "s\<lparr>bs_heap := bs_heap s @ [?p]\<rparr>"]) auto
  then show thesis using assms that [of b "?p # new"]
    by (auto simp: GetModelPricing_def newCell_def Let_def)
qed

lemma run_builtin:
  assumes "ps = None \<or> (\<exists>f. ps = Some f \<and> f (toLower model) = None)" "fallbackName (toLower model) \<noteq> []"
    "map_of (bs_fallback s) (fallbackName (toLower model)) = Some a" "\<not> isOpenAIGPT54Model (toLower model)"
  shows "run_state (GetModelPricing ps model) s = (Inr a, s)"
  using assms by (auto simp: GetModelPricing_def getFallbackPricing_def applyModelSpecificPricingPolicy_def Let_def)

text \<open>What a channel may write to: the cell of the base price and cells it adds.\<close>

lemma run_overrides:
  assumes "\<And>a. rv_BasePricing rv = Some a \<Longrightarrow> n \<le> a" "n \<le> length (bs_heap s)"
  shows "take n (bs_heap (snd (run_state (applyChannelOverrides chp g model rv) s))) = take n (bs_heap s)"
  using assms
  by (auto simp: applyChannelOverrides_def applyTokenOverrides_def newCell_def setCell_def Let_def split: option.split)

text \<open>A channel's prices stay with the channel as long as the price list knows the model: resolving the price for a group
  changes no price cell that existed before.\<close>

theorem override_is_local:
  assumes "ps = Some f" "f (toLower model) = Some l"
  shows "take (length (bs_heap s)) (bs_heap (snd (run_state (Resolve ps chp model gid) s))) = bs_heap s"
proof -
  let ?n = "length (bs_heap s)"
  obtain a new where r: "run_state (GetModelPricing ps model) s = (Inr a, s\<lparr>bs_heap := bs_heap s @ new\<rparr>)" "?n \<le> a"
    using run_listed [OF assms] by blast
  have "take ?n (bs_heap (snd (run_state (applyChannelOverrides chp g model rv) (s\<lparr>bs_heap := bs_heap s @ new\<rparr>)))) = bs_heap s"
    if "rv_BasePricing rv = Some a" for g rv
    using run_overrides [of rv ?n "s\<lparr>bs_heap := bs_heap s @ new\<rparr>" chp g model] that r(2) by simp
  then show ?thesis by (simp add: Resolve_def resolveBasePricing_def r deref_def Let_def split: option.split)
qed

definition sampleListed :: litellm_pricing where
  "sampleListed = staticPricing 5 25 1 0 fzero fzero"

theorem override_is_local_witness:
  "take (length (bs_heap initFallbackPricing))
     (bs_heap (snd (run_state (Resolve (Some (\<lambda>m. Some sampleListed)) (\<lambda>_ _. Some sampleEntry) ''Claude-Opus'' (Some 7)) initFallbackPricing)))
   = bs_heap initFallbackPricing"
  by (rule override_is_local [OF refl refl])

text \<open>C32. For a model that only has a built-in price, a channel's prices leak: after one request of a group whose channel prices the
  model, the cost of any request for a model with the same built-in price, of any user and without a channel, is computed with the
  channel's prices.\<close>

theorem override_changes_builtin_price:
  assumes cp: "chp g model = Some cp" "cp_BillingMode cp \<in> {[], BillingModeToken}" "filterValidIntervals (cp_Intervals cp) = []"
    and unlisted: "ps = None \<or> (\<exists>f. ps = Some f \<and> f (toLower model) = None \<and> f (toLower other) = None)"
    and names: "fallbackName (toLower model) \<noteq> []" "fallbackName (toLower other) \<noteq> []"
    and cell: "map_of (bs_fallback s) (fallbackName (toLower model)) = Some a"
      "map_of (bs_fallback s) (fallbackName (toLower other)) = Some a" "a < length (bs_heap s)"
    and noPolicy: "\<not> isOpenAIGPT54Model (toLower model)" "\<not> isOpenAIGPT54Model (toLower other)"
  shows "fst (run_state (CalculateCost ps other t rate) (snd (run_state (Resolve ps chp model (Some g)) s))) =
         Inr (computeTokenBreakdown (overridePrices cp (bs_heap s ! a)) t rate [] True)"
proof -
  let ?s = "s\<lparr>bs_heap := (bs_heap s)[a := overridePrices cp (bs_heap s ! a)]\<rparr>"
  have "run_state (GetModelPricing ps model) s = (Inr a, s)"
    using run_builtin [of ps model s a] unlisted names cell noPolicy by auto
  then have "snd (run_state (Resolve ps chp model (Some g)) s) = ?s"
    using cp by (auto simp: Resolve_def resolveBasePricing_def deref_def applyChannelOverrides_def applyTokenOverrides_def setCell_def Let_def)
  moreover have "run_state (GetModelPricing ps other) ?s = (Inr a, ?s)"
    using run_builtin [of ps other ?s a] unlisted names cell noPolicy by auto
  ultimately show ?thesis using cell by (simp add: CalculateCost_def calculateCostInternal_def deref_def)
qed

theorem override_changes_builtin_price_witness:
  "fst (run_state (CalculateCost None ''claude-opus-4-5'' sampleTokens (F64 1))
     (snd (run_state (Resolve None (\<lambda>_ _. Some sampleEntry) ''claude-opus-4-6'' (Some 7)) initFallbackPricing))) =
   Inr (computeTokenBreakdown (overridePrices sampleEntry (bs_heap initFallbackPricing ! 0)) sampleTokens (F64 1) [] True)"
proof (rule override_changes_builtin_price)
  show "cp_BillingMode sampleEntry \<in> {[], BillingModeToken}" "filterValidIntervals (cp_Intervals sampleEntry) = []"
    by (simp_all add: sampleEntry_def samplePricing_def filterValidIntervals_def)
  show "fallbackName (toLower ''claude-opus-4-6'') \<noteq> []" by code_simp
  show "fallbackName (toLower ''claude-opus-4-5'') \<noteq> []" by code_simp
  have n: "fallbackName (toLower ''claude-opus-4-6'') = ''claude-opus-4.6''" "fallbackName (toLower ''claude-opus-4-5'') = ''claude-opus-4.5''"
    by code_simp+
  show "map_of (bs_fallback initFallbackPricing) (fallbackName (toLower ''claude-opus-4-6'')) = Some 0"
    "map_of (bs_fallback initFallbackPricing) (fallbackName (toLower ''claude-opus-4-5'')) = Some 0"
    "0 < length (bs_heap initFallbackPricing)"
    unfolding n by (simp_all add: initFallbackPricing_def Let_def fallbackCells_def fallbackAliases_def upt_rec List.map_filter_def)
  show "\<not> isOpenAIGPT54Model (toLower ''claude-opus-4-6'')" by code_simp
  show "\<not> isOpenAIGPT54Model (toLower ''claude-opus-4-5'')" by code_simp
qed simp_all

section \<open>Long requests\<close>

text \<open>Splitting a long request at the threshold loses no token and charges none twice: of every kind of token the two parts add
  up to the request, the first part fills the threshold exactly, and no part has a negative number of tokens.\<close>

theorem split_conserves_tokens:
  assumes t: "tokensOk t" and small: "ut_InputTokens t + ut_CacheReadTokens t < 2 ^ 63"
    and long: "0 < threshold" "threshold < ut_InputTokens t + ut_CacheReadTokens t"
  shows "case splitAtThreshold t threshold of (a, b) \<Rightarrow>
     (\<forall>kind \<in> {ut_InputTokens, ut_OutputTokens, ut_CacheCreationTokens, ut_CacheReadTokens, ut_CacheCreation5mTokens,
        ut_CacheCreation1hTokens, ut_ImageOutputTokens}. kind a + kind b = kind t) \<and>
     contextTokens a = threshold \<and> tokensOk a \<and> tokensOk b"
proof -
  have *: "0 \<le> ut_InputTokens t" "0 \<le> ut_CacheReadTokens t" using t by (simp_all add: tokensOk_def)
  have w: "wrap64 (ut_CacheReadTokens t - threshold) = ut_CacheReadTokens t - threshold"
      "wrap64 (threshold - ut_CacheReadTokens t) = threshold - ut_CacheReadTokens t"
      "wrap64 (ut_InputTokens t - (threshold - ut_CacheReadTokens t)) = ut_InputTokens t - (threshold - ut_CacheReadTokens t)"
      "wrap64 threshold = threshold"
    using * small long by (simp_all add: wrap64_id)
  show ?thesis
    using t * long by (auto simp: splitAtThreshold_def Let_def w contextTokens_def tokensOk_def zeroTokens_def)
qed

theorem split_conserves_tokens_witness:
  "case splitAtThreshold (sampleTokens\<lparr>ut_CacheReadTokens := 4\<rparr>) 5 of (a, b) \<Rightarrow>
     (\<forall>kind \<in> {ut_InputTokens, ut_OutputTokens, ut_CacheCreationTokens, ut_CacheReadTokens, ut_CacheCreation5mTokens,
        ut_CacheCreation1hTokens, ut_ImageOutputTokens}. kind a + kind b = kind (sampleTokens\<lparr>ut_CacheReadTokens := 4\<rparr>)) \<and>
     contextTokens a = 5 \<and> tokensOk a \<and> tokensOk b"
  by (rule split_conserves_tokens) (simp_all add: sampleTokens_def zeroTokens_def tokensOk_def)

end
