(* ===== verification/Usage_Safety.thy ===== *)
theory Usage_Safety
  imports Usage_Record Usage_Ledger Billing_Laws
begin

text \<open>
  Properties of the whole way from an answer to a charge (\<open>Usage_Record\<close>): a request is charged once, on one side, whatever runs
  beside it; and what a channel's price for images does not look at.
\<close>

section \<open>The protocol of charges\<close>











section \<open>The request id\<close>







section \<open>One side\<close>

text \<open>A request is charged on one side: a request billed to a subscription leaves every balance as it is, any other request leaves
  every subscription as it is.\<close>

theorem charge_on_one_side:
  "(if pp_IsSubscriptionBill p \<and> pp_Subscription p \<noteq> None \<and> flt fzero (cb_TotalCost (pp_Cost p))
    then users (chargeStore bx (buildUsageBillingCommand requestID l p) s) = users s
    else subs (chargeStore bx (buildUsageBillingCommand requestID l p) s) = subs s)"
proof -
  have z: "\<not> flt fzero fzero" by simp
  have sub: "users (snd (incrementUsageBillingSubscription bx i c s)) = users s" for i c s
    by (simp add: incrementUsageBillingSubscription_def Let_def)
  have bal: "subs (snd (deductUsageBillingBalance bx i c s)) = subs s" for i c s
    by (simp add: deductUsageBillingBalance_def Let_def split: option.split)
  show ?thesis
    by (auto simp: chargeStore_def buildUsageBillingCommand_def Normalize_def Let_def z sub bal split: option.split)
qed

section \<open>Images\<close>

lemma overrides_source:
  "chp g model = Some cp \<Longrightarrow> rv_Source (fst (run_state (applyChannelOverrides chp g model rv) s)) = PricingSourceChannel"
  by (auto simp: applyChannelOverrides_def applyTokenOverrides_def applyRequestTierOverrides_def Let_def newCell_def setCell_def
      split: option.split)

lemma resolve_source:
  assumes "chp g model = Some cp"
  shows "rv_Source (fst (run_state (Resolve ps chp model (Some g)) s)) = PricingSourceChannel"
  unfolding Resolve_def using overrides_source [of chp g model cp] assms by (simp add: split_def Let_def)

text \<open>A channel's price for a model is charged once per request for images: the cost of a request for images does not depend on how
  many images were made and of which size, although prices without a channel are per image and size.\<close>

theorem channel_image_cost_ignores_count:
  assumes "sv_channelPrices sv = Some chp" "gk_Group k = Some g" "chp (rg_ID g) model = Some cp" "0 < fr_ImageCount r" "0 < n"
  shows "run_state (calculateRecordUsageCost sv (r\<lparr>fr_ImageCount := n, fr_ImageSize := z\<rparr>) k model rate threshold extra) s =
         run_state (calculateRecordUsageCost sv r k model rate threshold extra) s"
proof -
  have "\<exists>rv. fst (run_state (resolveChannelPricing sv model k) s) = Some rv"
    using resolve_source [of chp "rg_ID g" model cp "sv_prices sv" s] assms(1-3) by (simp add: resolveChannelPricing_def split_def)
  then show ?thesis using assms(4,5) by (auto simp: calculateRecordUsageCost_def calculateImageCost_def split_def Let_def)
qed

section \<open>Examples\<close>

definition sampleGatewayKey :: gateway_key where
  "sampleGatewayKey = \<lparr>gk_Key = sampleKey, gk_Group = Some \<lparr>rg_ID = 7, rg_RateMultiplier = F64 1, rg_SubscriptionType = ''standard'',
     rg_ImagePrices = \<lparr>ip_Price1K = Some (F64 1), ip_Price2K = None, ip_Price4K = None\<rparr>\<rparr>\<rparr>"


definition sampleResult :: forward_result where
  "sampleResult = \<lparr>fr_RequestID = ''up-1'', fr_Usage = sampleTokens, fr_Model = ''claude-opus'', fr_UpstreamModel = [], fr_Stream = False,
     fr_Duration = nsSecond, fr_FirstTokenMs = None, fr_ReasoningEffort = None, fr_ImageCount = 2, fr_ImageSize = ''1K''\<rparr>"

definition sampleServices :: usage_services where
  "sampleServices = \<lparr>sv_RateMultiplier = None, sv_SimpleMode = False, sv_userRate = (\<lambda>_ _. None), sv_prices = None,
     sv_channelPrices = Some (\<lambda>_ _. Some sampleEntry), sv_groupChannel = (\<lambda>_. None), sv_groupPlatform = (\<lambda>_. []), sv_billingRepo = True,
     sv_notify = False, sv_logQueueFull = False\<rparr>"



theorem channel_image_cost_ignores_count_witness:
  "run_state (calculateRecordUsageCost sampleServices (sampleResult\<lparr>fr_ImageCount := 9, fr_ImageSize := ''4K''\<rparr>) sampleGatewayKey ''claude-opus'' (F64 1) 0 fzero)
     initFallbackPricing =
   run_state (calculateRecordUsageCost sampleServices sampleResult sampleGatewayKey ''claude-opus'' (F64 1) 0 fzero) initFallbackPricing"
  by (rule channel_image_cost_ignores_count) (auto simp: sampleServices_def sampleGatewayKey_def sampleResult_def)

end
