(* ===== verification/Billing_Cache.thy ===== *)
theory Billing_Cache
  imports Usage_Billing Redeem
begin

text \<open>
  Admission of requests (\<open>service/billing_cache_service.go\<close>, \<open>repository/billing_cache.go\<close>): before a request is forwarded, the
  service looks at the balance of the user or the usage of his subscription, and at the spending windows of the API key. It reads
  them from Redis and falls back to the database; a circuit breaker refuses requests while the reads fail.

  \<open>cache_db\<close> holds the tables, the entries in Redis with the time at which they expire, and of the process the circuit breaker, the
  queue of cache writes, and the resets of windows that have been started in the background. An entry in Redis has all its
  fields, since every writer of it writes them all; the version of a subscription, which nothing reads, is left out.
  \<open>redis_num\<close> is what Redis does with numbers: \<open>rn_incr\<close> is \<open>HINCRBYFLOAT\<close>, \<open>rn_text\<close> is a number that a script prints with \<open>tostring\<close>.
\<close>

section \<open>Data\<close>

record redis_num =
  rn_incr :: "f64 \<Rightarrow> f64 \<Rightarrow> f64"
  rn_text :: "f64 \<Rightarrow> f64"

record subscription_cache_data =
  sd_Status :: sub_status
  sd_ExpiresAt :: instant
  sd_DailyUsage :: f64
  sd_WeeklyUsage :: f64
  sd_MonthlyUsage :: f64

record api_key_rate_limit_cache_data =
  rl_Usage5h :: f64
  rl_Usage1d :: f64
  rl_Usage7d :: f64
  rl_Window5h :: int
  rl_Window1d :: int
  rl_Window7d :: int

datatype billing_circuit_state = CircuitClosed | CircuitOpen | CircuitHalfOpen

record billing_circuit_breaker =
  br_state :: billing_circuit_state
  br_failures :: int
  br_openedAt :: instant
  br_failureThreshold :: int
  br_resetTimeout :: duration
  br_halfOpenRequests :: int
  br_halfOpenRemaining :: int

datatype cache_write_task =
    CacheWriteSetBalance int f64
  | CacheWriteSetSubscription int int subscription_cache_data
  | CacheWriteUpdateSubscriptionUsage int int f64
  | CacheWriteDeductBalance int f64
  | CacheWriteUpdateRateLimitUsage int f64

record cache_db =
  cd_db :: billing_db
  cd_balances :: "int \<Rightarrow> (f64 \<times> instant) option"
  cd_subs :: "int \<times> int \<Rightarrow> (subscription_cache_data \<times> instant) option"
  cd_rates :: "int \<Rightarrow> (api_key_rate_limit_cache_data \<times> instant) option"
  cd_breaker :: "billing_circuit_breaker option"
  cd_tasks :: "cache_write_task list"
  cd_stopped :: bool
  cd_resets :: "int list"

text \<open>The service: whether it runs in simple mode, has Redis and a loader for the windows; and the random part of a lifetime.\<close>

record billing_cache_service =
  sc_SimpleMode :: bool
  sc_cache :: bool
  sc_loader :: bool
  sc_redis :: redis_num
  sc_num :: sql_num
  sc_jitter :: duration

type_synonym 'a cp = "(cache_db, 'a) prog"
type_synonym 'a ce = "(cache_db, 'a) eprog"

definition ErrSubscriptionInvalid :: go_err where
  "ErrSubscriptionInvalid = Forbidden ''SUBSCRIPTION_INVALID'' ''subscription is invalid or expired''"

definition ErrBillingServiceUnavailable :: go_err where
  "ErrBillingServiceUnavailable = ServiceUnavailable ''BILLING_SERVICE_ERROR'' ''Billing service temporarily unavailable. Please retry later.''"

definition ErrAPIKeyRateLimit5hExceeded :: go_err where
  "ErrAPIKeyRateLimit5hExceeded = TooManyRequests ''API_KEY_RATE_5H_EXCEEDED'' (''api key 5'' @ [CHR 0xE5, CHR 0xB0, CHR 0x8F, CHR 0xE6, CHR 0x97, CHR 0xB6, CHR 0xE9, CHR 0x99, CHR 0x90, CHR 0xE9, CHR 0xA2, CHR 0x9D, CHR 0xE5, CHR 0xB7, CHR 0xB2, CHR 0xE7, CHR 0x94, CHR 0xA8, CHR 0xE5, CHR 0xAE, CHR 0x8C])"

definition ErrAPIKeyRateLimit1dExceeded :: go_err where
  "ErrAPIKeyRateLimit1dExceeded = TooManyRequests ''API_KEY_RATE_1D_EXCEEDED'' (''api key '' @ [CHR 0xE6, CHR 0x97, CHR 0xA5, CHR 0xE9, CHR 0x99, CHR 0x90, CHR 0xE9, CHR 0xA2, CHR 0x9D, CHR 0xE5, CHR 0xB7, CHR 0xB2, CHR 0xE7, CHR 0x94, CHR 0xA8, CHR 0xE5, CHR 0xAE, CHR 0x8C])"

definition ErrAPIKeyRateLimit7dExceeded :: go_err where
  "ErrAPIKeyRateLimit7dExceeded = TooManyRequests ''API_KEY_RATE_7D_EXCEEDED'' (''api key 7'' @ [CHR 0xE5, CHR 0xA4, CHR 0xA9, CHR 0xE9, CHR 0x99, CHR 0x90, CHR 0xE9, CHR 0xA2, CHR 0x9D, CHR 0xE5, CHR 0xB7, CHR 0xB2, CHR 0xE7, CHR 0x94, CHR 0xA8, CHR 0xE5, CHR 0xAE, CHR 0x8C])"

definition redisNil :: go_err where
  "redisNil = ErrorNew ''redis: nil''"

section \<open>Entries in Redis\<close>

definition billingCacheTTL :: duration where "billingCacheTTL = 5 * nsMinute"
definition rateLimitCacheTTL :: duration where "rateLimitCacheTTL = 7 * 24 * nsHour"

definition jitteredTTL :: "duration \<Rightarrow> duration" where
  "jitteredTTL jitter = billingCacheTTL - jitter"

text \<open>\<open>EXPIRE\<close> takes whole seconds.\<close>

definition wholeSeconds :: "duration \<Rightarrow> duration" where
  "wholeSeconds d = d div nsSecond * nsSecond"

definition live :: "instant \<Rightarrow> ('a \<times> instant) option \<Rightarrow> 'a option" where
  "live now e = (case e of None \<Rightarrow> None | Some (v, t) \<Rightarrow> if now < t then Some v else None)"

definition orNil :: "'a option \<Rightarrow> go_err + 'a" where
  "orNil v = (case v of None \<Rightarrow> Inl redisNil | Some a \<Rightarrow> Inr a)"

definition cacheGetUserBalance :: "int \<Rightarrow> instant \<Rightarrow> cache_db \<Rightarrow> (go_err + f64) \<times> cache_db" where
  "cacheGetUserBalance uid now d = (orNil (live now (cd_balances d uid)), d)"

definition cacheSetUserBalance :: "duration \<Rightarrow> int \<Rightarrow> f64 \<Rightarrow> instant \<Rightarrow> cache_db \<Rightarrow> (go_err + unit) \<times> cache_db" where
  "cacheSetUserBalance ttl uid balance now d = (Inr (), d\<lparr>cd_balances := (cd_balances d)(uid \<mapsto> (balance, now + ttl))\<rparr>)"

definition cacheDeductUserBalance :: "duration \<Rightarrow> int \<Rightarrow> f64 \<Rightarrow> instant \<Rightarrow> cache_db \<Rightarrow> (go_err + unit) \<times> cache_db" where
  "cacheDeductUserBalance ttl uid amount now d =
     (Inr (), case live now (cd_balances d uid) of
        None \<Rightarrow> d
      | Some b \<Rightarrow> d\<lparr>cd_balances := (cd_balances d)(uid \<mapsto> (fsub b amount, now + wholeSeconds ttl))\<rparr>)"

definition cacheInvalidateUserBalance :: "int \<Rightarrow> instant \<Rightarrow> cache_db \<Rightarrow> (go_err + unit) \<times> cache_db" where
  "cacheInvalidateUserBalance uid now d = (Inr (), d\<lparr>cd_balances := (cd_balances d)(uid := None)\<rparr>)"

definition cacheGetSubscription :: "int \<Rightarrow> int \<Rightarrow> instant \<Rightarrow> cache_db \<Rightarrow> (go_err + subscription_cache_data) \<times> cache_db" where
  "cacheGetSubscription uid gid now d = (orNil (live now (cd_subs d (uid, gid))), d)"

definition cacheSetSubscription :: "duration \<Rightarrow> int \<Rightarrow> int \<Rightarrow> subscription_cache_data \<Rightarrow> instant \<Rightarrow> cache_db \<Rightarrow> (go_err + unit) \<times> cache_db" where
  "cacheSetSubscription ttl uid gid s now d =
     (Inr (), d\<lparr>cd_subs := (cd_subs d)((uid, gid) \<mapsto> (s\<lparr>sd_ExpiresAt := wholeSeconds (sd_ExpiresAt s)\<rparr>, now + wholeSeconds ttl))\<rparr>)"

definition cacheUpdateSubscriptionUsage :: "redis_num \<Rightarrow> duration \<Rightarrow> int \<Rightarrow> int \<Rightarrow> f64 \<Rightarrow> instant \<Rightarrow> cache_db \<Rightarrow> (go_err + unit) \<times> cache_db" where
  "cacheUpdateSubscriptionUsage rn ttl uid gid cost now d =
     (Inr (), case live now (cd_subs d (uid, gid)) of
        None \<Rightarrow> d
      | Some s \<Rightarrow> d\<lparr>cd_subs := (cd_subs d)((uid, gid) \<mapsto>
          (s\<lparr>sd_DailyUsage := rn_incr rn (sd_DailyUsage s) cost, sd_WeeklyUsage := rn_incr rn (sd_WeeklyUsage s) cost,
             sd_MonthlyUsage := rn_incr rn (sd_MonthlyUsage s) cost\<rparr>, now + wholeSeconds ttl))\<rparr>)"

definition cacheInvalidateSubscription :: "int \<Rightarrow> int \<Rightarrow> instant \<Rightarrow> cache_db \<Rightarrow> (go_err + unit) \<times> cache_db" where
  "cacheInvalidateSubscription uid gid now d = (Inr (), d\<lparr>cd_subs := (cd_subs d)((uid, gid) := None)\<rparr>)"

definition cacheGetRateLimit :: "int \<Rightarrow> instant \<Rightarrow> cache_db \<Rightarrow> (go_err + api_key_rate_limit_cache_data) \<times> cache_db" where
  "cacheGetRateLimit kid now d = (orNil (live now (cd_rates d kid)), d)"

definition cacheSetRateLimit :: "int \<Rightarrow> api_key_rate_limit_cache_data \<Rightarrow> instant \<Rightarrow> cache_db \<Rightarrow> (go_err + unit) \<times> cache_db" where
  "cacheSetRateLimit kid r now d = (Inr (), d\<lparr>cd_rates := (cd_rates d)(kid \<mapsto> (r, now + rateLimitCacheTTL))\<rparr>)"

text \<open>One window of the script; \<open>now\<close> and \<open>w\<close> are in seconds.\<close>

definition updateWindow :: "redis_num \<Rightarrow> f64 \<Rightarrow> int \<Rightarrow> int \<Rightarrow> f64 \<times> int \<Rightarrow> f64 \<times> int" where
  "updateWindow rn cost now dur uw =
     (case uw of (usage, w) \<Rightarrow> if w = 0 \<or> dur \<le> now - w then (rn_text rn cost, now) else (rn_incr rn usage cost, w))"

definition unixOf :: "instant \<Rightarrow> int" where
  "unixOf t = t div nsSecond"

definition updateRateLimitWindows :: "redis_num \<Rightarrow> f64 \<Rightarrow> instant \<Rightarrow> api_key_rate_limit_cache_data \<Rightarrow> api_key_rate_limit_cache_data" where
  "updateRateLimitWindows rn cost now r =
     (let n = unixOf now;
          (u5, w5) = updateWindow rn cost n (RateLimitWindow5h div nsSecond) (rl_Usage5h r, rl_Window5h r);
          (u1, w1) = updateWindow rn cost n (RateLimitWindow1d div nsSecond) (rl_Usage1d r, rl_Window1d r);
          (u7, w7) = updateWindow rn cost n (RateLimitWindow7d div nsSecond) (rl_Usage7d r, rl_Window7d r)
      in \<lparr>rl_Usage5h = u5, rl_Usage1d = u1, rl_Usage7d = u7, rl_Window5h = w5, rl_Window1d = w1, rl_Window7d = w7\<rparr>)"

definition cacheUpdateRateLimitUsage :: "redis_num \<Rightarrow> int \<Rightarrow> f64 \<Rightarrow> instant \<Rightarrow> cache_db \<Rightarrow> (go_err + unit) \<times> cache_db" where
  "cacheUpdateRateLimitUsage rn kid cost now d =
     (Inr (), case live now (cd_rates d kid) of
        None \<Rightarrow> d
      | Some r \<Rightarrow> d\<lparr>cd_rates := (cd_rates d)(kid \<mapsto> (updateRateLimitWindows rn cost now r, now + rateLimitCacheTTL))\<rparr>)"

definition cacheInvalidateRateLimit :: "int \<Rightarrow> instant \<Rightarrow> cache_db \<Rightarrow> (go_err + unit) \<times> cache_db" where
  "cacheInvalidateRateLimit kid now d = (Inr (), d\<lparr>cd_rates := (cd_rates d)(kid := None)\<rparr>)"

text \<open>A command sent to Redis.\<close>

definition redis :: "(instant \<Rightarrow> cache_db \<Rightarrow> (go_err + 'a) \<times> cache_db) \<Rightarrow> 'a ce" where
  "redis f = do { now \<leftarrow> timeNow; exec (f now) }"

section \<open>The queue of cache writes\<close>

definition cacheWriteBufferSize :: nat where "cacheWriteBufferSize = 1000"

definition enqueueCacheWrite :: "cache_write_task \<Rightarrow> bool cp" where
  "enqueueCacheWrite task = do {
     ok \<leftarrow> peek (\<lambda>d. \<not> cd_stopped d \<and> length (cd_tasks d) < cacheWriteBufferSize);
     if ok then do { _ \<leftarrow> modify (\<lambda>d. d\<lparr>cd_tasks := cd_tasks d @ [task]\<rparr>); ret True } else ret False
   }"

definition setBalanceCache :: "billing_cache_service \<Rightarrow> int \<Rightarrow> f64 \<Rightarrow> unit cp" where
  "setBalanceCache sv uid balance =
     (if \<not> sc_cache sv then ret () else do { _ \<leftarrow> redis (cacheSetUserBalance (jitteredTTL (sc_jitter sv)) uid balance); ret () })"

definition setSubscriptionCache :: "billing_cache_service \<Rightarrow> int \<Rightarrow> int \<Rightarrow> subscription_cache_data \<Rightarrow> unit cp" where
  "setSubscriptionCache sv uid gid s =
     (if \<not> sc_cache sv then ret () else do { _ \<leftarrow> redis (cacheSetSubscription (jitteredTTL (sc_jitter sv)) uid gid s); ret () })"

definition DeductBalanceCache :: "billing_cache_service \<Rightarrow> int \<Rightarrow> f64 \<Rightarrow> unit ce" where
  "DeductBalanceCache sv uid amount =
     (if \<not> sc_cache sv then ret (Inr ()) else redis (cacheDeductUserBalance (jitteredTTL (sc_jitter sv)) uid amount))"

definition UpdateSubscriptionUsage :: "billing_cache_service \<Rightarrow> int \<Rightarrow> int \<Rightarrow> f64 \<Rightarrow> unit ce" where
  "UpdateSubscriptionUsage sv uid gid cost =
     (if \<not> sc_cache sv then ret (Inr ()) else redis (cacheUpdateSubscriptionUsage (sc_redis sv) (jitteredTTL (sc_jitter sv)) uid gid cost))"

text \<open>A worker takes the task at the front of the queue; errors are logged.\<close>

definition runCacheWrite :: "billing_cache_service \<Rightarrow> cache_write_task \<Rightarrow> unit cp" where
  "runCacheWrite sv task =
     (case task of
        CacheWriteSetBalance uid balance \<Rightarrow> setBalanceCache sv uid balance
      | CacheWriteSetSubscription uid gid s \<Rightarrow> setSubscriptionCache sv uid gid s
      | CacheWriteUpdateSubscriptionUsage uid gid cost \<Rightarrow> do { _ \<leftarrow> UpdateSubscriptionUsage sv uid gid cost; ret () }
      | CacheWriteDeductBalance uid amount \<Rightarrow> do { _ \<leftarrow> DeductBalanceCache sv uid amount; ret () }
      | CacheWriteUpdateRateLimitUsage kid cost \<Rightarrow>
          if sc_cache sv then do { _ \<leftarrow> redis (cacheUpdateRateLimitUsage (sc_redis sv) kid cost); ret () } else ret ())"

definition cacheWriteWorker :: "billing_cache_service \<Rightarrow> unit cp" where
  "cacheWriteWorker sv = do {
     ts \<leftarrow> peek cd_tasks;
     case ts of
       [] \<Rightarrow> ret ()
     | t # rest \<Rightarrow> do { _ \<leftarrow> modify (\<lambda>d. d\<lparr>cd_tasks := rest\<rparr>); runCacheWrite sv t }
   }"

text \<open>A deduction and a subscription's usage are written at once when the queue takes no more; the usage of a window is dropped.\<close>

definition queueDeductBalance :: "billing_cache_service \<Rightarrow> int \<Rightarrow> f64 \<Rightarrow> unit cp" where
  "queueDeductBalance sv uid amount =
     (if \<not> sc_cache sv then ret ()
      else do {
        ok \<leftarrow> enqueueCacheWrite (CacheWriteDeductBalance uid amount);
        if ok then ret () else do { _ \<leftarrow> DeductBalanceCache sv uid amount; ret () }
      })"

definition queueUpdateSubscriptionUsage :: "billing_cache_service \<Rightarrow> int \<Rightarrow> int \<Rightarrow> f64 \<Rightarrow> unit cp" where
  "queueUpdateSubscriptionUsage sv uid gid cost =
     (if \<not> sc_cache sv then ret ()
      else do {
        ok \<leftarrow> enqueueCacheWrite (CacheWriteUpdateSubscriptionUsage uid gid cost);
        if ok then ret () else do { _ \<leftarrow> UpdateSubscriptionUsage sv uid gid cost; ret () }
      })"

definition queueUpdateAPIKeyRateLimitUsage :: "billing_cache_service \<Rightarrow> int \<Rightarrow> f64 \<Rightarrow> unit cp" where
  "queueUpdateAPIKeyRateLimitUsage sv kid cost =
     (if \<not> sc_cache sv then ret () else do { _ \<leftarrow> enqueueCacheWrite (CacheWriteUpdateRateLimitUsage kid cost); ret () })"

definition InvalidateUserBalance :: "billing_cache_service \<Rightarrow> int \<Rightarrow> unit ce" where
  "InvalidateUserBalance sv uid = (if \<not> sc_cache sv then ret (Inr ()) else redis (cacheInvalidateUserBalance uid))"

definition InvalidateSubscription :: "billing_cache_service \<Rightarrow> int \<Rightarrow> int \<Rightarrow> unit ce" where
  "InvalidateSubscription sv uid gid = (if \<not> sc_cache sv then ret (Inr ()) else redis (cacheInvalidateSubscription uid gid))"

section \<open>Reading\<close>

definition userRow :: "int \<Rightarrow> cache_db \<Rightarrow> (go_err + user) \<times> cache_db" where
  "userRow uid d = (case tget (\<lambda>u. u_ID u = uid) (users (bd_store (cd_db d))) of
       None \<Rightarrow> Inl (withCause ErrUserNotFound entNotFound) | Some u \<Rightarrow> Inr u, d)"

definition getUserBalanceFromDB :: "int \<Rightarrow> f64 ce" where
  "getUserBalanceFromDB uid = bindE (exec (userRow uid)) (Errorf ''get user balance'') (\<lambda>u. ret (Inr (readBalance u)))"

definition GetUserBalance :: "billing_cache_service \<Rightarrow> int \<Rightarrow> f64 ce" where
  "GetUserBalance sv uid =
     (if \<not> sc_cache sv then getUserBalanceFromDB uid
      else do {
        r \<leftarrow> redis (cacheGetUserBalance uid);
        case r of
          Inr b \<Rightarrow> ret (Inr b)
        | Inl _ \<Rightarrow> bindE (getUserBalanceFromDB uid) id (\<lambda>b. do { _ \<leftarrow> enqueueCacheWrite (CacheWriteSetBalance uid b); ret (Inr b) })
      })"

definition activeSub :: "int \<Rightarrow> int \<Rightarrow> instant \<Rightarrow> cache_db \<Rightarrow> (go_err + user_subscription) \<times> cache_db" where
  "activeSub uid gid now d =
     (case tget (\<lambda>s. subOf uid gid s \<and> us_Status s = SubActive \<and> now < us_ExpiresAt s) (subs (bd_store (cd_db d))) of
        None \<Rightarrow> Inl (withCause ErrSubscriptionNotFound entNotFound) | Some s \<Rightarrow> Inr s, d)"

definition subscriptionData :: "user_subscription \<Rightarrow> subscription_cache_data" where
  "subscriptionData s = \<lparr>sd_Status = us_Status s, sd_ExpiresAt = us_ExpiresAt s, sd_DailyUsage = us_DailyUsageUSD s,
     sd_WeeklyUsage = us_WeeklyUsageUSD s, sd_MonthlyUsage = us_MonthlyUsageUSD s\<rparr>"

definition getSubscriptionFromDB :: "int \<Rightarrow> int \<Rightarrow> subscription_cache_data ce" where
  "getSubscriptionFromDB uid gid = do {
     now \<leftarrow> timeNow;
     bindE (exec (activeSub uid gid now)) (Errorf ''get subscription'') (\<lambda>s. ret (Inr (subscriptionData s)))
   }"

definition GetSubscriptionStatus :: "billing_cache_service \<Rightarrow> int \<Rightarrow> int \<Rightarrow> subscription_cache_data ce" where
  "GetSubscriptionStatus sv uid gid =
     (if \<not> sc_cache sv then getSubscriptionFromDB uid gid
      else do {
        r \<leftarrow> redis (cacheGetSubscription uid gid);
        case r of
          Inr s \<Rightarrow> ret (Inr s)
        | Inl _ \<Rightarrow> bindE (getSubscriptionFromDB uid gid) id (\<lambda>s. do { _ \<leftarrow> enqueueCacheWrite (CacheWriteSetSubscription uid gid s); ret (Inr s) })
      })"

section \<open>Spending windows of a key\<close>

record api_key_rate_limit_data =
  rd_Usage5h :: f64
  rd_Usage1d :: f64
  rd_Usage7d :: f64
  rd_Window5hStart :: "instant option"
  rd_Window1dStart :: "instant option"
  rd_Window7dStart :: "instant option"

definition GetRateLimitData :: "int \<Rightarrow> cache_db \<Rightarrow> (go_err + api_key_rate_limit_data) \<times> cache_db" where
  "GetRateLimitData kid d =
     (case tget (\<lambda>k. k_ID k = kid) (bd_keys (cd_db d)) of
        None \<Rightarrow> Inl ErrAPIKeyNotFound
      | Some k \<Rightarrow> Inr \<lparr>rd_Usage5h = rnd (k_Usage5h k), rd_Usage1d = rnd (k_Usage1d k), rd_Usage7d = rnd (k_Usage7d k),
          rd_Window5hStart = k_Window5hStart k, rd_Window1dStart = k_Window1dStart k, rd_Window7dStart = k_Window7dStart k\<rparr>, d)"

definition cacheEntryOf :: "api_key_rate_limit_data \<Rightarrow> api_key_rate_limit_cache_data" where
  "cacheEntryOf r =
     (let w = (\<lambda>s. case s of None \<Rightarrow> 0 | Some t \<Rightarrow> unixOf t)
      in \<lparr>rl_Usage5h = rd_Usage5h r, rl_Usage1d = rd_Usage1d r, rl_Usage7d = rd_Usage7d r,
          rl_Window5h = w (rd_Window5hStart r), rl_Window1d = w (rd_Window1dStart r), rl_Window7d = w (rd_Window7dStart r)\<rparr>)"

definition windowStart :: "int \<Rightarrow> instant option" where
  "windowStart w = (if 0 < w then Some (w * nsSecond) else None)"

definition limitReached :: "rat \<Rightarrow> f64 \<Rightarrow> bool" where
  "limitReached limit usage \<longleftrightarrow> flt fzero (rnd limit) \<and> fle (rnd limit) usage"

definition rateLimitVerdict :: "api_key \<Rightarrow> f64 \<Rightarrow> f64 \<Rightarrow> f64 \<Rightarrow> go_err + unit" where
  "rateLimitVerdict k u5 u1 u7 =
     (if limitReached (k_RateLimit5h k) u5 then Inl ErrAPIKeyRateLimit5hExceeded
      else if limitReached (k_RateLimit1d k) u1 then Inl ErrAPIKeyRateLimit1dExceeded
      else if limitReached (k_RateLimit7d k) u7 then Inl ErrAPIKeyRateLimit7dExceeded
      else Inr ())"

definition evaluateRateLimits :: "api_key \<Rightarrow> api_key_rate_limit_data \<Rightarrow> unit ce" where
  "evaluateRateLimits k r = do {
     t5 \<leftarrow> timeNow;
     t1 \<leftarrow> timeNow;
     t7 \<leftarrow> timeNow;
     let x5 = IsWindowExpired t5 (rd_Window5hStart r) RateLimitWindow5h;
     let x1 = IsWindowExpired t1 (rd_Window1dStart r) RateLimitWindow1d;
     let x7 = IsWindowExpired t7 (rd_Window7dStart r) RateLimitWindow7d;
     _ \<leftarrow> (if x5 \<or> x1 \<or> x7 then modify (\<lambda>d. d\<lparr>cd_resets := cd_resets d @ [k_ID k]\<rparr>) else ret ());
     ret (rateLimitVerdict k (if x5 then fzero else rd_Usage5h r) (if x1 then fzero else rd_Usage1d r) (if x7 then fzero else rd_Usage7d r))
   }"

text \<open>The background part of \<open>evaluateRateLimits\<close> for one key.\<close>

definition runReset :: "billing_cache_service \<Rightarrow> int \<Rightarrow> unit cp" where
  "runReset sv kid = do {
     _ \<leftarrow> (if sc_loader sv then do {
            now \<leftarrow> timeNow;
            exec (\<lambda>d. (Inr (), d\<lparr>cd_db := (cd_db d)\<lparr>bd_keys := tupd (\<lambda>k. k_ID k = kid) (resetRateLimitWindows (sc_num sv) now) (bd_keys (cd_db d))\<rparr>\<rparr>))
          } else ret (Inr ()));
     _ \<leftarrow> (if sc_cache sv then redis (cacheInvalidateRateLimit kid) else ret (Inr ()));
     ret ()
   }"

definition ofCacheEntry :: "api_key_rate_limit_cache_data \<Rightarrow> api_key_rate_limit_data" where
  "ofCacheEntry c = \<lparr>rd_Usage5h = rl_Usage5h c, rd_Usage1d = rl_Usage1d c, rd_Usage7d = rl_Usage7d c, rd_Window5hStart = windowStart (rl_Window5h c),
     rd_Window1dStart = windowStart (rl_Window1d c), rd_Window7dStart = windowStart (rl_Window7d c)\<rparr>"

definition checkAPIKeyRateLimits :: "billing_cache_service \<Rightarrow> api_key \<Rightarrow> unit ce" where
  "checkAPIKeyRateLimits sv k =
     (if \<not> sc_cache sv then
        (if \<not> sc_loader sv then ret (Inr ())
         else do {
           r \<leftarrow> exec (GetRateLimitData (k_ID k));
           case r of Inl _ \<Rightarrow> ret (Inr ()) | Inr x \<Rightarrow> evaluateRateLimits k x
         })
      else do {
        c \<leftarrow> redis (cacheGetRateLimit (k_ID k));
        case c of
          Inr entry \<Rightarrow> evaluateRateLimits k (ofCacheEntry entry)
        | Inl _ \<Rightarrow>
            if \<not> sc_loader sv then ret (Inr ())
            else do {
              r \<leftarrow> exec (GetRateLimitData (k_ID k));
              case r of
                Inl _ \<Rightarrow> ret (Inr ())
              | Inr x \<Rightarrow> do { _ \<leftarrow> redis (cacheSetRateLimit (k_ID k) (cacheEntryOf x)); evaluateRateLimits k (ofCacheEntry (cacheEntryOf x)) }
            }
      })"

section \<open>The circuit breaker\<close>

record circuit_breaker_config =
  kc_Enabled :: bool
  kc_FailureThreshold :: int
  kc_ResetTimeoutSeconds :: int
  kc_HalfOpenRequests :: int

definition newBillingCircuitBreaker :: "circuit_breaker_config \<Rightarrow> billing_circuit_breaker option" where
  "newBillingCircuitBreaker cfg =
     (if \<not> kc_Enabled cfg then None
      else let orDefault = (\<lambda>v d. if v \<le> (0 :: int) then d else v)
           in Some \<lparr>br_state = CircuitClosed, br_failures = 0, br_openedAt = 0, br_failureThreshold = orDefault (kc_FailureThreshold cfg) 5,
                br_resetTimeout = orDefault (wrap64 (kc_ResetTimeoutSeconds cfg * nsSecond)) (30 * nsSecond),
                br_halfOpenRequests = orDefault (kc_HalfOpenRequests cfg) 1, br_halfOpenRemaining = 0\<rparr>)"

definition admitHalfOpen :: "billing_circuit_breaker \<Rightarrow> bool \<times> billing_circuit_breaker" where
  "admitHalfOpen b =
     (if br_halfOpenRemaining b \<le> 0 then (False, b) else (True, b\<lparr>br_halfOpenRemaining := br_halfOpenRemaining b - 1\<rparr>))"

definition breakerAllow :: "instant \<Rightarrow> billing_circuit_breaker \<Rightarrow> bool \<times> billing_circuit_breaker" where
  "breakerAllow now b =
     (case br_state b of
        CircuitClosed \<Rightarrow> (True, b)
      | CircuitOpen \<Rightarrow>
          if now - br_openedAt b < br_resetTimeout b then (False, b)
          else admitHalfOpen (b\<lparr>br_state := CircuitHalfOpen, br_halfOpenRemaining := br_halfOpenRequests b\<rparr>)
      | CircuitHalfOpen \<Rightarrow> admitHalfOpen b)"

definition breakerOnFailure :: "instant \<Rightarrow> billing_circuit_breaker \<Rightarrow> billing_circuit_breaker" where
  "breakerOnFailure now b =
     (case br_state b of
        CircuitOpen \<Rightarrow> b
      | CircuitHalfOpen \<Rightarrow> b\<lparr>br_state := CircuitOpen, br_openedAt := now, br_halfOpenRemaining := 0\<rparr>
      | CircuitClosed \<Rightarrow>
          (let b1 = b\<lparr>br_failures := br_failures b + 1\<rparr>
           in if br_failureThreshold b1 \<le> br_failures b1
              then b1\<lparr>br_state := CircuitOpen, br_openedAt := now, br_halfOpenRemaining := 0\<rparr> else b1))"

definition breakerOnSuccess :: "billing_circuit_breaker \<Rightarrow> billing_circuit_breaker" where
  "breakerOnSuccess b = b\<lparr>br_state := CircuitClosed, br_failures := 0, br_halfOpenRemaining := 0\<rparr>"

text \<open>The breaker of the service. The clock is read for a breaker that is open, and before one opens.\<close>

definition allowRequest :: "bool cp" where
  "allowRequest = do {
     open \<leftarrow> peek (\<lambda>d. map_option br_state (cd_breaker d) = Some CircuitOpen);
     now \<leftarrow> (if open then timeNow else ret 0);
     ok \<leftarrow> peek (\<lambda>d. case cd_breaker d of None \<Rightarrow> True | Some b \<Rightarrow> fst (breakerAllow now b));
     _ \<leftarrow> modify (\<lambda>d. d\<lparr>cd_breaker := map_option (\<lambda>b. snd (breakerAllow now b)) (cd_breaker d)\<rparr>);
     ret ok
   }"

definition onFailure :: "unit cp" where
  "onFailure = do { now \<leftarrow> timeNow; modify (\<lambda>d. d\<lparr>cd_breaker := map_option (breakerOnFailure now) (cd_breaker d)\<rparr>) }"

definition onSuccess :: "unit cp" where
  "onSuccess = modify (\<lambda>d. d\<lparr>cd_breaker := map_option breakerOnSuccess (cd_breaker d)\<rparr>)"

section \<open>Eligibility\<close>

definition checkBalanceEligibility :: "billing_cache_service \<Rightarrow> int \<Rightarrow> unit ce" where
  "checkBalanceEligibility sv uid = do {
     r \<leftarrow> GetUserBalance sv uid;
     case r of
       Inl e \<Rightarrow> do { _ \<leftarrow> onFailure; ret (Inl (withCause ErrBillingServiceUnavailable e)) }
     | Inr b \<Rightarrow> do { _ \<leftarrow> onSuccess; ret (if fle b fzero then Inl ErrInsufficientBalance else Inr ()) }
   }"

definition usageReached :: "f64 option \<Rightarrow> f64 \<Rightarrow> bool" where
  "usageReached limit usage \<longleftrightarrow> hasLimit limit \<and> (case limit of None \<Rightarrow> False | Some l \<Rightarrow> fle l usage)"

definition subscriptionVerdict :: "group \<Rightarrow> instant \<Rightarrow> subscription_cache_data \<Rightarrow> go_err + unit" where
  "subscriptionVerdict g now s =
     (if sd_Status s \<noteq> SubActive then Inl ErrSubscriptionInvalid
      else if sd_ExpiresAt s < now then Inl ErrSubscriptionInvalid
      else if usageReached (g_DailyLimitUSD g) (sd_DailyUsage s) then Inl ErrDailyLimitExceeded
      else if usageReached (g_WeeklyLimitUSD g) (sd_WeeklyUsage s) then Inl ErrWeeklyLimitExceeded
      else if usageReached (g_MonthlyLimitUSD g) (sd_MonthlyUsage s) then Inl ErrMonthlyLimitExceeded
      else Inr ())"

definition checkSubscriptionEligibility :: "billing_cache_service \<Rightarrow> int \<Rightarrow> group \<Rightarrow> unit ce" where
  "checkSubscriptionEligibility sv uid g = do {
     r \<leftarrow> GetSubscriptionStatus sv uid (g_ID g);
     case r of
       Inl e \<Rightarrow> do { _ \<leftarrow> onFailure; ret (Inl (withCause ErrBillingServiceUnavailable e)) }
     | Inr s \<Rightarrow> do {
         _ \<leftarrow> onSuccess;
         now \<leftarrow> (if sd_Status s \<noteq> SubActive then ret 0 else timeNow);
         ret (subscriptionVerdict g now s)
       }
   }"

text \<open>\<open>subscribed\<close>: the caller found a subscription.\<close>

definition CheckBillingEligibility :: "billing_cache_service \<Rightarrow> int \<Rightarrow> api_key option \<Rightarrow> group option \<Rightarrow> bool \<Rightarrow> unit ce" where
  "CheckBillingEligibility sv uid ko go subscribed =
     (if sc_SimpleMode sv then ret (Inr ())
      else do {
        ok \<leftarrow> allowRequest;
        if \<not> ok then ret (Inl ErrBillingServiceUnavailable)
        else bindE (case go of
                      Some g \<Rightarrow> if IsSubscriptionType g \<and> subscribed then checkSubscriptionEligibility sv uid g else checkBalanceEligibility sv uid
                    | None \<Rightarrow> checkBalanceEligibility sv uid) id (\<lambda>_.
               case ko of
                 Some k \<Rightarrow> if HasRateLimits k then checkAPIKeyRateLimits sv k else ret (Inr ())
               | None \<Rightarrow> ret (Inr ()))
      })"

end
