(* ===== verification/Admission.thy ===== *)
theory Admission
  imports Billing_Cache Samples
begin

text \<open>
  What \<open>Billing_Cache\<close> promises: the circuit breaker stays in order and recovers, a request is admitted exactly when the data the
  service sees allow it, and two ways in which the decision goes wrong.
\<close>

section \<open>The circuit breaker\<close>

definition breakerOk :: "billing_circuit_breaker \<Rightarrow> bool" where
  "breakerOk b \<longleftrightarrow> 0 < br_failureThreshold b \<and> 0 < br_resetTimeout b \<and> 0 < br_halfOpenRequests b \<and> 0 \<le> br_failures b \<and>
     (case br_state b of
        CircuitClosed \<Rightarrow> br_failures b < br_failureThreshold b \<and> br_halfOpenRemaining b = 0
      | CircuitOpen \<Rightarrow> br_halfOpenRemaining b = 0
      | CircuitHalfOpen \<Rightarrow> 0 \<le> br_halfOpenRemaining b \<and> br_halfOpenRemaining b < br_halfOpenRequests b)"

definition breakerInv :: "cache_db \<Rightarrow> bool" where
  "breakerInv d \<longleftrightarrow> pred_option breakerOk (cd_breaker d)"

lemma new_breaker_ok: "pred_option breakerOk (newBillingCircuitBreaker cfg)"
  by (simp add: newBillingCircuitBreaker_def breakerOk_def Let_def nsSecond_def)

lemma breaker_steps_ok:
  assumes "breakerOk b"
  shows "breakerOk (snd (breakerAllow now b))" "breakerOk (breakerOnFailure now b)" "breakerOk (breakerOnSuccess b)"
  using assms
  by (auto simp: breakerOk_def breakerAllow_def admitHalfOpen_def breakerOnFailure_def breakerOnSuccess_def Let_def
      split: billing_circuit_state.splits)

abbreviation keepsBreaker :: "cache_db \<Rightarrow> cache_db \<Rightarrow> bool" where
  "keepsBreaker d d' \<equiv> breakerInv d \<longrightarrow> breakerInv d'"

lemma breakerInv_update:
  "(\<And>b. breakerOk b \<Longrightarrow> breakerOk (f b)) \<Longrightarrow> keepsBreaker d (d\<lparr>cd_breaker := map_option f (cd_breaker d)\<rparr>)"
  by (cases "cd_breaker d") (auto simp: breakerInv_def)

lemma keepsBreaker_same: "cd_breaker d' = cd_breaker d \<Longrightarrow> keepsBreaker d d'"
  by (simp add: breakerInv_def)

lemma own_breaker: "own keepsBreaker allowRequest" "own keepsBreaker onFailure" "own keepsBreaker onSuccess"
  unfolding allowRequest_def onFailure_def onSuccess_def
  by (intro own_rules own_if own_modify breakerInv_update breaker_steps_ok; assumption)+

lemma own_redis: "(\<And>now d. cd_breaker (snd (f now d)) = cd_breaker d) \<Longrightarrow> own keepsBreaker (redis f)"
  unfolding redis_def by (intro own_rules own_exec keepsBreaker_same)

lemma own_enqueue: "own keepsBreaker (enqueueCacheWrite t)"
  unfolding enqueueCacheWrite_def by (intro own_rules own_if own_modify) (simp add: breakerInv_def)

lemmas breaker_frame = cacheGetUserBalance_def cacheGetSubscription_def cacheGetRateLimit_def cacheSetRateLimit_def userRow_def activeSub_def
  GetRateLimitData_def

lemma own_reads: "own keepsBreaker (GetUserBalance sv uid)" "own keepsBreaker (GetSubscriptionStatus sv uid gid)"
  unfolding GetUserBalance_def GetSubscriptionStatus_def getUserBalanceFromDB_def getSubscriptionFromDB_def
  by (intro own_rules own_if own_case_sum own_redis own_enqueue own_read; simp add: breaker_frame)+

lemma own_rateLimits: "own keepsBreaker (checkAPIKeyRateLimits sv k)"
  unfolding checkAPIKeyRateLimits_def evaluateRateLimits_def Let_def
  by (intro own_rules own_if own_case_sum own_redis own_read own_modify; simp add: breaker_frame breakerInv_def)

lemma own_eligibility: "own keepsBreaker (CheckBillingEligibility sv uid ko go subscribed)"
  unfolding CheckBillingEligibility_def checkSubscriptionEligibility_def checkBalanceEligibility_def
  by (intro own_rules own_if own_case_sum own_case_option own_breaker own_reads own_rateLimits)

text \<open>C21. The circuit breaker stays in order: one made from any configuration is in order (positive limits; fewer failures than the
  threshold while it is closed; no trial requests left over unless it is half open, and then fewer than it started with), and
  checking a request keeps it so, whatever fails and whatever other requests do in between, if they keep it so.\<close>

theorem breaker_in_order:
  assumes "cd_breaker (db w) = newBillingCircuitBreaker cfg \<or> breakerInv (db w)" "relies keepsBreaker w"
  shows "breakerInv (db (snd (run_state (CheckBillingEligibility sv uid ko go subscribed) w)))"
proof -
  have "breakerInv (db w)" using assms(1) new_breaker_ok by (auto simp: breakerInv_def)
  then show ?thesis using own_invariant [OF own_eligibility _ assms(2)] by blast
qed

text \<open>A breaker that opened admits a request again when its time has passed, and one success closes it.\<close>

lemma breaker_recovers:
  assumes "breakerOk b" "br_state b = CircuitOpen" "br_openedAt b + br_resetTimeout b \<le> now"
  shows "fst (breakerAllow now b) \<and> br_state (breakerOnSuccess (snd (breakerAllow now b))) = CircuitClosed"
  using assms by (simp add: breakerOk_def breakerAllow_def admitHalfOpen_def breakerOnSuccess_def)

section \<open>The decision\<close>

text \<open>What the service sees: the entry in Redis, and without one the row in the database.\<close>

definition seenBalance :: "billing_cache_service \<Rightarrow> cache_db world \<Rightarrow> int \<Rightarrow> f64 option" where
  "seenBalance sv w uid =
     (case (if sc_cache sv then live (clock w) (cd_balances (db w) uid) else None) of
        Some b \<Rightarrow> Some b
      | None \<Rightarrow> map_option readBalance (tget (\<lambda>u. u_ID u = uid) (users (bd_store (cd_db (db w))))))"

definition seenSubscription :: "billing_cache_service \<Rightarrow> cache_db world \<Rightarrow> int \<Rightarrow> int \<Rightarrow> subscription_cache_data option" where
  "seenSubscription sv w uid gid =
     (case (if sc_cache sv then live (clock w) (cd_subs (db w) (uid, gid)) else None) of
        Some s \<Rightarrow> Some s
      | None \<Rightarrow> map_option subscriptionData
          (tget (\<lambda>s. subOf uid gid s \<and> us_Status s = SubActive \<and> clock w < us_ExpiresAt s) (subs (bd_store (cd_db (db w))))))"

definition keyData :: "cache_db \<Rightarrow> int \<Rightarrow> api_key_rate_limit_data option" where
  "keyData d kid = (case fst (GetRateLimitData kid d) of Inl _ \<Rightarrow> None | Inr r \<Rightarrow> Some r)"

definition seenWindows :: "billing_cache_service \<Rightarrow> cache_db world \<Rightarrow> int \<Rightarrow> api_key_rate_limit_data option" where
  "seenWindows sv w kid =
     (if \<not> sc_cache sv then (if sc_loader sv then keyData (db w) kid else None)
      else case live (clock w) (cd_rates (db w) kid) of
             Some c \<Rightarrow> Some (ofCacheEntry c)
           | None \<Rightarrow> if sc_loader sv then map_option (\<lambda>r. ofCacheEntry (cacheEntryOf r)) (keyData (db w) kid) else None)"

definition usable :: "group \<Rightarrow> instant \<Rightarrow> subscription_cache_data \<Rightarrow> bool" where
  "usable g now s \<longleftrightarrow> sd_Status s = SubActive \<and> now \<le> sd_ExpiresAt s \<and> \<not> usageReached (g_DailyLimitUSD g) (sd_DailyUsage s) \<and>
     \<not> usageReached (g_WeeklyLimitUSD g) (sd_WeeklyUsage s) \<and> \<not> usageReached (g_MonthlyLimitUSD g) (sd_MonthlyUsage s)"

text \<open>No window that is still running has used up its limit.\<close>

definition withinWindows :: "api_key \<Rightarrow> instant \<Rightarrow> api_key_rate_limit_data \<Rightarrow> bool" where
  "withinWindows k now r \<longleftrightarrow>
     (\<forall>(limit, usage, start, dur) \<in> set [(k_RateLimit5h k, rd_Usage5h r, rd_Window5hStart r, RateLimitWindow5h),
         (k_RateLimit1d k, rd_Usage1d r, rd_Window1dStart r, RateLimitWindow1d), (k_RateLimit7d k, rd_Usage7d r, rd_Window7dStart r, RateLimitWindow7d)].
        \<not> limitReached limit (if IsWindowExpired now start dur then fzero else usage))"

definition sameReads :: "cache_db world \<Rightarrow> cache_db world \<Rightarrow> bool" where
  "sameReads w w' \<longleftrightarrow> script w' = script w \<and> ticks w' = ticks w \<and> clock w' = clock w \<and> cd_rates (db w') = cd_rates (db w) \<and>
     cd_db (db w') = cd_db (db w)"

abbreviation quietStill :: "cache_db world \<Rightarrow> bool" where
  "quietStill w \<equiv> script w = [] \<and> ticks w = []"

lemma run_redis: "quietStill w \<Longrightarrow> run_state (redis f) w = (fst (f (clock w) (db w)), w\<lparr>db := snd (f (clock w) (db w))\<rparr>)"
  by (simp add: redis_def run_simps)

lemma sameReads_refl: "sameReads w w"
  by (simp add: sameReads_def)

lemma sameReads_trans: "sameReads a b \<Longrightarrow> sameReads b c \<Longrightarrow> sameReads a c"
  by (simp add: sameReads_def)

lemma sameReads_enqueue: "sameReads w (snd (run_state (enqueueCacheWrite t) w))"
  by (simp add: enqueueCacheWrite_def sameReads_def)

lemmas run_reading = GetUserBalance_def getUserBalanceFromDB_def GetSubscriptionStatus_def getSubscriptionFromDB_def run_simps run_redis
  userRow_def activeSub_def cacheGetUserBalance_def cacheGetSubscription_def cacheGetRateLimit_def orNil_def split_def

lemma run_GetUserBalance:
  assumes "quietStill w"
  shows "sameReads w (snd (run_state (GetUserBalance sv uid) w))"
    "seenBalance sv w uid = (case fst (run_state (GetUserBalance sv uid) w) of Inl _ \<Rightarrow> None | Inr b \<Rightarrow> Some b)"
  using assms sameReads_enqueue sameReads_refl by (auto simp: run_reading seenBalance_def split: option.splits)

lemma run_GetSubscriptionStatus:
  assumes "quietStill w"
  shows "sameReads w (snd (run_state (GetSubscriptionStatus sv uid gid) w))"
    "seenSubscription sv w uid gid = (case fst (run_state (GetSubscriptionStatus sv uid gid) w) of Inl _ \<Rightarrow> None | Inr s \<Rightarrow> Some s)"
  using assms sameReads_enqueue sameReads_refl by (auto simp: run_reading seenSubscription_def split: option.splits)

lemma withinWindows_iff:
  "withinWindows k now r \<longleftrightarrow> rateLimitVerdict k (if IsWindowExpired now (rd_Window5hStart r) RateLimitWindow5h then fzero else rd_Usage5h r)
     (if IsWindowExpired now (rd_Window1dStart r) RateLimitWindow1d then fzero else rd_Usage1d r)
     (if IsWindowExpired now (rd_Window7dStart r) RateLimitWindow7d then fzero else rd_Usage7d r) = Inr ()"
  by (simp add: withinWindows_def rateLimitVerdict_def)

lemma run_evaluate:
  "ticks w = [] \<Longrightarrow> fst (run_state (evaluateRateLimits k r) w) = Inr () \<longleftrightarrow> withinWindows k (clock w) r"
  by (simp add: evaluateRateLimits_def run_timeNow_still withinWindows_iff Let_def split_def)

lemma keyData_split: "GetRateLimitData kid d = (r, d') \<Longrightarrow> d' = d \<and> keyData d kid = (case r of Inl _ \<Rightarrow> None | Inr x \<Rightarrow> Some x)"
  by (auto simp: GetRateLimitData_def keyData_def)

lemma run_checkAPIKeyRateLimits:
  assumes "quietStill w"
  shows "fst (run_state (checkAPIKeyRateLimits sv k) w) = Inr () \<longleftrightarrow>
     (\<forall>r. seenWindows sv w (k_ID k) = Some r \<longrightarrow> withinWindows k (clock w) r)"
proof (cases "GetRateLimitData (k_ID k) (db w)")
  case (Pair r d')
  note kd = keyData_split [OF this]
  show ?thesis
    using assms Pair kd
    by (cases r) (auto simp: checkAPIKeyRateLimits_def run_reading run_evaluate seenWindows_def cacheSetRateLimit_def split: option.splits)
qed

lemma seenWindows_same: "sameReads w w' \<Longrightarrow> seenWindows sv w' kid = seenWindows sv w kid"
  by (cases "live (clock w) (cd_rates (db w) kid)") (simp_all add: seenWindows_def sameReads_def keyData_def GetRateLimitData_def)

text \<open>The first half of the check.\<close>

lemma run_balance:
  assumes "quietStill w"
  shows "sameReads w (snd (run_state (checkBalanceEligibility sv uid) w))"
    "fst (run_state (checkBalanceEligibility sv uid) w) = Inr () \<longleftrightarrow> (\<exists>b. seenBalance sv w uid = Some b \<and> \<not> fle b fzero)"
proof -
  let ?r = "run_state (GetUserBalance sv uid) w"
  from run_GetUserBalance [OF assms, of sv uid] have s: "sameReads w (snd ?r)"
    and v: "seenBalance sv w uid = (case fst ?r of Inl _ \<Rightarrow> None | Inr b \<Rightarrow> Some b)" by auto
  have t: "ticks (snd ?r) = []" using s assms by (simp add: sameReads_def)
  show "sameReads w (snd (run_state (checkBalanceEligibility sv uid) w))"
    using s t by (cases "fst ?r") (simp_all add: checkBalanceEligibility_def onFailure_def onSuccess_def run_timeNow_still split_def sameReads_def)
  show "fst (run_state (checkBalanceEligibility sv uid) w) = Inr () \<longleftrightarrow> (\<exists>b. seenBalance sv w uid = Some b \<and> \<not> fle b fzero)"
    using v t by (cases "fst ?r") (simp_all add: checkBalanceEligibility_def onFailure_def onSuccess_def run_timeNow_still split_def)
qed

lemma run_subscription:
  assumes "quietStill w"
  shows "sameReads w (snd (run_state (checkSubscriptionEligibility sv uid g) w))"
    "fst (run_state (checkSubscriptionEligibility sv uid g) w) = Inr () \<longleftrightarrow>
       (\<exists>s. seenSubscription sv w uid (g_ID g) = Some s \<and> usable g (clock w) s)"
proof -
  let ?r = "run_state (GetSubscriptionStatus sv uid (g_ID g)) w"
  from run_GetSubscriptionStatus [OF assms, of sv uid "g_ID g"] have s: "sameReads w (snd ?r)"
    and v: "seenSubscription sv w uid (g_ID g) = (case fst ?r of Inl _ \<Rightarrow> None | Inr b \<Rightarrow> Some b)" by auto
  have t: "ticks (snd ?r) = []" "clock (snd ?r) = clock w" using s assms by (simp_all add: sameReads_def)
  show "sameReads w (snd (run_state (checkSubscriptionEligibility sv uid g) w))"
    using s t by (cases "fst ?r") (simp_all add: checkSubscriptionEligibility_def onFailure_def onSuccess_def run_timeNow_still split_def sameReads_def)
  show "fst (run_state (checkSubscriptionEligibility sv uid g) w) = Inr () \<longleftrightarrow>
       (\<exists>s. seenSubscription sv w uid (g_ID g) = Some s \<and> usable g (clock w) s)"
    using v t by (cases "fst ?r") (auto simp: checkSubscriptionEligibility_def onFailure_def onSuccess_def run_timeNow_still split_def
        subscriptionVerdict_def usable_def)
qed

definition funded :: "billing_cache_service \<Rightarrow> cache_db world \<Rightarrow> int \<Rightarrow> group option \<Rightarrow> bool \<Rightarrow> bool" where
  "funded sv w uid go subscribed \<longleftrightarrow>
     (case go of
        Some g \<Rightarrow> if IsSubscriptionType g \<and> subscribed then (\<exists>s. seenSubscription sv w uid (g_ID g) = Some s \<and> usable g (clock w) s)
                  else (\<exists>b. seenBalance sv w uid = Some b \<and> \<not> fle b fzero)
      | None \<Rightarrow> (\<exists>b. seenBalance sv w uid = Some b \<and> \<not> fle b fzero))"

lemma closed_admits:
  assumes "pred_option (\<lambda>b. br_state b = CircuitClosed) (cd_breaker (db w))"
  shows "run_state allowRequest w = (True, w)"
proof (cases "cd_breaker (db w)")
  case None
  then show ?thesis by (simp add: allowRequest_def)
next
  case (Some b)
  then show ?thesis using assms by (simp add: allowRequest_def breakerAllow_def)
qed

text \<open>C13. In a run in which nothing fails, with the breaker closed, a request is admitted exactly if the subscription or the balance that
  the service sees allows it (an active subscription that has not expired and has not reached a limit of its group; a balance
  that is not zero or less), and, for a key with spending limits, no window that is still running has reached its limit. Windows
  that cannot be read do not stand in the way.\<close>

theorem admission_iff:
  assumes "script w = []" "ticks w = []" "\<not> sc_SimpleMode sv"
    and closed: "pred_option (\<lambda>b. br_state b = CircuitClosed) (cd_breaker (db w))"
  shows "fst (run_state (CheckBillingEligibility sv uid ko go subscribed) w) = Inr () \<longleftrightarrow>
     funded sv w uid go subscribed \<and>
     (\<forall>k r. ko = Some k \<and> HasRateLimits k \<and> seenWindows sv w (k_ID k) = Some r \<longrightarrow> withinWindows k (clock w) r)"
proof -
  define part where "part = (case go of
      Some g \<Rightarrow> if IsSubscriptionType g \<and> subscribed then checkSubscriptionEligibility sv uid g else checkBalanceEligibility sv uid
    | None \<Rightarrow> checkBalanceEligibility sv uid)"
  have w: "quietStill w" using assms by simp
  note b = run_balance [OF w, of sv uid] and s = run_subscription [OF w, of sv uid]
  have f: "fst (run_state part w) = Inr () \<longleftrightarrow> funded sv w uid go subscribed" "sameReads w (snd (run_state part w))"
    using b s by (auto simp: part_def funded_def split: option.splits)
  have q: "quietStill (snd (run_state part w))" "clock (snd (run_state part w)) = clock w" using f(2) w by (simp_all add: sameReads_def)
  have "CheckBillingEligibility sv uid ko go subscribed = State_Monad.bind allowRequest (\<lambda>ok. if \<not> ok then ret (Inl ErrBillingServiceUnavailable)
      else bindE part id (\<lambda>_. case ko of Some k \<Rightarrow> if HasRateLimits k then checkAPIKeyRateLimits sv k else ret (Inr ()) | None \<Rightarrow> ret (Inr ())))"
    unfolding CheckBillingEligibility_def part_def using assms(3) by (simp only: if_False)
  then show ?thesis
    using f q run_checkAPIKeyRateLimits [OF q(1), of sv] seenWindows_same [OF f(2), of sv]
    by (cases "fst (run_state part w)") (auto simp: closed_admits [OF closed] run_bindE split_def split: option.splits)
qed

section \<open>A missing row counts as a failure\<close>

text \<open>The service reports every error of a read to the breaker, also that there is no such row.\<close>

definition checked :: "billing_cache_service \<Rightarrow> int \<Rightarrow> api_key option \<Rightarrow> group \<Rightarrow> cache_db world \<Rightarrow> cache_db world" where
  "checked sv uid ko g w = snd (run_state (CheckBillingEligibility sv uid ko (Some g) True) w)"

abbreviation withBreaker :: "cache_db world \<Rightarrow> billing_circuit_breaker \<Rightarrow> cache_db world" where
  "withBreaker w b \<equiv> w\<lparr>db := (db w)\<lparr>cd_breaker := Some b\<rparr>\<rparr>"

text \<open>How many failures the breaker has seen at the time \<open>t\<close>: it counts them, or it has opened.\<close>

definition counting :: "instant \<Rightarrow> int \<Rightarrow> billing_circuit_breaker \<Rightarrow> billing_circuit_breaker \<Rightarrow> bool" where
  "counting t n b b' \<longleftrightarrow> breakerOk b' \<and> br_failureThreshold b' = br_failureThreshold b \<and>
     (br_state b' = CircuitClosed \<and> br_failures b' = br_failures b + n \<or> br_state b' = CircuitOpen \<and> br_openedAt b' = t)"

lemma checked_counts:
  assumes w: "quietStill w" "\<not> sc_SimpleMode sv" "IsSubscriptionType g" "seenSubscription sv w uid (g_ID g) = None"
    and b': "counting (clock w) n b b'"
  shows "\<exists>b''. checked sv uid ko g (withBreaker w b') = withBreaker w b'' \<and> counting (clock w) (n + 1) b b''"
proof (cases "br_state b' = CircuitClosed")
  case True
  let ?w = "withBreaker w b'"
  have q: "quietStill ?w" "clock ?w = clock w" using w(1) by simp_all
  have "\<exists>e. run_state (GetSubscriptionStatus sv uid (g_ID g)) ?w = (Inl e, ?w)"
    using w(4) q by (auto simp: run_reading seenSubscription_def split: option.splits if_splits)
  then obtain e where "run_state (GetSubscriptionStatus sv uid (g_ID g)) ?w = (Inl e, ?w)" ..
  then have "checked sv uid ko g ?w = withBreaker w (breakerOnFailure (clock w) b')"
    using w q True by (simp add: checked_def CheckBillingEligibility_def closed_admits checkSubscriptionEligibility_def onFailure_def run_bindE
        run_timeNow_still)
  moreover have "counting (clock w) (n + 1) b (breakerOnFailure (clock w) b')"
    using b' True breaker_steps_ok(2) [of b' "clock w"] by (auto simp: counting_def breakerOnFailure_def Let_def)
  ultimately show ?thesis by blast
next
  case False
  then have o: "br_state b' = CircuitOpen" "br_openedAt b' = clock w" "0 < br_resetTimeout b'" using b' by (auto simp: counting_def breakerOk_def)
  then have "checked sv uid ko g (withBreaker w b') = withBreaker w b'"
    using w by (simp add: checked_def CheckBillingEligibility_def allowRequest_def breakerAllow_def run_timeNow_still)
  moreover have "counting (clock w) (n + 1) b b'" using b' False by (auto simp: counting_def)
  ultimately show ?thesis by blast
qed

lemma checked_many:
  assumes "quietStill w" "\<not> sc_SimpleMode sv" "IsSubscriptionType g" "seenSubscription sv w uid (g_ID g) = None"
    and "cd_breaker (db w) = Some b" "counting (clock w) 0 b b"
  shows "\<exists>b'. (checked sv uid ko g ^^ n) w = withBreaker w b' \<and> counting (clock w) (int n) b b'"
proof (induction n)
  case 0
  have "w = withBreaker w b" using assms(5) by simp
  then show ?case using assms(6) by auto
next
  case (Suc n)
  then obtain b' where "(checked sv uid ko g ^^ n) w = withBreaker w b'" "counting (clock w) (int n) b b'" by blast
  then show ?case using checked_counts [OF assms(1-4), of "int n" b b' ko] by (simp add: add.commute)
qed

text \<open>C36. As many requests as the failure threshold, of one user whose subscription is gone, close the service to everybody: in a run
  in which nothing fails, the breaker counts each of them as a failure and opens, and then the request of any user is refused
  as if billing were unavailable.\<close>

theorem missing_subscription_trips_breaker:
  assumes "script w = []" "ticks w = []" "\<not> sc_SimpleMode sv" "IsSubscriptionType g" "seenSubscription sv w uid (g_ID g) = None"
    and b: "cd_breaker (db w) = Some b" "breakerOk b" "br_state b = CircuitClosed" "br_failureThreshold b \<le> br_failures b + int n"
  shows "fst (run_state (CheckBillingEligibility sv other ko' go subscribed) ((checked sv uid ko g ^^ n) w)) = Inl ErrBillingServiceUnavailable"
proof -
  have w: "quietStill w" using assms by simp
  have "counting (clock w) 0 b b" using b by (simp add: counting_def)
  then obtain b' where b': "(checked sv uid ko g ^^ n) w = withBreaker w b'" "counting (clock w) (int n) b b'"
    using checked_many [OF w assms(3-5) b(1)] by blast
  then have "br_state b' = CircuitOpen" "br_openedAt b' = clock w" "0 < br_resetTimeout b'"
    using b(4) by (auto simp: counting_def breakerOk_def)
  then show ?thesis using b'(1) w assms(3)
    by (simp add: CheckBillingEligibility_def allowRequest_def breakerAllow_def run_timeNow_still)
qed

section \<open>Instances\<close>

definition sampleCacheService :: billing_cache_service where
  "sampleCacheService = \<lparr>sc_SimpleMode = False, sc_cache = True, sc_loader = True, sc_redis = \<lparr>rn_incr = fadd, rn_text = (\<lambda>x. x)\<rparr>,
     sc_num = sampleSqlNum, sc_jitter = 0\<rparr>"

definition sampleBreaker :: billing_circuit_breaker where
  "sampleBreaker = \<lparr>br_state = CircuitClosed, br_failures = 0, br_openedAt = 0, br_failureThreshold = 5, br_resetTimeout = 30 * nsSecond,
     br_halfOpenRequests = 3, br_halfOpenRemaining = 0\<rparr>"

text \<open>A user with five dollars in Redis and a key that has spent four of five dollars in the window of five hours.\<close>

definition sampleCacheDb :: cache_db where
  "sampleCacheDb = \<lparr>cd_db = \<lparr>bd_store = sampleStore, bd_keys = [sampleKey], bd_accounts = [], bd_dedup = [], bd_archive = [], bd_outbox = [],
       bd_logs = [], bd_prices = initFallbackPricing, bd_calls = []\<rparr>,
     cd_balances = (\<lambda>uid. if uid = 1 then Some (F64 5, 21 * nsDay) else None), cd_subs = (\<lambda>_. None), cd_rates = (\<lambda>_. None),
     cd_breaker = Some sampleBreaker, cd_tasks = [], cd_stopped = False, cd_resets = []\<rparr>"

definition sampleCacheWorld :: "cache_db world" where
  "sampleCacheWorld = \<lparr>db = sampleCacheDb, clock = 20 * nsDay + nsHour, ticks = [], script = []\<rparr>"

lemma sampleBreaker_ok: "breakerOk sampleBreaker"
  by (simp add: breakerOk_def sampleBreaker_def nsSecond_def)

theorem breaker_in_order_witness:
  "breakerInv (db (snd (run_state (CheckBillingEligibility sampleCacheService 1 None None False) sampleCacheWorld)))"
proof (rule breaker_in_order)
  show "cd_breaker (db sampleCacheWorld) = newBillingCircuitBreaker \<lparr>kc_Enabled = True, kc_FailureThreshold = 0, kc_ResetTimeoutSeconds = 30,
      kc_HalfOpenRequests = 3\<rparr> \<or> breakerInv (db sampleCacheWorld)"
    by (simp add: newBillingCircuitBreaker_def sampleCacheWorld_def sampleCacheDb_def sampleBreaker_def Let_def wrap64_def nsSecond_def)
qed (simp add: relies_def sampleCacheWorld_def)

theorem admission_iff_witness:
  "fst (run_state (CheckBillingEligibility sampleCacheService 1 (Some sampleKey) None False) sampleCacheWorld) = Inr ()"
proof -
  have w: "script sampleCacheWorld = []" "ticks sampleCacheWorld = []" "\<not> sc_SimpleMode sampleCacheService"
    "pred_option (\<lambda>b. br_state b = CircuitClosed) (cd_breaker (db sampleCacheWorld))"
    by (simp_all add: sampleCacheWorld_def sampleCacheDb_def sampleBreaker_def sampleCacheService_def)
  show ?thesis unfolding admission_iff [OF w]
    by (simp add: funded_def seenBalance_def seenWindows_def keyData_def GetRateLimitData_def withinWindows_def limitReached_def
        sampleCacheWorld_def sampleCacheDb_def sampleCacheService_def sampleKey_def live_def tget_def cacheEntryOf_def ofCacheEntry_def windowStart_def
        unixOf_def IsWindowExpired_def RateLimitWindow5h_def ns_defs)
qed

theorem missing_subscription_trips_breaker_witness:
  "seenSubscription sampleCacheService sampleCacheWorld 2 (g_ID sampleGroup) = None \<and> seenBalance sampleCacheService sampleCacheWorld 1 = Some (F64 5) \<and>
   fst (run_state (CheckBillingEligibility sampleCacheService 1 None None False)
     ((checked sampleCacheService 2 None sampleGroup ^^ 5) sampleCacheWorld)) = Inl ErrBillingServiceUnavailable"
proof (intro conjI)
  show none: "seenSubscription sampleCacheService sampleCacheWorld 2 (g_ID sampleGroup) = None"
    by (simp add: seenSubscription_def sampleCacheWorld_def sampleCacheDb_def sampleCacheService_def live_def sampleStore_def tget_def)
  show "seenBalance sampleCacheService sampleCacheWorld 1 = Some (F64 5)"
    by (simp add: seenBalance_def sampleCacheWorld_def sampleCacheDb_def sampleCacheService_def live_def nsDay_def nsHour_def)
  show "fst (run_state (CheckBillingEligibility sampleCacheService 1 None None False)
     ((checked sampleCacheService 2 None sampleGroup ^^ 5) sampleCacheWorld)) = Inl ErrBillingServiceUnavailable"
    by (rule missing_subscription_trips_breaker [OF _ _ _ _ none _ sampleBreaker_ok])
      (simp_all add: sampleCacheWorld_def sampleCacheDb_def sampleCacheService_def sampleBreaker_def IsSubscriptionType_def sampleGroup_def)
qed

end
