(* ===== verification/Failover.thy ===== *)
theory Failover
  imports Prelude
begin

text \<open>
  Failover between upstream accounts (\<open>handler/failover_loop.go\<close>, and the loop around it in \<open>handler/gateway_handler.go\<close>): a request is
  sent to one account after another until one answers, with retries on the same account for passing errors, a limit on the
  number of switches, and a fresh start for groups with one account. What the scheduler, the slots and the upstream answer in the
  \<open>n\<close>-th round is an argument, \<open>env n\<close>.
\<close>

section \<open>State\<close>

record upstream_failover_error =
  fe_StatusCode :: int
  fe_ForceCacheBilling :: bool
  fe_RetryableOnSameAccount :: bool

datatype failover_action = FailoverContinue | FailoverExhausted | FailoverCanceled

definition maxSameAccountRetries :: nat where "maxSameAccountRetries = 3"
definition sameAccountRetryDelay :: duration where "sameAccountRetryDelay = 500 * 1000000"
definition singleAccountBackoffDelay :: duration where "singleAccountBackoffDelay = 2 * nsSecond"

record failover_state =
  fs_SwitchCount :: int
  fs_MaxSwitches :: int
  fs_FailedAccountIDs :: "int list"
  fs_SameAccountRetryCount :: "int \<Rightarrow> nat"
  fs_LastFailoverErr :: "upstream_failover_error option"
  fs_ForceCacheBilling :: bool
  fs_hasBoundSession :: bool
  fs_unscheduled :: "int list"

text \<open>\<open>fs_unscheduled\<close> lists the calls of \<open>TempUnscheduleRetryableError\<close>.\<close>

definition NewFailoverState :: "int \<Rightarrow> bool \<Rightarrow> failover_state" where
  "NewFailoverState maxSwitches bound = \<lparr>fs_SwitchCount = 0, fs_MaxSwitches = maxSwitches, fs_FailedAccountIDs = [],
     fs_SameAccountRetryCount = (\<lambda>_. 0), fs_LastFailoverErr = None, fs_ForceCacheBilling = False, fs_hasBoundSession = bound, fs_unscheduled = []\<rparr>"

definition needForceCacheBilling :: "bool \<Rightarrow> upstream_failover_error \<Rightarrow> bool" where
  "needForceCacheBilling bound err \<longleftrightarrow> bound \<or> fe_ForceCacheBilling err"

text \<open>\<open>canceled\<close>: the request ends while the code waits.\<close>

definition sleepWithContext :: "bool \<Rightarrow> duration \<Rightarrow> bool" where
  "sleepWithContext canceled d \<longleftrightarrow> d \<le> 0 \<or> \<not> canceled"

definition HandleFailoverError :: "bool \<Rightarrow> int \<Rightarrow> string \<Rightarrow> upstream_failover_error \<Rightarrow> failover_state \<Rightarrow> failover_action \<times> failover_state" where
  "HandleFailoverError canceled accountID platform err s0 =
     (let s1 = s0\<lparr>fs_LastFailoverErr := Some err\<rparr>;
          s2 = (if needForceCacheBilling (fs_hasBoundSession s1) err then s1\<lparr>fs_ForceCacheBilling := True\<rparr> else s1);
          tried = fs_SameAccountRetryCount s2 accountID
      in if fe_RetryableOnSameAccount err \<and> tried < maxSameAccountRetries then
           (if sleepWithContext canceled sameAccountRetryDelay then FailoverContinue else FailoverCanceled,
            s2\<lparr>fs_SameAccountRetryCount := (fs_SameAccountRetryCount s2)(accountID := Suc tried)\<rparr>)
         else
           (let s3 = (if fe_RetryableOnSameAccount err then s2\<lparr>fs_unscheduled := fs_unscheduled s2 @ [accountID]\<rparr> else s2);
                s4 = s3\<lparr>fs_FailedAccountIDs := List.insert accountID (fs_FailedAccountIDs s3)\<rparr>
            in if fs_MaxSwitches s4 \<le> fs_SwitchCount s4 then (FailoverExhausted, s4)
               else (let s5 = s4\<lparr>fs_SwitchCount := fs_SwitchCount s4 + 1\<rparr>
                     in if platform = ''antigravity'' \<and> \<not> sleepWithContext canceled ((fs_SwitchCount s5 - 1) * nsSecond)
                        then (FailoverCanceled, s5) else (FailoverContinue, s5))))"

definition HandleSelectionExhausted :: "bool \<Rightarrow> failover_state \<Rightarrow> failover_action \<times> failover_state" where
  "HandleSelectionExhausted canceled s =
     (case fs_LastFailoverErr s of
        Some err \<Rightarrow>
          if fe_StatusCode err = 503 \<and> fs_SwitchCount s \<le> fs_MaxSwitches s then
            (if sleepWithContext canceled singleAccountBackoffDelay then (FailoverContinue, s\<lparr>fs_FailedAccountIDs := []\<rparr>) else (FailoverCanceled, s))
          else (FailoverExhausted, s)
      | None \<Rightarrow> (FailoverExhausted, s))"

section \<open>The loop\<close>

datatype slot_answer = SlotAcquired | SlotNoPlan | SlotQueueFull | SlotFailed

datatype forward_answer = Forwarded | ForwardFailover upstream_failover_error bool | ForwardPromptTooLong | ForwardBetaBlocked | ForwardError

record round_answers =
  ra_Selected :: "(int \<times> string) option"
  ra_Intercepted :: bool
  ra_Slot :: slot_answer
  ra_Forward :: forward_answer
  ra_Canceled :: bool

text \<open>How the loop ends: what is sent to the client, or that the caller goes on with the fallback group.\<close>

datatype loop_end =
    NoAvailableAccounts
  | FailoverGivenUp "upstream_failover_error option"
  | RequestCanceled
  | MockIntercepted
  | WaitQueueFull
  | SlotNotAcquired
  | StreamBroken upstream_failover_error
  | PromptTooLong
  | BillingRefused
  | BetaBlocked
  | ForwardFailed
  | Answered int

text \<open>No account was selected; the request was forwarded to an account; one round.\<close>

definition selectionFailed :: "bool \<Rightarrow> failover_state \<Rightarrow> loop_end option \<times> failover_state" where
  "selectionFailed canceled s =
     (if fs_FailedAccountIDs s = [] then (Some NoAvailableAccounts, s)
      else (case HandleSelectionExhausted canceled s of
              (FailoverContinue, s') \<Rightarrow> (None, s')
            | (FailoverCanceled, s') \<Rightarrow> (Some RequestCanceled, s')
            | (FailoverExhausted, s') \<Rightarrow> (Some (FailoverGivenUp (fs_LastFailoverErr s')), s')))"

definition afterForward :: "bool \<Rightarrow> int \<Rightarrow> string \<Rightarrow> forward_answer \<Rightarrow> failover_state \<Rightarrow> loop_end option \<times> failover_state" where
  "afterForward canceled account platform answer s =
     (case answer of
        Forwarded \<Rightarrow> (Some (Answered account), s)
      | ForwardBetaBlocked \<Rightarrow> (Some BetaBlocked, s)
      | ForwardPromptTooLong \<Rightarrow> (Some PromptTooLong, s)
      | ForwardFailover err wrote \<Rightarrow>
          if wrote then (Some (StreamBroken err), s)
          else (case HandleFailoverError canceled account platform err s of
                  (FailoverContinue, s') \<Rightarrow> (None, s')
                | (FailoverExhausted, s') \<Rightarrow> (Some (FailoverGivenUp (fs_LastFailoverErr s')), s')
                | (FailoverCanceled, s') \<Rightarrow> (Some RequestCanceled, s'))
      | ForwardError \<Rightarrow> (Some ForwardFailed, s))"

definition failoverRound :: "round_answers \<Rightarrow> failover_state \<Rightarrow> loop_end option \<times> failover_state" where
  "failoverRound ra s =
     (case ra_Selected ra of
        None \<Rightarrow> selectionFailed (ra_Canceled ra) s
      | Some (account, platform) \<Rightarrow>
          if ra_Intercepted ra then (Some MockIntercepted, s)
          else (case ra_Slot ra of
              SlotNoPlan \<Rightarrow> (Some NoAvailableAccounts, s)
            | SlotQueueFull \<Rightarrow> (Some WaitQueueFull, s)
            | SlotFailed \<Rightarrow> (Some SlotNotAcquired, s)
            | SlotAcquired \<Rightarrow> afterForward (ra_Canceled ra) account platform (ra_Forward ra) s))"

text \<open>The result, with the number of rounds it took.\<close>

partial_function (option) failoverLoop :: "(nat \<Rightarrow> round_answers) \<Rightarrow> nat \<Rightarrow> failover_state \<Rightarrow> (loop_end \<times> failover_state \<times> nat) option" where
  [code]: "failoverLoop env n s =
     (case failoverRound (env n) s of
        (Some e, s') \<Rightarrow> Some (e, s', Suc n)
      | (None, s') \<Rightarrow> failoverLoop env (Suc n) s')"

text \<open>A prompt that is too long for the group is tried once more with the fallback group: there may be none that can be used, the key may
  not be eligible for it, or the loop starts again with the answers of that group.\<close>

datatype fallback_answer = FallbackUnusable | FallbackRefused | FallbackGroup "nat \<Rightarrow> round_answers"

definition messagesLoop :: "(nat \<Rightarrow> round_answers) \<Rightarrow> fallback_answer \<Rightarrow> int \<Rightarrow> bool \<Rightarrow> loop_end option" where
  "messagesLoop env fallback maxSwitches bound =
     (case failoverLoop env 0 (NewFailoverState maxSwitches bound) of
        None \<Rightarrow> None
      | Some (PromptTooLong, _, _) \<Rightarrow>
          (case fallback of
             FallbackUnusable \<Rightarrow> Some PromptTooLong
           | FallbackRefused \<Rightarrow> Some BillingRefused
           | FallbackGroup env' \<Rightarrow> map_option fst (failoverLoop env' 0 (NewFailoverState maxSwitches bound)))
      | Some (e, _, _) \<Rightarrow> Some e)"

section \<open>The loop ends\<close>

text \<open>What is left: retries on the same account, switches, and one fresh start after each switch.\<close>

definition retriesLeft :: "int set \<Rightarrow> failover_state \<Rightarrow> nat" where
  "retriesLeft A s = (\<Sum>a \<in> A. maxSameAccountRetries - fs_SameAccountRetryCount s a)"

definition roundsLeft :: "int set \<Rightarrow> failover_state \<Rightarrow> nat" where
  "roundsLeft A s = 2 * (retriesLeft A s + nat (fs_MaxSwitches s - fs_SwitchCount s)) + (if fs_FailedAccountIDs s = [] then 0 else 1)"

lemma retry_counts_down:
  assumes "finite A" "a \<in> A" "fs_SameAccountRetryCount s a < maxSameAccountRetries"
    "fs_SameAccountRetryCount s' = (fs_SameAccountRetryCount s)(a := Suc (fs_SameAccountRetryCount s a))"
  shows "retriesLeft A s' < retriesLeft A s"
  unfolding retriesLeft_def using assms by (intro sum_strict_mono_ex1) auto

lemma retriesLeft_cong: "fs_SameAccountRetryCount s' = fs_SameAccountRetryCount s \<Longrightarrow> retriesLeft A s' = retriesLeft A s"
  by (simp add: retriesLeft_def)

lemma round_counts_down:
  assumes A: "finite A" "\<And>a p. ra_Selected ra = Some (a, p) \<Longrightarrow> a \<in> A" and r: "failoverRound ra s = (None, s')"
  shows "roundsLeft A s' < roundsLeft A s"
proof (cases "ra_Selected ra")
  case None
  then have "fs_FailedAccountIDs s \<noteq> []" "s' = s\<lparr>fs_FailedAccountIDs := []\<rparr>"
    using r by (auto simp: failoverRound_def selectionFailed_def HandleSelectionExhausted_def split: if_splits prod.splits failover_action.splits option.splits)
  then show ?thesis by (simp add: roundsLeft_def retriesLeft_def)
next
  case (Some ap)
  obtain a p where ap: "ap = (a, p)" by fastforce
  then have a: "a \<in> A" using A(2) Some by blast
  obtain err where h: "HandleFailoverError (ra_Canceled ra) a p err s = (FailoverContinue, s')"
    using r Some ap by (auto simp: failoverRound_def afterForward_def split: if_splits slot_answer.splits forward_answer.splits prod.splits failover_action.splits)
  show ?thesis
  proof (cases "fe_RetryableOnSameAccount err \<and> fs_SameAccountRetryCount s a < maxSameAccountRetries")
    case True
    then have "retriesLeft A s' < retriesLeft A s"
      using h by (intro retry_counts_down [OF A(1) a]) (auto simp: HandleFailoverError_def Let_def split: if_splits)
    moreover have "fs_MaxSwitches s' = fs_MaxSwitches s" "fs_SwitchCount s' = fs_SwitchCount s" "fs_FailedAccountIDs s' = fs_FailedAccountIDs s"
      using h True by (auto simp: HandleFailoverError_def Let_def split: if_splits)
    ultimately show ?thesis by (simp add: roundsLeft_def)
  next
    case False
    then have "fs_MaxSwitches s' = fs_MaxSwitches s" "fs_SwitchCount s' = fs_SwitchCount s + 1" "fs_SwitchCount s < fs_MaxSwitches s"
      "fs_SameAccountRetryCount s' = fs_SameAccountRetryCount s"
      using h by (auto simp: HandleFailoverError_def Let_def split: if_splits)
    moreover from this have "nat (fs_MaxSwitches s - fs_SwitchCount s) = Suc (nat (fs_MaxSwitches s - (fs_SwitchCount s + 1)))" by simp
    ultimately show ?thesis by (simp add: roundsLeft_def retriesLeft_cong [of s' s])
  qed
qed

lemma loop_ends:
  assumes "finite A" "\<And>m a p. ra_Selected (env m) = Some (a, p) \<Longrightarrow> a \<in> A"
  shows "\<exists>e s' m. failoverLoop env n s = Some (e, s', m) \<and> m \<le> n + roundsLeft A s + 1"
proof (induction "roundsLeft A s" arbitrary: n s rule: less_induct)
  case less
  show ?case
  proof (cases "failoverRound (env n) s")
    case (Pair e s')
    show ?thesis
    proof (cases e)
      case None
      have down: "roundsLeft A s' < roundsLeft A s"
        using round_counts_down [OF assms(1), of "env n" s s'] assms(2) Pair None by blast
      from less.hyps [OF this, of "Suc n"] show ?thesis
        using Pair None down by (fastforce simp: failoverLoop.simps [of env n s])
    next
      case (Some x)
      then show ?thesis using Pair by (simp add: failoverLoop.simps [of env n s])
    qed
  qed
qed

lemma request_ends:
  assumes "finite A" "\<And>m a p. ra_Selected (env m) = Some (a, p) \<Longrightarrow> a \<in> A"
  shows "\<exists>e s m. failoverLoop env 0 (NewFailoverState maxSwitches bound) = Some (e, s, m) \<and>
     m \<le> 2 * (maxSameAccountRetries * card A + nat maxSwitches) + 1"
proof -
  have "roundsLeft A (NewFailoverState maxSwitches bound) = 2 * (maxSameAccountRetries * card A + nat maxSwitches)"
    using assms(1) by (simp add: roundsLeft_def retriesLeft_def NewFailoverState_def)
  then show ?thesis
    using loop_ends [OF assms(1), where env = env and n = 0 and s = "NewFailoverState maxSwitches bound"] assms(2) by simp
qed

text \<open>C20. The failover loop ends. Whatever the scheduler and the upstream answer, a request that meets accounts of a finite set is over
  after at most twice as many rounds as there are retries (three for each account) and switches, plus one, and so is the
  request when its prompt is too long and it starts again with the fallback group.\<close>

theorem failover_ends:
  assumes "finite A" "\<And>m a p. ra_Selected (env m) = Some (a, p) \<Longrightarrow> a \<in> A"
    "\<And>env' m a p. fallback = FallbackGroup env' \<Longrightarrow> ra_Selected (env' m) = Some (a, p) \<Longrightarrow> a \<in> A"
  shows "(\<exists>e s m. failoverLoop env 0 (NewFailoverState maxSwitches bound) = Some (e, s, m) \<and>
       m \<le> 2 * (maxSameAccountRetries * card A + nat maxSwitches) + 1) \<and>
     (\<exists>e. messagesLoop env fallback maxSwitches bound = Some e)"
proof
  show first: "\<exists>e s m. failoverLoop env 0 (NewFailoverState maxSwitches bound) = Some (e, s, m) \<and>
       m \<le> 2 * (maxSameAccountRetries * card A + nat maxSwitches) + 1"
    using request_ends [OF assms(1)] assms(2) by blast
  have again: "\<exists>e. map_option fst (failoverLoop env' 0 (NewFailoverState maxSwitches bound)) = Some e" if "fallback = FallbackGroup env'" for env'
    using request_ends [OF assms(1), of env' maxSwitches bound] assms(3) [OF that] by fastforce
  then show "\<exists>e. messagesLoop env fallback maxSwitches bound = Some e"
    using first by (cases fallback) (auto simp: messagesLoop_def split: loop_end.splits)
qed

definition busyRound :: round_answers where
  "busyRound = \<lparr>ra_Selected = Some (1, ''anthropic''), ra_Intercepted = False, ra_Slot = SlotAcquired,
     ra_Forward = ForwardFailover \<lparr>fe_StatusCode = 503, fe_ForceCacheBilling = False, fe_RetryableOnSameAccount = True\<rparr> False, ra_Canceled = False\<rparr>"

lemma failover_ends_witness:
  "finite {1::int} \<and> (\<exists>e s m. failoverLoop (\<lambda>_. busyRound) 0 (NewFailoverState 2 True) = Some (e, s, m) \<and>
       m \<le> 2 * (maxSameAccountRetries * card {1::int} + nat 2) + 1) \<and>
     (\<exists>e. messagesLoop (\<lambda>_. busyRound) (FallbackGroup (\<lambda>_. busyRound)) 2 True = Some e)"
proof (rule conjI [OF _ failover_ends])
  fix env' m a p
  assume "FallbackGroup (\<lambda>_. busyRound) = FallbackGroup env'" "ra_Selected (env' m) = Some (a, p)"
  moreover from this have "env' = (\<lambda>_. busyRound)" by simp
  ultimately show "a \<in> {1}" by (simp add: busyRound_def)
qed (simp_all add: busyRound_def)

end
