(* ===== verification/Concurrency.thy ===== *)
theory Concurrency
  imports World
begin

text \<open>
  Concurrency limits (\<open>service/concurrency_service.go\<close>, \<open>repository/concurrency_cache.go\<close>): a request holds a slot of its user
  and a slot of the account it is forwarded to, and waits in a bounded queue while there is none. The slots of an
  account or user are a sorted set in Redis, its members the identifiers of requests, its scores the second in which the slot was
  taken; a queue is a counter.

  \<open>conc_db\<close> is what the operations touch: the clock of the Redis server, which the scripts read, the sorted sets and the counters with
  the time at which their keys expire, and for every process (named by the random number its identifiers begin with) the
  number of identifiers it has made. A sorted set is an association list: no operation looks at the order of its members. The keys of
  sorted sets and of counters begin differently (\<open>key_kinds\<close>) and nothing else writes them, so they are two maps. A script
  is one statement, which Redis executes without interruption; every statement of a pipeline is one of its own. The time
  that passes is part of what happens between two statements.
\<close>

section \<open>Data\<close>

type_synonym 'v entry = "'v \<times> int option"

record conc_db =
  cc_now :: int
  cc_zsets :: "string \<Rightarrow> (string \<times> int) list entry option"
  cc_nums :: "string \<Rightarrow> int entry option"
  cc_seq :: "64 word \<Rightarrow> 64 word"

record concurrency_cache =
  slotTTLSeconds :: int
  waitQueueTTLSeconds :: int

text \<open>The service of one process: whether it has Redis, the random number of the process, and for every pattern the pages of
  an iteration of \<open>SCAN\<close>: the keys that each call returns, given the state it finds.\<close>

record 'd concurrency_service =
  cv_cache :: "concurrency_cache option"
  cv_random :: "64 word"
  cv_scan :: "string \<Rightarrow> ('d \<Rightarrow> string list) list"

datatype release_func = NoRelease | ReleaseAccount int string | ReleaseUser int string

record acquire_result =
  Acquired :: bool
  ReleaseFunc :: "release_func option"

record with_concurrency =
  wc_ID :: int
  wc_MaxConcurrency :: int

record load_info =
  li_ID :: int
  li_CurrentConcurrency :: int
  li_WaitingCount :: int
  li_LoadRate :: int

type_synonym ('z, 'a) qp = "('z conc_db_scheme, 'a) prog"
type_synonym ('z, 'a) qe = "('z conc_db_scheme, 'a) eprog"
type_synonym 'z conc_service = "'z conc_db_scheme concurrency_service"

section \<open>Redis\<close>

text \<open>\<open>TIME\<close>: the server's clock, in milliseconds here, in seconds for the scripts.\<close>

definition redisSeconds :: "'z conc_db_scheme \<Rightarrow> int" where
  "redisSeconds d = cc_now d div 1000"

text \<open>A key whose time is over is not there.\<close>

definition unexpired :: "'z conc_db_scheme \<Rightarrow> 'v entry option \<Rightarrow> 'v entry option" where
  "unexpired d e = (case e of
       Some (v, Some t) \<Rightarrow> if t \<le> cc_now d then None else e
     | _ \<Rightarrow> e)"

definition zmembers :: "'z conc_db_scheme \<Rightarrow> string \<Rightarrow> (string \<times> int) list" where
  "zmembers d key = (case unexpired d (cc_zsets d key) of None \<Rightarrow> [] | Some (ms, _) \<Rightarrow> ms)"

text \<open>A sorted set that loses its last member is deleted.\<close>

definition zwrite :: "string \<Rightarrow> (string \<times> int) list \<Rightarrow> 'z conc_db_scheme \<Rightarrow> 'z conc_db_scheme" where
  "zwrite key ms d =
     d\<lparr>cc_zsets := (cc_zsets d)(key := if ms = [] then None
         else Some (ms, case unexpired d (cc_zsets d key) of None \<Rightarrow> None | Some (_, t) \<Rightarrow> t))\<rparr>"

definition zremrangebyscore :: "string \<Rightarrow> int \<Rightarrow> 'z conc_db_scheme \<Rightarrow> 'z conc_db_scheme" where
  "zremrangebyscore key upTo d = zwrite key (filter (\<lambda>(_, s). upTo < s) (zmembers d key)) d"

definition zscore :: "'z conc_db_scheme \<Rightarrow> string \<Rightarrow> string \<Rightarrow> int option" where
  "zscore d key m = map_of (zmembers d key) m"

definition zcard :: "'z conc_db_scheme \<Rightarrow> string \<Rightarrow> int" where
  "zcard d key = int (length (zmembers d key))"

definition zadd :: "string \<Rightarrow> int \<Rightarrow> string \<Rightarrow> 'z conc_db_scheme \<Rightarrow> 'z conc_db_scheme" where
  "zadd key score m d = zwrite key ((m, score) # filter (\<lambda>(x, _). x \<noteq> m) (zmembers d key)) d"

definition zrem :: "string \<Rightarrow> string \<Rightarrow> 'z conc_db_scheme \<Rightarrow> 'z conc_db_scheme" where
  "zrem key m d = zwrite key (filter (\<lambda>(x, _). x \<noteq> m) (zmembers d key)) d"

definition expireAt :: "int \<Rightarrow> 'z conc_db_scheme \<Rightarrow> 'v entry option \<Rightarrow> 'v entry option" where
  "expireAt ttl d e = (case unexpired d e of
       None \<Rightarrow> None
     | Some (v, _) \<Rightarrow> if ttl \<le> 0 then None else Some (v, Some (cc_now d + ttl * 1000)))"

definition zexpire :: "string \<Rightarrow> int \<Rightarrow> 'z conc_db_scheme \<Rightarrow> 'z conc_db_scheme" where
  "zexpire key ttl d = d\<lparr>cc_zsets := (cc_zsets d)(key := expireAt ttl d (cc_zsets d key))\<rparr>"

definition zdel :: "string \<Rightarrow> 'z conc_db_scheme \<Rightarrow> 'z conc_db_scheme" where
  "zdel key d = d\<lparr>cc_zsets := (cc_zsets d)(key := None)\<rparr>"

definition numGet :: "'z conc_db_scheme \<Rightarrow> string \<Rightarrow> int option" where
  "numGet d key = map_option fst (unexpired d (cc_nums d key))"

text \<open>\<open>INCR\<close> and \<open>DECR\<close> keep the time at which the key expires.\<close>

definition numAdd :: "string \<Rightarrow> int \<Rightarrow> 'z conc_db_scheme \<Rightarrow> 'z conc_db_scheme" where
  "numAdd key n d =
     d\<lparr>cc_nums := (cc_nums d)(key \<mapsto> (case unexpired d (cc_nums d key) of None \<Rightarrow> (n, None) | Some (v, t) \<Rightarrow> (v + n, t)))\<rparr>"

definition numExpire :: "string \<Rightarrow> int \<Rightarrow> 'z conc_db_scheme \<Rightarrow> 'z conc_db_scheme" where
  "numExpire key ttl d = d\<lparr>cc_nums := (cc_nums d)(key := expireAt ttl d (cc_nums d key))\<rparr>"

definition numDel :: "string \<Rightarrow> 'z conc_db_scheme \<Rightarrow> 'z conc_db_scheme" where
  "numDel key d = d\<lparr>cc_nums := (cc_nums d)(key := None)\<rparr>"

section \<open>Scripts\<close>

definition acquireScript :: "string \<Rightarrow> int \<Rightarrow> int \<Rightarrow> string \<Rightarrow> 'z conc_db_scheme \<Rightarrow> int \<times> 'z conc_db_scheme" where
  "acquireScript key maxConcurrency ttl requestID d =
     (let now = redisSeconds d;
          d1 = zremrangebyscore key (now - ttl) d
      in if zscore d1 key requestID \<noteq> None then (1, zexpire key ttl (zadd key now requestID d1))
         else if zcard d1 key < maxConcurrency then (1, zexpire key ttl (zadd key now requestID d1))
         else (0, d1))"

definition getCountScript :: "string \<Rightarrow> int \<Rightarrow> 'z conc_db_scheme \<Rightarrow> int \<times> 'z conc_db_scheme" where
  "getCountScript key ttl d =
     (let d1 = zremrangebyscore key (redisSeconds d - ttl) d in (zcard d1 key, d1))"

definition incrementWaitScript :: "string \<Rightarrow> int \<Rightarrow> int \<Rightarrow> 'z conc_db_scheme \<Rightarrow> int \<times> 'z conc_db_scheme" where
  "incrementWaitScript key maxWait ttl d =
     (let current = (case numGet d key of None \<Rightarrow> 0 | Some v \<Rightarrow> v)
      in if maxWait \<le> current then (0, d) else (1, numExpire key ttl (numAdd key 1 d)))"

definition incrementAccountWaitScript :: "string \<Rightarrow> int \<Rightarrow> int \<Rightarrow> 'z conc_db_scheme \<Rightarrow> int \<times> 'z conc_db_scheme" where
  "incrementAccountWaitScript key maxWait ttl d =
     (let current = (case numGet d key of None \<Rightarrow> 0 | Some v \<Rightarrow> v)
      in if maxWait \<le> current then (0, d) else (1, numExpire key ttl (numAdd key 1 d)))"

definition decrementWaitScript :: "string \<Rightarrow> 'z conc_db_scheme \<Rightarrow> int \<times> 'z conc_db_scheme" where
  "decrementWaitScript key d =
     (1, case numGet d key of None \<Rightarrow> d | Some v \<Rightarrow> if 0 < v then numAdd key (- 1) d else d)"

definition cleanupExpiredSlotsScript :: "string \<Rightarrow> int \<Rightarrow> 'z conc_db_scheme \<Rightarrow> int \<times> 'z conc_db_scheme" where
  "cleanupExpiredSlotsScript key ttl d =
     (let d1 = zremrangebyscore key (redisSeconds d - ttl) d
      in (1, if zcard d1 key = 0 then zdel key d1 else zexpire key ttl d1))"

definition startupCleanupKey :: "string \<Rightarrow> int \<Rightarrow> string \<Rightarrow> 'z conc_db_scheme \<Rightarrow> 'z conc_db_scheme" where
  "startupCleanupKey activePrefix slotTTL key d =
     (let d1 = fold (\<lambda>(m, _) d. if \<not> hasPrefix m activePrefix then zrem key m d else d) (zmembers d key) d
      in if zcard d1 key = 0 then zdel key d1 else zexpire key slotTTL d1)"

definition startupCleanupScript :: "string list \<Rightarrow> string \<Rightarrow> int \<Rightarrow> 'z conc_db_scheme \<Rightarrow> 'z conc_db_scheme" where
  "startupCleanupScript ks activePrefix slotTTL d = fold (startupCleanupKey activePrefix slotTTL) ks d"

section \<open>The cache\<close>

definition defaultSlotTTLMinutes :: int where "defaultSlotTTLMinutes = 15"

definition NewConcurrencyCache :: "int \<Rightarrow> int \<Rightarrow> concurrency_cache" where
  "NewConcurrencyCache slotTTLMinutes waitTTL =
     (let mins = (if slotTTLMinutes \<le> 0 then defaultSlotTTLMinutes else slotTTLMinutes)
      in \<lparr>slotTTLSeconds = wrap64 (mins * 60), waitQueueTTLSeconds = (if waitTTL \<le> 0 then wrap64 (mins * 60) else waitTTL)\<rparr>)"

definition accountSlotKeyPrefix :: string where "accountSlotKeyPrefix = ''concurrency:account:''"
definition userSlotKeyPrefix :: string where "userSlotKeyPrefix = ''concurrency:user:''"
definition waitQueueKeyPrefix :: string where "waitQueueKeyPrefix = ''concurrency:wait:''"
definition accountWaitKeyPrefix :: string where "accountWaitKeyPrefix = ''wait:account:''"

definition accountSlotKey :: "int \<Rightarrow> string" where "accountSlotKey accountID = accountSlotKeyPrefix @ formatInt accountID"
definition userSlotKey :: "int \<Rightarrow> string" where "userSlotKey userID = userSlotKeyPrefix @ formatInt userID"
definition waitQueueKey :: "int \<Rightarrow> string" where "waitQueueKey userID = waitQueueKeyPrefix @ formatInt userID"
definition accountWaitKey :: "int \<Rightarrow> string" where "accountWaitKey accountID = accountWaitKeyPrefix @ formatInt accountID"

lemmas key_prefixes = accountSlotKeyPrefix_def userSlotKeyPrefix_def waitQueueKeyPrefix_def accountWaitKeyPrefix_def
lemmas conc_keys = accountSlotKey_def userSlotKey_def waitQueueKey_def accountWaitKey_def key_prefixes

text \<open>A script, and what the code makes of its integer.\<close>

definition runScript :: "('z conc_db_scheme \<Rightarrow> 'a \<times> 'z conc_db_scheme) \<Rightarrow> ('z, 'a) qe" where
  "runScript s = exec (\<lambda>d. let (r, d') = s d in (Inr r, d'))"

definition granted :: "('z, int) qe \<Rightarrow> ('z, bool) qe" where
  "granted m = bindE m id (\<lambda>result. ret (Inr (result = 1)))"

definition cacheAcquireAccountSlot :: "concurrency_cache \<Rightarrow> int \<Rightarrow> int \<Rightarrow> string \<Rightarrow> ('z, bool) qe" where
  "cacheAcquireAccountSlot c accountID maxConcurrency requestID =
     granted (runScript (acquireScript (accountSlotKey accountID) maxConcurrency (slotTTLSeconds c) requestID))"

definition cacheReleaseAccountSlot :: "int \<Rightarrow> string \<Rightarrow> ('z, unit) qe" where
  "cacheReleaseAccountSlot accountID requestID = exec (\<lambda>d. (Inr (), zrem (accountSlotKey accountID) requestID d))"

definition cacheGetAccountConcurrency :: "concurrency_cache \<Rightarrow> int \<Rightarrow> ('z, int) qe" where
  "cacheGetAccountConcurrency c accountID = runScript (getCountScript (accountSlotKey accountID) (slotTTLSeconds c))"

definition cacheAcquireUserSlot :: "concurrency_cache \<Rightarrow> int \<Rightarrow> int \<Rightarrow> string \<Rightarrow> ('z, bool) qe" where
  "cacheAcquireUserSlot c userID maxConcurrency requestID =
     granted (runScript (acquireScript (userSlotKey userID) maxConcurrency (slotTTLSeconds c) requestID))"

definition cacheReleaseUserSlot :: "int \<Rightarrow> string \<Rightarrow> ('z, unit) qe" where
  "cacheReleaseUserSlot userID requestID = exec (\<lambda>d. (Inr (), zrem (userSlotKey userID) requestID d))"

definition cacheGetUserConcurrency :: "concurrency_cache \<Rightarrow> int \<Rightarrow> ('z, int) qe" where
  "cacheGetUserConcurrency c userID = runScript (getCountScript (userSlotKey userID) (slotTTLSeconds c))"

definition cacheIncrementWaitCount :: "concurrency_cache \<Rightarrow> int \<Rightarrow> int \<Rightarrow> ('z, bool) qe" where
  "cacheIncrementWaitCount c userID maxWait =
     granted (runScript (incrementWaitScript (waitQueueKey userID) maxWait (waitQueueTTLSeconds c)))"

definition cacheDecrementWaitCount :: "int \<Rightarrow> ('z, unit) qe" where
  "cacheDecrementWaitCount userID = bindE (runScript (decrementWaitScript (waitQueueKey userID))) id (\<lambda>_. ret (Inr ()))"

definition cacheIncrementAccountWaitCount :: "concurrency_cache \<Rightarrow> int \<Rightarrow> int \<Rightarrow> ('z, bool) qe" where
  "cacheIncrementAccountWaitCount c accountID maxWait =
     granted (runScript (incrementAccountWaitScript (accountWaitKey accountID) maxWait (waitQueueTTLSeconds c)))"

definition cacheDecrementAccountWaitCount :: "int \<Rightarrow> ('z, unit) qe" where
  "cacheDecrementAccountWaitCount accountID = bindE (runScript (decrementWaitScript (accountWaitKey accountID))) id (\<lambda>_. ret (Inr ()))"

definition nilReply :: go_err where
  "nilReply = ErrorNew ''redis: nil''"

definition getCmd :: "string \<Rightarrow> ('z, int) qe" where
  "getCmd key = exec (\<lambda>d. (case numGet d key of None \<Rightarrow> Inl nilReply | Some v \<Rightarrow> Inr v, d))"

definition cacheGetAccountWaitingCount :: "int \<Rightarrow> ('z, int) qe" where
  "cacheGetAccountWaitingCount accountID = do {
     r \<leftarrow> getCmd (accountWaitKey accountID);
     case r of
       Inl e \<Rightarrow> if e \<noteq> nilReply then ret (Inl e) else ret (Inr 0)
     | Inr val \<Rightarrow> ret (Inr val) }"

section \<open>Pipelines\<close>

text \<open>The commands of a pipeline are sent together. \<open>Exec\<close> returns the error of the first command that failed, if any, and a command that
  failed has the value zero.\<close>

definition zremrangeCmd :: "string \<Rightarrow> int \<Rightarrow> ('z, unit) qe" where
  "zremrangeCmd key cutoff = exec (\<lambda>d. (Inr (), zremrangebyscore key cutoff d))"

definition zcardCmd :: "string \<Rightarrow> ('z, int) qe" where
  "zcardCmd key = exec (\<lambda>d. (Inr (zcard d key), d))"

definition errOf :: "go_err + 'a \<Rightarrow> go_err option" where
  "errOf r = (case r of Inl e \<Rightarrow> Some e | Inr _ \<Rightarrow> None)"

definition valOr0 :: "go_err + int \<Rightarrow> int" where
  "valOr0 r = (case r of Inl _ \<Rightarrow> 0 | Inr v \<Rightarrow> v)"

definition pipeFails :: "go_err option list \<Rightarrow> go_err option" where
  "pipeFails errs = (case firstSome id errs of None \<Rightarrow> None | Some e \<Rightarrow> if e = nilReply then None else Some (Errorf ''pipeline exec'' e))"

definition redisTime :: "('z, int) qe" where
  "redisTime = bindE (query redisSeconds) (Errorf ''redis TIME'') (\<lambda>now. ret (Inr now))"

fun mapProg :: "('a \<Rightarrow> ('d, 'b) prog) \<Rightarrow> 'a list \<Rightarrow> ('d, 'b list) prog" where
  "mapProg f [] = ret []"
| "mapProg f (x # xs) = do { y \<leftarrow> f x; ys \<leftarrow> mapProg f xs; ret (y # ys) }"

definition cacheGetAccountConcurrencyBatch :: "concurrency_cache \<Rightarrow> int list \<Rightarrow> ('z, (int \<Rightarrow> int option)) qe" where
  "cacheGetAccountConcurrencyBatch c accountIDs =
     (if accountIDs = [] then ret (Inr (\<lambda>_. None))
      else bindE redisTime id (\<lambda>now. do {
        cmds \<leftarrow> mapProg (\<lambda>accountID. do {
          z \<leftarrow> zremrangeCmd (accountSlotKey accountID) (now - slotTTLSeconds c);
          n \<leftarrow> zcardCmd (accountSlotKey accountID);
          ret (accountID, [errOf z, errOf n], valOr0 n) }) accountIDs;
        case pipeFails (concat (map (\<lambda>(_, es, _). es) cmds)) of
          Some e \<Rightarrow> ret (Inl e)
        | None \<Rightarrow> ret (Inr (foldl (\<lambda>result (accountID, _, n). result(accountID \<mapsto> n)) (\<lambda>_. None) cmds)) }))"

text \<open>Division of 64-bit integers rounds towards zero.\<close>

definition quot64 :: "int \<Rightarrow> int \<Rightarrow> int" where
  "quot64 a b = wrap64 (sgn a * sgn b * (\<bar>a\<bar> div \<bar>b\<bar>))"

definition loadRate :: "int \<Rightarrow> int \<Rightarrow> int \<Rightarrow> int" where
  "loadRate currentConcurrency waitingCount maxConcurrency =
     (if 0 < maxConcurrency then quot64 (wrap64 (wrap64 (currentConcurrency + waitingCount) * 100)) maxConcurrency else 0)"

definition loadCmds :: "string \<Rightarrow> string \<Rightarrow> int \<Rightarrow> with_concurrency \<Rightarrow> ('z, (with_concurrency \<times> go_err option list \<times> int \<times> int)) qp" where
  "loadCmds slotKey waitKey cutoff a = do {
     z \<leftarrow> zremrangeCmd slotKey cutoff;
     n \<leftarrow> zcardCmd slotKey;
     g \<leftarrow> getCmd waitKey;
     ret (a, [errOf z, errOf n, errOf g], valOr0 n, valOr0 g) }"

definition loadEntry :: "(int \<Rightarrow> load_info option) \<Rightarrow> with_concurrency \<times> go_err option list \<times> int \<times> int \<Rightarrow> int \<Rightarrow> load_info option" where
  "loadEntry loadMap = (\<lambda>(a, _, current, waiting). loadMap(wc_ID a \<mapsto>
     \<lparr>li_ID = wc_ID a, li_CurrentConcurrency = current, li_WaitingCount = waiting, li_LoadRate = loadRate current waiting (wc_MaxConcurrency a)\<rparr>))"

definition loadBatch :: "(int \<Rightarrow> string) \<Rightarrow> (int \<Rightarrow> string) \<Rightarrow> concurrency_cache \<Rightarrow> with_concurrency list \<Rightarrow> ('z, (int \<Rightarrow> load_info option)) qe" where
  "loadBatch slotKey waitKey c accounts =
     (if accounts = [] then ret (Inr (\<lambda>_. None))
      else bindE redisTime id (\<lambda>now. do {
        cmds \<leftarrow> mapProg (\<lambda>a. loadCmds (slotKey (wc_ID a)) (waitKey (wc_ID a)) (now - slotTTLSeconds c) a) accounts;
        case pipeFails (concat (map (\<lambda>(_, es, _). es) cmds)) of
          Some e \<Rightarrow> ret (Inl e)
        | None \<Rightarrow> ret (Inr (foldl loadEntry (\<lambda>_. None) cmds)) }))"

definition cacheGetAccountsLoadBatch :: "concurrency_cache \<Rightarrow> with_concurrency list \<Rightarrow> ('z, (int \<Rightarrow> load_info option)) qe" where
  "cacheGetAccountsLoadBatch = loadBatch accountSlotKey accountWaitKey"

definition cacheGetUsersLoadBatch :: "concurrency_cache \<Rightarrow> with_concurrency list \<Rightarrow> ('z, (int \<Rightarrow> load_info option)) qe" where
  "cacheGetUsersLoadBatch = loadBatch userSlotKey waitQueueKey"

section \<open>Cleaning up\<close>

definition cacheCleanupExpiredAccountSlots :: "concurrency_cache \<Rightarrow> int \<Rightarrow> ('z, unit) qe" where
  "cacheCleanupExpiredAccountSlots c accountID =
     bindE (runScript (cleanupExpiredSlotsScript (accountSlotKey accountID) (slotTTLSeconds c))) id (\<lambda>_. ret (Inr ()))"

text \<open>The pages of one iteration of \<open>SCAN\<close>, which ends when the server returns the cursor zero.\<close>

fun cleanupSlotsByPattern :: "concurrency_cache \<Rightarrow> ('z conc_db_scheme \<Rightarrow> string list) list \<Rightarrow> string \<Rightarrow> string \<Rightarrow> ('z, unit) qe" where
  "cleanupSlotsByPattern c [] pattern activePrefix = ret (Inr ())"
| "cleanupSlotsByPattern c (page # pages) pattern activePrefix =
     bindE (query page) (Errorf (''scan '' @ pattern)) (\<lambda>ks.
       if ks \<noteq> []
       then bindE (exec (\<lambda>d. (Inr (), startupCleanupScript ks activePrefix (slotTTLSeconds c) d))) (Errorf (''cleanup slots '' @ pattern))
              (\<lambda>_. cleanupSlotsByPattern c pages pattern activePrefix)
       else cleanupSlotsByPattern c pages pattern activePrefix)"

fun deleteKeysByPattern :: "('z conc_db_scheme \<Rightarrow> string list) list \<Rightarrow> string \<Rightarrow> ('z, unit) qe" where
  "deleteKeysByPattern [] pattern = ret (Inr ())"
| "deleteKeysByPattern (page # pages) pattern =
     bindE (query page) (Errorf (''scan '' @ pattern)) (\<lambda>ks.
       if ks \<noteq> []
       then bindE (exec (\<lambda>d. (Inr (), fold numDel ks d))) (Errorf (''del '' @ pattern)) (\<lambda>_. deleteKeysByPattern pages pattern)
       else deleteKeysByPattern pages pattern)"

definition cacheCleanupStaleProcessSlots :: "concurrency_cache \<Rightarrow> (string \<Rightarrow> ('z conc_db_scheme \<Rightarrow> string list) list) \<Rightarrow> string \<Rightarrow> ('z, unit) qe" where
  "cacheCleanupStaleProcessSlots c scan activeRequestPrefix =
     (if activeRequestPrefix = [] then ret (Inr ())
      else bindE (cleanupSlotsByPattern c (scan (accountSlotKeyPrefix @ ''*'')) (accountSlotKeyPrefix @ ''*'') activeRequestPrefix) id (\<lambda>_.
           bindE (cleanupSlotsByPattern c (scan (userSlotKeyPrefix @ ''*'')) (userSlotKeyPrefix @ ''*'') activeRequestPrefix) id (\<lambda>_.
           bindE (deleteKeysByPattern (scan (accountWaitKeyPrefix @ ''*'')) (accountWaitKeyPrefix @ ''*'')) id (\<lambda>_.
           bindE (deleteKeysByPattern (scan (waitQueueKeyPrefix @ ''*'')) (waitQueueKeyPrefix @ ''*'')) id (\<lambda>_.
           ret (Inr ()))))))"

section \<open>The service\<close>

text \<open>\<open>strconv.FormatUint(n, 36)\<close>\<close>

definition digit36 :: "nat \<Rightarrow> char" where
  "digit36 d = (if d < 10 then char_of (48 + d) else char_of (87 + d))"

fun formatUint36 :: "nat \<Rightarrow> string" where
  "formatUint36 n = (if n < 36 then [digit36 n] else formatUint36 (n div 36) @ [digit36 (n mod 36)])"

declare formatUint36.simps [simp del]

definition initRequestIDPrefix :: "64 word \<Rightarrow> string" where
  "initRequestIDPrefix b = ''r'' @ formatUint36 (unat b)"

definition generateRequestID :: "'z conc_service \<Rightarrow> ('z, string) qp" where
  "generateRequestID sv = do {
     modify (\<lambda>d. d\<lparr>cc_seq := (cc_seq d)(cv_random sv := cc_seq d (cv_random sv) + 1)\<rparr>);
     seq \<leftarrow> peek (\<lambda>d. cc_seq d (cv_random sv));
     ret (initRequestIDPrefix (cv_random sv) @ ''-'' @ formatUint36 (unat seq)) }"

definition CleanupStaleProcessSlots :: "'z conc_service \<Rightarrow> ('z, unit) qe" where
  "CleanupStaleProcessSlots sv = (case cv_cache sv of
       None \<Rightarrow> ret (Inr ())
     | Some c \<Rightarrow> cacheCleanupStaleProcessSlots c (cv_scan sv) (initRequestIDPrefix (cv_random sv)))"

definition defaultExtraWaitSlots :: int where "defaultExtraWaitSlots = 20"

definition noCache :: go_err where
  "noCache = GoPanic ''runtime error: invalid memory address or nil pointer dereference''"

definition AcquireAccountSlot :: "'z conc_service \<Rightarrow> int \<Rightarrow> int \<Rightarrow> ('z, acquire_result) qe" where
  "AcquireAccountSlot sv accountID maxConcurrency =
     (if maxConcurrency \<le> 0 then ret (Inr \<lparr>Acquired = True, ReleaseFunc = Some NoRelease\<rparr>)
      else do {
        requestID \<leftarrow> generateRequestID sv;
        case cv_cache sv of
          None \<Rightarrow> ret (Inl noCache)
        | Some c \<Rightarrow> bindE (cacheAcquireAccountSlot c accountID maxConcurrency requestID) id (\<lambda>acquired.
            if acquired then ret (Inr \<lparr>Acquired = True, ReleaseFunc = Some (ReleaseAccount accountID requestID)\<rparr>)
            else ret (Inr \<lparr>Acquired = False, ReleaseFunc = None\<rparr>)) })"

definition AcquireUserSlot :: "'z conc_service \<Rightarrow> int \<Rightarrow> int \<Rightarrow> ('z, acquire_result) qe" where
  "AcquireUserSlot sv userID maxConcurrency =
     (if maxConcurrency \<le> 0 then ret (Inr \<lparr>Acquired = True, ReleaseFunc = Some NoRelease\<rparr>)
      else do {
        requestID \<leftarrow> generateRequestID sv;
        case cv_cache sv of
          None \<Rightarrow> ret (Inl noCache)
        | Some c \<Rightarrow> bindE (cacheAcquireUserSlot c userID maxConcurrency requestID) id (\<lambda>acquired.
            if acquired then ret (Inr \<lparr>Acquired = True, ReleaseFunc = Some (ReleaseUser userID requestID)\<rparr>)
            else ret (Inr \<lparr>Acquired = False, ReleaseFunc = None\<rparr>)) })"

text \<open>Calling a release function; an error is only logged.\<close>

definition runRelease :: "release_func \<Rightarrow> ('z, unit) qp" where
  "runRelease f = (case f of
       NoRelease \<Rightarrow> ret ()
     | ReleaseAccount accountID requestID \<Rightarrow> do { cacheReleaseAccountSlot accountID requestID; ret () }
     | ReleaseUser userID requestID \<Rightarrow> do { cacheReleaseUserSlot userID requestID; ret () })"

text \<open>A queue that cannot be counted lets the request pass.\<close>

definition failOpen :: "('z, bool) qe \<Rightarrow> ('z, bool) qe" where
  "failOpen m = do { r \<leftarrow> m; case r of Inl _ \<Rightarrow> ret (Inr True) | Inr result \<Rightarrow> ret (Inr result) }"

definition IncrementWaitCount :: "'z conc_service \<Rightarrow> int \<Rightarrow> int \<Rightarrow> ('z, bool) qe" where
  "IncrementWaitCount sv userID maxWait = (case cv_cache sv of
       None \<Rightarrow> ret (Inr True)
     | Some c \<Rightarrow> failOpen (cacheIncrementWaitCount c userID maxWait))"

definition DecrementWaitCount :: "'z conc_service \<Rightarrow> int \<Rightarrow> ('z, unit) qp" where
  "DecrementWaitCount sv userID = (case cv_cache sv of
       None \<Rightarrow> ret ()
     | Some c \<Rightarrow> do { cacheDecrementWaitCount userID; ret () })"

definition IncrementAccountWaitCount :: "'z conc_service \<Rightarrow> int \<Rightarrow> int \<Rightarrow> ('z, bool) qe" where
  "IncrementAccountWaitCount sv accountID maxWait = (case cv_cache sv of
       None \<Rightarrow> ret (Inr True)
     | Some c \<Rightarrow> failOpen (cacheIncrementAccountWaitCount c accountID maxWait))"

definition DecrementAccountWaitCount :: "'z conc_service \<Rightarrow> int \<Rightarrow> ('z, unit) qp" where
  "DecrementAccountWaitCount sv accountID = (case cv_cache sv of
       None \<Rightarrow> ret ()
     | Some c \<Rightarrow> do { cacheDecrementAccountWaitCount accountID; ret () })"

definition GetAccountWaitingCount :: "'z conc_service \<Rightarrow> int \<Rightarrow> ('z, int) qe" where
  "GetAccountWaitingCount sv accountID = (case cv_cache sv of
       None \<Rightarrow> ret (Inr 0)
     | Some c \<Rightarrow> cacheGetAccountWaitingCount accountID)"

definition CalculateMaxWait :: "int \<Rightarrow> int" where
  "CalculateMaxWait userConcurrency =
     wrap64 ((if userConcurrency \<le> 0 then 1 else userConcurrency) + defaultExtraWaitSlots)"

definition GetAccountsLoadBatch :: "'z conc_service \<Rightarrow> with_concurrency list \<Rightarrow> ('z, (int \<Rightarrow> load_info option)) qe" where
  "GetAccountsLoadBatch sv accounts = (case cv_cache sv of
       None \<Rightarrow> ret (Inr (\<lambda>_. None))
     | Some c \<Rightarrow> cacheGetAccountsLoadBatch c accounts)"

definition GetUsersLoadBatch :: "'z conc_service \<Rightarrow> with_concurrency list \<Rightarrow> ('z, (int \<Rightarrow> load_info option)) qe" where
  "GetUsersLoadBatch sv us = (case cv_cache sv of
       None \<Rightarrow> ret (Inr (\<lambda>_. None))
     | Some c \<Rightarrow> cacheGetUsersLoadBatch c us)"

definition CleanupExpiredAccountSlots :: "'z conc_service \<Rightarrow> int \<Rightarrow> ('z, unit) qe" where
  "CleanupExpiredAccountSlots sv accountID = (case cv_cache sv of
       None \<Rightarrow> ret (Inr ())
     | Some c \<Rightarrow> cacheCleanupExpiredAccountSlots c accountID)"

text \<open>One round of the clean-up worker: the accounts that \<open>ListSchedulable\<close> returned; an error is only logged.\<close>

definition runCleanup :: "concurrency_cache \<Rightarrow> go_err + int list \<Rightarrow> ('z, unit) qp" where
  "runCleanup c listed = (case listed of
       Inl _ \<Rightarrow> ret ()
     | Inr accounts \<Rightarrow> do { mapProg (cacheCleanupExpiredAccountSlots c) accounts; ret () })"

definition GetAccountConcurrencyBatch :: "'z conc_service \<Rightarrow> int list \<Rightarrow> ('z, (int \<Rightarrow> int option)) qe" where
  "GetAccountConcurrencyBatch sv accountIDs =
     (if accountIDs = [] then ret (Inr (\<lambda>_. None))
      else case cv_cache sv of
             None \<Rightarrow> ret (Inr (\<lambda>a. if a \<in> set accountIDs then Some 0 else None))
           | Some c \<Rightarrow> cacheGetAccountConcurrencyBatch c accountIDs)"

end
