(* ===== verification/Slot_Safety.thy ===== *)
theory Slot_Safety
  imports Concurrency
begin

text \<open>
  The limit that \<open>Concurrency\<close> promises: identifiers of requests are unique, and in every history of a deployment the requests that hold a
  slot of an account or a user, for less than the lifetime of a slot, are never more than its limit.
\<close>

section \<open>Sorted sets\<close>

lemma zmembers_zwrite [simp]: "zmembers (zwrite key ms d) k = (if k = key then ms else zmembers d k)"
  by (auto simp: zmembers_def zwrite_def unexpired_def split: option.splits if_splits)

lemma zmembers_zexpire [simp]: "zmembers (zexpire key ttl d) k = (if k = key \<and> ttl \<le> 0 then [] else zmembers d k)"
  by (auto simp: zmembers_def zexpire_def expireAt_def unexpired_def split: option.splits if_splits)

lemma zmembers_zdel [simp]: "zmembers (zdel key d) k = (if k = key then [] else zmembers d k)"
  by (auto simp: zmembers_def zdel_def unexpired_def split: option.splits)

lemma zmembers_frame [simp]:
  "zmembers (d\<lparr>cc_seq := q\<rparr>) k = zmembers d k" "zmembers (d\<lparr>cc_nums := n\<rparr>) k = zmembers d k"
  by (auto simp: zmembers_def unexpired_def split: option.splits)

lemma conc_frame [simp]:
  "cc_now (zwrite key ms d) = cc_now d" "cc_seq (zwrite key ms d) = cc_seq d" "cc_nums (zwrite key ms d) = cc_nums d"
  "cc_now (zexpire key ttl d) = cc_now d" "cc_seq (zexpire key ttl d) = cc_seq d" "cc_nums (zexpire key ttl d) = cc_nums d"
  "cc_now (zdel key d) = cc_now d" "cc_seq (zdel key d) = cc_seq d" "cc_nums (zdel key d) = cc_nums d"
  "cc_now (numAdd key n d) = cc_now d" "cc_seq (numAdd key n d) = cc_seq d" "cc_zsets (numAdd key n d) = cc_zsets d"
  "cc_now (numExpire key ttl d) = cc_now d" "cc_seq (numExpire key ttl d) = cc_seq d" "cc_zsets (numExpire key ttl d) = cc_zsets d"
  "cc_now (numDel key d) = cc_now d" "cc_seq (numDel key d) = cc_seq d" "cc_zsets (numDel key d) = cc_zsets d"
  by (simp_all add: zwrite_def zexpire_def zdel_def numAdd_def numExpire_def numDel_def)

text \<open>The slots that count: those taken less than the lifetime of a slot ago.\<close>

definition liveSlots :: "int \<Rightarrow> 'z conc_db_scheme \<Rightarrow> string \<Rightarrow> (string \<times> int) list" where
  "liveSlots ttl d key = filter (\<lambda>(_, s). redisSeconds d - ttl < s) (zmembers d key)"

text \<open>A key with a time to expire outlives its slots.\<close>

definition outlives :: "int \<Rightarrow> 'z conc_db_scheme \<Rightarrow> string \<Rightarrow> bool" where
  "outlives ttl d key \<longleftrightarrow> (case cc_zsets d key of Some (ms, Some t) \<Rightarrow> \<forall>(_, s) \<in> set ms. (s + ttl) * 1000 \<le> t | _ \<Rightarrow> True)"

definition slotsOk :: "int \<Rightarrow> 'z conc_db_scheme \<Rightarrow> bool" where
  "slotsOk ttl d \<longleftrightarrow> (\<forall>key. distinct (map fst (zmembers d key)) \<and> (\<forall>(_, s) \<in> set (zmembers d key). s \<le> redisSeconds d) \<and> outlives ttl d key)"

lemma seconds_ms: "redisSeconds d * 1000 \<le> cc_now d"
  by (simp add: redisSeconds_def)

lemma redisSeconds_cong: "cc_now d' = cc_now d \<Longrightarrow> redisSeconds d' = redisSeconds d"
  by (simp add: redisSeconds_def)

lemma distinct_map_filter_fst: "distinct (map fst xs) \<Longrightarrow> distinct (map fst (filter P xs))"
  by (induction xs) auto

lemma zmembers_entry: "cc_zsets d key = Some (ms, t) \<Longrightarrow> (case t of None \<Rightarrow> True | Some t \<Rightarrow> cc_now d < t) \<Longrightarrow> zmembers d key = ms"
  by (auto simp: zmembers_def unexpired_def split: option.splits)

lemma outlives_zwrite:
  assumes "outlives ttl d k" and "set ms \<subseteq> set (zmembers d key)"
  shows "outlives ttl (zwrite key ms d) k"
  using assms
  by (auto simp: outlives_def zwrite_def zmembers_def unexpired_def split: option.splits if_splits) blast+

text \<open>Setting the time anew.\<close>

lemma outlives_zexpire:
  assumes "outlives ttl d k" and "\<forall>(_, s) \<in> set (zmembers d key). s \<le> redisSeconds d"
  shows "outlives ttl (zexpire key ttl d) k"
proof (cases "k = key")
  case True
  have "(s + ttl) * 1000 \<le> cc_now d + ttl * 1000" if "s \<le> redisSeconds d" for s using that seconds_ms [of d] by simp
  then show ?thesis using assms(2) True
    by (fastforce simp: outlives_def zexpire_def expireAt_def zmembers_def split: option.splits)
next
  case False
  then show ?thesis using assms(1) by (simp add: outlives_def zexpire_def)
qed

lemma outlives_same: "cc_zsets d' k = cc_zsets d k \<Longrightarrow> outlives ttl d' k = outlives ttl d k"
  by (simp add: outlives_def)

section \<open>Shrinking\<close>

text \<open>The clock and the identifiers stay, and slots disappear: those whose lifetime is over, and those in \<open>gone\<close>.\<close>

definition shrinks :: "int \<Rightarrow> (string \<times> string) set \<Rightarrow> 'z conc_db_scheme \<Rightarrow> 'z conc_db_scheme \<Rightarrow> bool" where
  "shrinks ttl gone d d' \<longleftrightarrow> cc_now d' = cc_now d \<and> cc_seq d' = cc_seq d \<and> (slotsOk ttl d \<longrightarrow> slotsOk ttl d') \<and>
     (\<forall>key. set (zmembers d' key) \<subseteq> set (zmembers d key) \<and> length (liveSlots ttl d' key) \<le> length (liveSlots ttl d key) \<and>
        (\<forall>m s. (m, s) \<in> set (zmembers d key) \<longrightarrow> s \<le> redisSeconds d - ttl \<or> (key, m) \<in> gone \<or> (m, s) \<in> set (zmembers d' key)))"

lemma shrinks_refl: "shrinks ttl gone d d"
  by (auto simp: shrinks_def)

lemma shrinks_trans: "shrinks ttl gone a b \<Longrightarrow> shrinks ttl gone b c \<Longrightarrow> shrinks ttl gone a c"
proof -
  assume 1: "shrinks ttl gone a b" and 2: "shrinks ttl gone b c"
  then have n: "redisSeconds b = redisSeconds a" by (simp add: shrinks_def redisSeconds_def)
  have "s \<le> redisSeconds a - ttl \<or> (key, m) \<in> gone \<or> (m, s) \<in> set (zmembers c key)" if "(m, s) \<in> set (zmembers a key)" for key m s
    using that 1 2 n unfolding shrinks_def by metis
  moreover have "set (zmembers c key) \<subseteq> set (zmembers a key) \<and> length (liveSlots ttl c key) \<le> length (liveSlots ttl a key)" for key
    using 1 2 unfolding shrinks_def by (meson le_trans subset_trans)
  ultimately show ?thesis using 1 2 unfolding shrinks_def by auto
qed

lemma shrinks_mono: "shrinks ttl gone d d' \<Longrightarrow> gone \<subseteq> gone' \<Longrightarrow> shrinks ttl gone' d d'"
  unfolding shrinks_def by fastforce

interpretation shrinking: protocol "shrinks ttl gone" for ttl gone
  by unfold_locales (auto intro: shrinks_refl shrinks_trans)

text \<open>Rewriting one set to some of its members, and giving its key a new time.\<close>

lemma shrinks_zwrite:
  assumes "\<And>m s. (m, s) \<in> set (zmembers d key) \<Longrightarrow> \<not> P (m, s) \<Longrightarrow> s \<le> redisSeconds d - ttl \<or> (key, m) \<in> gone"
  shows "shrinks ttl gone d (zwrite key (filter P (zmembers d key)) d)"
proof -
  let ?d = "zwrite key (filter P (zmembers d key)) d"
  have n: "redisSeconds ?d = redisSeconds d" by (rule redisSeconds_cong) simp
  have "liveSlots ttl ?d k = (if k = key then filter P (liveSlots ttl d k) else liveSlots ttl d k)" for k
    by (simp add: liveSlots_def n conj_commute)
  moreover have "slotsOk ttl ?d" if "slotsOk ttl d"
    using that by (auto simp: slotsOk_def n distinct_map_filter_fst intro!: outlives_zwrite)
  ultimately show ?thesis using assms by (auto simp: shrinks_def)
qed

lemma shrinks_zexpire: "0 < ttl \<Longrightarrow> shrinks ttl gone d (zexpire key ttl d)"
proof -
  assume t: "0 < ttl"
  let ?d = "zexpire key ttl d"
  have n: "redisSeconds ?d = redisSeconds d" by (rule redisSeconds_cong) simp
  have "slotsOk ttl ?d" if "slotsOk ttl d"
    using that t by (auto simp: slotsOk_def n intro!: outlives_zexpire)
  then show ?thesis using t by (auto simp: shrinks_def liveSlots_def n)
qed

lemma outlives_zdel: "outlives ttl d k \<Longrightarrow> outlives ttl (zdel key d) k"
  by (simp add: outlives_def zdel_def)

lemma shrinks_zdel: "zmembers d key = [] \<Longrightarrow> shrinks ttl gone d (zdel key d)"
  by (auto simp: shrinks_def slotsOk_def liveSlots_def redisSeconds_def outlives_zdel)

lemma shrinks_same_slots: "cc_now d' = cc_now d \<Longrightarrow> cc_seq d' = cc_seq d \<Longrightarrow> cc_zsets d' = cc_zsets d \<Longrightarrow> shrinks ttl gone d d'"
  by (simp add: shrinks_def slotsOk_def liveSlots_def redisSeconds_def zmembers_def unexpired_def outlives_def cong: option.case_cong)

lemma shrinks_zremrange: "cutoff \<le> redisSeconds d - ttl \<Longrightarrow> shrinks ttl gone d (zremrangebyscore key cutoff d)"
  unfolding zremrangebyscore_def by (rule shrinks_zwrite) auto

lemma shrinks_zrem: "(key, m) \<in> gone \<Longrightarrow> shrinks ttl gone d (zrem key m d)"
  unfolding zrem_def by (rule shrinks_zwrite) auto

lemma shrinks_cleanup: "0 < ttl \<Longrightarrow> shrinks ttl gone d (snd (cleanupExpiredSlotsScript key ttl d))"
  by (auto simp: cleanupExpiredSlotsScript_def Let_def zcard_def
      intro: shrinks_trans [OF shrinks_zremrange shrinks_zdel] shrinks_trans [OF shrinks_zremrange shrinks_zexpire])

section \<open>Identifiers\<close>

fun parse36 :: "nat \<Rightarrow> string \<Rightarrow> nat" where
  "parse36 acc [] = acc"
| "parse36 acc (c # cs) = parse36 (36 * acc + (let n = of_char c in if n < 87 then n - 48 else n - 87)) cs"

lemma parse36_append: "parse36 acc (xs @ ys) = parse36 (parse36 acc xs) ys"
  by (induction acc xs rule: parse36.induct) auto

lemma parse36_digit: "n < 36 \<Longrightarrow> parse36 acc [digit36 n] = 36 * acc + n"
  by (auto simp: digit36_def Let_def)

lemma parse36_format: "parse36 0 (formatUint36 n) = n"
proof (induction n rule: formatUint36.induct)
  case (1 n)
  then show ?case
    by (subst formatUint36.simps) (simp add: parse36_append parse36_digit del: parse36.simps(2))
qed

lemma formatUint36_inj: "formatUint36 m = formatUint36 n \<Longrightarrow> m = n"
  by (metis parse36_format)

lemma digit36_no_dash: "n < 36 \<Longrightarrow> digit36 n \<noteq> CHR ''-''"
proof
  assume "n < 36" "digit36 n = CHR ''-''"
  then have "of_char (digit36 n) = (45 :: nat)" by simp
  then show False using \<open>n < 36\<close> by (auto simp: digit36_def split: if_splits)
qed

lemma formatUint36_no_dash: "CHR ''-'' \<notin> set (formatUint36 n)"
proof (induction n rule: formatUint36.induct)
  case (1 n)
  then show ?case using digit36_no_dash [of n] digit36_no_dash [of "n mod 36"]
    by (subst formatUint36.simps) auto
qed

definition requestID :: "64 word \<Rightarrow> nat \<Rightarrow> string" where
  "requestID b n = initRequestIDPrefix b @ ''-'' @ formatUint36 n"

lemma append_dash_inj: "CHR ''-'' \<notin> set a \<Longrightarrow> CHR ''-'' \<notin> set b \<Longrightarrow> a @ CHR ''-'' # x = b @ CHR ''-'' # y \<Longrightarrow> a = b \<and> x = y"
  by (induction a arbitrary: b) (auto simp: Cons_eq_append_conv append_eq_Cons_conv)

lemma requestID_inj: "requestID b n = requestID b' n' \<Longrightarrow> b = b' \<and> n = n'"
proof -
  assume "requestID b n = requestID b' n'"
  then have "initRequestIDPrefix b = initRequestIDPrefix b' \<and> formatUint36 n = formatUint36 n'"
    unfolding requestID_def
    by (intro append_dash_inj) (simp_all add: initRequestIDPrefix_def formatUint36_no_dash)
  then show ?thesis by (auto simp: initRequestIDPrefix_def dest!: formatUint36_inj intro: unsigned_word_eqI)
qed

text \<open>The next identifier of a process.\<close>

definition issued :: "'z conc_db_scheme \<Rightarrow> string \<Rightarrow> bool" where
  "issued d i \<longleftrightarrow> (\<exists>b n. i = requestID b n \<and> n \<le> unat (cc_seq d b))"

definition nextID :: "'z conc_service \<Rightarrow> 'z conc_db_scheme \<Rightarrow> string" where
  "nextID sv d = requestID (cv_random sv) (unat (cc_seq d (cv_random sv) + 1))"

definition counted :: "'z conc_service \<Rightarrow> 'z conc_db_scheme \<Rightarrow> 'z conc_db_scheme" where
  "counted sv d = d\<lparr>cc_seq := (cc_seq d)(cv_random sv := cc_seq d (cv_random sv) + 1)\<rparr>"

lemma run_generateRequestID: "run_state (generateRequestID sv) w = (nextID sv (db w), w\<lparr>db := counted sv (db w)\<rparr>)"
  by (simp add: generateRequestID_def nextID_def requestID_def counted_def)

lemma unat_next: "unat q + 1 < 2 ^ 64 \<Longrightarrow> unat (q + 1 :: 64 word) = unat q + 1"
  by (simp add: unat_plus_if')

lemma nextID_fresh: "unat (cc_seq d (cv_random sv)) + 1 < 2 ^ 64 \<Longrightarrow> \<not> issued d (nextID sv d)"
  by (auto simp: issued_def nextID_def unat_next dest!: requestID_inj)

lemma counted_issued:
  assumes "unat (cc_seq d (cv_random sv)) + 1 < 2 ^ 64"
  shows "issued d i \<Longrightarrow> issued (counted sv d) i" "issued (counted sv d) (nextID sv d)"
proof -
  show "issued (counted sv d) (nextID sv d)" by (auto simp: issued_def nextID_def counted_def)
  assume "issued d i"
  then obtain b n where "i = requestID b n" "n \<le> unat (cc_seq d b)" by (auto simp: issued_def)
  then show "issued (counted sv d) i" using assms
    by (auto simp: issued_def counted_def unat_next intro!: exI [of _ b] exI [of _ n])
qed

section \<open>Taking a slot\<close>

lemma acquire_spec:
  assumes "0 < ttl"
  shows "fst (acquireScript key m ttl i d) = (if i \<in> fst ` set (liveSlots ttl d key) \<or> int (length (liveSlots ttl d key)) < m then 1 else 0)"
    "zmembers (snd (acquireScript key m ttl i d)) k =
       (if k \<noteq> key then zmembers d k
        else if fst (acquireScript key m ttl i d) = 1 then (i, redisSeconds d) # filter (\<lambda>(x, _). x \<noteq> i) (liveSlots ttl d key)
        else liveSlots ttl d key)"
  using assms
  by (auto simp: acquireScript_def Let_def zremrangebyscore_def zadd_def zcard_def zscore_def liveSlots_def map_of_eq_None_iff)

lemma liveSlots_zmembers: "redisSeconds d' = redisSeconds d \<Longrightarrow> liveSlots ttl d' key = filter (\<lambda>(_, s). redisSeconds d - ttl < s) (zmembers d' key)"
  by (simp add: liveSlots_def)

lemma acquire_frame: "cc_now (snd (acquireScript key m ttl i d)) = cc_now d" "cc_seq (snd (acquireScript key m ttl i d)) = cc_seq d"
  by (auto simp: acquireScript_def Let_def zremrangebyscore_def zadd_def)

lemma outlives_taken:
  assumes "0 < ttl" "\<forall>(_, s) \<in> set (zmembers d key). s \<le> redisSeconds d" "s = redisSeconds d" "outlives ttl d k"
  shows "outlives ttl (zexpire key ttl (zadd key s i d)) k"
proof (cases "k = key")
  case True
  have "outlives ttl (zexpire key ttl (zadd key s i d)) key"
  proof -
    have "(x + ttl) * 1000 \<le> cc_now d + ttl * 1000" if "x \<le> redisSeconds d" for x using that seconds_ms [of d] by simp
    moreover have "\<forall>(_, x) \<in> set (zmembers (zadd key s i d) key). x \<le> redisSeconds d" using assms(2,3) by (auto simp: zadd_def)
    ultimately show ?thesis
      by (fastforce simp: outlives_def zexpire_def expireAt_def zmembers_def zadd_def split: option.splits)
  qed
  then show ?thesis using True by simp
next
  case False
  then show ?thesis using assms(4) by (simp add: outlives_def zexpire_def zadd_def zwrite_def)
qed

lemma acquire_slotsOk:
  assumes t: "0 < ttl" and ok: "slotsOk ttl d"
  shows "slotsOk ttl (snd (acquireScript key m ttl i d))"
proof -
  let ?d = "snd (acquireScript key m ttl i d)" and ?d1 = "zremrangebyscore key (redisSeconds d - ttl) d"
  have n: "redisSeconds ?d = redisSeconds d" "redisSeconds ?d1 = redisSeconds d"
    by (simp_all add: redisSeconds_def acquire_frame zremrangebyscore_def)
  have d1: "slotsOk ttl ?d1" using shrinks_zremrange [of "redisSeconds d - ttl" d ttl] ok by (simp add: shrinks_def)
  then have "outlives ttl (zexpire key ttl (zadd key (redisSeconds d) i ?d1)) k" for k
    by (intro outlives_taken) (use t n in \<open>auto simp: slotsOk_def\<close>)
  with d1 have "outlives ttl ?d k" for k
    by (simp add: acquireScript_def Let_def slotsOk_def)
  moreover have "distinct (map fst (zmembers ?d k)) \<and> (\<forall>(_, s) \<in> set (zmembers ?d k). s \<le> redisSeconds d)" for k
    using ok by (auto simp: acquire_spec [OF t] slotsOk_def liveSlots_def distinct_map_filter_fst)
  ultimately show ?thesis by (simp add: slotsOk_def n)
qed

section \<open>Histories of a deployment\<close>

text \<open>The state of a deployment: Redis and the processes, and the release functions that requests hold, with the second in which they
  were returned.\<close>

type_synonym 'z deployment = "'z conc_db_scheme \<times> (release_func \<times> int) list"

definition slotKeyOf :: "release_func \<Rightarrow> string" where
  "slotKeyOf f = (case f of NoRelease \<Rightarrow> [] | ReleaseAccount a _ \<Rightarrow> accountSlotKey a | ReleaseUser u _ \<Rightarrow> userSlotKey u)"

definition slotIDOf :: "release_func \<Rightarrow> string" where
  "slotIDOf f = (case f of NoRelease \<Rightarrow> [] | ReleaseAccount _ i \<Rightarrow> i | ReleaseUser _ i \<Rightarrow> i)"

definition taken :: "go_err + acquire_result \<Rightarrow> int \<Rightarrow> (release_func \<times> int) list" where
  "taken r now = (case r of
       Inl _ \<Rightarrow> []
     | Inr res \<Rightarrow> (case ReleaseFunc res of None \<Rightarrow> [] | Some f \<Rightarrow> if f = NoRelease then [] else [(f, now)]))"

text \<open>A world in which the statements of a program end as \<open>os\<close> says.\<close>

definition facing :: "outcome list \<Rightarrow> 'z conc_db_scheme \<Rightarrow> 'z conc_db_scheme world" where
  "facing os d = \<lparr>db = d, clock = 0, ticks = [], script = map (Turn (\<lambda>d. d)) os\<rparr>"

text \<open>Calls of the service that take and release no slot.\<close>

definition ignoring :: "('z, 'a) qp \<Rightarrow> ('z, unit) qp" where
  "ignoring m = do { m; ret () }"

inductive upkeep :: "int \<Rightarrow> ('z, unit) qp \<Rightarrow> bool" for ttl where
  counting: "slotTTLSeconds c = ttl \<Longrightarrow> upkeep ttl (ignoring (cacheGetAccountConcurrency c a))"
| countingUser: "slotTTLSeconds c = ttl \<Longrightarrow> upkeep ttl (ignoring (cacheGetUserConcurrency c u))"
| batch: "slotTTLSeconds c = ttl \<Longrightarrow> upkeep ttl (ignoring (cacheGetAccountConcurrencyBatch c ids))"
| loads: "slotTTLSeconds c = ttl \<Longrightarrow> upkeep ttl (ignoring (cacheGetAccountsLoadBatch c accounts))"
| userLoads: "slotTTLSeconds c = ttl \<Longrightarrow> upkeep ttl (ignoring (cacheGetUsersLoadBatch c us))"
| cleaning: "slotTTLSeconds c = ttl \<Longrightarrow> upkeep ttl (runCleanup c listed)"
| waiting: "upkeep ttl (ignoring (IncrementWaitCount sv u n))"
| waited: "upkeep ttl (DecrementWaitCount sv u)"
| waitingAccount: "upkeep ttl (ignoring (IncrementAccountWaitCount sv a n))"
| waitedAccount: "upkeep ttl (DecrementAccountWaitCount sv a)"

text \<open>One step: time passes; a request asks for a slot of an account or of a user, with at most the limit \<open>L\<close> of its key; a request calls its
  release function, or is lost with its process; a call that takes no slot; or one command of a batch that is under way, which may
  have read the time before. Every statement may fail, before or after Redis has executed it. Every process makes fewer
  than \<open>2 ^ 64\<close> identifiers.\<close>

inductive slotStep :: "int \<Rightarrow> (string \<Rightarrow> int) \<Rightarrow> 'z deployment \<Rightarrow> 'z deployment \<Rightarrow> bool" for ttl L where
  tick: "cc_now d \<le> t \<Longrightarrow> slotStep ttl L (d, H) (d\<lparr>cc_now := t\<rparr>, H)"
| account: "cv_cache sv = Some c \<Longrightarrow> slotTTLSeconds c = ttl \<Longrightarrow> n \<le> L (accountSlotKey a) \<Longrightarrow>
    unat (cc_seq d (cv_random sv)) + 1 < 2 ^ 64 \<Longrightarrow> run_state (AcquireAccountSlot sv a n) (facing [ou] d) = (r, w) \<Longrightarrow>
    slotStep ttl L (d, H) (db w, taken r (redisSeconds d) @ H)"
| user: "cv_cache sv = Some c \<Longrightarrow> slotTTLSeconds c = ttl \<Longrightarrow> n \<le> L (userSlotKey u) \<Longrightarrow>
    unat (cc_seq d (cv_random sv)) + 1 < 2 ^ 64 \<Longrightarrow> run_state (AcquireUserSlot sv u n) (facing [ou] d) = (r, w) \<Longrightarrow>
    slotStep ttl L (d, H) (db w, taken r (redisSeconds d) @ H)"
| release: "h \<in> set H \<Longrightarrow> slotStep ttl L (d, H) (db (snd (run_state (runRelease (fst h)) (facing [ou] d))), remove1 h H)"
| lost: "slotStep ttl L (d, H) (d, filter P H)"
| upkeep: "upkeep ttl m \<Longrightarrow> slotStep ttl L (d, H) (db (snd (run_state m (facing os d))), H)"
| purge: "cutoff \<le> redisSeconds d - ttl \<Longrightarrow> slotStep ttl L (d, H) (db (snd (run_state (zremrangeCmd key cutoff) (facing [ou] d))), H)"

definition noSlots :: conc_db where
  "noSlots = \<lparr>cc_now = 0, cc_zsets = (\<lambda>_. None), cc_nums = (\<lambda>_. None), cc_seq = (\<lambda>_. 0)\<rparr>"

definition reached :: "int \<Rightarrow> (string \<Rightarrow> int) \<Rightarrow> unit deployment \<Rightarrow> bool" where
  "reached ttl L s \<longleftrightarrow> (slotStep ttl L)\<^sup>*\<^sup>* (noSlots, []) s"

text \<open>The requests that hold a slot of a key and have held it for less than the lifetime of a slot.\<close>

definition holders :: "int \<Rightarrow> 'z deployment \<Rightarrow> string \<Rightarrow> (release_func \<times> int) list" where
  "holders ttl s key = filter (\<lambda>(f, t). slotKeyOf f = key \<and> redisSeconds (fst s) - ttl < t) (snd s)"

definition holdersOk :: "int \<Rightarrow> 'z deployment \<Rightarrow> bool" where
  "holdersOk ttl s \<longleftrightarrow> distinct (map (\<lambda>(f, _). slotIDOf f) (snd s)) \<and> (\<forall>(f, t) \<in> set (snd s). issued (fst s) (slotIDOf f) \<and>
     (redisSeconds (fst s) - ttl < t \<longrightarrow> (\<exists>s' \<ge> t. (slotIDOf f, s') \<in> set (zmembers (fst s) (slotKeyOf f)))))"

definition slotInv :: "int \<Rightarrow> (string \<Rightarrow> int) \<Rightarrow> 'z deployment \<Rightarrow> bool" where
  "slotInv ttl L s \<longleftrightarrow> slotsOk ttl (fst s) \<and> (\<forall>key. int (length (liveSlots ttl (fst s) key)) \<le> L key) \<and> holdersOk ttl s"

lemma holders_bounded:
  assumes "slotInv ttl L s"
  shows "int (length (holders ttl s key)) \<le> L key"
proof -
  let ?ids = "map (\<lambda>(f, _). slotIDOf f) (holders ttl s key)"
  have "distinct ?ids" using assms
    by (auto simp: slotInv_def holdersOk_def holders_def distinct_map intro: inj_on_subset)
  moreover have "set ?ids \<subseteq> fst ` set (liveSlots ttl (fst s) key)"
    using assms by (fastforce simp: slotInv_def holdersOk_def holders_def liveSlots_def image_iff)
  ultimately have "length ?ids \<le> card (fst ` set (liveSlots ttl (fst s) key))"
    by (metis List.finite_set card_mono distinct_card finite_imageI)
  also have "\<dots> \<le> length (liveSlots ttl (fst s) key)" by (metis card_image_le card_length List.finite_set le_trans)
  finally have "int (length (holders ttl s key)) \<le> int (length (liveSlots ttl (fst s) key))" by simp
  also have "\<dots> \<le> L key" using assms by (simp add: slotInv_def)
  finally show ?thesis .
qed

section \<open>The limit holds\<close>

lemma shrinks_keeps:
  assumes "shrinks ttl gone d d'" "(m, s) \<in> set (zmembers d key)" "redisSeconds d - ttl < s" "(key, m) \<notin> gone"
  shows "(m, s) \<in> set (zmembers d' key)"
  using assms unfolding shrinks_def by (meson not_le)

lemma length_filter_mono: "(\<And>x. P x \<Longrightarrow> Q x) \<Longrightarrow> length (filter P xs) \<le> length (filter Q xs)"
  by (induction xs) (auto intro: le_SucI)

lemma shrinks_inv:
  assumes "shrinks ttl gone d d'" and "slotInv ttl L (d, H)" and "set H' \<subseteq> set H" "distinct (map (\<lambda>(f, _). slotIDOf f) H')"
    and "\<And>f t. (f, t) \<in> set H' \<Longrightarrow> (slotKeyOf f, slotIDOf f) \<notin> gone"
  shows "slotInv ttl L (d', H')"
proof -
  have n: "redisSeconds d' = redisSeconds d" "cc_seq d' = cc_seq d" using assms(1) by (auto simp: shrinks_def redisSeconds_def)
  have "\<exists>s \<ge> t. (slotIDOf f, s) \<in> set (zmembers d' (slotKeyOf f))" if h: "(f, t) \<in> set H'" "redisSeconds d - ttl < t" for f t
  proof -
    have "(f, t) \<in> set H" using h assms(3) by auto
    then obtain s where s: "t \<le> s" "(slotIDOf f, s) \<in> set (zmembers d (slotKeyOf f))"
      using h assms(2) by (auto simp: slotInv_def holdersOk_def)
    then have "(slotIDOf f, s) \<in> set (zmembers d' (slotKeyOf f))"
      using shrinks_keeps [OF assms(1) s(2)] assms(5) [OF h(1)] h(2) by simp
    with s show ?thesis by blast
  qed
  moreover have "issued d' (slotIDOf f)" if "(f, t) \<in> set H'" for f t
    using that assms(2,3) n by (auto simp: slotInv_def holdersOk_def issued_def)
  moreover have "int (length (liveSlots ttl d' key)) \<le> L key" for key
    using assms(1,2) unfolding slotInv_def shrinks_def by (metis fst_conv of_nat_le_iff order_trans)
  ultimately show ?thesis using assms(1,2,4) n by (auto simp: slotInv_def holdersOk_def shrinks_def)
qed

lemma tick_members:
  assumes "cc_now d \<le> t"
  shows "redisSeconds d \<le> redisSeconds (d\<lparr>cc_now := t\<rparr>)"
    and "zmembers (d\<lparr>cc_now := t\<rparr>) key = zmembers d key \<or> zmembers (d\<lparr>cc_now := t\<rparr>) key = []"
  using assms by (auto simp: redisSeconds_def zdiv_mono1 zmembers_def unexpired_def split: option.splits)

lemma tick_keeps:
  assumes "slotsOk ttl d" "(m, s) \<in> set (zmembers d key)" "t < (s + ttl) * 1000"
  shows "(m, s) \<in> set (zmembers (d\<lparr>cc_now := t\<rparr>) key)"
proof -
  obtain ms e where e: "cc_zsets d key = Some (ms, e)" "(m, s) \<in> set ms"
    using assms(2) by (auto simp: zmembers_def unexpired_def split: option.splits if_splits)
  moreover have "outlives ttl d key" using assms(1) by (simp add: slotsOk_def)
  ultimately have "case e of None \<Rightarrow> True | Some u \<Rightarrow> t < u" using assms(3) by (fastforce simp: outlives_def split: option.splits)
  then show ?thesis using e zmembers_entry [of "d\<lparr>cc_now := t\<rparr>" key ms e] by (simp cong: option.case_cong)
qed

lemma tick_slotsOk:
  assumes "slotsOk ttl d" and "cc_now d \<le> t"
  shows "slotsOk ttl (d\<lparr>cc_now := t\<rparr>)"
  unfolding slotsOk_def
proof (intro allI)
  fix key
  have "outlives ttl (d\<lparr>cc_now := t\<rparr>) key = outlives ttl d key" by (rule outlives_same) simp
  then show "distinct (map fst (zmembers (d\<lparr>cc_now := t\<rparr>) key)) \<and>
      (\<forall>(_, s) \<in> set (zmembers (d\<lparr>cc_now := t\<rparr>) key). s \<le> redisSeconds (d\<lparr>cc_now := t\<rparr>)) \<and> outlives ttl (d\<lparr>cc_now := t\<rparr>) key"
    using assms(1) tick_members(1) [OF assms(2)] tick_members(2) [OF assms(2), of key] by (fastforce simp: slotsOk_def)
qed

lemma tick_live:
  assumes "cc_now d \<le> t"
  shows "length (liveSlots ttl (d\<lparr>cc_now := t\<rparr>) key) \<le> length (liveSlots ttl d key)"
proof -
  let ?d = "d\<lparr>cc_now := t\<rparr>"
  have "length (liveSlots ttl ?d key) \<le> length (filter (\<lambda>(_, s). redisSeconds ?d - ttl < s) (zmembers d key))"
    using tick_members(2) [OF assms, of key] by (auto simp: liveSlots_def)
  also have "\<dots> \<le> length (liveSlots ttl d key)"
    unfolding liveSlots_def using tick_members(1) [OF assms] by (intro length_filter_mono) auto
  finally show ?thesis .
qed

lemma tick_inv:
  assumes inv: "slotInv ttl L (d, H)" and t: "cc_now d \<le> t"
  shows "slotInv ttl L (d\<lparr>cc_now := t\<rparr>, H)"
proof -
  let ?d = "d\<lparr>cc_now := t\<rparr>"
  have ok: "slotsOk ttl d" using inv by (simp add: slotInv_def)
  have "\<exists>s' \<ge> u. (slotIDOf f, s') \<in> set (zmembers ?d (slotKeyOf f))" if h: "(f, u) \<in> set H" "redisSeconds ?d - ttl < u" for f u
  proof -
    have "redisSeconds d - ttl < u" using h(2) tick_members(1) [OF t] by simp
    then obtain s where s: "u \<le> s" "(slotIDOf f, s) \<in> set (zmembers d (slotKeyOf f))"
      using h(1) inv by (auto simp: slotInv_def holdersOk_def)
    have "t < (s + ttl) * 1000" using h(2) s(1) by (simp add: redisSeconds_def)
    from tick_keeps [OF ok s(2) this] s(1) show ?thesis by blast
  qed
  moreover have "issued ?d i = issued d i" for i by (simp add: issued_def)
  ultimately have "holdersOk ttl (?d, H)" using inv unfolding slotInv_def holdersOk_def fst_conv snd_conv by blast
  moreover have "int (length (liveSlots ttl ?d key)) \<le> L key" for key
  proof -
    have "int (length (liveSlots ttl ?d key)) \<le> int (length (liveSlots ttl d key))" using tick_live [OF t] by simp
    also have "\<dots> \<le> L key" using inv by (simp add: slotInv_def)
    finally show ?thesis .
  qed
  ultimately show ?thesis using tick_slotsOk [OF ok t] by (simp add: slotInv_def)
qed

text \<open>A request that asks: the script runs, or does not.\<close>

lemma run_facing:
  "run_state (exec g) (facing (ou # os) d) = (case ou of
       Done \<Rightarrow> (fst (g d), facing os (snd (g d))) | Lost _ \<Rightarrow> (Inl ConnErr, facing os d) | Unack \<Rightarrow> (Inl ConnErr, facing os (snd (g d))))"
  by (simp add: facing_def exec_def Let_def split_def split: outcome.splits)

lemma db_facing [simp]: "db (facing os d) = d"
  by (simp add: facing_def)

lemma counted_inv:
  assumes "slotInv ttl L (d, H)" "unat (cc_seq d (cv_random sv)) + 1 < 2 ^ 64"
  shows "slotInv ttl L (counted sv d, H)"
proof -
  have "slotsOk ttl (counted sv d) = slotsOk ttl d" "liveSlots ttl (counted sv d) = liveSlots ttl d"
    "zmembers (counted sv d) = zmembers d" "redisSeconds (counted sv d) = redisSeconds d"
    by (simp_all add: fun_eq_iff slotsOk_def outlives_def liveSlots_def redisSeconds_def counted_def)
  then show ?thesis using assms(1) counted_issued(1) [OF assms(2)] by (auto simp: slotInv_def holdersOk_def)
qed

lemma acquire_live_bound:
  assumes t: "0 < ttl" and ok: "slotsOk ttl d" and len: "int (length (liveSlots ttl d key)) \<le> L" and n: "n \<le> L"
  shows "int (length (liveSlots ttl (snd (acquireScript key n ttl i d)) key)) \<le> L"
proof -
  let ?l = "liveSlots ttl d key" and ?d = "snd (acquireScript key n ttl i d)"
  have s: "redisSeconds ?d = redisSeconds d" by (simp add: redisSeconds_def acquire_frame)
  have f: "length (filter (\<lambda>(x, _). x \<noteq> i) ?l) < length ?l" if "i \<in> fst ` set ?l" using that by (auto intro: length_filter_less)
  have e: "filter (\<lambda>(x, _). x \<noteq> i) ?l = ?l" if "i \<notin> fst ` set ?l" using that by (force simp: filter_id_conv)
  have "length (liveSlots ttl ?d key) \<le> length (zmembers ?d key)" by (simp add: liveSlots_def)
  moreover have "int (length (zmembers ?d key)) \<le> L"
    using f len n e by (cases "i \<in> fst ` set ?l") (simp_all add: acquire_spec [OF t])
  ultimately show ?thesis by linarith
qed

lemma acquire_inv:
  assumes t: "0 < ttl" and inv: "slotInv ttl L (d, H)" and n: "n \<le> L key" and new: "i \<notin> (\<lambda>(f, _). slotIDOf f) ` set H"
  shows "slotInv ttl L (snd (acquireScript key n ttl i d), H)"
    and "fst (acquireScript key n ttl i d) = 1 \<Longrightarrow> slotKeyOf f = key \<Longrightarrow> slotIDOf f = i \<Longrightarrow> issued d i \<Longrightarrow>
      slotInv ttl L (snd (acquireScript key n ttl i d), (f, redisSeconds d) # H)"
proof -
  let ?d = "snd (acquireScript key n ttl i d)"
  have s: "redisSeconds ?d = redisSeconds d" "cc_seq ?d = cc_seq d" by (simp_all add: redisSeconds_def acquire_frame)
  have ok: "slotsOk ttl d" using inv by (simp add: slotInv_def)
  have "int (length (liveSlots ttl ?d k)) \<le> L k" for k
  proof (cases "k = key")
    case True
    then show ?thesis using inv n by (auto simp: slotInv_def intro!: acquire_live_bound [OF t ok])
  next
    case False
    then show ?thesis using inv by (simp add: slotInv_def liveSlots_def s acquire_spec [OF t])
  qed
  moreover have keep: "(slotIDOf g, x) \<in> set (zmembers ?d (slotKeyOf g))"
    if "(g, u) \<in> set H" "redisSeconds d - ttl < x" "(slotIDOf g, x) \<in> set (zmembers d (slotKeyOf g))" for g u x
    using that new by (force simp: acquire_spec [OF t] liveSlots_def)
  have h: "holdersOk ttl (?d, H)" using inv keep
    unfolding slotInv_def holdersOk_def by (fastforce simp: s issued_def)
  ultimately show "slotInv ttl L (?d, H)" using acquire_slotsOk [OF t ok] by (simp add: slotInv_def)
  then show "slotInv ttl L (?d, (f, redisSeconds d) # H)"
    if "fst (acquireScript key n ttl i d) = 1" "slotKeyOf f = key" "slotIDOf f = i" "issued d i"
    using that h new s by (auto simp: slotInv_def holdersOk_def issued_def acquire_spec [OF t] split: if_splits)
qed

lemma asking_inv:
  assumes t: "0 < ttl" and inv: "slotInv ttl L (d, H)" and q: "unat (cc_seq d (cv_random sv)) + 1 < 2 ^ 64" and n: "n \<le> L key"
    and r: "run_state (exec (\<lambda>d. let (r, d') = acquireScript key n ttl (nextID sv d0) d in (Inr r, d'))) (facing [ou] (counted sv d)) = (x, w)"
    and d0: "d0 = d" and f: "slotKeyOf f = key" "slotIDOf f = nextID sv d"
  shows "slotInv ttl L (db w, H)" and "x = Inr 1 \<Longrightarrow> slotInv ttl L (db w, (f, redisSeconds d) # H)"
proof -
  let ?d = "counted sv d"
  have c: "slotInv ttl L (?d, H)" by (rule counted_inv [OF inv q])
  have new: "nextID sv d \<notin> (\<lambda>(f, _). slotIDOf f) ` set H"
    using nextID_fresh [OF q] inv by (auto simp: slotInv_def holdersOk_def)
  have s: "redisSeconds ?d = redisSeconds d" by (simp add: redisSeconds_def counted_def)
  note a = acquire_inv [where i = "nextID sv d", OF t c n new]
  show "slotInv ttl L (db w, H)"
    using r a(1) c by (auto simp: run_facing d0 split_def Let_def split: outcome.splits)
  show "slotInv ttl L (db w, (f, redisSeconds d) # H)" if "x = Inr 1"
    using r that a(2) [OF _ f counted_issued(2) [OF q]] s by (auto simp: run_facing d0 split_def Let_def split: outcome.splits)
qed

lemma run_facing_counted: "run_state (generateRequestID sv) (facing os d) = (nextID sv d, facing os (counted sv d))"
  by (simp add: run_generateRequestID facing_def)

lemma account_inv:
  assumes "0 < ttl" "slotInv ttl L (d, H)" "cv_cache sv = Some c" "slotTTLSeconds c = ttl" "n \<le> L (accountSlotKey a)"
    and "unat (cc_seq d (cv_random sv)) + 1 < 2 ^ 64" "run_state (AcquireAccountSlot sv a n) (facing [ou] d) = (r, w)"
  shows "slotInv ttl L (db w, taken r (redisSeconds d) @ H)"
proof (cases "n \<le> 0")
  case True
  then show ?thesis using assms(2,7) by (auto simp: AcquireAccountSlot_def taken_def)
next
  case False
  obtain x w' where x: "run_state (runScript (acquireScript (accountSlotKey a) n ttl (nextID sv d))) (facing [ou] (counted sv d)) = (x, w')"
    by fastforce
  note inv = asking_inv [where f = "ReleaseAccount a (nextID sv d)", OF assms(1,2,6,5) x [unfolded runScript_def] refl]
  show ?thesis using inv assms(7) False x assms(3,4)
    by (cases x) (auto simp: AcquireAccountSlot_def run_facing_counted cacheAcquireAccountSlot_def granted_def run_bindE taken_def slotKeyOf_def slotIDOf_def split: if_splits)
qed

lemma user_inv:
  assumes "0 < ttl" "slotInv ttl L (d, H)" "cv_cache sv = Some c" "slotTTLSeconds c = ttl" "n \<le> L (userSlotKey u)"
    and "unat (cc_seq d (cv_random sv)) + 1 < 2 ^ 64" "run_state (AcquireUserSlot sv u n) (facing [ou] d) = (r, w)"
  shows "slotInv ttl L (db w, taken r (redisSeconds d) @ H)"
proof (cases "n \<le> 0")
  case True
  then show ?thesis using assms(2,7) by (auto simp: AcquireUserSlot_def taken_def)
next
  case False
  obtain x w' where x: "run_state (runScript (acquireScript (userSlotKey u) n ttl (nextID sv d))) (facing [ou] (counted sv d)) = (x, w')"
    by fastforce
  note inv = asking_inv [where f = "ReleaseUser u (nextID sv d)", OF assms(1,2,6,5) x [unfolded runScript_def] refl]
  show ?thesis using inv assms(7) False x assms(3,4)
    by (cases x) (auto simp: AcquireUserSlot_def run_facing_counted cacheAcquireUserSlot_def granted_def run_bindE taken_def slotKeyOf_def slotIDOf_def split: if_splits)
qed

lemma release_inv:
  assumes "slotInv ttl L (d, H)" "h \<in> set H"
  shows "slotInv ttl L (db (snd (run_state (runRelease (fst h)) (facing [ou] d))), remove1 h H)"
proof -
  let ?d = "db (snd (run_state (runRelease (fst h)) (facing [ou] d)))"
  have 1: "shrinks ttl {(slotKeyOf (fst h), slotIDOf (fst h))} d ?d"
    by (cases ou; cases "fst h") (simp_all add: runRelease_def cacheReleaseAccountSlot_def cacheReleaseUserSlot_def run_facing
        slotKeyOf_def slotIDOf_def shrinks_refl shrinks_zrem)
  have d: "distinct (map (\<lambda>(f, _). slotIDOf f) H)" using assms(1) by (simp add: slotInv_def holdersOk_def)
  have 2: "distinct (map (\<lambda>(f, _). slotIDOf f) (remove1 h H))"
    using d by (metis distinct_map distinct_remove1 inj_on_subset set_remove1_subset)
  have 3: "slotIDOf f \<noteq> slotIDOf (fst h)" if "(f, t) \<in> set (remove1 h H)" for f t
  proof
    assume "slotIDOf f = slotIDOf (fst h)"
    moreover have "(f, t) \<in> set H" "distinct H" using that d by (auto dest: notin_set_remove1 simp: distinct_map)
    ultimately have "(f, t) = h" using d assms(2) by (auto simp: distinct_map inj_on_def split_def)
    then show False using that \<open>distinct H\<close> by simp
  qed
  show ?thesis by (rule shrinks_inv [OF 1 assms(1) set_remove1_subset 2]) (use 3 in auto)
qed

text \<open>The calls that take no slot.\<close>

lemma guar_script: "(\<And>d. R d (snd (s d))) \<Longrightarrow> guar R (runScript s)" if "protocol R" for R
  unfolding runScript_def using protocol.guar_exec [OF that, of "\<lambda>d. let (r, d') = s d in (Inr r, d')"] by (simp add: split_def Let_def)

lemma rg_mapProg:
  assumes "protocol R" "\<And>x. rg R P (f x) (\<lambda>_. P)"
  shows "rg R P (mapProg f xs) (\<lambda>_. P)"
  by (induction xs) (auto intro!: rely_guarantee.rg_ret [OF protocol_rg] rely_guarantee.rg_seq [OF protocol_rg] assms)

lemma redisSeconds_zremrange: "redisSeconds (zremrangebyscore key cutoff d) = redisSeconds d"
  by (simp add: redisSeconds_def zremrangebyscore_def)

lemma zremrange_rg:
  "rg (shrinks ttl {}) (\<lambda>d. cutoff \<le> redisSeconds d - ttl) (zremrangeCmd key cutoff) (\<lambda>_ d. cutoff \<le> redisSeconds d - ttl)"
  unfolding zremrangeCmd_def
proof (rule shrinking.rg_exec)
  show "stable (shrinks ttl {}) (\<lambda>d. cutoff \<le> redisSeconds d - ttl)" by (auto simp: stable_def shrinks_def redisSeconds_def)
qed (auto simp: shrinks_zremrange redisSeconds_zremrange)

abbreviation notAfter :: "int \<Rightarrow> int \<Rightarrow> 'z conc_db_scheme \<Rightarrow> bool" where
  "notAfter ttl cutoff d \<equiv> cutoff \<le> redisSeconds d - ttl"

lemma notAfter_stable: "stable (shrinks ttl {}) (notAfter ttl cutoff)"
  by (auto simp: stable_def shrinks_def redisSeconds_def)

lemma batch_guar:
  assumes f: "\<And>now x. rg (shrinks ttl {}) (notAfter ttl (now - ttl)) (f now x) (\<lambda>_. notAfter ttl (now - ttl))"
    and g: "\<And>now cmds. guar (shrinks ttl {}) (g now cmds)"
  shows "guar (shrinks ttl {}) (bindE redisTime id (\<lambda>now. do { cmds \<leftarrow> mapProg (f now) xs; g now cmds }))"
proof -
  have q: "rg (shrinks ttl {}) (\<lambda>_. True) redisTime (\<lambda>r d. case r of Inl _ \<Rightarrow> True | Inr now \<Rightarrow> notAfter ttl (now - ttl) d)"
    unfolding redisTime_def
    by (rule shrinking.rg_bindE [where Q = "\<lambda>r d. case r of Inl _ \<Rightarrow> True | Inr now \<Rightarrow> notAfter ttl (now - ttl) d"])
      (auto intro!: shrinking.rg_query shrinking.rg_ret)
  have "rg (shrinks ttl {}) (notAfter ttl (now - ttl)) (do { cmds \<leftarrow> mapProg (f now) xs; g now cmds }) (\<lambda>_ _. True)" for now
    by (rule shrinking.rg_seq [OF rg_mapProg [OF shrinking.protocol_axioms f]]) (rule rg_weaken [OF g]; simp)
  then show ?thesis
    by (intro shrinking.rg_bindE [OF q]) auto
qed

lemma read_rg: "(\<And>d. snd (f d) = d) \<Longrightarrow> rg (shrinks ttl {}) (notAfter ttl cutoff) (exec f) (\<lambda>_. notAfter ttl cutoff)"
  by (rule shrinking.rg_exec) (auto simp: notAfter_stable shrinks_refl)

lemma cmds_rg:
  "rg (shrinks ttl {}) (notAfter ttl cutoff) (zcardCmd key) (\<lambda>_. notAfter ttl cutoff)"
  "rg (shrinks ttl {}) (notAfter ttl cutoff) (getCmd key) (\<lambda>_. notAfter ttl cutoff)"
  unfolding zcardCmd_def getCmd_def by (rule read_rg; simp)+

lemma loadCmds_rg: "rg (shrinks ttl {}) (notAfter ttl cutoff) (loadCmds slotKey waitKey cutoff a) (\<lambda>_. notAfter ttl cutoff)"
  unfolding loadCmds_def by (intro shrinking.inv_bind zremrange_rg cmds_rg shrinking.inv_ret)

lemma loadBatch_guar:
  assumes "slotTTLSeconds c = ttl"
  shows "guar (shrinks ttl {}) (loadBatch slotKey waitKey c accounts)"
  unfolding loadBatch_def assms
  by (intro shrinking.guar_if shrinking.guar_ret batch_guar shrinking.guar_case_option loadCmds_rg)

lemma countBatch_guar:
  assumes "slotTTLSeconds c = ttl"
  shows "guar (shrinks ttl {}) (cacheGetAccountConcurrencyBatch c ids)"
  unfolding cacheGetAccountConcurrencyBatch_def assms
  by (intro shrinking.guar_if shrinking.guar_ret batch_guar shrinking.guar_case_option shrinking.inv_bind zremrange_rg cmds_rg shrinking.inv_ret)

lemma wait_guar:
  "guar (shrinks ttl gone) (runScript (incrementWaitScript key n t))" "guar (shrinks ttl gone) (runScript (incrementAccountWaitScript key n t))"
  "guar (shrinks ttl gone) (runScript (decrementWaitScript key))"
  by (intro guar_script shrinking.protocol_axioms;
      auto simp: incrementWaitScript_def incrementAccountWaitScript_def decrementWaitScript_def Let_def shrinks_refl
        intro!: shrinks_same_slots split: option.splits)+

lemmas wait_defs = IncrementWaitCount_def DecrementWaitCount_def IncrementAccountWaitCount_def DecrementAccountWaitCount_def failOpen_def granted_def
  cacheIncrementWaitCount_def cacheDecrementWaitCount_def cacheIncrementAccountWaitCount_def cacheDecrementAccountWaitCount_def

lemma upkeep_guar:
  assumes "0 < ttl" "upkeep ttl m"
  shows "guar (shrinks ttl {}) m"
  using assms(2)
proof cases
  case (counting c a)
  then show ?thesis unfolding ignoring_def cacheGetAccountConcurrency_def
    by (auto intro!: shrinking.guar_rules guar_script shrinking.protocol_axioms simp: shrinking.guar_bind shrinking.guar_ret getCountScript_def Let_def shrinks_zremrange)
next
  case (countingUser c u)
  then show ?thesis unfolding ignoring_def cacheGetUserConcurrency_def
    by (auto intro!: shrinking.guar_rules guar_script shrinking.protocol_axioms simp: shrinking.guar_bind shrinking.guar_ret getCountScript_def Let_def shrinks_zremrange)
next
  case (batch c ids)
  then show ?thesis unfolding ignoring_def by (auto intro!: shrinking.guar_bind countBatch_guar shrinking.guar_ret)
next
  case (loads c accounts)
  then show ?thesis unfolding ignoring_def cacheGetAccountsLoadBatch_def by (auto intro!: shrinking.guar_bind loadBatch_guar shrinking.guar_ret)
next
  case (userLoads c us)
  then show ?thesis unfolding ignoring_def cacheGetUsersLoadBatch_def by (auto intro!: shrinking.guar_bind loadBatch_guar shrinking.guar_ret)
next
  case (cleaning c listed)
  have "guar (shrinks ttl {}) (cacheCleanupExpiredAccountSlots c a)" for a
    unfolding cacheCleanupExpiredAccountSlots_def
    by (intro shrinking.guar_rules guar_script shrinking.protocol_axioms) (use cleaning shrinks_cleanup [OF assms(1)] in auto)
  then show ?thesis unfolding cleaning(1) runCleanup_def
    by (intro shrinking.guar_rules shrinking.guar_bind rg_mapProg shrinking.protocol_axioms)
qed (simp_all only: wait_defs ignoring_def, (intro shrinking.guar_rules shrinking.guar_bind wait_guar)+)

text \<open>C7. In every history of a deployment that begins when its processes run (any number of processes, requests, releases, lost requests,
  failures and time that passes, but no start of another process, which frees the slots of others), the requests that hold a slot of
  an account or a user, and have held it for less than the lifetime of a slot, are never more than its limit.\<close>

theorem slots_within_limit:
  assumes "reached ttl L s" "0 < ttl" "\<And>key. 0 \<le> L key"
  shows "int (length (holders ttl s key)) \<le> L key"
proof -
  have "slotInv ttl L s"
    using assms(1) unfolding reached_def
  proof (induction rule: rtranclp_induct)
    case base
    then show ?case using assms(3)
      by (simp add: slotInv_def slotsOk_def holdersOk_def liveSlots_def zmembers_def unexpired_def outlives_def noSlots_def)
  next
    case (step s s')
    from step(2,3) show ?case
    proof (induction rule: slotStep.induct)
      case (lost d H P)
      have "distinct (map (\<lambda>(f, _). slotIDOf f) (filter P H))"
        using lost by (auto simp: slotInv_def holdersOk_def distinct_map intro: inj_on_subset)
      then show ?case by (intro shrinks_inv [OF shrinks_refl [of ttl "{}"] lost]) auto
    next
      case (upkeep m d H os)
      have "relies (shrinks ttl {}) (facing os d)" by (simp add: relies_def facing_def shrinks_refl)
      from rgD [OF upkeep_guar [OF assms(2) upkeep(1)] this]
      have "shrinks ttl {} d (db (snd (run_state m (facing os d))))" by (metis db_facing prod.collapse)
      moreover have "distinct (map (\<lambda>(f, _). slotIDOf f) H)" using upkeep(2) by (simp add: slotInv_def holdersOk_def)
      ultimately show ?case by (intro shrinks_inv [OF _ upkeep(2)]) auto
    next
      case (purge cutoff d H key ou)
      have "shrinks ttl {} d (db (snd (run_state (zremrangeCmd key cutoff) (facing [ou] d))))"
        using purge(1) by (cases ou) (simp_all add: zremrangeCmd_def run_facing shrinks_zremrange shrinks_refl)
      moreover have "distinct (map (\<lambda>(f, _). slotIDOf f) H)" using purge(2) by (simp add: slotInv_def holdersOk_def)
      ultimately show ?case by (intro shrinks_inv [OF _ purge(2)]) auto
    next
      case (account sv c n a d ou r w H)
      then show ?case by (intro account_inv [OF assms(2) account(6) account(1-5)])
    next
      case (user sv c n u d ou r w H)
      then show ?case by (intro user_inv [OF assms(2) user(6) user(1-5)])
    qed (auto intro: tick_inv release_inv)
  qed
  then show ?thesis by (rule holders_bounded)
qed

section \<open>Instances\<close>

abbreviation quietRun :: "'z conc_db_scheme world \<Rightarrow> bool" where
  "quietRun w \<equiv> script w = []"

definition requestOf :: "'z conc_service \<Rightarrow> 'z conc_db_scheme \<Rightarrow> int \<Rightarrow> release_func" where
  "requestOf sv d a = ReleaseAccount a (nextID sv d)"

lemma run_account_quiet:
  assumes "quietRun w" "cv_cache sv = Some c" "0 < n"
  shows "run_state (AcquireAccountSlot sv a n) w =
    (let (r, d) = acquireScript (accountSlotKey a) n (slotTTLSeconds c) (nextID sv (db w)) (counted sv (db w))
     in (Inr (if r = 1 then \<lparr>Acquired = True, ReleaseFunc = Some (requestOf sv (db w) a)\<rparr> else \<lparr>Acquired = False, ReleaseFunc = None\<rparr>), w\<lparr>db := d\<rparr>))"
  using assms
  by (simp add: AcquireAccountSlot_def run_generateRequestID cacheAcquireAccountSlot_def granted_def runScript_def run_simps requestOf_def split_def Let_def)

lemma counted_slots: "liveSlots ttl (counted sv d) = liveSlots ttl d" "zmembers (counted sv d) = zmembers d" "redisSeconds (counted sv d) = redisSeconds d"
  by (simp_all add: fun_eq_iff liveSlots_def redisSeconds_def counted_def)

text \<open>Process \<open>b\<close>, and its request for the one slot of account 7.\<close>

definition sampleSlotService :: "64 word \<Rightarrow> conc_db concurrency_service" where
  "sampleSlotService b = \<lparr>cv_cache = Some (NewConcurrencyCache 0 0), cv_random = b,
     cv_scan = (\<lambda>pattern. [\<lambda>d. filter (\<lambda>key. zmembers d key \<noteq> []) (if pattern = accountSlotKeyPrefix @ ''*'' then [accountSlotKey 7] else [])])\<rparr>"

definition busyDeployment :: "unit deployment" where
  "busyDeployment = (let (r, w) = run_state (AcquireAccountSlot (sampleSlotService 1) 7 1) (facing [Done] noSlots) in (db w, taken r 0))"

lemma sampleSlotService_cache: "cv_cache (sampleSlotService b) = Some \<lparr>slotTTLSeconds = 900, waitQueueTTLSeconds = 900\<rparr>"
  by (simp add: sampleSlotService_def NewConcurrencyCache_def defaultSlotTTLMinutes_def wrap64_def)

lemma noSlots_simps [simp]: "zmembers noSlots key = []" "redisSeconds noSlots = 0" "cc_seq noSlots b = 0" "numGet noSlots key = None" "liveSlots ttl noSlots key = []"
  by (simp_all add: noSlots_def zmembers_def unexpired_def redisSeconds_def numGet_def liveSlots_def)

lemma busy_slot:
  "zmembers (fst busyDeployment) key = (if key = accountSlotKey 7 then [(nextID (sampleSlotService 1) noSlots, 0)] else [])"
  "snd busyDeployment = [(requestOf (sampleSlotService 1) noSlots 7, 0)]"
  "redisSeconds (fst busyDeployment) = 0" "cc_seq (fst busyDeployment) b = (if b = 1 then 1 else 0)"
proof -
  let ?s = "acquireScript (accountSlotKey 7) 1 900 (nextID (sampleSlotService 1) noSlots) (counted (sampleSlotService 1) noSlots)"
  have r: "fst ?s = 1" by (simp add: acquire_spec liveSlots_def counted_slots)
  have b: "busyDeployment = (snd ?s, [(requestOf (sampleSlotService 1) noSlots 7, 0)])"
    using r by (simp add: busyDeployment_def AcquireAccountSlot_def run_facing_counted sampleSlotService_cache cacheAcquireAccountSlot_def granted_def
        runScript_def run_bindE run_facing split_def Let_def taken_def requestOf_def)
  show "snd busyDeployment = [(requestOf (sampleSlotService 1) noSlots 7, 0)]" by (simp add: b)
  show "zmembers (fst busyDeployment) key = (if key = accountSlotKey 7 then [(nextID (sampleSlotService 1) noSlots, 0)] else [])"
    using r by (auto simp: b acquire_spec liveSlots_def counted_slots)
  show "redisSeconds (fst busyDeployment) = 0"
    by (simp add: b redisSeconds_def acquire_frame) (simp add: counted_def noSlots_def)
  show "cc_seq (fst busyDeployment) b = (if b = 1 then 1 else 0)"
    by (simp add: b acquire_frame) (simp add: counted_def sampleSlotService_def)
qed

theorem slots_within_limit_witness:
  "length (holders 900 busyDeployment (accountSlotKey 7)) = 1 \<and> int (length (holders 900 busyDeployment (accountSlotKey 7))) \<le> 1"
proof
  show "length (holders 900 busyDeployment (accountSlotKey 7)) = 1"
    by (simp add: holders_def busy_slot requestOf_def slotKeyOf_def)
  have "slotStep 900 (\<lambda>_. 1) (noSlots, []) busyDeployment"
    using slotStep.account [OF sampleSlotService_cache [of 1], of 900 1 "\<lambda>_. 1" 7 noSlots Done _ _ "[]"]
    by (cases "run_state (AcquireAccountSlot (sampleSlotService 1) 7 1) (facing [Done] noSlots)") (simp add: busyDeployment_def)
  then have "reached 900 (\<lambda>_. 1) busyDeployment" by (auto simp: reached_def)
  then show "int (length (holders 900 busyDeployment (accountSlotKey 7))) \<le> 1"
    using slots_within_limit [of 900 "\<lambda>_. 1" busyDeployment "accountSlotKey 7"] by simp
qed

end
