(* ===== verification/Slot_Laws.thy ===== *)
theory Slot_Laws
  imports Slot_Safety
begin

text \<open>
  The operations of \<open>Concurrency\<close> one by one: a slot is granted exactly while fewer than the limit are taken and giving it back undoes taking it,
  queues stay within their bounds, the load that is reported is the load there is; and the start of a process, which frees
  slots that live requests of other processes hold.
\<close>

section \<open>A slot is taken and given back\<close>

text \<open>In a run in which nothing fails, a request with a new identifier gets a slot of an account exactly if fewer slots than the limit
  are taken that have not outlived their lifetime.\<close>

theorem slot_granted_iff:
  assumes "script w = []" "cv_cache sv = Some c" "0 < slotTTLSeconds c" "0 < n"
    and "nextID sv (db w) \<notin> fst ` set (zmembers (db w) (accountSlotKey a))"
  shows "fst (run_state (AcquireAccountSlot sv a n) w) =
    Inr (if int (length (liveSlots (slotTTLSeconds c) (db w) (accountSlotKey a))) < n
         then \<lparr>Acquired = True, ReleaseFunc = Some (requestOf sv (db w) a)\<rparr> else \<lparr>Acquired = False, ReleaseFunc = None\<rparr>)"
proof -
  have "nextID sv (db w) \<notin> fst ` set (liveSlots (slotTTLSeconds c) (db w) (accountSlotKey a))" using assms(5) by (auto simp: liveSlots_def)
  then show ?thesis using assms by (simp add: run_account_quiet split_def Let_def acquire_spec counted_slots)
qed

text \<open>C25. Giving the slot back undoes taking it: in a run in which nothing fails, a request with a new identifier that takes a slot
  and calls its release function leaves the slots of the account as they were, but for those that have outlived their lifetime.\<close>

theorem slot_roundtrip:
  assumes "script w = []" "cv_cache sv = Some c" "0 < slotTTLSeconds c" "0 < n"
    and "nextID sv (db w) \<notin> fst ` set (zmembers (db w) (accountSlotKey a))"
    and "run_state (AcquireAccountSlot sv a n) w = (Inr \<lparr>Acquired = True, ReleaseFunc = Some f\<rparr>, w')"
  shows "zmembers (db (snd (run_state (runRelease f) w'))) key =
    (if key = accountSlotKey a then liveSlots (slotTTLSeconds c) (db w) key else zmembers (db w) key)"
proof -
  let ?k = "accountSlotKey a" and ?i = "nextID sv (db w)" and ?l = "liveSlots (slotTTLSeconds c) (db w) (accountSlotKey a)"
  let ?r = "acquireScript ?k n (slotTTLSeconds c) ?i (counted sv (db w))"
  have r: "fst ?r = 1" "f = ReleaseAccount a ?i" "w' = w\<lparr>db := snd ?r\<rparr>"
    using assms(6) by (auto simp: run_account_quiet [OF assms(1,2,4)] split_def Let_def requestOf_def split: if_splits)
  have z: "zmembers (db w') k = (if k \<noteq> ?k then zmembers (db w) k else (?i, redisSeconds (db w)) # filter (\<lambda>(x, _). x \<noteq> ?i) ?l)" for k
    using r acquire_spec(2) [OF assms(3), of ?k n ?i "counted sv (db w)" k] by (simp add: counted_slots)
  have q: "script w' = []" using r(3) assms(1) by simp
  have "?i \<notin> fst ` set ?l" using assms(5) by (auto simp: liveSlots_def)
  then have "filter (\<lambda>(x, _). x \<noteq> ?i) ?l = ?l" by (force simp: filter_id_conv)
  then show ?thesis using q z by (simp add: r(2) runRelease_def cacheReleaseAccountSlot_def run_simps zrem_def)
qed

section \<open>Waiting\<close>

definition waitOk :: "(string \<Rightarrow> int) \<Rightarrow> 'z conc_db_scheme \<Rightarrow> bool" where
  "waitOk M d \<longleftrightarrow> (\<forall>key v. numGet d key = Some v \<longrightarrow> 0 \<le> v \<and> v \<le> M key)"

lemma numGet_numAdd: "numGet (numAdd key n d) k = (if k = key then Some (case numGet d key of None \<Rightarrow> n | Some v \<Rightarrow> v + n) else numGet d k)"
  by (auto simp: numGet_def numAdd_def unexpired_def split: option.splits if_splits)

lemma numGet_numExpire: "numGet (numExpire key ttl d) k = (if k = key \<and> ttl \<le> 0 then None else numGet d k)"
  by (auto simp: numGet_def numExpire_def expireAt_def unexpired_def split: option.splits if_splits)

lemma increment_bounded:
  "waitOk M d \<Longrightarrow> n \<le> M key \<Longrightarrow> waitOk M (snd (incrementWaitScript key n t d))"
  "waitOk M d \<Longrightarrow> n \<le> M key \<Longrightarrow> waitOk M (snd (incrementAccountWaitScript key n t d))"
  by (fastforce simp: waitOk_def incrementWaitScript_def incrementAccountWaitScript_def Let_def numGet_numAdd numGet_numExpire
      split: option.splits if_splits)+

lemma decrement_bounded: "waitOk M d \<Longrightarrow> waitOk M (snd (decrementWaitScript key d))"
  by (auto simp: waitOk_def decrementWaitScript_def numGet_numAdd split: option.splits) force

abbreviation keepsWaiting :: "(string \<Rightarrow> int) \<Rightarrow> 'z conc_db_scheme \<Rightarrow> 'z conc_db_scheme \<Rightarrow> bool" where
  "keepsWaiting M d d' \<equiv> waitOk M d \<longrightarrow> waitOk M d'"

lemma own_script: "(\<And>d. T d (snd (s d))) \<Longrightarrow> own T (runScript s)"
  unfolding runScript_def by (rule own_exec) (simp add: split_def Let_def)

lemma own_increment:
  "n \<le> M (waitQueueKey u) \<Longrightarrow> own (keepsWaiting M) (IncrementWaitCount sv u n)"
  "n \<le> M (accountWaitKey a) \<Longrightarrow> own (keepsWaiting M) (IncrementAccountWaitCount sv a n)"
  unfolding wait_defs by (intro own_rules own_case_option own_case_sum own_script; simp add: increment_bounded)+

lemma own_decrement: "own (keepsWaiting M) (DecrementWaitCount sv u)" "own (keepsWaiting M) (DecrementAccountWaitCount sv a)"
  unfolding wait_defs by (intro own_rules own_case_option own_script; simp add: decrement_bounded)+

datatype wait_call = WaitUser int int | LeaveUser int | WaitAccount int int | LeaveAccount int

definition waitCall :: "'z conc_service \<Rightarrow> wait_call \<Rightarrow> ('z, unit) qp" where
  "waitCall sv c = (case c of
       WaitUser u n \<Rightarrow> ignoring (IncrementWaitCount sv u n)
     | LeaveUser u \<Rightarrow> DecrementWaitCount sv u
     | WaitAccount a n \<Rightarrow> ignoring (IncrementAccountWaitCount sv a n)
     | LeaveAccount a \<Rightarrow> DecrementAccountWaitCount sv a)"

text \<open>No queue grows longer than its bound, and no counter falls below zero: joining or leaving a queue of a user or an account,
  with at most the bound of its key, keeps every counter in its bounds, whatever fails and whatever others do in between, if
  they keep them so.\<close>

theorem waiting_bounded:
  assumes "waitOk M (db w)" "relies (keepsWaiting M) w"
    and "case c of WaitUser u n \<Rightarrow> n \<le> M (waitQueueKey u) | WaitAccount a n \<Rightarrow> n \<le> M (accountWaitKey a) | _ \<Rightarrow> True"
  shows "waitOk M (db (snd (run_state (waitCall sv c) w)))"
proof -
  have "own (keepsWaiting M) (waitCall sv c)" using assms(3)
    by (cases c) (simp_all add: waitCall_def ignoring_def own_increment own_decrement own_bind own_ret)
  from own_invariant [OF this _ assms(2,1)] show ?thesis by simp
qed

text \<open>A request is turned away exactly if the queue is as long as it may be.\<close>

lemma waiting_refused_iff:
  assumes "script w = []" "cv_cache sv = Some c"
  shows "fst (run_state (IncrementAccountWaitCount sv a n) w) =
    Inr ((case numGet (db w) (accountWaitKey a) of None \<Rightarrow> 0 | Some v \<Rightarrow> v) < n)"
  using assms by (auto simp: wait_defs run_simps runScript_def incrementAccountWaitScript_def Let_def split_def)

text \<open>An increment that never reached Redis counts as one to the caller, who takes it back when it stops waiting: the counter then
  says one less than there are.\<close>

lemma lost_increment_taken_back:
  assumes "cv_cache sv = Some c" "numGet d (accountWaitKey a) = Some v" "0 < v"
  shows "fst (run_state (IncrementAccountWaitCount sv a n) (facing [Lost 0] d)) = Inr True"
    "numGet (db (snd (run_state (do { IncrementAccountWaitCount sv a n; DecrementAccountWaitCount sv a }) (facing [Lost 0, Done] d)))) (accountWaitKey a)
       = Some (v - 1)"
  using assms by (simp_all add: wait_defs run_facing run_bindE runScript_def decrementWaitScript_def numGet_numAdd)

section \<open>Starting a process\<close>

definition complete :: "('z conc_db_scheme \<Rightarrow> string list) list \<Rightarrow> string \<Rightarrow> bool" where
  "complete pages key \<longleftrightarrow> (\<exists>page \<in> set pages. \<forall>d. zmembers d key \<noteq> [] \<longrightarrow> key \<in> set (page d))"

lemma zrem_fold:
  "zmembers (fold (\<lambda>(m, _) d. if \<not> P m then zrem key m d else d) ms d) k =
     (if k = key then filter (\<lambda>(x, _). x \<in> fst ` set ms \<longrightarrow> P x) (zmembers d k) else zmembers d k)"
proof (induction ms arbitrary: d)
  case (Cons e ms)
  obtain m s where e: "e = (m, s)" by fastforce
  show ?case
    by (auto simp: e Cons.IH zrem_def intro!: filter_cong)
qed simp

lemma startupCleanupKey_spec:
  assumes "0 < ttl"
  shows "zmembers (startupCleanupKey p ttl key d) k = (if k = key then filter (\<lambda>(x, _). hasPrefix x p) (zmembers d k) else zmembers d k)"
proof -
  have f: "filter (\<lambda>(x, _). x \<in> fst ` set (zmembers d k) \<longrightarrow> hasPrefix x p) (zmembers d k) = filter (\<lambda>(x, _). hasPrefix x p) (zmembers d k)" for k
    by (rule filter_cong) force+
  show ?thesis using assms f [of key]
    by (auto simp: startupCleanupKey_def Let_def zcard_def zrem_fold)
qed

lemma startupCleanupScript_spec:
  assumes "0 < ttl"
  shows "zmembers (startupCleanupScript ks p ttl d) k = (if k \<in> set ks then filter (\<lambda>(x, _). hasPrefix x p) (zmembers d k) else zmembers d k)"
  unfolding startupCleanupScript_def
  by (induction ks arbitrary: d) (auto simp: startupCleanupKey_spec [OF assms] filter_filter intro!: filter_cong)

lemma zrem_fold_frame:
  "cc_now (fold (\<lambda>(m, _) d. if \<not> P m then zrem key m d else d) ms d) = cc_now d"
  "cc_seq (fold (\<lambda>(m, _) d. if \<not> P m then zrem key m d else d) ms d) = cc_seq d"
  by (induction ms arbitrary: d) (auto simp: zrem_def)

lemma startup_frame:
  "cc_now (startupCleanupScript ks p t d) = cc_now d" "cc_seq (startupCleanupScript ks p t d) = cc_seq d"
  unfolding startupCleanupScript_def
  by (induction ks arbitrary: d) (auto simp: startupCleanupKey_def Let_def zrem_fold_frame)

lemma numDel_fold_frame:
  "cc_now (fold numDel ks d) = cc_now d" "cc_seq (fold numDel ks d) = cc_seq d" "cc_zsets (fold numDel ks d) = cc_zsets d"
  by (induction ks arbitrary: d) auto

text \<open>What is left of the slots of a key that \<open>SCAN\<close> finds.\<close>

definition ownSlots :: "string \<Rightarrow> 'z conc_db_scheme \<Rightarrow> string \<Rightarrow> (string \<times> int) list" where
  "ownSlots p d key = filter (\<lambda>(x, _). hasPrefix x p) (zmembers d key)"

lemma run_cleanupSlots:
  assumes "script w = []" "0 < slotTTLSeconds c"
  shows "\<exists>d. run_state (cleanupSlotsByPattern c pages pat p) w = (Inr (), w\<lparr>db := d\<rparr>) \<and>
     cc_now d = cc_now (db w) \<and> cc_seq d = cc_seq (db w) \<and>
     (\<forall>k. zmembers d k = zmembers (db w) k \<or> zmembers d k = ownSlots p (db w) k) \<and>
     (\<forall>k. complete pages k \<longrightarrow> zmembers d k = ownSlots p (db w) k)"
  using assms(1)
proof (induction pages arbitrary: w)
  case Nil
  then show ?case by (auto simp: complete_def intro!: exI [of _ "db w"])
next
  case (Cons page pages)
  let ?d = "startupCleanupScript (page (db w)) p (slotTTLSeconds c) (db w)"
  have frame: "cc_now ?d = cc_now (db w)" "cc_seq ?d = cc_seq (db w)" by (simp_all add: startup_frame)
  let ?w = "if page (db w) \<noteq> [] then w\<lparr>db := ?d\<rparr> else w"
  have q: "script ?w = []" using Cons.prems by simp
  have z: "zmembers (db ?w) k = (if k \<in> set (page (db w)) then ownSlots p (db w) k else zmembers (db w) k)" for k
    by (auto simp: startupCleanupScript_spec [OF assms(2)] ownSlots_def)
  have own: "ownSlots p (db ?w) k = ownSlots p (db w) k" for k
    unfolding ownSlots_def [of p "db ?w"] z by (simp add: ownSlots_def filter_filter split_def)
  obtain d where d: "run_state (cleanupSlotsByPattern c pages pat p) ?w = (Inr (), ?w\<lparr>db := d\<rparr>)"
    "cc_now d = cc_now (db ?w)" "cc_seq d = cc_seq (db ?w)"
    "\<And>k. zmembers d k = zmembers (db ?w) k \<or> zmembers d k = ownSlots p (db w) k" "\<And>k. complete pages k \<Longrightarrow> zmembers d k = ownSlots p (db w) k"
    using Cons.IH [OF q] own by metis
  have "run_state (cleanupSlotsByPattern c (page # pages) pat p) w = (Inr (), w\<lparr>db := d\<rparr>)"
    using d(1) Cons.prems by (auto simp: run_simps split: if_splits)
  moreover have "zmembers d k = ownSlots p (db w) k" if "complete (page # pages) k" for k
  proof (cases "complete pages k")
    case False
    then have "zmembers (db w) k \<noteq> [] \<longrightarrow> k \<in> set (page (db w))" using that by (auto simp: complete_def)
    then show ?thesis using d(4) [of k] z [of k] by (auto simp: ownSlots_def split: if_splits)
  qed (rule d(5))
  moreover have "zmembers d k = zmembers (db w) k \<or> zmembers d k = ownSlots p (db w) k" for k
    using d(4) [of k] z [of k] by metis
  ultimately show ?case using d(2,3) frame by (intro exI [of _ d]) auto
qed

lemma run_deleteKeys:
  assumes "script w = []"
  shows "\<exists>d. run_state (deleteKeysByPattern pages pat) w = (Inr (), w\<lparr>db := d\<rparr>) \<and>
     cc_now d = cc_now (db w) \<and> cc_seq d = cc_seq (db w) \<and> cc_zsets d = cc_zsets (db w)"
  using assms
proof (induction pages arbitrary: w)
  case Nil
  then show ?case by (auto intro!: exI [of _ "db w"])
next
  case (Cons page pages)
  let ?w = "w\<lparr>db := fold numDel (page (db w)) (db w)\<rparr>"
  have f: "cc_now (db ?w) = cc_now (db w)" "cc_seq (db ?w) = cc_seq (db w)" "cc_zsets (db ?w) = cc_zsets (db w)" by (simp_all add: numDel_fold_frame)
  have q: "script ?w = []" using Cons.prems by simp
  obtain d where "run_state (deleteKeysByPattern pages pat) ?w = (Inr (), ?w\<lparr>db := d\<rparr>)" "cc_now d = cc_now (db ?w)"
    "cc_seq d = cc_seq (db ?w)" "cc_zsets d = cc_zsets (db ?w)"
    using Cons.IH [OF q] by blast
  then show ?case using Cons.prems f by (cases "page (db w) = []") (auto simp: run_simps intro!: exI [of _ d])
qed

lemma zmembers_cong: "cc_zsets d' = cc_zsets d \<Longrightarrow> cc_now d' = cc_now d \<Longrightarrow> zmembers d' k = zmembers d k"
  by (simp add: zmembers_def unexpired_def cong: option.case_cong)

text \<open>The start of a process leaves of every set that \<open>SCAN\<close> finds the slots of that process only.\<close>

lemma run_startup:
  assumes "script w = []" "cv_cache sv = Some c" "0 < slotTTLSeconds c"
    and "complete (cv_scan sv (accountSlotKeyPrefix @ ''*'')) key"
  shows "\<exists>d. run_state (CleanupStaleProcessSlots sv) w = (Inr (), w\<lparr>db := d\<rparr>) \<and> cc_now d = cc_now (db w) \<and> cc_seq d = cc_seq (db w) \<and>
    zmembers d key = ownSlots (initRequestIDPrefix (cv_random sv)) (db w) key"
proof -
  let ?p = "initRequestIDPrefix (cv_random sv)"
  obtain d1 where 1: "run_state (cleanupSlotsByPattern c (cv_scan sv (accountSlotKeyPrefix @ ''*'')) (accountSlotKeyPrefix @ ''*'') ?p) w = (Inr (), w\<lparr>db := d1\<rparr>)"
    "cc_now d1 = cc_now (db w)" "cc_seq d1 = cc_seq (db w)" "zmembers d1 key = ownSlots ?p (db w) key"
    using run_cleanupSlots [OF assms(1,3)] assms(4) by metis
  obtain d2 where 2: "run_state (cleanupSlotsByPattern c (cv_scan sv (userSlotKeyPrefix @ ''*'')) (userSlotKeyPrefix @ ''*'') ?p) (w\<lparr>db := d1\<rparr>) = (Inr (), w\<lparr>db := d2\<rparr>)"
    "cc_now d2 = cc_now d1" "cc_seq d2 = cc_seq d1" "zmembers d2 key = zmembers d1 key \<or> zmembers d2 key = ownSlots ?p d1 key"
    using run_cleanupSlots [of "w\<lparr>db := d1\<rparr>" c] assms(1,3) by (metis world.select_convs(1) world.surjective world.update_convs(1) world.select_convs(4) world.simps(5))
  obtain d3 where 3: "run_state (deleteKeysByPattern (cv_scan sv (accountWaitKeyPrefix @ ''*'')) (accountWaitKeyPrefix @ ''*'')) (w\<lparr>db := d2\<rparr>) = (Inr (), w\<lparr>db := d3\<rparr>)"
    "cc_now d3 = cc_now d2" "cc_seq d3 = cc_seq d2" "cc_zsets d3 = cc_zsets d2"
    using run_deleteKeys [of "w\<lparr>db := d2\<rparr>"] assms(1) by fastforce
  obtain d4 where 4: "run_state (deleteKeysByPattern (cv_scan sv (waitQueueKeyPrefix @ ''*'')) (waitQueueKeyPrefix @ ''*'')) (w\<lparr>db := d3\<rparr>) = (Inr (), w\<lparr>db := d4\<rparr>)"
    "cc_now d4 = cc_now d3" "cc_seq d4 = cc_seq d3" "cc_zsets d4 = cc_zsets d3"
    using run_deleteKeys [of "w\<lparr>db := d3\<rparr>"] assms(1) by fastforce
  have "ownSlots ?p d1 key = zmembers d1 key" using 1(4) by (simp add: ownSlots_def filter_filter split_def)
  then have "zmembers d4 key = ownSlots ?p (db w) key" using 1 2 3 4 zmembers_cong [of d4 d3] zmembers_cong [of d3 d2] by auto
  moreover have "?p \<noteq> []" by (simp add: initRequestIDPrefix_def)
  ultimately show ?thesis using 1 2 3 4 assms(2)
    by (intro exI [of _ d4]) (simp add: CleanupStaleProcessSlots_def cacheCleanupStaleProcessSlots_def run_bindE)
qed

text \<open>C37. A process that starts frees the slots that live requests of other processes hold: in a run in which nothing fails, if all slots of
  an account belong to other processes, then however many there are and however new they are, after the start-up clean-up a
  request of the new process gets a slot.\<close>

theorem startup_frees_live_slots:
  assumes "script w = []" "cv_cache sv = Some c" "0 < slotTTLSeconds c" "0 < n"
    and "complete (cv_scan sv (accountSlotKeyPrefix @ ''*'')) (accountSlotKey a)"
    and "\<forall>(i, _) \<in> set (zmembers (db w) (accountSlotKey a)). \<not> hasPrefix i (initRequestIDPrefix (cv_random sv))"
  shows "fst (run_state (AcquireAccountSlot sv a n) (snd (run_state (CleanupStaleProcessSlots sv) w))) =
    Inr \<lparr>Acquired = True, ReleaseFunc = Some (requestOf sv (db w) a)\<rparr>"
proof -
  obtain d where d: "run_state (CleanupStaleProcessSlots sv) w = (Inr (), w\<lparr>db := d\<rparr>)" "cc_seq d = cc_seq (db w)"
    "zmembers d (accountSlotKey a) = ownSlots (initRequestIDPrefix (cv_random sv)) (db w) (accountSlotKey a)"
    using run_startup [OF assms(1-3,5)] by blast
  have "ownSlots (initRequestIDPrefix (cv_random sv)) (db w) (accountSlotKey a) = []" using assms(6) by (auto simp: ownSlots_def filter_empty_conv)
  moreover have "requestOf sv d a = requestOf sv (db w) a" using d(2) by (simp add: requestOf_def nextID_def)
  ultimately show ?thesis using d assms(1-4)
    by (simp add: run_account_quiet split_def Let_def acquire_spec counted_slots liveSlots_def)
qed

section \<open>Load\<close>

text \<open>What is recorded of an account: the slots that have not outlived their lifetime, and the counter.\<close>

definition seenLoad :: "int \<Rightarrow> 'z conc_db_scheme \<Rightarrow> with_concurrency \<Rightarrow> load_info" where
  "seenLoad ttl d a =
     (let n = int (length (liveSlots ttl d (accountSlotKey (wc_ID a))));
          m = (case numGet d (accountWaitKey (wc_ID a)) of None \<Rightarrow> 0 | Some v \<Rightarrow> v)
      in \<lparr>li_ID = wc_ID a, li_CurrentConcurrency = n, li_WaitingCount = m, li_LoadRate = loadRate n m (wc_MaxConcurrency a)\<rparr>)"

definition sameLoad :: "int \<Rightarrow> 'z conc_db_scheme \<Rightarrow> 'z conc_db_scheme \<Rightarrow> bool" where
  "sameLoad ttl d d' \<longleftrightarrow> cc_now d' = cc_now d \<and> cc_nums d' = cc_nums d \<and> (\<forall>key. liveSlots ttl d' key = liveSlots ttl d key)"

lemma sameLoad_seen: "sameLoad ttl d d' \<Longrightarrow> seenLoad ttl d' a = seenLoad ttl d a"
  by (simp add: sameLoad_def seenLoad_def numGet_def unexpired_def cong: option.case_cong)

lemma purge_sameLoad: "sameLoad ttl d (zremrangebyscore key (redisSeconds d - ttl) d)"
  by (auto simp: sameLoad_def zremrangebyscore_def liveSlots_def redisSeconds_def)

lemma errs_nil: "\<forall>e \<in> set es. e = None \<or> e = Some nilReply \<Longrightarrow> pipeFails es = None"
  by (induction es) (auto simp: pipeFails_def split: option.splits)

lemma run_loadCmds:
  assumes "script w = []" "cutoff = redisSeconds (db w) - ttl"
  shows "\<exists>es d. run_state (loadCmds (accountSlotKey (wc_ID a)) (accountWaitKey (wc_ID a)) cutoff a) w =
      ((a, es, li_CurrentConcurrency (seenLoad ttl (db w) a), li_WaitingCount (seenLoad ttl (db w) a)), w\<lparr>db := d\<rparr>) \<and>
     sameLoad ttl (db w) d \<and> (\<forall>e \<in> set es. e = None \<or> e = Some nilReply)"
proof -
  let ?d = "zremrangebyscore (accountSlotKey (wc_ID a)) cutoff (db w)"
  have g: "numGet ?d k = numGet (db w) k" for k
    by (simp add: numGet_def unexpired_def zremrangebyscore_def cong: option.case_cong)
  have "zcard ?d (accountSlotKey (wc_ID a)) = int (length (liveSlots ttl (db w) (accountSlotKey (wc_ID a))))"
    by (simp add: zcard_def zremrangebyscore_def liveSlots_def assms(2))
  then show ?thesis using assms(1) purge_sameLoad [of ttl "db w"]
    by (auto simp: loadCmds_def zremrangeCmd_def zcardCmd_def getCmd_def run_simps g [unfolded assms(2)] seenLoad_def Let_def errOf_def valOr0_def assms(2)
        split: option.splits intro!: exI)
qed

lemma run_loads:
  assumes "script w = []" "redisSeconds (db w) = now"
  shows "\<exists>cmds d. run_state (mapProg (\<lambda>a. loadCmds (accountSlotKey (wc_ID a)) (accountWaitKey (wc_ID a)) (now - ttl) a) as) w = (cmds, w\<lparr>db := d\<rparr>) \<and>
     sameLoad ttl (db w) d \<and> pipeFails (concat (map (\<lambda>(_, es, _). es) cmds)) = None \<and>
     (\<forall>m. foldl loadEntry m cmds = foldl (\<lambda>m a. m(wc_ID a \<mapsto> seenLoad ttl (db w) a)) m as)"
proof -
  have "\<exists>cmds d. run_state (mapProg (\<lambda>a. loadCmds (accountSlotKey (wc_ID a)) (accountWaitKey (wc_ID a)) (now - ttl) a) as) w = (cmds, w\<lparr>db := d\<rparr>) \<and>
     sameLoad ttl (db w) d \<and> (\<forall>e \<in> set (concat (map (\<lambda>(_, es, _). es) cmds)). e = None \<or> e = Some nilReply) \<and>
     (\<forall>m. foldl loadEntry m cmds = foldl (\<lambda>m a. m(wc_ID a \<mapsto> seenLoad ttl (db w) a)) m as)"
    using assms
  proof (induction as arbitrary: w)
    case Nil
    then show ?case by (auto simp: sameLoad_def intro!: exI [of _ "db w"])
  next
    case (Cons a as)
    obtain es d where 1: "run_state (loadCmds (accountSlotKey (wc_ID a)) (accountWaitKey (wc_ID a)) (now - ttl) a) w =
        ((a, es, li_CurrentConcurrency (seenLoad ttl (db w) a), li_WaitingCount (seenLoad ttl (db w) a)), w\<lparr>db := d\<rparr>)"
      "sameLoad ttl (db w) d" "\<forall>e \<in> set es. e = None \<or> e = Some nilReply"
      using run_loadCmds [OF Cons.prems(1), of "now - ttl" ttl] Cons.prems(2) by blast
    have w: "script (w\<lparr>db := d\<rparr>) = []" "redisSeconds (db (w\<lparr>db := d\<rparr>)) = now"
      using Cons.prems 1(2) by (simp_all add: sameLoad_def redisSeconds_def)
    let ?w = "w\<lparr>db := d\<rparr>"
    obtain cmds d' where 2: "run_state (mapProg (\<lambda>a. loadCmds (accountSlotKey (wc_ID a)) (accountWaitKey (wc_ID a)) (now - ttl) a) as) ?w = (cmds, ?w\<lparr>db := d'\<rparr>)"
      "sameLoad ttl (db ?w) d'" "\<forall>e \<in> set (concat (map (\<lambda>(_, es, _). es) cmds)). e = None \<or> e = Some nilReply"
      "\<forall>m. foldl loadEntry m cmds = foldl (\<lambda>m a. m(wc_ID a \<mapsto> seenLoad ttl (db ?w) a)) m as"
      using Cons.IH [OF w] by blast
    have "sameLoad ttl (db w) d'" using 1(2) 2(2) by (simp add: sameLoad_def)
    moreover have "loadEntry m (a, es, li_CurrentConcurrency (seenLoad ttl (db w) a), li_WaitingCount (seenLoad ttl (db w) a)) =
        m(wc_ID a \<mapsto> seenLoad ttl (db w) a)" for m
      by (simp add: loadEntry_def seenLoad_def Let_def)
    ultimately show ?case using 1 2 sameLoad_seen [OF 1(2)]
      by (intro exI [of _ "(a, es, li_CurrentConcurrency (seenLoad ttl (db w) a), li_WaitingCount (seenLoad ttl (db w) a)) # cmds"] exI [of _ d'])
        (auto simp del: fun_upd_apply, blast)
  qed
  then show ?thesis using errs_nil by blast
qed

text \<open>C15. The load that the scheduler sees is the load there is: in a run in which nothing fails, the batch gives for every account of the
  list its slots that have not outlived their lifetime, the length of its queue and their share of the limit in percent,
  and nothing for other accounts.\<close>

theorem load_batch_exact:
  assumes "script w = []" "cv_cache sv = Some c" "distinct (map wc_ID accounts)"
  shows "\<exists>loads. fst (run_state (GetAccountsLoadBatch sv accounts) w) = Inr loads \<and>
    (\<forall>i. loads i = (case tget (\<lambda>a. wc_ID a = i) accounts of None \<Rightarrow> None | Some a \<Rightarrow> Some (seenLoad (slotTTLSeconds c) (db w) a)))"
proof -
  let ?f = "\<lambda>m a. m(wc_ID a \<mapsto> seenLoad (slotTTLSeconds c) (db w) a)"
  have fold: "foldl ?f m as i = (case tget (\<lambda>a. wc_ID a = i) as of None \<Rightarrow> m i | Some a \<Rightarrow> Some (seenLoad (slotTTLSeconds c) (db w) a))"
    if "distinct (map wc_ID as)" for m as i
    using that
  proof (induction as arbitrary: m)
    case (Cons a as)
    have "tget (\<lambda>b. wc_ID b = wc_ID a) as = None" using Cons.prems by (simp add: tget_None image_iff) metis
    then show ?case using Cons by (auto simp: table_simps split: option.splits)
  qed (simp add: table_simps)
  obtain cmds d where "run_state (mapProg (\<lambda>a. loadCmds (accountSlotKey (wc_ID a)) (accountWaitKey (wc_ID a)) (redisSeconds (db w) - slotTTLSeconds c) a) accounts) w = (cmds, w\<lparr>db := d\<rparr>)"
    "pipeFails (concat (map (\<lambda>(_, es, _). es) cmds)) = None"
    "\<forall>m. foldl loadEntry m cmds = foldl ?f m accounts"
    using run_loads [OF assms(1) refl] by blast
  then show ?thesis using assms fold [OF assms(3), of "\<lambda>_. None"]
    by (cases "accounts = []") (auto simp: GetAccountsLoadBatch_def cacheGetAccountsLoadBatch_def loadBatch_def redisTime_def run_simps table_simps)
qed

section \<open>Instances, continued\<close>

theorem slot_granted_iff_witness:
  "fst (run_state (AcquireAccountSlot (sampleSlotService 1) 7 1) (facing [] noSlots)) =
     Inr \<lparr>Acquired = True, ReleaseFunc = Some (requestOf (sampleSlotService 1) noSlots 7)\<rparr>"
  using slot_granted_iff [OF _ sampleSlotService_cache, of "facing [] noSlots" 1 1 7]
  by (simp add: liveSlots_def) (simp add: facing_def)

theorem slot_roundtrip_witness:
  "zmembers (db (snd (run_state (runRelease (requestOf (sampleSlotService 1) noSlots 7))
      (snd (run_state (AcquireAccountSlot (sampleSlotService 1) 7 1) (facing [] noSlots)))))) (accountSlotKey 7) = []"
proof -
  obtain r w where r: "run_state (AcquireAccountSlot (sampleSlotService 1) 7 1) (facing [] noSlots) = (r, w)" by fastforce
  then have "r = Inr \<lparr>Acquired = True, ReleaseFunc = Some (requestOf (sampleSlotService 1) noSlots 7)\<rparr>"
    by (simp add: run_account_quiet [OF _ sampleSlotService_cache] facing_def split_def Let_def acquire_spec liveSlots_def counted_slots)
  with slot_roundtrip [OF _ sampleSlotService_cache _ _ _ r [unfolded this], of "accountSlotKey 7"] r show ?thesis
    by (simp, simp add: facing_def)
qed

definition busyQueue :: conc_db where
  "busyQueue = snd (incrementAccountWaitScript (accountWaitKey 7) 21 900 noSlots)"

theorem waiting_bounded_witness:
  "waitOk (\<lambda>_. 21) (db (snd (run_state (waitCall (sampleSlotService 1) (WaitAccount 7 21)) (facing [Unack] busyQueue))))"
proof (rule waiting_bounded)
  have "waitOk (\<lambda>_. 21) noSlots" by (simp add: waitOk_def)
  then show "waitOk (\<lambda>_. 21) (db (facing [Unack] busyQueue))"
    by (simp add: busyQueue_def increment_bounded)
qed (simp_all add: relies_def facing_def)

text \<open>The slot of process 1 is no second old; process 2 starts and gets the slot too.\<close>

theorem startup_frees_live_slots_witness:
  "fst (run_state (AcquireAccountSlot (sampleSlotService 2) 7 1) (facing [] (fst busyDeployment))) = Inr \<lparr>Acquired = False, ReleaseFunc = None\<rparr> \<and>
   fst (run_state (AcquireAccountSlot (sampleSlotService 2) 7 1)
      (snd (run_state (CleanupStaleProcessSlots (sampleSlotService 2)) (facing [] (fst busyDeployment))))) =
     Inr \<lparr>Acquired = True, ReleaseFunc = Some (requestOf (sampleSlotService 2) (fst busyDeployment) 7)\<rparr>"
proof
  have new: "nextID (sampleSlotService 2) (fst busyDeployment) \<notin> fst ` set (zmembers (fst busyDeployment) (accountSlotKey 7))"
    by (auto simp: busy_slot nextID_def sampleSlotService_def dest!: requestID_inj)
  show "fst (run_state (AcquireAccountSlot (sampleSlotService 2) 7 1) (facing [] (fst busyDeployment))) = Inr \<lparr>Acquired = False, ReleaseFunc = None\<rparr>"
    by (subst run_account_quiet [OF _ sampleSlotService_cache])
      (use new in \<open>simp_all add: facing_def split_def Let_def acquire_spec counted_slots liveSlots_def busy_slot\<close>)
  show "fst (run_state (AcquireAccountSlot (sampleSlotService 2) 7 1)
      (snd (run_state (CleanupStaleProcessSlots (sampleSlotService 2)) (facing [] (fst busyDeployment))))) =
     Inr \<lparr>Acquired = True, ReleaseFunc = Some (requestOf (sampleSlotService 2) (fst busyDeployment) 7)\<rparr>"
  proof (rule startup_frees_live_slots [OF _ sampleSlotService_cache, of "facing [] (fst busyDeployment)", simplified])
    have f: "formatUint36 2 = ''2''" "formatUint36 (Suc 0) = ''1''" by code_simp+
    have "\<not> hasPrefix (nextID (sampleSlotService 1) noSlots) (initRequestIDPrefix (cv_random (sampleSlotService 2)))"
      by (simp add: nextID_def requestID_def sampleSlotService_def initRequestIDPrefix_def hasPrefix_def f)
    then show "\<forall>(i, _) \<in> set (zmembers (fst busyDeployment) (accountSlotKey 7)). \<not> hasPrefix i (initRequestIDPrefix (cv_random (sampleSlotService 2)))"
      by (simp add: busy_slot)
  qed (auto simp: facing_def complete_def sampleSlotService_def)
qed

theorem load_batch_exact_witness:
  "\<exists>loads. fst (run_state (GetAccountsLoadBatch (sampleSlotService 1) [\<lparr>wc_ID = 7, wc_MaxConcurrency = 1\<rparr>]) (facing [] (fst busyDeployment))) = Inr loads \<and>
     loads 8 = None \<and> map_option li_CurrentConcurrency (loads 7) = Some 1"
proof -
  obtain loads where l: "fst (run_state (GetAccountsLoadBatch (sampleSlotService 1) [\<lparr>wc_ID = 7, wc_MaxConcurrency = 1\<rparr>]) (facing [] (fst busyDeployment))) = Inr loads"
    "\<forall>i. loads i = (case tget (\<lambda>a. wc_ID a = i) [\<lparr>wc_ID = 7, wc_MaxConcurrency = 1\<rparr>] of None \<Rightarrow> None
        | Some a \<Rightarrow> Some (seenLoad (slotTTLSeconds \<lparr>slotTTLSeconds = 900, waitQueueTTLSeconds = 900\<rparr>) (db (facing [] (fst busyDeployment))) a))"
    using load_batch_exact [OF _ sampleSlotService_cache, of "facing [] (fst busyDeployment)" "[\<lparr>wc_ID = 7, wc_MaxConcurrency = 1\<rparr>]" 1]
    by (simp add: facing_def) blast
  show ?thesis using l(1) l(2) [rule_format, of 7] l(2) [rule_format, of 8]
    by (simp add: table_simps seenLoad_def Let_def liveSlots_def busy_slot)
qed

text \<open>A connection that breaks after the first account without a queue is not noticed: the accounts after it look idle.\<close>

lemma broken_batch_looks_idle:
  assumes "numGet d (accountWaitKey (wc_ID a)) = None" "cv_cache sv = Some c"
  shows "\<exists>loads. fst (run_state (GetAccountsLoadBatch sv [a, b]) (facing [Done, Done, Done, Done, Lost 0, Lost 0, Lost 0] d)) = Inr loads \<and>
    loads (wc_ID b) = Some \<lparr>li_ID = wc_ID b, li_CurrentConcurrency = 0, li_WaitingCount = 0, li_LoadRate = 0\<rparr>"
proof -
  have g: "numGet (zremrangebyscore k x d) k' = numGet d k'" for k x k'
    by (simp add: numGet_def unexpired_def zremrangebyscore_def cong: option.case_cong)
  have "loadRate 0 0 n = 0" for n by (simp add: loadRate_def quot64_def wrap64_def)
  then show ?thesis using assms
    by (simp add: GetAccountsLoadBatch_def cacheGetAccountsLoadBatch_def loadBatch_def redisTime_def query_def run_bindE run_facing loadCmds_def
        zremrangeCmd_def zcardCmd_def getCmd_def g pipeFails_def errOf_def valOr0_def loadEntry_def)
qed

end
