(* ===== verification/Slot_Wait.thy ===== *)
theory Slot_Wait
  imports Slot_Laws Float64
begin

text \<open>
  Waiting for a slot (\<open>handler/gateway_helper.go\<close>): a request that finds no slot free asks again after pauses that grow, until it gets one or
  its time is over; a streaming request meanwhile keeps its connection alive with pings. The \<open>select\<close> of the loop is a list
  of \<open>wait_event\<close>: what happens before the context of the request is done, in this order. When the list is over the context is
  done. A timer brings the random number for the next pause, a ping whether the client takes it.
\<close>

section \<open>Data\<close>

datatype wait_err = ConcurrencyError string bool | OtherErr go_err

datatype wait_event = PingDue "go_err option" | TimerDue f64

text \<open>The answer to the client: whether it has begun, its headers (a later one replaces an earlier one of the same name) and what
  was written.\<close>

record stream =
  st_Started :: bool
  st_Headers :: "(string \<times> string) list"
  st_Written :: string

record 'z concurrency_helper =
  ch_service :: "'z conc_service"
  ch_pingFormat :: string
  ch_pingInterval :: duration

text \<open>A request: whether it is streaming, and whether its writer can flush.\<close>

record wait_request =
  wr_isStream :: bool
  wr_canFlush :: bool

definition concurrencyErrorText :: "string \<Rightarrow> bool \<Rightarrow> string" where
  "concurrencyErrorText slotType isTimeout =
     (if isTimeout then ''timeout waiting for '' @ slotType @ '' concurrency slot'' else slotType @ '' concurrency limit reached'')"

definition maxConcurrencyWait :: duration where "maxConcurrencyWait = 30 * nsSecond"
definition initialBackoff :: duration where "initialBackoff = 100000000"
definition backoffMultiplier :: f64 where "backoffMultiplier = F64 (3 / 2)"
definition maxBackoff :: duration where "maxBackoff = 2 * nsSecond"


section \<open>Pauses\<close>

definition nextBackoff :: "f64 \<Rightarrow> duration \<Rightarrow> duration" where
  "nextBackoff random current =
     (let next = ftrunc (fmul (fofint current) backoffMultiplier);
          next = (if maxBackoff < next then maxBackoff else next);
          jitter = fadd (rnd (8 / 10)) (fmul random (rnd (4 / 10)));
          jittered = ftrunc (fmul (fofint next) jitter)
      in if jittered < initialBackoff then initialBackoff
         else if maxBackoff < jittered then maxBackoff
         else jittered)"

section \<open>Trying\<close>

definition tryResult :: "go_err + acquire_result \<Rightarrow> go_err + (release_func option \<times> bool)" where
  "tryResult r = (case r of
       Inl e \<Rightarrow> Inl e
     | Inr result \<Rightarrow> if \<not> Acquired result then Inr (None, False) else Inr (ReleaseFunc result, True))"

definition TryAcquireUserSlot :: "'z concurrency_helper \<Rightarrow> int \<Rightarrow> int \<Rightarrow> ('z, (release_func option \<times> bool)) qe" where
  "TryAcquireUserSlot h userID maxConcurrency = do { r \<leftarrow> AcquireUserSlot (ch_service h) userID maxConcurrency; ret (tryResult r) }"


definition acquireSlot :: "'z concurrency_helper \<Rightarrow> string \<Rightarrow> int \<Rightarrow> int \<Rightarrow> ('z, acquire_result) qe" where
  "acquireSlot h slotType i maxConcurrency =
     (if slotType = ''user'' then AcquireUserSlot (ch_service h) i maxConcurrency else AcquireAccountSlot (ch_service h) i maxConcurrency)"

section \<open>The loop\<close>

definition streamHeaders :: "(string \<times> string) list" where
  "streamHeaders = [(''Content-Type'', ''text/event-stream''), (''Cache-Control'', ''no-cache''), (''Connection'', ''keep-alive''),
     (''X-Accel-Buffering'', ''no'')]"

definition begun :: "stream \<Rightarrow> stream" where
  "begun st = (if \<not> st_Started st then st\<lparr>st_Started := True, st_Headers := st_Headers st @ streamHeaders\<rparr> else st)"

text \<open>The result of waiting, the answer so far, and the pauses that were made.\<close>

type_synonym waited = "(wait_err + release_func option) \<times> stream \<times> duration list"

fun waitLoop :: "'z concurrency_helper \<Rightarrow> string \<Rightarrow> int \<Rightarrow> int \<Rightarrow> bool \<Rightarrow> wait_event list \<Rightarrow> duration \<Rightarrow> stream \<Rightarrow> duration list \<Rightarrow> ('z, waited) qp" where
  "waitLoop h slotType i maxConcurrency needPing [] backoff st pauses = ret (Inl (ConcurrencyError slotType True), st, pauses)"
| "waitLoop h slotType i maxConcurrency needPing (PingDue failed # es) backoff st pauses =
     (if \<not> needPing then waitLoop h slotType i maxConcurrency needPing es backoff st pauses
      else case failed of
             Some e \<Rightarrow> ret (Inl (OtherErr e), begun st, pauses)
           | None \<Rightarrow> waitLoop h slotType i maxConcurrency needPing es backoff
                       ((begun st)\<lparr>st_Written := st_Written st @ ch_pingFormat h\<rparr>) pauses)"
| "waitLoop h slotType i maxConcurrency needPing (TimerDue random # es) backoff st pauses = do {
     r \<leftarrow> acquireSlot h slotType i maxConcurrency;
     case r of
       Inl e \<Rightarrow> ret (Inl (OtherErr e), st, pauses)
     | Inr result \<Rightarrow>
         if Acquired result then ret (Inr (ReleaseFunc result), st, pauses)
         else waitLoop h slotType i maxConcurrency needPing es (nextBackoff random backoff) st (pauses @ [nextBackoff random backoff]) }"

definition waitForSlotWithPingTimeout ::
    "'z concurrency_helper \<Rightarrow> wait_request \<Rightarrow> string \<Rightarrow> int \<Rightarrow> int \<Rightarrow> bool \<Rightarrow> wait_event list \<Rightarrow> stream \<Rightarrow> ('z, waited) qp" where
  "waitForSlotWithPingTimeout h rq slotType i maxConcurrency tryImmediate es st =
     (let needPing = (wr_isStream rq \<and> ch_pingFormat h \<noteq> []);
          wait = (if needPing \<and> \<not> wr_canFlush rq then ret (Inl (OtherErr (ErrorNew ''streaming not supported'')), st, [])
                  else waitLoop h slotType i maxConcurrency needPing es initialBackoff st [initialBackoff])
      in if tryImmediate
         then do {
           r \<leftarrow> acquireSlot h slotType i maxConcurrency;
           case r of
             Inl e \<Rightarrow> ret (Inl (OtherErr e), st, [])
           | Inr result \<Rightarrow> if Acquired result then ret (Inr (ReleaseFunc result), st, []) else wait }
         else wait)"

definition waitForSlotWithPing :: "'z concurrency_helper \<Rightarrow> wait_request \<Rightarrow> string \<Rightarrow> int \<Rightarrow> int \<Rightarrow> wait_event list \<Rightarrow> stream \<Rightarrow> ('z, waited) qp" where
  "waitForSlotWithPing h rq slotType i maxConcurrency es st = waitForSlotWithPingTimeout h rq slotType i maxConcurrency False es st"

definition afterTry :: "stream \<Rightarrow> ('z, waited) qp \<Rightarrow> ('z, (release_func option \<times> bool)) qe \<Rightarrow> ('z, waited) qp" where
  "afterTry st wait try = do {
     r \<leftarrow> try;
     case r of
       Inl e \<Rightarrow> ret (Inl (OtherErr e), st, [])
     | Inr (releaseFunc, acquired) \<Rightarrow> if acquired then ret (Inr releaseFunc, st, []) else wait }"

definition AcquireUserSlotWithWait :: "'z concurrency_helper \<Rightarrow> wait_request \<Rightarrow> int \<Rightarrow> int \<Rightarrow> wait_event list \<Rightarrow> stream \<Rightarrow> ('z, waited) qp" where
  "AcquireUserSlotWithWait h rq userID maxConcurrency es st =
     afterTry st (waitForSlotWithPing h rq ''user'' userID maxConcurrency es st) (TryAcquireUserSlot h userID maxConcurrency)"



section \<open>Releasing\<close>

text \<open>A wrapped release function is called by the handler, perhaps more than once, or when the context is done.\<close>

datatype release_event = ReleaseCalled | ContextDone

fun wrapReleaseOnDone :: "release_func option \<Rightarrow> bool \<Rightarrow> release_event list \<Rightarrow> ('z, unit) qp" where
  "wrapReleaseOnDone None done es = ret ()"
| "wrapReleaseOnDone (Some f) done [] = ret ()"
| "wrapReleaseOnDone (Some f) done (e # es) =
     (if done then wrapReleaseOnDone (Some f) done es
      else do { runRelease f; wrapReleaseOnDone (Some f) True es })"

lemma released_already: "wrapReleaseOnDone (Some f) True es = ret ()"
  by (induction es) auto

lemma release_runs_once: "wrapReleaseOnDone (Some f) False es = (if es = [] then ret () else do { runRelease f; ret () })"
  by (cases es) (auto simp: released_already)

section \<open>What waiting does\<close>

lemma nextBackoff_bounds: "initialBackoff \<le> nextBackoff random current \<and> nextBackoff random current \<le> maxBackoff"
  by (simp add: nextBackoff_def Let_def initialBackoff_def maxBackoff_def nsSecond_def)

text \<open>What others do to the slots of a key between two statements of a request that waits: they give slots back, let them expire, and take slots
  under identifiers in \<open>F\<close>; other requests of process \<open>b\<close> draw identifiers, up to \<open>m\<close> of them.\<close>

definition holding :: "'z conc_db_scheme \<Rightarrow> string \<Rightarrow> string set" where
  "holding d key = fst ` set (zmembers d key)"






lemma counted_holding [simp]: "holding (counted sv d) key = holding d key"
  by (simp add: holding_def counted_slots)













end
