(* ===== verification/Sched_Account.thy ===== *)
theory Sched_Account
  imports Usage_Record
begin

text \<open>
  Upstream accounts as the scheduler sees them (\<open>service/account.go\<close>, \<open>service/model_rate_limit.go\<close>,
  \<open>service/antigravity_quota_scope.go\<close>, and the mapping of models in \<open>service/bedrock_request.go\<close> and \<open>service/antigravity_gateway_service.go\<close>):
  whether an account may be used at a time, for a model, and within its window costs and requests per minute.

  \<open>sched_account\<close> has the columns that scheduling reads. Of the JSON columns it has the members it reads, as the code
  reads them: a number that cannot be read, like one that is absent, is \<open>None\<close>, and so is a member of another type. A raw mapping of models
  lists the pairs of the JSON object; a value that is no string is \<open>None\<close>. Maps that Go ranges over are lists of pairs with distinct
  keys. The cache of the resolved mapping, which every reading checks against the raw one, is left out.
\<close>

section \<open>Data\<close>

record sched_account =
  sa_gw :: gateway_account
  sa_Concurrency :: int
  sa_Priority :: int
  sa_LoadFactor :: "int option"
  sa_Status :: string
  sa_Schedulable :: bool
  sa_LastUsedAt :: "instant option"
  sa_ExpiresAt :: "instant option"
  sa_AutoPauseOnExpired :: bool
  sa_RateLimitResetAt :: "instant option"
  sa_OverloadUntil :: "instant option"
  sa_TempUnschedulableUntil :: "instant option"
  sa_SessionWindowStart :: "instant option"
  sa_SessionWindowEnd :: "instant option"
  sa_AccountGroups :: "int list"
  sa_ModelMapping :: "(string \<times> string option) list"
  sa_AwsRegion :: string
  sa_AwsForceGlobal :: string
  sa_PrivacyMode :: "string option"
  sa_MixedScheduling :: "bool option"
  sa_AllowOverages :: "bool option"
  sa_OpenAIPassthrough :: "bool option"
  sa_OpenAIOAuthPassthrough :: "bool option"
  sa_ModelRateLimits :: "string \<Rightarrow> instant option"
  sa_WindowCostLimit :: "f64 option"
  sa_WindowCostStickyReserve :: "f64 option"
  sa_MaxSessions :: "int option"
  sa_SessionIdleTimeoutMinutes :: "int option"
  sa_BaseRPM :: "int option"
  sa_RPMStrategy :: "string option"
  sa_RPMStickyBuffer :: "int option"

abbreviation sa_ID :: "sched_account \<Rightarrow> int" where "sa_ID a \<equiv> ga_ID (sa_gw a)"
abbreviation sa_Platform :: "sched_account \<Rightarrow> string" where "sa_Platform a \<equiv> ga_Platform (sa_gw a)"
abbreviation sa_Type :: "sched_account \<Rightarrow> string" where "sa_Type a \<equiv> ga_Type (sa_gw a)"

definition PlatformAnthropic :: string where "PlatformAnthropic = ''anthropic''"
definition PlatformOpenAI :: string where "PlatformOpenAI = ''openai''"
definition PlatformGemini :: string where "PlatformGemini = ''gemini''"
definition PlatformAntigravity :: string where "PlatformAntigravity = ''antigravity''"
definition AccountTypeOAuth :: string where "AccountTypeOAuth = ''oauth''"
definition StatusActive :: string where "StatusActive = ''active''"
definition StatusError :: string where "StatusError = ''error''"
definition StatusDisabled :: string where "StatusDisabled = ''disabled''"

section \<open>Times\<close>

definition before :: "instant \<Rightarrow> instant option \<Rightarrow> bool" where
  "before now t \<longleftrightarrow> (case t of None \<Rightarrow> False | Some u \<Rightarrow> now < u)"

definition IsActive :: "sched_account \<Rightarrow> bool" where
  "IsActive a \<longleftrightarrow> sa_Status a = StatusActive"

definition EffectiveLoadFactor :: "sched_account \<Rightarrow> int" where
  "EffectiveLoadFactor a = (case sa_LoadFactor a of
       Some n \<Rightarrow> if 0 < n then n else if 0 < sa_Concurrency a then sa_Concurrency a else 1
     | None \<Rightarrow> if 0 < sa_Concurrency a then sa_Concurrency a else 1)"

definition IsSchedulable :: "instant \<Rightarrow> sched_account \<Rightarrow> bool" where
  "IsSchedulable now a \<longleftrightarrow>
     (if \<not> IsActive a \<or> \<not> sa_Schedulable a then False
      else if sa_AutoPauseOnExpired a \<and> sa_ExpiresAt a \<noteq> None \<and> \<not> before now (sa_ExpiresAt a) then False
      else if before now (sa_OverloadUntil a) then False
      else if before now (sa_RateLimitResetAt a) then False
      else if before now (sa_TempUnschedulableUntil a) then False
      else True)"

definition IsPrivacySet :: "sched_account \<Rightarrow> bool" where
  "IsPrivacySet a \<longleftrightarrow>
     (if sa_Platform a = PlatformOpenAI then getExtraString (sa_PrivacyMode a) = ''training_off''
      else if sa_Platform a = PlatformAntigravity then getExtraString (sa_PrivacyMode a) = ''privacy_set''
      else True)"

definition IsMixedSchedulingEnabled :: "sched_account \<Rightarrow> bool" where
  "IsMixedSchedulingEnabled a \<longleftrightarrow> sa_Platform a = PlatformAntigravity \<and> sa_MixedScheduling a = Some True"

definition IsOveragesEnabled :: "sched_account \<Rightarrow> bool" where
  "IsOveragesEnabled a \<longleftrightarrow> sa_Platform a = PlatformAntigravity \<and> sa_AllowOverages a = Some True"

definition IsBedrock :: "sched_account \<Rightarrow> bool" where
  "IsBedrock a \<longleftrightarrow> sa_Platform a = PlatformAnthropic \<and> sa_Type a = AccountTypeBedrock"

definition IsOpenAIPassthroughEnabled :: "sched_account \<Rightarrow> bool" where
  "IsOpenAIPassthroughEnabled a \<longleftrightarrow> sa_Platform a = PlatformOpenAI \<and>
     (case sa_OpenAIPassthrough a of Some enabled \<Rightarrow> enabled | None \<Rightarrow> sa_OpenAIOAuthPassthrough a = Some True)"

definition GetCurrentWindowStartTime :: "int \<Rightarrow> instant \<Rightarrow> sched_account \<Rightarrow> instant" where
  "GetCurrentWindowStartTime z now a = (case (sa_SessionWindowStart a, sa_SessionWindowEnd a) of
       (Some s, Some e) \<Rightarrow> if now < e then s else truncTo nsHour (now + z) - z
     | _ \<Rightarrow> truncTo nsHour (now + z) - z)"

section \<open>Mapping of models\<close>

definition matchAntigravityWildcard :: "string \<Rightarrow> string \<Rightarrow> bool" where
  "matchAntigravityWildcard pattern s =
     (if hasSuffix pattern ''*'' then hasPrefix s (take (length pattern - 1) pattern) else pattern = s)"

definition DefaultAntigravityModelMapping :: "(string \<times> string) list" where
  "DefaultAntigravityModelMapping =
    [(''claude-opus-4-6-thinking'', ''claude-opus-4-6-thinking''), (''claude-opus-4-6'', ''claude-opus-4-6-thinking''),
     (''claude-opus-4-5-thinking'', ''claude-opus-4-6-thinking''), (''claude-sonnet-4-6'', ''claude-sonnet-4-6''),
     (''claude-sonnet-4-5'', ''claude-sonnet-4-5''), (''claude-sonnet-4-5-thinking'', ''claude-sonnet-4-5-thinking''),
     (''claude-opus-4-5-20251101'', ''claude-opus-4-6-thinking''), (''claude-sonnet-4-5-20250929'', ''claude-sonnet-4-5''),
     (''claude-haiku-4-5'', ''claude-sonnet-4-6''), (''claude-haiku-4-5-20251001'', ''claude-sonnet-4-6''),
     (''gemini-2.5-flash'', ''gemini-2.5-flash''), (''gemini-2.5-flash-image'', ''gemini-2.5-flash-image''),
     (''gemini-2.5-flash-image-preview'', ''gemini-2.5-flash-image''), (''gemini-2.5-flash-lite'', ''gemini-2.5-flash-lite''),
     (''gemini-2.5-flash-thinking'', ''gemini-2.5-flash-thinking''), (''gemini-2.5-pro'', ''gemini-2.5-pro''),
     (''gemini-3-flash'', ''gemini-3-flash''), (''gemini-3-pro-high'', ''gemini-3-pro-high''),
     (''gemini-3-pro-low'', ''gemini-3-pro-low''), (''gemini-3-flash-preview'', ''gemini-3-flash''),
     (''gemini-3-pro-preview'', ''gemini-3-pro-high''), (''gemini-3.1-pro-high'', ''gemini-3.1-pro-high''),
     (''gemini-3.1-pro-low'', ''gemini-3.1-pro-low''), (''gemini-3.1-pro-preview'', ''gemini-3.1-pro-high''),
     (''gemini-3.1-flash-image'', ''gemini-3.1-flash-image''), (''gemini-3.1-flash-image-preview'', ''gemini-3.1-flash-image''),
     (''gemini-3-pro-image'', ''gemini-3.1-flash-image''), (''gemini-3-pro-image-preview'', ''gemini-3.1-flash-image''),
     (''gpt-oss-120b-medium'', ''gpt-oss-120b-medium''), (''tab_flash_lite_preview'', ''tab_flash_lite_preview'')]"

definition ensureAntigravityDefaultPassthrough :: "(string \<times> string) list \<Rightarrow> string \<Rightarrow> (string \<times> string) list" where
  "ensureAntigravityDefaultPassthrough mapping model =
     (if model = [] then mapping
      else if map_of mapping model \<noteq> None then mapping
      else if (\<exists>(pattern, _) \<in> set mapping. matchAntigravityWildcard pattern model) then mapping
      else mapping @ [(model, model)])"

definition ensureAntigravityDefaultPassthroughs :: "(string \<times> string) list \<Rightarrow> string list \<Rightarrow> (string \<times> string) list" where
  "ensureAntigravityDefaultPassthroughs mapping models = foldl ensureAntigravityDefaultPassthrough mapping models"

definition resolveModelMapping :: "sched_account \<Rightarrow> (string \<times> string) list" where
  "resolveModelMapping a =
     (let default = (if sa_Platform a = PlatformAntigravity then DefaultAntigravityModelMapping else []);
          result = List.map_filter (\<lambda>(k, v). map_option (Pair k) v) (sa_ModelMapping a)
      in if sa_ModelMapping a = [] then default
         else if result \<noteq> []
         then if sa_Platform a = PlatformAntigravity
              then ensureAntigravityDefaultPassthroughs result [''gemini-3-flash'', ''gemini-3.1-pro-high'', ''gemini-3.1-pro-low'']
              else result
         else default)"

definition normalizeRequestedModelForLookup :: "string \<Rightarrow> string \<Rightarrow> string" where
  "normalizeRequestedModelForLookup platform requestedModel =
     (let trimmed = trimSpace requestedModel
      in if trimmed = [] then []
         else if platform \<noteq> PlatformGemini \<and> platform \<noteq> PlatformAntigravity then trimmed
         else if trimmed = ''gemini-3.1-pro-preview-customtools'' then ''gemini-3.1-pro-preview''
         else trimmed)"

definition mappingSupportsRequestedModel :: "(string \<times> string) list \<Rightarrow> string \<Rightarrow> bool" where
  "mappingSupportsRequestedModel mapping requestedModel \<longleftrightarrow>
     requestedModel \<noteq> [] \<and>
     (map_of mapping requestedModel \<noteq> None \<or> (\<exists>(pattern, _) \<in> set mapping. matchAntigravityWildcard pattern requestedModel))"

text \<open>The longest pattern that matches, and of patterns as long the first in the order of strings.\<close>

definition prefers :: "string \<times> string \<Rightarrow> string \<times> string \<Rightarrow> bool" where
  "prefers p q \<longleftrightarrow> (if length (fst p) \<noteq> length (fst q) then length (fst q) < length (fst p) else strLess (fst p) (fst q))"

fun bestMatch :: "(string \<times> string) list \<Rightarrow> (string \<times> string) option" where
  "bestMatch [] = None"
| "bestMatch (p # ps) = (case bestMatch ps of None \<Rightarrow> Some p | Some q \<Rightarrow> Some (if prefers q p then q else p))"

definition matchWildcardMappingResult :: "(string \<times> string) list \<Rightarrow> string \<Rightarrow> string \<times> bool" where
  "matchWildcardMappingResult mapping requestedModel =
     (case bestMatch (filter (\<lambda>(pattern, _). matchAntigravityWildcard pattern requestedModel) mapping) of
        None \<Rightarrow> (requestedModel, False)
      | Some (_, target) \<Rightarrow> (target, True))"

definition resolveRequestedModelInMapping :: "(string \<times> string) list \<Rightarrow> string \<Rightarrow> string \<times> bool" where
  "resolveRequestedModelInMapping mapping requestedModel =
     (if requestedModel = [] then ([], False)
      else case map_of mapping requestedModel of
             Some mappedModel \<Rightarrow> (mappedModel, True)
           | None \<Rightarrow> matchWildcardMappingResult mapping requestedModel)"

definition IsModelSupported :: "sched_account \<Rightarrow> string \<Rightarrow> bool" where
  "IsModelSupported a requestedModel =
     (let mapping = resolveModelMapping a;
          normalized = normalizeRequestedModelForLookup (sa_Platform a) requestedModel
      in if mapping = [] then True
         else if mappingSupportsRequestedModel mapping requestedModel then True
         else normalized \<noteq> requestedModel \<and> mappingSupportsRequestedModel mapping normalized)"

definition ResolveMappedModel :: "sched_account \<Rightarrow> string \<Rightarrow> string \<times> bool" where
  "ResolveMappedModel a requestedModel =
     (let mapping = resolveModelMapping a;
          (mapped, matched) = resolveRequestedModelInMapping mapping requestedModel;
          normalized = normalizeRequestedModelForLookup (sa_Platform a) requestedModel;
          (mapped', matched') = resolveRequestedModelInMapping mapping normalized
      in if mapping = [] then (requestedModel, False)
         else if matched then (mapped, True)
         else if normalized \<noteq> requestedModel \<and> matched' then (mapped', True)
         else (requestedModel, False))"

definition GetMappedModel :: "sched_account \<Rightarrow> string \<Rightarrow> string" where
  "GetMappedModel a requestedModel = fst (ResolveMappedModel a requestedModel)"

definition mapAntigravityModel :: "sched_account \<Rightarrow> string \<Rightarrow> string" where
  "mapAntigravityModel a requestedModel =
     (let mapped = GetMappedModel a requestedModel
      in if resolveModelMapping a = [] then []
         else if mapped \<noteq> requestedModel then mapped
         else if IsModelSupported a requestedModel then requestedModel
         else [])"

definition applyThinkingModelSuffix :: "string \<Rightarrow> bool \<Rightarrow> string" where
  "applyThinkingModelSuffix mappedModel thinkingEnabled =
     (if \<not> thinkingEnabled then mappedModel
      else if mappedModel = ''claude-sonnet-4-5'' then ''claude-sonnet-4-5-thinking''
      else mappedModel)"

section \<open>Bedrock\<close>

definition bedrockCrossRegionPrefixes :: "string list" where
  "bedrockCrossRegionPrefixes = [''us.'', ''eu.'', ''apac.'', ''jp.'', ''au.'', ''us-gov.'', ''global.'']"

definition BedrockCrossRegionPrefix :: "string \<Rightarrow> string" where
  "BedrockCrossRegionPrefix region =
     (if hasPrefix region ''us-gov'' then ''us-gov''
      else if hasPrefix region ''us-'' then ''us''
      else if hasPrefix region ''eu-'' then ''eu''
      else if region = ''ap-northeast-1'' then ''jp''
      else if region = ''ap-southeast-2'' then ''au''
      else if hasPrefix region ''ap-'' then ''apac''
      else if hasPrefix region ''ca-'' then ''us''
      else if hasPrefix region ''sa-'' then ''us''
      else ''us'')"

definition AdjustBedrockModelRegionPrefix :: "string \<Rightarrow> string \<Rightarrow> string" where
  "AdjustBedrockModelRegionPrefix modelID region =
     (let targetPrefix = (if region = ''global'' then ''global'' else BedrockCrossRegionPrefix region)
      in case List.find (hasPrefix modelID) bedrockCrossRegionPrefixes of
           None \<Rightarrow> modelID
         | Some p \<Rightarrow> if p = targetPrefix @ ''.'' then modelID else targetPrefix @ ''.'' @ drop (length p) modelID)"

definition bedrockRuntimeRegion :: "sched_account \<Rightarrow> string" where
  "bedrockRuntimeRegion a = (if sa_AwsRegion a \<noteq> [] then sa_AwsRegion a else ''us-east-1'')"

definition shouldForceBedrockGlobal :: "sched_account \<Rightarrow> bool" where
  "shouldForceBedrockGlobal a \<longleftrightarrow> sa_AwsForceGlobal a = ''true''"

definition isRegionalBedrockModelID :: "string \<Rightarrow> bool" where
  "isRegionalBedrockModelID modelID \<longleftrightarrow> list_ex (hasPrefix modelID) bedrockCrossRegionPrefixes"

definition isLikelyBedrockModelID :: "string \<Rightarrow> bool" where
  "isLikelyBedrockModelID modelID =
     (let lower = toLower (trimSpace modelID)
      in if lower = [] then False
         else if hasPrefix lower ''arn:'' then True
         else if list_ex (hasPrefix lower) [''anthropic.'', ''amazon.'', ''meta.'', ''mistral.'', ''cohere.'', ''ai21.'', ''deepseek.'',
                ''stability.'', ''writer.'', ''nova.''] then True
         else isRegionalBedrockModelID lower)"

definition DefaultBedrockModelMapping :: "(string \<times> string) list" where
  "DefaultBedrockModelMapping =
    [(''claude-opus-4-6-thinking'', ''us.anthropic.claude-opus-4-6-v1''), (''claude-opus-4-6'', ''us.anthropic.claude-opus-4-6-v1''),
     (''claude-opus-4-5-thinking'', ''us.anthropic.claude-opus-4-5-20251101-v1:0''), (''claude-opus-4-5-20251101'', ''us.anthropic.claude-opus-4-5-20251101-v1:0''),
     (''claude-opus-4-1'', ''us.anthropic.claude-opus-4-1-20250805-v1:0''), (''claude-opus-4-20250514'', ''us.anthropic.claude-opus-4-20250514-v1:0''),
     (''claude-sonnet-4-6-thinking'', ''us.anthropic.claude-sonnet-4-6''), (''claude-sonnet-4-6'', ''us.anthropic.claude-sonnet-4-6''),
     (''claude-sonnet-4-5'', ''us.anthropic.claude-sonnet-4-5-20250929-v1:0''), (''claude-sonnet-4-5-thinking'', ''us.anthropic.claude-sonnet-4-5-20250929-v1:0''),
     (''claude-sonnet-4-5-20250929'', ''us.anthropic.claude-sonnet-4-5-20250929-v1:0''), (''claude-sonnet-4-20250514'', ''us.anthropic.claude-sonnet-4-20250514-v1:0''),
     (''claude-haiku-4-5'', ''us.anthropic.claude-haiku-4-5-20251001-v1:0''), (''claude-haiku-4-5-20251001'', ''us.anthropic.claude-haiku-4-5-20251001-v1:0'')]"

definition normalizeBedrockModelID :: "string \<Rightarrow> (string \<times> bool) option" where
  "normalizeBedrockModelID modelID0 =
     (let modelID = trimSpace modelID0
      in if modelID = [] then None
         else case map_of DefaultBedrockModelMapping modelID of
                Some mapped \<Rightarrow> Some (mapped, True)
              | None \<Rightarrow> if isRegionalBedrockModelID modelID then Some (modelID, True)
                        else if isLikelyBedrockModelID modelID then Some (modelID, False)
                        else None)"

definition ResolveBedrockModelID :: "sched_account \<Rightarrow> string \<Rightarrow> string option" where
  "ResolveBedrockModelID a requestedModel =
     (case normalizeBedrockModelID (GetMappedModel a requestedModel) of
        None \<Rightarrow> None
      | Some (modelID, shouldAdjustRegion) \<Rightarrow>
          Some (if shouldAdjustRegion
                then AdjustBedrockModelRegionPrefix modelID (if shouldForceBedrockGlobal a then ''global'' else bedrockRuntimeRegion a)
                else modelID))"

section \<open>Support of a model\<close>

definition NormalizeModelID :: "string \<Rightarrow> string" where
  "NormalizeModelID i =
     (if i = [] then i
      else case map_of [(''claude-sonnet-4-5'', ''claude-sonnet-4-5-20250929''), (''claude-opus-4-5'', ''claude-opus-4-5-20251101''),
               (''claude-haiku-4-5'', ''claude-haiku-4-5-20251001'')] i of Some mapped \<Rightarrow> mapped | None \<Rightarrow> i)"

definition isModelSupportedByAccount :: "sched_account \<Rightarrow> string \<Rightarrow> bool" where
  "isModelSupportedByAccount a requestedModel =
     (if sa_Platform a = PlatformAntigravity
      then trimSpace requestedModel = [] \<or> mapAntigravityModel a requestedModel \<noteq> []
      else if IsBedrock a then ResolveBedrockModelID a requestedModel \<noteq> None
      else if sa_Platform a = PlatformOpenAI \<and> IsOpenAIPassthroughEnabled a then True
      else IsModelSupported a
             (if sa_Platform a = PlatformAnthropic \<and> sa_Type a \<noteq> AccountTypeAPIKey then NormalizeModelID requestedModel else requestedModel))"

text \<open>\<open>thinking\<close> is what the context of the request says of the thinking mode, if anything.\<close>

definition isModelSupportedByAccountWithContext :: "bool option \<Rightarrow> sched_account \<Rightarrow> string \<Rightarrow> bool" where
  "isModelSupportedByAccountWithContext thinking a requestedModel =
     (if sa_Platform a = PlatformAntigravity
      then let mapped = mapAntigravityModel a requestedModel
           in if trimSpace requestedModel = [] then True
              else if mapped = [] then False
              else case thinking of
                     Some enabled \<Rightarrow>
                       (let finalModel = applyThinkingModelSuffix mapped enabled
                        in if finalModel = mapped then True else IsModelSupported a finalModel)
                   | None \<Rightarrow> True
      else isModelSupportedByAccount a requestedModel)"

definition resolveAccountUpstreamModel :: "sched_account \<Rightarrow> string \<Rightarrow> string" where
  "resolveAccountUpstreamModel a requestedModel =
     (if sa_Platform a = PlatformAntigravity then mapAntigravityModel a requestedModel else GetMappedModel a requestedModel)"

section \<open>Rate limits of models\<close>

definition isRateLimitActiveForKey :: "instant \<Rightarrow> sched_account \<Rightarrow> string \<Rightarrow> bool" where
  "isRateLimitActiveForKey now a key \<longleftrightarrow> key \<noteq> [] \<and> before now (sa_ModelRateLimits a key)"

definition resolveFinalAntigravityModelKey :: "bool option \<Rightarrow> sched_account \<Rightarrow> string \<Rightarrow> string" where
  "resolveFinalAntigravityModelKey thinking a requestedModel =
     (let modelKey = mapAntigravityModel a requestedModel
      in if modelKey = [] then []
         else case thinking of Some enabled \<Rightarrow> applyThinkingModelSuffix modelKey enabled | None \<Rightarrow> modelKey)"

definition rateLimitModelKey :: "bool option \<Rightarrow> sched_account \<Rightarrow> string \<Rightarrow> string" where
  "rateLimitModelKey thinking a requestedModel =
     trimSpace (if sa_Platform a = PlatformAntigravity then resolveFinalAntigravityModelKey thinking a requestedModel
                else GetMappedModel a requestedModel)"

definition isModelRateLimitedWithContext :: "bool option \<Rightarrow> instant \<Rightarrow> sched_account \<Rightarrow> string \<Rightarrow> bool" where
  "isModelRateLimitedWithContext thinking now a requestedModel =
     (let modelKey = rateLimitModelKey thinking a requestedModel
      in if modelKey = [] then False else isRateLimitActiveForKey now a modelKey)"

definition GetRateLimitRemainingTimeWithContext :: "bool option \<Rightarrow> instant \<Rightarrow> sched_account \<Rightarrow> string \<Rightarrow> duration" where
  "GetRateLimitRemainingTimeWithContext thinking now a requestedModel =
     (let modelKey = rateLimitModelKey thinking a requestedModel
      in if modelKey = [] then 0
         else case sa_ModelRateLimits a modelKey of None \<Rightarrow> 0 | Some resetAt \<Rightarrow> if 0 < resetAt - now then resetAt - now else 0)"

definition isCreditsExhausted :: "instant \<Rightarrow> sched_account \<Rightarrow> bool" where
  "isCreditsExhausted now a \<longleftrightarrow> isRateLimitActiveForKey now a ''AICredits''"

text \<open>The clock is read for the account, for the model, and for the credits.\<close>

definition IsSchedulableForModelWithContext :: "bool option \<Rightarrow> instant \<Rightarrow> instant \<Rightarrow> instant \<Rightarrow> sched_account \<Rightarrow> string \<Rightarrow> bool" where
  "IsSchedulableForModelWithContext thinking now1 now2 now3 a requestedModel =
     (if \<not> IsSchedulable now1 a then False
      else if isModelRateLimitedWithContext thinking now2 a requestedModel
      then sa_Platform a = PlatformAntigravity \<and> IsOveragesEnabled a \<and> \<not> isCreditsExhausted now3 a
      else True)"

text \<open>Whether the binding of a session to the account has to go.\<close>

definition shouldClearStickySession :: "instant \<Rightarrow> instant \<Rightarrow> sched_account \<Rightarrow> string \<Rightarrow> bool" where
  "shouldClearStickySession now1 now2 a requestedModel =
     (if sa_Status a = StatusError \<or> sa_Status a = StatusDisabled \<or> \<not> sa_Schedulable a then True
      else if before now1 (sa_TempUnschedulableUntil a) then True
      else 0 < GetRateLimitRemainingTimeWithContext None now2 a requestedModel)"

section \<open>Window costs, sessions and requests per minute\<close>

datatype window_cost_schedulability = WindowCostSchedulable | WindowCostStickyOnly | WindowCostNotSchedulable

definition GetWindowCostLimit :: "sched_account \<Rightarrow> f64" where
  "GetWindowCostLimit a = (case sa_WindowCostLimit a of None \<Rightarrow> fzero | Some v \<Rightarrow> v)"

definition GetWindowCostStickyReserve :: "sched_account \<Rightarrow> f64" where
  "GetWindowCostStickyReserve a = (case sa_WindowCostStickyReserve a of None \<Rightarrow> F64 10 | Some v \<Rightarrow> if flt fzero v then v else F64 10)"

definition GetMaxSessions :: "sched_account \<Rightarrow> int" where
  "GetMaxSessions a = (case sa_MaxSessions a of None \<Rightarrow> 0 | Some n \<Rightarrow> n)"

definition GetSessionIdleTimeoutMinutes :: "sched_account \<Rightarrow> int" where
  "GetSessionIdleTimeoutMinutes a = (case sa_SessionIdleTimeoutMinutes a of None \<Rightarrow> 5 | Some n \<Rightarrow> if 0 < n then n else 5)"

definition GetBaseRPM :: "sched_account \<Rightarrow> int" where
  "GetBaseRPM a = (case sa_BaseRPM a of None \<Rightarrow> 0 | Some n \<Rightarrow> if 0 < n then n else 0)"

definition GetRPMStrategy :: "sched_account \<Rightarrow> string" where
  "GetRPMStrategy a = (if sa_RPMStrategy a = Some ''sticky_exempt'' then ''sticky_exempt'' else ''tiered'')"

definition GetRPMStickyBuffer :: "sched_account \<Rightarrow> int" where
  "GetRPMStickyBuffer a =
     (let manual = (case sa_RPMStickyBuffer a of None \<Rightarrow> 0 | Some n \<Rightarrow> n);
          base = GetBaseRPM a;
          conc = (if sa_Concurrency a < 0 then 0 else sa_Concurrency a);
          sess = (if GetMaxSessions a < 0 then 0 else GetMaxSessions a);
          buffer = wrap64 (conc + sess);
          floor = (if base div 5 < 1 then 1 else base div 5)
      in if 0 < manual then manual
         else if base \<le> 0 then 0
         else if buffer < floor then floor else buffer)"

definition CheckRPMSchedulability :: "sched_account \<Rightarrow> int \<Rightarrow> window_cost_schedulability" where
  "CheckRPMSchedulability a currentRPM =
     (if GetBaseRPM a \<le> 0 then WindowCostSchedulable
      else if currentRPM < GetBaseRPM a then WindowCostSchedulable
      else if GetRPMStrategy a = ''sticky_exempt'' then WindowCostStickyOnly
      else if currentRPM < wrap64 (GetBaseRPM a + GetRPMStickyBuffer a) then WindowCostStickyOnly
      else WindowCostNotSchedulable)"

definition CheckWindowCostSchedulability :: "sched_account \<Rightarrow> f64 \<Rightarrow> window_cost_schedulability" where
  "CheckWindowCostSchedulability a currentWindowCost =
     (let limit = GetWindowCostLimit a
      in if fle limit fzero then WindowCostSchedulable
         else if flt currentWindowCost limit then WindowCostSchedulable
         else if flt currentWindowCost (fadd limit (GetWindowCostStickyReserve a)) then WindowCostStickyOnly
         else WindowCostNotSchedulable)"

definition stickyVerdict :: "window_cost_schedulability \<Rightarrow> bool \<Rightarrow> bool" where
  "stickyVerdict s isSticky = (case s of
       WindowCostSchedulable \<Rightarrow> True | WindowCostStickyOnly \<Rightarrow> isSticky | WindowCostNotSchedulable \<Rightarrow> False)"

lemma stickyVerdict_mono: "stickyVerdict s False \<Longrightarrow> stickyVerdict s True"
  by (cases s) (auto simp: stickyVerdict_def)

text \<open>An exact entry of the mapping wins over every pattern.\<close>

lemma exact_mapping_wins:
  "map_of (resolveModelMapping a) m = Some t \<Longrightarrow> m \<noteq> [] \<Longrightarrow> GetMappedModel a m = t \<and> IsModelSupported a m"
  by (auto simp: GetMappedModel_def ResolveMappedModel_def resolveRequestedModelInMapping_def IsModelSupported_def
      mappingSupportsRequestedModel_def Let_def split_def)

text \<open>A model that is mapped is supported.\<close>

lemma bestMatch_in: "bestMatch ps = Some p \<Longrightarrow> p \<in> set ps"
  by (induction ps arbitrary: p) (auto split: option.splits if_splits)

lemma mapped_is_supported: "snd (ResolveMappedModel a m) \<Longrightarrow> IsModelSupported a m"
proof -
  have "mappingSupportsRequestedModel mp x" if "snd (resolveRequestedModelInMapping mp x)" for mp x
    using that bestMatch_in
    by (fastforce simp: resolveRequestedModelInMapping_def mappingSupportsRequestedModel_def matchWildcardMappingResult_def
        split: if_splits option.splits prod.splits)
  then show "snd (ResolveMappedModel a m) \<Longrightarrow> IsModelSupported a m"
    by (auto simp: ResolveMappedModel_def IsModelSupported_def Let_def split_def split: if_splits)
qed

end
