(* ===== verification/Sched_Cache.thy ===== *)
theory Sched_Cache
  imports Sched_Account Concurrency
begin

text \<open>
  What the scheduler keeps in Redis: the account a session sticks to (\<open>repository/gateway_cache.go\<close>), the sessions of an account and the cost of
  its window (\<open>repository/session_limit_cache.go\<close>), the requests per minute (\<open>repository/rpm_cache.go\<close>), and the snapshots of
  schedulable accounts (\<open>repository/scheduler_cache.go\<close>); and the rows of the database it reads (\<open>repository/account_repo.go\<close>,
  \<open>repository/scheduler_outbox_repo.go\<close>).

  \<open>sched_db\<close> extends the sorted sets and counters of \<open>Concurrency\<close>. Keys that hold numbers are counters there, with the time at which they
  expire in milliseconds; keys that hold accounts, other strings and floating-point numbers are maps of their own, since their prefixes
  differ. An account in Redis is written as JSON and read back as it was; \<open>sched_account\<close> has the columns that scheduling reads.
  The database and the process read one clock; the order of rows that \<open>ORDER BY\<close> leaves open is that of the table.
\<close>

section \<open>Data\<close>

record account_binding =
  ab_GroupID :: int
  ab_AccountID :: int
  ab_Priority :: int

record sched_group =
  gx_ID :: int
  gx_Name :: string
  gx_Platform :: string
  gx_Status :: string
  gx_Hydrated :: bool
  gx_ClaudeCodeOnly :: bool
  gx_FallbackGroupID :: "int option"
  gx_RequirePrivacySet :: bool
  gx_ModelRoutingEnabled :: bool
  gx_ModelRouting :: "(string \<times> int list) list"

text \<open>The JSON payload of an event, as the code reads its members: numbers as \<open>toInt64\<close> reads them, \<open>None\<close> if it cannot; a member that is absent
  or of another type is \<open>None\<close>.\<close>

record outbox_payload =
  pl_LastUsed :: "(string \<times> int option) list option"
  pl_AccountIDs :: "int option list option"
  pl_GroupIDs :: "int option list option"

record outbox_event =
  ob_ID :: int
  ob_EventType :: string
  ob_AccountID :: "int option"
  ob_GroupID :: "int option"
  ob_Payload :: "outbox_payload option"
  ob_CreatedAt :: instant

text \<open>The last five fields belong to the process: the window and the count of the limiter of database reads, the count of laggard polls, the
  numbers that its random source will give (for the call and the position in it), and what the usage log answers.\<close>

record sched_db = conc_db +
  sd_accounts :: "string \<Rightarrow> sched_account option"
  sd_strings :: "string \<Rightarrow> string option"
  sd_buckets :: "string list"
  sd_costs :: "string \<Rightarrow> f64 entry option"
  sd_rows :: "sched_account list"
  sd_bindings :: "account_binding list"
  sd_groups :: "sched_group list"
  sd_outbox :: "outbox_event list"
  sd_standardCost :: "int \<Rightarrow> instant \<Rightarrow> f64"
  sd_window :: instant
  sd_count :: int
  sd_lagFailures :: int
  sd_dice :: "(nat \<Rightarrow> nat \<Rightarrow> nat) list"

type_synonym 'a sp = "(sched_db, 'a) prog"
type_synonym 'a se = "(sched_db, 'a) eprog"

section \<open>Commands\<close>

definition numSet :: "string \<Rightarrow> int \<Rightarrow> int \<Rightarrow> sched_db \<Rightarrow> sched_db" where
  "numSet key v ttl d = d\<lparr>cc_nums := (cc_nums d)(key \<mapsto> (v, Some (cc_now d + ttl)))\<rparr>"

definition costGet :: "sched_db \<Rightarrow> string \<Rightarrow> f64 option" where
  "costGet d key = map_option fst (unexpired d (sd_costs d key))"

text \<open>A statement that cannot fail by itself.\<close>

definition cmd :: "(sched_db \<Rightarrow> sched_db) \<Rightarrow> unit se" where
  "cmd f = exec (\<lambda>d. (Inr (), f d))"

text \<open>The members of a sorted set by score, and by text where the scores are equal.\<close>

fun insortBy :: "('a \<Rightarrow> 'a \<Rightarrow> bool) \<Rightarrow> 'a \<Rightarrow> 'a list \<Rightarrow> 'a list" where
  "insortBy lt x [] = [x]"
| "insortBy lt x (y # ys) = (if lt y x then y # insortBy lt x ys else x # y # ys)"

definition sortStable :: "('a \<Rightarrow> 'a \<Rightarrow> bool) \<Rightarrow> 'a list \<Rightarrow> 'a list" where
  "sortStable lt xs = foldr (insortBy lt) xs []"

definition zrange :: "sched_db \<Rightarrow> string \<Rightarrow> string list" where
  "zrange d key = map fst (sortStable (\<lambda>(m, s) (n, t). s < t \<or> s = t \<and> strLess m n) (zmembers d key))"

fun chunksOf :: "nat \<Rightarrow> 'a list \<Rightarrow> 'a list list" where
  "chunksOf n [] = []"
| "chunksOf n (x # xs) = (x # take (n - 1) xs) # chunksOf n (drop (n - 1) xs)"

text \<open>The first error of a pipeline.\<close>

definition firstError :: "(go_err + 'a) list \<Rightarrow> go_err option" where
  "firstError rs = firstSome errOf rs"

definition pipeline :: "unit se list \<Rightarrow> unit se" where
  "pipeline cmds = do {
     rs \<leftarrow> mapProg (\<lambda>c. c) cmds;
     ret (case firstError rs of None \<Rightarrow> Inr () | Some e \<Rightarrow> Inl e) }"

section \<open>Sticky sessions\<close>

definition stickySessionPrefix :: string where "stickySessionPrefix = ''sticky_session:''"

definition buildSessionKey :: "int \<Rightarrow> string \<Rightarrow> string" where
  "buildSessionKey groupID sessionHash = stickySessionPrefix @ formatInt groupID @ '':'' @ sessionHash"

definition GetSessionAccountID :: "int \<Rightarrow> string \<Rightarrow> int se" where
  "GetSessionAccountID groupID sessionHash = getCmd (buildSessionKey groupID sessionHash)"

text \<open>Times to live are given in seconds.\<close>

definition SetSessionAccountID :: "int \<Rightarrow> string \<Rightarrow> int \<Rightarrow> int \<Rightarrow> unit se" where
  "SetSessionAccountID groupID sessionHash accountID ttl = cmd (numSet (buildSessionKey groupID sessionHash) accountID (ttl * 1000))"

definition RefreshSessionTTL :: "int \<Rightarrow> string \<Rightarrow> int \<Rightarrow> unit se" where
  "RefreshSessionTTL groupID sessionHash ttl = cmd (numExpire (buildSessionKey groupID sessionHash) ttl)"

definition DeleteSessionAccountID :: "int \<Rightarrow> string \<Rightarrow> unit se" where
  "DeleteSessionAccountID groupID sessionHash = cmd (numDel (buildSessionKey groupID sessionHash))"

section \<open>Sessions of an account\<close>

definition sessionLimitKeyPrefix :: string where "sessionLimitKeyPrefix = ''session_limit:account:''"
definition windowCostKeyPrefix :: string where "windowCostKeyPrefix = ''window_cost:account:''"
definition windowCostCacheTTL :: int where "windowCostCacheTTL = 30000"

definition sessionLimitKey :: "int \<Rightarrow> string" where "sessionLimitKey accountID = sessionLimitKeyPrefix @ formatInt accountID"
definition windowCostKey :: "int \<Rightarrow> string" where "windowCostKey accountID = windowCostKeyPrefix @ formatInt accountID"

definition registerSessionScript :: "string \<Rightarrow> int \<Rightarrow> int \<Rightarrow> string \<Rightarrow> sched_db \<Rightarrow> int \<times> sched_db" where
  "registerSessionScript key maxSessions idleTimeout sessionUUID d =
     (let now = redisSeconds d;
          d1 = zremrangebyscore key (now - idleTimeout) d
      in if zscore d1 key sessionUUID \<noteq> None then (1, zexpire key (idleTimeout + 60) (zadd key now sessionUUID d1))
         else if zcard d1 key < maxSessions then (1, zexpire key (idleTimeout + 60) (zadd key now sessionUUID d1))
         else (0, d1))"

definition refreshSessionScript :: "string \<Rightarrow> int \<Rightarrow> string \<Rightarrow> sched_db \<Rightarrow> int \<times> sched_db" where
  "refreshSessionScript key idleTimeout sessionUUID d =
     (1, if zscore d key sessionUUID \<noteq> None then zexpire key (idleTimeout + 60) (zadd key (redisSeconds d) sessionUUID d) else d)"

definition getActiveSessionCountScript :: "string \<Rightarrow> int \<Rightarrow> sched_db \<Rightarrow> int \<times> sched_db" where
  "getActiveSessionCountScript key idleTimeout d =
     (let d1 = zremrangebyscore key (redisSeconds d - idleTimeout) d in (zcard d1 key, d1))"

definition isSessionActiveScript :: "string \<Rightarrow> int \<Rightarrow> string \<Rightarrow> sched_db \<Rightarrow> int \<times> sched_db" where
  "isSessionActiveScript key idleTimeout sessionUUID d =
     (case zscore d key sessionUUID of
        None \<Rightarrow> (0, d)
      | Some score \<Rightarrow> if score \<le> redisSeconds d - idleTimeout then (0, d) else (1, d))"

text \<open>The default idle time of the cache.\<close>

record session_limit_cache =
  defaultIdleTimeout :: duration

definition NewSessionLimitCache :: "int \<Rightarrow> session_limit_cache" where
  "NewSessionLimitCache defaultIdleTimeoutMinutes =
     \<lparr>defaultIdleTimeout = wrap64 ((if defaultIdleTimeoutMinutes \<le> 0 then 5 else defaultIdleTimeoutMinutes) * nsMinute)\<rparr>"

definition idleSeconds :: "duration \<Rightarrow> int" where
  "idleSeconds d = ftrunc (durSeconds d)"

definition idleSecondsOf :: "session_limit_cache \<Rightarrow> duration \<Rightarrow> int" where
  "idleSecondsOf c idleTimeout =
     (if idleSeconds idleTimeout \<le> 0 then idleSeconds (defaultIdleTimeout c) else idleSeconds idleTimeout)"

text \<open>The error comes with the answer true, which callers ignore.\<close>

definition RegisterSession :: "session_limit_cache \<Rightarrow> int \<Rightarrow> string \<Rightarrow> int \<Rightarrow> duration \<Rightarrow> bool se" where
  "RegisterSession c accountID sessionUUID maxSessions idleTimeout =
     (if sessionUUID = [] \<or> maxSessions \<le> 0 then ret (Inr True)
      else granted (runScript (registerSessionScript (sessionLimitKey accountID) maxSessions (idleSecondsOf c idleTimeout) sessionUUID)))"

definition RefreshSession :: "session_limit_cache \<Rightarrow> int \<Rightarrow> string \<Rightarrow> duration \<Rightarrow> unit se" where
  "RefreshSession c accountID sessionUUID idleTimeout =
     (if sessionUUID = [] then ret (Inr ())
      else bindE (runScript (refreshSessionScript (sessionLimitKey accountID) (idleSecondsOf c idleTimeout) sessionUUID)) id (\<lambda>_. ret (Inr ())))"

definition GetActiveSessionCount :: "session_limit_cache \<Rightarrow> int \<Rightarrow> int se" where
  "GetActiveSessionCount c accountID =
     runScript (getActiveSessionCountScript (sessionLimitKey accountID) (idleSeconds (defaultIdleTimeout c)))"

definition GetActiveSessionCountBatch :: "session_limit_cache \<Rightarrow> int list \<Rightarrow> (int \<Rightarrow> duration option) \<Rightarrow> (int \<Rightarrow> int option) se" where
  "GetActiveSessionCountBatch c accountIDs idleTimeouts =
     (if accountIDs = [] then ret (Inr (\<lambda>_. None))
      else do {
        rs \<leftarrow> mapProg (\<lambda>accountID.
          let idleTimeout = (case idleTimeouts accountID of Some t \<Rightarrow> if 0 < t then t else defaultIdleTimeout c | None \<Rightarrow> defaultIdleTimeout c)
          in do {
            r \<leftarrow> runScript (getActiveSessionCountScript (sessionLimitKey accountID) (idleSeconds idleTimeout));
            ret (accountID, r) }) accountIDs;
        ret (Inr (foldl (\<lambda>results (accountID, r). case r of Inl _ \<Rightarrow> results | Inr n \<Rightarrow> results(accountID \<mapsto> n)) (\<lambda>_. None) rs)) })"

definition IsSessionActive :: "session_limit_cache \<Rightarrow> int \<Rightarrow> string \<Rightarrow> bool se" where
  "IsSessionActive c accountID sessionUUID =
     (if sessionUUID = [] then ret (Inr False)
      else granted (runScript (isSessionActiveScript (sessionLimitKey accountID) (idleSeconds (defaultIdleTimeout c)) sessionUUID)))"

text \<open>The cost of a window, and whether it was found.\<close>

definition GetWindowCost :: "int \<Rightarrow> f64 option se" where
  "GetWindowCost accountID = query (\<lambda>d. costGet d (windowCostKey accountID))"

definition SetWindowCost :: "int \<Rightarrow> f64 \<Rightarrow> unit se" where
  "SetWindowCost accountID cost =
     cmd (\<lambda>d. d\<lparr>sd_costs := (sd_costs d)(windowCostKey accountID \<mapsto> (cost, Some (cc_now d + windowCostCacheTTL)))\<rparr>)"

definition GetWindowCostBatch :: "int list \<Rightarrow> (int \<Rightarrow> f64 option) se" where
  "GetWindowCostBatch accountIDs =
     (if accountIDs = [] then ret (Inr (\<lambda>_. None))
      else query (\<lambda>d i. if i \<in> set accountIDs then costGet d (windowCostKey i) else None))"

section \<open>Requests per minute\<close>

definition rpmKeyPrefix :: string where "rpmKeyPrefix = ''rpm:''"
definition rpmKeyTTL :: int where "rpmKeyTTL = 120"

definition rpmKey :: "int \<Rightarrow> int \<Rightarrow> string" where
  "rpmKey accountID minuteTS = rpmKeyPrefix @ formatInt accountID @ '':'' @ formatInt minuteTS"

definition currentMinute :: "int se" where
  "currentMinute = bindE redisTime id (\<lambda>now. ret (Inr (now div 60)))"

definition IncrementRPM :: "int \<Rightarrow> int se" where
  "IncrementRPM accountID =
     bindE currentMinute (Errorf ''rpm increment'') (\<lambda>m.
     bindE (exec (\<lambda>d. let d1 = numAdd (rpmKey accountID m) 1 d
                        in (Inr (case numGet d1 (rpmKey accountID m) of None \<Rightarrow> 0 | Some n \<Rightarrow> n), numExpire (rpmKey accountID m) rpmKeyTTL d1)))
       (Errorf ''rpm increment'') (\<lambda>n. ret (Inr n)))"

definition GetRPM :: "int \<Rightarrow> int se" where
  "GetRPM accountID =
     bindE currentMinute (Errorf ''rpm get'') (\<lambda>m. do {
       r \<leftarrow> getCmd (rpmKey accountID m);
       ret (case r of Inr n \<Rightarrow> Inr n | Inl e \<Rightarrow> if e = nilReply then Inr 0 else Inl (Errorf ''rpm get'' e)) })"

definition GetRPMBatch :: "int list \<Rightarrow> (int \<Rightarrow> int option) se" where
  "GetRPMBatch accountIDs =
     (if accountIDs = [] then ret (Inr (\<lambda>_. None))
      else bindE currentMinute (Errorf ''rpm batch get'') (\<lambda>m. do {
        rs \<leftarrow> mapProg (\<lambda>i. do { r \<leftarrow> getCmd (rpmKey i m); ret (i, r) }) accountIDs;
        case firstError (map snd rs) of
          Some e \<Rightarrow> if e = nilReply then ret (Inr (foldl (\<lambda>result (i, r). result(i \<mapsto> valOr0 r)) (\<lambda>_. None) rs))
                    else ret (Inl (Errorf ''rpm batch get'' e))
        | None \<Rightarrow> ret (Inr (foldl (\<lambda>result (i, r). result(i \<mapsto> valOr0 r)) (\<lambda>_. None) rs)) }))"

section \<open>Snapshots of schedulable accounts\<close>

record scheduler_bucket =
  sb_GroupID :: int
  sb_Platform :: string
  sb_Mode :: string

definition SchedulerModeSingle :: string where "SchedulerModeSingle = ''single''"
definition SchedulerModeMixed :: string where "SchedulerModeMixed = ''mixed''"
definition SchedulerModeForced :: string where "SchedulerModeForced = ''forced''"

definition bucketString :: "scheduler_bucket \<Rightarrow> string" where
  "bucketString b = formatInt (sb_GroupID b) @ '':'' @ sb_Platform b @ '':'' @ sb_Mode b"

definition ParseSchedulerBucket :: "string \<Rightarrow> scheduler_bucket option" where
  "ParseSchedulerBucket raw = (case splitOn CHR '':'' raw of
       [g, p, m] \<Rightarrow> (case parseInt64 g of
           None \<Rightarrow> None
         | Some groupID \<Rightarrow> if p = [] \<or> m = [] then None else Some \<lparr>sb_GroupID = groupID, sb_Platform = p, sb_Mode = m\<rparr>)
     | _ \<Rightarrow> None)"

definition schedulerBucketSetKey :: string where "schedulerBucketSetKey = ''sched:buckets''"
definition schedulerOutboxWatermarkKey :: string where "schedulerOutboxWatermarkKey = ''sched:outbox:watermark''"
definition schedulerAccountPrefix :: string where "schedulerAccountPrefix = ''sched:acc:''"
definition schedulerAccountMetaPrefix :: string where "schedulerAccountMetaPrefix = ''sched:meta:''"
definition schedulerActivePrefix :: string where "schedulerActivePrefix = ''sched:active:''"
definition schedulerReadyPrefix :: string where "schedulerReadyPrefix = ''sched:ready:''"
definition schedulerVersionPrefix :: string where "schedulerVersionPrefix = ''sched:ver:''"
definition schedulerSnapshotPrefix :: string where "schedulerSnapshotPrefix = ''sched:''"
definition schedulerLockPrefix :: string where "schedulerLockPrefix = ''sched:lock:''"

definition schedulerBucketKey :: "string \<Rightarrow> scheduler_bucket \<Rightarrow> string" where
  "schedulerBucketKey pre b = pre @ bucketString b"

definition schedulerSnapshotKey :: "scheduler_bucket \<Rightarrow> string \<Rightarrow> string" where
  "schedulerSnapshotKey b version = schedulerSnapshotPrefix @ bucketString b @ '':v'' @ version"

definition schedulerAccountKey :: "string \<Rightarrow> string" where "schedulerAccountKey i = schedulerAccountPrefix @ i"
definition schedulerAccountMetaKey :: "string \<Rightarrow> string" where "schedulerAccountMetaKey i = schedulerAccountMetaPrefix @ i"

record scheduler_cache =
  mgetChunkSize :: nat
  writeChunkSize :: nat

definition newSchedulerCacheWithChunkSizes :: "int \<Rightarrow> int \<Rightarrow> scheduler_cache" where
  "newSchedulerCacheWithChunkSizes mget write =
     \<lparr>mgetChunkSize = nat (if mget \<le> 0 then 128 else mget), writeChunkSize = nat (if write \<le> 0 then 256 else write)\<rparr>"

definition noQuota :: quota_extra where
  "noQuota = \<lparr>qx_Limit = None, qx_Used = None, qx_DailyLimit = None, qx_DailyUsed = None, qx_WeeklyLimit = None, qx_WeeklyUsed = None,
     qx_DailyStart = None, qx_WeeklyStart = None, qx_DailyResetAt = None, qx_WeeklyResetAt = None, qx_DailyResetMode = None,
     qx_WeeklyResetMode = None, qx_DailyResetHour = None, qx_WeeklyResetDay = None, qx_WeeklyResetHour = None, qx_ResetTimezone = None\<rparr>"

text \<open>What a snapshot keeps of an account: the fields, credentials and extra members that the code lists. Absent are its groups, its
  quota, the limits by model and by minute, and the privacy, overages and passthrough settings.\<close>

definition buildSchedulerMetadataAccount :: "sched_account \<Rightarrow> sched_account" where
  "buildSchedulerMetadataAccount a =
    \<lparr>sa_gw = \<lparr>ga_ID = sa_ID a, ga_Platform = sa_Platform a, ga_Type = sa_Type a, ga_RateMultiplier = ga_RateMultiplier (sa_gw a),
       ga_Quota = noQuota, ga_CacheTTLOverrideEnabled = None, ga_CacheTTLOverrideTarget = None\<rparr>,
     sa_Concurrency = sa_Concurrency a, sa_Priority = sa_Priority a, sa_LoadFactor = sa_LoadFactor a, sa_Status = sa_Status a,
     sa_Schedulable = sa_Schedulable a, sa_LastUsedAt = sa_LastUsedAt a, sa_ExpiresAt = sa_ExpiresAt a,
     sa_AutoPauseOnExpired = sa_AutoPauseOnExpired a, sa_RateLimitResetAt = sa_RateLimitResetAt a, sa_OverloadUntil = sa_OverloadUntil a,
     sa_TempUnschedulableUntil = sa_TempUnschedulableUntil a, sa_SessionWindowStart = sa_SessionWindowStart a,
     sa_SessionWindowEnd = sa_SessionWindowEnd a, sa_AccountGroups = [], sa_ModelMapping = sa_ModelMapping a,
     sa_AwsRegion = [], sa_AwsForceGlobal = [], sa_PrivacyMode = None, sa_MixedScheduling = sa_MixedScheduling a,
     sa_AllowOverages = None, sa_OpenAIPassthrough = None, sa_OpenAIOAuthPassthrough = None, sa_ModelRateLimits = (\<lambda>_. None),
     sa_WindowCostLimit = sa_WindowCostLimit a, sa_WindowCostStickyReserve = sa_WindowCostStickyReserve a,
     sa_MaxSessions = sa_MaxSessions a, sa_SessionIdleTimeoutMinutes = sa_SessionIdleTimeoutMinutes a,
     sa_BaseRPM = None, sa_RPMStrategy = None, sa_RPMStickyBuffer = None\<rparr>"

definition getString :: "string \<Rightarrow> string se" where
  "getString key = exec (\<lambda>d. (case sd_strings d key of None \<Rightarrow> Inl nilReply | Some v \<Rightarrow> Inr v, d))"

definition setString :: "string \<Rightarrow> string \<Rightarrow> unit se" where
  "setString key v = cmd (\<lambda>d. d\<lparr>sd_strings := (sd_strings d)(key \<mapsto> v)\<rparr>)"

definition setAccountKey :: "string \<Rightarrow> sched_account \<Rightarrow> unit se" where
  "setAccountKey key a = cmd (\<lambda>d. d\<lparr>sd_accounts := (sd_accounts d)(key \<mapsto> a)\<rparr>)"

text \<open>The chunks of \<open>MGET\<close>, one statement each.\<close>

fun mgetChunks :: "string list list \<Rightarrow> sched_account option list se" where
  "mgetChunks [] = ret (Inr [])"
| "mgetChunks (ks # kss) =
     bindE (query (\<lambda>d. map (sd_accounts d) ks)) id (\<lambda>vs. bindE (mgetChunks kss) id (\<lambda>rest. ret (Inr (vs @ rest))))"

definition mgetChunked :: "scheduler_cache \<Rightarrow> string list \<Rightarrow> sched_account option list se" where
  "mgetChunked c ks = mgetChunks (chunksOf (mgetChunkSize c) ks)"

lemma missed_iff [simp]: "list_ex (\<lambda>v. v = None) vals \<longleftrightarrow> None \<in> set vals"
  by (induction vals) auto

text \<open>\<open>None\<close> is a miss.\<close>

definition GetSnapshot :: "scheduler_cache \<Rightarrow> scheduler_bucket \<Rightarrow> sched_account list option se" where
  "GetSnapshot c b = do {
     ready \<leftarrow> getString (schedulerBucketKey schedulerReadyPrefix b);
     case ready of
       Inl e \<Rightarrow> ret (if e = nilReply then Inr None else Inl e)
     | Inr readyVal \<Rightarrow>
         if readyVal \<noteq> ''1'' then ret (Inr None)
         else do {
           active \<leftarrow> getString (schedulerBucketKey schedulerActivePrefix b);
           case active of
             Inl e \<Rightarrow> ret (if e = nilReply then Inr None else Inl e)
           | Inr activeVal \<Rightarrow>
               bindE (query (\<lambda>d. zrange d (schedulerSnapshotKey b activeVal))) id (\<lambda>ids.
                 if ids = [] then ret (Inr None)
                 else bindE (mgetChunked c (map schedulerAccountMetaKey ids)) id (\<lambda>vals.
                   ret (Inr (if list_ex (\<lambda>v. v = None) vals then None else Some (map the vals))))) } }"

fun writeChunks :: "sched_account list list \<Rightarrow> unit se" where
  "writeChunks [] = ret (Inr ())"
| "writeChunks (as # ass) =
     bindE (pipeline (concat (map (\<lambda>a.
         [setAccountKey (schedulerAccountKey (formatInt (sa_ID a))) a,
          setAccountKey (schedulerAccountMetaKey (formatInt (sa_ID a))) (buildSchedulerMetadataAccount a)]) as))) id
       (\<lambda>_. writeChunks ass)"

definition writeAccounts :: "scheduler_cache \<Rightarrow> sched_account list \<Rightarrow> unit se" where
  "writeAccounts c as = writeChunks (chunksOf (writeChunkSize c) as)"

definition zaddMembers :: "string \<Rightarrow> (string \<times> int) list \<Rightarrow> unit se" where
  "zaddMembers key ms = cmd (fold (\<lambda>(m, s). zadd key s m) ms)"

definition saddBucket :: "string \<Rightarrow> sched_db \<Rightarrow> sched_db" where
  "saddBucket s d = d\<lparr>sd_buckets := (if s \<in> set (sd_buckets d) then sd_buckets d else sd_buckets d @ [s])\<rparr>"

definition incrVersion :: "scheduler_bucket \<Rightarrow> int se" where
  "incrVersion b = exec (\<lambda>d. let d1 = numAdd (schedulerBucketKey schedulerVersionPrefix b) 1 d
     in (Inr (case numGet d1 (schedulerBucketKey schedulerVersionPrefix b) of None \<Rightarrow> 0 | Some n \<Rightarrow> n), d1))"

definition snapshotCmds :: "scheduler_cache \<Rightarrow> scheduler_bucket \<Rightarrow> string \<Rightarrow> sched_account list \<Rightarrow> unit se list" where
  "snapshotCmds c b versionStr accounts =
     (let key = schedulerSnapshotKey b versionStr;
          members = map (\<lambda>(i, a). (formatInt (sa_ID a), int i)) (enumerate 0 accounts)
      in (if accounts \<noteq> [] then map (zaddMembers key) (chunksOf (writeChunkSize c) members) else [cmd (zdel key)]) @
         [setString (schedulerBucketKey schedulerActivePrefix b) versionStr,
          setString (schedulerBucketKey schedulerReadyPrefix b) ''1'',
          cmd (saddBucket (bucketString b))])"

definition SetSnapshot :: "scheduler_cache \<Rightarrow> scheduler_bucket \<Rightarrow> sched_account list \<Rightarrow> unit se" where
  "SetSnapshot c b accounts = do {
     old \<leftarrow> getString (schedulerBucketKey schedulerActivePrefix b);
     let oldActive = (case old of Inl _ \<Rightarrow> [] | Inr v \<Rightarrow> v);
     bindE (incrVersion b) id (\<lambda>version.
     bindE (writeAccounts c accounts) id (\<lambda>_.
     bindE (pipeline (snapshotCmds c b (formatInt version) accounts)) id (\<lambda>_.
       if oldActive \<noteq> [] \<and> oldActive \<noteq> formatInt version
       then do { cmd (zdel (schedulerSnapshotKey b oldActive)); ret (Inr ()) }
       else ret (Inr ())))) }"

definition cacheGetAccount :: "int \<Rightarrow> sched_account option se" where
  "cacheGetAccount accountID = query (\<lambda>d. sd_accounts d (schedulerAccountKey (formatInt accountID)))"

definition SetAccount :: "scheduler_cache \<Rightarrow> sched_account \<Rightarrow> unit se" where
  "SetAccount c a = (if sa_ID a \<le> 0 then ret (Inr ()) else writeAccounts c [a])"

definition DeleteAccount :: "int \<Rightarrow> unit se" where
  "DeleteAccount accountID =
     (if accountID \<le> 0 then ret (Inr ())
      else cmd (\<lambda>d. d\<lparr>sd_accounts := (sd_accounts d)(schedulerAccountKey (formatInt accountID) := None,
                    schedulerAccountMetaKey (formatInt accountID) := None)\<rparr>))"

definition UpdateLastUsed :: "scheduler_cache \<Rightarrow> (int \<times> instant) list \<Rightarrow> unit se" where
  "UpdateLastUsed c updates =
     (if updates = [] then ret (Inr ())
      else bindE (mgetChunked c (map (\<lambda>(i, _). schedulerAccountKey (formatInt i)) updates)) id (\<lambda>vals.
        pipeline (concat (map (\<lambda>((i, t), val). case val of
            None \<Rightarrow> []
          | Some a \<Rightarrow> [setAccountKey (schedulerAccountKey (formatInt i)) (a\<lparr>sa_LastUsedAt := Some t\<rparr>),
                       setAccountKey (schedulerAccountMetaKey (formatInt i)) (buildSchedulerMetadataAccount (a\<lparr>sa_LastUsedAt := Some t\<rparr>))])
          (zip updates vals)))))"

text \<open>\<open>SETNX\<close> with the time of the process as its value; the lifetime is in seconds.\<close>

definition TryLockBucket :: "scheduler_bucket \<Rightarrow> int \<Rightarrow> bool se" where
  "TryLockBucket b ttl = do {
     now \<leftarrow> timeNow;
     exec (\<lambda>d. if numGet d (schedulerBucketKey schedulerLockPrefix b) = None
               then (Inr True, numSet (schedulerBucketKey schedulerLockPrefix b) now (ttl * 1000) d)
               else (Inr False, d)) }"

definition ListBuckets :: "scheduler_bucket list se" where
  "ListBuckets = query (\<lambda>d. List.map_filter ParseSchedulerBucket (sd_buckets d))"

definition GetOutboxWatermark :: "int se" where
  "GetOutboxWatermark = do {
     r \<leftarrow> getCmd schedulerOutboxWatermarkKey;
     ret (case r of Inl e \<Rightarrow> if e = nilReply then Inr 0 else Inl e | Inr i \<Rightarrow> Inr i) }"

definition SetOutboxWatermark :: "int \<Rightarrow> unit se" where
  "SetOutboxWatermark i = cmd (\<lambda>d. d\<lparr>cc_nums := (cc_nums d)(schedulerOutboxWatermarkKey \<mapsto> (i, None))\<rparr>)"

section \<open>Rows\<close>

definition tempUnschedulablePredicate :: "instant \<Rightarrow> sched_account \<Rightarrow> bool" where
  "tempUnschedulablePredicate now a \<longleftrightarrow> \<not> before now (sa_TempUnschedulableUntil a)"

definition notExpiredPredicate :: "instant \<Rightarrow> sched_account \<Rightarrow> bool" where
  "notExpiredPredicate now a \<longleftrightarrow> sa_ExpiresAt a = None \<or> before now (sa_ExpiresAt a) \<or> \<not> sa_AutoPauseOnExpired a"

definition schedulableRow :: "instant \<Rightarrow> sched_account \<Rightarrow> bool" where
  "schedulableRow now a \<longleftrightarrow> sa_Status a = StatusActive \<and> sa_Schedulable a \<and> tempUnschedulablePredicate now a \<and> notExpiredPredicate now a \<and>
     \<not> before now (sa_OverloadUntil a) \<and> \<not> before now (sa_RateLimitResetAt a)"

definition byPriority :: "sched_account list \<Rightarrow> sched_account list" where
  "byPriority = sortStable (\<lambda>a b. sa_Priority a < sa_Priority b)"

definition ListSchedulableByPlatforms :: "string list \<Rightarrow> sched_account list se" where
  "ListSchedulableByPlatforms platforms =
     (if platforms = [] then ret (Inr [])
      else do {
        now \<leftarrow> timeNow;
        query (\<lambda>d. byPriority (filter (\<lambda>a. sa_Platform a \<in> set platforms \<and> schedulableRow now a) (sd_rows d))) })"

definition ListSchedulableByPlatform :: "string \<Rightarrow> sched_account list se" where
  "ListSchedulableByPlatform platform = do {
     now \<leftarrow> timeNow;
     query (\<lambda>d. byPriority (filter (\<lambda>a. sa_Platform a = platform \<and> schedulableRow now a) (sd_rows d))) }"

definition isBound :: "sched_db \<Rightarrow> sched_account \<Rightarrow> bool" where
  "isBound d a \<longleftrightarrow> list_ex (\<lambda>b. ab_AccountID b = sa_ID a) (sd_bindings d)"

definition ListSchedulableUngroupedByPlatforms :: "string list \<Rightarrow> sched_account list se" where
  "ListSchedulableUngroupedByPlatforms platforms =
     (if platforms = [] then ret (Inr [])
      else do {
        now \<leftarrow> timeNow;
        query (\<lambda>d. byPriority (filter (\<lambda>a. sa_Platform a \<in> set platforms \<and> schedulableRow now a \<and> \<not> isBound d a) (sd_rows d))) })"

definition ListSchedulableUngroupedByPlatform :: "string \<Rightarrow> sched_account list se" where
  "ListSchedulableUngroupedByPlatform platform = do {
     now \<leftarrow> timeNow;
     query (\<lambda>d. byPriority (filter (\<lambda>a. sa_Platform a = platform \<and> schedulableRow now a \<and> \<not> isBound d a) (sd_rows d))) }"

text \<open>The accounts of a group by the priority of the binding, then by their own; an account that is bound twice appears once.\<close>

definition groupRows :: "int \<Rightarrow> (sched_account \<Rightarrow> bool) \<Rightarrow> sched_db \<Rightarrow> sched_account list" where
  "groupRows groupID p d =
     (let found = List.map_filter (\<lambda>b. if ab_GroupID b = groupID
            then case tget (\<lambda>a. sa_ID a = ab_AccountID b) (sd_rows d) of
                   Some a \<Rightarrow> if p a then Some (ab_Priority b, a) else None
                 | None \<Rightarrow> None
            else None) (sd_bindings d);
          ordered = map snd (sortStable (\<lambda>(p, a) (q, b). p < q \<or> p = q \<and> sa_Priority a < sa_Priority b) found)
      in rev (foldl (\<lambda>out a. if sa_ID a \<in> sa_ID ` set out then out else a # out) [] ordered))"

definition queryAccountsByGroup :: "int \<Rightarrow> string list \<Rightarrow> sched_account list se" where
  "queryAccountsByGroup groupID platforms = do {
     now \<leftarrow> timeNow;
     query (groupRows groupID (\<lambda>a. (platforms = [] \<or> sa_Platform a \<in> set platforms) \<and> schedulableRow now a)) }"

definition ListSchedulableByGroupIDAndPlatform :: "int \<Rightarrow> string \<Rightarrow> sched_account list se" where
  "ListSchedulableByGroupIDAndPlatform groupID platform = queryAccountsByGroup groupID [platform]"

definition ListSchedulableByGroupIDAndPlatforms :: "int \<Rightarrow> string list \<Rightarrow> sched_account list se" where
  "ListSchedulableByGroupIDAndPlatforms groupID platforms =
     (if platforms = [] then ret (Inr []) else queryAccountsByGroup groupID platforms)"

definition accGetByID :: "int \<Rightarrow> sched_account se" where
  "accGetByID i = exec (\<lambda>d. (case tget (\<lambda>a. sa_ID a = i) (sd_rows d) of None \<Rightarrow> Inl ErrAccountNotFound | Some a \<Rightarrow> Inr a, d))"

definition accGetByIDs :: "int list \<Rightarrow> sched_account list se" where
  "accGetByIDs ids =
     (let uniqueIDs = rev (foldl (\<lambda>out i. if i \<le> 0 \<or> i \<in> set out then out else i # out) [] ids)
      in if uniqueIDs = [] then ret (Inr [])
         else query (\<lambda>d. List.map_filter (\<lambda>i. tget (\<lambda>a. sa_ID a = i) (sd_rows d)) uniqueIDs))"

definition ErrGroupNotFound :: go_err where
  "ErrGroupNotFound = NotFound ''GROUP_NOT_FOUND'' ''group not found''"

definition groupGetByIDLite :: "int \<Rightarrow> sched_group se" where
  "groupGetByIDLite i = exec (\<lambda>d. (case tget (\<lambda>g. gx_ID g = i) (sd_groups d) of None \<Rightarrow> Inl ErrGroupNotFound | Some g \<Rightarrow> Inr g, d))"

definition groupListActive :: "sched_group list se" where
  "groupListActive = query (\<lambda>d. filter (\<lambda>g. gx_Status g = StatusActive) (sd_groups d))"

section \<open>Events\<close>

definition AccountChangedEvent :: string where "AccountChangedEvent = ''account_changed''"
definition AccountGroupsChangedEvent :: string where "AccountGroupsChangedEvent = ''account_groups_changed''"
definition AccountBulkChangedEvent :: string where "AccountBulkChangedEvent = ''account_bulk_changed''"
definition AccountLastUsedEvent :: string where "AccountLastUsedEvent = ''account_last_used''"
definition GroupChangedEvent :: string where "GroupChangedEvent = ''group_changed''"
definition FullRebuildEvent :: string where "FullRebuildEvent = ''full_rebuild''"

definition ListAfter :: "int \<Rightarrow> int \<Rightarrow> outbox_event list se" where
  "ListAfter afterID limit =
     query (\<lambda>d. take (nat (if limit \<le> 0 then 100 else limit))
                  (sortStable (\<lambda>a b. ob_ID a < ob_ID b) (filter (\<lambda>e. afterID < ob_ID e) (sd_outbox d))))"

definition MaxID :: "int se" where
  "MaxID = query (\<lambda>d. fold max (map ob_ID (sd_outbox d)) 0)"

definition schedulerOutboxEventSupportsDedup :: "string \<Rightarrow> bool" where
  "schedulerOutboxEventSupportsDedup t \<longleftrightarrow> t = AccountChangedEvent \<or> t = GroupChangedEvent \<or> t = FullRebuildEvent"

definition outboxDedupWindow :: duration where "outboxDedupWindow = nsSecond"

definition enqueueSchedulerEvent :: "string \<Rightarrow> int option \<Rightarrow> int option \<Rightarrow> outbox_payload option \<Rightarrow> unit se" where
  "enqueueSchedulerEvent eventType accountID groupID payload = do {
     now \<leftarrow> timeNow;
     cmd (\<lambda>d. if schedulerOutboxEventSupportsDedup eventType \<and>
                list_ex (\<lambda>e. ob_EventType e = eventType \<and> ob_AccountID e = accountID \<and> ob_GroupID e = groupID \<and>
                  now - outboxDedupWindow \<le> ob_CreatedAt e) (sd_outbox d)
              then d
              else d\<lparr>sd_outbox := sd_outbox d @ [\<lparr>ob_ID = fold max (map ob_ID (sd_outbox d)) 0 + 1, ob_EventType = eventType,
                ob_AccountID = accountID, ob_GroupID = groupID, ob_Payload = payload, ob_CreatedAt = now\<rparr>]\<rparr>) }"

definition syncSchedulerAccountSnapshot :: "scheduler_cache option \<Rightarrow> int \<Rightarrow> unit sp" where
  "syncSchedulerAccountSnapshot c accountID = (case c of
       None \<Rightarrow> ret ()
     | Some sc \<Rightarrow> if accountID \<le> 0 then ret () else do {
         r \<leftarrow> accGetByID accountID;
         case r of Inl _ \<Rightarrow> ret () | Inr a \<Rightarrow> do { SetAccount sc a; ret () } })"

text \<open>The text of the error is not kept.\<close>

definition SetError :: "scheduler_cache option \<Rightarrow> int \<Rightarrow> unit se" where
  "SetError c i =
     bindE (cmd (\<lambda>d. d\<lparr>sd_rows := tupd (\<lambda>a. sa_ID a = i) (\<lambda>a. a\<lparr>sa_Status := StatusError\<rparr>) (sd_rows d)\<rparr>)) id (\<lambda>_. do {
       enqueueSchedulerEvent AccountChangedEvent (Some i) None None;
       syncSchedulerAccountSnapshot c i;
       ret (Inr ()) })"

end
