(* ===== verification/Sched_Snapshot.thy ===== *)
theory Sched_Snapshot
  imports Sched_Cache
begin

text \<open>
  The snapshots the scheduler reads (\<open>service/scheduler_snapshot_service.go\<close>): for a group, a platform and a mode the list of accounts that
  may be used, kept in Redis and rebuilt from the database when events in the outbox say that accounts or groups have changed.

  Contexts with a deadline, tickers and log lines are left out: a statement whose context is done fails, as any statement may.
  \<open>ss_range\<close> is the order in which Go ranges over a set of groups.
\<close>

section \<open>Data\<close>

record snapshot_config =
  sf_DbFallbackEnabled :: bool
  sf_OutboxLagRebuildSeconds :: int
  sf_OutboxLagRebuildFailures :: int
  sf_OutboxBacklogRebuildRows :: int

record snapshot_service =
  ss_cache :: "scheduler_cache option"
  ss_outboxRepo :: bool
  ss_accountRepo :: bool
  ss_groupRepo :: bool
  ss_simple :: bool
  ss_cfg :: "snapshot_config option"
  ss_maxQPS :: int
  ss_range :: "int list \<Rightarrow> int list"

definition ErrSchedulerCacheNotReady :: go_err where
  "ErrSchedulerCacheNotReady = ErrorNew ''scheduler cache not ready''"

definition ErrSchedulerFallbackLimited :: go_err where
  "ErrSchedulerFallbackLimited = ErrorNew ''scheduler db fallback limited''"

section \<open>Reads\<close>

definition mixesPlatforms :: "string \<Rightarrow> bool \<Rightarrow> bool" where
  "mixesPlatforms platform hasForcePlatform \<longleftrightarrow> (platform = PlatformAnthropic \<or> platform = PlatformGemini) \<and> \<not> hasForcePlatform"

definition normalizeGroupID :: "snapshot_service \<Rightarrow> int option \<Rightarrow> int" where
  "normalizeGroupID s groupID =
     (if ss_simple s then 0 else case groupID of None \<Rightarrow> 0 | Some g \<Rightarrow> if g \<le> 0 then 0 else g)"

definition normalizeGroupIDs :: "snapshot_service \<Rightarrow> int list \<Rightarrow> int list" where
  "normalizeGroupIDs s groupIDs =
     (let out = rev (foldl (\<lambda>out i. if i \<le> 0 \<or> i \<in> set out then out else i # out) [] groupIDs)
      in if ss_simple s then [0] else if groupIDs = [] then [0] else if out = [] then [0] else out)"

definition resolveMode :: "string \<Rightarrow> bool \<Rightarrow> string" where
  "resolveMode platform hasForcePlatform =
     (if hasForcePlatform then SchedulerModeForced
      else if platform = PlatformAnthropic \<or> platform = PlatformGemini then SchedulerModeMixed
      else SchedulerModeSingle)"

definition bucketFor :: "snapshot_service \<Rightarrow> int option \<Rightarrow> string \<Rightarrow> string \<Rightarrow> scheduler_bucket" where
  "bucketFor s groupID platform mode = \<lparr>sb_GroupID = normalizeGroupID s groupID, sb_Platform = platform, sb_Mode = mode\<rparr>"

text \<open>The limiter of reads of the database, per second.\<close>

definition fallbackAllow :: "snapshot_service \<Rightarrow> bool sp" where
  "fallbackAllow s =
     (if ss_maxQPS s \<le> 0 then ret True
      else do {
        now \<leftarrow> timeNow;
        modify (\<lambda>d. if nsSecond \<le> timeSub now (sd_window d) then d\<lparr>sd_window := now, sd_count := 0\<rparr> else d);
        count \<leftarrow> peek sd_count;
        if ss_maxQPS s \<le> count then ret False
        else do { modify (\<lambda>d. d\<lparr>sd_count := sd_count d + 1\<rparr>); ret True } })"

definition guardFallback :: "snapshot_service \<Rightarrow> unit se" where
  "guardFallback s =
     (if case ss_cfg s of None \<Rightarrow> True | Some f \<Rightarrow> sf_DbFallbackEnabled f
      then do { ok \<leftarrow> fallbackAllow s; ret (if ok then Inr () else Inl ErrSchedulerFallbackLimited) }
      else ret (Inl ErrSchedulerCacheNotReady))"

definition usableMixed :: "sched_account \<Rightarrow> bool" where
  "usableMixed a \<longleftrightarrow> \<not> (sa_Platform a = PlatformAntigravity \<and> \<not> IsMixedSchedulingEnabled a)"

definition loadAccountsFromDB :: "snapshot_service \<Rightarrow> scheduler_bucket \<Rightarrow> bool \<Rightarrow> sched_account list se" where
  "loadAccountsFromDB s b useMixed =
     (let groupID = (if ss_simple s then 0 else sb_GroupID b);
          platforms = [sb_Platform b, PlatformAntigravity]
      in if \<not> ss_accountRepo s then ret (Inl ErrSchedulerCacheNotReady)
         else if useMixed
         then bindE (if 0 < groupID then ListSchedulableByGroupIDAndPlatforms groupID platforms
                     else if ss_simple s then ListSchedulableByPlatforms platforms
                     else ListSchedulableUngroupedByPlatforms platforms) id
                (\<lambda>accounts. ret (Inr (filter usableMixed accounts)))
         else if 0 < groupID then ListSchedulableByGroupIDAndPlatform groupID (sb_Platform b)
         else if ss_simple s then ListSchedulableByPlatform (sb_Platform b)
         else ListSchedulableUngroupedByPlatform (sb_Platform b))"

text \<open>The snapshot of a bucket, or what the database has.\<close>

definition readSnapshot :: "snapshot_service \<Rightarrow> scheduler_bucket \<Rightarrow> sched_account list option sp" where
  "readSnapshot s b = (case ss_cache s of
       None \<Rightarrow> ret None
     | Some c \<Rightarrow> do { r \<leftarrow> GetSnapshot c b; ret (case r of Inl _ \<Rightarrow> None | Inr cached \<Rightarrow> cached) })"

definition writeSnapshot :: "snapshot_service \<Rightarrow> scheduler_bucket \<Rightarrow> sched_account list \<Rightarrow> unit sp" where
  "writeSnapshot s b accounts = (case ss_cache s of
       None \<Rightarrow> ret ()
     | Some c \<Rightarrow> do { SetSnapshot c b accounts; ret () })"

definition snapshotListSchedulable :: "snapshot_service \<Rightarrow> int option \<Rightarrow> string \<Rightarrow> bool \<Rightarrow> (sched_account list \<times> bool) se" where
  "snapshotListSchedulable s groupID platform hasForcePlatform =
     (let useMixed = mixesPlatforms platform hasForcePlatform;
          b = bucketFor s groupID platform (resolveMode platform hasForcePlatform)
      in do {
        cached \<leftarrow> readSnapshot s b;
        case cached of
          Some accounts \<Rightarrow> ret (Inr (accounts, useMixed))
        | None \<Rightarrow>
            bindE (guardFallback s) id (\<lambda>_.
            bindE (loadAccountsFromDB s b useMixed) id (\<lambda>accounts. do {
              writeSnapshot s b accounts;
              ret (Inr (accounts, useMixed)) })) })"

definition nilRepo :: go_err where
  "nilRepo = GoPanic ''runtime error: invalid memory address or nil pointer dereference''"

definition snapshotGetAccount :: "snapshot_service \<Rightarrow> int \<Rightarrow> sched_account option se" where
  "snapshotGetAccount s accountID =
     (if accountID \<le> 0 then ret (Inr None)
      else do {
        cached \<leftarrow> (case ss_cache s of None \<Rightarrow> ret None
                   | Some _ \<Rightarrow> do { r \<leftarrow> cacheGetAccount accountID; ret (case r of Inl _ \<Rightarrow> None | Inr a \<Rightarrow> a) });
        case cached of
          Some a \<Rightarrow> ret (Inr (Some a))
        | None \<Rightarrow> bindE (guardFallback s) id (\<lambda>_.
            if \<not> ss_accountRepo s then ret (Inl nilRepo)
            else bindE (accGetByID accountID) id (\<lambda>a. ret (Inr (Some a)))) })"

definition UpdateAccountInCache :: "snapshot_service \<Rightarrow> sched_account option \<Rightarrow> unit se" where
  "UpdateAccountInCache s a = (case (ss_cache s, a) of
       (Some c, Some account) \<Rightarrow> SetAccount c account
     | _ \<Rightarrow> ret (Inr ()))"

section \<open>Rebuilding\<close>

definition bucketLockSeconds :: int where "bucketLockSeconds = 30"

definition rebuildBucket :: "snapshot_service \<Rightarrow> scheduler_bucket \<Rightarrow> unit se" where
  "rebuildBucket s b = (case ss_cache s of
       None \<Rightarrow> ret (Inl ErrSchedulerCacheNotReady)
     | Some c \<Rightarrow>
         bindE (TryLockBucket b bucketLockSeconds) id (\<lambda>ok.
           if \<not> ok then ret (Inr ())
           else bindE (loadAccountsFromDB s b (sb_Mode b = SchedulerModeMixed)) id (\<lambda>accounts. SetSnapshot c b accounts)))"

text \<open>Calls whose first error is kept.\<close>

abbreviation runAll :: "unit se list \<Rightarrow> unit se" where
  "runAll \<equiv> pipeline"

definition rebuildBuckets :: "snapshot_service \<Rightarrow> scheduler_bucket list \<Rightarrow> unit se" where
  "rebuildBuckets s bs = runAll (map (rebuildBucket s) bs)"

definition bucketsOf :: "int \<Rightarrow> string \<Rightarrow> scheduler_bucket list" where
  "bucketsOf groupID platform =
     [\<lparr>sb_GroupID = groupID, sb_Platform = platform, sb_Mode = SchedulerModeSingle\<rparr>,
      \<lparr>sb_GroupID = groupID, sb_Platform = platform, sb_Mode = SchedulerModeForced\<rparr>] @
     (if platform = PlatformAnthropic \<or> platform = PlatformGemini
      then [\<lparr>sb_GroupID = groupID, sb_Platform = platform, sb_Mode = SchedulerModeMixed\<rparr>] else [])"

definition rebuildBucketsForPlatform :: "snapshot_service \<Rightarrow> string \<Rightarrow> int list \<Rightarrow> unit se" where
  "rebuildBucketsForPlatform s platform groupIDs =
     (if platform = [] then ret (Inr ())
      else runAll (map (rebuildBucket s) (concat (map (\<lambda>gid. bucketsOf gid platform) groupIDs))))"

definition rebuildByAccount :: "snapshot_service \<Rightarrow> sched_account \<Rightarrow> int list \<Rightarrow> unit se" where
  "rebuildByAccount s a groupIDs =
     (let ids = normalizeGroupIDs s groupIDs
      in if ids = [] then ret (Inr ())
         else runAll ([rebuildBucketsForPlatform s (sa_Platform a) ids] @
           (if sa_Platform a = PlatformAntigravity \<and> IsMixedSchedulingEnabled a
            then [rebuildBucketsForPlatform s PlatformAnthropic ids, rebuildBucketsForPlatform s PlatformGemini ids] else [])))"

definition schedulerPlatforms :: "string list" where
  "schedulerPlatforms = [PlatformAnthropic, PlatformGemini, PlatformOpenAI, PlatformAntigravity]"

definition rebuildByGroupIDs :: "snapshot_service \<Rightarrow> int list \<Rightarrow> unit se" where
  "rebuildByGroupIDs s groupIDs =
     (let ids = normalizeGroupIDs s groupIDs
      in if ids = [] then ret (Inr ())
         else runAll (map (\<lambda>platform. rebuildBucketsForPlatform s platform ids) schedulerPlatforms))"

definition dedupeBuckets :: "scheduler_bucket list \<Rightarrow> scheduler_bucket list" where
  "dedupeBuckets bs = rev (foldl (\<lambda>out b. if bucketString b \<in> bucketString ` set out then out else b # out) [] bs)"

definition defaultBuckets :: "snapshot_service \<Rightarrow> scheduler_bucket list sp" where
  "defaultBuckets s =
     (let common = concat (map (bucketsOf 0) schedulerPlatforms)
      in if ss_simple s \<or> \<not> ss_groupRepo s then ret (dedupeBuckets common)
         else do {
           r \<leftarrow> groupListActive;
           case r of
             Inl _ \<Rightarrow> ret (dedupeBuckets common)
           | Inr gs \<Rightarrow> ret (dedupeBuckets (common @
               concat (map (\<lambda>g. if gx_Platform g = [] then [] else bucketsOf (gx_ID g) (gx_Platform g)) gs))) })"

definition knownBuckets :: "snapshot_service \<Rightarrow> scheduler_bucket list sp" where
  "knownBuckets s = do {
     r \<leftarrow> ListBuckets;
     case r of
       Inr (b # bs) \<Rightarrow> ret (b # bs)
     | _ \<Rightarrow> defaultBuckets s }"

definition triggerFullRebuild :: "snapshot_service \<Rightarrow> unit se" where
  "triggerFullRebuild s =
     (if ss_cache s = None then ret (Inl ErrSchedulerCacheNotReady)
      else do { bs \<leftarrow> knownBuckets s; rebuildBuckets s bs })"

definition runInitialRebuild :: "snapshot_service \<Rightarrow> unit sp" where
  "runInitialRebuild s =
     (if ss_cache s = None then ret ()
      else do { bs \<leftarrow> knownBuckets s; rebuildBuckets s bs; ret () })"

section \<open>Events\<close>

definition parseInt64Slice :: "int option list option \<Rightarrow> int list" where
  "parseInt64Slice value = (case value of
       None \<Rightarrow> []
     | Some raw \<Rightarrow> filter (\<lambda>v. 0 < v) (List.map_filter id raw))"

definition handleLastUsedEvent :: "snapshot_service \<Rightarrow> outbox_payload option \<Rightarrow> unit se" where
  "handleLastUsedEvent s payload = (case (ss_cache s, payload) of
       (Some c, Some p) \<Rightarrow> (case pl_LastUsed p of
           None \<Rightarrow> ret (Inr ())
         | Some raw \<Rightarrow>
             (let updates = foldl (\<lambda>out (key, value). case (parseInt64 key, value) of
                    (Some i, Some sec) \<Rightarrow> if i \<le> 0 \<or> sec \<le> 0 then out else filter (\<lambda>(j, _). j \<noteq> i) out @ [(i, sec * nsSecond)]
                  | _ \<Rightarrow> out) [] raw
              in if updates = [] then ret (Inr ()) else UpdateLastUsed c updates))
     | _ \<Rightarrow> ret (Inr ()))"

text \<open>Accounts one after the other, until the first error.\<close>

fun setAccounts :: "scheduler_cache option \<Rightarrow> sched_account list \<Rightarrow> unit se" where
  "setAccounts c [] = ret (Inr ())"
| "setAccounts c (a # as) =
     (if sa_ID a \<le> 0 then setAccounts c as
      else bindE (case c of None \<Rightarrow> ret (Inr ()) | Some sc \<Rightarrow> SetAccount sc a) id (\<lambda>_. setAccounts c as))"

fun deleteAccounts :: "int list \<Rightarrow> unit se" where
  "deleteAccounts [] = ret (Inr ())"
| "deleteAccounts (i # is) = bindE (DeleteAccount i) id (\<lambda>_. deleteAccounts is)"

definition handleBulkAccountEvent :: "snapshot_service \<Rightarrow> outbox_payload option \<Rightarrow> unit se" where
  "handleBulkAccountEvent s payload = (case payload of
       None \<Rightarrow> ret (Inr ())
     | Some p \<Rightarrow>
         (let ids = remdups (parseInt64Slice (pl_AccountIDs p)); preload = parseInt64Slice (pl_GroupIDs p)
          in if \<not> ss_accountRepo s \<or> ids = [] then ret (Inr ())
             else bindE (accGetByIDs ids) id (\<lambda>accounts.
                  let found = filter (\<lambda>a. 0 < sa_ID a) accounts;
                      groupSet = filter (\<lambda>g. 0 < g) (preload @ concat (map sa_AccountGroups found))
                  in bindE (setAccounts (ss_cache s) found) id (\<lambda>_.
                     bindE (if ss_cache s = None then ret (Inr ()) else deleteAccounts (filter (\<lambda>i. i \<notin> sa_ID ` set found) ids)) id (\<lambda>_.
                     rebuildByGroupIDs s (ss_range s (remdups groupSet)))))))"

definition groupIDsOf :: "outbox_payload option \<Rightarrow> int list" where
  "groupIDsOf payload = (case payload of None \<Rightarrow> [] | Some p \<Rightarrow> parseInt64Slice (pl_GroupIDs p))"

definition handleAccountEvent :: "snapshot_service \<Rightarrow> int option \<Rightarrow> outbox_payload option \<Rightarrow> unit se" where
  "handleAccountEvent s accountID payload = (case accountID of
       None \<Rightarrow> ret (Inr ())
     | Some i \<Rightarrow>
         if i \<le> 0 \<or> \<not> ss_accountRepo s then ret (Inr ())
         else do {
           r \<leftarrow> accGetByID i;
           case r of
             Inl e \<Rightarrow>
               if errIs e ErrAccountNotFound
               then bindE (if ss_cache s = None then ret (Inr ()) else DeleteAccount i) id (\<lambda>_. rebuildByGroupIDs s (groupIDsOf payload))
               else ret (Inl e)
           | Inr a \<Rightarrow>
               bindE (case ss_cache s of None \<Rightarrow> ret (Inr ()) | Some c \<Rightarrow> SetAccount c a) id (\<lambda>_.
                 rebuildByAccount s a (if groupIDsOf payload = [] then sa_AccountGroups a else groupIDsOf payload)) })"

definition handleGroupEvent :: "snapshot_service \<Rightarrow> int option \<Rightarrow> unit se" where
  "handleGroupEvent s groupID = (case groupID of
       None \<Rightarrow> ret (Inr ())
     | Some g \<Rightarrow> if g \<le> 0 then ret (Inr ()) else rebuildByGroupIDs s [g])"

definition handleOutboxEvent :: "snapshot_service \<Rightarrow> outbox_event \<Rightarrow> unit se" where
  "handleOutboxEvent s e =
     (if ob_EventType e = AccountLastUsedEvent then handleLastUsedEvent s (ob_Payload e)
      else if ob_EventType e = AccountBulkChangedEvent then handleBulkAccountEvent s (ob_Payload e)
      else if ob_EventType e = AccountGroupsChangedEvent then handleAccountEvent s (ob_AccountID e) (ob_Payload e)
      else if ob_EventType e = AccountChangedEvent then handleAccountEvent s (ob_AccountID e) (ob_Payload e)
      else if ob_EventType e = GroupChangedEvent then handleGroupEvent s (ob_GroupID e)
      else if ob_EventType e = FullRebuildEvent then triggerFullRebuild s
      else ret (Inr ()))"

fun handleEvents :: "snapshot_service \<Rightarrow> outbox_event list \<Rightarrow> unit se" where
  "handleEvents s [] = ret (Inr ())"
| "handleEvents s (e # es) = bindE (handleOutboxEvent s e) id (\<lambda>_. handleEvents s es)"

section \<open>Polling\<close>

definition checkOutboxLag :: "snapshot_service \<Rightarrow> outbox_event \<Rightarrow> int \<Rightarrow> unit sp" where
  "checkOutboxLag s oldest watermark = (if ob_CreatedAt oldest = zeroTime then ret () else case ss_cfg s of
       None \<Rightarrow> ret ()
     | Some f \<Rightarrow> do {
         now \<leftarrow> timeNow;
         let lag = ftrunc (durSeconds (timeSub now (ob_CreatedAt oldest)));
         (if 0 < sf_OutboxLagRebuildSeconds f \<and> sf_OutboxLagRebuildSeconds f \<le> lag
         then do {
           modify (\<lambda>d. d\<lparr>sd_lagFailures := sd_lagFailures d + 1\<rparr>);
           failures \<leftarrow> peek sd_lagFailures;
           if sf_OutboxLagRebuildFailures f \<le> failures
           then do { modify (\<lambda>d. d\<lparr>sd_lagFailures := 0\<rparr>); triggerFullRebuild s; ret () }
           else ret () }
         else modify (\<lambda>d. d\<lparr>sd_lagFailures := 0\<rparr>));
         if sf_OutboxBacklogRebuildRows f \<le> 0 \<or> \<not> ss_outboxRepo s then ret ()
         else do {
           r \<leftarrow> MaxID;
           case r of
             Inl _ \<Rightarrow> ret ()
           | Inr maxID \<Rightarrow> if sf_OutboxBacklogRebuildRows f \<le> maxID - watermark then do { triggerFullRebuild s; ret () } else ret () } })"

definition pollOutbox :: "snapshot_service \<Rightarrow> unit sp" where
  "pollOutbox s =
     (if \<not> ss_outboxRepo s \<or> ss_cache s = None then ret ()
      else do {
        r \<leftarrow> GetOutboxWatermark;
        case r of
          Inl _ \<Rightarrow> ret ()
        | Inr watermark \<Rightarrow> do {
            l \<leftarrow> ListAfter watermark 200;
            case l of
              Inl _ \<Rightarrow> ret ()
            | Inr [] \<Rightarrow> ret ()
            | Inr (e # es) \<Rightarrow> do {
                h \<leftarrow> handleEvents s (e # es);
                case h of
                  Inl _ \<Rightarrow> ret ()
                | Inr _ \<Rightarrow> do {
                    m \<leftarrow> SetOutboxWatermark (ob_ID (last (e # es)));
                    checkOutboxLag s e (case m of Inl _ \<Rightarrow> watermark | Inr _ \<Rightarrow> ob_ID (last (e # es))) } } } })"

end
