(* ===== verification/Scheduler.thy ===== *)
theory Scheduler
  imports Sched_Snapshot Channel
begin

text \<open>
  The choice of an upstream account for a request (\<open>service/gateway_service.go\<close>): the accounts that may serve it, the account its session sticks
  to, the routes of its group, and among the rest the one of the least priority number, the least load and the longest rest. It takes a slot
  of the account, or a place in its queue.

  \<open>select_ctx\<close> has the values of the request's context that the scheduler reads. \<open>gv_channels\<close> is the snapshot of the channels
  (\<open>Channel\<close>) that their look-ups find, \<open>None\<close> if there is no channel service or it could not be loaded. The service has the usage log,
  the cache of sticky sessions and the repositories of accounts and groups, as it is wired. \<open>gv_routes\<close> and \<open>gv_starts\<close> are the orders in
  which Go ranges over the routes of a group and over starts of windows; \<open>sd_dice\<close> has the numbers of the random source.
  Log lines and counters are left out.
\<close>

section \<open>Data\<close>

record select_ctx =
  cx_ForcePlatform :: "string option"
  cx_Group :: "sched_group option"
  cx_Thinking :: "bool option"
  cx_ClaudeCode :: bool
  cx_StickyGroupID :: "int option"
  cx_StickyAccountID :: "int option"
  cx_WindowCosts :: "int \<Rightarrow> f64 option"
  cx_RPM :: "int \<Rightarrow> int option"

record scheduling_config =
  cf_StickySessionMaxWaiting :: int
  cf_StickySessionWaitTimeout :: duration
  cf_FallbackWaitTimeout :: duration
  cf_FallbackMaxWaiting :: int
  cf_FallbackSelectionMode :: string
  cf_LoadBatchEnabled :: bool

record gateway_service =
  gv_cfg :: "scheduling_config option"
  gv_simple :: bool
  gv_concurrency :: "sched_db concurrency_service option"
  gv_sessionLimit :: "session_limit_cache option"
  gv_rpm :: bool
  gv_snapshot :: "snapshot_service option"
  gv_schedulerCache :: "scheduler_cache option"
  gv_channels :: "channel_cache option"
  gv_zone :: int
  gv_tz :: tzdb
  gv_starts :: "int list \<Rightarrow> int list"
  gv_routes :: "(string \<times> int list) list \<Rightarrow> (string \<times> int list) list"

record account_wait_plan =
  wp_AccountID :: int
  wp_MaxConcurrency :: int
  wp_Timeout :: duration
  wp_MaxWaiting :: int

record selection_result =
  se_Account :: sched_account
  se_Acquired :: bool
  se_ReleaseFunc :: "release_func option"
  se_WaitPlan :: "account_wait_plan option"

record account_with_load =
  al_account :: sched_account
  al_loadInfo :: load_info

definition ErrNoAvailableAccounts :: go_err where
  "ErrNoAvailableAccounts = ErrorNew ''no available accounts''"

definition ErrClaudeCodeOnly :: go_err where
  "ErrClaudeCodeOnly = ErrorNew ''this group only allows Claude Code clients''"

definition noAccountsFor :: "string \<Rightarrow> string \<Rightarrow> go_err" where
  "noAccountsFor model why = ErrorfBefore ErrNoAvailableAccounts ('' supporting model: '' @ model @ '' ('' @ why @ '')'')"

definition stickySessionTTL :: int where "stickySessionTTL = 3600"

definition schedulingConfig :: "gateway_service \<Rightarrow> scheduling_config" where
  "schedulingConfig sv = (case gv_cfg sv of
       Some c \<Rightarrow> c
     | None \<Rightarrow> \<lparr>cf_StickySessionMaxWaiting = 3, cf_StickySessionWaitTimeout = 45 * nsSecond, cf_FallbackWaitTimeout = 30 * nsSecond,
         cf_FallbackMaxWaiting = 100, cf_FallbackSelectionMode = [], cf_LoadBatchEnabled = True\<rparr>)"

definition derefGroupID :: "int option \<Rightarrow> int" where
  "derefGroupID groupID = (case groupID of None \<Rightarrow> 0 | Some g \<Rightarrow> g)"

section \<open>Groups\<close>

definition IsGroupContextValid :: "sched_group \<Rightarrow> bool" where
  "IsGroupContextValid g \<longleftrightarrow> 0 < gx_ID g \<and> gx_Hydrated g \<and> gx_Platform g \<noteq> [] \<and> gx_Status g \<noteq> []"

definition groupFromContext :: "select_ctx \<Rightarrow> int \<Rightarrow> sched_group option" where
  "groupFromContext cx groupID = (case cx_Group cx of
       Some g \<Rightarrow> if IsGroupContextValid g \<and> gx_ID g = groupID then Some g else None
     | None \<Rightarrow> None)"

definition withGroupContext :: "select_ctx \<Rightarrow> sched_group option \<Rightarrow> select_ctx" where
  "withGroupContext cx g = (case g of
       None \<Rightarrow> cx
     | Some grp \<Rightarrow>
         if \<not> IsGroupContextValid grp then cx
         else if (case cx_Group cx of Some old \<Rightarrow> gx_ID old = gx_ID grp \<and> IsGroupContextValid old | None \<Rightarrow> False) then cx
         else cx\<lparr>cx_Group := Some grp\<rparr>)"

definition resolveGroupByID :: "select_ctx \<Rightarrow> int \<Rightarrow> sched_group se" where
  "resolveGroupByID cx groupID = (case groupFromContext cx groupID of
       Some g \<Rightarrow> ret (Inr g)
     | None \<Rightarrow> bindE (groupGetByIDLite groupID) (Errorf ''get group failed'') (\<lambda>g. ret (Inr g)))"

text \<open>The groups that have been seen are kept, and an identifier is 64 bits wide, so the walk along fallback groups ends.\<close>

definition int64s :: "int set" where
  "int64s = {- (2 ^ 63) ..< 2 ^ 63}"

lemma visit_decreases: "i \<in> int64s \<Longrightarrow> i \<notin> V \<Longrightarrow> card (int64s - insert i V) < card (int64s - V)"
proof (rule psubset_card_mono)
  show "finite (int64s - V)" unfolding int64s_def by (intro finite_Diff finite_atLeastLessThan_int)
qed blast

function walkGroups :: "select_ctx \<Rightarrow> int set \<Rightarrow> int \<Rightarrow> (sched_group \<times> int) se" where
  "walkGroups cx visited currentID =
     (if currentID \<in> visited then ret (Inl (ErrorNew ''fallback group cycle detected''))
      else if currentID \<notin> int64s then ret (Inl ErrGroupNotFound)
      else bindE (resolveGroupByID cx currentID) id (\<lambda>grp.
        if \<not> gx_ClaudeCodeOnly grp \<or> cx_ClaudeCode cx then ret (Inr (grp, currentID))
        else case gx_FallbackGroupID grp of
               None \<Rightarrow> ret (Inl ErrClaudeCodeOnly)
             | Some next \<Rightarrow> walkGroups cx (insert currentID visited) next))"
  by pat_completeness auto
termination
  by (relation "measure (\<lambda>(_, visited, _). card (int64s - visited))") (simp, simp only: in_measure prod.case, rule visit_decreases, auto)

declare walkGroups.simps [simp del]

definition resolveGatewayGroup :: "select_ctx \<Rightarrow> int option \<Rightarrow> (sched_group option \<times> int option) se" where
  "resolveGatewayGroup cx groupID = (case groupID of
       None \<Rightarrow> ret (Inr (None, None))
     | Some i \<Rightarrow> bindE (walkGroups cx {} i) id (\<lambda>(g, resolved). ret (Inr (Some g, Some resolved))))"

definition forcedPlatform :: "select_ctx \<Rightarrow> string option" where
  "forcedPlatform cx = (case cx_ForcePlatform cx of Some p \<Rightarrow> if p \<noteq> [] then Some p else None | None \<Rightarrow> None)"

definition checkClaudeCodeRestriction :: "select_ctx \<Rightarrow> int option \<Rightarrow> (sched_group option \<times> int option) se" where
  "checkClaudeCodeRestriction cx groupID =
     (if groupID = None then ret (Inr (None, groupID))
      else if forcedPlatform cx \<noteq> None then ret (Inr (None, groupID))
      else resolveGatewayGroup cx groupID)"

definition resolvePlatform :: "select_ctx \<Rightarrow> int option \<Rightarrow> sched_group option \<Rightarrow> (string \<times> bool) se" where
  "resolvePlatform cx groupID grp = (case forcedPlatform cx of
       Some p \<Rightarrow> ret (Inr (p, True))
     | None \<Rightarrow> (case grp of
         Some g \<Rightarrow> ret (Inr (gx_Platform g, False))
       | None \<Rightarrow> (case groupID of
           Some i \<Rightarrow> bindE (resolveGroupByID cx i) id (\<lambda>g. ret (Inr (gx_Platform g, False)))
         | None \<Rightarrow> ret (Inr (PlatformAnthropic, False)))))"

definition matchModelPattern :: "string \<Rightarrow> string \<Rightarrow> bool" where
  "matchModelPattern pattern model =
     (if pattern = model then True
      else if hasSuffix pattern ''*'' then hasPrefix model (take (length pattern - 1) pattern)
      else False)"

definition GetRoutingAccountIDs :: "gateway_service \<Rightarrow> sched_group \<Rightarrow> string \<Rightarrow> int list" where
  "GetRoutingAccountIDs sv g requestedModel =
     (if \<not> gx_ModelRoutingEnabled g \<or> gx_ModelRouting g = [] \<or> requestedModel = [] then []
      else case map_of (gx_ModelRouting g) requestedModel of
             Some (i # is) \<Rightarrow> i # is
           | _ \<Rightarrow> (case List.find (\<lambda>(pattern, ids). matchModelPattern pattern requestedModel \<and> ids \<noteq> []) (gv_routes sv (gx_ModelRouting g)) of
                 Some (_, ids) \<Rightarrow> ids
               | None \<Rightarrow> []))"

definition routingAccountIDsForRequest :: "gateway_service \<Rightarrow> select_ctx \<Rightarrow> int option \<Rightarrow> string \<Rightarrow> string \<Rightarrow> int list sp" where
  "routingAccountIDsForRequest sv cx groupID requestedModel platform = (case groupID of
       None \<Rightarrow> ret []
     | Some i \<Rightarrow>
         if requestedModel = [] \<or> platform \<noteq> PlatformAnthropic then ret []
         else do {
           r \<leftarrow> resolveGroupByID cx i;
           ret (case r of
               Inl _ \<Rightarrow> []
             | Inr g \<Rightarrow> if gx_Platform g \<noteq> PlatformAnthropic then [] else GetRoutingAccountIDs sv g requestedModel) })"

section \<open>Channels\<close>

definition channelOf :: "gateway_service \<Rightarrow> int \<Rightarrow> channel_lookup option" where
  "channelOf sv groupID = (case gv_channels sv of
       None \<Rightarrow> None
     | Some cc \<Rightarrow> (case cc_channelByGroupID cc groupID of
         None \<Rightarrow> None
       | Some c \<Rightarrow> if chanIsActive c then Some \<lparr>lk_cache = cc, lk_channel = c, lk_platform = platformOf (cc_groupPlatform cc) groupID\<rparr> else None))"

definition restrictedModel :: "gateway_service \<Rightarrow> int \<Rightarrow> string \<Rightarrow> bool" where
  "restrictedModel sv groupID model = (case channelOf sv groupID of None \<Rightarrow> False | Some lk \<Rightarrow> checkRestricted lk groupID model)"

definition billingModelForRestriction :: "string \<Rightarrow> string \<Rightarrow> string \<Rightarrow> string" where
  "billingModelForRestriction source requestedModel channelMappedModel =
     (if source = BillingModelSourceRequested then requestedModel
      else if source = BillingModelSourceUpstream then []
      else channelMappedModel)"

definition checkChannelPricingRestriction :: "gateway_service \<Rightarrow> int option \<Rightarrow> string \<Rightarrow> bool" where
  "checkChannelPricingRestriction sv groupID requestedModel = (case groupID of
       None \<Rightarrow> False
     | Some i \<Rightarrow>
         if requestedModel = [] then False
         else (let mapping = (case channelOf sv i of None \<Rightarrow> unmapped requestedModel | Some lk \<Rightarrow> resolveMapping lk i requestedModel);
                   billingModel = billingModelForRestriction (mr_BillingModelSource mapping) requestedModel (mr_MappedModel mapping)
               in if billingModel = [] then False else restrictedModel sv i billingModel))"

definition isUpstreamModelRestrictedByChannel :: "gateway_service \<Rightarrow> int \<Rightarrow> sched_account \<Rightarrow> string \<Rightarrow> bool" where
  "isUpstreamModelRestrictedByChannel sv groupID a requestedModel =
     (let upstreamModel = resolveAccountUpstreamModel a requestedModel
      in if upstreamModel = [] then False else restrictedModel sv groupID upstreamModel)"

definition needsUpstreamChannelRestrictionCheck :: "gateway_service \<Rightarrow> int option \<Rightarrow> bool" where
  "needsUpstreamChannelRestrictionCheck sv groupID = (case groupID of
       None \<Rightarrow> False
     | Some i \<Rightarrow> (case channelOf sv i of
         None \<Rightarrow> False
       | Some lk \<Rightarrow> ch_RestrictModels (lk_channel lk) \<and> ch_BillingModelSource (lk_channel lk) = BillingModelSourceUpstream))"

definition isStickyAccountUpstreamRestricted :: "gateway_service \<Rightarrow> int option \<Rightarrow> sched_account \<Rightarrow> string \<Rightarrow> bool" where
  "isStickyAccountUpstreamRestricted sv groupID a requestedModel = (case groupID of
       None \<Rightarrow> False
     | Some i \<Rightarrow> needsUpstreamChannelRestrictionCheck sv groupID \<and> isUpstreamModelRestrictedByChannel sv i a requestedModel)"

section \<open>Checks\<close>

text \<open>Checks one after the other, until the first that fails; and the elements of a list that pass.\<close>

fun allOf :: "bool sp list \<Rightarrow> bool sp" where
  "allOf [] = ret True"
| "allOf (c # cs) = do { ok \<leftarrow> c; if ok then allOf cs else ret False }"

fun filterProg :: "('a \<Rightarrow> bool sp) \<Rightarrow> 'a list \<Rightarrow> 'a list sp" where
  "filterProg c [] = ret []"
| "filterProg c (x # xs) = do { ok \<leftarrow> c x; rest \<leftarrow> filterProg c xs; ret (if ok then x # rest else rest) }"

definition isAccountAllowedForPlatform :: "sched_account \<Rightarrow> string \<Rightarrow> bool \<Rightarrow> bool" where
  "isAccountAllowedForPlatform a platform useMixed =
     (if useMixed then sa_Platform a = platform \<or> sa_Platform a = PlatformAntigravity \<and> IsMixedSchedulingEnabled a
      else sa_Platform a = platform)"

definition isAccountInGroup :: "sched_account \<Rightarrow> int option \<Rightarrow> bool" where
  "isAccountInGroup a groupID = (case groupID of None \<Rightarrow> sa_AccountGroups a = [] | Some g \<Rightarrow> g \<in> set (sa_AccountGroups a))"

definition isAccountSchedulableForSelection :: "sched_account \<Rightarrow> bool sp" where
  "isAccountSchedulableForSelection a = do { now \<leftarrow> timeNow; ret (IsSchedulable now a) }"

definition isAccountSchedulableForModelSelection :: "select_ctx \<Rightarrow> sched_account \<Rightarrow> string \<Rightarrow> bool sp" where
  "isAccountSchedulableForModelSelection cx a requestedModel = do {
     now1 \<leftarrow> timeNow; now2 \<leftarrow> timeNow; now3 \<leftarrow> timeNow;
     ret (IsSchedulableForModelWithContext (cx_Thinking cx) now1 now2 now3 a requestedModel) }"

definition isAccountSchedulableForQuota :: "gateway_service \<Rightarrow> sched_account \<Rightarrow> bool sp" where
  "isAccountSchedulableForQuota sv a =
     (if \<not> IsAPIKeyOrBedrock (sa_gw a) then ret True
      else do { now1 \<leftarrow> timeNow; now2 \<leftarrow> timeNow; ret (\<not> IsQuotaExceeded (gv_tz sv) (ga_Quota (sa_gw a)) now1 now2) })"

definition accountWindowStart :: "gateway_service \<Rightarrow> sched_account \<Rightarrow> instant sp" where
  "accountWindowStart sv a = do { now \<leftarrow> timeNow; ret (GetCurrentWindowStartTime (gv_zone sv) now a) }"

text \<open>\<open>GetAccountWindowStats\<close> of the usage log, of which the standard cost is read.\<close>

definition windowStats :: "int \<Rightarrow> instant \<Rightarrow> f64 se" where
  "windowStats accountID startTime = query (\<lambda>d. sd_standardCost d accountID startTime)"

definition windowCostFromPrefetchContext :: "select_ctx \<Rightarrow> int \<Rightarrow> f64 option" where
  "windowCostFromPrefetchContext cx accountID = (if accountID \<le> 0 then None else cx_WindowCosts cx accountID)"

definition knownWindowCost :: "gateway_service \<Rightarrow> select_ctx \<Rightarrow> int \<Rightarrow> f64 option sp" where
  "knownWindowCost sv cx accountID = (case windowCostFromPrefetchContext cx accountID of
       Some cost \<Rightarrow> ret (Some cost)
     | None \<Rightarrow> if gv_sessionLimit sv = None then ret None
         else do { r \<leftarrow> GetWindowCost accountID; ret (case r of Inl _ \<Rightarrow> None | Inr hit \<Rightarrow> hit) })"

definition isAccountSchedulableForWindowCost :: "gateway_service \<Rightarrow> select_ctx \<Rightarrow> sched_account \<Rightarrow> bool \<Rightarrow> bool sp" where
  "isAccountSchedulableForWindowCost sv cx a isSticky =
     (if \<not> IsAnthropicOAuthOrSetupToken (sa_gw a) then ret True
      else if fle (GetWindowCostLimit a) fzero then ret True
      else do {
        known \<leftarrow> knownWindowCost sv cx (sa_ID a);
        case known of
          Some cost \<Rightarrow> ret (stickyVerdict (CheckWindowCostSchedulability a cost) isSticky)
        | None \<Rightarrow> do {
            startTime \<leftarrow> accountWindowStart sv a;
            r \<leftarrow> windowStats (sa_ID a) startTime;
            case r of
              Inl _ \<Rightarrow> ret True
            | Inr cost \<Rightarrow> do {
                (if gv_sessionLimit sv = None then ret (Inr ()) else SetWindowCost (sa_ID a) cost);
                ret (stickyVerdict (CheckWindowCostSchedulability a cost) isSticky) } } })"

text \<open>An error counts as no requests.\<close>

definition currentRPM :: "gateway_service \<Rightarrow> select_ctx \<Rightarrow> int \<Rightarrow> int sp" where
  "currentRPM sv cx accountID = (case cx_RPM cx accountID of
       Some n \<Rightarrow> ret n
     | None \<Rightarrow> if gv_rpm sv then do { r \<leftarrow> GetRPM accountID; ret (case r of Inl _ \<Rightarrow> 0 | Inr n \<Rightarrow> n) } else ret 0)"

definition isAccountSchedulableForRPM :: "gateway_service \<Rightarrow> select_ctx \<Rightarrow> sched_account \<Rightarrow> bool \<Rightarrow> bool sp" where
  "isAccountSchedulableForRPM sv cx a isSticky =
     (if \<not> IsAnthropicOAuthOrSetupToken (sa_gw a) then ret True
      else if GetBaseRPM a \<le> 0 then ret True
      else do { n \<leftarrow> currentRPM sv cx (sa_ID a); ret (stickyVerdict (CheckRPMSchedulability a n) isSticky) })"

definition IncrementAccountRPM :: "gateway_service \<Rightarrow> int \<Rightarrow> unit se" where
  "IncrementAccountRPM sv accountID =
     (if \<not> gv_rpm sv then ret (Inr ()) else bindE (IncrementRPM accountID) id (\<lambda>_. ret (Inr ())))"

text \<open>The checks that every way of choosing makes last.\<close>

definition limitChecks :: "gateway_service \<Rightarrow> select_ctx \<Rightarrow> string \<Rightarrow> bool \<Rightarrow> sched_account \<Rightarrow> bool sp list" where
  "limitChecks sv cx requestedModel isSticky a =
     [isAccountSchedulableForModelSelection cx a requestedModel,
      isAccountSchedulableForQuota sv a,
      isAccountSchedulableForWindowCost sv cx a isSticky,
      isAccountSchedulableForRPM sv cx a isSticky]"

definition modelSupported :: "select_ctx \<Rightarrow> string \<Rightarrow> sched_account \<Rightarrow> bool" where
  "modelSupported cx requestedModel a \<longleftrightarrow> requestedModel = [] \<or> isModelSupportedByAccountWithContext (cx_Thinking cx) a requestedModel"

definition checkAndRegisterSession :: "gateway_service \<Rightarrow> sched_account \<Rightarrow> string \<Rightarrow> bool sp" where
  "checkAndRegisterSession sv a sessionID =
     (if \<not> IsAnthropicOAuthOrSetupToken (sa_gw a) then ret True
      else if GetMaxSessions a \<le> 0 \<or> sessionID = [] then ret True
      else case gv_sessionLimit sv of
             None \<Rightarrow> ret True
           | Some c \<Rightarrow> do {
               r \<leftarrow> RegisterSession c (sa_ID a) sessionID (GetMaxSessions a) (wrap64 (GetSessionIdleTimeoutMinutes a * nsMinute));
               ret (case r of Inl _ \<Rightarrow> True | Inr allowed \<Rightarrow> allowed) })"

section \<open>Reading ahead\<close>

type_synonym cost_map = "int \<Rightarrow> f64 option"

fun recordCosts :: "(int \<Rightarrow> f64) \<Rightarrow> int list \<Rightarrow> cost_map \<Rightarrow> cost_map sp" where
  "recordCosts cost [] costs = ret costs"
| "recordCosts cost (i # is) costs = do { SetWindowCost i (cost i); recordCosts cost is (costs(i \<mapsto> cost i)) }"

fun singleCosts :: "instant \<Rightarrow> int list \<Rightarrow> cost_map \<Rightarrow> cost_map sp" where
  "singleCosts startTime [] costs = ret costs"
| "singleCosts startTime (i # is) costs = do {
     r \<leftarrow> windowStats i startTime;
     case r of
       Inl _ \<Rightarrow> singleCosts startTime is costs
     | Inr cost \<Rightarrow> do { SetWindowCost i cost; singleCosts startTime is (costs(i \<mapsto> cost)) } }"

definition missingCosts :: "instant \<Rightarrow> int list \<Rightarrow> cost_map \<Rightarrow> cost_map sp" where
  "missingCosts startTime ids costs = do {
     r \<leftarrow> query (\<lambda>d i. sd_standardCost d i startTime);
     case r of Inr cost \<Rightarrow> recordCosts cost ids costs | Inl _ \<Rightarrow> singleCosts startTime ids costs }"

fun missingByStart :: "(int \<times> instant) list \<Rightarrow> int list \<Rightarrow> cost_map \<Rightarrow> cost_map sp" where
  "missingByStart starts [] costs = ret costs"
| "missingByStart starts (k # ks) costs =
     (let here = filter (\<lambda>(i, t). t div nsSecond = k) starts
      in if here = [] then missingByStart starts ks costs
         else do { costs' \<leftarrow> missingCosts (snd (last here)) (map fst here) costs; missingByStart starts ks costs' })"

definition withWindowCostPrefetch :: "gateway_service \<Rightarrow> select_ctx \<Rightarrow> sched_account list \<Rightarrow> select_ctx sp" where
  "withWindowCostPrefetch sv cx accounts =
     (let limited = filter (\<lambda>a. IsAnthropicOAuthOrSetupToken (sa_gw a) \<and> \<not> fle (GetWindowCostLimit a) fzero) accounts
      in if gv_sessionLimit sv = None \<or> limited = [] then ret cx
         else do {
           r \<leftarrow> GetWindowCostBatch (map sa_ID limited);
           let costs = (case r of Inl _ \<Rightarrow> (\<lambda>_. None) | Inr cached \<Rightarrow> cached);
           starts \<leftarrow> mapProg (\<lambda>a. do { t \<leftarrow> accountWindowStart sv a; ret (sa_ID a, t) }) (filter (\<lambda>a. costs (sa_ID a) = None) limited);
           all \<leftarrow> missingByStart starts (gv_starts sv (remdups (map (\<lambda>(i, t). t div nsSecond) starts))) costs;
           ret (cx\<lparr>cx_WindowCosts := all\<rparr>) })"

definition withRPMPrefetch :: "gateway_service \<Rightarrow> select_ctx \<Rightarrow> sched_account list \<Rightarrow> select_ctx sp" where
  "withRPMPrefetch sv cx accounts =
     (let ids = map sa_ID (filter (\<lambda>a. IsAnthropicOAuthOrSetupToken (sa_gw a) \<and> 0 < GetBaseRPM a) accounts)
      in if \<not> gv_rpm sv \<or> ids = [] then ret cx
         else do { r \<leftarrow> GetRPMBatch ids; ret (case r of Inl _ \<Rightarrow> cx | Inr counts \<Rightarrow> cx\<lparr>cx_RPM := counts\<rparr>) })"

definition prefetched :: "gateway_service \<Rightarrow> select_ctx \<Rightarrow> sched_account list \<Rightarrow> select_ctx sp" where
  "prefetched sv cx accounts = do { cx1 \<leftarrow> withWindowCostPrefetch sv cx accounts; withRPMPrefetch sv cx1 accounts }"

section \<open>Accounts\<close>

definition listSchedulableAccounts :: "gateway_service \<Rightarrow> int option \<Rightarrow> string \<Rightarrow> bool \<Rightarrow> (sched_account list \<times> bool) se" where
  "listSchedulableAccounts sv groupID platform hasForcePlatform = (case gv_snapshot sv of
       Some s \<Rightarrow> snapshotListSchedulable s groupID platform hasForcePlatform
     | None \<Rightarrow>
         (let useMixed = mixesPlatforms platform hasForcePlatform; platforms = [platform, PlatformAntigravity]
          in if useMixed
             then bindE (case groupID of
                      Some g \<Rightarrow> ListSchedulableByGroupIDAndPlatforms g platforms
                    | None \<Rightarrow> if gv_simple sv then ListSchedulableByPlatforms platforms else ListSchedulableUngroupedByPlatforms platforms) id
                    (\<lambda>accounts. ret (Inr (filter usableMixed accounts, useMixed)))
             else bindE (if gv_simple sv then ListSchedulableByPlatform platform
                    else case groupID of
                      Some g \<Rightarrow> ListSchedulableByGroupIDAndPlatform g platform
                    | None \<Rightarrow> ListSchedulableUngroupedByPlatform platform) id
                    (\<lambda>accounts. ret (Inr (accounts, useMixed)))))"

definition IsSingleAntigravityAccountGroup :: "gateway_service \<Rightarrow> int option \<Rightarrow> bool sp" where
  "IsSingleAntigravityAccountGroup sv groupID = do {
     r \<leftarrow> listSchedulableAccounts sv groupID PlatformAntigravity True;
     ret (case r of Inl _ \<Rightarrow> False | Inr (accounts, _) \<Rightarrow> length accounts = 1) }"

definition getSchedulableAccount :: "gateway_service \<Rightarrow> int \<Rightarrow> sched_account option se" where
  "getSchedulableAccount sv accountID = (case gv_snapshot sv of
       Some s \<Rightarrow> snapshotGetAccount s accountID
     | None \<Rightarrow> bindE (accGetByID accountID) id (\<lambda>a. ret (Inr (Some a))))"

definition hydrateSelectedAccount :: "gateway_service \<Rightarrow> sched_account \<Rightarrow> sched_account se" where
  "hydrateSelectedAccount sv a = (case gv_snapshot sv of
       None \<Rightarrow> ret (Inr a)
     | Some s \<Rightarrow> bindE (snapshotGetAccount s (sa_ID a)) id (\<lambda>hydrated. case hydrated of
           None \<Rightarrow> ret (Inl (ErrorNew (''selected gateway account '' @ formatInt (sa_ID a) @ '' not found during hydration'')))
         | Some h \<Rightarrow> ret (Inr h)))"

definition newSelectionResult :: "gateway_service \<Rightarrow> sched_account \<Rightarrow> bool \<Rightarrow> release_func option \<Rightarrow> account_wait_plan option \<Rightarrow> selection_result se" where
  "newSelectionResult sv a acquired release waitPlan =
     bindE (hydrateSelectedAccount sv a) id (\<lambda>hydrated.
       ret (Inr \<lparr>se_Account = hydrated, se_Acquired = acquired, se_ReleaseFunc = release, se_WaitPlan = waitPlan\<rparr>))"

definition tryAcquireAccountSlot :: "gateway_service \<Rightarrow> int \<Rightarrow> int \<Rightarrow> acquire_result se" where
  "tryAcquireAccountSlot sv accountID maxConcurrency = (case gv_concurrency sv of
       None \<Rightarrow> ret (Inr \<lparr>Acquired = True, ReleaseFunc = Some NoRelease\<rparr>)
     | Some c \<Rightarrow> AcquireAccountSlot c accountID maxConcurrency)"

text \<open>\<open>GetAccountWaitingCount\<close> with its error ignored.\<close>

definition waitingCount :: "sched_db concurrency_service \<Rightarrow> int \<Rightarrow> int sp" where
  "waitingCount c accountID = do { r \<leftarrow> GetAccountWaitingCount c accountID; ret (case r of Inl _ \<Rightarrow> 0 | Inr n \<Rightarrow> n) }"

definition stickyWaitPlan :: "scheduling_config \<Rightarrow> sched_account \<Rightarrow> account_wait_plan" where
  "stickyWaitPlan cfg a = \<lparr>wp_AccountID = sa_ID a, wp_MaxConcurrency = sa_Concurrency a, wp_Timeout = cf_StickySessionWaitTimeout cfg,
     wp_MaxWaiting = cf_StickySessionMaxWaiting cfg\<rparr>"

definition fallbackWaitPlan :: "scheduling_config \<Rightarrow> sched_account \<Rightarrow> account_wait_plan" where
  "fallbackWaitPlan cfg a = \<lparr>wp_AccountID = sa_ID a, wp_MaxConcurrency = sa_Concurrency a, wp_Timeout = cf_FallbackWaitTimeout cfg,
     wp_MaxWaiting = cf_FallbackMaxWaiting cfg\<rparr>"

end
