(* ===== verification/Account_Choice.thy ===== *)
theory Account_Choice
  imports Scheduler
begin

text \<open>
  The orders in which the scheduler tries accounts (\<open>service/gateway_service.go\<close>): by priority, load and last use, with accounts that are equal
  in a random order. A shuffle and a draw take the next function of \<open>sd_dice\<close>, whose value at a position is reduced to the range that
  the code asks for there.
\<close>

section \<open>The random source\<close>

definition dice :: "(nat \<Rightarrow> nat \<Rightarrow> nat) sp" where
  "dice = do {
     ds \<leftarrow> peek sd_dice;
     case ds of
       [] \<Rightarrow> ret (\<lambda>_ _. 0)
     | f # fs \<Rightarrow> do { modify (\<lambda>d. d\<lparr>sd_dice := fs\<rparr>); ret f } }"

definition swapAt :: "nat \<Rightarrow> nat \<Rightarrow> 'a list \<Rightarrow> 'a list" where
  "swapAt i j xs = xs[i := xs ! j, j := xs ! i]"

text \<open>\<open>rand.Shuffle\<close> swaps from the end, each position with one that is not after it.\<close>

fun shuffleFrom :: "(nat \<Rightarrow> nat \<Rightarrow> nat) \<Rightarrow> nat \<Rightarrow> 'a list \<Rightarrow> 'a list" where
  "shuffleFrom f 0 xs = xs"
| "shuffleFrom f (Suc i) xs = shuffleFrom f i (swapAt (Suc i) (f (Suc i) (Suc (Suc i)) mod Suc (Suc i)) xs)"

definition shuffled :: "'a list \<Rightarrow> 'a list sp" where
  "shuffled xs = (if length xs \<le> 1 then ret xs else do { f \<leftarrow> dice; ret (shuffleFrom f (length xs - 1) xs) })"

definition drawn :: "'a list \<Rightarrow> 'a sp" where
  "drawn xs = do { f \<leftarrow> dice; ret (xs ! (f 0 (length xs) mod length xs)) }"

text \<open>A list cut where an element is not the same as the first of its run.\<close>

function runsOf :: "('a \<Rightarrow> 'a \<Rightarrow> bool) \<Rightarrow> 'a list \<Rightarrow> 'a list list" where
  "runsOf same [] = []"
| "runsOf same (x # xs) = (x # takeWhile (same x) xs) # runsOf same (dropWhile (same x) xs)"
  by pat_completeness auto
termination
  by (relation "measure (\<lambda>(_, xs). length xs)") (auto simp: less_Suc_eq_le length_dropWhile_le)

definition eachRun :: "('a \<Rightarrow> 'a \<Rightarrow> bool) \<Rightarrow> ('a list \<Rightarrow> 'a list sp) \<Rightarrow> 'a list \<Rightarrow> 'a list sp" where
  "eachRun same p xs = do { rs \<leftarrow> mapProg p (runsOf same xs); ret (concat rs) }"

section \<open>Last use\<close>

text \<open>An account that was never used comes first.\<close>

definition usedEarlier :: "instant option \<Rightarrow> instant option \<Rightarrow> bool" where
  "usedEarlier s t = (case (s, t) of (None, Some _) \<Rightarrow> True | (Some a, Some b) \<Rightarrow> a < b | _ \<Rightarrow> False)"

text \<open>The same second.\<close>

definition sameLastUsedAt :: "instant option \<Rightarrow> instant option \<Rightarrow> bool" where
  "sameLastUsedAt s t = (case (s, t) of (None, None) \<Rightarrow> True | (Some a, Some b) \<Rightarrow> a div nsSecond = b div nsSecond | _ \<Rightarrow> False)"

definition preferredType :: "bool \<Rightarrow> sched_account \<Rightarrow> sched_account \<Rightarrow> bool" where
  "preferredType preferOAuth a b \<longleftrightarrow> preferOAuth \<and> sa_Type a \<noteq> sa_Type b \<and> sa_Type a = AccountTypeOAuth"

section \<open>By priority, load and last use\<close>

definition leastInt :: "('a \<Rightarrow> int) \<Rightarrow> 'a list \<Rightarrow> int" where
  "leastInt key xs = foldl (\<lambda>m x. if key x < m then key x else m) (key (hd xs)) (tl xs)"

definition keepLeast :: "('a \<Rightarrow> int) \<Rightarrow> 'a list \<Rightarrow> 'a list" where
  "keepLeast key xs = (if xs = [] then [] else filter (\<lambda>x. key x = leastInt key xs) xs)"

definition filterByMinPriority :: "account_with_load list \<Rightarrow> account_with_load list" where
  "filterByMinPriority = keepLeast (\<lambda>x. sa_Priority (al_account x))"

definition filterByMinLoadRate :: "account_with_load list \<Rightarrow> account_with_load list" where
  "filterByMinLoadRate = keepLeast (\<lambda>x. li_LoadRate (al_loadInfo x))"

definition leastRecent :: "account_with_load list \<Rightarrow> account_with_load list" where
  "leastRecent xs =
     (if list_ex (\<lambda>x. sa_LastUsedAt (al_account x) = None) xs
      then filter (\<lambda>x. sa_LastUsedAt (al_account x) = None) xs
      else keepLeast (\<lambda>x. case sa_LastUsedAt (al_account x) of None \<Rightarrow> 0 | Some t \<Rightarrow> t) xs)"

definition selectByLRU :: "account_with_load list \<Rightarrow> bool \<Rightarrow> account_with_load option sp" where
  "selectByLRU accounts preferOAuth = (case accounts of
       [] \<Rightarrow> ret None
     | [x] \<Rightarrow> ret (Some x)
     | _ \<Rightarrow>
         (let candidates = leastRecent accounts;
              oauth = filter (\<lambda>x. sa_Type (al_account x) = AccountTypeOAuth) candidates
          in if length candidates = 1 then ret (Some (hd candidates))
             else do { x \<leftarrow> drawn (if preferOAuth \<and> oauth \<noteq> [] then oauth else candidates); ret (Some x) }))"

definition sameAccountWithLoadGroup :: "account_with_load \<Rightarrow> account_with_load \<Rightarrow> bool" where
  "sameAccountWithLoadGroup x y \<longleftrightarrow> sa_Priority (al_account x) = sa_Priority (al_account y) \<and> li_LoadRate (al_loadInfo x) = li_LoadRate (al_loadInfo y) \<and>
     sameLastUsedAt (sa_LastUsedAt (al_account x)) (sa_LastUsedAt (al_account y))"

definition byLoad :: "account_with_load \<Rightarrow> account_with_load \<Rightarrow> bool" where
  "byLoad x y =
     (if sa_Priority (al_account x) \<noteq> sa_Priority (al_account y) then sa_Priority (al_account x) < sa_Priority (al_account y)
      else if li_LoadRate (al_loadInfo x) \<noteq> li_LoadRate (al_loadInfo y) then li_LoadRate (al_loadInfo x) < li_LoadRate (al_loadInfo y)
      else usedEarlier (sa_LastUsedAt (al_account x)) (sa_LastUsedAt (al_account y)))"

definition shuffleWithinSortGroups :: "account_with_load list \<Rightarrow> account_with_load list sp" where
  "shuffleWithinSortGroups = eachRun sameAccountWithLoadGroup shuffled"

text \<open>What these choices return.\<close>

lemma leastInt_le: "x \<in> set xs \<Longrightarrow> leastInt key xs \<le> key x"
proof -
  have fold: "foldl (\<lambda>m x. if key x < m then key x else m) k ys \<le> k \<and> (\<forall>y \<in> set ys. foldl (\<lambda>m x. if key x < m then key x else m) k ys \<le> key y)" for k ys
    by (induction ys rule: rev_induct) (auto simp: not_less intro: order_trans)
  show "leastInt key xs \<le> key x" if "x \<in> set xs"
    using that fold [of "key (hd xs)" "tl xs"] by (cases xs) (auto simp: leastInt_def)
qed

lemma leastInt_attained: "xs \<noteq> [] \<Longrightarrow> \<exists>x \<in> set xs. key x = leastInt key xs"
proof -
  have fold: "foldl (\<lambda>m x. if key x < m then key x else m) k ys \<in> insert k (key ` set ys)" for k ys
    by (induction ys rule: rev_induct) auto
  show "\<exists>x \<in> set xs. key x = leastInt key xs" if "xs \<noteq> []"
    using that fold [of "key (hd xs)" "tl xs"] by (cases xs) (auto simp: leastInt_def)
qed

lemma keepLeast_spec:
  "set (keepLeast key xs) = {x \<in> set xs. \<forall>y \<in> set xs. key x \<le> key y}" "keepLeast key xs = [] \<longleftrightarrow> xs = []"
proof -
  show "set (keepLeast key xs) = {x \<in> set xs. \<forall>y \<in> set xs. key x \<le> key y}"
  proof (cases "xs = []")
    case False
    then obtain z where z: "z \<in> set xs" "key z = leastInt key xs" using leastInt_attained by blast
    have "key x = leastInt key xs \<longleftrightarrow> (\<forall>y \<in> set xs. key x \<le> key y)" if "x \<in> set xs" for x
      using leastInt_le [of _ xs key] z that by (metis order_antisym)
    then show ?thesis using False by (auto simp: keepLeast_def)
  qed (simp add: keepLeast_def)
  show "keepLeast key xs = [] \<longleftrightarrow> xs = []"
    using leastInt_attained [of xs key] by (auto simp: keepLeast_def filter_empty_conv)
qed

lemma leastRecent_spec:
  "set (leastRecent xs) = {x \<in> set xs. \<forall>y \<in> set xs. \<not> usedEarlier (sa_LastUsedAt (al_account y)) (sa_LastUsedAt (al_account x))}"
  "leastRecent xs = [] \<longleftrightarrow> xs = []"
proof -
  show "set (leastRecent xs) = {x \<in> set xs. \<forall>y \<in> set xs. \<not> usedEarlier (sa_LastUsedAt (al_account y)) (sa_LastUsedAt (al_account x))}"
  proof (cases "list_ex (\<lambda>x. sa_LastUsedAt (al_account x) = None) xs")
    case True
    then have "(\<forall>y \<in> set xs. \<not> usedEarlier (sa_LastUsedAt (al_account y)) (sa_LastUsedAt (al_account x))) \<longleftrightarrow> sa_LastUsedAt (al_account x) = None" for x
      by (auto simp: usedEarlier_def list_ex_iff split: option.splits) (metis option.distinct(1))
    then show ?thesis using True by (auto simp: leastRecent_def)
  next
    case False
    then have "usedEarlier (sa_LastUsedAt (al_account y)) (sa_LastUsedAt (al_account x)) \<longleftrightarrow>
        (case sa_LastUsedAt (al_account y) of None \<Rightarrow> 0 | Some t \<Rightarrow> t) < (case sa_LastUsedAt (al_account x) of None \<Rightarrow> 0 | Some t \<Rightarrow> t)"
      if "x \<in> set xs" "y \<in> set xs" for x y
      using that by (auto simp: usedEarlier_def list_ex_iff split: option.splits)
    then show ?thesis using False by (auto simp: leastRecent_def keepLeast_spec not_less)
  qed
  show "leastRecent xs = [] \<longleftrightarrow> xs = []"
    by (auto simp: leastRecent_def keepLeast_spec list_ex_iff filter_empty_conv)
qed

lemma run_drawn: "xs \<noteq> [] \<Longrightarrow> run_state (drawn xs) w = (x, w') \<Longrightarrow> x \<in> set xs"
  by (auto simp: drawn_def split_def)

lemma run_selectByLRU:
  assumes "run_state (selectByLRU xs p) w = (r, w')"
  shows "case r of None \<Rightarrow> xs = [] | Some x \<Rightarrow> x \<in> set (leastRecent xs)"
proof -
  consider "xs = []" | x where "xs = [x]" | x y ys where "xs = x # y # ys" by (metis neq_Nil_conv)
  then show ?thesis
  proof cases
    case 3
    define cs where "cs = leastRecent xs"
    define os where "os = filter (\<lambda>x. sa_Type (al_account x) = AccountTypeOAuth) cs"
    have "cs \<noteq> []" using 3 by (simp add: cs_def leastRecent_spec)
    have sel: "selectByLRU xs p = (if length cs = 1 then ret (Some (hd cs)) else do { x \<leftarrow> drawn (if p \<and> os \<noteq> [] then os else cs); ret (Some x) })"
      unfolding cs_def os_def by (simp add: selectByLRU_def 3 Let_def)
    show ?thesis
    proof (cases "length cs = 1")
      case True
      then show ?thesis using assms \<open>cs \<noteq> []\<close> by (auto simp: sel cs_def [symmetric])
    next
      case False
      let ?l = "if p \<and> os \<noteq> [] then os else cs"
      obtain x w1 where d: "run_state (drawn ?l) w = (x, w1)" by (cases "run_state (drawn ?l) w")
      have "x \<in> set ?l" using d \<open>cs \<noteq> []\<close> by (intro run_drawn [OF _ d]) auto
      then have "x \<in> set cs" by (auto simp: os_def split: if_splits)
      then show ?thesis using assms False d by (auto simp: sel cs_def [symmetric] split del: if_split)
    qed
  qed (use assms in \<open>auto simp: selectByLRU_def leastRecent_def keepLeast_def leastInt_def split: if_splits\<close>)
qed

section \<open>By priority and last use\<close>

definition byPriorityAndLastUsed :: "bool \<Rightarrow> sched_account \<Rightarrow> sched_account \<Rightarrow> bool" where
  "byPriorityAndLastUsed preferOAuth a b =
     (if sa_Priority a \<noteq> sa_Priority b then sa_Priority a < sa_Priority b
      else if sa_LastUsedAt a = None \<and> sa_LastUsedAt b = None then preferredType preferOAuth a b
      else usedEarlier (sa_LastUsedAt a) (sa_LastUsedAt b))"

definition sameAccountGroup :: "sched_account \<Rightarrow> sched_account \<Rightarrow> bool" where
  "sameAccountGroup a b \<longleftrightarrow> sa_Priority a = sa_Priority b \<and> sameLastUsedAt (sa_LastUsedAt a) (sa_LastUsedAt b)"

definition shuffleWithinPriorityAndLastUsed :: "sched_account list \<Rightarrow> bool \<Rightarrow> sched_account list sp" where
  "shuffleWithinPriorityAndLastUsed accounts preferOAuth =
     eachRun sameAccountGroup (\<lambda>as.
       if preferOAuth
       then do {
         oauth \<leftarrow> shuffled (filter (\<lambda>a. sa_Type a = AccountTypeOAuth) as);
         others \<leftarrow> shuffled (filter (\<lambda>a. sa_Type a \<noteq> AccountTypeOAuth) as);
         ret (oauth @ others) }
       else shuffled as) accounts"

definition sortAccountsByPriorityAndLastUsed :: "sched_account list \<Rightarrow> bool \<Rightarrow> sched_account list sp" where
  "sortAccountsByPriorityAndLastUsed accounts preferOAuth =
     shuffleWithinPriorityAndLastUsed (sortStable (byPriorityAndLastUsed preferOAuth) accounts) preferOAuth"

definition sortAccountsByPriorityOnly :: "sched_account list \<Rightarrow> bool \<Rightarrow> sched_account list" where
  "sortAccountsByPriorityOnly accounts preferOAuth =
     sortStable (\<lambda>a b. if sa_Priority a \<noteq> sa_Priority b then sa_Priority a < sa_Priority b else preferredType preferOAuth a b) accounts"

definition shuffleWithinPriority :: "sched_account list \<Rightarrow> sched_account list sp" where
  "shuffleWithinPriority = eachRun (\<lambda>a b. sa_Priority b = sa_Priority a) shuffled"

definition sortCandidatesForFallback :: "sched_account list \<Rightarrow> bool \<Rightarrow> string \<Rightarrow> sched_account list sp" where
  "sortCandidatesForFallback accounts preferOAuth mode =
     (if mode = ''random'' then shuffleWithinPriority (sortAccountsByPriorityOnly accounts preferOAuth)
      else sortAccountsByPriorityAndLastUsed accounts preferOAuth)"

section \<open>One pass\<close>

text \<open>Whether an account is taken in place of the one selected so far; \<open>tie\<close> decides between two that were never used.\<close>

definition replaces :: "(sched_account \<Rightarrow> sched_account \<Rightarrow> bool) \<Rightarrow> sched_account \<Rightarrow> sched_account \<Rightarrow> bool" where
  "replaces tie a selected =
     (if sa_Priority a < sa_Priority selected then True
      else if sa_Priority a = sa_Priority selected
      then (case (sa_LastUsedAt a, sa_LastUsedAt selected) of
              (None, Some _) \<Rightarrow> True
            | (Some _, None) \<Rightarrow> False
            | (None, None) \<Rightarrow> tie a selected
            | (Some s, Some t) \<Rightarrow> s < t)
      else False)"

fun pickBest :: "(sched_account \<Rightarrow> bool sp) \<Rightarrow> (sched_account \<Rightarrow> sched_account \<Rightarrow> bool) \<Rightarrow> sched_account list \<Rightarrow> sched_account option \<Rightarrow>
    sched_account option sp" where
  "pickBest passes tie [] selected = ret selected"
| "pickBest passes tie (a # as) selected = do {
     ok \<leftarrow> passes a;
     pickBest passes tie as
       (if \<not> ok then selected
        else case selected of None \<Rightarrow> Some a | Some s \<Rightarrow> if replaces tie a s then Some a else Some s) }"

end
