(* ===== verification/Account_Selection.thy ===== *)
theory Account_Selection
  imports Account_Choice
begin

text \<open>
  Choosing the account of a request (\<open>service/gateway_service.go\<close>). \<open>SelectAccountForModelWithExclusions\<close> looks at priorities and last use.
  \<open>SelectAccountWithLoadAwareness\<close> also asks for the load of the accounts, takes a slot of the one it chooses, and plans to wait if no slot
  is free. Identifiers of accounts that failed the request before are \<open>excluded\<close>.
\<close>

section \<open>Why no account was found\<close>

definition isPlatformFilteredForSelection :: "sched_account \<Rightarrow> string \<Rightarrow> bool \<Rightarrow> bool" where
  "isPlatformFilteredForSelection a platform allowMixedScheduling =
     (if allowMixedScheduling
      then if sa_Platform a = PlatformAntigravity then \<not> IsMixedSchedulingEnabled a else sa_Platform a \<noteq> platform
      else if trimSpace platform = [] then False
      else sa_Platform a \<noteq> platform)"

definition diagnoseSelectionFailure :: "select_ctx \<Rightarrow> sched_account \<Rightarrow> string \<Rightarrow> string \<Rightarrow> int set \<Rightarrow> bool \<Rightarrow> string sp" where
  "diagnoseSelectionFailure cx a requestedModel platform excluded allowMixedScheduling =
     (if sa_ID a \<in> excluded then ret ''excluded''
      else do {
        ok \<leftarrow> isAccountSchedulableForSelection a;
        if \<not> ok then ret ''unschedulable''
        else if isPlatformFilteredForSelection a platform allowMixedScheduling then ret ''platform_filtered''
        else if \<not> modelSupported cx requestedModel a then ret ''model_unsupported''
        else do {
          ok2 \<leftarrow> isAccountSchedulableForModelSelection cx a requestedModel;
          ret (if ok2 then ''eligible'' else ''model_rate_limited'') } })"

text \<open>How often each answer was given; the samples of identifiers are for the log.\<close>

definition summarizeSelectionFailureStats :: "string list \<Rightarrow> string" where
  "summarizeSelectionFailureStats categories =
     (let shown = (\<lambda>c. c @ ''='' @ formatInt (int (length (filter (\<lambda>x. x = c) categories))))
      in ''total='' @ formatInt (int (length categories)) @ '' '' @ shown ''eligible'' @ '' '' @ shown ''excluded'' @ '' '' @
         shown ''unschedulable'' @ '' '' @ shown ''platform_filtered'' @ '' '' @ shown ''model_unsupported'' @ '' '' @ shown ''model_rate_limited'')"

definition collectSelectionFailureStats :: "select_ctx \<Rightarrow> sched_account list \<Rightarrow> string \<Rightarrow> string \<Rightarrow> int set \<Rightarrow> bool \<Rightarrow> string list sp" where
  "collectSelectionFailureStats cx accounts requestedModel platform excluded allowMixedScheduling =
     mapProg (\<lambda>a. diagnoseSelectionFailure cx a requestedModel platform excluded allowMixedScheduling) accounts"

section \<open>By priority and last use\<close>

text \<open>\<open>require_privacy_set\<close>: an account without privacy is marked as failed.\<close>

definition passesPrivacy :: "gateway_service \<Rightarrow> sched_group option \<Rightarrow> sched_account \<Rightarrow> bool sp" where
  "passesPrivacy sv grp a =
     (if (case grp of Some g \<Rightarrow> gx_RequirePrivacySet g | None \<Rightarrow> False) \<and> \<not> IsPrivacySet a
      then do { SetError (gv_schedulerCache sv) (sa_ID a); ret False }
      else ret True)"

definition bindSession :: "int option \<Rightarrow> string \<Rightarrow> int \<Rightarrow> unit sp" where
  "bindSession groupID sessionHash accountID =
     (if sessionHash = [] then ret ()
      else do { SetSessionAccountID (derefGroupID groupID) sessionHash accountID stickySessionTTL; ret () })"

definition unbindSession :: "int option \<Rightarrow> string \<Rightarrow> unit sp" where
  "unbindSession groupID sessionHash = do { DeleteSessionAccountID (derefGroupID groupID) sessionHash; ret () }"

definition clearsSticky :: "sched_account \<Rightarrow> string \<Rightarrow> bool sp" where
  "clearsSticky a requestedModel = do { now1 \<leftarrow> timeNow; now2 \<leftarrow> timeNow; ret (shouldClearStickySession now1 now2 a requestedModel) }"

text \<open>The account of the session, if it passes.\<close>

definition boundAccount :: "gateway_service \<Rightarrow> int option \<Rightarrow> string \<Rightarrow> string \<Rightarrow> int set \<Rightarrow> (int \<Rightarrow> bool) \<Rightarrow> (sched_account \<Rightarrow> bool sp) \<Rightarrow>
    sched_account option sp" where
  "boundAccount sv groupID sessionHash requestedModel excluded allowed passes =
     (if sessionHash = [] then ret None
      else do {
        r \<leftarrow> GetSessionAccountID (derefGroupID groupID) sessionHash;
        case r of
          Inl _ \<Rightarrow> ret None
        | Inr i \<Rightarrow>
            if i \<le> 0 \<or> \<not> allowed i \<or> i \<in> excluded then ret None
            else do {
              found \<leftarrow> getSchedulableAccount sv i;
              case found of
                Inr (Some a) \<Rightarrow> do {
                  clear \<leftarrow> clearsSticky a requestedModel;
                  if clear then do { unbindSession groupID sessionHash; ret None }
                  else do { ok \<leftarrow> passes a; ret (if ok then Some a else None) } }
              | _ \<Rightarrow> ret None } })"

text \<open>What differs between the two searches: the checks of the session's account within the routes and outside, the filter and the tie break of
  the pass over the list, and whether the list is asked for with a forced platform.\<close>

record legacy_search =
  le_Platform :: string
  le_Force :: bool
  le_RoutedSticky :: "select_ctx \<Rightarrow> sched_account \<Rightarrow> bool sp"
  le_Sticky :: "select_ctx \<Rightarrow> sched_account \<Rightarrow> bool sp"
  le_Filter :: "sched_account \<Rightarrow> bool"
  le_Tie :: "sched_account \<Rightarrow> sched_account \<Rightarrow> bool"
  le_Mixed :: bool

definition legacyChecks :: "gateway_service \<Rightarrow> select_ctx \<Rightarrow> legacy_search \<Rightarrow> sched_group option \<Rightarrow> string \<Rightarrow> int set \<Rightarrow> (sched_account \<Rightarrow> bool) \<Rightarrow>
    sched_account \<Rightarrow> bool sp" where
  "legacyChecks sv cx l grp requestedModel excluded restricted a =
     allOf ([ret (sa_ID a \<notin> excluded), isAccountSchedulableForSelection a, passesPrivacy sv grp a, ret (le_Filter l a),
       ret (modelSupported cx requestedModel a), ret (\<not> restricted a)] @ limitChecks sv cx requestedModel False a)"

text \<open>The routes: the account of the session if it is among them, or the best of them. Otherwise the accounts that were loaded, and the context
  with what was read ahead, are passed on.\<close>

definition selectRouted :: "gateway_service \<Rightarrow> select_ctx \<Rightarrow> legacy_search \<Rightarrow> int option \<Rightarrow> string \<Rightarrow> string \<Rightarrow> int set \<Rightarrow> sched_group option \<Rightarrow>
    int list \<Rightarrow> (sched_account option \<times> sched_account list option \<times> select_ctx) se" where
  "selectRouted sv cx l groupID sessionHash requestedModel excluded grp ids =
     (if ids = [] then ret (Inr (None, None, cx))
      else do {
        bound \<leftarrow> boundAccount sv groupID sessionHash requestedModel excluded (\<lambda>i. i \<in> set ids) (le_RoutedSticky l cx);
        case bound of
          Some a \<Rightarrow> ret (Inr (Some a, None, cx))
        | None \<Rightarrow>
            bindE (listSchedulableAccounts sv groupID (le_Platform l) (le_Force l)) (Errorf ''query accounts failed'') (\<lambda>(accounts, _). do {
              cx' \<leftarrow> prefetched sv cx accounts;
              selected \<leftarrow> pickBest (\<lambda>a. if 0 < sa_ID a \<and> sa_ID a \<in> set ids
                    then legacyChecks sv cx' l grp requestedModel excluded (\<lambda>_. False) a else ret False) (le_Tie l) accounts None;
              case selected of
                Some a \<Rightarrow> do { bindSession groupID sessionHash (sa_ID a); ret (Inr (Some a, None, cx')) }
              | None \<Rightarrow> ret (Inr (None, Some accounts, cx')) }) })"

definition selectUnrouted :: "gateway_service \<Rightarrow> select_ctx \<Rightarrow> legacy_search \<Rightarrow> int option \<Rightarrow> string \<Rightarrow> string \<Rightarrow> int set \<Rightarrow> sched_group option \<Rightarrow>
    sched_account list \<Rightarrow> sched_account se" where
  "selectUnrouted sv cx l groupID sessionHash requestedModel excluded grp accounts = do {
     cx' \<leftarrow> prefetched sv cx accounts;
     selected \<leftarrow> pickBest (legacyChecks sv cx' l grp requestedModel excluded (\<lambda>a. case groupID of
           None \<Rightarrow> False
         | Some g \<Rightarrow> needsUpstreamChannelRestrictionCheck sv groupID \<and> isUpstreamModelRestrictedByChannel sv g a requestedModel))
       (le_Tie l) accounts None;
     case selected of
       Some a \<Rightarrow> do { bindSession groupID sessionHash (sa_ID a); ret (Inr a) }
     | None \<Rightarrow> do {
         stats \<leftarrow> collectSelectionFailureStats cx' accounts requestedModel (le_Platform l) excluded (le_Mixed l);
         ret (Inl (if requestedModel = [] then ErrNoAvailableAccounts
                   else noAccountsFor requestedModel (summarizeSelectionFailureStats stats))) } }"

text \<open>\<open>GetByID\<close> also counts the accounts of the group; the scheduler does not look at the counts.\<close>

definition schedGroupGetByID :: "int \<Rightarrow> sched_group se" where
  "schedGroupGetByID i = groupGetByIDLite i"

definition selectLegacy :: "gateway_service \<Rightarrow> select_ctx \<Rightarrow> legacy_search \<Rightarrow> int option \<Rightarrow> string \<Rightarrow> string \<Rightarrow> int set \<Rightarrow> sched_account se" where
  "selectLegacy sv cx l groupID sessionHash requestedModel excluded = do {
     ids \<leftarrow> routingAccountIDsForRequest sv cx groupID requestedModel (le_Platform l);
     grp \<leftarrow> (case groupID of
         None \<Rightarrow> ret None
       | Some i \<Rightarrow> do { r \<leftarrow> schedGroupGetByID i; ret (case r of Inl _ \<Rightarrow> None | Inr g \<Rightarrow> Some g) });
     bindE (selectRouted sv cx l groupID sessionHash requestedModel excluded grp ids) id (\<lambda>(routed, loaded, cx').
       case routed of
         Some a \<Rightarrow> ret (Inr a)
       | None \<Rightarrow> do {
           bound \<leftarrow> boundAccount sv groupID sessionHash requestedModel excluded (\<lambda>_. True) (le_Sticky l cx');
           case bound of
             Some a \<Rightarrow> ret (Inr a)
           | None \<Rightarrow>
               bindE (case loaded of
                   Some accounts \<Rightarrow> ret (Inr (accounts, False))
                 | None \<Rightarrow> listSchedulableAccounts sv groupID (le_Platform l) (le_Force l)) (Errorf ''query accounts failed'') (\<lambda>(accounts, _).
               selectUnrouted sv cx' l groupID sessionHash requestedModel excluded grp accounts) }) }"

definition selectAccountForModelWithPlatform :: "gateway_service \<Rightarrow> select_ctx \<Rightarrow> int option \<Rightarrow> string \<Rightarrow> string \<Rightarrow> int set \<Rightarrow> string \<Rightarrow>
    sched_account se" where
  "selectAccountForModelWithPlatform sv cx groupID sessionHash requestedModel excluded platform =
     (let fits = (\<lambda>cx a. [ret (isAccountInGroup a groupID), ret (sa_Platform a = platform), ret (modelSupported cx requestedModel a)] @
            limitChecks sv cx requestedModel True a)
      in selectLegacy sv cx
        \<lparr>le_Platform = platform, le_Force = (forcedPlatform cx \<noteq> None),
         le_RoutedSticky = (\<lambda>cx a. allOf (fits cx a @ [ret (\<not> isStickyAccountUpstreamRestricted sv groupID a requestedModel)])),
         le_Sticky = (\<lambda>cx a. allOf (fits cx a)),
         le_Filter = (\<lambda>_. True),
         le_Tie = preferredType (platform = PlatformGemini),
         le_Mixed = False\<rparr> groupID sessionHash requestedModel excluded)"

definition selectAccountWithMixedScheduling :: "gateway_service \<Rightarrow> select_ctx \<Rightarrow> int option \<Rightarrow> string \<Rightarrow> string \<Rightarrow> int set \<Rightarrow> string \<Rightarrow>
    sched_account se" where
  "selectAccountWithMixedScheduling sv cx groupID sessionHash requestedModel excluded nativePlatform =
     (let fits = (\<lambda>cx a. [ret (isAccountInGroup a groupID), ret (modelSupported cx requestedModel a)] @ limitChecks sv cx requestedModel True a);
          native = (\<lambda>a. sa_Platform a = nativePlatform \<or> sa_Platform a = PlatformAntigravity \<and> IsMixedSchedulingEnabled a)
      in selectLegacy sv cx
        \<lparr>le_Platform = nativePlatform, le_Force = False,
         le_RoutedSticky = (\<lambda>cx a. allOf (fits cx a @ [ret (native a)])),
         le_Sticky = (\<lambda>cx a. allOf (fits cx a @ [ret (\<not> isStickyAccountUpstreamRestricted sv groupID a requestedModel), ret (native a)])),
         le_Filter = usableMixed,
         le_Tie = (\<lambda>a b. preferredType (nativePlatform = PlatformGemini) a b \<and> sa_Platform a = PlatformGemini \<and> sa_Platform b = PlatformGemini),
         le_Mixed = True\<rparr> groupID sessionHash requestedModel excluded)"

definition pricingRestriction :: "string \<Rightarrow> go_err" where
  "pricingRestriction requestedModel = noAccountsFor requestedModel ''channel pricing restriction''"

text \<open>A platform that is forced but empty counts as forced when mixed scheduling is decided.\<close>

definition SelectAccountForModelWithExclusions :: "gateway_service \<Rightarrow> select_ctx \<Rightarrow> int option \<Rightarrow> string \<Rightarrow> string \<Rightarrow> int set \<Rightarrow> sched_account se" where
  "SelectAccountForModelWithExclusions sv cx groupID sessionHash requestedModel excluded =
     bindE (case (forcedPlatform cx, groupID) of
         (Some p, _) \<Rightarrow> ret (Inr (cx, groupID, p))
       | (None, Some _) \<Rightarrow> bindE (resolveGatewayGroup cx groupID) id (\<lambda>(grp, resolved).
           ret (Inr (withGroupContext cx grp, resolved, case grp of Some g \<Rightarrow> gx_Platform g | None \<Rightarrow> [])))
       | (None, None) \<Rightarrow> ret (Inr (cx, groupID, PlatformAnthropic))) id (\<lambda>(cx, groupID, platform).
     if checkChannelPricingRestriction sv groupID requestedModel then ret (Inl (pricingRestriction requestedModel))
     else bindE (if mixesPlatforms platform (cx_ForcePlatform cx \<noteq> None)
            then selectAccountWithMixedScheduling sv cx groupID sessionHash requestedModel excluded platform
            else selectAccountForModelWithPlatform sv cx groupID sessionHash requestedModel excluded platform) id
            (hydrateSelectedAccount sv))"

definition SelectAccountForModel :: "gateway_service \<Rightarrow> select_ctx \<Rightarrow> int option \<Rightarrow> string \<Rightarrow> string \<Rightarrow> sched_account se" where
  "SelectAccountForModel sv cx groupID sessionHash requestedModel = SelectAccountForModelWithExclusions sv cx groupID sessionHash requestedModel {}"

end
