(* ===== verification/Load_Selection.thy ===== *)
theory Load_Selection
  imports Account_Selection
begin

text \<open>
  \<open>SelectAccountWithLoadAwareness\<close> (\<open>service/gateway_service.go\<close>), layer by layer. A layer answers \<open>Some\<close> if it ends the search, with an error or
  an account, and \<open>None\<close> if the next layer goes on.
\<close>

section \<open>Taking a slot\<close>

text \<open>A slot of the account with a place for the session; the session does not fit, and the slot is given back; or there is no slot.\<close>

datatype taking = Taken "release_func option" | SessionFull | NoSlot

definition giveBack :: "release_func option \<Rightarrow> unit sp" where
  "giveBack f = (case f of None \<Rightarrow> ret () | Some r \<Rightarrow> runRelease r)"

definition takeSlot :: "gateway_service \<Rightarrow> sched_account \<Rightarrow> string \<Rightarrow> taking sp" where
  "takeSlot sv a sessionHash = do {
     r \<leftarrow> tryAcquireAccountSlot sv (sa_ID a) (sa_Concurrency a);
     case r of
       Inl _ \<Rightarrow> ret NoSlot
     | Inr res \<Rightarrow>
         if \<not> Acquired res then ret NoSlot
         else do {
           ok \<leftarrow> checkAndRegisterSession sv a sessionHash;
           if ok then ret (Taken (ReleaseFunc res))
           else do { giveBack (ReleaseFunc res); ret SessionFull } } }"

text \<open>A place in the queue of the account of the session, if the queue is short and the session fits.\<close>

definition stickyWait :: "gateway_service \<Rightarrow> sched_db concurrency_service \<Rightarrow> scheduling_config \<Rightarrow> sched_account \<Rightarrow> string \<Rightarrow> bool sp" where
  "stickyWait sv c cfg a sessionHash = do {
     n \<leftarrow> waitingCount c (sa_ID a);
     if n < cf_StickySessionMaxWaiting cfg then checkAndRegisterSession sv a sessionHash else ret False }"

text \<open>The first account of a list whose slot can be taken, and the first whose queue the session can join.\<close>

fun takeFirst :: "gateway_service \<Rightarrow> int option \<Rightarrow> string \<Rightarrow> sched_account list \<Rightarrow> (go_err + selection_result) option sp" where
  "takeFirst sv groupID sessionHash [] = ret None"
| "takeFirst sv groupID sessionHash (a # as) = do {
     t \<leftarrow> takeSlot sv a sessionHash;
     case t of
       Taken f \<Rightarrow> do {
         bindSession groupID sessionHash (sa_ID a);
         r \<leftarrow> newSelectionResult sv a True f None;
         ret (Some r) }
     | _ \<Rightarrow> takeFirst sv groupID sessionHash as }"

fun waitFirst :: "gateway_service \<Rightarrow> (sched_account \<Rightarrow> account_wait_plan) \<Rightarrow> string \<Rightarrow> sched_account list \<Rightarrow> (go_err + selection_result) option sp" where
  "waitFirst sv plan sessionHash [] = ret None"
| "waitFirst sv plan sessionHash (a # as) = do {
     ok \<leftarrow> checkAndRegisterSession sv a sessionHash;
     if ok then do { r \<leftarrow> newSelectionResult sv a False None (Some (plan a)); ret (Some r) }
     else waitFirst sv plan sessionHash as }"

text \<open>The last account of the list with an identifier.\<close>

definition accountByID :: "sched_account list \<Rightarrow> int \<Rightarrow> sched_account option" where
  "accountByID accounts i = tget (\<lambda>a. sa_ID a = i) (rev accounts)"

definition accountLoads :: "sched_account list \<Rightarrow> with_concurrency list" where
  "accountLoads candidates = map (\<lambda>a. \<lparr>wc_ID = sa_ID a, wc_MaxConcurrency = EffectiveLoadFactor a\<rparr>) candidates"

definition availableOf :: "(int \<Rightarrow> load_info option) \<Rightarrow> sched_account list \<Rightarrow> account_with_load list" where
  "availableOf loadMap candidates =
     filter (\<lambda>x. li_LoadRate (al_loadInfo x) < 100)
       (map (\<lambda>a. \<lparr>al_account = a, al_loadInfo = (case loadMap (sa_ID a) of Some l \<Rightarrow> l
          | None \<Rightarrow> \<lparr>li_ID = sa_ID a, li_CurrentConcurrency = 0, li_WaitingCount = 0, li_LoadRate = 0\<rparr>)\<rparr>) candidates)"

section \<open>The layers\<close>

text \<open>What all layers know of the request.\<close>

record search =
  sr_ctx :: select_ctx
  sr_groupID :: "int option"
  sr_hash :: string
  sr_model :: string
  sr_excluded :: "int set"
  sr_platform :: string
  sr_mixed :: bool
  sr_sticky :: int
  sr_cfg :: scheduling_config
  sr_conc :: "sched_db concurrency_service"

definition candidateChecks :: "gateway_service \<Rightarrow> search \<Rightarrow> bool \<Rightarrow> sched_account \<Rightarrow> bool sp" where
  "candidateChecks sv q isSticky a =
     allOf ([isAccountSchedulableForSelection a, ret (isAccountAllowedForPlatform a (sr_platform q) (sr_mixed q)),
       ret (modelSupported (sr_ctx q) (sr_model q) a)] @ limitChecks sv (sr_ctx q) (sr_model q) isSticky a)"

text \<open>The account of the session within the routes. The plan to wait has the account as it was listed.\<close>

definition routedSticky :: "gateway_service \<Rightarrow> search \<Rightarrow> sched_account list \<Rightarrow> int list \<Rightarrow> (go_err + selection_result) option sp" where
  "routedSticky sv q accounts ids =
     (if sr_hash q = [] \<or> sr_sticky q \<le> 0 \<or> sr_sticky q \<notin> set ids \<or> sr_sticky q \<in> sr_excluded q then ret None
      else case accountByID accounts (sr_sticky q) of
             None \<Rightarrow> do { unbindSession (sr_groupID q) (sr_hash q); ret None }
           | Some a \<Rightarrow> do {
               ok \<leftarrow> candidateChecks sv q True a;
               if \<not> ok then ret None
               else do {
                 t \<leftarrow> takeSlot sv a (sr_hash q);
                 case t of
                   Taken f \<Rightarrow> do { r \<leftarrow> newSelectionResult sv a True f None; ret (Some r) }
                 | SessionFull \<Rightarrow> ret None
                 | NoSlot \<Rightarrow> do {
                     w \<leftarrow> stickyWait sv (sr_conc q) (sr_cfg q) a (sr_hash q);
                     ret (if w then Some (Inr \<lparr>se_Account = a, se_Acquired = False, se_ReleaseFunc = None,
                            se_WaitPlan = Some (stickyWaitPlan (sr_cfg q) a)\<rparr>) else None) } } })"

definition layerRouted :: "gateway_service \<Rightarrow> search \<Rightarrow> sched_account list \<Rightarrow> int list \<Rightarrow> (go_err + selection_result) option sp" where
  "layerRouted sv q accounts ids = do {
     candidates \<leftarrow> filterProg (candidateChecks sv q False)
       (List.map_filter (\<lambda>i. if i \<in> sr_excluded q then None else accountByID accounts i) ids);
     if candidates = [] then ret None
     else do {
       s \<leftarrow> routedSticky sv q accounts ids;
       case s of
         Some r \<Rightarrow> ret (Some r)
       | None \<Rightarrow> do {
           loads \<leftarrow> GetAccountsLoadBatch (sr_conc q) (accountLoads candidates);
           items \<leftarrow> shuffleWithinSortGroups (sortStable byLoad
             (availableOf (case loads of Inl _ \<Rightarrow> (\<lambda>_. None) | Inr m \<Rightarrow> m) candidates));
           t \<leftarrow> takeFirst sv (sr_groupID q) (sr_hash q) (map al_account items);
           case t of
             Some r \<Rightarrow> ret (Some r)
           | None \<Rightarrow> waitFirst sv (stickyWaitPlan (sr_cfg q)) (sr_hash q) (map al_account items) } } }"

text \<open>The account of the session where no route applies.\<close>

definition layerSticky :: "gateway_service \<Rightarrow> search \<Rightarrow> sched_account list \<Rightarrow> (go_err + selection_result) option sp" where
  "layerSticky sv q accounts =
     (if sr_hash q = [] \<or> sr_sticky q \<le> 0 \<or> sr_sticky q \<in> sr_excluded q then ret None
      else case accountByID accounts (sr_sticky q) of
             None \<Rightarrow> ret None
           | Some a \<Rightarrow> do {
               clear \<leftarrow> clearsSticky a (sr_model q);
               if clear then do { unbindSession (sr_groupID q) (sr_hash q); ret None }
               else do {
                 ok \<leftarrow> allOf ([ret (isAccountInGroup a (sr_groupID q)), ret (isAccountAllowedForPlatform a (sr_platform q) (sr_mixed q)),
                   ret (modelSupported (sr_ctx q) (sr_model q) a)] @ limitChecks sv (sr_ctx q) (sr_model q) True a);
                 if \<not> ok then ret None
                 else do {
                   t \<leftarrow> takeSlot sv a (sr_hash q);
                   case t of
                     Taken f \<Rightarrow> do {
                       RefreshSessionTTL (derefGroupID (sr_groupID q)) (sr_hash q) stickySessionTTL;
                       r \<leftarrow> newSelectionResult sv a True f None;
                       ret (Some r) }
                   | _ \<Rightarrow> do {
                       w \<leftarrow> stickyWait sv (sr_conc q) (sr_cfg q) a (sr_hash q);
                       if w then do { r \<leftarrow> newSelectionResult sv a False None (Some (stickyWaitPlan (sr_cfg q) a)); ret (Some r) }
                       else ret None } } } })"

text \<open>Without the loads: by priority and last use.\<close>

definition tryAcquireByLegacyOrder :: "gateway_service \<Rightarrow> sched_account list \<Rightarrow> int option \<Rightarrow> string \<Rightarrow> bool \<Rightarrow> (go_err + selection_result) option sp" where
  "tryAcquireByLegacyOrder sv candidates groupID sessionHash preferOAuth = do {
     ordered \<leftarrow> sortAccountsByPriorityAndLastUsed candidates preferOAuth;
     takeFirst sv groupID sessionHash ordered }"

text \<open>Of the accounts left, one of the least priority number, the least load and the longest rest, until one has a slot. An account that was tried is
  left out, so the loop ends.\<close>

lemma bind_results [fundef_cong]:
  assumes "m = m'" and "\<And>w r w'. run_state m' w = (r, w') \<Longrightarrow> f r = g r"
  shows "State_Monad.bind m f = State_Monad.bind m' g"
proof -
  have "run_state (State_Monad.bind m f) w = run_state (State_Monad.bind m' g) w" for w
    using assms(2) [of w "fst (run_state m' w)" "snd (run_state m' w)"] by (simp add: State_Monad.bind_def assms(1) split_def)
  then show ?thesis by (simp add: state.expand ext)
qed


lemma tried_is_listed:
  assumes "run_state (selectByLRU (filterByMinLoadRate (filterByMinPriority xs)) p) w = (Some x, w')"
  shows "x \<in> set xs"
  using run_selectByLRU [OF assms] by (simp add: leastRecent_spec filterByMinLoadRate_def filterByMinPriority_def keepLeast_spec)

function layeredLoop :: "gateway_service \<Rightarrow> int option \<Rightarrow> string \<Rightarrow> bool \<Rightarrow> account_with_load list \<Rightarrow> (go_err + selection_result) option sp" where
  "layeredLoop sv groupID sessionHash preferOAuth available = do {
     selected \<leftarrow> selectByLRU (filterByMinLoadRate (filterByMinPriority available)) preferOAuth;
     case selected of
       None \<Rightarrow> ret None
     | Some x \<Rightarrow> do {
         t \<leftarrow> takeSlot sv (al_account x) sessionHash;
         case t of
           Taken f \<Rightarrow> do {
             bindSession groupID sessionHash (sa_ID (al_account x));
             r \<leftarrow> newSelectionResult sv (al_account x) True f None;
             ret (Some r) }
         | _ \<Rightarrow> layeredLoop sv groupID sessionHash preferOAuth (filter (\<lambda>y. sa_ID (al_account y) \<noteq> sa_ID (al_account x)) available) } }"
  by pat_completeness auto
termination
  by (relation "measure (\<lambda>(_, _, _, _, available). length available)") (auto dest!: tried_is_listed intro: length_filter_less)

declare layeredLoop.simps [simp del]

definition layerLoad :: "gateway_service \<Rightarrow> search \<Rightarrow> bool \<Rightarrow> sched_account list \<Rightarrow> (go_err + selection_result) option sp" where
  "layerLoad sv q preferOAuth candidates = do {
     loads \<leftarrow> GetAccountsLoadBatch (sr_conc q) (accountLoads candidates);
     case loads of
       Inl _ \<Rightarrow> tryAcquireByLegacyOrder sv candidates (sr_groupID q) (sr_hash q) preferOAuth
     | Inr loadMap \<Rightarrow> layeredLoop sv (sr_groupID q) (sr_hash q) preferOAuth (availableOf loadMap candidates) }"

definition layerFallback :: "gateway_service \<Rightarrow> search \<Rightarrow> bool \<Rightarrow> sched_account list \<Rightarrow> selection_result se" where
  "layerFallback sv q preferOAuth candidates = do {
     ordered \<leftarrow> sortCandidatesForFallback candidates preferOAuth (cf_FallbackSelectionMode (sr_cfg q));
     r \<leftarrow> waitFirst sv (fallbackWaitPlan (sr_cfg q)) (sr_hash q) ordered;
     ret (case r of Some res \<Rightarrow> res | None \<Rightarrow> Inl ErrNoAvailableAccounts) }"

definition selectCandidates :: "gateway_service \<Rightarrow> search \<Rightarrow> bool \<Rightarrow> sched_account list \<Rightarrow> selection_result se" where
  "selectCandidates sv q preferOAuth accounts = do {
     candidates \<leftarrow> filterProg (candidateChecks sv q False) (filter (\<lambda>a. sa_ID a \<notin> sr_excluded q) accounts);
     if candidates = [] then ret (Inl ErrNoAvailableAccounts)
     else do {
       r \<leftarrow> layerLoad sv q preferOAuth candidates;
       case r of
         Some res \<Rightarrow> ret res
       | None \<Rightarrow> layerFallback sv q preferOAuth candidates } }"

definition selectLayers :: "gateway_service \<Rightarrow> search \<Rightarrow> bool \<Rightarrow> sched_account list \<Rightarrow> int list \<Rightarrow> selection_result se" where
  "selectLayers sv q preferOAuth accounts ids = do {
     r \<leftarrow> (if ids = [] then layerSticky sv q accounts else layerRouted sv q accounts ids);
     case r of
       Some res \<Rightarrow> ret res
     | None \<Rightarrow> selectCandidates sv q preferOAuth accounts }"

section \<open>The search\<close>

definition prefetchedStickyAccountID :: "select_ctx \<Rightarrow> int option \<Rightarrow> int" where
  "prefetchedStickyAccountID cx groupID =
     (if cx_StickyGroupID cx \<noteq> Some (derefGroupID groupID) then 0
      else case cx_StickyAccountID cx of Some i \<Rightarrow> if 0 < i then i else 0 | None \<Rightarrow> 0)"

definition stickyAccountID :: "select_ctx \<Rightarrow> int option \<Rightarrow> string \<Rightarrow> int sp" where
  "stickyAccountID cx groupID sessionHash =
     (if 0 < prefetchedStickyAccountID cx groupID then ret (prefetchedStickyAccountID cx groupID)
      else if sessionHash = [] then ret 0
      else do { r \<leftarrow> GetSessionAccountID (derefGroupID groupID) sessionHash; ret (case r of Inl _ \<Rightarrow> 0 | Inr i \<Rightarrow> i) })"

text \<open>With loads: the layers.\<close>

definition selectWithLoads :: "gateway_service \<Rightarrow> select_ctx \<Rightarrow> sched_db concurrency_service \<Rightarrow> scheduling_config \<Rightarrow> sched_group option \<Rightarrow> int option \<Rightarrow>
    string \<Rightarrow> string \<Rightarrow> int set \<Rightarrow> int \<Rightarrow> selection_result se" where
  "selectWithLoads sv cx c cfg grp groupID sessionHash requestedModel excluded sticky =
     bindE (resolvePlatform cx groupID grp) id (\<lambda>(platform, hasForcePlatform).
     bindE (listSchedulableAccounts sv groupID platform hasForcePlatform) id (\<lambda>(accounts, useMixed).
       if accounts = [] then ret (Inl ErrNoAvailableAccounts)
       else do {
         cx' \<leftarrow> prefetched sv cx accounts;
         selectLayers sv \<lparr>sr_ctx = cx', sr_groupID = groupID, sr_hash = sessionHash, sr_model = requestedModel, sr_excluded = excluded,
             sr_platform = platform, sr_mixed = useMixed, sr_sticky = sticky, sr_cfg = cfg, sr_conc = c\<rparr>
           (platform = PlatformGemini) accounts
           (case grp of
              Some g \<Rightarrow> if requestedModel \<noteq> [] \<and> gx_Platform g = PlatformAnthropic then GetRoutingAccountIDs sv g requestedModel else []
            | None \<Rightarrow> []) }))"

text \<open>Without loads: one round, which ends or finds that the session does not fit the account it chose, and excludes it.\<close>

definition legacyRound :: "gateway_service \<Rightarrow> select_ctx \<Rightarrow> scheduling_config \<Rightarrow> int option \<Rightarrow> string \<Rightarrow> string \<Rightarrow> int \<Rightarrow> int set \<Rightarrow>
    ((go_err + selection_result) + int) sp" where
  "legacyRound sv cx cfg groupID sessionHash requestedModel sticky excluded = do {
     r \<leftarrow> SelectAccountForModelWithExclusions sv cx groupID sessionHash requestedModel excluded;
     case r of
       Inl e \<Rightarrow> ret (Inl (Inl e))
     | Inr a \<Rightarrow> do {
         t \<leftarrow> takeSlot sv a sessionHash;
         case t of
           Taken f \<Rightarrow> do { res \<leftarrow> newSelectionResult sv a True f None; ret (Inl res) }
         | SessionFull \<Rightarrow> ret (Inr (sa_ID a))
         | NoSlot \<Rightarrow> do {
             ok \<leftarrow> checkAndRegisterSession sv a sessionHash;
             if \<not> ok then ret (Inr (sa_ID a))
             else do {
               short \<leftarrow> (case gv_concurrency sv of
                   Some c \<Rightarrow> if 0 < sticky \<and> sticky = sa_ID a
                     then do { n \<leftarrow> waitingCount c (sa_ID a); ret (n < cf_StickySessionMaxWaiting cfg) } else ret False
                 | None \<Rightarrow> ret False);
               res \<leftarrow> newSelectionResult sv a False None (Some (if short then stickyWaitPlan cfg a else fallbackWaitPlan cfg a));
               ret (Inl res) } } } }"

partial_function (option) legacyLoop :: "gateway_service \<Rightarrow> select_ctx \<Rightarrow> scheduling_config \<Rightarrow> int option \<Rightarrow> string \<Rightarrow> string \<Rightarrow> int \<Rightarrow> int set \<Rightarrow>
    sched_db world \<Rightarrow> ((go_err + selection_result) \<times> sched_db world) option" where
  "legacyLoop sv cx cfg groupID sessionHash requestedModel sticky excluded w =
     (case run_state (legacyRound sv cx cfg groupID sessionHash requestedModel sticky excluded) w of
        (Inl res, w') \<Rightarrow> Some (res, w')
      | (Inr i, w') \<Rightarrow> legacyLoop sv cx cfg groupID sessionHash requestedModel sticky (insert i excluded) w')"

declare legacyLoop.simps [code]

text \<open>The search either has its answer or goes on; \<open>None\<close> is a loop that never returns.\<close>

definition SelectAccountWithLoadAwareness :: "gateway_service \<Rightarrow> select_ctx \<Rightarrow> int option \<Rightarrow> string \<Rightarrow> string \<Rightarrow> int set \<Rightarrow> sched_db world \<Rightarrow>
    ((go_err + selection_result) \<times> sched_db world) option" where
  "SelectAccountWithLoadAwareness sv cx groupID sessionHash requestedModel excluded w =
     (let cfg = schedulingConfig sv
      in case run_state (checkClaudeCodeRestriction cx groupID) w of
           (Inl e, w1) \<Rightarrow> Some (Inl e, w1)
         | (Inr (grp, resolved), w1) \<Rightarrow>
             if checkChannelPricingRestriction sv resolved requestedModel then Some (Inl (pricingRestriction requestedModel), w1)
             else (let cx1 = withGroupContext cx grp; (sticky, w2) = run_state (stickyAccountID cx1 resolved sessionHash) w1
                   in case gv_concurrency sv of
                        Some c \<Rightarrow>
                          if cf_LoadBatchEnabled cfg
                          then Some (run_state (selectWithLoads sv cx1 c cfg grp resolved sessionHash requestedModel excluded sticky) w2)
                          else legacyLoop sv cx1 cfg resolved sessionHash requestedModel sticky excluded w2
                      | None \<Rightarrow> legacyLoop sv cx1 cfg resolved sessionHash requestedModel sticky excluded w2))"

end
