(* ===== verification/Snapshot_Laws.thy ===== *)
theory Snapshot_Laws
  imports Sched_Snapshot Slot_Safety
begin

text \<open>
  What the snapshots of \<open>Sched_Snapshot\<close> promise: a snapshot that is written is read back, without the limits it does not keep;
  rebuilding makes it what the database lists, unless the bucket was rebuilt within the last half minute.
\<close>

section \<open>What a snapshot forgets\<close>

text \<open>The quota, the limits by model and by minute, the groups and the privacy of an account are not in its snapshot: there the account is
  within its quota, limited for no model, at any rate of requests schedulable, in no group, and if it is of OpenAI or Antigravity
  without privacy.\<close>

lemma metadata_quota: "\<not> IsQuotaExceeded tz (ga_Quota (sa_gw (buildSchedulerMetadataAccount a))) now1 now2"
  by (simp add: buildSchedulerMetadataAccount_def noQuota_def IsQuotaExceeded_def GetQuotaLimit_def GetQuotaDailyLimit_def GetQuotaWeeklyLimit_def
      getExtraFloat64_def)

lemma metadata_rpm: "CheckRPMSchedulability (buildSchedulerMetadataAccount a) n = WindowCostSchedulable"
  by (simp add: CheckRPMSchedulability_def GetBaseRPM_def buildSchedulerMetadataAccount_def)

lemma metadata_model_limit: "\<not> isModelRateLimitedWithContext thinking now (buildSchedulerMetadataAccount a) m"
  by (simp add: isModelRateLimitedWithContext_def isRateLimitActiveForKey_def buildSchedulerMetadataAccount_def before_def Let_def)

lemma metadata_privacy:
  "IsPrivacySet (buildSchedulerMetadataAccount a) \<longleftrightarrow> sa_Platform a \<noteq> PlatformOpenAI \<and> sa_Platform a \<noteq> PlatformAntigravity"
  by (simp add: IsPrivacySet_def buildSchedulerMetadataAccount_def getExtraString_def)

lemma metadata_groups: "sa_AccountGroups (buildSchedulerMetadataAccount a) = []"
  by (simp add: buildSchedulerMetadataAccount_def)

lemma metadata_schedulable: "IsSchedulable now (buildSchedulerMetadataAccount a) = IsSchedulable now a"
  by (auto simp: IsSchedulable_def IsActive_def buildSchedulerMetadataAccount_def)

lemma metadata_id [simp]: "sa_ID (buildSchedulerMetadataAccount a) = sa_ID a"
  by (simp add: buildSchedulerMetadataAccount_def)

section \<open>Running the commands\<close>

lemma run_cmd: "script w = [] \<Longrightarrow> run_state (cmd f) w = (Inr (), w\<lparr>db := f (db w)\<rparr>)"
  by (simp add: cmd_def run_exec_quiet)

lemma run_mapCmds: "script w = [] \<Longrightarrow> run_state (mapProg (\<lambda>c. c) (map cmd fs)) w = (map (\<lambda>_. Inr ()) fs, w\<lparr>db := fold (\<lambda>f. f) fs (db w)\<rparr>)"
  by (induction fs arbitrary: w) (simp_all add: run_cmd)

lemma firstError_ok: "firstError (map (\<lambda>_. Inr ()) fs) = None"
  by (induction fs) (simp_all add: firstError_def errOf_def)

lemma run_pipeline: "script w = [] \<Longrightarrow> run_state (pipeline (map cmd fs)) w = (Inr (), w\<lparr>db := fold (\<lambda>f. f) fs (db w)\<rparr>)"
  by (simp add: pipeline_def run_mapCmds firstError_ok)

text \<open>What \<open>writeAccounts\<close> does to the store.\<close>

definition putAccount :: "sched_account \<Rightarrow> sched_db \<Rightarrow> sched_db" where
  "putAccount a d = d\<lparr>sd_accounts := (sd_accounts d)(schedulerAccountKey (formatInt (sa_ID a)) \<mapsto> a,
     schedulerAccountMetaKey (formatInt (sa_ID a)) \<mapsto> buildSchedulerMetadataAccount a)\<rparr>"

lemma concat_chunksOf: "concat (chunksOf n xs) = xs"
  by (induction n xs rule: chunksOf.induct) simp_all

lemma account_cmds:
  "[setAccountKey (schedulerAccountKey (formatInt (sa_ID a))) a,
    setAccountKey (schedulerAccountMetaKey (formatInt (sa_ID a))) (buildSchedulerMetadataAccount a)] =
   map cmd [\<lambda>d. d\<lparr>sd_accounts := (sd_accounts d)(schedulerAccountKey (formatInt (sa_ID a)) \<mapsto> a)\<rparr>,
            \<lambda>d. d\<lparr>sd_accounts := (sd_accounts d)(schedulerAccountMetaKey (formatInt (sa_ID a)) \<mapsto> buildSchedulerMetadataAccount a)\<rparr>]"
  by (simp add: setAccountKey_def)

lemma fold_account_cmds:
  "fold (\<lambda>f. f) (concat (map (\<lambda>a.
       [\<lambda>d. d\<lparr>sd_accounts := (sd_accounts d)(schedulerAccountKey (formatInt (sa_ID a)) \<mapsto> a)\<rparr>,
        \<lambda>d. d\<lparr>sd_accounts := (sd_accounts d)(schedulerAccountMetaKey (formatInt (sa_ID a)) \<mapsto> buildSchedulerMetadataAccount a)\<rparr>]) as)) d =
   fold putAccount as d"
  by (induction as arbitrary: d) (simp_all add: putAccount_def)

lemma concat_map_cmd: "concat (map (\<lambda>a. map g (f a)) as) = map g (concat (map f as))"
  by (induction as) simp_all

lemma run_writeChunks: "script w = [] \<Longrightarrow> run_state (writeChunks ass) w = (Inr (), w\<lparr>db := fold putAccount (concat ass) (db w)\<rparr>)"
proof (induction ass arbitrary: w)
  case (Cons as ass)
  show ?case
    using Cons by (simp add: run_bindE account_cmds concat_map_cmd run_pipeline fold_account_cmds del: list.map(2))
qed simp

lemma run_writeAccounts: "script w = [] \<Longrightarrow> run_state (writeAccounts c as) w = (Inr (), w\<lparr>db := fold putAccount as (db w)\<rparr>)"
  by (simp add: writeAccounts_def run_writeChunks concat_chunksOf)

section \<open>A snapshot is read back\<close>

lemma account_keys [simp]:
  "schedulerAccountKey s \<noteq> schedulerAccountMetaKey t" "schedulerAccountMetaKey t \<noteq> schedulerAccountKey s"
  "schedulerAccountKey s = schedulerAccountKey t \<longleftrightarrow> s = t" "schedulerAccountMetaKey s = schedulerAccountMetaKey t \<longleftrightarrow> s = t"
  by (simp_all add: schedulerAccountKey_def schedulerAccountMetaKey_def schedulerAccountPrefix_def schedulerAccountMetaPrefix_def)

lemma bucket_keys [simp]:
  "schedulerBucketKey schedulerActivePrefix b \<noteq> schedulerBucketKey schedulerReadyPrefix b'"
  "schedulerBucketKey schedulerReadyPrefix b' \<noteq> schedulerBucketKey schedulerActivePrefix b"
  by (simp_all add: schedulerBucketKey_def schedulerActivePrefix_def schedulerReadyPrefix_def)

lemma dash_natDigits: "CHR ''-'' # xs \<noteq> natDigits n"
  using digit_no_dash [of n] by (metis list.set_intros(1))

lemma formatInt_eq [simp]: "formatInt a = formatInt b \<longleftrightarrow> a = b"
  using dash_natDigits dash_natDigits [symmetric] natDigits_inj [of "nat (- a)" "nat (- b)"] natDigits_inj [of "nat a" "nat b"]
  by (auto simp: formatInt_def split: if_splits)

lemma sched_frame [simp]:
  "zmembers (d\<lparr>sd_accounts := x\<rparr>) k = zmembers d k" "zmembers (d\<lparr>sd_strings := y\<rparr>) k = zmembers d k"
  "zmembers (d\<lparr>sd_buckets := z\<rparr>) k = zmembers d k" "zmembers (numAdd k' n d) k = zmembers d k"
  "numGet (d\<lparr>sd_accounts := x\<rparr>) k = numGet d k" "numGet (d\<lparr>sd_strings := y\<rparr>) k = numGet d k"
  "numGet (d\<lparr>sd_buckets := z\<rparr>) k = numGet d k"
  by (auto simp: zmembers_def numGet_def unexpired_def numAdd_def split: option.splits)

lemma zcommands_frame [simp]:
  "sd_accounts (zwrite key ms d) = sd_accounts d" "sd_strings (zwrite key ms d) = sd_strings d" "sd_rows (zwrite key ms d) = sd_rows d"
  "sd_bindings (zwrite key ms d) = sd_bindings d" "sd_groups (zwrite key ms d) = sd_groups d"
  "sd_accounts (zdel key d) = sd_accounts d" "sd_strings (zdel key d) = sd_strings d" "sd_rows (zdel key d) = sd_rows d"
  "sd_bindings (zdel key d) = sd_bindings d" "sd_groups (zdel key d) = sd_groups d"
  "sd_accounts (numAdd key n d) = sd_accounts d" "sd_strings (numAdd key n d) = sd_strings d" "sd_rows (numAdd key n d) = sd_rows d"
  "sd_bindings (numAdd key n d) = sd_bindings d" "sd_groups (numAdd key n d) = sd_groups d"
  by (simp_all add: zwrite_def zdel_def numAdd_def)

lemma putAccounts_frame [simp]:
  "zmembers (fold putAccount as d) k = zmembers d k" "sd_strings (fold putAccount as d) = sd_strings d"
  "sd_rows (fold putAccount as d) = sd_rows d" "sd_bindings (fold putAccount as d) = sd_bindings d" "sd_groups (fold putAccount as d) = sd_groups d"
  by (induction as arbitrary: d) (simp_all add: putAccount_def)

lemma putAccounts_other:
  "i \<notin> sa_ID ` set as \<Longrightarrow> sd_accounts (fold putAccount as d) (schedulerAccountMetaKey (formatInt i)) = sd_accounts d (schedulerAccountMetaKey (formatInt i))"
  "i \<notin> sa_ID ` set as \<Longrightarrow> sd_accounts (fold putAccount as d) (schedulerAccountKey (formatInt i)) = sd_accounts d (schedulerAccountKey (formatInt i))"
  by (induction as arbitrary: d) (simp_all add: putAccount_def)

lemma putAccounts_get:
  assumes "a \<in> set as" "distinct (map sa_ID as)"
  shows "sd_accounts (fold putAccount as d) (schedulerAccountMetaKey (formatInt (sa_ID a))) = Some (buildSchedulerMetadataAccount a)"
    "sd_accounts (fold putAccount as d) (schedulerAccountKey (formatInt (sa_ID a))) = Some a"
  using assms by (induction as arbitrary: d) (auto simp: putAccounts_other putAccount_def)

lemma insortBy_last: "\<forall>y \<in> set ys. lt y x \<Longrightarrow> insortBy lt x ys = ys @ [x]"
  by (induction ys) simp_all

lemma sortStable_rev: "sorted_wrt lt xs \<Longrightarrow> sortStable lt (rev xs) = xs"
proof (induction xs rule: rev_induct)
  case (snoc x xs)
  then show ?case by (simp add: sortStable_def sorted_wrt_append insortBy_last)
qed (simp add: sortStable_def)

lemma zadds_members:
  "distinct (map fst ms) \<Longrightarrow> \<forall>m \<in> set (map fst ms). m \<notin> fst ` set (zmembers d key) \<Longrightarrow>
   zmembers (fold (\<lambda>(m, s). zadd key s m) ms d) k = (if k = key then rev ms @ zmembers d key else zmembers d k)"
proof (induction ms arbitrary: d)
  case (Cons p ms)
  obtain m s where p: "p = (m, s)" by fastforce
  have "filter (\<lambda>(x, _). x \<noteq> m) (zmembers d key) = zmembers d key"
    using Cons.prems(2) p by (force simp: filter_id_conv)
  then have "zmembers (zadd key s m d) k' = (if k' = key then (m, s) # zmembers d key else zmembers d k')" for k'
    by (simp add: zadd_def)
  moreover have "\<forall>x \<in> set (map fst ms). x \<notin> fst ` set (zmembers (zadd key s m d) key)"
    using Cons.prems p calculation [of key] by auto
  ultimately show ?case using Cons.IH [of "zadd key s m d"] Cons.prems p by simp
qed simp

lemma zadds_frame [simp]:
  "sd_accounts (fold (\<lambda>(m, s). zadd key s m) ms d) = sd_accounts d" "sd_strings (fold (\<lambda>(m, s). zadd key s m) ms d) = sd_strings d"
  by (induction ms arbitrary: d) (simp_all add: zadd_def split: prod.splits)

lemma fold_chunks: "fold (\<lambda>f. f) (map (\<lambda>ms. fold g ms) mss) d = fold g (concat mss) d"
  by (induction mss arbitrary: d) simp_all

abbreviation nextVersion :: "sched_db \<Rightarrow> scheduler_bucket \<Rightarrow> string" where
  "nextVersion d b \<equiv> formatInt ((case numGet d (schedulerBucketKey schedulerVersionPrefix b) of None \<Rightarrow> 0 | Some n \<Rightarrow> n) + 1)"

text \<open>The members of the snapshot that a bucket has.\<close>

definition activeSnapshot :: "sched_db \<Rightarrow> scheduler_bucket \<Rightarrow> string option" where
  "activeSnapshot d b =
     (if sd_strings d (schedulerBucketKey schedulerReadyPrefix b) = Some ''1''
      then map_option (schedulerSnapshotKey b) (sd_strings d (schedulerBucketKey schedulerActivePrefix b)) else None)"

lemma run_mgetChunks: "script w = [] \<Longrightarrow> run_state (mgetChunks kss) w = (Inr (map (sd_accounts (db w)) (concat kss)), w)"
  by (induction kss) (simp_all add: run_simps)

lemma run_GetSnapshot:
  assumes "script w = []"
  shows "run_state (GetSnapshot c b) w =
    (Inr (case activeSnapshot (db w) b of
        None \<Rightarrow> None
      | Some key \<Rightarrow> (let vals = map (sd_accounts (db w) \<circ> schedulerAccountMetaKey) (zrange (db w) key)
                      in if vals = [] \<or> None \<in> set vals then None else Some (map the vals))), w)"
proof -
  have "run_state (mgetChunked c ks) w = (Inr (map (sd_accounts (db w)) ks), w)" for ks
    using assms by (simp add: mgetChunked_def run_mgetChunks concat_chunksOf)
  then show ?thesis using assms
    by (auto simp: GetSnapshot_def getString_def activeSnapshot_def run_simps nilReply_def Let_def split: option.splits)
qed

definition snapshotMembers :: "sched_account list \<Rightarrow> (string \<times> int) list" where
  "snapshotMembers accounts = map (\<lambda>(i, a). (formatInt (sa_ID a), int i)) (enumerate 0 accounts)"

lemma snapshotMembers_names: "map fst (snapshotMembers accounts) = map (\<lambda>a. formatInt (sa_ID a)) accounts"
  by (rule nth_equalityI) (simp_all add: snapshotMembers_def split_def nth_enumerate_eq)

lemma snapshotMembers_sorted: "sorted_wrt (\<lambda>(m, s) (n, t). s < t \<or> s = t \<and> strLess m n) (snapshotMembers accounts)"
  by (simp add: snapshotMembers_def sorted_wrt_map sorted_wrt_iff_nth_less split_def nth_enumerate_eq)

definition storeSnapshot :: "scheduler_bucket \<Rightarrow> string \<Rightarrow> sched_account list \<Rightarrow> sched_db \<Rightarrow> sched_db" where
  "storeSnapshot b v accounts d =
     (let d1 = (if accounts \<noteq> [] then fold (\<lambda>(m, s). zadd (schedulerSnapshotKey b v) s m) (snapshotMembers accounts) d
                else zdel (schedulerSnapshotKey b v) d)
      in saddBucket (bucketString b) (d1\<lparr>sd_strings := (sd_strings d1)(schedulerBucketKey schedulerActivePrefix b \<mapsto> v,
           schedulerBucketKey schedulerReadyPrefix b \<mapsto> ''1'')\<rparr>))"

lemma run_snapshotCmds:
  assumes "script w = []"
  shows "run_state (pipeline (snapshotCmds c b v accounts)) w = (Inr (), w\<lparr>db := storeSnapshot b v accounts (db w)\<rparr>)"
proof -
  let ?fs = "(if accounts \<noteq> [] then map (\<lambda>ms. fold (\<lambda>(m, s). zadd (schedulerSnapshotKey b v) s m) ms) (chunksOf (writeChunkSize c) (snapshotMembers accounts))
      else [zdel (schedulerSnapshotKey b v)]) @
     [\<lambda>d. d\<lparr>sd_strings := (sd_strings d)(schedulerBucketKey schedulerActivePrefix b \<mapsto> v)\<rparr>,
      \<lambda>d. d\<lparr>sd_strings := (sd_strings d)(schedulerBucketKey schedulerReadyPrefix b \<mapsto> ''1'')\<rparr>, saddBucket (bucketString b)]"
  have "snapshotCmds c b v accounts = map cmd ?fs"
    by (simp add: snapshotCmds_def snapshotMembers_def zaddMembers_def setString_def Let_def)
  then show ?thesis using assms
    by (simp only: run_pipeline) (simp add: storeSnapshot_def fold_chunks concat_chunksOf Let_def)
qed

abbreviation oldVersion :: "sched_db \<Rightarrow> scheduler_bucket \<Rightarrow> string" where
  "oldVersion d b \<equiv> (case sd_strings d (schedulerBucketKey schedulerActivePrefix b) of None \<Rightarrow> [] | Some v \<Rightarrow> v)"

definition replacedSnapshot :: "scheduler_bucket \<Rightarrow> sched_account list \<Rightarrow> sched_db \<Rightarrow> sched_db" where
  "replacedSnapshot b accounts d =
     (let d1 = storeSnapshot b (nextVersion d b) accounts (fold putAccount accounts (numAdd (schedulerBucketKey schedulerVersionPrefix b) 1 d))
      in if oldVersion d b \<noteq> [] \<and> oldVersion d b \<noteq> nextVersion d b then zdel (schedulerSnapshotKey b (oldVersion d b)) d1 else d1)"

lemma numGet_numAdd_same: "numGet (numAdd key n d) key = Some ((case numGet d key of None \<Rightarrow> 0 | Some v \<Rightarrow> v) + n)"
  by (auto simp: numGet_def numAdd_def unexpired_def split: option.splits if_splits)

lemma run_SetSnapshot:
  assumes "script w = []"
  shows "run_state (SetSnapshot c b accounts) w = (Inr (), w\<lparr>db := replacedSnapshot b accounts (db w)\<rparr>)"
proof -
  have "run_state (getString key) w = (case sd_strings (db w) key of None \<Rightarrow> Inl nilReply | Some v \<Rightarrow> Inr v, w)" for key
    using assms by (simp add: getString_def run_exec_quiet)
  then show ?thesis using assms
    by (cases "sd_strings (db w) (schedulerBucketKey schedulerActivePrefix b)")
      (simp_all add: SetSnapshot_def incrVersion_def run_simps run_writeAccounts run_snapshotCmds run_cmd numGet_numAdd_same Let_def
        replacedSnapshot_def)
qed

lemma snapshotKey_inj [simp]: "schedulerSnapshotKey b v = schedulerSnapshotKey b v' \<longleftrightarrow> v = v'"
  by (simp add: schedulerSnapshotKey_def)


lemma replaced_members:
  assumes "distinct (map sa_ID accounts)" "zmembers d (schedulerSnapshotKey b (nextVersion d b)) = []"
  shows "zmembers (replacedSnapshot b accounts d) (schedulerSnapshotKey b (nextVersion d b)) = rev (snapshotMembers accounts)"
proof -
  have n: "distinct (map fst (snapshotMembers accounts))"
    using assms(1) by (simp add: snapshotMembers_names distinct_map inj_on_def)
  have "zmembers (storeSnapshot b (nextVersion d b) accounts e) (schedulerSnapshotKey b (nextVersion d b)) = rev (snapshotMembers accounts)"
    if "zmembers e (schedulerSnapshotKey b (nextVersion d b)) = []" for e
    using that zadds_members [OF n, of e "schedulerSnapshotKey b (nextVersion d b)"]
    by (simp add: storeSnapshot_def saddBucket_def snapshotMembers_def Let_def)
  then show ?thesis using assms(2) by (simp add: replacedSnapshot_def Let_def)
qed

lemma replaced_strings:
  "activeSnapshot (replacedSnapshot b accounts d) b = Some (schedulerSnapshotKey b (nextVersion d b))"
  by (simp add: activeSnapshot_def replacedSnapshot_def storeSnapshot_def saddBucket_def Let_def)

lemma replaced_accounts: "sd_accounts (replacedSnapshot b accounts d) = sd_accounts (fold putAccount accounts (numAdd k 1 d))"
proof -
  have "sd_accounts (fold putAccount accounts e) = sd_accounts (fold putAccount accounts e')" if "sd_accounts e = sd_accounts e'" for e e'
    using that by (induction accounts arbitrary: e e') (simp_all add: putAccount_def)
  from this [of "numAdd (schedulerBucketKey schedulerVersionPrefix b) 1 d" "numAdd k 1 d"] show ?thesis
    by (simp add: replacedSnapshot_def storeSnapshot_def saddBucket_def Let_def)
qed

lemma snapshot_read_back:
  assumes "script w = []" "accounts \<noteq> []" "distinct (map sa_ID accounts)"
    and "zmembers (db w) (schedulerSnapshotKey b (nextVersion (db w) b)) = []"
  shows "fst (run_state (GetSnapshot c' b) (snd (run_state (SetSnapshot c b accounts) w))) =
    Inr (Some (map buildSchedulerMetadataAccount accounts))"
proof -
  let ?d = "replacedSnapshot b accounts (db w)" and ?key = "schedulerSnapshotKey b (nextVersion (db w) b)"
  have z: "zrange ?d ?key = map (\<lambda>a. formatInt (sa_ID a)) accounts"
    using replaced_members [OF assms(3,4)] snapshotMembers_sorted
    by (simp add: zrange_def sortStable_rev snapshotMembers_names)
  have v: "sd_accounts ?d (schedulerAccountMetaKey (formatInt (sa_ID a))) = Some (buildSchedulerMetadataAccount a)" if "a \<in> set accounts" for a
    using putAccounts_get(1) [OF that assms(3)] by (simp add: replaced_accounts [of _ _ _ "[]"])
  then have "map (sd_accounts ?d \<circ> schedulerAccountMetaKey) (zrange ?d ?key) = map (Some \<circ> buildSchedulerMetadataAccount) accounts"
    by (simp add: z)
  then show ?thesis using assms(1,2) by (auto simp: run_SetSnapshot run_GetSnapshot replaced_strings Let_def)
qed

text \<open>C24. A snapshot that is written is read back in the same order, with each account reduced to what snapshots keep of it: in a run in which
  nothing fails, after accounts with different identifiers have been written to a bucket under a new version, reading the bucket
  finds them, however the two divide their commands into chunks.\<close>

theorem snapshot_roundtrip:
  assumes "script w = []" "accounts \<noteq> []" "distinct (map sa_ID accounts)"
    and "zmembers (db w) (schedulerSnapshotKey b (nextVersion (db w) b)) = []"
  shows "fst (run_state (GetSnapshot c' b) (snd (run_state (SetSnapshot c b accounts) w))) =
    Inr (Some (map buildSchedulerMetadataAccount accounts))"
  by (rule snapshot_read_back [OF assms])

section \<open>Rebuilding\<close>

abbreviation lockedBucket :: "sched_db \<Rightarrow> scheduler_bucket \<Rightarrow> bool" where
  "lockedBucket d b \<equiv> numGet d (schedulerBucketKey schedulerLockPrefix b) \<noteq> None"

definition snapshotIDs :: "sched_db \<Rightarrow> scheduler_bucket \<Rightarrow> string list" where
  "snapshotIDs d b = (case activeSnapshot d b of None \<Rightarrow> [] | Some key \<Rightarrow> zrange d key)"

lemma run_timeNow_quiet: "script w = [] \<Longrightarrow> script (snd (run_state timeNow w)) = [] \<and> db (snd (run_state timeNow w)) = db w"
  by (simp add: timeNow_def split: list.splits)

lemma rebuild_locked:
  assumes "script w = []" "ss_cache s = Some c" "lockedBucket (db w) b"
  shows "\<exists>w'. run_state (rebuildBucket s b) w = (Inr (), w') \<and> script w' = [] \<and> db w' = db w"
proof -
  obtain t w1 where t: "run_state timeNow w = (t, w1)" by fastforce
  then have "script w1 = []" "db w1 = db w" using run_timeNow_quiet [OF assms(1)] by simp_all
  then show ?thesis using assms t by (auto simp: rebuildBucket_def TryLockBucket_def run_simps)
qed

lemma runAll_idle:
  assumes "script w = []" "\<And>m w1. m \<in> set ms \<Longrightarrow> script w1 = [] \<Longrightarrow> db w1 = db w \<Longrightarrow>
      \<exists>w'. run_state m w1 = (Inr (), w') \<and> script w' = [] \<and> db w' = db w"
  shows "\<exists>w'. run_state (runAll ms) w = (Inr (), w') \<and> script w' = [] \<and> db w' = db w"
proof -
  have "\<exists>rs w'. run_state (mapProg (\<lambda>c. c) ms) w1 = (rs, w') \<and> script w' = [] \<and> db w' = db w \<and> firstError rs = None"
    if "script w1 = []" "db w1 = db w" for w1
    using that assms(2)
  proof (induction ms arbitrary: w1)
    case (Cons m ms)
    obtain w2 where w2: "run_state m w1 = (Inr (), w2)" "script w2 = []" "db w2 = db w"
      using Cons.prems by (metis list.set_intros(1))
    obtain rs w3 where "run_state (mapProg (\<lambda>c. c) ms) w2 = (rs, w3)" "script w3 = []" "db w3 = db w" "firstError rs = None"
      using Cons.IH [OF w2(2,3)] Cons.prems(3) by (metis list.set_intros(2))
    then show ?case using w2 by (simp add: firstError_def errOf_def)
  qed (simp add: firstError_def)
  from this [of w] show ?thesis using assms(1) by (auto simp: pipeline_def)
qed

lemma rebuildPlatform_locked:
  assumes "script w = []" "ss_cache s = Some c" "\<And>g b. g \<in> set gs \<Longrightarrow> b \<in> set (bucketsOf g p) \<Longrightarrow> lockedBucket (db w) b"
  shows "\<exists>w'. run_state (rebuildBucketsForPlatform s p gs) w = (Inr (), w') \<and> script w' = [] \<and> db w' = db w"
proof -
  have "\<exists>w'. run_state (runAll (map (rebuildBucket s) (concat (map (\<lambda>gid. bucketsOf gid p) gs)))) w = (Inr (), w') \<and> script w' = [] \<and> db w' = db w"
  proof (rule runAll_idle [OF assms(1)])
    fix m and w1 :: "sched_db world"
    assume m: "m \<in> set (map (rebuildBucket s) (concat (map (\<lambda>gid. bucketsOf gid p) gs)))" and w1: "script w1 = []" "db w1 = db w"
    then obtain b where "m = rebuildBucket s b" "lockedBucket (db w1) b" using assms(3) by auto
    then show "\<exists>w'. run_state m w1 = (Inr (), w') \<and> script w' = [] \<and> db w' = db w"
      using rebuild_locked [OF w1(1) assms(2)] w1(2) by simp
  qed
  then show ?thesis using assms(1) by (auto simp: rebuildBucketsForPlatform_def)
qed

lemma rebuildByAccount_locked:
  assumes "script w = []" "ss_cache s = Some c"
    and "\<And>g p b. g \<in> set (normalizeGroupIDs s gs) \<Longrightarrow> p \<in> {sa_Platform a, PlatformAnthropic, PlatformGemini} \<Longrightarrow> b \<in> set (bucketsOf g p) \<Longrightarrow> lockedBucket (db w) b"
  shows "\<exists>w'. run_state (rebuildByAccount s a gs) w = (Inr (), w') \<and> script w' = [] \<and> db w' = db w"
proof -
  let ?ms = "[rebuildBucketsForPlatform s (sa_Platform a) (normalizeGroupIDs s gs)] @
     (if sa_Platform a = PlatformAntigravity \<and> IsMixedSchedulingEnabled a
      then [rebuildBucketsForPlatform s PlatformAnthropic (normalizeGroupIDs s gs), rebuildBucketsForPlatform s PlatformGemini (normalizeGroupIDs s gs)] else [])"
  have "\<exists>w'. run_state (runAll ?ms) w = (Inr (), w') \<and> script w' = [] \<and> db w' = db w"
  proof (rule runAll_idle [OF assms(1)])
    fix m and w1 :: "sched_db world"
    assume m: "m \<in> set ?ms" and w1: "script w1 = []" "db w1 = db w"
    obtain p where p: "m = rebuildBucketsForPlatform s p (normalizeGroupIDs s gs)" "p \<in> {sa_Platform a, PlatformAnthropic, PlatformGemini}"
      using m by (simp split: if_splits) blast+
    then show "\<exists>w'. run_state m w1 = (Inr (), w') \<and> script w' = [] \<and> db w' = db w"
      using rebuildPlatform_locked [OF w1(1) assms(2), of "normalizeGroupIDs s gs" p] assms(3) w1(2) by simp
  qed
  then show ?thesis using assms(1) by (auto simp: rebuildByAccount_def Let_def)
qed

text \<open>What the database lists for a bucket.\<close>

definition rowsOf :: "snapshot_service \<Rightarrow> scheduler_bucket \<Rightarrow> string list \<Rightarrow> instant \<Rightarrow> sched_db \<Rightarrow> sched_account list" where
  "rowsOf s b platforms now d =
     (if \<not> ss_simple s \<and> 0 < sb_GroupID b then groupRows (sb_GroupID b) (\<lambda>a. sa_Platform a \<in> set platforms \<and> schedulableRow now a) d
      else byPriority (filter (\<lambda>a. sa_Platform a \<in> set platforms \<and> schedulableRow now a \<and> (ss_simple s \<or> \<not> isBound d a)) (sd_rows d)))"

definition listedRows :: "snapshot_service \<Rightarrow> scheduler_bucket \<Rightarrow> bool \<Rightarrow> instant \<Rightarrow> sched_db \<Rightarrow> sched_account list" where
  "listedRows s b useMixed now d =
     (if useMixed then filter usableMixed (rowsOf s b [sb_Platform b, PlatformAntigravity] now d) else rowsOf s b [sb_Platform b] now d)"

lemma run_load:
  assumes "script w = []" "ticks w = []" "ss_accountRepo s"
  shows "run_state (loadAccountsFromDB s b useMixed) w = (Inr (listedRows s b useMixed (clock w) (db w)), w)"
  using assms
  by (auto simp: loadAccountsFromDB_def listedRows_def rowsOf_def run_simps ListSchedulableByGroupIDAndPlatforms_def
      ListSchedulableByGroupIDAndPlatform_def queryAccountsByGroup_def ListSchedulableByPlatforms_def ListSchedulableByPlatform_def
      ListSchedulableUngroupedByPlatforms_def ListSchedulableUngroupedByPlatform_def Let_def)

lemma numSet_frame [simp]:
  "zmembers (numSet k v t d) k' = zmembers d k'" "sd_rows (numSet k v t d) = sd_rows d" "sd_bindings (numSet k v t d) = sd_bindings d"
  "k' \<noteq> k \<Longrightarrow> numGet (numSet k v t d) k' = numGet d k'"
  by (auto simp: numSet_def zmembers_def numGet_def unexpired_def split: option.splits)

lemma listedRows_cong:
  assumes "sd_rows d = sd_rows d'" "sd_bindings d = sd_bindings d'"
  shows "listedRows s b m now d = listedRows s b m now d'"
proof -
  have "groupRows g p d = groupRows g p d'" "isBound d = isBound d'" for g p
    using assms by (simp_all only: groupRows_def isBound_def fun_eq_iff simp_thms)
  then show ?thesis using assms(1) by (simp add: listedRows_def rowsOf_def)
qed

lemma listedRows_numSet: "listedRows s b m now (numSet k v t d) = listedRows s b m now d"
  by (rule listedRows_cong) simp_all

lemma lock_version: "schedulerBucketKey schedulerVersionPrefix b \<noteq> schedulerBucketKey schedulerLockPrefix b'"
  by (simp add: schedulerBucketKey_def schedulerVersionPrefix_def schedulerLockPrefix_def)

text \<open>C23. Rebuilding a bucket that was not rebuilt within the last half minute makes its snapshot what the database lists: in a run in which nothing
  fails, the snapshot has the accounts of the bucket that may be used at that time, in the order of their priorities.\<close>

theorem rebuild_refreshes:
  assumes "script w = []" "ticks w = []" "ss_cache s = Some c" "ss_accountRepo s" "\<not> lockedBucket (db w) b"
    and "listedRows s b (sb_Mode b = SchedulerModeMixed) (clock w) (db w) = accounts" "accounts \<noteq> []" "distinct (map sa_ID accounts)"
    and "zmembers (db w) (schedulerSnapshotKey b (nextVersion (db w) b)) = []"
  shows "fst (run_state (GetSnapshot c b) (snd (run_state (rebuildBucket s b) w))) = Inr (Some (map buildSchedulerMetadataAccount accounts))"
proof -
  let ?w = "w\<lparr>db := numSet (schedulerBucketKey schedulerLockPrefix b) (clock w) (bucketLockSeconds * 1000) (db w)\<rparr>"
  have "run_state (rebuildBucket s b) w = run_state (SetSnapshot c b accounts) ?w"
    using assms(1-6) by (simp add: rebuildBucket_def TryLockBucket_def run_simps run_load listedRows_numSet)
  moreover have "fst (run_state (GetSnapshot c b) (snd (run_state (SetSnapshot c b accounts) ?w))) = Inr (Some (map buildSchedulerMetadataAccount accounts))"
    using assms(1,7-9) lock_version by (intro snapshot_read_back) simp_all
  ultimately show ?thesis by simp
qed

section \<open>Events\<close>

lemma snapshotIDs_putAccount: "snapshotIDs (fold putAccount as d) b = snapshotIDs d b"
  by (simp add: snapshotIDs_def activeSnapshot_def zrange_def split: option.splits)

lemma numGet_putAccount [simp]: "numGet (fold putAccount as d) k = numGet d k"
  by (induction as arbitrary: d) (simp_all add: putAccount_def)

lemma run_SetAccount: "script w = [] \<Longrightarrow> 0 < sa_ID a \<Longrightarrow> run_state (SetAccount c a) w = (Inr (), w\<lparr>db := putAccount a (db w)\<rparr>)"
  by (simp add: SetAccount_def run_writeAccounts)

lemma account_event_locked:
  assumes "script w = []" "ss_cache s = Some c" "ss_accountRepo s" "0 < i" "tget (\<lambda>a. sa_ID a = i) (sd_rows (db w)) = Some a"
    and "ob_EventType e = AccountGroupsChangedEvent" "ob_AccountID e = Some i"
    and "\<And>g p b. g \<in> set (normalizeGroupIDs s (if groupIDsOf (ob_Payload e) = [] then sa_AccountGroups a else groupIDsOf (ob_Payload e))) \<Longrightarrow>
      p \<in> {sa_Platform a, PlatformAnthropic, PlatformGemini} \<Longrightarrow> b \<in> set (bucketsOf g p) \<Longrightarrow> lockedBucket (db w) b"
  shows "\<exists>w'. run_state (handleOutboxEvent s e) w = (Inr (), w') \<and> script w' = [] \<and> db w' = putAccount a (db w)"
proof -
  have i: "sa_ID a = i" using tget_Some [OF assms(5)] by simp
  let ?w = "w\<lparr>db := putAccount a (db w)\<rparr>"
  have n: "numGet (putAccount a (db w)) k = numGet (db w) k" for k using numGet_putAccount [of "[a]"] by simp
  from rebuildByAccount_locked [of ?w s c "if groupIDsOf (ob_Payload e) = [] then sa_AccountGroups a else groupIDsOf (ob_Payload e)" a]
  obtain w' where "run_state (rebuildByAccount s a (if groupIDsOf (ob_Payload e) = [] then sa_AccountGroups a else groupIDsOf (ob_Payload e))) ?w = (Inr (), w')"
    "script w' = []" "db w' = putAccount a (db w)"
    using assms(1,2,8) n by auto
  then show ?thesis using assms(1-7) i
    by (simp add: handleOutboxEvent_def handleAccountEvent_def AccountLastUsedEvent_def AccountBulkChangedEvent_def AccountGroupsChangedEvent_def
        accGetByID_def run_simps run_SetAccount)
qed

text \<open>C38. An event that arrives while its buckets are locked is lost: \<open>rebuildBucket\<close> takes the lock for half a minute, never gives it
  back, and counts a bucket that is locked as rebuilt. In a run in which nothing fails, polling the outbox then
  moves the watermark beyond the event although every snapshot lists the accounts it listed before; an account that has left a group goes on
  being scheduled for it, and one that has joined is not, until a later event or the full rebuild.\<close>

theorem event_lost_while_locked:
  assumes "script w = []" "ss_cache s = Some c" "ss_accountRepo s" "ss_outboxRepo s" "ss_cfg s = None"
    and "numGet (db w) schedulerOutboxWatermarkKey = Some m" "filter (\<lambda>e. m < ob_ID e) (sd_outbox (db w)) = [e]"
    and "ob_EventType e = AccountGroupsChangedEvent" "ob_AccountID e = Some i" "0 < i" "tget (\<lambda>a. sa_ID a = i) (sd_rows (db w)) = Some a"
    and "\<And>g p b. g \<in> set (normalizeGroupIDs s (if groupIDsOf (ob_Payload e) = [] then sa_AccountGroups a else groupIDsOf (ob_Payload e))) \<Longrightarrow>
      p \<in> {sa_Platform a, PlatformAnthropic, PlatformGemini} \<Longrightarrow> b \<in> set (bucketsOf g p) \<Longrightarrow> lockedBucket (db w) b"
    and "db (snd (run_state (pollOutbox s) w)) = d'"
  shows "numGet d' schedulerOutboxWatermarkKey = Some (ob_ID e) \<and> (\<forall>b. snapshotIDs d' b = snapshotIDs (db w) b)"
proof -
  have "\<exists>w'. run_state (handleOutboxEvent s e) w = (Inr (), w') \<and> script w' = [] \<and> db w' = putAccount a (db w)"
    by (rule account_event_locked [OF assms(1-3,10,11,8,9)]) (rule assms(12))
  then obtain w1 where w1: "run_state (handleOutboxEvent s e) w = (Inr (), w1)" "script w1 = []" "db w1 = putAccount a (db w)"
    by blast
  let ?d = "(db w1)\<lparr>cc_nums := (cc_nums (db w1))(schedulerOutboxWatermarkKey \<mapsto> (ob_ID e, None))\<rparr>"
  have "db (snd (run_state (pollOutbox s) w)) = ?d"
    using assms(1-7) w1(1,2)
    by (simp add: pollOutbox_def GetOutboxWatermark_def getCmd_def ListAfter_def SetOutboxWatermark_def checkOutboxLag_def run_simps run_cmd
        sortStable_def)
  then have d': "d' = ?d" using assms(13) by simp
  have "zrange ?d k = zrange (db w1) k" for k by (simp add: zrange_def)
  then have "snapshotIDs ?d b = snapshotIDs (db w1) b" for b by (simp add: snapshotIDs_def activeSnapshot_def split: option.splits)
  also have "snapshotIDs (db w1) b = snapshotIDs (db w) b" for b using snapshotIDs_putAccount [of "[a]"] w1(3) by simp
  finally have "snapshotIDs ?d b = snapshotIDs (db w) b" for b .
  then show ?thesis by (simp add: d' numGet_def unexpired_def)
qed

section \<open>Instances\<close>

definition sampleAccount :: "int \<Rightarrow> sched_account" where
  "sampleAccount i =
    \<lparr>sa_gw = \<lparr>ga_ID = i, ga_Platform = PlatformAnthropic, ga_Type = AccountTypeAPIKey, ga_RateMultiplier = None,
       ga_Quota = noQuota\<lparr>qx_Limit := Some 5, qx_Used := Some 7\<rparr>, ga_CacheTTLOverrideEnabled = None, ga_CacheTTLOverrideTarget = None\<rparr>,
     sa_Concurrency = 1, sa_Priority = 1, sa_LoadFactor = None, sa_Status = StatusActive,
     sa_Schedulable = True, sa_LastUsedAt = None, sa_ExpiresAt = None,
     sa_AutoPauseOnExpired = False, sa_RateLimitResetAt = None, sa_OverloadUntil = None,
     sa_TempUnschedulableUntil = None, sa_SessionWindowStart = None,
     sa_SessionWindowEnd = None, sa_AccountGroups = [3], sa_ModelMapping = [],
     sa_AwsRegion = [], sa_AwsForceGlobal = [], sa_PrivacyMode = None, sa_MixedScheduling = None,
     sa_AllowOverages = None, sa_OpenAIPassthrough = None, sa_OpenAIOAuthPassthrough = None, sa_ModelRateLimits = (\<lambda>_. None),
     sa_WindowCostLimit = None, sa_WindowCostStickyReserve = None, sa_MaxSessions = None, sa_SessionIdleTimeoutMinutes = None,
     sa_BaseRPM = None, sa_RPMStrategy = None, sa_RPMStickyBuffer = None\<rparr>"

definition sampleCache :: scheduler_cache where
  "sampleCache = newSchedulerCacheWithChunkSizes 0 0"

definition sampleSnapshots :: snapshot_service where
  "sampleSnapshots = \<lparr>ss_cache = Some sampleCache, ss_outboxRepo = True, ss_accountRepo = True, ss_groupRepo = True, ss_simple = False,
     ss_cfg = None, ss_maxQPS = 0, ss_range = (\<lambda>gs. gs)\<rparr>"

text \<open>A store with the account 7, bound to group 3.\<close>

definition sampleSched :: sched_db where
  "sampleSched = \<lparr>cc_now = 0, cc_zsets = (\<lambda>_. None), cc_nums = (\<lambda>_. None), cc_seq = (\<lambda>_. 0), sd_accounts = (\<lambda>_. None), sd_strings = (\<lambda>_. None),
     sd_buckets = [], sd_costs = (\<lambda>_. None), sd_rows = [sampleAccount 7], sd_bindings = [\<lparr>ab_GroupID = 3, ab_AccountID = 7, ab_Priority = 1\<rparr>],
     sd_groups = [], sd_outbox = [], sd_standardCost = (\<lambda>_ _. fzero), sd_window = 0, sd_count = 0, sd_lagFailures = 0, sd_dice = []\<rparr>"

abbreviation sampleBucket :: scheduler_bucket where
  "sampleBucket \<equiv> \<lparr>sb_GroupID = 3, sb_Platform = PlatformAnthropic, sb_Mode = SchedulerModeMixed\<rparr>"

abbreviation schedWorld :: "sched_db \<Rightarrow> sched_db world" where
  "schedWorld d \<equiv> \<lparr>db = d, clock = 0, ticks = [], script = []\<rparr>"

lemma sampleSched_empty [simp]: "zmembers sampleSched k = []" "numGet sampleSched k = None"
  by (simp_all add: sampleSched_def zmembers_def numGet_def unexpired_def)

theorem snapshot_roundtrip_witness:
  "fst (run_state (GetSnapshot sampleCache sampleBucket) (snd (run_state (SetSnapshot sampleCache sampleBucket [sampleAccount 7, sampleAccount 5]) (schedWorld sampleSched)))) =
     Inr (Some [buildSchedulerMetadataAccount (sampleAccount 7), buildSchedulerMetadataAccount (sampleAccount 5)])"
  using snapshot_roundtrip [of "schedWorld sampleSched" "[sampleAccount 7, sampleAccount 5]" sampleBucket sampleCache sampleCache]
  by (simp add: sampleAccount_def)

lemma sample_listed: "listedRows sampleSnapshots sampleBucket True 0 sampleSched = [sampleAccount 7]"
  by (simp add: listedRows_def rowsOf_def groupRows_def sampleSnapshots_def sampleSched_def sampleAccount_def sortStable_def schedulableRow_def
      tempUnschedulablePredicate_def notExpiredPredicate_def before_def table_simps List.map_filter_simps usableMixed_def StatusActive_def
      PlatformAnthropic_def PlatformAntigravity_def)

theorem rebuild_refreshes_witness:
  "fst (run_state (GetSnapshot sampleCache sampleBucket) (snd (run_state (rebuildBucket sampleSnapshots sampleBucket) (schedWorld sampleSched)))) =
     Inr (Some [buildSchedulerMetadataAccount (sampleAccount 7)])"
proof -
  have "ss_cache sampleSnapshots = Some sampleCache" "ss_accountRepo sampleSnapshots" by (simp_all add: sampleSnapshots_def)
  from rebuild_refreshes [of "schedWorld sampleSched", OF _ _ this] show ?thesis by (simp add: sample_listed)
qed

text \<open>Account 7 has left group 3, half a minute after the snapshot was built.\<close>

definition leavingSched :: sched_db where
  "leavingSched = sampleSched\<lparr>cc_nums := (\<lambda>_. Some (0, None)), cc_zsets := (\<lambda>_. Some ([(''7'', 0)], None)), sd_strings := (\<lambda>_. Some ''1''), sd_bindings := [],
     sd_outbox := [\<lparr>ob_ID = 1, ob_EventType = AccountGroupsChangedEvent, ob_AccountID = Some 7, ob_GroupID = None,
       ob_Payload = Some \<lparr>pl_LastUsed = None, pl_AccountIDs = None, pl_GroupIDs = Some [Some 3]\<rparr>, ob_CreatedAt = 0\<rparr>]\<rparr>"

theorem event_lost_while_locked_witness:
  "numGet (db (snd (run_state (pollOutbox sampleSnapshots) (schedWorld leavingSched)))) schedulerOutboxWatermarkKey = Some 1 \<and>
   snapshotIDs (db (snd (run_state (pollOutbox sampleSnapshots) (schedWorld leavingSched)))) sampleBucket = [''7''] \<and>
   listedRows sampleSnapshots sampleBucket True 0 leavingSched = []"
proof -
  let ?e = "\<lparr>ob_ID = 1, ob_EventType = AccountGroupsChangedEvent, ob_AccountID = Some 7, ob_GroupID = None,
       ob_Payload = Some \<lparr>pl_LastUsed = None, pl_AccountIDs = None, pl_GroupIDs = Some [Some 3]\<rparr>, ob_CreatedAt = 0\<rparr>"
  have n: "numGet leavingSched k = Some 0" for k by (simp add: leavingSched_def numGet_def unexpired_def)
  have "sd_rows leavingSched = [sampleAccount 7]" "sd_outbox leavingSched = [?e]" by (simp_all add: leavingSched_def sampleSched_def)
  then have "numGet (db (snd (run_state (pollOutbox sampleSnapshots) (schedWorld leavingSched)))) schedulerOutboxWatermarkKey = Some (ob_ID ?e) \<and>
     (\<forall>b. snapshotIDs (db (snd (run_state (pollOutbox sampleSnapshots) (schedWorld leavingSched)))) b = snapshotIDs (db (schedWorld leavingSched)) b)"
    by (intro event_lost_while_locked [where s = sampleSnapshots and c = sampleCache and m = 0 and e = ?e and i = 7 and a = "sampleAccount 7"])
      (auto simp: sampleSnapshots_def n table_simps sampleAccount_def)
  moreover have "snapshotIDs leavingSched sampleBucket = [''7'']"
    by (simp add: snapshotIDs_def activeSnapshot_def leavingSched_def zrange_def zmembers_def unexpired_def sortStable_def)
  moreover have "listedRows sampleSnapshots sampleBucket True 0 leavingSched = []"
    by (simp add: listedRows_def rowsOf_def groupRows_def sampleSnapshots_def leavingSched_def sortStable_def List.map_filter_simps)
  ultimately show ?thesis by simp
qed

end
