(* ===== verification/Selection_Frame.thy ===== *)
theory Selection_Frame
  imports Load_Selection Snapshot_Laws
begin

text \<open>
  What the programs of the scheduler leave as it is. \<open>finds m A\<close> says that a program keeps the accounts in Redis and in the database in order,
  and that \<open>A\<close> holds of what it returns, whatever other processes do that keep them in order too, and whatever fails.
\<close>

section \<open>Accounts in order\<close>

text \<open>Under the key of an identifier there is the account with that identifier, and identifiers have 64 bits.\<close>

definition accountsOk :: "sched_db \<Rightarrow> bool" where
  "accountsOk d \<longleftrightarrow> (\<forall>i a. sd_accounts d (schedulerAccountKey (formatInt i)) = Some a \<longrightarrow> sa_ID a = i) \<and>
     (\<forall>k a. sd_accounts d k = Some a \<longrightarrow> sa_ID a \<in> int64s) \<and> (\<forall>a \<in> set (sd_rows d). sa_ID a \<in> int64s)"

abbreviation ordered :: "sched_db \<Rightarrow> sched_db \<Rightarrow> bool" where
  "ordered d d' \<equiv> accountsOk d \<longrightarrow> accountsOk d'"

definition finds :: "'a sp \<Rightarrow> ('a \<Rightarrow> bool) \<Rightarrow> bool" where
  "finds m A \<longleftrightarrow> rg ordered accountsOk m (\<lambda>r d. accountsOk d \<and> A r)"

lemma findsD: "finds m A \<Longrightarrow> relies ordered w \<Longrightarrow> accountsOk (db w) \<Longrightarrow> run_state m w = (r, w') \<Longrightarrow>
    accountsOk (db w') \<and> A r \<and> relies ordered w'"
  unfolding finds_def rgx_def by blast

lemma finds_ret: "A a \<Longrightarrow> finds (ret a) A"
  unfolding finds_def by (rule keep.rg_ret) simp

lemma finds_bind:
  assumes "finds m B" and "\<And>a. B a \<Longrightarrow> finds (f a) A"
  shows "finds (State_Monad.bind m f) A"
  unfolding finds_def
proof (rule keep.rg_seq)
  show "rg ordered accountsOk m (\<lambda>r d. accountsOk d \<and> B r)" using assms(1) by (simp add: finds_def)
  show "rg ordered (\<lambda>d. accountsOk d \<and> B a) (f a) (\<lambda>r d. accountsOk d \<and> A r)" for a
  proof (cases "B a")
    case True
    from assms(2) [OF True] show ?thesis unfolding finds_def by (rule rg_weaken) auto
  qed (simp add: rgx_def)
qed

lemma finds_weaken: "finds m B \<Longrightarrow> (\<And>a. B a \<Longrightarrow> A a) \<Longrightarrow> finds m A"
  unfolding finds_def rgx_def by blast

lemma finds_bindE: "finds m B \<Longrightarrow> (\<And>a. B (Inr a) \<Longrightarrow> finds (k a) A) \<Longrightarrow> (\<And>e. B (Inl e) \<Longrightarrow> A (Inl (h e))) \<Longrightarrow> finds (bindE m h k) A"
  unfolding bindE_def by (rule finds_bind, assumption) (auto intro: finds_ret split: sum.split)

lemma finds_exec:
  assumes "\<And>d. accountsOk d \<Longrightarrow> accountsOk (snd (f d)) \<and> A (fst (f d))" "A (Inl ConnErr)"
  shows "finds (exec f) A"
  unfolding finds_def by (rule keep.rg_exec) (use assms in \<open>auto simp: stable_def\<close>)

lemma finds_modify: "(\<And>d. accountsOk d \<Longrightarrow> accountsOk (f d)) \<Longrightarrow> A () \<Longrightarrow> finds (modify f) A"
  unfolding finds_def by (rule keep.rg_modify) auto

lemma finds_peek: "(\<And>d. accountsOk d \<Longrightarrow> A (f d)) \<Longrightarrow> finds (peek f) A"
  unfolding finds_def by (rule keep.rg_peek) auto

lemma finds_timeNow: "finds timeNow (\<lambda>_. True)"
  unfolding finds_def by (rule rg_weaken [OF keep.rg_timeNow]) auto

lemma finds_query: "(\<And>d. accountsOk d \<Longrightarrow> A (Inr (f d))) \<Longrightarrow> A (Inl ConnErr) \<Longrightarrow> finds (query f) A"
  unfolding query_def by (rule finds_exec) auto

lemma finds_if: "(b \<Longrightarrow> finds m A) \<Longrightarrow> (\<not> b \<Longrightarrow> finds n A) \<Longrightarrow> finds (if b then m else n) A"
  by simp

lemma finds_case_sum: "(\<And>e. r = Inl e \<Longrightarrow> finds (f e) A) \<Longrightarrow> (\<And>a. r = Inr a \<Longrightarrow> finds (g a) A) \<Longrightarrow>
    finds (case r of Inl e \<Rightarrow> f e | Inr a \<Rightarrow> g a) A"
  by (cases r) auto

lemma finds_case_option: "(r = None \<Longrightarrow> finds m A) \<Longrightarrow> (\<And>a. r = Some a \<Longrightarrow> finds (g a) A) \<Longrightarrow>
    finds (case r of None \<Rightarrow> m | Some a \<Rightarrow> g a) A"
  by (cases r) auto

lemma finds_case_prod: "(\<And>a b. p = (a, b) \<Longrightarrow> finds (f a b) A) \<Longrightarrow> finds (case p of (a, b) \<Rightarrow> f a b) A"
  by (cases p) auto

lemma finds_case_list: "(r = [] \<Longrightarrow> finds m A) \<Longrightarrow> (\<And>a as. r = a # as \<Longrightarrow> finds (g a as) A) \<Longrightarrow>
    finds (case r of [] \<Rightarrow> m | a # as \<Rightarrow> g a as) A"
  by (cases r) auto

lemma finds_let: "(\<And>x. x = e \<Longrightarrow> finds (f x) A) \<Longrightarrow> finds (let x = e in f x) A"
  by simp

lemmas finds_splits = finds_if finds_case_sum finds_case_option finds_case_prod finds_case_list finds_let

section \<open>Programs that keep them in order\<close>

abbreviation keepsOk :: "'a sp \<Rightarrow> bool" where
  "keepsOk m \<equiv> finds m (\<lambda>_. True)"

lemma ok_bind: "keepsOk m \<Longrightarrow> (\<And>a. keepsOk (f a)) \<Longrightarrow> keepsOk (State_Monad.bind m f)"
  by (rule finds_bind)

lemma ok_bindE: "keepsOk m \<Longrightarrow> (\<And>a. keepsOk (k a)) \<Longrightarrow> keepsOk (bindE m h k)"
  by (rule finds_bindE) auto

text \<open>A statement that changes neither the accounts in Redis nor those in the database.\<close>

definition elsewhere :: "sched_db \<Rightarrow> sched_db \<Rightarrow> bool" where
  "elsewhere d d' \<longleftrightarrow> sd_accounts d' = sd_accounts d \<and> sd_rows d' = sd_rows d"

lemma elsewhere_ok: "elsewhere d d' \<Longrightarrow> accountsOk d \<Longrightarrow> accountsOk d'"
  by (simp add: elsewhere_def accountsOk_def)

lemma ok_exec: "(\<And>d. elsewhere d (snd (f d))) \<Longrightarrow> keepsOk (exec f)"
  by (rule finds_exec) (auto intro: elsewhere_ok)

lemma ok_modify: "(\<And>d. elsewhere d (f d)) \<Longrightarrow> keepsOk (modify f)"
  by (rule finds_modify) (auto intro: elsewhere_ok)

lemma ok_query: "keepsOk (query f)"
  by (rule finds_query) auto

lemma ok_peek: "keepsOk (peek f)"
  by (rule finds_peek) auto

lemma ok_ret: "keepsOk (ret a)"
  by (rule finds_ret) simp

lemmas ok_rules = ok_ret ok_bind ok_bindE ok_exec ok_modify ok_query ok_peek finds_timeNow finds_splits

lemma ok_mapProg: "(\<And>x. keepsOk (f x)) \<Longrightarrow> keepsOk (mapProg f xs)"
  by (induction xs) (auto intro!: ok_rules)

lemma redis_elsewhere [simp]:
  "elsewhere d (zwrite k ms d)" "elsewhere d (zadd k s m d)" "elsewhere d (zrem k m d)" "elsewhere d (zexpire k t d)"
  "elsewhere d (zremrangebyscore k s d)" "elsewhere d (numAdd k n d)" "elsewhere d (numExpire k t d)" "elsewhere d (numDel k d)"
  "elsewhere d (numSet k n t d)" "elsewhere d d" "elsewhere d (zdel k d)"
  by (simp_all add: elsewhere_def zwrite_def zadd_def zrem_def zexpire_def zremrangebyscore_def numAdd_def numExpire_def numDel_def numSet_def zdel_def)

lemma elsewhere_trans: "elsewhere d d' \<Longrightarrow> elsewhere d' d'' \<Longrightarrow> elsewhere d d''"
  by (simp add: elsewhere_def)

lemma scripts_elsewhere [simp]:
  "elsewhere d (snd (acquireScript k n ttl i d))" "elsewhere d (snd (registerSessionScript k n idle u d))"
  by (auto simp: acquireScript_def registerSessionScript_def Let_def elsewhere_def zadd_def zwrite_def zexpire_def zremrangebyscore_def)

lemmas statement_defs = cmd_def runScript_def getCmd_def granted_def getString_def setString_def saddBucket_def zaddMembers_def

lemma ok_slots:
  "keepsOk (AcquireAccountSlot sv i n)" "keepsOk (runRelease f)" "keepsOk (GetAccountWaitingCount sv i)" "keepsOk (GetAccountsLoadBatch sv as)"
proof -
  show "keepsOk (AcquireAccountSlot sv i n)"
    unfolding AcquireAccountSlot_def generateRequestID_def cacheAcquireAccountSlot_def statement_defs
    by (intro ok_rules) (simp_all add: split_def Let_def, simp add: elsewhere_def)
  show "keepsOk (runRelease f)"
    unfolding runRelease_def cacheReleaseAccountSlot_def cacheReleaseUserSlot_def by (cases f) (auto intro!: ok_rules)
  show "keepsOk (GetAccountWaitingCount sv i)"
    unfolding GetAccountWaitingCount_def cacheGetAccountWaitingCount_def statement_defs by (intro ok_rules) simp_all
  show "keepsOk (GetAccountsLoadBatch sv as)"
    unfolding GetAccountsLoadBatch_def cacheGetAccountsLoadBatch_def loadBatch_def loadCmds_def redisTime_def zremrangeCmd_def zcardCmd_def statement_defs
    by (intro ok_rules ok_mapProg) simp_all
qed

lemma ok_caches:
  "keepsOk (GetSessionAccountID g h)" "keepsOk (SetSessionAccountID g h i t)" "keepsOk (RefreshSessionTTL g h t)" "keepsOk (DeleteSessionAccountID g h)"
  "keepsOk (RegisterSession c i u n t)" "keepsOk (GetWindowCost i)" "keepsOk (SetWindowCost i v)" "keepsOk (GetWindowCostBatch is)"
  "keepsOk (GetRPM i)" "keepsOk (GetRPMBatch is)" "keepsOk (windowStats i t)"
  unfolding GetSessionAccountID_def SetSessionAccountID_def RefreshSessionTTL_def DeleteSessionAccountID_def RegisterSession_def GetWindowCost_def
    SetWindowCost_def GetWindowCostBatch_def GetRPM_def GetRPMBatch_def windowStats_def currentMinute_def redisTime_def statement_defs
  by (intro ok_rules ok_mapProg; simp add: split_def Let_def; simp add: elsewhere_def)+

lemma ok_allOf: "(\<And>c. c \<in> set cs \<Longrightarrow> keepsOk c) \<Longrightarrow> keepsOk (allOf cs)"
  by (induction cs) (auto intro!: ok_rules)

lemma ok_filterProg: "(\<And>x. keepsOk (c x)) \<Longrightarrow> keepsOk (filterProg c xs)"
  by (induction xs) (auto intro!: ok_rules)

lemma ok_checks:
  "keepsOk (isAccountSchedulableForSelection a)" "keepsOk (isAccountSchedulableForModelSelection cx a m)" "keepsOk (isAccountSchedulableForQuota sv a)"
  "keepsOk (isAccountSchedulableForWindowCost sv cx a st)" "keepsOk (isAccountSchedulableForRPM sv cx a st)" "keepsOk (checkAndRegisterSession sv a h)"
  "keepsOk (clearsSticky a m)"
  unfolding isAccountSchedulableForSelection_def isAccountSchedulableForModelSelection_def isAccountSchedulableForQuota_def
    isAccountSchedulableForWindowCost_def isAccountSchedulableForRPM_def checkAndRegisterSession_def clearsSticky_def
    knownWindowCost_def currentRPM_def accountWindowStart_def
  by (intro ok_rules ok_caches)+

lemma ok_limitChecks: "c \<in> set (limitChecks sv cx m st a) \<Longrightarrow> keepsOk c"
  by (auto simp: limitChecks_def intro: ok_checks)

lemma ok_recordCosts: "keepsOk (recordCosts cost is costs)" "keepsOk (singleCosts t is costs)"
  by (induction "is" arbitrary: costs) (auto intro!: ok_rules ok_caches)

lemma ok_missing: "keepsOk (missingByStart starts ks costs)"
  by (induction ks arbitrary: costs) (auto simp: missingCosts_def Let_def intro!: ok_rules ok_recordCosts)

lemma ok_prefetched: "keepsOk (prefetched sv cx as)"
  unfolding prefetched_def withWindowCostPrefetch_def withRPMPrefetch_def accountWindowStart_def
  by (intro ok_rules ok_caches ok_missing ok_mapProg)

lemma ok_sorted:
  "keepsOk dice" "keepsOk (shuffled xs)" "keepsOk (shuffleWithinSortGroups ys)" "keepsOk (sortAccountsByPriorityAndLastUsed as p)"
  "keepsOk (sortCandidatesForFallback as p m)" "keepsOk (selectByLRU ys p)"
proof -
  show d: "keepsOk dice" unfolding dice_def by (intro ok_rules) (simp add: elsewhere_def)
  show s: "keepsOk (shuffled xs)" for xs :: "'b list" unfolding shuffled_def by (intro ok_rules d)
  show "keepsOk (shuffleWithinSortGroups ys)"
    unfolding shuffleWithinSortGroups_def eachRun_def by (intro ok_rules ok_mapProg s)
  show t: "keepsOk (sortAccountsByPriorityAndLastUsed as p)"
    unfolding sortAccountsByPriorityAndLastUsed_def shuffleWithinPriorityAndLastUsed_def eachRun_def by (intro ok_rules ok_mapProg s)
  show "keepsOk (sortCandidatesForFallback as p m)"
    unfolding sortCandidatesForFallback_def shuffleWithinPriority_def eachRun_def by (intro ok_rules ok_mapProg s t)
  show "keepsOk (selectByLRU ys p)"
    unfolding selectByLRU_def drawn_def by (intro ok_rules d)
qed

text \<open>An account is written under its own key.\<close>

definition fits64 :: "sched_account \<Rightarrow> bool" where
  "fits64 a \<longleftrightarrow> sa_ID a \<in> int64s"

lemma ok_setAccount:
  assumes "fits64 a"
  shows "keepsOk (setAccountKey (schedulerAccountKey (formatInt (sa_ID a))) a)"
    and "keepsOk (setAccountKey (schedulerAccountMetaKey (formatInt (sa_ID a))) (buildSchedulerMetadataAccount a))"
  using assms unfolding setAccountKey_def cmd_def
  by (intro finds_exec; auto simp: accountsOk_def fits64_def)+

lemma ok_pipeline: "(\<And>c. c \<in> set cs \<Longrightarrow> keepsOk c) \<Longrightarrow> keepsOk (pipeline cs)"
proof -
  have "keepsOk (mapProg (\<lambda>c. c) cs)" if "\<And>c. c \<in> set cs \<Longrightarrow> keepsOk c" for cs :: "unit se list"
    using that by (induction cs) (auto intro!: ok_rules)
  then show "keepsOk (pipeline cs)" if "\<And>c. c \<in> set cs \<Longrightarrow> keepsOk c"
    using that unfolding pipeline_def by (intro ok_bind ok_ret) blast
qed

lemma ok_writeChunks: "(\<And>a. a \<in> set (concat ass) \<Longrightarrow> fits64 a) \<Longrightarrow> keepsOk (writeChunks ass)"
proof (induction ass)
  case (Cons as ass)
  then show ?case by (auto intro!: ok_bindE ok_pipeline ok_setAccount)
qed (simp add: ok_ret)

lemma ok_writeAccounts: "(\<And>a. a \<in> set as \<Longrightarrow> fits64 a) \<Longrightarrow> keepsOk (writeAccounts c as)"
  unfolding writeAccounts_def by (rule ok_writeChunks) (simp add: concat_chunksOf)

lemma ok_SetAccount: "fits64 a \<Longrightarrow> keepsOk (SetAccount c a)"
  unfolding SetAccount_def by (intro finds_splits ok_ret ok_writeAccounts) simp

lemma ok_SetSnapshot: "(\<And>a. a \<in> set as \<Longrightarrow> fits64 a) \<Longrightarrow> keepsOk (SetSnapshot c b as)"
proof -
  have fold: "elsewhere d (fold (\<lambda>(m, s). zadd key s m) ms d)" for key ms d
    by (induction ms arbitrary: d) (auto intro: elsewhere_trans redis_elsewhere)
  have "keepsOk x" if "x \<in> set (snapshotCmds c b v as)" for x v
    using that fold unfolding snapshotCmds_def statement_defs
    by (auto simp: Let_def intro!: ok_exec split: if_splits) (simp_all add: elsewhere_def)
  then show "keepsOk (SetSnapshot c b as)" if "\<And>a. a \<in> set as \<Longrightarrow> fits64 a"
    using that unfolding SetSnapshot_def incrVersion_def statement_defs
    by (intro ok_rules ok_pipeline ok_writeAccounts) (auto simp: Let_def)
qed

section \<open>Accounts that are read\<close>

lemma set_insortBy: "set (insortBy lt x xs) = insert x (set xs)"
  by (induction xs) auto

lemma set_sortStable [simp]: "set (sortStable lt xs) = set xs"
  by (induction xs) (simp_all add: sortStable_def set_insortBy)

lemma set_byPriority [simp]: "set (byPriority as) = set as"
  by (simp add: byPriority_def)

lemma mem_map_filter: "y \<in> set (List.map_filter f xs) \<longleftrightarrow> (\<exists>x \<in> set xs. f x = Some y)"
  by (induction xs) (auto simp: List.map_filter_simps split: option.splits)

lemma groupRows_rows: "set (groupRows g p d) \<subseteq> set (sd_rows d)"
proof -
  have fold: "set (foldl (\<lambda>out a. if sa_ID a \<in> sa_ID ` set out then out else a # out) out as) \<subseteq> set out \<union> set as" for out as
  proof (induction as arbitrary: out)
    case (Cons a as)
    show ?case using Cons [of out] Cons [of "a # out"] by (auto split: if_splits)
  qed simp
  let ?row = "\<lambda>b :: account_binding. if ab_GroupID b = g
            then case tget (\<lambda>a. sa_ID a = ab_AccountID b) (sd_rows d) of
                   Some a \<Rightarrow> if p a then Some (ab_Priority b, a) else None
                 | None \<Rightarrow> None
            else None"
  have "snd y \<in> set (sd_rows d)" if y: "y \<in> set (List.map_filter ?row (sd_bindings d))" for y
  proof -
    from y obtain b where "?row b = Some y" unfolding mem_map_filter by blast
    then obtain a where "tget (\<lambda>a. sa_ID a = ab_AccountID b) (sd_rows d) = Some a" "y = (ab_Priority b, a)"
      by (auto split: if_splits option.splits)
    then show ?thesis using tget_Some by fastforce
  qed
  moreover have "set (groupRows g p d) \<subseteq> snd ` set (List.map_filter ?row (sd_bindings d))"
    unfolding groupRows_def Let_def set_rev by (rule order_trans [OF fold]) simp
  ultimately show ?thesis by blast
qed

definition rowsFit :: "go_err + sched_account list \<Rightarrow> bool" where
  "rowsFit r \<longleftrightarrow> (\<forall>as. r = Inr as \<longrightarrow> (\<forall>a \<in> set as. fits64 a))"

lemma finds_rows: "(\<And>d. set (f d) \<subseteq> set (sd_rows d)) \<Longrightarrow> finds (query f) rowsFit"
  by (rule finds_query) (fastforce simp: rowsFit_def accountsOk_def fits64_def)+

lemma finds_lists:
  "finds (ListSchedulableByPlatforms ps) rowsFit" "finds (ListSchedulableByPlatform p) rowsFit"
  "finds (ListSchedulableUngroupedByPlatforms ps) rowsFit" "finds (ListSchedulableUngroupedByPlatform p) rowsFit"
  "finds (ListSchedulableByGroupIDAndPlatform g p) rowsFit" "finds (ListSchedulableByGroupIDAndPlatforms g ps) rowsFit"
  unfolding ListSchedulableByPlatforms_def ListSchedulableByPlatform_def ListSchedulableUngroupedByPlatforms_def ListSchedulableUngroupedByPlatform_def
    ListSchedulableByGroupIDAndPlatform_def ListSchedulableByGroupIDAndPlatforms_def queryAccountsByGroup_def
  by (intro finds_splits finds_ret finds_bind [OF finds_timeNow] finds_rows groupRows_rows; auto simp: rowsFit_def)+

lemma ok_allow: "keepsOk (fallbackAllow s)" "keepsOk (guardFallback s)"
proof -
  show a: "keepsOk (fallbackAllow s)" unfolding fallbackAllow_def by (intro ok_rules) (simp_all add: elsewhere_def)
  show "keepsOk (guardFallback s)" unfolding guardFallback_def by (intro ok_rules a)
qed

lemma finds_loadAccounts: "finds (loadAccountsFromDB s b mixed) rowsFit"
  unfolding loadAccountsFromDB_def Let_def
  by (intro finds_splits finds_ret finds_bindE [where B = rowsFit] finds_lists) (auto simp: rowsFit_def)

definition snapFit :: "go_err + sched_account list option \<Rightarrow> bool" where
  "snapFit r \<longleftrightarrow> (\<forall>as. r = Inr (Some as) \<longrightarrow> (\<forall>a \<in> set as. fits64 a))"

lemma finds_mget: "finds (mgetChunks kss) (\<lambda>r. \<forall>vs. r = Inr vs \<longrightarrow> (\<forall>a. Some a \<in> set vs \<longrightarrow> fits64 a))"
proof (induction kss)
  case (Cons ks kss)
  have q: "finds (query (\<lambda>d. map (sd_accounts d) ks)) (\<lambda>r. \<forall>vs. r = Inr vs \<longrightarrow> (\<forall>a. Some a \<in> set vs \<longrightarrow> fits64 a))"
    by (rule finds_query) (auto simp: accountsOk_def fits64_def dest: sym)
  show ?case by (auto intro!: finds_bindE [OF q] finds_bindE [OF Cons.IH] finds_ret)
qed (simp add: finds_ret)

lemma finds_snapshot: "finds (GetSnapshot c b) snapFit"
proof -
  have s: "keepsOk (getString k)" for k unfolding getString_def by (intro ok_rules) simp
  have m: "finds (mgetChunked c ks) (\<lambda>r. \<forall>vs. r = Inr vs \<longrightarrow> (\<forall>a. Some a \<in> set vs \<longrightarrow> fits64 a))" for ks
    unfolding mgetChunked_def by (rule finds_mget)
  show ?thesis
    unfolding GetSnapshot_def
    by (intro finds_bind [OF s] finds_splits finds_ret finds_bindE [OF ok_query] finds_bindE [OF m])
      (auto simp: snapFit_def image_iff, metis option.exhaust_sel)
qed

definition listFit :: "go_err + sched_account list \<times> bool \<Rightarrow> bool" where
  "listFit r \<longleftrightarrow> (\<forall>as b. r = Inr (as, b) \<longrightarrow> (\<forall>a \<in> set as. fits64 a))"

lemma finds_snapshotList: "finds (snapshotListSchedulable s g p force) listFit"
proof -
  have read: "finds (readSnapshot s b) (\<lambda>r. snapFit (Inr r))" for b
    unfolding readSnapshot_def
    by (intro finds_splits finds_ret finds_bind [OF finds_snapshot]) (auto simp: snapFit_def split: sum.splits)
  have wr: "keepsOk (writeSnapshot s b xs)" if "\<And>a. a \<in> set xs \<Longrightarrow> fits64 a" for b xs
    unfolding writeSnapshot_def by (intro ok_rules ok_SetSnapshot that)
  show ?thesis
    unfolding snapshotListSchedulable_def
    by (intro finds_let finds_bind [OF read] finds_splits finds_ret finds_bindE [OF ok_allow(2)] finds_bindE [OF finds_loadAccounts] finds_bind [OF wr])
      (auto simp: listFit_def snapFit_def rowsFit_def)
qed

lemma finds_listSchedulable: "finds (listSchedulableAccounts sv g p force) listFit"
  unfolding listSchedulableAccounts_def Let_def
  by (intro finds_splits finds_snapshotList finds_ret finds_bindE [where B = rowsFit] finds_lists) (auto simp: rowsFit_def listFit_def)

definition idFound :: "int \<Rightarrow> go_err + sched_account option \<Rightarrow> bool" where
  "idFound i r \<longleftrightarrow> (\<forall>a. r = Inr (Some a) \<longrightarrow> sa_ID a = i \<and> fits64 a)"

lemma finds_row: "finds (accGetByID i) (\<lambda>r. \<forall>a. r = Inr a \<longrightarrow> sa_ID a = i \<and> fits64 a)"
  unfolding accGetByID_def by (rule finds_exec) (auto simp: accountsOk_def fits64_def split: option.splits dest: tget_Some)

lemma finds_snapshotAccount: "finds (snapshotGetAccount s i) (idFound i)"
proof -
  have c: "finds (cacheGetAccount i) (idFound i)"
    unfolding cacheGetAccount_def by (rule finds_query) (auto simp: idFound_def accountsOk_def fits64_def)
  have opt: "finds (case ss_cache s of None \<Rightarrow> ret None
       | Some _ \<Rightarrow> do { r \<leftarrow> cacheGetAccount i; ret (case r of Inl _ \<Rightarrow> None | Inr a \<Rightarrow> a) }) (\<lambda>r. idFound i (Inr r))"
    by (intro finds_splits finds_ret finds_bind [OF c]) (auto simp: idFound_def split: sum.splits)
  show ?thesis
    unfolding snapshotGetAccount_def
    by (intro finds_splits finds_ret finds_bind [OF opt] finds_bindE [OF ok_allow(2)] finds_bindE [OF finds_row]) (auto simp: idFound_def)
qed

lemma finds_schedulable: "finds (getSchedulableAccount sv i) (idFound i)"
  unfolding getSchedulableAccount_def
  by (intro finds_splits finds_snapshotAccount finds_ret finds_bindE [OF finds_row]) (auto simp: idFound_def)

definition sameFound :: "sched_account \<Rightarrow> go_err + sched_account \<Rightarrow> bool" where
  "sameFound a r \<longleftrightarrow> (\<forall>h. r = Inr h \<longrightarrow> sa_ID h = sa_ID a \<and> (fits64 a \<longrightarrow> fits64 h))"

lemma finds_hydrated: "finds (hydrateSelectedAccount sv a) (sameFound a)"
  unfolding hydrateSelectedAccount_def
  by (intro finds_splits finds_ret finds_bindE [OF finds_snapshotAccount]) (auto simp: sameFound_def idFound_def)

lemma ok_SetError: "keepsOk (SetError c i)"
proof -
  have "set (tupd p f as) \<subseteq> set as \<union> f ` set as" for p and f :: "sched_account \<Rightarrow> sched_account" and as by (auto simp: set_tupd)
  then have u: "keepsOk (cmd (\<lambda>d. d\<lparr>sd_rows := tupd (\<lambda>a. sa_ID a = i) (\<lambda>a. a\<lparr>sa_Status := StatusError\<rparr>) (sd_rows d)\<rparr>))"
    unfolding cmd_def by (intro finds_exec) (fastforce simp: accountsOk_def)+
  have e: "keepsOk (enqueueSchedulerEvent t x g p)" for t x g p
    unfolding enqueueSchedulerEvent_def cmd_def by (intro ok_rules) (simp add: elsewhere_def)
  have s: "keepsOk (syncSchedulerAccountSnapshot c i)"
    unfolding syncSchedulerAccountSnapshot_def
    by (intro finds_splits ok_ret finds_bind [OF finds_row] finds_bind [OF ok_SetAccount]) auto
  show ?thesis unfolding SetError_def by (intro ok_bindE ok_bind ok_ret u e s)
qed

end
