(* ===== verification/Selection_Laws.thy ===== *)
theory Selection_Laws
  imports Selection_Frame
begin

text \<open>
  What the choice of an account guarantees, in any run: it ends, with an account that was not excluded and a slot of it or a plan to wait
  for it; the account is one of least priority number, load and last use. And what the snapshots of accounts do to it.
\<close>

section \<open>Accounts that are chosen\<close>

text \<open>The account was not excluded; and it supports the model, unless it was read again after the choice.\<close>

definition fitsRequest :: "gateway_service \<Rightarrow> select_ctx \<Rightarrow> string \<Rightarrow> int set \<Rightarrow> sched_account \<Rightarrow> bool" where
  "fitsRequest sv cx requestedModel excluded a \<longleftrightarrow> sa_ID a \<notin> excluded \<and> fits64 a \<and> (gv_snapshot sv = None \<longrightarrow> modelSupported cx requestedModel a)"

text \<open>The result has a slot of its account, with the function that gives it back, or a plan to wait for this account.\<close>

definition soundResult :: "gateway_service \<Rightarrow> select_ctx \<Rightarrow> string \<Rightarrow> int set \<Rightarrow> go_err + selection_result \<Rightarrow> bool" where
  "soundResult sv cx requestedModel excluded r \<longleftrightarrow> (\<forall>x. r = Inr x \<longrightarrow>
     fitsRequest sv cx requestedModel excluded (se_Account x) \<and>
     (if se_Acquired x
      then se_WaitPlan x = None \<and> (se_ReleaseFunc x = Some NoRelease \<or> (\<exists>i. se_ReleaseFunc x = Some (ReleaseAccount (sa_ID (se_Account x)) i)))
      else se_ReleaseFunc x = None \<and> (\<exists>p. se_WaitPlan x = Some p \<and> wp_AccountID p = sa_ID (se_Account x))))"

abbreviation soundLayer :: "gateway_service \<Rightarrow> select_ctx \<Rightarrow> string \<Rightarrow> int set \<Rightarrow> (go_err + selection_result) option \<Rightarrow> bool" where
  "soundLayer sv cx requestedModel excluded r \<equiv> \<forall>x. r = Some x \<longrightarrow> soundResult sv cx requestedModel excluded x"

definition slotOf :: "int \<Rightarrow> release_func option \<Rightarrow> bool" where
  "slotOf i f \<longleftrightarrow> f = Some NoRelease \<or> (\<exists>q. f = Some (ReleaseAccount i q))"

lemma modelSupported_cong: "cx_Thinking cx' = cx_Thinking cx \<Longrightarrow> modelSupported cx' m a = modelSupported cx m a"
  by (simp add: modelSupported_def)

lemma sound_error [simp]: "soundResult sv cx m excluded (Inl e)"
  by (simp add: soundResult_def)

lemma finds_acquired: "finds (AcquireAccountSlot c i n) (\<lambda>r. \<forall>x. r = Inr x \<longrightarrow> Acquired x \<longrightarrow> slotOf i (ReleaseFunc x))"
proof -
  have y: "yields (AcquireAccountSlot c i n) (\<lambda>r. \<forall>x. r = Inr x \<longrightarrow> Acquired x \<longrightarrow> slotOf i (ReleaseFunc x))"
    unfolding AcquireAccountSlot_def by (intro yields_rules yields_case_option) (auto simp: slotOf_def intro!: yields_rules)
  show ?thesis unfolding finds_def by (rule rg_weaken [OF rg_yields [OF ok_slots(1) [unfolded finds_def] y]]) auto
qed

lemma finds_takeSlot: "finds (takeSlot sv a h) (\<lambda>t. \<forall>f. t = Taken f \<longrightarrow> slotOf (sa_ID a) f)"
proof -
  have t: "finds (tryAcquireAccountSlot sv i n) (\<lambda>r. \<forall>x. r = Inr x \<longrightarrow> Acquired x \<longrightarrow> slotOf i (ReleaseFunc x))" for i n
    unfolding tryAcquireAccountSlot_def by (intro finds_splits finds_ret finds_acquired) (simp add: slotOf_def)
  have g: "keepsOk (giveBack f)" for f unfolding giveBack_def by (intro ok_rules ok_slots)
  show ?thesis
    unfolding takeSlot_def
    by (intro finds_bind [OF t] finds_splits finds_ret finds_bind [OF ok_checks(6)] finds_bind [OF g]) auto
qed

lemma finds_selection:
  assumes a: "fitsRequest sv cx m excluded a"
    and held: "acquired \<Longrightarrow> slotOf (sa_ID a) f \<and> plan = None" "\<not> acquired \<Longrightarrow> f = None \<and> (\<exists>p. plan = Some p \<and> wp_AccountID p = sa_ID a)"
  shows "finds (newSelectionResult sv a acquired f plan) (soundResult sv cx m excluded)"
proof -
  have h: "finds (hydrateSelectedAccount sv a) (\<lambda>r. sameFound a r \<and> (gv_snapshot sv = None \<longrightarrow> r = Inr a))"
  proof (cases "gv_snapshot sv")
    case None
    then show ?thesis by (simp add: hydrateSelectedAccount_def finds_ret sameFound_def)
  next
    case (Some s)
    then show ?thesis by (simp add: finds_hydrated)
  qed
  show ?thesis
    unfolding newSelectionResult_def
    by (intro finds_bindE [OF h] finds_ret) (use a held in \<open>auto simp: soundResult_def fitsRequest_def sameFound_def slotOf_def\<close>)
qed

lemma ok_sessions: "keepsOk (bindSession g h i)" "keepsOk (unbindSession g h)"
  unfolding bindSession_def unbindSession_def by (intro ok_rules ok_caches)+

lemma finds_takeFirst:
  "(\<And>a. a \<in> set as \<Longrightarrow> fitsRequest sv cx m excluded a) \<Longrightarrow> finds (takeFirst sv g h as) (soundLayer sv cx m excluded)"
proof (induction as)
  case (Cons a as)
  have s: "finds (newSelectionResult sv a True f None) (soundResult sv cx m excluded)" if "slotOf (sa_ID a) f" for f
    by (rule finds_selection) (use Cons that in auto)
  show ?case
    using Cons
    by (auto intro!: finds_bind [OF finds_takeSlot] finds_bind [OF ok_sessions(1)] finds_bind [OF s] finds_ret split: taking.split)
qed (simp add: finds_ret)

lemma finds_waitFirst:
  "(\<And>a. a \<in> set as \<Longrightarrow> fitsRequest sv cx m excluded a \<and> wp_AccountID (plan a) = sa_ID a) \<Longrightarrow>
    finds (waitFirst sv plan h as) (soundLayer sv cx m excluded)"
proof (induction as)
  case (Cons a as)
  have s: "finds (newSelectionResult sv a False None (Some (plan a))) (soundResult sv cx m excluded)"
    by (rule finds_selection) (use Cons in auto)
  show ?case
    using Cons by (auto intro!: finds_bind [OF ok_checks(6)] finds_bind [OF s] finds_ret)
qed (simp add: finds_ret)

lemma plans [simp]: "wp_AccountID (stickyWaitPlan cfg a) = sa_ID a" "wp_AccountID (fallbackWaitPlan cfg a) = sa_ID a"
  by (simp_all add: stickyWaitPlan_def fallbackWaitPlan_def)

text \<open>A list of checks ensures what one of them ensures.\<close>

lemma finds_allOf: "c \<in> set cs \<Longrightarrow> finds c (\<lambda>ok. ok \<longrightarrow> P) \<Longrightarrow> (\<And>c'. c' \<in> set cs \<Longrightarrow> keepsOk c') \<Longrightarrow> finds (allOf cs) (\<lambda>ok. ok \<longrightarrow> P)"
proof (induction cs)
  case (Cons d cs)
  then have d: "keepsOk d" and rest: "keepsOk (allOf cs)" by (auto intro: ok_allOf)
  show ?case
  proof (cases "c = d")
    case True
    have *: "finds (allOf cs) (\<lambda>ok. ok \<longrightarrow> P)" if P by (rule finds_weaken [OF rest]) (use that in simp)
    have first: "finds d (\<lambda>ok. ok \<longrightarrow> P)" using Cons.prems(2) True by simp
    show ?thesis unfolding allOf.simps by (intro finds_bind [OF first] finds_splits finds_ret *) simp_all
  next
    case False
    then show ?thesis using Cons by (auto intro!: finds_bind [OF d] finds_ret)
  qed
qed simp

lemma finds_pure: "finds (ret b) (\<lambda>ok. ok \<longrightarrow> b)"
  by (rule finds_ret) simp

lemma finds_filterProg:
  "(\<And>x. finds (c x) (\<lambda>ok. ok \<longrightarrow> P x)) \<Longrightarrow> finds (filterProg c xs) (\<lambda>ys. \<forall>y \<in> set ys. y \<in> set xs \<and> P y)"
  by (induction xs) (auto intro!: finds_bind finds_ret split: if_splits)

lemma finds_candidateChecks: "finds (candidateChecks sv q st a) (\<lambda>ok. ok \<longrightarrow> modelSupported (sr_ctx q) (sr_model q) a)"
  unfolding candidateChecks_def
  by (rule finds_allOf [OF _ finds_pure]) (auto intro: ok_checks ok_limitChecks ok_ret)

section \<open>The layers\<close>

text \<open>A search for a model among accounts that are in order.\<close>

abbreviation soundFor :: "gateway_service \<Rightarrow> search \<Rightarrow> (go_err + selection_result) option \<Rightarrow> bool" where
  "soundFor sv q \<equiv> soundLayer sv (sr_ctx q) (sr_model q) (sr_excluded q)"

abbreviation fitsSearch :: "gateway_service \<Rightarrow> search \<Rightarrow> sched_account \<Rightarrow> bool" where
  "fitsSearch sv q \<equiv> fitsRequest sv (sr_ctx q) (sr_model q) (sr_excluded q)"

lemma accountByID_Some: "accountByID accounts i = Some a \<Longrightarrow> sa_ID a = i \<and> a \<in> set accounts"
  by (auto simp: accountByID_def dest: tget_Some)

lemma availableOf_accounts: "x \<in> set (availableOf m as) \<Longrightarrow> al_account x \<in> set as"
  by (auto simp: availableOf_def)

lemma mset_shuffleFrom: "i < length xs \<Longrightarrow> mset (shuffleFrom f i xs) = mset xs"
proof (induction f i xs rule: shuffleFrom.induct)
  case (2 f i xs)
  let ?j = "f (Suc i) (Suc (Suc i)) mod Suc (Suc i)"
  have "?j < Suc (Suc i)" by simp
  then have "?j < length xs" using 2(2) by linarith
  then have "mset (swapAt (Suc i) ?j xs) = mset xs" using 2(2) unfolding swapAt_def by (intro mset_swap) auto
  then show ?case using 2 by (simp add: swapAt_def)
qed simp

lemma finds_shuffled: "finds (shuffled xs) (\<lambda>ys. mset ys = mset xs)"
proof -
  have "mset (shuffleFrom f (length xs - 1) xs) = mset xs" if "\<not> length xs \<le> 1" for f using that by (intro mset_shuffleFrom) simp
  then show ?thesis unfolding shuffled_def by (intro finds_splits finds_ret finds_bind [OF ok_sorted(1)]) auto
qed

lemma concat_runsOf: "concat (runsOf same xs) = xs"
  by (induction same xs rule: runsOf.induct) simp_all

lemma mset_sortStable: "mset (sortStable lt xs) = mset xs"
proof -
  have "mset (insortBy lt x ys) = add_mset x (mset ys)" for x ys by (induction ys) auto
  then show ?thesis by (induction xs) (simp_all add: sortStable_def)
qed

lemma finds_eachRun:
  assumes "\<And>xs. finds (p xs) (\<lambda>ys. mset ys = mset xs)"
  shows "finds (eachRun same p xs) (\<lambda>ys. mset ys = mset xs)"
proof -
  have m: "finds (mapProg p rs) (\<lambda>ys. mset (concat ys) = mset (concat rs))" for rs
    by (induction rs) (auto intro!: finds_bind assms finds_ret)
  show ?thesis unfolding eachRun_def by (intro finds_bind [OF m] finds_ret) (simp add: concat_runsOf)
qed

lemma finds_sorted:
  "finds (shuffleWithinSortGroups ys) (\<lambda>r. mset r = mset ys)" "finds (sortAccountsByPriorityAndLastUsed as p) (\<lambda>r. mset r = mset as)"
  "finds (sortCandidatesForFallback as p m) (\<lambda>r. mset r = mset as)"
proof -
  show "finds (shuffleWithinSortGroups ys) (\<lambda>r. mset r = mset ys)"
    unfolding shuffleWithinSortGroups_def by (rule finds_eachRun [OF finds_shuffled])
  have "finds (if p then do { oauth \<leftarrow> shuffled (filter (\<lambda>a. sa_Type a = AccountTypeOAuth) xs);
         others \<leftarrow> shuffled (filter (\<lambda>a. sa_Type a \<noteq> AccountTypeOAuth) xs); ret (oauth @ others) } else shuffled xs) (\<lambda>ys. mset ys = mset xs)" for xs
    by (intro finds_splits finds_shuffled finds_bind [OF finds_shuffled] finds_ret) (simp add: mset_filter multiset_partition [symmetric])
  then show t: "finds (sortAccountsByPriorityAndLastUsed as p) (\<lambda>r. mset r = mset as)"
    unfolding sortAccountsByPriorityAndLastUsed_def shuffleWithinPriorityAndLastUsed_def
    by (rule finds_weaken [OF finds_eachRun]) (simp add: mset_sortStable)
  show "finds (sortCandidatesForFallback as p m) (\<lambda>r. mset r = mset as)"
    unfolding sortCandidatesForFallback_def shuffleWithinPriority_def sortAccountsByPriorityOnly_def
    by (intro finds_splits t) (rule finds_weaken [OF finds_eachRun [OF finds_shuffled]], simp add: mset_sortStable)
qed

lemma finds_routedSticky:
  assumes "\<And>a. a \<in> set accounts \<Longrightarrow> fits64 a"
  shows "finds (routedSticky sv q accounts ids) (soundFor sv q)"
proof -
  have w: "keepsOk (stickyWait sv c cfg a h)" for c cfg a h
    unfolding stickyWait_def waitingCount_def by (intro ok_rules ok_slots ok_checks)
  have fit: "fitsSearch sv q a" if "accountByID accounts i = Some a" "i \<notin> sr_excluded q" "modelSupported (sr_ctx q) (sr_model q) a" for a i
    using accountByID_Some [OF that(1)] that assms by (auto simp: fitsRequest_def)
  have s: "finds (newSelectionResult sv a True f None) (soundResult sv (sr_ctx q) (sr_model q) (sr_excluded q))"
    if "fitsSearch sv q a" "slotOf (sa_ID a) f" for a f
    by (rule finds_selection) (use that in auto)
  have waits: "soundResult sv (sr_ctx q) (sr_model q) (sr_excluded q)
      (Inr \<lparr>se_Account = a, se_Acquired = False, se_ReleaseFunc = None, se_WaitPlan = Some (stickyWaitPlan (sr_cfg q) a)\<rparr>)"
    if "fitsSearch sv q a" for a
    using that by (simp add: soundResult_def)
  show ?thesis
    unfolding routedSticky_def
    by (intro finds_splits finds_ret finds_bind [OF ok_sessions(2)] finds_bind [OF finds_candidateChecks] finds_bind [OF finds_takeSlot])
      (auto intro!: finds_bind [OF s] finds_bind [OF w] finds_ret fit waits split: taking.split if_splits dest: fit)
qed

lemma finds_layerRouted:
  assumes "\<And>a. a \<in> set accounts \<Longrightarrow> fits64 a"
  shows "finds (layerRouted sv q accounts ids) (soundFor sv q)"
proof -
  let ?cs = "List.map_filter (\<lambda>i. if i \<in> sr_excluded q then None else accountByID accounts i) ids"
  have fit: "fitsSearch sv q a" if "a \<in> set ?cs" "modelSupported (sr_ctx q) (sr_model q) a" for a
    using that accountByID_Some assms by (fastforce simp: mem_map_filter fitsRequest_def split: if_splits)
  have c: "finds (filterProg (candidateChecks sv q False) ?cs) (\<lambda>cs. \<forall>a \<in> set cs. fitsSearch sv q a)"
    by (rule finds_weaken [OF finds_filterProg [OF finds_candidateChecks]]) (auto intro: fit)
  have items: "finds (shuffleWithinSortGroups (sortStable byLoad xs)) (\<lambda>r. al_account ` set r = al_account ` set xs)" for xs
    by (rule finds_weaken [OF finds_sorted(1)]) (metis set_mset_mset set_sortStable)
  show ?thesis
    unfolding layerRouted_def
    by (intro finds_bind [OF c] finds_splits finds_ret finds_bind [OF finds_routedSticky [OF assms]] finds_bind [OF ok_slots(4)] finds_bind [OF items]
        finds_bind [OF finds_takeFirst] finds_waitFirst)
      (auto dest!: availableOf_accounts simp: image_iff set_eq_iff)
qed

lemma finds_layerSticky:
  assumes "\<And>a. a \<in> set accounts \<Longrightarrow> fits64 a"
  shows "finds (layerSticky sv q accounts) (soundFor sv q)"
proof -
  have w: "keepsOk (stickyWait sv c cfg a h)" for c cfg a h
    unfolding stickyWait_def waitingCount_def by (intro ok_rules ok_slots ok_checks)
  have fit: "fitsSearch sv q a" if "accountByID accounts i = Some a" "i \<notin> sr_excluded q" "modelSupported (sr_ctx q) (sr_model q) a" for a i
    using accountByID_Some [OF that(1)] that assms by (auto simp: fitsRequest_def)
  have s: "finds (newSelectionResult sv a True f None) (soundResult sv (sr_ctx q) (sr_model q) (sr_excluded q))"
    if "fitsSearch sv q a" "slotOf (sa_ID a) f" for a f
    by (rule finds_selection) (use that in auto)
  have p: "finds (newSelectionResult sv a False None (Some (stickyWaitPlan cfg a))) (soundResult sv (sr_ctx q) (sr_model q) (sr_excluded q))"
    if "fitsSearch sv q a" for a cfg
    by (rule finds_selection) (use that in auto)
  have c: "finds (allOf ([ret (isAccountInGroup a g), ret (isAccountAllowedForPlatform a pf mx), ret (modelSupported (sr_ctx q) (sr_model q) a)] @
      limitChecks sv (sr_ctx q) (sr_model q) True a)) (\<lambda>ok. ok \<longrightarrow> modelSupported (sr_ctx q) (sr_model q) a)" for a g pf mx
    by (rule finds_allOf [OF _ finds_pure]) (auto intro: ok_limitChecks ok_ret)
  show ?thesis
    unfolding layerSticky_def
    by (intro finds_splits finds_ret finds_bind [OF ok_checks(7)] finds_bind [OF ok_sessions(2)] finds_bind [OF c] finds_bind [OF finds_takeSlot])
      (auto intro!: finds_bind [OF s] finds_bind [OF p] finds_bind [OF w] finds_bind [OF ok_caches(3)] finds_ret fit split: taking.split dest: fit)
qed

lemma finds_layeredLoop:
  "(\<And>x. x \<in> set available \<Longrightarrow> fitsRequest sv cx m excluded (al_account x)) \<Longrightarrow>
    finds (layeredLoop sv g h p available) (soundLayer sv cx m excluded)"
proof (induction available rule: measure_induct_rule [of length])
  case (less available)
  let ?sel = "selectByLRU (filterByMinLoadRate (filterByMinPriority available)) p"
  have y: "yields ?sel (\<lambda>r. \<forall>x. r = Some x \<longrightarrow> x \<in> set available)"
    unfolding yields_def using tried_is_listed by (metis prod.collapse)
  have sel: "finds ?sel (\<lambda>r. \<forall>x. r = Some x \<longrightarrow> x \<in> set available)"
    unfolding finds_def by (rule rg_weaken [OF rg_yields [OF ok_sorted(6) [unfolded finds_def] y]]) auto
  have s: "finds (newSelectionResult sv (al_account x) True f None) (soundResult sv cx m excluded)"
    if "x \<in> set available" "slotOf (sa_ID (al_account x)) f" for x f
    by (rule finds_selection) (use that less.prems in auto)
  have rest: "finds (layeredLoop sv g h p (filter (\<lambda>y. sa_ID (al_account y) \<noteq> sa_ID (al_account x)) available)) (soundLayer sv cx m excluded)"
    if "x \<in> set available" for x
    by (rule less.IH) (use that less.prems in \<open>auto intro: length_filter_less\<close>)
  show ?case
    unfolding layeredLoop.simps [of sv g h p available]
    by (intro finds_bind [OF sel] finds_splits finds_ret finds_bind [OF finds_takeSlot])
      (auto intro!: finds_bind [OF ok_sessions(1)] finds_bind [OF s] finds_ret rest split: taking.split)
qed

lemma finds_candidates:
  assumes "\<And>a. a \<in> set accounts \<Longrightarrow> fits64 a"
  shows "finds (selectCandidates sv q p accounts) (soundResult sv (sr_ctx q) (sr_model q) (sr_excluded q))"
proof -
  have c: "finds (filterProg (candidateChecks sv q False) (filter (\<lambda>a. sa_ID a \<notin> sr_excluded q) accounts)) (\<lambda>cs. \<forall>a \<in> set cs. fitsSearch sv q a)"
    by (rule finds_weaken [OF finds_filterProg [OF finds_candidateChecks]]) (use assms in \<open>auto simp: fitsRequest_def\<close>)
  have load: "finds (layerLoad sv q p cs) (soundFor sv q)" if "\<forall>a \<in> set cs. fitsSearch sv q a" for cs
    unfolding layerLoad_def tryAcquireByLegacyOrder_def
    by (intro finds_bind [OF ok_slots(4)] finds_splits finds_bind [OF finds_sorted(2)] finds_takeFirst finds_layeredLoop)
      (use that in \<open>auto dest!: availableOf_accounts mset_eq_setD\<close>)
  have fall: "finds (layerFallback sv q p cs) (soundResult sv (sr_ctx q) (sr_model q) (sr_excluded q))" if "\<forall>a \<in> set cs. fitsSearch sv q a" for cs
    unfolding layerFallback_def
    by (intro finds_bind [OF finds_sorted(3)] finds_bind [OF finds_waitFirst] finds_ret)
      (use that in \<open>auto dest!: mset_eq_setD split: option.splits\<close>)
  show ?thesis
    unfolding selectCandidates_def
    by (intro finds_bind [OF c] finds_splits finds_ret finds_bind [OF load] fall) auto
qed

lemma finds_layers:
  assumes "\<And>a. a \<in> set accounts \<Longrightarrow> fits64 a"
  shows "finds (selectLayers sv q p accounts ids) (soundResult sv (sr_ctx q) (sr_model q) (sr_excluded q))"
proof -
  have l: "finds (if ids = [] then layerSticky sv q accounts else layerRouted sv q accounts ids) (soundFor sv q)"
    by (intro finds_splits finds_layerSticky finds_layerRouted assms)
  show ?thesis
    unfolding selectLayers_def by (intro finds_bind [OF l] finds_splits finds_ret finds_candidates assms) auto
qed

section \<open>The search by priority and last use\<close>

lemma finds_pickBest:
  assumes "\<And>a. finds (passes a) (\<lambda>ok. ok \<longrightarrow> P a)"
  shows "finds (pickBest passes tie as sel) (\<lambda>r. \<forall>a. r = Some a \<longrightarrow> sel = Some a \<or> a \<in> set as \<and> P a)"
proof (induction as arbitrary: sel)
  case (Cons a as)
  have step: "finds (pickBest passes tie as sel') (\<lambda>r. \<forall>b. r = Some b \<longrightarrow> sel = Some b \<or> b \<in> set (a # as) \<and> P b)"
    if "\<forall>b. sel' = Some b \<longrightarrow> sel = Some b \<or> b = a \<and> P a" for sel'
    by (rule finds_weaken [OF Cons]) (use that in auto)
  show ?case
    unfolding pickBest.simps by (intro finds_bind [OF assms] step) (auto split: if_splits option.splits)
qed (simp add: finds_ret)

lemma finds_bound:
  assumes "\<And>a. finds (passes a) (\<lambda>ok. ok \<longrightarrow> P a)"
  shows "finds (boundAccount sv g h m excluded allowed passes) (\<lambda>r. \<forall>a. r = Some a \<longrightarrow> sa_ID a \<notin> excluded \<and> fits64 a \<and> P a)"
  unfolding boundAccount_def
  by (intro finds_splits finds_ret finds_bind [OF ok_caches(1)] finds_bind [OF finds_schedulable] finds_bind [OF ok_checks(7)]
      finds_bind [OF ok_sessions(2)] finds_bind [OF assms]) (auto simp: idFound_def)

text \<open>What is read ahead does not change what the request asks for.\<close>

lemma yields_prefetched: "yields (prefetched sv cx as) (\<lambda>cx'. cx_Thinking cx' = cx_Thinking cx)"
proof -
  have "yields (withWindowCostPrefetch sv cx as) (\<lambda>cx'. cx_Thinking cx' = cx_Thinking cx)"
    unfolding withWindowCostPrefetch_def Let_def by (intro yields_rules) simp_all
  moreover have "yields (withRPMPrefetch sv cx' as) (\<lambda>cx''. cx_Thinking cx'' = cx_Thinking cx)" if "cx_Thinking cx' = cx_Thinking cx" for cx'
    unfolding withRPMPrefetch_def Let_def by (intro yields_rules) (use that in \<open>auto split: sum.splits\<close>)
  ultimately show ?thesis unfolding prefetched_def by (rule yields_bind_cond)
qed

lemma finds_prefetched: "finds (prefetched sv cx as) (\<lambda>cx'. cx_Thinking cx' = cx_Thinking cx)"
  unfolding finds_def by (rule rg_weaken [OF rg_yields [OF ok_prefetched [unfolded finds_def] yields_prefetched]]) auto

lemma finds_legacyChecks:
  "finds (legacyChecks sv cx l grp m excluded restricted a) (\<lambda>ok. ok \<longrightarrow> sa_ID a \<notin> excluded \<and> modelSupported cx m a)"
proof -
  have pr: "keepsOk (passesPrivacy sv grp a)" unfolding passesPrivacy_def by (intro ok_rules ok_SetError)
  have all: "keepsOk c" if "c \<in> set ([ret (sa_ID a \<notin> excluded), isAccountSchedulableForSelection a, passesPrivacy sv grp a, ret (le_Filter l a),
       ret (modelSupported cx m a), ret (\<not> restricted a)] @ limitChecks sv cx m False a)" for c
    using that by (auto intro: ok_ret ok_checks pr ok_limitChecks)
  have 1: "finds (legacyChecks sv cx l grp m excluded restricted a) (\<lambda>ok. ok \<longrightarrow> sa_ID a \<notin> excluded)"
    unfolding legacyChecks_def by (rule finds_allOf [OF _ finds_pure all]) simp_all
  have 2: "finds (legacyChecks sv cx l grp m excluded restricted a) (\<lambda>ok. ok \<longrightarrow> modelSupported cx m a)"
    unfolding legacyChecks_def by (rule finds_allOf [OF _ finds_pure all]) simp_all
  show ?thesis using 1 2 unfolding finds_def rgx_def by blast
qed

text \<open>The checks of the account of a session include the model.\<close>

definition checksModel :: "legacy_search \<Rightarrow> string \<Rightarrow> bool" where
  "checksModel l m \<longleftrightarrow> (\<forall>cx a. finds (le_RoutedSticky l cx a) (\<lambda>ok. ok \<longrightarrow> modelSupported cx m a) \<and>
     finds (le_Sticky l cx a) (\<lambda>ok. ok \<longrightarrow> modelSupported cx m a))"

definition fitsLegacy :: "select_ctx \<Rightarrow> string \<Rightarrow> int set \<Rightarrow> sched_account \<Rightarrow> bool" where
  "fitsLegacy cx m excluded a \<longleftrightarrow> sa_ID a \<notin> excluded \<and> fits64 a \<and> modelSupported cx m a"

lemma finds_selectRouted:
  assumes "checksModel l m"
  shows "finds (selectRouted sv cx l g h m excluded grp ids) (\<lambda>r. \<forall>a b cx'. r = Inr (a, b, cx') \<longrightarrow> cx_Thinking cx' = cx_Thinking cx \<and>
    (\<forall>x. a = Some x \<longrightarrow> fitsLegacy cx m excluded x) \<and> (\<forall>as. b = Some as \<longrightarrow> (\<forall>x \<in> set as. fits64 x)))"
proof -
  have bound: "finds (boundAccount sv g h m excluded al (le_RoutedSticky l cx)) (\<lambda>r. \<forall>a. r = Some a \<longrightarrow> fitsLegacy cx m excluded a)" for al
    by (rule finds_weaken [OF finds_bound [where P = "modelSupported cx m"]]) (use assms in \<open>auto simp: checksModel_def fitsLegacy_def\<close>)
  have pick: "finds (pickBest (\<lambda>a. if 0 < sa_ID a \<and> sa_ID a \<in> set ids then legacyChecks sv cx' l grp m excluded (\<lambda>_. False) a else ret False) tie as None)
      (\<lambda>r. \<forall>a. r = Some a \<longrightarrow> fitsLegacy cx m excluded a)" if "\<forall>a \<in> set as. fits64 a" "cx_Thinking cx' = cx_Thinking cx" for cx' tie as
  proof -
    have eq: "modelSupported cx' m a = modelSupported cx m a" for a using that(2) by (rule modelSupported_cong)
    have c: "finds (if 0 < sa_ID a \<and> sa_ID a \<in> set ids then legacyChecks sv cx' l grp m excluded (\<lambda>_. False) a else ret False)
        (\<lambda>ok. ok \<longrightarrow> sa_ID a \<notin> excluded \<and> modelSupported cx' m a)" for a
      by (intro finds_splits finds_legacyChecks finds_ret) simp
    show ?thesis by (rule finds_weaken [OF finds_pickBest [OF c]]) (use that(1) in \<open>auto simp: eq fitsLegacy_def\<close>)
  qed
  show ?thesis
    unfolding selectRouted_def
    by (intro finds_splits finds_ret finds_bind [OF bound] finds_bindE [OF finds_listSchedulable] finds_bind [OF finds_prefetched]
        finds_bind [OF pick] finds_bind [OF ok_sessions(1)]) (auto simp: listFit_def)
qed

lemma finds_selectUnrouted:
  assumes "\<And>a. a \<in> set as \<Longrightarrow> fits64 a"
  shows "finds (selectUnrouted sv cx l g h m excluded grp as) (\<lambda>r. \<forall>a. r = Inr a \<longrightarrow> fitsLegacy cx m excluded a)"
proof -
  have pick: "finds (pickBest (legacyChecks sv cx' l grp m excluded re) tie as None) (\<lambda>r. \<forall>a. r = Some a \<longrightarrow> fitsLegacy cx m excluded a)"
    if "cx_Thinking cx' = cx_Thinking cx" for cx' tie re
  proof -
    have eq: "modelSupported cx' m a = modelSupported cx m a" for a using that by (rule modelSupported_cong)
    show ?thesis by (rule finds_weaken [OF finds_pickBest [OF finds_legacyChecks]]) (use assms in \<open>auto simp: eq fitsLegacy_def\<close>)
  qed
  have stats: "keepsOk (collectSelectionFailureStats cx' as m p excluded mx)" for cx' p mx
    unfolding collectSelectionFailureStats_def diagnoseSelectionFailure_def by (intro ok_mapProg ok_rules ok_checks)
  show ?thesis
    unfolding selectUnrouted_def
    by (intro finds_bind [OF finds_prefetched] finds_bind [OF pick] finds_splits finds_ret finds_bind [OF ok_sessions(1)] finds_bind [OF stats]) auto
qed

lemma finds_selectLegacy:
  assumes "checksModel l m"
  shows "finds (selectLegacy sv cx l g h m excluded) (\<lambda>r. \<forall>a. r = Inr a \<longrightarrow> fitsLegacy cx m excluded a)"
proof -
  have resolve: "keepsOk (resolveGroupByID cx i)" "keepsOk (schedGroupGetByID i)" for i
    unfolding resolveGroupByID_def schedGroupGetByID_def groupGetByIDLite_def by (intro ok_rules; simp)+
  have routes: "keepsOk (routingAccountIDsForRequest sv cx g m p)" for p
    unfolding routingAccountIDsForRequest_def by (intro ok_rules resolve)
  have grp: "keepsOk (case g of None \<Rightarrow> ret None | Some i \<Rightarrow> do { r \<leftarrow> schedGroupGetByID i; ret (case r of Inl _ \<Rightarrow> None | Inr g \<Rightarrow> Some g) })"
    by (intro ok_rules resolve)
  have bound: "finds (boundAccount sv g h m excluded al (le_Sticky l cx')) (\<lambda>r. \<forall>a. r = Some a \<longrightarrow> fitsLegacy cx m excluded a)"
    if "cx_Thinking cx' = cx_Thinking cx" for al cx'
  proof -
    have eq: "modelSupported cx' m a = modelSupported cx m a" for a using that by (rule modelSupported_cong)
    have c: "finds (le_Sticky l cx' a) (\<lambda>ok. ok \<longrightarrow> modelSupported cx' m a)" for a using assms by (simp add: checksModel_def)
    show ?thesis by (rule finds_weaken [OF finds_bound [OF c]]) (auto simp: eq fitsLegacy_def)
  qed
  have accounts: "finds (case b of Some as \<Rightarrow> ret (Inr (as, False)) | None \<Rightarrow> listSchedulableAccounts sv g p force) listFit"
    if "\<forall>as. b = Some as \<longrightarrow> (\<forall>x \<in> set as. fits64 x)" for b p force
    by (intro finds_splits finds_listSchedulable finds_ret) (use that in \<open>auto simp: listFit_def\<close>)
  have unrouted: "finds (selectUnrouted sv cx' l g h m excluded grp as) (\<lambda>r. \<forall>a. r = Inr a \<longrightarrow> fitsLegacy cx m excluded a)"
    if "cx_Thinking cx' = cx_Thinking cx" "\<forall>a \<in> set as. fits64 a" for cx' as grp
  proof -
    have eq: "modelSupported cx' m a = modelSupported cx m a" for a using that(1) by (rule modelSupported_cong)
    show ?thesis by (rule finds_weaken [OF finds_selectUnrouted]) (use that(2) in \<open>auto simp: eq fitsLegacy_def\<close>)
  qed
  show ?thesis
    unfolding selectLegacy_def
    by (intro finds_bind [OF routes] finds_bind [OF grp] finds_bindE [OF finds_selectRouted [OF assms]] finds_splits finds_ret
        finds_bind [OF bound] finds_bindE [OF accounts] unrouted) (auto simp: listFit_def)
qed

section \<open>The whole search\<close>

lemma checks_model:
  assumes "ret (modelSupported cx m a) \<in> set cs" "\<And>c. c \<in> set cs \<Longrightarrow> \<exists>b. c = ret b"
  shows "finds (allOf (cs @ limitChecks sv cx m st a)) (\<lambda>ok. ok \<longrightarrow> modelSupported cx m a)"
    and "(\<And>c. c \<in> set ds \<Longrightarrow> \<exists>b. c = ret b) \<Longrightarrow>
      finds (allOf ((cs @ limitChecks sv cx m st a) @ ds)) (\<lambda>ok. ok \<longrightarrow> modelSupported cx m a)"
  by (rule finds_allOf [OF _ finds_pure]; use assms ok_ret ok_limitChecks in fastforce)+

lemma finds_search:
  "finds (selectAccountForModelWithPlatform sv cx g h m excluded p) (\<lambda>r. \<forall>a. r = Inr a \<longrightarrow> fitsLegacy cx m excluded a)"
  "finds (selectAccountWithMixedScheduling sv cx g h m excluded p) (\<lambda>r. \<forall>a. r = Inr a \<longrightarrow> fitsLegacy cx m excluded a)"
  unfolding selectAccountForModelWithPlatform_def selectAccountWithMixedScheduling_def Let_def
  by (rule finds_selectLegacy, unfold checksModel_def legacy_search.select_convs, intro allI conjI checks_model; fastforce)+

lemma ok_groups:
  "keepsOk (resolveGroupByID cx i)" "keepsOk (walkGroups cx v i)" "keepsOk (resolveGatewayGroup cx g)" "keepsOk (checkClaudeCodeRestriction cx g)"
  "keepsOk (resolvePlatform cx g grp)" "keepsOk (stickyAccountID cx g h)"
proof -
  show r: "keepsOk (resolveGroupByID cx i)" for i
    unfolding resolveGroupByID_def groupGetByIDLite_def by (intro ok_rules; simp)
  show w: "keepsOk (walkGroups cx v i)" for v i
  proof (induction cx v i rule: walkGroups.induct)
    case (1 cx v i)
    have r1: "keepsOk (resolveGroupByID cx i)" unfolding resolveGroupByID_def groupGetByIDLite_def by (intro ok_rules; simp)
    show ?case unfolding walkGroups.simps [of cx v i] by (intro ok_rules r1 1)
  qed
  show k: "keepsOk (resolveGatewayGroup cx g)" unfolding resolveGatewayGroup_def by (intro ok_rules w)
  show "keepsOk (checkClaudeCodeRestriction cx g)" unfolding checkClaudeCodeRestriction_def by (intro ok_rules k)
  show "keepsOk (resolvePlatform cx g grp)" unfolding resolvePlatform_def by (intro ok_rules r)
  show "keepsOk (stickyAccountID cx g h)" unfolding stickyAccountID_def by (intro ok_rules ok_caches)
qed

lemma withGroupContext_thinking: "cx_Thinking (withGroupContext cx g) = cx_Thinking cx"
  by (simp add: withGroupContext_def split: option.split)

lemma fitsRequest_cong: "cx_Thinking cx' = cx_Thinking cx \<Longrightarrow> fitsRequest sv cx' m excluded = fitsRequest sv cx m excluded"
  using modelSupported_cong [of cx' cx] by (auto simp: fitsRequest_def fun_eq_iff)

lemma finds_exclusions:
  "finds (SelectAccountForModelWithExclusions sv cx g h m excluded) (\<lambda>r. \<forall>a. r = Inr a \<longrightarrow> fitsRequest sv cx m excluded a)"
proof -
  have platform: "finds (case (forcedPlatform cx, g) of
         (Some p, _) \<Rightarrow> ret (Inr (cx, g, p))
       | (None, Some _) \<Rightarrow> bindE (resolveGatewayGroup cx g) id (\<lambda>(grp, resolved).
           ret (Inr (withGroupContext cx grp, resolved, case grp of Some g \<Rightarrow> gx_Platform g | None \<Rightarrow> [])))
       | (None, None) \<Rightarrow> ret (Inr (cx, g, PlatformAnthropic))) (\<lambda>r. \<forall>cx' g' p. r = Inr (cx', g', p) \<longrightarrow> cx_Thinking cx' = cx_Thinking cx)"
    by (intro finds_splits finds_ret finds_bindE [OF ok_groups(3)]) (auto simp: withGroupContext_thinking)
  have hyd: "finds (hydrateSelectedAccount sv a) (\<lambda>r. \<forall>h. r = Inr h \<longrightarrow> fitsRequest sv cx m excluded h)"
    if "fitsLegacy cx' m excluded a" "cx_Thinking cx' = cx_Thinking cx" for a cx'
  proof (cases "gv_snapshot sv")
    case None
    then show ?thesis using that modelSupported_cong [OF that(2)]
      by (simp add: hydrateSelectedAccount_def finds_ret fitsLegacy_def fitsRequest_def)
  next
    case (Some s)
    then show ?thesis using that by (intro finds_weaken [OF finds_hydrated]) (auto simp: sameFound_def fitsLegacy_def fitsRequest_def)
  qed
  show ?thesis
    unfolding SelectAccountForModelWithExclusions_def
    by (rule finds_bindE [OF platform])
      (auto intro!: finds_ret finds_bindE [OF finds_search(1)] finds_bindE [OF finds_search(2)] hyd)
qed

lemma finds_legacyRound:
  "finds (legacyRound sv cx cfg g h m sticky excluded)
    (\<lambda>r. case r of Inl res \<Rightarrow> soundResult sv cx m excluded res | Inr i \<Rightarrow> i \<notin> excluded \<and> i \<in> int64s)"
proof -
  have s: "finds (newSelectionResult sv a True f None) (soundResult sv cx m excluded)" if "fitsRequest sv cx m excluded a" "slotOf (sa_ID a) f" for a f
    by (rule finds_selection) (use that in auto)
  have p: "finds (newSelectionResult sv a False None (Some (if b then stickyWaitPlan cfg a else fallbackWaitPlan cfg a))) (soundResult sv cx m excluded)"
    if "fitsRequest sv cx m excluded a" for a b
    by (rule finds_selection) (use that in auto)
  have w: "keepsOk (case gv_concurrency sv of
                   Some c \<Rightarrow> if 0 < sticky \<and> sticky = sa_ID a
                     then do { n \<leftarrow> waitingCount c (sa_ID a); ret (n < cf_StickySessionMaxWaiting cfg) } else ret False
                 | None \<Rightarrow> ret False)" for a
    unfolding waitingCount_def by (intro ok_rules ok_slots)
  show ?thesis
    unfolding legacyRound_def
    by (intro finds_bind [OF finds_exclusions] finds_splits finds_ret finds_bind [OF finds_takeSlot])
      (auto intro!: finds_bind [OF s] finds_bind [OF p] finds_bind [OF w] finds_bind [OF ok_checks(6)] finds_ret
        simp: fitsRequest_def fits64_def split: taking.split)
qed

lemma soundResult_weaken: "soundResult sv cx m (insert i excluded) r \<Longrightarrow> soundResult sv cx m excluded r"
  by (auto simp: soundResult_def fitsRequest_def)

lemma legacyLoop_ends:
  "relies ordered w \<Longrightarrow> accountsOk (db w) \<Longrightarrow>
    \<exists>r w'. legacyLoop sv cx cfg g h m sticky excluded w = Some (r, w') \<and> soundResult sv cx m excluded r"
proof (induction "card (int64s - excluded)" arbitrary: excluded w rule: less_induct)
  case less
  obtain r w1 where r: "run_state (legacyRound sv cx cfg g h m sticky excluded) w = (r, w1)" by fastforce
  from findsD [OF finds_legacyRound less.prems r]
  have w1: "accountsOk (db w1)" "relies ordered w1"
    and res: "case r of Inl res \<Rightarrow> soundResult sv cx m excluded res | Inr i \<Rightarrow> i \<notin> excluded \<and> i \<in> int64s" by auto
  show ?case
  proof (cases r)
    case (Inl x)
    then show ?thesis using r res by (subst legacyLoop.simps) auto
  next
    case (Inr i)
    then have "i \<in> int64s" "i \<notin> excluded" using res by auto
    then have "card (int64s - insert i excluded) < card (int64s - excluded)" by (rule visit_decreases)
    from less.hyps [OF this w1(2,1)]
    obtain r' w' where "legacyLoop sv cx cfg g h m sticky (insert i excluded) w1 = Some (r', w')" "soundResult sv cx m (insert i excluded) r'" by blast
    then show ?thesis using r Inr soundResult_weaken by (subst legacyLoop.simps) auto
  qed
qed

lemma finds_withLoads: "finds (selectWithLoads sv cx c cfg grp g h m excluded sticky) (soundResult sv cx m excluded)"
proof -
  have layers: "finds (selectLayers sv \<lparr>sr_ctx = cx', sr_groupID = g, sr_hash = h, sr_model = m, sr_excluded = excluded, sr_platform = p,
      sr_mixed = mx, sr_sticky = sticky, sr_cfg = cfg, sr_conc = c\<rparr> pr as ids) (soundResult sv cx m excluded)"
    if "cx_Thinking cx' = cx_Thinking cx" "\<forall>a \<in> set as. fits64 a" for cx' p mx pr as ids
    by (rule finds_weaken [OF finds_layers]) (use that fitsRequest_cong [OF that(1), of sv m excluded] in \<open>auto simp: soundResult_def\<close>)
  show ?thesis
    unfolding selectWithLoads_def
    by (intro finds_bindE [OF ok_groups(5)] finds_splits finds_bindE [OF finds_listSchedulable] finds_ret finds_bind [OF finds_prefetched] layers)
      (auto simp: listFit_def)
qed

lemma search_ends:
  assumes "relies ordered w" "accountsOk (db w)"
  shows "\<exists>r w'. SelectAccountWithLoadAwareness sv cx g h m excluded w = Some (r, w') \<and> soundResult sv cx m excluded r"
proof -
  let ?cfg = "schedulingConfig sv"
  obtain r1 w1 where 1: "run_state (checkClaudeCodeRestriction cx g) w = (r1, w1)" by fastforce
  have w1: "accountsOk (db w1)" "relies ordered w1" using findsD [OF ok_groups(4) assms 1] by auto
  show ?thesis
  proof (cases r1)
    case (Inl e)
    then show ?thesis using 1 by (simp add: SelectAccountWithLoadAwareness_def)
  next
    case (Inr x)
    then obtain grp g1 where x: "r1 = Inr (grp, g1)" by (cases x) auto
    define cx1 where "cx1 = withGroupContext cx grp"
    obtain sticky w2 where 2: "run_state (stickyAccountID cx1 g1 h) w1 = (sticky, w2)" by fastforce
    have w2: "relies ordered w2" "accountsOk (db w2)" using findsD [OF ok_groups(6) w1(2,1) 2] by auto
    have same: "soundResult sv cx1 m excluded = soundResult sv cx m excluded"
      using fitsRequest_cong [of cx1 cx] by (simp add: cx1_def withGroupContext_thinking soundResult_def fun_eq_iff)
    from legacyLoop_ends [OF w2, of sv cx1 ?cfg g1 h m sticky excluded] same
    have legacy: "\<exists>r w'. legacyLoop sv cx1 ?cfg g1 h m sticky excluded w2 = Some (r, w') \<and> soundResult sv cx m excluded r" by simp
    have loads: "\<exists>r w'. run_state (selectWithLoads sv cx1 c ?cfg grp g1 h m excluded sticky) w2 = (r, w') \<and> soundResult sv cx m excluded r" for c
      using findsD [OF finds_withLoads w2 surjective_pairing] same by (metis prod.collapse)
    show ?thesis
      using 1 2 x legacy loads
      by (auto simp: SelectAccountWithLoadAwareness_def Let_def cx1_def [symmetric] split: option.split)
  qed
qed

end
