(* ===== verification/Selection_Safety.thy ===== *)
theory Selection_Safety
  imports Selection_Laws
begin

text \<open>
  The properties of the choice of an account: that it ends and is sound in every run, that it takes the best account, and what the snapshots
  of accounts and the reading of the account after the choice take away from it.
\<close>

section \<open>The choice\<close>

text \<open>C17. The search for an account always ends. Without loads it chooses again and again while the session does not fit the account it chose;
  since it never chooses an account that it has excluded, the search returns, whatever fails and whatever other processes do in the
  meantime, as long as the accounts in Redis stay under the keys of their identifiers.\<close>

theorem selection_ends:
  assumes "relies ordered w" and "accountsOk (db w)"
  shows "\<exists>r w'. SelectAccountWithLoadAwareness sv cx groupID sessionHash requestedModel excluded w = Some (r, w')"
  using search_ends [OF assms] by blast

text \<open>C8. What the search returns can be used: whatever fails and whatever other processes do, the account is not one that failed the request
  before, it supports the model unless it was read again after the choice, and the result has either a slot of this account with the function that
  gives it back, or a plan to wait for this account.\<close>

theorem selection_sound:
  assumes "relies ordered w" and "accountsOk (db w)"
    and "SelectAccountWithLoadAwareness sv cx groupID sessionHash requestedModel excluded w = Some (Inr x, w')"
  shows "sa_ID (se_Account x) \<notin> excluded \<and> (gv_snapshot sv = None \<longrightarrow> modelSupported cx requestedModel (se_Account x)) \<and>
    (if se_Acquired x
     then se_WaitPlan x = None \<and> (se_ReleaseFunc x = Some NoRelease \<or> (\<exists>i. se_ReleaseFunc x = Some (ReleaseAccount (sa_ID (se_Account x)) i)))
     else se_ReleaseFunc x = None \<and> (\<exists>p. se_WaitPlan x = Some p \<and> wp_AccountID p = sa_ID (se_Account x)))"
proof -
  from search_ends [OF assms(1,2), of sv cx groupID sessionHash requestedModel excluded] assms(3)
  have "soundResult sv cx requestedModel excluded (Inr x)" by auto
  then show ?thesis by (simp add: soundResult_def fitsRequest_def)
qed

text \<open>C18. The account that is tried first is a best one: filtering by priority, then by load, then by last use, with a random choice among those
  that remain, gives an account of the list than which no other is better in the order by which the routed accounts are sorted, and it gives
  none only if there is none.\<close>

theorem choice_is_least:
  "case fst (run_state (selectByLRU (filterByMinLoadRate (filterByMinPriority available)) preferOAuth) w) of
     None \<Rightarrow> available = []
   | Some x \<Rightarrow> x \<in> set available \<and> (\<forall>y \<in> set available. \<not> byLoad y x)"
proof -
  let ?l = "filterByMinLoadRate (filterByMinPriority available)"
  have "case fst (run_state (selectByLRU ?l preferOAuth) w) of None \<Rightarrow> ?l = [] | Some x \<Rightarrow> x \<in> set (leastRecent ?l)"
    using run_selectByLRU [of ?l preferOAuth w] by (metis prod.collapse)
  then show ?thesis
    by (fastforce simp: leastRecent_spec keepLeast_spec filterByMinLoadRate_def filterByMinPriority_def byLoad_def split: option.splits)
qed

section \<open>What snapshots take away\<close>

text \<open>C33. The limits of an account do not hold for its snapshot: whatever its quota, its requests per minute and the limits of its models are, the
  checks of quota and rate let the account of a snapshot pass, and the check of the model asks only whether the account as a whole may be used.\<close>

theorem snapshot_forgets_limits:
  "fst (run_state (isAccountSchedulableForQuota sv (buildSchedulerMetadataAccount a)) w) \<and>
   fst (run_state (isAccountSchedulableForRPM sv cx (buildSchedulerMetadataAccount a) isSticky) w) \<and>
   fst (run_state (isAccountSchedulableForModelSelection cx (buildSchedulerMetadataAccount a) requestedModel) w) =
     fst (run_state (isAccountSchedulableForSelection a) w)"
proof -
  have quota: "fst (run_state (isAccountSchedulableForQuota sv (buildSchedulerMetadataAccount a)) w)"
    by (simp add: isAccountSchedulableForQuota_def metadata_quota split_def)
  have rpm: "fst (run_state (isAccountSchedulableForRPM sv cx (buildSchedulerMetadataAccount a) isSticky) w)"
    by (simp add: isAccountSchedulableForRPM_def metadata_rpm stickyVerdict_def split_def)
  show ?thesis
    using quota rpm
    by (simp add: isAccountSchedulableForModelSelection_def isAccountSchedulableForSelection_def IsSchedulableForModelWithContext_def
        metadata_model_limit metadata_schedulable split_def)
qed

text \<open>C34. With a snapshot no session sticks to its account: an account of a snapshot has lost its groups, so for a key that has a group the layer of
  the sticky session finds nothing, whichever account the session is bound to, and the session moves to another account.\<close>

theorem sticky_lost_with_snapshots:
  assumes "set accounts \<subseteq> range buildSchedulerMetadataAccount" and "sr_groupID q = Some g"
  shows "fst (run_state (layerSticky sv q accounts) w) = None"
proof -
  have "\<not> isAccountInGroup a (Some g)" if "accountByID accounts i = Some a" for a i
    using accountByID_Some [OF that] assms(1) metadata_groups by (fastforce simp: isAccountInGroup_def)
  then show ?thesis
    using assms(2) by (auto simp: layerSticky_def split_def split: option.split)
qed

section \<open>A slot that is lost\<close>

text \<open>In a quiet run a slot that was taken is there, and nothing happened to the accounts.\<close>

lemma register_frame:
  "k \<noteq> k' \<Longrightarrow> zmembers (snd (registerSessionScript k n idle u d)) k' = zmembers d k'"
  "sd_accounts (snd (registerSessionScript k n idle u d)) = sd_accounts d"
  by (auto simp: registerSessionScript_def Let_def zremrangebyscore_def zadd_def)
    (auto simp: zwrite_def zexpire_def)

lemma slot_key_other: "sessionLimitKey i \<noteq> accountSlotKey j"
  by (simp add: sessionLimitKey_def sessionLimitKeyPrefix_def accountSlotKey_def accountSlotKeyPrefix_def)

lemma quiet_register:
  assumes "script w = []" "run_state (checkAndRegisterSession sv a h) w = (ok, w1)"
  shows "script w1 = [] \<and> sd_accounts (db w1) = sd_accounts (db w) \<and> zmembers (db w1) (accountSlotKey i) = zmembers (db w) (accountSlotKey i)"
  using assms register_frame(2) register_frame(1) [OF slot_key_other]
  by (auto simp: checkAndRegisterSession_def RegisterSession_def granted_def runScript_def run_simps split_def Let_def split: if_splits option.splits)

lemma acquire_accounts: "sd_accounts (snd (acquireScript k m ttl i d)) = sd_accounts d"
  by (auto simp: acquireScript_def Let_def zremrangebyscore_def zadd_def zwrite_def zexpire_def)

lemma quiet_takeSlot:
  assumes "script w = []" "gv_concurrency sv = Some c" "cv_cache c = Some cc" "0 < slotTTLSeconds cc" "0 < sa_Concurrency a"
    and "run_state (takeSlot sv a h) w = (Taken f, w1)"
  shows "script w1 = [] \<and> sd_accounts (db w1) = sd_accounts (db w) \<and> nextID c (db w) \<in> fst ` set (zmembers (db w1) (accountSlotKey (sa_ID a)))"
proof -
  let ?k = "accountSlotKey (sa_ID a)"
  let ?s = "acquireScript ?k (sa_Concurrency a) (slotTTLSeconds cc) (nextID c (db w)) (counted c (db w))"
  obtain ok w2 where r: "run_state (checkAndRegisterSession sv a h) (w\<lparr>db := snd ?s\<rparr>) = (ok, w2)"
    by (cases "run_state (checkAndRegisterSession sv a h) (w\<lparr>db := snd ?s\<rparr>)")
  have one: "fst ?s = 1" and "w2 = w1"
    using assms(6) r by (auto simp: takeSlot_def tryAcquireAccountSlot_def assms(1-3,5) run_account_quiet split_def Let_def giveBack_def split: if_splits option.splits)
  moreover have "sd_accounts (snd ?s) = sd_accounts (db w)" by (simp add: acquire_accounts counted_def)
  moreover have "nextID c (db w) \<in> fst ` set (zmembers (snd ?s) ?k)" by (simp add: acquire_spec(2) [OF assms(4)] one)
  ultimately show ?thesis using quiet_register [OF _ r, of "sa_ID a"] assms(1) by simp
qed

text \<open>C35. A slot can be lost by the choice itself: with snapshots the account is read again after its slot was taken. If that fails, because the
  account has left Redis and the database may not be asked, the search ends with the error of the reading, the function that gives the slot
  back is dropped, and the slot stays taken.\<close>

theorem unread_account_keeps_slot:
  assumes "script w = []" "gv_concurrency sv = Some c" "cv_cache c = Some cc" "0 < slotTTLSeconds cc" "0 < sa_Concurrency a"
    and "gv_snapshot sv = Some s" "ss_cache s \<noteq> None" "ss_cfg s = Some f" "\<not> sf_DbFallbackEnabled f" "0 < sa_ID a"
    and "sd_accounts (db w) (schedulerAccountKey (formatInt (sa_ID a))) = None"
    and "run_state (takeSlot sv a h) w = (Taken release, w1)"
  shows "case run_state (takeFirst sv g h (a # as)) w of (r, w2) \<Rightarrow>
    r = Some (Inl ErrSchedulerCacheNotReady) \<and> nextID c (db w) \<in> fst ` set (zmembers (db w2) (accountSlotKey (sa_ID a)))"
proof -
  note taken = quiet_takeSlot [OF assms(1-5,12)]
  have nums: "zmembers (d\<lparr>cc_nums := n\<rparr>) k = zmembers d k" for d :: sched_db and n k by (simp add: zmembers_def unexpired_def split: option.split)
  show ?thesis
    using assms(6-11) taken
    by (auto simp: assms(12) bindSession_def SetSessionAccountID_def cmd_def numSet_def nums newSelectionResult_def hydrateSelectedAccount_def
        snapshotGetAccount_def cacheGetAccount_def guardFallback_def run_simps)
qed

section \<open>Concrete runs\<close>

text \<open>Two accounts that were never used and have no limits; account 9 failed the request before. Without loads the search takes account 7.\<close>

definition freeAccount :: "int \<Rightarrow> sched_account" where
  "freeAccount i = (sampleAccount i)\<lparr>sa_gw := (sa_gw (sampleAccount i))\<lparr>ga_Quota := noQuota\<rparr>, sa_AccountGroups := []\<rparr>"

definition freeSched :: sched_db where
  "freeSched = sampleSched\<lparr>sd_rows := [freeAccount 9, freeAccount 7], sd_bindings := []\<rparr>"

definition sampleGateway :: gateway_service where
  "sampleGateway = \<lparr>gv_cfg = None, gv_simple = False, gv_concurrency = None, gv_sessionLimit = None, gv_rpm = False, gv_snapshot = None,
     gv_schedulerCache = None, gv_channels = None, gv_zone = 0, gv_tz = (\<lambda>_. None), gv_starts = (\<lambda>ks. ks), gv_routes = (\<lambda>rs. rs)\<rparr>"

definition sampleContext :: select_ctx where
  "sampleContext = \<lparr>cx_ForcePlatform = None, cx_Group = None, cx_Thinking = None, cx_ClaudeCode = False, cx_StickyGroupID = None,
     cx_StickyAccountID = None, cx_WindowCosts = (\<lambda>_. None), cx_RPM = (\<lambda>_. None)\<rparr>"

lemma sampleGateway_parts [simp]: "gv_cfg sampleGateway = None" "gv_simple sampleGateway = False" "gv_concurrency sampleGateway = None"
  "gv_sessionLimit sampleGateway = None" "gv_rpm sampleGateway = False" "gv_snapshot sampleGateway = None" "gv_channels sampleGateway = None"
  by (simp_all add: sampleGateway_def)

lemma sampleContext_parts [simp]: "cx_ForcePlatform sampleContext = None" "cx_StickyGroupID sampleContext = None" "cx_Thinking sampleContext = None"
  by (simp_all add: sampleContext_def)

lemma freeAccount_parts [simp]: "sa_ID (freeAccount i) = i" "sa_Platform (freeAccount i) = PlatformAnthropic" "sa_Type (freeAccount i) = AccountTypeAPIKey"
  "IsSchedulable now (freeAccount i)" "IsAPIKeyOrBedrock (sa_gw (freeAccount i))" "\<not> IsAnthropicOAuthOrSetupToken (sa_gw (freeAccount i))"
  "ga_Quota (sa_gw (freeAccount i)) = noQuota" "sa_Concurrency (freeAccount i) = 1" "sa_Priority (freeAccount i) = 1" "sa_LastUsedAt (freeAccount i) = None"
  by (simp_all add: freeAccount_def sampleAccount_def IsSchedulable_def IsActive_def before_def IsAPIKeyOrBedrock_def IsAnthropicOAuthOrSetupToken_def
      AccountTypeOAuth_def AccountTypeAPIKey_def)

lemma freeAccount_models: "modelSupported sampleContext ''claude'' (freeAccount i)"
  by (simp add: modelSupported_def isModelSupportedByAccountWithContext_def isModelSupportedByAccount_def IsModelSupported_def resolveModelMapping_def Let_def IsBedrock_def
      freeAccount_def sampleAccount_def PlatformAnthropic_def PlatformAntigravity_def PlatformOpenAI_def AccountTypeBedrock_def AccountTypeAPIKey_def)

lemma noQuota_unexceeded: "\<not> IsQuotaExceeded tz noQuota t1 t2"
  by (simp add: noQuota_def IsQuotaExceeded_def GetQuotaLimit_def GetQuotaDailyLimit_def GetQuotaWeeklyLimit_def getExtraFloat64_def)

lemma freeAccount_model_limit: "IsSchedulableForModelWithContext None t1 t2 t3 (freeAccount i) m"
  by (simp add: IsSchedulableForModelWithContext_def isModelRateLimitedWithContext_def isRateLimitActiveForKey_def Let_def freeAccount_def sampleAccount_def
     IsSchedulable_def IsActive_def before_def)

lemma sample_list: "run_state (listSchedulableAccounts sampleGateway None PlatformAnthropic False) (schedWorld freeSched) =
   (Inr ([freeAccount 9, freeAccount 7], True), schedWorld freeSched)"
  by (simp add: listSchedulableAccounts_def mixesPlatforms_def ListSchedulableUngroupedByPlatforms_def run_simps freeSched_def sampleSched_def
     freeAccount_def sampleAccount_def schedulableRow_def tempUnschedulablePredicate_def notExpiredPredicate_def before_def isBound_def byPriority_def sortStable_def usableMixed_def
     PlatformAnthropic_def PlatformAntigravity_def StatusActive_def)

lemma sample_checks: "run_state (legacyChecks sampleGateway sampleContext l None ''claude'' {9} (\<lambda>_. False) (freeAccount i)) (schedWorld freeSched) =
    (i \<noteq> 9 \<and> le_Filter l (freeAccount i), schedWorld freeSched)"
  by (simp add: legacyChecks_def limitChecks_def isAccountSchedulableForSelection_def isAccountSchedulableForModelSelection_def isAccountSchedulableForQuota_def
    isAccountSchedulableForWindowCost_def isAccountSchedulableForRPM_def passesPrivacy_def run_simps freeAccount_models freeAccount_model_limit noQuota_unexceeded)

lemma freeAccount_usable: "usableMixed (freeAccount i)"
  by (simp add: usableMixed_def PlatformAnthropic_def PlatformAntigravity_def)

abbreviation sampleChoice :: selection_result where
  "sampleChoice \<equiv> \<lparr>se_Account = freeAccount 7, se_Acquired = True, se_ReleaseFunc = Some NoRelease, se_WaitPlan = None\<rparr>"

lemma sample_prefetched: "prefetched sampleGateway cx accounts = ret cx"
  by (simp add: prefetched_def withWindowCostPrefetch_def withRPMPrefetch_def Let_def)

lemma sample_select: "run_state (selectAccountWithMixedScheduling sampleGateway sampleContext None [] ''claude'' {9} PlatformAnthropic) (schedWorld freeSched) =
    (Inr (freeAccount 7), schedWorld freeSched)"
  by (simp add: selectAccountWithMixedScheduling_def Let_def selectLegacy_def routingAccountIDsForRequest_def selectRouted_def boundAccount_def sample_list
     selectUnrouted_def sample_prefetched sample_checks freeAccount_usable bindSession_def run_simps)

lemma sample_search: "SelectAccountWithLoadAwareness sampleGateway sampleContext None [] ''claude'' {9} (schedWorld freeSched) = Some (Inr sampleChoice, schedWorld freeSched)"
  by (simp add: SelectAccountWithLoadAwareness_def Let_def checkClaudeCodeRestriction_def checkChannelPricingRestriction_def withGroupContext_def stickyAccountID_def
    prefetchedStickyAccountID_def legacyLoop.simps legacyRound_def SelectAccountForModelWithExclusions_def forcedPlatform_def mixesPlatforms_def sample_select
    hydrateSelectedAccount_def run_simps takeSlot_def tryAcquireAccountSlot_def checkAndRegisterSession_def newSelectionResult_def)

text \<open>With slots and snapshots, where the database may not be asked for what Redis has lost.\<close>

definition sampleConc :: "sched_db concurrency_service" where
  "sampleConc = \<lparr>cv_cache = Some \<lparr>slotTTLSeconds = 900, waitQueueTTLSeconds = 900\<rparr>, cv_random = 5, cv_scan = (\<lambda>_. [])\<rparr>"

definition snapshotGateway :: gateway_service where
  "snapshotGateway = sampleGateway\<lparr>gv_concurrency := Some sampleConc,
     gv_snapshot := Some (sampleSnapshots\<lparr>ss_cfg := Some \<lparr>sf_DbFallbackEnabled = False, sf_OutboxLagRebuildSeconds = 0, sf_OutboxLagRebuildFailures = 0, sf_OutboxBacklogRebuildRows = 0\<rparr>\<rparr>)\<rparr>"

lemma sampleConc_cache [simp]: "cv_cache sampleConc = Some \<lparr>slotTTLSeconds = 900, waitQueueTTLSeconds = 900\<rparr>"
  by (simp add: sampleConc_def)

lemma sample_taken: "run_state (takeSlot snapshotGateway (freeAccount 7) ''s'') (schedWorld sampleSched) =
    (Taken (Some (requestOf sampleConc sampleSched 7)), (schedWorld sampleSched)\<lparr>db := snd (acquireScript (accountSlotKey 7) 1 900
       (nextID sampleConc sampleSched) (counted sampleConc sampleSched))\<rparr>)"
proof -
  have "fst (acquireScript (accountSlotKey 7) 1 900 (nextID sampleConc sampleSched) (counted sampleConc sampleSched)) = 1"
    by (simp add: acquire_spec liveSlots_def counted_slots)
  then show ?thesis
    by (simp add: takeSlot_def tryAcquireAccountSlot_def snapshotGateway_def run_account_quiet sampleConc_cache split_def Let_def
        checkAndRegisterSession_def)
qed

lemma freeSched_ok: "accountsOk freeSched"
  by (simp add: accountsOk_def freeSched_def sampleSched_def int64s_def)

theorem selection_ends_witness:
  "\<exists>r w'. SelectAccountWithLoadAwareness sampleGateway sampleContext None ''s'' ''claude'' {} (schedWorld freeSched) = Some (r, w')"
  by (rule selection_ends) (simp_all add: relies_def freeSched_ok)

theorem selection_sound_witness:
  "fst (the (SelectAccountWithLoadAwareness sampleGateway sampleContext None [] ''claude'' {9} (schedWorld freeSched))) = Inr sampleChoice \<and>
   sa_ID (se_Account sampleChoice) \<notin> {9} \<and> modelSupported sampleContext ''claude'' (se_Account sampleChoice) \<and>
   se_Acquired sampleChoice \<and> se_WaitPlan sampleChoice = None"
  using selection_sound [OF _ _ sample_search] by (simp add: relies_def freeSched_ok sample_search)

text \<open>Of two accounts of one priority the one with the lesser load is chosen.\<close>

definition twoLoads :: "account_with_load list" where
  "twoLoads =
     [\<lparr>al_account = freeAccount 9, al_loadInfo = \<lparr>li_ID = 9, li_CurrentConcurrency = 1, li_WaitingCount = 0, li_LoadRate = 50\<rparr>\<rparr>,
      \<lparr>al_account = freeAccount 7, al_loadInfo = \<lparr>li_ID = 7, li_CurrentConcurrency = 0, li_WaitingCount = 0, li_LoadRate = 0\<rparr>\<rparr>]"

lemma choose_twoLoads: "fst (run_state (selectByLRU (filterByMinLoadRate (filterByMinPriority twoLoads)) False) w) = Some (twoLoads ! 1)"
  by (simp add: twoLoads_def filterByMinPriority_def filterByMinLoadRate_def keepLeast_def leastInt_def selectByLRU_def)

theorem choice_is_least_witness:
  "case fst (run_state (selectByLRU (filterByMinLoadRate (filterByMinPriority twoLoads)) False) (schedWorld freeSched)) of
     None \<Rightarrow> False
   | Some x \<Rightarrow> sa_ID (al_account x) = 7 \<and> (\<forall>y \<in> set twoLoads. \<not> byLoad y x)"
proof -
  have "\<forall>y \<in> set twoLoads. \<not> byLoad y (twoLoads ! 1)"
    using choice_is_least [of twoLoads False "schedWorld freeSched"] by (simp add: choose_twoLoads)
  then show ?thesis by (simp add: choose_twoLoads) (simp add: twoLoads_def)
qed

theorem sticky_lost_with_snapshots_witness:
  "fst (run_state (layerSticky sampleGateway
     \<lparr>sr_ctx = sampleContext, sr_groupID = Some 3, sr_hash = ''s'', sr_model = ''claude'', sr_excluded = {}, sr_platform = PlatformAnthropic, sr_mixed = True,
      sr_sticky = 7, sr_cfg = schedulingConfig sampleGateway, sr_conc = sampleConc\<rparr> [buildSchedulerMetadataAccount (sampleAccount 7)])
     (schedWorld sampleSched)) = None"
  by (rule sticky_lost_with_snapshots) simp_all

theorem unread_account_keeps_slot_witness:
  "case run_state (takeFirst snapshotGateway (Some 3) ''s'' [freeAccount 7]) (schedWorld sampleSched) of (r, w2) \<Rightarrow>
    r = Some (Inl ErrSchedulerCacheNotReady) \<and> nextID sampleConc sampleSched \<in> fst ` set (zmembers (db w2) (accountSlotKey 7))"
  using unread_account_keeps_slot [OF _ _ _ _ _ _ _ _ _ _ _ sample_taken, where g = "Some 3" and as = "[]"]
  by (simp add: snapshotGateway_def sampleSnapshots_def sampleSched_def)

end
