(* ===== verification/Spec2Isabelle.thy ===== *)
theory Spec2Isabelle
  imports Payment_Limits Refund_Effects Order_Admission Idempotency Usage_Safety Admission Failover Slot_Wait Selection_Safety
begin

text \<open>
  SubioHub is a gateway that resells access to AI models. This development verifies the part of its Go backend
  (\<open>src/backend/internal\<close>) that handles money and what money buys: payment orders, the redeem codes and subscriptions that
  deliver them, refunds, commissions, the choice of payment channels, the idempotency of administrative requests; and, on the side
  where the money is spent, the admission of model requests, their prices, the charge, and the failover between accounts.

  \<^bold>\<open>How the program is put together.\<close> A user creates an order (\<open>service/payment_order.go\<close>); the load balancer
  (\<open>payment/load_balancer.go\<close>) picks an instance of a payment platform within the limits shown to the user
  (\<open>service/payment_config_limits.go\<close>), and the platform is asked for a payment. The platform's notification, or a poll of it
  (\<open>service/payment_order_lifecycle.go\<close>), marks the order paid and starts fulfilment (\<open>service/payment_fulfillment.go\<close>): a
  balance order creates a redeem code named after the order and redeems it (\<open>service/redeem_service.go\<close>); a subscription order
  assigns or extends a subscription (\<open>service/subscription_service.go\<close>). Completion records commissions for the inviter and the
  promotion chain (\<open>service/promotion_split_support.go\<close>). A refund (\<open>service/payment_refund.go\<close>) takes back what was delivered
  and asks the platform to return the money. Independent of payments, \<open>service/idempotency.go\<close> answers repeated administrative
  requests from stored responses.

  A model request is admitted if the balance or the subscription, and the spending windows of its API key, allow it
  (\<open>service/billing_cache_service.go\<close>, with Redis in front of the database and a circuit breaker). The scheduler chooses an upstream account
  for it (\<open>service/gateway_service.go\<close>), from snapshots of the schedulable accounts in Redis that \<open>service/scheduler_snapshot_service.go\<close> keeps up to
  date. The request waits for a slot of its user and of the account (\<open>service/concurrency_service.go\<close>, \<open>repository/concurrency_cache.go\<close>, \<open>handler/gateway_helper.go\<close>). The
  handler sends it to one upstream account after another until one answers (\<open>handler/failover_loop.go\<close>). The answer is priced by the channel of the group
  (\<open>service/channel_service.go\<close>), the price list (\<open>service/pricing_service.go\<close>) or built-in prices (\<open>service/billing_service.go\<close>,
  \<open>service/model_pricing_resolver.go\<close>); then \<open>recordUsageCore\<close> (\<open>service/gateway_service.go\<close>) charges it in one transaction
  (\<open>repository/usage_billing_repo.go\<close>): the balance or the subscription, the quota and the windows of the key, and the quota of
  the account (\<open>service/account.go\<close>, \<open>repository/account_repo.go\<close>).

  \<^bold>\<open>Foundations.\<close>
  \<^item> \<open>Prelude\<close>: Go's integers, instants, durations, strings and number formatting, and the table operations of the store.
  \<^item> \<open>Float64\<close>: IEEE binary64 with round to nearest even, on rationals; durations in seconds and hours.
  \<^item> \<open>Errors\<close>: \<open>internal/pkg/errors\<close>, wrapping, \<open>errors.Is\<close> and the text of an error.
  \<^item> \<open>World\<close>: the monad of programs over a shared store. A \<open>world\<close> has the store, the clock with the delays between its
    readings, and a script that fixes, for every statement, what others do just before it and whether the statement is applied,
    lost, or applied without being acknowledged; a transaction can be lost at any of its round trips. The locales
    \<open>rely_guarantee\<close> and \<open>protocol\<close> are a small rely-guarantee logic; the protocols below interpret them. \<open>acked\<close> relates a run up to
    its first failure to a run without any.
  \<^item> \<open>Payment_Types\<close>, \<open>Store\<close>: \<open>payment/types.go\<close>, the rows of \<open>ent/schema\<close> and the statements of the user and group
    repositories. \<open>Samples\<close> holds concrete inputs for the witnesses.
  \<^item> \<open>Sha256\<close>, \<open>Redaction\<close>: the digest of keys and payloads, and \<open>util/logredact\<close>.
  \<^item> \<open>Transaction\<close>: transactions whose statements return values and which the code may give up, on top of \<open>World\<close>.

  \<^bold>\<open>Components.\<close>
  \<^item> \<open>Registry\<close> (\<open>payment/registry.go\<close>): the locale \<open>provider_registry\<close> states what registering promises to a lookup,
    and the association list of the model interprets it.
  \<^item> \<open>Load_Balancer\<close>, \<open>Payment_Limits\<close>: selection is sound and never panics, round robin is fair, least amount picks a
    least one, and shown limits are never narrower than what an instance accepts.
  \<^item> \<open>Subscription\<close>: assigning, extending, revoking, windows and limits. The table invariant \<open>subsOk\<close> is kept under any failure;
    each operation has its functional behaviour.
  \<^item> \<open>Redeem\<close>: codes, the rate limit, the lock, redeeming. The protocol \<open>creditOnce\<close> (interpretation \<open>credit\<close>) ties every change
    of a balance to a code that becomes used in the same transaction; it is about codes of amounts that are not negative. Codes of
    either sign are the subject of \<open>redeem_balance_code\<close>: what one redemption does in a quiet run, with the floor at zero.
  \<^item> \<open>Commission\<close>: promotion relations, rules, splits.
  \<^item> \<open>Fulfillment\<close>, \<open>Order_Lifecycle\<close>, \<open>Refund\<close>, \<open>Order_Creation\<close>: the operations of the payment service, each with all its
    branches.
  \<^item> \<open>Idempotency\<close>: the coordinator, its repository and the clean-up.
  \<^item> \<open>Channel\<close>, \<open>Channel_Lookup\<close>: channels, their validation and the snapshot that answers look-ups. Validated intervals and
    patterns do not overlap, so the snapshot answers as the linear search and no order of entries matters; after a failed load no
    restriction holds for five seconds.
  \<^item> \<open>Model_Pricing\<close>, \<open>Billing\<close>, \<open>Billing_Laws\<close>: the price list and its search; built-in prices as cells of a heap, since the code
    shares them by pointer; the cost of a request. Costs are not negative and a split at a threshold loses no token; a channel's
    price stays with the channel for listed models and leaks for models that only have a built-in price.
  \<^item> \<open>Account_Quota\<close>, \<open>Api_Key\<close>: quotas of accounts as the services and as the SQL see them, and when the two agree; quota and spending
    windows of keys.
  \<^item> \<open>Usage_Billing\<close>: the command and its fingerprint, the transaction that claims and charges a request, the archive of claims.
    \<open>Usage_Ledger\<close>: the abstract ledger \<open>billOnce\<close>, that \<open>Apply\<close> refines it, that requests are charged once under interference
    (interpretation \<open>billing\<close> of \<open>protocol\<close>), and that the clean-up ends.
  \<^item> \<open>Usage_Record\<close>, \<open>Usage_Safety\<close>: from an answer to the charge and the usage log; recording follows the protocol \<open>chargesOnce\<close>
    (interpretation \<open>charges\<close>).
  \<^item> \<open>Billing_Cache\<close>, \<open>Admission\<close>: entries and scripts in Redis, the queue of cache writes, the eligibility check and the circuit
    breaker; the breaker stays in order, a request is admitted exactly if what the service sees allows it, and missing rows
    trip the breaker.
  \<^item> \<open>Failover\<close>: the failover state and the loop of the handler, as a partial function of the answers it meets; it ends after a number
    of rounds bounded by the retries and switches left.
  \<^item> \<open>Concurrency\<close>: the slots of users and accounts as sorted sets in Redis, the queues of those who wait, the scripts and pipelines on
    them, and the service in front of them. \<open>Slot_Safety\<close>: the protocol \<open>shrinks\<close> (interpretation \<open>shrinking\<close>) of the calls that take no
    slot, the histories of a deployment (\<open>slotStep\<close>, \<open>reached\<close>), and that holders never exceed a limit. \<open>Slot_Laws\<close>: when a slot is
    granted, that it is given back, the bounds of the queues, the load that is reported, and the start of a process, which frees slots
    of live requests. \<open>Slot_Wait\<close>: waiting with growing pauses and pings, while others take and give
    back slots (the rely \<open>besides\<close>), takes one slot or none.
  \<^item> \<open>Sched_Account\<close>: upstream accounts as the scheduler sees them: states, model mappings, rate limits by model, limits of windows.
    \<open>Sched_Cache\<close>: what the scheduler keeps in Redis (sticky sessions, sessions of accounts, costs of windows, requests per minute, snapshots of
    schedulable accounts) and the rows it reads (\<open>repository/scheduler_cache.go\<close>, \<open>session_limit_cache.go\<close>, \<open>rpm_cache.go\<close>,
    \<open>gateway_cache.go\<close>, \<open>account_repo.go\<close>, \<open>scheduler_outbox_repo.go\<close>). \<open>Sched_Snapshot\<close>: the service that keeps the snapshots up to date
    (\<open>service/scheduler_snapshot_service.go\<close>). \<open>Snapshot_Laws\<close>: a snapshot is read back as it was written, reduced to the fields it keeps;
    rebuilding makes it what the database lists; an event that meets the lock of its bucket is lost.
  \<^item> \<open>Scheduler\<close>, \<open>Account_Choice\<close>, \<open>Account_Selection\<close>, \<open>Load_Selection\<close> (\<open>service/gateway_service.go\<close>, \<open>service/group.go\<close>): the choice of an
    account. \<open>Scheduler\<close> has the groups with their fallbacks and routes, the restrictions of channels, the checks of an account and what is read
    ahead for them, the listing and the second reading of accounts; \<open>Account_Choice\<close> the orders and random choices;
    \<open>Account_Selection\<close> the two searches by priority and last use; \<open>Load_Selection\<close> the layers of \<open>SelectAccountWithLoadAwareness\<close>: routes, the account
    of the session, load, waiting. \<open>Selection_Frame\<close> and \<open>Selection_Laws\<close>: what every step of a search keeps (\<open>accountsOk\<close>, an invariant
    under interference) and finds (\<open>finds\<close>). \<open>Selection_Safety\<close>: the search ends and its result can be used, the account it tries first is a best
    one, and what snapshots take away: limits are not checked, sessions do not stick, and a slot can be lost.

  \<^bold>\<open>Properties across components.\<close>
  \<^item> \<open>Order_Protocol\<close>: the state machine of an order (\<open>edge\<close>, \<open>unlock\<close>, \<open>phase\<close>), that every operation moves orders along it
    only, and the refund lock, where the rely of the holder is stronger than its guarantee.
  \<^item> \<open>Ledger\<close>, \<open>Payments\<close>: every operation on payments follows the ledger protocol \<open>payStep\<close>; \<open>runPayments\<close> runs
    sequences of commands.
  \<^item> \<open>Delivery\<close>, \<open>Refund_Effects\<close>, \<open>Order_Admission\<close>: what fulfilment, refunds and creation do in runs where nothing fails
    (which orders a refund is planned for, and for how much), and the failure after which a subscription is delivered twice.
  \<^item> This theory: credits happen once, orders follow their machine, refunds exclude each other.

  \<^bold>\<open>Parameters.\<close> Code outside the repository enters as the record \<open>ext\<close>: addition and rounding of numeric columns
  (PostgreSQL), decimal arithmetic (shopspring/decimal), decryption and JSON decoding of configurations, the constructor of
  platform clients, and whether Redis and the in-process cache are there. A platform client is a \<open>provider\<close>, a record of functions.
  \<open>json_lib\<close> is the codec of \<open>encoding/json\<close> and the replacement of \<open>regexp\<close>. What a property needs of them is a named hypothesis:
  \<open>sumsExact\<close> and \<open>columnsOk\<close> (numeric addition is exact on the grid of eight decimals, and columns keep amounts that are not
  negative), \<open>columnsOrdered\<close> and \<open>readsBack\<close> (adding to a column keeps the order of amounts, taking away is adding the negation, and the
  balance in question is a double), \<open>decimalsOk\<close> (decimal operations are monotone and quotients are not above the exact ones they bound), \<open>jsonText\<close> and
  \<open>writtenAs\<close> (a response is JSON and is read back as it was written). The witnesses instantiate them with \<open>sampleExt\<close>,
  \<open>exactExt\<close> and \<open>sampleLib\<close>. \<open>sql_num\<close> and \<open>redis_num\<close> are the arithmetic of PostgreSQL and Redis on amounts, \<open>tzdb\<close> the time zones
  (a zone has a fixed offset), \<open>range_order\<close>, \<open>gv_routes\<close> and \<open>gv_starts\<close> the orders in which Go ranges over maps, \<open>sd_dice\<close> the random numbers of the scheduler; the properties hold for all of them, with the
  hypotheses they state. What the scheduler, the slots and the upstream answer in a round is the argument \<open>env\<close> of the failover loop. A process has
  a random number its request identifiers begin with, different for different processes; fewer than \<open>2 ^ 64\<close> are made. The keys
  that an iteration of \<open>SCAN\<close> returns are functions of the states it finds; the events that a waiting request \<open>select\<close>s are a list.
  An account that is written to Redis as JSON is read back as it was; the database and the processes of the scheduler read one clock.

  \<^bold>\<open>Interference.\<close> Properties with \<open>relies R w\<close> hold for every script whose interference satisfies \<open>R\<close>. For the ledger,
  \<open>R\<close> is the ledger protocol itself, so the theorem composes any number of payment processes; it leaves out processes that change
  balances by other means, such as the billing of usage, adjustments by administrators and the execution of refunds. The charges for usage have a protocol of
  their own (\<open>billingSteps\<close>, \<open>chargesOnce\<close>), and so have the slots (\<open>shrinks\<close>, \<open>besides\<close>). The other properties are about
  runs in which nothing fails (\<open>quiet\<close>) and, where they say so, the clock stands still (\<open>ticks w = []\<close>).

  \<^bold>\<open>Bounds.\<close> The chain of promoters is followed to depth 5, as in the code, by a count of the levels left. No other definition needs
  fuel: the loops of the code run over lists, the clean-up of claims terminates because every round removes rows, the walk along
  fallback groups because identifiers have 64 bits, the search through the loads because an account that was tried is left out; the failover loop and the
  search without loads (\<open>legacyLoop\<close>) are partial functions whose termination is a theorem. The text conversions are those of ASCII text; white space and letter case outside ASCII are left
  alone. The zone of the server is a fixed offset.

  \<^bold>\<open>Not modelled.\<close> The forwarding of model requests and the vendors' formats (\<open>gateway_service.go\<close> apart from the choice of
  accounts and the recording of usage, and its siblings for other vendors), dashboards, administration of users, groups and accounts apart from the
  quota settings, the generated code under \<open>ent\<close>, the clients of the platforms and the verification of their notifications, HTTP
  handlers apart from the failover loop, configuration files. Of the modelled services: listings and statistics, log lines and
  metrics, creating and editing channels and keys, downloading the price list, the sending of notifications, and the details of
  audit rows.
\<close>

section \<open>Properties of payments as a whole\<close>

text \<open>C1. Payments credit exactly once. Run any sequence of payment commands, with any statement failing or losing its acknowledgement and with
  other processes interleaved that follow the same protocol: every balance moves by exactly the redeem codes its user has newly used, a code
  that is used stays used and keeps its value, and codes keep distinct texts, so the recharge code of an order is credited at
  most once, however often the order is notified, verified or retried.\<close>

theorem payments_credit_once:
  assumes "columnsOk x" and "relies (payStep x) w" and "payOk (db w)"
    and "db (snd (run_state (runPayments x cs) w)) = d'"
  shows "payOk d' \<and> (\<forall>v. balanceOf d' v - balanceOf (db w) v = credited x d' v - credited x (db w) v) \<and>
    (\<forall>c \<in> set (codes (db w)). rc_Status c = Used \<longrightarrow> c \<in> set (codes d')) \<and> distinct (map rc_Code (codes d'))"
proof -
  obtain r w' where r: "run_state (runPayments x cs) w = (r, w')" by (cases "run_state (runPayments x cs) w")
  have "payStep x (db w) (db w')"
    using pay_runPayments [OF assms(1)] assms(2,3) r unfolding rgx_def by blast
  then have step: "creditOnce x (db w) d'" "amountsOk d'" using assms(3,4) r by auto
  then have "codesOk d'" "\<forall>c \<in> set (codes (db w)). rc_Status c = Used \<longrightarrow> c \<in> set (codes d')"
    and bal: "balanceOf d' v - credited x d' v = balanceOf (db w) v - credited x (db w) v" for v
    using assms(3) by (simp_all add: creditOnce_def)
  moreover have "balanceOf d' v - balanceOf (db w) v = credited x d' v - credited x (db w) v" for v
    using bal [of v] by linarith
  moreover have "distinct (map rc_Code (codes d'))" using \<open>codesOk d'\<close> by (simp add: codesOk_def)
  ultimately show ?thesis using step(2) by blast
qed

theorem payments_credit_once_witness:
  "payOk (db (snd (run_state (runPayments (sampleExt ''paid'' True) [CmdNotify sampleNotification ''alipay'', CmdRetry 7])
     (sampleWorld sampleStore (faults [Done, Done, Done, Unack, Done])))))"
proof -
  have "payOk (db (sampleWorld sampleStore (faults [Done, Done, Done, Unack, Done])))" using payOk_sample by simp
  from payments_credit_once [OF columnsOk_sample relies_faults [OF pay.R_refl] this refl] show ?thesis by blast
qed

text \<open>C2. Orders follow their state machine. Under any failures, and with other processes that move orders along its edges, every order survives any
  sequence of payment commands with what was bought unchanged, its status moves along edges of the machine only, never goes back to an earlier
  phase (unpaid, paid, delivered, refunded), and a refunded order stays as it is.\<close>

theorem orders_follow_machine:
  assumes "relies (orderStep allEdges) w" and "po \<in> set (orders (db w))"
    and "db (snd (run_state (runPayments x cs) w)) = d'"
  shows "\<exists>po' \<in> set (orders d'). bought po' = bought po \<and> (allEdges (o_ID po))\<^sup>*\<^sup>* (o_Status po) (o_Status po') \<and>
     phase (o_Status po) \<le> phase (o_Status po') \<and> (phase (o_Status po) = 3 \<longrightarrow> o_Status po' = o_Status po)"
proof -
  obtain r w' where r: "run_state (runPayments x cs) w = (r, w')" by (cases "run_state (runPayments x cs) w")
  have "guar (orderStep allEdges) (runPayments x cs)"
    by (rule own_guar [OF own_runPayments ord.protocol_axioms]) (erule orderStep_mono, simp add: freeEdges_def allEdges_def)
  then have "orderStep allEdges (db w) (db w')" using assms(1) r unfolding rgx_def by blast
  then show ?thesis using orderStep_moves [OF _ assms(2)] assms(3) r by simp
qed

theorem orders_follow_machine_witness:
  "\<exists>po' \<in> set (orders (db (snd (run_state (runPayments (sampleExt ''paid'' True) [CmdNotify sampleNotification ''alipay'', CmdCancel 7 1])
     (sampleWorld sampleStore (faults [Done, Done, Unack])))))). bought po' = bought (sampleOrder Pending)"
proof -
  have "sampleOrder Pending \<in> set (orders (db (sampleWorld sampleStore (faults [Done, Done, Unack]))))" by (simp add: sampleStore_def)
  from orders_follow_machine [OF relies_faults [OF ord.R_refl] this refl] show ?thesis by blast
qed

text \<open>C9. The same holds of the execution of a refund, which holds the order in the status REFUNDING: as long as nobody else moves the order
  out of that status, a refund moves orders along edges of the machine only.\<close>

theorem refund_follows_machine:
  assumes "relies (orderStep (othersEdges (rp_OrderID p))) w" and "distinct (orderIDs (db w))" and "po \<in> set (orders (db w))"
    and "db (snd (run_state (ExecuteRefund x p) w)) = d'"
  shows "\<exists>po' \<in> set (orders d'). bought po' = bought po \<and> (allEdges (o_ID po))\<^sup>*\<^sup>* (o_Status po) (o_Status po') \<and>
     phase (o_Status po) \<le> phase (o_Status po') \<and> (phase (o_Status po) = 3 \<longrightarrow> o_Status po' = o_Status po)"
proof -
  obtain r w' where r: "run_state (ExecuteRefund x p) w = (r, w')" by fastforce
  have "orderStep allEdges (db w) (db w')"
    using ExecuteRefund_edges [OF refl, of p x] assms(1,2) r unfolding rgx_def by blast
  then show ?thesis using orderStep_moves [OF _ assms(3)] assms(4) r by simp
qed

theorem refund_follows_machine_witness:
  "\<exists>po' \<in> set (orders (db (snd (run_state (ExecuteRefund (sampleExt ''paid'' True) (samplePlan Completed))
     (sampleWorld (sampleStore\<lparr>orders := [sampleOrder Completed]\<rparr>) (faults [Done, Done, Unack])))))). bought po' = bought (sampleOrder Completed)"
proof -
  let ?w = "sampleWorld (sampleStore\<lparr>orders := [sampleOrder Completed]\<rparr>) (faults [Done, Done, Unack])"
  have "distinct (orderIDs (db ?w))" "sampleOrder Completed \<in> set (orders (db ?w))" by (simp_all add: orderIDs_def)
  from refund_follows_machine [OF relies_faults [OF ord.R_refl] this refl] show ?thesis by blast
qed

text \<open>C26. Refunds of one order exclude each other: while an order is in the status REFUNDING, executing another refund of it fails with a conflict,
  and neither balances, subscriptions, orders nor the payment platform see anything of it.\<close>

theorem refund_excluded:
  assumes "quiet w" and "ticks w = []" and "refundLocked (rp_OrderID p) (db w)"
  shows "run_state (ExecuteRefund x p) w = (Inl (Conflict ''CONFLICT'' ''order status changed''), w)"
proof -
  have "tcount (isStatus (rp_OrderID p) {Completed, RefundRequested, RefundFailed}) (orders (db w)) = 0"
    using assms(3) by (auto simp: tcount_0 refundLocked_def isStatus_def)
  then show ?thesis
    using assms(1,2) by (simp add: ExecuteRefund_def orderUpdate_def run_simps quiet_def tupd_none)
qed

theorem refund_excluded_witness:
  "fst (run_state (ExecuteRefund (sampleExt ''paid'' True) (samplePlan Completed)) (sampleWorld (sampleStore\<lparr>orders := [sampleOrder Refunding]\<rparr>) [])) =
     Inl (Conflict ''CONFLICT'' ''order status changed'')"
  using refund_excluded [of "sampleWorld (sampleStore\<lparr>orders := [sampleOrder Refunding]\<rparr>) []" "samplePlan Completed" "sampleExt ''paid'' True"]
  by (simp add: quiet_def refundLocked_def orderIDs_def samplePlan_def sampleOrder_def)

end
